(* ===== verification/Prelude.thy ===== *)
theory Prelude
  imports Complex_Main "HOL-Library.AList" "HOL-Library.Char_ord" "HOL-Library.List_Lexorder"
    "HOL-Library.Sublist"
begin

text \<open>
  Shared vocabulary of the development: Python strings, values and dictionaries.

  A Python string is a list of 8-bit characters; case conversion acts on the ASCII letters
  and whitespace is what \<open>str.isspace\<close> accepts below 256. A Python value is an element
  of the datatype \<open>py\<close>. A dictionary is an association list in insertion order: assignment
  to an existing key keeps its place and a new key goes to the end, as CPython guarantees.
  Floating-point numbers are rationals; the rounding of IEEE arithmetic is not modelled.
\<close>

named_theorems py_simps \<open>rewriting with the Python string and dictionary operations\<close>

section \<open>Characters\<close>

text \<open>ASCII case conversion on the bits of a character: bit 5 separates the two cases.\<close>

definition letter_bits :: "bool \<Rightarrow> bool \<Rightarrow> bool \<Rightarrow> bool \<Rightarrow> bool \<Rightarrow> bool" where
  "letter_bits b0 b1 b2 b3 b4 \<longleftrightarrow>
     (b0 \<or> b1 \<or> b2 \<or> b3 \<or> b4) \<and> \<not> (b4 \<and> b3 \<and> (b2 \<or> b1 \<and> b0))"

fun char_lower :: "char \<Rightarrow> char" where
  "char_lower (Char b0 b1 b2 b3 b4 b5 b6 b7) =
     (if b6 \<and> \<not> b5 \<and> \<not> b7 \<and> letter_bits b0 b1 b2 b3 b4
      then Char b0 b1 b2 b3 b4 True b6 b7 else Char b0 b1 b2 b3 b4 b5 b6 b7)"

fun char_upper :: "char \<Rightarrow> char" where
  "char_upper (Char b0 b1 b2 b3 b4 b5 b6 b7) =
     (if b6 \<and> b5 \<and> \<not> b7 \<and> letter_bits b0 b1 b2 b3 b4
      then Char b0 b1 b2 b3 b4 False b6 b7 else Char b0 b1 b2 b3 b4 b5 b6 b7)"

lemma char_lower_idem [simp]: "char_lower (char_lower c) = char_lower c"
  by (cases c) simp

lemma char_upper_idem [simp]: "char_upper (char_upper c) = char_upper c"
  by (cases c) simp

definition py_isspace :: "char \<Rightarrow> bool" where
  "py_isspace c \<longleftrightarrow>
     c \<in> set [CHR '' '', CHR 0x09, CHR 0x0A, CHR 0x0B, CHR 0x0C, CHR 0x0D,
             CHR 0x1C, CHR 0x1D, CHR 0x1E, CHR 0x1F, CHR 0x85, CHR 0xA0]"

definition py_isdigit :: "char \<Rightarrow> bool" where
  "py_isdigit c \<longleftrightarrow>
     c \<in> set ''0123456789''"

lemma char_lower_isspace [simp]: "py_isspace (char_lower c) = py_isspace c"
  by (cases c) (auto simp: py_isspace_def letter_bits_def)

lemma char_lower_isdigit [simp]: "py_isdigit (char_lower c) = py_isdigit c"
  by (cases c) (auto simp: py_isdigit_def letter_bits_def)

section \<open>Strings\<close>

definition py_lower :: "string \<Rightarrow> string" where
  "py_lower s = map char_lower s"

definition py_upper :: "string \<Rightarrow> string" where
  "py_upper s = map char_upper s"

definition py_lstrip :: "string \<Rightarrow> string" where
  "py_lstrip s = dropWhile py_isspace s"

definition py_strip :: "string \<Rightarrow> string" where
  "py_strip s = rev (dropWhile py_isspace (rev (dropWhile py_isspace s)))"

text \<open>\<open>needle in haystack\<close>.\<close>

fun py_contains :: "string \<Rightarrow> string \<Rightarrow> bool" where
  "py_contains n [] \<longleftrightarrow> n = []"
| "py_contains n (c # cs) \<longleftrightarrow> prefix n (c # cs) \<or> py_contains n cs"

definition py_any_in :: "string list \<Rightarrow> string \<Rightarrow> bool" where
  "py_any_in ps s \<longleftrightarrow> list_ex (\<lambda>p. py_contains p s) ps"

definition py_startswith_any :: "string list \<Rightarrow> string \<Rightarrow> bool" where
  "py_startswith_any ps s \<longleftrightarrow> list_ex (\<lambda>p. prefix p s) ps"

text \<open>\<open>s.rsplit('/', 1)[-1]\<close> and \<open>s.split('/', 1)[0]\<close>.\<close>

definition py_after_last :: "char \<Rightarrow> string \<Rightarrow> string" where
  "py_after_last d s = rev (takeWhile (\<lambda>c. c \<noteq> d) (rev s))"

definition py_before_first :: "char \<Rightarrow> string \<Rightarrow> string" where
  "py_before_first d s = takeWhile (\<lambda>c. c \<noteq> d) s"

text \<open>\<open>sep.join(xs)\<close>.\<close>

fun py_join :: "string \<Rightarrow> string list \<Rightarrow> string" where
  "py_join sep [] = []"
| "py_join sep [x] = x"
| "py_join sep (x # y # xs) = x @ sep @ py_join sep (y # xs)"

text \<open>\<open>s.split()\<close>: the maximal runs of non-whitespace characters.\<close>

fun py_words_acc :: "string \<Rightarrow> string \<Rightarrow> string list" where
  "py_words_acc w [] = (if w = [] then [] else [rev w])"
| "py_words_acc w (c # cs) =
     (if py_isspace c
      then (if w = [] then py_words_acc [] cs else rev w # py_words_acc [] cs)
      else py_words_acc (c # w) cs)"

definition py_split :: "string \<Rightarrow> string list" where
  "py_split s = py_words_acc [] s"

text \<open>\<open>str(n)\<close> for an integer.\<close>

definition digit_char :: "nat \<Rightarrow> char" where
  "digit_char d = ''0123456789'' ! d"

function nat_digits :: "nat \<Rightarrow> string" where
  "nat_digits n = (if n < 10 then [digit_char n] else nat_digits (n div 10) @ [digit_char (n mod 10)])"
  by pat_completeness auto
termination
  by (relation "measure id") auto

declare nat_digits.simps [simp del]

definition py_int_str :: "int \<Rightarrow> string" where
  "py_int_str n = (if n < 0 then CHR ''-'' # nat_digits (nat (- n)) else nat_digits (nat n))"

subsection \<open>Facts about strings\<close>

lemma py_lower_idem [simp]: "py_lower (py_lower s) = py_lower s"
  by (simp add: py_lower_def)

lemma py_lower_Nil_iff [simp]: "py_lower s = [] \<longleftrightarrow> s = []"
  by (simp add: py_lower_def)

lemma py_lower_append: "py_lower (s @ t) = py_lower s @ py_lower t"
  by (simp add: py_lower_def)

lemma py_upper_idem [simp]: "py_upper (py_upper s) = py_upper s"
  by (simp add: py_upper_def)

lemma py_contains_iff: "py_contains n s \<longleftrightarrow> (\<exists>a b. s = a @ n @ b)"
proof (induction s)
  case Nil
  then show ?case by auto
next
  case (Cons c cs)
  show ?case
  proof
    assume "py_contains n (c # cs)"
    then show "\<exists>a b. c # cs = a @ n @ b"
    proof (cases "prefix n (c # cs)")
      case True
      then obtain b where "c # cs = n @ b" by (auto simp: prefix_def)
      then have "c # cs = [] @ n @ b" by simp
      then show ?thesis by blast
    next
      case False
      with \<open>py_contains n (c # cs)\<close> Cons.IH obtain a b where "cs = a @ n @ b" by auto
      then have "c # cs = (c # a) @ n @ b" by simp
      then show ?thesis by blast
    qed
  next
    assume "\<exists>a b. c # cs = a @ n @ b"
    then obtain a b where eq: "c # cs = a @ n @ b" by blast
    show "py_contains n (c # cs)"
    proof (cases a)
      case Nil
      with eq have "prefix n (c # cs)" by (simp add: prefix_def)
      then show ?thesis by simp
    next
      case (Cons d a')
      with eq have "cs = a' @ n @ b" by simp
      with Cons.IH show ?thesis by auto
    qed
  qed
qed

lemma py_contains_self [simp]: "py_contains s s"
  by (auto simp: py_contains_iff intro: exI [of _ "[]"])

lemma py_contains_infix [simp]: "py_contains n (a @ n @ b)"
  by (auto simp: py_contains_iff)

lemma py_any_in_iff: "py_any_in ps s \<longleftrightarrow> (\<exists>p \<in> set ps. py_contains p s)"
  by (simp add: py_any_in_def list_ex_iff)

lemma dropWhile_idem [simp]: "dropWhile P (dropWhile P xs) = dropWhile P xs"
  by (induction xs) auto

lemma dropWhile_eq_self: "(xs = [] \<or> \<not> P (hd xs)) \<Longrightarrow> dropWhile P xs = xs"
  by (cases xs) auto

lemma hd_dropWhile_False: "dropWhile P xs \<noteq> [] \<Longrightarrow> \<not> P (hd (dropWhile P xs))"
  by (rule hd_dropWhile)

lemma last_dropWhile_rev:
  assumes "dropWhile P (rev (dropWhile P xs)) \<noteq> []"
  shows "\<not> P (last (dropWhile P (rev (dropWhile P xs))))"
proof -
  let ?ys = "dropWhile P xs"
  obtain pre where pre: "rev ?ys = pre @ dropWhile P (rev ?ys)"
    by (metis takeWhile_dropWhile_id)
  have "last (rev ?ys) = last (dropWhile P (rev ?ys))"
    using pre assms by (metis last_appendR)
  moreover have ne: "?ys \<noteq> []" using assms by (metis dropWhile.simps(1) rev.simps(1))
  ultimately have "hd ?ys = last (dropWhile P (rev ?ys))" by (simp only: last_rev)
  with hd_dropWhile_False [OF ne] show ?thesis by simp
qed

lemma py_strip_idem [simp]: "py_strip (py_strip s) = py_strip s"
proof (cases "dropWhile py_isspace (rev (dropWhile py_isspace s)) = []")
  case True
  then have "py_strip s = []" by (simp only: py_strip_def rev.simps)
  then show ?thesis by (simp only:) (simp add: py_strip_def)
next
  case False
  let ?t = "dropWhile py_isspace (rev (dropWhile py_isspace s))"
  have "\<not> py_isspace (hd (rev ?t))"
    using last_dropWhile_rev [OF False] False by (simp add: hd_rev)
  then have "dropWhile py_isspace (rev ?t) = rev ?t" by (simp add: dropWhile_eq_self)
  then show ?thesis by (simp add: py_strip_def)
qed

lemma py_strip_Nil [simp]: "py_strip [] = []"
  by (simp add: py_strip_def)

lemma py_strip_Cons: "\<not> py_isspace c \<Longrightarrow> py_strip (c # s) \<noteq> []"
  by (auto simp: py_strip_def py_lstrip_def dropWhile_eq_Nil_conv)

lemma py_strip_infix: "\<exists>a b. s = a @ py_strip s @ b"
proof -
  let ?t = "dropWhile py_isspace s"
  have "rev ?t = takeWhile py_isspace (rev ?t) @ dropWhile py_isspace (rev ?t)" by simp
  then have "?t = rev (dropWhile py_isspace (rev ?t)) @ rev (takeWhile py_isspace (rev ?t))"
    by (metis rev_append rev_rev_ident)
  then have "s = takeWhile py_isspace s @ py_strip s @ rev (takeWhile py_isspace (rev ?t))"
    unfolding py_strip_def by (metis append_assoc takeWhile_dropWhile_id)
  then show ?thesis by blast
qed

lemma py_strip_self:
  assumes "s \<noteq> []" and "\<not> py_isspace (hd s)" and "\<not> py_isspace (last s)"
  shows "py_strip s = s"
  using assms by (simp add: py_strip_def dropWhile_eq_self hd_rev)

lemma py_strip_last:
  assumes "py_strip s = s" and "s \<noteq> []"
  shows "\<not> py_isspace (last s)"
proof -
  let ?t = "dropWhile py_isspace (rev (dropWhile py_isspace s))"
  have t: "?t = rev s" using assms(1) by (simp add: py_strip_def rev_swap)
  then have "?t \<noteq> []" using assms(2) by simp
  then have "\<not> py_isspace (hd ?t)" by (rule hd_dropWhile)
  then show ?thesis unfolding t by (simp add: hd_rev)
qed

lemma py_contains_trans: "py_contains p s \<Longrightarrow> py_contains s t \<Longrightarrow> py_contains p t"
  by (auto simp: py_contains_iff) (metis append_assoc)

lemma py_contains_strip_lower: "py_contains p (py_lower (py_strip s)) \<Longrightarrow> py_contains p (py_lower s)"
proof -
  obtain a b where "s = a @ py_strip s @ b" using py_strip_infix by blast
  then have "py_lower s = py_lower a @ py_lower (py_strip s) @ py_lower b"
    by (metis py_lower_append)
  then have "py_contains (py_lower (py_strip s)) (py_lower s)" by (auto simp: py_contains_iff)
  then show "py_contains p (py_lower (py_strip s)) \<Longrightarrow> py_contains p (py_lower s)"
    by (blast intro: py_contains_trans)
qed

lemma dropWhile_isspace_lower:
  "dropWhile py_isspace (map char_lower s) = map char_lower (dropWhile py_isspace s)"
  by (induction s) auto

lemma py_strip_lower: "py_strip (py_lower s) = py_lower (py_strip s)"
  by (simp add: py_strip_def py_lower_def dropWhile_isspace_lower rev_map)

lemma set_py_words: "w \<in> set (py_words_acc acc s) \<Longrightarrow> set w \<subseteq> set acc \<union> set s"
  by (induction acc s rule: py_words_acc.induct) (auto split: if_splits)

section \<open>Values and dictionaries\<close>

datatype py =
    PNone
  | PBool bool
  | PInt int
  | PFloat rat
  | PStr string
  | PList "py list"
  | PTuple "py list"
  | PSet "py list"
  | PDict "(py \<times> py) list"

text \<open>\<open>d.get(k)\<close>, \<open>k in d\<close>, \<open>d[k] = v\<close> and \<open>d.pop(k, None)\<close>.\<close>

abbreviation dict_get :: "('k \<times> 'v) list \<Rightarrow> 'k \<Rightarrow> 'v option" where
  "dict_get \<equiv> map_of"

abbreviation dict_set :: "'k \<Rightarrow> 'v \<Rightarrow> ('k \<times> 'v) list \<Rightarrow> ('k \<times> 'v) list" where
  "dict_set \<equiv> AList.update"

abbreviation dict_pop :: "'k \<Rightarrow> ('k \<times> 'v) list \<Rightarrow> ('k \<times> 'v) list" where
  "dict_pop \<equiv> AList.delete"

definition dict_has :: "('k \<times> 'v) list \<Rightarrow> 'k \<Rightarrow> bool" where
  "dict_has d k \<longleftrightarrow> dict_get d k \<noteq> None"

lemma dict_get_set [py_simps]: "dict_get (dict_set k v d) k' = (if k' = k then Some v else dict_get d k')"
  by (simp add: update_conv')

lemma dict_get_pop [py_simps]: "dict_get (dict_pop k d) k' = (if k' = k then None else dict_get d k')"
  by (simp add: delete_conv')

lemma dict_get_map_values [py_simps]:
  "dict_get (map (\<lambda>(k, v). (k, f k v)) d) k' = map_option (f k') (dict_get d k')"
  by (induction d) auto

lemma dict_get_append: "dict_get (d @ e) k = (case dict_get d k of None \<Rightarrow> dict_get e k | Some v \<Rightarrow> Some v)"
  by (simp add: map_add_def split: option.split)

text \<open>\<open>d.get('k')\<close> on a dictionary value, \<open>None\<close> when the key is absent.\<close>

fun py_get :: "py \<Rightarrow> string \<Rightarrow> py" where
  "py_get (PDict d) k = (case dict_get d (PStr k) of None \<Rightarrow> PNone | Some v \<Rightarrow> v)"
| "py_get _ k = PNone"

text \<open>The truth value of a Python value.\<close>

fun py_truthy :: "py \<Rightarrow> bool" where
  "py_truthy PNone = False"
| "py_truthy (PBool b) = b"
| "py_truthy (PInt n) = (n \<noteq> 0)"
| "py_truthy (PFloat x) = (x \<noteq> 0)"
| "py_truthy (PStr s) = (s \<noteq> [])"
| "py_truthy (PList xs) = (xs \<noteq> [])"
| "py_truthy (PTuple xs) = (xs \<noteq> [])"
| "py_truthy (PSet xs) = (xs \<noteq> [])"
| "py_truthy (PDict d) = (d \<noteq> [])"

text \<open>\<open>x or y\<close>.\<close>

definition py_or :: "py \<Rightarrow> py \<Rightarrow> py" where
  "py_or a b = (if py_truthy a then a else b)"

text \<open>
  \<open>str(v)\<close>. The text of floats and containers is the argument \<open>other\<close>: the code
  only relies on it being some string.
\<close>

fun py_str :: "(py \<Rightarrow> string) \<Rightarrow> py \<Rightarrow> string" where
  "py_str other PNone = ''None''"
| "py_str other (PBool b) = (if b then ''True'' else ''False'')"
| "py_str other (PInt n) = py_int_str n"
| "py_str other (PStr s) = s"
| "py_str other v = other v"

text \<open>
  \<open>float(v)\<close> and \<open>int(v)\<close>; \<open>None\<close> is the \<open>TypeError\<close> or \<open>ValueError\<close>. What a string spells is the
  argument \<open>parse\<close>.
\<close>

fun py_float :: "(string \<Rightarrow> rat option) \<Rightarrow> py \<Rightarrow> rat option" where
  "py_float parse (PBool b) = Some (if b then 1 else 0)"
| "py_float parse (PInt n) = Some (of_int n)"
| "py_float parse (PFloat x) = Some x"
| "py_float parse (PStr s) = parse s"
| "py_float parse _ = None"

fun py_int :: "(string \<Rightarrow> int option) \<Rightarrow> py \<Rightarrow> int option" where
  "py_int parse (PBool b) = Some (if b then 1 else 0)"
| "py_int parse (PInt n) = Some n"
| "py_int parse (PFloat x) = Some (if x < 0 then \<lceil>x\<rceil> else \<lfloor>x\<rfloor>)"
| "py_int parse (PStr s) = parse s"
| "py_int parse _ = None"

text \<open>\<open>f"{x:.<k>f}"\<close>: rounded half to even, with \<open>k\<close> digits after the point.\<close>

definition round_half_even :: "rat \<Rightarrow> int" where
  "round_half_even x =
     (let f = \<lfloor>x\<rfloor>; d = x - of_int f in
      if d < 1/2 then f else if 1/2 < d then f + 1 else if even f then f else f + 1)"

definition zero_pad :: "nat \<Rightarrow> string \<Rightarrow> string" where
  "zero_pad k s = replicate (k - length s) CHR ''0'' @ s"

definition py_fixed :: "nat \<Rightarrow> rat \<Rightarrow> string" where
  "py_fixed k x =
     (let n = round_half_even (\<bar>x\<bar> * 10 ^ k) in
      (if x < 0 then ''-'' else []) @ nat_digits (nat (n div 10 ^ k)) @
      (if k = 0 then [] else CHR ''.'' # zero_pad k (nat_digits (nat (n mod 10 ^ k)))))"

text \<open>
  \<open>repr\<close> of a string: the quote is \<open>"\<close> only for text with \<open>'\<close> and without \<open>"\<close>; the quote, the
  backslash and what is not printable are escaped.
\<close>

definition hex_char :: "nat \<Rightarrow> char" where
  "hex_char d = ''0123456789abcdef'' ! d"

definition py_repr_char :: "char \<Rightarrow> char \<Rightarrow> string" where
  "py_repr_char q c =
     (let n = of_char c :: nat in
      if c = q \<or> c = CHR 0x5C then [CHR 0x5C, c]
      else if c = CHR 0x09 then [CHR 0x5C, CHR ''t'']
      else if c = CHR 0x0A then [CHR 0x5C, CHR ''n'']
      else if c = CHR 0x0D then [CHR 0x5C, CHR ''r'']
      else if n < 32 \<or> (127 \<le> n \<and> n \<le> 160) \<or> n = 173
      then [CHR 0x5C, CHR ''x'', hex_char (n div 16), hex_char (n mod 16)]
      else [c])"

definition py_repr_str :: "string \<Rightarrow> string" where
  "py_repr_str s =
     (let q = (if CHR 0x27 \<in> set s \<and> CHR 0x22 \<notin> set s then CHR 0x22 else CHR 0x27) in
      q # concat (map (py_repr_char q) s) @ [q])"

definition py_repr_strs :: "string list \<Rightarrow> string" where
  "py_repr_strs ss = CHR ''['' # py_join '', '' (map py_repr_str ss) @ '']''"

lemma find_SomeD: "find P xs = Some x \<Longrightarrow> x \<in> set xs \<and> P x"
  by (induction xs) (auto split: if_splits)

text \<open>Each \<open>str(v).strip()\<close> of a value that may be missing.\<close>

definition strip_str :: "(py \<Rightarrow> string) \<Rightarrow> py option \<Rightarrow> string" where
  "strip_str other v = py_strip (py_str other (case v of Some x \<Rightarrow> x | None \<Rightarrow> PStr []))"

text \<open>\<open>s[:n]\<close>; a negative \<open>n\<close> counts from the end.\<close>

definition py_take :: "int \<Rightarrow> 'a list \<Rightarrow> 'a list" where
  "py_take n xs = take (nat (if 0 \<le> n then n else max 0 (int (length xs) + n))) xs"

lemma in_map_filter: "y \<in> set (List.map_filter f xs) \<longleftrightarrow> (\<exists>x \<in> set xs. f x = Some y)"
  by (induction xs) (auto simp: List.map_filter_simps split: option.splits)

lemma map_filter_empty: "List.map_filter f xs = [] \<longleftrightarrow> (\<forall>x \<in> set xs. f x = None)"
  by (induction xs) (auto split: option.splits)

section \<open>Ordered de-duplication\<close>

text \<open>
  The loop \<open>for x in xs: if key(x) in seen: continue; seen.add(key(x)); out.append(x)\<close>
  that several components use.
\<close>

fun dedup_by :: "('a \<Rightarrow> 'k) \<Rightarrow> 'k list \<Rightarrow> 'a list \<Rightarrow> 'a list" where
  "dedup_by key seen [] = []"
| "dedup_by key seen (x # xs) =
     (if key x \<in> set seen then dedup_by key seen xs
      else x # dedup_by key (key x # seen) xs)"

lemma dedup_by_keys:
  "key ` set (dedup_by key seen xs) = key ` set xs - set seen"
  by (induction key seen xs rule: dedup_by.induct) auto

lemma dedup_by_subset: "set (dedup_by key seen xs) \<subseteq> set xs"
  by (induction key seen xs rule: dedup_by.induct) auto

lemma dedup_by_distinct: "distinct (map key (dedup_by key seen xs))"
proof (induction key seen xs rule: dedup_by.induct)
  case (2 key seen x xs)
  then show ?case
    using dedup_by_keys [of key "key x # seen" xs] by auto
qed simp

lemma dedup_by_notin: "x \<in> set (dedup_by key seen xs) \<Longrightarrow> key x \<notin> set seen"
  using dedup_by_keys [of key seen xs] by auto

section \<open>Errors as values\<close>

text \<open>\<open>raise\<close> is \<open>Inl\<close>; the rest of a function runs on the \<open>Inr\<close> of what came before.\<close>

fun and_then :: "'e + 'a \<Rightarrow> ('a \<Rightarrow> 'e + 'b) \<Rightarrow> 'e + 'b" where
  "and_then (Inl e) f = Inl e"
| "and_then (Inr x) f = f x"

lemma and_then_Inr_iff [simp]: "and_then m f = Inr y \<longleftrightarrow> (\<exists>x. m = Inr x \<and> f x = Inr y)"
  by (cases m) auto

lemma and_then_Inl_iff: "and_then m f = Inl e \<longleftrightarrow> m = Inl e \<or> (\<exists>x. m = Inr x \<and> f x = Inl e)"
  by (cases m) auto

section \<open>SQL text matching\<close>

text \<open>
  SQLite's \<open>LIKE\<close>: \<open>%\<close> stands for any text, \<open>_\<close> for any character, and ASCII letters
  match in either case.
\<close>

fun sql_like :: "string \<Rightarrow> string \<Rightarrow> bool" where
  "sql_like [] [] \<longleftrightarrow> True"
| "sql_like [] (c # cs) \<longleftrightarrow> False"
| "sql_like (p # ps) [] \<longleftrightarrow> p = CHR ''%'' \<and> sql_like ps []"
| "sql_like (p # ps) (c # cs) \<longleftrightarrow>
     (if p = CHR ''%'' then sql_like ps (c # cs) \<or> sql_like (p # ps) cs
      else if p = CHR ''_'' then sql_like ps cs
      else char_lower p = char_lower c \<and> sql_like ps cs)"

lemma sql_like_percent [simp]: "sql_like ''%'' s"
  by (induction s) auto

text \<open>Without wildcards the pattern \<open>p%\<close> is a prefix test that ignores case.\<close>

lemma sql_like_prefix:
  assumes "CHR ''%'' \<notin> set p" and "CHR ''_'' \<notin> set p"
  shows "sql_like (p @ ''%'') s \<longleftrightarrow> prefix (py_lower p) (py_lower s)"
  using assms
proof (induction p arbitrary: s)
  case (Cons c p)
  then show ?case by (cases s) (auto simp: py_lower_def)
qed (simp add: py_lower_def)

text \<open>In any case it accepts the texts with that prefix.\<close>

lemma sql_like_append: "sql_like (p @ ''%'') (p @ s)"
proof (induction p)
  case (Cons c p)
  then show ?case by (cases "p @ s") (auto)
qed simp

end
