(* ===== verification/Errors.thy ===== *)
theory Errors
  imports Prelude
begin

text \<open>
  The error taxonomy of \<open>llm_client/core/errors.py\<close>: the exception classes with their
  inheritance, and the functions that map an arbitrary exception to one of them.

  An exception object is an \<open>exn\<close>: its class name, the classes \<open>isinstance\<close> accepts for
  it, its text, the attributes \<open>getattr\<close> can find, and the links to other exceptions. An
  object-valued attribute is the dictionary of its own attributes. The \<open>litellm\<close> package is
  a parameter: \<open>None\<close> when it cannot be imported, otherwise the exception classes it exports.
\<close>

section \<open>Classes and exception objects\<close>

datatype llm_class =
    LLMError
  | LLMRateLimitError
  | LLMQuotaExhaustedError
  | LLMAuthError
  | LLMContentFilterError
  | LLMTransientError
  | LLMLogicalDeadlineError
  | LLMEmptyResponseError
  | LLMProviderResponseError
  | LLMModelNotFoundError
  | DeprecatedModelError
  | LLMBudgetExceededError
  | LLMBudgetReservationOverrunError
  | LLMBudgetLeaseLostError
  | LLMBudgetReservationStoreError
  | LLMObservabilityUnavailableError
  | LLMPromptBudgetExceededError
  | LLMCapabilityError
  | LLMNoCompatibleRouteError
  | LLMConfigurationError

datatype exc_class = LlmClass llm_class | PyClass string | LitellmClass string

text \<open>The class statements: each class with the ancestors an instance of it has.\<close>

fun llm_mro :: "llm_class \<Rightarrow> exc_class list" where
  "llm_mro LLMError = [LlmClass LLMError]"
| "llm_mro LLMLogicalDeadlineError =
     [LlmClass LLMLogicalDeadlineError, LlmClass LLMTransientError, LlmClass LLMError,
      PyClass ''TimeoutError'']"
| "llm_mro LLMBudgetReservationOverrunError =
     [LlmClass LLMBudgetReservationOverrunError, LlmClass LLMBudgetExceededError,
      LlmClass LLMError]"
| "llm_mro LLMNoCompatibleRouteError =
     [LlmClass LLMNoCompatibleRouteError, LlmClass LLMCapabilityError, LlmClass LLMError]"
| "llm_mro c = [LlmClass c, LlmClass LLMError]"

datatype exn =
  Exn (exc_name: string) (exc_mro: "exc_class list") (exc_text: string)
    (exc_attrs: "(string \<times> py) list") (exc_cause: "exn option")
    (exc_failed_attempts: "exn option list") (exc_original: "exn option")

definition py_isinstance :: "exn \<Rightarrow> exc_class \<Rightarrow> bool" where
  "py_isinstance e c \<longleftrightarrow> c \<in> set (exc_mro e)"

definition py_getattr :: "exn \<Rightarrow> string \<Rightarrow> py" where
  "py_getattr e a = (case dict_get (exc_attrs e) a of None \<Rightarrow> PNone | Some v \<Rightarrow> v)"

fun llm_class_name :: "llm_class \<Rightarrow> string" where
  "llm_class_name LLMError = ''LLMError''"
| "llm_class_name LLMRateLimitError = ''LLMRateLimitError''"
| "llm_class_name LLMQuotaExhaustedError = ''LLMQuotaExhaustedError''"
| "llm_class_name LLMAuthError = ''LLMAuthError''"
| "llm_class_name LLMContentFilterError = ''LLMContentFilterError''"
| "llm_class_name LLMTransientError = ''LLMTransientError''"
| "llm_class_name LLMLogicalDeadlineError = ''LLMLogicalDeadlineError''"
| "llm_class_name LLMEmptyResponseError = ''LLMEmptyResponseError''"
| "llm_class_name LLMProviderResponseError = ''LLMProviderResponseError''"
| "llm_class_name LLMModelNotFoundError = ''LLMModelNotFoundError''"
| "llm_class_name DeprecatedModelError = ''DeprecatedModelError''"
| "llm_class_name LLMBudgetExceededError = ''LLMBudgetExceededError''"
| "llm_class_name LLMBudgetReservationOverrunError = ''LLMBudgetReservationOverrunError''"
| "llm_class_name LLMBudgetLeaseLostError = ''LLMBudgetLeaseLostError''"
| "llm_class_name LLMBudgetReservationStoreError = ''LLMBudgetReservationStoreError''"
| "llm_class_name LLMObservabilityUnavailableError = ''LLMObservabilityUnavailableError''"
| "llm_class_name LLMPromptBudgetExceededError = ''LLMPromptBudgetExceededError''"
| "llm_class_name LLMCapabilityError = ''LLMCapabilityError''"
| "llm_class_name LLMNoCompatibleRouteError = ''LLMNoCompatibleRouteError''"
| "llm_class_name LLMConfigurationError = ''LLMConfigurationError''"

text \<open>\<open>cls(message, original=original)\<close>: \<open>LLMError.__init__\<close> with its fields reset.\<close>

definition new_llm_error :: "llm_class \<Rightarrow> string \<Rightarrow> exn option \<Rightarrow> exn" where
  "new_llm_error c msg orig =
     Exn (llm_class_name c) (llm_mro c) msg
       [(''cost'', PNone), (''cost_source'', PNone), (''cost_covers_all_attempts'', PNone)]
       None [] orig"

section \<open>Helpers\<close>

definition QUOTA_PATTERNS :: "string list" where
  "QUOTA_PATTERNS =
     [''quota'', ''billing'', ''insufficient'', ''exceeded your current'', ''key limit'',
      ''plan and billing'', ''account deactivated'', ''account suspended'', ''add more using'',
      ''monthly spending cap'', ''monthly spend cap'', ''spending cap'', ''spend cap'',
      ''requests per day'', ''per day per project'', ''per day per model'',
      ''generatecontentrequestsperday'']"

definition error_message :: "exn \<Rightarrow> string" where
  "error_message e =
     (let message = py_strip (exc_text e) in if message \<noteq> [] then message else exc_name e)"

definition litellm_error_types :: "string list \<Rightarrow> string list \<Rightarrow> exc_class list" where
  "litellm_error_types lt names = map LitellmClass (filter (\<lambda>n. n \<in> set lt) names)"

definition isinstance_any :: "exn \<Rightarrow> exc_class list \<Rightarrow> bool" where
  "isinstance_any e cs \<longleftrightarrow> list_ex (py_isinstance e) cs"

text \<open>
  \<open>exc_failed_attempts\<close> holds, per failed attempt, its \<open>exception\<close> attribute when that is an
  exception; the code looks at the last attempt only.
\<close>

definition unwrap_instructor_retry :: "exn \<Rightarrow> exn" where
  "unwrap_instructor_retry e =
     (if exc_name e \<noteq> ''InstructorRetryException'' then e
      else case exc_cause e of
             Some c \<Rightarrow> c
           | None \<Rightarrow>
               (if exc_failed_attempts e = [] then e
                else case last (exc_failed_attempts e) of Some x \<Rightarrow> x | None \<Rightarrow> e))"

text \<open>\<open>re.search(r"(?:^|\D)401(?:\D|$)", s)\<close>: the status code not inside a longer number.\<close>

definition has_status :: "string \<Rightarrow> string \<Rightarrow> bool" where
  "has_status code s \<longleftrightarrow>
     list_ex (\<lambda>i. take 3 (drop i s) = code \<and>
                  (i = 0 \<or> \<not> py_isdigit (s ! (i - 1))) \<and>
                  (length s \<le> i + 3 \<or> \<not> py_isdigit (s ! (i + 3))))
       [0..<length s]"

text \<open>
  \<open>re.search(r"(?:^|\\D)404(?:\\D|$)", s)\<close>: in this raw string \<open>\\D\<close> is a literal backslash
  followed by the letter D, and \<open>$\<close> also matches before a final newline.
\<close>

definition backslash_D :: string where
  "backslash_D = [CHR 0x5C, CHR ''D'']"

definition has_404_status :: "string \<Rightarrow> bool" where
  "has_404_status s \<longleftrightarrow>
     list_ex (\<lambda>i. take 3 (drop i s) = ''404'' \<and>
                  (take i s = [] \<or> suffix backslash_D (take i s)) \<and>
                  (drop (i + 3) s = [] \<or> drop (i + 3) s = [CHR 0x0A] \<or>
                   prefix backslash_D (drop (i + 3) s)))
       [0..<length s]"

section \<open>Classification\<close>

text \<open>The part of \<open>classify_error\<close> inside \<open>try: import litellm\<close>.\<close>

definition classify_litellm :: "string list \<Rightarrow> exn \<Rightarrow> llm_class option" where
  "classify_litellm lt e =
     (if isinstance_any e (litellm_error_types lt [''AuthenticationError'', ''PermissionDeniedError''])
      then Some LLMAuthError
      else if isinstance_any e (litellm_error_types lt [''NotFoundError''])
      then Some LLMModelNotFoundError
      else if isinstance_any e (litellm_error_types lt [''ContentPolicyViolationError''])
      then Some LLMContentFilterError
      else if isinstance_any e (litellm_error_types lt [''BudgetExceededError''])
      then Some LLMQuotaExhaustedError
      else if isinstance_any e (litellm_error_types lt [''JSONSchemaValidationError''])
      then Some LLMError
      else if isinstance_any e (litellm_error_types lt [''RateLimitError''])
      then (if py_any_in QUOTA_PATTERNS (py_lower (exc_text e))
            then Some LLMQuotaExhaustedError else Some LLMRateLimitError)
      else if isinstance_any e (litellm_error_types lt
                [''InternalServerError'', ''ServiceUnavailableError'', ''APIConnectionError'',
                 ''BadGatewayError''])
      then Some LLMTransientError
      else None)"

text \<open>The string matching at the end of \<open>classify_error\<close>.\<close>

definition classify_text :: "string \<Rightarrow> llm_class" where
  "classify_text error_str =
     (if py_any_in QUOTA_PATTERNS error_str then LLMQuotaExhaustedError
      else if has_status ''401'' error_str \<or> py_contains ''authentication'' error_str
              \<or> py_contains ''unauthorized'' error_str then LLMAuthError
      else if has_status ''403'' error_str \<or> py_contains ''forbidden'' error_str
              \<or> py_contains ''permission'' error_str then LLMAuthError
      else if has_404_status error_str \<or> py_contains ''not found'' error_str
              \<or> py_contains ''does not exist'' error_str then LLMModelNotFoundError
      else if py_contains ''content'' error_str
              \<and> (py_contains ''policy'' error_str \<or> py_contains ''filter'' error_str)
           then LLMContentFilterError
      else if py_contains ''rate'' error_str \<and> py_contains ''limit'' error_str
           then LLMRateLimitError
      else if py_any_in [''timeout'', ''timed out'', ''connection'', ''500'', ''502'', ''503'',
                         ''server error''] error_str then LLMTransientError
      else LLMError)"

definition NO_ROUTE_TEXT :: string where
  "NO_ROUTE_TEXT = ''no endpoints found that can handle the requested parameters''"

definition classify_error :: "string list option \<Rightarrow> exn \<Rightarrow> llm_class" where
  "classify_error litellm err =
     (let e = unwrap_instructor_retry err in
      if py_contains NO_ROUTE_TEXT (py_lower (error_message e)) then LLMNoCompatibleRouteError
      else case (case litellm of None \<Rightarrow> None | Some lt \<Rightarrow> classify_litellm lt e) of
             Some c \<Rightarrow> c
           | None \<Rightarrow> classify_text (py_lower (error_message e)))"

definition wrap_error :: "string list option \<Rightarrow> exn \<Rightarrow> exn" where
  "wrap_error litellm e =
     (if py_isinstance e (LlmClass LLMError) then e
      else let unwrapped = unwrap_instructor_retry e in
           if py_isinstance unwrapped (LlmClass LLMError) then unwrapped
           else new_llm_error (classify_error litellm unwrapped) (error_message unwrapped)
                  (Some unwrapped))"

section \<open>Lemmas\<close>

lemma llm_mro_LLMError [simp]: "LlmClass LLMError \<in> set (llm_mro c)"
  by (cases c) auto

lemma llm_mro_self [simp]: "LlmClass c \<in> set (llm_mro c)"
  by (cases c) auto

lemma new_llm_error_isinstance [simp]:
  "py_isinstance (new_llm_error c msg orig) cl \<longleftrightarrow> cl \<in> set (llm_mro c)"
  by (simp add: py_isinstance_def new_llm_error_def)

lemma char_lower_not_D: "char_lower c \<noteq> CHR ''D''"
  by (cases c) (auto simp: letter_bits_def)

lemma D_notin_lower: "CHR ''D'' \<notin> set (py_lower s)"
  by (auto simp: py_lower_def char_lower_not_D[symmetric])

lemma no_backslash_D:
  assumes "CHR ''D'' \<notin> set s"
  shows "\<not> suffix backslash_D (take i s)" and "\<not> prefix backslash_D (drop i s)"
proof -
  show "\<not> suffix backslash_D (take i s)"
  proof
    assume "suffix backslash_D (take i s)"
    then have "CHR ''D'' \<in> set (take i s)" by (auto simp: suffix_def backslash_D_def)
    with assms show False by (blast dest: in_set_takeD)
  qed
  show "\<not> prefix backslash_D (drop i s)"
  proof
    assume "prefix backslash_D (drop i s)"
    then have "CHR ''D'' \<in> set (drop i s)" by (auto simp: prefix_def backslash_D_def)
    with assms show False by (blast dest: in_set_dropD)
  qed
qed

lemma take3_drop_decomp:
  assumes "take 3 (drop 0 s) = ''404''" shows "s = ''404'' @ drop 3 s"
  using assms by (metis append_take_drop_id drop0)

text \<open>On lower-cased text the pattern for 404 matches nothing but the bare status code.\<close>

lemma has_404_status_lower:
  "has_404_status (py_lower s) \<longleftrightarrow> py_lower s = ''404'' \<or> py_lower s = ''404'' @ [CHR 0x0A]"
proof
  assume "has_404_status (py_lower s)"
  then obtain i where i: "i < length (py_lower s)" "take 3 (drop i (py_lower s)) = ''404''"
    "take i (py_lower s) = []" and
    post: "drop (i + 3) (py_lower s) = [] \<or> drop (i + 3) (py_lower s) = [CHR 0x0A]"
    using no_backslash_D [OF D_notin_lower]
    by (fastforce simp: has_404_status_def list_ex_iff)
  have "i = 0"
  proof (rule ccontr)
    assume "i \<noteq> 0"
    with i(3) have "py_lower s = []" by (simp only: take_eq_Nil simp_thms)
    with i(1) show False by (simp only: list.size not_less_zero)
  qed
  with i have "py_lower s = ''404'' @ drop 3 (py_lower s)"
    using take3_drop_decomp by blast
  with post \<open>i = 0\<close> show "py_lower s = ''404'' \<or> py_lower s = ''404'' @ [CHR 0x0A]"
    by (metis append.right_neutral add_0)
next
  assume "py_lower s = ''404'' \<or> py_lower s = ''404'' @ [CHR 0x0A]"
  then show "has_404_status (py_lower s)"
    by (auto simp: has_404_status_def)
qed

lemma litellm_types_iff:
  "isinstance_any e (litellm_error_types lt names) \<longleftrightarrow>
     (\<exists>n \<in> set names. n \<in> set lt \<and> LitellmClass n \<in> set (exc_mro e))"
  by (auto simp: isinstance_any_def litellm_error_types_def list_ex_iff py_isinstance_def)

lemma classify_litellm_plain:
  assumes "\<And>n. LitellmClass n \<notin> set (exc_mro e)"
  shows "classify_litellm lt e = None"
  using assms by (simp add: classify_litellm_def litellm_types_iff)

lemma classify_error_plain:
  assumes "\<And>n. LitellmClass n \<notin> set (exc_mro e)" and "exc_name e \<noteq> ''InstructorRetryException''"
    and "\<not> py_contains NO_ROUTE_TEXT (py_lower (error_message e))"
  shows "classify_error litellm e = classify_text (py_lower (error_message e))"
  using assms
  by (simp add: classify_error_def unwrap_instructor_retry_def Let_def classify_litellm_plain
      split: option.splits)

section \<open>Properties\<close>

text \<open>
  C31. \<open>wrap_error\<close> is total: whatever the exception, the result is an instance of \<open>LLMError\<close>,
  and wrapping a second time changes nothing.
\<close>

theorem wrap_error_total:
  "py_isinstance (wrap_error litellm e) (LlmClass LLMError) \<and>
   wrap_error litellm (wrap_error litellm e) = wrap_error litellm e"
  by (auto simp: wrap_error_def Let_def)

text \<open>
  C33. A 404 status in the text of an exception is never what makes it a model-not-found error:
  unless the text is the bare code, the branch needs the words "not found" or "does not exist"
  (or litellm's own class), because the 404 pattern escapes its backslashes twice.
\<close>

theorem classify_404_status_dead:
  assumes "e' = unwrap_instructor_retry e" and "s = py_lower (error_message e')"
    and "s \<noteq> ''404''" and "s \<noteq> ''404'' @ [CHR 0x0A]"
    and "\<not> py_contains ''not found'' s" and "\<not> py_contains ''does not exist'' s"
    and "\<not> py_isinstance e' (LitellmClass ''NotFoundError'')"
  shows "classify_error litellm e \<noteq> LLMModelNotFoundError"
proof -
  have "\<not> has_404_status s"
    using assms(2-4) has_404_status_lower by auto
  then have by_text: "classify_text s \<noteq> LLMModelNotFoundError"
    using assms(5,6) by (simp add: classify_text_def)
  have "classify_litellm lt e' \<noteq> Some LLMModelNotFoundError" for lt
    using assms(7) by (auto simp: classify_litellm_def litellm_types_iff py_isinstance_def)
  with by_text assms(1,2) show ?thesis
    by (auto simp: classify_error_def Let_def split: option.splits)
qed

theorem classify_404_status_dead_witness:
  "has_status ''404'' ''http 404: no such model'' \<and>
   classify_error None (Exn ''APIError'' [] ''HTTP 404: no such model'' [] None [] None)
     \<noteq> LLMModelNotFoundError \<and>
   classify_error None (Exn ''APIError'' [] ''HTTP 401: no such key'' [] None [] None)
     = LLMAuthError"
proof -
  let ?e = "Exn ''APIError'' [] ''HTTP 404: no such model'' [] None [] None"
  have s: "py_lower (error_message (unwrap_instructor_retry ?e)) = ''http 404: no such model''"
    by code_simp
  have "classify_error None ?e \<noteq> LLMModelNotFoundError"
    by (rule classify_404_status_dead [OF refl s [symmetric]])
      (simp_all add: py_isinstance_def unwrap_instructor_retry_def)
  moreover have "has_status ''404'' ''http 404: no such model''" by code_simp
  moreover have "classify_error None (Exn ''APIError'' [] ''HTTP 401: no such key'' [] None [] None)
     = LLMAuthError" by code_simp
  ultimately show ?thesis by blast
qed

text \<open>
  C32. For an exception outside litellm's classes, text that names quota or billing exhaustion
  wins over everything else the text says: status codes, rate-limit or timeout wording.
\<close>

theorem classify_quota_first:
  assumes "\<And>n. LitellmClass n \<notin> set (exc_mro e)"
    and "exc_name e \<noteq> ''InstructorRetryException''"
    and "\<not> py_contains NO_ROUTE_TEXT (py_lower (error_message e))"
  shows "classify_error litellm e = LLMQuotaExhaustedError \<longleftrightarrow>
           py_any_in QUOTA_PATTERNS (py_lower (error_message e))"
  using classify_error_plain [OF assms] by (simp add: classify_text_def)

theorem classify_quota_first_witness:
  "classify_error (Some [''RateLimitError''])
     (Exn ''APIError'' [PyClass ''Exception''] ''429 rate limit: Quota hit, timeout'' [] None [] None)
     = LLMQuotaExhaustedError"
proof -
  let ?e = "Exn ''APIError'' [PyClass ''Exception''] ''429 rate limit: Quota hit, timeout'' [] None [] None"
  have "classify_error (Some [''RateLimitError'']) ?e = LLMQuotaExhaustedError \<longleftrightarrow>
           py_any_in QUOTA_PATTERNS (py_lower (error_message ?e))"
    by (rule classify_quota_first) (simp_all, code_simp)
  moreover have "py_any_in QUOTA_PATTERNS (py_lower (error_message ?e))" by code_simp
  ultimately show ?thesis by blast
qed

end
