(* ===== verification/Retry.thy ===== *)
theory Retry
  imports Errors
begin

text \<open>
  Retry classification and delays, \<open>llm_client/execution/retry.py\<close>.

  The regular expressions of the code are written out as matchers on strings. The random
  jitter of the backoff functions, the environment and the text of \<open>json\<close> values are
  arguments. \<open>float(s)\<close> is the argument \<open>parse_float\<close>: \<open>None\<close> is its ValueError; its values
  are finite.
\<close>

section \<open>Pattern tables and error text\<close>

definition RETRYABLE_PATTERNS :: "string list" where
  "RETRYABLE_PATTERNS =
     [''rate limit'', ''rate_limit'', ''timeout'', ''timed out'', ''connection reset'',
      ''connection error'', ''peer closed connection'',
      ''server disconnected without sending a response'', ''incomplete chunked read'',
      ''network error'', ''service unavailable'', ''unavailable'', ''high demand'',
      ''internal server error'', ''server error'', ''overloaded'', ''http 500'', ''http 502'',
      ''http 503'', ''http 529'', ''empty content'', ''empty response'', ''no json found'',
      ''json parse error'', ''invalid json'', ''malformed json'', ''unterminated string'',
      ''expecting'', ''delimiter'', ''temporary failure'']"

definition NON_RETRYABLE_PATTERNS :: "string list" where
  "NON_RETRYABLE_PATTERNS = QUOTA_PATTERNS"

definition error_text :: "exn \<Rightarrow> string" where
  "error_text e = (let t = py_strip (exc_text e) in if t \<noteq> [] then t else exc_name e)"

section \<open>One-line summaries for retry logs\<close>

definition RETRY_ERROR_TEXT_CAP :: nat where "RETRY_ERROR_TEXT_CAP = 240"

definition RETRY_RAW_SNIPPET_CAP :: nat where "RETRY_RAW_SNIPPET_CAP = 120"

text \<open>\<open>loads\<close> is \<open>json.loads\<close>, \<open>None\<close> when it raises.\<close>

definition schema_title :: "(py \<Rightarrow> py option) \<Rightarrow> (py \<Rightarrow> string) \<Rightarrow> py \<Rightarrow> string" where
  "schema_title loads other schema_text =
     (case loads schema_text of
        None \<Rightarrow> ''<unparsed>''
      | Some parsed \<Rightarrow>
          (let title = py_get parsed ''title''
           in if py_truthy title then py_str other title else ''<untitled>''))"

text \<open>\<open>repr_str\<close> is \<open>repr\<close> on strings.\<close>

definition retry_error_summary ::
  "(py \<Rightarrow> py option) \<Rightarrow> (py \<Rightarrow> string) \<Rightarrow> (string \<Rightarrow> string) \<Rightarrow> exn \<Rightarrow> string" where
  "retry_error_summary loads other repr_str e =
     (let name = exc_name e;
          raw_response = py_getattr e ''raw_response'';
          schema_text = py_getattr e ''schema'' in
      if name = ''JSONSchemaValidationError'' \<and> schema_text \<noteq> PNone
      then let raw = (if py_truthy raw_response then py_str other raw_response else []);
               snippet = take RETRY_RAW_SNIPPET_CAP (py_join '' '' (py_split raw))
           in name @ '': schema='' @ schema_title loads other schema_text @ '' raw='' @ repr_str snippet
      else let t = py_join '' '' (py_split (error_text e));
               t' = (if RETRY_ERROR_TEXT_CAP < length t then take RETRY_ERROR_TEXT_CAP t @ ''...'' else t)
           in name @ '': '' @ t')"

section \<open>Status codes\<close>

text \<open>\<open>int(s)\<close> of a string of ASCII digits.\<close>

definition digit_val :: "char \<Rightarrow> nat" where
  "digit_val c = of_char c - 48"

definition digits_nat :: "string \<Rightarrow> nat" where
  "digits_nat s = foldl (\<lambda>n c. 10 * n + digit_val c) 0 s"

definition str_isdigit :: "string \<Rightarrow> bool" where
  "str_isdigit s \<longleftrightarrow> s \<noteq> [] \<and> list_all py_isdigit s"

text \<open>
  One step of the attribute loops: \<open>isinstance(value, int)\<close> accepts booleans too.
\<close>

fun status_value :: "py \<Rightarrow> int option" where
  "status_value (PInt n) = Some n"
| "status_value (PBool b) = Some (if b then 1 else 0)"
| "status_value (PStr s) = (if str_isdigit s then Some (int (digits_nat s)) else None)"
| "status_value _ = None"

fun first_some :: "('a \<Rightarrow> 'b option) \<Rightarrow> 'a list \<Rightarrow> 'b option" where
  "first_some f [] = None"
| "first_some f (x # xs) = (case f x of Some y \<Rightarrow> Some y | None \<Rightarrow> first_some f xs)"

definition is_word_char :: "char \<Rightarrow> bool" where
  "is_word_char c \<longleftrightarrow>
     py_isdigit c \<or> c = CHR ''_'' \<or> char_lower c \<noteq> c \<or> char_upper c \<noteq> c \<or>
     (128 \<le> (of_char c :: nat) \<and> of_char c \<in> set ([170, 178, 179, 181, 185, 186, 188, 189, 190] @
        [192..<215] @ [216..<247] @ [248..<256] :: nat list))"

text \<open>\<open>re.search(r"\b(401|403|404|409|429|500|502|503)\b", text)\<close>.\<close>

definition STATUS_CODES :: "string list" where
  "STATUS_CODES = [''401'', ''403'', ''404'', ''409'', ''429'', ''500'', ''502'', ''503'']"

definition search_status :: "string \<Rightarrow> int option" where
  "search_status s =
     first_some (\<lambda>i. if take 3 (drop i s) \<in> set STATUS_CODES \<and>
                        (i = 0 \<or> \<not> is_word_char (s ! (i - 1))) \<and>
                        (length s \<le> i + 3 \<or> \<not> is_word_char (s ! (i + 3)))
                     then Some (int (digits_nat (take 3 (drop i s)))) else None)
       [0..<length s]"

definition error_status_code :: "exn \<Rightarrow> int option" where
  "error_status_code e =
     (case first_some (\<lambda>a. status_value (py_getattr e a))
             [''status_code'', ''status'', ''http_status'', ''code''] of
        Some n \<Rightarrow> Some n
      | None \<Rightarrow>
          (let response = py_getattr e ''response'' in
           case (if response = PNone then None
                 else first_some (\<lambda>a. status_value (py_get response a))
                        [''status_code'', ''status'', ''code'']) of
             Some n \<Rightarrow> Some n
           | None \<Rightarrow> search_status (exc_text e)))"

definition is_rate_limit_error :: "string list option \<Rightarrow> exn \<Rightarrow> bool" where
  "is_rate_limit_error litellm e \<longleftrightarrow>
     (case litellm of None \<Rightarrow> False
      | Some lt \<Rightarrow> isinstance_any e (litellm_error_types lt [''RateLimitError''])) \<or>
     error_status_code e = Some 429 \<or>
     py_contains ''ratelimit'' (py_lower (exc_name e)) \<or>
     py_contains ''rate limit'' (py_lower (error_text e)) \<or>
     py_contains ''retrydelay'' (py_lower (error_text e))"

section \<open>Retry-delay hints\<close>

text \<open>
  A number \<open>[0-9]+(\.[0-9]+)?\<close> at the front of a string: its text and what follows it.
\<close>

definition span_number :: "string \<Rightarrow> (string \<times> string) option" where
  "span_number s =
     (let whole = takeWhile py_isdigit s; rest = dropWhile py_isdigit s in
      if whole = [] then None
      else case rest of
             [] \<Rightarrow> Some (whole, rest)
           | c # rest' \<Rightarrow>
               (let frac = takeWhile py_isdigit rest' in
                if c = CHR ''.'' \<and> frac \<noteq> [] then Some (whole @ CHR ''.'' # frac, dropWhile py_isdigit rest')
                else Some (whole, rest)))"

text \<open>\<open>float(s)\<close> of such a number.\<close>

definition number_value :: "string \<Rightarrow> rat" where
  "number_value s =
     (let whole = takeWhile py_isdigit s; frac = drop 1 (dropWhile py_isdigit s)
      in of_nat (digits_nat whole) + of_nat (digits_nat frac) / 10 ^ length frac)"

definition ALL_UNITS :: "string list" where
  "ALL_UNITS = [''ms'', ''s'', ''sec'', ''secs'', ''second'', ''seconds'', ''m'', ''min'', ''mins'',
                ''minute'', ''minutes'', ''h'', ''hour'', ''hours'']"

definition unit_scale :: "string \<Rightarrow> rat \<Rightarrow> rat" where
  "unit_scale unit v =
     (if unit = ''ms'' then v / 1000
      else if unit \<in> set [''m'', ''min'', ''mins'', ''minute'', ''minutes''] then v * 60
      else if unit \<in> set [''h'', ''hour'', ''hours''] then v * 3600
      else v)"

text \<open>\<open>re.fullmatch\<close> of a number, optional blanks and an optional unit.\<close>

definition fullmatch_delay :: "string \<Rightarrow> (rat \<times> string) option" where
  "fullmatch_delay t =
     (case span_number t of
        None \<Rightarrow> None
      | Some (num, rest) \<Rightarrow>
          (let unit = py_lower (py_lstrip rest) in
           if unit = [] then Some (number_value num, ''s'')
           else if unit \<in> set ALL_UNITS then Some (number_value num, unit) else None))"

definition cap_delay :: "rat option \<Rightarrow> rat \<Rightarrow> rat option" where
  "cap_delay max_seconds v =
     (if v \<le> 0 then None
      else case max_seconds of None \<Rightarrow> Some v | Some m \<Rightarrow> Some (min v m))"

definition coerce_retry_delay_seconds ::
  "(py \<Rightarrow> string) \<Rightarrow> rat option \<Rightarrow> py \<Rightarrow> rat option" where
  "coerce_retry_delay_seconds other max_seconds raw =
     (case raw of
        PNone \<Rightarrow> None
      | PInt n \<Rightarrow> cap_delay max_seconds (of_int n)
      | PBool b \<Rightarrow> cap_delay max_seconds (if b then 1 else 0)
      | PFloat x \<Rightarrow> cap_delay max_seconds x
      | _ \<Rightarrow>
          (let t = py_strip (py_str other raw) in
           if t = [] then None
           else case fullmatch_delay t of
                  None \<Rightarrow> None
                | Some (v, unit) \<Rightarrow> cap_delay max_seconds (unit_scale unit v)))"

text \<open>The first match of a matcher at any position, left to right: \<open>re.search\<close>.\<close>

fun search_first :: "(string \<Rightarrow> 'a option) \<Rightarrow> string \<Rightarrow> 'a option" where
  "search_first m [] = m []"
| "search_first m (c # cs) = (case m (c # cs) of Some r \<Rightarrow> Some r | None \<Rightarrow> search_first m cs)"

definition strip_prefix :: "string \<Rightarrow> string \<Rightarrow> string option" where
  "strip_prefix p s = (if prefix p s then Some (drop (length p) s) else None)"

definition first_unit :: "string list \<Rightarrow> string \<Rightarrow> string option" where
  "first_unit units s = first_some (\<lambda>u. if prefix u s then Some u else None) units"

text \<open>
  \<open>retry(?:ing)?\s+(?:in|after)\s*NUM\s*(unit)?\<close> at the front of lower-cased text: the
  number and the unit group. The alternatives of the unit group are tried in order, so
  "seconds" yields the group "s".
\<close>

definition match_retry_in :: "string \<Rightarrow> (string \<times> string option) option" where
  "match_retry_in s =
     (case strip_prefix ''retry'' s of
        None \<Rightarrow> None
      | Some r0 \<Rightarrow>
          (let r1 = (case strip_prefix ''ing'' r0 of Some r \<Rightarrow> r | None \<Rightarrow> r0) in
           if r1 = [] \<or> \<not> py_isspace (hd r1) then None
           else let r2 = py_lstrip r1 in
             (case (case strip_prefix ''in'' r2 of Some r \<Rightarrow> Some r
                    | None \<Rightarrow> strip_prefix ''after'' r2) of
                None \<Rightarrow> None
              | Some r3 \<Rightarrow>
                  (case span_number (py_lstrip r3) of
                     None \<Rightarrow> None
                   | Some (num, rest) \<Rightarrow> Some (num, first_unit ALL_UNITS (py_lstrip rest))))))"

text \<open>\<open>"retryDelay"\s*:\s*"NUM(ms|s|m|h)?"\<close> at the front of lower-cased text.\<close>

definition match_retry_delay :: "string \<Rightarrow> (string \<times> string option) option" where
  "match_retry_delay s =
     (case strip_prefix (CHR 0x22 # ''retrydelay'' @ [CHR 0x22]) s of
        None \<Rightarrow> None
      | Some r0 \<Rightarrow>
          (case strip_prefix '':'' (py_lstrip r0) of
             None \<Rightarrow> None
           | Some r1 \<Rightarrow>
               (case strip_prefix [CHR 0x22] (py_lstrip r1) of
                  None \<Rightarrow> None
                | Some r2 \<Rightarrow>
                    (case span_number r2 of
                       None \<Rightarrow> None
                     | Some (num, rest) \<Rightarrow>
                         first_some (\<lambda>u. if prefix (u @ [CHR 0x22]) rest
                                         then Some (num, if u = [] then None else Some u) else None)
                           [''ms'', ''s'', ''m'', ''h'', []]))))"

definition retry_delay_hint_seconds :: "(py \<Rightarrow> string) \<Rightarrow> rat option \<Rightarrow> string \<Rightarrow> rat option" where
  "retry_delay_hint_seconds other max_seconds text =
     first_some (\<lambda>pat. case search_first pat (py_lower text) of
                         None \<Rightarrow> None
                       | Some (num, unit) \<Rightarrow>
                           coerce_retry_delay_seconds other max_seconds
                             (PStr (num @ (case unit of None \<Rightarrow> ''s'' | Some u \<Rightarrow> u))))
       [match_retry_in, match_retry_delay]"

definition retry_delay_hint :: "(py \<Rightarrow> string) \<Rightarrow> rat option \<Rightarrow> exn \<Rightarrow> rat option \<times> string" where
  "retry_delay_hint other max_seconds e =
     (case first_some (\<lambda>a. coerce_retry_delay_seconds other max_seconds (py_getattr e a))
             [''retry_after'', ''retry_after_seconds'', ''retry_after_s'', ''retry_delay''] of
        Some d \<Rightarrow> (Some d, ''structured'')
      | None \<Rightarrow>
          (let headers = py_get (py_getattr e ''response'') ''headers'' in
           case coerce_retry_delay_seconds other max_seconds
                  (py_or (py_get headers ''retry-after'') (py_get headers ''Retry-After'')) of
             Some d \<Rightarrow> (Some d, ''structured'')
           | None \<Rightarrow>
               (case retry_delay_hint_seconds other max_seconds (exc_text e) of
                  Some d \<Rightarrow> (Some d, ''parsed'')
                | None \<Rightarrow> (None, ''none''))))"

definition max_in_call_retry_delay_seconds ::
  "(string \<Rightarrow> rat option) \<Rightarrow> (string \<Rightarrow> string option) \<Rightarrow> rat" where
  "max_in_call_retry_delay_seconds parse_float env =
     (case env ''LLM_CLIENT_MAX_IN_CALL_RETRY_DELAY_S'' of
        None \<Rightarrow> 120
      | Some raw \<Rightarrow>
          (if py_strip raw = [] then 120
           else case parse_float raw of
                  None \<Rightarrow> 120
                | Some v \<Rightarrow> if v \<le> 0 then 120 else v))"

section \<open>Retryability\<close>

text \<open>
  The surroundings of \<open>_is_retryable\<close>: what litellm exports, the text of opaque values,
  \<open>float\<close> on strings and the environment.
\<close>

record retry_env =
  re_litellm :: "string list option"
  re_other :: "py \<Rightarrow> string"
  re_parse_float :: "string \<Rightarrow> rat option"
  re_env :: "string \<Rightarrow> string option"

text \<open>The branch for rate-limit errors.\<close>

definition rate_limit_retryable :: "retry_env \<Rightarrow> exn \<Rightarrow> bool" where
  "rate_limit_retryable R e =
     (let error_str = py_lower (exc_text e);
          quota = py_any_in NON_RETRYABLE_PATTERNS error_str in
      case fst (retry_delay_hint (re_other R) None e) of
        Some d \<Rightarrow> (if quota then d \<le> max_in_call_retry_delay_seconds (re_parse_float R) (re_env R)
                   else True)
      | None \<Rightarrow> \<not> quota)"

text \<open>The block under \<open>import litellm\<close>: \<open>None\<close> falls through to string matching.\<close>

definition retryable_litellm :: "retry_env \<Rightarrow> string list \<Rightarrow> exn \<Rightarrow> bool option" where
  "retryable_litellm R lt e =
     (if isinstance_any e (litellm_error_types lt
           [''AuthenticationError'', ''PermissionDeniedError'', ''BudgetExceededError'',
            ''ContentPolicyViolationError'', ''NotFoundError'']) then Some False
      else if is_rate_limit_error (re_litellm R) e then Some (rate_limit_retryable R e)
      else if isinstance_any e (litellm_error_types lt [''JSONSchemaValidationError'']) then Some True
      else if isinstance_any e (litellm_error_types lt
           [''InternalServerError'', ''ServiceUnavailableError'', ''APIConnectionError'',
            ''BadGatewayError'']) then Some True
      else None)"

definition retryable_text :: "string list option \<Rightarrow> exn \<Rightarrow> bool" where
  "retryable_text extra e =
     (let error_str = py_lower (error_text e) in
      if py_any_in NON_RETRYABLE_PATTERNS error_str then False
      else py_any_in (RETRYABLE_PATTERNS @ (case extra of None \<Rightarrow> [] | Some ps \<Rightarrow> map py_lower ps))
             error_str)"

definition is_retryable :: "retry_env \<Rightarrow> string list option \<Rightarrow> exn \<Rightarrow> bool" where
  "is_retryable R extra e =
     (if py_isinstance e (LlmClass LLMEmptyResponseError) then py_truthy (py_getattr e ''retryable'')
      else if py_isinstance e (LlmClass LLMProviderResponseError) then True
      else if py_isinstance e (PyClass ''TimeoutError'') then True
      else if py_isinstance e (PyClass ''RuntimeError'') then False
      else case (case re_litellm R of None \<Rightarrow> None | Some lt \<Rightarrow> retryable_litellm R lt e) of
             Some b \<Rightarrow> b
           | None \<Rightarrow> retryable_text extra e)"

section \<open>Backoff\<close>

text \<open>The jitter is the number \<open>random.uniform\<close> returned.\<close>

definition exponential_backoff :: "rat \<Rightarrow> nat \<Rightarrow> rat \<Rightarrow> rat \<Rightarrow> rat" where
  "exponential_backoff jitter attempt base_delay max_delay =
     min (base_delay * 2 ^ attempt * jitter) max_delay"

definition linear_backoff :: "rat \<Rightarrow> nat \<Rightarrow> rat \<Rightarrow> rat \<Rightarrow> rat" where
  "linear_backoff jitter attempt base_delay max_delay =
     min (base_delay * (of_nat attempt + 1) * jitter) max_delay"

definition fixed_backoff :: "nat \<Rightarrow> rat \<Rightarrow> rat \<Rightarrow> rat" where
  "fixed_backoff attempt base_delay max_delay = min base_delay max_delay"

section \<open>Policies\<close>

text \<open>\<open>on_retry\<close> is kept as whether a callback is installed.\<close>

record retry_policy =
  max_retries :: int
  base_delay :: rat
  max_delay :: rat
  retry_on :: "string list option"
  on_retry :: bool
  backoff :: "(nat \<Rightarrow> rat \<Rightarrow> rat \<Rightarrow> rat) option"
  should_retry :: "(exn \<Rightarrow> bool) option"

definition effective_retry ::
  "retry_policy option \<Rightarrow> int \<Rightarrow> rat \<Rightarrow> rat \<Rightarrow> string list option \<Rightarrow> bool \<Rightarrow> retry_policy" where
  "effective_retry retry num_retries bd md ro onr =
     (case retry of
        Some p \<Rightarrow> p
      | None \<Rightarrow> \<lparr>max_retries = num_retries, base_delay = bd, max_delay = md, retry_on = ro,
                 on_retry = onr, backoff = None, should_retry = None\<rparr>)"

definition check_retryable :: "retry_env \<Rightarrow> retry_policy \<Rightarrow> exn \<Rightarrow> bool" where
  "check_retryable R p e =
     (case should_retry p of Some f \<Rightarrow> f e | None \<Rightarrow> is_retryable R (retry_on p) e)"

definition compute_retry_delay ::
  "retry_env \<Rightarrow> retry_policy \<Rightarrow> (nat \<Rightarrow> rat \<Rightarrow> rat \<Rightarrow> rat) \<Rightarrow> nat \<Rightarrow> exn \<Rightarrow> rat \<times> string" where
  "compute_retry_delay R p backoff_fn attempt e =
     (let delay = backoff_fn attempt (base_delay p) (max_delay p) in
      case retry_delay_hint (re_other R) (Some 600) e of
        (None, _) \<Rightarrow>
          (if py_isinstance e (LlmClass LLMProviderResponseError) then (delay, ''provider'')
           else (delay, ''none''))
      | (Some hint, source) \<Rightarrow> (max delay hint, source))"

section \<open>Lemmas\<close>

lemma first_some_Some: "first_some f xs = Some y \<Longrightarrow> \<exists>x \<in> set xs. f x = Some y"
  by (induction xs) (auto split: option.splits)

lemma cap_delay_bounds:
  assumes "cap_delay ms v = Some d"
  shows "(case ms of None \<Rightarrow> True | Some m \<Rightarrow> d \<le> m)" and "(\<And>m. ms = Some m \<Longrightarrow> 0 < m) \<Longrightarrow> 0 < d"
  using assms by (auto simp: cap_delay_def split: if_splits option.splits)

lemma coerce_is_cap:
  assumes "coerce_retry_delay_seconds other ms raw = Some d"
  shows "\<exists>v. cap_delay ms v = Some d"
  using assms by (auto simp: coerce_retry_delay_seconds_def Let_def split: py.splits if_splits option.splits)

lemma hint_seconds_is_cap:
  "retry_delay_hint_seconds other ms t = Some d \<Longrightarrow> \<exists>v. cap_delay ms v = Some d"
  unfolding retry_delay_hint_seconds_def
  by (drule first_some_Some) (auto split: option.splits prod.splits dest: coerce_is_cap)

lemma hint_is_cap:
  assumes "retry_delay_hint other ms e = (Some d, src)"
  shows "\<exists>v. cap_delay ms v = Some d"
  using assms unfolding retry_delay_hint_def
  by (auto simp: Let_def split: option.splits
      dest!: first_some_Some dest: coerce_is_cap hint_seconds_is_cap)

lemma hint_bounds:
  assumes "retry_delay_hint other (Some m) e = (Some d, src)" and "0 < m"
  shows "0 < d" and "d \<le> m"
proof -
  obtain v where v: "cap_delay (Some m) v = Some d"
    using hint_is_cap [OF assms(1)] by blast
  show "0 < d" using cap_delay_bounds(2) [OF v] assms(2) by simp
  show "d \<le> m" using cap_delay_bounds(1) [OF v] by simp
qed

lemma hint_source:
  assumes "retry_delay_hint other ms e = (h, src)"
  shows "h = None \<longleftrightarrow> src = ''none''" and "h \<noteq> None \<Longrightarrow> src = ''structured'' \<or> src = ''parsed''"
  using assms unfolding retry_delay_hint_def by (auto simp: Let_def split: option.splits)

subsection \<open>Decimal digits\<close>

lemma digit_char_cases:
  assumes "d < 10" shows "py_isdigit (digit_char d)" and "digit_val (digit_char d) = d"
proof -
  have d: "d = 0 \<or> d = 1 \<or> d = 2 \<or> d = 3 \<or> d = 4 \<or> d = 5 \<or> d = 6 \<or> d = 7 \<or> d = 8 \<or> d = 9"
    using assms by presburger
  then show "py_isdigit (digit_char d)"
    by (elim disjE) (simp_all add: py_isdigit_def digit_char_def)
  from d show "digit_val (digit_char d) = d"
    by (elim disjE) (simp_all add: digit_val_def digit_char_def)
qed

lemma digits_nat_snoc: "digits_nat (s @ [c]) = 10 * digits_nat s + digit_val c"
  by (simp add: digits_nat_def)

lemma nat_digits_digits: "list_all py_isdigit (nat_digits n) \<and> nat_digits n \<noteq> [] \<and> digits_nat (nat_digits n) = n"
proof (induction n rule: nat_digits.induct)
  case (1 n)
  show ?case
  proof (cases "n < 10")
    case True
    then show ?thesis
      by (simp add: nat_digits.simps [of n] digit_char_cases digits_nat_def)
  next
    case False
    with 1 show ?thesis
      by (simp add: nat_digits.simps [of n] digit_char_cases digits_nat_snoc)
  qed
qed

lemma takeWhile_digits:
  assumes "list_all py_isdigit s" and "u = [] \<or> \<not> py_isdigit (hd u)"
  shows "takeWhile py_isdigit (s @ u) = s" and "dropWhile py_isdigit (s @ u) = u"
  using assms by (induction s) (auto, (cases u; auto)+)

lemma digit_not_space: "py_isdigit c \<Longrightarrow> \<not> py_isspace c"
  by (auto simp: py_isdigit_def py_isspace_def)

lemma unit_facts:
  assumes "u \<in> set ALL_UNITS"
  shows "u \<noteq> []" "py_lower u = u" "\<not> py_isspace (hd u)" "\<not> py_isspace (last u)" "\<not> py_isdigit (hd u)"
    "hd u \<noteq> CHR ''.''"
proof -
  have "list_all (\<lambda>u. u \<noteq> [] \<and> py_lower u = u \<and> \<not> py_isspace (hd u) \<and> \<not> py_isspace (last u) \<and>
      \<not> py_isdigit (hd u) \<and> hd u \<noteq> CHR ''.'') ALL_UNITS"
    by code_simp
  then have "u \<noteq> [] \<and> py_lower u = u \<and> \<not> py_isspace (hd u) \<and> \<not> py_isspace (last u) \<and>
      \<not> py_isdigit (hd u) \<and> hd u \<noteq> CHR ''.''"
    using assms unfolding list_all_iff by blast
  then show "u \<noteq> []" "py_lower u = u" "\<not> py_isspace (hd u)" "\<not> py_isspace (last u)"
    "\<not> py_isdigit (hd u)" "hd u \<noteq> CHR ''.''" by blast+
qed

lemma span_number_digits:
  assumes "u \<in> set ALL_UNITS"
  shows "span_number (nat_digits n @ u) = Some (nat_digits n, u)"
proof -
  note d = nat_digits_digits [of n]
  obtain c v where u: "u = c # v" and c: "c \<noteq> CHR ''.''" using unit_facts [OF assms] by (cases u) auto
  have "takeWhile py_isdigit (nat_digits n @ u) = nat_digits n"
    and "dropWhile py_isdigit (nat_digits n @ u) = u"
    using takeWhile_digits d unit_facts [OF assms] by blast+
  with d u c show ?thesis by (simp add: span_number_def Let_def)
qed

lemma number_value_digits: "number_value (nat_digits n) = of_nat n"
proof -
  note d = nat_digits_digits [of n]
  have "takeWhile py_isdigit (nat_digits n) = nat_digits n"
    and "dropWhile py_isdigit (nat_digits n) = []"
    using takeWhile_digits [of "nat_digits n" "[]"] d by simp_all
  then have "number_value (nat_digits n) = of_nat (digits_nat (nat_digits n)) + of_nat (digits_nat []) / 10 ^ 0"
    unfolding number_value_def Let_def by (simp only: drop_Nil list.size)
  with d show ?thesis by (simp add: digits_nat_def [of "[]"])
qed

lemma strip_digits_unit:
  assumes "u \<in> set ALL_UNITS" shows "py_strip (nat_digits n @ u) = nat_digits n @ u"
proof (rule py_strip_self)
  have d: "list_all py_isdigit (nat_digits n)" "nat_digits n \<noteq> []"
    using nat_digits_digits [of n] by auto
  then show "nat_digits n @ u \<noteq> []" by simp
  from d have "py_isdigit (hd (nat_digits n))" by (cases "nat_digits n") auto
  with d show "\<not> py_isspace (hd (nat_digits n @ u))" using digit_not_space by simp
  show "\<not> py_isspace (last (nat_digits n @ u))" using unit_facts [OF assms] by simp
qed

lemma quota_in_raw_text:
  assumes "py_strip (exc_text e) \<noteq> []" and "py_any_in ps (py_lower (error_text e))"
  shows "py_any_in ps (py_lower (exc_text e))"
  using assms by (auto simp: error_text_def Let_def py_any_in_iff dest: py_contains_strip_lower)

section \<open>Properties\<close>

text \<open>
  C28. The delay before a retry is never below the policy's backoff, never below the provider's
  own hint, and exceeds the backoff only up to the 600-second bound on hints; the source is
  "structured" or "parsed" exactly when a hint was found.
\<close>

theorem compute_retry_delay_bounds:
  fixes R :: retry_env and p :: retry_policy
  defines "b \<equiv> \<lambda>f n. f n (base_delay p) (max_delay p)"
  assumes "compute_retry_delay R p f n e = (d, src)"
  shows "b f n \<le> d \<and> d \<le> max (b f n) 600 \<and>
    (case fst (retry_delay_hint (re_other R) (Some 600) e) of
       Some h \<Rightarrow> h \<le> d \<and> src \<in> {''structured'', ''parsed''}
     | None \<Rightarrow> d = b f n \<and> src \<in> {''provider'', ''none''})"
proof -
  obtain h s where h: "retry_delay_hint (re_other R) (Some 600) e = (h, s)"
    by fastforce
  show ?thesis
  proof (cases h)
    case None
    with assms(2) h show ?thesis
      by (auto simp: b_def compute_retry_delay_def Let_def split: if_splits)
  next
    case (Some x)
    with h have "x \<le> 600" using hint_bounds(2) [of "re_other R" 600 e x s] by simp
    with assms(2) h Some hint_source(2) [OF h] show ?thesis
      by (auto simp: b_def compute_retry_delay_def)
  qed
qed

text \<open>Witness of C4: a 429 with a 30 second hint against a backoff of one second.\<close>

theorem compute_retry_delay_bounds_witness:
  "let R = \<lparr>re_litellm = None, re_other = (\<lambda>_. []), re_parse_float = (\<lambda>_. None), re_env = (\<lambda>_. None)\<rparr>;
       p = \<lparr>max_retries = 2, base_delay = 1, max_delay = 30, retry_on = None, on_retry = False,
             backoff = None, should_retry = None\<rparr>;
       e = Exn ''APIError'' [] ''429: retry in 30 s'' [] None [] None
   in compute_retry_delay R p fixed_backoff 0 e = (30, ''parsed'') \<and> (1::rat) \<le> 30"
proof -
  let ?R = "\<lparr>re_litellm = None, re_other = (\<lambda>_. []), re_parse_float = (\<lambda>_. None), re_env = (\<lambda>_. None)\<rparr> :: retry_env"
  let ?p = "\<lparr>max_retries = 2, base_delay = 1, max_delay = 30, retry_on = None, on_retry = False,
             backoff = None, should_retry = None\<rparr> :: retry_policy"
  let ?e = "Exn ''APIError'' [] ''429: retry in 30 s'' [] None [] None"
  have c: "compute_retry_delay ?R ?p fixed_backoff 0 ?e = (30, ''parsed'')" by code_simp
  from compute_retry_delay_bounds [OF c] have "fixed_backoff 0 1 30 \<le> (30::rat)" by simp
  then have "(1::rat) \<le> 30" by (simp add: fixed_backoff_def)
  with c show ?thesis by (simp add: Let_def)
qed

text \<open>
  C7: c7. When an error whose message is not blank names quota or billing exhaustion is retried,
  exactly. An empty response is retried when its own \<open>retryable\<close> mark says so; a failed
  generation reported by the provider and a timeout always are. Any other such error is retried
  only when litellm is installed, the error is neither a \<open>RuntimeError\<close> nor one of
  litellm's permanent failures, and either it is a rate-limit error with a provider hint that is
  short enough to wait for within the call, or it is not a rate-limit error and has one of
  litellm's transient classes. In particular a quota error without a hint and outside the
  transient classes is never retried, and no extra pattern of the policy changes the answer.
\<close>

theorem quota_retried_iff:
  assumes "py_strip (exc_text e) \<noteq> []" and "py_any_in QUOTA_PATTERNS (py_lower (error_text e))"
  shows "is_retryable R extra e \<longleftrightarrow>
    (if py_isinstance e (LlmClass LLMEmptyResponseError) then py_truthy (py_getattr e ''retryable'')
     else py_isinstance e (LlmClass LLMProviderResponseError) \<or>
       py_isinstance e (PyClass ''TimeoutError'') \<or>
       (\<not> py_isinstance e (PyClass ''RuntimeError'') \<and>
        (\<exists>lt. re_litellm R = Some lt \<and>
          \<not> isinstance_any e (litellm_error_types lt
              [''AuthenticationError'', ''PermissionDeniedError'', ''BudgetExceededError'',
               ''ContentPolicyViolationError'', ''NotFoundError'']) \<and>
          (if is_rate_limit_error (Some lt) e
           then \<exists>d. fst (retry_delay_hint (re_other R) None e) = Some d \<and>
                  d \<le> max_in_call_retry_delay_seconds (re_parse_float R) (re_env R)
           else isinstance_any e (litellm_error_types lt
              [''JSONSchemaValidationError'', ''InternalServerError'', ''ServiceUnavailableError'',
               ''APIConnectionError'', ''BadGatewayError''])))))"
proof -
  have limited: "rate_limit_retryable R e \<longleftrightarrow>
      (\<exists>d. fst (retry_delay_hint (re_other R) None e) = Some d \<and>
         d \<le> max_in_call_retry_delay_seconds (re_parse_float R) (re_env R))"
    using quota_in_raw_text [OF assms]
    by (simp add: rate_limit_retryable_def Let_def NON_RETRYABLE_PATTERNS_def split: option.splits)
  have worded: "\<not> retryable_text extra e"
    using assms(2) by (simp add: retryable_text_def Let_def NON_RETRYABLE_PATTERNS_def)
  have transient: "isinstance_any e (litellm_error_types lt
          [''JSONSchemaValidationError'', ''InternalServerError'', ''ServiceUnavailableError'',
           ''APIConnectionError'', ''BadGatewayError'']) \<longleftrightarrow>
      isinstance_any e (litellm_error_types lt [''JSONSchemaValidationError'']) \<or>
      isinstance_any e (litellm_error_types lt [''InternalServerError'', ''ServiceUnavailableError'',
           ''APIConnectionError'', ''BadGatewayError''])" for lt
    unfolding litellm_types_iff by auto
  show ?thesis
    using limited worded transient
    by (auto simp: is_retryable_def retryable_litellm_def split: option.splits if_splits)
qed

theorem quota_retried_iff_witness:
  "let R = \<lparr>re_litellm = Some [''RateLimitError''], re_other = (\<lambda>_. []),
             re_parse_float = (\<lambda>_. None), re_env = (\<lambda>_. None)\<rparr>;
       e = \<lambda>msg. Exn ''RateLimitError'' [LitellmClass ''RateLimitError''] msg [] None [] None
   in \<not> is_retryable R (Some [''429'']) (e ''429 quota exceeded'') \<and>
      is_retryable R None (e ''429 quota exceeded, retry in 30 s'')"
proof -
  let ?R = "\<lparr>re_litellm = Some [''RateLimitError''], re_other = (\<lambda>_. []),
             re_parse_float = (\<lambda>_. None), re_env = (\<lambda>_. None)\<rparr> :: retry_env"
  let ?e = "\<lambda>msg. Exn ''RateLimitError'' [LitellmClass ''RateLimitError''] msg [] None [] None"
  let ?q = "?e ''429 quota exceeded''" and ?h = "?e ''429 quota exceeded, retry in 30 s''"
  have "py_strip (exc_text ?q) \<noteq> []" "py_any_in QUOTA_PATTERNS (py_lower (error_text ?q))"
    "py_strip (exc_text ?h) \<noteq> []" "py_any_in QUOTA_PATTERNS (py_lower (error_text ?h))"
    by code_simp+
  note claim = quota_retried_iff [OF this(1,2)] quota_retried_iff [OF this(3,4)]
  have kinds: "\<not> py_isinstance (?e msg) (LlmClass LLMEmptyResponseError)"
    "\<not> py_isinstance (?e msg) (LlmClass LLMProviderResponseError)"
    "\<not> py_isinstance (?e msg) (PyClass ''TimeoutError'')"
    "\<not> py_isinstance (?e msg) (PyClass ''RuntimeError'')" for msg
    by (simp_all add: py_isinstance_def)
  have "is_rate_limit_error (Some [''RateLimitError'']) ?q"
    "fst (retry_delay_hint (\<lambda>_. []) None ?q) = None" by code_simp+
  with claim(1) [of ?R "Some [''429'']"] have "\<not> is_retryable ?R (Some [''429'']) ?q"
    by (simp add: kinds)
  moreover have "is_rate_limit_error (Some [''RateLimitError'']) ?h"
    "fst (retry_delay_hint (\<lambda>_. []) None ?h) = Some 30"
    "max_in_call_retry_delay_seconds (\<lambda>_. None) (\<lambda>_. None) = 120"
    "\<not> isinstance_any ?h (litellm_error_types [''RateLimitError'']
         [''AuthenticationError'', ''PermissionDeniedError'', ''BudgetExceededError'',
          ''ContentPolicyViolationError'', ''NotFoundError''])" by code_simp+
  with claim(2) [of ?R None] have "is_retryable ?R None ?h" by (simp add: kinds)
  ultimately show ?thesis by (simp add: Let_def)
qed

text \<open>
  C30. Parsing inverts printing of a delay: the decimal text of a number followed by any accepted
  unit is read back as that number of the unit, in seconds, cut to the given bound.
\<close>

theorem retry_delay_roundtrip:
  assumes "u \<in> set ALL_UNITS"
  shows "coerce_retry_delay_seconds other ms (PStr (nat_digits n @ u)) =
           cap_delay ms (unit_scale u (of_nat n))"
proof -
  have "py_lstrip u = u" using unit_facts [OF assms] by (simp only: py_lstrip_def dropWhile_eq_self simp_thms)
  with unit_facts [OF assms] span_number_digits [OF assms, of n] number_value_digits [of n] assms
  show ?thesis
    by (simp add: coerce_retry_delay_seconds_def strip_digits_unit fullmatch_delay_def Let_def)
qed

theorem retry_delay_roundtrip_witness:
  "coerce_retry_delay_seconds (\<lambda>_. []) (Some 600) (PStr ''25minutes'') = Some 600"
proof -
  have "''minutes'' \<in> set ALL_UNITS" by code_simp
  from retry_delay_roundtrip [OF this, of "\<lambda>_. []" "Some 600" 25]
  have "coerce_retry_delay_seconds (\<lambda>_. []) (Some 600) (PStr (nat_digits 25 @ ''minutes'')) =
     cap_delay (Some 600) (unit_scale ''minutes'' 25)" by simp
  moreover have "nat_digits 25 @ ''minutes'' = ''25minutes''" by code_simp
  moreover have "cap_delay (Some 600) (unit_scale ''minutes'' 25) = Some 600" by code_simp
  ultimately show ?thesis by simp
qed

end
