(* ===== verification/Execution_Kernel.thy ===== *)
theory Execution_Kernel
  imports Retry
begin

text \<open>
  The retry loop and the fallback chain of \<open>llm_client/execution/execution_kernel.py\<close>.

  The callables the loops take are functions on a state of any type \<open>'s\<close> that stands for
  everything they touch (provider, clock, registries): \<open>invoke\<close> returns a result or an
  exception, the clock returns its reading, the callbacks return the changed state. A callback
  that is \<open>None\<close> in the code is \<open>None\<close> here. What the loops do is also written to a log of
  events, in order.
\<close>

section \<open>The retry loop\<close>

datatype disposition = DRetry | DExhausted

datatype kernel_event =
    KInvoke nat
  | KBackoff nat "rat option" rat rat
  | KWarn string
  | KTry nat string

record ('s, 'a) retry_ctx =
  rc_invoke :: "nat \<Rightarrow> 's \<Rightarrow> (exn + 'a) \<times> 's"
  rc_should_retry :: "exn \<Rightarrow> bool"
  rc_compute_delay :: "nat \<Rightarrow> exn \<Rightarrow> rat \<times> string"
  rc_cooldown :: "exn \<Rightarrow> 's \<Rightarrow> rat \<times> 's"
  rc_on_error :: "(exn \<Rightarrow> nat \<Rightarrow> 's \<Rightarrow> 's) option"
  rc_on_retry :: "(nat \<Rightarrow> exn \<Rightarrow> rat \<Rightarrow> 's \<Rightarrow> 's) option"
  rc_on_decision :: "(nat \<Rightarrow> exn \<Rightarrow> disposition \<Rightarrow> 's \<Rightarrow> 's) option"
  rc_hook :: "(exn \<Rightarrow> nat \<Rightarrow> int \<Rightarrow> 's \<Rightarrow> bool \<times> 's) option"
  rc_deadline :: "rat option"
  rc_clock :: "'s \<Rightarrow> rat \<times> 's"
  rc_sleep :: "rat \<Rightarrow> 's \<Rightarrow> 's"
  rc_summary :: "exn \<Rightarrow> string"

definition LOGICAL_DEADLINE_MESSAGE :: string where
  "LOGICAL_DEADLINE_MESSAGE = ''structured logical call deadline elapsed''"

definition logical_deadline_error :: "exn option \<Rightarrow> exn" where
  "logical_deadline_error orig = new_llm_error LLMLogicalDeadlineError LOGICAL_DEADLINE_MESSAGE orig"

definition runtime_error :: "string \<Rightarrow> exn" where
  "runtime_error msg = Exn ''RuntimeError'' [PyClass ''RuntimeError''] msg [] None [] None"

text \<open>\<open>deadline_at is not None and clock() + slack >= deadline_at\<close>, with the reading.\<close>

definition past_deadline ::
  "rat option \<Rightarrow> ('s \<Rightarrow> rat \<times> 's) \<Rightarrow> rat \<Rightarrow> 's \<Rightarrow> bool \<times> rat option \<times> 's" where
  "past_deadline deadline clock slack s =
     (case deadline of
        None \<Rightarrow> (False, None, s)
      | Some t \<Rightarrow> (let (now, s') = clock s in (t \<le> now + slack, Some now, s')))"

definition decide :: "('s, 'a) retry_ctx \<Rightarrow> nat \<Rightarrow> exn \<Rightarrow> disposition \<Rightarrow> 's \<Rightarrow> 's" where
  "decide ctx attempt e d s =
     (case rc_on_decision ctx of None \<Rightarrow> s | Some f \<Rightarrow> f attempt e d s)"

definition retry_warning :: "('s, 'a) retry_ctx \<Rightarrow> string \<Rightarrow> int \<Rightarrow> nat \<Rightarrow> exn \<Rightarrow> string \<Rightarrow> string" where
  "retry_warning ctx model maxr attempt e source =
     ''RETRY '' @ py_int_str (int attempt + 1) @ ''/'' @ py_int_str (maxr + 1) @ '': '' @ model
       @ '' ('' @ rc_summary ctx e @ '') [retry_delay_source='' @ source @ '']''"

text \<open>How one iteration ends: \<open>return\<close>, \<open>raise\<close>, or the next iteration.\<close>

datatype 'a attempt_outcome = Returned 'a | Raised exn | Again

text \<open>The \<open>except Exception as exc\<close> block.\<close>

definition handle_error ::
  "('s, 'a) retry_ctx \<Rightarrow> string \<Rightarrow> int \<Rightarrow> nat \<Rightarrow> exn \<Rightarrow> 's \<Rightarrow> kernel_event list
    \<Rightarrow> 'a attempt_outcome \<times> 's \<times> kernel_event list" where
  "handle_error ctx model maxr attempt e s tr =
     (if py_isinstance e (LlmClass LLMLogicalDeadlineError) then (Raised e, s, tr)
      else
        let s1 = (case rc_on_error ctx of None \<Rightarrow> s | Some f \<Rightarrow> f e attempt s);
            (registered, s2) = rc_cooldown ctx e s1;
            (hooked, s3) = (case rc_hook ctx of None \<Rightarrow> (False, s2) | Some h \<Rightarrow> h e attempt maxr s2)
        in if hooked
           then let (late, now, s4) = past_deadline (rc_deadline ctx) (rc_clock ctx) 0 s3
                in if late
                   then (Raised (logical_deadline_error None), decide ctx attempt e DExhausted s4, tr)
                   else (Again, decide ctx attempt e DRetry s4, tr)
           else if \<not> rc_should_retry ctx e \<or> maxr \<le> int attempt
           then (Raised e, decide ctx attempt e DExhausted s3, tr)
           else
             let (delay, source) = rc_compute_delay ctx attempt e;
                 effective = max delay registered;
                 (late, now, s4) = past_deadline (rc_deadline ctx) (rc_clock ctx) effective s3
             in if late
                then (Raised (logical_deadline_error (Some e)), decide ctx attempt e DExhausted s4, tr)
                else
                  let sleep_delay = max 0 (effective - registered);
                      s5 = decide ctx attempt e DRetry s4;
                      s6 = (case rc_on_retry ctx of None \<Rightarrow> s5 | Some f \<Rightarrow> f attempt e effective s5);
                      s7 = (if 0 < sleep_delay then rc_sleep ctx sleep_delay s6 else s6)
                  in (Again, s7,
                      tr @ [KWarn (retry_warning ctx model maxr attempt e source),
                             KBackoff attempt now effective sleep_delay]))"

definition retry_attempt ::
  "('s, 'a) retry_ctx \<Rightarrow> string \<Rightarrow> int \<Rightarrow> nat \<Rightarrow> 's \<Rightarrow> kernel_event list
    \<Rightarrow> 'a attempt_outcome \<times> 's \<times> kernel_event list" where
  "retry_attempt ctx model maxr attempt s tr =
     (let (late, now, s1) = past_deadline (rc_deadline ctx) (rc_clock ctx) 0 s in
      if late then (Raised (logical_deadline_error None), s1, tr)
      else
        let (r, s2) = rc_invoke ctx attempt s1; tr2 = tr @ [KInvoke attempt] in
        case r of
          Inr v \<Rightarrow>
            (let (late', now', s3) = past_deadline (rc_deadline ctx) (rc_clock ctx) 0 s2 in
             if late' then (Raised (logical_deadline_error None), s3, tr2)
             else (Returned v, s3, tr2))
        | Inl e \<Rightarrow> handle_error ctx model maxr attempt e s2 tr2)"

text \<open>\<open>for attempt in range(max_retries + 1)\<close>: the first argument counts what is left.\<close>

fun retry_from ::
  "nat \<Rightarrow> ('s, 'a) retry_ctx \<Rightarrow> string \<Rightarrow> int \<Rightarrow> nat \<Rightarrow> 's \<Rightarrow> kernel_event list
    \<Rightarrow> (exn + 'a) \<times> 's \<times> kernel_event list" where
  "retry_from 0 ctx model maxr attempt s tr =
     (Inl (runtime_error ''run_sync_with_retry exhausted without returning''), s, tr)"
| "retry_from (Suc n) ctx model maxr attempt s tr =
     (case retry_attempt ctx model maxr attempt s tr of
        (Returned v, s', tr') \<Rightarrow> (Inr v, s', tr')
      | (Raised e, s', tr') \<Rightarrow> (Inl e, s', tr')
      | (Again, s', tr') \<Rightarrow> retry_from n ctx model maxr (Suc attempt) s' tr')"

definition run_sync_with_retry ::
  "('s, 'a) retry_ctx \<Rightarrow> string \<Rightarrow> int \<Rightarrow> 's \<Rightarrow> (exn + 'a) \<times> 's \<times> kernel_event list" where
  "run_sync_with_retry ctx model maxr s = retry_from (nat (maxr + 1)) ctx model maxr 0 s []"

section \<open>The fallback chain\<close>

text \<open>
  \<open>record_model_unavailability\<close> is the field \<open>fb_record\<close>: the model, reason and cooldown of
  the record it made. \<open>fb_warn\<close> says whether a warning sink was given; \<open>fb_num\<close> prints a float.
\<close>

record ('s, 'a) fallback_ctx =
  fb_execute :: "nat \<Rightarrow> string \<Rightarrow> 's \<Rightarrow> (exn + 'a) \<times> 's"
  fb_should_fallback :: "(exn \<Rightarrow> bool) option"
  fb_on_fallback :: "(string \<Rightarrow> exn \<Rightarrow> string \<Rightarrow> 's \<Rightarrow> 's) option"
  fb_record :: "string \<Rightarrow> exn \<Rightarrow> 's \<Rightarrow> (string \<times> string \<times> rat) option \<times> 's"
  fb_warn :: bool
  fb_num :: "rat \<Rightarrow> string"
  fb_deadline :: "rat option"
  fb_clock :: "'s \<Rightarrow> rat \<times> 's"

definition unavailable_warning ::
  "('s, 'a) fallback_ctx \<Rightarrow> (string \<times> string \<times> rat) option \<Rightarrow> kernel_event list" where
  "unavailable_warning ctx rec =
     (case rec of
        None \<Rightarrow> []
      | Some (m, reason, cooldown) \<Rightarrow>
          (if fb_warn ctx
           then [KWarn (''MODEL_UNAVAILABLE: '' @ m @ '' ('' @ reason @ '', cooldown_s=''
                         @ fb_num ctx cooldown @ '')'')]
           else []))"

definition fallback_warning :: "('s, 'a) fallback_ctx \<Rightarrow> string \<Rightarrow> string \<Rightarrow> exn \<Rightarrow> kernel_event list" where
  "fallback_warning ctx m next e =
     (if fb_warn ctx
      then [KWarn (''FALLBACK: '' @ m @ '' -> '' @ next @ '' ('' @ exc_name e @ '': ''
                    @ error_text e @ '')'')]
      else [])"

text \<open>
  One iteration of \<open>for model_idx, current_model in enumerate(models)\<close>; \<open>next\<close> is the model
  after \<open>m\<close>, \<open>None\<close> when \<open>model_idx\<close> is the last index.
\<close>

definition fallback_step ::
  "('s, 'a) fallback_ctx \<Rightarrow> nat \<Rightarrow> string \<Rightarrow> string option \<Rightarrow> 's \<Rightarrow> kernel_event list
    \<Rightarrow> 'a attempt_outcome \<times> 's \<times> kernel_event list" where
  "fallback_step ctx i m next s tr =
     (let (late, now, s1) = past_deadline (fb_deadline ctx) (fb_clock ctx) 0 s in
      if late then (Raised (logical_deadline_error None), s1, tr)
      else
        let (r, s2) = fb_execute ctx i m s1; tr2 = tr @ [KTry i m] in
        case r of
          Inr v \<Rightarrow> (Returned v, s2, tr2)
        | Inl e \<Rightarrow>
            (if py_isinstance e (LlmClass LLMLogicalDeadlineError) then (Raised e, s2, tr2)
             else if (case fb_should_fallback ctx of None \<Rightarrow> False | Some f \<Rightarrow> \<not> f e)
             then (Raised e, s2, tr2)
             else
               let (rec, s3) = fb_record ctx m e s2; tr3 = tr2 @ unavailable_warning ctx rec in
               case next of
                 None \<Rightarrow> (Raised e, s3, tr3)
               | Some nx \<Rightarrow>
                   (let (late', now', s4) = past_deadline (fb_deadline ctx) (fb_clock ctx) 0 s3 in
                    if late' then (Raised (logical_deadline_error (Some e)), s4, tr3)
                    else
                      let s5 = (case fb_on_fallback ctx of None \<Rightarrow> s4 | Some f \<Rightarrow> f m e nx s4)
                      in (Again, s5, tr3 @ fallback_warning ctx m nx e))))"

text \<open>
  The loop over what is left of \<open>models\<close>. The code after the loop re-raises \<open>last_error\<close>
  when there is one; the last iteration never continues, so that is reached with the empty
  chain only, where \<open>last_error\<close> is \<open>None\<close>.
\<close>

fun fallback_from ::
  "('s, 'a) fallback_ctx \<Rightarrow> nat \<Rightarrow> string list \<Rightarrow> 's \<Rightarrow> kernel_event list
    \<Rightarrow> (exn + 'a) \<times> 's \<times> kernel_event list" where
  "fallback_from ctx i [] s tr =
     (Inl (runtime_error ''run_sync_with_fallback received empty model chain''), s, tr)"
| "fallback_from ctx i (m # rest) s tr =
     (case fallback_step ctx i m (if rest = [] then None else Some (hd rest)) s tr of
        (Returned v, s', tr') \<Rightarrow> (Inr v, s', tr')
      | (Raised e, s', tr') \<Rightarrow> (Inl e, s', tr')
      | (Again, s', tr') \<Rightarrow> fallback_from ctx (Suc i) rest s' tr')"

definition run_sync_with_fallback ::
  "('s, 'a) fallback_ctx \<Rightarrow> string list \<Rightarrow> 's \<Rightarrow> (exn + 'a) \<times> 's \<times> kernel_event list" where
  "run_sync_with_fallback ctx models s = fallback_from ctx 0 models s []"

section \<open>Lemmas\<close>

definition invocations :: "kernel_event list \<Rightarrow> nat list" where
  "invocations tr = concat (map (\<lambda>ev. case ev of KInvoke k \<Rightarrow> [k] | _ \<Rightarrow> []) tr)"

definition tries :: "kernel_event list \<Rightarrow> (nat \<times> string) list" where
  "tries tr = concat (map (\<lambda>ev. case ev of KTry k m \<Rightarrow> [(k, m)] | _ \<Rightarrow> []) tr)"

lemma invocations_simps [simp]:
  "invocations [] = []" "invocations (xs @ ys) = invocations xs @ invocations ys"
  "invocations (KInvoke k # xs) = k # invocations xs" "invocations (KWarn w # xs) = invocations xs"
  "invocations (KBackoff k n d sl # xs) = invocations xs"
  by (simp_all add: invocations_def)

lemma tries_simps [simp]:
  "tries [] = []" "tries (xs @ ys) = tries xs @ tries ys" "tries (KTry k m # xs) = (k, m) # tries xs"
  "tries (unavailable_warning ctx rec) = []" "tries (fallback_warning ctx m nx e) = []"
  by (auto simp: tries_def unavailable_warning_def fallback_warning_def split: option.splits)

lemma past_deadline_late:
  "past_deadline dl clock d s = (True, now, s') \<Longrightarrow> dl \<noteq> None"
  by (auto simp: past_deadline_def split: option.splits)

lemma handle_error_log:
  assumes "handle_error ctx model maxr attempt e s tr = (out, s', tr')"
  shows "invocations tr' = invocations tr"
    and "out = Raised e' \<Longrightarrow> e' = e \<or> rc_deadline ctx \<noteq> None \<and>
           (e' = logical_deadline_error None \<or> e' = logical_deadline_error (Some e))"
    and "out \<noteq> Returned v"
    and "out = Again \<Longrightarrow> rc_hook ctx = None \<Longrightarrow> int attempt < maxr"
  using assms unfolding handle_error_def
  by (auto simp: Let_def past_deadline_def split: prod.splits if_splits option.splits)

lemma retry_attempt_log:
  assumes "retry_attempt ctx model maxr attempt s tr = (out, s', tr')"
  shows "invocations tr' = invocations tr \<or> invocations tr' = invocations tr @ [attempt]"
    and "out = Again \<Longrightarrow> invocations tr' = invocations tr @ [attempt]"
    and "out = Returned v \<Longrightarrow>
           invocations tr' = invocations tr @ [attempt] \<and> (\<exists>t. fst (rc_invoke ctx attempt t) = Inr v)"
    and "out = Raised e \<Longrightarrow> (rc_deadline ctx \<noteq> None \<and> e = logical_deadline_error None) \<or>
           (invocations tr' = invocations tr @ [attempt] \<and>
            (\<exists>t x. fst (rc_invoke ctx attempt t) = Inl x \<and>
               (e = x \<or> rc_deadline ctx \<noteq> None \<and> e = logical_deadline_error (Some x))))"
    and "out = Again \<Longrightarrow> rc_hook ctx = None \<Longrightarrow> int attempt < maxr"
proof -
  obtain late now s1 where d: "past_deadline (rc_deadline ctx) (rc_clock ctx) 0 s = (late, now, s1)"
    by (cases "past_deadline (rc_deadline ctx) (rc_clock ctx) 0 s") auto
  have late: "late \<Longrightarrow> rc_deadline ctx \<noteq> None" using d past_deadline_late by fastforce
  obtain r s2 where r: "rc_invoke ctx attempt s1 = (r, s2)" by fastforce
  have inv: "fst (rc_invoke ctx attempt s1) = r" using r by simp
  have late2: "past_deadline (rc_deadline ctx) (rc_clock ctx) 0 t = (True, n, t') \<Longrightarrow>
      rc_deadline ctx \<noteq> None" for t n t' by (rule past_deadline_late)
  note unf = assms [unfolded retry_attempt_def d r Let_def prod.case]
  show "invocations tr' = invocations tr \<or> invocations tr' = invocations tr @ [attempt]"
    using unf by (auto split: if_splits sum.splits prod.splits dest: handle_error_log(1))
  show "out = Again \<Longrightarrow> invocations tr' = invocations tr @ [attempt]"
    using unf by (auto split: if_splits sum.splits prod.splits dest: handle_error_log(1))
  show "out = Returned v \<Longrightarrow>
           invocations tr' = invocations tr @ [attempt] \<and> (\<exists>t. fst (rc_invoke ctx attempt t) = Inr v)"
    using unf inv by (auto split: if_splits sum.splits prod.splits dest: handle_error_log(3))
  show "out = Raised e \<Longrightarrow> (rc_deadline ctx \<noteq> None \<and> e = logical_deadline_error None) \<or>
           (invocations tr' = invocations tr @ [attempt] \<and>
            (\<exists>t x. fst (rc_invoke ctx attempt t) = Inl x \<and>
               (e = x \<or> rc_deadline ctx \<noteq> None \<and> e = logical_deadline_error (Some x))))"
  proof (cases r)
    case (Inl x)
    assume out: "out = Raised e"
    show ?thesis
    proof (cases late)
      case True
      with unf out late show ?thesis by simp
    next
      case False
      with unf Inl have h: "handle_error ctx model maxr attempt x s2 (tr @ [KInvoke attempt])
          = (out, s', tr')" by simp
      from handle_error_log(2) [OF h out] handle_error_log(1) [OF h] inv Inl show ?thesis by auto
    qed
  next
    case (Inr v)
    assume "out = Raised e"
    with unf Inr late late2 show ?thesis by (auto split: if_splits prod.splits)
  qed
  show "out = Again \<Longrightarrow> rc_hook ctx = None \<Longrightarrow> int attempt < maxr"
    using unf by (auto split: if_splits sum.splits prod.splits dest: handle_error_log(4))
qed

lemma retry_from_log:
  assumes "retry_from n ctx model maxr a s tr = (r, s', tr')"
  shows "\<exists>k \<le> n. invocations tr' = invocations tr @ [a..<a + k] \<and>
     (\<forall>v. r = Inr v \<longrightarrow> 0 < k \<and> (\<exists>t. fst (rc_invoke ctx (a + k - 1) t) = Inr v))"
  using assms
proof (induction n ctx model maxr a s tr rule: retry_from.induct)
  case (1 ctx model maxr attempt s tr)
  then show ?case by auto
next
  case (2 n ctx model maxr a s tr)
  obtain out s1 tr1 where step: "retry_attempt ctx model maxr a s tr = (out, s1, tr1)"
    by (cases "retry_attempt ctx model maxr a s tr") auto
  note facts = retry_attempt_log [OF step]
  show ?case
  proof (cases out)
    case (Returned v)
    with facts(3) step 2(2) show ?thesis by (intro exI [of _ 1]) auto
  next
    case (Raised e)
    with step 2(2) have "r = Inl e" and tr: "tr' = tr1" by simp_all
    from facts(1) tr have "invocations tr' = invocations tr @ [a..<a + 0]
        \<or> invocations tr' = invocations tr @ [a..<a + 1]" by auto
    with \<open>r = Inl e\<close> show ?thesis
      by (metis One_nat_def le_numeral_extra(3) Suc_le_mono sum.distinct(1) zero_le)
  next
    case Again
    with step 2(2) have "retry_from n ctx model maxr (Suc a) s1 tr1 = (r, s', tr')" by simp
    from 2(1) [OF step [symmetric] Again refl] this
    obtain k where "k \<le> n" and k: "invocations tr' = invocations tr1 @ [Suc a..<Suc a + k]"
      "\<forall>v. r = Inr v \<longrightarrow> 0 < k \<and> (\<exists>t. fst (rc_invoke ctx (Suc a + k - 1) t) = Inr v)" by auto
    moreover have "invocations tr1 = invocations tr @ [a]" using facts(2) Again by simp
    ultimately show ?thesis
      by (intro exI [of _ "Suc k"]) (auto simp: upt_conv_Cons)
  qed
qed

text \<open>Where the error a run raised after the invocations \<open>0, ..., k - 1\<close> comes from.\<close>

definition retry_error_source :: "('s, 'a) retry_ctx \<Rightarrow> int \<Rightarrow> nat \<Rightarrow> exn \<Rightarrow> bool" where
  "retry_error_source ctx maxr k e \<longleftrightarrow>
     (0 < k \<and> (\<exists>t. fst (rc_invoke ctx (k - 1) t) = Inl e)) \<or>
     (rc_deadline ctx \<noteq> None \<and>
      (e = logical_deadline_error None \<or>
       (0 < k \<and> (\<exists>t x. fst (rc_invoke ctx (k - 1) t) = Inl x \<and> e = logical_deadline_error (Some x))))) \<or>
     (e = runtime_error ''run_sync_with_retry exhausted without returning'' \<and>
      k = nat (maxr + 1) \<and> (maxr < 0 \<or> rc_hook ctx \<noteq> None))"

lemma retry_from_error:
  assumes "retry_from n ctx model maxr a s tr = (Inl e, s', tr')"
    and "int a + int n = max 0 (maxr + 1)" and "n = 0 \<Longrightarrow> maxr < 0 \<or> rc_hook ctx \<noteq> None"
  shows "\<exists>k \<le> n. invocations tr' = invocations tr @ [a..<a + k] \<and>
     ((0 < k \<and> (\<exists>t. fst (rc_invoke ctx (a + k - 1) t) = Inl e)) \<or>
      (rc_deadline ctx \<noteq> None \<and>
       (e = logical_deadline_error None \<or>
        (0 < k \<and> (\<exists>t x. fst (rc_invoke ctx (a + k - 1) t) = Inl x \<and>
           e = logical_deadline_error (Some x))))) \<or>
      (e = runtime_error ''run_sync_with_retry exhausted without returning'' \<and> k = n \<and>
       (maxr < 0 \<or> rc_hook ctx \<noteq> None)))"
  using assms
proof (induction n ctx model maxr a s tr rule: retry_from.induct)
  case (2 n ctx model maxr a s tr)
  obtain out s1 tr1 where step: "retry_attempt ctx model maxr a s tr = (out, s1, tr1)"
    by (cases "retry_attempt ctx model maxr a s tr") auto
  note facts = retry_attempt_log [OF step]
  show ?case
  proof (cases out)
    case (Returned v)
    with step 2(2) show ?thesis by simp
  next
    case (Raised x)
    with step 2(2) have x: "x = e" and tr: "tr' = tr1" by simp_all
    show ?thesis
    proof (cases "invocations tr1 = invocations tr @ [a]")
      case True
      with facts(4) [OF Raised] x tr show ?thesis by (intro exI [of _ 1]) auto
    next
      case False
      with facts(4) [OF Raised] facts(1) x tr show ?thesis by (intro exI [of _ 0]) auto
    qed
  next
    case Again
    have "n = 0 \<Longrightarrow> maxr < 0 \<or> rc_hook ctx \<noteq> None" using facts(5) [OF Again] 2(3) by auto
    moreover have "int (Suc a) + int n = max 0 (maxr + 1)" using 2(3) by simp
    moreover from Again step 2(2) have "retry_from n ctx model maxr (Suc a) s1 tr1 = (Inl e, s', tr')"
      by simp
    ultimately obtain k where "k \<le> n" and
      k: "invocations tr' = invocations tr1 @ [Suc a..<Suc a + k]" and
      src: "(0 < k \<and> (\<exists>t. fst (rc_invoke ctx (Suc a + k - 1) t) = Inl e)) \<or>
      (rc_deadline ctx \<noteq> None \<and>
       (e = logical_deadline_error None \<or>
        (0 < k \<and> (\<exists>t x. fst (rc_invoke ctx (Suc a + k - 1) t) = Inl x \<and>
           e = logical_deadline_error (Some x))))) \<or>
      (e = runtime_error ''run_sync_with_retry exhausted without returning'' \<and> k = n \<and>
       (maxr < 0 \<or> rc_hook ctx \<noteq> None))"
      using 2(1) [OF step [symmetric] Again refl] by blast
    moreover have "invocations tr1 = invocations tr @ [a]" using facts(2) Again by simp
    ultimately show ?thesis by (intro exI [of _ "Suc k"]) (auto simp: upt_conv_Cons)
  qed
qed auto

text \<open>Every backoff written to the log kept clear of the deadline.\<close>

definition backoff_ok :: "rat option \<Rightarrow> kernel_event \<Rightarrow> bool" where
  "backoff_ok deadline ev =
     (case ev of
        KBackoff k now effective sleep_delay \<Rightarrow>
          0 \<le> sleep_delay \<and>
          (case deadline of None \<Rightarrow> True
           | Some t \<Rightarrow> (case now of None \<Rightarrow> False | Some x \<Rightarrow> x + effective < t))
      | _ \<Rightarrow> True)"

lemma past_deadline_reading:
  assumes "past_deadline dl clock d s = (False, now, s')"
  shows "case dl of None \<Rightarrow> True | Some t \<Rightarrow> (case now of None \<Rightarrow> False | Some x \<Rightarrow> x + d < t)"
  using assms by (auto simp: past_deadline_def split: option.splits prod.splits)

lemma handle_error_backoff:
  assumes "handle_error ctx model maxr a e s tr = (out, s', tr')"
    and "list_all (backoff_ok (rc_deadline ctx)) tr"
  shows "list_all (backoff_ok (rc_deadline ctx)) tr'"
  using assms unfolding handle_error_def
  by (auto simp: Let_def backoff_ok_def dest: past_deadline_reading
      split: prod.splits if_splits option.splits)

lemma retry_attempt_backoff:
  assumes "retry_attempt ctx model maxr a s tr = (out, s', tr')"
    and "list_all (backoff_ok (rc_deadline ctx)) tr"
  shows "list_all (backoff_ok (rc_deadline ctx)) tr'"
proof -
  have inv: "list_all (backoff_ok (rc_deadline ctx)) (tr @ [KInvoke a])"
    using assms(2) by (simp add: backoff_ok_def)
  show ?thesis
    using assms inv unfolding retry_attempt_def
    by (auto simp: Let_def dest: handle_error_backoff [OF _ inv]
        split: prod.splits if_splits sum.splits simp del: list_all_append)
qed

lemma retry_from_backoff:
  assumes "retry_from n ctx model maxr a s tr = (r, s', tr')"
    and "list_all (backoff_ok (rc_deadline ctx)) tr"
  shows "list_all (backoff_ok (rc_deadline ctx)) tr'"
  using assms
proof (induction n ctx model maxr a s tr rule: retry_from.induct)
  case (2 n ctx model maxr a s tr)
  obtain out s1 tr1 where step: "retry_attempt ctx model maxr a s tr = (out, s1, tr1)"
    by (cases "retry_attempt ctx model maxr a s tr") auto
  from retry_attempt_backoff [OF step 2(3)] have ok: "list_all (backoff_ok (rc_deadline ctx)) tr1" .
  show ?case using 2(1) [OF step [symmetric] _ refl] 2(2) step ok by (cases out) auto
qed simp

text \<open>
  A fallback run seen from outside, over the states in which its attempts executed the model
  (one state per attempt). \<open>fb_late\<close> and \<open>fb_clocked\<close> are the deadline test and the
  state after it; \<open>goes_on\<close> says that an error hands over to the next model.
\<close>

definition fb_late :: "('s, 'a) fallback_ctx \<Rightarrow> 's \<Rightarrow> bool" where
  "fb_late ctx s = fst (past_deadline (fb_deadline ctx) (fb_clock ctx) 0 s)"

definition fb_clocked :: "('s, 'a) fallback_ctx \<Rightarrow> 's \<Rightarrow> 's" where
  "fb_clocked ctx s = snd (snd (past_deadline (fb_deadline ctx) (fb_clock ctx) 0 s))"

definition goes_on :: "('s, 'a) fallback_ctx \<Rightarrow> exn \<Rightarrow> bool" where
  "goes_on ctx e \<longleftrightarrow> \<not> py_isinstance e (LlmClass LLMLogicalDeadlineError) \<and>
     (case fb_should_fallback ctx of None \<Rightarrow> True | Some f \<Rightarrow> f e)"

definition handed_over :: "('s, 'a) fallback_ctx \<Rightarrow> string \<Rightarrow> exn \<Rightarrow> string \<Rightarrow> 's \<Rightarrow> 's" where
  "handed_over ctx m e nx s2 =
     (let s4 = fb_clocked ctx (snd (fb_record ctx m e s2))
      in case fb_on_fallback ctx of None \<Rightarrow> s4 | Some f \<Rightarrow> f m e nx s4)"

text \<open>
  Between attempt \<open>j\<close> and the next one: attempt \<open>j\<close> raised an error that goes on, the
  deadline was not reached, and the next attempt starts in the state the error handling left.
\<close>

definition chain_step ::
  "('s, 'a) fallback_ctx \<Rightarrow> nat \<Rightarrow> string list \<Rightarrow> 's list \<Rightarrow> nat \<Rightarrow> bool" where
  "chain_step ctx i ms ts j \<longleftrightarrow>
     (\<exists>e s2. fb_execute ctx (i + j) (ms ! j) (ts ! j) = (Inl e, s2) \<and> goes_on ctx e \<and>
        \<not> fb_late ctx (snd (fb_record ctx (ms ! j) e s2)) \<and>
        \<not> fb_late ctx (handed_over ctx (ms ! j) e (ms ! Suc j) s2) \<and>
        ts ! Suc j = fb_clocked ctx (handed_over ctx (ms ! j) e (ms ! Suc j) s2))"

text \<open>What the run ends with, given its last attempt.\<close>

definition chain_result ::
  "('s, 'a) fallback_ctx \<Rightarrow> nat \<Rightarrow> string list \<Rightarrow> 's list \<Rightarrow> exn + 'a \<Rightarrow> bool" where
  "chain_result ctx i ms ts r \<longleftrightarrow>
     (let k = length ts - 1 in
      case fb_execute ctx (i + k) (ms ! k) (ts ! k) of
        (Inr v, s2) \<Rightarrow> r = Inr v
      | (Inl e, s2) \<Rightarrow>
          (if \<not> goes_on ctx e \<or> length ts = length ms then r = Inl e
           else if fb_late ctx (snd (fb_record ctx (ms ! k) e s2))
           then r = Inl (logical_deadline_error (Some e))
           else fb_late ctx (handed_over ctx (ms ! k) e (ms ! Suc k) s2) \<and>
                r = Inl (logical_deadline_error None)))"

definition chain_trace ::
  "('s, 'a) fallback_ctx \<Rightarrow> nat \<Rightarrow> string list \<Rightarrow> 's \<Rightarrow> 's list \<Rightarrow> exn + 'a \<Rightarrow> bool" where
  "chain_trace ctx i ms s ts r \<longleftrightarrow>
     (if ts = [] then fb_late ctx s \<and> r = Inl (logical_deadline_error None)
      else \<not> fb_late ctx s \<and> hd ts = fb_clocked ctx s \<and>
           (\<forall>j. Suc j < length ts \<longrightarrow> chain_step ctx i ms ts j) \<and> chain_result ctx i ms ts r)"

lemma deadline_error_isinstance [simp]:
  "py_isinstance (logical_deadline_error x) (LlmClass LLMLogicalDeadlineError)"
  by (simp add: logical_deadline_error_def)

lemma fallback_step_cases:
  "fallback_step ctx i m next s tr =
     (if fb_late ctx s then (Raised (logical_deadline_error None), fb_clocked ctx s, tr)
      else case fb_execute ctx i m (fb_clocked ctx s) of
        (Inr v, s2) \<Rightarrow> (Returned v, s2, tr @ [KTry i m])
      | (Inl e, s2) \<Rightarrow>
         (if \<not> goes_on ctx e then (Raised e, s2, tr @ [KTry i m])
          else let (rec, s3) = fb_record ctx m e s2; tr3 = tr @ [KTry i m] @ unavailable_warning ctx rec
               in case next of
                    None \<Rightarrow> (Raised e, s3, tr3)
                  | Some nx \<Rightarrow>
                      (if fb_late ctx s3
                       then (Raised (logical_deadline_error (Some e)), fb_clocked ctx s3, tr3)
                       else (Again, handed_over ctx m e nx s2, tr3 @ fallback_warning ctx m nx e))))"
  unfolding fallback_step_def fb_late_def fb_clocked_def goes_on_def handed_over_def
  by (auto simp: Let_def split: prod.splits sum.splits option.splits)

lemma zip_upt_Cons:
  "zip [i..<i + Suc n] (take (Suc n) (m # rest)) = (i, m) # zip [Suc i..<Suc i + n] (take n rest)"
  by (simp add: upt_conv_Cons del: upt_Suc)

lemma chain_trace_single:
  assumes "\<not> fb_late ctx s" and "chain_result ctx i ms [fb_clocked ctx s] r"
  shows "chain_trace ctx i ms s [fb_clocked ctx s] r"
  using assms by (simp add: chain_trace_def)

lemma chain_result_Cons:
  "ts \<noteq> [] \<Longrightarrow> chain_result ctx i (m # rest) (t # ts) r = chain_result ctx (Suc i) rest ts r"
  by (cases ts) (auto simp: chain_result_def Let_def split: prod.splits sum.splits)

lemma chain_trace_Cons:
  assumes "\<not> fb_late ctx s" and ex: "fb_execute ctx i m (fb_clocked ctx s) = (Inl e, s2)"
    and go: "goes_on ctx e" and nl: "\<not> fb_late ctx (snd (fb_record ctx m e s2))" and ne: "rest \<noteq> []"
    and tail: "chain_trace ctx (Suc i) rest (handed_over ctx m e (hd rest) s2) ts r"
  shows "chain_trace ctx i (m # rest) s (fb_clocked ctx s # ts) r"
proof (cases ts)
  case Nil
  with tail ne have "length rest \<noteq> 0" "fb_late ctx (handed_over ctx m e (hd rest) s2)"
    "r = Inl (logical_deadline_error None)" by (simp_all add: chain_trace_def)
  with Nil ex go nl assms(1) ne show ?thesis
    by (simp add: chain_trace_def chain_result_def hd_conv_nth)
next
  case (Cons t ts')
  then have "ts \<noteq> []" by simp
  with tail have nl2: "\<not> fb_late ctx (handed_over ctx m e (hd rest) s2)"
    and hd: "hd ts = fb_clocked ctx (handed_over ctx m e (hd rest) s2)"
    and steps: "\<And>j. Suc j < length ts \<Longrightarrow> chain_step ctx (Suc i) rest ts j"
    and res: "chain_result ctx (Suc i) rest ts r" by (simp_all add: chain_trace_def)
  from hd Cons have t: "t = fb_clocked ctx (handed_over ctx m e (hd rest) s2)" by simp
  have "chain_step ctx i (m # rest) (fb_clocked ctx s # ts) j" if "Suc j < Suc (length ts)" for j
  proof (cases j)
    case 0
    with ex go nl nl2 t ne Cons show ?thesis by (simp add: chain_step_def hd_conv_nth)
  next
    case (Suc j')
    with that steps [of j'] show ?thesis by (simp add: chain_step_def)
  qed
  moreover have "chain_result ctx i (m # rest) (fb_clocked ctx s # ts) r"
    using res \<open>ts \<noteq> []\<close> by (simp add: chain_result_Cons)
  ultimately show ?thesis using assms(1) by (simp add: chain_trace_def)
qed

lemma fallback_from_trace:
  assumes "fallback_from ctx i ms s tr = (r, s', tr')" and "ms \<noteq> []"
  shows "\<exists>ts. length ts \<le> length ms \<and>
     tries tr' = tries tr @ zip [i..<i + length ts] (take (length ts) ms) \<and> chain_trace ctx i ms s ts r"
  using assms
proof (induction ctx i ms s tr rule: fallback_from.induct)
  case (2 ctx i m rest s tr)
  let ?next = "if rest = [] then None else Some (hd rest)"
  obtain x s2 where ex: "fb_execute ctx i m (fb_clocked ctx s) = (x, s2)" by fastforce
  note unf = 2(2) [unfolded fallback_from.simps fallback_step_cases ex]
  consider (late) "fb_late ctx s" | (answer) v where "\<not> fb_late ctx s" "x = Inr v"
    | (stop) e where "\<not> fb_late ctx s" "x = Inl e" "\<not> goes_on ctx e"
    | (last) e where "\<not> fb_late ctx s" "x = Inl e" "goes_on ctx e" "rest = []"
    | (halt) e where "\<not> fb_late ctx s" "x = Inl e" "goes_on ctx e" "rest \<noteq> []"
        "fb_late ctx (snd (fb_record ctx m e s2))"
    | (again) e where "\<not> fb_late ctx s" "x = Inl e" "goes_on ctx e" "rest \<noteq> []"
        "\<not> fb_late ctx (snd (fb_record ctx m e s2))"
    by (cases x) blast+
  then show ?case
  proof cases
    case late
    with unf show ?thesis by (intro exI [of _ "[]"]) (auto simp: chain_trace_def)
  next
    case again
    obtain rec s3 where rec: "fb_record ctx m e s2 = (rec, s3)" by fastforce
    let ?tr1 = "(tr @ [KTry i m] @ unavailable_warning ctx rec) @ fallback_warning ctx m (hd rest) e"
    have step: "fallback_step ctx i m ?next s tr = (Again, handed_over ctx m e (hd rest) s2, ?tr1)"
      using again rec ex by (simp add: fallback_step_cases)
    with 2(2) have "fallback_from ctx (Suc i) rest (handed_over ctx m e (hd rest) s2) ?tr1 = (r, s', tr')"
      by simp
    with 2(1) [OF step [symmetric] refl refl] again(4) obtain ts where len: "length ts \<le> length rest"
      and log: "tries tr' = tries ?tr1 @ zip [Suc i..<Suc i + length ts] (take (length ts) rest)"
      and tail: "chain_trace ctx (Suc i) rest (handed_over ctx m e (hd rest) s2) ts r" by blast
    from chain_trace_Cons [OF again(1) _ again(3,5,4) tail] ex again(2)
    have "chain_trace ctx i (m # rest) s (fb_clocked ctx s # ts) r" by simp
    moreover have "tries tr' = tries tr @ zip [i..<i + Suc (length ts)] (take (Suc (length ts)) (m # rest))"
      by (simp only: zip_upt_Cons) (use log in simp)
    ultimately show ?thesis using len by (intro exI [of _ "fb_clocked ctx s # ts"]) simp
  qed (use unf ex in \<open>auto intro!: exI [of _ "[fb_clocked ctx s]"] chain_trace_single
         simp: chain_result_def upt_conv_Cons Let_def split: prod.splits\<close>)
qed simp

section \<open>Properties\<close>

text \<open>
  C3: c3. The loop invokes the model for attempts 0, 1, 2, ... in order, at most
  \<open>max_retries + 1\<close> times, and a returned value is the one the last invocation produced.
\<close>

theorem retry_invocations_bounded:
  "case run_sync_with_retry ctx model maxr s of (r, s', tr) \<Rightarrow>
     \<exists>k. k \<le> nat (maxr + 1) \<and> invocations tr = [0..<k] \<and>
         (case r of Inl e \<Rightarrow> True
          | Inr v \<Rightarrow> 0 < k \<and> (\<exists>t. fst (rc_invoke ctx (k - 1) t) = Inr v))"
proof -
  obtain r s' tr where run: "run_sync_with_retry ctx model maxr s = (r, s', tr)"
    by (cases "run_sync_with_retry ctx model maxr s") auto
  from retry_from_log [OF run [unfolded run_sync_with_retry_def]] show ?thesis
    by (auto simp: run split: sum.splits)
qed

text \<open>
  C2: c2. No error is swallowed or invented. For every context and every \<open>max_retries\<close>, when the
  loop raises after the invocations \<open>0, ..., k - 1\<close>, the exception is one of three: the very
  exception the last of them raised; the logical deadline error, only when a deadline is set,
  either bare or wrapping that last exception; or the trailing \<open>RuntimeError\<close>, only when
  the loop made all its \<open>max_retries + 1\<close> invocations and either a retry hook was given or
  \<open>max_retries\<close> is negative. Without a hook, a deadline and a negative count it is always
  the last invocation's exception.
\<close>

theorem retry_error_is_last_error:
  assumes "run_sync_with_retry ctx model maxr s = (Inl e, s', tr)"
  shows "\<exists>k \<le> nat (maxr + 1). invocations tr = [0..<k] \<and> retry_error_source ctx maxr k e"
proof -
  have "\<exists>k \<le> nat (maxr + 1). invocations tr = invocations [] @ [0..<0 + k] \<and>
     ((0 < k \<and> (\<exists>t. fst (rc_invoke ctx (0 + k - 1) t) = Inl e)) \<or>
      (rc_deadline ctx \<noteq> None \<and>
       (e = logical_deadline_error None \<or>
        (0 < k \<and> (\<exists>t x. fst (rc_invoke ctx (0 + k - 1) t) = Inl x \<and>
           e = logical_deadline_error (Some x))))) \<or>
      (e = runtime_error ''run_sync_with_retry exhausted without returning'' \<and> k = nat (maxr + 1) \<and>
       (maxr < 0 \<or> rc_hook ctx \<noteq> None)))"
    by (rule retry_from_error [OF assms [unfolded run_sync_with_retry_def]]) auto
  then show ?thesis unfolding retry_error_source_def by simp
qed

definition demo_ctx :: "(nat, nat) retry_ctx" where
  "demo_ctx =
     \<lparr>rc_invoke = (\<lambda>k s. (Inl (Exn ''APIError'' [] ''boom'' [] None [] None), s)),
      rc_should_retry = (\<lambda>e. True), rc_compute_delay = (\<lambda>k e. (1, ''none'')),
      rc_cooldown = (\<lambda>e s. (0, s)), rc_on_error = None, rc_on_retry = None,
      rc_on_decision = None, rc_hook = None, rc_deadline = None, rc_clock = (\<lambda>s. (0, s)),
      rc_sleep = (\<lambda>d s. Suc s), rc_summary = exc_text\<rparr>"

theorem retry_error_is_last_error_witness:
  "\<exists>s' tr. run_sync_with_retry demo_ctx ''m'' 1 0
             = (Inl (Exn ''APIError'' [] ''boom'' [] None [] None), s', tr) \<and> invocations tr = [0, 1] \<and>
      (\<exists>k \<le> nat (1 + 1). invocations tr = [0..<k] \<and>
         retry_error_source demo_ctx 1 k (Exn ''APIError'' [] ''boom'' [] None [] None))"
proof -
  let ?e = "Exn ''APIError'' [] ''boom'' [] None [] None"
  obtain s' tr where run: "run_sync_with_retry demo_ctx ''m'' 1 0 = (Inl ?e, s', tr)"
    and inv: "invocations tr = [0, 1]"
    by (simp add: run_sync_with_retry_def retry_attempt_def handle_error_def past_deadline_def
        decide_def demo_ctx_def py_isinstance_def Let_def numeral_2_eq_2 invocations_def)
  have "\<exists>k \<le> nat (1 + 1). invocations tr = [0..<k] \<and> retry_error_source demo_ctx 1 k ?e"
    by (rule retry_error_is_last_error [OF run])
  with run inv show ?thesis by blast
qed

text \<open>
  C29. Backoff respects the logical deadline: whenever the loop goes to sleep before a retry, the
  clock reading plus the whole effective delay is still before the deadline.
\<close>

theorem retry_backoff_before_deadline:
  "case run_sync_with_retry ctx model maxr s of (r, s', tr) \<Rightarrow>
     list_all (backoff_ok (rc_deadline ctx)) tr"
proof -
  obtain r s' tr where run: "run_sync_with_retry ctx model maxr s = (r, s', tr)"
    by (cases "run_sync_with_retry ctx model maxr s") auto
  from retry_from_backoff [OF run [unfolded run_sync_with_retry_def]] show ?thesis
    by (simp add: run)
qed

text \<open>
  C4: c4. The fallback chain on a non-empty list of models. The tried models are a prefix of the
  list, in order and without repetition, with the indices \<open>0, 1, ...\<close>. Every tried model
  but the last raised an error that is not the deadline error and that
  \<open>should_fallback\<close> did not reject, with the deadline not reached: the first model that
  answers is the last tried and its answer is the result. Otherwise the result is the error of the
  last tried model, when that error stops the walk or the list is used up, or the deadline error,
  when the clock had passed the deadline at that point. Each attempt runs in the state the
  attempt before it and its error handling left.
\<close>

theorem fallback_chain_in_order:
  assumes "models \<noteq> []"
  shows "case run_sync_with_fallback ctx models s of (r, s', tr) \<Rightarrow>
     \<exists>ts. length ts \<le> length models \<and>
          tries tr = zip [0..<length ts] (take (length ts) models) \<and> chain_trace ctx 0 models s ts r"
proof -
  obtain r s' tr where run: "run_sync_with_fallback ctx models s = (r, s', tr)"
    by (cases "run_sync_with_fallback ctx models s") auto
  from fallback_from_trace [OF run [unfolded run_sync_with_fallback_def] assms] show ?thesis
    by (auto simp: run)
qed

definition demo_chain :: "(unit, string) fallback_ctx" where
  "demo_chain =
     \<lparr>fb_execute = (\<lambda>i m s. (if i = 0 then Inl (Exn ''APIError'' [] ''boom'' [] None [] None) else Inr m, s)),
      fb_should_fallback = None, fb_on_fallback = None, fb_record = (\<lambda>m e s. (None, s)),
      fb_warn = True, fb_num = (\<lambda>_. []), fb_deadline = None, fb_clock = (\<lambda>s. (0, s))\<rparr>"

theorem fallback_chain_in_order_witness:
  "case run_sync_with_fallback demo_chain [''a'', ''b'', ''c''] () of (r, s', tr) \<Rightarrow>
     r = Inr ''b'' \<and> tries tr = [(0, ''a''), (1, ''b'')] \<and>
     (\<exists>ts. length ts \<le> 3 \<and> tries tr = zip [0..<length ts] (take (length ts) [''a'', ''b'', ''c'']) \<and>
           chain_trace demo_chain 0 [''a'', ''b'', ''c''] () ts r)"
proof -
  obtain tr where run: "run_sync_with_fallback demo_chain [''a'', ''b'', ''c''] () = (Inr ''b'', (), tr)"
    and t: "tries tr = [(0, ''a''), (1, ''b'')]"
    by (simp add: run_sync_with_fallback_def demo_chain_def fallback_step_def past_deadline_def
        Let_def py_isinstance_def)
  show ?thesis
    using fallback_chain_in_order [of "[''a'', ''b'', ''c'']" demo_chain "()"]
    by (simp add: run t numeral_3_eq_3)
qed

end
