(* ===== verification/Model_Availability.thy ===== *)
theory Model_Availability
  imports Retry
begin

text \<open>
  Process-local suppression of exhausted models, \<open>llm_client/core/model_availability.py\<close>.

  The state is the module dictionary \<open>_MODEL_UNAVAILABILITY\<close>, keyed by the stripped,
  lower-cased model name. The monotonic clock reading is an argument, as it is in the code;
  the environment and \<open>float\<close> on strings are arguments too.
\<close>

section \<open>Records and cooldowns\<close>

record unavailability =
  un_model :: string
  un_reason :: string
  un_expires_at :: rat
  un_detail :: string

type_synonym availability_state = "(string \<times> unavailability) list"

record avail_env =
  ae_litellm :: "string list option"
  ae_parse_float :: "string \<Rightarrow> rat option"
  ae_env :: "string \<Rightarrow> string option"

definition cooldown_seconds :: "avail_env \<Rightarrow> string \<Rightarrow> rat \<Rightarrow> rat" where
  "cooldown_seconds E name dflt =
     (case ae_env E name of
        None \<Rightarrow> dflt
      | Some raw \<Rightarrow>
          (if py_strip raw = [] then dflt
           else case ae_parse_float E raw of
                  None \<Rightarrow> dflt
                | Some v \<Rightarrow> if v \<le> 0 then dflt else v))"

definition retry_hint_cap_seconds :: "avail_env \<Rightarrow> rat" where
  "retry_hint_cap_seconds E = cooldown_seconds E ''LLM_CLIENT_PROVIDER_RETRY_HINT_COOLDOWN_CAP_S'' 43200"

definition provider_retry_hint_seconds :: "string \<Rightarrow> rat option" where
  "provider_retry_hint_seconds detail =
     first_some (\<lambda>pat. case search_first pat (py_lower detail) of
                         None \<Rightarrow> None
                       | Some (num, unit) \<Rightarrow>
                           (let v = unit_scale (case unit of None \<Rightarrow> ''s'' | Some u \<Rightarrow> u) (number_value num)
                            in if 0 < v then Some v else None))
       [match_retry_delay, match_retry_in]"

definition apply_provider_retry_hint :: "avail_env \<Rightarrow> rat \<Rightarrow> string \<Rightarrow> rat" where
  "apply_provider_retry_hint E dflt detail =
     (case provider_retry_hint_seconds detail of
        None \<Rightarrow> dflt
      | Some hint \<Rightarrow> max dflt (min hint (retry_hint_cap_seconds E)))"

definition DAILY_PATTERNS :: "string list" where
  "DAILY_PATTERNS =
     [''requests per day'', ''per day per project'', ''per day per model'',
      ''generate_requests_per_model_per_day'', ''generaterequestsperdayperprojectpermodel'',
      ''generatecontentrequestsperday'', ''try again tomorrow'']"

definition SPEND_PATTERNS :: "string list" where
  "SPEND_PATTERNS = [''monthly spending cap'', ''monthly spend cap'', ''spending cap'', ''spend cap'']"

definition unavailability_reason :: "avail_env \<Rightarrow> string \<Rightarrow> (string \<times> rat) option" where
  "unavailability_reason E detail =
     (let lower = py_lower detail in
      if \<not> py_any_in QUOTA_PATTERNS lower then None
      else if py_any_in DAILY_PATTERNS lower
      then Some (''provider_daily_quota_exhausted'',
             apply_provider_retry_hint E (cooldown_seconds E ''LLM_CLIENT_DAILY_QUOTA_COOLDOWN_S'' 3600) detail)
      else if py_any_in SPEND_PATTERNS lower
      then Some (''provider_spend_cap_exhausted'',
             apply_provider_retry_hint E (cooldown_seconds E ''LLM_CLIENT_SPEND_CAP_COOLDOWN_S'' 300) detail)
      else Some (''provider_quota_exhausted'',
             apply_provider_retry_hint E (cooldown_seconds E ''LLM_CLIENT_QUOTA_COOLDOWN_S'' 900) detail))"

text \<open>\<open>round(x, 3)\<close>: to three decimals, ties to even.\<close>

definition round3 :: "rat \<Rightarrow> rat" where
  "round3 x =
     (let y = x * 1000; f = \<lfloor>y\<rfloor>; d = y - of_int f in
      of_int (if d < 1 / 2 then f else if 1 / 2 < d then f + 1 else if even f then f else f + 1) / 1000)"

section \<open>Operations\<close>

definition model_key :: "string \<Rightarrow> string" where
  "model_key model = py_lower (py_strip model)"

definition record_model_unavailability ::
  "avail_env \<Rightarrow> string \<Rightarrow> exn \<Rightarrow> rat \<Rightarrow> availability_state
    \<Rightarrow> (string \<times> string \<times> rat) option \<times> availability_state" where
  "record_model_unavailability E model e now st =
     (if classify_error (ae_litellm E) e \<noteq> LLMQuotaExhaustedError then (None, st)
      else
        let detail = (let t = py_strip (exc_text e) in if t \<noteq> [] then t else exc_name e) in
        case unavailability_reason E detail of
          None \<Rightarrow> (None, st)
        | Some (reason, cooldown_s) \<Rightarrow>
            (let key = model_key model;
                 expires0 = now + cooldown_s;
                 expires = (case dict_get st key of
                              Some existing \<Rightarrow> (if expires0 \<le> un_expires_at existing
                                               then un_expires_at existing else expires0)
                            | None \<Rightarrow> expires0);
                 rec = \<lparr>un_model = py_strip model, un_reason = reason, un_expires_at = expires,
                        un_detail = detail\<rparr>
             in (Some (un_model rec, un_reason rec, max 0 (round3 (expires - now))),
                 dict_set key rec st)))"

definition drop_expired :: "rat \<Rightarrow> availability_state \<Rightarrow> availability_state" where
  "drop_expired now st =
     fold dict_pop (map fst (filter (\<lambda>(k, r). un_expires_at r \<le> now) st)) st"

fun split_available ::
  "rat \<Rightarrow> availability_state \<Rightarrow> string list \<Rightarrow> string list \<times> (string \<times> string \<times> rat) list" where
  "split_available now st [] = ([], [])"
| "split_available now st (m # ms) =
     (let (available, suppressed) = split_available now st ms in
      case dict_get st (model_key m) of
        None \<Rightarrow> (m # available, suppressed)
      | Some r \<Rightarrow> (available, (un_model r, un_reason r, max 0 (round3 (un_expires_at r - now))) # suppressed))"

definition filter_available_models ::
  "string list \<Rightarrow> rat \<Rightarrow> availability_state
    \<Rightarrow> (string list \<times> (string \<times> string \<times> rat) list) \<times> availability_state" where
  "filter_available_models models now st =
     (let st' = drop_expired now st in (split_available now st' models, st'))"

definition clear_model_unavailability :: "string option \<Rightarrow> availability_state \<Rightarrow> availability_state" where
  "clear_model_unavailability model st =
     (case model of None \<Rightarrow> [] | Some m \<Rightarrow> dict_pop (model_key m) st)"

section \<open>Lemmas\<close>

text \<open>The dictionaries the operations build have distinct keys.\<close>

definition avail_wf :: "availability_state \<Rightarrow> bool" where
  "avail_wf st \<longleftrightarrow> distinct (map fst st)"

lemma dict_get_pops: "dict_get (fold dict_pop ks st) k = (if k \<in> set ks then None else dict_get st k)"
  by (induction ks arbitrary: st) (auto simp: py_simps)

lemma avail_wf_pops: "avail_wf st \<Longrightarrow> avail_wf (fold dict_pop ks st)"
  by (induction ks arbitrary: st) (auto simp: avail_wf_def distinct_delete)

lemma drop_expired_get:
  assumes "avail_wf st"
  shows "dict_get (drop_expired now st) k =
    (case dict_get st k of None \<Rightarrow> None | Some r \<Rightarrow> if un_expires_at r \<le> now then None else Some r)"
proof (cases "dict_get st k")
  case None
  then show ?thesis by (simp add: drop_expired_def dict_get_pops)
next
  case (Some r)
  with assms have "(k, r') \<in> set st \<longleftrightarrow> r' = r" for r'
    by (metis avail_wf_def map_of_eq_Some_iff option.inject)
  then have "k \<in> fst ` {x \<in> set st. case x of (k, r) \<Rightarrow> un_expires_at r \<le> now} \<longleftrightarrow> un_expires_at r \<le> now"
    by force
  with Some show ?thesis by (simp add: drop_expired_def dict_get_pops)
qed

lemma split_available_fst:
  "fst (split_available now st ms) = filter (\<lambda>m. dict_get st (model_key m) = None) ms"
  by (induction ms) (auto split: option.splits prod.splits)

lemma split_available_length:
  "length (fst (split_available now st ms)) + length (snd (split_available now st ms)) = length ms"
  by (induction ms) (auto split: option.splits prod.splits)

lemma cooldown_seconds_pos: "0 < d \<Longrightarrow> 0 < cooldown_seconds E name d"
  by (auto simp: cooldown_seconds_def split: option.splits)

lemma unavailability_reason_pos:
  assumes "unavailability_reason E detail = Some (reason, c)" shows "0 < c"
proof -
  have "0 < apply_provider_retry_hint E d detail" if "0 < d" for d
    using that by (auto simp: apply_provider_retry_hint_def split: option.splits)
  with assms show ?thesis
    by (auto simp: unavailability_reason_def Let_def cooldown_seconds_pos split: if_splits)
qed

lemma record_Some:
  assumes "record_model_unavailability E model e now st = (Some sm, st')"
  shows "\<exists>r. st' = dict_set (model_key model) r st \<and> now < un_expires_at r \<and>
    (\<forall>old. dict_get st (model_key model) = Some old \<longrightarrow> un_expires_at old \<le> un_expires_at r)"
  using assms unavailability_reason_pos [of E]
  by (fastforce simp: record_model_unavailability_def Let_def split: if_splits option.splits)

lemma record_wf: "avail_wf st \<Longrightarrow> avail_wf (snd (record_model_unavailability E model e now st))"
  by (auto simp: record_model_unavailability_def Let_def avail_wf_def distinct_update split: option.splits)

lemma filter_wf: "avail_wf st \<Longrightarrow> avail_wf (snd (filter_available_models models now st))"
  by (simp add: filter_available_models_def Let_def drop_expired_def avail_wf_pops)

lemma clear_wf: "avail_wf st \<Longrightarrow> avail_wf (clear_model_unavailability model st)"
  by (auto simp: clear_model_unavailability_def avail_wf_def distinct_delete split: option.splits)

lemma filter_available_exact_lemma:
  assumes "avail_wf st"
  shows "case filter_available_models models now st of ((available, suppressed), st') \<Rightarrow>
    available = filter (\<lambda>m. case dict_get st (model_key m) of
                              None \<Rightarrow> True | Some r \<Rightarrow> un_expires_at r \<le> now) models \<and>
    length available + length suppressed = length models \<and> avail_wf st'"
proof -
  obtain available suppressed st' where run: "filter_available_models models now st = ((available, suppressed), st')"
    by (metis surj_pair)
  then have st': "st' = drop_expired now st" and split: "split_available now st' models = (available, suppressed)"
    by (auto simp: filter_available_models_def Let_def)
  have "available = filter (\<lambda>m. dict_get st' (model_key m) = None) models"
    using split_available_fst [of now st' models] split by simp
  moreover have "(\<lambda>m. dict_get st' (model_key m) = None) =
      (\<lambda>m. case dict_get st (model_key m) of None \<Rightarrow> True | Some r \<Rightarrow> un_expires_at r \<le> now)"
    by (auto simp: st' drop_expired_get [OF assms] fun_eq_iff split: option.splits)
  moreover have "length available + length suppressed = length models"
    using split_available_length [of now st' models] split by simp
  moreover have "avail_wf st'" using filter_wf [OF assms, of models now] run by simp
  ultimately show ?thesis by (simp add: run)
qed

section \<open>Properties\<close>

text \<open>
  C25. Filtering a chain keeps, in order, exactly the models without an unexpired record, and
  every other model is reported as suppressed.
\<close>

theorem filter_available_exact:
  assumes "avail_wf st"
  shows "case filter_available_models models now st of ((available, suppressed), st') \<Rightarrow>
    available = filter (\<lambda>m. case dict_get st (model_key m) of
                              None \<Rightarrow> True | Some r \<Rightarrow> un_expires_at r \<le> now) models \<and>
    length available + length suppressed = length models \<and> avail_wf st'"
  using assms by (rule filter_available_exact_lemma)

theorem filter_available_exact_witness:
  "let r = \<lparr>un_model = ''m1'', un_reason = ''provider_quota_exhausted'', un_expires_at = 10, un_detail = []\<rparr>
   in fst (fst (filter_available_models [''M1'', ''m2''] 5 [(''m1'', r)])) = [''m2'']"
proof -
  let ?r = "\<lparr>un_model = ''m1'', un_reason = ''provider_quota_exhausted'', un_expires_at = 10, un_detail = []\<rparr> :: unavailability"
  have "avail_wf [(''m1'', ?r)]" by (simp add: avail_wf_def)
  from filter_available_exact [OF this, where models = "[''M1'', ''m2'']" and now = 5]
  have "fst (fst (filter_available_models [''M1'', ''m2''] 5 [(''m1'', ?r)])) =
      filter (\<lambda>m. case dict_get [(''m1'', ?r)] (model_key m) of
                   None \<Rightarrow> True | Some r \<Rightarrow> un_expires_at r \<le> 5) [''M1'', ''m2'']"
    by (auto split: prod.splits)
  also have "\<dots> = [''m2'']" by code_simp
  finally show ?thesis by (simp add: Let_def)
qed

text \<open>
  C26. Recording an exhausted model takes effect at once and never shortens a suppression: the
  model is filtered out at the same clock reading, and any earlier record of it that was still
  running keeps suppressing it at least as long as before.
\<close>

theorem recorded_model_suppressed:
  assumes "avail_wf st" and "record_model_unavailability E model e now st = (Some sm, st')"
  shows "model \<notin> set (fst (fst (filter_available_models models now st'))) \<and>
    (\<forall>m old t. dict_get st (model_key m) = Some old \<longrightarrow> t < un_expires_at old \<longrightarrow>
       m \<notin> set (fst (fst (filter_available_models models t st'))))"
proof -
  obtain r where r: "st' = dict_set (model_key model) r st" "now < un_expires_at r"
    "\<And>old. dict_get st (model_key model) = Some old \<Longrightarrow> un_expires_at old \<le> un_expires_at r"
    using record_Some [OF assms(2)] by blast
  have wf: "avail_wf st'" using record_wf [OF assms(1), of E model e now] assms(2) by simp
  have out: "x \<notin> set (fst (fst (filter_available_models models u st')))"
    if "dict_get st' (model_key x) = Some r'" "u < un_expires_at r'" for x u r'
    using filter_available_exact_lemma [OF wf, where models = models and now = u] that by (auto split: prod.splits)
  have "model \<notin> set (fst (fst (filter_available_models models now st')))"
    by (rule out) (auto simp: r py_simps)
  moreover have "m \<notin> set (fst (fst (filter_available_models models t st')))"
    if "dict_get st (model_key m) = Some old" "t < un_expires_at old" for m old t
  proof (cases "model_key m = model_key model")
    case True
    with that r show ?thesis by (intro out [of m r]) (force simp: py_simps)+
  next
    case False
    with that r show ?thesis by (intro out [of m old]) (simp_all add: py_simps)
  qed
  ultimately show ?thesis by blast
qed

theorem recorded_model_suppressed_witness:
  "let E = \<lparr>ae_litellm = None, ae_parse_float = (\<lambda>_. None), ae_env = (\<lambda>_. None)\<rparr>;
       e = Exn ''APIError'' [] ''quota exceeded'' [] None [] None;
       (sm, st') = record_model_unavailability E ''gpt-5'' e 7 []
   in sm = Some (''gpt-5'', ''provider_quota_exhausted'', 900) \<and>
      ''gpt-5'' \<notin> set (fst (fst (filter_available_models [''gpt-5'', ''codex''] 7 st')))"
proof -
  let ?E = "\<lparr>ae_litellm = None, ae_parse_float = (\<lambda>_. None), ae_env = (\<lambda>_. None)\<rparr> :: avail_env"
  let ?e = "Exn ''APIError'' [] ''quota exceeded'' [] None [] None"
  obtain sm st' where run: "record_model_unavailability ?E ''gpt-5'' ?e 7 [] = (sm, st')"
    by fastforce
  have "fst (record_model_unavailability ?E ''gpt-5'' ?e 7 []) = Some (''gpt-5'', ''provider_quota_exhausted'', 900)"
    by code_simp
  with run have sm: "sm = Some (''gpt-5'', ''provider_quota_exhausted'', 900)" by simp
  have "avail_wf []" by (simp add: avail_wf_def)
  from recorded_model_suppressed [OF this run [unfolded sm], where models = "[''gpt-5'', ''codex'']"]
  have "''gpt-5'' \<notin> set (fst (fst (filter_available_models [''gpt-5'', ''codex''] 7 st')))" by blast
  with run sm show ?thesis by (simp add: Let_def)
qed

end
