(* ===== verification/Provider_Policy.thy ===== *)
theory Provider_Policy
  imports Prelude
begin

text \<open>
  The provider-governance policy of \<open>llm_client/core/provider_policy.py\<close>: its typed tables,
  the canonicalisation of model names and the description of the rule that applied.

  Frozen pydantic models are records and their dictionaries association lists. A template is
  the string with its \<open>{model}\<close> field, filled by \<open>format_model\<close>.
\<close>

section \<open>Policy types\<close>

datatype route_class = AgentSdk | DirectProvider | Openrouter

datatype routing_policy = PolicyOpenrouter | PolicyDirect

record provider_runtime_policy =
  rp_route_class :: route_class
  rp_shared_limit :: int
  rp_cooldown_floor_s :: rat

record exact_alias_rule =
  ea_canonical_model :: string
  ea_route_class :: route_class
  ea_reason :: string

record block_rule =
  br_reason :: string

record prefix_template_rule =
  pt_prefixes :: "string list"
  pt_template :: string
  pt_route_class :: route_class
  pt_reason :: string

record explicit_provider_route_rule =
  ep_providers :: "string list"
  ep_target_prefix :: string
  ep_route_class :: route_class
  ep_reason :: string

record provider_governance_policy =
  passthrough_prefixes :: "string list"
  blocked_exact_aliases :: "(string \<times> block_rule) list"
  exact_aliases :: "(string \<times> exact_alias_rule) list"
  direct_prefix_templates :: "prefix_template_rule list"
  explicit_provider_routes :: "explicit_provider_route_rule list"
  bare_model_routes :: "prefix_template_rule list"
  provider_defaults :: "(string \<times> provider_runtime_policy) list"

section \<open>Name tests\<close>

definition CODEX_AGENT_ALIASES :: "string list" where
  "CODEX_AGENT_ALIASES = [''codex-mini-latest'']"

text \<open>\<open>re.compile(r"-codex(?:-|$)")\<close> on lower-cased text; \<open>$\<close> also matches before a final newline.\<close>

definition codex_family_re :: "string \<Rightarrow> bool" where
  "codex_family_re s \<longleftrightarrow>
     list_ex (\<lambda>i. prefix ''-codex'' (drop i s) \<and>
                  (let rest = drop (i + 6) s in rest = [] \<or> rest = [CHR 0x0A] \<or> hd rest = CHR ''-''))
       [0..<length s]"

definition base_model_name :: "string \<Rightarrow> string" where
  "base_model_name model = py_after_last CHR ''/'' (py_lower model)"

definition is_codex_alias_model :: "string \<Rightarrow> bool" where
  "is_codex_alias_model model \<longleftrightarrow> base_model_name model \<in> set CODEX_AGENT_ALIASES"

definition is_codex_family_model :: "string \<Rightarrow> bool" where
  "is_codex_family_model model \<longleftrightarrow> codex_family_re (base_model_name model)"

definition is_image_generation_model :: "string \<Rightarrow> bool" where
  "is_image_generation_model model \<longleftrightarrow>
     py_any_in [''gpt-image'', ''dall-e'', ''imagen'', ''stable-diffusion'', ''sdxl'', ''flux'']
       (base_model_name model)"

section \<open>The policy in force\<close>

definition blocked_reason_text :: string where
  "blocked_reason_text =
     ''GPT-5.4-family routes are prohibited; use GPT-5.6 Luna where the execution contract permits it.''"

definition get_provider_governance_policy :: provider_governance_policy where
  "get_provider_governance_policy =
    \<lparr>passthrough_prefixes =
       [''openrouter/'', ''gemini/'', ''codex'', ''claude-code'', ''openai-agents''],
     blocked_exact_aliases =
       map (\<lambda>m. (m, \<lparr>br_reason = blocked_reason_text\<rparr>))
         [''gpt-5.4'', ''gpt-5.4-mini'', ''gpt-5.4-nano'', ''codex/gpt-5.4'', ''openai/gpt-5.4'',
          ''openai/gpt-5.4-mini'', ''openai/gpt-5.4-nano'', ''openrouter/openai/gpt-5.4'',
          ''openrouter/openai/gpt-5.4-mini'', ''openrouter/openai/gpt-5.4-nano''],
     exact_aliases =
       [(''gpt-5.6'', \<lparr>ea_canonical_model = ''gpt-5.6'', ea_route_class = DirectProvider,
          ea_reason = ''GPT-5.6 Sol's certified strict-schema route is OpenAI Responses API, not the default OpenRouter proxy.''\<rparr>),
        (''gpt-5.6-terra'', \<lparr>ea_canonical_model = ''gpt-5.6-terra'', ea_route_class = DirectProvider,
          ea_reason = ''GPT-5.6 Terra's certified strict-schema route is OpenAI Responses API, not the default OpenRouter proxy.''\<rparr>),
        (''minimax-m3'', \<lparr>ea_canonical_model = ''openrouter/minimax/minimax-m3'', ea_route_class = Openrouter,
          ea_reason = ''Bare MiniMax-M3 aliases use the shared OpenRouter default route.''\<rparr>),
        (''minimax/minimax-m3'', \<lparr>ea_canonical_model = ''openrouter/minimax/minimax-m3'', ea_route_class = Openrouter,
          ea_reason = ''Direct MiniMax-M3 aliases use the shared OpenRouter default route.''\<rparr>)],
     direct_prefix_templates =
       [\<lparr>pt_prefixes = [''gemini-''], pt_template = ''gemini/{model}'', pt_route_class = DirectProvider,
         pt_reason = ''Bare Gemini ids are not stable provider identities and must be canonicalized.''\<rparr>],
     explicit_provider_routes =
       [\<lparr>ep_providers = [''openai'', ''anthropic'', ''deepseek'', ''x-ai'', ''xai'', ''mistral'',
                         ''mistralai'', ''google'', ''minimax''],
         ep_target_prefix = ''openrouter'', ep_route_class = Openrouter,
         ep_reason = ''These provider-qualified ids route through OpenRouter under openrouter policy.''\<rparr>],
     bare_model_routes =
       [\<lparr>pt_prefixes = [''gpt-'', ''o1'', ''o3'', ''o4'', ''chatgpt'', ''text-embedding-'', ''text-moderation-''],
         pt_template = ''openrouter/openai/{model}'', pt_route_class = Openrouter,
         pt_reason = ''Bare OpenAI-family ids route through OpenRouter under openrouter policy.''\<rparr>,
        \<lparr>pt_prefixes = [''claude''], pt_template = ''openrouter/anthropic/{model}'', pt_route_class = Openrouter,
         pt_reason = ''Bare Claude ids route through OpenRouter under openrouter policy.''\<rparr>,
        \<lparr>pt_prefixes = [''deepseek''], pt_template = ''openrouter/deepseek/{model}'', pt_route_class = Openrouter,
         pt_reason = ''Bare DeepSeek ids route through OpenRouter under openrouter policy.''\<rparr>,
        \<lparr>pt_prefixes = [''grok''], pt_template = ''openrouter/x-ai/{model}'', pt_route_class = Openrouter,
         pt_reason = ''Bare Grok ids route through OpenRouter under openrouter policy.''\<rparr>,
        \<lparr>pt_prefixes = [''mistral''], pt_template = ''openrouter/mistralai/{model}'', pt_route_class = Openrouter,
         pt_reason = ''Bare Mistral ids route through OpenRouter under openrouter policy.''\<rparr>,
        \<lparr>pt_prefixes = [''minimax-''], pt_template = ''openrouter/minimax/{model}'', pt_route_class = Openrouter,
         pt_reason = ''Bare MiniMax ids route through OpenRouter under openrouter policy.''\<rparr>],
     provider_defaults =
       [(''google'', \<lparr>rp_route_class = DirectProvider, rp_shared_limit = 4, rp_cooldown_floor_s = 15\<rparr>),
        (''openrouter'', \<lparr>rp_route_class = Openrouter, rp_shared_limit = 0, rp_cooldown_floor_s = 15\<rparr>)]\<rparr>"

section \<open>Canonicalisation\<close>

fun format_model :: "string \<Rightarrow> string \<Rightarrow> string" where
  "format_model [] m = []"
| "format_model (c # cs) m =
     (if prefix ''{model}'' (c # cs) then m @ format_model (drop 6 cs) m else c # format_model cs m)"

definition template_matches :: "string \<Rightarrow> prefix_template_rule \<Rightarrow> bool" where
  "template_matches lower rule \<longleftrightarrow> py_startswith_any (pt_prefixes rule) lower"

definition codex_route :: "string \<Rightarrow> string" where
  "codex_route raw = ''codex/'' @ py_after_last CHR ''/'' raw"

definition canonicalize_model_for_policy ::
  "provider_governance_policy \<Rightarrow> string \<Rightarrow> routing_policy \<Rightarrow> string" where
  "canonicalize_model_for_policy P model routing =
     (let raw = py_strip model; lower = py_lower raw in
      if raw = [] then raw
      else if dict_has (blocked_exact_aliases P) lower then raw
      else case dict_get (exact_aliases P) lower of
        Some rule \<Rightarrow> ea_canonical_model rule
      | None \<Rightarrow>
          (if lower = ''codex'' \<or> prefix ''codex/'' lower then raw
           else if is_codex_alias_model raw \<or> is_codex_family_model raw then codex_route raw
           else case find (template_matches lower) (direct_prefix_templates P) of
             Some rule \<Rightarrow> format_model (pt_template rule) raw
           | None \<Rightarrow>
               (if routing = PolicyDirect then raw
                else if py_startswith_any (passthrough_prefixes P) lower then raw
                else if is_image_generation_model raw then raw
                else if CHR ''/'' \<in> set raw
                then (case find (\<lambda>rule. py_before_first CHR ''/'' lower \<in> set (ep_providers rule))
                             (explicit_provider_routes P) of
                        Some rule \<Rightarrow> ep_target_prefix rule @ ''/'' @ raw
                      | None \<Rightarrow> raw)
                else (case find (template_matches lower) (bare_model_routes P) of
                        Some rule \<Rightarrow> format_model (pt_template rule) raw
                      | None \<Rightarrow> raw))))"

text \<open>The event dictionary \<open>describe_model_governance\<close> returns.\<close>

datatype governance_event =
    ModelBlocked string
  | ModelCanonicalized string route_class string

definition describe_model_governance ::
  "provider_governance_policy \<Rightarrow> string \<Rightarrow> routing_policy \<Rightarrow> governance_event option" where
  "describe_model_governance P model routing =
     (let raw = py_strip model; lower = py_lower raw in
      if raw = [] then None
      else case dict_get (blocked_exact_aliases P) lower of
        Some blocked \<Rightarrow> Some (ModelBlocked (br_reason blocked))
      | None \<Rightarrow>
      (case dict_get (exact_aliases P) lower of
        Some rule \<Rightarrow> Some (ModelCanonicalized (ea_reason rule) (ea_route_class rule) (ea_canonical_model rule))
      | None \<Rightarrow>
          (if lower = ''codex'' \<or> prefix ''codex/'' lower then None
           else if is_codex_alias_model raw \<or> is_codex_family_model raw
           then Some (ModelCanonicalized ''Codex-family models must route through the Codex SDK lane.''
                        AgentSdk (codex_route raw))
           else case find (template_matches lower) (direct_prefix_templates P) of
             Some rule \<Rightarrow> Some (ModelCanonicalized (pt_reason rule) (pt_route_class rule)
                                 (format_model (pt_template rule) raw))
           | None \<Rightarrow>
               (if routing = PolicyDirect then None
                else if py_startswith_any (passthrough_prefixes P) lower \<or> is_image_generation_model raw
                then None
                else if CHR ''/'' \<in> set raw
                then (case find (\<lambda>rule. py_before_first CHR ''/'' lower \<in> set (ep_providers rule))
                             (explicit_provider_routes P) of
                        Some rule \<Rightarrow> Some (ModelCanonicalized (ep_reason rule) (ep_route_class rule)
                                            (ep_target_prefix rule @ ''/'' @ raw))
                      | None \<Rightarrow> None)
                else (case find (template_matches lower) (bare_model_routes P) of
                        Some rule \<Rightarrow> Some (ModelCanonicalized (pt_reason rule) (pt_route_class rule)
                                            (format_model (pt_template rule) raw))
                      | None \<Rightarrow> None)))))"

definition get_provider_runtime_policy ::
  "provider_governance_policy \<Rightarrow> string \<Rightarrow> provider_runtime_policy" where
  "get_provider_runtime_policy P provider =
     (case dict_get (provider_defaults P) provider of
        Some p \<Rightarrow> p
      | None \<Rightarrow> \<lparr>rp_route_class = DirectProvider, rp_shared_limit = 0, rp_cooldown_floor_s = 0\<rparr>)"

definition blocked_model_reason :: "provider_governance_policy \<Rightarrow> string \<Rightarrow> string option" where
  "blocked_model_reason P model =
     (let raw = py_lower (py_strip model) in
      if raw = [] then None
      else map_option br_reason (dict_get (blocked_exact_aliases P) raw))"

section \<open>Lemmas\<close>

lemma py_after_last_append: "py_after_last d (x @ d # y) = py_after_last d y"
proof (cases "d \<in> set y")
  case True
  then show ?thesis by (auto simp: py_after_last_def takeWhile_append1 [where x = d])
next
  case False
  then have "takeWhile (\<lambda>c. c \<noteq> d) (rev y) = rev y" by (subst takeWhile_eq_all_conv) auto
  moreover have "takeWhile (\<lambda>c. c \<noteq> d) (rev y @ d # rev x) = rev y"
    using False by (subst takeWhile_append2) auto
  ultimately show ?thesis by (simp only: py_after_last_def rev_append rev.simps append_assoc append.simps)
qed

lemma base_model_name_append: "base_model_name (x @ CHR ''/'' # y) = base_model_name y"
proof -
  have "py_lower (x @ CHR ''/'' # y) = py_lower x @ CHR ''/'' # py_lower y"
    by (simp add: py_lower_def letter_bits_def)
  then show ?thesis by (simp add: base_model_name_def py_after_last_append)
qed

lemma format_front:
  "format_model ''gemini/{model}'' m = ''gemini'' @ CHR ''/'' # m"
  "format_model ''openrouter/openai/{model}'' m = ''openrouter/openai'' @ CHR ''/'' # m"
  "format_model ''openrouter/anthropic/{model}'' m = ''openrouter/anthropic'' @ CHR ''/'' # m"
  "format_model ''openrouter/deepseek/{model}'' m = ''openrouter/deepseek'' @ CHR ''/'' # m"
  "format_model ''openrouter/x-ai/{model}'' m = ''openrouter/x-ai'' @ CHR ''/'' # m"
  "format_model ''openrouter/mistralai/{model}'' m = ''openrouter/mistralai'' @ CHR ''/'' # m"
  "format_model ''openrouter/minimax/{model}'' m = ''openrouter/minimax'' @ CHR ''/'' # m"
  by simp_all

definition policy_fronts :: "string list" where
  "policy_fronts =
     [''gemini'', ''openrouter'', ''openrouter/openai'', ''openrouter/anthropic'',
      ''openrouter/deepseek'', ''openrouter/x-ai'', ''openrouter/mistralai'', ''openrouter/minimax'']"

text \<open>A model behind one of the routes of the policy in force is left as it is.\<close>

lemma canonical_fixed_front:
  assumes "py_strip u = u" and "u = front @ CHR ''/'' # m" and "front \<in> set policy_fronts"
    and "\<not> is_codex_alias_model m" and "\<not> is_codex_family_model m"
  shows "canonicalize_model_for_policy get_provider_governance_policy u r = u"
proof -
  have base: "base_model_name u = base_model_name m" by (simp add: assms(2) base_model_name_append)
  then have codex: "\<not> is_codex_alias_model u" "\<not> is_codex_family_model u"
    using assms by (simp_all add: is_codex_alias_model_def is_codex_family_model_def)
  have low: "prefix ''gemini/'' (py_lower u) \<or> prefix ''openrouter/'' (py_lower u)"
    using assms(2,3) by (auto simp: policy_fronts_def py_lower_def letter_bits_def)
  then have noalias: "dict_get (exact_aliases get_provider_governance_policy) (py_lower u) = None"
    by (auto simp: get_provider_governance_policy_def prefix_def)
  have lane: "py_lower u \<noteq> ''codex''" "\<not> prefix ''codex/'' (py_lower u)"
    using low by (auto simp: prefix_def)
  have direct: "find (template_matches (py_lower u)) (direct_prefix_templates get_provider_governance_policy) = None"
    using low by (auto simp: get_provider_governance_policy_def template_matches_def py_startswith_any_def prefix_def)
  have pass: "py_startswith_any (passthrough_prefixes get_provider_governance_policy) (py_lower u)"
    using low by (auto simp: get_provider_governance_policy_def py_startswith_any_def)
  show ?thesis
    using codex noalias lane direct pass assms(1)
    by (simp add: canonicalize_model_for_policy_def Let_def)
qed

lemma canonical_fixed_codex:
  assumes "py_strip u = u" and "prefix ''codex/'' (py_lower u)"
  shows "canonicalize_model_for_policy get_provider_governance_policy u r = u"
proof -
  have "dict_get (exact_aliases get_provider_governance_policy) (py_lower u) = None"
    using assms(2) by (auto simp: get_provider_governance_policy_def prefix_def)
  then show ?thesis using assms by (simp add: canonicalize_model_for_policy_def Let_def)
qed

text \<open>What the policy in force can answer for a name it does not leave alone.\<close>

lemma direct_template_front:
  assumes "find (template_matches low) (direct_prefix_templates get_provider_governance_policy) = Some rule"
  shows "\<exists>front \<in> set policy_fronts. format_model (pt_template rule) raw = front @ CHR ''/'' # raw"
  using assms
  by (auto simp: get_provider_governance_policy_def policy_fronts_def split: if_splits)

lemma bare_template_front:
  assumes "find (template_matches low) (bare_model_routes get_provider_governance_policy) = Some rule"
  shows "\<exists>front \<in> set policy_fronts. format_model (pt_template rule) raw = front @ CHR ''/'' # raw"
proof -
  have "rule \<in> set (bare_model_routes get_provider_governance_policy)"
    using assms by (auto simp: find_Some_iff)
  then have "pt_template rule \<in> {''openrouter/openai/{model}'', ''openrouter/anthropic/{model}'',
      ''openrouter/deepseek/{model}'', ''openrouter/x-ai/{model}'', ''openrouter/mistralai/{model}'',
      ''openrouter/minimax/{model}''}"
    by (auto simp: get_provider_governance_policy_def)
  then show ?thesis
    by (elim insertE emptyE) (simp_all only: format_front, simp_all add: policy_fronts_def)
qed

lemma provider_route_front:
  assumes "find f (explicit_provider_routes get_provider_governance_policy) = Some rule"
  shows "ep_target_prefix rule = ''openrouter''"
  using assms by (auto simp: get_provider_governance_policy_def split: if_splits)

lemma exact_alias_answer:
  assumes "dict_get (exact_aliases get_provider_governance_policy) low = Some rule"
  shows "ea_canonical_model rule \<in> {''gpt-5.6'', ''gpt-5.6-terra'', ''openrouter/minimax/minimax-m3''}"
  using assms by (auto simp: get_provider_governance_policy_def split: if_splits)

text \<open>Where an answer of the canonicaliser comes from, for any policy.\<close>

lemma canonicalize_sources:
  fixes P :: provider_governance_policy
  assumes "raw = py_strip m" and "y = canonicalize_model_for_policy P m r"
  shows "y = raw
    \<or> (\<exists>rule. dict_get (exact_aliases P) (py_lower raw) = Some rule \<and> y = ea_canonical_model rule)
    \<or> raw \<noteq> [] \<and> y = codex_route raw \<and> (is_codex_alias_model raw \<or> is_codex_family_model raw)
    \<or> raw \<noteq> [] \<and> \<not> is_codex_alias_model raw \<and> \<not> is_codex_family_model raw \<and>
      ((\<exists>rule. find (template_matches (py_lower raw)) (direct_prefix_templates P) = Some rule
              \<and> y = format_model (pt_template rule) raw)
       \<or> (\<exists>rule. find (template_matches (py_lower raw)) (bare_model_routes P) = Some rule
              \<and> y = format_model (pt_template rule) raw)
       \<or> (\<exists>f rule. find f (explicit_provider_routes P) = Some rule
              \<and> y = ep_target_prefix rule @ ''/'' @ raw))"
  using assms(2) unfolding canonicalize_model_for_policy_def Let_def assms(1) [symmetric]
  by (simp split: if_splits option.splits; blast)

lemma canonical_shape:
  assumes "raw = py_strip m" and "y = canonicalize_model_for_policy get_provider_governance_policy m r"
  shows "y = raw \<or> y \<in> {''gpt-5.6'', ''gpt-5.6-terra'', ''openrouter/minimax/minimax-m3''}
    \<or> raw \<noteq> [] \<and> y = codex_route raw \<and> (is_codex_alias_model raw \<or> is_codex_family_model raw)
    \<or> raw \<noteq> [] \<and> \<not> is_codex_alias_model raw \<and> \<not> is_codex_family_model raw \<and>
      (\<exists>front \<in> set policy_fronts. y = front @ CHR ''/'' # raw)" (is "?A \<or> ?B \<or> ?C \<or> ?D")
  using canonicalize_sources [OF assms]
proof (elim disjE conjE exE)
  fix rule
  assume "dict_get (exact_aliases get_provider_governance_policy) (py_lower raw) = Some rule"
    and "y = ea_canonical_model rule"
  then have ?B using exact_alias_answer by (simp only:)
  then show ?thesis by (rule disjI2 [OF disjI1])
next
  fix f rule
  assume ok: "raw \<noteq> []" "\<not> is_codex_alias_model raw" "\<not> is_codex_family_model raw"
    and "find f (explicit_provider_routes get_provider_governance_policy) = Some rule"
    and "y = ep_target_prefix rule @ ''/'' @ raw"
  then have "y = ''openrouter'' @ CHR ''/'' # raw" using provider_route_front by fastforce
  moreover have "''openrouter'' \<in> set policy_fronts" by (simp add: policy_fronts_def)
  ultimately have ?D using ok by blast
  then show ?thesis by blast
next
  fix rule
  assume ok: "raw \<noteq> []" "\<not> is_codex_alias_model raw" "\<not> is_codex_family_model raw"
    and rule: "find (template_matches (py_lower raw)) (direct_prefix_templates get_provider_governance_policy) = Some rule"
    and y: "y = format_model (pt_template rule) raw"
  have ?D unfolding y using direct_template_front [OF rule] ok by blast
  then show ?thesis by blast
next
  fix rule
  assume ok: "raw \<noteq> []" "\<not> is_codex_alias_model raw" "\<not> is_codex_family_model raw"
    and rule: "find (template_matches (py_lower raw)) (bare_model_routes get_provider_governance_policy) = Some rule"
    and y: "y = format_model (pt_template rule) raw"
  have ?D unfolding y using bare_template_front [OF rule] ok by blast
  then show ?thesis by blast
qed blast+

section \<open>Canonicalisation is idempotent\<close>

lemma py_strip_append:
  assumes "py_strip raw = raw" and "raw \<noteq> []" and "front \<noteq> []" and "\<not> py_isspace (hd front)"
    and "z = front @ mid @ drop n raw" and "drop n raw \<noteq> []"
  shows "py_strip z = z"
proof -
  have "\<not> py_isspace (last raw)"
    using py_strip_last [OF assms(1,2)] .
  moreover have "last z = last raw" using assms(5,6) by (simp add: last_drop)
  ultimately show ?thesis using assms by (intro py_strip_self) auto
qed

lemma base_model_name_lower: "base_model_name s = py_lower (py_after_last CHR ''/'' s)"
proof -
  have slash: "char_lower c = CHR ''/'' \<longleftrightarrow> c = CHR ''/''" for c
    by (cases c) (auto simp: letter_bits_def)
  show ?thesis
    by (simp add: base_model_name_def py_after_last_def py_lower_def rev_map takeWhile_map o_def slash)
qed

lemma py_after_last_drop: "\<exists>n. py_after_last d s = drop n s"
  unfolding py_after_last_def by (subst takeWhile_eq_take) (auto simp: rev_take)

lemma codex_route_stripped:
  assumes "py_strip raw = raw" and "raw \<noteq> []" and "is_codex_alias_model raw \<or> is_codex_family_model raw"
  shows "py_strip (codex_route raw) = codex_route raw"
proof -
  obtain n where n: "py_after_last CHR ''/'' raw = drop n raw" using py_after_last_drop by blast
  have "base_model_name raw \<noteq> []"
    using assms(3)
    by (auto simp: is_codex_alias_model_def is_codex_family_model_def CODEX_AGENT_ALIASES_def codex_family_re_def)
  then have ne: "drop n raw \<noteq> []" by (simp add: base_model_name_lower n)
  show ?thesis
    by (rule py_strip_append [where front = "''codex/''" and mid = "[]", OF assms(1,2)])
      (use ne in \<open>simp_all add: codex_route_def py_isspace_def n\<close>)
qed

lemma codex_route_fixed:
  assumes "py_strip raw = raw" and "raw \<noteq> []" and "is_codex_alias_model raw \<or> is_codex_family_model raw"
  shows "canonicalize_model_for_policy get_provider_governance_policy (codex_route raw) r = codex_route raw"
proof (rule canonical_fixed_codex [OF codex_route_stripped [OF assms]])
  show "prefix ''codex/'' (py_lower (codex_route raw))"
    by (simp add: codex_route_def py_lower_def letter_bits_def)
qed

lemma front_fixed:
  assumes "py_strip raw = raw" and "raw \<noteq> []" and "front \<in> set policy_fronts"
    and "\<not> is_codex_alias_model raw" and "\<not> is_codex_family_model raw" and "y = front @ CHR ''/'' # raw"
  shows "canonicalize_model_for_policy get_provider_governance_policy y r = y"
proof (rule canonical_fixed_front [OF _ assms(6,3,4,5)])
  have "front \<noteq> [] \<and> \<not> py_isspace (hd front)"
    using assms(3) by (auto simp: policy_fronts_def py_isspace_def)
  then show "py_strip y = y"
    by (intro py_strip_append [where front = front and mid = "''/''" and n = 0, OF assms(1,2)])
      (simp_all add: assms(2,6))
qed

lemma alias_targets_fixed:
  assumes "y \<in> {''gpt-5.6'', ''gpt-5.6-terra'', ''openrouter/minimax/minimax-m3''}"
  shows "canonicalize_model_for_policy get_provider_governance_policy y r = y"
proof -
  have "list_all (\<lambda>m. list_all (\<lambda>r. canonicalize_model_for_policy get_provider_governance_policy m r = m)
      [PolicyOpenrouter, PolicyDirect])
    [''gpt-5.6'', ''gpt-5.6-terra'', ''openrouter/minimax/minimax-m3'']"
    by code_simp
  with assms show ?thesis by (cases r) auto
qed

lemma canonicalize_strip [simp]:
  "canonicalize_model_for_policy P (py_strip m) r = canonicalize_model_for_policy P m r"
  by (simp add: canonicalize_model_for_policy_def)

lemma canonicalize_direct_or:
  "canonicalize_model_for_policy P m PolicyDirect = canonicalize_model_for_policy P m r
   \<or> canonicalize_model_for_policy P m PolicyDirect = py_strip m"
  by (cases r; cases "dict_get (exact_aliases P) (py_lower (py_strip m))")
    (simp_all add: canonicalize_model_for_policy_def Let_def split: option.split)

lemma canonicalize_unmoved_direct:
  assumes "canonicalize_model_for_policy P m r = py_strip m"
  shows "canonicalize_model_for_policy P m PolicyDirect = py_strip m"
  using canonicalize_direct_or [of P m r] assms by auto

lemma canonicalize_stable:
  assumes "y = canonicalize_model_for_policy get_provider_governance_policy m r"
  shows "canonicalize_model_for_policy get_provider_governance_policy y r = y \<and>
    canonicalize_model_for_policy get_provider_governance_policy y PolicyDirect = y"
  using canonical_shape [OF refl assms]
proof (elim disjE conjE bexE)
  assume y: "y = py_strip m"
  then have "canonicalize_model_for_policy get_provider_governance_policy m r = py_strip m"
    using assms by simp
  then show ?thesis unfolding y by (simp add: canonicalize_unmoved_direct)
qed (blast intro: alias_targets_fixed codex_route_fixed [OF py_strip_idem] front_fixed [OF py_strip_idem])+

text \<open>C8: canonicalising a model name is idempotent for the policy in force, and a name
  canonicalised under either routing policy is also left alone by direct routing. So a model that
  went through routing once keeps its name when it is routed again.\<close>

theorem canonicalize_idempotent:
  "canonicalize_model_for_policy get_provider_governance_policy
     (canonicalize_model_for_policy get_provider_governance_policy m r) r
   = canonicalize_model_for_policy get_provider_governance_policy m r
   \<and> canonicalize_model_for_policy get_provider_governance_policy
     (canonicalize_model_for_policy get_provider_governance_policy m r) PolicyDirect
   = canonicalize_model_for_policy get_provider_governance_policy m r"
  by (rule canonicalize_stable) (rule refl)

lemma describe_cases:
  "case describe_model_governance P m r of
     None \<Rightarrow> canonicalize_model_for_policy P m r = py_strip m \<and> blocked_model_reason P m = None
   | Some (ModelBlocked why) \<Rightarrow>
       canonicalize_model_for_policy P m r = py_strip m \<and> blocked_model_reason P m = Some why
   | Some (ModelCanonicalized why lane target) \<Rightarrow>
       canonicalize_model_for_policy P m r = target \<and> blocked_model_reason P m = None"
  unfolding describe_model_governance_def canonicalize_model_for_policy_def blocked_model_reason_def
    Let_def dict_has_def py_strip_lower
  by (cases "dict_get (blocked_exact_aliases P) (py_lower (py_strip m))";
      cases "dict_get (exact_aliases P) (py_lower (py_strip m))";
      cases "find (template_matches (py_lower (py_strip m))) (direct_prefix_templates P)")
    (simp_all split: option.split)

text \<open>For every policy, \<open>describe_model_governance\<close> explains exactly what
  \<open>canonicalize_model_for_policy\<close> does. A canonicalisation event names the model the
  canonicaliser answers; without an event the stripped name is unchanged; a blocked event comes
  exactly when \<open>blocked_model_reason\<close> answers its reason, and the name is then unchanged.\<close>

theorem describe_agrees_with_canonicalize:
  "case describe_model_governance P m r of
     None \<Rightarrow> canonicalize_model_for_policy P m r = py_strip m \<and> blocked_model_reason P m = None
   | Some (ModelBlocked why) \<Rightarrow>
       canonicalize_model_for_policy P m r = py_strip m \<and> blocked_model_reason P m = Some why
   | Some (ModelCanonicalized why lane target) \<Rightarrow>
       canonicalize_model_for_policy P m r = target \<and> blocked_model_reason P m = None"
  by (rule describe_cases)

end
