(* ===== verification/Routing.thy ===== *)
theory Routing
  imports Provider_Policy
begin

text \<open>
  The typed configuration of \<open>llm_client/core/config.py\<close> and the routing resolver of
  \<open>llm_client/core/routing.py\<close> on top of the governance policy: a requested model and its
  fallbacks become the list of canonical models to try, with a trace of what was rewritten.

  Environment variables are a function argument. The typed warning about an invalid value is a
  log line and is left out.
\<close>

section \<open>Configuration\<close>

definition OPENROUTER_ROUTING_ENV :: string where
  "OPENROUTER_ROUTING_ENV = ''LLM_CLIENT_OPENROUTER_ROUTING''"

definition OPENROUTER_API_BASE_ENV :: string where
  "OPENROUTER_API_BASE_ENV = ''OPENROUTER_API_BASE''"

definition OPENROUTER_DEFAULT_API_BASE :: string where
  "OPENROUTER_DEFAULT_API_BASE = ''https://openrouter.ai/api/v1''"

record client_config =
  cfg_routing_policy :: routing_policy
  cfg_openrouter_api_base :: string
  cfg_timeout :: int
  cfg_num_retries :: int
  cfg_base_delay :: rat
  cfg_max_delay :: rat
  cfg_max_concurrent :: int

definition default_config :: client_config where
  "default_config =
     \<lparr>cfg_routing_policy = PolicyOpenrouter, cfg_openrouter_api_base = OPENROUTER_DEFAULT_API_BASE,
      cfg_timeout = 60, cfg_num_retries = 2, cfg_base_delay = 1, cfg_max_delay = 30,
      cfg_max_concurrent = 5\<rparr>"

definition given_or :: "'a option \<Rightarrow> 'a \<Rightarrow> 'a" where
  "given_or explicit fallback = (case explicit of Some x \<Rightarrow> x | None \<Rightarrow> fallback)"

definition resolve_timeout :: "client_config \<Rightarrow> int option \<Rightarrow> int" where
  "resolve_timeout cfg t = given_or t (cfg_timeout cfg)"

definition resolve_num_retries :: "client_config \<Rightarrow> int option \<Rightarrow> int" where
  "resolve_num_retries cfg n = given_or n (cfg_num_retries cfg)"

definition resolve_base_delay :: "client_config \<Rightarrow> rat option \<Rightarrow> rat" where
  "resolve_base_delay cfg d = given_or d (cfg_base_delay cfg)"

definition resolve_max_delay :: "client_config \<Rightarrow> rat option \<Rightarrow> rat" where
  "resolve_max_delay cfg d = given_or d (cfg_max_delay cfg)"

definition resolve_max_concurrent :: "client_config \<Rightarrow> int option \<Rightarrow> int" where
  "resolve_max_concurrent cfg n = given_or n (cfg_max_concurrent cfg)"

definition resolve_defaults ::
  "client_config \<Rightarrow> int option \<Rightarrow> int option \<Rightarrow> rat option \<Rightarrow> rat option \<Rightarrow> int option
     \<Rightarrow> (string \<times> py) list" where
  "resolve_defaults cfg t n bd md mc =
     [(''timeout'', PInt (given_or t (cfg_timeout cfg))),
      (''num_retries'', PInt (given_or n (cfg_num_retries cfg))),
      (''base_delay'', PFloat (given_or bd (cfg_base_delay cfg))),
      (''max_delay'', PFloat (given_or md (cfg_max_delay cfg))),
      (''max_concurrent'', PInt (given_or mc (cfg_max_concurrent cfg)))]"

datatype resolution_source = Explicit | ConfigDefault

record 'a default_resolution =
  dr_param_name :: string
  dr_explicit_value :: "'a option"
  dr_resolved_value :: 'a
  dr_source :: resolution_source

definition resolve_with_record :: "string \<Rightarrow> 'a option \<Rightarrow> 'a \<Rightarrow> 'a default_resolution" where
  "resolve_with_record param_name explicit fallback =
     (case explicit of
        Some x \<Rightarrow> \<lparr>dr_param_name = param_name, dr_explicit_value = Some x, dr_resolved_value = x,
                   dr_source = Explicit\<rparr>
      | None \<Rightarrow> \<lparr>dr_param_name = param_name, dr_explicit_value = None, dr_resolved_value = fallback,
                 dr_source = ConfigDefault\<rparr>)"

definition config_from_env :: "(string \<Rightarrow> string option) \<Rightarrow> client_config" where
  "config_from_env env =
     (let routing_raw = py_lower (py_strip (given_or (env OPENROUTER_ROUTING_ENV) ''on''))
      in default_config
           \<lparr>cfg_routing_policy :=
              (if routing_raw \<in> set [''0'', ''false'', ''no'', ''off''] then PolicyDirect
               else PolicyOpenrouter),
            cfg_openrouter_api_base := given_or (env OPENROUTER_API_BASE_ENV) OPENROUTER_DEFAULT_API_BASE\<rparr>)"

section \<open>The resolver\<close>

record call_request =
  rq_model :: string
  rq_fallback_models :: "string list option"
  rq_api_base :: "string option"

text \<open>
  The trace dictionary; a key that the code leaves out is \<open>None\<close>. A governance event carries
  the fields of the description and its \<open>from\<close> and \<open>to\<close>.
\<close>

record routing_trace =
  tr_routing_policy :: string
  tr_attempted_models :: "string list"
  tr_normalization_events :: "(string \<times> string) list option"
  tr_governance_events :: "(governance_event \<times> string \<times> string) list option"
  tr_normalized :: "(string \<times> string) option"

record call_plan =
  pl_requested_model :: string
  pl_models :: "string list"
  pl_primary_model :: string
  pl_fallback_models :: "string list"
  pl_routing_policy :: routing_policy
  pl_requested_api_base :: "string option"
  pl_routing_trace :: routing_trace

definition routing_policy_label :: "routing_policy \<Rightarrow> string" where
  "routing_policy_label policy = (if policy = PolicyOpenrouter then ''openrouter_on'' else ''openrouter_off'')"

definition normalize_model_for_policy :: "string \<Rightarrow> routing_policy \<Rightarrow> string" where
  "normalize_model_for_policy model policy =
     canonicalize_model_for_policy get_provider_governance_policy model policy"

definition resolve_api_base_for_model :: "string \<Rightarrow> string option \<Rightarrow> client_config \<Rightarrow> string option" where
  "resolve_api_base_for_model model requested_api_base config =
     (case requested_api_base of
        Some b \<Rightarrow> Some b
      | None \<Rightarrow> if prefix ''openrouter/'' (py_lower (py_strip model))
                then Some (cfg_openrouter_api_base config) else None)"

text \<open>The loop over the candidates, with the keys seen so far.\<close>

fun resolve_candidates ::
  "routing_policy \<Rightarrow> string list \<Rightarrow> string list
     \<Rightarrow> string list \<times> (string \<times> string) list \<times> (governance_event \<times> string \<times> string) list" where
  "resolve_candidates policy seen [] = ([], [], [])"
| "resolve_candidates policy seen (candidate # candidates) =
     (let raw = py_strip candidate in
      if raw = [] then resolve_candidates policy seen candidates
      else
        let normalized = normalize_model_for_policy raw policy;
            moved = (if normalized \<noteq> raw then [(raw, normalized)] else []);
            governed = (case describe_model_governance get_provider_governance_policy raw policy of
                          Some event \<Rightarrow> [(event, raw, normalized)] | None \<Rightarrow> []);
            key = py_lower normalized
        in if key \<in> set seen
           then (case resolve_candidates policy seen candidates of
                   (models, ns, gs) \<Rightarrow> (models, moved @ ns, governed @ gs))
           else (case resolve_candidates policy (key # seen) candidates of
                   (models, ns, gs) \<Rightarrow> (normalized # models, moved @ ns, governed @ gs)))"

definition nonempty_list :: "'a list \<Rightarrow> 'a list option" where
  "nonempty_list xs = (if xs = [] then None else Some xs)"

definition resolve_call :: "call_request \<Rightarrow> client_config \<Rightarrow> call_plan" where
  "resolve_call request config =
     (let policy = cfg_routing_policy config;
          requested_model = py_strip (rq_model request);
          candidates = requested_model # given_or (rq_fallback_models request) [];
          (found, moved, governed) = resolve_candidates policy [] candidates;
          normalized = normalize_model_for_policy requested_model policy;
          models = (if found = [] then [normalized] else found);
          moves = (if found = [] \<and> normalized \<noteq> requested_model
                   then moved @ [(requested_model, normalized)] else moved);
          primary_model = hd models
      in \<lparr>pl_requested_model = requested_model, pl_models = models, pl_primary_model = primary_model,
          pl_fallback_models = tl models, pl_routing_policy = policy,
          pl_requested_api_base = rq_api_base request,
          pl_routing_trace =
            \<lparr>tr_routing_policy = routing_policy_label policy, tr_attempted_models = models,
             tr_normalization_events = nonempty_list moves,
             tr_governance_events = nonempty_list governed,
             tr_normalized = (if requested_model \<noteq> primary_model
                              then Some (requested_model, primary_model) else None)\<rparr>\<rparr>)"

section \<open>Model families\<close>

text \<open>The predicates of \<open>llm_client/core/model_detection.py\<close>.\<close>

definition RESPONSES_API_MODELS :: "string list" where
  "RESPONSES_API_MODELS =
     [''gpt-5'', ''gpt-5-mini'', ''gpt-5-nano'', ''gpt-5.2-pro'', ''gpt-5.5'', ''gpt-5.5-pro'',
      ''gpt-5.6'', ''gpt-5.6-terra'']"

definition is_claude_model :: "string \<Rightarrow> bool" where
  "is_claude_model model \<longleftrightarrow> py_any_in [''claude'', ''anthropic''] (py_lower model)"

definition is_openai_reasoning_model :: "string \<Rightarrow> bool" where
  "is_openai_reasoning_model model \<longleftrightarrow>
     (let base = base_model_name model in
      (case base of c # d # rest \<Rightarrow> c = CHR ''o'' \<and> py_isdigit d | _ \<Rightarrow> False) \<or> prefix ''gpt-5.'' base)"

definition is_thinking_model :: "string \<Rightarrow> bool" where
  "is_thinking_model model \<longleftrightarrow> py_any_in [''gemini-2.5'', ''gemini-3'', ''gemini-4''] (py_lower model)"

definition is_responses_api_model :: "string \<Rightarrow> bool" where
  "is_responses_api_model model \<longleftrightarrow>
     (let lower = py_lower model in CHR ''/'' \<notin> set lower \<and> lower \<in> set RESPONSES_API_MODELS)"

definition IMAGE_MODEL_HINTS :: "string list" where
  "IMAGE_MODEL_HINTS = [''gpt-image'', ''dall-e'', ''imagen'', ''stable-diffusion'', ''sdxl'', ''flux'']"

definition is_image_generation_model :: "string \<Rightarrow> bool" where
  "is_image_generation_model model \<longleftrightarrow> py_any_in IMAGE_MODEL_HINTS (base_model_name model)"

definition is_gemini_model :: "string \<Rightarrow> bool" where
  "is_gemini_model model \<longleftrightarrow> prefix ''gemini/'' (py_lower model)"

definition normalize_model_for_routing :: "(string \<Rightarrow> string option) \<Rightarrow> string \<Rightarrow> string" where
  "normalize_model_for_routing env model =
     pl_primary_model
       (resolve_call \<lparr>rq_model = model, rq_fallback_models = None, rq_api_base = None\<rparr> (config_from_env env))"

definition detection_api_base ::
  "(string \<Rightarrow> string option) \<Rightarrow> string \<Rightarrow> string option \<Rightarrow> client_config option \<Rightarrow> string option" where
  "detection_api_base env model api_base config =
     resolve_api_base_for_model model api_base (given_or config (config_from_env env))"

section \<open>Lemmas\<close>

text \<open>The names the resolver tries, before duplicates are dropped.\<close>

definition canonical_candidates :: "routing_policy \<Rightarrow> string list \<Rightarrow> string list" where
  "canonical_candidates policy cs =
     map (\<lambda>c. normalize_model_for_policy c policy) (filter (\<lambda>c. py_strip c \<noteq> []) cs)"

lemma normalize_strip [simp]: "normalize_model_for_policy (py_strip c) p = normalize_model_for_policy c p"
  by (simp add: normalize_model_for_policy_def)

lemma resolve_candidates_models:
  "fst (resolve_candidates policy seen cs) = dedup_by py_lower seen (canonical_candidates policy cs)"
  by (induction policy seen cs rule: resolve_candidates.induct)
    (auto simp: canonical_candidates_def Let_def split: prod.splits)

lemma resolve_candidates_moves:
  "fst (snd (resolve_candidates policy seen cs)) =
     map (\<lambda>c. (py_strip c, normalize_model_for_policy c policy))
       (filter (\<lambda>c. py_strip c \<noteq> [] \<and> normalize_model_for_policy c policy \<noteq> py_strip c) cs)"
  by (induction policy seen cs rule: resolve_candidates.induct) (auto simp: Let_def split: prod.splits)

lemma resolve_candidates_events:
  "snd (snd (resolve_candidates policy seen cs)) =
     concat (map (\<lambda>c. case describe_model_governance get_provider_governance_policy (py_strip c) policy of
                        Some event \<Rightarrow> [(event, py_strip c, normalize_model_for_policy c policy)]
                      | None \<Rightarrow> [])
       (filter (\<lambda>c. py_strip c \<noteq> []) cs))"
  by (induction policy seen cs rule: resolve_candidates.induct) (auto simp: Let_def split: prod.splits)


lemma normalized_stripped:
  assumes "py_strip c \<noteq> []"
  shows "py_strip (normalize_model_for_policy c p) = normalize_model_for_policy c p
    \<and> normalize_model_for_policy c p \<noteq> []"
proof -
  let ?y = "normalize_model_for_policy c p"
  consider (same) "?y = py_strip c"
    | (named) "?y \<in> {''gpt-5.6'', ''gpt-5.6-terra'', ''openrouter/minimax/minimax-m3''}"
    | (codex) "?y = codex_route (py_strip c)" "is_codex_alias_model (py_strip c) \<or> is_codex_family_model (py_strip c)"
    | (front) front where "front \<in> set policy_fronts" "?y = front @ CHR ''/'' # py_strip c"
    using canonical_shape [OF refl normalize_model_for_policy_def, of c p] by blast
  then show ?thesis
  proof cases
    case same
    with assms show ?thesis by simp
  next
    case named
    have "list_all (\<lambda>m. py_strip m = m \<and> m \<noteq> [])
        [''gpt-5.6'', ''gpt-5.6-terra'', ''openrouter/minimax/minimax-m3'']"
      by code_simp
    with named show ?thesis by auto
  next
    case codex
    have "codex_route (py_strip c) \<noteq> []" by (simp add: codex_route_def)
    with codex show ?thesis using codex_route_stripped [OF py_strip_idem assms codex(2)] by simp
  next
    case front
    have "front \<noteq> [] \<and> \<not> py_isspace (hd front)"
      using front(1) by (auto simp: policy_fronts_def py_isspace_def)
    then have "py_strip ?y = ?y"
      by (intro py_strip_append [where front = front and mid = "''/''" and n = 0, OF py_strip_idem assms])
        (simp_all add: assms front(2))
    with front(2) show ?thesis by simp
  qed
qed

lemma canonical_candidates_stable:
  assumes "y \<in> set (canonical_candidates policy cs)"
  shows "py_strip y = y \<and> y \<noteq> [] \<and> normalize_model_for_policy y policy = y"
proof -
  obtain c where c: "py_strip c \<noteq> []" "y = normalize_model_for_policy c policy"
    using assms by (auto simp: canonical_candidates_def)
  then show ?thesis
    using normalized_stripped [OF c(1)] canonicalize_stable [of y c policy]
    by (simp add: normalize_model_for_policy_def)
qed

lemma canonical_candidates_self:
  assumes "\<forall>y \<in> set ys. py_strip y = y \<and> y \<noteq> [] \<and> normalize_model_for_policy y policy = y"
  shows "canonical_candidates policy ys = ys"
  using assms by (induction ys) (auto simp: canonical_candidates_def)


lemma resolve_candidates_mem:
  assumes "c \<in> set cs" and "py_strip c \<noteq> []"
  shows "fst (resolve_candidates p [] cs) \<noteq> []"
    and "normalize_model_for_policy c p \<noteq> py_strip c \<Longrightarrow>
      (py_strip c, normalize_model_for_policy c p) \<in> set (fst (snd (resolve_candidates p [] cs)))"
    and "describe_model_governance get_provider_governance_policy (py_strip c) p = Some event \<Longrightarrow>
      (event, py_strip c, normalize_model_for_policy c p) \<in> set (snd (snd (resolve_candidates p [] cs)))"
proof -
  have "normalize_model_for_policy c p \<in> set (canonical_candidates p cs)"
    using assms by (auto simp: canonical_candidates_def)
  then show "fst (resolve_candidates p [] cs) \<noteq> []"
    unfolding resolve_candidates_models by (cases "canonical_candidates p cs") simp_all
qed (use assms in \<open>force simp: resolve_candidates_moves resolve_candidates_events\<close>)+

text \<open>The description and the canonical name, for the policy in force.\<close>

lemma describe_shape:
  assumes "normalize_model_for_policy m p \<noteq> py_strip m"
  shows "\<exists>why lane. describe_model_governance get_provider_governance_policy m p =
    Some (ModelCanonicalized why lane (normalize_model_for_policy m p))"
  using assms describe_cases [of get_provider_governance_policy m p]
  by (auto simp: normalize_model_for_policy_def split: option.splits governance_event.splits)

abbreviation request_candidates :: "call_request \<Rightarrow> string list" where
  "request_candidates request \<equiv> rq_model request # given_or (rq_fallback_models request) []"

lemma plan_models_raw:
  "pl_models (resolve_call request config) =
     (let found = fst (resolve_candidates (cfg_routing_policy config) [] (py_strip (rq_model request) #
                         given_or (rq_fallback_models request) []))
      in if found = [] then [normalize_model_for_policy (rq_model request) (cfg_routing_policy config)]
         else found)"
  by (simp add: resolve_call_def Let_def case_prod_unfold del: resolve_candidates.simps)

lemma plan_models:
  "pl_models (resolve_call request config) =
     (let names = canonical_candidates (cfg_routing_policy config) (request_candidates request)
      in if names = [] then [[]] else dedup_by py_lower [] names)"
proof -
  let ?p = "cfg_routing_policy config"
  have names: "canonical_candidates ?p (py_strip (rq_model request) # given_or (rq_fallback_models request) [])
      = canonical_candidates ?p (request_candidates request)"
    by (simp add: canonical_candidates_def)
  have blank: "normalize_model_for_policy (rq_model request) ?p = []"
    if "canonical_candidates ?p (request_candidates request) = []"
    using that by (auto simp: canonical_candidates_def normalize_model_for_policy_def
        canonicalize_model_for_policy_def split: if_splits)
  have empty: "dedup_by py_lower [] ns = [] \<longleftrightarrow> ns = []" for ns by (cases ns) simp_all
  show ?thesis
    unfolding plan_models_raw resolve_candidates_models names using blank by (simp add: Let_def empty)
qed

lemma plan_trace:
  fixes request :: call_request and config :: client_config
  defines "run \<equiv> resolve_candidates (cfg_routing_policy config) [] (py_strip (rq_model request) #
                    given_or (rq_fallback_models request) [])"
  shows "fst run \<noteq> [] \<Longrightarrow>
      tr_normalization_events (pl_routing_trace (resolve_call request config)) = nonempty_list (fst (snd run))"
    and "tr_governance_events (pl_routing_trace (resolve_call request config)) = nonempty_list (snd (snd run))"
    and "tr_normalized (pl_routing_trace (resolve_call request config)) =
      (if py_strip (rq_model request) \<noteq> pl_primary_model (resolve_call request config)
       then Some (py_strip (rq_model request), pl_primary_model (resolve_call request config)) else None)"
  unfolding run_def
  by (simp_all add: resolve_call_def Let_def case_prod_unfold del: resolve_candidates.simps)

lemma plan_fields:
  "pl_primary_model (resolve_call request config) = hd (pl_models (resolve_call request config))"
  "pl_fallback_models (resolve_call request config) = tl (pl_models (resolve_call request config))"
  "tr_attempted_models (pl_routing_trace (resolve_call request config)) = pl_models (resolve_call request config)"
  "pl_models (resolve_call request config) \<noteq> []"
  by (auto simp: resolve_call_def Let_def split: prod.splits)

text \<open>The plan of a request tries the canonical name of every candidate, the requested model first
  and then the fallbacks in the order of the request; a name that differs from an earlier one in
  case only is tried once, and a request without any name gives the empty model. The plan is never
  empty, the primary model and the fallbacks are its head and tail, and the trace lists it.\<close>

theorem plan_tries_each_canonical_once:
  fixes request :: call_request and config :: client_config
  defines "plan \<equiv> resolve_call request config"
    and "names \<equiv> canonical_candidates (cfg_routing_policy config) (request_candidates request)"
  shows "pl_models plan = (if names = [] then [[]] else dedup_by py_lower [] names)
    \<and> pl_models plan = pl_primary_model plan # pl_fallback_models plan
    \<and> tr_attempted_models (pl_routing_trace plan) = pl_models plan
    \<and> distinct (map py_lower (pl_models plan))
    \<and> py_lower ` set names \<subseteq> py_lower ` set (pl_models plan)"
  unfolding plan_def names_def
  using plan_fields [of request config] dedup_by_keys [of py_lower "[]"] dedup_by_distinct [of py_lower "[]"]
  by (auto simp: plan_models Let_def)

lemma dedup_by_self:
  assumes "distinct (map key ys)" and "key ` set ys \<inter> set seen = {}"
  shows "dedup_by key seen ys = ys"
  using assms
proof (induction ys arbitrary: seen)
  case (Cons y ys)
  then have "dedup_by key (key y # seen) ys = ys" by (intro Cons.IH) auto
  with Cons.prems show ?case by auto
qed simp

text \<open>Routing is idempotent. Resolving the models of a plan again, under the same configuration,
  gives the same models, and nothing is rewritten on the way.\<close>

theorem routing_idempotent:
  fixes request :: call_request and config :: client_config and b :: "string option"
  defines "plan \<equiv> resolve_call request config"
  defines "again \<equiv> resolve_call
      \<lparr>rq_model = pl_primary_model plan, rq_fallback_models = Some (pl_fallback_models plan), rq_api_base = b\<rparr>
      config"
  shows "pl_models again = pl_models plan
    \<and> tr_normalization_events (pl_routing_trace again) = None
    \<and> tr_normalized (pl_routing_trace again) = None"
proof -
  let ?p = "cfg_routing_policy config"
  let ?names = "canonical_candidates ?p (request_candidates request)"
  have parts: "pl_models plan = pl_primary_model plan # pl_fallback_models plan"
    unfolding plan_def using plan_fields [of request config] by simp
  show ?thesis
  proof (cases "?names = []")
    case True
    then have "pl_models plan = [[]]" unfolding plan_def by (simp add: plan_models)
    then have "pl_primary_model plan = []" "pl_fallback_models plan = []" "pl_models plan = [[]]"
      using parts by simp_all
    then show ?thesis
      unfolding again_def
      by (simp add: resolve_call_def given_or_def nonempty_list_def Let_def normalize_model_for_policy_def
          canonicalize_model_for_policy_def)
  next
    case False
    then have models: "pl_models plan = dedup_by py_lower [] ?names" unfolding plan_def by (simp add: plan_models)
    then have stable: "\<forall>y \<in> set (pl_models plan).
        py_strip y = y \<and> y \<noteq> [] \<and> normalize_model_for_policy y ?p = y"
      using dedup_by_subset [of py_lower "[]" ?names] canonical_candidates_stable by auto
    then have self: "canonical_candidates ?p (pl_models plan) = pl_models plan"
      by (rule canonical_candidates_self)
    have "dedup_by py_lower [] (pl_models plan) = pl_models plan"
      unfolding models by (rule dedup_by_self [OF dedup_by_distinct]) simp
    then have same: "pl_models again = pl_models plan"
      unfolding again_def using self by (simp add: plan_models given_or_def parts Let_def)
    have primary: "py_strip (pl_primary_model plan) = pl_primary_model plan"
      using stable parts by (metis list.set_intros(1))
    let ?run = "resolve_candidates ?p [] (pl_models plan)"
    have found: "fst ?run = pl_models plan"
      using resolve_candidates_models [of ?p "[]" "pl_models plan"] self models
        dedup_by_self [of py_lower "pl_models plan" "[]"] dedup_by_distinct [of py_lower "[]"] by simp
    have moves: "fst (snd ?run) = []"
      using stable by (auto simp: resolve_candidates_moves filter_empty_conv)
    have again_primary: "pl_primary_model again = pl_primary_model plan"
      using same parts plan_fields(1) unfolding again_def by simp
    have "tr_normalization_events (pl_routing_trace again) = nonempty_list (fst (snd ?run))"
      unfolding again_def using found parts primary by (subst plan_trace(1)) (simp_all add: given_or_def del: resolve_candidates.simps)
    moreover have "tr_normalized (pl_routing_trace again) = None"
      using again_primary primary unfolding again_def by (simp add: plan_trace(3))
    ultimately show ?thesis using same moves by (simp add: nonempty_list_def)
  qed
qed

text \<open>No reroute is silent. A candidate whose name the policy changes leaves a normalisation event
  with both names, and a governance event that gives the rule's reason, its lane and the new name,
  whether or not the name is a duplicate.\<close>

theorem no_silent_reroute:
  fixes request :: call_request and config :: client_config
  defines "trace \<equiv> pl_routing_trace (resolve_call request config)"
  assumes "c \<in> set (request_candidates request)" and "py_strip c \<noteq> []"
    and "normalize_model_for_policy c (cfg_routing_policy config) = y" and "y \<noteq> py_strip c"
  shows "(py_strip c, y) \<in> set (given_or (tr_normalization_events trace) [])
    \<and> (\<exists>why lane. (ModelCanonicalized why lane y, py_strip c, y) \<in> set (given_or (tr_governance_events trace) []))"
proof -
  let ?p = "cfg_routing_policy config"
  let ?cs = "py_strip (rq_model request) # given_or (rq_fallback_models request) []"
  obtain c' where c': "c' \<in> set ?cs" "py_strip c' = py_strip c" "normalize_model_for_policy c' ?p = y"
    using assms(2,4) by (metis normalize_strip py_strip_idem list.set_intros set_ConsD)
  have nonempty: "set (given_or (nonempty_list xs) []) = set xs" for xs :: "'b list"
    by (simp add: nonempty_list_def given_or_def)
  have given: "py_strip c' \<noteq> []" and moved: "normalize_model_for_policy c' ?p \<noteq> py_strip c'"
    using c' assms(3,5) by simp_all
  have "(py_strip c, y) \<in> set (fst (snd (resolve_candidates ?p [] ?cs)))"
    using resolve_candidates_mem(2) [OF c'(1) given moved] unfolding c'(2,3) .
  moreover obtain why lane where
    event: "describe_model_governance get_provider_governance_policy (py_strip c') ?p = Some (ModelCanonicalized why lane y)"
    using describe_shape [of "py_strip c'" ?p] moved c'(3) by (metis normalize_strip py_strip_idem)
  have "(ModelCanonicalized why lane y, py_strip c, y) \<in> set (snd (snd (resolve_candidates ?p [] ?cs)))"
    using resolve_candidates_mem(3) [OF c'(1) given event] unfolding c'(2,3) .
  ultimately show ?thesis
    unfolding trace_def plan_trace(1) [OF resolve_candidates_mem(1) [OF c'(1) given]] plan_trace(2) nonempty by blast
qed

theorem no_silent_reroute_witness:
  "\<exists>why lane. (ModelCanonicalized why lane ''openrouter/x-ai/grok-4'', ''grok-4'', ''openrouter/x-ai/grok-4'')
     \<in> set (given_or (tr_governance_events (pl_routing_trace (resolve_call
          \<lparr>rq_model = ''gpt-5'', rq_fallback_models = Some ['' grok-4''], rq_api_base = None\<rparr> default_config))) [])"
proof -
  have "py_strip '' grok-4'' = ''grok-4'' \<and>
      normalize_model_for_policy '' grok-4'' (cfg_routing_policy default_config) = ''openrouter/x-ai/grok-4''"
    by code_simp
  then show ?thesis
    using no_silent_reroute [of "'' grok-4''" "\<lparr>rq_model = ''gpt-5'', rq_fallback_models = Some ['' grok-4''], rq_api_base = None\<rparr>"
        default_config "''openrouter/x-ai/grok-4''"]
    by (simp add: given_or_def)
qed

end
