(* ===== verification/Timeout_Policy.thy ===== *)
theory Timeout_Policy
  imports Prelude
begin

text \<open>
  The timeout policy of \<open>llm_client/execution/timeout_policy.py\<close>: normalised request timeouts under
  the global switch, the defaults per call surface, the safety ceiling around one asynchronous
  attempt, and the IPv4 switch.

  A timeout argument is what \<open>float(x)\<close> makes of it. The two module globals are a record. An attempt
  is its behaviour in time: when it would end, how, and what it does when it is cancelled.
\<close>

section \<open>The policy\<close>

definition TIMEOUT_POLICY_ENV :: string where
  "TIMEOUT_POLICY_ENV = ''LLM_CLIENT_TIMEOUT_POLICY''"

definition DEFAULT_TIMEOUT_S :: int where
  "DEFAULT_TIMEOUT_S = 60"

definition DEFAULT_STRUCTURED_TIMEOUT_S :: int where
  "DEFAULT_STRUCTURED_TIMEOUT_S = 60"

definition DEFAULT_SAFETY_TIMEOUT_S :: int where
  "DEFAULT_SAFETY_TIMEOUT_S = 300"

definition env_text :: "(string \<Rightarrow> string option) \<Rightarrow> string \<Rightarrow> string" where
  "env_text env var = (case env var of Some s \<Rightarrow> s | None \<Rightarrow> [])"

definition timeouts_disabled :: "(string \<Rightarrow> string option) \<Rightarrow> bool" where
  "timeouts_disabled env =
     (let raw = py_lower (py_strip (env_text env TIMEOUT_POLICY_ENV)) in
      if raw = [] then False
      else if raw \<in> set [''allow'', ''allowed'', ''enable'', ''enabled'', ''on'', ''true'', ''yes'', ''1'']
      then False
      else if raw \<in> set [''ban'', ''disable'', ''disabled'', ''off'', ''none'', ''false'', ''no'', ''0'']
      then True
      else False)"

definition timeout_policy_label :: "(string \<Rightarrow> string option) \<Rightarrow> string" where
  "timeout_policy_label env = (if timeouts_disabled env then ''ban'' else ''allow'')"

text \<open>\<open>int(raw)\<close> is the argument \<open>parse\<close>.\<close>

definition env_timeout :: "(string \<Rightarrow> int option) \<Rightarrow> (string \<Rightarrow> string option) \<Rightarrow> string \<Rightarrow> int \<Rightarrow> int" where
  "env_timeout parse env name fallback =
     (let raw = env_text env name in
      if raw = [] then fallback
      else (case parse raw of None \<Rightarrow> fallback | Some n \<Rightarrow> max n 0))"

definition default_timeout_for_caller ::
  "(string \<Rightarrow> int option) \<Rightarrow> (string \<Rightarrow> string option) \<Rightarrow> string \<Rightarrow> int" where
  "default_timeout_for_caller parse env caller =
     (let base_default = env_timeout parse env ''LLM_CLIENT_DEFAULT_TIMEOUT'' DEFAULT_TIMEOUT_S in
      if py_contains ''structured'' caller
      then env_timeout parse env ''LLM_CLIENT_DEFAULT_STRUCTURED_TIMEOUT'' DEFAULT_STRUCTURED_TIMEOUT_S
      else base_default)"

text \<open>The globals, and the lines the policy logs: one warning per process, one per caller.\<close>

record timeout_state =
  policy_logged :: bool
  warned_callers :: "string list"
  logged_warnings :: "string list"

definition initial_timeout_state :: timeout_state where
  "initial_timeout_state = \<lparr>policy_logged = False, warned_callers = [], logged_warnings = []\<rparr>"

definition log_timeout_policy_once ::
  "(string \<Rightarrow> string option) \<Rightarrow> string \<Rightarrow> timeout_state \<Rightarrow> timeout_state" where
  "log_timeout_policy_once env caller S =
     (if policy_logged S then S
      else S\<lparr>logged_warnings := logged_warnings S @
               [''LLM_CLIENT_TIMEOUT_POLICY='' @ timeout_policy_label env @ '' (first observed in '' @ caller @ '')''],
             policy_logged := True\<rparr>)"

definition reset_timeout_disabled_warning_state :: "timeout_state \<Rightarrow> timeout_state" where
  "reset_timeout_disabled_warning_state S = S\<lparr>warned_callers := []\<rparr>"

text \<open>
  \<open>float(timeout)\<close>: a \<open>TypeError\<close> or \<open>ValueError\<close>, a finite number, NaN or an infinity. \<open>int\<close> of a
  NaN is a \<open>ValueError\<close>, of an infinity an \<open>OverflowError\<close>.
\<close>

datatype timeout_value = NotNumeric | Finite rat | NotANumber | PosInfinity | NegInfinity

datatype timeout_error = TimeoutValueError | TimeoutOverflowError

definition parse_timeout :: "timeout_value \<Rightarrow> timeout_error + int" where
  "parse_timeout v =
     (case v of
        NotNumeric \<Rightarrow> Inr 0
      | Finite x \<Rightarrow>
          if x > 0 \<and> of_int \<lfloor>x\<rfloor> \<noteq> x then Inl TimeoutValueError
          else Inr (if x < 0 then \<lceil>x\<rceil> else \<lfloor>x\<rfloor>)
      | NotANumber \<Rightarrow> Inl TimeoutValueError
      | PosInfinity \<Rightarrow> Inl TimeoutValueError
      | NegInfinity \<Rightarrow> Inl TimeoutOverflowError)"

definition disabled_message :: "string \<Rightarrow> int \<Rightarrow> string" where
  "disabled_message caller parsed =
     ''TIMEOUT_DISABLED['' @ caller @ '']: timeout='' @ py_int_str parsed @ ''s ignored (set '' @
     TIMEOUT_POLICY_ENV @ ''=allow to re-enable).''"

definition normalize_timeout ::
  "(string \<Rightarrow> string option) \<Rightarrow> timeout_value \<Rightarrow> string \<Rightarrow> string list option \<Rightarrow> bool \<Rightarrow> timeout_state
     \<Rightarrow> (timeout_error + int) \<times> string list option \<times> timeout_state" where
  "normalize_timeout env timeout caller sink log_once S =
     (let S1 = (if log_once then log_timeout_policy_once env caller S else S) in
      case parse_timeout timeout of
        Inl e \<Rightarrow> (Inl e, sink, S1)
      | Inr p \<Rightarrow>
          let parsed = (if p < 0 then 0 else p) in
          if parsed > 0 \<and> timeouts_disabled env
          then
            let msg = disabled_message caller parsed;
                S2 = (if caller \<in> set (warned_callers S1) then S1
                      else S1\<lparr>warned_callers := caller # warned_callers S1,
                              logged_warnings := logged_warnings S1 @ [msg]\<rparr>)
            in (Inr 0, map_option (\<lambda>ws. if msg \<in> set ws then ws else ws @ [msg]) sink, S2)
          else (Inr parsed, sink, S1))"

definition safety_timeout_s :: "(string \<Rightarrow> int option) \<Rightarrow> (string \<Rightarrow> string option) \<Rightarrow> int" where
  "safety_timeout_s parse env =
     (let raw = env_text env ''LLM_CLIENT_SAFETY_TIMEOUT'' in
      if raw \<noteq> [] then (case parse raw of Some n \<Rightarrow> max n 0 | None \<Rightarrow> DEFAULT_SAFETY_TIMEOUT_S)
      else DEFAULT_SAFETY_TIMEOUT_S)"

section \<open>The safety ceiling\<close>

datatype 'a task_end = TaskReturns 'a | TaskRaises string | TaskCancelled

text \<open>
  A task ends by itself after some seconds, or never. When it is cancelled it ends in one of the
  three ways; a task that never ends after its cancellation is not modelled.
\<close>

record 'a attempt_task =
  ends_after :: "rat option"
  ends_with :: "'a task_end"
  when_cancelled :: "'a task_end"

datatype 'a await_result =
    Awaited 'a | AwaitRaised string | AwaitCancelled | AwaitTimeout string | AwaitPending

fun await_end :: "'a task_end \<Rightarrow> 'a await_result" where
  "await_end (TaskReturns x) = Awaited x"
| "await_end (TaskRaises e) = AwaitRaised e"
| "await_end TaskCancelled = AwaitCancelled"

definition ceiling_text :: "string \<Rightarrow> int \<Rightarrow> string \<Rightarrow> string" where
  "ceiling_text caller limit model =
     caller @ '' timed out after '' @ py_int_str limit @ ''s async attempt safety ceiling (model='' @ model @ '')''"

text \<open>
  \<open>cancel_at\<close> is the moment at which the surroundings cancel the wait, if they do. Cancelling the
  wait cancels the task, waits for it, and passes the cancellation on unless the task raises.
\<close>

definition cancelled_from_outside :: "'a attempt_task \<Rightarrow> 'a await_result" where
  "cancelled_from_outside T =
     (case when_cancelled T of
        TaskRaises e \<Rightarrow> AwaitRaised e
      | _ \<Rightarrow> AwaitCancelled)"

definition ended_by :: "'a attempt_task \<Rightarrow> rat \<Rightarrow> bool" where
  "ended_by T t \<longleftrightarrow> (case ends_after T of Some d \<Rightarrow> d \<le> t | None \<Rightarrow> False)"

definition past_ceiling :: "string \<Rightarrow> int \<Rightarrow> string \<Rightarrow> 'a attempt_task \<Rightarrow> 'a await_result" where
  "past_ceiling caller limit model T =
     (case when_cancelled T of
        TaskCancelled \<Rightarrow> AwaitTimeout (ceiling_text caller limit model)
      | TaskRaises e \<Rightarrow> AwaitRaised e
      | TaskReturns x \<Rightarrow>
          AwaitTimeout (ceiling_text caller limit model @ ''; provider task returned after cancellation''))"

definition await_with_safety_ceiling ::
  "(string \<Rightarrow> int option) \<Rightarrow> (string \<Rightarrow> string option) \<Rightarrow> string \<Rightarrow> string \<Rightarrow> rat option \<Rightarrow> 'a attempt_task
     \<Rightarrow> 'a await_result" where
  "await_with_safety_ceiling parse env caller model cancel_at T =
     (let limit = safety_timeout_s parse env in
      if limit \<le> 0
      then (case cancel_at of
              Some c \<Rightarrow> if ended_by T c then await_end (ends_with T) else await_end (when_cancelled T)
            | None \<Rightarrow> if ends_after T = None then AwaitPending else await_end (ends_with T))
      else (case cancel_at of
              Some c \<Rightarrow>
                if c < of_int limit \<and> \<not> ended_by T c then cancelled_from_outside T
                else if ended_by T (of_int limit) then await_end (ends_with T)
                else past_ceiling caller limit model T
            | None \<Rightarrow>
                if ended_by T (of_int limit) then await_end (ends_with T)
                else past_ceiling caller limit model T))"

section \<open>IPv4\<close>

text \<open>\<open>wsl2\<close> is what \<open>/proc/version\<close> says. The answer, and whether the patch is in force.\<close>

definition force_ipv4_if_configured :: "(string \<Rightarrow> string option) \<Rightarrow> bool \<Rightarrow> bool \<Rightarrow> bool \<times> bool" where
  "force_ipv4_if_configured env wsl2 forced =
     (if forced then (True, forced)
      else let raw = py_lower (py_strip (env_text env ''LLM_CLIENT_FORCE_IPV4'')) in
        if raw \<in> set [''0'', ''false'', ''no'', ''off''] then (False, forced)
        else if raw \<in> set [''1'', ''true'', ''yes'', ''on''] then (True, True)
        else if wsl2 then (True, True) else (False, forced))"

text \<open>The patched \<open>getaddrinfo\<close>: only IPv4 entries, or all of them when there is none.\<close>

definition ipv4_only :: "('r \<Rightarrow> bool) \<Rightarrow> 'r list \<Rightarrow> 'r list" where
  "ipv4_only is_ipv4 results =
     (let ipv4 = filter is_ipv4 results in if ipv4 \<noteq> [] then ipv4 else results)"

section \<open>Properties\<close>

lemma normalize_timeout_range:
  assumes "normalize_timeout env v caller sink once S = (Inr n, sink', S')"
  shows "0 \<le> n \<and> (timeouts_disabled env \<longrightarrow> n = 0)
    \<and> (\<not> timeouts_disabled env \<and> v = Finite x \<and> 0 \<le> x \<longrightarrow> of_int n = x)"
proof -
  have small: "\<lceil>y\<rceil> = 0" if "\<not> y \<le> - 1" and "y < 0" for y :: rat
    using that by (intro ceiling_unique) auto
  show ?thesis
  using assms small
  by (auto simp: normalize_timeout_def parse_timeout_def Let_def split: timeout_value.splits if_splits)
qed

text \<open>
  The module announces that invalid values become zero. A value that is no number does; a NaN and
  the infinities escape as errors instead, minus infinity as one that no handler of bad values names.
\<close>

lemma non_finite_timeouts_raise:
  "fst (normalize_timeout env NotNumeric caller sink once S) = Inr 0"
  "fst (normalize_timeout env NotANumber caller sink once S) = Inl TimeoutValueError"
  "fst (normalize_timeout env NegInfinity caller sink once S) = Inl TimeoutOverflowError"
  by (simp_all add: normalize_timeout_def parse_timeout_def Let_def)

text \<open>The docstring of the default promises more time for structured calls; without settings there is none.\<close>

lemma structured_default_not_longer:
  "default_timeout_for_caller parse (\<lambda>_. None) caller = DEFAULT_TIMEOUT_S"
  by (simp add: default_timeout_for_caller_def env_timeout_def env_text_def DEFAULT_TIMEOUT_S_def
      DEFAULT_STRUCTURED_TIMEOUT_S_def)

text \<open>The ceiling acts exactly when an attempt has not ended by itself in time: an attempt that ends
  within it has its own result, and one that does not is cancelled, and its caller sees a timeout
  whether the attempt accepts the cancellation or returns after all. No wait without an outside
  cancellation stays pending under a positive ceiling.\<close>

theorem safety_ceiling_cases:
  fixes T :: "'a attempt_task" and parse env
  defines "limit \<equiv> of_int (safety_timeout_s parse env) :: rat"
  assumes "0 < limit"
  shows "(ended_by T limit \<longrightarrow> await_with_safety_ceiling parse env caller model None T = await_end (ends_with T))
    \<and> (\<not> ended_by T limit \<and> (\<forall>e. when_cancelled T \<noteq> TaskRaises e) \<longrightarrow>
        (\<exists>m. await_with_safety_ceiling parse env caller model None T = AwaitTimeout m))
    \<and> await_with_safety_ceiling parse env caller model None T \<noteq> AwaitPending"
  using assms(2)
  by (cases "ends_with T"; cases "when_cancelled T")
    (auto simp: await_with_safety_ceiling_def past_ceiling_def limit_def Let_def)

theorem safety_ceiling_cases_witness:
  "\<exists>m. await_with_safety_ceiling (\<lambda>_. None) (\<lambda>_. None) ''call'' ''gpt-5'' None
     \<lparr>ends_after = None, ends_with = TaskReturns (1::int), when_cancelled = TaskReturns 2\<rparr> = AwaitTimeout m"
proof -
  have "(0::rat) < of_int (safety_timeout_s (\<lambda>_. None) (\<lambda>_. None))"
    by (simp add: safety_timeout_s_def env_text_def DEFAULT_SAFETY_TIMEOUT_S_def)
  from safety_ceiling_cases [OF this, of "\<lparr>ends_after = None, ends_with = TaskReturns (1::int), when_cancelled = TaskReturns 2\<rparr>"]
  show ?thesis by (simp add: ended_by_def)
qed

end
