(* ===== verification/Budget_Reservations.thy ===== *)
theory Budget_Reservations
  imports Prelude
begin

text \<open>
  The durable reservation ledger of \<open>llm_client/observability/budget_reservations.py\<close>: the
  tables it reads and writes, its normalisation of amounts, one definition per public
  operation, the transaction wrapper and the lease keeper.

  Instants are integers (microseconds since the epoch). The code compares their UTC ISO texts,
  which order as the instants do (\<open>Iso_Time\<close>). The rows of \<open>llm_calls\<close> and \<open>embeddings\<close>
  are written by other parts of the program; here they are data of the ledger. A fresh
  \<open>uuid4\<close> and the process's owner id are arguments.
\<close>

section \<open>Amounts\<close>

text \<open>
  A numeric argument: a bool, a finite number (the decimal that \<open>str(value)\<close> spells), a NaN or
  infinity, or a value whose text is no decimal.
\<close>

datatype number_arg = NumBool bool | Num rat | NumNonFinite | NumInvalid

datatype budget_error =
    ValueError string
  | BudgetExceeded string
  | StoreError string
  | LeaseLost string
  | ReservationOverrun string

definition MICRO_USD :: rat where
  "MICRO_USD = 1000000"

definition validate_finite_number :: "number_arg \<Rightarrow> string \<Rightarrow> bool \<Rightarrow> budget_error + rat" where
  "validate_finite_number v label allow_zero =
     (case v of
        NumBool b \<Rightarrow> Inl (ValueError (label @ '' must be a finite numeric value, not bool''))
      | NumInvalid \<Rightarrow> Inl (ValueError (label @ '' must be a finite numeric value''))
      | NumNonFinite \<Rightarrow> Inl (ValueError (label @ '' must be a finite '' @
          (if allow_zero then ''non-negative'' else ''positive'') @ '' numeric value''))
      | Num x \<Rightarrow>
          if x < 0 \<or> (\<not> allow_zero \<and> x = 0)
          then Inl (ValueError (label @ '' must be a finite '' @
                 (if allow_zero then ''non-negative'' else ''positive'') @ '' numeric value''))
          else Inr x)"

definition normalize_budget_microusd :: "number_arg \<Rightarrow> budget_error + int" where
  "normalize_budget_microusd v =
     and_then (validate_finite_number v ''max_budget'' False)
       (\<lambda>x. let n = \<lfloor>x * MICRO_USD\<rfloor> in
          if n < 1 then Inl (ValueError ''max_budget is positive but normalizes to zero micro-USD'')
          else Inr n)"

definition normalize_reservation_microusd :: "number_arg \<Rightarrow> budget_error + int" where
  "normalize_reservation_microusd v =
     and_then (validate_finite_number v ''budget_reservation'' False)
       (\<lambda>x. let n = \<lceil>x * MICRO_USD\<rceil> in
          if n < 1 then Inl (ValueError ''budget_reservation is positive but normalizes to zero micro-USD'')
          else Inr n)"

definition normalize_settled_cost_microusd :: "number_arg \<Rightarrow> budget_error + int" where
  "normalize_settled_cost_microusd v =
     and_then (validate_finite_number v ''settled_cost'' True) (\<lambda>x. Inr \<lceil>x * MICRO_USD\<rceil>)"

section \<open>Trace identifiers and time\<close>

text \<open>A trace id argument is a string or another value.\<close>

definition require_scope :: "string option \<Rightarrow> budget_error + string" where
  "require_scope t =
     (case t of
        None \<Rightarrow> Inl (ValueError ''scope_trace_id must be a non-empty string'')
      | Some s \<Rightarrow> if py_strip s = [] then Inl (ValueError ''scope_trace_id must be a non-empty string'')
                  else Inr (py_strip s))"

definition require_descendant :: "string \<Rightarrow> string option \<Rightarrow> budget_error + string" where
  "require_descendant scope t =
     and_then (require_scope t)
       (\<lambda>c. if c \<noteq> scope \<and> \<not> prefix (scope @ ''/'') c
            then Inl (ValueError ''call_trace_id must equal scope_trace_id or be its slash-delimited descendant'')
            else Inr c)"

datatype now_arg = NowNone | NowNaive | NowAware int

fun now_or_clock :: "int \<Rightarrow> now_arg \<Rightarrow> budget_error + int" where
  "now_or_clock clock NowNone = Inr clock"
| "now_or_clock clock NowNaive = Inl (ValueError ''now must be timezone-aware'')"
| "now_or_clock clock (NowAware t) = Inr t"

text \<open>\<open>lease_ttl_seconds\<close>; \<open>timedelta(seconds=ttl)\<close> is \<open>ttl\<close> million microseconds.\<close>

datatype ttl_arg = TtlBool bool | Ttl int

definition DEFAULT_LEASE_TTL_SECONDS :: int where
  "DEFAULT_LEASE_TTL_SECONDS = 300"

fun require_ttl :: "ttl_arg \<Rightarrow> budget_error + int" where
  "require_ttl (TtlBool b) = Inl (ValueError ''lease_ttl_seconds must be a positive integer'')"
| "require_ttl (Ttl n) =
     (if n < 1 then Inl (ValueError ''lease_ttl_seconds must be a positive integer'') else Inr n)"

section \<open>The tables\<close>

datatype res_status = Active | Settled | ReleasedError | Expired

record scope_row =
  sc_max_budget :: int
  sc_created_at :: int
  sc_updated_at :: int

record reservation =
  rv_scope :: string
  rv_call :: string
  rv_owner :: string
  rv_reserved :: int
  rv_status :: res_status
  rv_created_at :: int
  rv_heartbeat_at :: int
  rv_expires_at :: int
  rv_completed_at :: "int option"
  rv_settled_cost :: "int option"

record llm_call_row =
  lc_trace :: "string option"
  lc_task :: "string option"
  lc_project :: "string option"
  lc_timestamp :: "string option"
  lc_marginal_cost :: "rat option"
  lc_cost :: "rat option"
  lc_error :: "string option"

record embedding_row =
  em_trace :: "string option"
  em_task :: "string option"
  em_project :: "string option"
  em_timestamp :: "string option"
  em_cost :: "rat option"
  em_error :: "string option"

record ledger =
  scopes :: "(string \<times> scope_row) list"
  reservations :: "(string \<times> reservation) list"
  llm_calls :: "llm_call_row list"
  embeddings :: "embedding_row list"

record budget_snapshot =
  sn_scope :: string
  sn_max_budget :: int
  sn_settled :: int
  sn_active_reserved :: int
  sn_available :: int

record lease =
  le_id :: string
  le_scope :: string
  le_call :: string
  le_owner :: string
  le_reserved :: int

definition trace_in_scope :: "string \<Rightarrow> string option \<Rightarrow> bool" where
  "trace_in_scope scope t =
     (case t of None \<Rightarrow> False | Some s \<Rightarrow> s = scope \<or> sql_like (scope @ ''/%'') s)"

text \<open>\<open>COALESCE(marginal_cost, cost)\<close>.\<close>

definition call_cost :: "llm_call_row \<Rightarrow> rat option" where
  "call_cost r = (case lc_marginal_cost r of Some c \<Rightarrow> Some c | None \<Rightarrow> lc_cost r)"

definition sum_costs :: "rat option list \<Rightarrow> rat" where
  "sum_costs cs = sum_list (map (\<lambda>c. case c of Some x \<Rightarrow> x | None \<Rightarrow> 0) cs)"

definition settled_microusd :: "ledger \<Rightarrow> string \<Rightarrow> budget_error + int" where
  "settled_microusd L scope =
     and_then (normalize_settled_cost_microusd
        (Num (sum_costs (map call_cost (filter (\<lambda>r. trace_in_scope scope (lc_trace r)) (llm_calls L))))))
     (\<lambda>a. and_then (normalize_settled_cost_microusd
        (Num (sum_costs (map em_cost
           (filter (\<lambda>r. em_error r = None \<and> trace_in_scope scope (em_trace r)) (embeddings L))))))
     (\<lambda>b. Inr (a + b)))"

definition map_rows :: "(reservation \<Rightarrow> reservation) \<Rightarrow> ledger \<Rightarrow> ledger" where
  "map_rows f L = L\<lparr>reservations := map (\<lambda>(i, r). (i, f r)) (reservations L)\<rparr>"

definition expire_row :: "string \<Rightarrow> int \<Rightarrow> reservation \<Rightarrow> reservation" where
  "expire_row scope now r =
     (if rv_scope r = scope \<and> rv_status r = Active \<and> rv_expires_at r \<le> now
      then r\<lparr>rv_status := Expired, rv_completed_at := Some now\<rparr> else r)"

definition expire_leases :: "string \<Rightarrow> int \<Rightarrow> ledger \<Rightarrow> ledger" where
  "expire_leases scope now L = map_rows (expire_row scope now) L"

definition active_reserved_microusd :: "ledger \<Rightarrow> string \<Rightarrow> int \<Rightarrow> int" where
  "active_reserved_microusd L scope now =
     sum_list (map (\<lambda>(i, r). rv_reserved r)
       (filter (\<lambda>(i, r). rv_scope r = scope \<and> rv_status r = Active \<and> now < rv_expires_at r)
         (reservations L)))"

definition scope_budget :: "ledger \<Rightarrow> string \<Rightarrow> int option" where
  "scope_budget L scope = map_option sc_max_budget (dict_get (scopes L) scope)"

definition assert_scope_budget :: "ledger \<Rightarrow> string \<Rightarrow> int \<Rightarrow> budget_error + unit" where
  "assert_scope_budget L scope budget =
     (case scope_budget L scope of
        None \<Rightarrow> Inr ()
      | Some b \<Rightarrow>
          if b \<noteq> budget
          then Inl (ValueError ''budget scope was previously used with a different normalized max_budget'')
          else Inr ())"

definition make_snapshot :: "string \<Rightarrow> int \<Rightarrow> int \<Rightarrow> int \<Rightarrow> budget_snapshot" where
  "make_snapshot scope budget settled active =
     \<lparr>sn_scope = scope, sn_max_budget = budget, sn_settled = settled,
      sn_active_reserved = active, sn_available = max 0 (budget - settled - active)\<rparr>"

section \<open>Transactions\<close>

text \<open>
  What SQLite answers to one attempt: the transaction runs, the file is locked, another
  operational error, another error, or observability is switched off. On every answer but
  the first the attempt leaves the tables as they were. An operation that raises is rolled back.
\<close>

datatype db_answer = DbReady | DbLocked | DbOperationalError | DbError | StoreDisabled

record store_env =
  se_retries :: nat
  se_base_delay_ms :: nat
  se_answer :: "nat \<Rightarrow> db_answer"
  se_clock :: int

type_synonym 'a operation = "ledger \<Rightarrow> (budget_error + 'a) \<times> ledger"

definition run_operation :: "'a operation \<Rightarrow> ledger \<Rightarrow> (budget_error + 'a) \<times> ledger" where
  "run_operation op L =
     (case op L of (Inl e, L') \<Rightarrow> (Inl e, L) | (Inr x, L') \<Rightarrow> (Inr x, L'))"

function transaction_from ::
  "store_env \<Rightarrow> nat \<Rightarrow> 'a operation \<Rightarrow> ledger \<Rightarrow> (budget_error + 'a) \<times> ledger \<times> rat list" where
  "transaction_from env attempt op L =
     (case se_answer env attempt of
        DbReady \<Rightarrow> (case run_operation op L of (res, L') \<Rightarrow> (res, L', []))
      | StoreDisabled \<Rightarrow>
          (Inl (StoreError ''reserved_concurrent budget mode requires enabled SQLite observability''), L, [])
      | DbLocked \<Rightarrow>
          if attempt \<ge> se_retries env
          then (Inl (StoreError ''durable budget reservation transaction failed''), L, [])
          else (case transaction_from env (attempt + 1) op L of
                  (res, L', sleeps) \<Rightarrow>
                    (res, L', of_nat (se_base_delay_ms env * (attempt + 1)) / 1000 # sleeps))
      | _ \<Rightarrow> (Inl (StoreError ''durable budget reservation transaction failed''), L, []))"
  by pat_completeness auto
termination
  by (relation "measure (\<lambda>(env, attempt, op, L). se_retries env - attempt)") auto

declare transaction_from.simps [simp del]

definition transaction ::
  "store_env \<Rightarrow> 'a operation \<Rightarrow> ledger \<Rightarrow> (budget_error + 'a) \<times> ledger" where
  "transaction env op L = (case transaction_from env 0 op L of (res, L', _) \<Rightarrow> (res, L'))"

text \<open>Run the transaction on the arguments that were accepted, or raise what rejected them.\<close>

definition with_args ::
  "budget_error + 'x \<Rightarrow> ('x \<Rightarrow> ledger \<Rightarrow> (budget_error + 'a) \<times> ledger) \<Rightarrow> 'a operation" where
  "with_args checked body L = (case checked of Inl e \<Rightarrow> (Inl e, L) | Inr x \<Rightarrow> body x L)"

section \<open>The public operations\<close>

definition snapshot_op :: "string \<Rightarrow> int \<Rightarrow> int \<Rightarrow> budget_snapshot operation" where
  "snapshot_op scope budget now L =
     (and_then (assert_scope_budget L scope budget) (\<lambda>_.
        and_then (settled_microusd L scope) (\<lambda>settled.
          Inr (make_snapshot scope budget settled (active_reserved_microusd L scope now)))), L)"

definition get_budget_scope_snapshot ::
  "store_env \<Rightarrow> string option \<Rightarrow> number_arg \<Rightarrow> now_arg \<Rightarrow> budget_snapshot operation" where
  "get_budget_scope_snapshot env scope_arg max_budget now_a =
     with_args
       (and_then (require_scope scope_arg) (\<lambda>scope.
        and_then (normalize_budget_microusd max_budget) (\<lambda>budget.
        and_then (now_or_clock (se_clock env) now_a) (\<lambda>now. Inr (scope, budget, now)))))
       (\<lambda>(scope, budget, now). transaction env (snapshot_op scope budget now))"

definition set_scope_budget :: "string \<Rightarrow> int \<Rightarrow> int \<Rightarrow> ledger \<Rightarrow> ledger" where
  "set_scope_budget scope budget now L =
     L\<lparr>scopes := map (\<lambda>(s, r). (s, if s = scope
                                    then r\<lparr>sc_max_budget := budget, sc_updated_at := now\<rparr> else r))
                  (scopes L)\<rparr>"

definition raise_op :: "string \<Rightarrow> int \<Rightarrow> int \<Rightarrow> int \<Rightarrow> budget_snapshot operation" where
  "raise_op scope expected replacement now L =
     (case scope_budget L scope of
        None \<Rightarrow> (Inl (ValueError ''budget scope does not exist''), L)
      | Some existing \<Rightarrow>
          if existing \<noteq> expected \<and> existing \<noteq> replacement
          then (Inl (ValueError ''budget scope does not match expected max_budget or the idempotent replacement''), L)
          else
            let L1 = (if existing = expected \<and> replacement \<noteq> expected
                      then set_scope_budget scope replacement now L else L);
                L2 = expire_leases scope now L1
            in (and_then (settled_microusd L2 scope) (\<lambda>settled.
                  Inr (make_snapshot scope replacement settled (active_reserved_microusd L2 scope now))), L2))"

definition raise_budget_scope_max_budget ::
  "store_env \<Rightarrow> string option \<Rightarrow> number_arg \<Rightarrow> number_arg \<Rightarrow> now_arg \<Rightarrow> budget_snapshot operation" where
  "raise_budget_scope_max_budget env scope_arg expected_max new_max now_a =
     with_args
       (and_then (require_scope scope_arg) (\<lambda>scope.
        and_then (normalize_budget_microusd expected_max) (\<lambda>expected.
        and_then (normalize_budget_microusd new_max) (\<lambda>replacement.
        and_then (if replacement < expected
                  then Inl (ValueError ''new_max_budget must not decrease the expected max_budget'')
                  else Inr ()) (\<lambda>_.
        and_then (now_or_clock (se_clock env) now_a) (\<lambda>now. Inr (scope, expected, replacement, now)))))))
       (\<lambda>(scope, expected, replacement, now). transaction env (raise_op scope expected replacement now))"

text \<open>
  The admission test and the new row of \<open>acquire_budget_reservation\<close>. The id is the table's
  primary key: SQLite rejects a second row with it.
\<close>

definition admit_reservation ::
  "string \<Rightarrow> string \<Rightarrow> string \<Rightarrow> string \<Rightarrow> int \<Rightarrow> int \<Rightarrow> int \<Rightarrow> int \<Rightarrow> lease operation" where
  "admit_reservation rid owner scope call_trace budget reserved now expires L =
     (case settled_microusd L scope of
        Inl e \<Rightarrow> (Inl e, L)
      | Inr settled \<Rightarrow>
          let active = active_reserved_microusd L scope now in
          if settled + active + reserved > budget
          then (Inl (BudgetExceeded (''budget reservation exceeds root scope limit: '' @ py_int_str settled @
                  '' settled + '' @ py_int_str active @ '' active + '' @ py_int_str reserved @
                  '' requested > '' @ py_int_str budget @ '' micro-USD'')), L)
          else if dict_has (reservations L) rid
          then (Inl (StoreError ''durable budget reservation transaction failed''), L)
          else
            (Inr \<lparr>le_id = rid, le_scope = scope, le_call = call_trace, le_owner = owner, le_reserved = reserved\<rparr>,
             L\<lparr>reservations := reservations L @
               [(rid, \<lparr>rv_scope = scope, rv_call = call_trace, rv_owner = owner, rv_reserved = reserved,
                       rv_status = Active, rv_created_at = now, rv_heartbeat_at = now,
                       rv_expires_at = expires, rv_completed_at = None, rv_settled_cost = None\<rparr>)]\<rparr>))"

definition acquire_op ::
  "string \<Rightarrow> string \<Rightarrow> string \<Rightarrow> string \<Rightarrow> int \<Rightarrow> int \<Rightarrow> int \<Rightarrow> int \<Rightarrow> lease operation" where
  "acquire_op rid owner scope call_trace budget reserved now expires L =
     (let L1 = expire_leases scope now L in
      case scope_budget L1 scope of
        Some existing \<Rightarrow>
          if existing \<noteq> budget
          then (Inl (ValueError ''budget scope was previously used with a different normalized max_budget''), L1)
          else admit_reservation rid owner scope call_trace budget reserved now expires L1
      | None \<Rightarrow>
          admit_reservation rid owner scope call_trace budget reserved now expires
            (L1\<lparr>scopes := scopes L1 @
               [(scope, \<lparr>sc_max_budget = budget, sc_created_at = now, sc_updated_at = now\<rparr>)]\<rparr>))"

definition acquire_budget_reservation ::
  "store_env \<Rightarrow> string \<Rightarrow> string \<Rightarrow> string option \<Rightarrow> string option \<Rightarrow> number_arg \<Rightarrow> number_arg
     \<Rightarrow> now_arg \<Rightarrow> ttl_arg \<Rightarrow> lease operation" where
  "acquire_budget_reservation env rid owner scope_arg call_arg max_budget res_arg now_a ttl_a =
     with_args
       (and_then (require_scope scope_arg) (\<lambda>scope.
        and_then (require_descendant scope call_arg) (\<lambda>call_trace.
        and_then (normalize_budget_microusd max_budget) (\<lambda>budget.
        and_then (normalize_reservation_microusd res_arg) (\<lambda>reserved.
        and_then (if reserved > budget
                  then Inl (BudgetExceeded ''budget reservation exceeds normalized root budget'')
                  else Inr ()) (\<lambda>_.
        and_then (require_ttl ttl_a) (\<lambda>ttl.
        and_then (now_or_clock (se_clock env) now_a) (\<lambda>now.
          Inr (scope, call_trace, budget, reserved, now, now + ttl * 1000000)))))))))
       (\<lambda>(scope, call_trace, budget, reserved, now, expires).
          transaction env (acquire_op rid owner scope call_trace budget reserved now expires))"

text \<open>\<open>UPDATE ... WHERE reservation_id = ? AND owner_id = ? AND status = 'active'\<close>.\<close>

definition owned_active :: "lease \<Rightarrow> string \<Rightarrow> reservation \<Rightarrow> bool" where
  "owned_active le rid r \<longleftrightarrow> rid = le_id le \<and> rv_owner r = le_owner le \<and> rv_status r = Active"

definition update_where ::
  "(string \<Rightarrow> reservation \<Rightarrow> bool) \<Rightarrow> (reservation \<Rightarrow> reservation) \<Rightarrow> ledger \<Rightarrow> ledger" where
  "update_where P f L =
     L\<lparr>reservations := map (\<lambda>(i, r). (i, if P i r then f r else r)) (reservations L)\<rparr>"

definition count_where :: "(string \<Rightarrow> reservation \<Rightarrow> bool) \<Rightarrow> ledger \<Rightarrow> nat" where
  "count_where P L = length (filter (\<lambda>(i, r). P i r) (reservations L))"

definition release_op :: "lease \<Rightarrow> int \<Rightarrow> unit operation" where
  "release_op le now L =
     (Inr (), update_where (owned_active le)
                (\<lambda>r. r\<lparr>rv_status := ReleasedError, rv_completed_at := Some now\<rparr>) L)"

definition release_budget_reservation :: "store_env \<Rightarrow> lease \<Rightarrow> now_arg \<Rightarrow> unit operation" where
  "release_budget_reservation env le now_a =
     with_args (now_or_clock (se_clock env) now_a) (\<lambda>now. transaction env (release_op le now))"

definition find_owned :: "ledger \<Rightarrow> lease \<Rightarrow> reservation option" where
  "find_owned L le =
     map_option snd (find (\<lambda>(i, r). i = le_id le \<and> rv_owner r = le_owner le) (reservations L))"

definition settle_op :: "lease \<Rightarrow> int \<Rightarrow> int \<Rightarrow> bool operation" where
  "settle_op le settled now L =
     (case find_owned L le of
        None \<Rightarrow> (Inl (StoreError ''durable budget reservation was not found''), L)
      | Some r \<Rightarrow>
         (case rv_status r of
            Active \<Rightarrow>
              (Inr (settled > rv_reserved r),
               update_where (owned_active le)
                 (\<lambda>r. r\<lparr>rv_status := Settled, rv_completed_at := Some now, rv_settled_cost := Some settled\<rparr>) L)
          | Expired \<Rightarrow> (Inl (LeaseLost ''durable budget reservation expired before call completion''), L)
          | ReleasedError \<Rightarrow> (Inr False, L)
          | Settled \<Rightarrow>
              (Inr ((case rv_settled_cost r of Some c \<Rightarrow> c | None \<Rightarrow> 0) > rv_reserved r), L)))"

definition raise_overrun :: "(budget_error + bool) \<times> ledger \<Rightarrow> (budget_error + unit) \<times> ledger" where
  "raise_overrun out =
     (case out of
        (Inl e, L) \<Rightarrow> (Inl e, L)
      | (Inr over, L) \<Rightarrow>
          (if over then Inl (ReservationOverrun ''completed call cost exceeded its admitted budget reservation'')
           else Inr (), L))"

definition settle_budget_reservation ::
  "store_env \<Rightarrow> lease \<Rightarrow> number_arg \<Rightarrow> now_arg \<Rightarrow> unit operation" where
  "settle_budget_reservation env le cost now_a =
     with_args
       (and_then (normalize_settled_cost_microusd cost) (\<lambda>settled.
        and_then (now_or_clock (se_clock env) now_a) (\<lambda>now. Inr (settled, now))))
       (\<lambda>(settled, now) L. raise_overrun (transaction env (settle_op le settled now) L))"

definition renewable :: "lease \<Rightarrow> int \<Rightarrow> string \<Rightarrow> reservation \<Rightarrow> bool" where
  "renewable le now rid r \<longleftrightarrow> owned_active le rid r \<and> now < rv_expires_at r"

definition renew_op :: "lease \<Rightarrow> int \<Rightarrow> int \<Rightarrow> bool operation" where
  "renew_op le now expires L =
     (Inr (count_where (renewable le now) L = 1),
      update_where (renewable le now) (\<lambda>r. r\<lparr>rv_heartbeat_at := now, rv_expires_at := expires\<rparr>) L)"

definition renew_budget_reservation ::
  "store_env \<Rightarrow> lease \<Rightarrow> now_arg \<Rightarrow> ttl_arg \<Rightarrow> bool operation" where
  "renew_budget_reservation env le now_a ttl_a =
     with_args
       (and_then (require_ttl ttl_a) (\<lambda>ttl.
        and_then (now_or_clock (se_clock env) now_a) (\<lambda>now. Inr (now, now + ttl * 1000000))))
       (\<lambda>(now, expires). transaction env (renew_op le now expires))"

section \<open>The lease keeper\<close>

text \<open>The thread that calls \<open>renew_once\<close> every 30 seconds is not modelled; each call is.\<close>

record keeper =
  kp_leases :: "(string \<times> lease) list"
  kp_lost :: "string list"

definition keeper_track :: "lease \<Rightarrow> keeper \<Rightarrow> keeper" where
  "keeper_track le K =
     K\<lparr>kp_leases := dict_set (le_id le) le (kp_leases K), kp_lost := removeAll (le_id le) (kp_lost K)\<rparr>"

definition keeper_untrack :: "lease \<Rightarrow> keeper \<Rightarrow> keeper" where
  "keeper_untrack le K =
     K\<lparr>kp_leases := dict_pop (le_id le) (kp_leases K), kp_lost := removeAll (le_id le) (kp_lost K)\<rparr>"

definition keeper_lost :: "lease \<Rightarrow> keeper \<Rightarrow> bool" where
  "keeper_lost le K \<longleftrightarrow> le_id le \<in> set (kp_lost K)"

text \<open>Each renewal has its own store environment: the database may answer differently each time.\<close>

fun renew_all :: "(lease \<Rightarrow> store_env) \<Rightarrow> now_arg \<Rightarrow> lease list \<Rightarrow> keeper \<Rightarrow> ledger \<Rightarrow> keeper \<times> ledger" where
  "renew_all envs now_a [] K L = (K, L)"
| "renew_all envs now_a (le # les) K L =
     (case renew_budget_reservation (envs le) le now_a (Ttl DEFAULT_LEASE_TTL_SECONDS) L of
        (Inr True, L') \<Rightarrow> renew_all envs now_a les K L'
      | (_, L') \<Rightarrow> renew_all envs now_a les (K\<lparr>kp_lost := List.insert (le_id le) (kp_lost K)\<rparr>) L')"

definition renew_once :: "(lease \<Rightarrow> store_env) \<Rightarrow> now_arg \<Rightarrow> keeper \<Rightarrow> ledger \<Rightarrow> keeper \<times> ledger" where
  "renew_once envs now_a K L = renew_all envs now_a (map snd (kp_leases K)) K L"

definition release_tracked ::
  "store_env \<Rightarrow> lease \<Rightarrow> keeper \<Rightarrow> ledger \<Rightarrow> (budget_error + unit) \<times> keeper \<times> ledger" where
  "release_tracked env le K L =
     (case release_budget_reservation env le NowNone L of
        (res, L') \<Rightarrow> (res, keeper_untrack le K, L'))"

definition settle_tracked ::
  "store_env \<Rightarrow> lease \<Rightarrow> number_arg \<Rightarrow> keeper \<Rightarrow> ledger \<Rightarrow> (budget_error + unit) \<times> keeper \<times> ledger" where
  "settle_tracked env le cost K L =
     (if keeper_lost le K
      then (Inl (LeaseLost ''durable budget reservation lease was lost before call completion''),
            keeper_untrack le K, L)
      else case settle_budget_reservation env le cost NowNone L of
             (res, L') \<Rightarrow> (res, keeper_untrack le K, L'))"

section \<open>What a transaction can do\<close>

lemma transaction_from_cases:
  assumes "transaction_from env attempt op L = (res, L', sleeps)"
  shows "run_operation op L = (res, L') \<or> (\<exists>m. res = Inl (StoreError m) \<and> L' = L)"
  using assms
proof (induction env attempt op L arbitrary: sleeps rule: transaction_from.induct)
  case (1 env attempt op L)
  note eq = 1(2) [unfolded transaction_from.simps [of env attempt op L]]
  show ?case
  proof (cases "se_answer env attempt")
    case DbLocked
    show ?thesis
    proof (cases "attempt \<ge> se_retries env")
      case True
      then show ?thesis using eq DbLocked by auto
    next
      case False
      then obtain ss where "transaction_from env (attempt + 1) op L = (res, L', ss)"
        using eq DbLocked by (auto split: prod.splits)
      then show ?thesis using 1(1) [OF DbLocked] False by blast
    qed
  qed (use eq in \<open>auto split: prod.splits\<close>)
qed

lemma transaction_cases:
  assumes "transaction env op L = (res, L')"
  obtains "op L = (res, L')" and "\<And>e. res \<noteq> Inl e" | e where "res = Inl e" and "L' = L"
proof -
  obtain sleeps where "transaction_from env 0 op L = (res, L', sleeps)"
    using assms by (auto simp: transaction_def split: prod.splits)
  then have "run_operation op L = (res, L') \<or> (\<exists>m. res = Inl (StoreError m) \<and> L' = L)"
    by (rule transaction_from_cases)
  then show thesis
  proof (elim disjE exE conjE)
    assume run: "run_operation op L = (res, L')"
    obtain out L1 where op: "op L = (out, L1)" by fastforce
    show thesis
    proof (cases out)
      case (Inl e)
      with run op have "res = Inl e" "L' = L" by (simp_all add: run_operation_def)
      then show thesis by (rule that(2))
    next
      case (Inr y)
      with run op have "res = Inr y" "L' = L1" by (simp_all add: run_operation_def)
      with op Inr show thesis by (intro that(1)) simp_all
    qed
  qed (rule that(2))
qed

text \<open>An operation that raises leaves the tables alone; one that returns did what its body does.\<close>

lemma with_args_cases:
  assumes "with_args checked (\<lambda>x. transaction env (op x)) L = (res, L')"
  obtains e where "res = Inl e" and "L' = L"
    | x y where "checked = Inr x" and "res = Inr y" and "op x L = (Inr y, L')"
proof (cases checked)
  case (Inl e)
  then have "res = Inl e" "L' = L" using assms by (simp_all add: with_args_def)
  then show thesis by (rule that(1))
next
  case (Inr x)
  then have "transaction env (op x) L = (res, L')" using assms by (simp add: with_args_def)
  then show thesis using that Inr by (elim transaction_cases) (auto, cases res, auto)
qed

section \<open>The life of a row\<close>

text \<open>
  The contract the operations share. A row keeps its identity and its amount; only an active
  row changes, and no row becomes active. Budgets do not fall and scopes are not lost.
\<close>

definition row_follows :: "reservation \<Rightarrow> reservation \<Rightarrow> bool" where
  "row_follows r r' \<longleftrightarrow>
     rv_scope r' = rv_scope r \<and> rv_call r' = rv_call r \<and> rv_owner r' = rv_owner r \<and>
     rv_reserved r' = rv_reserved r \<and> rv_created_at r' = rv_created_at r \<and>
     (rv_status r \<noteq> Active \<longrightarrow> r' = r)"

definition status_active_sum :: "ledger \<Rightarrow> string \<Rightarrow> int" where
  "status_active_sum L s =
     sum_list (map (\<lambda>(i, r). if rv_scope r = s \<and> rv_status r = Active then rv_reserved r else 0)
       (reservations L))"

definition ledger_ok :: "ledger \<Rightarrow> bool" where
  "ledger_ok L \<longleftrightarrow>
     distinct (map fst (reservations L)) \<and> distinct (map fst (scopes L)) \<and>
     (\<forall>(i, r) \<in> set (reservations L). rv_reserved r > 0 \<and> dict_has (scopes L) (rv_scope r)) \<and>
     (\<forall>(s, row) \<in> set (scopes L). sc_max_budget row > 0 \<and> status_active_sum L s \<le> sc_max_budget row)"

locale lifecycle_update =
  fixes upd :: "ledger \<Rightarrow> ledger"
  assumes rows: "\<exists>g. reservations (upd L) = map (\<lambda>(i, r). (i, g i r)) (reservations L) \<and>
                     (\<forall>i r. row_follows r (g i r))"
    and scope_names: "map fst (scopes (upd L)) = map fst (scopes L)"
    and budgets: "dict_get (scopes L) s = Some row \<Longrightarrow>
                    \<exists>row'. dict_get (scopes (upd L)) s = Some row' \<and> sc_max_budget row \<le> sc_max_budget row'"
begin

lemma ids: "map fst (reservations (upd L)) = map fst (reservations L)"
  using rows [of L] by (auto simp: case_prod_beta o_def)

lemma active_sum_falls:
  assumes "\<forall>(i, r) \<in> set (reservations L). rv_reserved r > 0"
  shows "status_active_sum (upd L) s \<le> status_active_sum L s"
proof -
  obtain g where g: "reservations (upd L) = map (\<lambda>(i, r). (i, g i r)) (reservations L)"
    and follows: "\<forall>i r. row_follows r (g i r)" using rows by blast
  have "status_active_sum (upd L) s =
      sum_list (map (\<lambda>(i, r). if rv_scope (g i r) = s \<and> rv_status (g i r) = Active
                              then rv_reserved (g i r) else 0) (reservations L))"
    by (simp add: status_active_sum_def g o_def case_prod_unfold cong: if_cong)
  also have "\<dots> \<le> status_active_sum L s"
    unfolding status_active_sum_def
    using assms follows
    by (intro sum_list_mono) (fastforce simp: row_follows_def)
  finally show ?thesis .
qed

lemma terminal_row_kept:
  assumes "(i, r) \<in> set (reservations L)" and "rv_status r \<noteq> Active"
  shows "(i, r) \<in> set (reservations (upd L))"
proof -
  obtain g where g: "reservations (upd L) = map (\<lambda>(i, r). (i, g i r)) (reservations L)"
    and "\<forall>i r. row_follows r (g i r)" using rows by blast
  with assms have "g i r = r" by (simp add: row_follows_def)
  with assms(1) show ?thesis unfolding g by force
qed

lemma preserves_ok:
  assumes "ledger_ok L"
  shows "ledger_ok (upd L)"
proof -
  have pos: "\<forall>(i, r) \<in> set (reservations L). rv_reserved r > 0"
    using assms by (auto simp: ledger_ok_def)
  have has: "dict_has (scopes (upd L)) s \<longleftrightarrow> dict_has (scopes L) s" for s
    using scope_names [of L] by (metis dict_has_def dom_map_of_conv_image_fst domIff set_map)
  obtain g where g: "reservations (upd L) = map (\<lambda>(i, r). (i, g i r)) (reservations L)"
    and follows: "\<forall>i r. row_follows r (g i r)" using rows by blast
  have "\<forall>(i, r) \<in> set (reservations (upd L)). rv_reserved r > 0 \<and> dict_has (scopes (upd L)) (rv_scope r)"
    using assms follows unfolding g has by (fastforce simp: ledger_ok_def row_follows_def)
  moreover have "sc_max_budget row' > 0 \<and> status_active_sum (upd L) s \<le> sc_max_budget row'"
    if "(s, row') \<in> set (scopes (upd L))" for s row'
  proof -
    have "dict_get (scopes (upd L)) s = Some row'"
      using that assms scope_names by (simp add: ledger_ok_def)
    moreover have "s \<in> fst ` set (scopes L)"
      using that scope_names [of L] by (metis fst_conv image_eqI set_map)
    then obtain row where row: "(s, row) \<in> set (scopes L)" by auto
    ultimately have "sc_max_budget row \<le> sc_max_budget row'"
      using budgets [of L s row] assms by (auto simp: ledger_ok_def)
    moreover have "sc_max_budget row > 0 \<and> status_active_sum L s \<le> sc_max_budget row"
      using row assms by (auto simp: ledger_ok_def)
    ultimately show ?thesis using active_sum_falls [OF pos, of s] by linarith
  qed
  ultimately show ?thesis
    using assms ids scope_names by (auto simp: ledger_ok_def)
qed

end

text \<open>Updates of the reservation table alone.\<close>

lemma update_where_lifecycle:
  assumes "\<And>i r. P i r \<Longrightarrow> row_follows r (f r)"
  shows "lifecycle_update (update_where P f)"
proof
  fix L :: ledger
  have "row_follows r (if P i r then f r else r)" for i r
    using assms by (simp add: row_follows_def)
  then show "\<exists>g. reservations (update_where P f L) = map (\<lambda>(i, r). (i, g i r)) (reservations L) \<and>
      (\<forall>i r. row_follows r (g i r))"
    by (intro exI [of _ "\<lambda>i r. if P i r then f r else r"]) (simp add: update_where_def)
qed (auto simp: update_where_def)

interpretation releasing: lifecycle_update "\<lambda>L. snd (release_op le now L)" for le now
proof -
  have "lifecycle_update (update_where (owned_active le)
      (\<lambda>r. r\<lparr>rv_status := ReleasedError, rv_completed_at := Some now\<rparr>))"
    by (rule update_where_lifecycle) (simp add: owned_active_def row_follows_def)
  then show "lifecycle_update (\<lambda>L. snd (release_op le now L))" by (simp add: release_op_def)
qed

interpretation renewing: lifecycle_update "\<lambda>L. snd (renew_op le now expires L)" for le now expires
proof -
  have "lifecycle_update (update_where (renewable le now)
      (\<lambda>r. r\<lparr>rv_heartbeat_at := now, rv_expires_at := expires\<rparr>))"
    by (rule update_where_lifecycle) (simp add: renewable_def owned_active_def row_follows_def)
  then show "lifecycle_update (\<lambda>L. snd (renew_op le now expires L))" by (simp add: renew_op_def)
qed

interpretation expiring: lifecycle_update "expire_leases scope now" for scope now
proof -
  have "lifecycle_update (update_where (\<lambda>i r. True) (expire_row scope now))"
    by (rule update_where_lifecycle) (simp add: expire_row_def row_follows_def)
  moreover have "update_where (\<lambda>i r. True) (expire_row scope now) = expire_leases scope now"
    by (rule ext) (simp add: update_where_def expire_leases_def map_rows_def)
  ultimately show "lifecycle_update (expire_leases scope now)" by simp
qed

lemma lifecycle_choice:
  assumes u: "lifecycle_update u" and either: "\<And>L. f L = u L \<or> f L = L"
  shows "lifecycle_update f"
proof
  fix L :: ledger and s row
  have same: "\<exists>g. xs = map (\<lambda>(i, r). (i, g i r)) xs \<and> (\<forall>i r. row_follows r (g i r))" for xs
    by (intro exI [of _ "\<lambda>i r. r"]) (simp add: row_follows_def)
  show "\<exists>g. reservations (f L) = map (\<lambda>(i, r). (i, g i r)) (reservations L) \<and> (\<forall>i r. row_follows r (g i r))"
    using either [of L] lifecycle_update.rows [OF u, of L] same by (elim disjE) simp_all
  show "map fst (scopes (f L)) = map fst (scopes L)"
    using either [of L] lifecycle_update.scope_names [OF u, of L] by (elim disjE) simp_all
  show "dict_get (scopes L) s = Some row \<Longrightarrow>
      \<exists>row'. dict_get (scopes (f L)) s = Some row' \<and> sc_max_budget row \<le> sc_max_budget row'"
    using either [of L] lifecycle_update.budgets [OF u, of L s row] by (elim disjE) simp_all
qed

interpretation settling: lifecycle_update "\<lambda>L. snd (settle_op le settled now L)" for le settled now
proof (rule lifecycle_choice)
  show "lifecycle_update (update_where (owned_active le)
      (\<lambda>r. r\<lparr>rv_status := Settled, rv_completed_at := Some now, rv_settled_cost := Some settled\<rparr>))"
    by (rule update_where_lifecycle) (simp add: owned_active_def row_follows_def)
qed (simp add: settle_op_def split: option.split res_status.split)

lemma lifecycle_compose:
  assumes u: "lifecycle_update u" and v: "lifecycle_update v"
  shows "lifecycle_update (\<lambda>L. u (v L))"
proof
  fix L :: ledger and s row
  obtain g where g: "reservations (v L) = map (\<lambda>(i, r). (i, g i r)) (reservations L)"
    and gf: "\<forall>i r. row_follows r (g i r)" using lifecycle_update.rows [OF v] by blast
  obtain h where h: "reservations (u (v L)) = map (\<lambda>(i, r). (i, h i r)) (reservations (v L))"
    and hf: "\<forall>i r. row_follows r (h i r)" using lifecycle_update.rows [OF u] by blast
  have "row_follows r (h i (g i r))" for i r
    using gf hf by (metis (no_types, lifting) row_follows_def)
  then show "\<exists>k. reservations (u (v L)) = map (\<lambda>(i, r). (i, k i r)) (reservations L) \<and>
      (\<forall>i r. row_follows r (k i r))"
    by (intro exI [of _ "\<lambda>i r. h i (g i r)"]) (simp add: g h case_prod_unfold)
  show "map fst (scopes (u (v L))) = map fst (scopes L)"
    using lifecycle_update.scope_names [OF u] lifecycle_update.scope_names [OF v] by simp
  assume "dict_get (scopes L) s = Some row"
  then obtain r1 where r1: "dict_get (scopes (v L)) s = Some r1" "sc_max_budget row \<le> sc_max_budget r1"
    using lifecycle_update.budgets [OF v] by blast
  then obtain r2 where "dict_get (scopes (u (v L))) s = Some r2" "sc_max_budget r1 \<le> sc_max_budget r2"
    using lifecycle_update.budgets [OF u] by blast
  with r1 show "\<exists>row'. dict_get (scopes (u (v L))) s = Some row' \<and> sc_max_budget row \<le> sc_max_budget row'"
    by auto
qed

text \<open>Raising a budget by \<open>k\<close> or not at all, then expiring the scope's leases.\<close>

lemma raise_budget_lifecycle:
  "lifecycle_update (\<lambda>L. if scope_budget L scope = Some expected \<and> k \<noteq> 0
                        then set_scope_budget scope (expected + int k) now L else L)"
  (is "lifecycle_update ?u")
proof
  fix L :: ledger and s row
  show "\<exists>g. reservations (?u L) = map (\<lambda>(i, r). (i, g i r)) (reservations L) \<and> (\<forall>i r. row_follows r (g i r))"
    by (intro exI [of _ "\<lambda>i r. r"]) (simp add: set_scope_budget_def row_follows_def)
  show "map fst (scopes (?u L)) = map fst (scopes L)"
    by (simp add: set_scope_budget_def o_def case_prod_unfold)
  assume "dict_get (scopes L) s = Some row"
  then show "\<exists>row'. dict_get (scopes (?u L)) s = Some row' \<and> sc_max_budget row \<le> sc_max_budget row'"
    by (auto simp: set_scope_budget_def scope_budget_def py_simps)
qed

interpretation raising: lifecycle_update "\<lambda>L. snd (raise_op scope expected (expected + int k) now L)"
  for scope expected k now
proof (rule lifecycle_choice [OF lifecycle_compose [OF expiring.lifecycle_update_axioms raise_budget_lifecycle]])
  fix L
  show "snd (raise_op scope expected (expected + int k) now L) =
          expire_leases scope now (if scope_budget L scope = Some expected \<and> k \<noteq> 0
             then set_scope_budget scope (expected + int k) now L else L)
      \<or> snd (raise_op scope expected (expected + int k) now L) = L"
    by (auto simp: raise_op_def Let_def split: option.split)
qed

section \<open>Admission\<close>

lemma normalize_settled_nonneg: "normalize_settled_cost_microusd v = Inr n \<Longrightarrow> 0 \<le> n"
  by (auto simp: normalize_settled_cost_microusd_def validate_finite_number_def MICRO_USD_def
      split: number_arg.splits if_splits)

lemma settled_microusd_nonneg: "settled_microusd L s = Inr n \<Longrightarrow> 0 \<le> n"
  by (auto simp: settled_microusd_def dest!: normalize_settled_nonneg)

lemma settled_microusd_tables:
  "settled_microusd (L\<lparr>reservations := r\<rparr>) s = settled_microusd L s"
  "settled_microusd (L\<lparr>scopes := c\<rparr>) s = settled_microusd L s"
  "settled_microusd (expire_leases scope now L) s = settled_microusd L s"
  by (simp_all add: settled_microusd_def expire_leases_def map_rows_def)

lemma sum_list_filter_if: "sum_list (map f (filter P xs)) = sum_list (map (\<lambda>x. if P x then f x else (0::int)) xs)"
  by (induction xs) auto

text \<open>Right after the scope's leases were expired, every row marked active is unexpired.\<close>

lemma active_after_expire:
  "active_reserved_microusd (expire_leases scope now L) scope now = status_active_sum (expire_leases scope now L) scope"
  unfolding active_reserved_microusd_def status_active_sum_def sum_list_filter_if
  by (intro arg_cong [where f = sum_list] map_cong refl)
    (auto simp: expire_leases_def map_rows_def expire_row_def split: if_splits)

lemma status_active_sum_scopes [simp]: "status_active_sum (L\<lparr>scopes := c\<rparr>) s = status_active_sum L s"
  by (simp add: status_active_sum_def)

lemma active_reserved_scopes [simp]:
  "active_reserved_microusd (L\<lparr>scopes := c\<rparr>) s now = active_reserved_microusd L s now"
  by (simp add: active_reserved_microusd_def)

lemma status_active_sum_snoc:
  "status_active_sum (L\<lparr>reservations := reservations L @ [(i, r)]\<rparr>) s =
     status_active_sum L s + (if rv_scope r = s \<and> rv_status r = Active then rv_reserved r else 0)"
  by (simp add: status_active_sum_def)

lemma sum_list_zero_if: "(\<And>x. x \<in> set xs \<Longrightarrow> f x = (0::int)) \<Longrightarrow> sum_list (map f xs) = 0"
  by (induction xs) auto

lemma status_active_sum_absent:
  assumes "ledger_ok L" and "\<not> dict_has (scopes L) s"
  shows "status_active_sum L s = 0"
proof -
  have "rv_scope r \<noteq> s" if "(i, r) \<in> set (reservations L)" for i r
    using assms that by (auto simp: ledger_ok_def)
  then show ?thesis
    unfolding status_active_sum_def by (intro sum_list_zero_if) auto
qed

text \<open>Opening a scope keeps the ledger in order.\<close>

lemma open_scope_ok:
  assumes "ledger_ok L" and "\<not> dict_has (scopes L) s" and "sc_max_budget row > 0"
  shows "ledger_ok (L\<lparr>scopes := scopes L @ [(s, row)]\<rparr>)"
proof -
  have "s \<notin> fst ` set (scopes L)"
    using assms(2) by (simp add: dict_has_def map_of_eq_None_iff)
  moreover have "dict_has (scopes L @ [(s, row)]) t" if "dict_has (scopes L) t" for t
    using that by (auto simp: dict_has_def dict_get_append)
  ultimately show ?thesis
    using assms status_active_sum_absent [OF assms(1,2)]
    by (auto simp: ledger_ok_def)
qed

lemma admit_ok:
  assumes "ledger_ok L" and "scope_budget L scope = Some budget" and "reserved > 0"
    and "active_reserved_microusd L scope now = status_active_sum L scope"
    and "admit_reservation rid owner scope c budget reserved now expires L = (Inr le, L')"
  shows "ledger_ok L'"
proof -
  obtain settled where settled: "settled_microusd L scope = Inr settled"
    and le: "settled + active_reserved_microusd L scope now + reserved \<le> budget"
    and fresh: "\<not> dict_has (reservations L) rid"
    and L': "L' = L\<lparr>reservations := reservations L @
       [(rid, \<lparr>rv_scope = scope, rv_call = c, rv_owner = owner, rv_reserved = reserved,
               rv_status = Active, rv_created_at = now, rv_heartbeat_at = now,
               rv_expires_at = expires, rv_completed_at = None, rv_settled_cost = None\<rparr>)]\<rparr>"
    using assms(5) by (auto simp: admit_reservation_def Let_def split: sum.splits if_splits)
  have room: "status_active_sum L scope + reserved \<le> budget"
    using le assms(4) settled_microusd_nonneg [OF settled] by linarith
  have "rid \<notin> fst ` set (reservations L)"
    using fresh by (simp add: dict_has_def map_of_eq_None_iff)
  moreover have "sc_max_budget row = budget" if "(scope, row) \<in> set (scopes L)" for row
    using that assms(1,2) by (auto simp: ledger_ok_def scope_budget_def)
  moreover have "dict_has (scopes L) scope"
    using assms(2) by (auto simp: scope_budget_def dict_has_def)
  ultimately show ?thesis
    using assms(1,3) room unfolding L' ledger_ok_def status_active_sum_snoc
    by (auto simp: ball_Un)
qed

lemma normalize_pos:
  "normalize_budget_microusd v = Inr n \<Longrightarrow> 0 < n" "normalize_reservation_microusd v = Inr n \<Longrightarrow> 0 < n"
  by (auto simp: normalize_budget_microusd_def normalize_reservation_microusd_def Let_def split: if_splits)

lemma acquire_ok:
  assumes "ledger_ok L" and "reserved > 0" and "budget > 0"
    and "acquire_op rid owner scope c budget reserved now expires L = (Inr le, L')"
  shows "ledger_ok L'"
proof -
  let ?L1 = "expire_leases scope now L"
  have ok: "ledger_ok ?L1" by (rule expiring.preserves_ok [OF assms(1)])
  show ?thesis
  proof (cases "scope_budget ?L1 scope")
    case (Some b)
    then have "scope_budget ?L1 scope = Some budget"
      and "admit_reservation rid owner scope c budget reserved now expires ?L1 = (Inr le, L')"
      using assms(4) by (auto simp: acquire_op_def Let_def split: if_splits)
    then show ?thesis by (intro admit_ok [OF ok _ assms(2) active_after_expire])
  next
    case None
    let ?row = "\<lparr>sc_max_budget = budget, sc_created_at = now, sc_updated_at = now\<rparr>"
    let ?L2 = "?L1\<lparr>scopes := scopes ?L1 @ [(scope, ?row)]\<rparr>"
    have absent: "\<not> dict_has (scopes ?L1) scope" using None by (simp add: scope_budget_def dict_has_def)
    have ok2: "ledger_ok ?L2" by (rule open_scope_ok [OF ok absent]) (simp add: assms(3))
    have b2: "scope_budget ?L2 scope = Some budget"
      using absent by (simp add: scope_budget_def dict_get_append dict_has_def del: map_of_append)
    have a2: "active_reserved_microusd ?L2 scope now = status_active_sum ?L2 scope"
      by (simp add: active_after_expire)
    have d2: "admit_reservation rid owner scope c budget reserved now expires ?L2 = (Inr le, L')"
      using assms(4) None by (simp add: acquire_op_def Let_def)
    show ?thesis by (rule admit_ok [OF ok2 b2 assms(2) a2 d2])
  qed
qed

section \<open>Runs of the ledger\<close>

text \<open>
  One step is one call of a public operation, with any arguments and any answers of the
  database, or the rest of the program logging the cost of calls.
\<close>

inductive ledger_step :: "ledger \<Rightarrow> ledger \<Rightarrow> bool" where
  step_acquire: "acquire_budget_reservation env rid owner sa ca mb ra na ta L = (res, L') \<Longrightarrow> ledger_step L L'"
| step_release: "release_budget_reservation env le na L = (res, L') \<Longrightarrow> ledger_step L L'"
| step_settle: "settle_budget_reservation env le cost na L = (res, L') \<Longrightarrow> ledger_step L L'"
| step_renew: "renew_budget_reservation env le na ta L = (res, L') \<Longrightarrow> ledger_step L L'"
| step_raise: "raise_budget_scope_max_budget env sa mb mb' na L = (res, L') \<Longrightarrow> ledger_step L L'"
| step_spend: "ledger_step L (L\<lparr>llm_calls := llm_calls L @ cs, embeddings := embeddings L @ es\<rparr>)"

definition empty_ledger :: ledger where
  "empty_ledger = \<lparr>scopes = [], reservations = [], llm_calls = [], embeddings = []\<rparr>"

inductive ledger_reachable :: "ledger \<Rightarrow> bool" where
  reach_empty: "ledger_reachable empty_ledger"
| reach_step: "ledger_reachable L \<Longrightarrow> ledger_step L L' \<Longrightarrow> ledger_reachable L'"

inductive_cases ledger_stepE: "ledger_step L L'"

text \<open>Every step is an admission, one of the shared updates, a new cost or nothing.\<close>

lemma ledger_step_shape:
  assumes "ledger_step L L'"
  obtains "L' = L"
    | rid owner scope c budget reserved now expires le where "reserved > 0" and "budget > 0" and
        "acquire_op rid owner scope c budget reserved now expires L = (Inr le, L')"
    | u where "lifecycle_update u" and "L' = u L"
    | cs es where "L' = L\<lparr>llm_calls := llm_calls L @ cs, embeddings := embeddings L @ es\<rparr>"
  using assms
proof (cases rule: ledger_step.cases)
  case step_acquire
  then show thesis
    unfolding acquire_budget_reservation_def case_prod_unfold
    by (elim with_args_cases) (auto intro: that(1) that(2) dest: normalize_pos)
next
  case step_release
  then show thesis
    unfolding release_budget_reservation_def
    by (elim with_args_cases) (metis snd_conv that(1,3) releasing.lifecycle_update_axioms)+
next
  case (step_settle env le cost na res)
  then obtain r where "with_args
       (and_then (normalize_settled_cost_microusd cost) (\<lambda>settled.
        and_then (now_or_clock (se_clock env) na) (\<lambda>now. Inr (settled, now))))
       (\<lambda>x. transaction env (settle_op le (fst x) (snd x))) L = (r, L')"
    by (auto simp: settle_budget_reservation_def with_args_def raise_overrun_def
        split: sum.splits prod.splits)
  then show thesis
    by (elim with_args_cases) (metis snd_conv that(1,3) settling.lifecycle_update_axioms)+
next
  case step_renew
  then show thesis
    unfolding renew_budget_reservation_def case_prod_unfold
    by (elim with_args_cases) (metis snd_conv that(1,3) renewing.lifecycle_update_axioms)+
next
  case (step_raise env sa mb mb' na res)
  then show thesis
    unfolding raise_budget_scope_max_budget_def case_prod_unfold
  proof (elim with_args_cases)
    fix x y
    assume x: "and_then (require_scope sa) (\<lambda>scope.
        and_then (normalize_budget_microusd mb) (\<lambda>expected.
        and_then (normalize_budget_microusd mb') (\<lambda>replacement.
        and_then (if replacement < expected
                  then Inl (ValueError ''new_max_budget must not decrease the expected max_budget'')
                  else Inr ()) (\<lambda>_.
        and_then (now_or_clock (se_clock env) na) (\<lambda>now. Inr (scope, expected, replacement, now)))))) = Inr x"
      and op: "raise_op (fst x) (fst (snd x)) (fst (snd (snd x))) (snd (snd (snd x))) L = (Inr y, L')"
    then have "fst (snd x) \<le> fst (snd (snd x))" by (auto split: if_splits)
    then obtain k where "fst (snd (snd x)) = fst (snd x) + int k" by (metis zle_iff_zadd)
    with op show thesis using raising.lifecycle_update_axioms by (metis snd_conv that(3))
  qed (rule that(1))
qed (rule that(4))

lemma ledger_step_ok:
  assumes "ledger_step L L'" and "ledger_ok L"
  shows "ledger_ok L'"
  using assms(1)
proof (cases rule: ledger_step_shape)
  case (3 u)
  then show ?thesis using lifecycle_update.preserves_ok assms(2) by blast
next
  case (4 cs es)
  then show ?thesis using assms(2) by (simp add: ledger_ok_def status_active_sum_def)
qed (use assms(2) acquire_ok in auto)

lemma ledger_reachable_ok: "ledger_reachable L \<Longrightarrow> ledger_ok L"
proof (induction rule: ledger_reachable.induct)
  case (reach_step L L')
  then show ?case by (blast intro: ledger_step_ok)
qed (simp add: empty_ledger_def ledger_ok_def)

section \<open>Properties\<close>

lemma active_reserved_le_status_sum:
  assumes "ledger_ok L"
  shows "active_reserved_microusd L s now \<le> status_active_sum L s"
  unfolding active_reserved_microusd_def status_active_sum_def sum_list_filter_if
  using assms by (intro sum_list_mono) (fastforce simp: ledger_ok_def)

text \<open>C1: in every reachable ledger the reservations of a scope that are marked active, expired
  or not, add up to at most the scope's budget, whatever the clocks of the processes read. So no
  sequence of admissions, renewals, settlements and raises over-commits a root budget.\<close>

theorem budget_never_overcommitted:
  assumes "ledger_reachable L" and "scope_budget L s = Some b"
  shows "status_active_sum L s \<le> b \<and> active_reserved_microusd L s now \<le> b"
proof -
  have ok: "ledger_ok L" by (rule ledger_reachable_ok [OF assms(1)])
  obtain row where "(s, row) \<in> set (scopes L)" and "sc_max_budget row = b"
    using assms(2) by (auto simp: scope_budget_def dest: map_of_SomeD)
  with ok have "status_active_sum L s \<le> b" by (auto simp: ledger_ok_def)
  with active_reserved_le_status_sum [OF ok, of s now] show ?thesis by linarith
qed

definition demo_store :: store_env where
  "demo_store = \<lparr>se_retries = 3, se_base_delay_ms = 50, se_answer = (\<lambda>_. DbReady), se_clock = 0\<rparr>"

definition demo_ledger :: ledger where
  "demo_ledger = snd (acquire_budget_reservation demo_store ''r1'' ''me'' (Some ''job'') (Some ''job/a'')
      (Num 5) (Num 2) NowNone (Ttl 300) empty_ledger)"

lemma demo_ledger_reachable: "ledger_reachable demo_ledger"
  unfolding demo_ledger_def
  by (rule reach_step [OF reach_empty]) (rule step_acquire [OF prod.collapse [symmetric]])

theorem budget_never_overcommitted_witness:
  "scope_budget demo_ledger ''job'' = Some 5000000 \<and>
   active_reserved_microusd demo_ledger ''job'' 7 = 2000000 \<and>
   status_active_sum demo_ledger ''job'' \<le> 5000000"
proof -
  have b: "scope_budget demo_ledger ''job'' = Some 5000000" by code_simp
  have "active_reserved_microusd demo_ledger ''job'' 7 = 2000000" by code_simp
  with b budget_never_overcommitted [OF demo_ledger_reachable b, of 7] show ?thesis by simp
qed

lemma admit_cases:
  assumes "admit_reservation rid owner scope c budget reserved now expires L = (Inr le, L')"
  shows "\<exists>settled. settled_microusd L scope = Inr settled \<and>
    settled + active_reserved_microusd L scope now + reserved \<le> budget \<and>
    le = \<lparr>le_id = rid, le_scope = scope, le_call = c, le_owner = owner, le_reserved = reserved\<rparr> \<and>
    L' = L\<lparr>reservations := reservations L @
       [(rid, \<lparr>rv_scope = scope, rv_call = c, rv_owner = owner, rv_reserved = reserved,
               rv_status = Active, rv_created_at = now, rv_heartbeat_at = now,
               rv_expires_at = expires, rv_completed_at = None, rv_settled_cost = None\<rparr>)]\<rparr>"
  using assms by (auto simp: admit_reservation_def Let_def split: sum.splits if_splits)

lemma acquire_op_admits:
  assumes "acquire_op rid owner scope c budget reserved now expires L = (Inr le, L')"
  obtains L1 where "admit_reservation rid owner scope c budget reserved now expires L1 = (Inr le, L')"
    and "scope_budget L1 scope = Some budget"
proof (cases "scope_budget (expire_leases scope now L) scope")
  case None
  let ?L1 = "expire_leases scope now L"
  let ?L2 = "?L1\<lparr>scopes := scopes ?L1 @
     [(scope, \<lparr>sc_max_budget = budget, sc_created_at = now, sc_updated_at = now\<rparr>)]\<rparr>"
  have "admit_reservation rid owner scope c budget reserved now expires ?L2 = (Inr le, L')"
    using assms None by (simp add: acquire_op_def Let_def)
  moreover have "scope_budget ?L2 scope = Some budget"
    using None by (simp add: scope_budget_def dict_get_append del: map_of_append)
  ultimately show thesis by (rule that)
qed (use assms that in \<open>auto simp: acquire_op_def Let_def split: if_splits\<close>)

text \<open>C6: a successful \<open>acquire_budget_reservation\<close> leaves an active row that is the returned lease,
  unexpired for the requested time, and then settled spend plus active reservations fit the budget,
  the new one included.\<close>

theorem acquire_admits_within_budget:
  assumes "acquire_budget_reservation env rid owner sa ca (Num mb) (Num ra) (NowAware now) (Ttl ttl) L
             = (Inr le, L')"
  shows "\<exists>settled r. settled_microusd L' (le_scope le) = Inr settled
     \<and> settled + active_reserved_microusd L' (le_scope le) now \<le> \<lfloor>mb * 1000000\<rfloor>
     \<and> scope_budget L' (le_scope le) = Some \<lfloor>mb * 1000000\<rfloor>
     \<and> (le_id le, r) \<in> set (reservations L') \<and> owned_active le (le_id le) r
     \<and> rv_reserved r = le_reserved le \<and> of_int (le_reserved le) \<ge> ra * 1000000
     \<and> rv_expires_at r = now + ttl * 1000000 \<and> now < rv_expires_at r"
proof -
  obtain scope c budget reserved where args:
      "normalize_budget_microusd (Num mb) = Inr budget" "normalize_reservation_microusd (Num ra) = Inr reserved"
      "require_ttl (Ttl ttl) = Inr ttl"
    and op: "acquire_op rid owner scope c budget reserved now (now + ttl * 1000000) L = (Inr le, L')"
    using assms unfolding acquire_budget_reservation_def case_prod_unfold
    by (elim with_args_cases) (auto split: if_splits)
  obtain L1 where admit: "admit_reservation rid owner scope c budget reserved now (now + ttl * 1000000) L1 = (Inr le, L')"
    and b: "scope_budget L1 scope = Some budget" using acquire_op_admits [OF op] .
  have budget: "budget = \<lfloor>mb * 1000000\<rfloor>" and reserved: "of_int reserved \<ge> ra * 1000000"
    using args(1,2)
    by (auto simp: normalize_budget_microusd_def normalize_reservation_microusd_def
        validate_finite_number_def MICRO_USD_def Let_def split: if_splits)
  have ttl: "ttl \<ge> 1" using args(3) by (auto split: if_splits)
  let ?r = "\<lparr>rv_scope = scope, rv_call = c, rv_owner = owner, rv_reserved = reserved,
      rv_status = Active, rv_created_at = now, rv_heartbeat_at = now,
      rv_expires_at = now + ttl * 1000000, rv_completed_at = None, rv_settled_cost = None\<rparr>"
  obtain settled where "settled_microusd L1 scope = Inr settled"
    and "settled + active_reserved_microusd L1 scope now + reserved \<le> budget"
    and "le = \<lparr>le_id = rid, le_scope = scope, le_call = c, le_owner = owner, le_reserved = reserved\<rparr>"
    and "L' = L1\<lparr>reservations := reservations L1 @ [(rid, ?r)]\<rparr>"
    using admit_cases [OF admit] by blast
  with b ttl reserved show ?thesis
    by (intro exI [of _ settled] exI [of _ ?r])
      (simp add: settled_microusd_tables active_reserved_microusd_def scope_budget_def
        owned_active_def budget [symmetric])
qed

theorem acquire_admits_within_budget_witness:
  "\<exists>settled. settled_microusd demo_ledger ''job'' = Inr settled \<and>
     settled + active_reserved_microusd demo_ledger ''job'' 0 \<le> 5000000"
proof -
  let ?le = "\<lparr>le_id = ''r1'', le_scope = ''job'', le_call = ''job/a'', le_owner = ''me'', le_reserved = 2000000\<rparr>"
  have "fst (acquire_budget_reservation demo_store ''r1'' ''me'' (Some ''job'') (Some ''job/a'')
      (Num 5) (Num 2) (NowAware 0) (Ttl 300) empty_ledger) = Inr ?le" by code_simp
  moreover have "snd (acquire_budget_reservation demo_store ''r1'' ''me'' (Some ''job'') (Some ''job/a'')
      (Num 5) (Num 2) (NowAware 0) (Ttl 300) empty_ledger) = demo_ledger"
    by (simp add: demo_ledger_def acquire_budget_reservation_def with_args_def demo_store_def)
  ultimately have "acquire_budget_reservation demo_store ''r1'' ''me'' (Some ''job'') (Some ''job/a'')
      (Num 5) (Num 2) (NowAware 0) (Ttl 300) empty_ledger = (Inr ?le, demo_ledger)"
    by (simp only: prod_eq_iff fst_conv snd_conv)
  from acquire_admits_within_budget [OF this] show ?thesis by auto
qed

lemma step_keeps_terminal:
  assumes "ledger_step L L'" and "(i, r) \<in> set (reservations L)" and "rv_status r \<noteq> Active"
  shows "(i, r) \<in> set (reservations L')"
  using assms(1)
proof (cases rule: ledger_step_shape)
  case (2 rid owner scope c budget reserved now expires le)
  have kept: "(i, r) \<in> set (reservations (expire_leases scope now L))"
    by (rule expiring.terminal_row_kept [OF assms(2,3)])
  then show ?thesis
    using 2(3) by (auto simp: acquire_op_def Let_def split: option.splits if_splits dest!: admit_cases)
next
  case (3 u)
  then show ?thesis using lifecycle_update.terminal_row_kept assms(2,3) by blast
qed (use assms in auto)

text \<open>C5: a row that has left the active state (settled, released or expired) never changes again,
  whatever runs on the ledger: no double settlement and no revival.\<close>

theorem terminal_rows_final:
  assumes "ledger_step\<^sup>*\<^sup>* L L'" and "(i, r) \<in> set (reservations L)" and "rv_status r \<noteq> Active"
  shows "(i, r) \<in> set (reservations L')"
  using assms by (induction rule: rtranclp_induct) (auto intro: step_keeps_terminal)

definition demo_lease :: lease where
  "demo_lease = \<lparr>le_id = ''r1'', le_scope = ''job'', le_call = ''job/a'', le_owner = ''me'', le_reserved = 2000000\<rparr>"

definition demo_settled :: ledger where
  "demo_settled = snd (settle_budget_reservation demo_store demo_lease (Num 1) (NowAware 9) demo_ledger)"

theorem terminal_rows_final_witness:
  "(''r1'', snd (hd (reservations demo_settled)))
     \<in> set (reservations (snd (release_budget_reservation demo_store demo_lease (NowAware 10) demo_settled)))"
proof -
  let ?L' = "snd (release_budget_reservation demo_store demo_lease (NowAware 10) demo_settled)"
  have "ledger_step demo_settled ?L'" by (rule step_release [OF prod.collapse [symmetric]])
  then have run: "ledger_step\<^sup>*\<^sup>* demo_settled ?L'" by (rule r_into_rtranclp)
  have "map fst (reservations demo_settled) = [''r1'']" by code_simp
  then have row: "(''r1'', snd (hd (reservations demo_settled))) \<in> set (reservations demo_settled)"
    by (cases "reservations demo_settled") auto
  have "rv_status (snd (hd (reservations demo_settled))) = Settled" by code_simp
  then show ?thesis by (intro terminal_rows_final [OF run row]) simp
qed

lemma transaction_ready: "se_answer env 0 = DbReady \<Longrightarrow> transaction env op L = run_operation op L"
  by (simp add: transaction_def transaction_from.simps split: prod.splits)

lemma transaction_Inr: "transaction env op L = (Inr y, L') \<Longrightarrow> op L = (Inr y, L')"
  by (elim transaction_cases) auto

lemma find_owned_update:
  assumes "find_owned L le = Some r" and "rv_status r = Active"
    and "rv_owner (f r) = rv_owner r" and "distinct (map fst (reservations L))"
  shows "find_owned (update_where (owned_active le) f L) le = Some (f r)"
proof -
  have "find (\<lambda>(i, r). i = le_id le \<and> rv_owner r = le_owner le) xs = Some (le_id le, r) \<Longrightarrow> distinct (map fst xs) \<Longrightarrow>
    find (\<lambda>(i, r). i = le_id le \<and> rv_owner r = le_owner le)
      (map (\<lambda>(i, r). (i, if owned_active le i r then f r else r)) xs) = Some (le_id le, f r)" for xs
    using assms(2,3)
  proof (induction xs)
    case (Cons p xs)
    obtain j q where p: "p = (j, q)" by fastforce
    show ?case
    proof (cases "j = le_id le \<and> rv_owner q = le_owner le")
      case True
      then show ?thesis using Cons.prems p by (simp add: owned_active_def)
    next
      case False
      then have "\<not> owned_active le j q" by (auto simp: owned_active_def)
      with False show ?thesis using Cons p by auto
    qed
  qed simp
  moreover have "find (\<lambda>(i, r). i = le_id le \<and> rv_owner r = le_owner le) (reservations L) = Some (le_id le, r)"
    using assms(1) by (auto simp: find_owned_def find_Some_iff)
  ultimately show ?thesis using assms(4) by (simp add: find_owned_def update_where_def)
qed

lemma settle_op_repeat:
  assumes "settle_op le c now L = (Inr over, L1)" and "distinct (map fst (reservations L))"
  shows "settle_op le c' now' L1 = (Inr over, L1)"
proof -
  obtain r where r: "find_owned L le = Some r"
    using assms(1) by (auto simp: settle_op_def split: option.splits)
  show ?thesis
  proof (cases "rv_status r = Active")
    case True
    let ?f = "\<lambda>r. r\<lparr>rv_status := Settled, rv_completed_at := Some now, rv_settled_cost := Some c\<rparr>"
    have "L1 = update_where (owned_active le) ?f L" and over: "over = (c > rv_reserved r)"
      using assms(1) r True by (auto simp: settle_op_def)
    then have "find_owned L1 le = Some (?f r)"
      using find_owned_update [OF r True _ assms(2), of ?f] by simp
    then show ?thesis by (simp add: settle_op_def over)
  next
    case False
    then have "L1 = L" using assms(1) r by (auto simp: settle_op_def split: res_status.splits)
    then show ?thesis using assms(1) r False by (auto simp: settle_op_def split: res_status.splits)
  qed
qed

lemma normalize_no_overrun:
  "normalize_settled_cost_microusd v \<noteq> Inl (ReservationOverrun m)"
  "now_or_clock t na \<noteq> Inl (ReservationOverrun m)"
  by (auto simp: normalize_settled_cost_microusd_def validate_finite_number_def and_then_Inl_iff
      split: number_arg.splits if_splits) (cases na, auto)

lemma transaction_no_overrun:
  "transaction env (settle_op le c now) L \<noteq> (Inl (ReservationOverrun m), L1)"
proof
  assume "transaction env (settle_op le c now) L = (Inl (ReservationOverrun m), L1)"
  then obtain ss where "transaction_from env 0 (settle_op le c now) L = (Inl (ReservationOverrun m), L1, ss)"
    by (auto simp: transaction_def split: prod.splits)
  then have "run_operation (settle_op le c now) L = (Inl (ReservationOverrun m), L1)"
    using transaction_from_cases by blast
  then show False
    by (auto simp: run_operation_def settle_op_def split: prod.splits sum.splits option.splits res_status.splits)
qed

text \<open>C10: settling is idempotent. Once a settlement went through, with or without an overrun, settling
  the same lease again (with any cost, at any time) changes nothing and gives the same outcome: the
  first recorded cost stays and an overrun is reported each time.\<close>

theorem settle_idempotent:
  assumes "ledger_ok L"
    and "settle_budget_reservation env le cost na L = (res, L1)"
    and "res = Inr () \<or> res = Inl (ReservationOverrun m)"
    and "se_answer env' 0 = DbReady"
    and "normalize_settled_cost_microusd cost' = Inr c'"
    and "now_or_clock (se_clock env') na' = Inr t'"
  shows "settle_budget_reservation env' le cost' na' L1 = (res, L1)"
proof -
  obtain c now where
    run: "raise_overrun (transaction env (settle_op le c now) L) = (res, L1)"
    using assms(2,3) normalize_no_overrun
    by (auto simp: settle_budget_reservation_def with_args_def and_then_Inl_iff split: sum.splits prod.splits)
  obtain over where over: "transaction env (settle_op le c now) L = (Inr over, L1)"
      and res: "res = fst (raise_overrun (Inr over, L1))"
    using run assms(3) transaction_no_overrun by (auto simp: raise_overrun_def split: prod.splits sum.splits)
  have "settle_op le c' t' L1 = (Inr over, L1)"
    by (rule settle_op_repeat [OF transaction_Inr [OF over]]) (use assms(1) in \<open>simp add: ledger_ok_def\<close>)
  then show ?thesis
    using assms(4-6) res
    by (simp add: settle_budget_reservation_def with_args_def transaction_ready run_operation_def raise_overrun_def)
qed

lemma demo_ledger_ok: "ledger_ok demo_ledger"
  by (rule ledger_reachable_ok [OF demo_ledger_reachable])

theorem settle_idempotent_witness:
  "settle_budget_reservation demo_store demo_lease (Num 7) (NowAware 99) demo_settled = (Inr (), demo_settled)"
proof -
  have "fst (settle_budget_reservation demo_store demo_lease (Num 1) (NowAware 9) demo_ledger) = Inr ()"
    by code_simp
  then have "settle_budget_reservation demo_store demo_lease (Num 1) (NowAware 9) demo_ledger = (Inr (), demo_settled)"
    by (simp add: demo_settled_def prod_eq_iff)
  then show ?thesis
    by (rule settle_idempotent [OF demo_ledger_ok, where c' = 7000000 and t' = 99])
      (simp_all add: demo_store_def normalize_settled_cost_microusd_def validate_finite_number_def MICRO_USD_def)
qed

lemma expire_leases_again: "expire_leases s now (expire_leases s now L) = expire_leases s now L"
  by (simp add: expire_leases_def map_rows_def expire_row_def case_prod_unfold o_def)

lemma scopes_expire [simp]: "scopes (expire_leases s now L) = scopes L"
  by (simp add: expire_leases_def map_rows_def)

lemma scope_budget_expire [simp]: "scope_budget (expire_leases s now L) t = scope_budget L t"
  by (simp add: scope_budget_def expire_leases_def map_rows_def)

lemma raise_op_repeat:
  assumes "raise_op scope e n now L = (Inr snap, L1)"
  shows "raise_op scope e n now L1 = (Inr snap, L1)" and "scope_budget L1 scope = Some n"
proof -
  obtain b where b: "scope_budget L scope = Some b" and "b = e \<or> b = n"
    using assms by (auto simp: raise_op_def split: option.splits if_splits)
  let ?L1 = "if b = e \<and> n \<noteq> e then set_scope_budget scope n now L else L"
  have L1: "L1 = expire_leases scope now ?L1"
    and snap: "and_then (settled_microusd L1 scope) (\<lambda>settled.
        Inr (make_snapshot scope n settled (active_reserved_microusd L1 scope now))) = Inr snap"
    using assms b by (auto simp: raise_op_def Let_def split: if_splits)
  show budget: "scope_budget L1 scope = Some n"
    using b \<open>b = e \<or> b = n\<close>
    by (auto simp: L1 scope_budget_def set_scope_budget_def py_simps)
  show "raise_op scope e n now L1 = (Inr snap, L1)"
    using budget snap by (simp add: raise_op_def Let_def L1 expire_leases_again)
qed

text \<open>Raising a scope's cap is an idempotent compare-and-set. After a success the stored cap is the
  normalised new one, not below the expected one, and the same request again gives the same snapshot and
  leaves the ledger alone.\<close>

theorem raise_idempotent:
  assumes "raise_budget_scope_max_budget env sa (Num mb) (Num mb') (NowAware now) L = (Inr snap, L1)"
    and "se_answer env' 0 = DbReady"
  shows "raise_budget_scope_max_budget env' sa (Num mb) (Num mb') (NowAware now) L1 = (Inr snap, L1)
    \<and> scope_budget L1 (sn_scope snap) = Some \<lfloor>mb' * 1000000\<rfloor> \<and> \<lfloor>mb * 1000000\<rfloor> \<le> \<lfloor>mb' * 1000000\<rfloor>"
proof -
  obtain scope e n where args: "require_scope sa = Inr scope" "normalize_budget_microusd (Num mb) = Inr e"
      "normalize_budget_microusd (Num mb') = Inr n" "\<not> n < e"
    and op: "raise_op scope e n now L = (Inr snap, L1)"
    using assms(1) unfolding raise_budget_scope_max_budget_def case_prod_unfold
    by (elim with_args_cases) (auto split: if_splits)
  have "sn_scope snap = scope"
    using op by (auto simp: raise_op_def make_snapshot_def Let_def split: option.splits if_splits)
  moreover have "e = \<lfloor>mb * 1000000\<rfloor>" "n = \<lfloor>mb' * 1000000\<rfloor>"
    using args by (auto simp: normalize_budget_microusd_def validate_finite_number_def MICRO_USD_def Let_def
        split: if_splits)
  ultimately show ?thesis
    using args raise_op_repeat [OF op] assms(2)
    by (simp add: raise_budget_scope_max_budget_def with_args_def transaction_ready run_operation_def)
qed

theorem raise_idempotent_witness:
  "\<exists>snap L1. raise_budget_scope_max_budget demo_store (Some ''job'') (Num 5) (Num 8) (NowAware 4) demo_ledger
       = (Inr snap, L1) \<and>
     raise_budget_scope_max_budget demo_store (Some ''job'') (Num 5) (Num 8) (NowAware 4) L1 = (Inr snap, L1)"
proof -
  let ?out = "raise_budget_scope_max_budget demo_store (Some ''job'') (Num 5) (Num 8) (NowAware 4) demo_ledger"
  have "fst ?out = Inr \<lparr>sn_scope = ''job'', sn_max_budget = 8000000, sn_settled = 0,
      sn_active_reserved = 2000000, sn_available = 6000000\<rparr>" (is "_ = Inr ?snap") by code_simp
  then have "?out = (Inr ?snap, snd ?out)" by (simp add: prod_eq_iff)
  from raise_idempotent [OF this, of demo_store] this show ?thesis
    by (intro exI) (auto simp: demo_store_def)
qed

lemma transaction_from_bounds:
  assumes "transaction_from env attempt op L = (res, L', sleeps)"
  shows "sleeps = map (\<lambda>k. of_nat (se_base_delay_ms env * (attempt + k + 1)) / 1000) [0..<length sleeps]
    \<and> attempt + length sleeps \<le> max attempt (se_retries env)"
  using assms
proof (induction env attempt op L arbitrary: sleeps rule: transaction_from.induct)
  case (1 env attempt op L)
  note eq = 1(2) [unfolded transaction_from.simps [of env attempt op L]]
  show ?case
  proof (cases "se_answer env attempt = DbLocked \<and> \<not> attempt \<ge> se_retries env")
    case True
    then obtain ss where rec: "transaction_from env (attempt + 1) op L = (res, L', ss)"
      and sl: "sleeps = of_nat (se_base_delay_ms env * (attempt + 1)) / 1000 # ss"
      using eq by (auto split: prod.splits)
    have ih: "ss = map (\<lambda>k. of_nat (se_base_delay_ms env * (attempt + 1 + k + 1)) / 1000) [0..<length ss]"
        "attempt + 1 + length ss \<le> max (attempt + 1) (se_retries env)"
      using 1(1) rec True by blast+
    let ?f = "\<lambda>k. of_nat (se_base_delay_ms env * (attempt + k + 1)) / 1000"
    have "map ?f [0..<Suc (length ss)] = ?f 0 # map (?f \<circ> Suc) [0..<length ss]"
      by (simp only: upt_conv_Cons [of 0 "Suc (length ss)"] map_Suc_upt [symmetric] map_map list.map zero_less_Suc)
    also have "?f \<circ> Suc = (\<lambda>k. of_nat (se_base_delay_ms env * (attempt + 1 + k + 1)) / 1000)"
      by (simp add: fun_eq_iff algebra_simps)
    also note ih(1) [symmetric]
    finally show ?thesis using ih(2) True by (simp add: sl)
  qed (use eq in \<open>auto split: db_answer.splits prod.splits if_splits\<close>)
qed

text \<open>C12: the transaction wrapper is bounded and atomic. It sleeps at most \<open>retries\<close> times, the k-th
  time for \<open>k\<close> times the base delay, and when it raises, the tables are as they were.\<close>

theorem transaction_bounded_and_atomic:
  assumes "transaction_from env 0 op L = (res, L', sleeps)"
  shows "length sleeps \<le> se_retries env
    \<and> sleeps = map (\<lambda>k. of_nat (se_base_delay_ms env * (k + 1)) / 1000) [0..<length sleeps]
    \<and> (\<forall>e. res = Inl e \<longrightarrow> L' = L)"
proof -
  have "\<forall>e. res = Inl e \<longrightarrow> L' = L"
    using transaction_from_cases [OF assms]
    by (auto simp: run_operation_def split: prod.splits sum.splits)
  then show ?thesis using transaction_from_bounds [OF assms] by simp
qed

definition locked_store :: store_env where
  "locked_store = \<lparr>se_retries = 2, se_base_delay_ms = 50, se_answer = (\<lambda>_. DbLocked), se_clock = 0\<rparr>"

theorem transaction_bounded_and_atomic_witness:
  "\<exists>res L'. transaction_from locked_store 0 (release_op demo_lease 3) demo_ledger = (res, L', [50/1000, 100/1000])
     \<and> L' = demo_ledger"
proof -
  let ?err = "Inl (StoreError ''durable budget reservation transaction failed'') :: budget_error + unit"
  have run: "transaction_from locked_store 0 (release_op demo_lease 3) demo_ledger = (?err, demo_ledger, [50/1000, 100/1000])"
    by (simp add: transaction_from.simps locked_store_def)
  from transaction_bounded_and_atomic [OF run] run show ?thesis by blast
qed

text \<open>Settled spend of a scope is matched with \<open>LIKE scope || '/%'\<close> and the scope is not escaped, so
  an underscore in it is a wildcard: spend of \<open>team-x/job\<close> counts against \<open>team_x\<close>, though no call of that
  scope exists, and an admission that fits its budget is refused.\<close>

definition like_ledger :: ledger where
  "like_ledger = empty_ledger\<lparr>llm_calls :=
     [\<lparr>lc_trace = Some ''team-x/job'', lc_task = None, lc_project = None, lc_timestamp = None,
       lc_marginal_cost = None, lc_cost = Some (5/1000000), lc_error = None\<rparr>]\<rparr>"

theorem like_counts_other_scopes:
  "require_descendant ''team_x'' (Some ''team-x/job'')
     = Inl (ValueError ''call_trace_id must equal scope_trace_id or be its slash-delimited descendant'')
   \<and> settled_microusd like_ledger ''team_x'' = Inr 5
   \<and> (\<exists>m. fst (acquire_budget_reservation demo_store ''r1'' ''me'' (Some ''team_x'') (Some ''team_x/a'')
         (Num (5/1000000)) (Num (1/1000000)) (NowAware 0) (Ttl 300) like_ledger) = Inl (BudgetExceeded m))"
proof (intro conjI)
  show "require_descendant ''team_x'' (Some ''team-x/job'')
     = Inl (ValueError ''call_trace_id must equal scope_trace_id or be its slash-delimited descendant'')"
    by code_simp
  show "settled_microusd like_ledger ''team_x'' = Inr 5" by code_simp
  have "(case fst (acquire_budget_reservation demo_store ''r1'' ''me'' (Some ''team_x'') (Some ''team_x/a'')
         (Num (5/1000000)) (Num (1/1000000)) (NowAware 0) (Ttl 300) like_ledger) of Inl (BudgetExceeded m) \<Rightarrow> True | _ \<Rightarrow> False)"
    by code_simp
  then show "\<exists>m. fst (acquire_budget_reservation demo_store ''r1'' ''me'' (Some ''team_x'') (Some ''team_x/a'')
         (Num (5/1000000)) (Num (1/1000000)) (NowAware 0) (Ttl 300) like_ledger) = Inl (BudgetExceeded m)"
    by (simp split: sum.splits budget_error.splits)
qed

lemma renew_keeps_lost:
  assumes "list_all (\<lambda>(i, r). \<not> renewable le now i r) (reservations L)"
    and "renew_budget_reservation env le' (NowAware now) ta L = (res, L')"
  shows "list_all (\<lambda>(i, r). \<not> renewable le now i r) (reservations L')"
  using assms(2) [unfolded renew_budget_reservation_def case_prod_unfold]
proof (elim with_args_cases)
  fix x y
  assume "and_then (require_ttl ta) (\<lambda>ttl. and_then (now_or_clock (se_clock env) (NowAware now))
      (\<lambda>now. Inr (now, now + ttl * 1000000))) = Inr x"
    and op: "renew_op le' (fst x) (snd x) L = (Inr y, L')"
  then have "fst x = now" by auto
  then have L': "reservations L' = map (\<lambda>(i, r). (i, if renewable le' now i r
      then r\<lparr>rv_heartbeat_at := now, rv_expires_at := snd x\<rparr> else r)) (reservations L)"
    using op by (auto simp: renew_op_def update_where_def)
  have "\<not> renewable le now i (if renewable le' now i r
      then r\<lparr>rv_heartbeat_at := now, rv_expires_at := snd x\<rparr> else r)"
    if "(i, r) \<in> set (reservations L)" for i r
    using assms(1) that by (auto simp: list_all_iff renewable_def owned_active_def)
  then show ?thesis unfolding L' by (auto simp: list_all_iff)
qed (use assms(1) in simp)

lemma renew_lost_not_true:
  assumes "list_all (\<lambda>(i, r). \<not> renewable le now i r) (reservations L)"
  shows "fst (renew_budget_reservation env le (NowAware now) ta L) \<noteq> Inr True"
proof -
  have "filter (\<lambda>(i, r). renewable le now i r) (reservations L) = []"
    using assms by (auto simp: filter_empty_conv list_all_iff)
  then have count: "count_where (renewable le now) L = 0" by (simp only: count_where_def list.size)
  obtain res L' where out: "renew_budget_reservation env le (NowAware now) ta L = (res, L')" by fastforce
  then have "res \<noteq> Inr True"
    unfolding renew_budget_reservation_def case_prod_unfold
    by (elim with_args_cases) (use count in \<open>auto simp: renew_op_def\<close>)
  with out show ?thesis by simp
qed

lemma renew_all_lost_grows: "le_id le \<in> set (kp_lost K) \<Longrightarrow> le_id le \<in> set (kp_lost (fst (renew_all envs na les K L)))"
  by (induction envs na les K L rule: renew_all.induct) (auto split: prod.split sum.split bool.split)

lemma renew_all_marks:
  assumes "list_all (\<lambda>(i, r). \<not> renewable le now i r) (reservations L)" and "le \<in> set les"
  shows "keeper_lost le (fst (renew_all envs (NowAware now) les K L))"
  using assms
proof (induction les arbitrary: K L)
  case (Cons l les)
  obtain res L' where out: "renew_budget_reservation (envs l) l (NowAware now) (Ttl DEFAULT_LEASE_TTL_SECONDS) L = (res, L')"
    by fastforce
  have keep: "list_all (\<lambda>(i, r). \<not> renewable le now i r) (reservations L')"
    by (rule renew_keeps_lost [OF Cons.prems(1) out])
  show ?case
  proof (cases "l = le")
    case True
    then have "res \<noteq> Inr True" using renew_lost_not_true [OF Cons.prems(1)] out by (metis fst_conv)
    then show ?thesis using out True
      by (auto simp: keeper_lost_def split: sum.split bool.split intro!: renew_all_lost_grows)
  next
    case False
    then have "le \<in> set les" using Cons.prems(2) by simp
    then show ?thesis using Cons.IH [OF keep] out by (auto split: sum.split bool.split)
  qed
qed simp

text \<open>C11: custody that was lost is noticed. If no row of the table is owned by a tracked lease, active and
  unexpired when the keeper renews, then the lease is marked lost, and settling it afterwards raises
  \<open>LLMBudgetLeaseLostError\<close>, whatever the database answers, writes nothing and stops tracking the lease.\<close>

theorem lost_lease_is_reported:
  assumes "dict_get (kp_leases K) i = Some le"
    and "list_all (\<lambda>(j, r). \<not> renewable le now j r) (reservations L)"
    and "renew_once envs (NowAware now) K L = (K', L')"
  shows "keeper_lost le K' \<and>
    (case settle_tracked env le cost K' L' of
       (res, K'', L'') \<Rightarrow> (\<exists>m. res = Inl (LeaseLost m)) \<and> L'' = L' \<and> \<not> keeper_lost le K'')"
proof -
  have "le \<in> set (map snd (kp_leases K))" using assms(1) by (force dest: map_of_SomeD)
  then have "keeper_lost le K'"
    using renew_all_marks [OF assms(2)] assms(3) unfolding renew_once_def by (metis fst_conv)
  then show ?thesis by (simp add: settle_tracked_def keeper_untrack_def keeper_lost_def)
qed

definition demo_keeper :: keeper where
  "demo_keeper = keeper_track demo_lease \<lparr>kp_leases = [], kp_lost = []\<rparr>"

theorem lost_lease_is_reported_witness:
  "keeper_lost demo_lease (fst (renew_once (\<lambda>_. demo_store) (NowAware 300000000) demo_keeper demo_ledger))"
proof -
  have g: "dict_get (kp_leases demo_keeper) ''r1'' = Some demo_lease" by code_simp
  have l: "list_all (\<lambda>(j, r). \<not> renewable demo_lease 300000000 j r) (reservations demo_ledger)" by code_simp
  from lost_lease_is_reported [OF g l prod.collapse [symmetric], of "\<lambda>_. demo_store" demo_store "Num 1"]
  show ?thesis by simp
qed

end
