(* ===== verification/Provider_Coordination.thy ===== *)
theory Provider_Coordination
  imports Prelude
begin

text \<open>
  The shared coordination of provider cooldowns and leases,
  \<open>llm_client/utils/provider_coordination.py\<close>: the \<open>ProviderCoordinationBackend\<close> protocol as a
  record of operations on an arbitrary state, what its clients rely on as the locale
  \<open>coordination_backend\<close>, and the SQLite implementation as its instance.

  The wall clock \<open>time.time()\<close> and the fresh \<open>uuid4().hex\<close> of a lease are arguments; the
  argument \<open>ok\<close> of the SQLite operations says whether SQLite answers without an error.
\<close>

section \<open>The protocol\<close>

record lease_attempt =
  la_lease_id :: "string option"
  la_wait_s :: rat

text \<open>\<open>now\<close>, provider; \<open>now\<close>, provider, delay, source; \<open>now\<close>, fresh id, provider, limit, ttl, holder, poll.\<close>

record 's coordination =
  bk_cooldown_remaining :: "rat \<Rightarrow> string \<Rightarrow> 's \<Rightarrow> rat"
  bk_register_cooldown :: "rat \<Rightarrow> string \<Rightarrow> rat \<Rightarrow> string \<Rightarrow> 's \<Rightarrow> rat \<times> 's"
  bk_try_acquire_lease :: "rat \<Rightarrow> string \<Rightarrow> string \<Rightarrow> int \<Rightarrow> rat \<Rightarrow> string \<Rightarrow> rat \<Rightarrow> 's \<Rightarrow> lease_attempt \<times> 's"
  bk_release_lease :: "string option \<Rightarrow> 's \<Rightarrow> 's"

section \<open>The SQLite backend\<close>

record cooldown_row =
  cd_until :: rat
  cd_source :: string
  cd_updated_at :: rat

record lease_row =
  lr_provider :: string
  lr_holder :: string
  lr_acquired_at :: rat
  lr_expires_at :: rat

record coord_store =
  cs_cooldowns :: "(string \<times> cooldown_row) list"
  cs_leases :: "(string \<times> lease_row) list"

definition sqlite_cooldown_remaining :: "bool \<Rightarrow> rat \<Rightarrow> string \<Rightarrow> coord_store \<Rightarrow> rat" where
  "sqlite_cooldown_remaining ok now provider S =
     (if \<not> ok then 0
      else case dict_get (cs_cooldowns S) provider of
        None \<Rightarrow> 0
      | Some row \<Rightarrow> max 0 (cd_until row - now))"

text \<open>\<open>register_cooldown\<close> reads the row and then writes it back; the two halves are separate statements.\<close>

definition cooldown_read :: "string \<Rightarrow> coord_store \<Rightarrow> rat" where
  "cooldown_read provider S =
     (case dict_get (cs_cooldowns S) provider of None \<Rightarrow> 0 | Some row \<Rightarrow> cd_until row)"

definition cooldown_write :: "rat \<Rightarrow> string \<Rightarrow> rat \<Rightarrow> string \<Rightarrow> coord_store \<Rightarrow> coord_store" where
  "cooldown_write now provider until source S =
     S\<lparr>cs_cooldowns := dict_set provider
         \<lparr>cd_until = until, cd_source = source, cd_updated_at = now\<rparr> (cs_cooldowns S)\<rparr>"

definition sqlite_register_cooldown ::
  "bool \<Rightarrow> rat \<Rightarrow> string \<Rightarrow> rat \<Rightarrow> string \<Rightarrow> coord_store \<Rightarrow> rat \<times> coord_store" where
  "sqlite_register_cooldown ok now provider delay_s source S =
     (let delay = max 0 delay_s in
      if delay \<le> 0 then (0, S)
      else if \<not> ok then (delay, S)
      else
        let until = max (cooldown_read provider S) (now + delay) in
        (max 0 (until - now), cooldown_write now provider until source S))"

definition sqlite_try_acquire_lease ::
  "bool \<Rightarrow> rat \<Rightarrow> string \<Rightarrow> string \<Rightarrow> int \<Rightarrow> rat \<Rightarrow> string \<Rightarrow> rat \<Rightarrow> coord_store \<Rightarrow> lease_attempt \<times> coord_store" where
  "sqlite_try_acquire_lease ok now fresh provider shared_limit lease_ttl_s holder poll_interval_s S =
     (let limit = max 0 shared_limit; wait = max (1/100) poll_interval_s in
      if limit \<le> 0 then (\<lparr>la_lease_id = None, la_wait_s = 0\<rparr>, S)
      else if \<not> ok then (\<lparr>la_lease_id = None, la_wait_s = wait\<rparr>, S)
      else
        let live = filter (\<lambda>(i, r). \<not> lr_expires_at r \<le> now) (cs_leases S);
            rows = map (\<lambda>(i, r). lr_expires_at r) (filter (\<lambda>(i, r). lr_provider r = provider) live) in
        if int (length rows) < limit
        then if dict_has live fresh then (\<lparr>la_lease_id = None, la_wait_s = wait\<rparr>, S)
             else (\<lparr>la_lease_id = Some fresh, la_wait_s = 0\<rparr>,
              S\<lparr>cs_leases := live @
                 [(fresh, \<lparr>lr_provider = provider, lr_holder = holder, lr_acquired_at = now,
                          lr_expires_at = now + max 1 lease_ttl_s\<rparr>)]\<rparr>)
        else (\<lparr>la_lease_id = None,
               la_wait_s = (if rows \<noteq> [] then max wait (Min (set rows) - now) else wait)\<rparr>,
              S\<lparr>cs_leases := live\<rparr>))"

definition sqlite_release_lease :: "bool \<Rightarrow> string option \<Rightarrow> coord_store \<Rightarrow> coord_store" where
  "sqlite_release_lease ok lease_id S =
     (case lease_id of
        None \<Rightarrow> S
      | Some i \<Rightarrow> if i = [] \<or> \<not> ok then S else S\<lparr>cs_leases := dict_pop i (cs_leases S)\<rparr>)"

definition sqlite_backend :: "bool \<Rightarrow> coord_store coordination" where
  "sqlite_backend ok =
     \<lparr>bk_cooldown_remaining = sqlite_cooldown_remaining ok,
      bk_register_cooldown = sqlite_register_cooldown ok,
      bk_try_acquire_lease = sqlite_try_acquire_lease ok,
      bk_release_lease = sqlite_release_lease ok\<rparr>"

text \<open>The leases of a provider that count at a time.\<close>

definition sqlite_held :: "rat \<Rightarrow> string \<Rightarrow> coord_store \<Rightarrow> string list" where
  "sqlite_held now provider S =
     map fst (filter (\<lambda>(i, r). \<not> lr_expires_at r \<le> now \<and> lr_provider r = provider) (cs_leases S))"

section \<open>What clients rely on\<close>

text \<open>Calls of the protocol, with the time each is made.\<close>

datatype coord_call =
    CallRegister rat string rat string
  | CallAcquire rat string string int rat string rat
  | CallRelease rat "string option"

fun call_time :: "coord_call \<Rightarrow> rat" where
  "call_time (CallRegister t _ _ _) = t"
| "call_time (CallAcquire t _ _ _ _ _ _) = t"
| "call_time (CallRelease t _) = t"

fun do_call :: "'s coordination \<Rightarrow> coord_call \<Rightarrow> 's \<Rightarrow> 's" where
  "do_call B (CallRegister t p d src) s = snd (bk_register_cooldown B t p d src s)"
| "do_call B (CallAcquire t i p n ttl h poll) s = snd (bk_try_acquire_lease B t i p n ttl h poll s)"
| "do_call B (CallRelease t i) s = bk_release_lease B i s"

fun do_calls :: "'s coordination \<Rightarrow> coord_call list \<Rightarrow> 's \<Rightarrow> 's" where
  "do_calls B [] s = s"
| "do_calls B (c # cs) s = do_calls B cs (do_call B c s)"

text \<open>Every acquisition for the provider asks for the same cap.\<close>

fun asks_cap :: "string \<Rightarrow> int \<Rightarrow> coord_call \<Rightarrow> bool" where
  "asks_cap p cap (CallAcquire t i q n ttl h poll) \<longleftrightarrow> (q = p \<longrightarrow> n = cap)"
| "asks_cap p cap _ \<longleftrightarrow> True"

locale coordination_backend =
  fixes B :: "'s coordination"
    and held :: "rat \<Rightarrow> string \<Rightarrow> 's \<Rightarrow> string list"
  assumes remaining_nonneg: "0 \<le> bk_cooldown_remaining B t p s"
    and register_applies: "0 < d \<Longrightarrow> bk_register_cooldown B t p d src s = (r, s') \<Longrightarrow>
          d \<le> r \<and> bk_cooldown_remaining B t p s' = r"
    and register_keeps: "bk_cooldown_remaining B t q s
          \<le> bk_cooldown_remaining B t q (snd (bk_register_cooldown B u p d src s))"
    and register_held: "held t q (snd (bk_register_cooldown B u p d src s)) = held t q s"
    and remaining_decays: "t \<le> u \<Longrightarrow> bk_cooldown_remaining B u p s
          \<le> max 0 (bk_cooldown_remaining B t p s - (u - t))"
    and held_decays: "t \<le> u \<Longrightarrow> length (held u p s) \<le> length (held t p s)"
    and acquire_granted: "bk_try_acquire_lease B t i p n ttl h poll s = (a, s') \<Longrightarrow> la_lease_id a = Some j \<Longrightarrow>
          j \<in> set (held t p s') \<and> int (length (held t p s')) \<le> n"
    and acquire_refused: "bk_try_acquire_lease B t i p n ttl h poll s = (a, s') \<Longrightarrow> la_lease_id a = None \<Longrightarrow>
          held t q s' = held t q s"
    and acquire_others: "q \<noteq> p \<Longrightarrow> held t q (snd (bk_try_acquire_lease B t i p n ttl h poll s)) = held t q s"
    and release_held: "length (held t p (bk_release_lease B io s)) \<le> length (held t p s)"
begin

lemma call_within_cap:
  assumes "asks_cap p cap c" and "int (length (held (call_time c) p s)) \<le> cap"
  shows "int (length (held (call_time c) p (do_call B c s))) \<le> cap"
proof (cases c)
  case (CallRegister t q d src)
  then show ?thesis using assms by (simp add: register_held)
next
  case (CallRelease t i)
  then show ?thesis using assms release_held [of t p i s] by simp
next
  case (CallAcquire t i q n ttl h poll)
  obtain a s' where out: "bk_try_acquire_lease B t i q n ttl h poll s = (a, s')" by fastforce
  show ?thesis
  proof (cases "q = p")
    case False
    then show ?thesis using assms acquire_others [of p q t] CallAcquire by simp
  next
    case True
    then have "n = cap" using assms(1) CallAcquire by simp
    then show ?thesis
      using assms(2) acquire_granted [OF out] acquire_refused [OF out] CallAcquire True out
      by (cases "la_lease_id a") auto
  qed
qed

theorem calls_within_cap:
  assumes "sorted (t # map call_time cs)" and "list_all (asks_cap p cap) cs"
    and "int (length (held t p s)) \<le> cap"
    and "\<forall>c \<in> set cs. call_time c \<le> u" and "t \<le> u"
  shows "int (length (held u p (do_calls B cs s))) \<le> cap"
  using assms
proof (induction cs arbitrary: s t)
  case Nil
  then show ?case using held_decays [of t u p s] by simp
next
  case (Cons c cs)
  have "int (length (held (call_time c) p s)) \<le> cap"
    using Cons.prems held_decays [of t "call_time c" p s] by simp
  then have "int (length (held (call_time c) p (do_call B c s))) \<le> cap"
    using Cons.prems by (intro call_within_cap) simp_all
  with Cons.prems show ?case by (simp add: Cons.IH [of "call_time c"])
qed

end

section \<open>The SQLite backend keeps the protocol\<close>

lemma dict_pop_filter: "dict_pop k d = filter (\<lambda>(i, r). i \<noteq> k) d"
  by (induction d) auto

lemma length_filter_sub:
  "(\<And>x. P x \<Longrightarrow> Q x) \<Longrightarrow> length (filter P xs) \<le> length (filter Q xs)"
  by (induction xs) auto

lemma sqlite_granted:
  assumes "sqlite_try_acquire_lease ok t i p n ttl h poll s = (a, s')" and "la_lease_id a = Some j"
  shows "sqlite_held t p s' = sqlite_held t p s @ [i]" and "int (length (sqlite_held t p s)) < n" and "j = i"
  using assms
  by (auto simp: sqlite_try_acquire_lease_def sqlite_held_def Let_def case_prod_unfold split: if_splits)

interpretation sqlite: coordination_backend "sqlite_backend True" sqlite_held
proof
  fix t u d r :: rat and p q src i h :: string and s s' :: coord_store
    and n :: int and ttl poll :: rat and a :: lease_attempt and j :: string and io :: "string option"
  show "0 \<le> bk_cooldown_remaining (sqlite_backend True) t p s"
    by (simp add: sqlite_backend_def sqlite_cooldown_remaining_def split: option.split)
  show "0 < d \<Longrightarrow> bk_register_cooldown (sqlite_backend True) t p d src s = (r, s') \<Longrightarrow>
      d \<le> r \<and> bk_cooldown_remaining (sqlite_backend True) t p s' = r"
    by (auto simp: sqlite_backend_def sqlite_register_cooldown_def sqlite_cooldown_remaining_def
        cooldown_write_def py_simps Let_def)
  show "bk_cooldown_remaining (sqlite_backend True) t q s
      \<le> bk_cooldown_remaining (sqlite_backend True) t q (snd (bk_register_cooldown (sqlite_backend True) u p d src s))"
    by (auto simp: sqlite_backend_def sqlite_register_cooldown_def sqlite_cooldown_remaining_def
        cooldown_write_def cooldown_read_def py_simps Let_def split: option.split)
  show "sqlite_held t q (snd (bk_register_cooldown (sqlite_backend True) u p d src s)) = sqlite_held t q s"
    by (simp add: sqlite_backend_def sqlite_register_cooldown_def sqlite_held_def cooldown_write_def Let_def)
  show "t \<le> u \<Longrightarrow> bk_cooldown_remaining (sqlite_backend True) u p s
      \<le> max 0 (bk_cooldown_remaining (sqlite_backend True) t p s - (u - t))"
    by (simp add: sqlite_backend_def sqlite_cooldown_remaining_def max_def split: option.split)
  show "t \<le> u \<Longrightarrow> length (sqlite_held u p s) \<le> length (sqlite_held t p s)"
    by (auto simp: sqlite_held_def intro!: length_filter_sub)
  show "bk_try_acquire_lease (sqlite_backend True) t i p n ttl h poll s = (a, s') \<Longrightarrow> la_lease_id a = Some j \<Longrightarrow>
      j \<in> set (sqlite_held t p s') \<and> int (length (sqlite_held t p s')) \<le> n"
    using sqlite_granted [of True t i p n ttl h poll s a s' j]
    by (auto simp: sqlite_backend_def)
  show "bk_try_acquire_lease (sqlite_backend True) t i p n ttl h poll s = (a, s') \<Longrightarrow> la_lease_id a = None \<Longrightarrow>
      sqlite_held t q s' = sqlite_held t q s"
    by (auto simp: sqlite_backend_def sqlite_try_acquire_lease_def sqlite_held_def Let_def
        case_prod_unfold split: if_splits)
  show "q \<noteq> p \<Longrightarrow> sqlite_held t q (snd (bk_try_acquire_lease (sqlite_backend True) t i p n ttl h poll s)) = sqlite_held t q s"
    by (auto simp: sqlite_backend_def sqlite_try_acquire_lease_def sqlite_held_def Let_def
        case_prod_unfold)
  show "length (sqlite_held t p (bk_release_lease (sqlite_backend True) io s)) \<le> length (sqlite_held t p s)"
    by (auto simp: sqlite_backend_def sqlite_release_lease_def sqlite_held_def dict_pop_filter
        intro!: length_filter_sub split: option.split)
qed

section \<open>Properties\<close>

definition empty_coord :: coord_store where
  "empty_coord = \<lparr>cs_cooldowns = [], cs_leases = []\<rparr>"

text \<open>C9: with the SQLite backend the unexpired leases of a provider never exceed the shared cap, after any
  sequence of registrations, acquisitions and releases by any holders at increasing times, when the
  acquisitions for that provider ask for that cap.\<close>

theorem sqlite_leases_within_cap:
  assumes "sorted (map call_time cs)" and "list_all (asks_cap p cap) cs" and "0 \<le> cap"
    and "\<forall>c \<in> set cs. call_time c \<le> u"
  shows "int (length (sqlite_held u p (do_calls (sqlite_backend True) cs empty_coord))) \<le> cap"
proof (cases cs)
  case Nil
  then show ?thesis using assms(3) by (simp add: sqlite_held_def empty_coord_def)
next
  case (Cons c cs')
  have "int (length (sqlite_held (call_time c) p empty_coord)) \<le> cap"
    using assms(3) by (simp add: sqlite_held_def empty_coord_def)
  then show ?thesis
    by (rule sqlite.calls_within_cap [rotated 2]) (use assms Cons in auto)
qed

theorem sqlite_leases_within_cap_witness:
  "int (length (sqlite_held 2 ''google'' (do_calls (sqlite_backend True)
     [CallAcquire 0 ''l1'' ''google'' 2 600 ''a'' (1/2), CallAcquire 1 ''l2'' ''google'' 2 600 ''b'' (1/2),
      CallAcquire 2 ''l3'' ''google'' 2 600 ''c'' (1/2)] empty_coord))) \<le> 2"
  by (rule sqlite_leases_within_cap) simp_all

text \<open>A cooldown can be shortened by a concurrent registration. When two processes read the row
  before either writes it, the later write of the shorter delay replaces the longer one, so that less
  is left than the first process was told; run one after the other the longer delay stays.\<close>

theorem concurrent_register_loses_cooldown:
  assumes "0 < short" and "short < long" and "0 \<le> t"
  shows "let u1 = max (cooldown_read p empty_coord) (t + long);
             u2 = max (cooldown_read p empty_coord) (t + short);
             s = cooldown_write t p u2 ''b'' (cooldown_write t p u1 ''a'' empty_coord) in
         sqlite_cooldown_remaining True t p s = short \<and>
         sqlite_cooldown_remaining True t p
           (snd (sqlite_register_cooldown True t p short ''b''
              (snd (sqlite_register_cooldown True t p long ''a'' empty_coord)))) = long"
  using assms
  by (simp add: Let_def cooldown_read_def cooldown_write_def sqlite_cooldown_remaining_def
      sqlite_register_cooldown_def empty_coord_def py_simps)

theorem concurrent_register_loses_cooldown_witness:
  "sqlite_cooldown_remaining True 100 ''google''
     (cooldown_write 100 ''google'' 115 ''b'' (cooldown_write 100 ''google'' 160 ''a'' empty_coord)) = 15"
  using concurrent_register_loses_cooldown [of 15 60 100 "''google''"]
  by (simp add: Let_def cooldown_read_def empty_coord_def)

end
