(* ===== verification/Rate_Limit.thy ===== *)
theory Rate_Limit
  imports Retry Provider_Policy Provider_Coordination
begin

text \<open>
  Per-provider concurrency limits and shared cooldowns, \<open>llm_client/utils/rate_limit.py\<close>, and the
  kernel's \<open>_maybe_register_provider_cooldown\<close>.

  The module's globals are the record \<open>rate_state\<close>. A semaphore is its number of free permits.
  The coordination backend is either the configured override or the SQLite backend that is
  passed in; clock and fresh ids are arguments. Log lines are not modelled. A loop that sleeps
  takes what it observes in each round as a list.
\<close>

section \<open>Providers\<close>

definition PROVIDER_PREFIXES :: "(string \<times> string) list" where
  "PROVIDER_PREFIXES =
     [(''gemini/'', ''google''), (''anthropic/'', ''anthropic''), (''deepseek/'', ''deepseek''),
      (''xai/'', ''xai''), (''openrouter/'', ''openrouter''), (''ollama/'', ''ollama''),
      (''together/'', ''together'')]"

definition OPENAI_PREFIXES :: "string list" where
  "OPENAI_PREFIXES = [''gpt-'', ''o1-'', ''o3'', ''o4-'', ''text-embedding-'']"

definition get_provider :: "string \<Rightarrow> string" where
  "get_provider model =
     (if py_startswith_any [''claude-code'', ''codex''] model then ''agent''
      else if is_codex_alias_model model \<or> is_codex_family_model model then ''agent''
      else case find (\<lambda>(pre, provider). prefix pre model) PROVIDER_PREFIXES of
        Some (pre, provider) \<Rightarrow> provider
      | None \<Rightarrow> if py_startswith_any OPENAI_PREFIXES model then ''openai'' else ''default'')"

definition DEFAULT_LIMITS :: "(string \<times> int) list" where
  "DEFAULT_LIMITS =
     [(''openai'', 50), (''google'', 10), (''anthropic'', 20), (''openrouter'', 40), (''deepseek'', 20),
      (''xai'', 20), (''ollama'', 5), (''together'', 20), (''agent'', 999), (''default'', 30)]"

definition RUNTIME_PROVIDERS :: "string list" where
  "RUNTIME_PROVIDERS =
     [''google'', ''openai'', ''anthropic'', ''openrouter'', ''deepseek'', ''xai'', ''ollama'', ''together'',
      ''agent'', ''default'']"

definition default_provider_runtime_maps ::
  "provider_governance_policy \<Rightarrow> (string \<times> rat) list \<times> (string \<times> int) list" where
  "default_provider_runtime_maps P =
     (foldl (\<lambda>m p. let r = rp_cooldown_floor_s (get_provider_runtime_policy P p) in
                   if r > 0 then dict_set p r m else m) [] RUNTIME_PROVIDERS,
      foldl (\<lambda>m p. let n = rp_shared_limit (get_provider_runtime_policy P p) in
                   if n > 0 then dict_set p n m else m) [] RUNTIME_PROVIDERS)"

section \<open>State and configuration\<close>

record 's rate_state =
  rl_enabled :: bool
  rl_cooldown_enabled :: bool
  rl_shared_enabled :: bool
  rl_limits :: "(string \<times> int) list"
  rl_cooldown_floors :: "(string \<times> rat) list"
  rl_shared_limits :: "(string \<times> int) list"
  rl_shared_lease_ttl_s :: rat
  rl_shared_poll_interval_s :: rat
  rl_cooldown_state_path :: string
  rl_backend_override :: "'s coordination option"
  rl_async_sems :: "(string \<times> int) list"
  rl_sync_sems :: "(string \<times> int) list"

record 's rate_config =
  rc_enabled :: "bool option"
  rc_limits :: "(string \<times> int) list option"
  rc_cooldown_enabled :: "bool option"
  rc_cooldown_floors :: "(string \<times> py) list option"
  rc_cooldown_path :: "string option"
  rc_shared_enabled :: "bool option"
  rc_shared_limits :: "(string \<times> py) list option"
  rc_shared_lease_ttl_s :: "rat option"
  rc_shared_poll_interval_s :: "rat option"
  rc_backend :: "'s coordination option"

definition initial_rate_state :: "bool \<Rightarrow> bool \<Rightarrow> string \<Rightarrow> 's rate_state" where
  "initial_rate_state cooldown_on shared_on path =
     \<lparr>rl_enabled = True, rl_cooldown_enabled = cooldown_on, rl_shared_enabled = shared_on,
      rl_limits = DEFAULT_LIMITS,
      rl_cooldown_floors = fst (default_provider_runtime_maps get_provider_governance_policy),
      rl_shared_limits = snd (default_provider_runtime_maps get_provider_governance_policy),
      rl_shared_lease_ttl_s = 600, rl_shared_poll_interval_s = 1/2, rl_cooldown_state_path = path,
      rl_backend_override = None, rl_async_sems = [], rl_sync_sems = []\<rparr>"

text \<open>A value that is no number is skipped with a warning.\<close>

fun store_floors :: "(string \<Rightarrow> rat option) \<Rightarrow> (string \<times> py) list \<Rightarrow> (string \<times> rat) list \<Rightarrow> (string \<times> rat) list" where
  "store_floors parse [] m = m"
| "store_floors parse ((p, v) # kvs) m =
     store_floors parse kvs (case py_float parse v of Some x \<Rightarrow> dict_set p (max 0 x) m | None \<Rightarrow> m)"

fun store_shared :: "(string \<Rightarrow> int option) \<Rightarrow> (string \<times> py) list \<Rightarrow> (string \<times> int) list \<Rightarrow> (string \<times> int) list" where
  "store_shared parse [] m = m"
| "store_shared parse ((p, v) # kvs) m =
     store_shared parse kvs (case py_int parse v of Some n \<Rightarrow> dict_set p (max 0 n) m | None \<Rightarrow> m)"

definition dict_merge :: "('k \<times> 'v) list \<Rightarrow> ('k \<times> 'v) list \<Rightarrow> ('k \<times> 'v) list" where
  "dict_merge d e = foldl (\<lambda>m (k, v). dict_set k v m) d e"

definition configure ::
  "(string \<Rightarrow> rat option) \<Rightarrow> (string \<Rightarrow> int option) \<Rightarrow> 's rate_config \<Rightarrow> 's rate_state \<Rightarrow> 's rate_state" where
  "configure parse_float parse_int c st =
     (let st = (case rc_enabled c of Some b \<Rightarrow> st\<lparr>rl_enabled := b\<rparr> | None \<Rightarrow> st);
          st = (case rc_cooldown_enabled c of Some b \<Rightarrow> st\<lparr>rl_cooldown_enabled := b\<rparr> | None \<Rightarrow> st);
          st = (case rc_shared_enabled c of Some b \<Rightarrow> st\<lparr>rl_shared_enabled := b\<rparr> | None \<Rightarrow> st);
          st = (case rc_limits c of
                  Some ls \<Rightarrow> st\<lparr>rl_limits := dict_merge (rl_limits st) ls,
                               rl_async_sems := [], rl_sync_sems := []\<rparr>
                | None \<Rightarrow> st);
          st = (case rc_cooldown_floors c of
                  Some fs \<Rightarrow> st\<lparr>rl_cooldown_floors := store_floors parse_float fs []\<rparr> | None \<Rightarrow> st);
          st = (case rc_shared_limits c of
                  Some ls \<Rightarrow> st\<lparr>rl_shared_limits := store_shared parse_int ls []\<rparr> | None \<Rightarrow> st);
          st = (case rc_cooldown_path c of Some p \<Rightarrow> st\<lparr>rl_cooldown_state_path := p\<rparr> | None \<Rightarrow> st);
          st = (case rc_shared_lease_ttl_s c of
                  Some x \<Rightarrow> st\<lparr>rl_shared_lease_ttl_s := max 1 x\<rparr> | None \<Rightarrow> st);
          st = (case rc_shared_poll_interval_s c of
                  Some x \<Rightarrow> st\<lparr>rl_shared_poll_interval_s := max (1/100) x\<rparr> | None \<Rightarrow> st)
      in st\<lparr>rl_backend_override := rc_backend c\<rparr>)"

text \<open>What \<open>json.loads\<close> makes of an environment variable.\<close>

datatype 'v env_json = EnvUnset | EnvInvalid | EnvNotObject | EnvObject "(string \<times> 'v) list"

definition load_env_limits :: "int env_json \<Rightarrow> 's rate_state \<Rightarrow> 's rate_state" where
  "load_env_limits e st =
     (case e of EnvObject ls \<Rightarrow> st\<lparr>rl_limits := dict_merge (rl_limits st) ls\<rparr> | _ \<Rightarrow> st)"

definition load_env_cooldown_floors :: "(string \<Rightarrow> rat option) \<Rightarrow> py env_json \<Rightarrow> 's rate_state \<Rightarrow> 's rate_state" where
  "load_env_cooldown_floors parse e st =
     (case e of EnvObject fs \<Rightarrow> st\<lparr>rl_cooldown_floors := store_floors parse fs (rl_cooldown_floors st)\<rparr> | _ \<Rightarrow> st)"

definition load_env_shared_limits :: "(string \<Rightarrow> int option) \<Rightarrow> py env_json \<Rightarrow> 's rate_state \<Rightarrow> 's rate_state" where
  "load_env_shared_limits parse e st =
     (case e of EnvObject ls \<Rightarrow> st\<lparr>rl_shared_limits := store_shared parse ls (rl_shared_limits st)\<rparr> | _ \<Rightarrow> st)"

definition load_env_shared_runtime_settings ::
  "(string \<Rightarrow> rat option) \<Rightarrow> string \<Rightarrow> string \<Rightarrow> 's rate_state \<Rightarrow> 's rate_state" where
  "load_env_shared_runtime_settings parse ttl_env poll_env st =
     (let raw_ttl = py_strip ttl_env; raw_poll = py_strip poll_env;
          st = (if raw_ttl = [] then st else case parse raw_ttl of
                  Some x \<Rightarrow> st\<lparr>rl_shared_lease_ttl_s := max 1 x\<rparr> | None \<Rightarrow> st)
      in if raw_poll = [] then st else case parse raw_poll of
           Some x \<Rightarrow> st\<lparr>rl_shared_poll_interval_s := max (1/100) x\<rparr> | None \<Rightarrow> st)"

section \<open>Accessors\<close>

definition get_limit :: "'s rate_state \<Rightarrow> string \<Rightarrow> int" where
  "get_limit st provider =
     (case dict_get (rl_limits st) provider of
        Some n \<Rightarrow> n
      | None \<Rightarrow> (case dict_get (rl_limits st) ''default'' of Some n \<Rightarrow> n | None \<Rightarrow> 30))"

definition get_cooldown_floor :: "'s rate_state \<Rightarrow> string \<Rightarrow> rat" where
  "get_cooldown_floor st provider =
     max 0 (case dict_get (rl_cooldown_floors st) provider of Some x \<Rightarrow> x | None \<Rightarrow> 0)"

definition get_shared_limit :: "'s rate_state \<Rightarrow> string \<Rightarrow> int" where
  "get_shared_limit st provider =
     max 0 (case dict_get (rl_shared_limits st) provider of Some n \<Rightarrow> n | None \<Rightarrow> 0)"

definition cooldown_db_timeout_s :: "string \<Rightarrow> rat" where
  "cooldown_db_timeout_s env =
     (let raw = py_strip env in
      if str_isdigit raw then max 0 (of_nat (digits_nat raw) / 1000) else 1000 / 1000)"

definition coordination_backend_of :: "'s coordination \<Rightarrow> 's rate_state \<Rightarrow> 's coordination" where
  "coordination_backend_of sqlite st =
     (case rl_backend_override st of Some B \<Rightarrow> B | None \<Rightarrow> sqlite)"

section \<open>Cooldowns\<close>

definition provider_cooldown_remaining ::
  "'s coordination \<Rightarrow> 's rate_state \<Rightarrow> rat \<Rightarrow> string \<Rightarrow> 's \<Rightarrow> rat" where
  "provider_cooldown_remaining sqlite st now provider S =
     (if \<not> rl_cooldown_enabled st then 0
      else if provider = ''agent'' then 0
      else let r = bk_cooldown_remaining (coordination_backend_of sqlite st) now provider S in
           if r \<le> 0 then 0 else r)"

definition cooldown_remaining :: "'s coordination \<Rightarrow> 's rate_state \<Rightarrow> rat \<Rightarrow> string \<Rightarrow> 's \<Rightarrow> rat" where
  "cooldown_remaining sqlite st now model S = provider_cooldown_remaining sqlite st now (get_provider model) S"

definition register_rate_limit_cooldown ::
  "'s coordination \<Rightarrow> 's rate_state \<Rightarrow> rat \<Rightarrow> string \<Rightarrow> rat option \<Rightarrow> string \<Rightarrow> 's \<Rightarrow> rat \<times> 's" where
  "register_rate_limit_cooldown sqlite st now model delay_s source S =
     (let provider = get_provider model in
      if \<not> rl_cooldown_enabled st \<or> provider = ''agent'' then (0, S)
      else
        let requested = max 0 (case delay_s of Some d \<Rightarrow> d | None \<Rightarrow> 0);
            applied = max (max requested (get_cooldown_floor st provider))
                        (rp_cooldown_floor_s (get_provider_runtime_policy get_provider_governance_policy provider)) in
        if applied \<le> 0 then (0, S)
        else bk_register_cooldown (coordination_backend_of sqlite st) now provider applied source S)"

text \<open>\<open>_maybe_register_provider_cooldown\<close>: the delay, the warning it appends and the state.\<close>

definition maybe_register_provider_cooldown ::
  "'s coordination \<Rightarrow> 's rate_state \<Rightarrow> rat \<Rightarrow> (py \<Rightarrow> string) \<Rightarrow> string list option \<Rightarrow> string \<Rightarrow> exn
     \<Rightarrow> string list \<Rightarrow> 's \<Rightarrow> rat \<times> string list \<times> 's" where
  "maybe_register_provider_cooldown sqlite st now other litellm model e warnings S =
     (if \<not> is_rate_limit_error litellm e then (0, warnings, S)
      else
        let (hint, hint_source) = retry_delay_hint other (Some 600) e;
            source = (if hint_source \<noteq> ''none'' then hint_source else ''provider-floor'');
            (applied, S') = register_rate_limit_cooldown sqlite st now model hint source S in
        if applied \<le> 0 then (0, warnings, S')
        else (applied,
              warnings @ [''PROVIDER_GOVERNANCE_EVENT[cooldown_registered]: provider='' @ get_provider model @
                          '' delay_s='' @ py_fixed 1 applied @ '' source='' @ source], S'))"

section \<open>Shared leases\<close>

definition provider_uses_shared_limit :: "'s rate_state \<Rightarrow> string \<Rightarrow> bool" where
  "provider_uses_shared_limit st provider \<longleftrightarrow>
     rl_shared_enabled st \<and> provider \<noteq> ''agent'' \<and> get_shared_limit st provider > 0"

definition shared_lease_holder :: "int \<Rightarrow> int \<Rightarrow> string" where
  "shared_lease_holder pid thread = ''pid:'' @ py_int_str pid @ ''-thread:'' @ py_int_str thread"

definition try_acquire_provider_lease ::
  "'s coordination \<Rightarrow> 's rate_state \<Rightarrow> rat \<Rightarrow> string \<Rightarrow> string \<Rightarrow> string \<Rightarrow> 's \<Rightarrow> lease_attempt \<times> 's" where
  "try_acquire_provider_lease sqlite st now fresh holder provider S =
     (if \<not> provider_uses_shared_limit st provider then (\<lparr>la_lease_id = None, la_wait_s = 0\<rparr>, S)
      else bk_try_acquire_lease (coordination_backend_of sqlite st) now fresh provider
             (get_shared_limit st provider) (rl_shared_lease_ttl_s st) holder
             (rl_shared_poll_interval_s st) S)"

definition release_provider_lease :: "'s coordination \<Rightarrow> 's rate_state \<Rightarrow> string option \<Rightarrow> 's \<Rightarrow> 's" where
  "release_provider_lease sqlite st lease_id S = bk_release_lease (coordination_backend_of sqlite st) lease_id S"

text \<open>
  \<open>_wait_for_provider_lease\<close>: each round is the time, the fresh id and the store it finds. The
  result is the lease, if the rounds given end with one, the seconds slept and the store.
\<close>

fun wait_for_provider_lease ::
  "'s coordination \<Rightarrow> 's rate_state \<Rightarrow> string \<Rightarrow> string \<Rightarrow> (rat \<times> string \<times> 's) list
     \<Rightarrow> string option option \<times> rat list \<times> 's option" where
  "wait_for_provider_lease sqlite st holder provider [] =
     (if provider_uses_shared_limit st provider then (None, [], None) else (Some None, [], None))"
| "wait_for_provider_lease sqlite st holder provider ((now, fresh, S) # rounds) =
     (if \<not> provider_uses_shared_limit st provider then (Some None, [], None)
      else case try_acquire_provider_lease sqlite st now fresh holder provider S of
        (a, S') \<Rightarrow>
          (case la_lease_id a of
             Some i \<Rightarrow> (Some (Some i), [], Some S')
           | None \<Rightarrow>
               (case wait_for_provider_lease sqlite st holder provider rounds of
                  (r, sleeps, S'') \<Rightarrow> (r, la_wait_s a # sleeps, S''))))"

section \<open>Waiting out a cooldown\<close>

definition COOLDOWN_WAIT_EPSILON_S :: rat where
  "COOLDOWN_WAIT_EPSILON_S = 1/1000"

text \<open>
  A round is the wall clock when the store is read, the store, and by how much the monotonic
  clock moved during the sleep. The result says whether the loop returned within the rounds, and the sleeps.
\<close>

fun wait_for_provider_cooldown ::
  "'s coordination \<Rightarrow> 's rate_state \<Rightarrow> string \<Rightarrow> (rat \<times> 's \<times> rat) list \<Rightarrow> bool \<times> rat list" where
  "wait_for_provider_cooldown sqlite st provider [] = (False, [])"
| "wait_for_provider_cooldown sqlite st provider ((now, S, progress) # rounds) =
     (let r = provider_cooldown_remaining sqlite st now provider S in
      if r \<le> COOLDOWN_WAIT_EPSILON_S then (True, [])
      else if progress < COOLDOWN_WAIT_EPSILON_S then (True, [r])
      else case wait_for_provider_cooldown sqlite st provider rounds of (b, sleeps) \<Rightarrow> (b, r # sleeps))"

section \<open>Slots\<close>

text \<open>The two families of semaphores share one treatment; the flag selects the asynchronous one.\<close>

definition sems :: "bool \<Rightarrow> 's rate_state \<Rightarrow> (string \<times> int) list" where
  "sems asy st = (if asy then rl_async_sems st else rl_sync_sems st)"

definition set_sems :: "bool \<Rightarrow> (string \<times> int) list \<Rightarrow> 's rate_state \<Rightarrow> 's rate_state" where
  "set_sems asy m st = (if asy then st\<lparr>rl_async_sems := m\<rparr> else st\<lparr>rl_sync_sems := m\<rparr>)"

definition get_sem :: "bool \<Rightarrow> string \<Rightarrow> 's rate_state \<Rightarrow> 's rate_state" where
  "get_sem asy model st =
     (let provider = get_provider model in
      if dict_has (sems asy st) provider then st
      else set_sems asy (dict_set provider (get_limit st provider) (sems asy st)) st)"

definition add_permits :: "bool \<Rightarrow> string \<Rightarrow> int \<Rightarrow> 's rate_state \<Rightarrow> 's rate_state" where
  "add_permits asy provider d st =
     (case dict_get (sems asy st) provider of
        Some n \<Rightarrow> set_sems asy (dict_set provider (n + d) (sems asy st)) st
      | None \<Rightarrow> st)"

definition free_slots :: "bool \<Rightarrow> string \<Rightarrow> 's rate_state \<Rightarrow> int" where
  "free_slots asy provider st =
     (case dict_get (sems asy st) provider of Some n \<Rightarrow> n | None \<Rightarrow> get_limit st provider)"

text \<open>
  \<open>acquire\<close> and \<open>aacquire\<close> around a body. Each wait either ends or is interrupted by an exception
  (a cancellation, a keyboard interrupt, an error of the backend); the lease wait ends with a
  lease or without one.
\<close>

datatype slot_event = BodyRuns | LeaseReleased "string option" | RaisesOut

record acquire_run =
  ar_cooldown_interrupted :: bool
  ar_slot_interrupted :: bool
  ar_lease :: "string option option"
  ar_body_raises :: bool

definition acquire_slot ::
  "bool \<Rightarrow> string \<Rightarrow> acquire_run \<Rightarrow> 's rate_state \<Rightarrow> slot_event list \<times> 's rate_state" where
  "acquire_slot asy model run st =
     (let finish = (if ar_body_raises run then [RaisesOut] else []) in
      if \<not> rl_enabled st then (BodyRuns # finish, st)
      else if ar_cooldown_interrupted run then ([RaisesOut], st)
      else
        let provider = get_provider model; st1 = get_sem asy model st in
        if ar_slot_interrupted run then ([RaisesOut], st1)
        else
          let st2 = add_permits asy provider (- 1) st1 in
          (case ar_lease run of
             None \<Rightarrow> ([RaisesOut], st2)
           | Some lease_id \<Rightarrow>
               ([BodyRuns, LeaseReleased lease_id] @ finish, add_permits asy provider 1 st2)))"

section \<open>Lemmas about clients of a backend\<close>

context coordination_backend
begin

lemma register_limit_floor:
  assumes "rl_cooldown_enabled st" and "get_provider model \<noteq> ''agent''" and "coordination_backend_of X st = B"
    and "register_rate_limit_cooldown X st now model d src s = (r, s')" and "0 < r"
  shows "get_cooldown_floor st (get_provider model) \<le> r
    \<and> rp_cooldown_floor_s (get_provider_runtime_policy get_provider_governance_policy (get_provider model)) \<le> r
    \<and> (case d of Some x \<Rightarrow> x \<le> r | None \<Rightarrow> True)
    \<and> cooldown_remaining X st now model s' = r"
proof -
  let ?a = "max (max (max 0 (case d of Some d \<Rightarrow> d | None \<Rightarrow> 0)) (get_cooldown_floor st (get_provider model)))
     (rp_cooldown_floor_s (get_provider_runtime_policy get_provider_governance_policy (get_provider model)))"
  have pos: "0 < ?a" and reg: "bk_register_cooldown B now (get_provider model) ?a src s = (r, s')"
    using assms by (auto simp: register_rate_limit_cooldown_def Let_def split: if_splits)
  then have le: "?a \<le> r" and "bk_cooldown_remaining B now (get_provider model) s' = r"
    using register_applies by blast+
  then have "cooldown_remaining X st now model s' = r"
    using assms by (auto simp: cooldown_remaining_def provider_cooldown_remaining_def Let_def)
  with le show ?thesis by (auto split: option.split)
qed

text \<open>After one sleep that the clock honours, the cooldown it was read from is over.\<close>

lemma cooldown_wait_ends:
  assumes "coordination_backend_of X st = B" and "t + provider_cooldown_remaining X st t p s \<le> u"
  shows "provider_cooldown_remaining X st u p s = 0"
proof (cases "rl_cooldown_enabled st \<and> p \<noteq> ''agent''")
  case True
  let ?r = "bk_cooldown_remaining B t p s"
  have r: "provider_cooldown_remaining X st t p s = ?r"
    using True assms(1) remaining_nonneg [of t p s]
    by (auto simp: provider_cooldown_remaining_def Let_def)
  then have "t \<le> u" using assms(2) remaining_nonneg [of t p s] by simp
  then have "bk_cooldown_remaining B u p s \<le> max 0 (?r - (u - t))" by (rule remaining_decays)
  also have "\<dots> = 0" using assms(2) r by simp
  finally show ?thesis using True assms(1) by (simp add: provider_cooldown_remaining_def Let_def)
qed (auto simp: provider_cooldown_remaining_def)

end

section \<open>Properties\<close>

lemma policy_floor_15:
  assumes "provider \<in> {''google'', ''openrouter''}"
  shows "rp_cooldown_floor_s (get_provider_runtime_policy get_provider_governance_policy provider) = 15"
proof -
  have "list_all (\<lambda>p. rp_cooldown_floor_s (get_provider_runtime_policy get_provider_governance_policy p) = 15)
      [''google'', ''openrouter'']" by code_simp
  with assms show ?thesis by auto
qed

text \<open>A rate-limit signal always leaves at least the floor. When \<open>register_rate_limit_cooldown\<close>
  records a cooldown with the SQLite backend, its answer is at least the configured floor, the
  floor of the provider policy and the delay asked for, and \<open>cooldown_remaining\<close> of the model
  then answers exactly that; for Google and OpenRouter models a cooldown of at least 15 seconds
  is always recorded.\<close>

theorem rate_limit_cooldown_floor:
  assumes "rl_cooldown_enabled st" and "rl_backend_override st = None" and "get_provider model \<noteq> ''agent''"
    and "register_rate_limit_cooldown (sqlite_backend True) st now model d src S = (r, S')"
  shows "(0 < r \<longrightarrow> get_cooldown_floor st (get_provider model) \<le> r \<and>
            (case d of Some x \<Rightarrow> x \<le> r | None \<Rightarrow> True) \<and>
            cooldown_remaining (sqlite_backend True) st now model S' = r) \<and>
         (get_provider model \<in> {''google'', ''openrouter''} \<longrightarrow> 15 \<le> r)"
proof -
  have B: "coordination_backend_of (sqlite_backend True) st = sqlite_backend True"
    using assms(2) by (simp add: coordination_backend_of_def)
  have pos: "0 < r" if "get_provider model \<in> {''google'', ''openrouter''}"
  proof -
    let ?a = "max (max (max 0 (case d of Some d \<Rightarrow> d | None \<Rightarrow> 0)) (get_cooldown_floor st (get_provider model))) 15"
    have reg: "bk_register_cooldown (sqlite_backend True) now (get_provider model) ?a src S = (r, S')"
      using assms(4)
      unfolding register_rate_limit_cooldown_def Let_def policy_floor_15 [OF that] B
      by (simp add: assms(1,3))
    have a: "0 < ?a" by (simp only: less_max_iff_disj) simp
    have "?a \<le> r" by (rule conjunct1 [OF sqlite.register_applies [OF a reg]])
    with a show ?thesis by (rule less_le_trans)
  qed
  show ?thesis
    using sqlite.register_limit_floor [OF assms(1,3) B assms(4)] pos policy_floor_15 [of "get_provider model"]
    by auto
qed

theorem rate_limit_cooldown_floor_witness:
  "15 \<le> fst (register_rate_limit_cooldown (sqlite_backend True) (initial_rate_state True True [])
      100 ''gemini/gemini-3-flash'' (Some 2) ''parsed'' empty_coord)"
proof -
  have g: "get_provider ''gemini/gemini-3-flash'' = ''google''" by code_simp
  show ?thesis
    using rate_limit_cooldown_floor [OF _ _ _ prod.collapse [symmetric],
        of "initial_rate_state True True []" "''gemini/gemini-3-flash''" 100 "Some 2" "''parsed''" empty_coord]
    by (simp add: g initial_rate_state_def)
qed

text \<open>Waiting out a cooldown ends. With the SQLite backend, when nobody registers another cooldown
  and the clock moves on at least as far as each sleep, the loop returns in its second round at the latest,
  having slept at most once and for exactly what was left.\<close>

theorem cooldown_wait_terminates:
  assumes "rl_backend_override st = None"
    and "t + provider_cooldown_remaining (sqlite_backend True) st t p S \<le> u"
  shows "\<exists>sleeps. wait_for_provider_cooldown (sqlite_backend True) st p ((t, S, d) # (u, S, d') # rounds) = (True, sleeps)
    \<and> (sleeps = [] \<or> sleeps = [provider_cooldown_remaining (sqlite_backend True) st t p S])"
proof -
  have B: "coordination_backend_of (sqlite_backend True) st = sqlite_backend True"
    using assms(1) by (simp add: coordination_backend_of_def)
  have "provider_cooldown_remaining (sqlite_backend True) st u p S = 0"
    by (rule sqlite.cooldown_wait_ends [OF B assms(2)])
  then show ?thesis by (simp add: Let_def COOLDOWN_WAIT_EPSILON_S_def)
qed

theorem cooldown_wait_terminates_witness:
  "\<exists>sleeps. wait_for_provider_cooldown (sqlite_backend True) (initial_rate_state True True []) ''google''
      [(100, cooldown_write 100 ''google'' 115 ''x'' empty_coord, 15),
       (115, cooldown_write 100 ''google'' 115 ''x'' empty_coord, 0)] = (True, sleeps)"
proof -
  have "provider_cooldown_remaining (sqlite_backend True) (initial_rate_state True True []) 100 ''google''
      (cooldown_write 100 ''google'' 115 ''x'' empty_coord) = 15" by code_simp
  then show ?thesis
    using cooldown_wait_terminates [of "initial_rate_state True True []" 100 "''google''"
        "cooldown_write 100 ''google'' 115 ''x'' empty_coord" 115 15 0 "[]"]
    by (auto simp: initial_rate_state_def)
qed

lemma sems_set_sems [simp]: "sems asy (set_sems asy m st) = m"
  by (simp add: sems_def set_sems_def)

lemma get_limit_set_sems [simp]: "get_limit (set_sems asy m st) p = get_limit st p"
  by (simp add: get_limit_def set_sems_def split: option.split)

lemma free_slots_add_permits:
  "dict_has (sems asy st) p \<Longrightarrow> free_slots asy p (add_permits asy p d st) = free_slots asy p st + d"
  by (auto simp: free_slots_def add_permits_def dict_has_def py_simps)

lemma dict_has_add_permits: "dict_has (sems asy (add_permits asy p d st)) q \<longleftrightarrow> dict_has (sems asy st) q"
  by (auto simp: add_permits_def dict_has_def py_simps split: option.split)

lemma get_sem_facts:
  "dict_has (sems asy (get_sem asy model st)) (get_provider model)"
  "free_slots asy (get_provider model) (get_sem asy model st) = free_slots asy (get_provider model) st"
  by (auto simp: get_sem_def free_slots_def dict_has_def py_simps Let_def)

text \<open>A slot is given back on every way out but one. After \<open>acquire\<close> or \<open>aacquire\<close> has ended the
  provider has as many free slots as before, unless the wait for the shared lease was interrupted
  (say by the cancellation of the task): the slot was taken before and the \<open>try\<close> comes after, so
  it is lost and the provider has one free slot less.\<close>

theorem slots_returned_unless_lease_wait_interrupted:
  "free_slots asy (get_provider model) (snd (acquire_slot asy model run st))
   = free_slots asy (get_provider model) st -
     (if rl_enabled st \<and> \<not> ar_cooldown_interrupted run \<and> \<not> ar_slot_interrupted run \<and> ar_lease run = None
      then 1 else 0)"
  by (auto simp: acquire_slot_def Let_def free_slots_add_permits dict_has_add_permits get_sem_facts
      split: option.split)

end
