(* ===== verification/Iso_Time.thy ===== *)
theory Iso_Time
  imports Prelude
begin

text \<open>
  The UTC texts of \<open>datetime.isoformat()\<close>, which the tables of the observability store keep and SQLite
  compares byte by byte (\<open>_now\<close> and \<open>_iso\<close> of \<open>llm_client/observability/budget_reservations.py\<close>).

  A moment is its calendar fields, ordered as they are: the type is an instance of \<open>linorder\<close>.
  \<open>isoformat\<close> leaves out the microseconds when they are zero, so the texts differ in length.
\<close>

section \<open>Moments\<close>

datatype utc = Utc nat nat nat nat nat nat nat

fun utc_fields :: "utc \<Rightarrow> nat list" where
  "utc_fields (Utc y mo d h mi s us) = [y, mo, d, h, mi, s, us]"

lemma utc_fields_inject: "utc_fields a = utc_fields b \<longleftrightarrow> a = b"
  by (cases a; cases b) simp

instantiation utc :: linorder
begin

definition less_eq_utc :: "utc \<Rightarrow> utc \<Rightarrow> bool" where
  "less_eq_utc a b \<longleftrightarrow> utc_fields a \<le> utc_fields b"

definition less_utc :: "utc \<Rightarrow> utc \<Rightarrow> bool" where
  "less_utc a b \<longleftrightarrow> utc_fields a < utc_fields b"

instance
  by standard (auto simp: less_eq_utc_def less_utc_def less_le utc_fields_inject)

end

section \<open>The text\<close>

text \<open>A number with a fixed count of digits.\<close>

fun pad_int :: "nat \<Rightarrow> nat \<Rightarrow> string" where
  "pad_int 0 n = []"
| "pad_int (Suc k) n = pad_int k (n div 10) @ [digit_char (n mod 10)]"

fun iso_utc :: "utc \<Rightarrow> string" where
  "iso_utc (Utc y mo d h mi s us) =
     pad_int 4 y @ ''-'' @ pad_int 2 mo @ ''-'' @ pad_int 2 d @ ''T'' @
     pad_int 2 h @ '':'' @ pad_int 2 mi @ '':'' @ pad_int 2 s @
     (if us = 0 then [] else ''.'' @ pad_int 6 us) @ ''+00:00''"

text \<open>The ranges of the fields of a \<open>datetime\<close>.\<close>

fun utc_ok :: "utc \<Rightarrow> bool" where
  "utc_ok (Utc y mo d h mi s us) \<longleftrightarrow>
     y < 10000 \<and> mo < 13 \<and> d < 32 \<and> h < 24 \<and> mi < 60 \<and> s < 60 \<and> us < 1000000"

section \<open>Order of the texts\<close>

lemma append_less:
  fixes a b c d :: string
  assumes "length a = length b"
  shows "a @ c < b @ d \<longleftrightarrow> a < b \<or> a = b \<and> c < d"
  using assms by (induction a b rule: list_induct2) auto

lemma length_pad_int [simp]: "length (pad_int k n) = k"
  by (induction k arbitrary: n) auto

lemma digit_char_order:
  assumes "d < 10" and "e < 10"
  shows "digit_char d < digit_char e \<longleftrightarrow> d < e" and "digit_char d = digit_char e \<longleftrightarrow> d = e"
proof -
  have "list_all (\<lambda>d. list_all (\<lambda>e. (digit_char d < digit_char e \<longleftrightarrow> d < e) \<and> (digit_char d = digit_char e \<longleftrightarrow> d = e))
      [0, 1, 2, 3, 4, 5, 6, 7, 8, 9]) [0, 1, 2, 3, 4, 5, 6, 7, 8, 9 :: nat]"
    by code_simp
  moreover have "x \<in> set [0, 1, 2, 3, 4, 5, 6, 7, 8, 9 :: nat]" if "x < 10" for x
  proof -
    from that have "x = 0 \<or> x = 1 \<or> x = 2 \<or> x = 3 \<or> x = 4 \<or> x = 5 \<or> x = 6 \<or> x = 7 \<or> x = 8 \<or> x = 9"
      by presburger
    then show ?thesis by auto
  qed
  ultimately show "digit_char d < digit_char e \<longleftrightarrow> d < e" "digit_char d = digit_char e \<longleftrightarrow> d = e"
    using assms by (auto simp only: list_all_iff)
qed

lemma split_order:
  fixes q q' r r' :: nat
  assumes "r < 10" and "r' < 10"
  shows "(q * 10 + r < q' * 10 + r' \<longleftrightarrow> q < q' \<or> q = q' \<and> r < r') \<and> (q * 10 + r = q' * 10 + r' \<longleftrightarrow> q = q' \<and> r = r')"
  using assms by (cases q q' rule: linorder_cases) auto

lemma pad_int_order:
  assumes "x < 10 ^ k" and "y < 10 ^ k"
  shows "(pad_int k x < pad_int k y \<longleftrightarrow> x < y) \<and> (pad_int k x = pad_int k y \<longleftrightarrow> x = y)"
  using assms
proof (induction k arbitrary: x y)
  case (Suc k)
  have "x div 10 < 10 ^ k" "y div 10 < 10 ^ k"
    using Suc.prems by (auto simp: less_mult_imp_div_less mult.commute)
  then have ih: "pad_int k (x div 10) < pad_int k (y div 10) \<longleftrightarrow> x div 10 < y div 10"
      "pad_int k (x div 10) = pad_int k (y div 10) \<longleftrightarrow> x div 10 = y div 10"
    using Suc.IH by blast+
  have digits: "digit_char (x mod 10) < digit_char (y mod 10) \<longleftrightarrow> x mod 10 < y mod 10"
      "digit_char (x mod 10) = digit_char (y mod 10) \<longleftrightarrow> x mod 10 = y mod 10"
    by (simp_all add: digit_char_order)
  have arith: "x < y \<longleftrightarrow> x div 10 < y div 10 \<or> x div 10 = y div 10 \<and> x mod 10 < y mod 10"
      "x = y \<longleftrightarrow> x div 10 = y div 10 \<and> x mod 10 = y mod 10"
    using split_order [of "x mod 10" "y mod 10" "x div 10" "y div 10"] by simp_all
  have "pad_int (Suc k) x < pad_int (Suc k) y \<longleftrightarrow> x div 10 < y div 10 \<or> x div 10 = y div 10 \<and> x mod 10 < y mod 10"
    by (simp add: append_less ih digits)
  moreover have "pad_int (Suc k) x = pad_int (Suc k) y \<longleftrightarrow> x div 10 = y div 10 \<and> x mod 10 = y mod 10"
    by (simp add: ih digits)
  ultimately show ?case using arith by blast
qed simp

text \<open>The order of a field of fixed width decides before what follows it.\<close>

lemma pad_int_less_append:
  assumes "x < 10 ^ k" and "y < 10 ^ k"
  shows "pad_int k x @ c < pad_int k y @ d \<longleftrightarrow> x < y \<or> x = y \<and> c < d"
  using pad_int_order [OF assms] by (simp add: append_less)

lemma fraction_order:
  assumes "x < 1000000" and "y < 1000000"
  shows "(if x = 0 then [] else ''.'' @ pad_int 6 x) @ ''+00:00'' < (if y = 0 then [] else ''.'' @ pad_int 6 y) @ ''+00:00''
    \<longleftrightarrow> x < y"
proof -
  have plus: "CHR ''+'' < CHR ''.''" "\<not> CHR ''.'' < CHR ''+''" by code_simp+
  have "pad_int 6 x @ ''+00:00'' < pad_int 6 y @ ''+00:00'' \<longleftrightarrow> x < y"
    using assms by (simp add: pad_int_less_append del: pad_int.simps)
  then show ?thesis using plus by (simp del: pad_int.simps)
qed

section \<open>Properties\<close>

text \<open>The texts of two moments compare as the moments do. So the SQL conditions \<open>expires_at <= ?\<close> and
  \<open>expires_at > ?\<close> on ISO texts decide expiry correctly, although the texts of whole seconds are shorter.\<close>

theorem iso_text_order:
  assumes "utc_ok a" and "utc_ok b"
  shows "iso_utc a < iso_utc b \<longleftrightarrow> a < b"
proof -
  obtain y mo d h mi s us where a: "a = Utc y mo d h mi s us" by (cases a)
  obtain y' mo' d' h' mi' s' us' where b: "b = Utc y' mo' d' h' mi' s' us'" by (cases b)
  have bounds: "y < 10 ^ 4" "mo < 10 ^ 2" "d < 10 ^ 2" "h < 10 ^ 2" "mi < 10 ^ 2" "s < 10 ^ 2"
      "y' < 10 ^ 4" "mo' < 10 ^ 2" "d' < 10 ^ 2" "h' < 10 ^ 2" "mi' < 10 ^ 2" "s' < 10 ^ 2"
      "us < 1000000" "us' < 1000000"
    using assms by (auto simp: a b)
  have "iso_utc a < iso_utc b \<longleftrightarrow>
      y < y' \<or> y = y' \<and> (mo < mo' \<or> mo = mo' \<and> (d < d' \<or> d = d' \<and> (h < h' \<or> h = h' \<and>
        (mi < mi' \<or> mi = mi' \<and> (s < s' \<or> s = s' \<and> us < us')))))"
    using bounds
    by (simp only: a b iso_utc.simps pad_int_less_append append_less length_Cons list.size fraction_order)
      simp
  also have "\<dots> \<longleftrightarrow> a < b" by (simp add: a b less_utc_def)
  finally show ?thesis .
qed

theorem iso_text_order_witness:
  "iso_utc (Utc 2026 3 19 23 59 59 0) < iso_utc (Utc 2026 3 19 23 59 59 1)"
  by (subst iso_text_order) (simp_all add: less_utc_def)

end
