(* ===== verification/Py_Support.thy ===== *)
theory Py_Support
  imports Prelude "HOL-Library.Multiset"
begin

text \<open>
  A second layer of Python vocabulary for the components above the call path: counters, number and
  path formats, type names, and stable sorts in descending order.
\<close>

section \<open>Counters\<close>

type_synonym counters = "(string \<times> int) list"

text \<open>\<open>d[k] = d.get(k, 0) + n\<close>.\<close>

definition bump :: "string \<Rightarrow> int \<Rightarrow> counters \<Rightarrow> counters" where
  "bump k n d = dict_set k ((case dict_get d k of Some m \<Rightarrow> m | None \<Rightarrow> 0) + n) d"

definition tally :: "counters \<Rightarrow> string \<Rightarrow> int" where
  "tally d k = (case dict_get d k of Some n \<Rightarrow> n | None \<Rightarrow> 0)"

lemma tally_bump [simp]: "tally (bump k n d) k' = tally d k' + (if k' = k then n else 0)"
  by (simp add: tally_def bump_def py_simps)

lemma tally_Nil [simp]: "tally [] k = 0"
  by (simp add: tally_def)

lemma distinct_bump: "distinct (map fst d) \<Longrightarrow> distinct (map fst (bump k n d))"
  by (simp add: bump_def distinct_update)

lemma dict_set_new: "k \<notin> fst ` set d \<Longrightarrow> dict_set k v d = d @ [(k, v)]"
  by (induction d) auto

section \<open>Formats\<close>

text \<open>\<open>len(s.encode("utf-8"))\<close> of 8-bit characters.\<close>

definition utf8_len :: "string \<Rightarrow> nat" where
  "utf8_len s = sum_list (map (\<lambda>c. if (of_char c :: nat) < 128 then 1 else 2) s)"

text \<open>\<open>f"{n:,}"\<close>.\<close>

fun group3 :: "string \<Rightarrow> string" where
  "group3 (a # b # c # d # ds) = a # b # c # CHR '','' # group3 (d # ds)"
| "group3 ds = ds"

definition py_thousands :: "int \<Rightarrow> string" where
  "py_thousands n = (if n < 0 then ''-'' else []) @ rev (group3 (rev (nat_digits (nat \<bar>n\<bar>))))"

text \<open>\<open>type(v).__name__\<close>.\<close>

fun py_type_name :: "py \<Rightarrow> string" where
  "py_type_name PNone = ''NoneType''"
| "py_type_name (PBool _) = ''bool''"
| "py_type_name (PInt _) = ''int''"
| "py_type_name (PFloat _) = ''float''"
| "py_type_name (PStr _) = ''str''"
| "py_type_name (PList _) = ''list''"
| "py_type_name (PTuple _) = ''tuple''"
| "py_type_name (PSet _) = ''set''"
| "py_type_name (PDict _) = ''dict''"

text \<open>\<open>Path.name\<close>, the part of a path before it, and \<open>Path.stem\<close>, for a normalised path.\<close>

definition path_name :: "string \<Rightarrow> string" where
  "path_name p = py_after_last CHR ''/'' p"

definition path_dir :: "string \<Rightarrow> string" where
  "path_dir p = take (length p - length (path_name p)) p"

definition path_stem :: "string \<Rightarrow> string" where
  "path_stem p =
     (let name = path_name p; ext = py_after_last CHR ''.'' name;
          i = length name - length ext - 1
      in if CHR ''.'' \<in> set name \<and> 0 < i \<and> ext \<noteq> [] then take i name else name)"

text \<open>\<open>str.splitlines()\<close> on 8-bit text.\<close>

definition line_break :: "char \<Rightarrow> bool" where
  "line_break c \<longleftrightarrow> c \<in> set [CHR 0x0A, CHR 0x0B, CHR 0x0C, CHR 0x0D, CHR 0x1C, CHR 0x1D, CHR 0x1E, CHR 0x85]"

fun splitlines_from :: "string \<Rightarrow> string \<Rightarrow> string list" where
  "splitlines_from w [] = (if w = [] then [] else [rev w])"
| "splitlines_from w (c # cs) =
     (if line_break c
      then rev w # splitlines_from [] (if c = CHR 0x0D \<and> prefix [CHR 0x0A] cs then tl cs else cs)
      else splitlines_from (c # w) cs)"

definition splitlines :: "string \<Rightarrow> string list" where
  "splitlines s = splitlines_from [] s"

text \<open>\<open>s.split(sep)\<close> at one character.\<close>

fun split_on :: "char \<Rightarrow> string \<Rightarrow> string list" where
  "split_on d [] = [[]]"
| "split_on d (c # s) =
     (if c = d then [] # split_on d s
      else (case split_on d s of [] \<Rightarrow> [[c]] | w # ws \<Rightarrow> (c # w) # ws))"

lemma split_on_single: "d \<notin> set s \<Longrightarrow> split_on d s = [s]"
  by (induction s) auto

lemma split_on_append: "d \<notin> set s \<Longrightarrow> split_on d (s @ d # t) = s # split_on d t"
  by (induction s) auto

lemma split_on_join:
  "ws \<noteq> [] \<Longrightarrow> (\<And>w. w \<in> set ws \<Longrightarrow> d \<notin> set w) \<Longrightarrow> split_on d (py_join [d] ws) = ws"
  by (induction "[d]" ws rule: py_join.induct) (simp_all add: split_on_single split_on_append)

section \<open>Sorting\<close>

text \<open>\<open>xs.sort(key=key, reverse=True)\<close>: equal keys keep their order.\<close>

definition sort_desc :: "('a \<Rightarrow> 'k::linorder) \<Rightarrow> 'a list \<Rightarrow> 'a list" where
  "sort_desc key xs = rev (sort_key key (rev xs))"

lemma set_sort_desc [simp]: "set (sort_desc key xs) = set xs"
  by (simp add: sort_desc_def)

lemma length_sort_desc [simp]: "length (sort_desc key xs) = length xs"
  by (simp add: sort_desc_def)

lemma mset_sort_desc [simp]: "mset (sort_desc key xs) = mset xs"
  by (simp add: sort_desc_def)

lemma sum_list_sort_desc [simp]: "sum_list (map f (sort_desc key xs)) = sum_list (map f xs)"
  for f :: "'a \<Rightarrow> 'b::comm_monoid_add"
  by (metis mset_map mset_sort_desc sum_mset_sum_list)

lemma distinct_sort_desc [simp]: "distinct (sort_desc key xs) = distinct xs"
  by (simp add: sort_desc_def)

lemma sort_desc_Nil_iff [simp]: "sort_desc key xs = [] \<longleftrightarrow> xs = []"
  by (metis length_0_conv length_sort_desc)

lemma sorted_sort_desc: "sorted (rev (map key (sort_desc key xs)))"
  by (simp add: sort_desc_def rev_map)

lemma sort_desc_stable: "filter (\<lambda>x. key x = k) (sort_desc key xs) = filter (\<lambda>x. key x = k) xs"
  by (simp add: sort_desc_def rev_filter [symmetric] sort_key_stable)

lemma sort_desc_order:
  assumes "sort_desc key xs = ys @ y # zs" and "z \<in> set zs"
  shows "key z \<le> key y"
proof -
  have "sorted (rev (map key (ys @ y # zs)))" using sorted_sort_desc [of key xs] assms(1) by simp
  then show ?thesis using assms(2) by (auto simp: sorted_append)
qed

end
