(* ===== verification/Observability_Context.thy ===== *)
theory Observability_Context
  imports Py_Support
begin

text \<open>
  Experiment context and benchmark guards, \<open>llm_client/observability/context.py\<close>: the two context
  variables with their context managers, the normal form of feature profiles, and the guards
  that warn about or refuse a benchmark-like task that runs without its context.

  The environment is a function on variable names. \<open>json.loads\<close>, \<open>re.search\<close> (\<open>None\<close> when the
  pattern is malformed) and \<open>str\<close> of containers are arguments. A raise carries the kind of the
  exception, and a warning is counted by the guard's outcome, not kept as text.
\<close>

section \<open>Context variables\<close>

record obs_context =
  active_run_id :: "string option"
  active_profile :: "py option"

datatype profile_error = ProfileValueError string | ProfileTypeError string | ProfileJsonError

definition BUILTIN_FEATURE_PROFILES :: "(string \<times> py) list" where
  "BUILTIN_FEATURE_PROFILES =
     [(''baseline'',
       PDict [(PStr ''name'', PStr ''baseline''),
              (PStr ''features'', PDict [(PStr ''observability_tags'', PBool True)])]),
      (''benchmark_strict'',
       PDict [(PStr ''name'', PStr ''benchmark_strict''),
              (PStr ''features'',
                PDict [(PStr ''experiment_context'', PBool True), (PStr ''provenance'', PBool True),
                       (PStr ''tool_reasoning'', PBool True)])])]"

text \<open>\<open>isinstance(x, dict)\<close> and the normal form of an explicit profile dictionary.\<close>

fun as_dict :: "py \<Rightarrow> (py \<times> py) list option" where
  "as_dict (PDict d) = Some d"
| "as_dict _ = None"

definition profile_features :: "py \<Rightarrow> (py \<times> py) list" where
  "profile_features profile_dict =
     (let raw = py_get profile_dict ''features'';
          raw' = (if raw = PNone \<and> as_dict (py_get profile_dict ''require'') \<noteq> None
                  then py_get profile_dict ''require'' else raw)
      in case as_dict raw' of Some d \<Rightarrow> d | None \<Rightarrow> [])"

definition normalize_profile_dict :: "(py \<Rightarrow> string) \<Rightarrow> (py \<times> py) list \<Rightarrow> py" where
  "normalize_profile_dict other d =
     (let given = (case dict_get d (PStr ''name'') of Some v \<Rightarrow> v | None \<Rightarrow> PStr ''custom'');
          stripped = py_strip (py_str other given);
          name = (if stripped = [] then ''custom'' else stripped)
      in PDict (dict_set (PStr ''features'') (PDict (profile_features (PDict d)))
                 (dict_set (PStr ''name'') (PStr name) d)))"

definition normalize_feature_profile ::
  "(string \<Rightarrow> py option) \<Rightarrow> (py \<Rightarrow> string) \<Rightarrow> py \<Rightarrow> profile_error + py" where
  "normalize_feature_profile loads other profile =
     (case profile of
        PStr s \<Rightarrow>
          let v = py_strip s in
          if v = [] then Inl (ProfileValueError ''feature profile name cannot be empty'')
          else (case dict_get BUILTIN_FEATURE_PROFILES (py_lower v) of
              Some p \<Rightarrow> Inr p
            | None \<Rightarrow>
                if prefix ''{'' v
                then (case loads v of
                        None \<Rightarrow> Inl ProfileJsonError
                      | Some (PDict d) \<Rightarrow> Inr (normalize_profile_dict other d)
                      | Some _ \<Rightarrow> Inl (ProfileValueError ''feature profile JSON must decode to an object''))
                else Inr (normalize_profile_dict other
                            [(PStr ''name'', PStr v), (PStr ''features'', PDict [])]))
      | PDict d \<Rightarrow> Inr (normalize_profile_dict other d)
      | _ \<Rightarrow> Inl (ProfileTypeError ''feature profile must be a profile name or dict''))"

definition get_active_experiment_run_id :: "obs_context \<Rightarrow> string option" where
  "get_active_experiment_run_id C = active_run_id C"

definition get_active_feature_profile ::
  "(string \<Rightarrow> py option) \<Rightarrow> (py \<Rightarrow> string) \<Rightarrow> (string \<Rightarrow> string option) \<Rightarrow> obs_context \<Rightarrow> py option" where
  "get_active_feature_profile loads other env C =
     (case active_profile C of
        Some p \<Rightarrow> Some p
      | None \<Rightarrow>
         (case env ''LLM_CLIENT_FEATURE_PROFILE'' of
            None \<Rightarrow> None
          | Some raw \<Rightarrow>
              if raw = [] then None
              else (case normalize_feature_profile loads other (PStr raw) of
                      Inl e \<Rightarrow> None | Inr p \<Rightarrow> Some p)))"

section \<open>Context managers\<close>

text \<open>
  A token of \<open>ContextVar.set\<close> is the value it replaced. \<open>_token\<close> of a manager is \<open>None\<close> outside
  its block.
\<close>

record profile_manager =
  pm_profile :: py
  pm_token :: "py option option"

record run_manager =
  rm_run_id :: string
  rm_token :: "string option option"

definition activate_feature_profile ::
  "(string \<Rightarrow> py option) \<Rightarrow> (py \<Rightarrow> string) \<Rightarrow> py \<Rightarrow> profile_error + profile_manager" where
  "activate_feature_profile loads other profile =
     (case normalize_feature_profile loads other profile of
        Inl e \<Rightarrow> Inl e
      | Inr p \<Rightarrow> Inr \<lparr>pm_profile = p, pm_token = None\<rparr>)"

definition profile_enter :: "profile_manager \<Rightarrow> obs_context \<Rightarrow> profile_manager \<times> obs_context" where
  "profile_enter M C =
     (M\<lparr>pm_token := Some (active_profile C)\<rparr>, C\<lparr>active_profile := Some (pm_profile M)\<rparr>)"

definition profile_exit :: "profile_manager \<Rightarrow> obs_context \<Rightarrow> profile_manager \<times> obs_context" where
  "profile_exit M C =
     (case pm_token M of
        Some old \<Rightarrow> (M\<lparr>pm_token := None\<rparr>, C\<lparr>active_profile := old\<rparr>)
      | None \<Rightarrow> (M, C))"

definition activate_experiment_run :: "string \<Rightarrow> run_manager" where
  "activate_experiment_run run_id = \<lparr>rm_run_id = run_id, rm_token = None\<rparr>"

definition run_enter :: "run_manager \<Rightarrow> obs_context \<Rightarrow> run_manager \<times> obs_context" where
  "run_enter M C =
     (if get_active_experiment_run_id C \<noteq> Some (rm_run_id M)
      then (M\<lparr>rm_token := Some (active_run_id C)\<rparr>, C\<lparr>active_run_id := Some (rm_run_id M)\<rparr>)
      else (M, C))"

definition run_exit :: "run_manager \<Rightarrow> obs_context \<Rightarrow> run_manager \<times> obs_context" where
  "run_exit M C =
     (case rm_token M of
        Some old \<Rightarrow> (M\<lparr>rm_token := None\<rparr>, C\<lparr>active_run_id := old\<rparr>)
      | None \<Rightarrow> (M, C))"

section \<open>Guards\<close>

text \<open>What a guard does: nothing, a warning, or a \<open>ValueError\<close>.\<close>

datatype guard_outcome = GuardPass | GuardWarn | GuardRaise

definition DEFAULT_TASK_PATTERNS :: "string list" where
  "DEFAULT_TASK_PATTERNS = [''benchmark'', ''eval'', ''experiment'']"

definition load_task_patterns :: "(string \<Rightarrow> string option) \<Rightarrow> string \<Rightarrow> string list" where
  "load_task_patterns env var =
     (let raw = (case env var of Some s \<Rightarrow> s | None \<Rightarrow> []);
          parts = filter (\<lambda>p. p \<noteq> []) (map py_strip (split_on CHR '','' raw))
      in if parts \<noteq> [] then parts else DEFAULT_TASK_PATTERNS)"

definition pattern_matches_task :: "(string \<Rightarrow> string \<Rightarrow> bool option) \<Rightarrow> string \<Rightarrow> string \<Rightarrow> bool" where
  "pattern_matches_task search task pattern =
     (case search pattern task of
        Some b \<Rightarrow> b
      | None \<Rightarrow> py_contains (py_lower pattern) (py_lower task))"

text \<open>The mode of a guard; \<open>None\<close> disables it, as an invalid value does.\<close>

datatype guard_mode = ModeWarn | ModeError

definition enforcement_mode :: "(string \<Rightarrow> string option) \<Rightarrow> string \<Rightarrow> string \<Rightarrow> guard_mode option" where
  "enforcement_mode env var fallback =
     (let mode = py_lower (py_strip (case env var of Some s \<Rightarrow> s | None \<Rightarrow> fallback)) in
      if mode = ''warn'' then Some ModeWarn else if mode = ''error'' then Some ModeError else None)"

definition violation :: "guard_mode \<Rightarrow> guard_outcome" where
  "violation mode = (if mode = ModeError then GuardRaise else GuardWarn)"

text \<open>The part the three guards share: when the guard applies to a task, and what it then does.\<close>

definition task_guard ::
  "(string \<Rightarrow> string \<Rightarrow> bool option) \<Rightarrow> (string \<Rightarrow> string option) \<Rightarrow> string \<Rightarrow> string \<Rightarrow> string
     \<Rightarrow> string option \<Rightarrow> (guard_mode \<Rightarrow> guard_outcome) \<Rightarrow> guard_outcome" where
  "task_guard search env mode_var fallback patterns_var task act =
     (case enforcement_mode env mode_var fallback of
        None \<Rightarrow> GuardPass
      | Some mode \<Rightarrow>
         (case task of
            None \<Rightarrow> GuardPass
          | Some t \<Rightarrow>
              if t = [] then GuardPass
              else if \<not> list_ex (pattern_matches_task search t) (load_task_patterns env patterns_var)
              then GuardPass
              else act mode))"

definition enforce_experiment_context ::
  "(string \<Rightarrow> string \<Rightarrow> bool option) \<Rightarrow> (string \<Rightarrow> string option) \<Rightarrow> obs_context \<Rightarrow> string option
     \<Rightarrow> guard_outcome" where
  "enforce_experiment_context search env C task =
     task_guard search env ''LLM_CLIENT_EXPERIMENT_ENFORCEMENT'' ''warn''
       ''LLM_CLIENT_EXPERIMENT_TASK_PATTERNS'' task
       (\<lambda>mode. case get_active_experiment_run_id C of
                 Some r \<Rightarrow> if r \<noteq> [] then GuardPass else violation mode
               | None \<Rightarrow> violation mode)"

definition enforce_feature_profile ::
  "(string \<Rightarrow> string \<Rightarrow> bool option) \<Rightarrow> (string \<Rightarrow> py option) \<Rightarrow> (py \<Rightarrow> string)
     \<Rightarrow> (string \<Rightarrow> string option) \<Rightarrow> obs_context \<Rightarrow> string option \<Rightarrow> guard_outcome" where
  "enforce_feature_profile search loads other env C task =
     task_guard search env ''LLM_CLIENT_FEATURE_PROFILE_ENFORCEMENT'' ''warn''
       ''LLM_CLIENT_FEATURE_PROFILE_TASK_PATTERNS'' task
       (\<lambda>mode. case get_active_feature_profile loads other env C of
           None \<Rightarrow> violation mode
         | Some profile \<Rightarrow>
             if \<not> py_truthy profile then violation mode
             else if py_truthy (py_get (py_get profile ''features'') ''experiment_context'') \<and>
                     (get_active_experiment_run_id C = None \<or> get_active_experiment_run_id C = Some [])
             then violation mode
             else GuardPass)"

definition enforce_agent_spec ::
  "(string \<Rightarrow> string \<Rightarrow> bool option) \<Rightarrow> (string \<Rightarrow> string option) \<Rightarrow> string option \<Rightarrow> bool \<Rightarrow> bool
     \<Rightarrow> string option \<Rightarrow> guard_outcome" where
  "enforce_agent_spec search env task has_agent_spec allow_missing missing_reason =
     task_guard search env ''LLM_CLIENT_AGENT_SPEC_ENFORCEMENT'' ''error''
       ''LLM_CLIENT_AGENT_SPEC_TASK_PATTERNS'' task
       (\<lambda>mode. if has_agent_spec then GuardPass
               else if allow_missing \<and> py_strip (case missing_reason of Some r \<Rightarrow> r | None \<Rightarrow> []) \<noteq> []
               then GuardWarn
               else violation mode)"

section \<open>Configuration\<close>

text \<open>\<open>task_patterns\<close> is a text or a list of texts. The environment is returned updated.\<close>

datatype patterns_arg = PatternText string | PatternList "string list"

definition set_patterns ::
  "string \<Rightarrow> patterns_arg option \<Rightarrow> (string \<Rightarrow> string option) \<Rightarrow> string \<Rightarrow> string option" where
  "set_patterns var patterns env =
     (case patterns of
        None \<Rightarrow> env
      | Some (PatternText s) \<Rightarrow> env(var := Some s)
      | Some (PatternList ps) \<Rightarrow>
          env(var := Some (py_join '','' (filter (\<lambda>p. p \<noteq> []) (map py_strip ps)))))"

definition set_mode ::
  "string \<Rightarrow> string option \<Rightarrow> (string \<Rightarrow> string option) \<Rightarrow> string \<Rightarrow> string option" where
  "set_mode var mode env =
     (case mode of None \<Rightarrow> env | Some m \<Rightarrow> env(var := Some (py_lower (py_strip m))))"

definition configure_experiment_enforcement ::
  "string option \<Rightarrow> patterns_arg option \<Rightarrow> (string \<Rightarrow> string option) \<Rightarrow> string \<Rightarrow> string option" where
  "configure_experiment_enforcement mode patterns env =
     set_patterns ''LLM_CLIENT_EXPERIMENT_TASK_PATTERNS'' patterns
       (set_mode ''LLM_CLIENT_EXPERIMENT_ENFORCEMENT'' mode env)"

definition configure_agent_spec_enforcement ::
  "string option \<Rightarrow> patterns_arg option \<Rightarrow> (string \<Rightarrow> string option) \<Rightarrow> string \<Rightarrow> string option" where
  "configure_agent_spec_enforcement mode patterns env =
     set_patterns ''LLM_CLIENT_AGENT_SPEC_TASK_PATTERNS'' patterns
       (set_mode ''LLM_CLIENT_AGENT_SPEC_ENFORCEMENT'' mode env)"

definition configure_feature_profile ::
  "(string \<Rightarrow> py option) \<Rightarrow> (py \<Rightarrow> string) \<Rightarrow> (py \<Rightarrow> string) \<Rightarrow> py option \<Rightarrow> string option
     \<Rightarrow> patterns_arg option \<Rightarrow> (string \<Rightarrow> string option) \<Rightarrow> profile_error + (string \<Rightarrow> string option)" where
  "configure_feature_profile loads dumps other profile mode patterns env =
     (let finish = (\<lambda>e. set_patterns ''LLM_CLIENT_FEATURE_PROFILE_TASK_PATTERNS'' patterns
                        (set_mode ''LLM_CLIENT_FEATURE_PROFILE_ENFORCEMENT'' mode e))
      in case profile of
           None \<Rightarrow> Inr (finish env)
         | Some p \<Rightarrow>
            (case normalize_feature_profile loads other p of
               Inl e \<Rightarrow> Inl e
             | Inr n \<Rightarrow> Inr (finish (env(''LLM_CLIENT_FEATURE_PROFILE'' := Some (dumps n))))))"

section \<open>Blocks restore the context\<close>

text \<open>Nested \<open>with\<close> blocks, each over a manager of its own, around work that reads the context.\<close>

datatype ctx_block =
    WithProfile py "ctx_block list"
  | WithRun string "ctx_block list"

fun run_block :: "ctx_block \<Rightarrow> obs_context \<Rightarrow> obs_context" where
  "run_block (WithProfile p body) C =
     (case profile_enter \<lparr>pm_profile = p, pm_token = None\<rparr> C of
        (M, C') \<Rightarrow> snd (profile_exit M (fold run_block body C')))"
| "run_block (WithRun r body) C =
     (case run_enter (activate_experiment_run r) C of
        (M, C') \<Rightarrow> snd (run_exit M (fold run_block body C')))"

lemma fold_restores:
  assumes "\<And>b C. b \<in> set bs \<Longrightarrow> f b C = C"
  shows "fold f bs C = C"
  using assms by (induction bs) auto

text \<open>Any nesting of fresh profile and run blocks leaves the two context variables as they were,
  also when a block activates the run or the profile that is active already.\<close>

theorem blocks_restore_context: "run_block b C = C"
proof (induction b arbitrary: C)
  case (WithProfile p body)
  have "fold run_block body C' = C'" for C' by (rule fold_restores) (rule WithProfile)
  then show ?case by (simp add: profile_enter_def profile_exit_def)
next
  case (WithRun r body)
  have "fold run_block body C' = C'" for C' by (rule fold_restores) (rule WithRun)
  then show ?case by (simp add: run_enter_def run_exit_def activate_experiment_run_def)
qed

text \<open>
  A manager that is entered again inside its own block forgets its first token: the profile stays
  active after both blocks, and the run is gone while the outer block still runs.
\<close>

definition reenter ::
  "('m \<Rightarrow> obs_context \<Rightarrow> 'm \<times> obs_context) \<Rightarrow> ('m \<Rightarrow> obs_context \<Rightarrow> 'm \<times> obs_context) \<Rightarrow> 'm
     \<Rightarrow> obs_context \<Rightarrow> obs_context \<times> obs_context" where
  "reenter enter leave M C =
     (let (M1, C1) = enter M C; (M2, C2) = enter M1 C1; (M3, C3) = leave M2 C2; (M4, C4) = leave M3 C3
      in (C3, C4))"

text \<open>The managers are not reentrant. Nested blocks over one profile manager leave its profile
  active when both blocks have ended; nested blocks over one run manager deactivate the run when the
  inner block ends, inside the outer one.\<close>

theorem managers_not_reentrant:
  "active_profile (snd (reenter profile_enter profile_exit \<lparr>pm_profile = PDict [], pm_token = None\<rparr>
       \<lparr>active_run_id = None, active_profile = None\<rparr>)) = Some (PDict [])
    \<and> active_run_id (fst (reenter run_enter run_exit (activate_experiment_run ''r'')
       \<lparr>active_run_id = None, active_profile = None\<rparr>)) = None"
proof
  show "active_profile (snd (reenter profile_enter profile_exit \<lparr>pm_profile = PDict [], pm_token = None\<rparr>
       \<lparr>active_run_id = None, active_profile = None\<rparr>)) = Some (PDict [])"
    by (simp add: reenter_def profile_enter_def profile_exit_def)
  show "active_run_id (fst (reenter run_enter run_exit (activate_experiment_run ''r'')
       \<lparr>active_run_id = None, active_profile = None\<rparr>)) = None"
    by (simp add: reenter_def run_enter_def run_exit_def activate_experiment_run_def
        get_active_experiment_run_id_def)
qed

section \<open>What the guards enforce\<close>

lemma task_guard_raises_iff:
  "task_guard search env mv fb pv task act = GuardRaise \<longleftrightarrow>
     (\<exists>mode t. enforcement_mode env mv fb = Some mode \<and> task = Some t \<and> t \<noteq> [] \<and>
        list_ex (pattern_matches_task search t) (load_task_patterns env pv) \<and> act mode = GuardRaise)"
  by (auto simp: task_guard_def split: option.splits if_splits)

lemma violation_raises_iff: "violation mode = GuardRaise \<longleftrightarrow> mode = ModeError"
  by (simp add: violation_def)

lemma experiment_guard_raises_iff:
  "enforce_experiment_context search env C task = GuardRaise \<longleftrightarrow>
     enforcement_mode env ''LLM_CLIENT_EXPERIMENT_ENFORCEMENT'' ''warn'' = Some ModeError \<and>
     (\<exists>t. task = Some t \<and> t \<noteq> [] \<and>
        list_ex (pattern_matches_task search t) (load_task_patterns env ''LLM_CLIENT_EXPERIMENT_TASK_PATTERNS'')) \<and>
     (active_run_id C = None \<or> active_run_id C = Some [])"
proof -
  have act: "(case active_run_id C of Some r \<Rightarrow> if r \<noteq> [] then GuardPass else violation mode
               | None \<Rightarrow> violation mode) = GuardRaise
      \<longleftrightarrow> mode = ModeError \<and> (active_run_id C = None \<or> active_run_id C = Some [])" for mode
    by (simp add: violation_def split: option.split)
  show ?thesis
    unfolding enforce_experiment_context_def task_guard_raises_iff get_active_experiment_run_id_def act
    by blast
qed

end
