(* ===== verification/Call_Contracts.thy ===== *)
theory Call_Contracts
  imports Budget_Reservations Observability_Context "HOL-Library.List_Lexorder" "HOL-Library.Char_ord"
begin

text \<open>
  The first part of \<open>llm_client/execution/call_contracts.py\<close>: the tags every call must carry, the
  budget check on logged cost (\<open>get_cost\<close> of \<open>llm_client/observability/query.py\<close>), the leases of a
  budget scope and the declared ceilings on the size of a prompt.

  A fresh \<open>uuid4\<close> is an argument, and so is the environment. \<open>store_ok\<close> says whether the database
  could be opened and queried.
\<close>

section \<open>Logged cost\<close>

record cost_filter =
  cf_trace :: "string option"
  cf_prefix :: "string option"
  cf_task :: "string option"
  cf_project :: "string option"
  cf_since :: "string option"

definition rooted_trace_params :: "string \<Rightarrow> string \<times> string \<times> string" where
  "rooted_trace_params trace_id = (trace_id, trace_id @ ''/'', trace_id @ ''0'')"

text \<open>SQL comparisons with a column that may be \<open>NULL\<close>; SQLite compares texts byte by byte.\<close>

definition sql_eq :: "string option \<Rightarrow> string \<Rightarrow> bool" where
  "sql_eq column v \<longleftrightarrow> column = Some v"

definition sql_ge :: "string option \<Rightarrow> string \<Rightarrow> bool" where
  "sql_ge column v \<longleftrightarrow> (case column of Some c \<Rightarrow> v \<le> c | None \<Rightarrow> False)"

definition sql_lt :: "string option \<Rightarrow> string \<Rightarrow> bool" where
  "sql_lt column v \<longleftrightarrow> (case column of Some c \<Rightarrow> c < v | None \<Rightarrow> False)"

definition in_rooted_family :: "string \<Rightarrow> string option \<Rightarrow> bool" where
  "in_rooted_family trace_root column \<longleftrightarrow>
     (case rooted_trace_params trace_root of
        (exact, low, high) \<Rightarrow> sql_eq column exact \<or> sql_ge column low \<and> sql_lt column high)"

definition matches_filter ::
  "cost_filter \<Rightarrow> string option \<Rightarrow> string option \<Rightarrow> string option \<Rightarrow> string option \<Rightarrow> string option \<Rightarrow> bool" where
  "matches_filter f err tr task project ts \<longleftrightarrow>
     err = None \<and>
     (case cf_trace f of Some t \<Rightarrow> sql_eq tr t | None \<Rightarrow> True) \<and>
     (case cf_prefix f of Some p \<Rightarrow> in_rooted_family p tr | None \<Rightarrow> True) \<and>
     (case cf_task f of Some t \<Rightarrow> sql_eq task t | None \<Rightarrow> True) \<and>
     (case cf_project f of Some p \<Rightarrow> sql_eq project p | None \<Rightarrow> True) \<and>
     (case cf_since f of Some s \<Rightarrow> sql_ge ts s | None \<Rightarrow> True)"

definition call_matches :: "cost_filter \<Rightarrow> llm_call_row \<Rightarrow> bool" where
  "call_matches f r = matches_filter f (lc_error r) (lc_trace r) (lc_task r) (lc_project r) (lc_timestamp r)"

definition embedding_matches :: "cost_filter \<Rightarrow> embedding_row \<Rightarrow> bool" where
  "embedding_matches f r =
     matches_filter f (em_error r) (em_trace r) (em_task r) (em_project r) (em_timestamp r)"

text \<open>\<open>any([...])\<close> on the filters: an empty text counts as absent.\<close>

definition has_filter :: "cost_filter \<Rightarrow> bool" where
  "has_filter f \<longleftrightarrow>
     list_ex (\<lambda>x. x \<noteq> None \<and> x \<noteq> Some []) [cf_trace f, cf_prefix f, cf_task f, cf_project f, cf_since f]"

definition get_cost :: "bool \<Rightarrow> cost_filter \<Rightarrow> ledger \<Rightarrow> budget_error + rat" where
  "get_cost store_ok f L =
     (if cf_trace f \<noteq> None \<and> cf_prefix f \<noteq> None
      then Inl (ValueError ''trace_id and trace_prefix are mutually exclusive.'')
      else if \<not> has_filter f
      then Inl (ValueError ''At least one filter (trace_id, trace_prefix, task, project, since) is required.'')
      else if \<not> store_ok
      then Inl (StoreError ''cannot verify budget/spend; refusing to report cost as $0'')
      else Inr (sum_costs (map call_cost (filter (call_matches f) (llm_calls L))) +
                sum_costs (map em_cost (filter (embedding_matches f) (embeddings L)))))"

definition no_filter :: cost_filter where
  "no_filter = \<lparr>cf_trace = None, cf_prefix = None, cf_task = None, cf_project = None, cf_since = None\<rparr>"

section \<open>Tags\<close>

text \<open>\<open>truthy_env\<close> on a value of any type.\<close>

definition truthy_env :: "(py \<Rightarrow> string) \<Rightarrow> py \<Rightarrow> bool" where
  "truthy_env other v =
     (case v of
        PBool b \<Rightarrow> b
      | _ \<Rightarrow> py_lower (py_strip (py_str other (py_or v (PStr [])))) \<in> set [''1'', ''true'', ''yes'', ''on''])"

definition env_value :: "(string \<Rightarrow> string option) \<Rightarrow> string \<Rightarrow> py" where
  "env_value env var = (case env var of Some s \<Rightarrow> PStr s | None \<Rightarrow> PNone)"

definition env_truthy :: "(string \<Rightarrow> string option) \<Rightarrow> string \<Rightarrow> bool" where
  "env_truthy env var = truthy_env (\<lambda>_. []) (env_value env var)"

definition text_or_empty :: "string option \<Rightarrow> string" where
  "text_or_empty t = (case t of Some s \<Rightarrow> s | None \<Rightarrow> [])"

definition tags_strict_mode :: "(string \<Rightarrow> string option) \<Rightarrow> string option \<Rightarrow> bool" where
  "tags_strict_mode env task \<longleftrightarrow>
     env_truthy env ''LLM_CLIENT_REQUIRE_TAGS'' \<or> env_truthy env ''CI'' \<or>
     py_startswith_any [''benchmark'', ''bench'', ''eval'', ''ci''] (py_lower (py_strip (text_or_empty task)))"

text \<open>\<open>parse\<close> is the prompt-reference parser: \<open>None\<close> when the reference is malformed.\<close>

definition normalize_prompt_ref ::
  "(string \<Rightarrow> string option) \<Rightarrow> string option \<Rightarrow> budget_error + string option" where
  "normalize_prompt_ref parse prompt_ref =
     (case prompt_ref of
        None \<Rightarrow> Inr None
      | Some r \<Rightarrow>
          let normalized = py_strip r in
          if normalized = [] then Inl (ValueError ''prompt_ref must not be empty when provided.'')
          else (case parse normalized of
                  None \<Rightarrow> Inl (ValueError ''Invalid prompt_ref format.'')
                | Some p \<Rightarrow> Inr (Some p)))"

record resolved_tags =
  rt_task :: string
  rt_trace_id :: string
  rt_max_budget :: rat
  rt_warnings :: "string list"

definition missing_tags :: "string option \<Rightarrow> string option \<Rightarrow> py \<Rightarrow> string list" where
  "missing_tags task trace_id max_budget =
     (if text_or_empty task = [] then [''task''] else []) @
     (if text_or_empty trace_id = [] then [''trace_id''] else []) @
     (if max_budget = PNone then [''max_budget''] else [])"

text \<open>
  \<open>guards\<close> are the two outcomes of the feature-profile and the experiment guard on the resolved task.
\<close>

definition require_tags ::
  "(string \<Rightarrow> rat option) \<Rightarrow> (string \<Rightarrow> guard_outcome \<times> guard_outcome) \<Rightarrow> (string \<Rightarrow> string option) \<Rightarrow> string
     \<Rightarrow> string option \<Rightarrow> string option \<Rightarrow> py \<Rightarrow> string \<Rightarrow> budget_error + resolved_tags" where
  "require_tags parse guards env uuid12 task trace_id max_budget caller =
     (let missing = missing_tags task trace_id max_budget in
      if tags_strict_mode env task \<and> missing \<noteq> []
      then Inl (ValueError (''Missing required kwargs: '' @ py_join '', '' missing @ ''.''))
      else
        let task1 = (if text_or_empty task = [] then ''adhoc'' else py_strip (text_or_empty task));
            trace1 = (if text_or_empty trace_id = [] then ''auto/'' @ caller @ ''/'' @ uuid12
                      else py_strip (text_or_empty trace_id))
        in and_then (if max_budget = PNone then Inr 0
                     else case py_float parse max_budget of
                            Some x \<Rightarrow> Inr x | None \<Rightarrow> Inl (ValueError ''max_budget must be numeric''))
             (\<lambda>budget1.
               let warnings =
                     (if text_or_empty task = [] then [''AUTO_TAG: task=adhoc''] else []) @
                     (if text_or_empty trace_id = [] then [''AUTO_TAG: trace_id='' @ trace1] else []) @
                     (if max_budget = PNone then [''AUTO_TAG: max_budget=0 (unlimited)''] else [])
               in case guards task1 of (profile, experiment) \<Rightarrow>
                  if profile = GuardRaise
                  then Inl (ValueError ''no explicit feature profile was declared'')
                  else if experiment = GuardRaise
                  then Inl (ValueError ''no active experiment context was found'')
                  else Inr \<lparr>rt_task = task1, rt_trace_id = trace1, rt_max_budget = budget1,
                            rt_warnings = warnings\<rparr>))"

section \<open>Budget check\<close>

text \<open>\<open>budget_scope_trace_id\<close> is a string or a value of another type.\<close>

definition resolve_budget_scope :: "string \<Rightarrow> py \<Rightarrow> budget_error + string option" where
  "resolve_budget_scope trace_id scope_arg =
     (case scope_arg of
        PNone \<Rightarrow> Inr None
      | PStr s \<Rightarrow>
          if py_strip s = []
          then Inl (ValueError ''budget_scope_trace_id must be a non-empty string when provided.'')
          else let scope = py_strip s in
               if trace_id \<noteq> scope \<and> \<not> prefix (scope @ ''/'') trace_id
               then Inl (ValueError ''budget_scope_trace_id must equal trace_id or be its slash-delimited ancestor'')
               else Inr (Some scope)
      | _ \<Rightarrow> Inl (ValueError ''budget_scope_trace_id must be a non-empty string when provided.''))"

definition money :: "rat \<Rightarrow> string" where
  "money x = CHR ''$'' # py_fixed 4 x"

definition scope_py :: "string option \<Rightarrow> py" where
  "scope_py s = (case s of None \<Rightarrow> PNone | Some t \<Rightarrow> PStr t)"

definition budget_label :: "string \<Rightarrow> string option \<Rightarrow> string" where
  "budget_label trace_id scope =
     (case scope of Some s \<Rightarrow> ''budget scope '' @ s | None \<Rightarrow> ''trace '' @ trace_id)"

definition budget_spent :: "bool \<Rightarrow> string \<Rightarrow> string option \<Rightarrow> ledger \<Rightarrow> budget_error + rat" where
  "budget_spent store_ok trace_id scope L =
     (case scope of
        Some s \<Rightarrow> get_cost store_ok (no_filter\<lparr>cf_prefix := Some s\<rparr>) L
      | None \<Rightarrow> get_cost store_ok (no_filter\<lparr>cf_trace := Some trace_id\<rparr>) L)"

text \<open>The warning a dispatch appends; \<open>None\<close> below half of the budget.\<close>

definition budget_warning :: "string \<Rightarrow> rat \<Rightarrow> rat \<Rightarrow> string option" where
  "budget_warning label spent max_budget =
     (let ratio = spent / max_budget;
          note = (\<lambda>threshold. ''BUDGET_WARNING: '' @ label @ '' has spent '' @ money spent @ '' ('' @
                    py_fixed 0 (ratio * 100) @ ''%) of its '' @ money max_budget @ '' budget; '' @
                    py_int_str threshold @ ''% threshold reached'')
      in if ratio \<ge> 8/10 then Some (note 80) else if ratio \<ge> 5/10 then Some (note 50) else None)"

text \<open>The result is the warning that goes to the sink; without a sink there is none.\<close>

definition check_budget ::
  "bool \<Rightarrow> string \<Rightarrow> rat \<Rightarrow> rat \<Rightarrow> py \<Rightarrow> bool \<Rightarrow> ledger \<Rightarrow> budget_error + string option" where
  "check_budget store_ok trace_id max_budget reserve scope_arg sink L =
     and_then (resolve_budget_scope trace_id scope_arg) (\<lambda>scope.
       if max_budget \<le> 0 then Inr None
       else if reserve < 0 then Inl (ValueError ''budget reservation must be non-negative'')
       else and_then (budget_spent store_ok trace_id scope L) (\<lambda>spent.
         let label = budget_label trace_id scope in
         if spent \<ge> max_budget
         then Inl (BudgetExceeded (''Budget exceeded for '' @ label @ '': '' @ money spent @ '' spent >= '' @
                money max_budget @ '' limit''))
         else if spent + reserve > max_budget
         then Inl (BudgetExceeded (''Budget reservation exceeds '' @ label @ '' limit: '' @ money spent @
                '' spent + '' @ money reserve @ '' reserve > '' @ money max_budget @ '' limit''))
         else if \<not> sink then Inr None
         else Inr (budget_warning label spent max_budget)))"

section \<open>Scope leases\<close>

text \<open>
  The process-local set of busy scopes, the keeper of durable leases and the shared tables. A lease
  token is \<open>None\<close>, the scope of a sequential call, or a durable reservation.
\<close>

record scope_state =
  busy_scopes :: "string list"
  scope_keeper :: keeper
  scope_ledger :: ledger

datatype scope_lease = NoLease | SequentialLease string | DurableLease lease

text \<open>What one acquisition draws from its surroundings: the store's answers, a fresh id, the process id.\<close>

record acquire_env =
  ae_store :: store_env
  ae_store_ok :: bool
  ae_reservation_id :: string
  ae_owner :: string

definition check_scope_call ::
  "acquire_env \<Rightarrow> string \<Rightarrow> rat \<Rightarrow> rat \<Rightarrow> string option \<Rightarrow> bool \<Rightarrow> scope_state \<Rightarrow> budget_error + string option" where
  "check_scope_call env trace_id max_budget reserve scope sink S =
     check_budget (ae_store_ok env) trace_id max_budget reserve (scope_py scope) sink (scope_ledger S)"

definition acquire_durable ::
  "acquire_env \<Rightarrow> string \<Rightarrow> string \<Rightarrow> rat \<Rightarrow> rat \<Rightarrow> scope_state
     \<Rightarrow> (budget_error + scope_lease \<times> string option) \<times> scope_state" where
  "acquire_durable env trace_id scope max_budget reserve S =
     (case acquire_budget_reservation (ae_store env) (ae_reservation_id env) (ae_owner env)
             (Some scope) (Some trace_id) (Num max_budget) (Num reserve) NowNone
             (Ttl DEFAULT_LEASE_TTL_SECONDS) (scope_ledger S) of
        (Inl e, L') \<Rightarrow> (Inl e, S\<lparr>scope_ledger := L'\<rparr>)
      | (Inr le, L') \<Rightarrow> (Inr (DurableLease le, None),
                        S\<lparr>scope_ledger := L', scope_keeper := keeper_track le (scope_keeper S)\<rparr>))"

definition acquire_sequential ::
  "acquire_env \<Rightarrow> string \<Rightarrow> rat \<Rightarrow> rat \<Rightarrow> string option \<Rightarrow> bool \<Rightarrow> scope_state
     \<Rightarrow> (budget_error + scope_lease \<times> string option) \<times> scope_state" where
  "acquire_sequential env trace_id max_budget reserve scope sink S =
     (case scope of
        Some s \<Rightarrow>
          if max_budget \<le> 0
          then (and_then (check_scope_call env trace_id max_budget reserve scope sink S)
                  (\<lambda>w. Inr (NoLease, w)), S)
          else if s \<in> set (busy_scopes S)
          then (Inl (BudgetExceeded (''Budget scope '' @ s @ '' already has an in-flight call; '' @
                  ''scoped calls must complete sequentially.'')), S)
          else (case check_scope_call env trace_id max_budget reserve scope sink S of
                  Inl e \<Rightarrow> (Inl e, S)
                | Inr w \<Rightarrow> (Inr (SequentialLease s, w), S\<lparr>busy_scopes := s # busy_scopes S\<rparr>))
      | None \<Rightarrow> (and_then (check_scope_call env trace_id max_budget reserve scope sink S)
                  (\<lambda>w. Inr (NoLease, w)), S))"

definition acquire_budget_scope ::
  "acquire_env \<Rightarrow> string \<Rightarrow> rat \<Rightarrow> rat \<Rightarrow> py \<Rightarrow> string \<Rightarrow> bool \<Rightarrow> scope_state
     \<Rightarrow> (budget_error + scope_lease \<times> string option) \<times> scope_state" where
  "acquire_budget_scope env trace_id max_budget reserve scope_arg mode sink S =
     (if mode \<noteq> ''sequential'' \<and> mode \<noteq> ''reserved_concurrent''
      then (Inl (ValueError ''unknown budget_scope_mode''), S)
      else case resolve_budget_scope trace_id scope_arg of
        Inl e \<Rightarrow> (Inl e, S)
      | Inr scope \<Rightarrow>
          if mode = ''reserved_concurrent''
          then (case scope of
                  None \<Rightarrow> (Inl (ValueError ''reserved_concurrent requires budget_scope_trace_id''), S)
                | Some s \<Rightarrow>
                    if max_budget \<le> 0
                    then (Inl (ValueError ''reserved_concurrent requires max_budget > 0''), S)
                    else acquire_durable env trace_id s max_budget reserve S)
          else acquire_sequential env trace_id max_budget reserve scope sink S)"

definition release_budget_scope ::
  "store_env \<Rightarrow> scope_lease \<Rightarrow> scope_state \<Rightarrow> (budget_error + unit) \<times> scope_state" where
  "release_budget_scope env token S =
     (case token of
        NoLease \<Rightarrow> (Inr (), S)
      | DurableLease le \<Rightarrow>
          (case release_tracked env le (scope_keeper S) (scope_ledger S) of
             (res, K', L') \<Rightarrow> (res, S\<lparr>scope_keeper := K', scope_ledger := L'\<rparr>))
      | SequentialLease s \<Rightarrow> (Inr (), S\<lparr>busy_scopes := removeAll s (busy_scopes S)\<rparr>))"

definition settle_budget_scope ::
  "store_env \<Rightarrow> scope_lease \<Rightarrow> number_arg \<Rightarrow> scope_state \<Rightarrow> (budget_error + unit) \<times> scope_state" where
  "settle_budget_scope env token cost S =
     (case token of
        NoLease \<Rightarrow> (Inr (), S)
      | DurableLease le \<Rightarrow>
          (case settle_tracked env le cost (scope_keeper S) (scope_ledger S) of
             (res, K', L') \<Rightarrow> (res, S\<lparr>scope_keeper := K', scope_ledger := L'\<rparr>))
      | SequentialLease s \<Rightarrow> release_budget_scope env token S)"

definition agent_retry_safe_enabled :: "(py \<Rightarrow> string) \<Rightarrow> (string \<Rightarrow> string option) \<Rightarrow> py \<Rightarrow> bool" where
  "agent_retry_safe_enabled other env explicit =
     (if explicit \<noteq> PNone then truthy_env other explicit
      else env_truthy env ''LLM_CLIENT_AGENT_RETRY_SAFE'')"

section \<open>Prompt size\<close>

datatype prompt_error =
    PromptValueError string
  | PromptTypeError string
  | PromptBudgetExceeded string
  | PromptDivisionByZero

definition CHARS_PER_TOKEN_ESTIMATE :: int where
  "CHARS_PER_TOKEN_ESTIMATE = 4"

text \<open>The registry of ceilings, task to tokens.\<close>

type_synonym prompt_budgets = "(string \<times> int) list"

definition register_task_prompt_budget ::
  "(py \<Rightarrow> string) \<Rightarrow> py \<Rightarrow> py \<Rightarrow> prompt_budgets \<Rightarrow> (prompt_error + unit) \<times> prompt_budgets" where
  "register_task_prompt_budget other task max_prompt_tokens B =
     (let normalized = py_strip (py_str other task) in
      if normalized = [] then (Inl (PromptValueError ''task must be a non-empty string''), B)
      else (case max_prompt_tokens of
          PInt n \<Rightarrow>
            if n \<le> 0 then (Inl (PromptValueError ''max_prompt_tokens must be positive''), B)
            else (case dict_get B normalized of
                Some existing \<Rightarrow>
                  if existing \<noteq> n
                  then (Inl (PromptValueError (''conflicting prompt budget for task '' @ py_repr_str normalized @
                          '': '' @ py_int_str existing @ '' already registered, refusing to overwrite with '' @
                          py_int_str n)), B)
                  else (Inr (), dict_set normalized n B)
              | None \<Rightarrow> (Inr (), dict_set normalized n B))
        | _ \<Rightarrow> (Inl (PromptTypeError ''max_prompt_tokens must be an int''), B)))"

definition get_task_prompt_budget :: "string option \<Rightarrow> prompt_budgets \<Rightarrow> int option" where
  "get_task_prompt_budget task B =
     (if text_or_empty task = [] then None else dict_get B (py_strip (text_or_empty task)))"

definition prompt_size_strict_mode :: "(string \<Rightarrow> string option) \<Rightarrow> bool" where
  "prompt_size_strict_mode env = env_truthy env ''LLM_CLIENT_PROMPT_SIZE_STRICT''"

definition estimate_prompt_tokens :: "string \<Rightarrow> int" where
  "estimate_prompt_tokens serialized_prompt = int (length serialized_prompt) div CHARS_PER_TOKEN_ESTIMATE"

definition prompt_ceiling :: "string \<Rightarrow> int option \<Rightarrow> prompt_budgets \<Rightarrow> int option" where
  "prompt_ceiling task max_prompt_tokens B =
     (case max_prompt_tokens of Some n \<Rightarrow> Some n | None \<Rightarrow> get_task_prompt_budget (Some task) B)"

text \<open>The estimate and the line for the warning sink.\<close>

definition check_prompt_size ::
  "(string \<Rightarrow> string option) \<Rightarrow> string \<Rightarrow> string \<Rightarrow> int option \<Rightarrow> bool \<Rightarrow> prompt_budgets
     \<Rightarrow> prompt_error + int \<times> string option" where
  "check_prompt_size env task serialized_prompt max_prompt_tokens sink B =
     (let estimated = estimate_prompt_tokens serialized_prompt
      in case prompt_ceiling task max_prompt_tokens B of
           None \<Rightarrow> Inr (estimated, None)
         | Some c \<Rightarrow>
             if estimated \<le> c then Inr (estimated, None)
             else if c = 0 then Inl PromptDivisionByZero
             else let overage = (of_int estimated / of_int c :: rat) in
               if prompt_size_strict_mode env
               then Inl (PromptBudgetExceeded (''Prompt size contract exceeded for task '' @ py_repr_str task))
               else Inr (estimated,
                 if sink then Some (''PROMPT_SIZE: '' @ py_int_str estimated @ '' > '' @ py_int_str c @
                                    '' ('' @ py_fixed 1 overage @ ''x)'') else None))"

section \<open>The cost that a check counts\<close>

lemma slash_zero: "CHR ''/'' < c \<Longrightarrow> c < CHR ''0'' \<Longrightarrow> False" for c :: char
  by (simp add: less_char_def)

text \<open>The lexical range \<open>[p/, p0)\<close> holds the texts that continue \<open>p/\<close>.\<close>

lemma slash_range: "p @ ''/'' \<le> t \<and> t < p @ ''0'' \<longleftrightarrow> prefix (p @ ''/'') t"
proof (induction p arbitrary: t)
  case Nil
  then show ?case by (cases t) (auto dest: slash_zero)
next
  case (Cons c p)
  note ih = Cons.IH
  show ?case
  proof (cases t)
    case (Cons d u)
    show ?thesis
    proof (cases "c = d")
      case True
      then show ?thesis using ih [of u] \<open>t = d # u\<close> by simp
    next
      case False
      have "\<not> (c < d \<and> d < c)" by (metis less_asym)
      with False show ?thesis using \<open>t = d # u\<close> by simp
    qed
  qed simp
qed

lemma in_rooted_family_iff:
  "in_rooted_family s column \<longleftrightarrow> (\<exists>t. column = Some t \<and> (t = s \<or> prefix (s @ ''/'') t))"
  by (cases column) (auto simp: in_rooted_family_def rooted_trace_params_def sql_eq_def sql_ge_def sql_lt_def
      slash_range [symmetric])

text \<open>The traces a budget is about: the trace itself, or the scope and what lies below it.\<close>

definition counted_trace :: "string \<Rightarrow> string option \<Rightarrow> string option \<Rightarrow> bool" where
  "counted_trace trace_id scope column \<longleftrightarrow>
     (case scope of
        None \<Rightarrow> column = Some trace_id
      | Some s \<Rightarrow> \<exists>t. column = Some t \<and> (t = s \<or> prefix (s @ ''/'') t))"

definition counted_cost :: "string \<Rightarrow> string option \<Rightarrow> ledger \<Rightarrow> rat" where
  "counted_cost trace_id scope L =
     sum_costs (map call_cost (filter (\<lambda>r. lc_error r = None \<and> counted_trace trace_id scope (lc_trace r)) (llm_calls L))) +
     sum_costs (map em_cost (filter (\<lambda>r. em_error r = None \<and> counted_trace trace_id scope (em_trace r)) (embeddings L)))"

lemma budget_spent_counts:
  assumes "case scope of None \<Rightarrow> trace_id \<noteq> [] | Some s \<Rightarrow> s \<noteq> []"
  shows "budget_spent True trace_id scope L = Inr (counted_cost trace_id scope L)"
  using assms
  by (cases scope)
    (simp_all add: budget_spent_def get_cost_def has_filter_def no_filter_def counted_cost_def counted_trace_def
      call_matches_def [abs_def] embedding_matches_def [abs_def] matches_filter_def sql_eq_def in_rooted_family_iff)

lemma resolved_scope_nonempty:
  "resolve_budget_scope trace_id scope_arg = Inr (Some s) \<Longrightarrow> s \<noteq> []"
  by (auto simp: resolve_budget_scope_def Let_def split: py.splits if_splits)

text \<open>With a store that answers, a call passes the budget check exactly when its budget is unlimited
  (not positive), or its reserve is not negative, less than the budget is spent, and spend plus reserve
  fit. Spend is the logged cost of the rows without an error whose trace is the call's own, or, with a
  scope, the scope or one of its slash-delimited descendants and no other.\<close>

theorem check_budget_admits_iff:
  assumes "resolve_budget_scope trace_id scope_arg = Inr scope" and "trace_id \<noteq> []"
  shows "(\<exists>w. check_budget True trace_id max_budget reserve scope_arg sink L = Inr w) \<longleftrightarrow>
    max_budget \<le> 0 \<or>
    0 \<le> reserve \<and> counted_cost trace_id scope L < max_budget \<and>
    counted_cost trace_id scope L + reserve \<le> max_budget"
proof -
  have "case scope of None \<Rightarrow> trace_id \<noteq> [] | Some s \<Rightarrow> s \<noteq> []"
    using assms resolved_scope_nonempty by (auto split: option.split)
  from budget_spent_counts [OF this] show ?thesis
    using assms(1) by (auto simp: check_budget_def Let_def not_le not_less)
qed

definition spent_ledger :: ledger where
  "spent_ledger = empty_ledger\<lparr>
     llm_calls := [\<lparr>lc_trace = Some ''job/a'', lc_task = None, lc_project = None, lc_timestamp = None,
                   lc_marginal_cost = None, lc_cost = Some 3, lc_error = None\<rparr>]\<rparr>"

theorem check_budget_admits_iff_witness:
  "\<not> (\<exists>w. check_budget True ''job/b'' 4 2 (PStr ''job'') True spent_ledger = Inr w)
   \<and> (\<exists>w. check_budget True ''job/b'' 5 2 (PStr ''job'') True spent_ledger = Inr w)"
proof -
  have scope: "resolve_budget_scope ''job/b'' (PStr ''job'') = Inr (Some ''job'')" by code_simp
  have cost: "counted_cost ''job/b'' (Some ''job'') spent_ledger = 3"
    by (simp add: counted_cost_def counted_trace_def spent_ledger_def empty_ledger_def sum_costs_def call_cost_def)
  show ?thesis
    using check_budget_admits_iff [OF scope, of 4 2 True spent_ledger]
      check_budget_admits_iff [OF scope, of 5 2 True spent_ledger] by (simp add: cost)
qed

section \<open>Sequential scopes exclude each other\<close>

text \<open>
  Calls of one process in any order: a call acquires, holds its token and gives it back once, by
  release or by settlement; other processes and the log change the tables and the keeper in
  between. \<open>held\<close> lists the tokens the calls in flight hold.
\<close>

inductive scope_run :: "scope_state \<Rightarrow> scope_lease list \<Rightarrow> bool" where
  start: "busy_scopes S = [] \<Longrightarrow> scope_run S []"
| admitted: "scope_run S held \<Longrightarrow>
    acquire_budget_scope env trace_id max_budget reserve scope_arg mode sink S = (Inr (token, w), S') \<Longrightarrow>
    scope_run S' (token # held)"
| refused: "scope_run S held \<Longrightarrow>
    acquire_budget_scope env trace_id max_budget reserve scope_arg mode sink S = (Inl e, S') \<Longrightarrow>
    scope_run S' held"
| released: "scope_run S held \<Longrightarrow> token \<in> set held \<Longrightarrow> release_budget_scope env' token S = (res, S') \<Longrightarrow>
    scope_run S' (remove1 token held)"
| settled: "scope_run S held \<Longrightarrow> token \<in> set held \<Longrightarrow> settle_budget_scope env' token cost S = (res, S') \<Longrightarrow>
    scope_run S' (remove1 token held)"
| outside: "scope_run S held \<Longrightarrow> scope_run (S\<lparr>scope_keeper := K, scope_ledger := L\<rparr>) held"

inductive_cases scope_run_NilE: "scope_run S []"

fun sequential_scopes :: "scope_lease list \<Rightarrow> string list" where
  "sequential_scopes [] = []"
| "sequential_scopes (SequentialLease s # ts) = s # sequential_scopes ts"
| "sequential_scopes (_ # ts) = sequential_scopes ts"

lemma in_sequential_scopes: "s \<in> set (sequential_scopes ts) \<longleftrightarrow> SequentialLease s \<in> set ts"
  by (induction ts rule: sequential_scopes.induct) auto

lemma sequential_scopes_remove1:
  "sequential_scopes (remove1 t ts) =
     (case t of SequentialLease s \<Rightarrow> remove1 s (sequential_scopes ts) | _ \<Rightarrow> sequential_scopes ts)"
  by (induction ts rule: sequential_scopes.induct) (auto split: scope_lease.splits)

text \<open>A sequential token marks a scope that was free; no other answer touches the marks.\<close>

definition marks_scope ::
  "scope_state \<Rightarrow> (budget_error + scope_lease \<times> string option) \<times> scope_state \<Rightarrow> bool" where
  "marks_scope S out \<longleftrightarrow>
     (case out of
        (Inr (SequentialLease s, w), S') \<Rightarrow> s \<notin> set (busy_scopes S) \<and> busy_scopes S' = s # busy_scopes S
      | (_, S') \<Rightarrow> busy_scopes S' = busy_scopes S)"

lemma acquire_marks_scope:
  "marks_scope S (acquire_budget_scope env trace_id max_budget reserve scope_arg mode sink S)"
proof -
  have "marks_scope S (Inl e, S)" for e by (simp add: marks_scope_def)
  moreover have "marks_scope S (acquire_durable env trace_id s max_budget reserve S)" for s
    by (simp add: acquire_durable_def marks_scope_def split: prod.split sum.split)
  moreover have "marks_scope S (acquire_sequential env trace_id max_budget reserve scope sink S)" for scope
    by (cases scope; cases "check_scope_call env trace_id max_budget reserve scope sink S")
      (auto simp: acquire_sequential_def marks_scope_def)
  ultimately show ?thesis
    by (simp add: acquire_budget_scope_def split: sum.split option.split)
qed

lemma release_marks:
  assumes "release_budget_scope env token S = (res, S')"
  shows "busy_scopes S' =
    (case token of SequentialLease s \<Rightarrow> removeAll s (busy_scopes S) | _ \<Rightarrow> busy_scopes S)"
  using assms by (auto simp: release_budget_scope_def split: scope_lease.splits prod.splits)

lemma settle_marks:
  assumes "settle_budget_scope env token cost S = (res, S')"
  shows "busy_scopes S' =
    (case token of SequentialLease s \<Rightarrow> removeAll s (busy_scopes S) | _ \<Rightarrow> busy_scopes S)"
  using assms release_marks
  by (auto simp: settle_budget_scope_def split: scope_lease.splits prod.splits)

lemma scope_run_marks:
  assumes "scope_run S held"
  shows "busy_scopes S = sequential_scopes held \<and> distinct (sequential_scopes held)"
  using assms
proof (induction rule: scope_run.induct)
  case (admitted S held env trace_id max_budget reserve scope_arg mode sink token w S')
  then show ?case
    using acquire_marks_scope [of S env trace_id max_budget reserve scope_arg mode sink]
    by (cases token) (auto simp: marks_scope_def)
next
  case (refused S held env trace_id max_budget reserve scope_arg mode sink e S')
  then show ?case
    using acquire_marks_scope [of S env trace_id max_budget reserve scope_arg mode sink]
    by (auto simp: marks_scope_def)
next
  case (released S held token env' res S')
  then show ?case
    using release_marks [OF released(3)]
    by (auto simp: sequential_scopes_remove1 distinct_remove1_removeAll distinct_removeAll split: scope_lease.splits)
next
  case (settled S held token env' cost res S')
  then show ?case
    using settle_marks [OF settled(3)]
    by (auto simp: sequential_scopes_remove1 distinct_remove1_removeAll distinct_removeAll split: scope_lease.splits)
qed auto

text \<open>However the calls of a process interleave, as long as each gives its token back once, two calls
  in flight never hold the same sequential scope, and while one of them holds it every further
  sequential call of that scope with a budget is refused with the tables and the marks unchanged.\<close>

theorem sequential_scopes_exclusive:
  assumes "scope_run S held"
  shows "distinct (sequential_scopes held)
    \<and> (SequentialLease s \<in> set held \<and> resolve_budget_scope trace_id scope_arg = Inr (Some s) \<and> 0 < max_budget
        \<longrightarrow> (\<exists>m. acquire_budget_scope env trace_id max_budget reserve scope_arg ''sequential'' sink S
               = (Inl (BudgetExceeded m), S)))"
  using scope_run_marks [OF assms]
  by (auto simp: acquire_budget_scope_def acquire_sequential_def in_sequential_scopes [symmetric])

definition demo_scope_state :: scope_state where
  "demo_scope_state =
     \<lparr>busy_scopes = [], scope_keeper = \<lparr>kp_leases = [], kp_lost = []\<rparr>, scope_ledger = empty_ledger\<rparr>"

definition demo_acquire :: acquire_env where
  "demo_acquire = \<lparr>ae_store = demo_store, ae_store_ok = True, ae_reservation_id = ''r1'', ae_owner = ''me''\<rparr>"

theorem sequential_scopes_exclusive_witness:
  "\<exists>S m. scope_run S [SequentialLease ''job'']
     \<and> acquire_budget_scope demo_acquire ''job/b'' 5 1 (PStr ''job'') ''sequential'' True S = (Inl (BudgetExceeded m), S)"
proof -
  let ?S = "demo_scope_state\<lparr>busy_scopes := [''job'']\<rparr>"
  have "acquire_budget_scope demo_acquire ''job/a'' 5 1 (PStr ''job'') ''sequential'' True demo_scope_state
      = (Inr (SequentialLease ''job'', None), ?S)"
    by code_simp
  then have run: "scope_run ?S [SequentialLease ''job'']"
    by (rule scope_run.admitted [OF scope_run.start, rotated]) (simp add: demo_scope_state_def)
  have "resolve_budget_scope ''job/b'' (PStr ''job'') = Inr (Some ''job'')" by code_simp
  then obtain m where
    "acquire_budget_scope demo_acquire ''job/b'' 5 1 (PStr ''job'') ''sequential'' True ?S = (Inl (BudgetExceeded m), ?S)"
    using sequential_scopes_exclusive [OF run, of "''job''" "''job/b''" "PStr ''job''" 5 demo_acquire 1 True] by auto
  with run show ?thesis by blast
qed

section \<open>Tags and prompt sizes\<close>

lemma require_tags_resolved:
  assumes "require_tags parse guards env uuid12 task trace_id max_budget caller = Inr r"
  shows "(rt_warnings r = [] \<longleftrightarrow> missing_tags task trace_id max_budget = [])
    \<and> (tags_strict_mode env task \<longrightarrow> missing_tags task trace_id max_budget = [])
    \<and> (task = Some t \<and> t \<noteq> [] \<longrightarrow> rt_task r = py_strip t)
    \<and> (trace_id = Some i \<and> i \<noteq> [] \<longrightarrow> rt_trace_id r = py_strip i)"
  using assms
  by (auto simp: require_tags_def missing_tags_def text_or_empty_def Let_def split: if_splits prod.splits option.splits)

text \<open>Strict mode refuses a call without a tag, but a tag of blanks is not missing: it is stripped to
  the empty text. Such a call leaves \<open>require_tags\<close> with an empty task and an empty trace id and without a
  warning, and with a budget it is then refused by \<open>get_cost\<close> for lack of a filter.\<close>

theorem blank_tags_pass_strict_mode:
  fixes parse guards uuid12 caller
  defines "env \<equiv> (\<lambda>v. if v = ''LLM_CLIENT_REQUIRE_TAGS'' then Some ''1'' else None)"
  assumes "guards [] = (GuardPass, GuardPass)"
  shows "tags_strict_mode env (Some '' '')
    \<and> require_tags parse guards env uuid12 (Some '' '') (Some '' '') (PInt 1) caller
        = Inr \<lparr>rt_task = [], rt_trace_id = [], rt_max_budget = 1, rt_warnings = []\<rparr>
    \<and> (\<exists>m. check_budget True [] 1 0 PNone sink L = Inl (ValueError m))"
proof (intro conjI)
  have blank: "py_strip '' '' = []" by code_simp
  show "tags_strict_mode env (Some '' '')"
    by (simp add: tags_strict_mode_def env_truthy_def env_value_def env_def truthy_env_def py_or_def)
      (code_simp)
  show "require_tags parse guards env uuid12 (Some '' '') (Some '' '') (PInt 1) caller
        = Inr \<lparr>rt_task = [], rt_trace_id = [], rt_max_budget = 1, rt_warnings = []\<rparr>"
    by (simp add: require_tags_def missing_tags_def text_or_empty_def blank assms(2))
  show "\<exists>m. check_budget True [] 1 0 PNone sink L = Inl (ValueError m)"
    by (simp add: check_budget_def resolve_budget_scope_def budget_spent_def get_cost_def has_filter_def no_filter_def)
qed

theorem blank_tags_pass_strict_mode_witness:
  "\<exists>r. require_tags (\<lambda>_. None) (\<lambda>_. (GuardPass, GuardPass))
        (\<lambda>v. if v = ''LLM_CLIENT_REQUIRE_TAGS'' then Some ''1'' else None) ''0'' (Some '' '') (Some '' '') (PInt 1) ''call_llm''
      = Inr r \<and> rt_task r = []"
  using blank_tags_pass_strict_mode [of "\<lambda>_. (GuardPass, GuardPass)" "\<lambda>_. None" "''0''" "''call_llm''"] by auto

text \<open>The registry keeps the first ceiling of a task.\<close>

lemma register_write_once:
  assumes "dict_get B t = Some n" and "register_task_prompt_budget other task v B = (res, B')"
  shows "dict_get B' t = Some n"
  using assms
  by (auto simp: register_task_prompt_budget_def Let_def py_simps
      split: if_splits py.splits option.splits)

lemma register_positive:
  assumes "\<forall>(t, n) \<in> set B. 0 < n" and "register_task_prompt_budget other task v B = (res, B')"
  shows "\<forall>(t, n) \<in> set B'. 0 < n"
proof -
  have pos: "0 < n" if "(t, n) \<in> set (dict_set s m B)" and "0 < m" for s m t n
    using assms(1) that by (induction B) (auto split: if_splits)
  show ?thesis
    using assms by (auto simp: register_task_prompt_budget_def Let_def not_le dest: pos
        split: if_splits py.splits option.splits)
qed

text \<open>A prompt is admitted without remark exactly when its estimate is within the ceiling that is in
  force, the explicit one before the registered one; above a positive ceiling it is refused in strict
  mode and otherwise reported; it is never cut. Only an explicit ceiling of zero makes the check itself
  fail, by the division in its message.\<close>

theorem check_prompt_size_cases:
  fixes env task prompt explicit B
  defines "est \<equiv> estimate_prompt_tokens prompt"
    and "out \<equiv> check_prompt_size env task prompt explicit True B"
  shows "(out = Inr (est, None) \<longleftrightarrow> (case prompt_ceiling task explicit B of None \<Rightarrow> True | Some c \<Rightarrow> est \<le> c))
    \<and> ((\<exists>m. out = Inl (PromptBudgetExceeded m)) \<longleftrightarrow>
         (\<exists>c. prompt_ceiling task explicit B = Some c \<and> c < est \<and> c \<noteq> 0 \<and> prompt_size_strict_mode env))
    \<and> ((\<exists>w. out = Inr (est, Some w)) \<longleftrightarrow>
         (\<exists>c. prompt_ceiling task explicit B = Some c \<and> c < est \<and> c \<noteq> 0 \<and> \<not> prompt_size_strict_mode env))
    \<and> (out = Inl PromptDivisionByZero \<longleftrightarrow> prompt_ceiling task explicit B = Some 0 \<and> 0 < est)"
  unfolding out_def est_def check_prompt_size_def Let_def
  by (cases "prompt_ceiling task explicit B") (auto simp: not_le)

end
