(* ===== verification/Model_Contracts.thy ===== *)
theory Model_Contracts
  imports Routing "HOL-Library.List_Lexorder" "HOL-Library.Char_ord"
begin

text \<open>
  The second part of \<open>llm_client/execution/call_contracts.py\<close>: what a model may be called with. The
  OpenRouter route policy, the coercion of parameters a model rejects, agent models and execution
  modes, the filtering of agent-only arguments, and retired models.

  The keyword arguments of a call are a dictionary from names to values. A definition that changes
  its \<open>kwargs\<close> in place returns them. Messages keep the names they carry and leave out advice.
\<close>

type_synonym kwargs = "(string \<times> py) list"

datatype contract_error =
    ContractValueError string
  | ContractTypeError
  | CapabilityError string
  | DeprecatedModel string string
  | ModelNotFound string string
  | EmptyResponse string bool "(string \<times> py) list"

section \<open>OpenRouter route policy\<close>

datatype cache_mode = CacheDisabled | CacheEnabled | CacheRefresh
datatype data_collection = CollectAllow | CollectDeny
datatype route_sort = SortPrice | SortThroughput | SortLatency

record route_policy =
  rp_allowed_providers :: "string list option"
  rp_ignored_providers :: "string list option"
  rp_data_collection :: "data_collection option"
  rp_zero_data_retention :: "bool option"
  rp_allow_provider_fallbacks :: bool
  rp_sort :: "route_sort option"
  rp_response_cache_mode :: cache_mode
  rp_response_cache_ttl :: "int option"

text \<open>Field validation: the names are stripped and the ttl is in its range.\<close>

definition normalize_provider_names :: "string list option \<Rightarrow> string list option" where
  "normalize_provider_names v = map_option (map py_strip) v"

text \<open>The loop over one list of names with the keys seen so far.\<close>

fun check_providers :: "string \<Rightarrow> string list \<Rightarrow> string list \<Rightarrow> contract_error + string list" where
  "check_providers field seen [] = Inr seen"
| "check_providers field seen (p # ps) =
     (if py_strip p = [] then Inl (ContractValueError (field @ '' entries must be non-empty strings''))
      else let key = py_lower p in
        if key \<in> set seen then Inl (ContractValueError (field @ '' must not contain duplicates''))
        else check_providers field (key # seen) ps)"

definition provider_keys :: "string \<Rightarrow> string list option \<Rightarrow> contract_error + string list" where
  "provider_keys field providers =
     (case providers of
        None \<Rightarrow> Inr []
      | Some [] \<Rightarrow> Inl (ContractValueError (field @ '' must not be empty when provided''))
      | Some ps \<Rightarrow> check_providers field [] ps)"

definition validate_route_policy :: "route_policy \<Rightarrow> contract_error + route_policy" where
  "validate_route_policy given =
     (let P = given\<lparr>rp_allowed_providers := normalize_provider_names (rp_allowed_providers given),
                    rp_ignored_providers := normalize_provider_names (rp_ignored_providers given)\<rparr>;
          cached = (rp_response_cache_mode P \<noteq> CacheDisabled)
      in if (case rp_response_cache_ttl P of Some n \<Rightarrow> n \<le> 0 \<or> 86400 < n | None \<Rightarrow> False)
         then Inl (ContractValueError ''response_cache_ttl_seconds out of range'')
         else and_then (provider_keys ''allowed_providers'' (rp_allowed_providers P)) (\<lambda>allowed.
              and_then (provider_keys ''ignored_providers'' (rp_ignored_providers P)) (\<lambda>ignored.
              if list_ex (\<lambda>k. k \<in> set ignored) allowed
              then Inl (ContractValueError ''allowed_providers and ignored_providers must not overlap'')
              else if rp_data_collection P = Some CollectAllow \<and> rp_zero_data_retention P = Some True
              then Inl (ContractValueError ''data_collection conflicts with zero_data_retention=True'')
              else if cached \<and> rp_zero_data_retention P = Some True
              then Inl (ContractValueError ''response_cache_mode conflicts with zero_data_retention=True'')
              else if rp_response_cache_ttl P \<noteq> None \<and> \<not> cached
              then Inl (ContractValueError ''response_cache_ttl_seconds requires response_cache_mode'')
              else Inr P)))"

section \<open>Empty responses and schema errors\<close>

definition compact_diagnostics :: "((string \<times> py) list \<Rightarrow> string) \<Rightarrow> (string \<times> py) list \<Rightarrow> nat \<Rightarrow> string" where
  "compact_diagnostics render diagnostics max_len =
     (let rendered = render diagnostics in
      if length rendered \<le> max_len then rendered else take max_len rendered @ ''...(truncated)'')"

definition raise_empty_response ::
  "string \<Rightarrow> string \<Rightarrow> bool \<Rightarrow> (string \<times> py) list \<Rightarrow> contract_error" where
  "raise_empty_response provider classification retryable diagnostics =
     EmptyResponse classification retryable
       (dict_set ''retryable'' (PBool retryable)
         (dict_set ''classification'' (PStr classification)
           (dict_set ''provider'' (PStr provider) diagnostics)))"

definition SCHEMA_ERROR_PATTERNS :: "string list" where
  "SCHEMA_ERROR_PATTERNS =
     [''nesting depth'', ''schema is invalid'', ''schema exceeds'', ''invalid schema'',
      ''unsupported schema'', ''schema too complex'', ''schema validation'',
      ''not a valid json schema'', ''response_format'']"

definition is_schema_error :: "string \<Rightarrow> string \<Rightarrow> bool" where
  "is_schema_error type_name message =
     (let error_str = py_lower message; error_type = py_lower type_name in
      (py_contains ''badrequest'' error_type \<or> py_contains ''invalid_argument'' error_str \<or>
       py_contains ''400'' error_str) \<and>
      py_any_in SCHEMA_ERROR_PATTERNS error_str)"

section \<open>Parameters a model rejects\<close>

definition GPT5_ALWAYS_STRIP_SAMPLING :: "string list" where
  "GPT5_ALWAYS_STRIP_SAMPLING = [''gpt-5'', ''gpt-5-mini'', ''gpt-5-nano'']"

definition GPT5_REASONING_GATED_SAMPLING :: "string list" where
  "GPT5_REASONING_GATED_SAMPLING =
     [''gpt-5.1'', ''gpt-5.2'', ''gpt-5.2-pro'', ''gpt-5.5'', ''gpt-5.5-pro'', ''gpt-5.6'', ''gpt-5.6-terra'',
      ''gpt-5.1-chat-latest'', ''gpt-5.2-chat-latest'']"

definition GPT5_SAMPLING_PARAMS :: "string list" where
  "GPT5_SAMPLING_PARAMS = [''temperature'', ''top_p'', ''logprobs'', ''top_logprobs'']"

definition pop_keys :: "string list \<Rightarrow> kwargs \<Rightarrow> kwargs" where
  "pop_keys ks kw = filter (\<lambda>(k, v). k \<notin> set ks) kw"

definition present_keys :: "string list \<Rightarrow> kwargs \<Rightarrow> string list" where
  "present_keys ks kw = filter (\<lambda>k. dict_has kw k) ks"

definition strips_sampling :: "(py \<Rightarrow> string) \<Rightarrow> string \<Rightarrow> kwargs \<Rightarrow> bool" where
  "strips_sampling other model kw \<longleftrightarrow>
     (let base = base_model_name model;
          effort = py_lower (py_strip (case dict_get kw ''reasoning_effort'' of
                                         Some v \<Rightarrow> py_str other v | None \<Rightarrow> []))
      in base \<in> set GPT5_ALWAYS_STRIP_SAMPLING \<or>
         base \<in> set GPT5_REASONING_GATED_SAMPLING \<and> effort \<noteq> [] \<and> effort \<noteq> ''none'')"

definition strip_incompatible_sampling_params ::
  "(py \<Rightarrow> string) \<Rightarrow> string \<Rightarrow> kwargs \<Rightarrow> string list \<times> kwargs" where
  "strip_incompatible_sampling_params other model kw =
     (if strips_sampling other model kw
      then (present_keys GPT5_SAMPLING_PARAMS kw, pop_keys GPT5_SAMPLING_PARAMS kw)
      else ([], kw))"

definition OPENROUTER_LUNA_UNSUPPORTED_PARAMS :: "string list" where
  "OPENROUTER_LUNA_UNSUPPORTED_PARAMS = [''temperature'']"

definition strip_route_incompatible_params ::
  "string \<Rightarrow> kwargs \<Rightarrow> (string list \<times> string option) \<times> kwargs" where
  "strip_route_incompatible_params model kw =
     (if py_lower (py_strip model) \<noteq> ''openrouter/openai/gpt-5.6-luna'' then (([], None), kw)
      else let removed = sort (present_keys OPENROUTER_LUNA_UNSUPPORTED_PARAMS kw)
           in ((removed, Some ''openrouter_luna_native_schema_compatibility''), pop_keys removed kw))"

definition UNSUPPORTED_PARAM_POLICY_ALIASES :: "(string \<times> string) list" where
  "UNSUPPORTED_PARAM_POLICY_ALIASES =
     [(''warn'', ''coerce_and_warn''), (''coerce'', ''coerce_and_warn''), (''silent'', ''coerce_and_warn''),
      (''strict'', ''error''), (''raise'', ''error''), (''error_only'', ''error'')]"

definition resolve_unsupported_param_policy ::
  "(py \<Rightarrow> string) \<Rightarrow> (string \<Rightarrow> string option) \<Rightarrow> py \<Rightarrow> contract_error + string" where
  "resolve_unsupported_param_policy other env explicit_policy =
     (let raw = (if explicit_policy = PNone
                 then PStr (given_or (env ''LLM_CLIENT_UNSUPPORTED_PARAM_POLICY'') ''coerce_and_warn'')
                 else explicit_policy);
          policy = py_lower (py_strip (py_str other raw));
          policy = given_or (dict_get UNSUPPORTED_PARAM_POLICY_ALIASES policy) policy
      in if policy \<in> set [''coerce_and_warn'', ''error''] then Inr policy
         else Inl (ContractValueError ''Invalid unsupported_param_policy''))"

text \<open>
  The removed names, the warning line and the arguments that are left. The arguments are changed
  before the error is raised, so they come back in either case.
\<close>

definition coerce_model_incompatible_params ::
  "(py \<Rightarrow> string) \<Rightarrow> string \<Rightarrow> kwargs \<Rightarrow> string \<Rightarrow> (contract_error + string list \<times> string option) \<times> kwargs" where
  "coerce_model_incompatible_params other model kw policy =
     (let direct = is_responses_api_model model \<and> dict_has kw ''temperature'';
          kw1 = (if direct then pop_keys [''temperature''] kw else kw);
          (sampling, kw2) = strip_incompatible_sampling_params other model kw1;
          ((route, rule), kw3) = strip_route_incompatible_params model kw2;
          removed = sort (remdups ((if direct then [''temperature''] else []) @ sampling @ route))
      in if removed = [] then (Inr ([], None), kw3)
         else if policy = ''error''
         then (Inl (CapabilityError (''Unsupported params for model '' @ model @ '': '' @ py_join '', '' removed)), kw3)
         else (Inr (removed, Some (''COERCE_PARAMS model='' @ model @ '' policy='' @ policy @ '' removed='' @
                 py_join '','' removed @ '' rule='' @ given_or rule ''gpt5_sampling_compatibility'')), kw3))"

definition is_internal_key :: "string \<Rightarrow> bool" where
  "is_internal_key k \<longleftrightarrow> prefix ''_'' k"

definition strip_llm_internal_kwargs :: "kwargs \<Rightarrow> kwargs" where
  "strip_llm_internal_kwargs kw =
     filter (\<lambda>(k, v). \<not> is_internal_key k \<and>
       k \<notin> set [''budget_scope_trace_id'', ''budget_scope_mode'', ''budget_reservation'']) kw"

text \<open>
  \<open>model_max\<close> is \<open>litellm.get_model_info(model)["max_output_tokens"]\<close>, \<open>None\<close> when the lookup
  raises. Comparing a cap that is no number is a \<open>TypeError\<close>.
\<close>

fun py_number :: "py \<Rightarrow> rat option" where
  "py_number (PBool b) = Some (if b then 1 else 0)"
| "py_number (PInt n) = Some (of_int n)"
| "py_number (PFloat x) = Some x"
| "py_number _ = None"

definition apply_max_tokens :: "(string \<Rightarrow> py option) \<Rightarrow> string \<Rightarrow> kwargs \<Rightarrow> contract_error + kwargs" where
  "apply_max_tokens model_max model kw =
     (case model_max model of
        None \<Rightarrow> Inr kw
      | Some limit \<Rightarrow>
          if \<not> py_truthy limit then Inr kw
          else (case find (\<lambda>k. dict_has kw k) [''max_completion_tokens'', ''max_tokens''] of
                  None \<Rightarrow> Inr kw
                | Some key \<Rightarrow>
                   (case (py_number (given_or (dict_get kw key) PNone), py_number limit) of
                      (Some asked, Some cap) \<Rightarrow> Inr (if asked > cap then dict_set key limit kw else kw)
                    | _ \<Rightarrow> Inl ContractTypeError)))"

section \<open>Agent models and execution modes\<close>

definition is_agent_model :: "string \<Rightarrow> bool" where
  "is_agent_model model \<longleftrightarrow>
     (let lower = py_lower model in
      list_ex (\<lambda>p. lower = p \<or> prefix (p @ ''/'') lower) [''claude-code'', ''codex'', ''openai-agents''] \<or>
      is_codex_alias_model model \<or> is_codex_family_model model)"

definition VALID_EXECUTION_MODES :: "string list" where
  "VALID_EXECUTION_MODES = [''text'', ''structured'', ''workspace_agent'', ''workspace_tools'']"

definition AGENT_ONLY_KWARGS :: "string list" where
  "AGENT_ONLY_KWARGS =
     [''allowed_tools'', ''agent_idle_timeout'', ''cwd'', ''max_turns'', ''max_tool_calls'', ''permission_mode'',
      ''max_budget_usd'', ''sandbox_mode'', ''working_directory'', ''approval_policy'',
      ''model_reasoning_effort'', ''network_access_enabled'', ''web_search_enabled'',
      ''additional_directories'', ''skip_git_repo_check'', ''yolo_mode'', ''codex_home'']"

definition TOOL_LOOP_KEYS :: "string list" where
  "TOOL_LOOP_KEYS = [''mcp_servers'', ''mcp_sessions'', ''python_tools'']"

definition has_tool_loop :: "kwargs \<Rightarrow> bool" where
  "has_tool_loop kw \<longleftrightarrow> list_ex (\<lambda>k. dict_has kw k) TOOL_LOOP_KEYS"

definition agent_only_set :: "kwargs \<Rightarrow> string list" where
  "agent_only_set kw =
     (if has_tool_loop kw then filter (\<lambda>k. k \<notin> set [''max_turns'', ''max_tool_calls'']) AGENT_ONLY_KWARGS
      else AGENT_ONLY_KWARGS)"

text \<open>A warning is logged for a mixed chain; the answer says whether it was.\<close>

definition validate_execution_contract ::
  "string list \<Rightarrow> string \<Rightarrow> kwargs \<Rightarrow> string \<Rightarrow> contract_error + bool" where
  "validate_execution_contract models mode kw caller =
     (let agents = filter is_agent_model models;
          others = filter (\<lambda>m. \<not> is_agent_model m) models;
          agent_only = sort (filter (\<lambda>k. k \<in> set (agent_only_set kw)) (map fst kw))
      in if mode \<notin> set VALID_EXECUTION_MODES
         then Inl (ContractValueError ''Invalid execution_mode'')
         else if mode = ''workspace_agent'' \<and> others \<noteq> []
         then Inl (CapabilityError (caller @ '': execution_mode=workspace_agent requires agent models''))
         else if mode = ''workspace_tools'' \<and> agents \<noteq> []
         then Inl (CapabilityError (caller @ '': execution_mode=workspace_tools requires non-agent models''))
         else if mode = ''workspace_tools'' \<and> \<not> has_tool_loop kw
         then Inl (CapabilityError (caller @ '': execution_mode=workspace_tools requires python_tools ''
                @ ''or mcp_servers/mcp_sessions.''))
         else if agent_only \<noteq> [] \<and> others \<noteq> [] \<and> agents = []
         then Inl (CapabilityError (caller @ '': agent-only kwargs '' @ py_repr_strs agent_only @
                '' are incompatible with non-agent model(s) '' @ py_repr_strs others))
         else Inr (agent_only \<noteq> [] \<and> others \<noteq> [] \<and> agents \<noteq> []))"

text \<open>The arguments of one leg of the chain and the warning line.\<close>

definition coerce_model_kwargs_for_execution :: "string \<Rightarrow> kwargs \<Rightarrow> kwargs \<times> string option" where
  "coerce_model_kwargs_for_execution current_model kw =
     (let internal = sort (filter is_internal_key (map fst kw)) in
      if is_agent_model current_model then (pop_keys internal kw, None)
      else
        let removed = sort (filter (\<lambda>k. k \<in> set (agent_only_set kw)) (map fst kw));
            all_removed = sort (remdups (internal @ removed))
        in if all_removed = [] then (kw, None)
           else (pop_keys all_removed kw,
             if removed = [] then None
             else Some (''COERCE_PARAMS model='' @ current_model @ '' policy=coerce_and_warn removed='' @
                    py_join '','' removed @ '' rule=agent_fallback_compatibility'')))"

section \<open>Retired models\<close>

text \<open>Each pattern with the replacement it suggests.\<close>

definition HARD_BLOCKED_MODELS :: "(string \<times> string) list" where
  "HARD_BLOCKED_MODELS =
     [(''gpt-5.4'', ''gpt-5.6-luna (preferred) OR an explicit non-GPT-5.4 route when Luna cannot satisfy the required execution contract''),
      (''gpt-5.5'', ''gpt-5.6 (Sol) OR gpt-5.6-terra''),
      (''openrouter/auto'', ''an explicit, policy-approved model ID''),
      (''@preset/'', ''an explicit, policy-approved model ID and provider routing kwargs''),
      (''opus'', ''claude-code/sonnet for Claude workspace-agent review OR the appropriate non-banned llm_client model tier for ordinary calls''),
      (''fable'', ''openrouter/openai/gpt-5.6-sol OR openrouter/x-ai/grok-4.5 OR openrouter/z-ai/glm-5.2''),
      (''gpt-5.1-mini'', ''openrouter/deepseek/deepseek-v4-flash''),
      (''gpt-5-mini'', ''openrouter/deepseek/deepseek-v4-flash''),
      (''codex-mini'', ''codex/gpt-5.6-luna''),
      (''gpt-4o-mini'', ''deepseek/deepseek-chat OR gemini/gemini-2.5-flash''),
      (''o4-mini'', ''o3-mini''),
      (''mistral-large'', ''deepseek/deepseek-chat OR gemini/gemini-2.5-flash'')]"

definition DEPRECATED_MODELS :: "(string \<times> string) list" where
  "DEPRECATED_MODELS =
     [(''o1-mini'', ''o3-mini''),
      (''o1-pro'', ''o3''),
      (''gemini-1.5'', ''gemini/gemini-2.5-flash OR gemini/gemini-2.5-pro''),
      (''gemini-2.0-flash'', ''gemini/gemini-2.5-flash''),
      (''claude-3-5'', ''anthropic/claude-sonnet-4-5-20250929 OR anthropic/claude-haiku-4-5-20251001''),
      (''claude-3-sonnet'', ''anthropic/claude-sonnet-4-5-20250929''),
      (''claude-3-haiku'', ''anthropic/claude-haiku-4-5-20251001'')]"

definition WARNED_MODELS :: "(string \<times> string) list" where
  "WARNED_MODELS = [(''gpt-4o'', ''gpt-5'')]"

text \<open>The overlay of \<open>llm_client/inside_success_policy.py\<close>.\<close>

definition INSIDE_SUCCESS_HARD_BLOCK_EXCEPTIONS :: "string list" where
  "INSIDE_SUCCESS_HARD_BLOCK_EXCEPTIONS =
     [''claude-code/claude-opus-4-8'', ''codex/gpt-5.4-mini'', ''codex/gpt-5.4-nano'', ''codex/gpt-5.5'',
      ''openrouter/anthropic/claude-opus-4.8'', ''openrouter/openai/gpt-5.4-mini'',
      ''openrouter/openai/gpt-5.4-nano'', ''openrouter/openai/gpt-5.5'']"

definition DEPRECATED_MODEL_EXCEPTIONS :: "string list" where
  "DEPRECATED_MODEL_EXCEPTIONS =
     [''gpt-4o-mini'', ''gemini-2.0-flash-lite''] @ INSIDE_SUCCESS_HARD_BLOCK_EXCEPTIONS"

text \<open>A pattern applies when it is in the name and no other exception is.\<close>

definition pattern_applies :: "string \<Rightarrow> string \<times> string \<Rightarrow> bool" where
  "pattern_applies lower entry \<longleftrightarrow>
     py_contains (fst entry) lower \<and>
     \<not> list_ex (\<lambda>exc. py_contains exc lower \<and> exc \<noteq> fst entry) DEPRECATED_MODEL_EXCEPTIONS"

datatype deprecation_notice = NoNotice | DeprecatedNotice string | OutclassedNotice string

definition check_model_deprecation ::
  "(string \<Rightarrow> string option) \<Rightarrow> string \<Rightarrow> contract_error + deprecation_notice" where
  "check_model_deprecation env model =
     (let lower = py_lower model;
          strict = (py_strip (given_or (env ''LLM_CLIENT_STRICT_MODELS'') []) = ''1'')
      in case find (pattern_applies lower) HARD_BLOCKED_MODELS of
           Some (pattern, replacement) \<Rightarrow> Inl (DeprecatedModel model replacement)
         | None \<Rightarrow>
            (case find (pattern_applies lower) DEPRECATED_MODELS of
               Some (pattern, replacement) \<Rightarrow>
                 if strict then Inl (ModelNotFound model replacement) else Inr (DeprecatedNotice replacement)
             | None \<Rightarrow>
                (case find (pattern_applies lower) WARNED_MODELS of
                   Some (pattern, replacement) \<Rightarrow> Inr (OutclassedNotice replacement)
                 | None \<Rightarrow> Inr NoNotice)))"

section \<open>Lemmas on dictionaries of arguments\<close>

lemma pop_keys_idem [simp]: "pop_keys ks (pop_keys ks kw) = pop_keys ks kw"
  by (simp add: pop_keys_def)

lemma pop_keys_Nil [simp]: "pop_keys [] kw = kw"
  by (simp add: pop_keys_def filter_True)

lemma pop_keys_cong: "set ks \<inter> fst ` set kw = set ls \<inter> fst ` set kw \<Longrightarrow> pop_keys ks kw = pop_keys ls kw"
  unfolding pop_keys_def by (rule filter_cong) force+

lemma dict_has_iff: "dict_has kw k \<longleftrightarrow> k \<in> fst ` set kw"
  by (auto simp: dict_has_def weak_map_of_SomeI map_of_eq_None_iff)

section \<open>What a leg of the chain receives\<close>

definition leg_key :: "string \<Rightarrow> kwargs \<Rightarrow> string \<Rightarrow> bool" where
  "leg_key model kw k \<longleftrightarrow> \<not> is_internal_key k \<and> (is_agent_model model \<or> k \<notin> set (agent_only_set kw))"

lemma internal_not_agent_only: "k \<in> set (agent_only_set kw) \<Longrightarrow> \<not> is_internal_key k"
proof -
  have "list_all (\<lambda>k. \<not> is_internal_key k) AGENT_ONLY_KWARGS" by code_simp
  then show "k \<in> set (agent_only_set kw) \<Longrightarrow> \<not> is_internal_key k"
    by (auto simp: agent_only_set_def list_all_iff split: if_splits)
qed

lemma tool_loop_keys_kept: "k \<in> set TOOL_LOOP_KEYS \<Longrightarrow> k \<notin> set (agent_only_set kw) \<and> \<not> is_internal_key k"
proof -
  have "list_all (\<lambda>k. k \<notin> set AGENT_ONLY_KWARGS \<and> \<not> is_internal_key k) TOOL_LOOP_KEYS" by code_simp
  then show "k \<in> set TOOL_LOOP_KEYS \<Longrightarrow> k \<notin> set (agent_only_set kw) \<and> \<not> is_internal_key k"
    by (auto simp: agent_only_set_def list_all_iff split: if_splits)
qed

lemma coerce_leg_filter:
  "fst (coerce_model_kwargs_for_execution model kw) = filter (\<lambda>(k, v). leg_key model kw k) kw"
proof -
  have drop: "pop_keys ks kw = filter (\<lambda>(k, v). leg_key model kw k) kw"
    if "\<And>k. k \<in> fst ` set kw \<Longrightarrow> k \<in> set ks \<longleftrightarrow> \<not> leg_key model kw k" for ks
    unfolding pop_keys_def using that by (intro filter_cong) force+
  show ?thesis
  proof (cases "is_agent_model model")
    case True
    then show ?thesis
      by (simp add: coerce_model_kwargs_for_execution_def Let_def) (intro drop, auto simp: leg_key_def)
  next
    case False
    let ?all = "sort (remdups (sort (filter is_internal_key (map fst kw)) @
        sort (filter (\<lambda>k. k \<in> set (agent_only_set kw)) (map fst kw))))"
    have popped: "pop_keys ?all kw = filter (\<lambda>(k, v). leg_key model kw k) kw"
      by (rule drop) (auto simp: leg_key_def False)
    have "fst (coerce_model_kwargs_for_execution model kw) = pop_keys ?all kw"
      using False by (simp add: coerce_model_kwargs_for_execution_def Let_def)
    then show ?thesis using popped by simp
  qed
qed

lemma dict_has_filter: "dict_has (filter (\<lambda>(k, v). P k) kw) k \<longleftrightarrow> P k \<and> dict_has kw k"
  by (force simp: dict_has_iff)

lemma coerced_tool_loop: "has_tool_loop (filter (\<lambda>(k, v). leg_key model kw k) kw) = has_tool_loop kw"
proof -
  have "leg_key model kw k" if "k \<in> set TOOL_LOOP_KEYS" for k
    using tool_loop_keys_kept [OF that] by (simp add: leg_key_def)
  then show ?thesis unfolding has_tool_loop_def list_ex_iff dict_has_filter by blast
qed

lemma leg_key_coerced: "leg_key model (filter (\<lambda>(k, v). leg_key model kw k) kw) = leg_key model kw"
  by (rule ext) (simp add: leg_key_def [of _ "filter _ _"] agent_only_set_def coerced_tool_loop,
      simp add: leg_key_def agent_only_set_def)

text \<open>A leg of a fallback chain receives exactly the arguments its model can take, in their order: an
  agent model all but the internal ones, another model none of the agent-only ones either, where the
  turn limits stay for a call with a tool loop. What is left needs no further coercion, and the leg on
  its own passes the execution contract of a text call.\<close>

theorem leg_kwargs_exact:
  fixes model caller :: string and kw :: kwargs
  defines "leg \<equiv> fst (coerce_model_kwargs_for_execution model kw)"
  shows "leg = filter (\<lambda>(k, v). \<not> prefix ''_'' k \<and> (is_agent_model model \<or> k \<notin> set (agent_only_set kw))) kw
    \<and> coerce_model_kwargs_for_execution model leg = (leg, None)
    \<and> validate_execution_contract [model] ''text'' leg caller = Inr False"
proof -
  have leg: "leg = filter (\<lambda>(k, v). leg_key model kw k) kw"
    unfolding leg_def by (rule coerce_leg_filter)
  have again: "fst (coerce_model_kwargs_for_execution model leg) = leg"
    unfolding coerce_leg_filter [of model leg] by (simp add: leg leg_key_coerced)
  have same: "agent_only_set leg = agent_only_set kw"
    unfolding leg agent_only_set_def coerced_tool_loop ..
  have clean: "\<not> is_agent_model model \<Longrightarrow> filter (\<lambda>k. k \<in> set (agent_only_set leg)) (map fst leg) = []"
    unfolding same by (auto simp: leg leg_key_def filter_empty_conv)
  have "snd (coerce_model_kwargs_for_execution model leg) = None"
    using clean by (auto simp: coerce_model_kwargs_for_execution_def Let_def)
  moreover have "validate_execution_contract [model] ''text'' leg caller = Inr False"
    using clean by (auto simp: validate_execution_contract_def Let_def VALID_EXECUTION_MODES_def)
  ultimately show ?thesis
    using again leg by (simp add: prod_eq_iff leg_key_def is_internal_key_def)
qed

theorem leg_kwargs_exact_witness:
  "fst (coerce_model_kwargs_for_execution ''gemini/pro'' [(''temperature'', PInt 1), (''cwd'', PStr ''/x'')])
     = [(''temperature'', PInt 1)]"
proof -
  have "\<not> is_agent_model ''gemini/pro''" by code_simp
  moreover have "''cwd'' \<in> set (agent_only_set [(''temperature'', PInt 1), (''cwd'', PStr ''/x'')])"
    and "''temperature'' \<notin> set (agent_only_set [(''temperature'', PInt 1), (''cwd'', PStr ''/x'')])" by code_simp+
  ultimately show ?thesis
    using leg_kwargs_exact [of "''gemini/pro''" "[(''temperature'', PInt 1), (''cwd'', PStr ''/x'')]" "''call''"] by simp
qed

section \<open>What coercion leaves\<close>

lemma strips_sampling_pop:
  assumes "''reasoning_effort'' \<notin> set ks"
  shows "strips_sampling other model (pop_keys ks kw) = strips_sampling other model kw"
proof -
  have "dict_get (pop_keys ks kw) ''reasoning_effort'' = dict_get kw ''reasoning_effort''"
    unfolding pop_keys_def using assms by (induction kw) auto
  then show ?thesis by (simp add: strips_sampling_def)
qed

lemma pop_pop: "pop_keys ks (pop_keys ls kw) = pop_keys (ls @ ks) kw"
  unfolding pop_keys_def by (auto simp: conj_commute intro!: filter_cong)

definition rejected_keys :: "(py \<Rightarrow> string) \<Rightarrow> string \<Rightarrow> kwargs \<Rightarrow> string list" where
  "rejected_keys other model kw =
     (if is_responses_api_model model then [''temperature''] else []) @
     (if strips_sampling other model kw then GPT5_SAMPLING_PARAMS else []) @
     (if py_lower (py_strip model) = ''openrouter/openai/gpt-5.6-luna'' then [''temperature''] else [])"

lemma pop_present: "pop_keys (present_keys ks kw) kw = pop_keys ks kw"
  by (rule pop_keys_cong) (auto simp: present_keys_def dict_has_iff)

lemma pop_absent: "\<not> dict_has kw k \<Longrightarrow> pop_keys [k] kw = kw"
  unfolding pop_keys_def dict_has_iff by (rule filter_True) force

lemma present_pop: "present_keys ks (pop_keys ls kw) = filter (\<lambda>k. k \<notin> set ls) (present_keys ks kw)"
  unfolding present_keys_def filter_filter
  by (rule filter_cong) (force simp: dict_has_iff pop_keys_def)+

lemma pop_keys_set: "set ks = set ls \<Longrightarrow> pop_keys ks kw = pop_keys ls kw"
  by (rule pop_keys_cong) simp

text \<open>The three steps of the coercion, each a removal.\<close>

lemma coerce_steps:
  fixes other model kw policy
  defines "direct \<equiv> is_responses_api_model model \<and> dict_has kw ''temperature''"
  defines "kw1 \<equiv> pop_keys (if is_responses_api_model model then [''temperature''] else []) kw"
  defines "kw2 \<equiv> pop_keys (if strips_sampling other model kw then GPT5_SAMPLING_PARAMS else []) kw1"
  shows "coerce_model_incompatible_params other model kw policy =
    (let sampling = (if strips_sampling other model kw then present_keys GPT5_SAMPLING_PARAMS kw1 else []);
         luna = (py_lower (py_strip model) = ''openrouter/openai/gpt-5.6-luna'');
         route = (if luna then present_keys [''temperature''] kw2 else []);
         kw3 = pop_keys (if luna then [''temperature''] else []) kw2;
         removed = sort (remdups ((if direct then [''temperature''] else []) @ sampling @ route));
         rule = (if luna then Some ''openrouter_luna_native_schema_compatibility'' else None)
     in if removed = [] then (Inr ([], None), kw3)
        else if policy = ''error''
        then (Inl (CapabilityError (''Unsupported params for model '' @ model @ '': '' @ py_join '', '' removed)), kw3)
        else (Inr (removed, Some (''COERCE_PARAMS model='' @ model @ '' policy='' @ policy @ '' removed='' @
                py_join '','' removed @ '' rule='' @ given_or rule ''gpt5_sampling_compatibility'')), kw3))"
proof -
  have one: "(if direct then pop_keys [''temperature''] kw else kw) = kw1"
    by (auto simp: direct_def kw1_def pop_absent)
  have strips: "strips_sampling other model kw1 = strips_sampling other model kw"
    unfolding kw1_def by (rule strips_sampling_pop) simp
  have two: "strip_incompatible_sampling_params other model kw1 =
      (if strips_sampling other model kw then present_keys GPT5_SAMPLING_PARAMS kw1 else [], kw2)"
    by (simp add: strip_incompatible_sampling_params_def strips kw2_def)
  have single: "sort (present_keys [''temperature''] kw2) = present_keys [''temperature''] kw2"
    by (simp add: present_keys_def)
  have three: "strip_route_incompatible_params model kw2 =
      (let luna = (py_lower (py_strip model) = ''openrouter/openai/gpt-5.6-luna'') in
       ((if luna then present_keys [''temperature''] kw2 else [],
         if luna then Some ''openrouter_luna_native_schema_compatibility'' else None),
        pop_keys (if luna then [''temperature''] else []) kw2))"
    by (simp add: strip_route_incompatible_params_def OPENROUTER_LUNA_UNSUPPORTED_PARAMS_def single pop_present)
  show ?thesis
    unfolding coerce_model_incompatible_params_def direct_def [symmetric] one two three Let_def split_def fst_conv snd_conv
    ..
qed

lemma coerce_kwargs:
  "snd (coerce_model_incompatible_params other model kw policy) = pop_keys (rejected_keys other model kw) kw"
  unfolding coerce_steps Let_def
  by (simp add: pop_pop rejected_keys_def)

lemma coerce_removed_set:
  "set (present_keys (rejected_keys other model kw) kw) =
     set ((if is_responses_api_model model \<and> dict_has kw ''temperature'' then [''temperature''] else []) @
       (if strips_sampling other model kw
        then present_keys GPT5_SAMPLING_PARAMS (pop_keys (if is_responses_api_model model then [''temperature''] else []) kw)
        else []) @
       (if py_lower (py_strip model) = ''openrouter/openai/gpt-5.6-luna''
        then present_keys [''temperature'']
          (pop_keys (if strips_sampling other model kw then GPT5_SAMPLING_PARAMS else [])
            (pop_keys (if is_responses_api_model model then [''temperature''] else []) kw))
        else []))"
  unfolding present_pop by (auto simp: rejected_keys_def present_keys_def GPT5_SAMPLING_PARAMS_def)

lemma sort_remdups_cong: "set xs = set ys \<Longrightarrow> sort (remdups xs) = sort (remdups ys)"
  by (metis sorted_list_of_set_sort_remdups)

definition rejected_present :: "(py \<Rightarrow> string) \<Rightarrow> string \<Rightarrow> kwargs \<Rightarrow> string list" where
  "rejected_present other model kw = sort (remdups (present_keys (rejected_keys other model kw) kw))"

lemma coerce_answer:
  "\<exists>m w. fst (coerce_model_incompatible_params other model kw policy) =
     (if rejected_present other model kw = [] then Inr ([], None)
      else if policy = ''error'' then Inl (CapabilityError m)
      else Inr (rejected_present other model kw, Some w))"
  unfolding coerce_steps Let_def rejected_present_def
    sort_remdups_cong [OF coerce_removed_set]
  by (auto split: if_splits)

lemma rejected_left: "rejected_keys other model (pop_keys (rejected_keys other model kw) kw) = rejected_keys other model kw"
proof -
  have "strips_sampling other model (pop_keys (rejected_keys other model kw) kw) = strips_sampling other model kw"
    by (rule strips_sampling_pop) (auto simp: rejected_keys_def GPT5_SAMPLING_PARAMS_def)
  then show ?thesis by (simp add: rejected_keys_def)
qed

lemma rejected_left_empty:
  "rejected_present other model (pop_keys (rejected_keys other model kw) kw) = []"
  unfolding rejected_present_def rejected_left present_pop
  by (auto simp: filter_empty_conv present_keys_def)

text \<open>Coercion removes exactly the arguments the model rejects and reports their sorted names. Under
  the policy \<open>error\<close> it raises exactly when there is such an argument, and then the caller's
  dictionary has lost it all the same. What is left passes a second time without a change.\<close>

theorem coercion_removes_rejected:
  fixes other :: "py \<Rightarrow> string" and model :: string and kw :: kwargs
  defines "bad \<equiv> rejected_present other model kw"
    and "left \<equiv> pop_keys (rejected_keys other model kw) kw"
  shows "snd (coerce_model_incompatible_params other model kw policy) = left
    \<and> (policy = ''error'' \<or>
        (\<exists>w. fst (coerce_model_incompatible_params other model kw policy) = Inr (bad, w) \<and> (w = None \<longleftrightarrow> bad = [])))
    \<and> ((\<exists>m. fst (coerce_model_incompatible_params other model kw ''error'') = Inl (CapabilityError m)) \<longleftrightarrow> bad \<noteq> [])
    \<and> coerce_model_incompatible_params other model left policy = (Inr ([], None), left)"
proof (intro conjI)
  show kept: "snd (coerce_model_incompatible_params other model kw policy) = left" for policy
    unfolding left_def by (rule coerce_kwargs)
  show "policy = ''error'' \<or>
      (\<exists>w. fst (coerce_model_incompatible_params other model kw policy) = Inr (bad, w) \<and> (w = None \<longleftrightarrow> bad = []))"
    using coerce_answer [of other model kw policy] unfolding bad_def
    by (cases "rejected_present other model kw = []"; cases "policy = ''error''") auto
  show "(\<exists>m. fst (coerce_model_incompatible_params other model kw ''error'') = Inl (CapabilityError m)) \<longleftrightarrow> bad \<noteq> []"
    using coerce_answer [of other model kw "''error''"] unfolding bad_def by auto
  have "fst (coerce_model_incompatible_params other model left policy) = Inr ([], None)"
    using coerce_answer [of other model left policy] by (auto simp: left_def rejected_left_empty)
  moreover have "snd (coerce_model_incompatible_params other model left policy) = left"
    unfolding coerce_kwargs by (simp add: left_def rejected_left)
  ultimately show "coerce_model_incompatible_params other model left policy = (Inr ([], None), left)"
    by (simp add: prod_eq_iff)
qed

section \<open>Retired models\<close>

lemma find_applies: "find (pattern_applies lower) ps = None \<longleftrightarrow> (\<forall>e \<in> set ps. \<not> pattern_applies lower e)"
  by (auto simp: find_None_iff)

text \<open>A name is refused outright exactly when it contains a blocked pattern and no exception other
  than that pattern. The exception need not have to do with the pattern: an OpenRouter preset, which the
  policy bans because its model is chosen account-side, passes when its name contains
  \<open>gemini-2.0-flash-lite\<close>, and so does an Opus route behind an allowed GPT route.\<close>

theorem exceptions_lift_every_block:
  "((\<exists>r. check_model_deprecation env model = Inl (DeprecatedModel model r)) \<longleftrightarrow>
      (\<exists>p r. (p, r) \<in> set HARD_BLOCKED_MODELS \<and> py_contains p (py_lower model) \<and>
         (\<forall>exc \<in> set DEPRECATED_MODEL_EXCEPTIONS. py_contains exc (py_lower model) \<longrightarrow> exc = p)))
    \<and> check_model_deprecation env ''openrouter/@preset/x-gemini-2.0-flash-lite'' = Inr NoNotice
    \<and> (\<exists>r. check_model_deprecation env ''openrouter/@preset/x'' = Inl (DeprecatedModel ''openrouter/@preset/x'' r))"
proof (intro conjI)
  have "(\<exists>r. check_model_deprecation env model = Inl (DeprecatedModel model r)) \<longleftrightarrow>
      find (pattern_applies (py_lower model)) HARD_BLOCKED_MODELS \<noteq> None"
    by (auto simp: check_model_deprecation_def Let_def split: option.splits)
  also have "\<dots> \<longleftrightarrow> (\<exists>e \<in> set HARD_BLOCKED_MODELS. pattern_applies (py_lower model) e)"
    by (auto simp: find_applies)
  also have "\<dots> \<longleftrightarrow> (\<exists>p r. (p, r) \<in> set HARD_BLOCKED_MODELS \<and> py_contains p (py_lower model) \<and>
         (\<forall>exc \<in> set DEPRECATED_MODEL_EXCEPTIONS. py_contains exc (py_lower model) \<longrightarrow> exc = p))"
    by (force simp: pattern_applies_def list_ex_iff)
  finally show "(\<exists>r. check_model_deprecation env model = Inl (DeprecatedModel model r)) \<longleftrightarrow>
      (\<exists>p r. (p, r) \<in> set HARD_BLOCKED_MODELS \<and> py_contains p (py_lower model) \<and>
         (\<forall>exc \<in> set DEPRECATED_MODEL_EXCEPTIONS. py_contains exc (py_lower model) \<longrightarrow> exc = p))" .
  have preset: "(\<forall>e \<in> set (HARD_BLOCKED_MODELS @ DEPRECATED_MODELS @ WARNED_MODELS).
      \<not> pattern_applies (py_lower ''openrouter/@preset/x-gemini-2.0-flash-lite'') e)"
    by code_simp
  then show "check_model_deprecation env ''openrouter/@preset/x-gemini-2.0-flash-lite'' = Inr NoNotice"
    by (simp add: check_model_deprecation_def find_applies [THEN iffD2] Let_def)
  have "map_option fst (find (pattern_applies (py_lower ''openrouter/@preset/x'')) HARD_BLOCKED_MODELS) = Some ''@preset/''"
    by code_simp
  then show "\<exists>r. check_model_deprecation env ''openrouter/@preset/x'' = Inl (DeprecatedModel ''openrouter/@preset/x'' r)"
    by (auto simp: check_model_deprecation_def Let_def)
qed

end
