(* ===== verification/Evidence_Spans.thy ===== *)
theory Evidence_Spans
  imports Prelude
begin

text \<open>
  Resolution of quoted evidence in a source text, \<open>llm_client/utils/evidence_spans.py\<close>: hints, exact
  matches, matches up to whitespace, and stripped matches. Offsets count characters. A span
  dictionary is its text and its two optional hints. The loops over \<open>str.find\<close> are recursive in the
  start offset, which grows to the end of the source.
\<close>

section \<open>Definitions\<close>

datatype match_method = Exact | WhitespaceNormalized | Stripped

record resolved_span =
  rs_start :: nat
  rs_end :: nat
  rs_text :: string
  rs_method :: match_method

text \<open>\<open>source[a:b]\<close> for \<open>a \<le> b\<close>, and \<open>source.find(target, start)\<close>.\<close>

definition slice :: "string \<Rightarrow> nat \<Rightarrow> nat \<Rightarrow> string" where
  "slice source a b = take (b - a) (drop a source)"

definition str_find :: "string \<Rightarrow> string \<Rightarrow> nat \<Rightarrow> nat option" where
  "str_find source target start =
     find (\<lambda>i. prefix target (drop i source)) [start..<Suc (length source)]"

lemma str_find_bounds: "str_find source target start = Some i \<Longrightarrow> start \<le> i \<and> i \<le> length source"
  by (auto simp: str_find_def find_Some_iff simp del: upt_Suc)

function find_all_from :: "string \<Rightarrow> string \<Rightarrow> nat \<Rightarrow> (nat \<times> nat) list" where
  "find_all_from source target start =
     (case str_find source target start of
        None \<Rightarrow> []
      | Some found \<Rightarrow> (found, found + length target) # find_all_from source target (found + 1))"
  by pat_completeness auto
termination
  by (relation "measure (\<lambda>(source, target, start). Suc (length source) - start)")
    (auto dest!: str_find_bounds)

declare find_all_from.simps [simp del]

definition find_all :: "string \<Rightarrow> string \<Rightarrow> (nat \<times> nat) list" where
  "find_all source target = find_all_from source target 0"

text \<open>\<open>min(matches, key=...)\<close>: the first of the least.\<close>

fun first_min :: "('a \<Rightarrow> int) \<Rightarrow> 'a \<Rightarrow> 'a list \<Rightarrow> 'a" where
  "first_min key best [] = best"
| "first_min key best (x # xs) = first_min key (if key x < key best then x else best) xs"

text \<open>\<open>re.sub(r"\s+", " ", s)\<close>.\<close>

fun collapse_ws :: "bool \<Rightarrow> string \<Rightarrow> string" where
  "collapse_ws in_run [] = []"
| "collapse_ws in_run (c # cs) =
     (if py_isspace c then (if in_run then collapse_ws True cs else CHR '' '' # collapse_ws True cs)
      else c # collapse_ws False cs)"

definition is_source_ws :: "char \<Rightarrow> bool" where
  "is_source_ws c \<longleftrightarrow> c \<in> set [CHR '' '', CHR 0x09, CHR 0x0A, CHR 0x0D]"

text \<open>The walk over the source: each normalised character with its offset.\<close>

fun norm_walk :: "nat \<Rightarrow> bool \<Rightarrow> bool \<Rightarrow> string \<Rightarrow> (char \<times> nat) list" where
  "norm_walk i started prev_was_space [] = []"
| "norm_walk i started prev_was_space (c # cs) =
     (if is_source_ws c
      then (if \<not> prev_was_space \<and> started then (CHR '' '', i) # norm_walk (Suc i) True True cs
            else norm_walk (Suc i) started True cs)
      else (c, i) # norm_walk (Suc i) True False cs)"

definition norm_quote :: "string \<Rightarrow> string" where
  "norm_quote quoted = collapse_ws False (py_strip quoted)"

definition whitespace_normalized_match :: "string \<Rightarrow> string \<Rightarrow> (nat \<times> nat) option" where
  "whitespace_normalized_match source quoted =
     (let norm_quoted = norm_quote quoted in
      if norm_quoted = [] then None
      else
        let walk = norm_walk 0 False False source;
            norm_source = map fst walk;
            orig_positions = map snd walk
        in case find_all norm_source norm_quoted of
             [(norm_start, norm_end)] \<Rightarrow>
               Some (orig_positions ! norm_start, orig_positions ! (norm_end - 1) + 1)
           | _ \<Rightarrow> None)"

definition exact_span :: "nat \<times> nat \<Rightarrow> string \<Rightarrow> resolved_span" where
  "exact_span m quoted = \<lparr>rs_start = fst m, rs_end = snd m, rs_text = quoted, rs_method = Exact\<rparr>"

definition hinted :: "string \<Rightarrow> string \<Rightarrow> int option \<Rightarrow> int option \<Rightarrow> resolved_span option" where
  "hinted source quoted hint_start hint_end =
     (case (hint_start, hint_end) of
        (Some a, Some b) \<Rightarrow>
          if 0 \<le> a \<and> a < b \<and> b \<le> int (length source) \<and> slice source (nat a) (nat b) = quoted
          then Some (exact_span (nat a, nat b) quoted) else None
      | _ \<Rightarrow> None)"

definition pick_exact :: "(nat \<times> nat) list \<Rightarrow> int option \<Rightarrow> (nat \<times> nat) option" where
  "pick_exact matches hint_start =
     (case matches of
        [] \<Rightarrow> None
      | [m] \<Rightarrow> Some m
      | m # ms \<Rightarrow>
         (case hint_start of
            Some a \<Rightarrow>
              (case find (\<lambda>(s, e). int s = a) matches of
                 Some hit \<Rightarrow> Some hit
               | None \<Rightarrow> Some (first_min (\<lambda>(s, e). \<bar>int s - a\<bar>) m ms))
          | None \<Rightarrow> Some m))"

definition resolve_stripped :: "string \<Rightarrow> string \<Rightarrow> resolved_span option" where
  "resolve_stripped source quoted =
     (let stripped = py_strip quoted in
      if stripped \<noteq> [] \<and> stripped \<noteq> quoted
      then (case find_all source stripped of
              [(s, e)] \<Rightarrow> Some \<lparr>rs_start = s, rs_end = e, rs_text = slice source s e, rs_method = Stripped\<rparr>
            | _ \<Rightarrow> None)
      else None)"

definition resolve_evidence_span ::
  "string \<Rightarrow> string \<Rightarrow> int option \<Rightarrow> int option \<Rightarrow> resolved_span option" where
  "resolve_evidence_span source quoted hint_start hint_end =
     (case hinted source quoted hint_start hint_end of
        Some r \<Rightarrow> Some r
      | None \<Rightarrow>
         (case pick_exact (find_all source quoted) hint_start of
            Some m \<Rightarrow> Some (exact_span m quoted)
          | None \<Rightarrow>
             (case whitespace_normalized_match source quoted of
                Some (s, e) \<Rightarrow>
                  Some \<lparr>rs_start = s, rs_end = e, rs_text = slice source s e, rs_method = WhitespaceNormalized\<rparr>
              | None \<Rightarrow> resolve_stripped source quoted)))"

record span_dict =
  sd_text :: "string option"
  sd_start :: "int option"
  sd_end :: "int option"

datatype span_error = EmptySpanText nat | UnresolvedSpan nat

fun resolve_spans_from ::
  "string \<Rightarrow> bool \<Rightarrow> nat \<Rightarrow> span_dict list \<Rightarrow> span_error + resolved_span list" where
  "resolve_spans_from source strict index [] = Inr []"
| "resolve_spans_from source strict index (sp # spans) =
     (let quoted = (case sd_text sp of Some q \<Rightarrow> q | None \<Rightarrow> []) in
      if py_strip quoted = []
      then (if strict then Inl (EmptySpanText index) else resolve_spans_from source strict (Suc index) spans)
      else (case resolve_evidence_span source quoted (sd_start sp) (sd_end sp) of
              None \<Rightarrow> if strict then Inl (UnresolvedSpan index)
                       else resolve_spans_from source strict (Suc index) spans
            | Some r \<Rightarrow> (case resolve_spans_from source strict (Suc index) spans of
                           Inl e \<Rightarrow> Inl e | Inr rs \<Rightarrow> Inr (r # rs))))"

definition resolve_evidence_spans :: "string \<Rightarrow> bool \<Rightarrow> span_dict list \<Rightarrow> span_error + resolved_span list" where
  "resolve_evidence_spans source strict spans = resolve_spans_from source strict 0 spans"

section \<open>Exact search\<close>

lemma find_upt_split:
  "find P [a..<b] = Some i \<Longrightarrow> filter P [a..<b] = i # filter P [Suc i..<b]"
proof (induction "b - a" arbitrary: a)
  case (Suc n)
  then have "[a..<b] = a # [Suc a..<b]" by (simp add: upt_conv_Cons)
  with Suc show ?case by (cases "P a") auto
qed simp

lemma find_all_from_filter:
  "find_all_from source target start =
     map (\<lambda>i. (i, i + length target))
       (filter (\<lambda>i. prefix target (drop i source)) [start..<Suc (length source)])"
proof (induction source target start rule: find_all_from.induct)
  case (1 source target start)
  show ?case
  proof (cases "str_find source target start")
    case None
    then have "filter (\<lambda>i. prefix target (drop i source)) [start..<Suc (length source)] = []"
      by (simp add: str_find_def find_None_iff filter_empty_conv del: upt_Suc)
    with None show ?thesis by (simp add: find_all_from.simps del: upt_Suc)
  next
    case (Some found)
    then have "filter (\<lambda>i. prefix target (drop i source)) [start..<Suc (length source)] =
        found # filter (\<lambda>i. prefix target (drop i source)) [Suc found..<Suc (length source)]"
      unfolding str_find_def by (rule find_upt_split)
    with 1 [OF Some] Some show ?thesis by (simp add: find_all_from.simps [of _ _ start] del: upt_Suc)
  qed
qed

text \<open>The search finds every occurrence, overlapping ones too, in order.\<close>

lemma find_all_set:
  "m \<in> set (find_all source target) \<longleftrightarrow>
     (\<exists>i. m = (i, i + length target) \<and> i \<le> length source \<and> prefix target (drop i source))"
  unfolding find_all_def find_all_from_filter by (auto simp del: upt_Suc)

lemma find_all_slice:
  assumes "(s, e) \<in> set (find_all source target)"
  shows "e = s + length target \<and> e \<le> length source \<and> slice source s e = target"
proof -
  have s: "s \<le> length source" "prefix target (drop s source)" "e = s + length target"
    using assms by (auto simp: find_all_set)
  then obtain rest where "drop s source = target @ rest" by (auto simp: prefix_def)
  moreover from this have "length target \<le> length source - s" by (metis length_append length_drop le_add1)
  ultimately show ?thesis using s by (simp add: slice_def)
qed

lemma first_min_in: "first_min key best xs \<in> set (best # xs)"
  by (induction key best xs rule: first_min.induct) (auto split: if_splits)

lemma pick_exact_in:
  assumes "pick_exact ms h = Some m"
  shows "m \<in> set ms"
proof (cases "\<exists>a b cs. ms = a # b # cs")
  case True
  then obtain a b cs where ms: "ms = a # b # cs" by blast
  note first = first_min_in [of "\<lambda>(s, e). \<bar>int s - the h\<bar>" a "b # cs"]
  have "m = a \<or> find (\<lambda>(s, e). int s = the h) ms = Some m \<or> m = first_min (\<lambda>(s, e). \<bar>int s - the h\<bar>) a (b # cs)"
    using assms unfolding ms pick_exact_def
    by (cases h) (simp_all del: find.simps first_min.simps split: option.splits)
  with first find_SomeD [of _ ms m] show ?thesis
    by (auto simp: ms simp del: find.simps first_min.simps)
next
  case False
  then show ?thesis using assms by (cases ms; cases "tl ms") (auto simp: pick_exact_def)
qed

lemma pick_exact_None [simp]: "pick_exact ms h = None \<longleftrightarrow> ms = []"
  by (auto simp: pick_exact_def split: list.splits option.splits)

section \<open>The walk over the source\<close>

fun walk_state :: "bool \<Rightarrow> bool \<Rightarrow> string \<Rightarrow> bool \<times> bool" where
  "walk_state started prev [] = (started, prev)"
| "walk_state started prev (c # cs) =
     (if is_source_ws c then walk_state started True cs else walk_state True False cs)"

lemma norm_walk_append:
  "norm_walk i st pr (xs @ ys) =
     norm_walk i st pr xs @
     norm_walk (i + length xs) (fst (walk_state st pr xs)) (snd (walk_state st pr xs)) ys"
  by (induction i st pr xs rule: norm_walk.induct) auto

lemma norm_walk_restart:
  "\<not> is_source_ws c \<Longrightarrow> norm_walk i st pr (c # cs) = (c, i) # norm_walk (Suc i) True False cs"
  by simp

lemma norm_walk_shift: "map fst (norm_walk (i + k) st pr xs) = map fst (norm_walk i st pr xs)"
  by (induction i st pr xs rule: norm_walk.induct) auto

lemma norm_walk_range: "(c, p) \<in> set (norm_walk i st pr xs) \<Longrightarrow> i \<le> p \<and> p < i + length xs"
  by (induction i st pr xs rule: norm_walk.induct) (fastforce split: if_splits)+

lemma norm_walk_char:
  "(c, p) \<in> set (norm_walk i st pr xs) \<Longrightarrow> \<not> is_source_ws c \<Longrightarrow> xs ! (p - i) = c"
proof (induction i st pr xs rule: norm_walk.induct)
  case (2 i st pr d ds)
  show ?case
  proof (cases "(c, p) = (d, i)")
    case False
    have tail: "\<exists>st' pr'. (c, p) \<in> set (norm_walk (Suc i) st' pr' ds) \<and> ds ! (p - Suc i) = c"
      using 2 False by (auto simp: is_source_ws_def split: if_splits)
    then have "Suc i \<le> p" using norm_walk_range by blast
    then obtain k where "p = Suc (i + k)" by (metis Suc_le_eq less_iff_Suc_add)
    with tail show ?thesis by simp
  qed simp
qed simp

lemma norm_walk_sorted: "sorted_wrt (<) (map snd (norm_walk i st pr xs))"
proof (induction i st pr xs rule: norm_walk.induct)
  case (2 i st pr c cs)
  then show ?case by (auto dest: norm_walk_range)
qed simp

lemma norm_walk_last:
  assumes "xs \<noteq> []" and "\<not> is_source_ws (last xs)"
  shows "norm_walk i st pr xs \<noteq> [] \<and> last (norm_walk i st pr xs) = (last xs, i + length xs - 1)"
proof -
  have "xs = butlast xs @ [last xs]" using assms(1) by simp
  then have "norm_walk i st pr xs = norm_walk i st pr (butlast xs) @ [(last xs, i + length (butlast xs))]"
    using assms(2) by (metis norm_walk_append norm_walk_restart norm_walk.simps(1))
  then show ?thesis using assms(1) by (cases xs) simp_all
qed

lemma sorted_index_unique:
  assumes "sorted_wrt (<) (xs :: nat list)" and "i < length xs" and "j < length xs" and "xs ! i = xs ! j"
  shows "i = j"
  using assms by (metis nat_neq_iff sorted_wrt_iff_nth_less less_irrefl)

text \<open>
  A stretch of normalised characters that begins and ends outside whitespace comes from the stretch
  of the source between its offsets, and that stretch normalises to it.
\<close>

lemma norm_walk_stretch:
  fixes source :: string
  defines "W \<equiv> norm_walk 0 False False source"
  assumes parts: "map fst W = A @ Q @ B" and ends: "Q \<noteq> []" "\<not> is_source_ws (hd Q)" "\<not> is_source_ws (last Q)"
    and s: "s = map snd W ! length A" and e: "e = map snd W ! (length A + length Q - 1) + 1"
  shows "s < e \<and> e \<le> length source \<and> map fst (norm_walk 0 False False (slice source s e)) = Q"
proof -
  let ?a = "length A" and ?z = "length A + length Q - 1"
  have len: "length W = length A + length Q + length B" using parts by (metis length_append length_map add.assoc)
  have az: "?a < length W" "?z < length W" "?a \<le> ?z" using ends(1) len by (cases Q; simp)+
  have first: "W ! ?a = (hd Q, s)"
    using parts az s ends(1) by (metis append_Cons hd_Cons_tl nth_append_length nth_map prod.collapse)
  have "map fst W ! ?z = last Q"
    using parts ends(1) by (cases Q) (simp_all add: nth_append last_conv_nth)
  then have final: "W ! ?z = (last Q, e - 1)" and "0 < e"
    using az e by (simp_all add: prod_eq_iff)
  have "(hd Q, s) \<in> set W" "(last Q, e - 1) \<in> set W" using first final az by (metis nth_mem)+
  then have c: "source ! s = hd Q" "s < length source" and d: "source ! (e - 1) = last Q" "e \<le> length source"
    using norm_walk_range norm_walk_char ends \<open>0 < e\<close> unfolding W_def by fastforce+
  have sorted: "sorted_wrt (<) (map snd W)" unfolding W_def by (rule norm_walk_sorted)
  have se: "s < e"
  proof (cases "?a = ?z")
    case False
    then have "map snd W ! ?a < map snd W ! ?z"
      using az by (intro sorted_wrt_nth_less [OF sorted]) simp_all
    then show ?thesis using s e by simp
  qed (use s e in simp)
  obtain rest where rest: "drop s source = hd Q # rest" using c by (metis Cons_nth_drop_Suc)
  define st pr where "st = fst (walk_state False False (take s source))"
    and "pr = snd (walk_state False False (take s source))"
  define W1 W2 where "W1 = norm_walk 0 False False (take s source)" and "W2 = norm_walk s st pr (drop s source)"
  have W: "W = W1 @ W2"
    using norm_walk_append [of 0 False False "take s source" "drop s source"] c(2)
    by (simp add: W_def W1_def W2_def st_def pr_def)
  have "map snd W ! length W1 = s" unfolding W W2_def rest using ends(2) by (simp add: nth_append)
  moreover have "length W1 < length W" unfolding W W2_def rest using ends(2) by simp
  ultimately have a: "length W1 = ?a"
    using sorted_index_unique [OF sorted, of "length W1" ?a] az(1) s by simp
  let ?seg = "slice source s e"
  have seg: "?seg \<noteq> []" "length ?seg = e - s" "last ?seg = last Q" "hd ?seg = hd Q"
    using se c d by (auto simp: slice_def last_conv_nth hd_drop_conv_nth)
  then obtain seg' where seg': "?seg = hd Q # seg'" by (metis list.collapse)
  have "drop s source = ?seg @ drop (e - s) (drop s source)" by (simp add: slice_def del: drop_drop)
  then obtain W22 where W2: "W2 = norm_walk s st pr ?seg @ W22" unfolding W2_def by (metis norm_walk_append)
  let ?V = "norm_walk s st pr ?seg"
  have V: "?V \<noteq> []" "last ?V = (last Q, e - 1)"
    using norm_walk_last [OF seg(1), of s st pr] seg ends(3) se by auto
  obtain V0 where V0: "?V = V0 @ [(last Q, e - 1)]" using V by (metis append_butlast_last_id)
  have "map snd W ! (?a + length ?V - 1) = e - 1"
    unfolding W W2 a [symmetric] V0 by (simp add: nth_append)
  moreover have "?a + length ?V - 1 < length W" using V(1) unfolding W W2 a [symmetric] by (cases ?V) auto
  ultimately have "?a + length ?V - 1 = ?z"
    using sorted_index_unique [OF sorted, of "?a + length ?V - 1" ?z] az(2) final by simp
  then have "length ?V = length Q" using V(1) ends(1) by (cases ?V; cases Q) auto
  moreover have "A @ Q @ B = map fst W1 @ map fst ?V @ map fst W22"
    using parts unfolding W W2 by simp
  ultimately have "map fst ?V = Q" using a by (simp add: append_eq_append_conv)
  moreover have "map fst ?V = map fst (norm_walk 0 False False ?seg)"
    using norm_walk_shift [of 0 s True False seg'] norm_walk_shift [of "Suc 0" s True False seg'] ends(2)
    unfolding seg' by simp
  ultimately show ?thesis using se d by simp
qed

section \<open>Soundness\<close>

lemma source_ws_isspace: "is_source_ws c \<Longrightarrow> py_isspace c"
  by (auto simp: is_source_ws_def py_isspace_def)

lemma hd_py_strip:
  assumes "py_strip s \<noteq> []"
  shows "\<not> py_isspace (hd (py_strip s))"
proof -
  let ?u = "dropWhile py_isspace s"
  have "prefix (py_strip s) ?u"
    unfolding py_strip_def by (metis prefix_def rev_append rev_rev_ident takeWhile_dropWhile_id)
  then obtain zs where zs: "?u = py_strip s @ zs" by (auto simp: prefix_def)
  have "hd ?u = hd (py_strip s)" "?u \<noteq> []" unfolding zs using assms by simp_all
  then show ?thesis using hd_dropWhile_False [of py_isspace s] by metis
qed

lemma collapse_hd: "\<not> py_isspace (hd xs) \<Longrightarrow> xs \<noteq> [] \<Longrightarrow> hd (collapse_ws b xs) = hd xs"
  by (cases xs) simp_all

lemma collapse_last:
  assumes "xs \<noteq> []" and "\<not> py_isspace (last xs)"
  shows "collapse_ws b xs \<noteq> [] \<and> last (collapse_ws b xs) = last xs"
  using assms
proof (induction b xs rule: collapse_ws.induct)
  case (2 b c cs)
  then show ?case by (cases cs) auto
qed simp

lemma norm_quote_ends:
  assumes "norm_quote q \<noteq> []"
  shows "\<not> is_source_ws (hd (norm_quote q)) \<and> \<not> is_source_ws (last (norm_quote q))"
proof -
  have ne: "py_strip q \<noteq> []" using assms by (auto simp: norm_quote_def)
  have "\<not> py_isspace (last (py_strip q))" using py_strip_last [of "py_strip q"] ne by simp
  then show ?thesis
    using hd_py_strip [OF ne] collapse_hd [of "py_strip q" False] collapse_last [OF ne, of False] ne source_ws_isspace
    unfolding norm_quote_def by metis
qed

definition same_words :: "string \<Rightarrow> string \<Rightarrow> bool" where
  "same_words quoted found \<longleftrightarrow> map fst (norm_walk 0 False False found) = norm_quote quoted"

lemma whitespace_match_sound:
  assumes "whitespace_normalized_match source quoted = Some (s, e)"
  shows "s < e \<and> e \<le> length source \<and> same_words quoted (slice source s e)"
proof -
  let ?W = "norm_walk 0 False False source" and ?Q = "norm_quote quoted"
  have ne: "?Q \<noteq> []" using assms by (auto simp: whitespace_normalized_match_def)
  obtain a b where found: "find_all (map fst ?W) ?Q = [(a, b)]"
    and se: "s = map snd ?W ! a" "e = map snd ?W ! (b - 1) + 1"
    using assms ne by (auto simp: whitespace_normalized_match_def Let_def split: list.splits)
  have "(a, b) \<in> set (find_all (map fst ?W) ?Q)" using found by simp
  then have a: "a \<le> length (map fst ?W)" "prefix ?Q (drop a (map fst ?W))" "b = a + length ?Q"
    by (auto simp: find_all_set)
  then obtain B where "drop a (map fst ?W) = ?Q @ B" by (auto simp: prefix_def)
  then have parts: "map fst ?W = take a (map fst ?W) @ ?Q @ B" by (metis append_take_drop_id)
  have la: "length (take a (map fst ?W)) = a" using a(1) by simp
  have "s = map snd ?W ! length (take a (map fst ?W))"
    "e = map snd ?W ! (length (take a (map fst ?W)) + length ?Q - 1) + 1"
    unfolding la using se a(3) by simp_all
  from norm_walk_stretch [OF parts ne _ _ this] norm_quote_ends [OF ne] show ?thesis
    by (simp add: same_words_def)
qed

text \<open>C30: every span that is resolved for a quote with text lies in the source, is not empty, and carries
  the text at its offsets: the quote itself for an exact match, a text with the quote's words for a match
  up to whitespace, the stripped quote for a stripped one.\<close>

theorem resolved_span_sound:
  assumes "resolve_evidence_span source quoted hint_start hint_end = Some r" and "py_strip quoted \<noteq> []"
  shows "rs_start r < rs_end r \<and> rs_end r \<le> length source
    \<and> rs_text r = slice source (rs_start r) (rs_end r)
    \<and> (case rs_method r of
          Exact \<Rightarrow> rs_text r = quoted
        | WhitespaceNormalized \<Rightarrow> same_words quoted (rs_text r)
        | Stripped \<Rightarrow> rs_text r = py_strip quoted)"
proof -
  have ne: "quoted \<noteq> []" using assms(2) by auto
  have exact: "fst m < snd m \<and> snd m \<le> length source \<and> slice source (fst m) (snd m) = quoted"
    if "m \<in> set (find_all source quoted)" for m
    using find_all_slice [of "fst m" "snd m" source quoted] that ne
    by (metis length_greater_0_conv less_add_same_cancel1 prod.collapse)
  consider (hint) "hinted source quoted hint_start hint_end = Some r"
    | (exact) m where "m \<in> set (find_all source quoted)" "r = exact_span m quoted"
    | (words) s e where "whitespace_normalized_match source quoted = Some (s, e)"
        "r = \<lparr>rs_start = s, rs_end = e, rs_text = slice source s e, rs_method = WhitespaceNormalized\<rparr>"
    | (strip) "resolve_stripped source quoted = Some r"
    using assms(1) pick_exact_in [of "find_all source quoted" hint_start]
    unfolding resolve_evidence_span_def
    by (cases "hinted source quoted hint_start hint_end"; cases "pick_exact (find_all source quoted) hint_start";
        cases "whitespace_normalized_match source quoted") (auto simp del: pick_exact_None)
  then show ?thesis
  proof cases
    case hint
    then show ?thesis by (auto simp: hinted_def exact_span_def split: option.splits if_splits)
  next
    case exact
    then show ?thesis using \<open>\<And>m. m \<in> set (find_all source quoted) \<Longrightarrow> _\<close> [OF exact(1)] by (simp add: exact_span_def)
  next
    case words
    then show ?thesis using whitespace_match_sound [OF words(1)] by simp
  next
    case strip
    then obtain s e where se: "find_all source (py_strip quoted) = [(s, e)]"
      and r: "r = \<lparr>rs_start = s, rs_end = e, rs_text = slice source s e, rs_method = Stripped\<rparr>"
      by (auto simp: resolve_stripped_def Let_def split: list.splits if_splits)
    have "(s, e) \<in> set (find_all source (py_strip quoted))" using se by simp
    from find_all_slice [OF this] show ?thesis using assms(2)
      by (simp add: r) (metis length_greater_0_conv less_add_same_cancel1)
  qed
qed

theorem resolved_span_sound_witness:
  "\<exists>r. resolve_evidence_span ''the  red fox'' '' the red '' None None = Some r
     \<and> rs_text r = slice ''the  red fox'' 0 8 \<and> rs_end r \<le> 12"
proof -
  have "resolve_evidence_span ''the  red fox'' '' the red '' None None
      = Some \<lparr>rs_start = 0, rs_end = 8, rs_text = ''the  red'', rs_method = WhitespaceNormalized\<rparr>"
    and "py_strip '' the red '' \<noteq> []"
    by code_simp+
  from resolved_span_sound [OF this] this(1) show ?thesis by auto
qed

text \<open>The docstring promises \<open>None\<close> when there is no unique match; several exact matches give the first.\<close>

lemma ambiguous_quote_resolved:
  "resolve_evidence_span ''aba'' ''a'' None None = Some (exact_span (0, 1) ''a'')"
  "length (find_all ''aba'' ''a'') = 2"
  by code_simp+

text \<open>
  The quote collapses every whitespace that \<open>re\<close> knows, the source only four of them: a no-break space
  in the source is never matched by a space in the quote, nor by itself next to a space.
\<close>

lemma nbsp_never_matches:
  "resolve_evidence_span [CHR ''a'', CHR 0xA0, CHR ''b''] ''a b'' None None = None"
  by code_simp

end
