(* ===== verification/Bindings.thy ===== *)
theory Bindings
  imports Prelude
begin

text \<open>
  Binding state, evidence references and artifact envelopes of \<open>llm_client/foundation.py\<close>.

  A mapping argument is an association list, \<open>None\<close> what is no mapping. The canonical binding
  dictionary always holds the seven keys in order. Validation by pydantic is a parameter; the
  validators the repository writes itself are definitions.
\<close>

section \<open>Bindings\<close>

definition BINDING_KEYS :: "string list" where
  "BINDING_KEYS =
     [''scope_id'', ''dataset_id'', ''corpus_id'', ''graph_id'', ''vector_store_id'', ''table_id'', ''model_id'']"

definition HARD_BINDING_KEYS :: "string list" where
  "HARD_BINDING_KEYS =
     [''scope_id'', ''dataset_id'', ''corpus_id'', ''graph_id'', ''vector_store_id'', ''table_id'']"

definition SOFT_BINDING_KEYS :: "string list" where
  "SOFT_BINDING_KEYS = [''model_id'']"

definition BINDING_ARG_ALIASES :: "(string \<times> string list) list" where
  "BINDING_ARG_ALIASES =
     [(''scope_id'', [''scope_id'']),
      (''dataset_id'', [''dataset_id'', ''dataset_name'']),
      (''corpus_id'', [''corpus_id'', ''document_collection_id'']),
      (''graph_id'', [''graph_id'', ''graph_reference_id'']),
      (''vector_store_id'', [''vector_store_id'', ''vdb_reference_id'', ''vector_reference_id'']),
      (''table_id'', [''table_id'', ''table_reference_id'']),
      (''model_id'', [''model_id''])]"

type_synonym mapping_arg = "(string \<times> py) list option"

type_synonym binding_dict = "(string \<times> string option) list"

definition norm_text :: "(py \<Rightarrow> string) \<Rightarrow> py \<Rightarrow> string option" where
  "norm_text other v =
     (if v = PNone then None
      else let s = py_strip (py_str other v) in if s = [] then None else Some s)"

definition norm_binding_value :: "(py \<Rightarrow> string) \<Rightarrow> py \<Rightarrow> string option" where
  "norm_binding_value other v = norm_text other v"

definition norm_optional_text :: "(py \<Rightarrow> string) \<Rightarrow> py \<Rightarrow> string option" where
  "norm_optional_text other v = norm_text other v"

text \<open>\<open>BindingSet(**payload).model_dump()\<close>: every key, \<open>None\<close> where the payload has none.\<close>

definition binding_set :: "(string \<times> string option) list \<Rightarrow> binding_dict" where
  "binding_set payload =
     map (\<lambda>k. (k, case dict_get payload k of Some v \<Rightarrow> v | None \<Rightarrow> None)) BINDING_KEYS"

definition empty_bindings :: binding_dict where
  "empty_bindings = binding_set []"

fun first_alias :: "(py \<Rightarrow> string) \<Rightarrow> (string \<times> py) list \<Rightarrow> string list \<Rightarrow> string option" where
  "first_alias other args [] = None"
| "first_alias other args (a # as) =
     (case dict_get args a of
        None \<Rightarrow> first_alias other args as
      | Some v \<Rightarrow> (case norm_binding_value other v of
                    Some s \<Rightarrow> Some s
                  | None \<Rightarrow> first_alias other args as))"

definition extract_bindings_from_tool_args ::
  "(py \<Rightarrow> string) \<Rightarrow> mapping_arg \<Rightarrow> (string \<times> string option) list" where
  "extract_bindings_from_tool_args other args =
     (case args of
        None \<Rightarrow> []
      | Some m \<Rightarrow>
          List.map_filter (\<lambda>(k, as). map_option (\<lambda>s. (k, Some s)) (first_alias other m as))
            BINDING_ARG_ALIASES)"

definition normalize_bindings :: "(py \<Rightarrow> string) \<Rightarrow> mapping_arg \<Rightarrow> binding_dict" where
  "normalize_bindings other b =
     (case b of
        None \<Rightarrow> empty_bindings
      | Some m \<Rightarrow>
          let payload = List.map_filter (\<lambda>k. map_option (\<lambda>v. (k, norm_binding_value other v)) (dict_get m k))
                          BINDING_KEYS
          in binding_set (extract_bindings_from_tool_args other b @ payload))"

text \<open>A binding dictionary passed on as an argument.\<close>

definition as_mapping :: "binding_dict \<Rightarrow> mapping_arg" where
  "as_mapping b = Some (map (\<lambda>(k, v). (k, case v of Some s \<Rightarrow> PStr s | None \<Rightarrow> PNone)) b)"

definition binding :: "binding_dict \<Rightarrow> string \<Rightarrow> string option" where
  "binding b k = (case dict_get b k of Some v \<Rightarrow> v | None \<Rightarrow> None)"

definition binding_conflicts :: "binding_dict \<Rightarrow> binding_dict \<Rightarrow> (string \<times> string \<times> string) list" where
  "binding_conflicts available proposed =
     List.map_filter
       (\<lambda>k. case (binding available k, binding proposed k) of
              (Some e, Some i) \<Rightarrow> if e \<noteq> [] \<and> i \<noteq> [] \<and> e \<noteq> i then Some (k, e, i) else None
            | _ \<Rightarrow> None)
       HARD_BINDING_KEYS"

definition conflict_text :: "(string \<times> string \<times> string) list \<Rightarrow> string" where
  "conflict_text cs =
     ''binding_conflict: '' @ py_join '', ''
       (map (\<lambda>(k, e, i). k @ ''(existing='' @ py_repr_str e @ '', proposed='' @ py_repr_str i @ '')'')
         (sort_key fst cs))"

definition check_binding_conflicts ::
  "(py \<Rightarrow> string) \<Rightarrow> mapping_arg \<Rightarrow> mapping_arg
     \<Rightarrow> bool \<times> string \<times> (string \<times> string \<times> string) list \<times> binding_dict" where
  "check_binding_conflicts other available_arg proposed_arg =
     (let available = normalize_bindings other available_arg;
          proposed = normalize_bindings other proposed_arg;
          conflicts = binding_conflicts available proposed in
      if conflicts \<noteq> [] then (False, conflict_text conflicts, conflicts, proposed)
      else (True, [], [], proposed))"

definition merge_binding_state :: "(py \<Rightarrow> string) \<Rightarrow> mapping_arg \<Rightarrow> mapping_arg \<Rightarrow> binding_dict" where
  "merge_binding_state other available_arg observed_arg =
     (let available = normalize_bindings other available_arg;
          observed = normalize_bindings other observed_arg in
      map (\<lambda>(k, v).
             (k, if k \<in> set SOFT_BINDING_KEYS
                 then (if binding observed k \<noteq> None \<and> binding observed k \<noteq> Some [] then binding observed k else v)
                 else if k \<in> set HARD_BINDING_KEYS \<and> v = None \<and>
                         binding observed k \<noteq> None \<and> binding observed k \<noteq> Some []
                 then binding observed k else v))
        available)"

section \<open>Run ids\<close>

definition run_id_char :: "char \<Rightarrow> bool" where
  "run_id_char c \<longleftrightarrow>
     c \<in> set ''ABCDEFGHIJKLMNOPQRSTUVWXYZabcdefghijklmnopqrstuvwxyz0123456789._:-''"

text \<open>\<open>re.sub(r"[^A-Za-z0-9._:-]+", "_", s)\<close>; the flag says that the run of bad characters was replaced.\<close>

fun sub_unsafe :: "bool \<Rightarrow> string \<Rightarrow> string" where
  "sub_unsafe in_run [] = []"
| "sub_unsafe in_run (c # cs) =
     (if run_id_char c then c # sub_unsafe False cs
      else if in_run then sub_unsafe True cs
      else CHR ''_'' # sub_unsafe True cs)"

definition coerce_run_id :: "string \<Rightarrow> string option \<Rightarrow> string option \<Rightarrow> string" where
  "coerce_run_id fresh run_id trace_id =
     (let strip_or = (\<lambda>t. py_strip (case t of Some s \<Rightarrow> s | None \<Rightarrow> []));
          raw = strip_or run_id;
          raw = (if raw = [] then strip_or trace_id else raw);
          raw = (if raw = [] then fresh else raw);
          safe = sub_unsafe False raw
      in if prefix ''run_'' safe then safe else ''run_'' @ safe)"

section \<open>Evidence references\<close>

record evidence_ref =
  ev_uri :: "string option"
  ev_doc_id :: "string option"
  ev_chunk_id :: "string option"
  ev_artifact_id :: "string option"
  ev_char_start :: "nat option"
  ev_char_end :: "nat option"
  ev_line_start :: "nat option"
  ev_line_end :: "nat option"

definition set_text :: "string option \<Rightarrow> bool" where
  "set_text t = (case t of Some s \<Rightarrow> s \<noteq> [] | None \<Rightarrow> False)"

definition validate_locator_and_spans :: "evidence_ref \<Rightarrow> string + evidence_ref" where
  "validate_locator_and_spans r =
     (if \<not> (set_text (ev_uri r) \<or> set_text (ev_doc_id r) \<or> set_text (ev_chunk_id r) \<or> set_text (ev_artifact_id r))
      then Inl ''EvidenceRef requires at least one locator: uri, doc_id, chunk_id, or artifact_id''
      else if (ev_char_start r = None) \<noteq> (ev_char_end r = None)
      then Inl ''EvidenceRef char span requires both char_start and char_end''
      else if (case (ev_char_start r, ev_char_end r) of (Some a, Some b) \<Rightarrow> b < a | _ \<Rightarrow> False)
      then Inl ''EvidenceRef char_end must be >= char_start''
      else if (ev_line_start r = None) \<noteq> (ev_line_end r = None)
      then Inl ''EvidenceRef line span requires both line_start and line_end''
      else if (case (ev_line_start r, ev_line_end r) of (Some a, Some b) \<Rightarrow> b < a | _ \<Rightarrow> False)
      then Inl ''EvidenceRef line_end must be >= line_start''
      else Inr r)"

text \<open>\<open>parse\<close> is what \<open>parse_evidence_ref\<close> answers for a value that is no string.\<close>

definition evidence_pointer_label :: "(py \<Rightarrow> evidence_ref option) \<Rightarrow> py \<Rightarrow> string option" where
  "evidence_pointer_label parse raw =
     (case raw of
        PStr s \<Rightarrow>
          (let ref = py_strip s in
           if ref = [] then None
           else if prefix ''chunk_'' ref then Some (''chunk:'' @ ref)
           else if CHR '':'' \<in> set ref
           then (let kind = py_lower (py_strip (py_before_first CHR '':'' ref));
                     locator = py_strip (drop (length (py_before_first CHR '':'' ref) + 1) ref) in
                 if kind \<noteq> [] \<and> locator \<noteq> [] then Some (kind @ '':'' @ locator) else None)
           else Some (''raw:'' @ ref))
      | _ \<Rightarrow>
          (case parse raw of
             None \<Rightarrow> None
           | Some r \<Rightarrow>
               (let base = (if set_text (ev_chunk_id r) then Some (''chunk:'' @ the (ev_chunk_id r))
                            else if set_text (ev_artifact_id r) then Some (''artifact:'' @ the (ev_artifact_id r))
                            else if set_text (ev_doc_id r) then Some (''doc:'' @ the (ev_doc_id r))
                            else if set_text (ev_uri r) then Some (''uri:'' @ the (ev_uri r))
                            else None) in
                case base of
                  None \<Rightarrow> None
                | Some b \<Rightarrow>
                    (case (ev_char_start r, ev_char_end r) of
                       (Some x, Some y) \<Rightarrow> Some (b @ ''#char:'' @ nat_digits x @ ''-'' @ nat_digits y)
                     | _ \<Rightarrow>
                         (case (ev_line_start r, ev_line_end r) of
                            (Some x, Some y) \<Rightarrow> Some (b @ ''#line:'' @ nat_digits x @ ''-'' @ nat_digits y)
                          | _ \<Rightarrow> Some b)))))"

section \<open>Artifact envelopes\<close>

text \<open>
  \<open>validate\<close> is pydantic's validation and dump of one envelope; the walk keeps the ids seen
  and the envelopes found, in order.
\<close>

definition parse_artifact_envelope :: "(py \<Rightarrow> py option) \<Rightarrow> py \<Rightarrow> py option" where
  "parse_artifact_envelope validate v =
     (case v of
        PDict d \<Rightarrow>
          if list_all (\<lambda>k. dict_has d (PStr k)) [''artifact_id'', ''artifact_type'', ''schema_version'']
          then validate v else None
      | _ \<Rightarrow> None)"

definition envelope_id :: "(py \<Rightarrow> string) \<Rightarrow> py \<Rightarrow> string" where
  "envelope_id other e =
     (case e of
        PDict d \<Rightarrow> (case dict_get d (PStr ''artifact_id'') of Some v \<Rightarrow> py_strip (py_str other v) | None \<Rightarrow> [])
      | _ \<Rightarrow> [])"

definition note_envelope ::
  "(py \<Rightarrow> string) \<Rightarrow> (py \<Rightarrow> py option) \<Rightarrow> py \<Rightarrow> string list \<times> py list \<Rightarrow> string list \<times> py list" where
  "note_envelope other validate v st =
     (case parse_artifact_envelope validate v of
        None \<Rightarrow> st
      | Some e \<Rightarrow>
          (case st of (seen, found) \<Rightarrow>
             if envelope_id other e \<noteq> [] \<and> envelope_id other e \<notin> set seen
             then (envelope_id other e # seen, found @ [e]) else (seen, found)))"

fun is_container :: "py \<Rightarrow> bool" where
  "is_container (PDict d) = True"
| "is_container (PList xs) = True"
| "is_container (PTuple xs) = True"
| "is_container _ = False"

fun walk :: "(py \<Rightarrow> string) \<Rightarrow> (py \<Rightarrow> py option) \<Rightarrow> py \<Rightarrow> string list \<times> py list \<Rightarrow> string list \<times> py list"
  and walk_items :: "(py \<Rightarrow> string) \<Rightarrow> (py \<Rightarrow> py option) \<Rightarrow> (py \<times> py) list \<Rightarrow> string list \<times> py list \<Rightarrow> string list \<times> py list"
  and walk_list :: "(py \<Rightarrow> string) \<Rightarrow> (py \<Rightarrow> py option) \<Rightarrow> py list \<Rightarrow> string list \<times> py list \<Rightarrow> string list \<times> py list" where
  "walk other validate (PDict d) st = walk_items other validate d (note_envelope other validate (PDict d) st)"
| "walk other validate (PList xs) st = walk_list other validate xs (note_envelope other validate (PList xs) st)"
| "walk other validate (PTuple xs) st = walk_list other validate xs (note_envelope other validate (PTuple xs) st)"
| "walk other validate v st = note_envelope other validate v st"
| "walk_items other validate [] st = st"
| "walk_items other validate ((k, v) # d) st =
     walk_items other validate d (if is_container v then walk other validate v st else st)"
| "walk_list other validate [] st = st"
| "walk_list other validate (v # vs) st =
     walk_list other validate vs (if is_container v then walk other validate v st else st)"

definition extract_artifact_envelopes :: "(py \<Rightarrow> string) \<Rightarrow> (py \<Rightarrow> py option) \<Rightarrow> py \<Rightarrow> py list" where
  "extract_artifact_envelopes other validate payload = snd (walk other validate payload ([], []))"

section \<open>Lemmas\<close>

lemma norm_text_stripped: "norm_text other v = Some s \<Longrightarrow> s \<noteq> [] \<and> py_strip s = s"
  by (auto simp: norm_text_def Let_def split: if_splits)

lemma norm_text_back:
  assumes "case v of Some s \<Rightarrow> s \<noteq> [] \<and> py_strip s = s | None \<Rightarrow> True"
  shows "norm_text other (case v of Some s \<Rightarrow> PStr s | None \<Rightarrow> PNone) = v"
  using assms by (cases v) (simp_all add: norm_text_def)

lemma dict_get_map_filter:
  assumes "distinct (map fst L)"
  shows "dict_get (List.map_filter (\<lambda>(k, a). map_option (\<lambda>s. (k, g s)) (F a)) L) q =
    (case dict_get L q of None \<Rightarrow> None | Some a \<Rightarrow> map_option g (F a))"
  using assms
proof (induction L)
  case (Cons p L)
  obtain k a where p: "p = (k, a)" by fastforce
  have "dict_get L k = None" using Cons.prems p by (simp add: map_of_eq_None_iff)
  then show ?case using Cons p by (cases "F a") (auto simp: List.map_filter_simps)
qed (simp add: List.map_filter_simps)

lemma dict_get_map_filter_keys:
  "dict_get (List.map_filter (\<lambda>k. map_option (\<lambda>v. (k, g v)) (F k)) ks) q =
    (if q \<in> set ks then map_option g (F q) else None)"
proof (induction ks)
  case (Cons k ks)
  then show ?case by (cases "F k") (auto simp: List.map_filter_simps)
qed (simp add: List.map_filter_simps)

lemma binding_set_get: "binding (binding_set P) k =
  (if k \<in> set BINDING_KEYS then (case dict_get P k of Some v \<Rightarrow> v | None \<Rightarrow> None) else None)"
proof -
  have "dict_get (map (\<lambda>k. (k, f k)) ks) k = (if k \<in> set ks then Some (f k) else None)" for f :: "string \<Rightarrow> string option" and ks
    by (induction ks) auto
  then show ?thesis by (simp add: binding_def binding_set_def)
qed

lemma alias_keys: "distinct (map fst BINDING_ARG_ALIASES)" "map fst BINDING_ARG_ALIASES = BINDING_KEYS"
  by (simp_all add: BINDING_ARG_ALIASES_def BINDING_KEYS_def)

definition aliases_of :: "string \<Rightarrow> string list" where
  "aliases_of k = (case dict_get BINDING_ARG_ALIASES k of Some as \<Rightarrow> as | None \<Rightarrow> [])"

text \<open>What a normalised dictionary holds under a key.\<close>

lemma binding_normalize:
  "binding (normalize_bindings other (Some m)) k =
     (if k \<in> set BINDING_KEYS
      then (case first_alias other m (aliases_of k) of
              Some s \<Rightarrow> Some s
            | None \<Rightarrow> (case dict_get m k of Some v \<Rightarrow> norm_binding_value other v | None \<Rightarrow> None))
      else None)"
proof (cases "k \<in> set BINDING_KEYS")
  case True
  then obtain as where as: "dict_get BINDING_ARG_ALIASES k = Some as"
    using alias_keys(2) by (metis (no_types, lifting) map_of_eq_None_iff not_None_eq set_map)
  then show ?thesis using True
    by (simp add: normalize_bindings_def Let_def binding_set_get extract_bindings_from_tool_args_def
        dict_get_append dict_get_map_filter [OF alias_keys(1)] dict_get_map_filter_keys aliases_of_def
        del: map_of_append split: option.split)
qed (simp add: normalize_bindings_def Let_def binding_set_get)

lemma first_alias_stripped: "first_alias other m as = Some s \<Longrightarrow> s \<noteq> [] \<and> py_strip s = s"
  by (induction as) (auto simp: norm_binding_value_def dest: norm_text_stripped split: option.splits)

lemma binding_normalize_stripped:
  "binding (normalize_bindings other b) k = Some s \<Longrightarrow> s \<noteq> [] \<and> py_strip s = s"
proof (cases b)
  case None
  moreover assume "binding (normalize_bindings other b) k = Some s"
  ultimately show ?thesis
    by (simp add: normalize_bindings_def empty_bindings_def binding_set_get split: if_splits)
next
  case (Some m)
  moreover assume "binding (normalize_bindings other b) k = Some s"
  ultimately show ?thesis
    by (auto simp: binding_normalize norm_binding_value_def
        dest: norm_text_stripped first_alias_stripped split: if_splits option.splits)
qed

text \<open>A dictionary with the canonical keys is determined by its bindings.\<close>

lemma map_fst_normalize: "map fst (normalize_bindings other b) = BINDING_KEYS"
  by (simp add: normalize_bindings_def empty_bindings_def binding_set_def Let_def o_def split: option.split)

lemma map_fst_merge: "map fst (merge_binding_state other a b) = BINDING_KEYS"
  using map_fst_normalize [of other a] by (simp add: merge_binding_state_def Let_def o_def case_prod_unfold)

lemma canonical_eqI:
  assumes "map fst a = ks" and "map fst b = ks" and "distinct ks"
    and "\<And>k. k \<in> set ks \<Longrightarrow> binding a k = binding b k"
  shows "a = b"
proof -
  have "dict_get a = dict_get b"
  proof
    fix k
    have "dict_get a k = None \<longleftrightarrow> k \<notin> set ks" "dict_get b k = None \<longleftrightarrow> k \<notin> set ks"
      using assms(1,2) by (metis map_of_eq_None_iff set_map)+
    then show "dict_get a k = dict_get b k"
      using assms(4) [of k] by (cases "k \<in> set ks") (auto simp: binding_def)
  qed
  moreover have "x = map (\<lambda>k. (k, the (dict_get x k))) (map fst x)" if "distinct (map fst x)" for x :: binding_dict
    using that
  proof (induction x)
    case (Cons p x)
    have "map (\<lambda>k. (k, the (dict_get (p # x) k))) (map fst x) = map (\<lambda>k. (k, the (dict_get x k))) (map fst x)"
      using Cons.prems by (intro map_cong) (auto, metis fst_conv image_eqI)
    with Cons show ?case by simp
  qed simp
  ultimately show ?thesis using assms(1-3) by metis
qed

lemma distinct_keys: "distinct BINDING_KEYS"
  by (simp add: BINDING_KEYS_def)

lemma dict_get_as_mapping:
  assumes "map fst b = BINDING_KEYS"
  shows "\<exists>m. as_mapping b = Some m \<and>
    (\<forall>k. dict_get m k = (if k \<in> set BINDING_KEYS
        then Some (case binding b k of Some s \<Rightarrow> PStr s | None \<Rightarrow> PNone) else None))"
proof -
  have "dict_get b k = None \<longleftrightarrow> k \<notin> set BINDING_KEYS" for k
    using assms by (metis map_of_eq_None_iff set_map)
  then show ?thesis
    by (auto simp: as_mapping_def py_simps binding_def split: option.split)
qed

text \<open>Only the first alias of a key is itself a key.\<close>

lemma aliases_shape:
  assumes "k \<in> set BINDING_KEYS"
  shows "\<exists>rest. aliases_of k = k # rest \<and> set rest \<inter> set BINDING_KEYS = {}"
  using assms by (auto simp: BINDING_KEYS_def aliases_of_def BINDING_ARG_ALIASES_def)

lemma first_alias_none: "(\<And>a. a \<in> set as \<Longrightarrow> dict_get m a = None) \<Longrightarrow> first_alias other m as = None"
  by (induction as) auto

lemma normalize_canonical:
  assumes "map fst b = BINDING_KEYS"
    and "\<And>k s. binding b k = Some s \<Longrightarrow> s \<noteq> [] \<and> py_strip s = s"
  shows "normalize_bindings other (as_mapping b) = b"
proof (rule canonical_eqI [OF map_fst_normalize assms(1) distinct_keys])
  fix k
  assume k: "k \<in> set BINDING_KEYS"
  obtain m where m: "as_mapping b = Some m"
    and get: "\<And>q. dict_get m q = (if q \<in> set BINDING_KEYS
        then Some (case binding b q of Some s \<Rightarrow> PStr s | None \<Rightarrow> PNone) else None)"
    using dict_get_as_mapping [OF assms(1)] by blast
  obtain rest where rest: "aliases_of k = k # rest" "set rest \<inter> set BINDING_KEYS = {}"
    using aliases_shape [OF k] by blast
  have none: "first_alias other m rest = None"
    using rest(2) get by (intro first_alias_none) auto
  have "norm_binding_value other (case binding b k of Some s \<Rightarrow> PStr s | None \<Rightarrow> PNone) = binding b k"
    unfolding norm_binding_value_def using assms(2) by (intro norm_text_back) (auto split: option.split)
  then show "binding (normalize_bindings other (as_mapping b)) k = binding b k"
    using k rest(1) get [of k] none by (simp add: m binding_normalize split: option.split)
qed

lemma normalize_idem: "normalize_bindings other (as_mapping (normalize_bindings other b)) = normalize_bindings other b"
  by (rule normalize_canonical [OF map_fst_normalize]) (rule binding_normalize_stripped)

lemma hard_or_soft: "set BINDING_KEYS = set HARD_BINDING_KEYS \<union> set SOFT_BINDING_KEYS"
    "set HARD_BINDING_KEYS \<inter> set SOFT_BINDING_KEYS = {}"
  by (auto simp: BINDING_KEYS_def HARD_BINDING_KEYS_def SOFT_BINDING_KEYS_def)

lemma binding_merge:
  "binding (merge_binding_state other a b) k =
    (let v = binding (normalize_bindings other a) k; w = binding (normalize_bindings other b) k in
     if k \<in> set SOFT_BINDING_KEYS then (if w \<noteq> None then w else v)
     else if k \<in> set HARD_BINDING_KEYS then (if v = None then w else v) else None)"
proof -
  let ?A = "normalize_bindings other a" and ?B = "normalize_bindings other b"
  have nonempty: "binding ?B q \<noteq> Some []" for q using binding_normalize_stripped by blast
  have keys: "dict_get ?A k = None \<longleftrightarrow> k \<notin> set BINDING_KEYS"
    using map_fst_normalize [of other a] by (metis map_of_eq_None_iff set_map)
  show ?thesis
  proof (cases "dict_get ?A k")
    case None
    then have "k \<notin> set HARD_BINDING_KEYS" "k \<notin> set SOFT_BINDING_KEYS" using keys hard_or_soft by auto
    then show ?thesis using None
      by (simp add: merge_binding_state_def Let_def binding_def py_simps)
  next
    case (Some v)
    then have "k \<in> set HARD_BINDING_KEYS \<union> set SOFT_BINDING_KEYS" using keys hard_or_soft by auto
    then show ?thesis using Some nonempty [of k]
      by (auto simp: merge_binding_state_def Let_def binding_def [of "map _ _"] binding_def [of ?A] py_simps)
  qed
qed

section \<open>Properties\<close>

text \<open>C24: the authority of hard bindings. Merging observations into the binding state never changes a
  hard binding that is set, fills every one that is missing, lets the soft binding follow the
  observation, and merging the same observation again changes nothing.\<close>

theorem merge_binding_authority:
  "(let A = normalize_bindings other a; Obs = normalize_bindings other b; M = merge_binding_state other a b in
    list_all (\<lambda>k. binding M k = (if binding A k \<noteq> None then binding A k else binding Obs k)) HARD_BINDING_KEYS
    \<and> list_all (\<lambda>k. binding M k = (if binding Obs k \<noteq> None then binding Obs k else binding A k)) SOFT_BINDING_KEYS
    \<and> merge_binding_state other (as_mapping M) b = M)"
proof -
  let ?M = "merge_binding_state other a b"
  have M: "normalize_bindings other (as_mapping ?M) = ?M"
  proof (rule normalize_canonical [OF map_fst_merge])
    fix k s
    assume "binding ?M k = Some s"
    then show "s \<noteq> [] \<and> py_strip s = s"
      using binding_normalize_stripped by (auto simp: binding_merge Let_def split: if_splits)
  qed
  have "merge_binding_state other (as_mapping ?M) b = ?M"
  proof (rule canonical_eqI [OF map_fst_merge map_fst_merge distinct_keys])
    fix k
    show "binding (merge_binding_state other (as_mapping ?M) b) k = binding ?M k"
      unfolding binding_merge [of other "as_mapping ?M"] M by (simp add: binding_merge Let_def)
  qed
  then show ?thesis
    using hard_or_soft(2) by (auto simp: Let_def binding_merge list_all_iff)
qed

text \<open>\<open>check_binding_conflicts\<close> and \<open>merge_binding_state\<close> agree. A proposal is accepted exactly when
  merging it would give every hard binding it names, so an accepted call never runs under another
  hard binding than it asked for.\<close>

theorem conflict_free_iff_merge_adopts:
  "fst (check_binding_conflicts other a p) \<longleftrightarrow>
     list_all (\<lambda>k. binding (normalize_bindings other p) k \<in> {None, binding (merge_binding_state other a p) k})
       HARD_BINDING_KEYS"
proof -
  have stripped: "binding (normalize_bindings other x) k \<noteq> Some []" for x k
    using binding_normalize_stripped by blast
  have mf: "List.map_filter f ks = [] \<longleftrightarrow> list_all (\<lambda>k. f k = None) ks" for f :: "string \<Rightarrow> (string \<times> string \<times> string) option" and ks
    by (induction ks) (auto simp: List.map_filter_simps split: option.split)
  have same: "(case (binding (normalize_bindings other a) k, binding (normalize_bindings other p) k) of
            (Some e, Some i) \<Rightarrow> if e \<noteq> [] \<and> i \<noteq> [] \<and> e \<noteq> i then Some (k, e, i) else None | _ \<Rightarrow> None) = None
      \<longleftrightarrow> binding (normalize_bindings other p) k \<in> {None, binding (merge_binding_state other a p) k}"
    if "k \<in> set HARD_BINDING_KEYS" for k
    using that hard_or_soft(2) stripped [of a k] stripped [of p k]
    by (auto simp: binding_merge Let_def split: option.split)
  have "fst (check_binding_conflicts other a p) \<longleftrightarrow>
      binding_conflicts (normalize_bindings other a) (normalize_bindings other p) = []"
    by (simp add: check_binding_conflicts_def Let_def)
  then show ?thesis
    unfolding binding_conflicts_def mf list_all_iff using same by blast
qed

lemma sub_unsafe_safe: "\<forall>c \<in> set s. run_id_char c \<Longrightarrow> sub_unsafe b s = s"
  by (induction s arbitrary: b) auto

lemma sub_unsafe_chars: "\<forall>c \<in> set (sub_unsafe b s). run_id_char c"
  by (induction s arbitrary: b) (auto simp: run_id_char_def)

lemma coerce_run_id_shape:
  "prefix ''run_'' (coerce_run_id fresh r t) \<and> (\<forall>c \<in> set (coerce_run_id fresh r t). run_id_char c)"
proof -
  have "\<forall>c \<in> set ''run_''. run_id_char c" by (simp add: run_id_char_def)
  then show ?thesis using sub_unsafe_chars by (auto simp: coerce_run_id_def Let_def)
qed

text \<open>Whatever the caller passes, a run id starts with \<open>run_\<close> and holds only the safe characters,
  and coercing a run id again changes nothing.\<close>

theorem run_id_safe_and_stable:
  "list_all run_id_char (coerce_run_id fresh r t) \<and> prefix ''run_'' (coerce_run_id fresh r t)
   \<and> coerce_run_id fresh' (Some (coerce_run_id fresh r t)) t' = coerce_run_id fresh r t"
proof -
  let ?x = "coerce_run_id fresh r t"
  have shape: "prefix ''run_'' ?x" "\<forall>c \<in> set ?x. run_id_char c" using coerce_run_id_shape by blast+
  have nospace: "\<not> py_isspace c" if "run_id_char c" for c
    using that by (auto simp: run_id_char_def py_isspace_def)
  have ne: "?x \<noteq> []" using shape(1) by (auto simp: prefix_def)
  have "py_strip ?x = ?x"
    by (rule py_strip_self [OF ne]) (use ne shape(2) nospace hd_in_set last_in_set in blast)+
  then have "coerce_run_id fresh' (Some ?x) t' = ?x"
    using shape ne sub_unsafe_safe [of ?x] by (simp add: coerce_run_id_def [of fresh'] Let_def)
  with shape show ?thesis by (simp add: list_all_iff)
qed

end
