(* ===== verification/Agent_Contracts.thy ===== *)
theory Agent_Contracts
  imports Bindings "HOL-Library.Product_Lexorder"
begin

text \<open>
  Tool contracts of the agent runtime, \<open>llm_client/agent/agent_contracts.py\<close>: capability
  requirements and the capability state, normalisation of contracts, conditional call modes and
  the validation of a tool call against what the run has produced so far.

  A normalised contract is a record with the keys of the normalised dictionary; sets of kinds
  are HOL sets made from lists. The iteration order of a Python set is the order of its list.
  \<open>sha\<close> is the hexadecimal SHA-256 of a text.
\<close>

section \<open>Capability requirements\<close>

record capability =
  cap_kind :: string
  cap_ref_type :: "string option"
  cap_namespace :: "string option"
  cap_hash :: "string option"

definition opt_set :: "string option \<Rightarrow> bool" where
  "opt_set t = (t \<noteq> None \<and> t \<noteq> Some [])"

definition opt_item :: "string \<Rightarrow> string option \<Rightarrow> (string \<times> string) list" where
  "opt_item k t = (if opt_set t then [(k, the t)] else [])"

definition cap_to_dict :: "capability \<Rightarrow> (string \<times> string) list" where
  "cap_to_dict c =
     (''kind'', cap_kind c) # opt_item ''ref_type'' (cap_ref_type c) @
     opt_item ''namespace'' (cap_namespace c) @ opt_item ''bindings_hash'' (cap_hash c)"

definition short_label :: "capability \<Rightarrow> string" where
  "short_label c =
     (let parts = (if opt_set (cap_ref_type c) then [''ref_type='' @ the (cap_ref_type c)] else []) @
                  (if opt_set (cap_namespace c) then [''namespace='' @ the (cap_namespace c)] else []) @
                  (if opt_set (cap_hash c) then [''bindings_hash='' @ take 12 (the (cap_hash c))] else [])
      in if parts = [] then cap_kind c else cap_kind c @ ''['' @ py_join '', '' parts @ '']'')"

definition kind_of_text :: "string \<Rightarrow> string option" where
  "kind_of_text s = (let u = py_upper (py_strip s) in if u = [] then None else Some u)"

definition normalize_artifact_kind :: "py \<Rightarrow> string option" where
  "normalize_artifact_kind v = (case v of PStr s \<Rightarrow> kind_of_text s | _ \<Rightarrow> None)"

definition value_of_text :: "string \<Rightarrow> string option" where
  "value_of_text s = (let u = py_strip s in if u = [] then None else Some u)"

definition normalize_capability_value :: "py \<Rightarrow> string option" where
  "normalize_capability_value v = (case v of PStr s \<Rightarrow> value_of_text s | _ \<Rightarrow> None)"

definition capability_requirement_from_raw :: "py \<Rightarrow> capability option" where
  "capability_requirement_from_raw raw =
     (case raw of
        PStr s \<Rightarrow>
          map_option (\<lambda>k. \<lparr>cap_kind = k, cap_ref_type = None, cap_namespace = None, cap_hash = None\<rparr>)
            (kind_of_text s)
      | PDict d \<Rightarrow>
          map_option (\<lambda>k. \<lparr>cap_kind = k,
                           cap_ref_type = normalize_capability_value (py_get raw ''ref_type''),
                           cap_namespace = normalize_capability_value (py_get raw ''namespace''),
                           cap_hash = normalize_capability_value (py_get raw ''bindings_hash'')\<rparr>)
            (normalize_artifact_kind (py_get raw ''kind''))
      | _ \<Rightarrow> None)"

text \<open>The elements of a list, tuple or set; other values have none.\<close>

fun seq_items :: "py \<Rightarrow> py list option" where
  "seq_items (PList xs) = Some xs"
| "seq_items (PTuple xs) = Some xs"
| "seq_items (PSet xs) = Some xs"
| "seq_items _ = None"

definition cap_key :: "capability \<Rightarrow> string \<times> string option \<times> string option \<times> string option" where
  "cap_key c = (cap_kind c, cap_ref_type c, cap_namespace c, cap_hash c)"

definition normalize_capability_requirements :: "py \<Rightarrow> capability list" where
  "normalize_capability_requirements raw =
     (case seq_items raw of
        None \<Rightarrow> []
      | Some xs \<Rightarrow> dedup_by cap_key [] (List.map_filter capability_requirement_from_raw xs))"

section \<open>Capability state\<close>

type_synonym cap_entry = "string option \<times> string option \<times> string option"

type_synonym cap_state = "(string \<times> cap_entry list) list"

text \<open>A bucket is a set, kept as a list without repetition. The flag says that the entry is new.\<close>

definition capability_state_add ::
  "cap_state \<Rightarrow> string option \<Rightarrow> string option \<Rightarrow> string option \<Rightarrow> string option \<Rightarrow> bool \<times> cap_state" where
  "capability_state_add state kind ref_type namespace bindings_hash =
     (case Option.bind kind kind_of_text of
        None \<Rightarrow> (False, state)
      | Some k \<Rightarrow>
          let bucket = (case dict_get state k of Some b \<Rightarrow> b | None \<Rightarrow> []);
              entry = (Option.bind ref_type value_of_text, Option.bind namespace value_of_text,
                       Option.bind bindings_hash value_of_text)
          in if entry \<in> set bucket then (False, dict_set k bucket state)
             else (True, dict_set k (bucket @ [entry]) state))"

definition entry_satisfies :: "capability \<Rightarrow> cap_entry \<Rightarrow> bool" where
  "entry_satisfies req e =
     (case e of (r, n, h) \<Rightarrow>
        (opt_set (cap_ref_type req) \<longrightarrow> cap_ref_type req = r) \<and>
        (opt_set (cap_namespace req) \<longrightarrow> cap_namespace req = n) \<and>
        (opt_set (cap_hash req) \<longrightarrow> cap_hash req = h))"

definition capability_state_has :: "cap_state \<Rightarrow> capability \<Rightarrow> bool" where
  "capability_state_has state req =
     (case dict_get state (cap_kind req) of None \<Rightarrow> False | Some bucket \<Rightarrow> list_ex (entry_satisfies req) bucket)"

definition or_empty :: "string option \<Rightarrow> string" where
  "or_empty t = (case t of Some s \<Rightarrow> s | None \<Rightarrow> [])"

definition capability_state_snapshot :: "cap_state \<Rightarrow> (string \<times> string) list list" where
  "capability_state_snapshot state =
     concat (map (\<lambda>k. map (\<lambda>(r, n, h). cap_to_dict
                             \<lparr>cap_kind = k, cap_ref_type = r, cap_namespace = n, cap_hash = h\<rparr>)
                       (sort_key (\<lambda>(r, n, h). (or_empty r, or_empty n, or_empty h))
                         (case dict_get state k of Some b \<Rightarrow> b | None \<Rightarrow> [])))
               (sort (map fst state)))"

definition may_agree :: "string option \<Rightarrow> string option \<Rightarrow> bool" where
  "may_agree required produced \<longleftrightarrow> \<not> (opt_set required \<and> opt_set produced \<and> required \<noteq> produced)"

definition capability_requirement_matches :: "capability \<Rightarrow> capability \<Rightarrow> bool" where
  "capability_requirement_matches produced required \<longleftrightarrow>
     cap_kind produced = cap_kind required \<and>
     may_agree (cap_ref_type required) (cap_ref_type produced) \<and>
     may_agree (cap_namespace required) (cap_namespace produced) \<and>
     may_agree (cap_hash required) (cap_hash produced)"

section \<open>Binding hashes and inferred capabilities\<close>

definition canonical_binding_spec :: "binding_dict \<Rightarrow> string list \<Rightarrow> binding_dict" where
  "canonical_binding_spec b keys = map (\<lambda>k. (k, binding b k)) keys"

text \<open>\<open>json.dumps\<close> of a binding dictionary: sorted keys, compact, without ASCII escapes.\<close>

definition json_char :: "char \<Rightarrow> string" where
  "json_char c =
     (let n = of_char c :: nat; bs = CHR 0x5C in
      if c = CHR 0x22 \<or> c = bs then [bs, c]
      else if n = 8 then [bs, CHR ''b''] else if n = 9 then [bs, CHR ''t''] else if n = 10 then [bs, CHR ''n'']
      else if n = 12 then [bs, CHR ''f''] else if n = 13 then [bs, CHR ''r'']
      else if n < 32 then [bs, CHR ''u'', CHR ''0'', CHR ''0'', hex_char (n div 16), hex_char (n mod 16)]
      else [c])"

definition json_str :: "string \<Rightarrow> string" where
  "json_str s = CHR 0x22 # concat (map json_char s) @ [CHR 0x22]"

definition json_spec :: "binding_dict \<Rightarrow> string" where
  "json_spec b =
     ''{'' @ py_join '','' (map (\<lambda>(k, v). json_str k @ '':'' @
        (case v of Some s \<Rightarrow> json_str s | None \<Rightarrow> ''null'')) (sort_key fst b)) @ ''}''"

definition binding_hash :: "(string \<Rightarrow> string) \<Rightarrow> binding_dict \<Rightarrow> string" where
  "binding_hash sha spec = sha (json_spec spec)"

definition hard_bindings_state_hash :: "(string \<Rightarrow> string) \<Rightarrow> binding_dict \<Rightarrow> string" where
  "hard_bindings_state_hash sha b = binding_hash sha (canonical_binding_spec b HARD_BINDING_KEYS)"

definition full_bindings_state_hash :: "(string \<Rightarrow> string) \<Rightarrow> binding_dict \<Rightarrow> string" where
  "full_bindings_state_hash sha b = binding_hash sha (canonical_binding_spec b BINDING_KEYS)"

definition namespace_from_bindings :: "binding_dict \<Rightarrow> string option" where
  "namespace_from_bindings b =
     (case filter (\<lambda>k. Option.bind (binding b k) value_of_text \<noteq> None)
             [''graph_id'', ''dataset_id'', ''scope_id'', ''corpus_id'', ''vector_store_id''] of
        [] \<Rightarrow> None
      | k # _ \<Rightarrow> Option.bind (binding b k) value_of_text)"

fun has_values :: "py \<Rightarrow> bool" where
  "has_values PNone = False"
| "has_values (PStr s) = (py_strip s \<noteq> [])"
| "has_values (PList xs) = list_ex has_values xs"
| "has_values (PTuple xs) = list_ex has_values xs"
| "has_values (PSet xs) = list_ex has_values xs"
| "has_values v = True"

definition arg_value :: "(string \<times> py) list \<Rightarrow> string \<Rightarrow> py" where
  "arg_value args k = (case dict_get args k of Some v \<Rightarrow> v | None \<Rightarrow> PNone)"

definition explicit_ref_type_from_args :: "string \<Rightarrow> mapping_arg \<Rightarrow> string option" where
  "explicit_ref_type_from_args kind args =
     (case args of
        None \<Rightarrow> None
      | Some m \<Rightarrow>
          let given = (\<lambda>a b. has_values (arg_value m a) \<or> has_values (arg_value m b)) in
          if kind = ''ENTITY_SET'' \<and> given ''entity_ids'' ''entity_id'' then Some ''id''
          else if kind = ''ENTITY_SET'' \<and> given ''entity_names'' ''entity_name'' then Some ''name''
          else if kind = ''CHUNK_SET'' \<and> given ''chunk_ids'' ''chunk_id'' then Some ''id''
          else None)"

definition infer_output_capabilities ::
  "(string \<Rightarrow> string) \<Rightarrow> string \<Rightarrow> mapping_arg \<Rightarrow> string set \<Rightarrow> binding_dict \<Rightarrow> capability list" where
  "infer_output_capabilities sha tool_name args produced b =
     map (\<lambda>kind.
            let explicit = explicit_ref_type_from_args kind args;
                ref_type = (if kind = ''CHUNK_SET'' \<and> py_contains ''chunk_get_text'' tool_name then Some ''fulltext''
                            else if kind = ''CHUNK_SET'' \<and> py_contains ''search'' tool_name \<and> explicit = None
                            then Some ''snippet'' else explicit)
            in \<lparr>cap_kind = kind, cap_ref_type = ref_type, cap_namespace = namespace_from_bindings b,
                cap_hash = Some (hard_bindings_state_hash sha b)\<rparr>)
       (sorted_list_of_set produced)"

text \<open>A dictionary value as a mapping argument.\<close>

definition to_mapping :: "py \<Rightarrow> mapping_arg" where
  "to_mapping v =
     (case v of
        PDict d \<Rightarrow> Some (List.map_filter (\<lambda>(k, x). case k of PStr s \<Rightarrow> Some (s, x) | _ \<Rightarrow> None) d)
      | _ \<Rightarrow> None)"

definition opt_or :: "string option \<Rightarrow> string option \<Rightarrow> string option" where
  "opt_or a b = (if opt_set a then a else b)"

definition artifact_capabilities_from_envelope ::
  "(py \<Rightarrow> string) \<Rightarrow> (string \<Rightarrow> string) \<Rightarrow> py \<Rightarrow> mapping_arg \<Rightarrow> capability list" where
  "artifact_capabilities_from_envelope other sha envelope fallback =
     (let bindings = normalize_bindings other (to_mapping (py_get envelope ''bindings''));
          effective = merge_binding_state other fallback (as_mapping bindings);
          namespace = namespace_from_bindings effective;
          default_hash = Some (hard_bindings_state_hash sha effective) in
      case py_get envelope ''capabilities'' of
        PList (c # cs) \<Rightarrow>
          dedup_by cap_key []
            (map (\<lambda>req. req\<lparr>cap_namespace := opt_or (cap_namespace req) namespace,
                             cap_hash := opt_or (cap_hash req) default_hash\<rparr>)
              (List.map_filter capability_requirement_from_raw (c # cs)))
      | _ \<Rightarrow>
          (case normalize_artifact_kind (py_get envelope ''artifact_type'') of
             None \<Rightarrow> []
           | Some k \<Rightarrow> [\<lparr>cap_kind = k, cap_ref_type = None, cap_namespace = namespace, cap_hash = default_hash\<rparr>]))"

record output_state =
  os_envelopes :: "py list"
  os_artifacts :: "string set"
  os_capabilities :: "capability list"
  os_artifact_ids :: "string list"
  os_bindings :: binding_dict

definition note_output ::
  "(py \<Rightarrow> string) \<Rightarrow> (string \<Rightarrow> string) \<Rightarrow> mapping_arg \<Rightarrow> output_state \<Rightarrow> py \<Rightarrow> output_state" where
  "note_output other sha fallback st e =
     st\<lparr>os_artifacts := (case normalize_artifact_kind (py_get e ''artifact_type'') of
                          Some k \<Rightarrow> insert k (os_artifacts st) | None \<Rightarrow> os_artifacts st),
        os_artifact_ids := (if envelope_id other e \<noteq> [] then os_artifact_ids st @ [envelope_id other e]
                            else os_artifact_ids st),
        os_bindings := merge_binding_state other (as_mapping (os_bindings st)) (to_mapping (py_get e ''bindings'')),
        os_capabilities := os_capabilities st @ artifact_capabilities_from_envelope other sha e fallback\<rparr>"

definition artifact_output_state_from_payload ::
  "(py \<Rightarrow> string) \<Rightarrow> (string \<Rightarrow> string) \<Rightarrow> (py \<Rightarrow> py option) \<Rightarrow> py \<Rightarrow> mapping_arg \<Rightarrow> output_state" where
  "artifact_output_state_from_payload other sha validate parsed fallback =
     (let envelopes = (case parsed of
                         PDict _ \<Rightarrow> extract_artifact_envelopes other validate parsed
                       | PList _ \<Rightarrow> extract_artifact_envelopes other validate parsed
                       | _ \<Rightarrow> [])
      in if envelopes = []
         then \<lparr>os_envelopes = [], os_artifacts = {}, os_capabilities = [], os_artifact_ids = [], os_bindings = []\<rparr>
         else foldl (note_output other sha fallback)
                \<lparr>os_envelopes = envelopes, os_artifacts = {}, os_capabilities = [], os_artifact_ids = [],
                 os_bindings = empty_bindings\<rparr> envelopes)"

end
