(* ===== verification/Tool_Contracts.thy ===== *)
theory Tool_Contracts
  imports Agent_Contracts
begin

text \<open>
  The second part of \<open>llm_client/agent/agent_contracts.py\<close>: normalised tool contracts, their call
  modes, artifact handles and the validation of one tool call.
\<close>

section \<open>Argument specifications\<close>

fun has_meaningful_arg_value :: "py \<Rightarrow> bool" where
  "has_meaningful_arg_value PNone = False"
| "has_meaningful_arg_value (PStr s) = (py_strip s \<noteq> [])"
| "has_meaningful_arg_value (PDict d) = (d \<noteq> [])"
| "has_meaningful_arg_value (PList xs) = list_ex has_meaningful_arg_value xs"
| "has_meaningful_arg_value (PTuple xs) = list_ex has_meaningful_arg_value xs"
| "has_meaningful_arg_value (PSet xs) = list_ex has_meaningful_arg_value xs"
| "has_meaningful_arg_value v = True"

definition stripped_text :: "py \<Rightarrow> string option" where
  "stripped_text v = (case v of PStr s \<Rightarrow> value_of_text s | _ \<Rightarrow> None)"

definition normalize_arg_name_list :: "py \<Rightarrow> string list" where
  "normalize_arg_name_list raw =
     (case seq_items raw of
        None \<Rightarrow> []
      | Some xs \<Rightarrow> dedup_by id [] (List.map_filter stripped_text xs))"

definition normalize_arg_equals_spec :: "(py \<Rightarrow> string) \<Rightarrow> py \<Rightarrow> (string \<times> string list) list" where
  "normalize_arg_equals_spec other raw =
     (case raw of
        PDict d \<Rightarrow>
          foldl (\<lambda>out (k, v).
                   case stripped_text k of
                     None \<Rightarrow> out
                   | Some name \<Rightarrow>
                       let candidates = (case seq_items v of Some xs \<Rightarrow> xs | None \<Rightarrow> [v]);
                           values = dedup_by id []
                             (List.map_filter (\<lambda>x. if x = PNone then None else value_of_text (py_str other x)) candidates)
                       in if values = [] then out else dict_set name values out) [] d
      | _ \<Rightarrow> [])"

record handle_spec =
  hi_arg :: string
  hi_inject_arg :: "string option"
  hi_representation :: string
  hi_accepts :: "capability list"

definition normalize_handle_input :: "(py \<Rightarrow> string) \<Rightarrow> py \<Rightarrow> handle_spec option" where
  "normalize_handle_input other item =
     (case item of
        PDict _ \<Rightarrow>
          (let arg = py_strip (py_str other (py_or (py_get item ''arg'') (PStr [])));
               rep = py_lower (py_strip (py_str other (py_or (py_get item ''representation'') (PStr ''envelope'')))) in
           if arg = [] then None
           else Some \<lparr>hi_arg = arg, hi_inject_arg = stripped_text (py_get item ''inject_arg''),
                      hi_representation = (if rep \<in> set [''envelope'', ''payload''] then rep else ''envelope''),
                      hi_accepts = normalize_capability_requirements
                        (py_or (py_or (py_get item ''accepts'') (py_get item ''accepts_capabilities''))
                           (py_get item ''requires''))\<rparr>)
      | _ \<Rightarrow> None)"

definition normalize_handle_input_specs :: "(py \<Rightarrow> string) \<Rightarrow> py \<Rightarrow> handle_spec list" where
  "normalize_handle_input_specs other raw =
     (case seq_items raw of None \<Rightarrow> [] | Some xs \<Rightarrow> List.map_filter (normalize_handle_input other) xs)"

definition normalize_handle_arg_values :: "(py \<Rightarrow> string) \<Rightarrow> py \<Rightarrow> string list" where
  "normalize_handle_arg_values other raw =
     (case raw of
        PStr s \<Rightarrow> (case value_of_text s of Some v \<Rightarrow> [v] | None \<Rightarrow> [])
      | _ \<Rightarrow>
          (case seq_items raw of
             None \<Rightarrow> []
           | Some xs \<Rightarrow> dedup_by id []
               (List.map_filter (\<lambda>x. value_of_text (py_str other (py_or x (PStr [])))) xs)))"

section \<open>Normalised contracts\<close>

record contract_fields =
  cf_requires_all_artifacts :: "string set"
  cf_requires_any_artifacts :: "string set"
  cf_requires_all_capabilities :: "capability list"
  cf_requires_any_capabilities :: "capability list"
  cf_produces_artifacts :: "string set"
  cf_produces_capabilities :: "capability list"
  cf_artifact_prereqs :: "string option"
  cf_artifact_prereqs_none :: bool
  cf_handle_inputs :: "handle_spec list"

record contract_mode =
  cm_fields :: contract_fields
  cm_name :: "string option"
  cm_present_any :: "string list"
  cm_present_all :: "string list"
  cm_arg_equals :: "(string \<times> string list) list"

record tool_contract =
  tc_fields :: contract_fields
  tc_is_control :: bool
  tc_call_modes :: "contract_mode list"

definition kinds_of :: "capability list \<Rightarrow> string set" where
  "kinds_of caps = set (map cap_kind caps)"

text \<open>\<open>spec.get("artifact_prereqs", "")\<close> is \<open>None\<close> when the key is there with the value \<open>None\<close>.\<close>

definition prereqs_value :: "py \<Rightarrow> py" where
  "prereqs_value spec =
     (case spec of
        PDict d \<Rightarrow> (case dict_get d (PStr ''artifact_prereqs'') of Some v \<Rightarrow> v | None \<Rightarrow> PStr [])
      | _ \<Rightarrow> PStr [])"

definition normalize_contract_spec_fields :: "(py \<Rightarrow> string) \<Rightarrow> py \<Rightarrow> contract_fields" where
  "normalize_contract_spec_fields other spec =
     (let all_caps = normalize_capability_requirements (py_get spec ''requires_all'') @
                     normalize_capability_requirements (py_get spec ''requires_all_capabilities'');
          any_caps = normalize_capability_requirements (py_get spec ''requires_any'') @
                     normalize_capability_requirements (py_get spec ''requires_any_capabilities'');
          produced = normalize_capability_requirements (py_get spec ''produces'') @
                     normalize_capability_requirements (py_get spec ''produces_capabilities'')
      in \<lparr>cf_requires_all_artifacts = kinds_of all_caps, cf_requires_any_artifacts = kinds_of any_caps,
          cf_requires_all_capabilities = all_caps, cf_requires_any_capabilities = any_caps,
          cf_produces_artifacts = kinds_of produced, cf_produces_capabilities = produced,
          cf_artifact_prereqs = (case py_get spec ''artifact_prereqs'' of
             PStr s \<Rightarrow> Some (py_lower (py_strip s)) | _ \<Rightarrow> None),
          cf_artifact_prereqs_none = (py_lower (py_strip (py_str other (prereqs_value spec))) = ''none''),
          cf_handle_inputs = normalize_handle_input_specs other (py_get spec ''handle_inputs'')\<rparr>)"

definition normalize_contract_mode :: "(py \<Rightarrow> string) \<Rightarrow> py \<Rightarrow> contract_mode option" where
  "normalize_contract_mode other raw =
     (case raw of
        PDict _ \<Rightarrow>
          Some \<lparr>cm_fields = normalize_contract_spec_fields other raw,
                cm_name = stripped_text (py_get raw ''name''),
                cm_present_any = normalize_arg_name_list (py_get raw ''when_args_present_any''),
                cm_present_all = normalize_arg_name_list (py_get raw ''when_args_present_all''),
                cm_arg_equals = normalize_arg_equals_spec other (py_get raw ''when_arg_equals'')\<rparr>
      | _ \<Rightarrow> None)"

text \<open>Iteration over \<open>raw or []\<close>; \<open>None\<close> is the \<open>TypeError\<close> of a value that is not iterable.\<close>

fun iter_or_empty :: "py \<Rightarrow> py list option" where
  "iter_or_empty (PList xs) = Some xs"
| "iter_or_empty (PTuple xs) = Some xs"
| "iter_or_empty (PSet xs) = Some xs"
| "iter_or_empty (PDict d) = Some (map fst d)"
| "iter_or_empty (PStr s) = Some (map (\<lambda>c. PStr [c]) s)"
| "iter_or_empty v = (if py_truthy v then None else Some [])"

definition normalize_tool_contract :: "(py \<Rightarrow> string) \<Rightarrow> py \<Rightarrow> tool_contract option" where
  "normalize_tool_contract other spec =
     map_option (\<lambda>modes.
        \<lparr>tc_fields = normalize_contract_spec_fields other spec,
         tc_is_control = py_truthy (py_get spec ''is_control''),
         tc_call_modes = List.map_filter (normalize_contract_mode other) modes\<rparr>)
       (iter_or_empty (py_get spec ''call_modes''))"

fun normalize_items ::
  "(py \<Rightarrow> string) \<Rightarrow> (py \<times> py) list \<Rightarrow> (string \<times> tool_contract) list \<Rightarrow> (string \<times> tool_contract) list option" where
  "normalize_items other [] out = Some out"
| "normalize_items other ((k, spec) # rest) out =
     (case (stripped_text k, spec) of
        (Some name, PDict _) \<Rightarrow>
          (case normalize_tool_contract other spec of
             None \<Rightarrow> None
           | Some c \<Rightarrow> normalize_items other rest (dict_set name c out))
      | _ \<Rightarrow> normalize_items other rest out)"

definition normalize_tool_contracts :: "(py \<Rightarrow> string) \<Rightarrow> py \<Rightarrow> (string \<times> tool_contract) list option" where
  "normalize_tool_contracts other raw =
     (case raw of PDict d \<Rightarrow> normalize_items other d [] | _ \<Rightarrow> Some [])"

section \<open>Call modes\<close>

definition contract_mode_matches :: "(py \<Rightarrow> string) \<Rightarrow> contract_mode \<Rightarrow> mapping_arg \<Rightarrow> bool" where
  "contract_mode_matches other mode args =
     (case args of
        None \<Rightarrow> False
      | Some m \<Rightarrow>
          list_all (\<lambda>n. has_meaningful_arg_value (arg_value m n)) (cm_present_all mode) \<and>
          (cm_present_any mode = [] \<or> list_ex (\<lambda>n. has_meaningful_arg_value (arg_value m n)) (cm_present_any mode)) \<and>
          list_all (\<lambda>(n, allowed).
             let v = arg_value m n; t = (if v = PNone then [] else py_strip (py_str other v))
             in t \<noteq> [] \<and> t \<in> set allowed) (cm_arg_equals mode) \<and>
          (cm_present_all mode \<noteq> [] \<or> cm_present_any mode \<noteq> [] \<or> cm_arg_equals mode \<noteq> []))"

fun first_mode ::
  "(py \<Rightarrow> string) \<Rightarrow> nat \<Rightarrow> contract_mode list \<Rightarrow> mapping_arg \<Rightarrow> (contract_fields \<times> string) option" where
  "first_mode other i [] args = None"
| "first_mode other i (m # ms) args =
     (if contract_mode_matches other m args
      then Some (cm_fields m, case cm_name m of Some n \<Rightarrow> n | None \<Rightarrow> ''mode_'' @ nat_digits (i + 1))
      else first_mode other (i + 1) ms args)"

definition resolve_contract_spec ::
  "(py \<Rightarrow> string) \<Rightarrow> tool_contract \<Rightarrow> mapping_arg \<Rightarrow> contract_fields \<times> string option" where
  "resolve_contract_spec other c args =
     (case first_mode other 0 (tc_call_modes c) args of
        Some (f, n) \<Rightarrow> (f, Some n)
      | None \<Rightarrow> (tc_fields c, None))"

definition contract_declares_no_artifact_prereqs :: "contract_fields \<Rightarrow> bool" where
  "contract_declares_no_artifact_prereqs f \<longleftrightarrow>
     (case cf_artifact_prereqs f of Some s \<Rightarrow> py_lower (py_strip s) = ''none'' | None \<Rightarrow> False)
     \<or> cf_artifact_prereqs_none f"

definition tool_declares_no_artifact_prereqs :: "tool_contract \<Rightarrow> bool" where
  "tool_declares_no_artifact_prereqs c \<longleftrightarrow>
     contract_declares_no_artifact_prereqs (tc_fields c) \<or>
     list_ex (\<lambda>m. cm_present_any m = [] \<and> cm_present_all m = [] \<and> cm_arg_equals m = [] \<and>
                  contract_declares_no_artifact_prereqs (cm_fields m)) (tc_call_modes c)"

definition effective_contract_requirements ::
  "(py \<Rightarrow> string) \<Rightarrow> tool_contract \<Rightarrow> mapping_arg \<Rightarrow> string set \<times> string set" where
  "effective_contract_requirements other c args =
     (let f = fst (resolve_contract_spec other c args) in
      if contract_declares_no_artifact_prereqs f then ({}, {})
      else (cf_requires_all_artifacts f, cf_requires_any_artifacts f))"

section \<open>Validation\<close>

record tool_call_validation =
  tv_is_valid :: bool
  tv_reason :: string
  tv_error_code :: "string option"
  tv_failure_phase :: "string option"
  tv_call_bindings :: binding_dict
  tv_missing :: "(string \<times> string) list list"
  tv_contract_mode :: "string option"

record event_codes =
  ec_missing_prerequisite :: string
  ec_missing_capability :: string
  ec_binding_conflict :: string

definition rejected ::
  "string \<Rightarrow> string \<Rightarrow> string \<Rightarrow> binding_dict \<Rightarrow> (string \<times> string) list list \<Rightarrow> string option \<Rightarrow> tool_call_validation" where
  "rejected reason code phase bindings missing mode =
     \<lparr>tv_is_valid = False, tv_reason = reason, tv_error_code = Some code, tv_failure_phase = Some phase,
      tv_call_bindings = bindings, tv_missing = missing, tv_contract_mode = mode\<rparr>"

definition accepted :: "binding_dict \<Rightarrow> string option \<Rightarrow> tool_call_validation" where
  "accepted bindings mode =
     \<lparr>tv_is_valid = True, tv_reason = [], tv_error_code = None, tv_failure_phase = None,
      tv_call_bindings = bindings, tv_missing = [], tv_contract_mode = mode\<rparr>"

type_synonym artifact_registry = "(string \<times> py) list"

definition handle_input_accepts_envelope ::
  "(py \<Rightarrow> string) \<Rightarrow> (string \<Rightarrow> string) \<Rightarrow> handle_spec \<Rightarrow> py \<Rightarrow> mapping_arg \<Rightarrow> bool" where
  "handle_input_accepts_envelope other sha spec envelope fallback \<longleftrightarrow>
     hi_accepts spec = [] \<or>
     list_ex (\<lambda>required. list_ex (\<lambda>produced. capability_requirement_matches produced required)
        (artifact_capabilities_from_envelope other sha envelope fallback)) (hi_accepts spec)"

definition registry_envelope :: "artifact_registry \<Rightarrow> string \<Rightarrow> py option" where
  "registry_envelope registry i =
     (case dict_get registry i of Some (PDict d) \<Rightarrow> Some (PDict d) | _ \<Rightarrow> None)"

fun validate_handle_inputs ::
  "(py \<Rightarrow> string) \<Rightarrow> (string \<Rightarrow> string) \<Rightarrow> event_codes \<Rightarrow> string \<Rightarrow> (string \<times> py) list \<Rightarrow> artifact_registry
     \<Rightarrow> mapping_arg \<Rightarrow> binding_dict \<Rightarrow> string option \<Rightarrow> handle_spec list \<Rightarrow> tool_call_validation option" where
  "validate_handle_inputs other sha codes tool args registry available bindings mode [] = None"
| "validate_handle_inputs other sha codes tool args registry available bindings mode (spec # specs) =
     (let ids = normalize_handle_arg_values other (arg_value args (hi_arg spec));
          missing = filter (\<lambda>i. registry_envelope registry i = None) ids;
          mismatch = filter (\<lambda>i. case registry_envelope registry i of
                                    None \<Rightarrow> False
                                  | Some e \<Rightarrow> \<not> handle_input_accepts_envelope other sha spec e available) ids in
      if missing \<noteq> []
      then Some (rejected (tool @ '' requires known runtime artifact handles in '' @ hi_arg spec @
                             ''; missing '' @ py_repr_strs missing)
                   (ec_missing_prerequisite codes) ''input_validation'' bindings
                   (map (\<lambda>i. [(''artifact_id'', i)]) missing) mode)
      else if mismatch \<noteq> []
      then Some (rejected (tool @ '' requires '' @ hi_arg spec @ '' handles compatible with '' @
                             (let e = py_join '', '' (map short_label (hi_accepts spec))
                              in if e = [] then ''declared artifact capabilities'' else e) @
                             ''; mismatched '' @ py_repr_strs mismatch)
                   (ec_missing_capability codes) ''input_validation'' bindings
                   (map cap_to_dict (hi_accepts spec)) mode)
      else validate_handle_inputs other sha codes tool args registry available bindings mode specs)"

definition validate_handle_input_specs ::
  "(py \<Rightarrow> string) \<Rightarrow> (string \<Rightarrow> string) \<Rightarrow> event_codes \<Rightarrow> string \<Rightarrow> contract_fields \<Rightarrow> mapping_arg
     \<Rightarrow> artifact_registry \<Rightarrow> mapping_arg \<Rightarrow> binding_dict \<Rightarrow> string option \<Rightarrow> tool_call_validation option" where
  "validate_handle_input_specs other sha codes tool f args registry available bindings mode =
     (case args of
        None \<Rightarrow> None
      | Some m \<Rightarrow> validate_handle_inputs other sha codes tool m registry available bindings mode
                    (cf_handle_inputs f))"

definition validate_requirements ::
  "event_codes \<Rightarrow> string \<Rightarrow> contract_fields \<Rightarrow> string set \<Rightarrow> string set \<Rightarrow> string set \<Rightarrow> cap_state
     \<Rightarrow> binding_dict \<Rightarrow> string option \<Rightarrow> tool_call_validation" where
  "validate_requirements codes tool f req_all req_any artifacts caps bindings mode =
     (let missing_all = sorted_list_of_set (req_all - artifacts);
          missing_caps = filter (\<lambda>r. \<not> capability_state_has caps r) (cf_requires_all_capabilities f);
          any_caps = cf_requires_any_capabilities f in
      if missing_all \<noteq> []
      then rejected (tool @ '' requires all of '' @ py_repr_strs (sorted_list_of_set req_all) @
                       ''; missing '' @ py_repr_strs missing_all)
             (ec_missing_prerequisite codes) ''input_validation'' bindings
             (map (\<lambda>k. [(''kind'', k)]) missing_all) mode
      else if req_any \<noteq> {} \<and> req_any \<inter> artifacts = {}
      then rejected (tool @ '' requires one of '' @ py_repr_strs (sorted_list_of_set req_any) @
                       ''; available '' @ py_repr_strs (sorted_list_of_set artifacts))
             (ec_missing_prerequisite codes) ''input_validation'' bindings
             (map (\<lambda>k. [(''kind'', k)]) (sorted_list_of_set req_any)) mode
      else if contract_declares_no_artifact_prereqs f then accepted bindings mode
      else if missing_caps \<noteq> []
      then rejected (tool @ '' missing required capabilities: '' @ py_join '', '' (map short_label missing_caps))
             (ec_missing_capability codes) ''input_validation'' bindings (map cap_to_dict missing_caps) mode
      else if any_caps \<noteq> [] \<and> \<not> list_ex (capability_state_has caps) any_caps
      then rejected (tool @ '' requires one capability from: '' @ py_join '', '' (map short_label any_caps))
             (ec_missing_capability codes) ''input_validation'' bindings (map cap_to_dict any_caps) mode
      else accepted bindings mode)"

definition validate_tool_contract_call ::
  "(py \<Rightarrow> string) \<Rightarrow> (string \<Rightarrow> string) \<Rightarrow> event_codes \<Rightarrow> string \<Rightarrow> tool_contract \<Rightarrow> mapping_arg \<Rightarrow> string set
     \<Rightarrow> cap_state \<Rightarrow> mapping_arg \<Rightarrow> artifact_registry \<Rightarrow> tool_call_validation" where
  "validate_tool_contract_call other sha codes tool c args artifacts caps available registry =
     (let call_bindings = extract_bindings_from_tool_args other args;
          (f, mode) = resolve_contract_spec other c args;
          (req_all, req_any) = effective_contract_requirements other c args in
      if tc_is_control c then accepted call_bindings mode
      else case (if call_bindings = [] then None
                 else case check_binding_conflicts other available (as_mapping call_bindings) of
                        (ok, reason, _, proposed) \<Rightarrow>
                          if ok then None
                          else Some (rejected reason (ec_binding_conflict codes) ''binding_validation''
                                       proposed [] mode)) of
        Some v \<Rightarrow> v
      | None \<Rightarrow>
          (case validate_handle_input_specs other sha codes tool f args registry available call_bindings mode of
             Some v \<Rightarrow> v
           | None \<Rightarrow> validate_requirements codes tool f req_all req_any artifacts caps call_bindings mode))"

definition contract_outputs :: "(py \<Rightarrow> string) \<Rightarrow> tool_contract \<Rightarrow> mapping_arg \<Rightarrow> string set" where
  "contract_outputs other c args = cf_produces_artifacts (fst (resolve_contract_spec other c args))"

definition contract_output_capabilities :: "(py \<Rightarrow> string) \<Rightarrow> tool_contract \<Rightarrow> mapping_arg \<Rightarrow> capability list" where
  "contract_output_capabilities other c args = cf_produces_capabilities (fst (resolve_contract_spec other c args))"

definition is_control_tool_name :: "string \<Rightarrow> (string \<times> tool_contract) list \<Rightarrow> bool" where
  "is_control_tool_name tool contracts =
     (case dict_get contracts tool of Some c \<Rightarrow> tc_is_control c | None \<Rightarrow> False)"

section \<open>Lemmas\<close>

text \<open>What the code establishes of a normalised contract: the sets of kinds come from the capabilities.\<close>

definition fields_ok :: "contract_fields \<Rightarrow> bool" where
  "fields_ok f \<longleftrightarrow>
     cf_requires_all_artifacts f = kinds_of (cf_requires_all_capabilities f) \<and>
     cf_requires_any_artifacts f = kinds_of (cf_requires_any_capabilities f) \<and>
     cf_produces_artifacts f = kinds_of (cf_produces_capabilities f)"

definition contract_ok :: "tool_contract \<Rightarrow> bool" where
  "contract_ok c \<longleftrightarrow> fields_ok (tc_fields c) \<and> (\<forall>m \<in> set (tc_call_modes c). fields_ok (cm_fields m))"

lemma normalize_fields_ok: "fields_ok (normalize_contract_spec_fields other spec)"
  by (simp add: fields_ok_def normalize_contract_spec_fields_def Let_def)

lemma normalize_tool_contract_ok: "normalize_tool_contract other spec = Some c \<Longrightarrow> contract_ok c"
  by (auto simp: normalize_tool_contract_def contract_ok_def normalize_fields_ok List.map_filter_def
      normalize_contract_mode_def split: py.splits)

lemma first_mode_in: "first_mode other i ms args = Some (f, n) \<Longrightarrow> \<exists>m \<in> set ms. f = cm_fields m"
  by (induction other i ms args rule: first_mode.induct) (auto split: if_splits)

lemma resolve_ok: "contract_ok c \<Longrightarrow> fields_ok (fst (resolve_contract_spec other c args))"
  by (auto simp: resolve_contract_spec_def contract_ok_def split: option.split dest!: first_mode_in)

lemma finite_kinds [simp]: "finite (kinds_of caps)"
  by (simp add: kinds_of_def)

lemma validate_handles_iff:
  "validate_handle_inputs other sha codes tool args registry available bindings mode specs = None \<longleftrightarrow>
     (\<forall>spec \<in> set specs. \<forall>i \<in> set (normalize_handle_arg_values other (arg_value args (hi_arg spec))).
        \<exists>e. registry_envelope registry i = Some e \<and> handle_input_accepts_envelope other sha spec e available)"
proof (induction specs)
  case (Cons spec specs)
  let ?ids = "normalize_handle_arg_values other (arg_value args (hi_arg spec))"
  have head: "(filter (\<lambda>i. registry_envelope registry i = None) ?ids = [] \<and>
      filter (\<lambda>i. case registry_envelope registry i of None \<Rightarrow> False
                  | Some e \<Rightarrow> \<not> handle_input_accepts_envelope other sha spec e available) ?ids = [])
    \<longleftrightarrow> (\<forall>i \<in> set ?ids. \<exists>e. registry_envelope registry i = Some e \<and>
          handle_input_accepts_envelope other sha spec e available)"
    unfolding filter_empty_conv by (auto split: option.splits)
  have "validate_handle_inputs other sha codes tool args registry available bindings mode (spec # specs) = None \<longleftrightarrow>
      (filter (\<lambda>i. registry_envelope registry i = None) ?ids = [] \<and>
       filter (\<lambda>i. case registry_envelope registry i of None \<Rightarrow> False
                  | Some e \<Rightarrow> \<not> handle_input_accepts_envelope other sha spec e available) ?ids = []) \<and>
      validate_handle_inputs other sha codes tool args registry available bindings mode specs = None"
    by (simp add: Let_def)
  then show ?case unfolding head Cons.IH by simp
qed simp

lemma handles_verdict_invalid:
  "validate_handle_inputs other sha codes tool args registry available bindings mode specs = Some v
     \<Longrightarrow> \<not> tv_is_valid v"
  by (induction specs) (auto simp: Let_def rejected_def split: if_splits)

text \<open>The requirements of resolved fields hold for the artifacts and capabilities at hand.\<close>

definition requirements_met :: "contract_fields \<Rightarrow> string set \<Rightarrow> cap_state \<Rightarrow> bool" where
  "requirements_met f artifacts caps \<longleftrightarrow>
     contract_declares_no_artifact_prereqs f \<or>
     (cf_requires_all_artifacts f \<subseteq> artifacts \<and>
      (cf_requires_any_artifacts f = {} \<or> cf_requires_any_artifacts f \<inter> artifacts \<noteq> {}) \<and>
      list_all (capability_state_has caps) (cf_requires_all_capabilities f) \<and>
      (cf_requires_any_capabilities f = [] \<or> list_ex (capability_state_has caps) (cf_requires_any_capabilities f)))"

lemma validate_requirements_iff:
  assumes "fields_ok f" and "req = (if contract_declares_no_artifact_prereqs f then ({}, {})
      else (cf_requires_all_artifacts f, cf_requires_any_artifacts f))"
  shows "tv_is_valid (validate_requirements codes tool f (fst req) (snd req) artifacts caps bindings mode)
    \<longleftrightarrow> requirements_met f artifacts caps"
proof -
  have fin: "finite (cf_requires_all_artifacts f - artifacts)" using assms(1) by (simp add: fields_ok_def)
  show ?thesis
    using assms(2) sorted_list_of_set_eq_Nil_iff [OF fin]
    by (auto simp: validate_requirements_def requirements_met_def Let_def rejected_def accepted_def
        filter_empty_conv list_all_iff list_ex_iff)
qed

section \<open>Properties\<close>

text \<open>C22: a tool call is accepted exactly when the tool is a control tool or all four hold: its bindings do
  not conflict with the hard bindings of the run, every artifact handle it names is known and offers one
  of the accepted capabilities, and the artifacts and capabilities that the mode selected by its arguments
  asks for are there, unless the contract declares that it has no artifact prerequisites.\<close>

theorem validate_accepts_iff:
  assumes "normalize_tool_contract other spec = Some c"
    and "f = fst (resolve_contract_spec other c args)"
  shows "tv_is_valid (validate_tool_contract_call other sha codes tool c args artifacts caps available registry)
    \<longleftrightarrow> tc_is_control c \<or>
        (extract_bindings_from_tool_args other args = [] \<or>
         fst (check_binding_conflicts other available (as_mapping (extract_bindings_from_tool_args other args)))) \<and>
        (case args of None \<Rightarrow> True | Some m \<Rightarrow>
           \<forall>h \<in> set (cf_handle_inputs f). \<forall>i \<in> set (normalize_handle_arg_values other (arg_value m (hi_arg h))).
             \<exists>e. registry_envelope registry i = Some e \<and> handle_input_accepts_envelope other sha h e available) \<and>
        requirements_met f artifacts caps"
proof -
  obtain mode where res: "resolve_contract_spec other c args = (f, mode)" using assms(2) by (metis prod.collapse)
  have ok: "fields_ok f" using resolve_ok [OF normalize_tool_contract_ok [OF assms(1)]] assms(2) by simp
  let ?req = "if contract_declares_no_artifact_prereqs f then ({}, {})
      else (cf_requires_all_artifacts f, cf_requires_any_artifacts f)"
  have eff: "effective_contract_requirements other c args = ?req"
    by (simp add: effective_contract_requirements_def res)
  note req = validate_requirements_iff [OF ok refl, of codes tool artifacts caps
      "extract_bindings_from_tool_args other args" mode]
  obtain bok reason cs proposed where chk: "check_binding_conflicts other available
      (as_mapping (extract_bindings_from_tool_args other args)) = (bok, reason, cs, proposed)"
    by (metis prod_cases4)
  show ?thesis
  proof (cases "tc_is_control c")
    case True
    then show ?thesis by (simp add: validate_tool_contract_call_def eff res Let_def accepted_def case_prod_unfold)
  next
    case ctl: False
    show ?thesis
    proof (cases "extract_bindings_from_tool_args other args = [] \<or> bok")
      case False
      then show ?thesis using ctl
        by (simp add: validate_tool_contract_call_def eff res chk Let_def rejected_def case_prod_unfold)
    next
      case True
      then have v: "validate_tool_contract_call other sha codes tool c args artifacts caps available registry =
          (case validate_handle_input_specs other sha codes tool f args registry available
             (extract_bindings_from_tool_args other args) mode of
             Some v \<Rightarrow> v
           | None \<Rightarrow> validate_requirements codes tool f (fst ?req) (snd ?req) artifacts caps
               (extract_bindings_from_tool_args other args) mode)"
        using ctl by (auto simp: validate_tool_contract_call_def eff res chk Let_def case_prod_unfold cong: option.case_cong)
      have "tv_is_valid (validate_tool_contract_call other sha codes tool c args artifacts caps available registry)
          \<longleftrightarrow> validate_handle_input_specs other sha codes tool f args registry available
             (extract_bindings_from_tool_args other args) mode = None \<and> requirements_met f artifacts caps"
        unfolding v using req handles_verdict_invalid
        by (auto simp: validate_handle_input_specs_def split: option.splits)
      then show ?thesis using ctl True chk
        by (auto simp: validate_handle_input_specs_def validate_handles_iff split: option.splits)
    qed
  qed
qed

definition demo_spec :: py where
  "demo_spec = PDict [(PStr ''requires_all'', PList [PStr ''entity_set'']), (PStr ''produces'', PList [PStr ''chunk_set''])]"

definition demo_contract :: tool_contract where
  "demo_contract = the (normalize_tool_contract (\<lambda>_. []) demo_spec)"

definition demo_codes :: event_codes where
  "demo_codes = \<lparr>ec_missing_prerequisite = ''PREREQ'', ec_missing_capability = ''CAP'', ec_binding_conflict = ''BIND''\<rparr>"

lemma demo_normalized: "normalize_tool_contract (\<lambda>_. []) demo_spec = Some demo_contract"
proof -
  have "normalize_tool_contract (\<lambda>_. []) demo_spec \<noteq> None"
    by (simp add: normalize_tool_contract_def demo_spec_def)
  then show ?thesis by (simp add: demo_contract_def)
qed

theorem validate_accepts_iff_witness:
  "\<not> tv_is_valid (validate_tool_contract_call (\<lambda>_. []) id demo_codes ''chunk_search'' demo_contract None {} [] None [])"
proof -
  have "tc_is_control demo_contract = False" by code_simp
  moreover have "cf_requires_all_capabilities (fst (resolve_contract_spec (\<lambda>_. []) demo_contract None)) \<noteq> []"
    by code_simp
  moreover have "\<not> contract_declares_no_artifact_prereqs (fst (resolve_contract_spec (\<lambda>_. []) demo_contract None))"
    by code_simp
  ultimately have "\<not> requirements_met (fst (resolve_contract_spec (\<lambda>_. []) demo_contract None)) {} []"
    by (auto simp: requirements_met_def capability_state_has_def list_all_iff neq_Nil_conv)
  with \<open>tc_is_control demo_contract = False\<close> show ?thesis
    using validate_accepts_iff [OF demo_normalized refl, of id demo_codes "''chunk_search''" None "{}" "[]" None "[]"]
    by simp
qed

text \<open>A null \<open>artifact_prereqs\<close> switches the requirements off. The key with the value \<open>None\<close> is read
  through \<open>str\<close>, whose text in lower case is the word that declares a tool self-contained: the call of a tool that
  requires an artifact is then accepted without it, and rejected when the key is absent.\<close>

theorem null_prereqs_bypass_requirements:
  "(case normalize_tool_contract (\<lambda>_. []) (PDict [(PStr ''requires_all'', PList [PStr ''ENTITY_SET'']),
                                               (PStr ''artifact_prereqs'', PNone)]) of
      None \<Rightarrow> False
    | Some c \<Rightarrow> tv_is_valid (validate_tool_contract_call (\<lambda>_. []) id demo_codes ''t'' c None (set []) [] None []))
   \<and> (case normalize_tool_contract (\<lambda>_. []) (PDict [(PStr ''requires_all'', PList [PStr ''ENTITY_SET''])]) of
      None \<Rightarrow> False
    | Some c \<Rightarrow> \<not> tv_is_valid (validate_tool_contract_call (\<lambda>_. []) id demo_codes ''t'' c None (set []) [] None []))"
  by code_simp

end
