(* ===== verification/Production_Systems.thy ===== *)
theory Production_Systems
  imports Main
begin

text \<open>
  The abstract contract of two analyses of the agent code: productions that fire on a set of facts and
  add their own, visited in passes until nothing changes. The lane closure of the tool contracts and
  the cycle test of the planner are instances.
\<close>

section \<open>Production systems\<close>

text \<open>
  A tool fires on a set of facts and adds its own. \<open>produce\<close> visits the tools in order once;
  a set is closed when no tool that can fire would add anything.
\<close>

fun produce :: "('n \<Rightarrow> 's set \<Rightarrow> bool) \<Rightarrow> ('n \<Rightarrow> 's set) \<Rightarrow> 'n list \<Rightarrow> 's set \<Rightarrow> 's set" where
  "produce fires outs [] S = S"
| "produce fires outs (n # ns) S = produce fires outs ns (if fires n S then S \<union> outs n else S)"

fun produce_rounds :: "('n \<Rightarrow> 's set \<Rightarrow> bool) \<Rightarrow> ('n \<Rightarrow> 's set) \<Rightarrow> 'n list \<Rightarrow> nat \<Rightarrow> 's set \<Rightarrow> 's set" where
  "produce_rounds fires outs ns 0 S = S"
| "produce_rounds fires outs ns (Suc k) S =
     (let S' = produce fires outs ns S in if S' = S then S else produce_rounds fires outs ns k S')"

definition closed_under :: "('n \<Rightarrow> 's set \<Rightarrow> bool) \<Rightarrow> ('n \<Rightarrow> 's set) \<Rightarrow> 'n list \<Rightarrow> 's set \<Rightarrow> bool" where
  "closed_under fires outs ns S \<longleftrightarrow> (\<forall>n \<in> set ns. fires n S \<longrightarrow> outs n \<subseteq> S)"

locale production =
  fixes fires :: "'n \<Rightarrow> 's set \<Rightarrow> bool" and outs :: "'n \<Rightarrow> 's set"
  assumes fires_mono: "fires n S \<Longrightarrow> S \<subseteq> T \<Longrightarrow> fires n T"
begin

lemma produce_grows: "S \<subseteq> produce fires outs ns S"
  by (induction ns arbitrary: S) (auto, blast+)

lemma produce_below:
  "S \<subseteq> T \<Longrightarrow> closed_under fires outs ns T \<Longrightarrow> produce fires outs ns S \<subseteq> T"
proof (induction ns arbitrary: S)
  case (Cons n ns)
  then have "closed_under fires outs ns T" by (simp add: closed_under_def)
  moreover have "(if fires n S then S \<union> outs n else S) \<subseteq> T"
    using Cons.prems fires_mono [of n S T] by (auto simp: closed_under_def)
  ultimately show ?case using Cons.IH by simp
qed simp

lemma produce_fixed_closed:
  assumes "produce fires outs ns S = S"
  shows "closed_under fires outs ns S"
  using assms
proof (induction ns)
  case (Cons n ns)
  let ?S = "if fires n S then S \<union> outs n else S"
  have "?S \<subseteq> S" using Cons.prems produce_grows [of ?S ns] by simp
  then have n: "fires n S \<longrightarrow> outs n \<subseteq> S" and "?S = S" by (auto split: if_splits)
  then have "produce fires outs ns S = S" using Cons.prems by simp
  with Cons.IH n show ?case by (simp add: closed_under_def)
qed (simp add: closed_under_def)

text \<open>A pass that adds something completes the outputs of a tool that were not complete.\<close>

lemma produce_progress:
  assumes "produce fires outs ns S \<noteq> S"
  shows "\<exists>n \<in> set ns. \<not> outs n \<subseteq> S \<and> outs n \<subseteq> produce fires outs ns S"
  using assms
proof (induction ns arbitrary: S)
  case (Cons n ns)
  let ?S = "if fires n S then S \<union> outs n else S"
  show ?case
  proof (cases "?S = S")
    case True
    with Cons show ?thesis by auto
  next
    case False
    then have "\<not> outs n \<subseteq> S" "outs n \<subseteq> ?S" by (auto split: if_splits)
    with produce_grows [of ?S ns] show ?thesis by (intro bexI [of _ n]) auto
  qed
qed simp

definition open_tools :: "'n list \<Rightarrow> 's set \<Rightarrow> nat" where
  "open_tools ns S = card {n \<in> set ns. \<not> outs n \<subseteq> S}"

lemma open_tools_decrease:
  assumes "produce fires outs ns S \<noteq> S"
  shows "open_tools ns (produce fires outs ns S) < open_tools ns S"
  unfolding open_tools_def
proof (rule psubset_card_mono)
  show "{n \<in> set ns. \<not> outs n \<subseteq> produce fires outs ns S} \<subset> {n \<in> set ns. \<not> outs n \<subseteq> S}"
    using produce_progress [OF assms] produce_grows [of S ns] by blast
qed simp

lemma produce_rounds_closed:
  "open_tools ns S < k \<Longrightarrow> closed_under fires outs ns (produce_rounds fires outs ns k S)"
proof (induction k arbitrary: S)
  case (Suc k)
  show ?case
  proof (cases "produce fires outs ns S = S")
    case True
    then show ?thesis by (simp add: produce_fixed_closed)
  next
    case False
    then have "open_tools ns (produce fires outs ns S) < k" using open_tools_decrease Suc.prems by fastforce
    with Suc.IH False show ?thesis by (simp add: Let_def)
  qed
qed simp

lemma produce_rounds_grows: "S \<subseteq> produce_rounds fires outs ns k S"
proof (induction k arbitrary: S)
  case (Suc k)
  then show ?case using produce_grows [of S ns] by (auto simp: Let_def)
qed simp

lemma produce_rounds_least:
  "S \<subseteq> T \<Longrightarrow> closed_under fires outs ns T \<Longrightarrow> produce_rounds fires outs ns k S \<subseteq> T"
proof (induction k arbitrary: S)
  case (Suc k)
  then show ?case using produce_below by (simp add: Let_def)
qed simp

text \<open>Twice as many rounds as there are tools, and at least one, are enough.\<close>

lemma enough_rounds: "open_tools ns S < max 1 (length ns * 2)"
proof -
  have "open_tools ns S \<le> length ns"
    unfolding open_tools_def by (rule order_trans [OF card_mono card_length [of ns]]) auto
  then show ?thesis by (cases ns) auto
qed

end

end
