(* ===== verification/Lane_Closure.thy ===== *)
theory Lane_Closure
  imports Tool_Contracts Production_Systems
begin

text \<open>
  The advisory analyses of \<open>llm_client/agent/agent_contracts.py\<close>: which tools could repair a rejected
  call, and the closure of what the tools of a lane can produce. The closure is related to an
  abstract production system, the locale \<open>production\<close>, of which it is an instance.
\<close>

section \<open>Repair tools\<close>

definition legal_now ::
  "(py \<Rightarrow> string) \<Rightarrow> (string \<Rightarrow> string) \<Rightarrow> event_codes \<Rightarrow> mapping_arg \<Rightarrow> string set \<Rightarrow> cap_state
     \<Rightarrow> string \<Rightarrow> tool_contract \<Rightarrow> tool_call_validation" where
  "legal_now other sha codes available artifacts caps tool c =
     validate_tool_contract_call other sha codes tool c None artifacts caps available []"

definition can_repair :: "(py \<Rightarrow> string) \<Rightarrow> capability list \<Rightarrow> tool_contract \<Rightarrow> bool" where
  "can_repair other required c \<longleftrightarrow>
     list_ex (\<lambda>req. list_ex (\<lambda>p. capability_requirement_matches p req) (contract_output_capabilities other c None)
                    \<or> cap_kind req \<in> contract_outputs other c None) required"

definition same_or_open :: "string option \<Rightarrow> string option \<Rightarrow> bool" where
  "same_or_open req produced \<longleftrightarrow> req = None \<or> produced = None \<or> produced = req"

definition exact_capability_match :: "(py \<Rightarrow> string) \<Rightarrow> capability list \<Rightarrow> tool_contract \<Rightarrow> int" where
  "exact_capability_match other required c =
     (if list_ex (\<lambda>req. list_ex (\<lambda>p. cap_kind p = cap_kind req \<and> same_or_open (cap_ref_type req) (cap_ref_type p) \<and>
            same_or_open (cap_namespace req) (cap_namespace p) \<and> same_or_open (cap_hash req) (cap_hash p))
          (contract_output_capabilities other c None)) required
      then 0 else 1)"

type_synonym rank = "int \<times> int \<times> int \<times> int \<times> int \<times> int \<times> string"

definition repair_rank :: "(py \<Rightarrow> string) \<Rightarrow> capability list \<Rightarrow> string \<Rightarrow> tool_contract \<Rightarrow> rank" where
  "repair_rank other required tool c =
     (let req_all = cf_requires_all_artifacts (tc_fields c); req_any = cf_requires_any_artifacts (tc_fields c) in
      (if list_ex (\<lambda>r. cap_kind r \<in> req_all) required then 1 else 0,
       if ''QUERY_TEXT'' \<in> req_all \<or> ''QUERY_TEXT'' \<in> req_any then 0 else 1,
       if py_contains ''search'' tool then 0 else 1,
       exact_capability_match other required c,
       if py_any_in [''aggregator'', ''score'', ''optimize''] tool then 1 else 0,
       int (card req_all) + (if req_any \<noteq> {} then 1 else 0) + (if py_contains ''get_text'' tool then 1 else 0),
       tool))"

definition find_repair_tools ::
  "(py \<Rightarrow> string) \<Rightarrow> (string \<Rightarrow> string) \<Rightarrow> event_codes \<Rightarrow> string \<Rightarrow> py list \<Rightarrow> (string \<times> tool_contract) list
     \<Rightarrow> string set \<Rightarrow> cap_state \<Rightarrow> mapping_arg \<Rightarrow> int \<Rightarrow> string list" where
  "find_repair_tools other sha codes current missing contracts artifacts caps available max_tools =
     (let required = List.map_filter capability_requirement_from_raw missing in
      if max_tools \<le> 0 \<or> required = [] then []
      else
        let candidates = List.map_filter
              (\<lambda>tool. if tool = current then None
                      else case dict_get contracts tool of
                        None \<Rightarrow> None
                      | Some c \<Rightarrow>
                          if tc_is_control c \<or> \<not> can_repair other required c
                             \<or> \<not> tv_is_valid (legal_now other sha codes available artifacts caps tool c)
                          then None else Some (repair_rank other required tool c, tool))
              (sort (map fst contracts))
        in take (nat max_tools) (map snd (sort_key fst candidates)))"

section \<open>Lane closure\<close>

fun add_capabilities :: "capability list \<Rightarrow> bool \<times> cap_state \<Rightarrow> bool \<times> cap_state" where
  "add_capabilities [] st = st"
| "add_capabilities (c # cs) (changed, state) =
     (case capability_state_add state (Some (cap_kind c)) (cap_ref_type c) (cap_namespace c) (cap_hash c) of
        (new, state') \<Rightarrow> add_capabilities cs (changed \<or> new, state'))"

type_synonym lane_state = "string set \<times> cap_state"

definition closure_visit ::
  "(py \<Rightarrow> string) \<Rightarrow> (string \<Rightarrow> string) \<Rightarrow> event_codes \<Rightarrow> mapping_arg \<Rightarrow> (string \<times> tool_contract) list
     \<Rightarrow> string \<Rightarrow> bool \<times> lane_state \<Rightarrow> bool \<times> lane_state" where
  "closure_visit other sha codes available contracts tool st =
     (case st of (changed, artifacts, caps) \<Rightarrow>
        (case dict_get contracts tool of
           None \<Rightarrow> st
         | Some c \<Rightarrow>
             if tc_is_control c then st
             else if \<not> tv_is_valid (legal_now other sha codes available artifacts caps tool c) then st
             else
               let outs = contract_outputs other c None in
               (case add_capabilities (contract_output_capabilities other c None)
                       (changed \<or> \<not> outs \<subseteq> artifacts, caps) of
                  (changed', caps') \<Rightarrow> (changed', artifacts \<union> outs, caps'))))"

fun closure_pass ::
  "(py \<Rightarrow> string) \<Rightarrow> (string \<Rightarrow> string) \<Rightarrow> event_codes \<Rightarrow> mapping_arg \<Rightarrow> (string \<times> tool_contract) list
     \<Rightarrow> string list \<Rightarrow> bool \<times> lane_state \<Rightarrow> bool \<times> lane_state" where
  "closure_pass other sha codes available contracts [] st = st"
| "closure_pass other sha codes available contracts (t # ts) st =
     closure_pass other sha codes available contracts ts
       (closure_visit other sha codes available contracts t st)"

fun closure_rounds ::
  "(py \<Rightarrow> string) \<Rightarrow> (string \<Rightarrow> string) \<Rightarrow> event_codes \<Rightarrow> mapping_arg \<Rightarrow> (string \<times> tool_contract) list
     \<Rightarrow> nat \<Rightarrow> lane_state \<Rightarrow> lane_state" where
  "closure_rounds other sha codes available contracts 0 st = st"
| "closure_rounds other sha codes available contracts (Suc n) st =
     (case closure_pass other sha codes available contracts (sort (map fst contracts)) (False, st) of
        (changed, st') \<Rightarrow>
          if changed then closure_rounds other sha codes available contracts n st' else st')"

record unresolved_tool =
  ut_tool :: string
  ut_error_code :: "string option"
  ut_missing :: "(string \<times> string) list list"

record lane_analysis =
  la_lane_closed :: bool
  la_reachable_artifacts :: "string list"
  la_reachable_capabilities :: "(string \<times> string) list list"
  la_unresolved :: "unresolved_tool list"

definition unresolved_tools ::
  "(py \<Rightarrow> string) \<Rightarrow> (string \<Rightarrow> string) \<Rightarrow> event_codes \<Rightarrow> mapping_arg \<Rightarrow> (string \<times> tool_contract) list
     \<Rightarrow> lane_state \<Rightarrow> unresolved_tool list" where
  "unresolved_tools other sha codes available contracts st =
     List.map_filter
       (\<lambda>tool. case dict_get contracts tool of
                 None \<Rightarrow> None
               | Some c \<Rightarrow>
                   if tc_is_control c then None
                   else let v = legal_now other sha codes available (fst st) (snd st) tool c in
                        if tv_is_valid v then None
                        else Some \<lparr>ut_tool = tool, ut_error_code = tv_error_code v, ut_missing = tv_missing v\<rparr>)
       (sort (map fst contracts))"

definition closure_state ::
  "(py \<Rightarrow> string) \<Rightarrow> (string \<Rightarrow> string) \<Rightarrow> event_codes \<Rightarrow> mapping_arg \<Rightarrow> (string \<times> tool_contract) list
     \<Rightarrow> lane_state \<Rightarrow> lane_state" where
  "closure_state other sha codes available contracts st =
     closure_rounds other sha codes available contracts (max 1 (length contracts * 2)) st"

definition analyze_lane_closure ::
  "(py \<Rightarrow> string) \<Rightarrow> (string \<Rightarrow> string) \<Rightarrow> event_codes \<Rightarrow> (string \<times> tool_contract) list \<Rightarrow> string set
     \<Rightarrow> cap_state \<Rightarrow> mapping_arg \<Rightarrow> lane_analysis" where
  "analyze_lane_closure other sha codes contracts artifacts caps available =
     (let st = closure_state other sha codes available contracts (artifacts, caps);
          un = unresolved_tools other sha codes available contracts st
      in \<lparr>la_lane_closed = (un = []), la_reachable_artifacts = sorted_list_of_set (fst st),
          la_reachable_capabilities = capability_state_snapshot (snd st), la_unresolved = un\<rparr>)"

section \<open>The lane as a production system\<close>

datatype lane_fact = Artifact string | Capab "string \<times> cap_entry"

definition cap_set :: "cap_state \<Rightarrow> (string \<times> cap_entry) set" where
  "cap_set C = {(k, e). \<exists>b. dict_get C k = Some b \<and> e \<in> set b}"

definition lane_facts :: "lane_state \<Rightarrow> lane_fact set" where
  "lane_facts st = Artifact ` fst st \<union> Capab ` cap_set (snd st)"

definition fact_has :: "lane_fact set \<Rightarrow> capability \<Rightarrow> bool" where
  "fact_has S req \<longleftrightarrow> (\<exists>e. Capab (cap_kind req, e) \<in> S \<and> entry_satisfies req e)"

definition fields_fire :: "contract_fields \<Rightarrow> lane_fact set \<Rightarrow> bool" where
  "fields_fire f S \<longleftrightarrow>
     contract_declares_no_artifact_prereqs f \<or>
     ((\<forall>a \<in> cf_requires_all_artifacts f. Artifact a \<in> S) \<and>
      (cf_requires_any_artifacts f = {} \<or> (\<exists>a \<in> cf_requires_any_artifacts f. Artifact a \<in> S)) \<and>
      (\<forall>r \<in> set (cf_requires_all_capabilities f). fact_has S r) \<and>
      (cf_requires_any_capabilities f = [] \<or> (\<exists>r \<in> set (cf_requires_any_capabilities f). fact_has S r)))"

definition cap_fact :: "capability \<Rightarrow> (string \<times> cap_entry) option" where
  "cap_fact c =
     map_option (\<lambda>k. (k, (Option.bind (cap_ref_type c) value_of_text,
                           Option.bind (cap_namespace c) value_of_text,
                           Option.bind (cap_hash c) value_of_text)))
       (kind_of_text (cap_kind c))"

definition lane_fires :: "(string \<times> tool_contract) list \<Rightarrow> string \<Rightarrow> lane_fact set \<Rightarrow> bool" where
  "lane_fires contracts tool S =
     (case dict_get contracts tool of
        None \<Rightarrow> False
      | Some c \<Rightarrow> \<not> tc_is_control c \<and> fields_fire (tc_fields c) S)"

definition lane_outs :: "(string \<times> tool_contract) list \<Rightarrow> string \<Rightarrow> lane_fact set" where
  "lane_outs contracts tool =
     (case dict_get contracts tool of
        None \<Rightarrow> {}
      | Some c \<Rightarrow> Artifact ` cf_produces_artifacts (tc_fields c) \<union>
                  Capab ` set (List.map_filter cap_fact (cf_produces_capabilities (tc_fields c))))"

interpretation lane: production "lane_fires contracts" "lane_outs contracts" for contracts
proof
  fix n and S T :: "lane_fact set"
  assume "lane_fires contracts n S" and "S \<subseteq> T"
  moreover have "fact_has S r \<Longrightarrow> fact_has T r" for r using \<open>S \<subseteq> T\<close> by (auto simp: fact_has_def)
  ultimately show "lane_fires contracts n T"
    by (fastforce simp: lane_fires_def fields_fire_def split: option.splits)
qed

lemma resolve_none: "resolve_contract_spec other c None = (tc_fields c, None)"
proof -
  have "first_mode other i ms None = None" for i ms
    by (induction ms arbitrary: i) (auto simp: contract_mode_matches_def)
  then show ?thesis by (simp add: resolve_contract_spec_def)
qed

lemma lane_facts_iff [simp]:
  "Artifact a \<in> lane_facts (A, C) \<longleftrightarrow> a \<in> A"
  "Capab (k, e) \<in> lane_facts (A, C) \<longleftrightarrow> (\<exists>b. dict_get C k = Some b \<and> e \<in> set b)"
  by (auto simp: lane_facts_def cap_set_def)

lemma has_iff_fact: "capability_state_has C r \<longleftrightarrow> fact_has (lane_facts (A, C)) r"
  unfolding capability_state_has_def fact_has_def lane_facts_iff list_ex_iff
  by (auto split: option.split)

lemma requirements_met_iff: "requirements_met f A C \<longleftrightarrow> fields_fire f (lane_facts (A, C))"
  unfolding requirements_met_def fields_fire_def has_iff_fact [of C _ A] list_all_iff list_ex_iff lane_facts_iff
  by blast

lemma legal_now_iff:
  assumes "contract_ok c"
  shows "tv_is_valid (legal_now other sha codes available A C tool c) \<longleftrightarrow>
    tc_is_control c \<or> fields_fire (tc_fields c) (lane_facts (A, C))"
proof -
  have ok: "fields_ok (tc_fields c)" using assms by (simp add: contract_ok_def)
  have "effective_contract_requirements other c None =
      (if contract_declares_no_artifact_prereqs (tc_fields c) then ({}, {})
       else (cf_requires_all_artifacts (tc_fields c), cf_requires_any_artifacts (tc_fields c)))"
    by (simp add: effective_contract_requirements_def resolve_none Let_def)
  note req = validate_requirements_iff [OF ok this, of codes tool A C "[]" None]
  show ?thesis
    using req
    by (simp add: legal_now_def validate_tool_contract_call_def resolve_none extract_bindings_from_tool_args_def
        validate_handle_input_specs_def Let_def case_prod_unfold requirements_met_iff accepted_def)
qed

lemma capability_state_add_facts:
  assumes "capability_state_add C (Some (cap_kind c)) (cap_ref_type c) (cap_namespace c) (cap_hash c) = (new, C')"
  shows "cap_set C' = cap_set C \<union> set_option (cap_fact c) \<and> (new \<longleftrightarrow> \<not> set_option (cap_fact c) \<subseteq> cap_set C)"
  using assms
  by (auto simp: capability_state_add_def cap_fact_def cap_set_def Let_def py_simps
      split: option.splits if_splits)

lemma add_capabilities_facts:
  assumes "add_capabilities cs (ch, C) = (ch', C')"
  shows "cap_set C' = cap_set C \<union> set (List.map_filter cap_fact cs) \<and>
    (ch' \<longleftrightarrow> ch \<or> \<not> set (List.map_filter cap_fact cs) \<subseteq> cap_set C)"
  using assms
proof (induction cs arbitrary: ch C)
  case (Cons c cs)
  obtain new C1 where add: "capability_state_add C (Some (cap_kind c)) (cap_ref_type c) (cap_namespace c) (cap_hash c)
      = (new, C1)" by fastforce
  then have "add_capabilities cs (ch \<or> new, C1) = (ch', C')" using Cons.prems by simp
  then show ?case
    using Cons.IH [of "ch \<or> new" C1] capability_state_add_facts [OF add]
    by (cases "cap_fact c") (auto simp: List.map_filter_simps)
qed (simp add: List.map_filter_simps)

lemma lane_facts_eq_iff:
  "lane_facts (A', C') = lane_facts (A, C) \<longleftrightarrow> A' = A \<and> cap_set C' = cap_set C"
proof -
  have "A = {a. Artifact a \<in> lane_facts (A, C)}" "cap_set C = {p. Capab p \<in> lane_facts (A, C)}" for A C
    by (auto simp: cap_set_def)
  then show ?thesis by (metis fst_conv lane_facts_def snd_conv)
qed

lemma closure_visit_refines:
  assumes "\<And>c. dict_get contracts tool = Some c \<Longrightarrow> contract_ok c"
    and "closure_visit other sha codes available contracts tool (ch, st) = (ch', st')"
  shows "lane_facts st' = (if lane_fires contracts tool (lane_facts st)
      then lane_facts st \<union> lane_outs contracts tool else lane_facts st)
    \<and> (ch' \<longleftrightarrow> ch \<or> lane_facts st' \<noteq> lane_facts st)"
proof -
  obtain A C where st: "st = (A, C)" by fastforce
  show ?thesis
  proof (cases "lane_fires contracts tool (lane_facts st)")
    case False
    then have "(ch', st') = (ch, st)"
      using assms legal_now_iff by (auto simp: closure_visit_def lane_fires_def st split: option.splits if_splits)
    with False show ?thesis by simp
  next
    case True
    then obtain c where c: "dict_get contracts tool = Some c" "\<not> tc_is_control c"
        "fields_fire (tc_fields c) (lane_facts st)"
      by (auto simp: lane_fires_def split: option.splits)
    let ?outs = "cf_produces_artifacts (tc_fields c)" and ?caps = "cf_produces_capabilities (tc_fields c)"
    obtain ch1 C1 where add: "add_capabilities ?caps (ch \<or> \<not> ?outs \<subseteq> A, C) = (ch1, C1)" by fastforce
    have "tv_is_valid (legal_now other sha codes available A C tool c)"
      using legal_now_iff assms(1) c st by blast
    then have "(ch', st') = (ch1, A \<union> ?outs, C1)"
      using assms(2) c add
      by (simp add: closure_visit_def st contract_outputs_def contract_output_capabilities_def resolve_none Let_def)
    moreover have "lane_facts (A \<union> ?outs, C1) = lane_facts (A, C) \<union> lane_outs contracts tool"
      using add_capabilities_facts [OF add] c(1) by (auto simp: lane_facts_def lane_outs_def)
    moreover have "ch1 \<longleftrightarrow> ch \<or> lane_facts (A \<union> ?outs, C1) \<noteq> lane_facts (A, C)"
      using add_capabilities_facts [OF add] unfolding lane_facts_eq_iff by blast
    ultimately show ?thesis using True by (simp add: st)
  qed
qed

lemma closure_pass_refines:
  assumes "\<And>tool c. dict_get contracts tool = Some c \<Longrightarrow> contract_ok c"
    and "closure_pass other sha codes available contracts ts (ch, st) = (ch', st')"
  shows "lane_facts st' = produce (lane_fires contracts) (lane_outs contracts) ts (lane_facts st)
    \<and> (ch' \<longleftrightarrow> ch \<or> lane_facts st' \<noteq> lane_facts st)"
  using assms(2)
proof (induction ts arbitrary: ch st)
  case (Cons t ts)
  obtain ch1 st1 where v: "closure_visit other sha codes available contracts t (ch, st) = (ch1, st1)" by (metis surj_pair)
  then have "closure_pass other sha codes available contracts ts (ch1, st1) = (ch', st')" using Cons.prems by simp
  note ih = Cons.IH [OF this] and visit = closure_visit_refines [OF assms(1) v]
  have "lane_facts st \<subseteq> lane_facts st1" using visit by auto
  moreover have "lane_facts st1 \<subseteq> lane_facts st'"
    using ih lane.produce_grows [of "lane_facts st1" contracts ts] by simp
  ultimately show ?case using ih visit by auto
qed simp

lemma closure_rounds_refines:
  assumes "\<And>tool c. dict_get contracts tool = Some c \<Longrightarrow> contract_ok c"
  shows "lane_facts (closure_rounds other sha codes available contracts k st) =
    produce_rounds (lane_fires contracts) (lane_outs contracts) (sort (map fst contracts)) k (lane_facts st)"
proof (induction k arbitrary: st)
  case (Suc k)
  obtain ch st1 where p: "closure_pass other sha codes available contracts (sort (map fst contracts)) (False, st) = (ch, st1)"
    by (metis surj_pair)
  show ?case using closure_pass_refines [OF assms p] p Suc by (auto simp: Let_def)
qed simp

lemma normalize_items_ok:
  assumes "normalize_items other items out = Some contracts"
    and "\<And>tool c. dict_get out tool = Some c \<Longrightarrow> contract_ok c"
  shows "dict_get contracts tool = Some c \<Longrightarrow> contract_ok c"
  using assms
proof (induction items arbitrary: out)
  case (Cons p rest)
  obtain k spec where p: "p = (k, spec)" by fastforce
  show ?case
  proof (cases "\<exists>name d. stripped_text k = Some name \<and> spec = PDict d")
    case False
    then have "normalize_items other (p # rest) out = normalize_items other rest out"
      by (auto simp: p split: option.splits py.splits)
    then show ?thesis using Cons by metis
  next
    case True
    then obtain name d where nd: "stripped_text k = Some name" "spec = PDict d" by blast
    then obtain c' where c': "normalize_tool_contract other spec = Some c'"
      and rest: "normalize_items other rest (dict_set name c' out) = Some contracts"
      using Cons.prems(2) p by (auto split: option.splits)
    have "dict_get (dict_set name c' out) tool = Some c \<Longrightarrow> contract_ok c" for tool c
      using Cons.prems(3) normalize_tool_contract_ok [OF c'] by (auto simp: py_simps split: if_splits)
    then show ?thesis using Cons.IH [OF Cons.prems(1) rest] by blast
  qed
qed simp

lemma normalize_tool_contracts_ok:
  assumes "normalize_tool_contracts other raw = Some contracts"
  shows "dict_get contracts tool = Some c \<Longrightarrow> contract_ok c"
  using assms normalize_items_ok [of other _ "[]"]
  by (auto simp: normalize_tool_contracts_def split: py.splits)

section \<open>Properties\<close>

text \<open>C23: the lane analysis computes the least fixed point. For normalised contracts the reachable artifacts and
  capabilities contain the initial ones, no tool that is legal on them would add anything (so the bound of
  twice the number of tools on the rounds is enough), and every set of facts with these two properties
  contains them.\<close>

theorem lane_closure_least_fixpoint:
  assumes "normalize_tool_contracts other raw = Some contracts"
    and "R = lane_facts (closure_state other sha codes available contracts st)"
  shows "lane_facts st \<subseteq> R
    \<and> closed_under (lane_fires contracts) (lane_outs contracts) (map fst contracts) R
    \<and> (\<forall>T. lane_facts st \<subseteq> T \<longrightarrow>
          closed_under (lane_fires contracts) (lane_outs contracts) (map fst contracts) T \<longrightarrow> R \<subseteq> T)"
proof -
  have ok: "dict_get contracts tool = Some c \<Longrightarrow> contract_ok c" for tool c
    by (rule normalize_tool_contracts_ok [OF assms(1)])
  let ?ts = "sort (map fst contracts)"
  have R: "R = produce_rounds (lane_fires contracts) (lane_outs contracts) ?ts
      (max 1 (length contracts * 2)) (lane_facts st)"
    unfolding assms(2) closure_state_def by (rule closure_rounds_refines [OF ok])
  have perm: "closed_under (lane_fires contracts) (lane_outs contracts) ?ts =
      closed_under (lane_fires contracts) (lane_outs contracts) (map fst contracts)"
    by (simp add: closed_under_def fun_eq_iff)
  have "lane.open_tools contracts ?ts (lane_facts st) < max 1 (length contracts * 2)"
    using lane.enough_rounds [of contracts ?ts "lane_facts st"] by simp
  then have "closed_under (lane_fires contracts) (lane_outs contracts) ?ts R"
    unfolding R by (rule lane.produce_rounds_closed)
  then show ?thesis
    using lane.produce_rounds_grows lane.produce_rounds_least perm unfolding R by metis
qed

definition demo_raw :: py where
  "demo_raw = PDict [(PStr ''chunk_search'', demo_spec),
     (PStr ''entity_search'', PDict [(PStr ''produces'', PList [PStr ''entity_set''])])]"

theorem lane_closure_least_fixpoint_witness:
  "\<exists>contracts. normalize_tool_contracts (\<lambda>_. []) demo_raw = Some contracts \<and>
     closed_under (lane_fires contracts) (lane_outs contracts) (map fst contracts)
       (lane_facts (closure_state (\<lambda>_. []) id demo_codes None contracts ({}, [])))"
proof -
  have "normalize_tool_contracts (\<lambda>_. []) demo_raw \<noteq> None"
    by (simp add: normalize_tool_contracts_def demo_raw_def demo_spec_def normalize_tool_contract_def
        stripped_text_def value_of_text_def split: option.split)
  then obtain contracts where n: "normalize_tool_contracts (\<lambda>_. []) demo_raw = Some contracts" by blast
  from lane_closure_least_fixpoint [OF n refl] n show ?thesis by blast
qed

text \<open>A lane is reported closed exactly when every tool that is no control tool is legal on what the
  closure reaches, and the tools reported unresolved are exactly the others.\<close>

theorem lane_closed_iff_all_legal:
  assumes "normalize_tool_contracts other raw = Some contracts"
    and "st = closure_state other sha codes available contracts (artifacts, caps)"
  shows "(la_lane_closed (analyze_lane_closure other sha codes contracts artifacts caps available) \<longleftrightarrow>
          (\<forall>tool c. dict_get contracts tool = Some c \<longrightarrow> tc_is_control c \<or> fields_fire (tc_fields c) (lane_facts st)))
    \<and> ut_tool ` set (la_unresolved (analyze_lane_closure other sha codes contracts artifacts caps available)) =
        {tool. \<exists>c. dict_get contracts tool = Some c \<and> \<not> tc_is_control c \<and> \<not> fields_fire (tc_fields c) (lane_facts st)}"
proof -
  have ok: "dict_get contracts tool = Some c \<Longrightarrow> contract_ok c" for tool c
    by (rule normalize_tool_contracts_ok [OF assms(1)])
  let ?un = "unresolved_tools other sha codes available contracts st"
  have an: "analyze_lane_closure other sha codes contracts artifacts caps available =
      \<lparr>la_lane_closed = (?un = []), la_reachable_artifacts = sorted_list_of_set (fst st),
       la_reachable_capabilities = capability_state_snapshot (snd st), la_unresolved = ?un\<rparr>"
    by (simp add: analyze_lane_closure_def Let_def assms(2))
  have "ut_tool ` set ?un = {tool. \<exists>c. dict_get contracts tool = Some c \<and> \<not> tc_is_control c \<and>
      \<not> tv_is_valid (legal_now other sha codes available (fst st) (snd st) tool c)}" (is "?L = ?R")
  proof (rule set_eqI)
    fix tool
    have "dict_get contracts tool = Some c \<Longrightarrow> tool \<in> fst ` set contracts" for c
      by (metis fst_conv image_eqI map_of_SomeD)
    then show "tool \<in> ?L \<longleftrightarrow> tool \<in> ?R"
      by (force simp: unresolved_tools_def List.map_filter_def Let_def image_iff split: option.splits if_splits)
  qed
  also have "\<dots> = {tool. \<exists>c. dict_get contracts tool = Some c \<and> \<not> tc_is_control c \<and>
      \<not> fields_fire (tc_fields c) (lane_facts st)}"
    using legal_now_iff [OF ok] by auto
  finally have un: "ut_tool ` set ?un = \<dots>" .
  then have "?un = [] \<longleftrightarrow> \<dots> = {}" by (metis image_is_empty set_empty)
  with un show ?thesis by (auto simp: an)
qed

theorem lane_closed_iff_all_legal_witness:
  "\<exists>contracts. normalize_tool_contracts (\<lambda>_. []) demo_raw = Some contracts \<and>
     (la_lane_closed (analyze_lane_closure (\<lambda>_. []) id demo_codes contracts {} [] None) \<longleftrightarrow>
       (\<forall>tool c. dict_get contracts tool = Some c \<longrightarrow> tc_is_control c \<or>
          fields_fire (tc_fields c) (lane_facts (closure_state (\<lambda>_. []) id demo_codes None contracts ({}, [])))))"
proof -
  have "normalize_tool_contracts (\<lambda>_. []) demo_raw \<noteq> None"
    by (simp add: normalize_tool_contracts_def demo_raw_def demo_spec_def normalize_tool_contract_def
        stripped_text_def value_of_text_def split: option.split)
  then obtain contracts where n: "normalize_tool_contracts (\<lambda>_. []) demo_raw = Some contracts" by blast
  from lane_closed_iff_all_legal [OF n refl, where sha = id and codes = demo_codes and available = None
      and artifacts = "{}" and caps = "[]"] n show ?thesis by blast
qed

end
