(* ===== verification/Error_Budget.thy ===== *)
theory Error_Budget
  imports Prelude
begin

text \<open>
  The aggregate error budget of the agent loop, the last part of \<open>llm_client/agent/agent_contracts.py\<close>:
  classification of the error text, the counters and the stop decision. \<open>_last_classification\<close> is an
  attribute that exists only after the first error, hence an option.
\<close>

section \<open>Classification\<close>

definition NON_RECOVERABLE_PATTERNS :: "string list" where
  "NON_RECOVERABLE_PATTERNS =
     [''quota'', ''billing'', ''insufficient'', ''exceeded your current'',
      ''plan and billing'', ''account deactivated'', ''account suspended'',
      ''invalid api key'', ''authentication'', ''unauthorized'', ''forbidden'',
      ''model not found'', ''does not exist'']"

definition RECOVERABLE_PATTERNS :: "string list" where
  "RECOVERABLE_PATTERNS =
     [''rate limit'', ''rate_limit'', ''timeout'', ''timed out'',
      ''connection reset'', ''connection error'', ''server error'',
      ''service unavailable'', ''overloaded'', ''http 500'', ''http 502'',
      ''http 503'', ''http 529'', ''temporary failure'']"

definition classify_agent_error :: "string \<Rightarrow> string" where
  "classify_agent_error error =
     (let t = py_lower error in
      if py_any_in NON_RECOVERABLE_PATTERNS t then ''non_recoverable''
      else if py_any_in RECOVERABLE_PATTERNS t then ''recoverable''
      else ''unknown'')"

section \<open>State\<close>

record agent_error_budget =
  max_agent_turns :: int
  max_consecutive_errors_per_model :: int
  max_total_errors :: int

definition default_error_budget :: agent_error_budget where
  "default_error_budget =
     \<lparr>max_agent_turns = 200, max_consecutive_errors_per_model = 3, max_total_errors = 30\<rparr>"

record error_budget_state =
  eb_budget :: agent_error_budget
  eb_total_turns :: int
  eb_total_errors :: int
  eb_consecutive :: "(string \<times> int) list"
  eb_last_model :: string
  eb_last_classification :: "string option"

definition new_error_budget_state :: "agent_error_budget \<Rightarrow> error_budget_state" where
  "new_error_budget_state b =
     \<lparr>eb_budget = b, eb_total_turns = 0, eb_total_errors = 0, eb_consecutive = [], eb_last_model = [],
      eb_last_classification = None\<rparr>"

definition consecutive_errors :: "error_budget_state \<Rightarrow> string \<Rightarrow> int" where
  "consecutive_errors st model = (case dict_get (eb_consecutive st) model of Some n \<Rightarrow> n | None \<Rightarrow> 0)"

definition record_success :: "string \<Rightarrow> error_budget_state \<Rightarrow> error_budget_state" where
  "record_success model st =
     st\<lparr>eb_total_turns := eb_total_turns st + 1,
        eb_consecutive := dict_set model 0 (eb_consecutive st),
        eb_last_model := model\<rparr>"

definition record_error :: "string \<Rightarrow> string \<Rightarrow> error_budget_state \<Rightarrow> string \<times> error_budget_state" where
  "record_error model error st =
     (let c = classify_agent_error error in
      (c, st\<lparr>eb_total_turns := eb_total_turns st + 1,
             eb_total_errors := eb_total_errors st + 1,
             eb_last_classification := Some c,
             eb_consecutive := dict_set model (consecutive_errors st model + 1) (eb_consecutive st),
             eb_last_model := model\<rparr>))"

definition should_skip_model :: "string \<Rightarrow> error_budget_state \<Rightarrow> bool" where
  "should_skip_model model st \<longleftrightarrow>
     max_consecutive_errors_per_model (eb_budget st) \<le> consecutive_errors st model"

definition should_stop :: "error_budget_state \<Rightarrow> bool \<times> string" where
  "should_stop st =
     (let b = eb_budget st in
      if eb_total_turns st \<ge> max_agent_turns b
      then (True, ''max_agent_turns ('' @ py_int_str (max_agent_turns b) @ '') exceeded'')
      else if eb_total_errors st \<ge> max_total_errors b
      then (True, ''max_total_errors ('' @ py_int_str (max_total_errors b) @ '') exceeded'')
      else if eb_last_classification st = Some ''non_recoverable''
      then (True, ''non_recoverable error from '' @ eb_last_model st)
      else if eb_last_model st \<noteq> [] \<and> should_skip_model (eb_last_model st) st
      then (True, ''max_consecutive_errors_per_model ('' @
              py_int_str (max_consecutive_errors_per_model b) @ '') exceeded for '' @ eb_last_model st)
      else (False, []))"

definition error_budget_summary :: "error_budget_state \<Rightarrow> (string \<times> py) list" where
  "error_budget_summary st =
     [(''total_turns'', PInt (eb_total_turns st)), (''total_errors'', PInt (eb_total_errors st)),
      (''budget_max_turns'', PInt (max_agent_turns (eb_budget st))),
      (''budget_max_errors'', PInt (max_total_errors (eb_budget st))),
      (''budget_max_consecutive'', PInt (max_consecutive_errors_per_model (eb_budget st))),
      (''consecutive_errors_by_model'', PDict (map (\<lambda>(m, n). (PStr m, PInt n)) (eb_consecutive st))),
      (''last_model'', PStr (eb_last_model st)),
      (''last_classification'', case eb_last_classification st of Some c \<Rightarrow> PStr c | None \<Rightarrow> PNone)]"

section \<open>A loop under the budget\<close>

text \<open>One turn of a loop that asks \<open>should_stop\<close> first: the model answers or raises an error with a text.\<close>

datatype agent_turn = TurnOk string | TurnError string string

fun turn_model :: "agent_turn \<Rightarrow> string" where
  "turn_model (TurnOk m) = m"
| "turn_model (TurnError m e) = m"

fun apply_turn :: "agent_turn \<Rightarrow> error_budget_state \<Rightarrow> error_budget_state" where
  "apply_turn (TurnOk m) st = record_success m st"
| "apply_turn (TurnError m e) st = snd (record_error m e st)"

inductive budget_run :: "agent_error_budget \<Rightarrow> agent_turn list \<Rightarrow> error_budget_state \<Rightarrow> bool" where
  run_start: "budget_run b [] (new_error_budget_state b)"
| run_turn: "budget_run b ts st \<Longrightarrow> \<not> fst (should_stop st) \<Longrightarrow> budget_run b (ts @ [t]) (apply_turn t st)"

code_pred budget_run .

inductive_cases budget_run_snocE: "budget_run b (ts @ [t]) st"

definition is_error_turn :: "agent_turn \<Rightarrow> bool" where
  "is_error_turn t = (case t of TurnError _ _ \<Rightarrow> True | _ \<Rightarrow> False)"

lemma budget_run_counts:
  assumes "budget_run b ts st"
  shows "eb_budget st = b \<and> eb_total_turns st = int (length ts)
    \<and> eb_total_errors st = int (length (filter is_error_turn ts))
    \<and> (\<forall>m. consecutive_errors st m = int (length (takeWhile is_error_turn (rev (filter (\<lambda>t. turn_model t = m) ts)))))"
  using assms
proof (induction rule: budget_run.induct)
  case (run_turn b ts st t)
  then show ?case
    by (cases t) (auto simp: record_success_def record_error_def consecutive_errors_def is_error_turn_def
        Let_def py_simps)
qed (simp add: new_error_budget_state_def consecutive_errors_def)

section \<open>Properties\<close>

text \<open>A loop that asks \<open>should_stop\<close> before each turn is bounded. It takes at most \<open>max_agent_turns\<close> turns and
  at most \<open>max_total_errors\<close> of them fail, whatever the models do, and the counter of a model is the number of its
  failures since its last success.\<close>

theorem error_budget_bounds_loop:
  assumes "budget_run b ts st" and "0 \<le> max_agent_turns b" and "0 \<le> max_total_errors b"
  shows "int (length ts) \<le> max_agent_turns b
    \<and> int (length (filter is_error_turn ts)) \<le> max_total_errors b
    \<and> consecutive_errors st m = int (length (takeWhile is_error_turn (rev (filter (\<lambda>t. turn_model t = m) ts))))"
  using assms
proof (induction rule: budget_run.induct)
  case (run_turn b ts st t)
  note counts = budget_run_counts [OF run_turn(1)]
  have "eb_total_turns st < max_agent_turns b" "eb_total_errors st < max_total_errors b"
    using run_turn(2) counts by (auto simp: should_stop_def Let_def split: if_splits)
  moreover have "budget_run b (ts @ [t]) (apply_turn t st)"
    by (rule budget_run.run_turn [OF run_turn(1,2)])
  note budget_run_counts [OF this]
  ultimately show ?case using counts by (cases "is_error_turn t") simp_all
qed (simp add: new_error_budget_state_def consecutive_errors_def)

theorem error_budget_bounds_loop_witness:
  "int (length [TurnError ''m'' ''timeout'', TurnOk ''m'']) \<le> max_agent_turns default_error_budget"
proof -
  let ?s0 = "new_error_budget_state default_error_budget"
  have "\<not> fst (should_stop ?s0)" by code_simp
  then have "budget_run default_error_budget ([] @ [TurnError ''m'' ''timeout'']) (apply_turn (TurnError ''m'' ''timeout'') ?s0)"
    by (rule run_turn [OF run_start])
  moreover have "\<not> fst (should_stop (apply_turn (TurnError ''m'' ''timeout'') ?s0))" by code_simp
  ultimately have "budget_run default_error_budget (([] @ [TurnError ''m'' ''timeout'']) @ [TurnOk ''m''])
      (apply_turn (TurnOk ''m'') (apply_turn (TurnError ''m'' ''timeout'') ?s0))"
    by (rule run_turn)
  from error_budget_bounds_loop [OF this] show ?thesis by (simp add: default_error_budget_def)
qed

text \<open>A non-recoverable error is never forgotten. The decision means to stop on such an error of the last turn,
  but \<open>record_success\<close> does not reset the classification: after any number of later successes, of any models,
  the loop is still told to stop.\<close>

theorem non_recoverable_sticks:
  assumes "classify_agent_error e = ''non_recoverable''"
  shows "fst (should_stop (foldl (\<lambda>s m. record_success m s) (snd (record_error model e st)) models))"
proof -
  have "eb_last_classification (foldl (\<lambda>s m. record_success m s) s models) = eb_last_classification s" for s
    by (induction models arbitrary: s) (simp_all add: record_success_def)
  then show ?thesis using assms by (simp add: should_stop_def record_error_def Let_def)
qed

theorem non_recoverable_sticks_witness:
  "fst (should_stop (foldl (\<lambda>s m. record_success m s)
      (snd (record_error ''a'' ''Unauthorized'' (new_error_budget_state default_error_budget))) [''b'', ''b'', ''b'']))"
  by (rule non_recoverable_sticks) code_simp

end
