(* ===== verification/Agent_Planning.thy ===== *)
theory Agent_Planning
  imports Prelude Production_Systems
begin

text \<open>
  The plan of an agent run, \<open>llm_client/agent/agent_planning.py\<close>: creation with its checks, updates of
  steps, the progress text of every turn, the summary, and the two plan tools.

  The arguments come from a model as JSON; a key that is absent is \<open>None\<close>. The cycle test iterates over
  Python sets, whose order is unspecified: the order is the argument \<open>order\<close>. The three glyphs outside
  Latin-1 that the text uses are an argument too. A raise is a \<open>ValueError\<close> with its message.
\<close>

section \<open>Data\<close>

datatype step_status = Pending | InProgress | Done | Blocked

record plan_step =
  ps_id :: string
  ps_description :: string
  ps_depends_on :: "string list"
  ps_status :: step_status
  ps_result :: string
  ps_attempts :: int

record agent_plan =
  ap_id :: string
  ap_question :: string
  ap_steps :: "plan_step list"
  ap_created_turn :: int

type_synonym plan_state = "agent_plan option"

datatype depends_arg = DependsList "string list" | DependsOne string

record step_arg =
  sa_step_id :: "string option"
  sa_description :: "string option"
  sa_depends_on :: "depends_arg option"

definition STATUS_ALIASES :: "(string \<times> string) list" where
  "STATUS_ALIASES =
     [(''started'', ''in_progress''), (''complete'', ''done''), (''completed'', ''done''),
      (''waiting'', ''blocked''), (''skip'', ''done''), (''skipped'', ''done'')]"

definition status_of_text :: "string \<Rightarrow> step_status option" where
  "status_of_text s =
     (if s = ''pending'' then Some Pending else if s = ''in_progress'' then Some InProgress
      else if s = ''done'' then Some Done else if s = ''blocked'' then Some Blocked else None)"

section \<open>Creating a plan\<close>

definition new_step :: "nat \<Rightarrow> step_arg \<Rightarrow> plan_step" where
  "new_step i s =
     \<lparr>ps_id = (case sa_step_id s of Some x \<Rightarrow> x | None \<Rightarrow> ''s'' @ py_int_str (int (i + 1))),
      ps_description = (case sa_description s of Some x \<Rightarrow> x | None \<Rightarrow> ''Step '' @ py_int_str (int (i + 1))),
      ps_depends_on = (case sa_depends_on s of
                         Some (DependsList ds) \<Rightarrow> ds | Some (DependsOne d) \<Rightarrow> [d] | None \<Rightarrow> []),
      ps_status = Pending, ps_result = [], ps_attempts = 0\<rparr>"

text \<open>The first loop: the steps, or the first id that comes twice.\<close>

fun build_steps :: "nat \<Rightarrow> string list \<Rightarrow> step_arg list \<Rightarrow> string + plan_step list" where
  "build_steps i seen [] = Inr []"
| "build_steps i seen (s # ss) =
     (let st = new_step i s in
      if ps_id st \<in> set seen then Inl (''Duplicate step_id: '' @ ps_id st)
      else (case build_steps (Suc i) (ps_id st # seen) ss of
              Inl e \<Rightarrow> Inl e | Inr sts \<Rightarrow> Inr (st # sts)))"

fun unknown_dependency :: "string list \<Rightarrow> plan_step list \<Rightarrow> string option" where
  "unknown_dependency ids [] = None"
| "unknown_dependency ids (st # sts) =
     (case find (\<lambda>d. d \<notin> set ids) (ps_depends_on st) of
        Some d \<Rightarrow> Some (''Step '' @ ps_id st @ '' depends on unknown step '' @ d)
      | None \<Rightarrow> unknown_dependency ids sts)"

text \<open>\<open>deps_map\<close> and one visit of the inner loop of the cycle test.\<close>

definition deps_map :: "plan_step list \<Rightarrow> string \<Rightarrow> string set" where
  "deps_map sts sid = (case find (\<lambda>st. ps_id st = sid) sts of Some st \<Rightarrow> set (ps_depends_on st) | None \<Rightarrow> {})"

fun resolve_pass :: "(string \<Rightarrow> string set) \<Rightarrow> string list \<Rightarrow> string set \<Rightarrow> string set" where
  "resolve_pass deps [] resolved = resolved"
| "resolve_pass deps (sid # sids) resolved =
     resolve_pass deps sids (if deps sid \<subseteq> resolved then insert sid resolved else resolved)"

text \<open>
  \<open>while changed\<close>: a pass over the remaining ids changes something exactly when it resolves one.
  The answer is what remains.
\<close>

function resolve_loop ::
  "(string list \<Rightarrow> string list) \<Rightarrow> (string \<Rightarrow> string set) \<Rightarrow> string list \<Rightarrow> string set \<Rightarrow> string list" where
  "resolve_loop order deps remaining resolved =
     (let resolved' = resolve_pass deps (order remaining) resolved;
          remaining' = filter (\<lambda>sid. sid \<notin> resolved') remaining
      in if length remaining' = length remaining then remaining
         else resolve_loop order deps remaining' resolved')"
  by pat_completeness auto
termination
  by (relation "measure (\<lambda>(order, deps, remaining, resolved). length remaining)")
    (auto intro: le_neq_implies_less [OF length_filter_le])

declare resolve_loop.simps [simp del]

definition create_plan ::
  "(string list \<Rightarrow> string list) \<Rightarrow> string \<Rightarrow> step_arg list \<Rightarrow> int \<Rightarrow> plan_state
     \<Rightarrow> (string + agent_plan) \<times> plan_state" where
  "create_plan order question steps turn S =
     (if steps = [] then (Inl ''Plan must have at least one step.'', S)
      else case build_steps 0 [] steps of
        Inl e \<Rightarrow> (Inl e, S)
      | Inr sts \<Rightarrow>
         (case unknown_dependency (map ps_id sts) sts of
            Some e \<Rightarrow> (Inl e, S)
          | None \<Rightarrow>
              let remaining = resolve_loop order (deps_map sts) (map ps_id sts) {} in
              if remaining \<noteq> []
              then (Inl (''Circular dependency detected involving: {'' @
                         py_join '', '' (map py_repr_str (order remaining)) @ ''}''), S)
              else let plan = \<lparr>ap_id = ''plan_'' @ py_int_str turn, ap_question = question,
                               ap_steps = sts, ap_created_turn = turn\<rparr>
                   in (Inr plan, Some plan)))"

section \<open>Updating a step\<close>

fun update_first :: "string \<Rightarrow> (plan_step \<Rightarrow> plan_step) \<Rightarrow> plan_step list \<Rightarrow> (plan_step \<times> plan_step list) option" where
  "update_first sid f [] = None"
| "update_first sid f (st # sts) =
     (if ps_id st = sid then Some (f st, f st # sts)
      else map_option (\<lambda>(st', sts'). (st', st # sts')) (update_first sid f sts))"

definition touch_step :: "step_status \<Rightarrow> string \<Rightarrow> plan_step \<Rightarrow> plan_step" where
  "touch_step status result st =
     st\<lparr>ps_status := status, ps_attempts := ps_attempts st + 1,
        ps_result := (if result \<noteq> [] then result else ps_result st)\<rparr>"

definition update_step ::
  "string \<Rightarrow> string \<Rightarrow> string \<Rightarrow> plan_state \<Rightarrow> (string + plan_step) \<times> plan_state" where
  "update_step step_id status result S =
     (case S of
        None \<Rightarrow> (Inl ''No plan exists. Call create_plan first.'', S)
      | Some plan \<Rightarrow>
          let status' = (case dict_get STATUS_ALIASES status of Some a \<Rightarrow> a | None \<Rightarrow> status) in
          (case status_of_text status' of
             None \<Rightarrow> (Inl (''Invalid status: '' @ py_repr_str status' @
                            ''. Use: pending, in_progress, done, blocked''), S)
           | Some st \<Rightarrow>
              (case update_first step_id (touch_step st result) (ap_steps plan) of
                 None \<Rightarrow> (Inl (''Step '' @ py_repr_str step_id @ '' not found. Available: '' @
                               py_repr_strs (map ps_id (ap_steps plan))), S)
               | Some (step, sts) \<Rightarrow> (Inr step, Some (plan\<lparr>ap_steps := sts\<rparr>)))))"

section \<open>The progress text\<close>

record glyphs =
  gl_arrow :: string
  gl_check :: string
  gl_dots :: string

fun status_icon :: "step_status \<Rightarrow> string" where
  "status_icon Done = ''[x]''"
| "status_icon InProgress = ''[>]''"
| "status_icon Blocked = ''[!]''"
| "status_icon Pending = ''[ ]''"

definition NEWLINE :: string where
  "NEWLINE = [CHR 0x0A]"

definition step_line :: "glyphs \<Rightarrow> string \<Rightarrow> plan_step \<Rightarrow> string" where
  "step_line G fmt st =
     status_icon (ps_status st) @ '' '' @ ps_id st @ '': '' @ ps_description st @
     (if ps_result st \<noteq> [] \<and> fmt = ''compact''
      then '' '' @ gl_arrow G @ '' '' @
           py_repr_str (take 40 (ps_result st) @ (if length (ps_result st) > 40 then ''...'' else []))
      else if ps_result st \<noteq> [] \<and> fmt = ''full''
      then NEWLINE @ ''    Result: '' @ ps_result st
      else [])"

definition dependency_mark :: "glyphs \<Rightarrow> plan_step list \<Rightarrow> string \<Rightarrow> string" where
  "dependency_mark G sts dep =
     dep @ '' '' @ (case find (\<lambda>st. ps_id st = dep) sts of
                     Some st \<Rightarrow> if ps_status st = Done then gl_check G else gl_dots G
                   | None \<Rightarrow> gl_dots G)"

definition dependency_notes :: "glyphs \<Rightarrow> plan_step list \<Rightarrow> string list" where
  "dependency_notes G sts =
     map (\<lambda>st. ps_id st @ '' needs '' @ py_join '', '' (map (dependency_mark G sts) (ps_depends_on st)))
       (filter (\<lambda>st. ps_depends_on st \<noteq> []) sts)"

definition count_status :: "step_status \<Rightarrow> plan_step list \<Rightarrow> nat" where
  "count_status s sts = length (filter (\<lambda>st. ps_status st = s) sts)"

definition format_context :: "glyphs \<Rightarrow> int \<Rightarrow> string \<Rightarrow> plan_state \<Rightarrow> string" where
  "format_context G max_chars fmt S =
     (case S of
        None \<Rightarrow> []
      | Some plan \<Rightarrow>
          let sts = ap_steps plan;
              head = ''[PLAN PROGRESS: '' @ py_int_str (int (count_status Done sts)) @ ''/'' @
                     py_int_str (int (length sts)) @ '' steps done]'';
              deps = dependency_notes G sts;
              result = py_join NEWLINE (head # map (step_line G fmt) sts @
                         (if deps \<noteq> [] then [''Depends: '' @ py_join ''; '' deps] else []))
          in if int (length result) > max_chars then py_take (max_chars - 3) result @ ''...'' else result)"

record plan_summary =
  pm_plan_id :: string
  pm_total :: nat
  pm_done :: nat
  pm_in_progress :: nat
  pm_blocked :: nat
  pm_steps :: "(string \<times> step_status \<times> int \<times> bool) list"

definition plan_summary_of :: "plan_state \<Rightarrow> plan_summary option" where
  "plan_summary_of S =
     (case S of
        None \<Rightarrow> None
      | Some plan \<Rightarrow>
          Some \<lparr>pm_plan_id = ap_id plan, pm_total = length (ap_steps plan),
                pm_done = count_status Done (ap_steps plan),
                pm_in_progress = count_status InProgress (ap_steps plan),
                pm_blocked = count_status Blocked (ap_steps plan),
                pm_steps = map (\<lambda>st. (ps_id st, ps_status st, ps_attempts st, ps_result st \<noteq> []))
                             (ap_steps plan)\<rparr>)"

section \<open>The plan tools\<close>

datatype plan_call =
    CreateCall "step_arg list"
  | UpdateCall string string string
  | OtherCall string

definition execute_plan_tool ::
  "(string list \<Rightarrow> string list) \<Rightarrow> glyphs \<Rightarrow> plan_call \<Rightarrow> string \<Rightarrow> int \<Rightarrow> plan_state \<Rightarrow> string \<times> plan_state" where
  "execute_plan_tool order G call question turn S =
     (case call of
        CreateCall steps \<Rightarrow>
          (case create_plan order question steps turn S of
             (Inl e, S') \<Rightarrow> (''Error creating plan: '' @ e, S')
           | (Inr p, S') \<Rightarrow> (format_context G 1000 ''full'' S', S'))
      | UpdateCall step_id status result \<Rightarrow>
          (case update_step step_id status result S of
             (Inl e, S') \<Rightarrow> (''Error updating plan: '' @ e, S')
           | (Inr p, S') \<Rightarrow> (format_context G 1000 ''compact'' S', S'))
      | OtherCall name \<Rightarrow> (''Unknown plan tool: '' @ name, S))"

section \<open>The cycle test\<close>

interpretation planner: production "\<lambda>sid S. deps sid \<subseteq> S" "\<lambda>sid. {sid}" for deps :: "string \<Rightarrow> string set"
  by unfold_locales auto

lemma resolve_pass_produce:
  "resolve_pass deps sids S = produce (\<lambda>sid S. deps sid \<subseteq> S) (\<lambda>sid. {sid}) sids S"
  by (induction deps sids S rule: resolve_pass.induct) simp_all

lemma resolve_pass_subset: "resolve_pass deps sids S \<subseteq> S \<union> set sids"
  by (induction deps sids S rule: resolve_pass.induct) (auto split: if_splits)

text \<open>An order in which every step comes after the steps it depends on.\<close>

definition topological :: "(string \<Rightarrow> string set) \<Rightarrow> string list \<Rightarrow> bool" where
  "topological deps ord \<longleftrightarrow> distinct ord \<and> (\<forall>i < length ord. deps (ord ! i) \<subseteq> set (take i ord))"

lemma topological_snoc:
  assumes "topological deps ord" and "n \<notin> set ord" and "deps n \<subseteq> set ord"
  shows "topological deps (ord @ [n])"
  using assms by (auto simp: topological_def nth_append less_Suc_eq)

lemma resolve_pass_topological:
  assumes "topological deps ord" and "set ord = S"
  shows "\<exists>ord'. topological deps ord' \<and> set ord' = resolve_pass deps sids S"
  using assms
proof (induction sids arbitrary: ord S)
  case (Cons n sids)
  show ?case
  proof (cases "deps n \<subseteq> S \<and> n \<notin> S")
    case True
    with Cons.prems have "topological deps (ord @ [n])" by (intro topological_snoc) auto
    moreover have "set (ord @ [n]) = insert n S" using Cons.prems by simp
    ultimately show ?thesis using Cons.IH True by simp
  next
    case False
    then have "(if deps n \<subseteq> S then insert n S else S) = S" by auto
    with Cons show ?thesis by auto
  qed
qed auto

text \<open>When a pass resolves nothing, no order of all the steps can exist unless nothing remains.\<close>

lemma stuck_not_topological:
  assumes "\<forall>sid \<in> R. \<not> deps sid \<subseteq> S" and "R \<noteq> {}" and "topological deps ord"
  shows "set ord \<noteq> S \<union> R"
proof
  assume set: "set ord = S \<union> R"
  obtain r where r: "r \<in> R" using assms(2) by blast
  define P where "P = (\<lambda>i. i < length ord \<and> ord ! i \<in> R)"
  have "\<exists>i. P i" using r set unfolding P_def by (metis UnI2 in_set_conv_nth)
  then have first: "P (LEAST i. P i)" by (rule LeastI_ex)
  let ?i = "LEAST i. P i"
  have "set (take ?i ord) \<subseteq> S"
  proof
    fix x assume "x \<in> set (take ?i ord)"
    then obtain j where j: "j < ?i" "j < length ord" "x = ord ! j" by (auto simp: in_set_conv_nth)
    then have "x \<notin> R" using not_less_Least [OF j(1)] by (auto simp: P_def)
    with j set show "x \<in> S" by (metis Un_iff nth_mem)
  qed
  moreover have "deps (ord ! ?i) \<subseteq> set (take ?i ord)"
    using first assms(3) by (auto simp: P_def topological_def)
  ultimately have "deps (ord ! ?i) \<subseteq> S" by (rule order_trans [rotated])
  moreover have "ord ! ?i \<in> R" using first by (simp add: P_def)
  ultimately show False using assms(1) by blast
qed

lemma resolve_loop_empty_iff:
  assumes "\<And>xs. set (order xs) = set xs" and "topological deps ord0" and "set ord0 = resolved"
    and "set remaining \<inter> resolved = {}"
  shows "resolve_loop order deps remaining resolved = [] \<longleftrightarrow>
    (\<exists>ord. topological deps ord \<and> set ord = resolved \<union> set remaining)"
  using assms
proof (induction order deps remaining resolved arbitrary: ord0 rule: resolve_loop.induct)
  case (1 order deps remaining resolved)
  let ?res = "resolve_pass deps (order remaining) resolved"
  let ?rem = "filter (\<lambda>sid. sid \<notin> ?res) remaining"
  have grows: "resolved \<subseteq> ?res" unfolding resolve_pass_produce by (rule planner.produce_grows)
  have below: "?res \<subseteq> resolved \<union> set remaining" using resolve_pass_subset 1(2) by blast
  show ?case
  proof (cases "length ?rem = length remaining")
    case True
    then have none: "set remaining \<inter> ?res = {}" by (metis filter_id_conv length_filter_less nat_neq_iff disjoint_iff)
    then have fixed: "?res = resolved" using below grows by blast
    then have closed: "closed_under (\<lambda>sid S. deps sid \<subseteq> S) (\<lambda>sid. {sid}) (order remaining) resolved"
      unfolding resolve_pass_produce by (rule planner.produce_fixed_closed)
    then have stuck: "\<forall>sid \<in> set remaining. \<not> deps sid \<subseteq> resolved"
      using 1(2) 1(5) by (auto simp: closed_under_def)
    have "resolve_loop order deps remaining resolved = remaining"
      using True by (simp add: resolve_loop.simps [of order] Let_def)
    moreover have "remaining \<noteq> [] \<Longrightarrow> \<not> (\<exists>ord. topological deps ord \<and> set ord = resolved \<union> set remaining)"
      using stuck_not_topological [OF stuck] by auto
    ultimately show ?thesis using 1(3,4) by auto
  next
    case False
    obtain ord' where ord': "topological deps ord'" "set ord' = ?res"
      using resolve_pass_topological [OF 1(3,4)] by blast
    have "resolve_loop order deps remaining resolved = resolve_loop order deps ?rem ?res"
      using False by (simp add: resolve_loop.simps [of order deps remaining] Let_def)
    moreover have "?res \<union> set ?rem = resolved \<union> set remaining" using grows below by auto
    moreover have "set ?rem \<inter> ?res = {}" by auto
    ultimately show ?thesis using 1(1) [OF refl refl False 1(2) ord'] by simp
  qed
qed

section \<open>What a plan is\<close>

definition steps_of_args :: "nat \<Rightarrow> step_arg list \<Rightarrow> plan_step list" where
  "steps_of_args i ss = map (\<lambda>(k, s). new_step k s) (enumerate i ss)"

lemma steps_of_args_simps [simp]:
  "steps_of_args i [] = []"
  "steps_of_args i (s # ss) = new_step i s # steps_of_args (Suc i) ss"
  by (simp_all add: steps_of_args_def)

lemma build_steps_iff:
  "build_steps i seen ss = Inr sts \<longleftrightarrow>
     sts = steps_of_args i ss \<and> distinct (map ps_id sts) \<and> (\<forall>st \<in> set sts. ps_id st \<notin> set seen)"
proof (induction ss arbitrary: i seen sts)
  case (Cons s ss)
  let ?st = "new_step i s"
  have "build_steps i seen (s # ss) = Inr sts \<longleftrightarrow> ps_id ?st \<notin> set seen \<and>
      (\<exists>x. build_steps (Suc i) (ps_id ?st # seen) ss = Inr x \<and> sts = ?st # x)"
    by (auto simp: Let_def split: sum.splits)
  moreover have "(\<forall>st \<in> set x. ps_id st \<notin> set (ps_id ?st # seen)) \<longleftrightarrow>
      ps_id ?st \<notin> ps_id ` set x \<and> (\<forall>st \<in> set x. ps_id st \<notin> set seen)" for x by (auto simp: image_iff)
  ultimately show ?case unfolding Cons.IH steps_of_args_simps 
    by (cases "sts = ?st # steps_of_args (Suc i) ss") (simp_all del: build_steps.simps, blast+)
qed auto

lemma find_outside_None:
  "find (\<lambda>d. d \<notin> A) ds = None \<longleftrightarrow> set ds \<subseteq> A"
  by (auto simp: find_None_iff)

lemma unknown_dependency_None:
  "unknown_dependency ids sts = None \<longleftrightarrow> (\<forall>st \<in> set sts. set (ps_depends_on st) \<subseteq> set ids)"
proof (induction sts)
  case (Cons st sts)
  have "unknown_dependency ids (st # sts) = None \<longleftrightarrow>
      find (\<lambda>d. d \<notin> set ids) (ps_depends_on st) = None \<and> unknown_dependency ids sts = None"
    by (cases "find (\<lambda>d. d \<notin> set ids) (ps_depends_on st)") simp_all
  then show ?case unfolding Cons.IH find_outside_None by simp
qed simp

definition plan_ok :: "plan_step list \<Rightarrow> bool" where
  "plan_ok sts \<longleftrightarrow>
     sts \<noteq> [] \<and> distinct (map ps_id sts) \<and>
     (\<forall>st \<in> set sts. set (ps_depends_on st) \<subseteq> set (map ps_id sts)) \<and>
     (\<exists>ord. topological (deps_map sts) ord \<and> set ord = set (map ps_id sts))"

definition plan_valid :: "plan_state \<Rightarrow> bool" where
  "plan_valid S \<longleftrightarrow> (case S of None \<Rightarrow> True | Some plan \<Rightarrow> plan_ok (ap_steps plan))"

lemma plan_valid_simps [simp]:
  "plan_valid None" "plan_valid (Some plan) \<longleftrightarrow> plan_ok (ap_steps plan)"
  by (simp_all add: plan_valid_def)

lemma create_plan_accepted:
  assumes "\<And>xs. set (order xs) = set xs"
  shows "((\<exists>p. fst (create_plan order question steps turn S) = Inr p) \<longleftrightarrow> plan_ok (steps_of_args 0 steps))
    \<and> (\<forall>p. fst (create_plan order question steps turn S) = Inr p \<longrightarrow>
         snd (create_plan order question steps turn S) = Some p \<and> ap_steps p = steps_of_args 0 steps)
    \<and> (\<forall>e. fst (create_plan order question steps turn S) = Inl e \<longrightarrow>
         snd (create_plan order question steps turn S) = S)"
proof -
  let ?sts = "steps_of_args 0 steps"
  have empty: "topological deps []" for deps by (simp add: topological_def)
  have cyc: "resolve_loop order deps ids {} = [] \<longleftrightarrow> (\<exists>ord. topological deps ord \<and> set ord = set ids)" for deps ids
    using resolve_loop_empty_iff [of order deps "[]" "{}" ids] assms empty by simp
  have nonempty: "?sts = [] \<longleftrightarrow> steps = []" by (simp add: steps_of_args_def enumerate_eq_zip)
  show ?thesis
  proof (cases "build_steps 0 [] steps")
    case (Inl e)
    then have "\<not> distinct (map ps_id ?sts)" using build_steps_iff [of 0 "[]" steps ?sts] by auto
    with Inl show ?thesis by (auto simp: create_plan_def plan_ok_def)
  next
    case (Inr sts)
    then have sts: "sts = ?sts" "distinct (map ps_id ?sts)" using build_steps_iff [of 0 "[]" steps sts] by auto
    show ?thesis
    proof (cases "steps = [] \<or> unknown_dependency (map ps_id ?sts) ?sts \<noteq> None")
      case True
      then have "\<not> plan_ok ?sts"
        unfolding plan_ok_def unknown_dependency_None [symmetric] nonempty by blast
      then show ?thesis using True Inr sts by (auto simp: create_plan_def Let_def)
    next
      case False
      then have "plan_ok ?sts \<longleftrightarrow> (\<exists>ord. topological (deps_map ?sts) ord \<and> set ord = set (map ps_id ?sts))"
        unfolding plan_ok_def unknown_dependency_None [symmetric] nonempty using sts(2) by simp
      then have "plan_ok ?sts \<longleftrightarrow> resolve_loop order (deps_map ?sts) (map ps_id ?sts) {} = []"
        unfolding cyc .
      then show ?thesis using False Inr sts by (auto simp: create_plan_def Let_def)
    qed
  qed
qed

lemma create_plan_valid:
  assumes "\<And>xs. set (order xs) = set xs" and "\<not> isl (fst (create_plan order question steps turn S))"
  shows "plan_ok (steps_of_args 0 steps)" and "plan_valid (snd (create_plan order question steps turn S))"
proof -
  from assms(2) obtain p where p: "fst (create_plan order question steps turn S) = Inr p"
    by (metis isl_def old.sum.exhaust)
  note accepted = create_plan_accepted [OF assms(1), of question steps turn S]
  show ok: "plan_ok (steps_of_args 0 steps)" using accepted p by blast
  have "snd (create_plan order question steps turn S) = Some p" "ap_steps p = steps_of_args 0 steps"
    using accepted p by blast+
  then show "plan_valid (snd (create_plan order question steps turn S))" using ok by (simp add: plan_valid_def)
qed

text \<open>C28: whatever order Python visits its sets in, a plan is accepted exactly when it has steps, no id
  comes twice, every dependency names a step, and the steps can be put in an order in which each comes
  after the steps it depends on. An accepted plan has the given steps, all pending; a rejected one
  leaves the plan of before.\<close>

theorem create_plan_accepts_iff:
  assumes "\<And>xs. set (order xs) = set xs"
  shows "((\<exists>p. fst (create_plan order question steps turn S) = Inr p) \<longleftrightarrow> plan_ok (steps_of_args 0 steps))
    \<and> (\<forall>p. fst (create_plan order question steps turn S) = Inr p \<longrightarrow>
         snd (create_plan order question steps turn S) = Some p \<and> ap_steps p = steps_of_args 0 steps)
    \<and> (\<forall>e. fst (create_plan order question steps turn S) = Inl e \<longrightarrow>
         snd (create_plan order question steps turn S) = S)"
  using assms by (rule create_plan_accepted)

theorem create_plan_accepts_iff_witness:
  "(\<exists>p. fst (create_plan id ''q''
      [\<lparr>sa_step_id = None, sa_description = None, sa_depends_on = Some (DependsOne ''s2'')\<rparr>,
       \<lparr>sa_step_id = None, sa_description = None, sa_depends_on = None\<rparr>] 1 None) = Inr p)
   \<longleftrightarrow> plan_ok (steps_of_args 0
      [\<lparr>sa_step_id = None, sa_description = None, sa_depends_on = Some (DependsOne ''s2'')\<rparr>,
       \<lparr>sa_step_id = None, sa_description = None, sa_depends_on = None\<rparr>])"
  using create_plan_accepts_iff [of id] by simp

section \<open>The life of a plan\<close>

definition shape :: "plan_step \<Rightarrow> string \<times> string list" where
  "shape st = (ps_id st, ps_depends_on st)"

lemma shape_touch [simp]: "shape (touch_step status result st) = shape st"
  by (simp add: shape_def touch_step_def)

lemma deps_map_of:
  assumes "distinct (map ps_id sts)" and "st \<in> set sts"
  shows "deps_map sts (ps_id st) = set (ps_depends_on st)"
  using assms by (induction sts) (auto simp: deps_map_def)

lemma update_first_shape:
  assumes "update_first sid (touch_step status result) sts = Some (st, sts')"
  shows "map shape sts' = map shape sts"
  using assms by (induction sts arbitrary: sts') (auto split: if_splits)

lemma plan_ok_shape:
  assumes "map shape sts' = map shape sts"
  shows "plan_ok sts' \<longleftrightarrow> plan_ok sts"
proof -
  have ids: "map ps_id sts' = map ps_id sts"
    using arg_cong [OF assms, of "map fst"] by (simp add: shape_def comp_def)
  have deps: "deps_map sts' = deps_map sts"
  proof
    fix sid
    show "deps_map sts' sid = deps_map sts sid"
      using assms
    proof (induction sts' arbitrary: sts)
      case (Cons st' sts')
      then obtain st sts2 where sts: "sts = st # sts2" and same: "shape st' = shape st" and rest: "map shape sts' = map shape sts2"
        by auto
      have "deps_map sts' sid = deps_map sts2 sid" using rest by (rule Cons.IH)
      moreover have "ps_id st' = ps_id st" "ps_depends_on st' = ps_depends_on st" using same by (simp_all add: shape_def)
      ultimately show ?case by (simp add: deps_map_def sts)
    qed simp
  qed
  have all: "(\<forall>st \<in> set sts. set (ps_depends_on st) \<subseteq> A) \<longleftrightarrow> (\<forall>x \<in> set (map shape sts). set (snd x) \<subseteq> A)"
    for sts A by (simp add: shape_def)
  have "(\<forall>st \<in> set sts'. set (ps_depends_on st) \<subseteq> A) \<longleftrightarrow> (\<forall>st \<in> set sts. set (ps_depends_on st) \<subseteq> A)" for A
    unfolding all assms ..
  moreover have "sts' = [] \<longleftrightarrow> sts = []" using assms by auto
  ultimately show ?thesis unfolding plan_ok_def ids deps by simp
qed

inductive plan_run :: "(string list \<Rightarrow> string list) \<Rightarrow> plan_state \<Rightarrow> bool" for order where
  plan_none: "plan_run order None"
| plan_create: "plan_run order S \<Longrightarrow> plan_run order (snd (create_plan order question steps turn S))"
| plan_update: "plan_run order S \<Longrightarrow> plan_run order (snd (update_step step_id status result S))"

lemma update_step_shape:
  "snd (update_step step_id status result S) = S \<or>
   (\<exists>plan sts. S = Some plan \<and> map shape sts = map shape (ap_steps plan) \<and>
      snd (update_step step_id status result S) = Some (plan\<lparr>ap_steps := sts\<rparr>))"
  unfolding update_step_def Let_def
  by (auto split: option.splits dest: update_first_shape)

text \<open>At every moment of a run of creations and updates the plan is well formed: it has steps, ids
  that differ, dependencies that name steps, and no cycle.\<close>

lemma plan_run_valid:
  assumes "\<And>xs. set (order xs) = set xs" and "plan_run order S"
  shows "plan_valid S"
  using assms(2)
proof (induction rule: plan_run.induct)
  case (plan_create S question steps turn)
  note accepted = create_plan_accepted [OF assms(1), of question steps turn S]
  show ?case
  proof (cases "fst (create_plan order question steps turn S)")
    case (Inl e)
    with accepted have "snd (create_plan order question steps turn S) = S" by blast
    with plan_create.IH show ?thesis by (simp only:)
  next
    case (Inr p)
    with accepted have "snd (create_plan order question steps turn S) = Some p"
      "ap_steps p = steps_of_args 0 steps" "plan_ok (steps_of_args 0 steps)" by blast+
    then show ?thesis by simp
  qed
next
  case (plan_update S step_id status result)
  consider "snd (update_step step_id status result S) = S"
    | plan sts where "S = Some plan" "map shape sts = map shape (ap_steps plan)"
        "snd (update_step step_id status result S) = Some (plan\<lparr>ap_steps := sts\<rparr>)"
    using update_step_shape by blast
  then show ?case
  proof cases
    case 1
    with plan_update.IH show ?thesis by (simp only:)
  next
    case 2
    with plan_update.IH plan_ok_shape [OF 2(2)] show ?thesis by simp
  qed
qed simp

lemma plan_run_valid_example:
  "plan_valid (snd (update_step ''s1'' ''skip'' [] (snd (create_plan id ''q''
      [\<lparr>sa_step_id = None, sa_description = None, sa_depends_on = None\<rparr>] 1 None))))"
  using plan_run_valid [OF _ plan_update [OF plan_create [OF plan_none]]] by (metis id_apply)

text \<open>In a well-formed plan the first step of its order that is not done waits for nothing.\<close>

lemma plan_ok_next:
  assumes "plan_ok sts" and "\<exists>st \<in> set sts. ps_status st \<noteq> Done"
  shows "\<exists>st \<in> set sts. ps_status st \<noteq> Done \<and>
    (\<forall>d \<in> set (ps_depends_on st). \<exists>dep \<in> set sts. ps_id dep = d \<and> ps_status dep = Done)"
proof -
  obtain ord where ord: "topological (deps_map sts) ord" "set ord = set (map ps_id sts)"
    and dist: "distinct (map ps_id sts)"
    and known: "\<forall>st \<in> set sts. set (ps_depends_on st) \<subseteq> set (map ps_id sts)" using assms(1) by (auto simp: plan_ok_def)
  define P where "P = (\<lambda>i. i < length ord \<and> (\<exists>st \<in> set sts. ps_id st = ord ! i \<and> ps_status st \<noteq> Done))"
  obtain st0 where "st0 \<in> set sts" "ps_status st0 \<noteq> Done" using assms(2) by blast
  moreover from this ord(2) obtain i where "i < length ord" "ord ! i = ps_id st0"
    by (metis in_set_conv_nth list.set_map rev_image_eqI)
  ultimately have "P i" unfolding P_def by metis
  then have first: "P (LEAST i. P i)" by (rule LeastI)
  let ?i = "LEAST i. P i"
  from first obtain st where st: "?i < length ord" "st \<in> set sts" "ps_id st = ord ! ?i" "ps_status st \<noteq> Done"
    unfolding P_def by blast
  have before: "ps_status dep = Done" if "dep \<in> set sts" "ps_id dep \<in> set (take ?i ord)" for dep
  proof -
    from that(2) obtain j where "j < ?i" "j < length ord" "ord ! j = ps_id dep" by (auto simp: in_set_conv_nth)
    with that(1) not_less_Least [of j P] show ?thesis unfolding P_def by metis
  qed
  have "deps_map sts (ps_id st) = set (ps_depends_on st)" using deps_map_of [OF dist st(2)] .
  moreover have "deps_map sts (ps_id st) \<subseteq> set (take ?i ord)" using ord(1) st by (simp add: topological_def)
  ultimately have "\<exists>dep \<in> set sts. ps_id dep = d \<and> ps_status dep = Done" if "d \<in> set (ps_depends_on st)" for d
    using that before known st(2) by fastforce
  with st show ?thesis by blast
qed

text \<open>Doing a step that is not done finds it and makes one more step done.\<close>

lemma update_first_done:
  assumes "distinct (map ps_id sts)" and "st \<in> set sts" and "ps_status st \<noteq> Done"
  shows "\<exists>sts'. update_first (ps_id st) (touch_step Done result) sts = Some (touch_step Done result st, sts') \<and>
     count_status Done sts' = Suc (count_status Done sts)"
  using assms
proof (induction sts)
  case (Cons x sts)
  show ?case
  proof (cases "ps_id x = ps_id st")
    case True
    with Cons.prems(1,2) have "x = st" by auto
    with Cons.prems(3) show ?thesis by (simp add: count_status_def) (simp add: touch_step_def)
  next
    case False
    with Cons obtain sts' where "update_first (ps_id st) (touch_step Done result) sts = Some (touch_step Done result st, sts')"
      "count_status Done sts' = Suc (count_status Done sts)" by auto
    with False show ?thesis by (auto simp: count_status_def)
  qed
qed simp

text \<open>C29: a plan never deadlocks on its own dependencies. Take any plan that creations and updates led to, in
  whatever order they came and whatever statuses the updates set. As long as a step of it is not done, some step that
  is not done has all its dependencies done, each of them a step of the plan, and reporting that step as done, with
  any result, is accepted and makes exactly one more step done.\<close>

theorem plan_has_next_step:
  assumes "\<And>xs. set (order xs) = set xs" and "plan_run order (Some plan)"
    and "\<exists>st \<in> set (ap_steps plan). ps_status st \<noteq> Done"
  shows "\<exists>st \<in> set (ap_steps plan). ps_status st \<noteq> Done \<and>
    (\<forall>d \<in> set (ps_depends_on st). \<exists>dep \<in> set (ap_steps plan). ps_id dep = d \<and> ps_status dep = Done) \<and>
    (\<forall>result. \<exists>plan'. update_step (ps_id st) ''done'' result (Some plan) = (Inr (touch_step Done result st), Some plan') \<and>
       count_status Done (ap_steps plan') = Suc (count_status Done (ap_steps plan)))"
proof -
  have ok: "plan_ok (ap_steps plan)" using plan_run_valid [OF assms(1,2)] by simp
  from plan_ok_next [OF ok assms(3)] obtain st where st: "st \<in> set (ap_steps plan)" "ps_status st \<noteq> Done"
    "\<forall>d \<in> set (ps_depends_on st). \<exists>dep \<in> set (ap_steps plan). ps_id dep = d \<and> ps_status dep = Done" by blast
  have "\<exists>plan'. update_step (ps_id st) ''done'' result (Some plan) = (Inr (touch_step Done result st), Some plan') \<and>
       count_status Done (ap_steps plan') = Suc (count_status Done (ap_steps plan))" for result
  proof -
    have "distinct (map ps_id (ap_steps plan))" using ok by (simp add: plan_ok_def)
    from update_first_done [OF this st(1,2), of result] obtain sts' where
      "update_first (ps_id st) (touch_step Done result) (ap_steps plan) = Some (touch_step Done result st, sts')"
      "count_status Done sts' = Suc (count_status Done (ap_steps plan))" by blast
    then show ?thesis by (simp add: update_step_def STATUS_ALIASES_def status_of_text_def)
  qed
  with st show ?thesis by blast
qed

text \<open>Two steps that need each other in turn are refused, so the demonstration has a chain: the second step is reported
  as done first, and the first one is still the next step.\<close>

definition chain_args :: "step_arg list" where
  "chain_args =
     [\<lparr>sa_step_id = None, sa_description = None, sa_depends_on = None\<rparr>,
      \<lparr>sa_step_id = None, sa_description = None, sa_depends_on = Some (DependsOne ''s1'')\<rparr>]"

theorem plan_has_next_step_witness:
  "\<exists>plan. snd (update_step ''s2'' ''done'' [] (snd (create_plan id ''q'' chain_args 1 None))) = Some plan \<and>
     (\<exists>st \<in> set (ap_steps plan). ps_status st \<noteq> Done \<and>
       (\<forall>d \<in> set (ps_depends_on st). \<exists>dep \<in> set (ap_steps plan). ps_id dep = d \<and> ps_status dep = Done))"
proof -
  let ?S = "snd (update_step ''s2'' ''done'' [] (snd (create_plan id ''q'' chain_args 1 None)))"
  have "case ?S of None \<Rightarrow> False | Some plan \<Rightarrow> list_ex (\<lambda>st. ps_status st \<noteq> Done) (ap_steps plan)"
    by code_simp
  then obtain plan where plan: "?S = Some plan" "\<exists>st \<in> set (ap_steps plan). ps_status st \<noteq> Done"
    by (auto simp: list_ex_iff split: option.splits)
  have "plan_run id (Some plan)" unfolding plan(1) [symmetric] by (intro plan_update plan_create plan_none)
  from plan_has_next_step [OF _ this plan(2)] plan(1) show ?thesis by auto
qed

text \<open>
  What an update does not check: a step is done without the result that the docstring requires, and
  before the step it depends on.
\<close>

lemma update_ignores_dependencies:
  "\<exists>S. plan_valid S \<and> (\<exists>st. fst (update_step ''s2'' ''done'' [] S) = Inr st \<and> ps_status st = Done \<and>
     ps_result st = [] \<and> ps_depends_on st = [''s1'']) \<and>
     (\<forall>plan. snd (update_step ''s2'' ''done'' [] S) = Some plan \<longrightarrow> map ps_status (ap_steps plan) = [Pending, Done])"
proof -
  let ?args = "[\<lparr>sa_step_id = None, sa_description = None, sa_depends_on = None\<rparr>,
    \<lparr>sa_step_id = None, sa_description = None, sa_depends_on = Some (DependsOne ''s1'')\<rparr>]"
  let ?S = "snd (create_plan id ''q'' ?args 1 None)"
  have "\<not> isl (fst (create_plan id ''q'' ?args 1 None))" by code_simp
  then have "plan_valid ?S" by (intro create_plan_valid(2)) simp_all
  moreover have "case fst (update_step ''s2'' ''done'' [] ?S) of Inl e \<Rightarrow> False
      | Inr st \<Rightarrow> ps_status st = Done \<and> ps_result st = [] \<and> ps_depends_on st = [''s1'']"
    and "case snd (update_step ''s2'' ''done'' [] ?S) of None \<Rightarrow> True
      | Some plan \<Rightarrow> map ps_status (ap_steps plan) = [Pending, Done]"
    by code_simp+
  ultimately show ?thesis by (intro exI [of _ ?S]) (simp split: sum.splits option.splits)
qed

end
