(* ===== verification/Agent_Outcomes.thy ===== *)
theory Agent_Outcomes
  imports Py_Support
begin

text \<open>
  Failure and finalization summaries of an agent run, \<open>llm_client/agent/agent_outcomes.py\<close>. Event codes
  and failure classes are strings; the counters are dictionaries in insertion order. A finalization
  attempt is a dictionary of Python values whose foreign texts are the argument \<open>other\<close>.
\<close>

section \<open>Event codes and failure classes\<close>

definition PRIMARY_FAILURE_PRIORITY :: "string list" where
  "PRIMARY_FAILURE_PRIORITY =
     [''provider'', ''composability'', ''policy'', ''retrieval'', ''control_churn'', ''reasoning'']"

definition EVENT_CODE_PROVIDER_EMPTY :: string where
  "EVENT_CODE_PROVIDER_EMPTY = ''PROVIDER_EMPTY_CANDIDATES''"

definition TERMINAL_FAILURE_EVENT_CODES :: "string list" where
  "TERMINAL_FAILURE_EVENT_CODES =
     [EVENT_CODE_PROVIDER_EMPTY, ''PROVIDER_CREDITS_EXHAUSTED'', ''FINALIZATION_CIRCUIT_BREAKER_OPEN'',
      ''RETRIEVAL_STAGNATION'', ''CONTROL_CHURN_THRESHOLD_EXCEEDED'', ''REQUIRED_SUBMIT_NOT_ATTEMPTED'',
      ''REQUIRED_SUBMIT_NOT_ACCEPTED'']"

definition first_terminal_failure_event_code :: "string list \<Rightarrow> string option" where
  "first_terminal_failure_event_code codes = find (\<lambda>c. c \<in> set TERMINAL_FAILURE_EVENT_CODES) codes"

definition failure_class_for_event_code :: "string \<Rightarrow> string option" where
  "failure_class_for_event_code code =
     (if code \<in> set [''SUBMIT_FORCED_ACCEPT_BUDGET_EXHAUSTION'', ''SUBMIT_FORCED_ACCEPT_TURN_EXHAUSTION'',
                     ''SUBMIT_FORCED_ACCEPT_FORCED_FINAL''] then None
      else if code = ''FINALIZATION_TOOL_CALL_DISALLOWED'' then Some ''policy''
      else if prefix ''REQUIRED_SUBMIT_'' code then Some ''policy''
      else if prefix ''PROVIDER_'' code then Some ''provider''
      else if prefix ''FINALIZATION_'' code then Some ''provider''
      else if prefix ''TOOL_VALIDATION_REJECTED_'' code \<or> code = ''NO_LEGAL_NONCONTROL_TOOLS''
      then Some ''composability''
      else if prefix ''RETRIEVAL_'' code then Some ''retrieval''
      else if prefix ''CONTROL_CHURN_'' code then Some ''control_churn''
      else if prefix ''REASONING_'' code then Some ''reasoning''
      else None)"

definition failure_classes :: "string list \<Rightarrow> int \<Rightarrow> int \<Rightarrow> string option \<Rightarrow> bool \<Rightarrow> string list" where
  "failure_classes codes no_hits suppressed force_final_reason succeeded =
     (let from_codes = List.map_filter failure_class_for_event_code codes;
          classes = from_codes @ (if 0 < no_hits then [''retrieval''] else []) @
                    (if 0 < suppressed then [''control_churn''] else [])
      in if force_final_reason \<noteq> None \<and> classes = [] \<and> \<not> succeeded then [''reasoning''] else classes)"

definition classify_failure_signals ::
  "string list \<Rightarrow> int \<Rightarrow> int \<Rightarrow> string option \<Rightarrow> bool \<Rightarrow> string \<times> string list" where
  "classify_failure_signals codes no_hits suppressed force_final_reason succeeded =
     (let classes = failure_classes codes no_hits suppressed force_final_reason succeeded in
      case filter (\<lambda>c. c \<in> set classes) PRIMARY_FAILURE_PRIORITY of
        [] \<Rightarrow> (''none'', [])
      | c # cs \<Rightarrow> (c, cs))"

section \<open>The failure summary\<close>

record failure_summary =
  fs_primary_failure_class :: string
  fs_secondary_failure_classes :: "string list"
  fs_first_terminal_failure_event_code :: "string option"
  fs_failure_event_code_counts :: counters
  fs_failure_event_class_counts :: counters
  fs_provider_failure_event_code_counts :: counters
  fs_provider_failure_event_total :: int
  fs_provider_caused_incompletion :: bool

definition count_codes :: "string list \<Rightarrow> counters" where
  "count_codes codes = fold (\<lambda>c. bump c 1) codes []"

definition count_classes :: "counters \<Rightarrow> counters" where
  "count_classes code_counts =
     fold (\<lambda>(code, n) d. case failure_class_for_event_code code of None \<Rightarrow> d | Some cls \<Rightarrow> bump cls n d)
       code_counts []"

definition provider_counts :: "counters \<Rightarrow> counters" where
  "provider_counts code_counts =
     fold (\<lambda>(code, n) d. if failure_class_for_event_code code = Some ''provider'' then dict_set code n d else d)
       code_counts []"

definition summarize_failure_events ::
  "string list \<Rightarrow> int \<Rightarrow> int \<Rightarrow> string option \<Rightarrow> bool \<Rightarrow> failure_summary" where
  "summarize_failure_events codes no_hits suppressed force_final_reason run_completed =
     (let (primary, secondary) = classify_failure_signals codes no_hits suppressed force_final_reason run_completed;
          code_counts = count_codes codes;
          providers = provider_counts code_counts
      in \<lparr>fs_primary_failure_class = primary,
          fs_secondary_failure_classes = secondary,
          fs_first_terminal_failure_event_code = first_terminal_failure_event_code codes,
          fs_failure_event_code_counts = code_counts,
          fs_failure_event_class_counts = count_classes code_counts,
          fs_provider_failure_event_code_counts = providers,
          fs_provider_failure_event_total = sum_list (map snd providers),
          fs_provider_caused_incompletion = (\<not> run_completed \<and> primary = ''provider'')\<rparr>)"

section \<open>The finalization summary\<close>

type_synonym attempt_dict = "(string \<times> py) list"

record finalization_summary =
  fz_attempts_by_model :: counters
  fz_failures_by_model :: counters
  fz_successes_by_model :: counters
  fz_failure_codes :: counters
  fz_provider_empty_by_model :: counters
  fz_fallback_attempt_count :: int
  fz_fallback_usage_rate :: rat
  fz_breaker_open_rate :: rat
  fz_breaker_open_by_model :: counters

definition attempt_text :: "(py \<Rightarrow> string) \<Rightarrow> attempt_dict \<Rightarrow> string \<Rightarrow> string" where
  "attempt_text other a k = py_strip (py_str other (case dict_get a k of Some v \<Rightarrow> v | None \<Rightarrow> PStr []))"

definition attempt_model :: "(py \<Rightarrow> string) \<Rightarrow> attempt_dict \<Rightarrow> string" where
  "attempt_model other a = (let m = attempt_text other a ''model'' in if m = [] then ''<unknown>'' else m)"

definition attempt_succeeded :: "(py \<Rightarrow> string) \<Rightarrow> attempt_dict \<Rightarrow> bool" where
  "attempt_succeeded other a \<longleftrightarrow> py_lower (attempt_text other a ''status'') = ''success''"

text \<open>\<open>isinstance(error_code, str) and error_code\<close>.\<close>

definition attempt_error_code :: "attempt_dict \<Rightarrow> string option" where
  "attempt_error_code a =
     (case dict_get a ''error_code'' of Some (PStr c) \<Rightarrow> if c = [] then None else Some c | _ \<Rightarrow> None)"

definition is_fallback_attempt :: "(py \<Rightarrow> string) \<Rightarrow> string option \<Rightarrow> attempt_dict \<Rightarrow> bool" where
  "is_fallback_attempt other primary a \<longleftrightarrow>
     (case primary of
        None \<Rightarrow> False
      | Some p \<Rightarrow> py_strip p \<noteq> [] \<and> py_lower (attempt_model other a) \<noteq> py_lower p)"

text \<open>One round of the loop over the attempts.\<close>

definition note_attempt ::
  "(py \<Rightarrow> string) \<Rightarrow> string option \<Rightarrow> attempt_dict \<Rightarrow> finalization_summary \<Rightarrow> finalization_summary" where
  "note_attempt other primary a F =
     (let m = attempt_model other a;
          F1 = F\<lparr>fz_attempts_by_model := bump m 1 (fz_attempts_by_model F),
                 fz_fallback_attempt_count := fz_fallback_attempt_count F +
                   (if is_fallback_attempt other primary a then 1 else 0)\<rparr>
      in if attempt_succeeded other a
         then F1\<lparr>fz_successes_by_model := bump m 1 (fz_successes_by_model F1)\<rparr>
         else let F2 = F1\<lparr>fz_failures_by_model := bump m 1 (fz_failures_by_model F1)\<rparr> in
           (case attempt_error_code a of
              None \<Rightarrow> F2
            | Some c \<Rightarrow>
                F2\<lparr>fz_failure_codes := bump c 1 (fz_failure_codes F2),
                   fz_provider_empty_by_model :=
                     (if c = EVENT_CODE_PROVIDER_EMPTY then bump m 1 (fz_provider_empty_by_model F2)
                      else fz_provider_empty_by_model F2)\<rparr>))"

definition empty_finalization :: finalization_summary where
  "empty_finalization =
     \<lparr>fz_attempts_by_model = [], fz_failures_by_model = [], fz_successes_by_model = [],
      fz_failure_codes = [], fz_provider_empty_by_model = [], fz_fallback_attempt_count = 0,
      fz_fallback_usage_rate = 0, fz_breaker_open_rate = 0, fz_breaker_open_by_model = []\<rparr>"

definition summarize_finalization_attempts ::
  "(py \<Rightarrow> string) \<Rightarrow> attempt_dict list \<Rightarrow> string option \<Rightarrow> int \<Rightarrow> bool \<Rightarrow> finalization_summary" where
  "summarize_finalization_attempts other attempts primary forced_final_attempts breaker_opened =
     (let F = fold (note_attempt other primary) attempts empty_finalization in
      F\<lparr>fz_fallback_usage_rate :=
          (if 0 < forced_final_attempts
           then of_int (fz_fallback_attempt_count F) / of_int forced_final_attempts else 0),
        fz_breaker_open_rate := (if breaker_opened then 1 else 0),
        fz_breaker_open_by_model :=
          (if breaker_opened \<and> attempts \<noteq> [] then dict_set (attempt_model other (last attempts)) 1 [] else [])\<rparr>)"

section \<open>Counting\<close>

lemma count_codes_tally: "tally (fold (\<lambda>c. bump c 1) codes d) k = tally d k + int (count_list codes k)"
  by (induction codes arbitrary: d) auto

lemma distinct_fold_bump: "distinct (map fst d) \<Longrightarrow> distinct (map fst (fold (\<lambda>c. bump c 1) codes d))"
  by (induction codes arbitrary: d) (auto simp: distinct_bump)

text \<open>The sum of the counts whose key satisfies \<open>P\<close>.\<close>

definition weight :: "(string \<Rightarrow> bool) \<Rightarrow> counters \<Rightarrow> int" where
  "weight P d = sum_list (map snd (filter (\<lambda>(k, n). P k) d))"

lemma weight_simps [simp]:
  "weight P [] = 0" "weight P ((k, n) # d) = (if P k then n else 0) + weight P d"
  by (simp_all add: weight_def)

lemma weight_update:
  "distinct (map fst d) \<Longrightarrow> weight P (dict_set k n d) = weight P d + (if P k then n - tally d k else 0)"
  by (induction d) (auto simp: tally_def split: option.splits dest: map_of_SomeD)

lemma weight_bump: "distinct (map fst d) \<Longrightarrow> weight P (bump k n d) = weight P d + (if P k then n else 0)"
  by (simp add: bump_def weight_update) (simp add: tally_def)

lemma weight_count_codes:
  "distinct (map fst d) \<Longrightarrow>
   weight P (fold (\<lambda>c. bump c 1) codes d) = weight P d + int (length (filter P codes))"
  by (induction codes arbitrary: d) (auto simp: weight_bump distinct_bump)

lemma tally_count_classes:
  "tally (fold (\<lambda>(code, n) d. case failure_class_for_event_code code of None \<Rightarrow> d | Some cls \<Rightarrow> bump cls n d)
      cs d) cls = tally d cls + weight (\<lambda>code. failure_class_for_event_code code = Some cls) cs"
  by (induction cs arbitrary: d) (auto split: option.splits)

lemma provider_counts_filter:
  assumes "distinct (map fst cs)" and "fst ` set d \<inter> fst ` set cs = {}"
  shows "fold (\<lambda>(code, n) d. if failure_class_for_event_code code = Some ''provider'' then dict_set code n d else d)
      cs d = d @ filter (\<lambda>(code, n). failure_class_for_event_code code = Some ''provider'') cs"
  using assms
proof (induction cs arbitrary: d)
  case (Cons c cs)
  obtain code n where c: "c = (code, n)" by (cases c)
  then have "code \<notin> fst ` set d" using Cons.prems(2) by auto
  then have "dict_set code n d = d @ [(code, n)]" by (rule dict_set_new)
  then show ?case using Cons.IH [of "d @ [(code, n)]"] Cons.IH [of d] Cons.prems c by auto
qed simp

section \<open>What the summaries say\<close>

lemma provider_first:
  "fst (classify_failure_signals codes h s r ok) = ''provider'' \<longleftrightarrow>
     (\<exists>c \<in> set codes. failure_class_for_event_code c = Some ''provider'')"
proof -
  have "''provider'' \<in> set (failure_classes codes h s r ok) \<longleftrightarrow>
      (\<exists>c \<in> set codes. failure_class_for_event_code c = Some ''provider'')"
    unfolding failure_classes_def Let_def by (auto simp: in_map_filter map_filter_empty)
  moreover have "fst (classify_failure_signals codes h s r ok) = ''provider'' \<longleftrightarrow>
      ''provider'' \<in> set (failure_classes codes h s r ok)"
    by (simp add: classify_failure_signals_def Let_def PRIMARY_FAILURE_PRIORITY_def)
  ultimately show ?thesis by simp
qed

lemma provider_weight_pos:
  "0 < int (length (filter P codes)) \<longleftrightarrow> (\<exists>c \<in> set codes. P c)"
  by (auto simp: filter_empty_conv)

text \<open>The failure summary counts every event once: under each code the number of its events, under
  each class the number of the events of its codes, and in the provider total the events of class
  provider. Whatever else happened, an incomplete run is the provider's fault exactly when there is
  such an event.\<close>

theorem failure_counts_exact:
  fixes codes :: "string list" and no_hits suppressed force_reason completed
  defines "F \<equiv> summarize_failure_events codes no_hits suppressed force_reason completed"
  shows "tally (fs_failure_event_code_counts F) code = int (count_list codes code)
    \<and> tally (fs_failure_event_class_counts F) cls =
        int (length (filter (\<lambda>c. failure_class_for_event_code c = Some cls) codes))
    \<and> fs_provider_failure_event_total F = tally (fs_failure_event_class_counts F) ''provider''
    \<and> fs_provider_caused_incompletion F = (completed = False \<and> 0 < fs_provider_failure_event_total F)"
proof -
  let ?of_class = "\<lambda>cls c. failure_class_for_event_code c = Some cls"
  have dist: "distinct (map fst (count_codes codes))" by (simp add: count_codes_def distinct_fold_bump)
  have per_class: "tally (count_classes (count_codes codes)) cls = int (length (filter (?of_class cls) codes))" for cls
    by (simp add: count_classes_def tally_count_classes) (simp add: count_codes_def weight_count_codes)
  have "provider_counts (count_codes codes) = filter (\<lambda>(code, n). ?of_class ''provider'' code) (count_codes codes)"
    using dist by (simp add: provider_counts_def provider_counts_filter)
  then have "sum_list (map snd (provider_counts (count_codes codes))) = weight (?of_class ''provider'') (count_codes codes)"
    by (simp add: weight_def)
  also have "\<dots> = int (length (filter (?of_class ''provider'') codes))"
    by (simp add: count_codes_def weight_count_codes)
  finally have total: "sum_list (map snd (provider_counts (count_codes codes))) =
      int (length (filter (?of_class ''provider'') codes))" .
  have caused: "fs_provider_caused_incompletion F = (\<not> completed \<and>
      fst (classify_failure_signals codes no_hits suppressed force_reason completed) = ''provider'')"
    by (simp add: F_def summarize_failure_events_def Let_def split: prod.splits)
  have fields: "fs_failure_event_code_counts F = count_codes codes"
    "fs_failure_event_class_counts F = count_classes (count_codes codes)"
    "fs_provider_failure_event_total F = sum_list (map snd (provider_counts (count_codes codes)))"
    by (simp_all add: F_def summarize_failure_events_def Let_def split: prod.splits)
  have "tally (count_codes codes) code = int (count_list codes code)"
    by (simp add: count_codes_def count_codes_tally)
  then show ?thesis
    unfolding fields per_class total caused provider_first provider_weight_pos by simp
qed

lemma class_in_priority:
  assumes "failure_class_for_event_code c = Some cls"
  shows "cls \<in> set PRIMARY_FAILURE_PRIORITY"
proof -
  have "failure_class_for_event_code c \<in> insert None (Some ` set PRIMARY_FAILURE_PRIORITY)"
    unfolding failure_class_for_event_code_def by (simp add: PRIMARY_FAILURE_PRIORITY_def)
  with assms show ?thesis by auto
qed

lemma classes_in_priority:
  assumes "x \<in> set (failure_classes codes h s r ok)"
  shows "x \<in> set PRIMARY_FAILURE_PRIORITY"
proof -
  have "x \<in> set (List.map_filter failure_class_for_event_code codes) \<union> {''retrieval'', ''control_churn'', ''reasoning''}"
    using assms unfolding failure_classes_def Let_def by (simp only: set_append split: if_splits) auto
  then consider "x \<in> set (List.map_filter failure_class_for_event_code codes)"
    | "x = ''retrieval''" | "x = ''control_churn''" | "x = ''reasoning''" by blast
  then show ?thesis
    by cases (auto simp: in_map_filter PRIMARY_FAILURE_PRIORITY_def dest: class_in_priority)
qed

text \<open>
  A run has the class \<open>none\<close> exactly when no code has a class, no counter is set, and it was not forced
  to an end without an answer. Otherwise the classes come in the order of the priorities, each once.
\<close>

lemma classification_order:
  "(let (p, ps) = classify_failure_signals codes h s r ok;
        classes = failure_classes codes h s r ok
    in (if classes = [] then p = ''none'' \<and> ps = []
        else p # ps = filter (\<lambda>c. c \<in> set classes) PRIMARY_FAILURE_PRIORITY))"
proof -
  have range: "\<exists>c \<in> set PRIMARY_FAILURE_PRIORITY. c \<in> set (failure_classes codes h s r ok)"
    if "failure_classes codes h s r ok \<noteq> []"
  proof -
    from that obtain x where x: "x \<in> set (failure_classes codes h s r ok)" by (meson last_in_set)
    then have "x \<in> set PRIMARY_FAILURE_PRIORITY" by (rule classes_in_priority)
    with x show ?thesis by blast
  qed
  show ?thesis
  proof (cases "failure_classes codes h s r ok = []")
    case True
    then show ?thesis by (simp add: classify_failure_signals_def)
  next
    case False
    with range have "filter (\<lambda>c. c \<in> set (failure_classes codes h s r ok)) PRIMARY_FAILURE_PRIORITY \<noteq> []"
      by (metis filter_empty_conv)
    with False show ?thesis by (auto simp: classify_failure_signals_def Let_def split: list.splits)
  qed
qed

lemma fold_note_attempt:
  fixes other primary
  defines "run \<equiv> \<lambda>as F. fold (note_attempt other primary) as F"
  shows "tally (fz_attempts_by_model (run as F)) m =
      tally (fz_attempts_by_model F) m + int (length (filter (\<lambda>a. attempt_model other a = m) as))"
    and "tally (fz_successes_by_model (run as F)) m = tally (fz_successes_by_model F) m +
      int (length (filter (\<lambda>a. attempt_model other a = m \<and> attempt_succeeded other a) as))"
    and "tally (fz_failures_by_model (run as F)) m = tally (fz_failures_by_model F) m +
      int (length (filter (\<lambda>a. attempt_model other a = m \<and> \<not> attempt_succeeded other a) as))"
    and "tally (fz_provider_empty_by_model (run as F)) m = tally (fz_provider_empty_by_model F) m +
      int (length (filter (\<lambda>a. attempt_model other a = m \<and> \<not> attempt_succeeded other a \<and>
        attempt_error_code a = Some EVENT_CODE_PROVIDER_EMPTY) as))"
    and "fz_fallback_attempt_count (run as F) = fz_fallback_attempt_count F +
      int (length (filter (is_fallback_attempt other primary) as))"
  unfolding run_def
  by (induction as arbitrary: F) (auto simp: note_attempt_def Let_def split: option.splits)

text \<open>Per model, the finalization attempts are its successes plus its failures, and empty answers are
  failures; when no more attempts are listed than were made, the fallback rate is a fraction.\<close>

theorem finalization_attempts_balance:
  fixes other attempts primary forced_final_attempts opened
  assumes "int (length attempts) \<le> forced_final_attempts"
  defines "F \<equiv> summarize_finalization_attempts other attempts primary forced_final_attempts opened"
  shows "tally (fz_attempts_by_model F) m = tally (fz_successes_by_model F) m + tally (fz_failures_by_model F) m
    \<and> tally (fz_attempts_by_model F) m = int (length (filter (\<lambda>a. attempt_model other a = m) attempts))
    \<and> tally (fz_provider_empty_by_model F) m \<le> tally (fz_failures_by_model F) m
    \<and> 0 \<le> fz_fallback_usage_rate F \<and> fz_fallback_usage_rate F \<le> 1"
proof -
  let ?G = "fold (note_attempt other primary) attempts empty_finalization"
  let ?n = "length (filter (is_fallback_attempt other primary) attempts)"
  have same: "fz_attempts_by_model F = fz_attempts_by_model ?G" "fz_successes_by_model F = fz_successes_by_model ?G"
    "fz_failures_by_model F = fz_failures_by_model ?G" "fz_provider_empty_by_model F = fz_provider_empty_by_model ?G"
    by (simp_all add: F_def summarize_finalization_attempts_def Let_def)
  have zero: "fz_attempts_by_model empty_finalization = []" "fz_successes_by_model empty_finalization = []"
    "fz_failures_by_model empty_finalization = []" "fz_provider_empty_by_model empty_finalization = []"
    "fz_fallback_attempt_count empty_finalization = 0" by (simp_all add: empty_finalization_def)
  have split: "length (filter P attempts) =
      length (filter (\<lambda>a. P a \<and> Q a) attempts) + length (filter (\<lambda>a. P a \<and> \<not> Q a) attempts)" for P Q
    by (induction attempts) auto
  have less: "length (filter (\<lambda>a. P a \<and> Q a \<and> R a) attempts) \<le> length (filter (\<lambda>a. P a \<and> Q a) attempts)" for P Q R
    by (induction attempts) auto
  have rate: "fz_fallback_usage_rate F = (if 0 < forced_final_attempts then of_int (int ?n) / of_int forced_final_attempts else 0)"
    by (simp add: F_def summarize_finalization_attempts_def Let_def fold_note_attempt(5) zero)
  have "int ?n \<le> forced_final_attempts" using assms(1) length_filter_le [of "is_fallback_attempt other primary" attempts] by linarith
  then have "0 \<le> fz_fallback_usage_rate F \<and> fz_fallback_usage_rate F \<le> 1"
    unfolding rate by (auto simp: divide_le_eq_1)
  then show ?thesis
    unfolding same fold_note_attempt zero
    using split [of "\<lambda>a. attempt_model other a = m" "attempt_succeeded other"]
      less [of "\<lambda>a. attempt_model other a = m" "\<lambda>a. \<not> attempt_succeeded other a"
        "\<lambda>a. attempt_error_code a = Some EVENT_CODE_PROVIDER_EMPTY"] by simp
qed

theorem finalization_attempts_balance_witness:
  "tally (fz_attempts_by_model (summarize_finalization_attempts (\<lambda>_. [])
     [[(''model'', PStr '' m ''), (''status'', PStr ''SUCCESS'')], [(''model'', PNone)]] (Some ''m'') 2 True)) ''m'' = 1"
  using finalization_attempts_balance
      [of "[[(''model'', PStr '' m ''), (''status'', PStr ''SUCCESS'')], [(''model'', PNone)]]" 2 "\<lambda>_. []" "Some ''m''" True "''m''"]
  by (simp add: attempt_model_def attempt_text_def py_strip_def py_isspace_def)

end
