(* ===== verification/Compliance_Gate.thy ===== *)
theory Compliance_Gate
  imports Bindings
begin

text \<open>
  The checks before a tool call runs, \<open>llm_client/agent/compliance_gate.py\<close>, and the adoption profile of
  an agent run, \<open>llm_client/agent/agent_adoption.py\<close>. Both are pure functions of what the agent loop
  hands them: the arguments of a call parsed from JSON, the tool schemas as Python values, the binding
  state of \<open>Bindings\<close>.
\<close>

section \<open>The gate\<close>

record gate_result =
  gr_is_valid :: bool
  gr_reason :: string
  gr_error_code :: "string option"
  gr_failure_phase :: "string option"
  gr_missing_args :: "string list"
  gr_call_bindings :: binding_dict

fun index_tool :: "(py \<Rightarrow> string) \<Rightarrow> py \<Rightarrow> (string \<times> (py \<times> py) list) option" where
  "index_tool other (PDict item) =
     (case dict_get item (PStr ''function'') of
        Some (PDict fn) \<Rightarrow>
          (let name = strip_str other (dict_get fn (PStr ''name'')) in
           case dict_get fn (PStr ''parameters'') of
             Some (PDict params) \<Rightarrow> if name = [] then None else Some (name, params)
           | _ \<Rightarrow> None)
      | _ \<Rightarrow> None)"
| "index_tool other _ = None"

definition build_tool_parameter_index :: "(py \<Rightarrow> string) \<Rightarrow> py list \<Rightarrow> (string \<times> (py \<times> py) list) list" where
  "build_tool_parameter_index other tools =
     fold (\<lambda>item out. case index_tool other item of None \<Rightarrow> out | Some (name, params) \<Rightarrow> dict_set name params out)
       tools []"

definition gate_rejected :: "string \<Rightarrow> string \<Rightarrow> string \<Rightarrow> string list \<Rightarrow> binding_dict \<Rightarrow> gate_result" where
  "gate_rejected reason code phase missing bindings =
     \<lparr>gr_is_valid = False, gr_reason = reason, gr_error_code = Some code, gr_failure_phase = Some phase,
      gr_missing_args = missing, gr_call_bindings = bindings\<rparr>"

definition has_reasoning :: "string \<Rightarrow> (string \<times> py) list \<Rightarrow> bool" where
  "has_reasoning field args \<longleftrightarrow> (case dict_get args field of Some (PStr s) \<Rightarrow> py_strip s \<noteq> [] | _ \<Rightarrow> False)"

text \<open>The arguments outside a schema with at least one declared argument besides the reasoning.\<close>

definition unknown_args :: "string \<Rightarrow> (py \<times> py) list \<Rightarrow> (string \<times> py) list \<Rightarrow> string list" where
  "unknown_args field params args =
     (case dict_get params (PStr ''properties'') of
        Some (PDict props) \<Rightarrow>
          if list_ex (\<lambda>(k, v). k \<noteq> PStr field) props
          then sort (filter (\<lambda>k. \<not> dict_has props (PStr k)) (map fst args)) else []
      | _ \<Rightarrow> [])"

definition required_args :: "bool \<Rightarrow> string \<Rightarrow> (py \<times> py) list \<Rightarrow> string list" where
  "required_args require_reasoning field params =
     (case dict_get params (PStr ''required'') of
        Some (PList vs) \<Rightarrow>
          filter (\<lambda>v. require_reasoning \<or> v \<noteq> field)
            (List.map_filter (\<lambda>v. case v of PStr s \<Rightarrow> if py_strip s \<noteq> [] then Some s else None | _ \<Rightarrow> None) vs)
      | _ \<Rightarrow> [])"

record gate_codes =
  code_schema :: string
  code_missing_reasoning :: string
  code_binding_conflict :: string

text \<open>The bindings that a call names, checked and in canonical form; a call that names none is not checked.\<close>

definition call_bindings ::
  "(py \<Rightarrow> string) \<Rightarrow> mapping_arg \<Rightarrow> (string \<times> py) list \<Rightarrow> bool \<times> string \<times> binding_dict" where
  "call_bindings other available args =
     (let proposed = extract_bindings_from_tool_args other (Some args) in
      if proposed = [] then (True, [], [])
      else case check_binding_conflicts other available (as_mapping proposed) of
        (ok, reason, conflicts, normalized) \<Rightarrow> (ok, reason, normalized))"

definition validate_tool_call_inputs ::
  "(py \<Rightarrow> string) \<Rightarrow> gate_codes \<Rightarrow> string \<Rightarrow> (string \<times> py) list option \<Rightarrow> (py \<times> py) list option
     \<Rightarrow> bool \<Rightarrow> string \<Rightarrow> mapping_arg \<Rightarrow> gate_result" where
  "validate_tool_call_inputs other codes tool parsed_args tool_parameters require_reasoning field available =
     (case parsed_args of
        None \<Rightarrow> gate_rejected (tool @ '' arguments must be a JSON object'') (code_schema codes) ''input_validation'' [] []
      | Some args \<Rightarrow>
        (case call_bindings other available args of (ok, reason, bindings) \<Rightarrow>
          if \<not> ok then gate_rejected reason (code_binding_conflict codes) ''binding_validation'' [] bindings
          else if require_reasoning \<and> \<not> has_reasoning field args
          then gate_rejected (''Missing required argument: '' @ field) (code_missing_reasoning codes)
                 ''input_validation'' [field] bindings
          else
            let params = (case tool_parameters of Some p \<Rightarrow> p | None \<Rightarrow> []);
                unknown = unknown_args field params args;
                missing = filter (\<lambda>a. \<not> dict_has args a) (required_args require_reasoning field params)
            in if unknown \<noteq> []
               then gate_rejected (tool @ '' unsupported args: '' @ py_join '', '' unknown) (code_schema codes)
                      ''input_validation'' unknown bindings
               else if missing \<noteq> []
               then gate_rejected (tool @ '' missing required args: '' @ py_join '', '' missing) (code_schema codes)
                      ''input_validation'' missing bindings
               else \<lparr>gr_is_valid = True, gr_reason = [], gr_error_code = None, gr_failure_phase = None,
                     gr_missing_args = [], gr_call_bindings = bindings\<rparr>))"

section \<open>Adoption profiles\<close>

definition ADOPTION_PROFILE_VALUES :: "string list" where
  "ADOPTION_PROFILE_VALUES = [''minimal'', ''standard'', ''strict'']"

definition DEFAULT_ADOPTION_PROFILE :: string where
  "DEFAULT_ADOPTION_PROFILE = ''minimal''"

definition normalize_adoption_profile :: "py \<Rightarrow> string" where
  "normalize_adoption_profile v =
     (case v of
        PStr s \<Rightarrow> let lowered = py_lower (py_strip s) in
                  if lowered \<in> set ADOPTION_PROFILE_VALUES then lowered else DEFAULT_ADOPTION_PROFILE
      | _ \<Rightarrow> DEFAULT_ADOPTION_PROFILE)"

text \<open>\<open>d.get(k) or {}\<close>; the left is the \<open>AttributeError\<close> of a \<open>get\<close> on the value when it is no dictionary.\<close>

definition get_dict :: "(py \<times> py) list \<Rightarrow> string \<Rightarrow> string + (py \<times> py) list" where
  "get_dict d k =
     (case dict_get d (PStr k) of
        None \<Rightarrow> Inr []
      | Some (PDict e) \<Rightarrow> Inr e
      | Some v \<Rightarrow> if py_truthy v then Inl ''AttributeError'' else Inr [])"

text \<open>\<open>schema.get("type") in {...}\<close> raises on a type that is no hash key.\<close>

fun unhashable :: "py \<Rightarrow> bool" where
  "unhashable (PList xs) = True"
| "unhashable (PSet xs) = True"
| "unhashable (PDict d) = True"
| "unhashable _ = False"

definition schema_is_composite :: "py \<Rightarrow> string + bool" where
  "schema_is_composite v =
     (case v of
        PDict d \<Rightarrow>
          if unhashable (py_get v ''type'') then Inl ''TypeError''
          else Inr (py_get v ''type'' = PStr ''array'' \<or> py_get v ''type'' = PStr ''object'' \<or>
                    py_truthy (py_get v ''anyOf''))
      | _ \<Rightarrow> Inr False)"

definition tool_schema_is_nontrivial :: "string \<Rightarrow> (py \<times> py) list \<Rightarrow> string + bool" where
  "tool_schema_is_nontrivial field tool =
     and_then (get_dict tool ''function'') (\<lambda>fn.
     and_then (get_dict fn ''parameters'') (\<lambda>parameters.
     case py_or (py_get (PDict parameters) ''properties'') (PDict []) of
       PDict props \<Rightarrow>
         (let user = filter (\<lambda>(k, v). k \<noteq> PStr field) props in
          if 1 < length user then Inr True
          else case user of [] \<Rightarrow> Inr False | (k, v) # _ \<Rightarrow> schema_is_composite v)
     | _ \<Rightarrow> Inr False))"

text \<open>What one tool is missing.\<close>

definition tool_quality :: "(py \<Rightarrow> string) \<Rightarrow> string list \<Rightarrow> string \<Rightarrow> (py \<times> py) list \<Rightarrow> string + string list" where
  "tool_quality other contracts field tool =
     (case py_or (py_get (PDict tool) ''function'') (PDict []) of
        PDict fn \<Rightarrow>
          (let name = py_strip (py_str other (py_or (py_get (PDict fn) ''name'') (PStr [])));
               description = py_strip (py_str other (py_or (py_get (PDict fn) ''description'') (PStr [])));
               undescribed = (if description = [] then [''tool '' @ name @ '' must have a one-line description''] else [])
           in if name = [] then Inr []
              else and_then (tool_schema_is_nontrivial field tool) (\<lambda>nontrivial.
                Inr (undescribed @
                  (if \<not> nontrivial then []
                   else (if \<not> py_contains ''input examples:'' (py_lower description)
                         then [''nontrivial tool '' @ name @ '' must include input examples''] else []) @
                        (if name \<notin> set contracts
                         then [''nontrivial tool '' @ name @ '' must declare tool_contracts''] else [])))))
      | _ \<Rightarrow> Inr [])"

fun assess_tool_registry_quality ::
  "(py \<Rightarrow> string) \<Rightarrow> string list \<Rightarrow> string \<Rightarrow> (py \<times> py) list list \<Rightarrow> string + string list" where
  "assess_tool_registry_quality other contracts field [] = Inr []"
| "assess_tool_registry_quality other contracts field (tool # tools) =
     and_then (tool_quality other contracts field tool) (\<lambda>v.
     and_then (assess_tool_registry_quality other contracts field tools) (\<lambda>vs. Inr (v @ vs)))"

record adoption_input =
  ad_enforce :: bool
  ad_openai_tools :: "(py \<times> py) list list"
  ad_contract_names :: "string list"
  ad_require_tool_reasoning :: bool
  ad_enforce_tool_contracts :: bool
  ad_progressive_tool_disclosure :: bool
  ad_lane_closed :: bool
  ad_reasoning_field :: string

record adoption_assessment =
  aa_requested_profile :: py
  aa_effective_profile :: string
  aa_enforce :: bool
  aa_violations :: "string list"

definition satisfied :: "adoption_assessment \<Rightarrow> bool" where
  "satisfied a \<longleftrightarrow> aa_violations a = []"

definition when_tools :: "adoption_input \<Rightarrow> bool \<Rightarrow> string \<Rightarrow> string list" where
  "when_tools I problem message = (if ad_openai_tools I \<noteq> [] \<and> problem then [message] else [])"

definition standard_violations :: "(py \<Rightarrow> string) \<Rightarrow> adoption_input \<Rightarrow> string + string list" where
  "standard_violations other I =
     and_then (assess_tool_registry_quality other (ad_contract_names I) (ad_reasoning_field I) (ad_openai_tools I))
       (\<lambda>quality. Inr
         (when_tools I (\<not> ad_require_tool_reasoning I) ''require_tool_reasoning must be enabled'' @
          when_tools I (\<not> ad_enforce_tool_contracts I) ''enforce_tool_contracts must be enabled'' @
          when_tools I (ad_contract_names I = []) ''tool_contracts must be provided'' @ quality))"

definition strict_violations :: "adoption_input \<Rightarrow> string list" where
  "strict_violations I =
     when_tools I (\<not> ad_progressive_tool_disclosure I) ''progressive_tool_disclosure must be enabled'' @
     when_tools I (ad_contract_names I \<noteq> [] \<and> \<not> ad_lane_closed I)
       ''lane_closure_analysis must be closed for strict profile''"

definition assess_adoption_profile ::
  "(py \<Rightarrow> string) \<Rightarrow> py \<Rightarrow> adoption_input \<Rightarrow> string + adoption_assessment" where
  "assess_adoption_profile other requested I =
     (let effective = normalize_adoption_profile requested;
          result = (\<lambda>vs. \<lparr>aa_requested_profile = requested, aa_effective_profile = effective,
                          aa_enforce = ad_enforce I, aa_violations = vs\<rparr>)
      in if effective = ''minimal'' then Inr (result [])
         else and_then (standard_violations other I) (\<lambda>vs.
           Inr (result (vs @ (if effective = ''strict'' then strict_violations I else [])))))"

section \<open>What the gate accepts\<close>

text \<open>The binding that a call names under a canonical key.\<close>

definition named_binding :: "(py \<Rightarrow> string) \<Rightarrow> (string \<times> py) list \<Rightarrow> string \<Rightarrow> string option" where
  "named_binding other args k = first_alias other args (aliases_of k)"

lemma extract_get:
  "dict_get (extract_bindings_from_tool_args other (Some args)) k =
     (if k \<in> set BINDING_KEYS then map_option Some (named_binding other args k) else None)"
proof -
  have "dict_get BINDING_ARG_ALIASES k = None \<longleftrightarrow> k \<notin> set BINDING_KEYS"
    unfolding map_of_eq_None_iff alias_keys(2) [symmetric] by simp
  then show ?thesis
    unfolding extract_bindings_from_tool_args_def option.case dict_get_map_filter [OF alias_keys(1)]
    by (cases "dict_get BINDING_ARG_ALIASES k") (auto simp: named_binding_def aliases_of_def)
qed

lemma binding_named:
  assumes "k \<in> set BINDING_KEYS"
  shows "binding (normalize_bindings other (as_mapping (extract_bindings_from_tool_args other (Some args)))) k =
    named_binding other args k"
proof -
  let ?m = "map (\<lambda>(k, v). (k, case v of Some s \<Rightarrow> PStr s | None \<Rightarrow> PNone))
    (extract_bindings_from_tool_args other (Some args))"
  have get: "dict_get ?m a = (if a \<in> set BINDING_KEYS then map_option PStr (named_binding other args a) else None)" for a
    unfolding dict_get_map_values extract_get by (cases "named_binding other args a") auto
  obtain rest where rest: "aliases_of k = k # rest" "set rest \<inter> set BINDING_KEYS = {}"
    using aliases_shape [OF assms] by blast
  have "first_alias other ?m rest = None" using rest(2) by (intro first_alias_none) (auto simp: get)
  moreover have "norm_binding_value other (PStr s) = Some s" if "named_binding other args k = Some s" for s
    using first_alias_stripped [of other args "aliases_of k" s] that
    by (simp add: named_binding_def norm_binding_value_def norm_text_def)
  ultimately show ?thesis
    using assms rest(1) get [of k]
    by (cases "named_binding other args k") (simp_all add: as_mapping_def binding_normalize)
qed

definition bindings_agree :: "(py \<Rightarrow> string) \<Rightarrow> mapping_arg \<Rightarrow> (string \<times> py) list \<Rightarrow> bool" where
  "bindings_agree other available args \<longleftrightarrow>
     (\<forall>k \<in> set HARD_BINDING_KEYS.
        binding (normalize_bindings other available) k = None \<or> named_binding other args k = None \<or>
        binding (normalize_bindings other available) k = named_binding other args k)"

lemma hard_is_binding: "k \<in> set HARD_BINDING_KEYS \<Longrightarrow> k \<in> set BINDING_KEYS"
  using hard_or_soft(1) by blast

lemma extract_Nil:
  assumes "extract_bindings_from_tool_args other (Some args) = []" and "k \<in> set BINDING_KEYS"
  shows "named_binding other args k = None"
  using extract_get [of other args k] assms by (cases "named_binding other args k") simp_all

lemma call_bindings_ok_iff: "fst (call_bindings other available args) \<longleftrightarrow> bindings_agree other available args"
proof (cases "extract_bindings_from_tool_args other (Some args) = []")
  case True
  then show ?thesis
    using extract_Nil [OF True] by (auto simp: call_bindings_def bindings_agree_def hard_is_binding)
next
  case False
  let ?p = "as_mapping (extract_bindings_from_tool_args other (Some args))"
  have "fst (call_bindings other available args) \<longleftrightarrow>
      binding_conflicts (normalize_bindings other available) (normalize_bindings other ?p) = []"
    using False by (simp add: call_bindings_def check_binding_conflicts_def Let_def)
  also have "\<dots> \<longleftrightarrow> (\<forall>k \<in> set HARD_BINDING_KEYS. \<not> (\<exists>e i. binding (normalize_bindings other available) k = Some e
      \<and> binding (normalize_bindings other ?p) k = Some i \<and> e \<noteq> [] \<and> i \<noteq> [] \<and> e \<noteq> i))"
    unfolding binding_conflicts_def List.map_filter_def
    by (auto simp: filter_empty_conv split: option.splits if_splits)
  also have "\<dots> \<longleftrightarrow> bindings_agree other available args"
    unfolding bindings_agree_def
  proof (rule ball_cong [OF refl])
    fix k assume k: "k \<in> set HARD_BINDING_KEYS"
    have named: "binding (normalize_bindings other ?p) k = named_binding other args k"
      by (rule binding_named [OF hard_is_binding [OF k]])
    have "binding (normalize_bindings other available) k \<noteq> Some []" "named_binding other args k \<noteq> Some []"
      using binding_normalize_stripped [of other available k] binding_normalize_stripped [of other ?p k] named by auto
    then show "(\<not> (\<exists>e i. binding (normalize_bindings other available) k = Some e
        \<and> binding (normalize_bindings other ?p) k = Some i \<and> e \<noteq> [] \<and> i \<noteq> [] \<and> e \<noteq> i)) \<longleftrightarrow>
      (binding (normalize_bindings other available) k = None \<or> named_binding other args k = None \<or>
        binding (normalize_bindings other available) k = named_binding other args k)"
      unfolding named by (cases "binding (normalize_bindings other available) k"; cases "named_binding other args k") auto
  qed
  finally show ?thesis .
qed

lemma call_bindings_named:
  assumes "k \<in> set BINDING_KEYS"
  shows "binding (normalize_bindings other (as_mapping (snd (snd (call_bindings other available args))))) k =
    named_binding other args k"
proof (cases "extract_bindings_from_tool_args other (Some args) = []")
  case True
  have "binding (normalize_bindings other (as_mapping [])) k = None"
    using assms aliases_shape [OF assms] by (auto simp: as_mapping_def binding_normalize first_alias_none)
  then show ?thesis using True extract_Nil [OF True assms] by (simp add: call_bindings_def)
next
  case False
  then show ?thesis
    by (simp add: call_bindings_def check_binding_conflicts_def Let_def normalize_idem binding_named [OF assms])
qed

text \<open>A call passes the gate exactly when its arguments are an object whose hard bindings agree with
  those in force, that gives a reason where one is required, names no argument outside a schema that
  declares any, and has every required one. Merging the bindings of a call that passed adopts every
  hard binding the call names and moves none that is set.\<close>

theorem gate_accepts_iff:
  fixes other codes tool args params require_reasoning field available
  defines "R \<equiv> validate_tool_call_inputs other codes tool (Some args) params require_reasoning field available"
    and "schema \<equiv> (case params of Some p \<Rightarrow> p | None \<Rightarrow> [])"
  shows "(gr_is_valid R \<longleftrightarrow> bindings_agree other available args
        \<and> (if require_reasoning then has_reasoning field args else True)
        \<and> unknown_args field schema args = []
        \<and> list_all (dict_has args) (required_args require_reasoning field schema))
    \<and> (gr_is_valid R \<longrightarrow> (\<forall>k \<in> set HARD_BINDING_KEYS.
        binding (merge_binding_state other available (as_mapping (gr_call_bindings R))) k =
          (if named_binding other args k \<noteq> None then named_binding other args k
           else binding (normalize_bindings other available) k)))"
proof (intro conjI impI ballI)
  obtain ok reason bindings where call: "call_bindings other available args = (ok, reason, bindings)"
    by (cases "call_bindings other available args") auto
  have ok: "ok = bindings_agree other available args"
    using call_bindings_ok_iff [of other available args] call by simp
  have missing: "filter (\<lambda>a. \<not> dict_has args a) xs = [] \<longleftrightarrow> list_all (dict_has args) xs" for xs
    by (simp add: filter_empty_conv list_all_iff)
  show valid: "gr_is_valid R \<longleftrightarrow> bindings_agree other available args
        \<and> (if require_reasoning then has_reasoning field args else True)
        \<and> unknown_args field schema args = []
        \<and> list_all (dict_has args) (required_args require_reasoning field schema)"
    unfolding R_def schema_def validate_tool_call_inputs_def
    by (simp add: call ok gate_rejected_def Let_def missing)
  fix k
  assume R: "gr_is_valid R" and k: "k \<in> set HARD_BINDING_KEYS"
  have "gr_call_bindings R = bindings"
    unfolding R_def validate_tool_call_inputs_def by (simp add: call gate_rejected_def Let_def)
  then have "binding (normalize_bindings other (as_mapping (gr_call_bindings R))) k = named_binding other args k"
    using call_bindings_named [OF hard_is_binding [OF k], of other available args] call by simp
  moreover have "k \<notin> set SOFT_BINDING_KEYS" using k hard_or_soft(2) by blast
  moreover have "binding (normalize_bindings other available) k = None \<or> named_binding other args k = None \<or>
      binding (normalize_bindings other available) k = named_binding other args k"
    using R k unfolding valid bindings_agree_def by blast
  ultimately show "binding (merge_binding_state other available (as_mapping (gr_call_bindings R))) k =
        (if named_binding other args k \<noteq> None then named_binding other args k
         else binding (normalize_bindings other available) k)"
    using k by (auto simp: binding_merge Let_def)
qed

theorem gate_accepts_iff_witness:
  "binding (merge_binding_state (\<lambda>_. []) None (as_mapping (gr_call_bindings
     (validate_tool_call_inputs (\<lambda>_. []) \<lparr>code_schema = ''S'', code_missing_reasoning = ''R'', code_binding_conflict = ''B''\<rparr>
       ''search'' (Some [(''dataset_name'', PStr ''d1'')]) None False ''why'' None)))) ''dataset_id'' = Some ''d1''"
proof -
  let ?R = "validate_tool_call_inputs (\<lambda>_. []) \<lparr>code_schema = ''S'', code_missing_reasoning = ''R'', code_binding_conflict = ''B''\<rparr>
       ''search'' (Some [(''dataset_name'', PStr ''d1'')]) None False ''why'' None"
  have "gr_is_valid ?R" by code_simp
  moreover have "''dataset_id'' \<in> set HARD_BINDING_KEYS" by (simp add: HARD_BINDING_KEYS_def)
  moreover have "named_binding (\<lambda>_. []) [(''dataset_name'', PStr ''d1'')] ''dataset_id'' = Some ''d1''" by code_simp
  ultimately show ?thesis 
    using gate_accepts_iff [where other = "\<lambda>_. []" and available = None and args = "[(''dataset_name'', PStr ''d1'')]"] by (metis option.distinct(1))
qed

section \<open>Adoption profiles\<close>

lemma normalized_profile: "normalize_adoption_profile v \<in> {''minimal'', ''standard'', ''strict''}"
  by (auto simp: normalize_adoption_profile_def ADOPTION_PROFILE_VALUES_def DEFAULT_ADOPTION_PROFILE_def Let_def
      split: py.splits)

text \<open>The profiles are ordered. What satisfies the strict profile satisfies the standard one, and the
  minimal one, which every other request means, has no violation at all.\<close>

theorem stricter_profile_implies:
  assumes "assess_adoption_profile other (PStr ''strict'') I = Inr strict" and "satisfied strict"
  shows "\<exists>a. assess_adoption_profile other requested I = Inr a \<and> satisfied a"
proof -
  have "normalize_adoption_profile (PStr ''strict'') = ''strict''" by code_simp
  with assms have "standard_violations other I = Inr []" "strict_violations I = []"
    by (auto simp: assess_adoption_profile_def satisfied_def Let_def)
  then show ?thesis by (auto simp: assess_adoption_profile_def satisfied_def Let_def)
qed

theorem stricter_profile_implies_witness:
  "\<exists>a. assess_adoption_profile (\<lambda>_. []) (PStr ''standard'')
     \<lparr>ad_enforce = True, ad_openai_tools = [], ad_contract_names = [], ad_require_tool_reasoning = False,
      ad_enforce_tool_contracts = False, ad_progressive_tool_disclosure = False, ad_lane_closed = False,
      ad_reasoning_field = ''why''\<rparr> = Inr a \<and> satisfied a"
proof (rule stricter_profile_implies)
  show "assess_adoption_profile (\<lambda>_. []) (PStr ''strict'')
     \<lparr>ad_enforce = True, ad_openai_tools = [], ad_contract_names = [], ad_require_tool_reasoning = False,
      ad_enforce_tool_contracts = False, ad_progressive_tool_disclosure = False, ad_lane_closed = False,
      ad_reasoning_field = ''why''\<rparr> = Inr \<lparr>aa_requested_profile = PStr ''strict'', aa_effective_profile = ''strict'',
        aa_enforce = True, aa_violations = []\<rparr>" by code_simp
qed (simp add: satisfied_def)

text \<open>JSON Schema lets a type be a list of types; on such a parameter the assessment raises.\<close>

lemma union_type_raises:
  "assess_adoption_profile (\<lambda>_. []) (PStr ''standard'')
     \<lparr>ad_enforce = True,
      ad_openai_tools = [[(PStr ''function'', PDict [(PStr ''name'', PStr ''f''), (PStr ''parameters'', PDict
        [(PStr ''properties'', PDict [(PStr ''q'', PDict
          [(PStr ''type'', PList [PStr ''string'', PStr ''null''])])])])])]],
      ad_contract_names = [], ad_require_tool_reasoning = True,
      ad_enforce_tool_contracts = True, ad_progressive_tool_disclosure = True, ad_lane_closed = True,
      ad_reasoning_field = ''why''\<rparr> = Inl ''TypeError''"
  by code_simp

end
