(* ===== verification/Context_Window.thy ===== *)
theory Context_Window
  imports Prelude
begin

text \<open>
  The context window of the agent loop: compaction and clearing of tool results in the message history,
  \<open>llm_client/agent/mcp_context.py\<close>, and the budget report, \<open>llm_client/agent/context_budget.py\<close>.

  A message is a dictionary with string keys. The functions rewrite the \<open>content\<close> of messages in
  place; here they return the messages. The JSON text of a whole message and of a value that is not a
  string are arguments (\<open>json\<close>, \<open>json_value\<close>), as is the digest \<open>sha\<close>.
\<close>

type_synonym message = "(string \<times> py) list"

section \<open>JSON texts\<close>

text \<open>A string in \<open>json.dumps(..., ensure_ascii=False)\<close>.\<close>

definition json_char :: "char \<Rightarrow> string" where
  "json_char c =
     (let n = of_char c :: nat in
      if c = CHR 0x22 \<or> c = CHR 0x5C then [CHR 0x5C, c]
      else if n = 8 then [CHR 0x5C, CHR ''b''] else if n = 9 then [CHR 0x5C, CHR ''t'']
      else if n = 10 then [CHR 0x5C, CHR ''n''] else if n = 12 then [CHR 0x5C, CHR ''f'']
      else if n = 13 then [CHR 0x5C, CHR ''r'']
      else if n < 32 then CHR 0x5C # ''u00'' @ [hex_char (n div 16), hex_char (n mod 16)]
      else [c])"

definition json_string :: "string \<Rightarrow> string" where
  "json_string s = CHR 0x22 # concat (map json_char s) @ [CHR 0x22]"

definition json_item :: "(py \<Rightarrow> string) \<Rightarrow> string \<times> py \<Rightarrow> string" where
  "json_item json_value kv =
     json_string (fst kv) @ '': '' @ (case snd kv of PStr s \<Rightarrow> json_string s | v \<Rightarrow> json_value v)"

definition json_object :: "(py \<Rightarrow> string) \<Rightarrow> (string \<times> py) list \<Rightarrow> string" where
  "json_object json_value d = ''{'' @ py_join '', '' (map (json_item json_value) d) @ ''}''"

text \<open>\<open>dict(a, **b)\<close>: the items of \<open>b\<close> replace those of \<open>a\<close> in place.\<close>

definition dict_update :: "('k \<times> 'v) list \<Rightarrow> ('k \<times> 'v) list \<Rightarrow> ('k \<times> 'v) list" where
  "dict_update a b = fold (\<lambda>(k, v). dict_set k v) b a"

section \<open>Compaction\<close>

definition trim_text :: "string \<Rightarrow> int \<Rightarrow> string" where
  "trim_text s max_chars = (if int (length s) \<le> max_chars then s else py_take (max_chars - 3) s @ ''...'')"

definition total_chars :: "(message \<Rightarrow> int) \<Rightarrow> message list \<Rightarrow> int" where
  "total_chars json_len ms = sum_list (map json_len ms)"

definition COMPACTED :: string where
  "COMPACTED =
     CHR ''{'' # [CHR 0x22] @ ''notice'' @ [CHR 0x22, CHR '':'', CHR 0x22] @
     ''Earlier tool result compacted to fit context window. '' @
     ''Re-run the tool if this evidence is needed again.'' @ [CHR 0x22, CHR ''}'']"

text \<open>The content of a tool message, when it is text.\<close>

definition tool_text :: "message \<Rightarrow> string option" where
  "tool_text m =
     (if dict_get m ''role'' = Some (PStr ''tool'')
      then (case dict_get m ''content'' of Some (PStr s) \<Rightarrow> Some s | _ \<Rightarrow> None) else None)"

definition compactable :: "message \<Rightarrow> string option" where
  "compactable m =
     (case tool_text m of
        Some s \<Rightarrow> if 512 < length s \<and> length COMPACTED < length s then Some s else None
      | None \<Rightarrow> None)"

text \<open>The loop: the messages, how many were compacted, the characters saved and the total left.\<close>

fun compact_from :: "int \<Rightarrow> int \<Rightarrow> message list \<Rightarrow> message list \<times> int \<times> int \<times> int" where
  "compact_from target cur [] = ([], 0, 0, cur)"
| "compact_from target cur (m # ms) =
     (if cur \<le> target then (m # ms, 0, 0, cur)
      else case compactable m of
        None \<Rightarrow> (case compact_from target cur ms of (ms', n, saved, t) \<Rightarrow> (m # ms', n, saved, t))
      | Some s \<Rightarrow>
          let delta = int (length s) - int (length COMPACTED) in
          (case compact_from target (cur - delta) ms of
             (ms', n, saved, t) \<Rightarrow> (dict_set ''content'' (PStr COMPACTED) m # ms', n + 1, saved + delta, t)))"

definition compact_tool_history_for_context ::
  "(message \<Rightarrow> int) \<Rightarrow> int \<Rightarrow> message list \<Rightarrow> message list \<times> int \<times> int \<times> int" where
  "compact_tool_history_for_context json_len max_message_chars ms =
     (let total = total_chars json_len ms in
      if max_message_chars \<le> 0 \<or> total \<le> max_message_chars then (ms, 0, 0, total)
      else compact_from (max (max_message_chars * 3 div 4) 32000) total ms)"

section \<open>Clearing of old tool results\<close>

definition NOTICE_MARKER :: string where
  "NOTICE_MARKER =
     [CHR 0x22] @ ''notice'' @ [CHR 0x22, CHR '':'', CHR 0x22] @ ''Tool result cleared from active context''"

definition call_id_of :: "(py \<Rightarrow> string) \<Rightarrow> message \<Rightarrow> string" where
  "call_id_of other m = strip_str other (dict_get m ''tool_call_id'')"

definition cleared_stub ::
  "(py \<Rightarrow> string) \<Rightarrow> (py \<Rightarrow> string) \<Rightarrow> (string \<Rightarrow> string) \<Rightarrow> (string \<Rightarrow> (string \<times> py) list) \<Rightarrow> int
     \<Rightarrow> message \<Rightarrow> string \<Rightarrow> string" where
  "cleared_stub other json_value sha metadata preview_chars m content =
     json_object json_value (dict_update
       [(''notice'', PStr ''Tool result cleared from active context to reduce prompt size.''),
        (''tool_call_id'', PStr (call_id_of other m)),
        (''content_sha256'', PStr (sha content)),
        (''preview'', PStr (take (nat (max 40 preview_chars)) (py_join '' '' (py_split content))))]
       (metadata (call_id_of other m)))"

text \<open>
  One old tool message: what it becomes and the characters it saves, \<open>None\<close> when it is left alone. Its
  content is replaced even when the stub is longer.
\<close>

definition clear_message ::
  "(py \<Rightarrow> string) \<Rightarrow> (py \<Rightarrow> string) \<Rightarrow> (string \<Rightarrow> string) \<Rightarrow> (string \<Rightarrow> (string \<times> py) list) \<Rightarrow> int
     \<Rightarrow> message \<Rightarrow> (message \<times> int) option" where
  "clear_message other json_value sha metadata preview_chars m =
     (case tool_text m of
        None \<Rightarrow> None
      | Some content \<Rightarrow>
          if content = [] \<or> py_contains NOTICE_MARKER content then None
          else let stub = cleared_stub other json_value sha metadata preview_chars m content in
               Some (dict_set ''content'' (PStr stub) m, max 0 (int (length content) - int (length stub))))"

text \<open>The first \<open>n\<close> tool messages are the old ones.\<close>

fun clear_first ::
  "(message \<Rightarrow> (message \<times> int) option) \<Rightarrow> nat \<Rightarrow> message list \<Rightarrow> message list \<times> int \<times> int" where
  "clear_first clear n [] = ([], 0, 0)"
| "clear_first clear n (m # ms) =
     (if n = 0 then (m # ms, 0, 0)
      else if tool_text m = None
      then (case clear_first clear n ms of (ms', k, saved) \<Rightarrow> (m # ms', k, saved))
      else case clear_first clear (n - 1) ms of (ms', k, saved) \<Rightarrow>
        (case clear m of
           None \<Rightarrow> (m # ms', k, saved)
         | Some (m', s) \<Rightarrow> (m' # ms', k + 1, saved + s)))"

definition clear_old_tool_results_for_context ::
  "(py \<Rightarrow> string) \<Rightarrow> (py \<Rightarrow> string) \<Rightarrow> (string \<Rightarrow> string) \<Rightarrow> (string \<Rightarrow> (string \<times> py) list)
     \<Rightarrow> int \<Rightarrow> int \<Rightarrow> message list \<Rightarrow> message list \<times> int \<times> int" where
  "clear_old_tool_results_for_context other json_value sha metadata keep_recent preview_chars ms =
     (let tools = length (filter (\<lambda>m. tool_text m \<noteq> None) ms) in
      if keep_recent < 0 \<or> int tools \<le> keep_recent then (ms, 0, 0)
      else clear_first (clear_message other json_value sha metadata preview_chars)
             (tools - nat keep_recent) ms)"

section \<open>The budget report\<close>

record context_budget =
  cb_model :: string
  cb_max_context_tokens :: int
  cb_tool_definition_tokens :: int
  cb_system_prompt_tokens :: int
  cb_conversation_tokens :: int

definition used_tokens :: "context_budget \<Rightarrow> int" where
  "used_tokens b = cb_tool_definition_tokens b + cb_system_prompt_tokens b + cb_conversation_tokens b"

definition remaining_tokens :: "context_budget \<Rightarrow> int" where
  "remaining_tokens b = max 0 (cb_max_context_tokens b - used_tokens b)"

definition utilization :: "context_budget \<Rightarrow> rat" where
  "utilization b =
     (if cb_max_context_tokens b \<le> 0 then 0
      else min 1 (of_int (used_tokens b) / of_int (cb_max_context_tokens b)))"

definition estimate_tokens :: "string \<Rightarrow> int" where
  "estimate_tokens s = max 1 (int (length s) div 4)"

text \<open>\<open>estimate_tool_definition_tokens\<close> and \<open>estimate_conversation_tokens\<close>; \<open>json\<close> is \<open>json.dumps\<close>.\<close>

definition estimate_json_tokens :: "('a list \<Rightarrow> string) \<Rightarrow> 'a list \<Rightarrow> int" where
  "estimate_json_tokens json xs = (if xs = [] then 0 else estimate_tokens (json xs))"

definition get_model_context_limit :: "string \<Rightarrow> int" where
  "get_model_context_limit model =
     (let m = py_lower model in
      if py_any_in [''opus-4'', ''sonnet-4'', ''gpt-5'', ''gemini-2.5''] m then 1000000
      else if py_any_in [''claude'', ''haiku''] m then 200000
      else if py_any_in [''gpt-4'', ''o1'', ''o3'', ''o4''] m then 128000
      else 200000)"

definition compute_context_budget ::
  "((py \<times> py) list list \<Rightarrow> string) \<Rightarrow> (message list \<Rightarrow> string) \<Rightarrow> string \<Rightarrow> (py \<times> py) list list \<Rightarrow> message list
     \<Rightarrow> string \<Rightarrow> int option \<Rightarrow> context_budget" where
  "compute_context_budget json_tools json_messages model tools ms system_prompt max_tokens =
     \<lparr>cb_model = model,
      cb_max_context_tokens = (case max_tokens of
                                 Some n \<Rightarrow> if n \<noteq> 0 then n else get_model_context_limit model
                               | None \<Rightarrow> get_model_context_limit model),
      cb_tool_definition_tokens = estimate_json_tokens json_tools tools,
      cb_system_prompt_tokens = (if system_prompt \<noteq> [] then estimate_tokens system_prompt else 0),
      cb_conversation_tokens = estimate_json_tokens json_messages ms\<rparr>"

section \<open>What compaction and clearing keep\<close>

lemma tool_text_set [simp]:
  "tool_text (dict_set ''content'' (PStr s) m) = (if tool_text m = None \<and> dict_get m ''role'' \<noteq> Some (PStr ''tool'')
     then None else Some s)"
  by (simp add: tool_text_def py_simps split: option.splits)

lemma tool_text_role: "tool_text m = Some s \<Longrightarrow> dict_get m ''role'' = Some (PStr ''tool'')"
  by (simp add: tool_text_def split: if_splits)

lemma compactable_SomeD:
  assumes "compactable m = Some s"
  shows "tool_text m = Some s" and "512 < length s" and "length COMPACTED < length s"
  using assms by (auto simp: compactable_def split: option.splits if_splits)

lemma compacted_not_compactable: "compactable m = Some s \<Longrightarrow> compactable (dict_set ''content'' (PStr COMPACTED) m) = None"
  by (auto simp: compactable_def dest: compactable_SomeD tool_text_role split: option.splits)

text \<open>The characters of the tool results.\<close>

definition tool_chars :: "message list \<Rightarrow> int" where
  "tool_chars ms = sum_list (map (\<lambda>m. case tool_text m of Some s \<Rightarrow> int (length s) | None \<Rightarrow> 0) ms)"

lemma compact_from_result:
  assumes "compact_from target cur ms = (ms', n, saved, t)"
  shows "t = cur - saved \<and> saved = tool_chars ms - tool_chars ms' \<and> 0 \<le> saved \<and> length ms' = length ms
    \<and> n = int (length (filter (\<lambda>(m, m'). m \<noteq> m') (zip ms ms')))
    \<and> (t \<le> target \<or> list_all (\<lambda>m. compactable m = None) ms')
    \<and> list_all2 (\<lambda>m m'. m' = m \<or> compactable m \<noteq> None \<and> m' = dict_set ''content'' (PStr COMPACTED) m) ms ms'"
  using assms
proof (induction target cur ms arbitrary: ms' n saved t rule: compact_from.induct)
  case (1 target cur)
  then show ?case by (simp add: tool_chars_def)
next
  case (2 target cur m ms)
  have same: "filter (\<lambda>(m, m'). m \<noteq> m') (zip xs xs) = []" for xs :: "message list"
    by (induction xs) auto
  consider (at_target) "cur \<le> target" | (keep) "\<not> cur \<le> target" "compactable m = None"
    | (compact) s where "\<not> cur \<le> target" "compactable m = Some s" by fastforce
  then show ?case
  proof cases
    case at_target
    then show ?thesis using 2(3) at_target same [of "m # ms"] by (auto simp: list_all2_refl)
  next
    case keep
    obtain ms1 n1 s1 t1 where rec: "compact_from target cur ms = (ms1, n1, s1, t1)" by (cases "compact_from target cur ms") auto
    from 2(1) [OF keep rec] show ?thesis using 2(3) keep rec by (auto simp: tool_chars_def)
  next
    case compact
    let ?delta = "int (length s) - int (length COMPACTED)"
    obtain ms1 n1 s1 t1 where rec: "compact_from target (cur - ?delta) ms = (ms1, n1, s1, t1)"
      by (cases "compact_from target (cur - ?delta) ms") auto
    let ?m' = "dict_set ''content'' (PStr COMPACTED) m"
    have out: "ms' = ?m' # ms1" "n = n1 + 1" "saved = s1 + ?delta" "t = t1"
      using 2(3) compact rec by (auto simp: Let_def)
    have texts: "tool_text m = Some s" "tool_text ?m' = Some COMPACTED" "length COMPACTED < length s"
      using compactable_SomeD [OF compact(2)] by simp_all
    then have "m \<noteq> ?m'" by (metis nat_neq_iff option.inject)
    with 2(2) [OF compact refl rec] show ?thesis
      using texts compact compacted_not_compactable [OF compact(2)] by (auto simp: out tool_chars_def)
  qed
qed

text \<open>Compaction replaces only long tool results, by the fixed notice; the characters it reports as
  saved are those that the tool results lost, and it stops early only at its target: otherwise no
  result that could be compacted is left.\<close>

theorem compaction_exact:
  assumes "compact_tool_history_for_context json_len max_chars ms = (ms', n, saved, left)"
  shows "list_all2 (\<lambda>m m'. m' = m \<or> compactable m \<noteq> None \<and> m' = dict_set ''content'' (PStr COMPACTED) m) ms ms'
    \<and> saved = tool_chars ms - tool_chars ms' \<and> left = total_chars json_len ms - saved
    \<and> (max_chars \<le> 0 \<or> left \<le> max max_chars 32000 \<or> list_all (\<lambda>m. compactable m = None) ms')"
proof (cases "max_chars \<le> 0 \<or> total_chars json_len ms \<le> max_chars")
  case True
  then have "ms' = ms" "saved = 0" "left = total_chars json_len ms"
    using assms by (auto simp: compact_tool_history_for_context_def Let_def)
  with True show ?thesis by (auto simp: list_all2_refl)
next
  case False
  let ?target = "max (max_chars * 3 div 4) 32000"
  have "compact_from ?target (total_chars json_len ms) ms = (ms', n, saved, left)"
    using assms False by (simp add: compact_tool_history_for_context_def)
  from compact_from_result [OF this] show ?thesis
    using False by auto
qed

theorem compaction_exact_witness:
  "let m = [(''role'', PStr ''tool''), (''content'', PStr (replicate 600 CHR ''x''))];
       (ms', n, saved, left) = compact_tool_history_for_context (\<lambda>_. 40000) 33000 [m]
   in saved = tool_chars [m] - tool_chars ms'"
proof -
  let ?m = "[(''role'', PStr ''tool''), (''content'', PStr (replicate 600 CHR ''x''))]"
  obtain ms' n saved left where "compact_tool_history_for_context (\<lambda>_. 40000) 33000 [?m] = (ms', n, saved, left)"
    by (cases "compact_tool_history_for_context (\<lambda>_. 40000) 33000 [?m]") auto
  with compaction_exact [OF this] show ?thesis by simp
qed

lemma clear_first_result:
  assumes "clear_first clear n ms = (ms', k, saved)"
    and "\<And>m m' s. clear m = Some (m', s) \<Longrightarrow> 0 \<le> s"
  shows "length ms' = length ms \<and> 0 \<le> saved \<and>
    (\<forall>i < length ms. ms' ! i = ms ! i \<or>
       (\<exists>s. clear (ms ! i) = Some (ms' ! i, s)) \<and>
       length (filter (\<lambda>m. tool_text m \<noteq> None) (take i ms)) < n)"
  using assms(1)
proof (induction ms arbitrary: n ms' k saved)
  case (Cons m ms)
  consider (zero) "n = 0" | (skip) "n \<noteq> 0" "tool_text m = None" | (tool) "n \<noteq> 0" "tool_text m \<noteq> None" by blast
  then show ?case
  proof cases
    case zero
    then show ?thesis using Cons.prems by auto
  next
    case skip
    obtain ms1 k1 s1 where rec: "clear_first clear n ms = (ms1, k1, s1)" by (cases "clear_first clear n ms") auto
    have out: "ms' = m # ms1" "saved = s1" using Cons.prems skip rec by auto
    show ?thesis using Cons.IH [OF rec] skip by (auto simp: out less_Suc_eq_0_disj)
  next
    case tool
    obtain ms1 k1 s1 where rec: "clear_first clear (n - 1) ms = (ms1, k1, s1)" by (cases "clear_first clear (n - 1) ms") auto
    have less: "Suc x < n" if "x < n - Suc 0" for x using that by simp
    show ?thesis
    proof (cases "clear m")
      case None
      have out: "ms' = m # ms1" "saved = s1" using Cons.prems tool rec None by auto
      show ?thesis using Cons.IH [OF rec] tool by (auto simp: out less_Suc_eq_0_disj intro: less)
    next
      case (Some x)
      obtain m' s where x: "clear m = Some (m', s)" using Some by (cases x) auto
      have out: "ms' = m' # ms1" "saved = s1 + s" using Cons.prems tool rec x by auto
      show ?thesis using Cons.IH [OF rec] tool x assms(2) [OF x] by (auto simp: out less_Suc_eq_0_disj intro: less)
    qed
  qed
qed simp

lemma clear_message_SomeD:
  assumes "clear_message other json_value sha metadata preview m = Some (m', s)"
  shows "\<exists>content. tool_text m = Some content \<and> content \<noteq> [] \<and> 0 \<le> s \<and>
    m' = dict_set ''content'' (PStr (cleared_stub other json_value sha metadata preview m content)) m"
  using assms by (auto simp: clear_message_def Let_def split: option.splits if_splits)

lemma tool_results_after:
  "length (filter P (drop i ms)) = length (filter P ms) - length (filter P (take i ms))"
  by (metis append_take_drop_id diff_add_inverse filter_append length_append)

text \<open>Clearing changes only the content of tool messages, and never that of the last \<open>keep_recent\<close>
  of them: a message that changes has that many tool results after it.\<close>

theorem clearing_keeps_recent:
  assumes "clear_old_tool_results_for_context other json_value sha metadata keep_recent preview ms = (ms', k, saved)"
    and "i < length ms" and "ms' ! i \<noteq> ms ! i"
  shows "\<exists>content. tool_text (ms ! i) = Some content \<and>
      ms' ! i = dict_set ''content'' (PStr (cleared_stub other json_value sha metadata preview (ms ! i) content)) (ms ! i)
    \<and> keep_recent \<le> int (length (filter (\<lambda>m. tool_text m \<noteq> None) (drop (Suc i) ms)))"
proof -
  let ?tools = "\<lambda>xs. length (filter (\<lambda>m. tool_text m \<noteq> None) xs)"
  let ?clear = "clear_message other json_value sha metadata preview"
  let ?n = "?tools ms - nat keep_recent"
  have active: "\<not> (keep_recent < 0 \<or> int (?tools ms) \<le> keep_recent)"
    using assms(1,3) by (auto simp: clear_old_tool_results_for_context_def Let_def split: if_splits)
  then have run: "clear_first ?clear ?n ms = (ms', k, saved)"
    using assms(1) by (simp add: clear_old_tool_results_for_context_def)
  have "\<And>m m' s. ?clear m = Some (m', s) \<Longrightarrow> 0 \<le> s" by (blast dest: clear_message_SomeD)
  then obtain s where clear: "?clear (ms ! i) = Some (ms' ! i, s)" and less: "?tools (take i ms) < ?n"
    using clear_first_result [OF run] assms(2,3) by blast
  from clear_message_SomeD [OF clear] obtain content where content: "tool_text (ms ! i) = Some content"
    "ms' ! i = dict_set ''content'' (PStr (cleared_stub other json_value sha metadata preview (ms ! i) content)) (ms ! i)"
    by blast
  have "?tools (take (Suc i) ms) = ?tools (take i ms) + 1"
    using assms(2) content(1) by (simp add: take_Suc_conv_app_nth)
  then have "?tools (drop (Suc i) ms) = ?tools ms - (?tools (take i ms) + 1)"
    using tool_results_after [of "\<lambda>m. tool_text m \<noteq> None" "Suc i" ms] by simp
  then have "keep_recent \<le> int (?tools (drop (Suc i) ms))" using less active by linarith
  with content show ?thesis by blast
qed

section \<open>Clearing is not idempotent\<close>

definition demo_history :: "message list" where
  "demo_history =
     [[(''role'', PStr ''tool''), (''tool_call_id'', PStr ''c1''), (''content'', PStr ''evidence'')],
      [(''role'', PStr ''tool''), (''tool_call_id'', PStr ''c2''), (''content'', PStr ''recent'')]]"

definition demo_clear :: "message list \<Rightarrow> message list \<times> int \<times> int" where
  "demo_clear = clear_old_tool_results_for_context (\<lambda>_. []) (\<lambda>_. []) (\<lambda>s. ''hash of '' @ take 4 s) (\<lambda>_. []) 1 40"

theorem clearing_keeps_recent_witness:
  "\<exists>content. tool_text (demo_history ! 0) = Some content \<and> (1::int) \<le> int (length (drop 1 demo_history))"
proof -
  obtain ms' k saved where run: "demo_clear demo_history = (ms', k, saved)" by (cases "demo_clear demo_history") auto
  have "fst (demo_clear demo_history) ! 0 \<noteq> demo_history ! 0" by code_simp
  then have "ms' ! 0 \<noteq> demo_history ! 0" using run by simp
  from clearing_keeps_recent [OF run [unfolded demo_clear_def] _ this]
  show ?thesis by (auto simp: demo_history_def)
qed

text \<open>
  The test for a message that is cleared already looks for the notice without the space that
  \<open>json.dumps\<close> writes after a colon. So the next turn clears the stub again: it counts as a new
  clearing, and the digest of the original content is replaced by that of the stub.
\<close>

lemma cleared_again:
  "fst (snd (demo_clear demo_history)) = 1 \<and>
   fst (snd (demo_clear (fst (demo_clear demo_history)))) = 1 \<and>
   (case tool_text (fst (demo_clear demo_history) ! 0) of None \<Rightarrow> False
    | Some s \<Rightarrow> py_contains ''hash of evid'' s) \<and>
   (case tool_text (fst (demo_clear (fst (demo_clear demo_history))) ! 0) of None \<Rightarrow> False
    | Some s \<Rightarrow> \<not> py_contains ''hash of evid'' s)"
  by code_simp

section \<open>The budget report\<close>

text \<open>A budget report is consistent: what is used and what remains fill the window, unless it is
  overrun, and then nothing remains and the utilization is 1; the utilization is a fraction.\<close>

theorem context_budget_consistent:
  fixes json_tools json_messages model tools ms system_prompt max_tokens
  defines "b \<equiv> compute_context_budget json_tools json_messages model tools ms system_prompt max_tokens"
  assumes "0 < cb_max_context_tokens b"
  shows "0 \<le> used_tokens b \<and> 0 \<le> utilization b \<and> utilization b \<le> 1
    \<and> (if used_tokens b \<le> cb_max_context_tokens b
        then used_tokens b + remaining_tokens b = cb_max_context_tokens b
        else remaining_tokens b = 0 \<and> utilization b = 1)"
proof -
  have pos: "0 \<le> estimate_tokens s" for s by (simp add: estimate_tokens_def)
  have used: "0 \<le> used_tokens b"
    by (simp add: b_def compute_context_budget_def used_tokens_def estimate_json_tokens_def pos add_nonneg_nonneg)
  have "utilization b = min 1 (of_int (used_tokens b) / of_int (cb_max_context_tokens b))"
    using assms(2) by (simp add: utilization_def)
  moreover have "0 \<le> (of_int (used_tokens b) / of_int (cb_max_context_tokens b) :: rat)"
    using used assms(2) by simp
  moreover have "1 < (of_int (used_tokens b) / of_int (cb_max_context_tokens b) :: rat)"
    if "cb_max_context_tokens b < used_tokens b"
    using that assms(2) by (simp add: less_divide_eq)
  ultimately show ?thesis using used by (auto simp: remaining_tokens_def)
qed

theorem context_budget_consistent_witness:
  "used_tokens (compute_context_budget (\<lambda>_. []) (\<lambda>_. []) ''gpt-5'' [] [] [] None) +
   remaining_tokens (compute_context_budget (\<lambda>_. []) (\<lambda>_. []) ''gpt-5'' [] [] [] None) = 1000000"
proof -
  let ?b = "compute_context_budget (\<lambda>_. []) (\<lambda>_. []) ''gpt-5'' [] [] [] None"
  have "cb_max_context_tokens ?b = 1000000" "used_tokens ?b = 0" by code_simp+
  then show ?thesis using context_budget_consistent [of "\<lambda>_. []" "\<lambda>_. []" "''gpt-5''" "[]" "[]" "[]" None] by simp
qed

end
