(* ===== verification/Tool_Disclosure.thy ===== *)
theory Tool_Disclosure
  imports Lane_Closure Context_Window "HOL-Library.Multiset"
begin

text \<open>
  Which tools an agent sees: progressive disclosure by prerequisites, \<open>llm_client/agent/agent_disclosure.py\<close>,
  and loading on demand, \<open>llm_client/agent/deferred_tools.py\<close>. A tool definition is the Python value that
  the converters of the client write, a dictionary whose \<open>function\<close> is a dictionary; its JSON text is
  the argument \<open>dumps\<close>.
\<close>

section \<open>Tool definitions\<close>

text \<open>\<open>str(tool_def.get("function", {}).get(k, "")).strip()\<close>.\<close>

definition function_text :: "(py \<Rightarrow> string) \<Rightarrow> py \<Rightarrow> string \<Rightarrow> string" where
  "function_text other t k =
     (case py_get t ''function'' of PDict fn \<Rightarrow> strip_str other (dict_get fn (PStr k)) | _ \<Rightarrow> [])"

definition tool_name :: "(py \<Rightarrow> string) \<Rightarrow> py \<Rightarrow> string" where
  "tool_name other t = function_text other t ''name''"

definition tool_search_text :: "(py \<Rightarrow> string) \<Rightarrow> py \<Rightarrow> string" where
  "tool_search_text other t = py_lower (tool_name other t @ '' '' @ function_text other t ''description'')"

section \<open>Progressive disclosure\<close>

record hidden_tool =
  hd_tool :: string
  hd_reason :: string
  hd_missing :: "(string \<times> string) list list"
  hd_missing_count :: nat
  hd_repair_tools :: "string list option"

text \<open>What a disclosure depends on.\<close>

record lane_view =
  lv_codes :: event_codes
  lv_contracts :: "(string \<times> tool_contract) list"
  lv_artifacts :: "string set"
  lv_capabilities :: cap_state
  lv_bindings :: mapping_arg

definition hidden_entry :: "(py \<Rightarrow> string) \<Rightarrow> (string \<Rightarrow> string) \<Rightarrow> lane_view \<Rightarrow> py \<Rightarrow> hidden_tool option" where
  "hidden_entry other sha V t =
     (let name = tool_name other t in
      if name = [] then None
      else case dict_get (lv_contracts V) name of
        None \<Rightarrow> None
      | Some c \<Rightarrow>
          if tool_declares_no_artifact_prereqs c then None
          else let v = legal_now other sha (lv_codes V) (lv_bindings V) (lv_artifacts V) (lv_capabilities V) name c in
            if tv_is_valid v then None
            else Some \<lparr>hd_tool = name, hd_reason = tv_reason v, hd_missing = tv_missing v,
                       hd_missing_count = length (tv_missing v), hd_repair_tools = None\<rparr>)"

definition missing_value :: "(string \<times> string) list \<Rightarrow> py" where
  "missing_value m = PDict (map (\<lambda>(k, v). (PStr k, PStr v)) m)"

text \<open>The second loop: the missing requirements are cut first, and the repair tools are for what is left.\<close>

definition with_repairs ::
  "(py \<Rightarrow> string) \<Rightarrow> (string \<Rightarrow> string) \<Rightarrow> lane_view \<Rightarrow> int \<Rightarrow> int \<Rightarrow> hidden_tool \<Rightarrow> hidden_tool" where
  "with_repairs other sha V max_missing max_repair h =
     (let missing = take (nat max_missing) (hd_missing h) in
      h\<lparr>hd_missing := missing, hd_missing_count := length missing,
        hd_repair_tools := Some (find_repair_tools other sha (lv_codes V) (py_strip (hd_tool h))
          (map missing_value missing) (lv_contracts V) (lv_artifacts V) (lv_capabilities V) (lv_bindings V)
          max_repair)\<rparr>)"

definition filter_tools_for_disclosure ::
  "(py \<Rightarrow> string) \<Rightarrow> (string \<Rightarrow> string) \<Rightarrow> lane_view \<Rightarrow> py list \<Rightarrow> int \<Rightarrow> int \<Rightarrow> int
     \<Rightarrow> py list \<times> hidden_tool list \<times> nat" where
  "filter_tools_for_disclosure other sha V tools max_unavailable max_missing max_repair =
     (if tools = [] then ([], [], 0)
      else if lv_contracts V = [] then (tools, [], 0)
      else
        let hidden = sort_key (\<lambda>h. (hd_missing_count h, hd_tool h)) (List.map_filter (hidden_entry other sha V) tools);
            repaired = (if 0 \<le> max_missing then map (with_repairs other sha V max_missing max_repair) hidden else hidden)
        in (filter (\<lambda>t. hidden_entry other sha V t = None) tools,
            if 0 \<le> max_unavailable then take (nat max_unavailable) repaired else repaired,
            length hidden))"

definition requirement_labels :: "(string \<times> string) list list \<Rightarrow> string list" where
  "requirement_labels missing =
     map short_label (List.map_filter (\<lambda>m. capability_requirement_from_raw (missing_value m)) missing)"

definition disclosure_reason_from_entry :: "hidden_tool \<Rightarrow> string" where
  "disclosure_reason_from_entry h =
     (let names = filter (\<lambda>n. n \<noteq> []) (map py_strip (case hd_repair_tools h of Some ns \<Rightarrow> ns | None \<Rightarrow> []));
          hint = (if names \<noteq> [] then ''; try '' @ py_join '', '' names else []);
          labels = requirement_labels (hd_missing h);
          reason = py_strip (hd_reason h)
      in if labels \<noteq> [] then ''needs '' @ py_join '', '' labels @ hint
         else if reason \<noteq> [] then reason @ hint
         else ''missing prerequisites'' @ hint)"

definition disclosure_message :: "int \<Rightarrow> hidden_tool list \<Rightarrow> string" where
  "disclosure_message max_reason_chars hs =
     py_join ''; '' (map (\<lambda>h.
       (let tool = py_strip (hd_tool h) in if tool = [] then ''<unknown>'' else tool) @ '': '' @
       trim_text (disclosure_reason_from_entry h) max_reason_chars) hs)"

definition deficit_labels_from_hidden_entries :: "hidden_tool list \<Rightarrow> string list" where
  "deficit_labels_from_hidden_entries hs = sort (remdups (concat (map (\<lambda>h. requirement_labels (hd_missing h)) hs)))"

section \<open>Deferred tools\<close>

record deferred_registry =
  dr_deferred :: "(string \<times> py) list"
  dr_activated :: "string list"

definition empty_registry :: deferred_registry where
  "empty_registry = \<lparr>dr_deferred = [], dr_activated = []\<rparr>"

definition registry_add :: "(py \<Rightarrow> string) \<Rightarrow> py \<Rightarrow> deferred_registry \<Rightarrow> deferred_registry" where
  "registry_add other t R =
     (let name = tool_name other t in
      if name = [] then R else R\<lparr>dr_deferred := dict_set name t (dr_deferred R)\<rparr>)"

definition query_terms :: "string \<Rightarrow> string list" where
  "query_terms query = map py_lower (py_split query)"

definition search_score :: "(py \<Rightarrow> string) \<Rightarrow> string list \<Rightarrow> py \<Rightarrow> int" where
  "search_score other terms t = int (length (filter (\<lambda>w. py_contains w (tool_search_text other t)) terms))"

definition registry_search :: "(py \<Rightarrow> string) \<Rightarrow> string \<Rightarrow> int \<Rightarrow> deferred_registry \<Rightarrow> py list" where
  "registry_search other query max_results R =
     (let terms = query_terms query in
      if terms = [] then []
      else py_take max_results (map snd (sort_key (\<lambda>(name, t). (- search_score other terms t, name))
             (filter (\<lambda>(name, t). 0 < search_score other terms t) (dr_deferred R)))))"

definition registry_activate :: "(py \<Rightarrow> string) \<Rightarrow> py list \<Rightarrow> deferred_registry \<Rightarrow> string list \<times> deferred_registry" where
  "registry_activate other ts R =
     (let names = filter (\<lambda>n. n \<noteq> [] \<and> dict_has (dr_deferred R) n) (map (tool_name other) ts) in
      (names, R\<lparr>dr_activated := fold List.insert names (dr_activated R)\<rparr>))"

definition get_activated_tools :: "deferred_registry \<Rightarrow> py list" where
  "get_activated_tools R = List.map_filter (dict_get (dr_deferred R)) (sort (dr_activated R))"

definition estimated_token_savings :: "(py \<Rightarrow> string) \<Rightarrow> deferred_registry \<Rightarrow> int" where
  "estimated_token_savings dumps R =
     max 0 (sum_list (map (\<lambda>(name, t). if name \<notin> set (dr_activated R) then int (length (dumps t)) else 0)
       (dr_deferred R)) div 4)"

definition deferred_tool_names :: "deferred_registry \<Rightarrow> string list" where
  "deferred_tool_names R = sort (map fst (dr_deferred R))"

text \<open>The always loaded and the deferred tools of a server; \<open>defer_loading\<close> is a truth value.\<close>

definition partition_tools_for_deferral ::
  "(py \<Rightarrow> string) \<Rightarrow> py list \<Rightarrow> (py \<times> py) list \<Rightarrow> py list \<times> py list" where
  "partition_tools_for_deferral other tools cfg =
     (if \<not> py_truthy (py_get (PDict cfg) ''defer_loading'') then (tools, [])
      else
        let names_of = List.map_filter (\<lambda>v. case v of PStr s \<Rightarrow> if py_strip s \<noteq> [] then Some (py_strip s) else None | _ \<Rightarrow> None);
            names = (case py_get (PDict cfg) ''always_loaded_tools'' of
                       PList vs \<Rightarrow> names_of vs | PTuple vs \<Rightarrow> names_of vs | _ \<Rightarrow> [])
        in (filter (\<lambda>t. tool_name other t \<in> set names) tools, filter (\<lambda>t. tool_name other t \<notin> set names) tools))"

datatype search_reply =
    NoQuery
  | SearchReply "(string \<times> string) list" "string list" string

definition execute_search_tool_call ::
  "(py \<Rightarrow> string) \<Rightarrow> (string \<times> py) list \<Rightarrow> deferred_registry \<Rightarrow> search_reply \<times> deferred_registry" where
  "execute_search_tool_call other args R =
     (let query = strip_str other (dict_get args ''query'') in
      if query = [] then (NoQuery, R)
      else
        let matches = registry_search other query 5 R;
            results = map (\<lambda>t. (tool_name other t, function_text other t ''description'')) matches
        in case registry_activate other matches R of
          (names, R') \<Rightarrow>
            (SearchReply results names
               (if results \<noteq> []
                then ''Found '' @ py_int_str (int (length results)) @ '' matching tool(s). '' @
                     ''They are now available for use in your next tool call.''
                else ''No matching tools found. Try different search terms.''), R'))"

definition build_deferred_metrics :: "(py \<Rightarrow> string) \<Rightarrow> deferred_registry \<Rightarrow> nat \<times> nat \<times> int" where
  "build_deferred_metrics dumps R =
     (length (dr_deferred R), length (dr_activated R), estimated_token_savings dumps R)"

section \<open>What disclosure shows\<close>

lemma find_repair_tools_legal:
  assumes "n \<in> set (find_repair_tools other sha codes current missing contracts artifacts caps available k)"
  shows "\<exists>c. dict_get contracts n = Some c \<and> tv_is_valid (legal_now other sha codes available artifacts caps n c)"
proof -
  let ?cand = "\<lambda>required tool. if tool = current then None
      else case dict_get contracts tool of None \<Rightarrow> None
      | Some c \<Rightarrow> if tc_is_control c \<or> \<not> can_repair other required c
            \<or> \<not> tv_is_valid (legal_now other sha codes available artifacts caps tool c)
          then None else Some (repair_rank other required tool c, tool)"
  let ?required = "List.map_filter capability_requirement_from_raw missing"
  let ?ranked = "sort_key fst (List.map_filter (?cand ?required) (sort (map fst contracts)))"
  have "\<not> (k \<le> 0 \<or> ?required = [])"
  proof
    assume none: "k \<le> 0 \<or> ?required = []"
    have "find_repair_tools other sha codes current missing contracts artifacts caps available k = []"
      unfolding find_repair_tools_def Let_def by (rule if_P [OF none])
    with assms show False by simp
  qed
  then have eq: "find_repair_tools other sha codes current missing contracts artifacts caps available k =
      take (nat k) (map snd ?ranked)"
    unfolding find_repair_tools_def Let_def by (rule if_not_P)
  have "n \<in> set (map snd ?ranked)" by (rule in_set_takeD) (rule assms [unfolded eq])
  then obtain rank where "(rank, n) \<in> set ?ranked" unfolding set_map by force
  then have "(rank, n) \<in> set (List.map_filter (?cand ?required) (sort (map fst contracts)))" by simp
  then obtain tool where tool: "?cand ?required tool = Some (rank, n)" unfolding in_map_filter by blast
  then have "tool \<noteq> current" by force
  with tool obtain c where c: "dict_get contracts tool = Some c" by (cases "dict_get contracts tool") simp_all
  with tool \<open>tool \<noteq> current\<close> have "tool = n" "tv_is_valid (legal_now other sha codes available artifacts caps tool c)"
    by (simp_all split: if_splits)
  with c show ?thesis by blast
qed

definition discloses :: "(py \<Rightarrow> string) \<Rightarrow> (string \<Rightarrow> string) \<Rightarrow> lane_view \<Rightarrow> py \<Rightarrow> bool" where
  "discloses other sha V t \<longleftrightarrow>
     tool_name other t = [] \<or>
     (case dict_get (lv_contracts V) (tool_name other t) of
        None \<Rightarrow> True
      | Some c \<Rightarrow> tool_declares_no_artifact_prereqs c \<or>
          tv_is_valid (legal_now other sha (lv_codes V) (lv_bindings V) (lv_artifacts V) (lv_capabilities V)
            (tool_name other t) c))"

lemma hidden_entry_None: "hidden_entry other sha V t = None \<longleftrightarrow> discloses other sha V t"
  by (auto simp: hidden_entry_def discloses_def Let_def split: option.splits)

lemma length_map_filter: "length (List.map_filter f xs) = length (filter (\<lambda>x. f x \<noteq> None) xs)"
  by (induction xs) (auto split: option.splits)

text \<open>The verdict on a tool with a contract, and the report of a tool that is not shown.\<close>

definition verdict_on :: "(py \<Rightarrow> string) \<Rightarrow> (string \<Rightarrow> string) \<Rightarrow> lane_view \<Rightarrow> py \<Rightarrow> tool_call_validation" where
  "verdict_on other sha V t =
     legal_now other sha (lv_codes V) (lv_bindings V) (lv_artifacts V) (lv_capabilities V) (tool_name other t)
       (the (dict_get (lv_contracts V) (tool_name other t)))"

definition report_of ::
  "(py \<Rightarrow> string) \<Rightarrow> (string \<Rightarrow> string) \<Rightarrow> lane_view \<Rightarrow> int \<Rightarrow> int \<Rightarrow> py \<Rightarrow> hidden_tool" where
  "report_of other sha V max_missing max_repair t =
     (let v = verdict_on other sha V t;
          missing = (if 0 \<le> max_missing then take (nat max_missing) (tv_missing v) else tv_missing v)
      in \<lparr>hd_tool = tool_name other t, hd_reason = tv_reason v, hd_missing = missing,
          hd_missing_count = length missing,
          hd_repair_tools =
            (if 0 \<le> max_missing
             then Some (find_repair_tools other sha (lv_codes V) (py_strip (tool_name other t)) (map missing_value missing)
                    (lv_contracts V) (lv_artifacts V) (lv_capabilities V) (lv_bindings V) max_repair)
             else None)\<rparr>)"

definition deficit_rank :: "(py \<Rightarrow> string) \<Rightarrow> (string \<Rightarrow> string) \<Rightarrow> lane_view \<Rightarrow> py \<Rightarrow> nat \<times> string" where
  "deficit_rank other sha V t = (length (tv_missing (verdict_on other sha V t)), tool_name other t)"

lemma hidden_entry_Some:
  assumes "\<not> discloses other sha V t"
  shows "hidden_entry other sha V t =
    Some \<lparr>hd_tool = tool_name other t, hd_reason = tv_reason (verdict_on other sha V t),
      hd_missing = tv_missing (verdict_on other sha V t), hd_missing_count = length (tv_missing (verdict_on other sha V t)),
      hd_repair_tools = None\<rparr>"
  using assms by (auto simp: hidden_entry_def discloses_def verdict_on_def Let_def split: option.splits)

lemma sort_key_map: "sort_key k (map f xs) = map f (sort_key (k \<circ> f) xs)"
proof -
  have "insort_key k (f x) (map f ys) = map f (insort_key (k \<circ> f) x ys)" for x ys by (induction ys) simp_all
  then show ?thesis by (induction xs) simp_all
qed

lemma sort_key_agree: "\<forall>x \<in> set xs. f x = g x \<Longrightarrow> sort_key f xs = sort_key g xs"
proof (induction xs)
  case (Cons x xs)
  have "\<forall>z \<in> insert x (set ys). f z = g z \<Longrightarrow> insort_key f x ys = insort_key g x ys" for ys by (induction ys) auto
  with Cons show ?case by simp
qed simp

lemma map_filter_map: "List.map_filter f xs = map (the \<circ> f) (filter (\<lambda>x. f x \<noteq> None) xs)"
  by (simp add: List.map_filter_def)

text \<open>The list of all hidden tools, before it is cut.\<close>

lemma hidden_reports:
  fixes other sha V
  defines "ts \<equiv> \<lambda>tools. sort_key (deficit_rank other sha V) (filter (\<lambda>t. \<not> discloses other sha V t) tools)"
  defines "all \<equiv> \<lambda>tools. sort_key (\<lambda>h. (hd_missing_count h, hd_tool h)) (List.map_filter (hidden_entry other sha V) tools)"
  shows "(if 0 \<le> max_missing then map (with_repairs other sha V max_missing max_repair) (all tools) else all tools) =
     map (report_of other sha V max_missing max_repair) (ts tools)"
proof -
  let ?h = "hidden_entry other sha V" and ?hid = "filter (\<lambda>t. \<not> discloses other sha V t) tools"
  have "filter (\<lambda>t. ?h t \<noteq> None) tools = ?hid" by (simp only: hidden_entry_None)
  then have "all tools = map (the \<circ> ?h) (sort_key ((\<lambda>h. (hd_missing_count h, hd_tool h)) \<circ> (the \<circ> ?h)) ?hid)"
    unfolding all_def map_filter_map sort_key_map by simp
  also have "sort_key ((\<lambda>h. (hd_missing_count h, hd_tool h)) \<circ> (the \<circ> ?h)) ?hid = ts tools"
    unfolding ts_def by (rule sort_key_agree) (auto simp: hidden_entry_Some deficit_rank_def)
  finally have all: "all tools = map (the \<circ> ?h) (ts tools)" .
  have hid: "\<not> discloses other sha V t" if "t \<in> set (ts tools)" for t using that by (simp add: ts_def)
  show ?thesis
    unfolding all by (auto simp: hidden_entry_Some [OF hid] with_repairs_def report_of_def Let_def)
qed

text \<open>C31: with contracts, the agent sees exactly the tools without a name, without a contract, without
  artifact prerequisites or whose contract holds now, in the given order. The others are hidden: they are counted,
  and listed by how many prerequisites they miss and then by name, one entry for each, cut to the first
  \<open>max_unavailable\<close> entries when that is not negative. An entry has the tool's name, the reason of the refusal
  and its missing prerequisites; with a \<open>max_missing\<close> that is not negative only that many of them, and the
  tools that repair those, each of which is itself among the visible ones when the agent has it.\<close>

theorem disclosure_exact:
  assumes "filter_tools_for_disclosure other sha V tools max_unavailable max_missing max_repair = (visible, hidden, n)"
    and "lv_contracts V \<noteq> []"
  shows "visible = filter (discloses other sha V) tools \<and> n = length tools - length visible
    \<and> (\<exists>ts. mset ts = mset (filter (\<lambda>t. \<not> discloses other sha V t) tools) \<and> sorted (map (deficit_rank other sha V) ts)
         \<and> hidden = map (report_of other sha V max_missing max_repair)
             (if 0 \<le> max_unavailable then take (nat max_unavailable) ts else ts))
    \<and> (\<forall>h \<in> set hidden. \<forall>ns r. hd_repair_tools h = Some ns \<longrightarrow> r \<in> set ns \<longrightarrow>
        (\<forall>t \<in> set tools. tool_name other t = r \<longrightarrow> t \<in> set visible))"
proof (cases "tools = []")
  case True
  then show ?thesis using assms(1) by (auto simp: filter_tools_for_disclosure_def)
next
  case False
  let ?h = "hidden_entry other sha V"
  let ?all = "sort_key (\<lambda>h. (hd_missing_count h, hd_tool h)) (List.map_filter ?h tools)"
  let ?ts = "sort_key (deficit_rank other sha V) (filter (\<lambda>t. \<not> discloses other sha V t) tools)"
  let ?rep = "map (report_of other sha V max_missing max_repair) ?ts"
  have out: "visible = filter (\<lambda>t. ?h t = None) tools" "n = length ?all"
    "hidden = (if 0 \<le> max_unavailable then take (nat max_unavailable) ?rep else ?rep)"
    using assms False unfolding filter_tools_for_disclosure_def Let_def hidden_reports by simp_all
  have "length tools = length (filter (\<lambda>t. ?h t = None) tools) + length (filter (\<lambda>t. ?h t \<noteq> None) tools)"
    by (rule sum_length_filter_compl [symmetric])
  then have n: "n = length tools - length visible" by (simp add: out length_map_filter)
  have visible: "visible = filter (discloses other sha V) tools" by (simp add: out hidden_entry_None)
  have repairs: "t \<in> set visible" if h: "h \<in> set hidden" "hd_repair_tools h = Some ns" "r \<in> set ns"
    and t: "t \<in> set tools" "tool_name other t = r" for h ns r t
  proof -
    have "h \<in> set ?rep" using h(1) by (auto simp: out(3) take_map split: if_splits dest: in_set_takeD)
    then obtain current missing where "ns = find_repair_tools other sha (lv_codes V) current missing
        (lv_contracts V) (lv_artifacts V) (lv_capabilities V) (lv_bindings V) max_repair"
      using h(2) by (auto simp: report_of_def Let_def split: if_splits)
    with find_repair_tools_legal [of r] h(3) have "discloses other sha V t"
      using t(2) by (fastforce simp: discloses_def)
    with t(1) show ?thesis by (simp add: visible)
  qed
  have "mset ?ts = mset (filter (\<lambda>t. \<not> discloses other sha V t) tools)" "sorted (map (deficit_rank other sha V) ?ts)"
    "hidden = map (report_of other sha V max_missing max_repair) (if 0 \<le> max_unavailable then take (nat max_unavailable) ?ts else ?ts)"
    by (simp_all add: out(3) take_map)
  with n visible repairs show ?thesis by blast
qed

definition demo_view :: lane_view where
  "demo_view = \<lparr>lv_codes = demo_codes, lv_contracts = [(''chunk_search'', demo_contract)], lv_artifacts = {},
     lv_capabilities = [], lv_bindings = None\<rparr>"

definition demo_tool :: "string \<Rightarrow> py" where
  "demo_tool name = PDict [(PStr ''function'', PDict [(PStr ''name'', PStr name), (PStr ''description'', PStr name)])]"

theorem disclosure_exact_witness:
  "\<exists>hidden n. filter_tools_for_disclosure (\<lambda>_. []) id demo_view [demo_tool ''ask'', demo_tool ''chunk_search''] 3 3 3 =
     (filter (discloses (\<lambda>_. []) id demo_view) [demo_tool ''ask'', demo_tool ''chunk_search''], hidden, n)"
proof -
  obtain visible hidden n where run: "filter_tools_for_disclosure (\<lambda>_. []) id demo_view
      [demo_tool ''ask'', demo_tool ''chunk_search''] 3 3 3 = (visible, hidden, n)"
    by (cases "filter_tools_for_disclosure (\<lambda>_. []) id demo_view [demo_tool ''ask'', demo_tool ''chunk_search''] 3 3 3") auto
  have "lv_contracts demo_view \<noteq> []" by (simp add: demo_view_def)
  from disclosure_exact [OF run this] run show ?thesis by blast
qed

section \<open>The registry of deferred tools\<close>

definition registry_ok :: "(py \<Rightarrow> string) \<Rightarrow> deferred_registry \<Rightarrow> bool" where
  "registry_ok other R \<longleftrightarrow>
     distinct (map fst (dr_deferred R)) \<and> (\<forall>(n, t) \<in> set (dr_deferred R). n = tool_name other t \<and> n \<noteq> []) \<and>
     distinct (dr_activated R) \<and> set (dr_activated R) \<subseteq> fst ` set (dr_deferred R)"

inductive registry_run :: "(py \<Rightarrow> string) \<Rightarrow> deferred_registry \<Rightarrow> bool" for other where
  run_empty: "registry_run other empty_registry"
| run_add: "registry_run other R \<Longrightarrow> registry_run other (registry_add other t R)"
| run_search: "registry_run other R \<Longrightarrow> registry_run other (snd (execute_search_tool_call other args R))"

lemma fold_insert_set: "set (fold List.insert ns xs) = set ns \<union> set xs"
  by (induction ns arbitrary: xs) auto

lemma fold_insert_distinct: "distinct xs \<Longrightarrow> distinct (fold List.insert ns xs)"
  by (induction ns arbitrary: xs) auto

lemma set_dict_set: "set (dict_set k v d) \<subseteq> insert (k, v) (set d)"
  by (induction d) auto

lemma keys_dict_set: "fst ` set (dict_set k v d) = insert k (fst ` set d)"
  by (induction d) auto

lemma dict_has_key: "dict_has d k \<longleftrightarrow> k \<in> fst ` set d"
  by (simp add: dict_has_def map_of_eq_None_iff)

lemma add_ok:
  assumes "registry_ok other R"
  shows "registry_ok other (registry_add other t R)"
proof (cases "tool_name other t = []")
  case False
  let ?n = "tool_name other t"
  have "\<forall>(n, u) \<in> set (dict_set ?n t (dr_deferred R)). n = tool_name other u \<and> n \<noteq> []"
    using assms False set_dict_set [of ?n t "dr_deferred R"] unfolding registry_ok_def by fastforce
  then show ?thesis
    using assms False by (auto simp: registry_ok_def registry_add_def distinct_update keys_dict_set)
qed (use assms in \<open>simp add: registry_add_def\<close>)

lemma activate_ok: "registry_ok other R \<Longrightarrow> registry_ok other (snd (registry_activate other ts R))"
  by (auto simp: registry_ok_def registry_activate_def Let_def fold_insert_set fold_insert_distinct dict_has_key)

lemma execute_search_registry:
  "snd (execute_search_tool_call other args R) = R \<or>
   snd (execute_search_tool_call other args R) =
     snd (registry_activate other (registry_search other (strip_str other (dict_get args ''query'')) 5 R) R)"
  by (simp add: execute_search_tool_call_def Let_def split: prod.splits)

lemma registry_run_ok: "registry_run other R \<Longrightarrow> registry_ok other R"
proof (induction rule: registry_run.induct)
  case (run_add R t)
  then show ?case by (simp add: add_ok)
next
  case (run_search R args)
  then show ?case using execute_search_registry [of other args R] activate_ok by metis
qed (simp add: registry_ok_def empty_registry_def)

lemma search_subset: "set (registry_search other query k R) \<subseteq> snd ` set (dr_deferred R)"
  unfolding registry_search_def Let_def py_take_def by (auto dest!: in_set_takeD)

lemma map_of_distinct: "distinct (map fst d) \<Longrightarrow> (k, v) \<in> set d \<Longrightarrow> dict_get d k = Some v"
  by (rule map_of_is_SomeI)

text \<open>Whatever tools were added and searched, the registry files each tool once under its own name,
  and every tool that a search returns can be called from the next turn on: it is among the activated
  tools, which are all deferred ones.\<close>

theorem searched_tools_callable:
  assumes "registry_run other R"
  shows "distinct (deferred_tool_names R) \<and> length (dr_activated R) \<le> length (dr_deferred R)
    \<and> set (get_activated_tools R) \<subseteq> snd ` set (dr_deferred R)
    \<and> (strip_str other (dict_get args ''query'') \<noteq> [] \<longrightarrow>
        set (registry_search other (strip_str other (dict_get args ''query'')) 5 R)
          \<subseteq> set (get_activated_tools (snd (execute_search_tool_call other args R))))"
proof -
  have ok: "registry_ok other R" by (rule registry_run_ok [OF assms])
  then have dist: "distinct (map fst (dr_deferred R))" "distinct (dr_activated R)"
    and keys: "set (dr_activated R) \<subseteq> fst ` set (dr_deferred R)" by (simp_all add: registry_ok_def)
  have "length (dr_activated R) = card (set (dr_activated R))" using dist(2) by (simp add: distinct_card)
  also have "\<dots> \<le> card (fst ` set (dr_deferred R))" by (intro card_mono keys) simp
  also have "\<dots> = length (dr_deferred R)" using distinct_card [OF dist(1)] by simp
  finally have len: "length (dr_activated R) \<le> length (dr_deferred R)" .
  have act: "set (get_activated_tools R) \<subseteq> snd ` set (dr_deferred R)"
    by (force simp: get_activated_tools_def in_map_filter dest: map_of_SomeD)
  let ?q = "strip_str other (dict_get args ''query'')"
  let ?found = "registry_search other ?q 5 R"
  have "t \<in> set (get_activated_tools (snd (execute_search_tool_call other args R)))"
    if q: "?q \<noteq> []" and t: "t \<in> set ?found" for t
  proof -
    obtain n where n: "(n, t) \<in> set (dr_deferred R)" using search_subset t by fastforce
    then have name: "n = tool_name other t" "n \<noteq> []" using ok by (auto simp: registry_ok_def)
    have snd: "snd (execute_search_tool_call other args R) = snd (registry_activate other ?found R)"
      using q by (simp add: execute_search_tool_call_def Let_def split: prod.splits)
    have "n \<in> set (dr_activated (snd (registry_activate other ?found R)))"
      using t n name by (auto simp: registry_activate_def Let_def fold_insert_set dict_has_key intro: rev_image_eqI)
    moreover have "dict_get (dr_deferred (snd (registry_activate other ?found R))) n = Some t"
      using map_of_distinct [OF dist(1) n] by (simp add: registry_activate_def Let_def)
    ultimately show ?thesis unfolding snd get_activated_tools_def in_map_filter by auto
  qed
  then show ?thesis using dist(1) len act by (auto simp: deferred_tool_names_def)
qed

theorem searched_tools_callable_witness:
  "demo_tool ''grep files'' \<in> set (get_activated_tools (snd (execute_search_tool_call (\<lambda>_. [])
     [(''query'', PStr '' FILES '')] (registry_add (\<lambda>_. []) (demo_tool ''grep files'') empty_registry))))"
proof -
  let ?R = "registry_add (\<lambda>_. []) (demo_tool ''grep files'') empty_registry"
  have "registry_run (\<lambda>_. []) ?R" by (rule run_add [OF run_empty])
  from searched_tools_callable [OF this, of "[(''query'', PStr '' FILES '')]"]
  have "set (registry_search (\<lambda>_. []) ''FILES'' 5 ?R) \<subseteq>
      set (get_activated_tools (snd (execute_search_tool_call (\<lambda>_. []) [(''query'', PStr '' FILES '')] ?R)))"
    by (simp add: strip_str_def py_strip_def py_isspace_def)
  moreover have "registry_search (\<lambda>_. []) ''FILES'' 5 ?R = [demo_tool ''grep files'']" by code_simp
  ultimately show ?thesis by simp
qed

text \<open>A search returns the best matches: when it returns fewer tools than it may, it returns every
  deferred tool that a term of the query matches, and no tool it leaves out matches more terms than one it returns.\<close>

theorem search_returns_best:
  assumes "registry_run other R" and "0 \<le> k" and "(n, t) \<in> set (dr_deferred R)"
    and "t \<notin> set (registry_search other query k R)" and "0 < search_score other (query_terms query) t"
  shows "int (length (registry_search other query k R)) = k
    \<and> (\<forall>u \<in> set (registry_search other query k R).
        search_score other (query_terms query) t \<le> search_score other (query_terms query) u)"
proof -
  let ?terms = "query_terms query"
  let ?key = "\<lambda>(name, t). (- search_score other ?terms t, name :: string)"
  let ?hits = "filter (\<lambda>(name, t). 0 < search_score other ?terms t) (dr_deferred R)"
  let ?ranked = "sort_key ?key ?hits"
  have terms: "?terms \<noteq> []" using assms(5) by (auto simp: search_score_def)
  have found: "registry_search other query k R = take (nat k) (map snd ?ranked)"
    using terms assms(2) by (simp add: registry_search_def py_take_def case_prod_unfold Let_def)
  have in_ranked: "(n, t) \<in> set ?ranked" using assms(3,5) by simp
  then obtain i where i: "i < length ?ranked" "?ranked ! i = (n, t)" by (meson in_set_conv_nth)
  have late: "nat k \<le> i"
  proof (rule ccontr)
    assume "\<not> nat k \<le> i"
    then have "t \<in> set (take (nat k) (map snd ?ranked))"
      using i by (force simp: in_set_conv_nth)
    with assms(4) found show False by simp
  qed
  have "search_score other ?terms t \<le> search_score other ?terms u"
    if u: "u \<in> set (take (nat k) (map snd ?ranked))" for u
  proof -
    from u obtain j where j: "j < nat k" "j < length ?ranked" "u = snd (?ranked ! j)"
      by (auto simp: in_set_conv_nth)
    have "sorted (map ?key ?ranked)" by simp
    then have "?key (?ranked ! j) \<le> ?key (?ranked ! i)"
      using j late i(1) by (auto simp: sorted_iff_nth_mono)
    then show ?thesis using i(2) j(3) by (cases "?ranked ! j") (auto simp: less_eq_prod_def)
  qed
  moreover have "length (take (nat k) (map snd ?ranked)) = nat k" using late i(1) by simp
  ultimately show ?thesis unfolding found using assms(2) by simp
qed

end
