(* ===== verification/Model_Execution_Policy.thy ===== *)
theory Model_Execution_Policy
  imports Model_Contracts "HOL-Library.Product_Lexorder"
begin

text \<open>
  The execution allowlist, \<open>llm_client/core/model_execution_policy.py\<close> with its overlay in
  \<open>llm_client/inside_success_policy.py\<close>: which exact routes may run, which need a justification, and
  which reasoning efforts they take. A frozen set is a list of its members; only membership and the
  sorted text of a set are used. A raise is an \<open>LLMConfigurationError\<close> with its message.
\<close>

section \<open>The allowlist\<close>

definition REASONING_EFFORTS :: "string list" where
  "REASONING_EFFORTS = [''none'', ''minimal'', ''low'', ''medium'', ''high'', ''xhigh'', ''max'']"

definition DEFAULT_EXECUTION_MODEL :: string where
  "DEFAULT_EXECUTION_MODEL = ''openrouter/openai/gpt-5.6-luna''"

definition DEFAULT_EXECUTION_EMBEDDING_MODEL :: string where
  "DEFAULT_EXECUTION_EMBEDDING_MODEL = ''openrouter/openai/text-embedding-3-small''"

definition SHARED_EXECUTION_MODELS :: "string list" where
  "SHARED_EXECUTION_MODELS =
     [DEFAULT_EXECUTION_MODEL, DEFAULT_EXECUTION_EMBEDDING_MODEL,
      ''openrouter/deepseek/deepseek-v4-flash'', ''openrouter/deepseek/deepseek-chat'',
      ''openrouter/inception/mercury-2'', ''openrouter/minimax/minimax-m3'', ''openrouter/openai/gpt-5'',
      ''openrouter/openai/gpt-5-nano'', ''openrouter/openai/gpt-5.6-luna'', ''openrouter/openai/gpt-5.6-sol'',
      ''openrouter/openai/gpt-5.6-terra'', ''openrouter/google/gemini-3.1-pro-preview'',
      ''openrouter/qwen/qwen3.7-max'', ''openrouter/x-ai/grok-4.5'', ''openrouter/z-ai/glm-5.2'',
      ''gemini/gemini-2.5-flash'', ''gemini/gemini-2.5-flash-lite'', ''gemini/gemini-3-flash-preview'',
      ''gpt-5.6'', ''gpt-5.6-terra'', ''codex'', ''codex/gpt-5.6-luna'', ''codex/gpt-5.6-sol'',
      ''codex/gpt-5.6-terra'', ''claude-code'', ''claude-code/sonnet'', ''claude-code/haiku'']"

definition INSIDE_SUCCESS_ADDITIONAL_EXECUTION_MODELS :: "string list" where
  "INSIDE_SUCCESS_ADDITIONAL_EXECUTION_MODELS =
     [''claude-code/claude-opus-4-8'', ''claude-code/claude-sonnet-4-6'', ''claude-code/claude-sonnet-5'',
      ''codex/gpt-5-nano'', ''codex/gpt-5.4-mini'', ''codex/gpt-5.4-nano'', ''codex/gpt-5.5'',
      ''openrouter/anthropic/claude-opus-4.8'', ''openrouter/anthropic/claude-sonnet-4.6'',
      ''openrouter/anthropic/claude-sonnet-5'', ''openrouter/google/gemini-2.5-flash'',
      ''openrouter/google/gemini-2.5-flash-lite'', ''openrouter/google/gemini-3.1-flash-lite'',
      ''openrouter/openai/gpt-5.4-mini'', ''openrouter/openai/gpt-5.4-nano'', ''openrouter/openai/gpt-5.5'']"

definition ALLOWED_EXECUTION_MODELS :: "string list" where
  "ALLOWED_EXECUTION_MODELS = SHARED_EXECUTION_MODELS @ INSIDE_SUCCESS_ADDITIONAL_EXECUTION_MODELS"

section \<open>Reasoning capabilities\<close>

record reasoning_capability =
  rc_supported :: "string list"
  rc_mandatory :: bool
  rc_observed_default :: "string option"

definition capability :: "string list \<Rightarrow> bool \<Rightarrow> string option \<Rightarrow> reasoning_capability" where
  "capability efforts mandatory observed =
     \<lparr>rc_supported = efforts, rc_mandatory = mandatory, rc_observed_default = observed\<rparr>"

definition FULL_EFFORTS :: "string list" where
  "FULL_EFFORTS = [''none'', ''low'', ''medium'', ''high'', ''xhigh'', ''max'']"

definition REASONING_CAPABILITIES :: "(string \<times> reasoning_capability) list" where
  "REASONING_CAPABILITIES =
     [(''openrouter/deepseek/deepseek-v4-flash'', capability [''none'', ''high'', ''xhigh''] False (Some ''high'')),
      (''openrouter/inception/mercury-2'', capability [''none'', ''low'', ''medium'', ''high''] False (Some ''medium'')),
      (''openrouter/openai/gpt-5'', capability [''minimal'', ''low'', ''medium'', ''high''] True (Some ''medium'')),
      (''openrouter/openai/gpt-5-nano'', capability [''minimal'', ''low'', ''medium'', ''high''] True (Some ''medium'')),
      (''openrouter/openai/gpt-5.6-luna'', capability FULL_EFFORTS False (Some ''medium'')),
      (''openrouter/openai/gpt-5.6-sol'', capability FULL_EFFORTS False (Some ''medium'')),
      (''openrouter/openai/gpt-5.6-terra'', capability FULL_EFFORTS False (Some ''medium'')),
      (''openrouter/google/gemini-3.1-pro-preview'', capability [''low'', ''medium'', ''high''] True (Some ''medium'')),
      (''openrouter/x-ai/grok-4.5'', capability [''low'', ''medium'', ''high''] True (Some ''high'')),
      (''openrouter/z-ai/glm-5.2'', capability [''none'', ''high'', ''xhigh''] False (Some ''high'')),
      (''gemini/gemini-2.5-flash'', capability [''none'', ''low'', ''medium'', ''high''] False None),
      (''gemini/gemini-2.5-flash-lite'', capability [''none'', ''low'', ''medium'', ''high''] False None),
      (''gemini/gemini-3-flash-preview'', capability [''minimal'', ''low'', ''medium'', ''high''] True None),
      (''gpt-5.6'', capability FULL_EFFORTS False (Some ''medium'')),
      (''gpt-5.6-terra'', capability FULL_EFFORTS False (Some ''medium'')),
      (''codex'', capability [''low'', ''medium'', ''high''] True (Some ''high'')),
      (''codex/gpt-5.6-luna'', capability [''low'', ''medium'', ''high''] True None),
      (''codex/gpt-5.6-sol'', capability [''low'', ''medium'', ''high''] True None),
      (''codex/gpt-5.6-terra'', capability [''low'', ''medium'', ''high''] True None)]"

record reasoning_decision =
  rd_required :: bool
  rd_effort :: "string option"
  rd_configurable_models :: "string list"

text \<open>The text of the first model of the chain that does not take the effort.\<close>

definition effort_error :: "string \<Rightarrow> string \<Rightarrow> string \<Rightarrow> string option" where
  "effort_error raw effort model =
     (case dict_get REASONING_CAPABILITIES model of
        None \<Rightarrow> None
      | Some c \<Rightarrow>
          if effort \<in> set (rc_supported c) then None
          else let allowed = py_join '', '' (sort (rc_supported c)) in
            if effort = ''none'' \<and> rc_mandatory c
            then Some (''reasoning_effort='' @ py_repr_str ''none'' @ '' is forbidden for mandatory-reasoning model '' @
                   model @ ''; allowed: '' @ allowed)
            else Some (''reasoning_effort='' @ py_repr_str raw @ '' is unsupported for '' @ model @
                   ''; allowed: '' @ allowed))"

definition provider_defaults :: "string list \<Rightarrow> string" where
  "provider_defaults models =
     py_join '', '' (List.map_filter (\<lambda>m. map_option (\<lambda>c. m @ ''='' @
         (case rc_observed_default c of Some d \<Rightarrow> d | None \<Rightarrow> ''unknown'')) (dict_get REASONING_CAPABILITIES m)) models)"

definition evaluate_reasoning_policy :: "string list \<Rightarrow> string option \<Rightarrow> string + reasoning_decision" where
  "evaluate_reasoning_policy models reasoning_effort =
     (let configurable = filter (dict_has REASONING_CAPABILITIES) models;
          normalized = map_option (\<lambda>e. py_lower (py_strip e)) reasoning_effort in
      if configurable = [] then
        (case normalized of
           Some n \<Rightarrow>
             if n \<notin> set REASONING_EFFORTS
             then Inl (''unknown reasoning_effort='' @ py_repr_str (the reasoning_effort) @ ''; allowed: '' @
                    py_join '', '' (sort REASONING_EFFORTS))
             else Inr \<lparr>rd_required = False, rd_effort = Some n, rd_configurable_models = []\<rparr>
         | None \<Rightarrow> Inr \<lparr>rd_required = False, rd_effort = None, rd_configurable_models = []\<rparr>)
      else
        (case reasoning_effort of
           None \<Rightarrow> Inl (''reasoning_effort is required for configurable reasoning models; Provider defaults are forbidden ('' @
                     provider_defaults configurable @ '')'')
         | Some raw \<Rightarrow>
             let n = py_lower (py_strip raw) in
             if n = [] then Inl (''reasoning_effort is required for configurable reasoning models; Provider defaults are forbidden ('' @
                     provider_defaults configurable @ '')'')
             else (case List.map_filter (effort_error raw n) configurable of
                     e # _ \<Rightarrow> Inl e
                   | [] \<Rightarrow> Inr \<lparr>rd_required = True, rd_effort = Some n, rd_configurable_models = configurable\<rparr>)))"

section \<open>The decision over a chain\<close>

record execution_decision =
  xd_mode :: string
  xd_selected_models :: "string list"
  xd_uses_only_default :: bool
  xd_justification :: "string option"
  xd_reasoning :: reasoning_decision

definition evaluate_model_execution_policy ::
  "string list \<Rightarrow> string \<Rightarrow> string option \<Rightarrow> string option \<Rightarrow> string + execution_decision" where
  "evaluate_model_execution_policy models mode justification reasoning_effort =
     (let reason = map_option py_strip justification;
          selected = map py_strip models;
          only_default = list_all (\<lambda>m. m = DEFAULT_EXECUTION_MODEL \<or> m = DEFAULT_EXECUTION_EMBEDDING_MODEL) selected;
          disallowed = filter (\<lambda>m. m \<notin> set ALLOWED_EXECUTION_MODELS) selected in
      if mode \<noteq> ''enforce_allowlist''
      then Inl ''model_policy must be enforce_allowlist; compatibility mode was removed''
      else if reason = Some [] then Inl ''model_justification must be non-empty when provided''
      else if selected = [] \<or> list_ex (\<lambda>m. m = []) selected then Inl ''model execution policy requires a model''
      else if disallowed \<noteq> []
      then Inl (''model is not in the llm_client execution allowlist: '' @ py_join '', '' disallowed)
      else if \<not> only_default \<and> reason = None
      then Inl ''allowed non-default models require model_justification''
      else and_then (evaluate_reasoning_policy selected reasoning_effort) (\<lambda>d.
        Inr \<lparr>xd_mode = mode, xd_selected_models = selected, xd_uses_only_default = only_default,
             xd_justification = reason, xd_reasoning = d\<rparr>))"

section \<open>What the policy admits\<close>

definition effort_fits :: "string list \<Rightarrow> string option \<Rightarrow> bool" where
  "effort_fits models effort \<longleftrightarrow>
     (let configurable = filter (dict_has REASONING_CAPABILITIES) models in
      case effort of
        None \<Rightarrow> configurable = []
      | Some raw \<Rightarrow>
          (let n = py_lower (py_strip raw) in
           if configurable = [] then n \<in> set REASONING_EFFORTS
           else n \<noteq> [] \<and> list_all (\<lambda>m. case dict_get REASONING_CAPABILITIES m of
                   Some c \<Rightarrow> n \<in> set (rc_supported c) | None \<Rightarrow> True) configurable))"

lemma effort_error_None:
  "effort_error raw n m = None \<longleftrightarrow>
     (case dict_get REASONING_CAPABILITIES m of Some c \<Rightarrow> n \<in> set (rc_supported c) | None \<Rightarrow> True)"
  by (simp add: effort_error_def Let_def split: option.split)

lemma reasoning_policy_iff:
  "(\<exists>d. evaluate_reasoning_policy models effort = Inr d) \<longleftrightarrow> effort_fits models effort"
proof (cases "filter (dict_has REASONING_CAPABILITIES) models = []")
  case True
  then show ?thesis by (cases effort) (simp_all add: evaluate_reasoning_policy_def effort_fits_def Let_def)
next
  case False
  show ?thesis
  proof (cases effort)
    case None
    with False show ?thesis by (simp add: evaluate_reasoning_policy_def effort_fits_def Let_def)
  next
    case (Some raw)
    let ?n = "py_lower (py_strip raw)" and ?conf = "filter (dict_has REASONING_CAPABILITIES) models"
    have "List.map_filter (effort_error raw ?n) ?conf = [] \<longleftrightarrow> list_all (\<lambda>m. effort_error raw ?n m = None) ?conf"
      by (simp add: map_filter_empty list_all_iff)
    then show ?thesis
      using False Some
      by (cases "List.map_filter (effort_error raw ?n) ?conf")
        (simp_all add: evaluate_reasoning_policy_def effort_fits_def Let_def effort_error_None)
  qed
qed

lemma policy_admits:
  "(\<exists>d. evaluate_model_execution_policy models mode justification effort = Inr d) \<longleftrightarrow>
     mode = ''enforce_allowlist'' \<and> models \<noteq> []
     \<and> list_all (\<lambda>m. py_strip m \<in> set ALLOWED_EXECUTION_MODELS) models
     \<and> (case justification of
           None \<Rightarrow> list_all (\<lambda>m. py_strip m \<in> {DEFAULT_EXECUTION_MODEL, DEFAULT_EXECUTION_EMBEDDING_MODEL}) models
         | Some j \<Rightarrow> py_strip j \<noteq> [])
     \<and> effort_fits (map py_strip models) effort"
proof -
  let ?sel = "map py_strip models"
  have nonempty: "[] \<notin> set ALLOWED_EXECUTION_MODELS" by code_simp
  have disallowed: "filter (\<lambda>m. m \<notin> set ALLOWED_EXECUTION_MODELS) ?sel = [] \<longleftrightarrow>
      list_all (\<lambda>m. py_strip m \<in> set ALLOWED_EXECUTION_MODELS) models"
    by (auto simp: filter_empty_conv list_all_iff)
  have blank: "\<not> list_ex (\<lambda>m. m = []) ?sel" if "list_all (\<lambda>m. py_strip m \<in> set ALLOWED_EXECUTION_MODELS) models"
    using that nonempty by (auto simp: list_all_iff list_ex_iff)
  have defaults: "list_all (\<lambda>m. m = DEFAULT_EXECUTION_MODEL \<or> m = DEFAULT_EXECUTION_EMBEDDING_MODEL) ?sel \<longleftrightarrow>
      list_all (\<lambda>m. py_strip m \<in> {DEFAULT_EXECUTION_MODEL, DEFAULT_EXECUTION_EMBEDDING_MODEL}) models"
    by (simp add: list_all_iff)
  show ?thesis
  proof (cases "list_all (\<lambda>m. py_strip m \<in> set ALLOWED_EXECUTION_MODELS) models")
    case False
    then show ?thesis
      by (simp add: evaluate_model_execution_policy_def Let_def disallowed)
  next
    case True
    show ?thesis
      unfolding reasoning_policy_iff [symmetric]
      using blank [OF True] True
      by (cases justification)
        (simp_all add: evaluate_model_execution_policy_def Let_def disallowed defaults)
  qed
qed

text \<open>A chain of models is admitted exactly when the allowlist is enforced, it names at least one model,
  every name is on the allowlist, a justification with text is given unless all are the two defaults,
  none is blank, and every configurable model of the chain takes the reasoning effort that is given.\<close>

theorem policy_admits_iff:
  "(\<exists>d. evaluate_model_execution_policy models mode justification effort = Inr d) \<longleftrightarrow>
     mode = ''enforce_allowlist'' \<and> models \<noteq> []
     \<and> list_all (\<lambda>m. py_strip m \<in> set ALLOWED_EXECUTION_MODELS) models
     \<and> (case justification of
           None \<Rightarrow> list_all (\<lambda>m. py_strip m \<in> {DEFAULT_EXECUTION_MODEL, DEFAULT_EXECUTION_EMBEDDING_MODEL}) models
         | Some j \<Rightarrow> py_strip j \<noteq> [])
     \<and> effort_fits (map py_strip models) effort"
  by (rule policy_admits)

section \<open>The allowlist agrees with routing and retirement\<close>

lemma allowed_canonical:
  assumes "m \<in> set ALLOWED_EXECUTION_MODELS"
  shows "normalize_model_for_policy m policy = m" and "py_strip m = m" and "m \<noteq> []"
proof -
  have "list_all (\<lambda>m. normalize_model_for_policy m PolicyOpenrouter = m) ALLOWED_EXECUTION_MODELS"
    and "list_all (\<lambda>m. normalize_model_for_policy m PolicyDirect = m) ALLOWED_EXECUTION_MODELS"
    and stripped: "list_all (\<lambda>m. py_strip m = m \<and> m \<noteq> []) ALLOWED_EXECUTION_MODELS" by code_simp+
  with assms show "normalize_model_for_policy m policy = m" by (cases policy) (simp_all add: list_all_iff)
  from assms stripped show "py_strip m = m" "m \<noteq> []" by (simp_all add: list_all_iff)
qed

lemma not_retired_any_env:
  assumes "check_model_deprecation env m = Inr NoNotice"
  shows "check_model_deprecation env' m = Inr NoNotice"
  using assms unfolding check_model_deprecation_def Let_def
  by (auto split: option.splits prod.splits if_splits)

lemma allowed_not_retired:
  assumes "m \<in> set ALLOWED_EXECUTION_MODELS"
  shows "check_model_deprecation env m = Inr NoNotice"
proof -
  have "list_all (\<lambda>m. check_model_deprecation (\<lambda>_. None) m = Inr NoNotice) ALLOWED_EXECUTION_MODELS" by code_simp
  with assms show ?thesis by (auto simp: list_all_iff intro: not_retired_any_env)
qed

lemma dedup_map_id: "(\<And>m. m \<in> set ms \<Longrightarrow> f m = m \<and> P m) \<Longrightarrow> map f (filter P ms) = ms"
  by (induction ms) auto

lemma admitted_selected:
  assumes "evaluate_model_execution_policy models mode justification effort = Inr d"
  shows "xd_selected_models d = map py_strip models" and "set (xd_selected_models d) \<subseteq> set ALLOWED_EXECUTION_MODELS"
    and "xd_selected_models d \<noteq> []"
proof -
  have iff: "models \<noteq> [] \<and> list_all (\<lambda>m. py_strip m \<in> set ALLOWED_EXECUTION_MODELS) models"
    using policy_admits assms by blast
  show sel: "xd_selected_models d = map py_strip models"
    using assms by (auto simp: evaluate_model_execution_policy_def Let_def split: if_splits)
  show "set (xd_selected_models d) \<subseteq> set ALLOWED_EXECUTION_MODELS" "xd_selected_models d \<noteq> []"
    using iff by (auto simp: sel list_all_iff)
qed

text \<open>The allowlist, the routing tables and the list of retired models agree. Every model of an
  admitted chain is its own canonical name under either routing policy and is neither retired nor
  outclassed, so resolving the chain tries exactly its models, in order, each once.\<close>

theorem admitted_chain_unrewritten:
  assumes "evaluate_model_execution_policy models mode justification effort = Inr d"
  shows "list_all (\<lambda>m. normalize_model_for_policy m policy = m \<and> check_model_deprecation env m = Inr NoNotice)
      (xd_selected_models d)
    \<and> pl_models (resolve_call \<lparr>rq_model = hd (xd_selected_models d),
        rq_fallback_models = Some (tl (xd_selected_models d)), rq_api_base = base\<rparr> config)
      = dedup_by py_lower [] (xd_selected_models d)"
proof -
  let ?ms = "xd_selected_models d"
  note sel = admitted_selected [OF assms]
  have "canonical_candidates (cfg_routing_policy config) ?ms = ?ms"
    unfolding canonical_candidates_def using sel(2) allowed_canonical by (intro dedup_map_id) auto
  moreover have "hd ?ms # tl ?ms = ?ms" using sel(3) by simp
  ultimately have "pl_models (resolve_call \<lparr>rq_model = hd ?ms, rq_fallback_models = Some (tl ?ms),
      rq_api_base = base\<rparr> config) = dedup_by py_lower [] ?ms"
    using sel(3) by (simp add: plan_models given_or_def Let_def)
  moreover have "list_all (\<lambda>m. normalize_model_for_policy m policy = m \<and> check_model_deprecation env m = Inr NoNotice) ?ms"
    using sel(2) allowed_canonical(1) allowed_not_retired by (auto simp: list_all_iff)
  ultimately show ?thesis by blast
qed

theorem admitted_chain_unrewritten_witness:
  "normalize_model_for_policy ''claude-code/sonnet'' PolicyDirect = ''claude-code/sonnet''"
proof -
  have "\<not> isl (evaluate_model_execution_policy ['' claude-code/sonnet''] ''enforce_allowlist'' (Some ''long task'') None)"
    by code_simp
  then obtain d where d: "evaluate_model_execution_policy ['' claude-code/sonnet''] ''enforce_allowlist'' (Some ''long task'') None = Inr d"
    by (metis isl_def old.sum.exhaust)
  have "xd_selected_models d = [''claude-code/sonnet'']"
    using admitted_selected(1) [OF d] by (simp add: py_strip_def py_isspace_def)
  with admitted_chain_unrewritten [OF d, of PolicyDirect] show ?thesis by simp
qed

end
