(* ===== verification/Model_Registry.thy ===== *)
theory Model_Registry
  imports Model_Execution_Policy
begin

text \<open>
  The model registry and its selection, \<open>llm_client/core/models.py\<close> and \<open>llm_client/core/model_selection.py\<close>,
  with the packaged registry of \<open>llm_client/data/default_model_registry.json\<close>.

  A registry entry is the typed \<open>ModelInfo\<close>; reading it from JSON or YAML is pydantic's. The rows of the
  performance query are an argument, \<open>None\<close> when the query raises. The environment is a function.
\<close>

section \<open>Registry entries and tasks\<close>

record model_info =
  mi_name :: string
  mi_litellm_id :: string
  mi_provider :: string
  mi_api_key_env :: string
  mi_intelligence :: int
  mi_speed :: int
  mi_cost :: rat
  mi_context :: int
  mi_structured_output :: bool
  mi_native_structured_output :: "bool option"
  mi_tool_calling :: bool
  mi_tags :: "string list"

record task_requirements =
  tr_structured_output :: bool
  tr_min_intelligence :: int
  tr_min_context :: int
  tr_required_tags :: "string list"

record task_profile =
  tp_require :: task_requirements
  tp_prefer :: "string list"

record registry_config =
  rg_models :: "model_info list"
  rg_tasks :: "(string \<times> task_profile) list"

datatype registry_error = UnknownTask string | NoModelQualifies string | BadConfig string | SelectionError string

section \<open>Loading the configuration\<close>

text \<open>
  \<open>_load_config\<close>: the cache, the file named by the environment, the user's file, the packaged registry.
  \<open>read\<close> gives the sections that the YAML file at a path has, \<open>None\<close> when there is no file.
\<close>

record config_file =
  cf_models :: "model_info list option"
  cf_tasks :: "(string \<times> task_profile) list option"

definition load_yaml_file :: "registry_config \<Rightarrow> config_file \<Rightarrow> registry_config" where
  "load_yaml_file packaged f =
     \<lparr>rg_models = given_or (cf_models f) (rg_models packaged), rg_tasks = given_or (cf_tasks f) (rg_tasks packaged)\<rparr>"

definition load_config ::
  "(string \<Rightarrow> config_file option) \<Rightarrow> string \<Rightarrow> registry_config \<Rightarrow> (string \<Rightarrow> string option)
     \<Rightarrow> registry_config option \<Rightarrow> (registry_error + registry_config) \<times> registry_config option" where
  "load_config read user_path packaged env cache =
     (case cache of
        Some c \<Rightarrow> (Inr c, cache)
      | None \<Rightarrow>
          let env_path = given_or (env ''LLM_CLIENT_MODELS_CONFIG'') [] in
          if env_path \<noteq> [] then
            (case read env_path of
               Some f \<Rightarrow> (let c = load_yaml_file packaged f in (Inr c, Some c))
             | None \<Rightarrow> (Inl (BadConfig (''LLM_CLIENT_MODELS_CONFIG points to non-existent file: '' @ env_path)), cache))
          else
            let c = (case read user_path of Some f \<Rightarrow> load_yaml_file packaged f | None \<Rightarrow> packaged)
            in (Inr c, Some c))"

section \<open>Selection\<close>

definition load_task_profile :: "registry_config \<Rightarrow> string \<Rightarrow> registry_error + task_profile" where
  "load_task_profile config task =
     (case dict_get (rg_tasks config) task of
        Some p \<Rightarrow> Inr p
      | None \<Rightarrow> Inl (UnknownTask (''Unknown task '' @ py_repr_str task @ ''. Available: '' @
                  py_repr_strs (sort (map fst (rg_tasks config))))))"

definition is_available :: "(string \<Rightarrow> string option) \<Rightarrow> model_info \<Rightarrow> bool" where
  "is_available env m \<longleftrightarrow> given_or (env (mi_api_key_env m)) [] \<noteq> []"

definition model_qualifies_for_profile ::
  "(string \<Rightarrow> string option) \<Rightarrow> model_info \<Rightarrow> task_profile \<Rightarrow> bool \<Rightarrow> bool" where
  "model_qualifies_for_profile env m p available_only \<longleftrightarrow>
     (let r = tp_require p in
      if tr_required_tags r \<noteq> [] \<and> \<not> list_all (\<lambda>t. t \<in> set (mi_tags m)) (tr_required_tags r) then False
      else if tr_required_tags r = [] \<and> ''manual-selection'' \<in> set (mi_tags m) then False
      else if tr_structured_output r \<and> \<not> mi_structured_output m then False
      else if mi_intelligence m < tr_min_intelligence r then False
      else if mi_context m < tr_min_context r then False
      else if available_only \<and> \<not> is_available env m then False
      else True)"

text \<open>\<open>getattr(m, attr, 0)\<close> for the attributes that are numbers or truth values.\<close>

definition attribute :: "model_info \<Rightarrow> string \<Rightarrow> rat" where
  "attribute m a =
     (if a = ''intelligence'' then of_int (mi_intelligence m)
      else if a = ''speed'' then of_int (mi_speed m)
      else if a = ''cost'' then mi_cost m
      else if a = ''context'' then of_int (mi_context m)
      else if a = ''structured_output'' then of_bool (mi_structured_output m)
      else if a = ''tool_calling'' then of_bool (mi_tool_calling m)
      else 0)"

definition prefer_key :: "string list \<Rightarrow> model_info \<Rightarrow> rat list" where
  "prefer_key prefer m =
     map (\<lambda>k. let v = attribute m (dropWhile (\<lambda>c. c = CHR ''-'') k) in if prefix ''-'' k then v else - v) prefer"

definition sort_by_prefer :: "string list \<Rightarrow> model_info list \<Rightarrow> model_info list" where
  "sort_by_prefer prefer ms = (if prefer = [] then ms else sort_key (prefer_key prefer) ms)"

definition select_static_candidates ::
  "(string \<Rightarrow> string option) \<Rightarrow> registry_config \<Rightarrow> task_profile \<Rightarrow> bool \<Rightarrow> model_info list" where
  "select_static_candidates env config p available_only =
     sort_by_prefer (tp_prefer p) (filter (\<lambda>m. model_qualifies_for_profile env m p available_only) (rg_models config))"

record observation =
  ob_error_rate :: rat
  ob_call_count :: int

text \<open>A later row for the same model replaces an earlier one.\<close>

definition performance_observations :: "(string \<times> observation) list option \<Rightarrow> (string \<times> observation) list" where
  "performance_observations rows =
     (case rows of None \<Rightarrow> [] | Some rs \<Rightarrow> fold (\<lambda>(m, ob). dict_set m ob) rs [])"

definition is_unreliable :: "(string \<times> observation) list \<Rightarrow> int \<Rightarrow> rat \<Rightarrow> model_info \<Rightarrow> bool" where
  "is_unreliable obs min_calls threshold m \<longleftrightarrow>
     (case dict_get obs (mi_litellm_id m) of
        None \<Rightarrow> False
      | Some ob \<Rightarrow> min_calls \<le> ob_call_count ob \<and> threshold < ob_error_rate ob)"

record overlay_decision =
  ov_ordered :: "model_info list"
  ov_reliable :: "model_info list"
  ov_demoted :: "model_info list"

definition apply_performance_overlay ::
  "(string \<times> observation) list option \<Rightarrow> int \<Rightarrow> rat \<Rightarrow> model_info list \<Rightarrow> overlay_decision" where
  "apply_performance_overlay rows min_calls threshold candidates =
     (let obs = performance_observations rows;
          reliable = filter (\<lambda>m. \<not> is_unreliable obs min_calls threshold m) candidates;
          unreliable = filter (is_unreliable obs min_calls threshold) candidates in
      if obs = [] then \<lparr>ov_ordered = candidates, ov_reliable = candidates, ov_demoted = []\<rparr>
      else if reliable = [] then \<lparr>ov_ordered = candidates, ov_reliable = [], ov_demoted = candidates\<rparr>
      else \<lparr>ov_ordered = reliable @ unreliable, ov_reliable = reliable, ov_demoted = unreliable\<rparr>)"

record selection_options =
  so_available_only :: bool
  so_use_performance :: bool
  so_min_calls :: int
  so_error_threshold :: rat

definition get_model ::
  "(string \<Rightarrow> string option) \<Rightarrow> (string \<times> observation) list option \<Rightarrow> registry_config \<Rightarrow> selection_options
     \<Rightarrow> string \<Rightarrow> registry_error + string" where
  "get_model env rows config opts task =
     and_then (load_task_profile config task) (\<lambda>p.
       let candidates = select_static_candidates env config p (so_available_only opts) in
       if candidates = [] then Inl (NoModelQualifies task)
       else
         let sorted = sort_by_prefer (tp_prefer p) candidates;
             final = (if so_use_performance opts \<and> 1 < length sorted
                      then ov_ordered (apply_performance_overlay rows (so_min_calls opts) (so_error_threshold opts) sorted)
                      else sorted)
         in Inr (mi_litellm_id (hd final)))"

definition list_models ::
  "(string \<Rightarrow> string option) \<Rightarrow> registry_config \<Rightarrow> string option \<Rightarrow> bool \<Rightarrow> registry_error + (model_info \<times> bool) list" where
  "list_models env config task available_only =
     and_then
       (case task of
          None \<Rightarrow> Inr (rg_models config)
        | Some t \<Rightarrow> and_then (load_task_profile config t)
                      (\<lambda>p. Inr (select_static_candidates env config p available_only)))
       (\<lambda>ms. Inr (filter (\<lambda>(m, available). \<not> available_only \<or> available) (map (\<lambda>m. (m, is_available env m)) ms)))"

definition registry_find :: "registry_config \<Rightarrow> string \<Rightarrow> model_info option" where
  "registry_find config i = find (\<lambda>m. mi_litellm_id m = i) (rg_models config)"

definition supports_tool_calling :: "registry_config \<Rightarrow> string \<Rightarrow> bool" where
  "supports_tool_calling config i = (case registry_find config i of Some m \<Rightarrow> mi_tool_calling m | None \<Rightarrow> True)"

definition supports_structured_output :: "registry_config \<Rightarrow> string \<Rightarrow> bool option" where
  "supports_structured_output config i = map_option mi_structured_output (registry_find config i)"

definition supports_native_structured_output :: "registry_config \<Rightarrow> string \<Rightarrow> bool option" where
  "supports_native_structured_output config i =
     map_option (\<lambda>m. given_or (mi_native_structured_output m) (mi_structured_output m)) (registry_find config i)"

section \<open>The packaged registry\<close>

definition registry_entry ::
  "string \<Rightarrow> string \<Rightarrow> string \<Rightarrow> string \<Rightarrow> int \<Rightarrow> int \<Rightarrow> rat \<Rightarrow> int \<Rightarrow> bool \<Rightarrow> bool option \<Rightarrow> bool \<Rightarrow> string list \<Rightarrow> model_info" where
  "registry_entry name litellm provider key intelligence speed cost context structured native tools tags =
     \<lparr>mi_name = name, mi_litellm_id = litellm, mi_provider = provider, mi_api_key_env = key,
      mi_intelligence = intelligence, mi_speed = speed, mi_cost = cost, mi_context = context,
      mi_structured_output = structured, mi_native_structured_output = native, mi_tool_calling = tools,
      mi_tags = tags\<rparr>"

definition task_entry :: "bool \<Rightarrow> int \<Rightarrow> string list \<Rightarrow> string list \<Rightarrow> task_profile" where
  "task_entry structured min_intelligence tags prefer =
     \<lparr>tp_require = \<lparr>tr_structured_output = structured, tr_min_intelligence = min_intelligence,
                    tr_min_context = 0, tr_required_tags = tags\<rparr>,
      tp_prefer = prefer\<rparr>"

definition DEFAULT_CONFIG :: registry_config where
  "DEFAULT_CONFIG =
    \<lparr>rg_models = [
      registry_entry ''minimax-m3'' ''openrouter/minimax/minimax-m3'' ''openrouter'' ''OPENROUTER_API_KEY''
        44 95 (11 / 50) 1000000 True (None) True
        [''1m-context'', ''agentic'', ''coding'', ''default'', ''default-intelligent'',
         ''quality-optimal-review'', ''tier-default-intelligent''],
      registry_entry ''mercury-2'' ''openrouter/inception/mercury-2'' ''openrouter'' ''OPENROUTER_API_KEY''
        25 928 (7 / 50) 128000 True (None) True
        [''coding'', ''low-intelligence'', ''schema-aligned-json'', ''tier-ultra-fast-low-intel'',
         ''ultra-fast''],
      registry_entry ''deepseek-v4-flash'' ''openrouter/deepseek/deepseek-v4-flash'' ''openrouter'' ''OPENROUTER_API_KEY''
        40 110 (3 / 50) 1000000 True (None) True
        [''1m-context'', ''cheap'', ''coding'', ''open-weight'', ''reasoning'', ''tier-fast-cheap-mid''],
      registry_entry ''deepseek-chat'' ''openrouter/deepseek/deepseek-chat'' ''openrouter'' ''OPENROUTER_API_KEY''
        42 36 (8 / 25) 1000000 True (None) True
        [''cheap'', ''open-weight''],
      registry_entry ''gpt-5.6-sol-openrouter'' ''openrouter/openai/gpt-5.6-sol'' ''openrouter'' ''OPENROUTER_API_KEY''
        57 40 (35 / 2) 1050000 True (Some True) True
        [''1m-context'', ''frontier'', ''manual-selection'', ''openrouter'', ''reasoning'',
         ''bounded-schema-evidence'', ''tier-max-intelligence''],
      registry_entry ''gpt-5.6-terra-openrouter'' ''openrouter/openai/gpt-5.6-terra'' ''openrouter'' ''OPENROUTER_API_KEY''
        46 121 (35 / 4) 1050000 True (Some True) True
        [''1m-context'', ''frontier'', ''manual-selection'', ''openrouter'', ''planner-candidate'',
         ''reasoning'', ''structured-route-certified''],
      registry_entry ''gpt-5.6-luna-openrouter'' ''openrouter/openai/gpt-5.6-luna'' ''openrouter'' ''OPENROUTER_API_KEY''
        38 192 (7 / 2) 1050000 True (Some True) True
        [''1m-context'', ''manual-selection'', ''openrouter'', ''planner-candidate'', ''reasoning'',
         ''bounded-schema-evidence'', ''tier-fast-mid''],
      registry_entry ''gemini-3-flash'' ''gemini/gemini-3-flash-preview'' ''google'' ''GEMINI_API_KEY''
        30 207 (113 / 100) 1000000 True (None) True
        [''demoted-broken-structured-output'', ''mid-tier'', ''structured-output-degraded-2026-03-25''],
      registry_entry ''gemini-2.5-flash'' ''gemini/gemini-2.5-flash'' ''google'' ''GEMINI_API_KEY''
        36 190 (17 / 25) 1000000 True (None) True
        [''free-tier''],
      registry_entry ''gemini-2.5-flash-lite'' ''gemini/gemini-2.5-flash-lite'' ''google'' ''GEMINI_API_KEY''
        28 250 (7 / 40) 1000000 True (None) False
        [''cheapest-google''],
      registry_entry ''gemini-3.1-pro-preview'' ''openrouter/google/gemini-3.1-pro-preview'' ''openrouter'' ''OPENROUTER_API_KEY''
        46 142 (87 / 50) 1048576 True (None) True
        [''1m-context'', ''frontier'', ''preview'', ''reasoning''],
      registry_entry ''gpt-5'' ''openrouter/openai/gpt-5'' ''openrouter'' ''OPENROUTER_API_KEY''
        45 98 (86 / 25) 128000 True (None) True
        [''frontier''],
      registry_entry ''gpt-5-nano'' ''openrouter/openai/gpt-5-nano'' ''openrouter'' ''OPENROUTER_API_KEY''
        27 141 (7 / 50) 128000 True (None) True
        [''cheapest-openai'', ''low-intelligence'', ''tier-ultra-cheap-low-intel''],
      registry_entry ''glm-5.2'' ''openrouter/z-ai/glm-5.2'' ''openrouter'' ''OPENROUTER_API_KEY''
        51 201 (9 / 10) 1000000 True (None) True
        [''1m-context'', ''coding'', ''frontier'', ''reasoning'', ''tier-fast-intelligent''],
      registry_entry ''qwen3.7-max'' ''openrouter/qwen/qwen3.7-max'' ''openrouter'' ''OPENROUTER_API_KEY''
        46 205 (143 / 100) 1000000 True (None) True
        [''1m-context'', ''agentic'', ''coding'', ''tier-fast-intelligent''],
      registry_entry ''grok-4.5'' ''openrouter/x-ai/grok-4.5'' ''openrouter'' ''OPENROUTER_API_KEY''
        54 87 (27 / 20) 500000 True (None) True
        [''coding'', ''frontier'', ''manual-selection'', ''reasoning'', ''tier-very-intelligent''],
      registry_entry ''gpt-5.2-pro'' ''gpt-5.2-pro'' ''openai'' ''OPENAI_API_KEY''
        50 5 (189 / 2) 128000 True (None) True
        [''deep-review'', ''frontier'', ''long-thinking''],
      registry_entry ''gpt-5.6-sol-direct'' ''gpt-5.6'' ''openai'' ''OPENAI_API_KEY''
        57 40 (35 / 2) 1050000 True (None) True
        [''1m-context'', ''direct-provider'', ''frontier'', ''manual-selection'', ''reasoning'',
         ''structured-route-certified''],
      registry_entry ''gpt-5.6-terra-direct'' ''gpt-5.6-terra'' ''openai'' ''OPENAI_API_KEY''
        55 55 (35 / 4) 1050000 True (None) True
        [''1m-context'', ''direct-provider'', ''frontier'', ''manual-selection'', ''reasoning'',
         ''structured-route-certified'']],
     rg_tasks = [
      (''ultra_fast_low_intel'', task_entry False 20 [''tier-ultra-fast-low-intel''] [''speed'', ''-cost'', ''intelligence'']),
      (''ultra_cheap_low_intel'', task_entry False 20 [''tier-ultra-cheap-low-intel''] [''-cost'', ''speed'', ''intelligence'']),
      (''fast_cheap_mid'', task_entry True 38 [''tier-fast-cheap-mid''] [''-cost'', ''speed'', ''intelligence'']),
      (''fast_mid'', task_entry True 35 [''tier-fast-mid''] [''speed'', ''-cost'', ''intelligence'']),
      (''default_intelligent'', task_entry True 40 [''tier-default-intelligent''] [''intelligence'', ''-cost'', ''speed'']),
      (''fast_intelligent'', task_entry True 45 [''tier-fast-intelligent''] [''intelligence'', ''speed'', ''-cost'']),
      (''very_intelligent'', task_entry True 53 [''tier-very-intelligent''] [''-cost'', ''intelligence'', ''speed'']),
      (''max_intelligence'', task_entry True 55 [''tier-max-intelligence''] [''intelligence'', ''-cost'', ''speed'']),
      (''agent_reasoning'', task_entry False 42 [''default''] [''intelligence'']),
      (''budget_extraction'', task_entry True 40 [''default''] [''-cost'', ''intelligence'', ''speed'']),
      (''bulk_cheap'', task_entry False 25 [''default''] [''-cost'', ''speed'']),
      (''code_generation'', task_entry False 38 [''default''] [''intelligence'', ''speed'']),
      (''deep_review'', task_entry False 44 [''quality-optimal-review'', ''default''] [''intelligence'']),
      (''extraction'', task_entry True 35 [''default''] [''intelligence'', ''-cost'']),
      (''fast_extraction'', task_entry True 35 [''default''] [''speed'', ''intelligence'', ''-cost'']),
      (''graph_building'', task_entry True 30 [''default''] [''-cost'', ''speed'']),
      (''judging'', task_entry True 30 [''default''] [''-cost'', ''intelligence'']),
      (''synthesis'', task_entry False 40 [''default''] [''intelligence'', ''-cost''])]\<rparr>"

section \<open>Projects' selections\<close>

datatype selection_source = FromTask | FromOverride

record model_selection =
  ms_task :: string
  ms_model :: string
  ms_source :: selection_source
  ms_strict_models :: bool

definition resolve_model_selection ::
  "(string \<Rightarrow> registry_error + string) \<Rightarrow> string \<Rightarrow> string option \<Rightarrow> bool \<Rightarrow> registry_error + model_selection" where
  "resolve_model_selection get task override strict =
     (let t = py_strip task in
      if t = [] then Inl (SelectionError ''task must be non-empty'')
      else if given_or override [] \<noteq> []
      then Inr \<lparr>ms_task = t, ms_model = given_or override [], ms_source = FromOverride, ms_strict_models = strict\<rparr>
      else and_then (get t) (\<lambda>m. Inr \<lparr>ms_task = t, ms_model = m, ms_source = FromTask, ms_strict_models = strict\<rparr>))"

record model_chain =
  mc_primary :: model_selection
  mc_fallback_models :: "string list"
  mc_fallback_tasks :: "string list"

fun resolve_fallback_tasks ::
  "(string \<Rightarrow> registry_error + string) \<Rightarrow> bool \<Rightarrow> string list \<Rightarrow> registry_error + model_selection list" where
  "resolve_fallback_tasks get strict [] = Inr []"
| "resolve_fallback_tasks get strict (t # ts) =
     and_then (resolve_model_selection get t None strict) (\<lambda>s.
     and_then (resolve_fallback_tasks get strict ts) (\<lambda>ss. Inr (s # ss)))"

definition resolve_model_chain ::
  "(string \<Rightarrow> registry_error + string) \<Rightarrow> string \<Rightarrow> string list \<Rightarrow> string option \<Rightarrow> string list \<Rightarrow> bool
     \<Rightarrow> registry_error + model_chain" where
  "resolve_model_chain get task fallback_tasks override fallback_models strict =
     and_then (resolve_model_selection get task override strict) (\<lambda>primary.
     and_then (resolve_fallback_tasks get strict fallback_tasks) (\<lambda>ss.
       Inr \<lparr>mc_primary = primary,
            mc_fallback_models = dedup_by id [ms_model primary]
              (map ms_model ss @ filter (\<lambda>m. m \<noteq> []) (map py_strip fallback_models)),
            mc_fallback_tasks = map ms_task ss\<rparr>))"

text \<open>\<open>strict_model_policy\<close>: what entering sets, and what leaving restores.\<close>

definition strict_enter :: "bool \<Rightarrow> (string \<rightharpoonup> string) \<Rightarrow> string option \<times> (string \<rightharpoonup> string)" where
  "strict_enter enabled env =
     (env ''LLM_CLIENT_STRICT_MODELS'',
      env(''LLM_CLIENT_STRICT_MODELS'' := (if enabled then Some ''1'' else None)))"

definition strict_exit :: "string option \<Rightarrow> (string \<rightharpoonup> string) \<Rightarrow> (string \<rightharpoonup> string)" where
  "strict_exit previous env = env(''LLM_CLIENT_STRICT_MODELS'' := previous)"

section \<open>Workload routes\<close>

datatype workload_environment = Interactive | TrustedPrivateAutomation | ManagedAutomation | ServiceEnvironment
datatype subscription_capacity = CapacityAvailable | CapacityExhausted | CapacityUnknown
datatype paid_overflow_route = OverflowCodexCredits | OverflowOpenaiApi | OverflowOpenrouter
datatype workload_provider = CodexSubscription | CodexCredits | OpenaiApi | OpenrouterRoute

record workload_context =
  wc_codex_compatible :: bool
  wc_environment :: workload_environment
  wc_subscription_auth :: bool
  wc_capacity :: subscription_capacity
  wc_requires_openai_contract :: bool
  wc_requires_openrouter :: bool
  wc_openrouter_best_value :: bool
  wc_overflow :: "paid_overflow_route option"

record workload_route =
  wr_provider :: workload_provider
  wr_model :: string
  wr_justification :: string
  wr_effort :: string

definition route_of :: "workload_provider \<Rightarrow> string \<Rightarrow> string \<Rightarrow> string + workload_route" where
  "route_of provider model why =
     Inr \<lparr>wr_provider = provider, wr_model = model, wr_justification = why, wr_effort = ''medium''\<rparr>"

definition in_person :: "workload_context \<Rightarrow> bool" where
  "in_person c \<longleftrightarrow> wc_codex_compatible c \<and> wc_subscription_auth c \<and>
     (wc_environment c = Interactive \<or> wc_environment c = TrustedPrivateAutomation)"

definition resolve_workload_route :: "workload_context \<Rightarrow> string + workload_route" where
  "resolve_workload_route c =
     (if wc_requires_openai_contract c \<and> wc_requires_openrouter c
      then Inl ''OpenAI API contract and OpenRouter-specific requirements conflict''
      else if wc_requires_openrouter c
      then route_of OpenrouterRoute ''openrouter/openai/gpt-5.6-luna''
             ''Workload requires an OpenRouter-specific capability''
      else if wc_openrouter_best_value c
      then route_of OpenrouterRoute ''openrouter/openai/gpt-5.6-luna''
             ''A current, workload-specific price and capacity comparison selects OpenRouter''
      else if wc_requires_openai_contract c \<or> wc_environment c = ManagedAutomation \<or>
              wc_environment c = ServiceEnvironment
      then route_of OpenaiApi ''gpt-5.6'' ''Workload requires direct OpenAI API authentication''
      else if in_person c \<and> wc_capacity c = CapacityAvailable
      then route_of CodexSubscription ''codex/gpt-5.6-luna''
             ''Compatible trusted workload has supported subscription auth and available capacity''
      else if in_person c \<and> wc_capacity c = CapacityExhausted
      then (case wc_overflow c of
              None \<Rightarrow> Inl ''Codex capacity is exhausted; declare paid_overflow_route''
            | Some OverflowCodexCredits \<Rightarrow> route_of CodexCredits ''codex/gpt-5.6-luna''
                ''Included Codex capacity is exhausted; the recorded comparison selected paid Codex credits''
            | Some OverflowOpenrouter \<Rightarrow> route_of OpenrouterRoute ''openrouter/openai/gpt-5.6-luna''
                ''Included Codex capacity is exhausted; the recorded comparison selected OpenRouter''
            | Some OverflowOpenaiApi \<Rightarrow> route_of OpenaiApi ''gpt-5.6''
                ''Included Codex capacity is exhausted; the recorded comparison selected direct OpenAI API'')
      else route_of OpenaiApi ''gpt-5.6'' ''Codex subscription is not applicable or cannot be verified'')"

section \<open>The best model\<close>

lemma sorted_hd_least:
  assumes "sorted (map key xs)" and "x \<in> set xs"
  shows "key (hd xs) \<le> (key x :: 'k::linorder)"
  using assms by (cases xs) auto

lemma sorted_sort_by_prefer: "sorted (map (prefer_key prefer) (sort_by_prefer prefer ms))"
proof (cases "prefer = []")
  case True
  then have "prefer_key prefer = (\<lambda>_. [])" by (simp add: prefer_key_def fun_eq_iff)
  moreover have "sorted (map (\<lambda>_. [] :: rat list) xs)" for xs :: "model_info list" by (induction xs) auto
  ultimately show ?thesis by simp
qed (simp add: sort_by_prefer_def)

lemma set_sort_by_prefer [simp]: "set (sort_by_prefer prefer ms) = set ms"
  by (simp add: sort_by_prefer_def)

lemma sort_by_prefer_Nil [simp]: "sort_by_prefer prefer ms = [] \<longleftrightarrow> ms = []"
  using set_sort_by_prefer [of "prefer" ms] by (metis set_empty)

lemma hd_overlay:
  assumes "sorted (map key ms)" and "ms \<noteq> []" and "P = is_unreliable (performance_observations rows) min_calls threshold"
  shows "hd (ov_ordered (apply_performance_overlay rows min_calls threshold ms)) \<in> set ms \<and>
    (\<forall>m \<in> set ms.
      (\<not> P m \<longrightarrow> \<not> P (hd (ov_ordered (apply_performance_overlay rows min_calls threshold ms)))) \<and>
      ((P m \<longleftrightarrow> P (hd (ov_ordered (apply_performance_overlay rows min_calls threshold ms)))) \<longrightarrow>
        key (hd (ov_ordered (apply_performance_overlay rows min_calls threshold ms))) \<le> (key m :: 'k::linorder)))"
proof -
  let ?out = "apply_performance_overlay rows min_calls threshold ms"
  let ?rel = "filter (\<lambda>m. \<not> P m) ms"
  have least: "key (hd ms) \<le> key m" if "m \<in> set ms" for m using assms(1) that by (rule sorted_hd_least)
  show ?thesis
  proof (cases "performance_observations rows = [] \<or> ?rel = []")
    case True
    then have all: "ov_ordered ?out = ms" by (auto simp: apply_performance_overlay_def Let_def assms(3))
    have same: "P m = P (hd ms)" if "m \<in> set ms" for m
    proof (cases "performance_observations rows = []")
      case True
      then show ?thesis by (simp add: assms(3) is_unreliable_def)
    next
      case False
      with \<open>performance_observations rows = [] \<or> ?rel = []\<close> have "\<forall>m \<in> set ms. P m"
        by (simp add: filter_empty_conv)
      then show ?thesis using that hd_in_set [OF assms(2)] by blast
    qed
    show ?thesis
      unfolding all
    proof (intro conjI ballI impI)
      show "hd ms \<in> set ms" using assms(2) by (rule hd_in_set)
    next
      fix m assume "m \<in> set ms"
      then show "key (hd ms) \<le> key m" by (rule least)
    next
      fix m assume "m \<in> set ms" "\<not> P m"
      then show "\<not> P (hd ms)" using same by simp
    qed
  next
    case False
    then have hd: "hd (ov_ordered ?out) = hd ?rel" by (simp add: apply_performance_overlay_def Let_def assms(3))
    have in_rel: "hd ?rel \<in> set ?rel" using False by (intro hd_in_set) simp
    have "sorted (map key ?rel)" using assms(1) by (rule sorted_filter)
    then have "key (hd ?rel) \<le> key m" if "m \<in> set ms" "\<not> P m" for m
      using that by (intro sorted_hd_least) auto
    with in_rel show ?thesis unfolding hd by auto
  qed
qed

text \<open>Whether selection trusts a model.\<close>

definition trusted :: "(string \<times> observation) list option \<Rightarrow> selection_options \<Rightarrow> model_info \<Rightarrow> bool" where
  "trusted rows opts m \<longleftrightarrow>
     \<not> so_use_performance opts \<or>
     \<not> is_unreliable (performance_observations rows) (so_min_calls opts) (so_error_threshold opts) m"

definition qualifying ::
  "(string \<Rightarrow> string option) \<Rightarrow> registry_config \<Rightarrow> task_profile \<Rightarrow> selection_options \<Rightarrow> model_info list" where
  "qualifying env config p opts =
     filter (\<lambda>m. model_qualifies_for_profile env m p (so_available_only opts)) (rg_models config)"

lemma get_model_best_candidate:
  assumes "get_model env rows config opts task = Inr i"
  shows "\<exists>p m. dict_get (rg_tasks config) task = Some p \<and> mi_litellm_id m = i \<and> m \<in> set (qualifying env config p opts)
    \<and> (\<forall>m' \<in> set (qualifying env config p opts).
        (trusted rows opts m' \<longrightarrow> trusted rows opts m) \<and>
        ((trusted rows opts m' \<longleftrightarrow> trusted rows opts m) \<longrightarrow>
          prefer_key (tp_prefer p) m \<le> prefer_key (tp_prefer p) m'))"
proof -
  obtain p where p: "dict_get (rg_tasks config) task = Some p"
    using assms by (cases "dict_get (rg_tasks config) task") (auto simp: get_model_def load_task_profile_def)
  let ?key = "prefer_key (tp_prefer p)"
  let ?sorted = "sort_by_prefer (tp_prefer p) (sort_by_prefer (tp_prefer p) (qualifying env config p opts))"
  let ?overlay = "ov_ordered (apply_performance_overlay rows (so_min_calls opts) (so_error_threshold opts) ?sorted)"
  let ?final = "if so_use_performance opts \<and> 1 < length ?sorted then ?overlay else ?sorted"
  have run: "get_model env rows config opts task = (if ?sorted = [] then Inl (NoModelQualifies task)
      else Inr (mi_litellm_id (hd ?final)))"
    using p by (simp add: get_model_def load_task_profile_def select_static_candidates_def qualifying_def Let_def)
  then have nonempty: "?sorted \<noteq> []" using assms by (metis Inr_not_Inl)
  then have i: "i = mi_litellm_id (hd ?final)" using assms run by simp
  have sorted: "sorted (map ?key ?sorted)" by (rule sorted_sort_by_prefer)
  have members: "set ?sorted = set (qualifying env config p opts)" by simp
  have least: "?key (hd ?sorted) \<le> ?key m" if "m \<in> set ?sorted" for m using sorted that by (rule sorted_hd_least)
  have hd_in: "hd ?sorted \<in> set ?sorted" using nonempty by (rule hd_in_set)
  consider (plain) "\<not> so_use_performance opts" | (single) "so_use_performance opts" "\<not> 1 < length ?sorted"
    | (overlay) "so_use_performance opts" "1 < length ?sorted" by blast
  then have "hd ?final \<in> set ?sorted \<and> (\<forall>m' \<in> set ?sorted.
      (trusted rows opts m' \<longrightarrow> trusted rows opts (hd ?final)) \<and>
      ((trusted rows opts m' \<longleftrightarrow> trusted rows opts (hd ?final)) \<longrightarrow> ?key (hd ?final) \<le> ?key m'))"
  proof cases
    case plain
    then show ?thesis using least hd_in by (simp add: trusted_def)
  next
    case single
    then have final: "?final = ?sorted" by simp
    have "m' = hd ?sorted" if "m' \<in> set ?sorted" for m'
      using single(2) that by (cases ?sorted) auto
    then show ?thesis unfolding final using hd_in by (metis order_refl)
  next
    case overlay
    let ?P = "is_unreliable (performance_observations rows) (so_min_calls opts) (so_error_threshold opts)"
    have final: "?final = ?overlay" using overlay by simp
    have trust: "trusted rows opts m \<longleftrightarrow> \<not> ?P m" for m using overlay(1) by (simp add: trusted_def)
    show ?thesis unfolding final trust Not_eq_iff
      by (rule hd_overlay [OF sorted nonempty refl])
  qed
  with p i members show ?thesis by blast
qed

text \<open>Selection answers with a model of the registry that meets every requirement of the task. It is
  an unreliable one only when all that qualify are, and among those that share its reliability it is
  the first in the order of the task's preferences.\<close>

theorem get_model_best:
  assumes "get_model env rows config opts task = Inr i"
  shows "\<exists>p m. dict_get (rg_tasks config) task = Some p \<and> mi_litellm_id m = i \<and> m \<in> set (qualifying env config p opts)
    \<and> (\<forall>m' \<in> set (qualifying env config p opts).
        (trusted rows opts m' \<longrightarrow> trusted rows opts m) \<and>
        ((trusted rows opts m' \<longleftrightarrow> trusted rows opts m) \<longrightarrow>
          prefer_key (tp_prefer p) m \<le> prefer_key (tp_prefer p) m'))"
  using assms by (rule get_model_best_candidate)

definition demo_options :: selection_options where
  "demo_options = \<lparr>so_available_only = False, so_use_performance = True, so_min_calls = 10,
     so_error_threshold = 15 / 100\<rparr>"

theorem get_model_best_witness:
  "\<exists>p m. dict_get (rg_tasks DEFAULT_CONFIG) ''fast_intelligent'' = Some p
     \<and> mi_litellm_id m = ''openrouter/qwen/qwen3.7-max'' \<and> m \<in> set (qualifying (\<lambda>_. None) DEFAULT_CONFIG p demo_options)"
proof -
  have "get_model (\<lambda>_. None) (Some [(''openrouter/z-ai/glm-5.2'', \<lparr>ob_error_rate = 1 / 2, ob_call_count = 12\<rparr>)])
      DEFAULT_CONFIG demo_options ''fast_intelligent'' = Inr ''openrouter/qwen/qwen3.7-max''" by code_simp
  from get_model_best [OF this] show ?thesis by blast
qed

section \<open>The packaged registry agrees with the allowlist\<close>

definition candidates_of :: "task_profile \<Rightarrow> string list" where
  "candidates_of p = map mi_litellm_id (filter (\<lambda>m. model_qualifies_for_profile (\<lambda>_. None) m p False) (rg_models DEFAULT_CONFIG))"

lemma packaged_candidates:
  "list_all (\<lambda>(t, p). candidates_of p \<noteq> [] \<and> list_all (\<lambda>i. i \<in> set ALLOWED_EXECUTION_MODELS) (candidates_of p))
     (rg_tasks DEFAULT_CONFIG)"
  by code_simp

lemma qualifies_without_availability:
  "model_qualifies_for_profile env m p available_only \<Longrightarrow> model_qualifies_for_profile (\<lambda>_. None) m p False"
  by (auto simp: model_qualifies_for_profile_def Let_def split: if_splits)

lemma get_model_answers:
  assumes "dict_get (rg_tasks config) task = Some p" and "qualifying env config p opts \<noteq> []"
  shows "\<exists>i. get_model env rows config opts task = Inr i"
  using assms by (simp add: get_model_def load_task_profile_def select_static_candidates_def qualifying_def Let_def)

text \<open>Whatever the environment and the observed performance, a task of the packaged registry selects a
  model that the execution policy allows, that routing does not rewrite and that is not retired; and
  without the restriction to models with a key every such task has a model.\<close>

theorem packaged_tasks_executable:
  assumes "dict_has (rg_tasks DEFAULT_CONFIG) task"
  shows "(\<forall>i. get_model env rows DEFAULT_CONFIG opts task = Inr i \<longrightarrow>
      i \<in> set ALLOWED_EXECUTION_MODELS \<and> normalize_model_for_policy i policy = i
      \<and> check_model_deprecation env' i = Inr NoNotice)
    \<and> (so_available_only opts \<or> (\<exists>i. get_model env rows DEFAULT_CONFIG opts task = Inr i))"
proof -
  obtain p where p: "dict_get (rg_tasks DEFAULT_CONFIG) task = Some p" using assms by (auto simp: dict_has_def)
  then have "(task, p) \<in> set (rg_tasks DEFAULT_CONFIG)" by (rule map_of_SomeD)
  then have some: "candidates_of p \<noteq> []" and all: "list_all (\<lambda>i. i \<in> set ALLOWED_EXECUTION_MODELS) (candidates_of p)"
    using packaged_candidates by (auto simp: list_all_iff)
  have "i \<in> set ALLOWED_EXECUTION_MODELS" if "get_model env rows DEFAULT_CONFIG opts task = Inr i" for i
  proof -
    from get_model_best_candidate [OF that] p obtain m where "mi_litellm_id m = i"
      "m \<in> set (qualifying env DEFAULT_CONFIG p opts)" by auto
    with all show ?thesis
      unfolding qualifying_def list_all_iff candidates_of_def using qualifies_without_availability by auto
  qed
  moreover have "\<exists>i. get_model env rows DEFAULT_CONFIG opts task = Inr i" if "\<not> so_available_only opts"
  proof (rule get_model_answers [OF p])
    have same: "model_qualifies_for_profile env m p False = model_qualifies_for_profile (\<lambda>_. None) m p False" for m
      by (simp add: model_qualifies_for_profile_def)
    show "qualifying env DEFAULT_CONFIG p opts \<noteq> []"
      using some that unfolding qualifying_def candidates_of_def by (auto simp: same)
  qed
  ultimately show ?thesis using allowed_canonical(1) allowed_not_retired by blast
qed

theorem packaged_tasks_executable_witness:
  "\<exists>i. get_model (\<lambda>_. None) None DEFAULT_CONFIG demo_options ''judging'' = Inr i"
proof -
  have "dict_has (rg_tasks DEFAULT_CONFIG) ''judging''" by code_simp
  from packaged_tasks_executable [OF this, of "\<lambda>_. None" None demo_options] show ?thesis
    by (simp add: demo_options_def)
qed

text \<open>
  One registry model is on no allowlist and carries no tag of a task: it is listed, but no call can run it.
\<close>

lemma registry_only_model:
  "filter (\<lambda>m. mi_litellm_id m \<notin> set ALLOWED_EXECUTION_MODELS) (rg_models DEFAULT_CONFIG) \<noteq> []"
  "map mi_litellm_id (filter (\<lambda>m. mi_litellm_id m \<notin> set ALLOWED_EXECUTION_MODELS) (rg_models DEFAULT_CONFIG))
     = [''gpt-5.2-pro'']"
  by code_simp+

section \<open>Chains, strict policy and workload routes\<close>

lemma resolve_model_chain_fields:
  assumes "resolve_model_chain get task tasks override models strict = Inr c"
  shows "\<exists>ss. resolve_fallback_tasks get strict tasks = Inr ss \<and>
    mc_fallback_models c = dedup_by id [ms_model (mc_primary c)]
      (map ms_model ss @ filter (\<lambda>m. m \<noteq> []) (map py_strip models))"
  using assms by (auto simp: resolve_model_chain_def)

text \<open>A resolved chain names no model twice: the fallbacks differ from each other and from the primary
  one, and every other model asked for, by task or by name, is among them.\<close>

theorem resolved_chain_distinct:
  assumes "resolve_model_chain get task tasks override models strict = Inr c"
  shows "distinct (ms_model (mc_primary c) # mc_fallback_models c)
    \<and> (\<forall>m \<in> set models. py_strip m = [] \<or> py_strip m \<in> set (ms_model (mc_primary c) # mc_fallback_models c))"
proof -
  obtain ss :: "model_selection list" where f: "mc_fallback_models c = dedup_by id [ms_model (mc_primary c)]
      (map ms_model ss @ filter (\<lambda>m. m \<noteq> []) (map py_strip models))"
    using resolve_model_chain_fields [OF assms] by (elim exE conjE)
  have "distinct (map id (mc_fallback_models c))" unfolding f by (rule dedup_by_distinct)
  moreover have "id ` set (mc_fallback_models c) =
      id ` set (map ms_model ss @ filter (\<lambda>m. m \<noteq> []) (map py_strip models)) - set [ms_model (mc_primary c)]"
    unfolding f by (rule dedup_by_keys)
  ultimately show ?thesis by auto
qed

theorem resolved_chain_distinct_witness:
  "\<exists>c. resolve_model_chain (\<lambda>t. Inr (''m-'' @ t)) ''a'' [''b'', ''a''] None ['' m-b '', ''x''] True = Inr c \<and>
     distinct (ms_model (mc_primary c) # mc_fallback_models c)"
proof -
  let ?run = "resolve_model_chain (\<lambda>t. Inr (''m-'' @ t)) ''a'' [''b'', ''a''] None ['' m-b '', ''x''] True"
  have "\<not> isl ?run" by code_simp
  then obtain c where "?run = Inr c" by (cases ?run) simp_all
  with resolved_chain_distinct [OF this] show ?thesis by blast
qed

lemma strict_policy_restores:
  "strict_exit (fst (strict_enter enabled env)) (snd (strict_enter enabled env)) = env"
  by (auto simp: strict_exit_def strict_enter_def fun_eq_iff)

definition route_ok :: "workload_context \<Rightarrow> workload_route \<Rightarrow> bool" where
  "route_ok c r \<longleftrightarrow>
     wr_model r \<in> {''openrouter/openai/gpt-5.6-luna'', ''gpt-5.6'', ''codex/gpt-5.6-luna''}
     \<and> wr_effort r = ''medium'' \<and> py_strip (wr_justification r) \<noteq> []
     \<and> (wr_provider r = OpenrouterRoute \<longrightarrow> wc_requires_openrouter c \<or> wc_openrouter_best_value c \<or>
        wc_capacity c = CapacityExhausted \<and> wc_overflow c = Some OverflowOpenrouter)"

lemma workload_route_parts:
  assumes "resolve_workload_route c = Inr r"
  shows "route_ok c r"
proof -
  have strip: "py_strip (CHR ''C'' # s) \<noteq> []" "py_strip (CHR ''I'' # s) \<noteq> []" "py_strip (CHR ''A'' # s) \<noteq> []"
    "py_strip (CHR ''W'' # s) \<noteq> []" for s by (rule py_strip_Cons; simp add: py_isspace_def)+
  have route: "(\<forall>r. route_of p m why = Inr r \<longrightarrow> route_ok c r) \<longleftrightarrow>
      m \<in> {''openrouter/openai/gpt-5.6-luna'', ''gpt-5.6'', ''codex/gpt-5.6-luna''} \<and> py_strip why \<noteq> [] \<and>
      (p = OpenrouterRoute \<longrightarrow> wc_requires_openrouter c \<or> wc_openrouter_best_value c \<or>
        wc_capacity c = CapacityExhausted \<and> wc_overflow c = Some OverflowOpenrouter)" for p m why
    by (simp add: route_of_def route_ok_def)
  have "\<forall>r. resolve_workload_route c = Inr r \<longrightarrow> route_ok c r"
    unfolding resolve_workload_route_def
    by (simp add: route strip split: option.split paid_overflow_route.split)
  with assms show ?thesis by blast
qed

text \<open>Every workload route that is resolved is one the execution policy admits, with its own model,
  justification and effort; OpenRouter is chosen only when it is required, declared the best value or
  declared as the paid overflow.\<close>

theorem workload_route_admitted:
  assumes "resolve_workload_route c = Inr r"
  shows "(\<exists>d. evaluate_model_execution_policy [wr_model r] ''enforce_allowlist'' (Some (wr_justification r))
        (Some (wr_effort r)) = Inr d)
    \<and> (wr_provider r = OpenrouterRoute \<longrightarrow>
        wc_requires_openrouter c \<or> wc_openrouter_best_value c \<or>
        wc_capacity c = CapacityExhausted \<and> wc_overflow c = Some OverflowOpenrouter)"
proof -
  have "list_all (\<lambda>m. py_strip m \<in> set ALLOWED_EXECUTION_MODELS \<and> effort_fits [py_strip m] (Some ''medium''))
      [''openrouter/openai/gpt-5.6-luna'', ''gpt-5.6'', ''codex/gpt-5.6-luna'']" by code_simp
  moreover have parts: "route_ok c r" by (rule workload_route_parts [OF assms])
  ultimately have "py_strip (wr_model r) \<in> set ALLOWED_EXECUTION_MODELS" "effort_fits [py_strip (wr_model r)] (Some ''medium'')"
    by (auto simp: route_ok_def)
  with parts show ?thesis by (simp add: policy_admits route_ok_def)
qed

theorem workload_route_admitted_witness:
  "\<exists>d. evaluate_model_execution_policy [''codex/gpt-5.6-luna''] ''enforce_allowlist''
     (Some ''Compatible trusted workload has supported subscription auth and available capacity'') (Some ''medium'') = Inr d"
proof -
  let ?c = "\<lparr>wc_codex_compatible = True, wc_environment = Interactive, wc_subscription_auth = True,
     wc_capacity = CapacityAvailable, wc_requires_openai_contract = False, wc_requires_openrouter = False,
     wc_openrouter_best_value = False, wc_overflow = None\<rparr>"
  have "resolve_workload_route ?c = route_of CodexSubscription ''codex/gpt-5.6-luna''
      ''Compatible trusted workload has supported subscription auth and available capacity''"
    by (simp add: resolve_workload_route_def in_person_def)
  from workload_route_admitted [OF this [unfolded route_of_def]] show ?thesis by simp
qed

text \<open>
  A workload that requires the direct OpenAI contract is sent to OpenRouter when OpenRouter is declared
  the best value: the value is looked at before the requirement.
\<close>

lemma best_value_overrides_contract:
  assumes "wc_requires_openai_contract c" and "\<not> wc_requires_openrouter c" and "wc_openrouter_best_value c"
  shows "\<exists>r. resolve_workload_route c = Inr r \<and> wr_provider r = OpenrouterRoute"
  using assms by (simp add: resolve_workload_route_def route_of_def)

end
