(* ===== verification/Prompt_Contracts.thy ===== *)
theory Prompt_Contracts
  imports Py_Support "HOL-Library.Product_Lexorder"
begin

text \<open>
  Per-variable context budgets of prompt templates, \<open>llm_client/prompt_context_contract.py\<close>: loading a
  contract, the breaches of one render in order of severity, their enforcement and the tally of a run.

  A path is its text. Reading a file as YAML is an argument, which says that the file is missing, is
  malformed, or holds a value; \<open>str\<close> of foreign values is the argument \<open>other\<close>. The texts of the errors
  about a contract file are not kept, but each raise is a constructor with what it names.
\<close>

section \<open>Contracts\<close>

datatype yaml_file = YamlMissing | YamlMalformed | YamlValue py

datatype context_contract_error =
    MalformedContract string
  | NotAMapping string string
  | UnsupportedVersion string string
  | VariablesNotMapping string
  | SpecNotMapping py
  | NonBooleanUnbounded py
  | BothDeclared py
  | NeedsPositiveBudget py
  | AllowUndeclaredNotBool string
  | ContractViolated string

definition prompt_context_strict_mode :: "(string \<Rightarrow> string option) \<Rightarrow> bool" where
  "prompt_context_strict_mode env \<longleftrightarrow>
     py_lower (py_strip (case env ''LLM_CLIENT_PROMPT_CONTEXT_STRICT'' of Some v \<Rightarrow> v | None \<Rightarrow> []))
       \<in> set [''1'', ''true'', ''yes'', ''on'']"

definition CONTRACT_SUFFIX :: string where
  "CONTRACT_SUFFIX = ''.contract.yaml''"

definition SUPPORTED_SCHEMA_VERSIONS :: "string list" where
  "SUPPORTED_SCHEMA_VERSIONS = [''1.0'']"

record variable_budget =
  vb_name :: string
  vb_max_bytes :: "int option"

definition unbounded :: "variable_budget \<Rightarrow> bool" where
  "unbounded b \<longleftrightarrow> vb_max_bytes b = None"

record context_contract =
  xc_source :: string
  xc_variables :: "(string \<times> variable_budget) list"
  xc_allow_undeclared :: bool

definition contract_path_for :: "string \<Rightarrow> string" where
  "contract_path_for template_path = path_dir template_path @ path_stem template_path @ CONTRACT_SUFFIX"

text \<open>\<open>isinstance(v, int) and not isinstance(v, bool) and v > 0\<close>.\<close>

fun positive_int :: "py option \<Rightarrow> int option" where
  "positive_int (Some (PInt n)) = (if 0 < n then Some n else None)"
| "positive_int _ = None"

text \<open>\<open>d.get(k, False)\<close> when it is a boolean.\<close>

fun as_bool :: "py option \<Rightarrow> bool option" where
  "as_bool None = Some False"
| "as_bool (Some (PBool b)) = Some b"
| "as_bool _ = None"

text \<open>One entry of \<open>variables\<close>.\<close>

fun load_variable :: "(py \<Rightarrow> string) \<Rightarrow> py \<Rightarrow> py \<Rightarrow> context_contract_error + (string \<times> variable_budget)" where
  "load_variable other name (PDict spec) =
     (case as_bool (dict_get spec (PStr ''unbounded'')) of
        Some unb \<Rightarrow>
          (let max_bytes = dict_get spec (PStr ''max_bytes''); n = py_str other name in
           if unb \<and> max_bytes \<noteq> None \<and> max_bytes \<noteq> Some PNone then Inl (BothDeclared name)
           else if unb then Inr (n, \<lparr>vb_name = n, vb_max_bytes = None\<rparr>)
           else case positive_int max_bytes of
                  None \<Rightarrow> Inl (NeedsPositiveBudget name)
                | Some k \<Rightarrow> Inr (n, \<lparr>vb_name = n, vb_max_bytes = Some k\<rparr>))
      | None \<Rightarrow> Inl (NonBooleanUnbounded name))"
| "load_variable other name _ = Inl (SpecNotMapping name)"

fun load_variables ::
  "(py \<Rightarrow> string) \<Rightarrow> (py \<times> py) list \<Rightarrow> (string \<times> variable_budget) list
     \<Rightarrow> context_contract_error + (string \<times> variable_budget) list" where
  "load_variables other [] vars = Inr vars"
| "load_variables other ((name, spec) # rest) vars =
     (case load_variable other name spec of
        Inl e \<Rightarrow> Inl e
      | Inr (n, b) \<Rightarrow> load_variables other rest (dict_set n b vars))"

definition load_contract ::
  "(py \<Rightarrow> string) \<Rightarrow> (string \<Rightarrow> yaml_file) \<Rightarrow> string \<Rightarrow> context_contract_error + context_contract option" where
  "load_contract other read template_path =
     (let path = contract_path_for template_path in
      case read path of
        YamlMissing \<Rightarrow> Inr None
      | YamlMalformed \<Rightarrow> Inl (MalformedContract path)
      | YamlValue raw \<Rightarrow>
          (case raw of
             PDict d \<Rightarrow>
               (let version = strip_str other (dict_get d (PStr ''schema_version'')) in
                if version \<notin> set SUPPORTED_SCHEMA_VERSIONS then Inl (UnsupportedVersion version path)
                else case py_or (case dict_get d (PStr ''variables'') of Some v \<Rightarrow> v | None \<Rightarrow> PNone) (PDict []) of
                  PDict vars \<Rightarrow>
                    and_then (load_variables other vars []) (\<lambda>variables.
                      case as_bool (dict_get d (PStr ''allow_undeclared'')) of
                        Some allow \<Rightarrow> Inr (Some \<lparr>xc_source = path, xc_variables = variables, xc_allow_undeclared = allow\<rparr>)
                      | None \<Rightarrow> Inl (AllowUndeclaredNotBool path))
                | _ \<Rightarrow> Inl (VariablesNotMapping path))
           | _ \<Rightarrow> Inl (NotAMapping (py_type_name raw) path)))"

section \<open>Breaches\<close>

record context_breach =
  cb_variable :: string
  cb_observed_bytes :: int
  cb_budget_bytes :: "int option"
  cb_contract_name :: string

text \<open>The severity, where \<open>None\<close> is the infinity of an undeclared variable, and its place in an order.\<close>

definition severity :: "context_breach \<Rightarrow> rat option" where
  "severity b = (case cb_budget_bytes b of None \<Rightarrow> None | Some k \<Rightarrow> Some (of_int (cb_observed_bytes b) / of_int k))"

definition severity_key :: "context_breach \<Rightarrow> nat \<times> rat" where
  "severity_key b = (case severity b of None \<Rightarrow> (1, 0) | Some r \<Rightarrow> (0, r))"

definition breach_text :: "context_breach \<Rightarrow> string" where
  "breach_text b =
     (case cb_budget_bytes b of
        None \<Rightarrow> py_repr_str (cb_variable b) @ '' is not declared in '' @ cb_contract_name b @
          '' (allow_undeclared is false)''
      | Some k \<Rightarrow> py_repr_str (cb_variable b) @ '' is '' @ py_thousands (cb_observed_bytes b) @ '' bytes, over its '' @
          py_thousands k @ '' byte budget ('' @ py_fixed 1 (of_int (cb_observed_bytes b) / of_int k) @ ''x)'')"

definition measured_bytes :: "(py \<Rightarrow> string) \<Rightarrow> py \<Rightarrow> int" where
  "measured_bytes other v = int (utf8_len (py_str other v))"

text \<open>The breach of one context variable, if there is one.\<close>

definition variable_breach :: "(py \<Rightarrow> string) \<Rightarrow> context_contract \<Rightarrow> string \<times> py \<Rightarrow> context_breach option" where
  "variable_breach other C nv =
     (case nv of (name, v) \<Rightarrow>
       (case dict_get (xc_variables C) name of
          None \<Rightarrow>
            (if xc_allow_undeclared C then None
             else Some \<lparr>cb_variable = name, cb_observed_bytes = measured_bytes other v, cb_budget_bytes = None,
                        cb_contract_name = path_name (xc_source C)\<rparr>)
        | Some b \<Rightarrow>
            (case vb_max_bytes b of
               None \<Rightarrow> None
             | Some k \<Rightarrow>
                 (if k < measured_bytes other v
                  then Some \<lparr>cb_variable = name, cb_observed_bytes = measured_bytes other v, cb_budget_bytes = Some k,
                             cb_contract_name = path_name (xc_source C)\<rparr>
                  else None))))"

definition violation_records ::
  "(py \<Rightarrow> string) \<Rightarrow> context_contract \<Rightarrow> (string \<times> py) list \<Rightarrow> context_breach list" where
  "violation_records other C ctx = sort_desc severity_key (List.map_filter (variable_breach other C) ctx)"

section \<open>The tally of a run\<close>

record breach_tally =
  bt_renders :: counters
  bt_breaching :: counters
  bt_worst :: "((string \<times> string) \<times> context_breach) list"

definition reset_contract_breach_tally :: breach_tally where
  "reset_contract_breach_tally = \<lparr>bt_renders = [], bt_breaching = [], bt_worst = []\<rparr>"

definition note_worst :: "string \<Rightarrow> context_breach \<Rightarrow> ((string \<times> string) \<times> context_breach) list
    \<Rightarrow> ((string \<times> string) \<times> context_breach) list" where
  "note_worst template_name b worst =
     (let key = (template_name, cb_variable b) in
      case dict_get worst key of
        None \<Rightarrow> dict_set key b worst
      | Some seen \<Rightarrow> if cb_observed_bytes seen < cb_observed_bytes b then dict_set key b worst else worst)"

definition tally_record :: "string \<Rightarrow> context_breach list \<Rightarrow> breach_tally \<Rightarrow> breach_tally" where
  "tally_record template_name breaches T =
     (let T1 = T\<lparr>bt_renders := bump template_name 1 (bt_renders T)\<rparr> in
      if breaches = [] then T1
      else T1\<lparr>bt_breaching := bump template_name 1 (bt_breaching T),
              bt_worst := fold (note_worst template_name) breaches (bt_worst T)\<rparr>)"

record template_summary =
  tb_template_name :: string
  tb_renders :: int
  tb_breaching_renders :: int
  tb_worst :: "context_breach list"

definition summary_entry :: "breach_tally \<Rightarrow> string \<Rightarrow> int \<Rightarrow> template_summary" where
  "summary_entry T name n_renders =
     \<lparr>tb_template_name = name, tb_renders = tally (bt_renders T) name, tb_breaching_renders = n_renders,
      tb_worst = map snd (filter (\<lambda>((template, _), _). template = name) (sort_key fst (bt_worst T)))\<rparr>"

definition tally_summary :: "breach_tally \<Rightarrow> template_summary list" where
  "tally_summary T =
     map (\<lambda>(name, n_renders). summary_entry T name n_renders)
       (filter (\<lambda>(name, n_renders). n_renders \<noteq> 0) (sort_key fst (bt_breaching T)))"

definition summary_text :: "template_summary \<Rightarrow> string" where
  "summary_text S =
     tb_template_name S @ '': '' @ py_int_str (tb_breaching_renders S) @ '' of '' @ py_int_str (tb_renders S) @
     '' renders over budget. Worst seen - '' @ py_join ''; '' (map breach_text (tb_worst S))"

definition format_contract_breach_summary :: "breach_tally \<Rightarrow> string option" where
  "format_contract_breach_summary T =
     (if tally_summary T = [] then None
      else Some (py_join [CHR 0x0A] (''prompt context contract breaches:'' #
             map (\<lambda>S. ''  '' @ summary_text S) (tally_summary T))))"

section \<open>Enforcement\<close>

definition violation_message :: "string \<Rightarrow> string list \<Rightarrow> string" where
  "violation_message template_path breaches =
     ''Prompt context contract violated for '' @ path_name template_path @ '': '' @ py_join ''; '' breaches @
     ''. These are locally declared budgets in '' @ path_stem template_path @ CONTRACT_SUFFIX @
     '', not provider limits. Budget only context that should NOT grow with the '' @
     ''input; if an over-budget variable carries the source material itself, '' @
     ''the budget is wrong, not the input.''"

definition enforce_contract ::
  "(py \<Rightarrow> string) \<Rightarrow> (string \<Rightarrow> yaml_file) \<Rightarrow> string \<Rightarrow> (string \<times> py) list \<Rightarrow> bool \<Rightarrow> breach_tally
     \<Rightarrow> (context_contract_error + string list) \<times> breach_tally" where
  "enforce_contract other read template_path ctx strict T =
     (case load_contract other read template_path of
        Inl e \<Rightarrow> (Inl e, T)
      | Inr None \<Rightarrow> (Inr [], T)
      | Inr (Some C) \<Rightarrow>
          (let records = violation_records other C ctx;
               T' = tally_record (path_name template_path) records T
           in if records = [] then (Inr [], T')
              else if strict then (Inl (ContractViolated (violation_message template_path (map breach_text records))), T')
              else (Inr (map breach_text records), T')))"

section \<open>What enforcement does\<close>

text \<open>The abstract check: a variable is over its contract.\<close>

definition exceeds :: "(py \<Rightarrow> string) \<Rightarrow> context_contract \<Rightarrow> string \<times> py \<Rightarrow> bool" where
  "exceeds other C nv \<longleftrightarrow>
     (case dict_get (xc_variables C) (fst nv) of
        None \<Rightarrow> \<not> xc_allow_undeclared C
      | Some b \<Rightarrow> (case vb_max_bytes b of None \<Rightarrow> False | Some k \<Rightarrow> k < measured_bytes other (snd nv)))"

lemma variable_breach_iff: "variable_breach other C nv \<noteq> None \<longleftrightarrow> exceeds other C nv"
  by (cases nv) (simp add: variable_breach_def exceeds_def split: option.splits)

lemma variable_breach_fields:
  "variable_breach other C nv = Some b \<Longrightarrow> cb_variable b = fst nv \<and> cb_observed_bytes b = measured_bytes other (snd nv)"
  by (cases nv) (auto simp: variable_breach_def split: option.splits if_splits)

lemma breach_variables:
  "map cb_variable (List.map_filter (variable_breach other C) ctx) = map fst (filter (exceeds other C) ctx)"
proof (induction ctx)
  case (Cons nv ctx)
  show ?case
    using Cons variable_breach_iff [of other C nv]
    by (cases "variable_breach other C nv") (auto simp: dest: variable_breach_fields)
qed simp

lemma records_Nil_iff: "violation_records other C ctx = [] \<longleftrightarrow> list_all (\<lambda>nv. \<not> exceeds other C nv) ctx"
proof -
  have "List.map_filter (variable_breach other C) ctx = [] \<longleftrightarrow> filter (exceeds other C) ctx = []"
    using breach_variables [of other C ctx] by (metis map_is_Nil_conv)
  then show ?thesis by (simp add: violation_records_def filter_empty_conv list_all_iff)
qed

text \<open>
  Enforcement of a contract reports every variable that is over it and no other, undeclared ones first
  and then by how far they are over budget; in strict mode the same reports refuse the render.
\<close>

theorem enforcement_exact:
  assumes "load_contract other read template_path = Inr (Some C)"
  shows "cb_variable ` set (violation_records other C ctx) = fst ` set (filter (exceeds other C) ctx)
    \<and> length (violation_records other C ctx) = length (filter (exceeds other C) ctx)
    \<and> sorted (rev (map severity_key (violation_records other C ctx)))
    \<and> fst (enforce_contract other read template_path ctx strict T) =
        (let texts = map breach_text (violation_records other C ctx) in
         if strict \<and> list_ex (exceeds other C) ctx
         then Inl (ContractViolated (violation_message template_path texts)) else Inr texts)"
proof (intro conjI)
  let ?bs = "List.map_filter (variable_breach other C) ctx"
  have "cb_variable ` set ?bs = set (map cb_variable ?bs)" by simp
  then show "cb_variable ` set (violation_records other C ctx) = fst ` set (filter (exceeds other C) ctx)"
    unfolding breach_variables by (simp add: violation_records_def)
  show "length (violation_records other C ctx) = length (filter (exceeds other C) ctx)"
    using arg_cong [OF breach_variables [of other C ctx], of length] by (simp add: violation_records_def)
  show "sorted (rev (map severity_key (violation_records other C ctx)))"
    unfolding violation_records_def by (rule sorted_sort_desc)
  have "list_ex (exceeds other C) ctx \<longleftrightarrow> violation_records other C ctx \<noteq> []"
    by (auto simp: records_Nil_iff list_ex_iff list_all_iff)
  then show "fst (enforce_contract other read template_path ctx strict T) =
        (let texts = map breach_text (violation_records other C ctx) in
         if strict \<and> list_ex (exceeds other C) ctx
         then Inl (ContractViolated (violation_message template_path texts)) else Inr texts)"
    using assms by (simp add: enforce_contract_def Let_def)
qed

section \<open>What loading accepts\<close>

definition budget_of_spec :: "py \<Rightarrow> int option \<Rightarrow> bool" where
  "budget_of_spec spec budget \<longleftrightarrow>
     (\<exists>d. spec = PDict d \<and>
        (case budget of
           None \<Rightarrow> dict_get d (PStr ''unbounded'') = Some (PBool True) \<and>
                   (dict_get d (PStr ''max_bytes'') = None \<or> dict_get d (PStr ''max_bytes'') = Some PNone)
         | Some k \<Rightarrow> 0 < k \<and> dict_get d (PStr ''max_bytes'') = Some (PInt k) \<and>
                   dict_get d (PStr ''unbounded'') \<noteq> Some (PBool True)))"

lemma positive_int_Some: "positive_int v = Some k \<longleftrightarrow> v = Some (PInt k) \<and> 0 < k"
  by (cases v rule: positive_int.cases) auto

lemma as_bool_Some: "as_bool v = Some b \<longleftrightarrow> v = Some (PBool b) \<or> (v = None \<and> \<not> b)"
  by (cases v rule: as_bool.cases) auto

lemma load_variable_Inr:
  assumes "load_variable other name spec = Inr (n, b)"
  shows "n = py_str other name \<and> vb_name b = n \<and> budget_of_spec spec (vb_max_bytes b)"
  using assms
  by (cases spec)
    (auto simp: budget_of_spec_def positive_int_Some as_bool_Some Let_def split: option.splits if_splits)

lemma load_variables_Inr:
  assumes "load_variables other entries vars = Inr vars'" and "dict_get vars' n = Some b"
  shows "dict_get vars n = Some b \<or>
    (\<exists>(name, spec) \<in> set entries. n = py_str other name \<and> vb_name b = n \<and> budget_of_spec spec (vb_max_bytes b))"
  using assms
proof (induction entries arbitrary: vars)
  case (Cons e entries)
  obtain name spec where e: "e = (name, spec)" by (cases e)
  from Cons.prems(1) e obtain n' b' where l: "load_variable other name spec = Inr (n', b')"
    and rest: "load_variables other entries (dict_set n' b' vars) = Inr vars'"
    by (auto split: sum.splits)
  from Cons.IH [OF rest Cons.prems(2)] load_variable_Inr [OF l] e show ?case
    by (auto simp: py_simps split: if_splits)
qed simp

text \<open>
  A contract file is never ignored: only a missing file means no contract, and a contract that loads
  has for each variable either a positive budget or the declaration that it is unbounded, as the file
  says, never both and never neither.
\<close>

theorem contract_never_ignored:
  "(load_contract other read p = Inr None \<longleftrightarrow> read (contract_path_for p) = YamlMissing)
    \<and> (\<forall>C n b. load_contract other read p = Inr (Some C) \<longrightarrow> dict_get (xc_variables C) n = Some b \<longrightarrow>
        (\<exists>d vars name spec. read (contract_path_for p) = YamlValue (PDict d) \<and>
           dict_get d (PStr ''variables'') = Some (PDict vars) \<and> (name, spec) \<in> set vars \<and>
           n = py_str other name \<and> budget_of_spec spec (vb_max_bytes b)))"
proof (intro conjI allI impI)
  show "load_contract other read p = Inr None \<longleftrightarrow> read (contract_path_for p) = YamlMissing"
    by (auto simp: load_contract_def Let_def split: yaml_file.splits py.splits option.split_asm)
next
  fix C n b
  assume load: "load_contract other read p = Inr (Some C)" and b: "dict_get (xc_variables C) n = Some b"
  from load obtain d vars where d: "read (contract_path_for p) = YamlValue (PDict d)"
    and vars: "py_or (case dict_get d (PStr ''variables'') of Some v \<Rightarrow> v | None \<Rightarrow> PNone) (PDict []) = PDict vars"
    and run: "load_variables other vars [] = Inr (xc_variables C)"
    by (auto simp: load_contract_def Let_def split: yaml_file.splits py.splits if_splits option.splits)
  from load_variables_Inr [OF run b] obtain name spec where entry: "(name, spec) \<in> set vars"
    "n = py_str other name" "budget_of_spec spec (vb_max_bytes b)" by auto
  then have "vars \<noteq> []" by auto
  then have "dict_get d (PStr ''variables'') = Some (PDict vars)"
    using vars by (auto simp: py_or_def split: option.splits if_splits)
  with d entry show "\<exists>d vars name spec. read (contract_path_for p) = YamlValue (PDict d) \<and>
           dict_get d (PStr ''variables'') = Some (PDict vars) \<and> (name, spec) \<in> set vars \<and>
           n = py_str other name \<and> budget_of_spec spec (vb_max_bytes b)" by blast
qed

definition demo_contract_file :: "string \<Rightarrow> yaml_file" where
  "demo_contract_file p =
     (if p = ''prompts/foo.contract.yaml''
      then YamlValue (PDict [(PStr ''schema_version'', PStr ''1.0''),
             (PStr ''variables'', PDict [(PStr ''a'', PDict [(PStr ''max_bytes'', PInt 2)]),
                (PStr ''b'', PDict [(PStr ''max_bytes'', PInt 4)]),
                (PStr ''c'', PDict [(PStr ''unbounded'', PBool True)])])])
      else YamlMissing)"

definition demo_contract :: context_contract where
  "demo_contract = \<lparr>xc_source = ''prompts/foo.contract.yaml'',
     xc_variables = [(''a'', \<lparr>vb_name = ''a'', vb_max_bytes = Some 2\<rparr>),
       (''b'', \<lparr>vb_name = ''b'', vb_max_bytes = Some 4\<rparr>), (''c'', \<lparr>vb_name = ''c'', vb_max_bytes = None\<rparr>)],
     xc_allow_undeclared = False\<rparr>"

lemma demo_loads: "load_contract (\<lambda>_. []) demo_contract_file ''prompts/foo.yaml'' = Inr (Some demo_contract)"
  by code_simp

theorem enforcement_exact_witness:
  "\<exists>m. fst (enforce_contract (\<lambda>_. []) demo_contract_file ''prompts/foo.yaml''
      [(''a'', PStr ''1234''), (''c'', PStr ''12345678''), (''d'', PNone)] True reset_contract_breach_tally)
    = Inl (ContractViolated m)"
proof -
  let ?ctx = "[(''a'', PStr ''1234''), (''c'', PStr ''12345678''), (''d'', PNone)]"
  have "list_ex (exceeds (\<lambda>_. []) demo_contract) ?ctx" by code_simp
  then show ?thesis
    using enforcement_exact [OF demo_loads, of ?ctx True reset_contract_breach_tally] by (simp add: Let_def)
qed

theorem contract_never_ignored_witness:
  "\<exists>d vars name spec. demo_contract_file ''prompts/foo.contract.yaml'' = YamlValue (PDict d) \<and>
     dict_get d (PStr ''variables'') = Some (PDict vars) \<and> (name, spec) \<in> set vars \<and>
     budget_of_spec spec (Some 4)"
proof -
  have "dict_get (xc_variables demo_contract) ''b'' = Some \<lparr>vb_name = ''b'', vb_max_bytes = Some 4\<rparr>"
    and path: "contract_path_for ''prompts/foo.yaml'' = ''prompts/foo.contract.yaml''" by code_simp+
  with contract_never_ignored [of "\<lambda>_. []" demo_contract_file "''prompts/foo.yaml''"] demo_loads
  show ?thesis by (metis (no_types) variable_budget.select_convs(2))
qed

section \<open>What the tally says\<close>

text \<open>The first of the largest breaches of a list.\<close>

definition larger :: "context_breach \<Rightarrow> context_breach option \<Rightarrow> context_breach option" where
  "larger b acc = (case acc of None \<Rightarrow> Some b
     | Some seen \<Rightarrow> if cb_observed_bytes seen < cb_observed_bytes b then Some b else Some seen)"

definition largest :: "context_breach list \<Rightarrow> context_breach option" where
  "largest bs = fold larger bs None"

lemma fold_larger:
  "fold larger bs (Some s) = Some b \<Longrightarrow> b \<in> insert s (set bs) \<and>
     (\<forall>x \<in> insert s (set bs). cb_observed_bytes x \<le> cb_observed_bytes b)"
proof (induction bs arbitrary: s)
  case (Cons a bs)
  let ?s = "if cb_observed_bytes s < cb_observed_bytes a then a else s"
  have "larger a (Some s) = Some ?s" by (simp add: larger_def)
  then have "fold larger bs (Some ?s) = Some b" using Cons.prems by (simp only: fold_simps)
  from Cons.IH [OF this] show ?case by (auto split: if_splits)
qed simp

lemma largest_Some:
  assumes "largest bs = Some b"
  shows "b \<in> set bs \<and> (\<forall>x \<in> set bs. cb_observed_bytes x \<le> cb_observed_bytes b)"
proof (cases bs)
  case Nil
  then show ?thesis using assms by (simp add: largest_def)
next
  case (Cons a as)
  then show ?thesis using assms fold_larger [of as a b] by (simp add: largest_def larger_def)
qed

lemma largest_None: "largest bs = None \<longleftrightarrow> bs = []"
proof -
  have some: "fold larger as (Some s) \<noteq> None" for as s
    by (induction as arbitrary: s) (auto simp: larger_def)
  show ?thesis by (cases bs) (simp_all add: largest_def larger_def some)
qed

lemma note_worst_get:
  "dict_get (note_worst t b W) (t', v) =
     (if t' = t \<and> v = cb_variable b then larger b (dict_get W (t', v)) else dict_get W (t', v))"
  by (auto simp: note_worst_def larger_def Let_def py_simps split: option.splits)

lemma fold_note_worst_get:
  "dict_get (fold (note_worst t) bs W) (t', v) =
     (if t' = t then fold larger (filter (\<lambda>b. cb_variable b = v) bs) (dict_get W (t', v)) else dict_get W (t', v))"
  by (induction bs arbitrary: W) (auto simp: note_worst_get)

lemma distinct_note_worst: "distinct (map fst W) \<Longrightarrow> distinct (map fst (note_worst t b W))"
  by (auto simp: note_worst_def Let_def distinct_update split: option.splits)

lemma distinct_fold_note_worst: "distinct (map fst W) \<Longrightarrow> distinct (map fst (fold (note_worst t) bs W))"
  by (induction bs arbitrary: W) (auto simp: distinct_note_worst)

text \<open>The renders of a run, each with its template and its breaches.\<close>

definition tally_run :: "(string \<times> context_breach list) list \<Rightarrow> breach_tally" where
  "tally_run H = fold (\<lambda>(t, bs). tally_record t bs) H reset_contract_breach_tally"

definition run_breaches :: "(string \<times> context_breach list) list \<Rightarrow> string \<Rightarrow> string \<Rightarrow> context_breach list" where
  "run_breaches H t v = filter (\<lambda>b. cb_variable b = v) (concat (map snd (filter (\<lambda>h. fst h = t) H)))"

lemma tally_run_snoc: "tally_run (H @ [(t, bs)]) = tally_record t bs (tally_run H)"
  by (simp add: tally_run_def)

lemma tally_run_facts:
  "tally (bt_renders (tally_run H)) t = int (length (filter (\<lambda>h. fst h = t) H))"
  "tally (bt_breaching (tally_run H)) t = int (length (filter (\<lambda>h. fst h = t \<and> snd h \<noteq> []) H))"
  "dict_get (bt_worst (tally_run H)) (t, v) = largest (run_breaches H t v)"
  "distinct (map fst (bt_breaching (tally_run H)))"
  "distinct (map fst (bt_worst (tally_run H)))"
proof (induction H rule: rev_induct)
  case Nil
  {
    case 1 show ?case by (simp add: tally_run_def reset_contract_breach_tally_def)
    case 2 show ?case by (simp add: tally_run_def reset_contract_breach_tally_def)
    case 3 show ?case by (simp add: tally_run_def reset_contract_breach_tally_def largest_def run_breaches_def)
    case 4 show ?case by (simp add: tally_run_def reset_contract_breach_tally_def)
    case 5 show ?case by (simp add: tally_run_def reset_contract_breach_tally_def)
  }
next
  case (snoc h H)
  obtain t' bs where h: "h = (t', bs)" by (cases h)
  note snoc_simps = tally_run_snoc tally_record_def Let_def h
  {
    case 1 show ?case using snoc.IH(1) by (simp add: snoc_simps)
    case 2 show ?case using snoc.IH(2) by (simp add: snoc_simps)
    case 3
    show ?case
      using snoc.IH(3)
      by (auto simp: snoc_simps run_breaches_def largest_def fold_note_worst_get)
    case 4 show ?case using snoc.IH(4) by (simp add: snoc_simps distinct_bump)
    case 5 show ?case using snoc.IH(5) by (simp add: snoc_simps distinct_fold_note_worst)
  }
qed

lemma bump_keys: "set (map fst (bump k n d)) = insert k (set (map fst d))"
  by (simp add: bump_def dom_update)

lemma bump_pos: "list_all (\<lambda>kn. 0 < snd kn) d \<Longrightarrow> 0 < n \<Longrightarrow> list_all (\<lambda>kn. 0 < snd kn) (bump k n d)"
  by (induction d) (auto simp: bump_def)

lemma breaching_keys:
  "set (map fst (bt_breaching (tally_run H))) = fst ` set (filter (\<lambda>h. snd h \<noteq> []) H)
    \<and> list_all (\<lambda>kn. 0 < snd kn) (bt_breaching (tally_run H))"
proof (induction H rule: rev_induct)
  case Nil
  then show ?case by (simp add: tally_run_def reset_contract_breach_tally_def)
next
  case (snoc h H)
  then show ?case
    by (cases h) (simp add: tally_run_snoc tally_record_def Let_def bump_keys bump_pos del: set_map)
qed

lemma in_worst:
  fixes W :: "((string \<times> string) \<times> context_breach) list"
  shows "b \<in> set (map snd (filter (\<lambda>((template, _), _). template = name) (sort_key fst W))) \<longleftrightarrow>
     (\<exists>v. ((name, v), b) \<in> set W)"
proof
  assume "\<exists>v. ((name, v), b) \<in> set W"
  then obtain v where "((name, v), b) \<in> set W" ..
  then have "((name, v), b) \<in> set (filter (\<lambda>((template, _), _). template = name) (sort_key fst W))" by simp
  then show "b \<in> set (map snd (filter (\<lambda>((template, _), _). template = name) (sort_key fst W)))"
    unfolding list.set_map by (rule image_eqI [rotated]) simp
qed auto

lemma sorted_names:
  fixes d :: "(string \<times> 'a) list"
  assumes "distinct (map fst d)"
  shows "map fst (sort_key fst d) = sorted_list_of_set (set (map fst d))"
proof (rule sorted_distinct_set_unique)
  have "inj_on fst (set d)" "distinct d" using assms by (simp_all add: distinct_map)
  then show "distinct (map fst (sort_key fst d))" by (simp add: distinct_map)
qed simp_all

lemma summary_names:
  "map tb_template_name (tally_summary (tally_run H)) = map fst (sort_key fst (bt_breaching (tally_run H)))"
proof -
  have "list_all (\<lambda>kn. 0 < snd kn) (sort_key fst (bt_breaching (tally_run H)))"
    using breaching_keys [of H] by (simp add: list_all_iff)
  then have "filter (\<lambda>(name, n_renders). n_renders \<noteq> 0) (sort_key fst (bt_breaching (tally_run H)))
      = sort_key fst (bt_breaching (tally_run H))"
    by (intro filter_True) (auto simp: list_all_iff)
  then show ?thesis by (simp add: tally_summary_def summary_entry_def comp_def case_prod_unfold)
qed

text \<open>
  The summary at the end of a run says what happened: it lists, in order, each template that breached,
  with the number of its renders and of its breaching renders, and for each of its variables that
  breached the largest breach.
\<close>

theorem tally_summary_exact:
  fixes H :: "(string \<times> context_breach list) list"
  shows "map tb_template_name (tally_summary (tally_run H)) = sorted_list_of_set (fst ` set (filter (\<lambda>h. snd h \<noteq> []) H))
    \<and> (\<forall>S \<in> set (tally_summary (tally_run H)).
        tb_renders S = int (length (filter (\<lambda>h. fst h = tb_template_name S) H))
        \<and> tb_breaching_renders S = int (length (filter (\<lambda>h. fst h = tb_template_name S \<and> snd h \<noteq> []) H))
        \<and> (\<forall>b. b \<in> set (tb_worst S) \<longleftrightarrow> largest (run_breaches H (tb_template_name S) (cb_variable b)) = Some b))"
proof (intro conjI ballI)
  let ?B = "bt_breaching (tally_run H)" and ?W = "bt_worst (tally_run H)"
  have dist: "distinct (map fst ?B)" by (rule tally_run_facts)
  have "map fst (sort_key fst ?B) = sorted_list_of_set (set (map fst ?B))"
    using dist by (intro sorted_names) simp
  then show "map tb_template_name (tally_summary (tally_run H)) =
      sorted_list_of_set (fst ` set (filter (\<lambda>h. snd h \<noteq> []) H))"
    unfolding summary_names using breaching_keys [of H] by simp
next
  let ?B = "bt_breaching (tally_run H)" and ?W = "bt_worst (tally_run H)"
  fix S assume "S \<in> set (tally_summary (tally_run H))"
  then obtain name n_renders where mem: "(name, n_renders) \<in> set ?B" and S: "tb_template_name S = name"
    "tb_renders S = tally (bt_renders (tally_run H)) name" "tb_breaching_renders S = n_renders"
    "tb_worst S = map snd (filter (\<lambda>((template, _), _). template = name) (sort_key fst ?W))"
    by (auto simp: tally_summary_def summary_entry_def)
  show "tb_renders S = int (length (filter (\<lambda>h. fst h = tb_template_name S) H))"
    by (simp add: S tally_run_facts)
  have "tally ?B name = n_renders"
    using mem tally_run_facts(4) [of H] by (simp add: tally_def)
  then show "tb_breaching_renders S = int (length (filter (\<lambda>h. fst h = tb_template_name S \<and> snd h \<noteq> []) H))"
    by (simp add: S tally_run_facts)
  show "\<forall>b. b \<in> set (tb_worst S) \<longleftrightarrow> largest (run_breaches H (tb_template_name S) (cb_variable b)) = Some b"
  proof
    fix b
    have "b \<in> set (tb_worst S) \<longleftrightarrow> (\<exists>v. ((name, v), b) \<in> set ?W)"
      unfolding S by (rule in_worst)
    also have "\<dots> \<longleftrightarrow> (\<exists>v. largest (run_breaches H name v) = Some b)"
      by (simp only: map_of_eq_Some_iff [OF tally_run_facts(5), symmetric] tally_run_facts(3))
    also have "\<dots> \<longleftrightarrow> largest (run_breaches H name (cb_variable b)) = Some b"
    proof
      assume "\<exists>v. largest (run_breaches H name v) = Some b"
      then obtain v where v: "largest (run_breaches H name v) = Some b" ..
      with largest_Some [OF v] have "cb_variable b = v" by (simp add: run_breaches_def)
      with v show "largest (run_breaches H name (cb_variable b)) = Some b" by simp
    qed blast
    finally show "b \<in> set (tb_worst S) \<longleftrightarrow> largest (run_breaches H (tb_template_name S) (cb_variable b)) = Some b"
      by (simp add: S)
  qed
qed

theorem tally_summary_exact_witness:
  "\<exists>S \<in> set (tally_summary (tally_run [(''t'', []), (''t'',
      [\<lparr>cb_variable = ''a'', cb_observed_bytes = 9, cb_budget_bytes = Some 3, cb_contract_name = ''c''\<rparr>])])).
     tb_renders S = 2 \<and> tb_breaching_renders S = 1"
proof -
  let ?H = "[(''t'', []), (''t'',
      [\<lparr>cb_variable = ''a'', cb_observed_bytes = 9, cb_budget_bytes = Some 3, cb_contract_name = ''c''\<rparr>])]"
  note exact = tally_summary_exact [of ?H]
  have "map tb_template_name (tally_summary (tally_run ?H)) = [''t'']" using exact by simp
  then obtain S where S: "tally_summary (tally_run ?H) = [S]" "tb_template_name S = ''t''" by auto
  with exact have "tb_renders S = 2 \<and> tb_breaching_renders S = 1" by simp
  with S show ?thesis by simp
qed

end
