(* ===== verification/Prompt_Inspection.thy ===== *)
theory Prompt_Inspection
  imports Py_Support
begin

text \<open>
  Repeated content inside one assembled prompt, \<open>llm_client/prompt_inspection.py\<close>: the walk over the values
  of a prompt, the grouping of equal content, the suppression of what a larger duplication explains, the
  recovery of JSON values from a rendered prompt, and the attribution of its size to variables.

  The context of a prompt is a dictionary from variable names to values. \<open>json.loads\<close> (\<open>loads\<close>, \<open>None\<close> when
  it raises), the canonical \<open>json.dumps\<close> (\<open>canonical\<close>), \<open>raw_decode\<close>, the digest \<open>sha\<close> and the text of
  containers (\<open>other\<close>) are arguments.
\<close>

section \<open>Walking a value\<close>

record duplicated =
  dc_size_bytes :: int
  dc_paths :: "string list"

definition wasted_bytes :: "duplicated \<Rightarrow> int" where
  "wasted_bytes d = dc_size_bytes d * (int (length (dc_paths d)) - 1)"

definition duplicate_text :: "duplicated \<Rightarrow> string" where
  "duplicate_text d =
     py_thousands (dc_size_bytes d) @ '' bytes appear '' @ py_int_str (int (length (dc_paths d))) @ '' times ('' @
     py_thousands (wasted_bytes d) @ '' wasted): '' @ py_join '' == '' (dc_paths d)"

text \<open>\<open>str(key).replace("~", "~0").replace("/", "~1")\<close>.\<close>

definition escape_key :: "string \<Rightarrow> string" where
  "escape_key k =
     concat (map (\<lambda>c. if c = CHR ''~'' then ''~0'' else if c = CHR ''/'' then ''~1'' else [c]) k)"

lemma size_child_list: "(i, child) \<in> set (enumerate n xs) \<Longrightarrow> size child < size (PList xs)"
  using size_list_estimation' [of child xs "size child" size]
  by (auto simp: less_Suc_eq_le enumerate_eq_zip dest: set_zip_rightD)

lemma size_child_dict: "(k, child) \<in> set d \<Longrightarrow> size child < size (PDict d)"
  by (induction d) auto

function walk_value :: "(py \<Rightarrow> string) \<Rightarrow> py \<Rightarrow> string \<Rightarrow> (string \<times> py) list" where
  "walk_value other v path = (path, v) #
     (case v of
        PDict d \<Rightarrow> concat (map (\<lambda>(k, child). walk_value other child (path @ ''/'' @ escape_key (py_str other k))) d)
      | PList xs \<Rightarrow> concat (map (\<lambda>(i, child). walk_value other child (path @ ''/'' @ nat_digits i)) (enumerate 0 xs))
      | _ \<Rightarrow> [])"
  by pat_completeness auto

termination
proof (relation "measure (\<lambda>(_, v, _). size v)", goal_cases)
  case (2 other v path xs x i child)
  then show ?case using size_child_list [of i child 0 xs] by simp
next
  case (3 other v path d x k child)
  then show ?case using size_child_dict [of k child d] by simp
qed simp

declare walk_value.simps [simp del]

definition is_nested_within :: "string \<Rightarrow> string \<Rightarrow> bool" where
  "is_nested_within inner outer \<longleftrightarrow> inner \<noteq> outer \<and> prefix (outer @ ''/'') inner"

section \<open>Repeated content\<close>

definition DEFAULT_MIN_DUPLICATE_BYTES :: int where
  "DEFAULT_MIN_DUPLICATE_BYTES = 10000"

text \<open>The places of one variable with the text that stands for their content.\<close>

definition variable_places ::
  "(py \<Rightarrow> string) \<Rightarrow> (string \<Rightarrow> py option) \<Rightarrow> (py \<Rightarrow> string) \<Rightarrow> string \<times> py \<Rightarrow> (string \<times> string) list" where
  "variable_places other loads canonical nv =
     (case nv of (name, raw) \<Rightarrow>
       (case (case raw of PStr s \<Rightarrow> loads s | _ \<Rightarrow> Some raw) of
          None \<Rightarrow> [(name, py_str other raw)]
        | Some parsed \<Rightarrow> map (\<lambda>(path, node). (path, canonical node)) (walk_value other parsed name)))"

definition content_places ::
  "(py \<Rightarrow> string) \<Rightarrow> (string \<Rightarrow> py option) \<Rightarrow> (py \<Rightarrow> string) \<Rightarrow> int \<Rightarrow> (string \<times> py) list \<Rightarrow> (string \<times> string) list" where
  "content_places other loads canonical min_bytes ctx =
     filter (\<lambda>(_, t). min_bytes \<le> int (utf8_len t)) (concat (map (variable_places other loads canonical) ctx))"

text \<open>\<open>by_digest.setdefault(digest, []).append(path)\<close> with \<open>sizes[digest] = size\<close>.\<close>

definition note_place :: "(string \<Rightarrow> string) \<Rightarrow> string \<times> string
    \<Rightarrow> (string \<times> duplicated) list \<Rightarrow> (string \<times> duplicated) list" where
  "note_place sha pt groups =
     (case pt of (path, t) \<Rightarrow>
       (let digest = sha t;
            paths = (case dict_get groups digest of Some d \<Rightarrow> dc_paths d | None \<Rightarrow> [])
        in dict_set digest \<lparr>dc_size_bytes = int (utf8_len t), dc_paths = paths @ [path]\<rparr> groups))"

definition explained_by :: "duplicated \<Rightarrow> duplicated \<Rightarrow> bool" where
  "explained_by finding bigger \<longleftrightarrow>
     list_all (\<lambda>path. list_ex (\<lambda>outer. is_nested_within path outer) (dc_paths bigger)) (dc_paths finding)"

definition keep_outermost :: "duplicated \<Rightarrow> duplicated list \<Rightarrow> duplicated list" where
  "keep_outermost finding kept = (if list_ex (explained_by finding) kept then kept else kept @ [finding])"

definition duplicate_findings :: "(string \<Rightarrow> string) \<Rightarrow> (string \<times> string) list \<Rightarrow> duplicated list" where
  "duplicate_findings sha places =
     sort_desc wasted_bytes
       (filter (\<lambda>d. 1 < length (dc_paths d)) (map snd (fold (note_place sha) places [])))"

definition find_duplicated_content ::
  "(py \<Rightarrow> string) \<Rightarrow> (string \<Rightarrow> py option) \<Rightarrow> (py \<Rightarrow> string) \<Rightarrow> (string \<Rightarrow> string) \<Rightarrow> (string \<times> py) list \<Rightarrow> int
     \<Rightarrow> duplicated list" where
  "find_duplicated_content other loads canonical sha ctx min_bytes =
     fold keep_outermost (duplicate_findings sha (content_places other loads canonical min_bytes ctx)) []"

section \<open>Recovering JSON from a rendered prompt\<close>

text \<open>
  The scan for JSON values; \<open>decode text i\<close> is \<open>raw_decode\<close> at \<open>i\<close>, the value with its end. \<open>None\<close> as the
  answer means that the fuel ran out.
\<close>

definition next_bracket :: "string \<Rightarrow> nat \<Rightarrow> nat option" where
  "next_bracket s i = find (\<lambda>k. s ! k = CHR ''{'' \<or> s ! k = CHR ''['') [i..<length s]"

fun extract_spans_from ::
  "(string \<Rightarrow> nat \<Rightarrow> (py \<times> nat) option) \<Rightarrow> string \<Rightarrow> int \<Rightarrow> nat \<Rightarrow> nat \<Rightarrow> py list \<Rightarrow> py list option" where
  "extract_spans_from decode s min_bytes 0 i found = None"
| "extract_spans_from decode s min_bytes (Suc fuel) i found =
     (if length s \<le> i then Some found
      else case next_bracket s i of
        None \<Rightarrow> Some found
      | Some start \<Rightarrow>
          (case decode s start of
             None \<Rightarrow> extract_spans_from decode s min_bytes fuel (start + 1) found
           | Some (v, stop) \<Rightarrow>
               (if min_bytes \<le> int stop - int start
                then extract_spans_from decode s min_bytes fuel stop (found @ [v])
                else extract_spans_from decode s min_bytes fuel (start + 1) found)))"

definition extract_json_spans ::
  "(string \<Rightarrow> nat \<Rightarrow> (py \<times> nat) option) \<Rightarrow> string \<Rightarrow> int \<Rightarrow> py list option" where
  "extract_json_spans decode s min_bytes = extract_spans_from decode s min_bytes (length s + 1) 0 []"

definition span_context :: "py list \<Rightarrow> (string \<times> py) list" where
  "span_context spans = map (\<lambda>(i, v). (''json['' @ nat_digits i @ '']'', v)) (enumerate 0 spans)"

definition find_duplicated_content_in_text ::
  "(py \<Rightarrow> string) \<Rightarrow> (string \<Rightarrow> py option) \<Rightarrow> (py \<Rightarrow> string) \<Rightarrow> (string \<Rightarrow> string)
     \<Rightarrow> (string \<Rightarrow> nat \<Rightarrow> (py \<times> nat) option) \<Rightarrow> string \<Rightarrow> int \<Rightarrow> duplicated list option" where
  "find_duplicated_content_in_text other loads canonical sha decode s min_bytes =
     (case extract_json_spans decode s min_bytes of
        None \<Rightarrow> None
      | Some spans \<Rightarrow>
          Some (if spans = [] then []
                else find_duplicated_content other loads canonical sha (span_context spans) min_bytes))"

section \<open>Sizes\<close>

record variable_size =
  vs_name :: string
  vs_size_bytes :: int
  vs_share :: rat

definition share_text :: "variable_size \<Rightarrow> string" where
  "share_text v = py_fixed 1 (vs_share v * 100)"

definition summarize_context :: "(py \<Rightarrow> string) \<Rightarrow> (string \<times> py) list \<Rightarrow> variable_size list" where
  "summarize_context other ctx =
     (let sizes = map (\<lambda>(n, v). (n, int (utf8_len (py_str other v)))) ctx;
          all = sum_list (map snd sizes)
      in sort_desc vs_size_bytes
           (map (\<lambda>(n, k). \<lparr>vs_name = n, vs_size_bytes = k,
                    vs_share = (if all \<noteq> 0 then of_int k / of_int all else 0)\<rparr>) sizes))"

definition pad_right :: "nat \<Rightarrow> string \<Rightarrow> string" where
  "pad_right w s = s @ replicate (w - length s) CHR '' ''"

definition pad_left :: "nat \<Rightarrow> string \<Rightarrow> string" where
  "pad_left w s = replicate (w - length s) CHR '' '' @ s"

definition format_context_summary :: "variable_size list \<Rightarrow> string" where
  "format_context_summary sizes =
     (if sizes = [] then ''(no context variables)''
      else let width = Max (set (map (\<lambda>v. length (vs_name v)) sizes));
               all = sum_list (map vs_size_bytes sizes)
           in py_join [CHR 0x0A]
                (map (\<lambda>v. pad_right width (vs_name v) @ ''  '' @ pad_left 12 (py_thousands (vs_size_bytes v)) @ ''  '' @
                        pad_left 5 (share_text v) @ ''%'') sizes
                 @ [pad_right width ''TOTAL'' @ ''  '' @ pad_left 12 (py_thousands all) @ ''  100.0%'']))"

section \<open>Reports\<close>

definition duplicate_strict_mode :: "(string \<Rightarrow> string option) \<Rightarrow> bool" where
  "duplicate_strict_mode env \<longleftrightarrow>
     py_lower (py_strip (case env ''LLM_CLIENT_PROMPT_DUPLICATE_STRICT'' of Some v \<Rightarrow> v | None \<Rightarrow> []))
       \<in> set [''1'', ''true'', ''yes'', ''on'']"

datatype inspection_error = DuplicateContent string | InspectionZeroDivision

definition report_duplicated_content ::
  "(py \<Rightarrow> string) \<Rightarrow> (string \<Rightarrow> py option) \<Rightarrow> (py \<Rightarrow> string) \<Rightarrow> (string \<Rightarrow> string) \<Rightarrow> (string \<Rightarrow> string option)
     \<Rightarrow> (string \<times> py) list \<Rightarrow> string \<Rightarrow> int \<Rightarrow> bool option \<Rightarrow> inspection_error + duplicated list" where
  "report_duplicated_content other loads canonical sha env ctx label min_bytes strict =
     (let findings = find_duplicated_content other loads canonical sha ctx min_bytes in
      if findings = [] then Inr findings
      else let all = sum_list (map wasted_bytes findings);
               message = ''Duplicated content in '' @ label @ '': '' @ py_thousands all @ '' wasted bytes. '' @
                 py_join ''; '' (map duplicate_text findings) @
                 ''. The same bytes twice cost tokens and tell the model nothing new; '' @
                 ''send one copy, or a reference to it.''
           in if (case strict of None \<Rightarrow> duplicate_strict_mode env | Some b \<Rightarrow> b)
              then Inl (DuplicateContent message) else Inr findings)"

definition DEFAULT_SAMPLE_CHARS :: int where
  "DEFAULT_SAMPLE_CHARS = 400"

definition sample_lines :: "(py \<Rightarrow> string) \<Rightarrow> int \<Rightarrow> (string \<times> py) list \<Rightarrow> variable_size \<Rightarrow> string list" where
  "sample_lines other sample_chars ctx item =
     (let t = py_str other (case dict_get ctx (vs_name item) of Some v \<Rightarrow> v | None \<Rightarrow> PNone) in
      [''  --- '' @ vs_name item @ '' ---'',
       ''  '' @ py_take sample_chars t @ (if sample_chars < int (length t) then ''...'' else [])])"

definition build_prompt_digest ::
  "(py \<Rightarrow> string) \<Rightarrow> (string \<Rightarrow> py option) \<Rightarrow> (py \<Rightarrow> string) \<Rightarrow> (string \<Rightarrow> string) \<Rightarrow> (string \<times> py) list
     \<Rightarrow> int \<Rightarrow> int \<Rightarrow> inspection_error + string" where
  "build_prompt_digest other loads canonical sha ctx sample_chars min_duplicate_bytes =
     (let sizes = summarize_context other ctx;
          duplicates = find_duplicated_content other loads canonical sha ctx min_duplicate_bytes;
          all = sum_list (map vs_size_bytes sizes);
          wasted = sum_list (map wasted_bytes duplicates)
      in if duplicates \<noteq> [] \<and> all = 0 then Inl InspectionZeroDivision
         else Inr (py_join [CHR 0x0A]
           ([''Assembled prompt: '' @ py_int_str (int (length sizes)) @ '' context variables, '' @ py_thousands all @
               '' bytes total.'', [], ''Size by variable:'']
            @ map (\<lambda>v. ''  '' @ vs_name v @ '': '' @ py_thousands (vs_size_bytes v) @ '' bytes ('' @ share_text v @ ''%)'') sizes
            @ (if duplicates \<noteq> []
               then [[], ''Repeated content: '' @ py_thousands wasted @ '' bytes are sent more than once ('' @
                        py_fixed 1 (of_int wasted / of_int all * 100) @ ''% of the prompt).'']
                    @ map (\<lambda>d. ''  '' @ duplicate_text d) duplicates
               else [[], ''Repeated content: none found.''])
            @ [[], ''Sample of each variable (first '' @ py_int_str sample_chars @ '' characters):'']
            @ concat (map (sample_lines other sample_chars ctx) sizes))))"

section \<open>What the findings say\<close>

lemma note_place_get:
  "dict_get (note_place sha pt G) g =
     (if g = sha (snd pt)
      then Some \<lparr>dc_size_bytes = int (utf8_len (snd pt)),
             dc_paths = (case dict_get G g of Some d \<Rightarrow> dc_paths d | None \<Rightarrow> []) @ [fst pt]\<rparr>
      else dict_get G g)"
  by (simp add: note_place_def Let_def py_simps split: prod.split)

lemma note_places_get:
  "dict_get (fold (note_place sha) places []) g =
     (let ps = filter (\<lambda>pt. sha (snd pt) = g) places in
      if ps = [] then None
      else Some \<lparr>dc_size_bytes = int (utf8_len (snd (last ps))), dc_paths = map fst ps\<rparr>)"
proof (induction places rule: rev_induct)
  case (snoc pt places)
  then show ?case by (cases "g = sha (snd pt)") (auto simp: note_place_get Let_def)
qed simp

lemma distinct_note_places: "distinct (map fst gs) \<Longrightarrow> distinct (map fst (fold (note_place sha) places gs))"
  by (induction places arbitrary: gs) (auto simp: note_place_def Let_def distinct_update split: prod.splits)

lemma in_duplicate_findings:
  "d \<in> set (duplicate_findings sha places) \<longleftrightarrow>
     (\<exists>g. dict_get (fold (note_place sha) places []) g = Some d \<and> 1 < length (dc_paths d))"
proof -
  have "distinct (map fst (fold (note_place sha) places []))" by (rule distinct_note_places) simp
  then have "d \<in> set (map snd (fold (note_place sha) places [])) \<longleftrightarrow>
      (\<exists>g. dict_get (fold (note_place sha) places []) g = Some d)"
    by (force simp: image_iff)
  then show ?thesis by (auto simp: duplicate_findings_def)
qed

lemma fold_keep_outermost:
  "set kept \<subseteq> set (fold keep_outermost fs kept)"
  "set (fold keep_outermost fs kept) \<subseteq> set kept \<union> set fs"
  "f \<in> set fs \<Longrightarrow> f \<in> set (fold keep_outermost fs kept) \<or>
     (\<exists>b \<in> set (fold keep_outermost fs kept). explained_by f b)"
proof (induction fs arbitrary: kept)
  case (Cons a fs)
  have grow: "set kept \<subseteq> set (keep_outermost a kept)" "set (keep_outermost a kept) \<subseteq> insert a (set kept)"
    "a \<in> set (keep_outermost a kept) \<or> (\<exists>b \<in> set (keep_outermost a kept). explained_by a b)" for kept
    by (auto simp: keep_outermost_def list_ex_iff)
  {
    case 1
    show ?case unfolding fold_simps by (rule subset_trans [OF grow(1) Cons.IH(1)])
    case 2
    show ?case using Cons.IH(2) [of "keep_outermost a kept"] grow(2) [of kept] by auto
    case 3
    then show ?case
      using Cons.IH(1) [of "keep_outermost a kept"] Cons.IH(3) [of "keep_outermost a kept"] grow(3) [of kept] by auto
  }
qed simp_all

text \<open>The paths whose content has the text \<open>t\<close>, in the order of the walk.\<close>

definition paths_with :: "(string \<times> string) list \<Rightarrow> string \<Rightarrow> string list" where
  "paths_with places t = map fst (filter (\<lambda>pt. snd pt = t) places)"

lemma group_of_text:
  assumes "inj sha"
  shows "filter (\<lambda>pt. sha (snd pt) = sha t) places = filter (\<lambda>pt. snd pt = t) places"
  using assms by (simp add: inj_eq)

lemma last_same: "filter (\<lambda>pt. snd pt = t) places \<noteq> [] \<Longrightarrow> snd (last (filter (\<lambda>pt. snd pt = t) places)) = t"
  using last_in_set [of "filter (\<lambda>pt. snd pt = t) places"] by auto

lemma duplicates_found:
  fixes places :: "(string \<times> string) list"
  assumes "inj sha"
  defines "found \<equiv> fold keep_outermost (duplicate_findings sha places) []"
  shows "(\<forall>d \<in> set found. \<exists>t. dc_paths d = paths_with places t \<and> 1 < length (dc_paths d)
        \<and> dc_size_bytes d = int (utf8_len t) \<and> t \<in> snd ` set places)
    \<and> (\<forall>t. 1 < length (paths_with places t) \<longrightarrow> (\<exists>d \<in> set found. dc_paths d = paths_with places t \<or>
        (\<forall>p \<in> set (paths_with places t). \<exists>outer \<in> set (dc_paths d). is_nested_within p outer)))"
proof (intro conjI ballI allI impI)
  let ?G = "fold (note_place sha) places []"
  fix d assume "d \<in> set found"
  then have "d \<in> set (duplicate_findings sha places)" using fold_keep_outermost(2) found_def by fastforce
  then obtain g where g: "dict_get ?G g = Some d" and two: "1 < length (dc_paths d)"
    unfolding in_duplicate_findings by blast
  let ?ps = "filter (\<lambda>pt. sha (snd pt) = g) places"
  have ne: "?ps \<noteq> []" and d: "d = \<lparr>dc_size_bytes = int (utf8_len (snd (last ?ps))), dc_paths = map fst ?ps\<rparr>"
    using g unfolding note_places_get Let_def by (auto split: if_splits)
  let ?t = "snd (last ?ps)"
  have mem: "last ?ps \<in> set ?ps" using ne by (rule last_in_set)
  then have "?ps = filter (\<lambda>pt. snd pt = ?t) places" using group_of_text [OF assms(1), of ?t places] by simp
  then have "dc_paths d = paths_with places ?t" unfolding d paths_with_def by simp
  moreover have "?t \<in> snd ` set places" using mem by auto
  ultimately show "\<exists>t. dc_paths d = paths_with places t \<and> 1 < length (dc_paths d)
        \<and> dc_size_bytes d = int (utf8_len t) \<and> t \<in> snd ` set places" using two d by auto
next
  let ?G = "fold (note_place sha) places []"
  fix t assume two: "1 < length (paths_with places t)"
  let ?d = "\<lparr>dc_size_bytes = int (utf8_len t), dc_paths = paths_with places t\<rparr>"
  have "filter (\<lambda>pt. snd pt = t) places \<noteq> []" using two by (auto simp: paths_with_def)
  then have "dict_get ?G (sha t) = Some ?d"
    unfolding note_places_get group_of_text [OF assms(1)] Let_def by (simp add: last_same paths_with_def)
  then have "?d \<in> set (duplicate_findings sha places)" using two unfolding in_duplicate_findings by auto
  from fold_keep_outermost(3) [OF this, of "[]"]
  show "\<exists>d \<in> set found. dc_paths d = paths_with places t \<or>
        (\<forall>p \<in> set (paths_with places t). \<exists>outer \<in> set (dc_paths d). is_nested_within p outer)"
    unfolding found_def explained_by_def list_all_iff list_ex_iff by (auto; force)
qed

text \<open>
  The findings are exact, for a digest without collisions. Each one lists all the places of the prompt
  that hold one text, at least two of them, with the size of that text, which reaches the threshold;
  and a text of that size at two places is either listed or sits, at all its places, inside a larger
  listed repetition.
\<close>

theorem duplicates_exact:
  fixes other loads canonical ctx and min_bytes :: int
  assumes "inj sha"
  defines "places \<equiv> concat (map (variable_places other loads canonical) ctx)"
    and "found \<equiv> find_duplicated_content other loads canonical sha ctx min_bytes"
  shows "(\<forall>d \<in> set found. \<exists>t. dc_paths d = paths_with places t \<and> 1 < length (dc_paths d)
        \<and> dc_size_bytes d = int (utf8_len t) \<and> min_bytes \<le> dc_size_bytes d)
    \<and> (\<forall>t. 1 < length (paths_with places t) \<longrightarrow> min_bytes \<le> int (utf8_len t) \<longrightarrow>
        (\<exists>d \<in> set found. dc_paths d = paths_with places t \<or>
          (\<forall>p \<in> set (paths_with places t). \<exists>outer \<in> set (dc_paths d). is_nested_within p outer)))"
proof -
  let ?big = "content_places other loads canonical min_bytes ctx"
  have big: "paths_with ?big t = (if min_bytes \<le> int (utf8_len t) then paths_with places t else [])" for t
    unfolding paths_with_def content_places_def places_def [symmetric]
    by (induction places) auto
  have large: "t \<in> snd ` set ?big \<Longrightarrow> min_bytes \<le> int (utf8_len t)" for t
    by (auto simp: content_places_def)
  note facts = duplicates_found [OF assms(1), of ?big]
  show ?thesis
  proof (intro conjI)
    show "\<forall>d \<in> set found. \<exists>t. dc_paths d = paths_with places t \<and> 1 < length (dc_paths d)
        \<and> dc_size_bytes d = int (utf8_len t) \<and> min_bytes \<le> dc_size_bytes d"
    proof
      fix d assume "d \<in> set found"
      then obtain t where "dc_paths d = paths_with ?big t" "1 < length (dc_paths d)"
        "dc_size_bytes d = int (utf8_len t)" "t \<in> snd ` set ?big"
        using facts unfolding found_def find_duplicated_content_def by blast
      with large [of t] big [of t] show "\<exists>t. dc_paths d = paths_with places t \<and> 1 < length (dc_paths d)
        \<and> dc_size_bytes d = int (utf8_len t) \<and> min_bytes \<le> dc_size_bytes d" by (intro exI [of _ t]) simp
    qed
    show "\<forall>t. 1 < length (paths_with places t) \<longrightarrow> min_bytes \<le> int (utf8_len t) \<longrightarrow>
        (\<exists>d \<in> set found. dc_paths d = paths_with places t \<or>
          (\<forall>p \<in> set (paths_with places t). \<exists>outer \<in> set (dc_paths d). is_nested_within p outer))"
      using facts big unfolding found_def find_duplicated_content_def by (metis (full_types))
  qed
qed

theorem duplicates_exact_witness:
  "\<exists>d \<in> set (find_duplicated_content (\<lambda>_. []) (\<lambda>_. None) (\<lambda>v. case v of PStr s \<Rightarrow> s | _ \<Rightarrow> []) id
      [(''a'', PList [PStr ''xyz'', PStr ''u'']), (''b'', PDict [(PStr ''k/l'', PStr ''xyz'')])] 2).
     dc_paths d = [''a/0'', ''b/k~1l''] \<and> dc_size_bytes d = 3"
proof -
  let ?ctx = "[(''a'', PList [PStr ''xyz'', PStr ''u'']), (''b'', PDict [(PStr ''k/l'', PStr ''xyz'')])]"
  let ?canonical = "\<lambda>v. case v of PStr s \<Rightarrow> s | _ \<Rightarrow> []"
  let ?places = "concat (map (variable_places (\<lambda>_. []) (\<lambda>_. None) ?canonical) ?ctx)"
  let ?found = "find_duplicated_content (\<lambda>_. []) (\<lambda>_. None) ?canonical id ?ctx 2"
  have places: "paths_with ?places ''xyz'' = [''a/0'', ''b/k~1l'']" and len: "utf8_len ''xyz'' = 3"
    and alone: "\<forall>t \<in> set (map snd ?places). t = ''xyz'' \<or> t = ''u'' \<or> t = []"
    and rest: "paths_with ?places ''u'' = [''a/1'']" "utf8_len [] = 0"
    by code_simp+
  note exact = duplicates_exact [OF inj_on_id, of "\<lambda>_. []" "\<lambda>_. None" ?canonical ?ctx 2]
  have sound: "\<forall>d \<in> set ?found. \<exists>t. dc_paths d = paths_with ?places t \<and> 1 < length (dc_paths d)
        \<and> dc_size_bytes d = int (utf8_len t) \<and> 2 \<le> dc_size_bytes d"
    using exact by simp
  have texts: "paths_with ?places t = [] \<or> t = ''xyz'' \<or> t = ''u'' \<or> t = []" for t
    using alone by (auto simp: paths_with_def filter_empty_conv)
  have only: "dc_paths d = [''a/0'', ''b/k~1l''] \<and> dc_size_bytes d = 3" if "d \<in> set ?found" for d
  proof -
    from that sound obtain t where t: "dc_paths d = paths_with ?places t" "1 < length (dc_paths d)"
      "dc_size_bytes d = int (utf8_len t)" "2 \<le> dc_size_bytes d" by blast
    with texts [of t] rest have "t = ''xyz''" by auto
    with t places len show ?thesis by simp
  qed
  have "\<exists>d. d \<in> set ?found"
    using conjunct2 [OF exact, THEN spec, of "''xyz''"] unfolding places len by auto
  with only show ?thesis by blast
qed

section \<open>The recovery of JSON values\<close>

lemma next_bracket_bounds: "next_bracket s i = Some k \<Longrightarrow> i \<le> k \<and> k < length s"
  unfolding next_bracket_def by (drule find_SomeD) auto

lemma extract_spans_total:
  assumes "\<And>i v j. decode s i = Some (v, j) \<Longrightarrow> i < j \<and> j \<le> length s" and "length s < fuel + i" and "i \<le> length s"
  shows "\<exists>vs. extract_spans_from decode s min_bytes fuel i found = Some (found @ vs) \<and>
    (\<forall>v \<in> set vs. \<exists>k j. decode s k = Some (v, j) \<and> i \<le> k \<and> k < length s \<and> min_bytes \<le> int j - int k)"
  using assms(2,3)
proof (induction fuel arbitrary: i found)
  case 0
  then show ?case by simp
next
  case (Suc fuel)
  show ?case
  proof (cases "length s \<le> i \<or> next_bracket s i = None")
    case True
    then show ?thesis by auto
  next
    case False
    then obtain k where k: "next_bracket s i = Some k" by auto
    note b = next_bracket_bounds [OF k]
    have i: "\<not> length s \<le> i" using False by blast
    have skip: ?thesis if "extract_spans_from decode s min_bytes (Suc fuel) i found =
        extract_spans_from decode s min_bytes fuel (k + 1) found"
    proof -
      have "length s < fuel + (k + 1)" "k + 1 \<le> length s" using Suc.prems b by simp_all
      from Suc.IH [OF this, of found] that b show ?thesis by (fastforce intro: order_trans)
    qed
    show ?thesis
    proof (cases "decode s k")
      case None
      then show ?thesis by (intro skip) (simp add: k i)
    next
      case (Some vj)
      obtain v j where vj: "vj = (v, j)" by (cases vj)
      show ?thesis
      proof (cases "min_bytes \<le> int j - int k")
        case False
        then show ?thesis by (intro skip) (simp add: k i Some vj)
      next
        case True
        have j: "k < j" "j \<le> length s" using assms(1) Some vj by blast+
        then have "length s < fuel + j" using Suc.prems b by simp
        from Suc.IH [OF this j(2), of "found @ [v]"] obtain vs where vs:
          "extract_spans_from decode s min_bytes fuel j (found @ [v]) = Some (found @ v # vs)"
          "\<forall>v \<in> set vs. \<exists>k j'. decode s k = Some (v, j') \<and> j \<le> k \<and> k < length s \<and> min_bytes \<le> int j' - int k"
          by auto
        moreover have "\<exists>k j. decode s k = Some (v, j) \<and> i \<le> k \<and> k < length s \<and> min_bytes \<le> int j - int k"
          using True Some vj b by auto
        moreover have "i \<le> j" using b j by simp
        ultimately show ?thesis
          by (intro exI [of _ "v # vs"]) (fastforce simp: k i Some vj True intro: order_trans)
      qed
    qed
  qed
qed

text \<open>
  The scan of a rendered prompt ends, and what it returns are values that the decoder reads at places
  of the text, each from a span of at least the threshold. The decoder only has to consume something
  and stay in the text when it succeeds.
\<close>

theorem span_scan_terminates:
  assumes "\<And>i v j. decode s i = Some (v, j) \<Longrightarrow> i < j \<and> j \<le> length s"
  shows "\<exists>vs. extract_json_spans decode s min_bytes = Some vs \<and>
    (\<forall>v \<in> set vs. \<exists>k j. decode s k = Some (v, j) \<and> k < length s \<and> min_bytes \<le> int j - int k)"
  using extract_spans_total [of decode s "length s + 1" 0 min_bytes "[]"] assms
  by (auto simp: extract_json_spans_def)

theorem span_scan_terminates_witness:
  "\<exists>vs. extract_json_spans (\<lambda>s i. if i = 2 then Some (PInt 7, 6) else None) ''a [{7}] b'' 3 = Some vs"
proof -
  have "\<exists>vs. extract_json_spans (\<lambda>s i. if i = 2 then Some (PInt 7, 6) else None) ''a [{7}] b'' 3 = Some vs \<and>
    (\<forall>v \<in> set vs. \<exists>k j. (\<lambda>s i. if i = 2 then Some (PInt 7, 6) else None) ''a [{7}] b'' k = Some (v, j) \<and>
       k < length ''a [{7}] b'' \<and> 3 \<le> int j - int k)"
    by (rule span_scan_terminates) (auto split: if_splits)
  then show ?thesis by blast
qed

section \<open>The attribution of sizes\<close>

text \<open>
  The summary attributes the whole size: one row for each variable, largest first, whose sizes are those
  of the rendered values and whose shares add up to one, unless nothing is rendered.
\<close>

theorem size_attribution:
  fixes other ctx
  defines "sizes \<equiv> summarize_context other ctx"
  shows "sorted (rev (map vs_size_bytes sizes))
    \<and> set (map (\<lambda>v. (vs_name v, vs_size_bytes v)) sizes) = set (map (\<lambda>(n, v). (n, int (utf8_len (py_str other v)))) ctx)
    \<and> length sizes = length ctx
    \<and> sum_list (map vs_share sizes) = (if sum_list (map vs_size_bytes sizes) = 0 then 0 else 1)"
proof -
  let ?rows = "map (\<lambda>(n, v). (n, int (utf8_len (py_str other v)))) ctx"
  let ?all = "sum_list (map snd ?rows)"
  let ?entry = "\<lambda>(n, k). \<lparr>vs_name = n, vs_size_bytes = k, vs_share = (if ?all \<noteq> 0 then of_int k / of_int ?all else 0)\<rparr>"
  have sizes: "sizes = sort_desc vs_size_bytes (map ?entry ?rows)"
    by (simp add: sizes_def summarize_context_def Let_def)
  have all: "sum_list (map vs_size_bytes sizes) = ?all"
    unfolding sizes sum_list_sort_desc by (simp add: comp_def case_prod_unfold)
  have "sum_list (map (\<lambda>p. of_int (snd p) / of_int c) ps) = (of_int (sum_list (map snd ps)) :: rat) / of_int c"
    for ps :: "(string \<times> int) list" and c
    by (induction ps) (auto simp: add_divide_distrib)
  from this [of ?all ?rows] have shares: "sum_list (map vs_share sizes) = (if ?all = 0 then 0 else 1)"
    unfolding sizes sum_list_sort_desc by (simp add: comp_def case_prod_unfold)
  show ?thesis
    unfolding all shares
    by (simp add: sizes sorted_sort_desc image_image case_prod_unfold)
qed

end
