(* ===== verification/Prompt_Assets.thy ===== *)
theory Prompt_Assets
  imports Retry Observability_Context Prompt_Contracts Prompt_Inspection
begin

text \<open>
  Prompt assets, \<open>llm_client/prompt_assets.py\<close>, and the rendering of a prompt, \<open>llm_client/prompts.py\<close>: the
  references of assets, their resolution to a manifest and a template, and the checks that a render
  passes before its messages are built.

  A path is the list of its parts. The files, YAML, the validation of a manifest by its schema and the
  template engine are arguments.
\<close>

section \<open>References\<close>

record prompt_asset_ref =
  pr_asset_id :: string
  pr_version :: nat

definition id_start_char :: "char \<Rightarrow> bool" where
  "id_start_char c \<longleftrightarrow> (CHR ''a'' \<le> c \<and> c \<le> CHR ''z'') \<or> py_isdigit c"

definition id_char :: "char \<Rightarrow> bool" where
  "id_char c \<longleftrightarrow> id_start_char c \<or> c \<in> set ''_.-''"

text \<open>The two groups of the reference pattern, \<open>[a-z0-9][a-z0-9_.-]*\<close> and \<open>[1-9][0-9]*\<close>.\<close>

definition asset_id_ok :: "string \<Rightarrow> bool" where
  "asset_id_ok s = (case s of [] \<Rightarrow> False | c # cs \<Rightarrow> id_start_char c \<and> list_all id_char cs)"

definition version_text_ok :: "string \<Rightarrow> bool" where
  "version_text_ok s = (case s of [] \<Rightarrow> False | c # cs \<Rightarrow> py_isdigit c \<and> c \<noteq> CHR ''0'' \<and> list_all py_isdigit cs)"

datatype asset_error =
    InvalidPromptRef string
  | ManifestNotFound "string list"
  | ManifestYamlError "string list"
  | ManifestNotMapping string "string list"
  | ManifestInvalid string
  | IdentityMismatch string string
  | TemplateNotFound "string list"

definition prompt_ref_text :: "prompt_asset_ref \<Rightarrow> string" where
  "prompt_ref_text r = pr_asset_id r @ ''@'' @ nat_digits (pr_version r)"

definition parse_prompt_ref :: "string \<Rightarrow> asset_error + prompt_asset_ref" where
  "parse_prompt_ref s =
     (let asset_id = py_before_first CHR ''@'' s in
      case drop (length asset_id) s of
        [] \<Rightarrow> Inl (InvalidPromptRef s)
      | _ # version \<Rightarrow>
          (if asset_id_ok asset_id \<and> version_text_ok version
           then Inr \<lparr>pr_asset_id = asset_id, pr_version = digits_nat version\<rparr>
           else Inl (InvalidPromptRef s)))"

text \<open>\<open>root.joinpath(*asset_id.split("."), f"v{version}", "manifest.yaml")\<close>: empty parts vanish.\<close>

definition manifest_path :: "string list \<Rightarrow> prompt_asset_ref \<Rightarrow> string list" where
  "manifest_path root_dir r =
     root_dir @ filter (\<lambda>p. p \<noteq> []) (split_on CHR ''.'' (pr_asset_id r)) @
     [''v'' @ nat_digits (pr_version r), ''manifest.yaml'']"

section \<open>Resolution\<close>

record asset_manifest =
  am_id :: string
  am_version :: int
  am_status :: string
  am_derived_from :: "string option"
  am_template_path :: string

record resolved_asset =
  ra_prompt_ref :: string
  ra_manifest :: asset_manifest
  ra_manifest_path :: "string list"
  ra_template_path :: "string list"

record asset_files =
  af_manifest :: "string list \<Rightarrow> yaml_file"
  af_validate :: "(py \<times> py) list \<Rightarrow> string + asset_manifest"
  af_locate :: "string list \<Rightarrow> string \<Rightarrow> string list"
  af_exists :: "string list \<Rightarrow> bool"

text \<open>The environment variable, the projects directory and the directory of the package.\<close>

definition resolve_prompt_root :: "(string \<Rightarrow> string option) \<Rightarrow> (string \<Rightarrow> string list) \<Rightarrow> string list option
    \<Rightarrow> string list \<Rightarrow> string list" where
  "resolve_prompt_root env expand projects package =
     (case env ''LLM_CLIENT_PROMPT_ASSET_ROOT'' of
        Some v \<Rightarrow> if v \<noteq> [] then expand v else (case projects of Some p \<Rightarrow> p | None \<Rightarrow> package)
      | None \<Rightarrow> (case projects of Some p \<Rightarrow> p | None \<Rightarrow> package))"

definition resolve_prompt_asset :: "asset_files \<Rightarrow> string list \<Rightarrow> string \<Rightarrow> asset_error + resolved_asset" where
  "resolve_prompt_asset fs root_dir prompt_ref =
     and_then (parse_prompt_ref prompt_ref) (\<lambda>r.
       let path = manifest_path root_dir r in
       case af_manifest fs path of
         YamlMissing \<Rightarrow> Inl (ManifestNotFound path)
       | YamlMalformed \<Rightarrow> Inl (ManifestYamlError path)
       | YamlValue raw \<Rightarrow>
           (case raw of
              PDict d \<Rightarrow>
                (case af_validate fs d of
                   Inl e \<Rightarrow> Inl (ManifestInvalid e)
                 | Inr m \<Rightarrow>
                     (if am_id m \<noteq> pr_asset_id r \<or> am_version m \<noteq> int (pr_version r)
                      then Inl (IdentityMismatch (prompt_ref_text r) (am_id m @ ''@'' @ py_int_str (am_version m)))
                      else and_then
                        (case am_derived_from m of None \<Rightarrow> Inr () | Some p \<Rightarrow> and_then (parse_prompt_ref p) (\<lambda>_. Inr ()))
                        (\<lambda>_. let template = af_locate fs (butlast path) (am_template_path m) in
                          if af_exists fs template
                          then Inr \<lparr>ra_prompt_ref = prompt_ref_text r, ra_manifest = m, ra_manifest_path = path,
                                 ra_template_path = template\<rparr>
                          else Inl (TemplateNotFound template))))
            | _ \<Rightarrow> Inl (ManifestNotMapping (py_type_name raw) path)))"

definition load_prompt_asset :: "asset_files \<Rightarrow> string list \<Rightarrow> string \<Rightarrow> asset_error + asset_manifest" where
  "load_prompt_asset fs root_dir prompt_ref =
     and_then (resolve_prompt_asset fs root_dir prompt_ref) (\<lambda>r. Inr (ra_manifest r))"

section \<open>Rendering\<close>

datatype render_error =
    OneOfPathAndRef
  | AssetError asset_error
  | PromptNotFound string
  | ContextError context_contract_error
  | InspectionError inspection_error
  | PromptYamlError
  | PromptNotMapping string
  | PromptWithoutMessages
  | MessagesNotList string
  | MessageWithoutKeys nat
  | TemplateUndefined

record render_env =
  rn_assets :: asset_files
  rn_root :: "string list"
  rn_absolute :: "string \<Rightarrow> string"
  rn_file :: "string \<Rightarrow> yaml_file"
  rn_env :: "string \<Rightarrow> string option"
  rn_other :: "py \<Rightarrow> string"
  rn_loads :: "string \<Rightarrow> py option"
  rn_canonical :: "py \<Rightarrow> string"
  rn_sha :: "string \<Rightarrow> string"
  rn_template :: "string \<Rightarrow> (string \<times> py) list \<Rightarrow> string option"

definition path_text :: "string list \<Rightarrow> string" where
  "path_text parts = CHR ''/'' # py_join ''/'' parts"

text \<open>One message of the template, at its index.\<close>

definition render_message ::
  "render_env \<Rightarrow> (string \<times> py) list \<Rightarrow> nat \<times> py \<Rightarrow> render_error + (string \<times> string)" where
  "render_message E ctx im =
     (case im of (i, msg) \<Rightarrow>
       (case msg of
          PDict d \<Rightarrow>
            (case (dict_get d (PStr ''role''), dict_get d (PStr ''content'')) of
               (Some role, Some content) \<Rightarrow>
                 (case rn_template E (py_str (rn_other E) content) ctx of
                    None \<Rightarrow> Inl TemplateUndefined
                  | Some rendered \<Rightarrow> Inr (py_str (rn_other E) role, py_strip rendered))
             | _ \<Rightarrow> Inl (MessageWithoutKeys i))
        | _ \<Rightarrow> Inl (MessageWithoutKeys i)))"

fun render_messages ::
  "render_env \<Rightarrow> (string \<times> py) list \<Rightarrow> (nat \<times> py) list \<Rightarrow> render_error + (string \<times> string) list" where
  "render_messages E ctx [] = Inr []"
| "render_messages E ctx (m # ms) =
     and_then (render_message E ctx m) (\<lambda>x. and_then (render_messages E ctx ms) (\<lambda>xs. Inr (x # xs)))"

definition prompt_messages :: "render_env \<Rightarrow> string \<Rightarrow> (string \<times> py) list \<Rightarrow> render_error + (string \<times> string) list" where
  "prompt_messages E path ctx =
     (case rn_file E path of
        YamlMissing \<Rightarrow> Inl (PromptNotFound path)
      | YamlMalformed \<Rightarrow> Inl PromptYamlError
      | YamlValue raw \<Rightarrow>
          (case raw of
             PDict d \<Rightarrow>
               (let messages = (case dict_get d (PStr ''messages'') of Some v \<Rightarrow> v | None \<Rightarrow> PNone) in
                if \<not> py_truthy messages then Inl PromptWithoutMessages
                else case messages of
                  PList ms \<Rightarrow> render_messages E ctx (enumerate 0 ms)
                | _ \<Rightarrow> Inl (MessagesNotList (py_type_name messages)))
           | _ \<Rightarrow> Inl (PromptNotMapping (py_type_name raw))))"

definition template_location :: "render_env \<Rightarrow> string option \<Rightarrow> string option \<Rightarrow> render_error + string" where
  "template_location E template_path prompt_ref =
     (case (template_path, prompt_ref) of
        (None, Some ref) \<Rightarrow>
          (case resolve_prompt_asset (rn_assets E) (rn_root E) ref of
             Inl e \<Rightarrow> Inl (AssetError e)
           | Inr a \<Rightarrow> Inr (path_text (ra_template_path a)))
      | (Some p, None) \<Rightarrow> Inr (rn_absolute E p)
      | _ \<Rightarrow> Inl OneOfPathAndRef)"

definition render_prompt ::
  "render_env \<Rightarrow> string option \<Rightarrow> string option \<Rightarrow> (string \<times> py) list \<Rightarrow> breach_tally
     \<Rightarrow> (render_error + (string \<times> string) list) \<times> breach_tally" where
  "render_prompt E template_path prompt_ref ctx T =
     (case template_location E template_path prompt_ref of
        Inl e \<Rightarrow> (Inl e, T)
      | Inr path \<Rightarrow>
          (if rn_file E path = YamlMissing then (Inl (PromptNotFound path), T)
           else case enforce_contract (rn_other E) (rn_file E) path ctx (prompt_context_strict_mode (rn_env E)) T of
             (Inl e, T') \<Rightarrow> (Inl (ContextError e), T')
           | (Inr _, T') \<Rightarrow>
               (case report_duplicated_content (rn_other E) (rn_loads E) (rn_canonical E) (rn_sha E) (rn_env E) ctx
                       (path_name path) DEFAULT_MIN_DUPLICATE_BYTES None of
                  Inl e \<Rightarrow> (Inl (InspectionError e), T')
                | Inr _ \<Rightarrow> (prompt_messages E path ctx, T'))))"

section \<open>References and their texts\<close>

definition ref_ok :: "prompt_asset_ref \<Rightarrow> bool" where
  "ref_ok r \<longleftrightarrow> asset_id_ok (pr_asset_id r) \<and> 0 < pr_version r"

lemma id_char_not_at: "id_char c \<Longrightarrow> c \<noteq> CHR ''@''"
  by (auto simp: id_char_def id_start_char_def py_isdigit_def less_eq_char_def)

lemma asset_id_no_at: "asset_id_ok s \<Longrightarrow> \<forall>c \<in> set s. c \<noteq> CHR ''@''"
  using id_char_not_at by (auto simp: asset_id_ok_def list_all_iff id_char_def split: list.splits)

lemma at_split: "\<forall>c \<in> set a. c \<noteq> CHR ''@'' \<Longrightarrow> py_before_first CHR ''@'' (a @ CHR ''@'' # v) = a"
  by (simp add: py_before_first_def takeWhile_tail)

lemma digit_bounds:
  assumes "py_isdigit c"
  shows "digit_val c < 10" and "digit_char (digit_val c) = c" and "digit_val c = 0 \<longleftrightarrow> c = CHR ''0''"
proof -
  from assms have "c \<in> set ''0123456789''" by (simp add: py_isdigit_def)
  then show "digit_val c < 10" "digit_char (digit_val c) = c" "digit_val c = 0 \<longleftrightarrow> c = CHR ''0''"
    by (auto simp: digit_val_def digit_char_def)
qed

lemma version_text_snoc:
  "version_text_ok (w @ [c]) \<longleftrightarrow> py_isdigit c \<and> (if w = [] then c \<noteq> CHR ''0'' else version_text_ok w)"
  by (cases w) (auto simp: version_text_ok_def)

lemma version_text_digits: "version_text_ok v \<Longrightarrow> 0 < digits_nat v \<and> nat_digits (digits_nat v) = v"
proof (induction v rule: rev_induct)
  case Nil
  then show ?case by (simp add: version_text_ok_def)
next
  case (snoc c w)
  then have c: "py_isdigit c" by (simp add: version_text_snoc)
  note d = digit_bounds [OF c]
  show ?case
  proof (cases "w = []")
    case True
    then have "c \<noteq> CHR ''0''" using snoc.prems by (simp add: version_text_ok_def)
    moreover have "digits_nat [c] = digit_val c" by (simp add: digits_nat_def)
    ultimately show ?thesis using True d by (simp add: nat_digits.simps [of "digit_val c"])
  next
    case False
    then have w: "0 < digits_nat w" "nat_digits (digits_nat w) = w"
      using snoc by (simp_all add: version_text_snoc)
    have "nat_digits (10 * digits_nat w + digit_val c) = w @ [c]"
      using w d by (simp add: nat_digits.simps [of "10 * digits_nat w + digit_val c"])
    then show ?thesis using w by (simp add: digits_nat_snoc)
  qed
qed

lemma version_text_of_digits: "0 < n \<Longrightarrow> version_text_ok (nat_digits n)"
proof (induction n rule: nat_digits.induct)
  case (1 n)
  show ?case
  proof (cases "n < 10")
    case True
    then show ?thesis
      using 1 digit_char_cases(1) [of n] digit_bounds(3) [of "digit_char n"] digit_char_cases(2) [of n]
      by (simp add: nat_digits.simps [of n] version_text_ok_def)
  next
    case False
    then have "version_text_ok (nat_digits (n div 10))" using 1 by simp
    then show ?thesis
      using False digit_char_cases(1) [of "n mod 10"] nat_digits_digits [of "n div 10"]
      by (simp add: nat_digits.simps [of n] version_text_snoc)
  qed
qed

text \<open>
  References and their texts correspond one to one: a text parses exactly when it is the text of a
  reference with a well-formed id and a positive version, and then it parses to that reference.
\<close>

lemma parse_iff: "parse_prompt_ref s = Inr r \<longleftrightarrow> ref_ok r \<and> s = prompt_ref_text r"
proof
  assume "parse_prompt_ref s = Inr r"
  let ?a = "py_before_first CHR ''@'' s"
  from \<open>parse_prompt_ref s = Inr r\<close> obtain c v where drop: "drop (length ?a) s = c # v" and ok: "asset_id_ok ?a" "version_text_ok v"
    and r: "r = \<lparr>pr_asset_id = ?a, pr_version = digits_nat v\<rparr>"
    by (auto simp: parse_prompt_ref_def Let_def split: list.splits if_splits)
  have rest: "dropWhile (\<lambda>c. c \<noteq> CHR ''@'') s = c # v"
    using drop by (simp add: py_before_first_def dropWhile_eq_drop)
  have s: "s = ?a @ c # v"
    using takeWhile_dropWhile_id [of "\<lambda>c. c \<noteq> CHR ''@''" s] rest by (simp add: py_before_first_def)
  have "c = CHR ''@''"
    using hd_dropWhile_False [of "\<lambda>c. c \<noteq> CHR ''@''" s] rest by simp
  with s ok r version_text_digits [OF ok(2)] show "ref_ok r \<and> s = prompt_ref_text r"
    by (simp add: ref_ok_def prompt_ref_text_def)
next
  assume r: "ref_ok r \<and> s = prompt_ref_text r"
  let ?v = "nat_digits (pr_version r)"
  have s: "s = pr_asset_id r @ CHR ''@'' # ?v" using r by (simp add: prompt_ref_text_def)
  have a: "py_before_first CHR ''@'' s = pr_asset_id r"
    unfolding s using r by (intro at_split asset_id_no_at) (simp add: ref_ok_def)
  have "version_text_ok ?v" using r by (simp add: ref_ok_def version_text_of_digits)
  moreover have "drop (length (pr_asset_id r)) s = CHR ''@'' # ?v" by (simp add: s)
  ultimately show "parse_prompt_ref s = Inr r"
    unfolding parse_prompt_ref_def a Let_def using r nat_digits_digits [of "pr_version r"]
    by (simp add: ref_ok_def)
qed

text \<open>
  C36: parsing and printing of references are inverse to each other: what parses is a valid reference and
  prints back to the same text, and the text of every valid reference parses to it.
\<close>

theorem prompt_ref_roundtrip:
  "(parse_prompt_ref s = Inr r) = (ref_ok r \<and> s = prompt_ref_text r)"
  by (rule parse_iff)

section \<open>What resolution and rendering give\<close>

lemma resolved_parts:
  assumes "resolve_prompt_asset fs root_dir p = Inr a"
  shows "\<exists>r d. parse_prompt_ref p = Inr r \<and> ra_prompt_ref a = p \<and> ra_manifest_path a = manifest_path root_dir r
    \<and> af_manifest fs (ra_manifest_path a) = YamlValue (PDict d) \<and> af_validate fs d = Inr (ra_manifest a)
    \<and> am_id (ra_manifest a) = pr_asset_id r \<and> am_version (ra_manifest a) = int (pr_version r)
    \<and> (case am_derived_from (ra_manifest a) of None \<Rightarrow> True | Some q \<Rightarrow> \<not> isl (parse_prompt_ref q))
    \<and> af_exists fs (ra_template_path a)"
proof -
  obtain r where r: "parse_prompt_ref p = Inr r"
    using assms by (auto simp: resolve_prompt_asset_def)
  then have p: "prompt_ref_text r = p" by (simp add: parse_iff)
  let ?path = "manifest_path root_dir r"
  from assms r obtain d where d: "af_manifest fs ?path = YamlValue (PDict d)"
    by (auto simp: resolve_prompt_asset_def Let_def split: yaml_file.splits py.splits)
  from assms r d obtain m where m: "af_validate fs d = Inr m"
    by (cases "af_validate fs d") (auto simp: resolve_prompt_asset_def Let_def)
  note run = assms [unfolded resolve_prompt_asset_def, simplified r and_then.simps Let_def d m
      yaml_file.case py.case sum.case]
  have ident: "am_id m = pr_asset_id r" "am_version m = int (pr_version r)"
    using run by (auto split: if_splits)
  have derived: "case am_derived_from m of None \<Rightarrow> True | Some q \<Rightarrow> \<not> isl (parse_prompt_ref q)"
    using run ident by (auto split: option.splits)
  have "a = \<lparr>ra_prompt_ref = p, ra_manifest = m, ra_manifest_path = ?path,
      ra_template_path = af_locate fs (butlast ?path) (am_template_path m)\<rparr>"
    and "af_exists fs (af_locate fs (butlast ?path) (am_template_path m))"
    using run ident p by (auto split: if_splits)
  with r d m ident derived show ?thesis by simp
qed

text \<open>
  A resolved asset is the one that was asked for: its manifest carries the id and the version of the
  reference, so that two references never share a manifest, although the paths of two ids can coincide.
\<close>

theorem assets_not_aliased:
  assumes "resolve_prompt_asset fs root_dir p = Inr a" and "resolve_prompt_asset fs root_dir q = Inr b"
  shows "p = am_id (ra_manifest a) @ ''@'' @ py_int_str (am_version (ra_manifest a))
    \<and> af_exists fs (ra_template_path a)
    \<and> (ra_manifest_path a = ra_manifest_path b \<longrightarrow> p = q)"
proof -
  from resolved_parts [OF assms(1)] obtain r d where r: "parse_prompt_ref p = Inr r"
    "af_manifest fs (ra_manifest_path a) = YamlValue (PDict d)" "af_validate fs d = Inr (ra_manifest a)"
    "am_id (ra_manifest a) = pr_asset_id r" "am_version (ra_manifest a) = int (pr_version r)"
    "af_exists fs (ra_template_path a)" by blast
  from resolved_parts [OF assms(2)] obtain r' d' where r': "parse_prompt_ref q = Inr r'"
    "af_manifest fs (ra_manifest_path b) = YamlValue (PDict d')" "af_validate fs d' = Inr (ra_manifest b)"
    "am_id (ra_manifest b) = pr_asset_id r'" "am_version (ra_manifest b) = int (pr_version r')" by blast
  have p: "p = prompt_ref_text r" and q: "q = prompt_ref_text r'" using r(1) r'(1) by (simp_all add: parse_iff)
  have "prompt_ref_text r = prompt_ref_text r'" if "ra_manifest_path a = ra_manifest_path b"
  proof -
    have "ra_manifest a = ra_manifest b" using that r(2,3) r'(2,3) by simp
    then have "pr_asset_id r = pr_asset_id r'" "pr_version r = pr_version r'" using r(4,5) r'(4,5) by simp_all
    then show ?thesis by (simp add: prompt_ref_text_def)
  qed
  moreover have "p = am_id (ra_manifest a) @ ''@'' @ py_int_str (am_version (ra_manifest a))"
    using p r(4,5) by (simp add: prompt_ref_text_def py_int_str_def)
  ultimately show ?thesis unfolding p [symmetric] q [symmetric] using r(6) by simp
qed

lemma manifest_paths_coincide:
  "parse_prompt_ref ''a..b@1'' \<noteq> parse_prompt_ref ''a.b@1''
    \<and> manifest_path root_dir \<lparr>pr_asset_id = ''a..b'', pr_version = 1\<rparr> =
        manifest_path root_dir \<lparr>pr_asset_id = ''a.b'', pr_version = 1\<rparr>"
proof
  have "parse_prompt_ref ''a..b@1'' = Inr \<lparr>pr_asset_id = ''a..b'', pr_version = 1\<rparr>"
    "parse_prompt_ref ''a.b@1'' = Inr \<lparr>pr_asset_id = ''a.b'', pr_version = 1\<rparr>" by code_simp+
  then show "parse_prompt_ref ''a..b@1'' \<noteq> parse_prompt_ref ''a.b@1''" by simp
  have "filter (\<lambda>p. p \<noteq> []) (split_on CHR ''.'' ''a..b'') = filter (\<lambda>p. p \<noteq> []) (split_on CHR ''.'' ''a.b'')"
    by code_simp
  then show "manifest_path root_dir \<lparr>pr_asset_id = ''a..b'', pr_version = 1\<rparr> =
        manifest_path root_dir \<lparr>pr_asset_id = ''a.b'', pr_version = 1\<rparr>"
    by (simp add: manifest_path_def)
qed

definition demo_files :: asset_files where
  "demo_files =
     \<lparr>af_manifest = (\<lambda>path. if path = [''r'', ''a'', ''b'', ''v1'', ''manifest.yaml''] then YamlValue (PDict []) else YamlMissing),
      af_validate = (\<lambda>d. Inr \<lparr>am_id = ''a.b'', am_version = 1, am_status = ''draft'', am_derived_from = None,
        am_template_path = ''t.yaml''\<rparr>),
      af_locate = (\<lambda>dir t. dir @ [t]), af_exists = (\<lambda>path. True)\<rparr>"

theorem assets_not_aliased_witness:
  "\<exists>a. resolve_prompt_asset demo_files [''r''] ''a.b@1'' = Inr a \<and> am_id (ra_manifest a) = ''a.b''
     \<and> resolve_prompt_asset demo_files [''r''] ''a..b@1'' = Inl (IdentityMismatch ''a..b@1'' ''a.b@1'')"
proof -
  have one: "\<not> isl (resolve_prompt_asset demo_files [''r''] ''a.b@1'')"
    and two: "resolve_prompt_asset demo_files [''r''] ''a..b@1'' = Inl (IdentityMismatch ''a..b@1'' ''a.b@1'')"
    and id: "(case resolve_prompt_asset demo_files [''r''] ''a.b@1'' of Inl _ \<Rightarrow> [] | Inr a \<Rightarrow> am_id (ra_manifest a)) = ''a.b''"
    by code_simp+
  from one obtain a where a: "resolve_prompt_asset demo_files [''r''] ''a.b@1'' = Inr a"
    by (cases "resolve_prompt_asset demo_files [''r''] ''a.b@1''") auto
  have "''a.b@1'' = am_id (ra_manifest a) @ ''@'' @ py_int_str (am_version (ra_manifest a))"
    using assets_not_aliased [OF a a] by blast
  with a id two show ?thesis by auto
qed

lemma render_messages_Inr:
  "render_messages E ctx ims = Inr ms \<Longrightarrow> length ms = length ims \<and>
     (\<forall>k < length ms. render_message E ctx (ims ! k) = Inr (ms ! k))"
proof (induction ims arbitrary: ms)
  case (Cons im ims)
  then obtain x xs where "render_message E ctx im = Inr x" "render_messages E ctx ims = Inr xs" "ms = x # xs"
    by auto
  with Cons.IH [of xs] show ?case by (auto simp: nth_Cons split: nat.split)
qed simp

lemma render_message_strip: "render_message E ctx im = Inr x \<Longrightarrow> py_strip (snd x) = snd x"
  by (auto simp: render_message_def split: prod.splits py.splits option.splits)

lemma report_Inr:
  "report_duplicated_content other loads canonical sha env ctx label n None = Inr f \<Longrightarrow>
     f = find_duplicated_content other loads canonical sha ctx n \<and> (duplicate_strict_mode env \<longrightarrow> f = [])"
  by (auto simp: report_duplicated_content_def Let_def split: if_splits)

text \<open>
  A render that succeeds has passed every check, on the template it was asked for: in strict mode no
  variable is over the contract of the template, in strict duplicate mode no content is sent twice; and
  each message of the template gives one message, in order, with its content stripped.
\<close>

theorem rendered_prompt_checked:
  assumes "fst (render_prompt E template_path prompt_ref ctx T) = Inr ms"
  shows "(template_path = None) \<noteq> (prompt_ref = None)
    \<and> (\<exists>path d raw. template_location E template_path prompt_ref = Inr path
        \<and> rn_file E path = YamlValue (PDict d) \<and> dict_get d (PStr ''messages'') = Some (PList raw)
        \<and> length ms = length raw \<and> list_all (\<lambda>m. py_strip (snd m) = snd m) ms
        \<and> (\<forall>C. prompt_context_strict_mode (rn_env E) \<longrightarrow> load_contract (rn_other E) (rn_file E) path = Inr (Some C) \<longrightarrow>
            list_all (\<lambda>nv. \<not> exceeds (rn_other E) C nv) ctx)
        \<and> (duplicate_strict_mode (rn_env E) \<longrightarrow>
            find_duplicated_content (rn_other E) (rn_loads E) (rn_canonical E) (rn_sha E) ctx DEFAULT_MIN_DUPLICATE_BYTES = []))"
proof -
  obtain path where path: "template_location E template_path prompt_ref = Inr path"
    using assms by (cases "template_location E template_path prompt_ref") (simp_all add: render_prompt_def)
  then have one: "(template_path = None) \<noteq> (prompt_ref = None)"
    by (auto simp: template_location_def split: option.splits)
  have present: "rn_file E path \<noteq> YamlMissing" using assms path by (auto simp: render_prompt_def split: if_splits)
  let ?enforce = "enforce_contract (rn_other E) (rn_file E) path ctx (prompt_context_strict_mode (rn_env E)) T"
  obtain rs T' where enforced: "?enforce = (Inr rs, T')"
    using assms path present by (cases ?enforce; cases "fst ?enforce") (simp_all add: render_prompt_def)
  let ?report = "report_duplicated_content (rn_other E) (rn_loads E) (rn_canonical E) (rn_sha E) (rn_env E) ctx
      (path_name path) DEFAULT_MIN_DUPLICATE_BYTES None"
  obtain fs where report: "?report = Inr fs"
    using assms path present enforced by (cases ?report) (simp_all add: render_prompt_def)
  have messages: "prompt_messages E path ctx = Inr ms"
    using assms path present enforced report by (simp add: render_prompt_def)
  then obtain d raw where d: "rn_file E path = YamlValue (PDict d)" "dict_get d (PStr ''messages'') = Some (PList raw)"
    and run: "render_messages E ctx (enumerate 0 raw) = Inr ms"
    by (auto simp: prompt_messages_def Let_def split: yaml_file.splits py.splits if_splits option.splits)
  note each = render_messages_Inr [OF run]
  have "py_strip (snd m) = snd m" if "m \<in> set ms" for m
  proof -
    from that obtain k where "k < length ms" "ms ! k = m" by (auto simp: in_set_conv_nth)
    with each have "render_message E ctx (enumerate 0 raw ! k) = Inr m" by simp
    then show ?thesis by (rule render_message_strip)
  qed
  moreover have "list_all (\<lambda>nv. \<not> exceeds (rn_other E) C nv) ctx"
    if "prompt_context_strict_mode (rn_env E)" "load_contract (rn_other E) (rn_file E) path = Inr (Some C)" for C
    using enforced that by (auto simp: enforce_contract_def Let_def records_Nil_iff split: if_splits)
  ultimately show ?thesis
    using one path d each report_Inr [OF report] by (auto simp: list_all_iff)
qed

definition demo_render :: render_env where
  "demo_render =
     \<lparr>rn_assets = demo_files, rn_root = [''r''], rn_absolute = (\<lambda>p. p),
      rn_file = (\<lambda>p. if p = ''p/t.yaml''
        then YamlValue (PDict [(PStr ''messages'',
               PList [PDict [(PStr ''role'', PStr ''user''), (PStr ''content'', PStr ''hi '')]])])
        else YamlMissing),
      rn_env = (\<lambda>_. Some ''1''), rn_other = (\<lambda>_. []), rn_loads = (\<lambda>_. None), rn_canonical = (\<lambda>_. []),
      rn_sha = (\<lambda>s. s), rn_template = (\<lambda>t ctx. Some t)\<rparr>"

theorem rendered_prompt_checked_witness:
  "\<exists>ms. fst (render_prompt demo_render (Some ''p/t.yaml'') None [] reset_contract_breach_tally) = Inr ms
     \<and> length ms = 1 \<and> list_all (\<lambda>m. py_strip (snd m) = snd m) ms"
proof -
  have "fst (render_prompt demo_render (Some ''p/t.yaml'') None [] reset_contract_breach_tally) = Inr [(''user'', ''hi'')]"
    by code_simp
  from this rendered_prompt_checked [OF this] show ?thesis by auto
qed

end
