(* ===== verification/Adversarial_Review.thy ===== *)
theory Adversarial_Review
  imports Retry Prompt_Assets
begin

text \<open>
  Standalone adversarial reviews, \<open>llm_client/workflow/adversarial_review.py\<close>: the review schema, the
  repair of annotations that a model got wrong, the registry of review profiles and the rendered report.

  A review is a record whose annotations are either raw, as they come from the model, or typed. The
  parsing of the fields of an annotation by its schema is the argument \<open>parse\<close>; the validators that the
  module adds to the schema are definitions. A review without the field \<open>profile_annotations\<close>, version
  1 of the schema, has \<open>None\<close> there.
\<close>

section \<open>Reviews\<close>

record correctness_finding =
  cf_file_path :: string
  cf_line :: int
  cf_claim :: string
  cf_severity :: string

record contract_violation =
  cv_constraint :: string
  cv_violation :: string
  cv_evidence_path :: string

record nit =
  ni_claim :: string
  ni_location :: string
  ni_suggested_fix :: string

record unverified_claim =
  uc_claim :: string
  uc_reason_unverified :: string

record annotation =
  an_annotation_id :: string
  an_kind :: string
  an_claim :: string
  an_evidence_path :: "string option"
  an_linked_finding_index :: "int option"
  an_validity_loss_without_change :: string
  an_why_rejected_or_uncertain :: string

record 'a review =
  rv_artifact_label :: string
  rv_verdict :: string
  rv_summary :: string
  rv_correctness_findings :: "correctness_finding list"
  rv_contract_violations :: "contract_violation list"
  rv_nits :: "nit list"
  rv_unverified_claims :: "unverified_claim list"
  rv_scope_drift_findings :: "string list"
  rv_reviewer_model :: string
  rv_profile_annotations :: "'a list option"

datatype review_error = AnnotationError string | AnnotationSchemaError

text \<open>The literal kinds, the bound on the index and the validator of an annotation.\<close>

definition validate_kind_contract :: "annotation \<Rightarrow> review_error + annotation" where
  "validate_kind_contract a =
     (if an_kind a = ''optimum_gap''
      then (if an_linked_finding_index a = None then Inl (AnnotationError ''optimum_gap requires linked_finding_index'')
            else if py_strip (an_validity_loss_without_change a) = []
            then Inl (AnnotationError ''optimum_gap requires validity_loss_without_change'')
            else Inr a)
      else if py_strip (an_why_rejected_or_uncertain a) = []
      then Inl (AnnotationError (an_kind a @ '' requires why_rejected_or_uncertain''))
      else Inr a)"

definition annotation_fields_ok :: "annotation \<Rightarrow> bool" where
  "annotation_fields_ok a \<longleftrightarrow>
     an_kind a \<in> set [''optimum_gap'', ''spurious'', ''uncertain''] \<and>
     (case an_linked_finding_index a of None \<Rightarrow> True | Some i \<Rightarrow> 0 \<le> i)"

definition validate_annotation ::
  "((string \<times> py) list \<Rightarrow> annotation option) \<Rightarrow> (string \<times> py) list \<Rightarrow> review_error + annotation" where
  "validate_annotation parse item =
     (case parse item of
        None \<Rightarrow> Inl AnnotationSchemaError
      | Some a \<Rightarrow> if annotation_fields_ok a then validate_kind_contract a else Inl AnnotationSchemaError)"

text \<open>\<open>model_dump()\<close> of an annotation.\<close>

definition opt_py :: "('a \<Rightarrow> py) \<Rightarrow> 'a option \<Rightarrow> py" where
  "opt_py f x = (case x of None \<Rightarrow> PNone | Some v \<Rightarrow> f v)"

definition dump_annotation :: "annotation \<Rightarrow> (string \<times> py) list" where
  "dump_annotation a =
     [(''annotation_id'', PStr (an_annotation_id a)),
      (''kind'', PStr (an_kind a)),
      (''claim'', PStr (an_claim a)),
      (''evidence_path'', opt_py PStr (an_evidence_path a)),
      (''linked_finding_index'', opt_py PInt (an_linked_finding_index a)),
      (''validity_loss_without_change'', PStr (an_validity_loss_without_change a)),
      (''why_rejected_or_uncertain'', PStr (an_why_rejected_or_uncertain a))]"

section \<open>The repair of a raw annotation\<close>

datatype raw_annotation = RawObject "(string \<times> py) list" | RawOther py

text \<open>\<open>str(item.get(k) or default)\<close>.\<close>

definition text_or :: "(py \<Rightarrow> string) \<Rightarrow> (string \<times> py) list \<Rightarrow> string \<Rightarrow> string \<Rightarrow> string" where
  "text_or other item k dflt =
     py_str other (py_or (case dict_get item k of Some v \<Rightarrow> v | None \<Rightarrow> PNone) (PStr dflt))"

definition raw_item :: "(py \<Rightarrow> string) \<Rightarrow> nat \<Rightarrow> raw_annotation \<Rightarrow> (string \<times> py) list" where
  "raw_item other index r =
     (case r of
        RawObject d \<Rightarrow> d
      | RawOther v \<Rightarrow>
          [(''annotation_id'', PStr (''annotation_'' @ nat_digits index)), (''kind'', PStr ''uncertain''),
           (''claim'', PStr (py_str other v)),
           (''why_rejected_or_uncertain'', PStr ''Malformed profile annotation was not an object.'')])"

text \<open>The three assignments that route an annotation to discussion.\<close>

definition route_to_discussion :: "string \<Rightarrow> (string \<times> py) list \<Rightarrow> (string \<times> py) list" where
  "route_to_discussion why item =
     dict_set ''why_rejected_or_uncertain'' (PStr why)
       (dict_set ''validity_loss_without_change'' (PStr [])
         (dict_set ''linked_finding_index'' PNone (dict_set ''kind'' (PStr ''uncertain'') item)))"

definition INVALID_GAP :: string where
  "INVALID_GAP =
     ''Invalid optimum_gap annotation omitted a non-negative '' @
     ''linked_finding_index or validity_loss_without_change; '' @
     ''routed to discussion instead of auto-apply.''"

text \<open>\<open>type(linked) is not int or linked < 0\<close>.\<close>

definition plain_index :: "py option \<Rightarrow> bool" where
  "plain_index v = (case v of Some (PInt n) \<Rightarrow> 0 \<le> n | _ \<Rightarrow> False)"

definition normalize_annotation ::
  "(py \<Rightarrow> string) \<Rightarrow> nat \<Rightarrow> raw_annotation \<Rightarrow> (string \<times> py) list" where
  "normalize_annotation other index r =
     (let item0 = raw_item other index r;
          item1 = dict_set ''annotation_id'' (PStr (text_or other item0 ''annotation_id'' (''annotation_'' @ nat_digits index))) item0;
          item2 = dict_set ''claim'' (PStr (text_or other item1 ''claim'' ''Malformed profile annotation'')) item1;
          kind = text_or other item2 ''kind'' ''uncertain'';
          item = dict_set ''kind'' (PStr kind) item2
      in if kind = ''optimum_gap''
         then (if \<not> plain_index (dict_get item ''linked_finding_index'') \<or>
                  py_strip (text_or other item ''validity_loss_without_change'' []) = []
               then route_to_discussion INVALID_GAP item else item)
         else if kind = ''spurious'' \<or> kind = ''uncertain''
         then (if py_strip (text_or other item ''why_rejected_or_uncertain'' []) = []
               then dict_set ''why_rejected_or_uncertain''
                      (PStr (''Reviewer omitted why_rejected_or_uncertain for '' @ kind @
                             ''; routed to discussion with repair note.'')) item
               else item)
         else route_to_discussion (''Unknown profile annotation kind '' @ py_repr_str kind @ ''; routed to discussion.'') item)"

fun validate_annotations ::
  "((string \<times> py) list \<Rightarrow> annotation option) \<Rightarrow> (string \<times> py) list list \<Rightarrow> review_error + annotation list" where
  "validate_annotations parse [] = Inr []"
| "validate_annotations parse (i # is) =
     and_then (validate_annotation parse i) (\<lambda>a. and_then (validate_annotations parse is) (\<lambda>as. Inr (a # as)))"

definition with_annotations :: "'b list option \<Rightarrow> 'a review \<Rightarrow> 'b review" where
  "with_annotations as r =
     \<lparr>rv_artifact_label = rv_artifact_label r, rv_verdict = rv_verdict r, rv_summary = rv_summary r,
      rv_correctness_findings = rv_correctness_findings r, rv_contract_violations = rv_contract_violations r,
      rv_nits = rv_nits r, rv_unverified_claims = rv_unverified_claims r,
      rv_scope_drift_findings = rv_scope_drift_findings r, rv_reviewer_model = rv_reviewer_model r,
      rv_profile_annotations = as\<rparr>"

definition normalize_adversarial_review_response ::
  "(py \<Rightarrow> string) \<Rightarrow> ((string \<times> py) list \<Rightarrow> annotation option) \<Rightarrow> raw_annotation review
     \<Rightarrow> review_error + annotation review" where
  "normalize_adversarial_review_response other parse r =
     (case rv_profile_annotations r of
        None \<Rightarrow> Inr (with_annotations None r)
      | Some raws \<Rightarrow>
          and_then (validate_annotations parse (map (\<lambda>(i, raw). normalize_annotation other i raw) (enumerate 1 raws)))
            (\<lambda>as. Inr (with_annotations (Some as) r)))"

text \<open>A typed review as a payload: \<open>model_dump()\<close> turns its annotations into objects.\<close>

definition as_raw :: "annotation review \<Rightarrow> raw_annotation review" where
  "as_raw r = with_annotations (map_option (map (\<lambda>a. RawObject (dump_annotation a))) (rv_profile_annotations r)) r"

section \<open>Profiles\<close>

record review_profile =
  rp_name :: string
  rp_prompt_ref :: string
  rp_system_addendum :: string
  rp_user_addendum :: string
  rp_requires_schema_v2 :: bool

type_synonym profile_registry = "(string \<times> review_profile) list"

datatype profile_failure = ProfileNameEmpty | ProfilePromptRef asset_error | ProfileTaken string
  | ProfileUnknown string "string list" | UnknownSchemaVersion string | BadSchemaRequest | ProfileNeedsV2 string

definition register_review_profile :: "review_profile \<Rightarrow> profile_registry \<Rightarrow> profile_failure + profile_registry" where
  "register_review_profile p R =
     (if py_strip (rp_name p) = [] then Inl ProfileNameEmpty
      else case parse_prompt_ref (rp_prompt_ref p) of
        Inl e \<Rightarrow> Inl (ProfilePromptRef e)
      | Inr _ \<Rightarrow> if dict_has R (rp_name p) then Inl (ProfileTaken (rp_name p)) else Inr (dict_set (rp_name p) p R))"

definition list_review_profiles :: "profile_registry \<Rightarrow> string list" where
  "list_review_profiles R = sort (map fst R)"

definition get_review_profile :: "string \<Rightarrow> profile_registry \<Rightarrow> profile_failure + review_profile" where
  "get_review_profile name R =
     (case dict_get R name of Some p \<Rightarrow> Inr p | None \<Rightarrow> Inl (ProfileUnknown name (list_review_profiles R)))"

definition resolve_review_schema_version :: "review_profile \<Rightarrow> string \<Rightarrow> profile_failure + string" where
  "resolve_review_schema_version p requested =
     (if requested = ''auto'' then Inr (if rp_requires_schema_v2 p then ''2'' else ''1'')
      else if requested \<noteq> ''1'' \<and> requested \<noteq> ''2'' then Inl BadSchemaRequest
      else if rp_requires_schema_v2 p \<and> requested = ''1'' then Inl (ProfileNeedsV2 (rp_name p))
      else Inr requested)"

definition builtin_profiles :: "review_profile list" where
  "builtin_profiles =
     [\<lparr>rp_name = ''generic'', rp_prompt_ref = ''shared.review.adversarial_artifact.generic@1'',
        rp_system_addendum = [], rp_user_addendum = [], rp_requires_schema_v2 = False\<rparr>,
      \<lparr>rp_name = ''quality_optimal_whitepaper'',
        rp_prompt_ref = ''shared.review.adversarial_artifact.quality_optimal_whitepaper@1'',
        rp_system_addendum = [], rp_user_addendum = [], rp_requires_schema_v2 = True\<rparr>]"

definition register_builtins :: "profile_registry \<Rightarrow> profile_failure + profile_registry" where
  "register_builtins R =
     fold (\<lambda>p m. and_then m (\<lambda>R. if dict_has R (rp_name p) then Inr R else register_review_profile p R))
       builtin_profiles (Inr R)"

section \<open>The report\<close>

text \<open>The first annotation of each index, in order, and the later ones of the same index.\<close>

fun split_optimum ::
  "annotation list \<Rightarrow> (int \<times> annotation) list \<times> annotation list \<Rightarrow> (int \<times> annotation) list \<times> annotation list" where
  "split_optimum [] st = st"
| "split_optimum (a # as) (by_index, dups) =
     (case an_linked_finding_index a of
        None \<Rightarrow> split_optimum as (by_index, dups)
      | Some i \<Rightarrow>
          if an_kind a \<noteq> ''optimum_gap'' then split_optimum as (by_index, dups)
          else if dict_has by_index i then split_optimum as (by_index, dups @ [a])
          else split_optimum as (dict_set i a by_index, dups))"

definition bullet :: "string \<Rightarrow> string \<Rightarrow> string" where
  "bullet claim reason = ''- '' @ claim @ reason"

definition indexed_finding :: "annotation review \<Rightarrow> int \<Rightarrow> correctness_finding option" where
  "indexed_finding r i =
     (if i < int (length (rv_correctness_findings r)) then Some (rv_correctness_findings r ! nat i) else None)"

definition render_quality_optimal_sections :: "annotation review \<Rightarrow> string" where
  "render_quality_optimal_sections r =
     (let annotations = (case rv_profile_annotations r of Some as \<Rightarrow> as | None \<Rightarrow> []);
          (by_index, duplicate) = split_optimum annotations ([], []);
          findings = rv_correctness_findings r;
          gaps = map (\<lambda>(i, a). (indexed_finding r i, a)) by_index
      in py_join [CHR 0x0A]
        ([''Verdict: '' @ rv_verdict r, [], ''[DEFECT]'']
         @ map (\<lambda>v. ''- '' @ cv_constraint v @ '': '' @ cv_violation v) (rv_contract_violations r)
         @ List.map_filter (\<lambda>(i, f). if cf_severity f = ''high'' \<and> \<not> dict_has by_index (int i)
               then Some (''- '' @ cf_severity f @ '': '' @ cf_claim f) else None) (enumerate 0 findings)
         @ [[], ''[OPTIMUM-GAP]'']
         @ List.map_filter (\<lambda>(f, a). case f of
               Some f \<Rightarrow> if cf_severity f = ''high''
                 then Some (bullet (cf_claim f) ('' What is wrong without it: '' @ an_validity_loss_without_change a)) else None
             | None \<Rightarrow> None) gaps
         @ [[], ''[SPURIOUS]'']
         @ map (\<lambda>a. bullet (an_claim a) ('' Rejected because: '' @ an_why_rejected_or_uncertain a))
             (filter (\<lambda>a. an_kind a = ''spurious'') annotations)
         @ [[], ''[UNCERTAIN]'']
         @ map (\<lambda>u. ''- '' @ uc_claim u @ '': '' @ uc_reason_unverified u) (rv_unverified_claims r)
         @ map (\<lambda>a. bullet (an_claim a) ('' Uncertain because: '' @ an_why_rejected_or_uncertain a))
             (filter (\<lambda>a. an_kind a = ''uncertain'') annotations)
         @ List.map_filter (\<lambda>(f, a). case f of
               Some f \<Rightarrow> if cf_severity f = ''high'' then None
                 else Some (bullet (an_claim a) '' Uncertain because: optimum_gap links to a non-high-severity correctness finding.'')
             | None \<Rightarrow> None) gaps
         @ map (\<lambda>f. bullet (cf_claim f) '' Uncertain because: non-high-severity correctness finding preserved for discussion.'')
             (filter (\<lambda>f. cf_severity f \<noteq> ''high'') findings)
         @ map (\<lambda>(f, a). bullet (an_claim a) '' Uncertain because: optimum_gap linked_finding_index is out of range.'')
             (filter (\<lambda>(f, a). f = None) gaps)
         @ map (\<lambda>a. bullet (an_claim a) '' Uncertain because: duplicate optimum_gap linked_finding_index.'') duplicate))"

section \<open>Repair\<close>

text \<open>What the repair does to an annotation with typed fields.\<close>

definition to_discussion :: "string \<Rightarrow> annotation \<Rightarrow> annotation" where
  "to_discussion why a = a\<lparr>an_kind := ''uncertain'', an_linked_finding_index := None,
     an_validity_loss_without_change := [], an_why_rejected_or_uncertain := why\<rparr>"

definition valid_gap :: "annotation \<Rightarrow> bool" where
  "valid_gap a \<longleftrightarrow> (case an_linked_finding_index a of None \<Rightarrow> False | Some i \<Rightarrow> 0 \<le> i) \<and>
     py_strip (an_validity_loss_without_change a) \<noteq> []"

definition named :: "nat \<Rightarrow> annotation \<Rightarrow> annotation" where
  "named index a = a\<lparr>
     an_annotation_id := (if an_annotation_id a = [] then ''annotation_'' @ nat_digits index else an_annotation_id a),
     an_claim := (if an_claim a = [] then ''Malformed profile annotation'' else an_claim a),
     an_kind := (if an_kind a = [] then ''uncertain'' else an_kind a)\<rparr>"

definition repaired :: "nat \<Rightarrow> annotation \<Rightarrow> annotation" where
  "repaired index a =
     (let b = named index a in
      if an_kind b = ''optimum_gap'' then (if valid_gap b then b else to_discussion INVALID_GAP b)
      else if an_kind b = ''spurious'' \<or> an_kind b = ''uncertain''
      then (if py_strip (an_why_rejected_or_uncertain b) = []
            then b\<lparr>an_why_rejected_or_uncertain := ''Reviewer omitted why_rejected_or_uncertain for '' @ an_kind b @
                    ''; routed to discussion with repair note.''\<rparr> else b)
      else to_discussion (''Unknown profile annotation kind '' @ py_repr_str (an_kind b) @ ''; routed to discussion.'') b)"

text \<open>The one mistake that the repair leaves: a negative index on an annotation that links to nothing.\<close>

definition stray_link :: "annotation \<Rightarrow> bool" where
  "stray_link a \<longleftrightarrow> (an_kind a = ''spurious'' \<or> an_kind a = ''uncertain'' \<or> an_kind a = []) \<and>
     (case an_linked_finding_index a of None \<Rightarrow> False | Some i \<Rightarrow> i < 0)"

lemma dump_get [simp]:
  "dict_get (dump_annotation a) ''annotation_id'' = Some (PStr (an_annotation_id a))"
  "dict_get (dump_annotation a) ''kind'' = Some (PStr (an_kind a))"
  "dict_get (dump_annotation a) ''claim'' = Some (PStr (an_claim a))"
  "dict_get (dump_annotation a) ''linked_finding_index'' = Some (opt_py PInt (an_linked_finding_index a))"
  "dict_get (dump_annotation a) ''validity_loss_without_change'' = Some (PStr (an_validity_loss_without_change a))"
  "dict_get (dump_annotation a) ''why_rejected_or_uncertain'' = Some (PStr (an_why_rejected_or_uncertain a))"
  by (simp_all add: dump_annotation_def)

lemma dump_set [simp]:
  "dict_set ''annotation_id'' (PStr s) (dump_annotation a) = dump_annotation (a\<lparr>an_annotation_id := s\<rparr>)"
  "dict_set ''kind'' (PStr s) (dump_annotation a) = dump_annotation (a\<lparr>an_kind := s\<rparr>)"
  "dict_set ''claim'' (PStr s) (dump_annotation a) = dump_annotation (a\<lparr>an_claim := s\<rparr>)"
  "dict_set ''linked_finding_index'' PNone (dump_annotation a) = dump_annotation (a\<lparr>an_linked_finding_index := None\<rparr>)"
  "dict_set ''validity_loss_without_change'' (PStr s) (dump_annotation a) =
     dump_annotation (a\<lparr>an_validity_loss_without_change := s\<rparr>)"
  "dict_set ''why_rejected_or_uncertain'' (PStr s) (dump_annotation a) =
     dump_annotation (a\<lparr>an_why_rejected_or_uncertain := s\<rparr>)"
  by (simp_all add: dump_annotation_def opt_py_def)

lemma text_or_str: "dict_get d k = Some (PStr s) \<Longrightarrow> text_or other d k dflt = (if s = [] then dflt else s)"
  by (simp add: text_or_def py_or_def)

lemma plain_index_dump: "plain_index (Some (opt_py PInt i)) = (case i of None \<Rightarrow> False | Some n \<Rightarrow> 0 \<le> n)"
  by (simp add: plain_index_def opt_py_def split: option.split)

lemma normalize_dump:
  "normalize_annotation other index (RawObject (dump_annotation a)) = dump_annotation (repaired index a)"
proof -
  let ?b = "named index a"
  have id: "text_or other (dump_annotation x) ''annotation_id'' d = (if an_annotation_id x = [] then d else an_annotation_id x)"
    and claim: "text_or other (dump_annotation x) ''claim'' d = (if an_claim x = [] then d else an_claim x)"
    and kind: "text_or other (dump_annotation x) ''kind'' d = (if an_kind x = [] then d else an_kind x)"
    and loss: "text_or other (dump_annotation x) ''validity_loss_without_change'' [] = an_validity_loss_without_change x"
    and why: "text_or other (dump_annotation x) ''why_rejected_or_uncertain'' [] = an_why_rejected_or_uncertain x"
    for x d
    by (simp_all add: text_or_str)
  have b: "dump_annotation ?b = dict_set ''kind'' (PStr (an_kind ?b))
      (dict_set ''claim'' (PStr (an_claim ?b)) (dict_set ''annotation_id'' (PStr (an_annotation_id ?b)) (dump_annotation a)))"
    by (simp add: named_def)
  show ?thesis
    unfolding normalize_annotation_def raw_item_def raw_annotation.case Let_def repaired_def id claim kind dump_set
    by (simp add: named_def loss why plain_index_dump valid_gap_def route_to_discussion_def to_discussion_def)
qed

lemma enumerate_map: "map (\<lambda>(i, x). f i x) (enumerate n (map g xs)) = map (\<lambda>(i, x). f i (g x)) (enumerate n xs)"
  by (induction xs arbitrary: n) auto

lemma discussion_valid:
  assumes "py_strip why \<noteq> []"
  shows "annotation_fields_ok (to_discussion why b)" "validate_kind_contract (to_discussion why b) = Inr (to_discussion why b)"
  using assms by (simp_all add: annotation_fields_ok_def validate_kind_contract_def to_discussion_def)

lemma reasons_given:
  "py_strip INVALID_GAP \<noteq> []" "py_strip (''Unknown profile annotation kind '' @ s) \<noteq> []"
  "py_strip (''Reviewer omitted why_rejected_or_uncertain for '' @ s) \<noteq> []"
  unfolding INVALID_GAP_def append_Cons by (rule py_strip_Cons, simp add: py_isspace_def)+

lemma repaired_cases:
  fixes i a
  defines "b \<equiv> named i a"
  obtains (gap) "an_kind b = ''optimum_gap''" "valid_gap b" "repaired i a = b"
  | (bad_gap) "an_kind b = ''optimum_gap''" "\<not> valid_gap b" "repaired i a = to_discussion INVALID_GAP b"
  | (explained) "an_kind b = ''spurious'' \<or> an_kind b = ''uncertain''" "py_strip (an_why_rejected_or_uncertain b) \<noteq> []"
      "repaired i a = b"
  | (omitted) "an_kind b = ''spurious'' \<or> an_kind b = ''uncertain''"
      "repaired i a = b\<lparr>an_why_rejected_or_uncertain := ''Reviewer omitted why_rejected_or_uncertain for '' @ an_kind b @
                    ''; routed to discussion with repair note.''\<rparr>"
  | (unknown) "an_kind b \<noteq> ''optimum_gap''" "an_kind b \<noteq> ''spurious''" "an_kind b \<noteq> ''uncertain''"
      "repaired i a = to_discussion (''Unknown profile annotation kind '' @ py_repr_str (an_kind b) @ ''; routed to discussion.'') b"
proof -
  have kinds: "''spurious'' \<noteq> ''optimum_gap''" "''uncertain'' \<noteq> ''optimum_gap''" by simp_all
  consider "an_kind b = ''optimum_gap''" "valid_gap b" | "an_kind b = ''optimum_gap''" "\<not> valid_gap b"
    | "an_kind b = ''spurious'' \<or> an_kind b = ''uncertain''" "py_strip (an_why_rejected_or_uncertain b) \<noteq> []"
    | "an_kind b = ''spurious'' \<or> an_kind b = ''uncertain''" "py_strip (an_why_rejected_or_uncertain b) = []"
    | "an_kind b \<noteq> ''optimum_gap''" "an_kind b \<noteq> ''spurious''" "an_kind b \<noteq> ''uncertain''" by blast
  then show thesis
  proof cases
    case 1
    then show ?thesis by (intro gap) (simp_all add: repaired_def b_def Let_def)
  next
    case 2
    then show ?thesis by (intro bad_gap) (simp_all add: repaired_def b_def Let_def)
  next
    case 3
    then have "an_kind b \<noteq> ''optimum_gap''" using kinds by metis
    with 3 show ?thesis by (intro explained) (simp_all add: repaired_def b_def Let_def)
  next
    case 4
    then have "an_kind b \<noteq> ''optimum_gap''" using kinds by metis
    with 4 show ?thesis by (intro omitted) (simp_all add: repaired_def b_def Let_def)
  next
    case 5
    then show ?thesis by (intro unknown) (simp_all add: repaired_def b_def Let_def)
  qed
qed

lemma named_link [simp]: "an_linked_finding_index (named i a) = an_linked_finding_index a"
  by (simp add: named_def)

lemma stray_named:
  "stray_link a \<longleftrightarrow> (an_kind (named i a) = ''spurious'' \<or> an_kind (named i a) = ''uncertain'') \<and>
     (case an_linked_finding_index a of None \<Rightarrow> False | Some i \<Rightarrow> i < 0)"
  by (auto simp: stray_link_def named_def)

lemma repaired_valid:
  assumes "\<not> stray_link a"
  shows "annotation_fields_ok (repaired i a) \<and> validate_kind_contract (repaired i a) = Inr (repaired i a)"
proof -
  have link: "case an_linked_finding_index a of None \<Rightarrow> True | Some i \<Rightarrow> 0 \<le> i"
    if "an_kind (named i a) = ''spurious'' \<or> an_kind (named i a) = ''uncertain''"
    using assms that unfolding stray_named [of a i] by (auto split: option.splits)
  show ?thesis
  proof (cases rule: repaired_cases [of i a])
    case gap
    then show ?thesis
      by (auto simp: annotation_fields_ok_def validate_kind_contract_def valid_gap_def split: option.splits)
  next
    case bad_gap
    show ?thesis unfolding bad_gap(3) by (intro conjI discussion_valid reasons_given)
  next
    case explained
    then show ?thesis using link [OF explained(1)]
      by (elim disjE) (simp_all add: annotation_fields_ok_def validate_kind_contract_def)
  next
    case omitted
    have why: "py_strip (''Reviewer omitted why_rejected_or_uncertain for '' @ an_kind (named i a) @ s) \<noteq> []" for s
      by (rule reasons_given(3))
    show ?thesis using link [OF omitted(1)] omitted(1) why unfolding omitted(2)
      by (elim disjE) (simp_all only: annotation_fields_ok_def validate_kind_contract_def annotation.simps, simp_all)
  next
    case unknown
    show ?thesis unfolding unknown(4) by (intro conjI discussion_valid reasons_given)
  qed
qed

lemma repaired_stray:
  assumes "stray_link a"
  shows "\<not> annotation_fields_ok (repaired i a)"
proof -
  have kind: "an_kind (named i a) = ''spurious'' \<or> an_kind (named i a) = ''uncertain''"
    and link: "\<not> (case an_linked_finding_index a of None \<Rightarrow> True | Some i \<Rightarrow> 0 \<le> i)"
    using assms unfolding stray_named [of a i] by (auto split: option.splits)
  have "an_linked_finding_index (repaired i a) = an_linked_finding_index a"
    using kind by (cases rule: repaired_cases [of i a]) simp_all
  with link show ?thesis by (simp add: annotation_fields_ok_def)
qed

lemma validate_repaired:
  assumes "\<And>a. parse (dump_annotation a) = Some a"
  shows "validate_annotations parse (map (\<lambda>(i, a). dump_annotation (repaired i a)) ias) =
    (if list_ex (\<lambda>(i, a). stray_link a) ias then Inl AnnotationSchemaError
     else Inr (map (\<lambda>(i, a). repaired i a) ias))"
proof (induction ias)
  case (Cons ia ias)
  obtain i a where ia: "ia = (i, a)" by (cases ia)
  show ?case
  proof (cases "stray_link a")
    case True
    then show ?thesis using repaired_stray [OF True, of i] by (simp add: ia validate_annotation_def assms)
  next
    case False
    then show ?thesis
      using Cons.IH repaired_valid [OF False, of i] by (simp add: ia validate_annotation_def assms)
  qed
qed simp

lemma list_ex_enumerate: "list_ex (\<lambda>(i, x). P x) (enumerate n xs) = list_ex P xs"
  by (induction xs arbitrary: n) auto

lemma repair_exact:
  assumes "\<And>a. parse (dump_annotation a) = Some a"
    and "rv_profile_annotations r = Some (map (\<lambda>a. RawObject (dump_annotation a)) as)"
  shows "normalize_adversarial_review_response other parse r =
    (if list_ex stray_link as then Inl AnnotationSchemaError
     else Inr (with_annotations (Some (map (\<lambda>(i, a). repaired i a) (enumerate 1 as))) r))"
proof -
  have "map (\<lambda>(i, raw). normalize_annotation other i raw) (enumerate 1 (map (\<lambda>a. RawObject (dump_annotation a)) as)) =
      map (\<lambda>(i, a). dump_annotation (repaired i a)) (enumerate 1 as)"
    unfolding enumerate_map by (simp add: normalize_dump)
  then show ?thesis
    using validate_repaired [OF assms(1), of "enumerate 1 as"]
    by (simp add: normalize_adversarial_review_response_def assms(2) list_ex_enumerate)
qed

section \<open>The repair of any raw review\<close>

text \<open>
  What the schema of an annotation does with an object, as the documentation of its fields has it: a text
  field holds the string that is given for it, a missing reason is the empty string, a given index is
  kept, and a missing or null one is none. An object with the three required texts and no field of a
  foreign name or type is read.
\<close>

definition ANNOTATION_FIELDS :: "string list" where
  "ANNOTATION_FIELDS =
     [''annotation_id'', ''kind'', ''claim'', ''evidence_path'', ''linked_finding_index'',
      ''validity_loss_without_change'', ''why_rejected_or_uncertain'']"

definition reads_fields :: "(string \<times> py) list \<Rightarrow> annotation \<Rightarrow> bool" where
  "reads_fields d a \<longleftrightarrow>
     dict_get d ''annotation_id'' = Some (PStr (an_annotation_id a)) \<and>
     dict_get d ''kind'' = Some (PStr (an_kind a)) \<and>
     dict_get d ''claim'' = Some (PStr (an_claim a)) \<and>
     (case dict_get d ''validity_loss_without_change'' of
        None \<Rightarrow> an_validity_loss_without_change a = [] | Some v \<Rightarrow> v = PStr (an_validity_loss_without_change a)) \<and>
     (case dict_get d ''why_rejected_or_uncertain'' of
        None \<Rightarrow> an_why_rejected_or_uncertain a = [] | Some v \<Rightarrow> v = PStr (an_why_rejected_or_uncertain a)) \<and>
     (case dict_get d ''linked_finding_index'' of
        None \<Rightarrow> an_linked_finding_index a = None
      | Some PNone \<Rightarrow> an_linked_finding_index a = None
      | Some (PInt n) \<Rightarrow> an_linked_finding_index a = Some n
      | _ \<Rightarrow> True)"

fun is_text :: "py \<Rightarrow> bool" where
  "is_text (PStr _) = True"
| "is_text _ = False"

definition plain_fields :: "(string \<times> py) list \<Rightarrow> bool" where
  "plain_fields d \<longleftrightarrow>
     fst ` set d \<subseteq> set ANNOTATION_FIELDS \<and>
     (case dict_get d ''evidence_path'' of None \<Rightarrow> True | Some v \<Rightarrow> v = PNone \<or> is_text v) \<and>
     (case dict_get d ''linked_finding_index'' of
        None \<Rightarrow> True | Some PNone \<Rightarrow> True | Some (PInt _) \<Rightarrow> True | _ \<Rightarrow> False) \<and>
     (case dict_get d ''validity_loss_without_change'' of None \<Rightarrow> True | Some v \<Rightarrow> is_text v) \<and>
     (case dict_get d ''why_rejected_or_uncertain'' of None \<Rightarrow> True | Some v \<Rightarrow> is_text v)"

definition has_text :: "(string \<times> py) list \<Rightarrow> string \<Rightarrow> bool" where
  "has_text d k \<longleftrightarrow> (case dict_get d k of None \<Rightarrow> False | Some v \<Rightarrow> is_text v)"

definition annotation_schema :: "((string \<times> py) list \<Rightarrow> annotation option) \<Rightarrow> bool" where
  "annotation_schema parse \<longleftrightarrow>
     (\<forall>d. case parse d of
        Some a \<Rightarrow> reads_fields d a
      | None \<Rightarrow> \<not> (plain_fields d \<and> has_text d ''annotation_id'' \<and> has_text d ''kind'' \<and> has_text d ''claim''))"

text \<open>The schema refuses an object that it cannot read, and one with a negative index.\<close>

definition schema_refuses :: "((string \<times> py) list \<Rightarrow> annotation option) \<Rightarrow> (string \<times> py) list \<Rightarrow> bool" where
  "schema_refuses parse d \<longleftrightarrow>
     (case parse d of None \<Rightarrow> True
      | Some a \<Rightarrow> (case an_linked_finding_index a of None \<Rightarrow> False | Some n \<Rightarrow> n < 0))"

text \<open>The two defects of a raw annotation that the repair does not mend.\<close>

definition unrepaired :: "raw_annotation \<Rightarrow> bool" where
  "unrepaired raw \<longleftrightarrow>
     (case raw of
        RawOther _ \<Rightarrow> False
      | RawObject d \<Rightarrow> \<not> plain_fields d \<or>
          (case dict_get d ''linked_finding_index'' of Some (PInt n) \<Rightarrow> n < 0 | _ \<Rightarrow> False))"

text \<open>What becomes of the raw annotation number \<open>i\<close>.\<close>

definition settles :: "(py \<Rightarrow> string) \<Rightarrow> nat \<times> raw_annotation \<Rightarrow> annotation \<Rightarrow> bool" where
  "settles other iraw b \<longleftrightarrow>
     (let d = raw_item other (fst iraw) (snd iraw);
          kind = text_or other d ''kind'' ''uncertain'';
          loss = text_or other d ''validity_loss_without_change'' [];
          why = text_or other d ''why_rejected_or_uncertain'' []
      in an_annotation_id b = text_or other d ''annotation_id'' (''annotation_'' @ nat_digits (fst iraw)) \<and>
         an_claim b = text_or other d ''claim'' ''Malformed profile annotation'' \<and>
         (if kind = ''optimum_gap'' \<and> plain_index (dict_get d ''linked_finding_index'') \<and> py_strip loss \<noteq> []
          then an_kind b = ''optimum_gap'' \<and> an_validity_loss_without_change b = loss \<and>
            map_option PInt (an_linked_finding_index b) = dict_get d ''linked_finding_index''
          else if kind = ''spurious'' \<or> kind = ''uncertain''
          then an_kind b = kind \<and>
            an_why_rejected_or_uncertain b =
              (if py_strip why = []
               then ''Reviewer omitted why_rejected_or_uncertain for '' @ kind @ ''; routed to discussion with repair note.''
               else why)
          else an_kind b = ''uncertain'' \<and> an_linked_finding_index b = None \<and>
            an_validity_loss_without_change b = [] \<and>
            an_why_rejected_or_uncertain b =
              (if kind = ''optimum_gap'' then INVALID_GAP
               else ''Unknown profile annotation kind '' @ py_repr_str kind @ ''; routed to discussion.'')))"

text \<open>The normalised object of a raw one, branch by branch.\<close>

definition named_item :: "(py \<Rightarrow> string) \<Rightarrow> nat \<Rightarrow> (string \<times> py) list \<Rightarrow> (string \<times> py) list" where
  "named_item other i d =
     dict_set ''kind'' (PStr (text_or other d ''kind'' ''uncertain''))
       (dict_set ''claim'' (PStr (text_or other d ''claim'' ''Malformed profile annotation''))
         (dict_set ''annotation_id'' (PStr (text_or other d ''annotation_id'' (''annotation_'' @ nat_digits i))) d))"

lemma text_or_set: "text_or other (dict_set k v d) k' dflt =
    (if k' = k then py_str other (py_or v (PStr dflt)) else text_or other d k' dflt)"
  by (simp add: text_or_def dict_get_set)

lemma normalize_named:
  fixes other i raw
  defines "d \<equiv> raw_item other i raw"
  defines "kind \<equiv> text_or other d ''kind'' ''uncertain''"
  shows "normalize_annotation other i raw =
    (if kind = ''optimum_gap''
     then (if \<not> plain_index (dict_get d ''linked_finding_index'') \<or>
              py_strip (text_or other d ''validity_loss_without_change'' []) = []
           then route_to_discussion INVALID_GAP (named_item other i d) else named_item other i d)
     else if kind = ''spurious'' \<or> kind = ''uncertain''
     then (if py_strip (text_or other d ''why_rejected_or_uncertain'' []) = []
           then dict_set ''why_rejected_or_uncertain''
                  (PStr (''Reviewer omitted why_rejected_or_uncertain for '' @ kind @
                         ''; routed to discussion with repair note.'')) (named_item other i d)
           else named_item other i d)
     else route_to_discussion (''Unknown profile annotation kind '' @ py_repr_str kind @ ''; routed to discussion.'')
            (named_item other i d))"
  unfolding normalize_annotation_def named_item_def Let_def kind_def d_def
  by (simp add: text_or_set dict_get_set)

lemma named_get:
  "dict_get (named_item other i d) ''annotation_id'' =
     Some (PStr (text_or other d ''annotation_id'' (''annotation_'' @ nat_digits i)))"
  "dict_get (named_item other i d) ''claim'' = Some (PStr (text_or other d ''claim'' ''Malformed profile annotation''))"
  "dict_get (named_item other i d) ''kind'' = Some (PStr (text_or other d ''kind'' ''uncertain''))"
  "k \<notin> {''annotation_id'', ''claim'', ''kind''} \<Longrightarrow> dict_get (named_item other i d) k = dict_get d k"
  by (simp_all add: named_item_def dict_get_set)

lemma routed_get:
  "dict_get (route_to_discussion why d) ''kind'' = Some (PStr ''uncertain'')"
  "dict_get (route_to_discussion why d) ''linked_finding_index'' = Some PNone"
  "dict_get (route_to_discussion why d) ''validity_loss_without_change'' = Some (PStr [])"
  "dict_get (route_to_discussion why d) ''why_rejected_or_uncertain'' = Some (PStr why)"
  "k \<notin> {''kind'', ''linked_finding_index'', ''validity_loss_without_change'', ''why_rejected_or_uncertain''} \<Longrightarrow>
     dict_get (route_to_discussion why d) k = dict_get d k"
  by (simp_all add: route_to_discussion_def dict_get_set)

text \<open>A text that is read from an object is the one that the repair looked at.\<close>

lemma read_text:
  assumes "case dict_get d k of None \<Rightarrow> x = [] | Some v \<Rightarrow> v = PStr x"
  shows "text_or other d k [] = x"
  using assms by (auto simp: text_or_def py_or_def split: option.splits)

lemma reads_why: "reads_fields (dict_set ''why_rejected_or_uncertain'' (PStr w) d) b \<Longrightarrow> an_why_rejected_or_uncertain b = w"
  by (simp add: reads_fields_def dict_get_set)

lemma reads_routed:
  assumes "reads_fields (route_to_discussion why (named_item other i d)) b"
  shows "an_annotation_id b = text_or other d ''annotation_id'' (''annotation_'' @ nat_digits i)"
    "an_claim b = text_or other d ''claim'' ''Malformed profile annotation''" "an_kind b = ''uncertain''"
    "an_linked_finding_index b = None" "an_validity_loss_without_change b = []" "an_why_rejected_or_uncertain b = why"
  using assms by (simp_all add: reads_fields_def named_get routed_get)

lemma settled_by_reading:
  assumes "reads_fields (normalize_annotation other i raw) b"
  shows "settles other (i, raw) b"
proof -
  let ?d = "raw_item other i raw"
  let ?kind = "text_or other ?d ''kind'' ''uncertain''"
  have kinds: "''spurious'' \<noteq> ''optimum_gap''" "''uncertain'' \<noteq> ''optimum_gap''" by simp_all
  consider (gap) "?kind = ''optimum_gap''" "plain_index (dict_get ?d ''linked_finding_index'')"
      "py_strip (text_or other ?d ''validity_loss_without_change'' []) \<noteq> []"
    | (bad) "?kind = ''optimum_gap''" "\<not> plain_index (dict_get ?d ''linked_finding_index'') \<or>
      py_strip (text_or other ?d ''validity_loss_without_change'' []) = []"
    | (said) "?kind = ''spurious'' \<or> ?kind = ''uncertain''" "py_strip (text_or other ?d ''why_rejected_or_uncertain'' []) \<noteq> []"
    | (unsaid) "?kind = ''spurious'' \<or> ?kind = ''uncertain''" "py_strip (text_or other ?d ''why_rejected_or_uncertain'' []) = []"
    | (odd) "?kind \<noteq> ''optimum_gap''" "\<not> (?kind = ''spurious'' \<or> ?kind = ''uncertain'')" by blast
  then show ?thesis
  proof cases
    case gap
    then have reads: "reads_fields (named_item other i ?d) b" using assms by (simp add: normalize_named)
    moreover from gap(2) obtain n where "dict_get ?d ''linked_finding_index'' = Some (PInt n)"
      by (auto simp: plain_index_def split: option.splits py.splits)
    moreover have "text_or other ?d ''validity_loss_without_change'' [] = an_validity_loss_without_change b"
      by (rule read_text) (use reads in \<open>simp add: reads_fields_def named_get\<close>)
    ultimately show ?thesis using gap
      by (simp add: settles_def Let_def) (simp add: reads_fields_def named_get)
  next
    case bad
    then have reads: "reads_fields (route_to_discussion INVALID_GAP (named_item other i ?d)) b"
      using assms by (auto simp: normalize_named)
    have "\<not> (?kind = ''optimum_gap'' \<and> plain_index (dict_get ?d ''linked_finding_index'') \<and>
        py_strip (text_or other ?d ''validity_loss_without_change'' []) \<noteq> [])" using bad by blast
    moreover have "\<not> (?kind = ''spurious'' \<or> ?kind = ''uncertain'')" using bad kinds by metis
    ultimately show ?thesis unfolding settles_def Let_def fst_conv snd_conv
      by (simp only: if_False if_True reads_routed [OF reads] bad(1) simp_thms)
  next
    case said
    then have ng: "?kind \<noteq> ''optimum_gap''" using kinds by metis
    have reads: "reads_fields (named_item other i ?d) b" using assms said ng by (simp add: normalize_named)
    have "text_or other ?d ''why_rejected_or_uncertain'' [] = an_why_rejected_or_uncertain b"
      by (rule read_text) (use reads in \<open>simp add: reads_fields_def named_get\<close>)
    with reads said ng show ?thesis by (simp add: settles_def Let_def) (simp add: reads_fields_def named_get)
  next
    case unsaid
    then have ng: "?kind \<noteq> ''optimum_gap''" using kinds by metis
    let ?why = "''Reviewer omitted why_rejected_or_uncertain for '' @ ?kind @ ''; routed to discussion with repair note.''"
    have reads: "reads_fields (dict_set ''why_rejected_or_uncertain'' (PStr ?why) (named_item other i ?d)) b"
      using assms unsaid ng by (simp only: normalize_named if_False if_True simp_thms)
    have texts: "an_annotation_id b = text_or other ?d ''annotation_id'' (''annotation_'' @ nat_digits i)"
      "an_claim b = text_or other ?d ''claim'' ''Malformed profile annotation''" "an_kind b = ?kind"
      using reads by (simp_all add: reads_fields_def dict_get_set named_get)
    have why: "an_why_rejected_or_uncertain b = ?why"
      by (rule reads_why [OF reads])
    have "\<not> (?kind = ''optimum_gap'' \<and> plain_index (dict_get ?d ''linked_finding_index'') \<and>
        py_strip (text_or other ?d ''validity_loss_without_change'' []) \<noteq> [])" using ng by blast
    then show ?thesis using texts why unsaid
      unfolding settles_def Let_def fst_conv snd_conv by (simp only: if_False if_True simp_thms)
  next
    case odd
    then have reads: "reads_fields (route_to_discussion
        (''Unknown profile annotation kind '' @ py_repr_str ?kind @ ''; routed to discussion.'') (named_item other i ?d)) b"
      using assms by (simp add: normalize_named)
    have "\<not> (?kind = ''optimum_gap'' \<and> plain_index (dict_get ?d ''linked_finding_index'') \<and>
        py_strip (text_or other ?d ''validity_loss_without_change'' []) \<noteq> [])" using odd(1) by blast
    then show ?thesis unfolding settles_def Let_def fst_conv snd_conv
      by (simp only: if_False if_not_P [OF odd(1)] if_not_P [OF odd(2)] reads_routed [OF reads] simp_thms)
  qed
qed

text \<open>A settled annotation satisfies the validator of the schema.\<close>

lemma settled_valid:
  assumes "settles other (i, raw) b"
  shows "an_kind b \<in> set [''optimum_gap'', ''spurious'', ''uncertain''] \<and> validate_kind_contract b = Inr b"
proof -
  let ?d = "raw_item other i raw"
  let ?kind = "text_or other ?d ''kind'' ''uncertain''"
  have kinds: "''spurious'' \<noteq> ''optimum_gap''" "''uncertain'' \<noteq> ''optimum_gap''" by simp_all
  note facts = assms [unfolded settles_def Let_def fst_conv snd_conv]
  have explained: ?thesis if "an_kind b = ''spurious'' \<or> an_kind b = ''uncertain''"
    "py_strip (an_why_rejected_or_uncertain b) \<noteq> []"
  proof -
    have "an_kind b \<noteq> ''optimum_gap''" using that(1) kinds by metis
    with that show ?thesis by (auto simp: validate_kind_contract_def)
  qed
  consider (gap) "?kind = ''optimum_gap'' \<and> plain_index (dict_get ?d ''linked_finding_index'') \<and>
        py_strip (text_or other ?d ''validity_loss_without_change'' []) \<noteq> []"
    | (said) "?kind = ''spurious'' \<or> ?kind = ''uncertain''"
    | (odd) "\<not> (?kind = ''optimum_gap'' \<and> plain_index (dict_get ?d ''linked_finding_index'') \<and>
        py_strip (text_or other ?d ''validity_loss_without_change'' []) \<noteq> [])"
      "\<not> (?kind = ''spurious'' \<or> ?kind = ''uncertain'')" by blast
  then show ?thesis
  proof cases
    case gap
    then show ?thesis using facts by (cases "an_linked_finding_index b") (auto simp: validate_kind_contract_def plain_index_def)
  next
    case said
    then have ng: "\<not> (?kind = ''optimum_gap'' \<and> plain_index (dict_get ?d ''linked_finding_index'') \<and>
        py_strip (text_or other ?d ''validity_loss_without_change'' []) \<noteq> [])" using kinds by metis
    have kind: "an_kind b = ?kind"
      and why: "an_why_rejected_or_uncertain b = (if py_strip (text_or other ?d ''why_rejected_or_uncertain'' []) = []
        then ''Reviewer omitted why_rejected_or_uncertain for '' @ ?kind @ ''; routed to discussion with repair note.''
        else text_or other ?d ''why_rejected_or_uncertain'' [])"
      using facts unfolding if_not_P [OF ng] if_P [OF said] by blast+
    show ?thesis
      by (rule explained, use kind said in metis, simp only: why reasons_given split: if_split) (use reasons_given in blast)
  next
    case odd
    have kind: "an_kind b = ''uncertain''"
      and why: "an_why_rejected_or_uncertain b = (if ?kind = ''optimum_gap'' then INVALID_GAP
        else ''Unknown profile annotation kind '' @ py_repr_str ?kind @ ''; routed to discussion.'')"
      using facts unfolding if_not_P [OF odd(1)] if_not_P [OF odd(2)] by blast+
    show ?thesis
      by (rule explained, use kind in blast, simp only: why split: if_split) (use reasons_given in blast)
  qed
qed

lemma validate_normalized:
  assumes "annotation_schema parse"
  shows "case validate_annotation parse (normalize_annotation other i raw) of
      Inl e \<Rightarrow> e = AnnotationSchemaError \<and> schema_refuses parse (normalize_annotation other i raw)
    | Inr b \<Rightarrow> \<not> schema_refuses parse (normalize_annotation other i raw) \<and> settles other (i, raw) b"
proof (cases "parse (normalize_annotation other i raw)")
  case None
  then show ?thesis by (simp add: validate_annotation_def schema_refuses_def)
next
  case (Some b)
  then have "reads_fields (normalize_annotation other i raw) b"
    using assms unfolding annotation_schema_def by (metis option.case(2))
  then have "settles other (i, raw) b" by (rule settled_by_reading)
  with settled_valid [OF this] Some show ?thesis
    by (cases "an_linked_finding_index b")
      (simp_all add: validate_annotation_def schema_refuses_def annotation_fields_ok_def)
qed

lemma validate_all:
  assumes "annotation_schema parse"
  shows "case validate_annotations parse (map (\<lambda>(i, raw). normalize_annotation other i raw) iraws) of
      Inl e \<Rightarrow> e = AnnotationSchemaError \<and> (\<exists>(i, raw)\<in>set iraws. schema_refuses parse (normalize_annotation other i raw))
    | Inr bs \<Rightarrow> (\<forall>(i, raw)\<in>set iraws. \<not> schema_refuses parse (normalize_annotation other i raw)) \<and>
        list_all2 (settles other) iraws bs"
proof (induction iraws)
  case (Cons iraw iraws)
  obtain i raw where ir: "iraw = (i, raw)" by (cases iraw)
  show ?case using Cons.IH validate_normalized [OF assms, of other i raw]
    by (auto simp: ir split: sum.splits)
qed simp

text \<open>An object with plain fields has plain fields after the repair, so that the schema reads it.\<close>

lemma plain_set:
  assumes "plain_fields d" "k \<in> {''annotation_id'', ''kind'', ''claim'', ''validity_loss_without_change'', ''why_rejected_or_uncertain''}"
  shows "plain_fields (dict_set k (PStr s) d)"
proof -
  have "fst ` set (dict_set k (PStr s) d) \<subseteq> set ANNOTATION_FIELDS"
    using assms by (auto simp: plain_fields_def ANNOTATION_FIELDS_def dom_update)
  with assms show ?thesis by (elim insertE) (simp_all add: plain_fields_def dict_get_set)
qed

lemma plain_unlink:
  assumes "plain_fields d"
  shows "plain_fields (dict_set ''linked_finding_index'' PNone d)"
proof -
  have "fst ` set (dict_set ''linked_finding_index'' PNone d) \<subseteq> set ANNOTATION_FIELDS"
    using assms by (auto simp: plain_fields_def ANNOTATION_FIELDS_def dom_update)
  with assms show ?thesis by (simp add: plain_fields_def dict_get_set)
qed

lemma plain_normalized:
  assumes "plain_fields (raw_item other i raw)"
  shows "plain_fields (normalize_annotation other i raw)"
proof -
  have named: "plain_fields (named_item other i (raw_item other i raw))"
    unfolding named_item_def by (intro plain_set assms) simp_all
  have routed: "plain_fields (route_to_discussion why (named_item other i (raw_item other i raw)))" for why
    unfolding route_to_discussion_def by (intro plain_set plain_unlink named) simp_all
  have noted: "plain_fields (dict_set ''why_rejected_or_uncertain'' (PStr why) (named_item other i (raw_item other i raw)))"
    for why by (intro plain_set named) simp_all
  show ?thesis unfolding normalize_named using named routed noted by (simp only: split: if_split) blast
qed

lemma normalized_texts:
  "has_text (normalize_annotation other i raw) ''annotation_id''" "has_text (normalize_annotation other i raw) ''kind''"
  "has_text (normalize_annotation other i raw) ''claim''"
proof -
  let ?d = "named_item other i (raw_item other i raw)"
  have named: "has_text ?d ''annotation_id''" "has_text ?d ''kind''" "has_text ?d ''claim''"
    by (simp_all add: has_text_def named_get)
  have routed: "has_text (route_to_discussion why ?d) ''annotation_id''" "has_text (route_to_discussion why ?d) ''kind''"
    "has_text (route_to_discussion why ?d) ''claim''" for why
    by (simp_all add: has_text_def routed_get named_get)
  have noted: "has_text (dict_set ''why_rejected_or_uncertain'' v ?d) ''annotation_id''"
    "has_text (dict_set ''why_rejected_or_uncertain'' v ?d) ''kind''"
    "has_text (dict_set ''why_rejected_or_uncertain'' v ?d) ''claim''" for v
    by (simp_all add: has_text_def dict_get_set named_get)
  show "has_text (normalize_annotation other i raw) ''annotation_id''" "has_text (normalize_annotation other i raw) ''kind''"
    "has_text (normalize_annotation other i raw) ''claim''"
    unfolding normalize_named using named routed noted by (simp_all only: split: if_split) blast+
qed

lemma normalized_link:
  "dict_get (normalize_annotation other i raw) ''linked_finding_index'' =
     dict_get (raw_item other i raw) ''linked_finding_index'' \<or>
   dict_get (normalize_annotation other i raw) ''linked_finding_index'' = Some PNone"
  unfolding normalize_named by (simp add: named_get routed_get dict_get_set)

lemma refused_is_unrepaired:
  assumes "annotation_schema parse" "schema_refuses parse (normalize_annotation other i raw)"
  shows "unrepaired raw"
proof (rule ccontr)
  assume ok: "\<not> unrepaired raw"
  have plain: "plain_fields (raw_item other i raw)"
  proof (cases raw)
    case (RawOther v)
    then show ?thesis by (simp add: raw_item_def plain_fields_def ANNOTATION_FIELDS_def)
  qed (use ok in \<open>simp add: unrepaired_def raw_item_def\<close>)
  let ?d = "normalize_annotation other i raw"
  obtain a where a: "parse ?d = Some a" "reads_fields ?d a"
    using assms(1) [unfolded annotation_schema_def, rule_format, of ?d] plain_normalized [OF plain]
      normalized_texts [of other i raw]
    by (cases "parse ?d") simp_all
  have link: "case dict_get ?d ''linked_finding_index'' of Some (PInt n) \<Rightarrow> 0 \<le> n | _ \<Rightarrow> True"
    using normalized_link [of other i raw] ok
    by (cases raw) (auto simp: unrepaired_def raw_item_def split: option.splits py.splits)
  have "plain_fields ?d" by (rule plain_normalized [OF plain])
  then have "case dict_get ?d ''linked_finding_index'' of None \<Rightarrow> True | Some PNone \<Rightarrow> True | Some (PInt _) \<Rightarrow> True | _ \<Rightarrow> False"
    by (simp add: plain_fields_def)
  with link a(2) have "case an_linked_finding_index a of None \<Rightarrow> True | Some n \<Rightarrow> 0 \<le> n"
    unfolding reads_fields_def by (auto split: option.splits py.splits)
  with assms(2) a(1) show False by (auto simp: schema_refuses_def split: option.splits)
qed

text \<open>
  C35: the repair of a raw review is exact. For any list of raw annotations - objects with missing, null or
  foreign fields, or no objects at all - and any reader of annotations that keeps to the schema
  (\<open>annotation_schema\<close>: it takes over the texts and a given index, and reads an object that has the three
  required texts and no other field of a foreign name or type), the review is refused exactly when the
  schema refuses one of the normalised objects, because it cannot read it or because its index is negative.
  A refusal is always due to a raw object that has a field of a foreign name or type or a negative index:
  missing keys and items that are no objects never cause one. An accepted review is the given one with
  exactly one annotation for each raw one, in order: it has the given id and claim or the default ones; it
  is an optimum gap exactly when it was given as one with a non-negative plain index and a non-blank
  reason, which it keeps; a spurious or uncertain one stays so, with its reason or with the repair note;
  everything else becomes uncertain, without an index, and says why.
\<close>

theorem review_repair_exact:
  assumes "annotation_schema parse" and "rv_profile_annotations r = Some raws"
  shows "case normalize_adversarial_review_response other parse r of
      Inl e \<Rightarrow> e = AnnotationSchemaError \<and>
        (\<exists>(i, raw)\<in>set (enumerate 1 raws). schema_refuses parse (normalize_annotation other i raw)) \<and>
        list_ex unrepaired raws
    | Inr r' \<Rightarrow> (\<forall>(i, raw)\<in>set (enumerate 1 raws). \<not> schema_refuses parse (normalize_annotation other i raw)) \<and>
        (\<exists>bs. r' = with_annotations (Some bs) r \<and> list_all2 (settles other) (enumerate 1 raws) bs)"
proof -
  have blame: "list_ex unrepaired raws"
    if "\<exists>(i, raw)\<in>set (enumerate 1 raws). schema_refuses parse (normalize_annotation other i raw)"
  proof -
    from that obtain i raw where "(i, raw) \<in> set (enumerate 1 raws)" "schema_refuses parse (normalize_annotation other i raw)"
      by blast
    moreover from this(1) have "raw \<in> set raws" by (auto simp: in_set_enumerate_eq)
    ultimately show ?thesis unfolding list_ex_iff using refused_is_unrepaired [OF assms(1)] by blast
  qed
  show ?thesis
    using validate_all [OF assms(1), where iraws = "enumerate 1 raws" and other = other] blame
    by (auto simp: normalize_adversarial_review_response_def assms(2) split: sum.splits)
qed

lemma repaired_settled:
  assumes "\<not> stray_link a"
  shows "repaired j (repaired i a) = repaired i a"
proof -
  have same: "repaired j b = b" if "an_annotation_id b \<noteq> []" "an_claim b \<noteq> []" "annotation_fields_ok b"
    "validate_kind_contract b = Inr b" for b
    using that
    by (cases b)
      (auto simp: repaired_def named_def Let_def annotation_fields_ok_def validate_kind_contract_def valid_gap_def
        split: if_splits option.splits)
  have "an_annotation_id (repaired i a) \<noteq> []" "an_claim (repaired i a) \<noteq> []"
    by (cases rule: repaired_cases [of i a]; simp add: to_discussion_def named_def)+
  with repaired_valid [OF assms, of i] show ?thesis by (intro same) simp_all
qed

lemma repair_twice:
  "list_all (\<lambda>a. \<not> stray_link a) as \<Longrightarrow>
   map (\<lambda>(i, a). repaired i a) (enumerate n (map (\<lambda>(i, a). repaired i a) (enumerate n as))) =
   map (\<lambda>(i, a). repaired i a) (enumerate n as)"
  by (induction as arbitrary: n) (auto simp: repaired_settled)

lemma repaired_not_stray:
  assumes "\<not> stray_link a"
  shows "\<not> stray_link (repaired i a)"
  using repaired_valid [OF assms, of i] by (auto simp: stray_link_def annotation_fields_ok_def split: option.splits)

text \<open>A repaired review is a fixed point: the second normalisation, which the review cycle makes before it
  classifies the findings, changes nothing.\<close>

theorem review_repair_idempotent:
  assumes "\<And>a. parse (dump_annotation a) = Some a"
    and "rv_profile_annotations r = Some (map (\<lambda>a. RawObject (dump_annotation a)) as)"
    and "normalize_adversarial_review_response other parse r = Inr r'"
  shows "normalize_adversarial_review_response other parse (as_raw r') = Inr r'"
proof -
  from assms(3) have none: "\<not> list_ex stray_link as"
    and r': "r' = with_annotations (Some (map (\<lambda>(i, a). repaired i a) (enumerate 1 as))) r"
    by (simp_all add: repair_exact [OF assms(1,2)] split: if_splits)
  let ?bs = "map (\<lambda>(i, a). repaired i a) (enumerate 1 as)"
  have raw: "rv_profile_annotations (as_raw r') = Some (map (\<lambda>a. RawObject (dump_annotation a)) ?bs)"
    by (simp add: as_raw_def r' with_annotations_def)
  have all: "list_all (\<lambda>a. \<not> stray_link a) as" using none by (simp add: list_ex_iff list_all_iff)
  have "\<not> list_ex stray_link ?bs"
    using all by (auto simp: list_ex_iff list_all_iff in_set_enumerate_eq repaired_not_stray)
  moreover have "map (\<lambda>(i, a). repaired i a) (enumerate 1 ?bs) = ?bs" by (rule repair_twice [OF all])
  ultimately show ?thesis
    unfolding repair_exact [OF assms(1) raw] by (simp add: r' as_raw_def with_annotations_def)
qed

text \<open>A reader of annotations that keeps to the schema; like the schema it reads a boolean index as a number.\<close>

fun plain_str :: "py option \<Rightarrow> string option" where
  "plain_str (Some (PStr s)) = Some s"
| "plain_str _ = None"

definition field_text :: "(string \<times> py) list \<Rightarrow> string \<Rightarrow> string option \<Rightarrow> string option" where
  "field_text d k dflt = (case dict_get d k of None \<Rightarrow> dflt | v \<Rightarrow> plain_str v)"

fun field_index :: "py option \<Rightarrow> int option option" where
  "field_index None = Some None"
| "field_index (Some PNone) = Some None"
| "field_index (Some (PInt n)) = Some (Some n)"
| "field_index (Some (PBool b)) = Some (Some (if b then 1 else 0))"
| "field_index _ = None"

fun field_path :: "py option \<Rightarrow> string option option" where
  "field_path None = Some None"
| "field_path (Some PNone) = Some None"
| "field_path (Some (PStr s)) = Some (Some s)"
| "field_path _ = None"

definition strict_parse :: "(string \<times> py) list \<Rightarrow> annotation option" where
  "strict_parse d =
     (if \<not> list_all (\<lambda>(k, v). List.member ANNOTATION_FIELDS k) d then None
      else case (field_text d ''annotation_id'' None, field_text d ''kind'' None, field_text d ''claim'' None,
            field_text d ''validity_loss_without_change'' (Some []), field_text d ''why_rejected_or_uncertain'' (Some []),
            field_path (dict_get d ''evidence_path''), field_index (dict_get d ''linked_finding_index'')) of
        (Some i, Some k, Some c, Some v, Some w, Some p, Some n) \<Rightarrow>
          Some \<lparr>an_annotation_id = i, an_kind = k, an_claim = c, an_evidence_path = p, an_linked_finding_index = n,
             an_validity_loss_without_change = v, an_why_rejected_or_uncertain = w\<rparr>
      | _ \<Rightarrow> None)"

lemma strict_parse_dump: "strict_parse (dump_annotation a) = Some a"
proof -
  have e: "field_path (dict_get (dump_annotation a) ''evidence_path'') = Some (an_evidence_path a)"
    by (cases "an_evidence_path a") (simp_all add: dump_annotation_def opt_py_def)
  have l: "field_index (dict_get (dump_annotation a) ''linked_finding_index'') = Some (an_linked_finding_index a)"
    by (cases "an_linked_finding_index a") (simp_all add: opt_py_def)
  have "list_all (\<lambda>(k, v). List.member ANNOTATION_FIELDS k) (dump_annotation a)"
    by (simp add: dump_annotation_def ANNOTATION_FIELDS_def)
  then show ?thesis unfolding strict_parse_def e l by (simp add: field_text_def)
qed

lemma plain_str_is_text: "plain_str (Some v) = (if is_text v then Some (case v of PStr s \<Rightarrow> s) else None)"
  by (cases v) simp_all

lemma plain_str_Some: "plain_str v = Some s \<longleftrightarrow> v = Some (PStr s)"
  by (cases v rule: plain_str.cases) auto

lemma field_text_None: "field_text d k None = Some s \<longleftrightarrow> dict_get d k = Some (PStr s)"
  by (simp add: field_text_def plain_str_Some split: option.split)

lemma field_text_default: "field_text d k (Some []) = Some s \<Longrightarrow>
    (case dict_get d k of None \<Rightarrow> s = [] | Some v \<Rightarrow> v = PStr s)"
  by (auto simp: field_text_def plain_str_Some split: option.splits)

lemma field_index_reads: "field_index v = Some n \<Longrightarrow>
    (case v of None \<Rightarrow> n = None | Some PNone \<Rightarrow> n = None | Some (PInt m) \<Rightarrow> n = Some m | _ \<Rightarrow> True)"
  by (cases v rule: field_index.cases) auto

lemma strict_parse_schema: "annotation_schema strict_parse"
proof -
  have "reads_fields d a" if some: "strict_parse d = Some a" for d a
  proof -
    from some obtain i k c v w p n where a: "a = \<lparr>an_annotation_id = i, an_kind = k, an_claim = c,
        an_evidence_path = p, an_linked_finding_index = n, an_validity_loss_without_change = v,
        an_why_rejected_or_uncertain = w\<rparr>"
      and texts: "dict_get d ''annotation_id'' = Some (PStr i)" "dict_get d ''kind'' = Some (PStr k)"
        "dict_get d ''claim'' = Some (PStr c)"
      and v: "field_text d ''validity_loss_without_change'' (Some []) = Some v"
      and w: "field_text d ''why_rejected_or_uncertain'' (Some []) = Some w"
      and n: "field_index (dict_get d ''linked_finding_index'') = Some n"
      unfolding strict_parse_def by (auto simp: field_text_None split: if_splits option.splits)
    show ?thesis unfolding a reads_fields_def annotation.simps
      by (intro conjI texts field_text_default [OF v] field_text_default [OF w] field_index_reads [OF n])
  qed
  moreover have "\<exists>a. strict_parse d = Some a"
    if pl: "plain_fields d" and tx: "has_text d ''annotation_id''" "has_text d ''kind''" "has_text d ''claim''" for d
  proof -
    have keys: "list_all (\<lambda>(k, v). List.member ANNOTATION_FIELDS k) d"
      using pl by (force simp: plain_fields_def list_all_iff)
    have required: "\<exists>s. field_text d k None = Some s" if "has_text d k" for k
      using that by (auto simp: has_text_def field_text_def plain_str_is_text split: option.splits)
    have optional: "\<exists>s. field_text d k (Some []) = Some s"
      if "case dict_get d k of None \<Rightarrow> True | Some v \<Rightarrow> is_text v" for k
      using that by (auto simp: field_text_def plain_str_is_text split: option.splits)
    have reasons: "case dict_get d ''validity_loss_without_change'' of None \<Rightarrow> True | Some v \<Rightarrow> is_text v"
      "case dict_get d ''why_rejected_or_uncertain'' of None \<Rightarrow> True | Some v \<Rightarrow> is_text v"
      using pl by (simp_all only: plain_fields_def)
    obtain i k c where "field_text d ''annotation_id'' None = Some i" "field_text d ''kind'' None = Some k"
      "field_text d ''claim'' None = Some c" using required [OF tx(1)] required [OF tx(2)] required [OF tx(3)] by (elim exE)
    moreover obtain v w where "field_text d ''validity_loss_without_change'' (Some []) = Some v"
      "field_text d ''why_rejected_or_uncertain'' (Some []) = Some w"
      using optional [OF reasons(1)] optional [OF reasons(2)] by (elim exE)
    moreover obtain p where "field_path (dict_get d ''evidence_path'') = Some p"
    proof (cases "dict_get d ''evidence_path''")
      case (Some v)
      with pl have "v = PNone \<or> is_text v" by (simp add: plain_fields_def)
      with Some that show ?thesis by (cases v) auto
    qed auto
    moreover obtain n where "field_index (dict_get d ''linked_finding_index'') = Some n"
    proof (cases "dict_get d ''linked_finding_index''")
      case (Some v)
      with pl have "case v of PNone \<Rightarrow> True | PInt _ \<Rightarrow> True | _ \<Rightarrow> False"
        by (simp add: plain_fields_def split: py.splits)
      with Some that show ?thesis by (cases v) auto
    qed auto
    ultimately show ?thesis using keys by (simp add: strict_parse_def)
  qed
  ultimately show ?thesis unfolding annotation_schema_def by (auto split: option.splits) (metis option.distinct(1))
qed

definition demo_annotation :: "string \<Rightarrow> int option \<Rightarrow> annotation" where
  "demo_annotation kind link =
     \<lparr>an_annotation_id = [], an_kind = kind, an_claim = ''c'', an_evidence_path = None,
      an_linked_finding_index = link, an_validity_loss_without_change = [], an_why_rejected_or_uncertain = []\<rparr>"

definition demo_review :: "annotation list \<Rightarrow> raw_annotation review" where
  "demo_review as =
     \<lparr>rv_artifact_label = ''a'', rv_verdict = ''concerns'', rv_summary = [], rv_correctness_findings = [],
      rv_contract_violations = [], rv_nits = [], rv_unverified_claims = [], rv_scope_drift_findings = [],
      rv_reviewer_model = [], rv_profile_annotations = Some (map (\<lambda>a. RawObject (dump_annotation a)) as)\<rparr>"

definition raw_review :: "raw_annotation list \<Rightarrow> raw_annotation review" where
  "raw_review raws =
     \<lparr>rv_artifact_label = ''a'', rv_verdict = ''concerns'', rv_summary = [], rv_correctness_findings = [],
      rv_contract_violations = [], rv_nits = [], rv_unverified_claims = [], rv_scope_drift_findings = [],
      rv_reviewer_model = [], rv_profile_annotations = Some raws\<rparr>"

text \<open>An empty object, a number, a gap without an index and a gap with the index \<open>True\<close> are repaired.\<close>

definition odd_annotations :: "raw_annotation list" where
  "odd_annotations =
     [RawObject [], RawOther (PInt 7), RawObject [(''kind'', PStr ''optimum_gap'')],
      RawObject [(''kind'', PStr ''optimum_gap''), (''linked_finding_index'', PBool True),
                 (''validity_loss_without_change'', PStr ''v'')]]"

definition negative_link_annotation :: "raw_annotation" where
  "negative_link_annotation =
     RawObject [(''kind'', PStr ''spurious''), (''linked_finding_index'', PInt (- 1))]"

theorem review_repair_exact_witness:
  "(\<exists>bs. normalize_adversarial_review_response (\<lambda>_. []) strict_parse (raw_review odd_annotations) =
       Inr (with_annotations (Some bs) (raw_review odd_annotations)) \<and>
       list_all2 (settles (\<lambda>_. [])) (enumerate 1 odd_annotations) bs)
   \<and> normalize_adversarial_review_response (\<lambda>_. []) strict_parse (raw_review [negative_link_annotation])
       = Inl AnnotationSchemaError"
proof -
  have ok: "\<not> list_ex (\<lambda>(i, raw). schema_refuses strict_parse (normalize_annotation (\<lambda>_. []) i raw)) (enumerate 1 odd_annotations)"
    and bad: "list_ex (\<lambda>(i, raw). schema_refuses strict_parse (normalize_annotation (\<lambda>_. []) i raw))
        (enumerate 1 [negative_link_annotation])" by code_simp+
  have raws: "rv_profile_annotations (raw_review raws) = Some raws" for raws by (simp add: raw_review_def)
  show ?thesis
  proof
    show "\<exists>bs. normalize_adversarial_review_response (\<lambda>_. []) strict_parse (raw_review odd_annotations) =
       Inr (with_annotations (Some bs) (raw_review odd_annotations)) \<and>
       list_all2 (settles (\<lambda>_. [])) (enumerate 1 odd_annotations) bs"
      using review_repair_exact [OF strict_parse_schema raws, where other = "\<lambda>_. []" and raws = odd_annotations] ok
      by (auto simp: list_ex_iff split: sum.splits)
    show "normalize_adversarial_review_response (\<lambda>_. []) strict_parse (raw_review [negative_link_annotation])
       = Inl AnnotationSchemaError"
      using review_repair_exact [OF strict_parse_schema raws, where other = "\<lambda>_. []" and raws = "[negative_link_annotation]"] bad
      by (auto split: sum.splits)
  qed
qed

theorem review_repair_idempotent_witness:
  "\<exists>r. normalize_adversarial_review_response (\<lambda>_. []) strict_parse (demo_review [demo_annotation ''odd'' None]) = Inr r
     \<and> normalize_adversarial_review_response (\<lambda>_. []) strict_parse (as_raw r) = Inr r"
proof -
  have "\<not> isl (normalize_adversarial_review_response (\<lambda>_. []) strict_parse (demo_review [demo_annotation ''odd'' None]))"
    by code_simp
  then obtain r where r: "normalize_adversarial_review_response (\<lambda>_. []) strict_parse
      (demo_review [demo_annotation ''odd'' None]) = Inr r"
    by (cases "normalize_adversarial_review_response (\<lambda>_. []) strict_parse (demo_review [demo_annotation ''odd'' None])") auto
  have "rv_profile_annotations (demo_review [demo_annotation ''odd'' None]) =
      Some (map (\<lambda>a. RawObject (dump_annotation a)) [demo_annotation ''odd'' None])" by (simp add: demo_review_def)
  from review_repair_idempotent [OF strict_parse_dump this r] r show ?thesis by blast
qed

end
