(* ===== verification/Review_Cycle.thy ===== *)
theory Review_Cycle
  imports Adversarial_Review Context_Window
begin

text \<open>
  The bounded review and apply loop, \<open>llm_client/workflow/review_cycle.py\<close>: the split of findings into
  those that are applied automatically and those that are discussed, the digest against repetition, the
  budget ledger, the path guard over git, and the loop with its stop reasons.

  The workspace is a world of type \<open>'w\<close>. The reviewer and the implementer transform it and may raise; git
  and \<open>stat\<close> read it. Unicode normalisation, \<open>shlex.split\<close>, SHA-256 and the parsing of annotations
  are arguments. The artifacts of a run are a dictionary from file names to their contents, to which only
  the runner writes.
\<close>

section \<open>Findings\<close>

datatype actionable_kind = ContractViolationFound | CorrectnessHigh | OptimumGap

datatype skipped_kind = CorrectnessNonHigh | NitSkipped | Spurious | Uncertain | Unverified | InvalidOptimumGap

datatype finding_payload =
    OfViolation contract_violation
  | OfCorrectness correctness_finding
  | OfAnnotation annotation
  | OfNit nit
  | OfUnverified unverified_claim

record actionable_finding =
  af_kind :: actionable_kind
  af_claim :: string
  af_evidence_ref :: string
  af_severity :: string
  af_payload :: finding_payload

record skipped_finding =
  sf_kind :: skipped_kind
  sf_claim :: string
  sf_reason :: string
  sf_payload :: finding_payload

record classification =
  ac_actionable :: "actionable_finding list"
  ac_skipped :: "skipped_finding list"
  ac_digest :: string

definition kind_text :: "actionable_kind \<Rightarrow> string" where
  "kind_text k = (case k of ContractViolationFound \<Rightarrow> ''contract_violation'' | CorrectnessHigh \<Rightarrow> ''correctness_high''
     | OptimumGap \<Rightarrow> ''optimum_gap'')"

definition location_of :: "correctness_finding \<Rightarrow> string" where
  "location_of f = cf_file_path f @ '':'' @ py_int_str (cf_line f)"

text \<open>The finding that an annotation links to, when its index is one.\<close>

definition linked_finding :: "correctness_finding list \<Rightarrow> annotation \<Rightarrow> (nat \<times> correctness_finding) option" where
  "linked_finding correctness a =
     (case an_linked_finding_index a of
        None \<Rightarrow> None
      | Some i \<Rightarrow> if 0 \<le> i \<and> i < int (length correctness) then Some (nat i, correctness ! nat i) else None)"

definition links_validly :: "correctness_finding list \<Rightarrow> annotation \<Rightarrow> bool" where
  "links_validly correctness a \<longleftrightarrow>
     (case linked_finding correctness a of
        None \<Rightarrow> False
      | Some (i, f) \<Rightarrow> cf_severity f = ''high'' \<and> py_strip (an_validity_loss_without_change a) \<noteq> [])"

definition valid_optimum_gap_links :: "correctness_finding list \<Rightarrow> annotation list \<Rightarrow> nat list" where
  "valid_optimum_gap_links correctness as =
     List.map_filter (\<lambda>a. if an_kind a = ''optimum_gap'' \<and> links_validly correctness a
                          then map_option fst (linked_finding correctness a) else None) as"

text \<open>One correctness finding at its index: applied, skipped, or left to the annotation that links to it.\<close>

definition classify_correctness ::
  "nat list \<Rightarrow> nat \<times> correctness_finding \<Rightarrow> (actionable_finding + skipped_finding) option" where
  "classify_correctness links p =
     (case p of (i, f) \<Rightarrow>
       (if cf_severity f = ''high''
        then (if i \<notin> set links
              then Some (Inl \<lparr>af_kind = CorrectnessHigh, af_claim = cf_claim f, af_evidence_ref = location_of f,
                     af_severity = cf_severity f, af_payload = OfCorrectness f\<rparr>)
              else None)
        else Some (Inr \<lparr>sf_kind = CorrectnessNonHigh, sf_claim = cf_claim f,
               sf_reason = ''Only high-severity correctness findings auto-apply.'', sf_payload = OfCorrectness f\<rparr>)))"

definition skip_annotation :: "skipped_kind \<Rightarrow> string \<Rightarrow> annotation \<Rightarrow> skipped_finding" where
  "skip_annotation k reason a = \<lparr>sf_kind = k, sf_claim = an_claim a, sf_reason = reason, sf_payload = OfAnnotation a\<rparr>"

text \<open>The loop over the annotations with the set of links that were emitted.\<close>

fun classify_annotations ::
  "correctness_finding list \<Rightarrow> annotation list \<Rightarrow> nat list \<Rightarrow> (actionable_finding + skipped_finding) list" where
  "classify_annotations cs [] emitted = []"
| "classify_annotations cs (a # as) emitted =
     (if an_kind a = ''optimum_gap''
      then (let linked = linked_finding cs a in
        if (case linked of None \<Rightarrow> False | Some (i, f) \<Rightarrow> i \<in> set emitted)
        then Inr (skip_annotation InvalidOptimumGap ''Duplicate optimum_gap annotation for the same correctness finding.'' a)
             # classify_annotations cs as emitted
        else case linked of
          None \<Rightarrow> Inr (skip_annotation InvalidOptimumGap ''Optimum gap is missing a valid linked_finding_index.'' a)
             # classify_annotations cs as emitted
        | Some (i, f) \<Rightarrow>
            (if cf_severity f \<noteq> ''high''
             then Inr (skip_annotation InvalidOptimumGap ''Optimum gap links to a non-high-severity correctness finding.'' a)
               # classify_annotations cs as emitted
             else if py_strip (an_validity_loss_without_change a) = []
             then Inr (skip_annotation InvalidOptimumGap ''Optimum gap is missing validity_loss_without_change.'' a)
               # classify_annotations cs as emitted
             else Inl \<lparr>af_kind = OptimumGap, af_claim = an_claim a,
                    af_evidence_ref = (case an_evidence_path a of Some p \<Rightarrow> if p = [] then location_of f else p | None \<Rightarrow> location_of f),
                    af_severity = ''high'', af_payload = OfAnnotation a\<rparr>
               # classify_annotations cs as (i # emitted)))
      else if an_kind a = ''spurious''
      then Inr (skip_annotation Spurious (an_why_rejected_or_uncertain a) a) # classify_annotations cs as emitted
      else if an_kind a = ''uncertain''
      then Inr (skip_annotation Uncertain (an_why_rejected_or_uncertain a) a) # classify_annotations cs as emitted
      else classify_annotations cs as emitted)"

fun lefts :: "('a + 'b) list \<Rightarrow> 'a list" where
  "lefts [] = []"
| "lefts (Inl x # xs) = x # lefts xs"
| "lefts (Inr y # xs) = lefts xs"

fun rights :: "('a + 'b) list \<Rightarrow> 'b list" where
  "rights [] = []"
| "rights (Inl x # xs) = rights xs"
| "rights (Inr y # xs) = y # rights xs"

section \<open>The digest\<close>

text \<open>\<open>re.sub(r"^\s*[-*+]\s+", "", text)\<close> and the collapse of whitespace runs.\<close>

definition drop_bullet :: "string \<Rightarrow> string" where
  "drop_bullet s =
     (case py_lstrip s of
        c # d # rest \<Rightarrow> if c \<in> set ''-*+'' \<and> py_isspace d then py_lstrip rest else s
      | _ \<Rightarrow> s)"

fun collapse_spaces :: "string \<Rightarrow> string" where
  "collapse_spaces [] = []"
| "collapse_spaces (c # cs) =
     (if py_isspace c
      then (case cs of
              [] \<Rightarrow> '' ''
            | d # ds \<Rightarrow> if py_isspace d then collapse_spaces cs else CHR '' '' # collapse_spaces cs)
      else c # collapse_spaces cs)"

definition normalize_digest_text :: "(string \<Rightarrow> string) \<Rightarrow> string \<Rightarrow> string" where
  "normalize_digest_text nfkc s = py_lower (collapse_spaces (drop_bullet (nfkc (py_strip s))))"

text \<open>A string in \<open>json.dumps\<close>, which escapes what is not printable ASCII.\<close>

definition json_ascii :: "string \<Rightarrow> string" where
  "json_ascii s =
     CHR 0x22 # concat (map (\<lambda>c. let n = of_char c :: nat in
         if 126 < n then CHR 0x5C # ''u00'' @ [hex_char (n div 16), hex_char (n mod 16)] else json_char c) s) @ [CHR 0x22]"

definition json_entry :: "string \<Rightarrow> string \<Rightarrow> string" where
  "json_entry k v = json_ascii k @ '': '' @ json_ascii v"

definition digest_item :: "(string \<Rightarrow> string) \<Rightarrow> actionable_finding \<Rightarrow> string" where
  "digest_item nfkc f =
     ''{'' @ json_entry ''claim'' (normalize_digest_text nfkc (af_claim f)) @ '', '' @
     json_entry ''evidence_ref'' (normalize_digest_text nfkc (af_evidence_ref f)) @ '', '' @
     json_entry ''kind'' (kind_text (af_kind f)) @ '', '' @
     json_entry ''severity'' (normalize_digest_text nfkc (af_severity f)) @ ''}''"

definition actionable_finding_digest ::
  "(string \<Rightarrow> string) \<Rightarrow> (string \<Rightarrow> string) \<Rightarrow> actionable_finding list \<Rightarrow> string" where
  "actionable_finding_digest sha nfkc fs =
     sha (CHR ''['' # py_join '', '' (sort (map (digest_item nfkc) fs)) @ '']'')"

definition classify_parsed :: "(string \<Rightarrow> string) \<Rightarrow> (string \<Rightarrow> string) \<Rightarrow> annotation review \<Rightarrow> classification" where
  "classify_parsed sha nfkc r =
     (let as = (case rv_profile_annotations r of Some as \<Rightarrow> as | None \<Rightarrow> []);
          cs = rv_correctness_findings r;
          violations = map (\<lambda>v. \<lparr>af_kind = ContractViolationFound, af_claim = cv_violation v,
                               af_evidence_ref = cv_evidence_path v, af_severity = ''high'', af_payload = OfViolation v\<rparr>)
                         (rv_contract_violations r);
          correct = List.map_filter (classify_correctness (valid_optimum_gap_links cs as)) (enumerate 0 cs);
          annotated = classify_annotations cs as [];
          actionable = violations @ lefts correct @ lefts annotated
      in \<lparr>ac_actionable = actionable,
          ac_skipped = rights correct @ rights annotated
            @ map (\<lambda>n. \<lparr>sf_kind = NitSkipped, sf_claim = ni_claim n, sf_reason = ''Nits never auto-apply.'', sf_payload = OfNit n\<rparr>)
                (rv_nits r)
            @ map (\<lambda>u. \<lparr>sf_kind = Unverified, sf_claim = uc_claim u, sf_reason = uc_reason_unverified u, sf_payload = OfUnverified u\<rparr>)
                (rv_unverified_claims r),
          ac_digest = actionable_finding_digest sha nfkc actionable\<rparr>)"

section \<open>The ledger\<close>

datatype call_kind = ReviewCall | ApplyCall

record ledger_entry =
  le_cycle :: nat
  le_call_kind :: call_kind
  le_model :: string
  le_cost_usd :: rat
  le_cumulative_usd :: rat

record budget_ledger =
  bl_max_budget :: rat
  bl_entries :: "ledger_entry list"

definition total_spent :: "budget_ledger \<Rightarrow> rat" where
  "total_spent L = (if bl_entries L = [] then 0 else le_cumulative_usd (last (bl_entries L)))"

datatype cycle_error =
    CycleError string
  | CallbackError string
  | NegativeCost
  | ReviewInvalid review_error

definition add_call :: "nat \<Rightarrow> call_kind \<Rightarrow> string \<Rightarrow> rat \<Rightarrow> budget_ledger \<Rightarrow> cycle_error + budget_ledger" where
  "add_call cycle k model cost L =
     (if cost < 0 then Inl NegativeCost
      else Inr (L\<lparr>bl_entries := bl_entries L @
             [\<lparr>le_cycle = cycle, le_call_kind = k, le_model = model, le_cost_usd = cost,
               le_cumulative_usd = total_spent L + cost\<rparr>]\<rparr>))"

definition is_exhausted :: "budget_ledger \<Rightarrow> bool" where
  "is_exhausted L \<longleftrightarrow> bl_max_budget L \<le> total_spent L"

text \<open>The cost that the result of a model call reports: the first numeric attribute of two.\<close>

fun cost_number :: "py option \<Rightarrow> rat option" where
  "cost_number (Some (PInt n)) = Some (of_int n)"
| "cost_number (Some (PFloat x)) = Some x"
| "cost_number _ = None"

fun cost_from_attrs :: "(string \<times> py) list \<Rightarrow> string list \<Rightarrow> cycle_error + rat" where
  "cost_from_attrs meta [] = Inr 0"
| "cost_from_attrs meta (k # ks) =
     (case cost_number (dict_get meta k) of
        None \<Rightarrow> cost_from_attrs meta ks
      | Some c \<Rightarrow> if c < 0 then Inl (CycleError (''LLM metadata reported negative '' @ k)) else Inr c)"

definition cost_from_meta :: "(string \<times> py) list \<Rightarrow> cycle_error + rat" where
  "cost_from_meta meta = cost_from_attrs meta [''marginal_cost'', ''cost'']"

section \<open>The workspace\<close>

record git_answer =
  ga_code :: int
  ga_stdout :: string
  ga_stderr :: string

record 'w workspace =
  ws_git :: "'w \<Rightarrow> string list \<Rightarrow> git_answer"
  ws_stat :: "'w \<Rightarrow> string \<Rightarrow> (bool \<times> int \<times> int) option"
  ws_path :: string
  ws_shlex :: "string \<Rightarrow> string list option"

definition git_failed :: "'w workspace \<Rightarrow> string list \<Rightarrow> git_answer \<Rightarrow> cycle_error" where
  "git_failed W args a =
     CycleError (''git '' @ py_join '' '' args @ '' failed in '' @ ws_path W @ '': '' @ py_strip (ga_stderr a))"

definition run_git :: "'w workspace \<Rightarrow> 'w \<Rightarrow> string list \<Rightarrow> cycle_error + string" where
  "run_git W w args =
     (let a = ws_git W w args in if ga_code a \<noteq> 0 then Inl (git_failed W args a) else Inr (ga_stdout a))"

definition run_git_diff_allow_difference :: "'w workspace \<Rightarrow> 'w \<Rightarrow> string list \<Rightarrow> cycle_error + string" where
  "run_git_diff_allow_difference W w args =
     (let a = ws_git W w args in
      if ga_code a \<noteq> 0 \<and> ga_code a \<noteq> 1 then Inl (git_failed W args a) else Inr (ga_stdout a))"

definition git_status_short :: "'w workspace \<Rightarrow> 'w \<Rightarrow> cycle_error + string" where
  "git_status_short W w = run_git W w [''status'', ''--short'', ''--untracked-files=all'']"

definition git_head :: "'w workspace \<Rightarrow> 'w \<Rightarrow> cycle_error + string" where
  "git_head W w = and_then (run_git W w [''rev-parse'', ''HEAD'']) (\<lambda>s. Inr (py_strip s))"

definition path_lines :: "string \<Rightarrow> string list" where
  "path_lines out = filter (\<lambda>p. p \<noteq> []) (map py_strip (splitlines out))"

definition git_untracked_paths :: "'w workspace \<Rightarrow> 'w \<Rightarrow> cycle_error + string list" where
  "git_untracked_paths W w =
     and_then (run_git W w [''ls-files'', ''--others'', ''--exclude-standard'']) (\<lambda>out. Inr (sort (path_lines out)))"

definition git_ignored_paths :: "'w workspace \<Rightarrow> 'w \<Rightarrow> cycle_error + string list" where
  "git_ignored_paths W w =
     and_then (run_git W w [''ls-files'', ''--others'', ''--ignored'', ''--exclude-standard''])
       (\<lambda>out. Inr (sort (path_lines out)))"

type_synonym fingerprints = "(string \<times> (bool \<times> int \<times> int)) list"

definition git_ignored_path_fingerprints :: "'w workspace \<Rightarrow> 'w \<Rightarrow> cycle_error + fingerprints" where
  "git_ignored_path_fingerprints W w =
     and_then (git_ignored_paths W w) (\<lambda>ps.
       Inr (fold (\<lambda>p fps. case ws_stat W w p of None \<Rightarrow> fps | Some st \<Rightarrow> dict_set p st fps) ps []))"

definition changed_ignored_paths :: "fingerprints \<Rightarrow> fingerprints \<Rightarrow> string list" where
  "changed_ignored_paths before after =
     sort (remdups (filter (\<lambda>p. dict_get before p \<noteq> dict_get after p) (map fst before @ map fst after)))"

definition is_python_bytecode_cache :: "string \<Rightarrow> bool" where
  "is_python_bytecode_cache p \<longleftrightarrow>
     ''__pycache__'' \<in> set (split_on CHR ''/'' p) \<or> suffix ''.pyc'' p \<or> suffix ''.pyo'' p"

definition exclude_runtime_cache_paths :: "string list \<Rightarrow> string list \<Rightarrow> string list" where
  "exclude_runtime_cache_paths ps carveouts =
     (if ''python_bytecode'' \<notin> set carveouts then ps else filter (\<lambda>p. \<not> is_python_bytecode_cache p) ps)"

definition git_changed_paths :: "'w workspace \<Rightarrow> 'w \<Rightarrow> cycle_error + string list" where
  "git_changed_paths W w =
     and_then (run_git W w [''diff'', ''--name-only'']) (\<lambda>a.
     and_then (run_git W w [''diff'', ''--cached'', ''--name-only'']) (\<lambda>b.
       Inr (sort (remdups (path_lines a @ path_lines b)))))"

definition git_changed_paths_from_ref :: "'w workspace \<Rightarrow> 'w \<Rightarrow> string \<Rightarrow> cycle_error + string list" where
  "git_changed_paths_from_ref W w ref =
     and_then (run_git W w [''diff'', ''--name-only'', ref]) (\<lambda>a. Inr (sort (path_lines a)))"

text \<open>\<open>s.split(" -> ", 1)[1]\<close>, when the arrow occurs.\<close>

fun after_arrow :: "string \<Rightarrow> string option" where
  "after_arrow [] = None"
| "after_arrow (c # cs) = (if prefix '' -> '' (c # cs) then Some (drop 4 (c # cs)) else after_arrow cs)"

definition status_path :: "(string \<Rightarrow> string list option) \<Rightarrow> string \<Rightarrow> string" where
  "status_path shlex line =
     (let raw = py_strip (drop 3 line) in
      if CHR 0x22 \<in> set raw
      then (case shlex raw of
              None \<Rightarrow> raw
            | Some parts \<Rightarrow> if parts = [] then raw else last parts)
      else case after_arrow raw of Some p \<Rightarrow> p | None \<Rightarrow> raw)"

definition status_paths :: "(string \<Rightarrow> string list option) \<Rightarrow> string \<Rightarrow> string list" where
  "status_paths shlex status =
     map (status_path shlex) (filter (\<lambda>l. py_strip l \<noteq> []) (splitlines status))"

definition rstrip_slash :: "string \<Rightarrow> string" where
  "rstrip_slash s = rev (dropWhile (\<lambda>c. c = CHR ''/'') (rev s))"

definition is_allowed_path :: "string list \<Rightarrow> string \<Rightarrow> bool" where
  "is_allowed_path allowed path =
     (let p = rstrip_slash (py_strip path) in
      list_ex (\<lambda>a. let q = rstrip_slash (py_strip a) in p = q \<or> prefix (q @ ''/'') p) allowed)"

definition exclude_paths :: "string list \<Rightarrow> string list \<Rightarrow> string list" where
  "exclude_paths ps excluded = filter (\<lambda>p. \<not> is_allowed_path excluded p) ps"

definition ensure_paths_allowed :: "string list \<Rightarrow> string list \<Rightarrow> cycle_error + unit" where
  "ensure_paths_allowed ps allowed =
     (let illegal = filter (\<lambda>p. \<not> is_allowed_path allowed p) ps in
      if illegal \<noteq> []
      then Inl (CycleError (''Review cycle touched undeclared path(s): '' @ py_join '', '' (sort illegal)))
      else Inr ())"

fun diff_untracked :: "'w workspace \<Rightarrow> 'w \<Rightarrow> string list \<Rightarrow> string list \<Rightarrow> cycle_error + string" where
  "diff_untracked W w excluded [] = Inr []"
| "diff_untracked W w excluded (p # ps) =
     (if is_allowed_path excluded p then diff_untracked W w excluded ps
      else and_then (run_git_diff_allow_difference W w
               [''diff'', ''--no-ext-diff'', ''--no-index'', ''--'', ''/dev/null'', p])
             (\<lambda>d. and_then (diff_untracked W w excluded ps) (\<lambda>ds. Inr (d @ ds))))"

definition git_diff_from_ref ::
  "'w workspace \<Rightarrow> 'w \<Rightarrow> string \<Rightarrow> string list \<Rightarrow> string list \<Rightarrow> cycle_error + string" where
  "git_diff_from_ref W w ref extra excluded =
     and_then (run_git W w [''diff'', ''--no-ext-diff'', ref]) (\<lambda>tracked.
     and_then (git_untracked_paths W w) (\<lambda>untracked.
     and_then (diff_untracked W w excluded (sort (remdups (untracked @ extra)))) (\<lambda>rest.
       Inr (tracked @ rest))))"

section \<open>The loop\<close>

record review_task =
  tk_task_id :: string
  tk_artifact_paths :: "string list"
  tk_reviewer_model :: string
  tk_implementer_model :: string
  tk_max_cycles :: nat
  tk_max_budget :: rat
  tk_allow_workspace_wide_edits :: bool
  tk_runtime_cache_carveouts :: "string list"

record review_call_result =
  rr_review :: "raw_annotation review"
  rr_cost_usd :: rat
  rr_model :: string

record apply_attempt =
  at_narrative :: string
  at_sidecar :: "(string \<times> py) list"
  at_cost_usd :: rat
  at_model :: string

datatype stop_reason = StopPass | NonActionableRemaining | NoDiff | RepeatedDigest | MaxCycles | BudgetExhausted

record signoff =
  so_task_id :: string
  so_final_status :: stop_reason
  so_cycles_completed :: nat
  so_final_verdict :: string
  so_stop_reason :: string
  so_budget_spent_usd :: rat
  so_actionable_count :: nat
  so_discussion_queue_count :: nat
  so_artifact_index :: "(string \<times> string) list"

datatype artifact =
    TextArtifact string
  | ReviewArtifact "annotation review"
  | SkippedArtifact "skipped_finding list"
  | ApplyArtifact apply_attempt
  | LedgerArtifact budget_ledger
  | SignoffArtifact signoff

record 'w cycle_env =
  ce_workspace :: "'w workspace"
  ce_reviewer :: "nat \<Rightarrow> 'w \<Rightarrow> (string + review_call_result) \<times> 'w"
  ce_implementer :: "nat \<Rightarrow> classification \<Rightarrow> 'w \<Rightarrow> (string + apply_attempt) \<times> 'w"
  ce_parse :: "(string \<times> py) list \<Rightarrow> annotation option"
  ce_other :: "py \<Rightarrow> string"
  ce_sha :: "string \<Rightarrow> string"
  ce_nfkc :: "string \<Rightarrow> string"
  ce_run_dir_prefix :: "string option"

record 'w cycle_state =
  cs_world :: 'w
  cs_ledger :: budget_ledger
  cs_queue :: "skipped_finding list"
  cs_seen :: "string list"
  cs_files :: "(string \<times> artifact) list"
  cs_last :: "classification option"
  cs_verdict :: string

text \<open>How a stage ends the run: the status, the cycles completed and the reason.\<close>

type_synonym stop = "stop_reason \<times> nat \<times> string"

definition runner_prefixes :: "'w cycle_env \<Rightarrow> string list" where
  "runner_prefixes E =
     (case ce_run_dir_prefix E of Some p \<Rightarrow> if p = [] then [] else [p] | None \<Rightarrow> [])"

definition write_artifact :: "string \<Rightarrow> artifact \<Rightarrow> 'w cycle_state \<Rightarrow> 'w cycle_state" where
  "write_artifact name a S = S\<lparr>cs_files := dict_set name a (cs_files S)\<rparr>"

definition numbered :: "string \<Rightarrow> nat \<Rightarrow> string \<Rightarrow> string" where
  "numbered stem n ext = stem @ nat_digits n @ ext"

text \<open>Where the run stands after a review: the checks in the order of the code.\<close>

definition review_stop :: "nat \<Rightarrow> string \<Rightarrow> classification \<Rightarrow> budget_ledger \<Rightarrow> string list \<Rightarrow> stop option" where
  "review_stop cycle verdict c L seen =
     (if verdict = ''pass'' then Some (StopPass, cycle, ''Reviewer verdict passed.'')
      else if is_exhausted L then Some (BudgetExhausted, cycle, ''Cumulative review-cycle budget exhausted after review.'')
      else if ac_actionable c = [] then Some (NonActionableRemaining, cycle, ''Only non-actionable review findings remain.'')
      else if ac_digest c \<in> set seen then Some (RepeatedDigest, cycle, ''Actionable finding digest repeated.'')
      else None)"

definition review_stage ::
  "'w cycle_env \<Rightarrow> review_task \<Rightarrow> nat \<Rightarrow> 'w cycle_state \<Rightarrow> (cycle_error + stop option) \<times> 'w cycle_state" where
  "review_stage E task cycle S =
     (case ce_reviewer E cycle (cs_world S) of
        (Inl e, w) \<Rightarrow> (Inl (CallbackError e), S\<lparr>cs_world := w\<rparr>)
      | (Inr r, w) \<Rightarrow>
          (let S0 = S\<lparr>cs_world := w\<rparr>;
               model = (if rr_model r = [] then tk_reviewer_model task else rr_model r)
           in case add_call cycle ReviewCall model (rr_cost_usd r) (cs_ledger S) of
                Inl e \<Rightarrow> (Inl e, S0)
              | Inr L \<Rightarrow>
                  (let S1 = S0\<lparr>cs_ledger := L\<rparr> in
                   case normalize_adversarial_review_response (ce_other E) (ce_parse E) (rr_review r) of
                     Inl e \<Rightarrow> (Inl (ReviewInvalid e), S1)
                   | Inr review \<Rightarrow>
                       (let S2 = write_artifact (numbered ''review_'' cycle ''.json'') (ReviewArtifact review)
                                   (S1\<lparr>cs_verdict := rv_verdict review\<rparr>) in
                        case normalize_adversarial_review_response (ce_other E) (ce_parse E) (as_raw review) of
                          Inl e \<Rightarrow> (Inl (ReviewInvalid e), S2)
                        | Inr parsed \<Rightarrow>
                            (let c = classify_parsed (ce_sha E) (ce_nfkc E) parsed;
                                 S3 = write_artifact (numbered ''discussion_queue_'' cycle ''.json'') (SkippedArtifact (ac_skipped c))
                                        (S2\<lparr>cs_last := Some c, cs_queue := cs_queue S2 @ ac_skipped c\<rparr>);
                                 stop = review_stop cycle (rv_verdict review) c L (cs_seen S)
                             in (Inr stop,
                                 if stop = None then S3\<lparr>cs_seen := List.insert (ac_digest c) (cs_seen S3)\<rparr> else S3))))))"

text \<open>What an apply call touched, and the check of it.\<close>

definition changed_ignored ::
  "'w cycle_env \<Rightarrow> review_task \<Rightarrow> fingerprints \<Rightarrow> fingerprints \<Rightarrow> string list" where
  "changed_ignored E task before after =
     exclude_runtime_cache_paths (exclude_paths (changed_ignored_paths before after) (runner_prefixes E))
       (tk_runtime_cache_carveouts task)"

definition touched_paths ::
  "'w cycle_env \<Rightarrow> 'w \<Rightarrow> string \<Rightarrow> string list \<Rightarrow> cycle_error + string list" where
  "touched_paths E w head changed =
     (let W = ce_workspace E in
      and_then (git_changed_paths_from_ref W w head) (\<lambda>a.
      and_then (git_changed_paths W w) (\<lambda>b.
      and_then (git_status_short W w) (\<lambda>s.
        Inr (exclude_paths (sort (remdups (a @ b @ status_paths (ws_shlex W) s @ changed))) (runner_prefixes E))))))"

definition check_touched ::
  "'w cycle_env \<Rightarrow> review_task \<Rightarrow> 'w \<Rightarrow> string \<Rightarrow> string list \<Rightarrow> cycle_error + unit" where
  "check_touched E task w head changed =
     (if tk_allow_workspace_wide_edits task then Inr ()
      else and_then (touched_paths E w head changed) (\<lambda>ps. ensure_paths_allowed ps (tk_artifact_paths task)))"

definition regular_file :: "'w workspace \<Rightarrow> 'w \<Rightarrow> string \<Rightarrow> bool" where
  "regular_file W w p = (case ws_stat W w p of Some (is_file, _) \<Rightarrow> is_file | None \<Rightarrow> False)"

text \<open>The snapshot before the apply call and the diff after it.\<close>

definition snapshot_before :: "'w cycle_env \<Rightarrow> 'w \<Rightarrow> cycle_error + (string \<times> fingerprints \<times> string)" where
  "snapshot_before E w =
     (let W = ce_workspace E in
      and_then (git_head W w) (\<lambda>head.
      and_then (git_ignored_path_fingerprints W w) (\<lambda>ignored.
      and_then (git_diff_from_ref W w head [] (runner_prefixes E)) (\<lambda>d. Inr (head, ignored, d)))))"

definition diff_after ::
  "'w cycle_env \<Rightarrow> review_task \<Rightarrow> 'w \<Rightarrow> string \<Rightarrow> fingerprints \<Rightarrow> cycle_error + string" where
  "diff_after E task w head before =
     (let W = ce_workspace E in
      and_then (git_ignored_path_fingerprints W w) (\<lambda>after.
        let changed = changed_ignored E task before after in
        and_then (check_touched E task w head changed) (\<lambda>_.
          git_diff_from_ref W w head
            (filter (\<lambda>p. dict_has after p \<and> regular_file W w p) changed) (runner_prefixes E))))"

definition apply_stop :: "nat \<Rightarrow> string \<Rightarrow> string \<Rightarrow> budget_ledger \<Rightarrow> stop option" where
  "apply_stop cycle before after L =
     (if after = before then Some (NoDiff, cycle, ''Apply step produced no artifact diff.'')
      else if is_exhausted L then Some (BudgetExhausted, cycle, ''Cumulative review-cycle budget exhausted after apply.'')
      else None)"

definition apply_stage ::
  "'w cycle_env \<Rightarrow> review_task \<Rightarrow> nat \<Rightarrow> classification \<Rightarrow> 'w cycle_state
     \<Rightarrow> (cycle_error + stop option) \<times> 'w cycle_state" where
  "apply_stage E task cycle c S =
     (case snapshot_before E (cs_world S) of
        Inl e \<Rightarrow> (Inl e, S)
      | Inr (head, ignored, before) \<Rightarrow>
          (case ce_implementer E cycle c (cs_world S) of
             (Inl e, w) \<Rightarrow> (Inl (CallbackError e), S\<lparr>cs_world := w\<rparr>)
           | (Inr a, w) \<Rightarrow>
               (let S0 = S\<lparr>cs_world := w\<rparr>;
                    model = (if at_model a = [] then tk_implementer_model task else at_model a)
                in case add_call cycle ApplyCall model (at_cost_usd a) (cs_ledger S) of
                     Inl e \<Rightarrow> (Inl e, S0)
                   | Inr L \<Rightarrow>
                       (let S1 = write_artifact (numbered ''apply_'' cycle ''.json'') (ApplyArtifact a)
                                   (write_artifact (numbered ''apply_'' cycle ''.md'') (TextArtifact (at_narrative a))
                                     (S0\<lparr>cs_ledger := L\<rparr>)) in
                        case diff_after E task w head ignored of
                          Inl e \<Rightarrow> (Inl e, S1)
                        | Inr after \<Rightarrow>
                            (Inr (apply_stop cycle before after L),
                             write_artifact (numbered ''diff_'' cycle ''.patch'') (TextArtifact after) S1)))))"

fun cycle_loop ::
  "'w cycle_env \<Rightarrow> review_task \<Rightarrow> nat list \<Rightarrow> 'w cycle_state \<Rightarrow> (cycle_error + stop) \<times> 'w cycle_state" where
  "cycle_loop E task [] S = (Inr (MaxCycles, tk_max_cycles task, ''Maximum review cycles reached.''), S)"
| "cycle_loop E task (n # ns) S =
     (case review_stage E task n S of
        (Inl e, S1) \<Rightarrow> (Inl e, S1)
      | (Inr (Some s), S1) \<Rightarrow> (Inr s, S1)
      | (Inr None, S1) \<Rightarrow>
          (case cs_last S1 of
             None \<Rightarrow> cycle_loop E task ns S1
           | Some c \<Rightarrow>
               (case apply_stage E task n c S1 of
                  (Inl e, S2) \<Rightarrow> (Inl e, S2)
                | (Inr (Some s), S2) \<Rightarrow> (Inr s, S2)
                | (Inr None, S2) \<Rightarrow> cycle_loop E task ns S2)))"

definition make_signoff :: "review_task \<Rightarrow> stop \<Rightarrow> 'w cycle_state \<Rightarrow> signoff" where
  "make_signoff task s S =
     (case s of (status, cycles, reason) \<Rightarrow>
       \<lparr>so_task_id = tk_task_id task, so_final_status = status, so_cycles_completed = cycles,
        so_final_verdict = cs_verdict S, so_stop_reason = reason, so_budget_spent_usd = total_spent (cs_ledger S),
        so_actionable_count = (case cs_last S of Some c \<Rightarrow> length (ac_actionable c) | None \<Rightarrow> 0),
        so_discussion_queue_count = (case cs_last S of Some c \<Rightarrow> length (ac_skipped c) | None \<Rightarrow> 0),
        so_artifact_index = []\<rparr>)"

definition build_artifact_index :: "(string \<times> artifact) list \<Rightarrow> (string \<times> string) list" where
  "build_artifact_index files = map (\<lambda>n. (n, n)) (sort (map fst files))"

definition write_terminal_artifacts :: "signoff \<Rightarrow> 'w cycle_state \<Rightarrow> signoff \<times> 'w cycle_state" where
  "write_terminal_artifacts sign S =
     (let S1 = write_artifact ''budget_ledger.json'' (LedgerArtifact (cs_ledger S))
                 (write_artifact ''discussion_queue.json'' (SkippedArtifact (cs_queue S)) S);
          sign' = sign\<lparr>so_discussion_queue_count := length (cs_queue S),
                    so_artifact_index := dict_set ''signoff.json'' ''signoff.json'' (build_artifact_index (cs_files S1))\<rparr>
      in (sign', write_artifact ''signoff.json'' (SignoffArtifact sign') S1))"

definition preflight_check :: "'w cycle_env \<Rightarrow> review_task \<Rightarrow> string \<Rightarrow> cycle_error + unit" where
  "preflight_check E task status =
     (if tk_allow_workspace_wide_edits task then Inr ()
      else ensure_paths_allowed
             (exclude_paths (status_paths (ws_shlex (ce_workspace E)) status) (runner_prefixes E))
             (tk_artifact_paths task))"

definition initial_state :: "review_task \<Rightarrow> 'w \<Rightarrow> (string \<times> artifact) list \<Rightarrow> 'w cycle_state" where
  "initial_state task w files =
     \<lparr>cs_world = w, cs_ledger = \<lparr>bl_max_budget = tk_max_budget task, bl_entries = []\<rparr>, cs_queue = [],
      cs_seen = [], cs_files = files, cs_last = None, cs_verdict = []\<rparr>"

definition run_review_cycle ::
  "'w cycle_env \<Rightarrow> review_task \<Rightarrow> 'w \<Rightarrow> (string \<times> artifact) list \<Rightarrow> (cycle_error + signoff) \<times> 'w cycle_state" where
  "run_review_cycle E task w files =
     (let S = initial_state task w files in
      case git_status_short (ce_workspace E) w of
        Inl e \<Rightarrow> (Inl e, S)
      | Inr status \<Rightarrow>
          (let S0 = write_artifact ''preflight_status.txt'' (TextArtifact status) S in
           case preflight_check E task status of
             Inl e \<Rightarrow> (Inl e, S0)
           | Inr _ \<Rightarrow>
               (case cycle_loop E task [1..<Suc (tk_max_cycles task)] S0 of
                  (Inl e, S1) \<Rightarrow> (Inl e, S1)
                | (Inr s, S1) \<Rightarrow>
                    (case write_terminal_artifacts (make_signoff task s S1) S1 of (sign, S2) \<Rightarrow> (Inr sign, S2)))))"

section \<open>The ledger adds up\<close>







definition ledger_plan :: "nat \<Rightarrow> (nat \<times> call_kind) list" where
  "ledger_plan n = concat (map (\<lambda>k. [(k, ReviewCall), (k, ApplyCall)]) [1..<Suc n])"

lemma ledger_plan_simps [simp]:
  "ledger_plan 0 = []" "ledger_plan (Suc k) = ledger_plan k @ [(Suc k, ReviewCall), (Suc k, ApplyCall)]"
  by (simp_all add: ledger_plan_def)





section \<open>The loop keeps its promises\<close>

text \<open>
  What happens to the world. An apply call takes a world to another one and changes the diff of the artifacts or not;
  the first \<open>k\<close> cycles each have a review and an apply call that changes the diff.
\<close>

definition applies :: "'w cycle_env \<Rightarrow> review_task \<Rightarrow> nat \<Rightarrow> 'w \<Rightarrow> 'w \<Rightarrow> bool \<Rightarrow> bool" where
  "applies E task n w w' changed \<longleftrightarrow>
     (\<exists>c a head ignored before after. ce_implementer E n c w = (Inr a, w') \<and>
        snapshot_before E w = Inr (head, ignored, before) \<and> diff_after E task w' head ignored = Inr after \<and>
        (changed \<longleftrightarrow> after \<noteq> before))"









lemma write_artifact_simps [simp]:
  "cs_world (write_artifact f a S) = cs_world S" "cs_ledger (write_artifact f a S) = cs_ledger S"
  "cs_queue (write_artifact f a S) = cs_queue S" "cs_seen (write_artifact f a S) = cs_seen S"
  "cs_last (write_artifact f a S) = cs_last S" "cs_verdict (write_artifact f a S) = cs_verdict S"
  by (simp_all add: write_artifact_def)


lemma apply_stage_Inr:
  assumes "apply_stage E task n c S = (Inr out, S')"
  shows "\<exists>m cost before after. add_call n ApplyCall m cost (cs_ledger S) = Inr (cs_ledger S')
    \<and> out = apply_stop n before after (cs_ledger S') \<and> cs_seen S' = cs_seen S \<and> cs_last S' = cs_last S
    \<and> cs_verdict S' = cs_verdict S
    \<and> (\<exists>head ignored. snapshot_before E (cs_world S) = Inr (head, ignored, before)
         \<and> diff_after E task (cs_world S') head ignored = Inr after)
    \<and> applies E task n (cs_world S) (cs_world S') (after \<noteq> before)"
proof -
  obtain head ignored before where snap: "snapshot_before E (cs_world S) = Inr (head, ignored, before)"
    using assms by (cases "snapshot_before E (cs_world S)") (auto simp: apply_stage_def)
  obtain a w where a: "ce_implementer E n c (cs_world S) = (Inr a, w)"
    using assms snap by (cases "ce_implementer E n c (cs_world S)"; cases "fst (ce_implementer E n c (cs_world S))")
      (simp_all add: apply_stage_def)
  let ?m = "if at_model a = [] then tk_implementer_model task else at_model a"
  obtain L where L: "add_call n ApplyCall ?m (at_cost_usd a) (cs_ledger S) = Inr L"
    using assms snap a by (cases "add_call n ApplyCall ?m (at_cost_usd a) (cs_ledger S)") (simp_all add: apply_stage_def)
  obtain after where after: "diff_after E task w head ignored = Inr after"
    using assms snap a L by (cases "diff_after E task w head ignored") (simp_all add: apply_stage_def)
  from assms snap a L after have "out = apply_stop n before after L \<and> cs_ledger S' = L \<and> cs_seen S' = cs_seen S
      \<and> cs_last S' = cs_last S \<and> cs_verdict S' = cs_verdict S \<and> cs_world S' = w"
    by (auto simp: apply_stage_def Let_def)
  moreover from this a snap after have "applies E task n (cs_world S) (cs_world S') (after \<noteq> before)"
    unfolding applies_def by blast
  ultimately show ?thesis using L snap after by metis
qed




















section \<open>No high finding is lost or doubled\<close>

lemma lefts_append [simp]: "lefts (xs @ ys) = lefts xs @ lefts ys"
  by (induction xs rule: lefts.induct) simp_all

text \<open>The indices of the correctness findings that annotations put forward.\<close>

definition gap_index :: "correctness_finding list \<Rightarrow> actionable_finding \<Rightarrow> nat option" where
  "gap_index cs f =
     (case af_payload f of OfAnnotation a \<Rightarrow> map_option fst (linked_finding cs a) | _ \<Rightarrow> None)"

lemma linked_finding_Some:
  "linked_finding cs a = Some (i, f) \<Longrightarrow> i < length cs \<and> f = cs ! i"
  by (auto simp: linked_finding_def split: option.splits if_splits)

lemma annotated_indices:
  "List.map_filter (gap_index cs) (lefts (classify_annotations cs as emitted)) =
     dedup_by id emitted (valid_optimum_gap_links cs as)"
proof (induction as arbitrary: emitted)
  case Nil
  then show ?case by (simp add: valid_optimum_gap_links_def)
next
  case (Cons a as)
  show ?case
  proof (cases "an_kind a = ''optimum_gap'' \<and> links_validly cs a")
    case True
    then obtain i f where linked: "linked_finding cs a = Some (i, f)" and high: "cf_severity f = ''high''"
      "py_strip (an_validity_loss_without_change a) \<noteq> []"
      by (auto simp: links_validly_def split: option.splits)
    have links: "valid_optimum_gap_links cs (a # as) = i # valid_optimum_gap_links cs as"
      using True linked by (simp add: valid_optimum_gap_links_def)
    show ?thesis
      using True Cons.IH linked high unfolding links
      by (cases "i \<in> set emitted") (simp_all add: Let_def gap_index_def)
  next
    case False
    then have "valid_optimum_gap_links cs (a # as) = valid_optimum_gap_links cs as"
      by (auto simp: valid_optimum_gap_links_def)
    moreover have "lefts (classify_annotations cs (a # as) emitted) = lefts (classify_annotations cs as emitted)"
      using False by (auto simp: Let_def links_validly_def split: option.splits)
    ultimately show ?thesis using Cons.IH by simp
  qed
qed

lemma annotated_gaps:
  "f \<in> set (lefts (classify_annotations cs as emitted)) \<Longrightarrow> af_kind f = OptimumGap \<and> gap_index cs f \<noteq> None"
  by (induction cs as emitted rule: classify_annotations.induct)
    (auto simp: Let_def gap_index_def split: if_splits option.splits)

lemma direct_findings:
  "map af_payload (lefts (List.map_filter (classify_correctness L) ps)) =
     map (\<lambda>p. OfCorrectness (snd p)) (filter (\<lambda>p. cf_severity (snd p) = ''high'' \<and> fst p \<notin> set L) ps)"
  "f \<in> set (lefts (List.map_filter (classify_correctness L) ps)) \<Longrightarrow> af_kind f = CorrectnessHigh"
  by (induction ps) (auto simp: classify_correctness_def split: prod.splits if_splits)

lemma length_map_filter_all: "\<forall>x \<in> set xs. g x \<noteq> None \<Longrightarrow> length (List.map_filter g xs) = length xs"
  by (induction xs) auto

lemma length_filter_enumerate:
  "length (filter (\<lambda>p. Q (fst p) (snd p)) (enumerate 0 xs)) = card {i. i < length xs \<and> Q i (xs ! i)}"
proof -
  have "distinct (filter (\<lambda>p. Q (fst p) (snd p)) (enumerate 0 xs))" by (simp add: distinct_enumerate)
  then have "length (filter (\<lambda>p. Q (fst p) (snd p)) (enumerate 0 xs)) =
      card (set (filter (\<lambda>p. Q (fst p) (snd p)) (enumerate 0 xs)))" by (simp only: distinct_card)
  also have "set (filter (\<lambda>p. Q (fst p) (snd p)) (enumerate 0 xs)) = (\<lambda>i. (i, xs ! i)) ` {i. i < length xs \<and> Q i (xs ! i)}"
    by (auto simp: in_set_enumerate_eq)
  also have "card \<dots> = card {i. i < length xs \<and> Q i (xs ! i)}" by (intro card_image) (simp add: inj_on_def)
  finally show ?thesis .
qed

lemma valid_links_high:
  assumes "i \<in> set (valid_optimum_gap_links cs as)"
  shows "i < length cs \<and> cf_severity (cs ! i) = ''high''"
proof -
  from assms obtain a where "links_validly cs a" "map_option fst (linked_finding cs a) = Some i"
    unfolding valid_optimum_gap_links_def in_map_filter by (auto split: if_splits)
  then obtain f where "linked_finding cs a = Some (i, f)" "cf_severity f = ''high''"
    by (auto simp: links_validly_def)
  with linked_finding_Some [of cs a i f] show ?thesis by simp
qed

text \<open>
  The classification loses no finding of high severity and doubles none: each is applied once, as itself
  or through the first annotation that gives a valid reason for it, and a finding of lower severity is
  never applied. Every contract violation is applied.
\<close>

theorem high_findings_applied_once:
  fixes sha nfkc :: "string \<Rightarrow> string" and r :: "annotation review"
  defines "cs \<equiv> rv_correctness_findings r"
    and "as \<equiv> (case rv_profile_annotations r of Some as \<Rightarrow> as | None \<Rightarrow> [])"
  defines "L \<equiv> valid_optimum_gap_links cs as"
    and "found \<equiv> (\<lambda>k. filter (\<lambda>f. af_kind f = k) (ac_actionable (classify_parsed sha nfkc r)))"
  shows "map af_payload (found CorrectnessHigh) = map (\<lambda>p. OfCorrectness (snd p))
        (filter (\<lambda>p. cf_severity (snd p) = ''high'' \<and> fst p \<notin> set L) (enumerate 0 cs))
    \<and> List.map_filter (gap_index cs) (found OptimumGap) = dedup_by id [] L
    \<and> length (found CorrectnessHigh) + length (found OptimumGap) = length (filter (\<lambda>f. cf_severity f = ''high'') cs)
    \<and> map af_payload (found ContractViolationFound) = map OfViolation (rv_contract_violations r)"
proof -
  let ?direct = "lefts (List.map_filter (classify_correctness L) (enumerate 0 cs))"
  let ?gaps = "lefts (classify_annotations cs as [])"
  let ?vs = "map (\<lambda>v. \<lparr>af_kind = ContractViolationFound, af_claim = cv_violation v,
       af_evidence_ref = cv_evidence_path v, af_severity = ''high'', af_payload = OfViolation v\<rparr>) (rv_contract_violations r)"
  have all: "ac_actionable (classify_parsed sha nfkc r) = ?vs @ ?direct @ ?gaps"
    by (simp add: classify_parsed_def Let_def cs_def as_def L_def)
  have direct: "f \<in> set ?direct \<Longrightarrow> af_kind f = CorrectnessHigh" for f by (rule direct_findings(2))
  have gaps: "f \<in> set ?gaps \<Longrightarrow> af_kind f = OptimumGap \<and> gap_index cs f \<noteq> None" for f by (rule annotated_gaps)
  have found: "found CorrectnessHigh = ?direct" "found OptimumGap = ?gaps" "found ContractViolationFound = ?vs"
    unfolding found_def all using direct gaps
    by (auto simp: filter_id_conv filter_empty_conv)
  have indices: "List.map_filter (gap_index cs) ?gaps = dedup_by id [] L"
    unfolding L_def by (rule annotated_indices)
  have "length ?gaps = length (dedup_by id [] L)"
    using gaps length_map_filter_all [of ?gaps "gap_index cs"] unfolding indices by simp
  also have "\<dots> = card (set L)"
    using dedup_by_distinct [of id "[]" L] dedup_by_keys [of id "[]" L] distinct_card [of "dedup_by id [] L"] by simp
  finally have ngaps: "length ?gaps = card (set L)" .
  have "length ?direct = length (map af_payload ?direct)" by simp
  also have "\<dots> = card {i. i < length cs \<and> cf_severity (cs ! i) = ''high'' \<and> i \<notin> set L}"
    unfolding direct_findings(1) length_map by (rule length_filter_enumerate)
  finally have ndirect: "length ?direct = card {i. i < length cs \<and> cf_severity (cs ! i) = ''high'' \<and> i \<notin> set L}" .
  have "{i. i < length cs \<and> cf_severity (cs ! i) = ''high''} =
      {i. i < length cs \<and> cf_severity (cs ! i) = ''high'' \<and> i \<notin> set L} \<union> set L"
    using valid_links_high L_def by auto
  then have "card {i. i < length cs \<and> cf_severity (cs ! i) = ''high''} = length ?direct + length ?gaps"
    unfolding ndirect ngaps by (simp only:) (intro card_Un_disjoint; auto)
  then have "length ?direct + length ?gaps = length (filter (\<lambda>f. cf_severity f = ''high'') cs)"
    by (simp add: length_filter_conv_card)
  then show ?thesis
    unfolding found using direct_findings(1) indices by simp
qed

section \<open>The digest does not see the order\<close>

text \<open>The digest of a set of findings is the same in every order, and for texts that differ only in case, in
  runs of blanks and in a leading bullet.\<close>

theorem digest_order_free:
  assumes "mset (map (digest_item nfkc) fs) = mset (map (digest_item nfkc) gs)"
  shows "actionable_finding_digest sha nfkc fs = actionable_finding_digest sha nfkc gs"
proof -
  have "sort (map (digest_item nfkc) fs) = sort (map (digest_item nfkc) gs)"
    using assms by (metis properties_for_sort mset_sort sorted_sort)
  then show ?thesis by (simp add: actionable_finding_digest_def)
qed

section \<open>The guard of the paths\<close>

lemma exclude_paths_set: "p \<in> set (exclude_paths ps ex) \<longleftrightarrow> p \<in> set ps \<and> \<not> is_allowed_path ex p"
  by (simp add: exclude_paths_def)

lemma ensure_allowed: "ensure_paths_allowed ps allowed = Inr u \<longleftrightarrow> list_all (is_allowed_path allowed) ps"
  by (auto simp: ensure_paths_allowed_def Let_def filter_empty_conv list_all_iff)

lemma changed_ignored_iff:
  "p \<in> set (changed_ignored E task before after) \<longleftrightarrow>
     dict_get before p \<noteq> dict_get after p \<and> \<not> is_allowed_path (runner_prefixes E) p \<and>
     (''python_bytecode'' \<in> set (tk_runtime_cache_carveouts task) \<longrightarrow> \<not> is_python_bytecode_cache p)"
proof -
  have "dict_get before p \<noteq> dict_get after p \<Longrightarrow> p \<in> fst ` set before \<or> p \<in> fst ` set after"
    by (metis map_of_eq_None_iff)
  then show ?thesis
    by (auto simp: changed_ignored_def exclude_runtime_cache_paths_def exclude_paths_def changed_ignored_paths_def)
qed

text \<open>
  C34: an apply call that is accepted touched nothing it was not allowed to touch. Unless workspace-wide edits
  are allowed, every path that git reports as changed since the commit before the call, staged, unstaged,
  untracked or renamed, is under a declared artifact or under the run directory, and so is every ignored
  file whose fingerprint changed, bytecode caches apart when they are carved out.
\<close>

theorem applied_paths_guarded:
  assumes "apply_stage E task n c S = (Inr out, S')" and "\<not> tk_allow_workspace_wide_edits task"
  defines "W \<equiv> ce_workspace E" and "ok \<equiv> (\<lambda>p. is_allowed_path (tk_artifact_paths task) p \<or> is_allowed_path (runner_prefixes E) p)"
  shows "\<exists>head a b s before after. git_head W (cs_world S) = Inr head
    \<and> git_changed_paths_from_ref W (cs_world S') head = Inr a \<and> git_changed_paths W (cs_world S') = Inr b
    \<and> git_status_short W (cs_world S') = Inr s
    \<and> list_all ok (a @ b @ status_paths (ws_shlex W) s)
    \<and> git_ignored_path_fingerprints W (cs_world S) = Inr before \<and> git_ignored_path_fingerprints W (cs_world S') = Inr after
    \<and> (\<forall>p. dict_get before p \<noteq> dict_get after p \<longrightarrow>
        ok p \<or> ''python_bytecode'' \<in> set (tk_runtime_cache_carveouts task) \<and> is_python_bytecode_cache p)"
proof -
  from apply_stage_Inr [OF assms(1)] obtain head before d after_d where
    snap: "snapshot_before E (cs_world S) = Inr (head, before, d)"
    and diff: "diff_after E task (cs_world S') head before = Inr after_d" by blast
  have head: "git_head W (cs_world S) = Inr head" "git_ignored_path_fingerprints W (cs_world S) = Inr before"
    using snap by (auto simp: snapshot_before_def W_def Let_def)
  obtain after where after: "git_ignored_path_fingerprints W (cs_world S') = Inr after"
    and checked: "check_touched E task (cs_world S') head (changed_ignored E task before after) = Inr ()"
    using diff by (auto simp: diff_after_def W_def Let_def)
  let ?ch = "changed_ignored E task before after"
  obtain ps where ps: "touched_paths E (cs_world S') head ?ch = Inr ps" "list_all (is_allowed_path (tk_artifact_paths task)) ps"
    using checked assms(2) ensure_allowed by (auto simp: check_touched_def)
  then obtain a b s where abs: "git_changed_paths_from_ref W (cs_world S') head = Inr a" "git_changed_paths W (cs_world S') = Inr b"
    "git_status_short W (cs_world S') = Inr s"
    and list: "ps = exclude_paths (sort (remdups (a @ b @ status_paths (ws_shlex W) s @ ?ch))) (runner_prefixes E)"
    by (auto simp: touched_paths_def W_def Let_def)
  have ok: "ok p" if "p \<in> set (a @ b @ status_paths (ws_shlex W) s @ ?ch)" for p
    using that ps(2) by (auto simp: list list_all_iff exclude_paths_set ok_def)
  then have "list_all ok (a @ b @ status_paths (ws_shlex W) s)" by (auto simp: list_all_iff)
  moreover have "\<forall>p. dict_get before p \<noteq> dict_get after p \<longrightarrow>
        ok p \<or> ''python_bytecode'' \<in> set (tk_runtime_cache_carveouts task) \<and> is_python_bytecode_cache p"
  proof (intro allI impI)
    fix p assume ne: "dict_get before p \<noteq> dict_get after p"
    show "ok p \<or> ''python_bytecode'' \<in> set (tk_runtime_cache_carveouts task) \<and> is_python_bytecode_cache p"
    proof (cases "p \<in> set ?ch")
      case True
      then show ?thesis using ok by simp
    next
      case False
      then show ?thesis using ne by (auto simp: changed_ignored_iff ok_def)
    qed
  qed
  ultimately show ?thesis using head abs after by blast
qed

section \<open>A run\<close>

text \<open>A workspace with one file that is not declared, which the world says is changed or not.\<close>

definition demo_git :: "bool \<Rightarrow> string list \<Rightarrow> git_answer" where
  "demo_git w args =
     \<lparr>ga_code = 0, ga_stdout = (if w \<and> args = [''status'', ''--short'', ''--untracked-files=all''] then ''?? evil.txt'' else []),
      ga_stderr = []\<rparr>"

definition demo_env :: "string \<Rightarrow> bool cycle_env" where
  "demo_env verdict =
     \<lparr>ce_workspace = \<lparr>ws_git = demo_git, ws_stat = (\<lambda>w p. None), ws_path = ''w'', ws_shlex = (\<lambda>s. None)\<rparr>,
      ce_reviewer = (\<lambda>n w. (Inr \<lparr>rr_review = (demo_review [])\<lparr>rv_verdict := verdict,
          rv_contract_violations := [\<lparr>cv_constraint = ''c'', cv_violation = ''v'', cv_evidence_path = ''p''\<rparr>]\<rparr>,
          rr_cost_usd = 1, rr_model = []\<rparr>, verdict = ''pass'')),
      ce_implementer = (\<lambda>n c w. (Inr \<lparr>at_narrative = [], at_sidecar = [], at_cost_usd = 1, at_model = []\<rparr>, w)),
      ce_parse = strict_parse, ce_other = (\<lambda>_. []), ce_sha = (\<lambda>s. s), ce_nfkc = (\<lambda>s. s), ce_run_dir_prefix = None\<rparr>"

definition demo_task :: review_task where
  "demo_task = \<lparr>tk_task_id = ''t'', tk_artifact_paths = [''a.md''], tk_reviewer_model = ''r'', tk_implementer_model = ''i'',
     tk_max_cycles = 3, tk_max_budget = 10, tk_allow_workspace_wide_edits = False,
     tk_runtime_cache_carveouts = [''python_bytecode'']\<rparr>"

definition run_status :: "(cycle_error + signoff) \<times> bool cycle_state \<Rightarrow> (stop_reason \<times> nat) option" where
  "run_status r = (case fst r of Inl e \<Rightarrow> None | Inr s \<Rightarrow> Some (so_final_status s, so_cycles_completed s))"





text \<open>
  The guard looks at apply calls only. A reviewer that edits an undeclared file, with which the run would
  otherwise not start, is not noticed when its verdict ends the run.
\<close>

lemma reviewer_edits_unchecked:
  "run_status (run_review_cycle (demo_env ''pass'') demo_task False []) = Some (StopPass, 1)
   \<and> cs_world (snd (run_review_cycle (demo_env ''pass'') demo_task False []))
   \<and> status_paths (\<lambda>s. None) (ga_stdout (demo_git True [''status'', ''--short'', ''--untracked-files=all''])) = [''evil.txt'']
   \<and> \<not> is_allowed_path (tk_artifact_paths demo_task) ''evil.txt''
   \<and> run_status (run_review_cycle (demo_env ''pass'') demo_task True []) = None"
  by code_simp

lemma demo_apply:
  "(case fst (apply_stage (demo_env ''blocker'') demo_task 1 \<lparr>ac_actionable = [], ac_skipped = [], ac_digest = []\<rparr>
      (initial_state demo_task False [])) of Inl e \<Rightarrow> False | Inr s \<Rightarrow> True)"
  by code_simp

theorem applied_paths_guarded_witness:
  "\<exists>out S'. apply_stage (demo_env ''blocker'') demo_task 1 \<lparr>ac_actionable = [], ac_skipped = [], ac_digest = []\<rparr>
      (initial_state demo_task False []) = (Inr out, S')
    \<and> (\<exists>s. git_status_short (ce_workspace (demo_env ''blocker'')) (cs_world S') = Inr s
        \<and> list_all (\<lambda>p. is_allowed_path [''a.md''] p \<or> is_allowed_path (runner_prefixes (demo_env ''blocker'')) p)
            (status_paths (\<lambda>s. None) s))"
proof -
  obtain out S' where run: "apply_stage (demo_env ''blocker'') demo_task 1
      \<lparr>ac_actionable = [], ac_skipped = [], ac_digest = []\<rparr> (initial_state demo_task False []) = (Inr out, S')"
    using demo_apply by (metis prod.collapse obj_sumE sum.case(1))
  have "\<not> tk_allow_workspace_wide_edits demo_task" by (simp add: demo_task_def)
  from applied_paths_guarded [OF run this] run show ?thesis
    by (auto simp: demo_env_def demo_task_def)
qed

end
