(* ===== verification/Deliberation_Verifier.thy ===== *)
theory Deliberation_Verifier
  imports Retry Py_Support
begin

text \<open>
  The verifier stage of a deliberation, \<open>llm_client/workflow/deliberate_verifier.py\<close>, over the records of
  positions of \<open>llm_client/workflow/deliberate.py\<close>: citations and how they are resolved in the workspace,
  the ledger of the citations of a position, and the lineage of claims between rounds.

  Positions are dumps of validated models, so the defaults of \<open>get\<close> for missing fields do not occur. The
  file system is a record: joining the workspace to a path, \<open>is_file\<close> (an \<open>OSError\<close> counts as no), \<open>resolve\<close>,
  and reading, which answers the text or the message of the \<open>OSError\<close>. The ledger passes through the state
  as dictionaries of its rows.
\<close>

section \<open>Positions\<close>

record position_claim =
  pc_claim_id :: string
  pc_claim :: string
  pc_severity :: string
  pc_evidence_path :: string

record position_evidence =
  pe_label :: string
  pe_citation :: string
  pe_content_snippet :: string

record disagreement =
  da_peer_claim_id :: string
  da_my_counterclaim :: string
  da_evidence_path :: string

record position =
  po_agent_name :: string
  po_round :: int
  po_claims :: "position_claim list"
  po_evidence :: "position_evidence list"
  po_open_questions :: "string list"
  po_agreed_with_peer :: "string list"
  po_disagreed_with_peer :: "disagreement list"
  po_confidence :: string
  po_state :: string
  po_reviewer_summary :: string
  po_reviewer_model :: string

section \<open>Citations\<close>

record citation =
  ct_raw :: string
  ct_file :: "string option"
  ct_range :: "(nat \<times> nat) option"
  ct_section :: "string option"
  ct_parseable :: bool

definition unparseable :: "string \<Rightarrow> citation" where
  "unparseable raw = \<lparr>ct_raw = raw, ct_file = None, ct_range = None, ct_section = None, ct_parseable = False\<rparr>"

text \<open>The characters \<open>[\w./\-]\<close> of a cited path.\<close>

definition path_char :: "char \<Rightarrow> bool" where
  "path_char c \<longleftrightarrow> is_word_char c \<or> c \<in> set ''./-''"

definition all_digits :: "string \<Rightarrow> bool" where
  "all_digits s \<longleftrightarrow> s \<noteq> [] \<and> list_all py_isdigit s"

text \<open>\<open>(\d+)(?:-(\d+))?\<close>, the end defaulting to the start.\<close>

definition parse_line_range :: "string \<Rightarrow> (nat \<times> nat) option" where
  "parse_line_range s =
     (let a = takeWhile py_isdigit s; r = dropWhile py_isdigit s in
      if a = [] then None
      else if r = [] then Some (digits_nat a, digits_nat a)
      else if hd r = CHR ''-'' \<and> all_digits (tl r) then Some (digits_nat a, digits_nat (tl r))
      else None)"

text \<open>\<open>[\w./\-]+\.\w+\<close>: the last dot is the one that the expression matches.\<close>

definition bare_path :: "string \<Rightarrow> bool" where
  "bare_path s \<longleftrightarrow>
     (let ext = py_after_last CHR ''.'' s in
      list_all path_char s \<and> CHR ''.'' \<in> set s \<and> ext \<noteq> [] \<and> list_all is_word_char ext \<and> length ext + 1 < length s)"

text \<open>
  One stripped piece of an \<open>evidence_path\<close>. The path of a citation has neither a colon nor a hash, so that
  the first character that is not of a path tells the four patterns apart; those for one and for several
  line ranges are one here.
\<close>

definition parse_piece :: "string \<Rightarrow> citation list" where
  "parse_piece piece =
     (let path = takeWhile path_char piece; rest = dropWhile path_char piece in
      if path \<noteq> [] \<and> prefix '':'' rest \<and> list_all (\<lambda>r. parse_line_range r \<noteq> None) (split_on CHR '','' (tl rest))
      then map (\<lambda>r. \<lparr>ct_raw = path @ '':'' @ r, ct_file = Some path, ct_range = parse_line_range r,
             ct_section = None, ct_parseable = True\<rparr>) (split_on CHR '','' (tl rest))
      else if path \<noteq> [] \<and> prefix ''#'' rest \<and> tl rest \<noteq> [] \<and> list_all (\<lambda>c. is_word_char c \<or> c = CHR ''-'') (tl rest)
      then [\<lparr>ct_raw = piece, ct_file = Some path, ct_range = None, ct_section = Some (tl rest), ct_parseable = True\<rparr>]
      else if bare_path piece
      then [\<lparr>ct_raw = piece, ct_file = Some piece, ct_range = None, ct_section = None, ct_parseable = True\<rparr>]
      else [unparseable piece])"

definition parse_evidence_path :: "string \<Rightarrow> citation list" where
  "parse_evidence_path evidence =
     (if py_strip evidence = [] then [unparseable []]
      else let cs = concat (map parse_piece (filter (\<lambda>p. p \<noteq> []) (map py_strip (split_on CHR '';'' evidence))))
           in if cs = [] then [unparseable evidence] else cs)"

section \<open>Resolving a citation\<close>

record file_tree =
  ft_join :: "string \<Rightarrow> string \<Rightarrow> string"
  ft_is_file :: "string \<Rightarrow> bool"
  ft_resolve :: "string \<Rightarrow> string"
  ft_read :: "string \<Rightarrow> string + string"

definition resolve_path :: "file_tree \<Rightarrow> string \<Rightarrow> string \<Rightarrow> string option" where
  "resolve_path F ws f =
     map_option (ft_resolve F) (find (ft_is_file F) [ft_join F ws f, f])"

definition SNIPPET_CONTEXT_LINES :: nat where
  "SNIPPET_CONTEXT_LINES = 2"

definition extract_snippet :: "file_tree \<Rightarrow> string \<Rightarrow> (nat \<times> nat) option \<Rightarrow> string option \<times> string" where
  "extract_snippet F path line_range =
     (case ft_read F path of
        Inl exc \<Rightarrow> (None, ''read_error: '' @ exc)
      | Inr contents \<Rightarrow>
          (let file_lines = splitlines contents; n = length file_lines in
           case line_range of
             None \<Rightarrow> (Some (py_join [CHR 0x0A] (take 20 file_lines)),
                ''no line_range cited; first 20 lines of '' @ nat_digits n)
           | Some (start, end) \<Rightarrow>
               (if start < 1 \<or> end < start
                then (None, ''invalid_range: start='' @ nat_digits start @ '' end='' @ nat_digits end)
                else if n < end
                then (None, ''line_range_out_of_bounds: end='' @ nat_digits end @ '' > file_lines='' @ nat_digits n)
                else let a = max 1 (start - SNIPPET_CONTEXT_LINES); b = min n (end + SNIPPET_CONTEXT_LINES)
                     in (Some (py_join [CHR 0x0A] (take (b - (a - 1)) (drop (a - 1) file_lines))),
                         ''resolved lines '' @ nat_digits start @ ''-'' @ nat_digits end @ '' with '' @ [CHR 0xB1] @
                         nat_digits SNIPPET_CONTEXT_LINES @ '' context''))))"

section \<open>The ledger\<close>

datatype ledger_status = Verified | UnresolvedPath | UnparseableEvidence | FileNotFound | ContentMismatchWarning

datatype lineage_flag = SilentRename | SilentRetire | FabricatedPeerRef

record verifier_row =
  vr_agent_name :: string
  vr_round :: int
  vr_claim_id :: string
  vr_evidence_path :: string
  vr_status :: ledger_status
  vr_file_path :: "string option"
  vr_line_range :: "(nat \<times> nat) option"
  vr_snippet :: "string option"
  vr_notes :: string
  vr_lineage_flag :: "lineage_flag option"
  vr_lineage_detail :: string

definition latest_round_entries :: "int \<Rightarrow> verifier_row list \<Rightarrow> verifier_row list" where
  "latest_round_entries n rows = filter (\<lambda>e. vr_round e = n) rows"

definition entries_for_claim :: "string \<Rightarrow> string \<Rightarrow> verifier_row list \<Rightarrow> verifier_row list" where
  "entries_for_claim claim_id agent rows = filter (\<lambda>e. vr_claim_id e = claim_id \<and> vr_agent_name e = agent) rows"

definition latest_round :: "verifier_row list \<Rightarrow> int option" where
  "latest_round rows = (case rows of [] \<Rightarrow> None | e # es \<Rightarrow> Some (foldr (\<lambda>e n. max (vr_round e) n) es (vr_round e)))"

definition has_unverified_in_round :: "int \<Rightarrow> verifier_row list \<Rightarrow> bool" where
  "has_unverified_in_round n rows \<longleftrightarrow>
     list_ex (\<lambda>e. vr_lineage_flag e = None \<and> vr_status e \<noteq> Verified) (latest_round_entries n rows)"

definition has_lineage_flag_in_round :: "int \<Rightarrow> verifier_row list \<Rightarrow> bool" where
  "has_lineage_flag_in_round n rows \<longleftrightarrow> list_ex (\<lambda>e. vr_lineage_flag e \<noteq> None) (latest_round_entries n rows)"

definition citation_row ::
  "string \<Rightarrow> int \<Rightarrow> string \<Rightarrow> string \<Rightarrow> ledger_status \<Rightarrow> string option \<Rightarrow> (nat \<times> nat) option \<Rightarrow> string option \<Rightarrow> string
     \<Rightarrow> verifier_row" where
  "citation_row agent n claim_id raw status path rng snippet notes =
     \<lparr>vr_agent_name = agent, vr_round = n, vr_claim_id = claim_id, vr_evidence_path = raw, vr_status = status,
      vr_file_path = path, vr_line_range = rng, vr_snippet = snippet, vr_notes = notes,
      vr_lineage_flag = None, vr_lineage_detail = []\<rparr>"

definition verify_one_citation :: "file_tree \<Rightarrow> string \<Rightarrow> string \<Rightarrow> int \<Rightarrow> string \<Rightarrow> citation \<Rightarrow> verifier_row" where
  "verify_one_citation F ws agent n claim_id c =
     (case (if ct_parseable c then ct_file c else None) of
        None \<Rightarrow> citation_row agent n claim_id (ct_raw c) UnparseableEvidence None None None
          (''could not parse '' @ py_repr_str (ct_raw c) @ '' as file:line, file#section, or bare path'')
      | Some f \<Rightarrow>
          (case resolve_path F ws f of
             None \<Rightarrow> citation_row agent n claim_id (ct_raw c) FileNotFound (Some f) (ct_range c) None
               (''path '' @ py_repr_str f @ '' does not resolve relative to workspace or absolute'')
           | Some path \<Rightarrow>
               (case extract_snippet F path (ct_range c) of
                  (None, notes) \<Rightarrow> citation_row agent n claim_id (ct_raw c) UnresolvedPath (Some path) (ct_range c) None notes
                | (Some snippet, notes) \<Rightarrow>
                    citation_row agent n claim_id (ct_raw c) Verified (Some path) (ct_range c) (Some snippet) notes)))"

definition verify_position :: "file_tree \<Rightarrow> string \<Rightarrow> position \<Rightarrow> verifier_row list" where
  "verify_position F ws p =
     (let row = verify_one_citation F ws (po_agent_name p) (po_round p) in
      concat (map (\<lambda>c. map (row (pc_claim_id c)) (parse_evidence_path (pc_evidence_path c))) (po_claims p)) @
      concat (map (\<lambda>d. map (row (''disagreement_against_'' @ da_peer_claim_id d)) (parse_evidence_path (da_evidence_path d)))
        (po_disagreed_with_peer p)))"

section \<open>Lineage\<close>

text \<open>A dictionary comprehension over the claims: a repeated id keeps its place and its last claim.\<close>

definition claims_by_id :: "position \<Rightarrow> (string \<times> position_claim) list" where
  "claims_by_id p = fold (\<lambda>c d. dict_set (pc_claim_id c) c d) (po_claims p) []"

definition claim_key :: "position_claim \<Rightarrow> string" where
  "claim_key c = take 80 (pc_claim c)"

definition detect_silent_rename ::
  "(string \<times> position_claim) list \<Rightarrow> (string \<times> position_claim) list \<Rightarrow> (string \<times> string \<times> string) list" where
  "detect_silent_rename prior current =
     (let text_to_id = fold (\<lambda>(cid, c) d. dict_set (claim_key c) cid d) prior [] in
      List.map_filter (\<lambda>(cid, c).
        (if claim_key c = [] \<or> dict_has prior cid then None
         else case dict_get text_to_id (claim_key c) of
                Some old \<Rightarrow> if old \<noteq> cid then Some (old, cid, claim_key c) else None
              | None \<Rightarrow> None)) current)"

definition detect_silent_retire ::
  "(string \<times> position_claim) list \<Rightarrow> (string \<times> position_claim) list \<Rightarrow> (string \<times> string \<times> string) list \<Rightarrow> string list" where
  "detect_silent_retire prior current renames =
     filter (\<lambda>cid. \<not> dict_has current cid \<and> cid \<notin> set (map fst renames)) (map fst prior)"

definition claim_ids :: "position \<Rightarrow> string list" where
  "claim_ids p = map pc_claim_id (po_claims p)"

definition detect_fabricated_peer_refs :: "position \<Rightarrow> string list option \<Rightarrow> (string \<times> string) list" where
  "detect_fabricated_peer_refs own peer_ids =
     (case peer_ids of
        None \<Rightarrow> []
      | Some ids \<Rightarrow>
          map (Pair ''agreed_with_peer'') (filter (\<lambda>r. r \<notin> set ids) (po_agreed_with_peer own)) @
          map (Pair ''disagreed_with_peer'') (filter (\<lambda>r. r \<notin> set ids) (map da_peer_claim_id (po_disagreed_with_peer own))))"

definition lineage_row :: "string \<Rightarrow> int \<Rightarrow> string \<Rightarrow> lineage_flag \<Rightarrow> string \<Rightarrow> verifier_row" where
  "lineage_row agent n claim_id flag detail =
     \<lparr>vr_agent_name = agent, vr_round = n, vr_claim_id = claim_id, vr_evidence_path = [], vr_status = ContentMismatchWarning,
      vr_file_path = None, vr_line_range = None, vr_snippet = None, vr_notes = [],
      vr_lineage_flag = Some flag, vr_lineage_detail = detail\<rparr>"

definition lineage_entries ::
  "string \<Rightarrow> int \<Rightarrow> position option \<Rightarrow> position \<Rightarrow> string list option \<Rightarrow> verifier_row list" where
  "lineage_entries agent n own_prior own_current peer_ids =
     (case own_prior of
        None \<Rightarrow> []
      | Some p \<Rightarrow>
          (let prior = claims_by_id p; current = claims_by_id own_current;
               renames = detect_silent_rename prior current
           in map (\<lambda>(old, new, key). lineage_row agent n new SilentRename
                (''claim_id '' @ py_repr_str old @ '' (round '' @ py_int_str (po_round p) @ '') appears to be renamed to '' @
                 py_repr_str new @ '' (same text prefix: '' @ py_repr_str key @ '')'')) renames @
              map (\<lambda>old. lineage_row agent n old SilentRetire
                (''claim_id '' @ py_repr_str old @ '' was present in round '' @ py_int_str (po_round p) @
                 '' but absent in this round with no rename match '' @ [CHR 0xE2, CHR 0x80, CHR 0x94] @ '' silently retired''))
                (detect_silent_retire prior current renames))) @
     map (\<lambda>(kind, ref). lineage_row agent n ref FabricatedPeerRef
       (kind @ '' references peer claim_id '' @ py_repr_str ref @
        '' but peer's round-(N-1) snapshot has no such claim_id'')) (detect_fabricated_peer_refs own_current peer_ids)"

text \<open>The ids that an agent could have seen: none in the first round, later those of the peer's last round.\<close>

definition seen_peer_ids :: "(string \<times> position) list \<Rightarrow> (string \<times> position) list \<Rightarrow> int \<Rightarrow> string \<Rightarrow> string list option" where
  "seen_peer_ids latest prior n agent =
     map_option (\<lambda>peer. if n = 1 then [] else case dict_get prior peer of Some p \<Rightarrow> claim_ids p | None \<Rightarrow> [])
       (find (\<lambda>m. m \<noteq> agent) (map fst latest))"

definition verify_round ::
  "file_tree \<Rightarrow> (string \<times> position) list \<Rightarrow> (string \<times> position) list \<Rightarrow> verifier_row list \<Rightarrow> int \<Rightarrow> string
     \<Rightarrow> verifier_row list" where
  "verify_round F latest prior ledger n ws =
     ledger @ concat (map (verify_position F ws \<circ> snd) latest) @
     concat (map (\<lambda>(agent, p). lineage_entries agent n (dict_get prior agent) p (seen_peer_ids latest prior n agent)) latest)"

section \<open>No citation is lost\<close>

lemma split_on_not_Nil [simp]: "split_on d s \<noteq> []"
  by (induction s) (auto split: list.splits)

lemma parse_piece_not_Nil [simp]: "parse_piece piece \<noteq> []"
  by (simp add: parse_piece_def Let_def)

lemma parse_evidence_not_Nil [simp]: "parse_evidence_path evidence \<noteq> []"
  by (simp add: parse_evidence_path_def Let_def)

lemma row_fields [simp]:
  "vr_agent_name (verify_one_citation F ws agent n cid c) = agent"
  "vr_round (verify_one_citation F ws agent n cid c) = n"
  "vr_claim_id (verify_one_citation F ws agent n cid c) = cid"
  "vr_evidence_path (verify_one_citation F ws agent n cid c) = ct_raw c"
  "vr_lineage_flag (verify_one_citation F ws agent n cid c) = None"
  by (simp_all add: verify_one_citation_def citation_row_def split: option.split prod.split)

lemma lineage_row_fields [simp]:
  "vr_round (lineage_row agent n cid flag detail) = n"
  "vr_lineage_flag (lineage_row agent n cid flag detail) = Some flag"
  by (simp_all add: lineage_row_def)

text \<open>The lines of a file that a row may cite.\<close>

definition cites_lines :: "string \<Rightarrow> (nat \<times> nat) option \<Rightarrow> bool" where
  "cites_lines contents r \<longleftrightarrow>
     (case r of None \<Rightarrow> True | Some (a, b) \<Rightarrow> 1 \<le> a \<and> a \<le> b \<and> b \<le> length (splitlines contents))"

lemma snippet_iff:
  "(fst (extract_snippet F path r) \<noteq> None) \<longleftrightarrow> (\<exists>contents. ft_read F path = Inr contents \<and> cites_lines contents r)"
  by (cases "ft_read F path"; cases r) (auto simp: extract_snippet_def cites_lines_def Let_def split: if_splits)

lemma verified_iff:
  "vr_status (verify_one_citation F ws agent n cid c) = Verified \<longleftrightarrow>
     (\<exists>f path contents. ct_parseable c \<and> ct_file c = Some f \<and> resolve_path F ws f = Some path
        \<and> ft_read F path = Inr contents \<and> cites_lines contents (ct_range c))"
proof (cases "if ct_parseable c then ct_file c else None")
  case None
  then show ?thesis by (auto simp: verify_one_citation_def citation_row_def split: if_splits)
next
  case (Some f)
  then have f: "ct_parseable c" "ct_file c = Some f" by (auto split: if_splits)
  show ?thesis
  proof (cases "resolve_path F ws f")
    case None
    with f show ?thesis by (simp add: verify_one_citation_def citation_row_def)
  next
    case path: (Some path)
    with f show ?thesis using snippet_iff [of F path "ct_range c"]
      by (cases "extract_snippet F path (ct_range c)"; cases "fst (extract_snippet F path (ct_range c))")
        (auto simp: verify_one_citation_def citation_row_def)
  qed
qed

section \<open>Lineage without a flag\<close>

lemma claims_by_id_has: "dict_has (claims_by_id p) cid \<longleftrightarrow> cid \<in> set (claim_ids p)"
proof -
  have "dict_has (fold (\<lambda>c d. dict_set (pc_claim_id c) c d) cs d0) cid \<longleftrightarrow> dict_has d0 cid \<or> cid \<in> set (map pc_claim_id cs)"
    for cs d0
    by (induction cs arbitrary: d0) (auto simp: dict_has_def py_simps)
  from this [of "po_claims p" "[]"] show ?thesis by (simp add: claims_by_id_def claim_ids_def dict_has_def)
qed

lemma in_keys_iff_has: "k \<in> set (map fst d) \<longleftrightarrow> dict_has d k"
  by (induction d) (auto simp: dict_has_def)

lemma fabricated_Nil:
  "detect_fabricated_peer_refs own (Some ids) = [] \<longleftrightarrow>
     set (po_agreed_with_peer own) \<union> set (map da_peer_claim_id (po_disagreed_with_peer own)) \<subseteq> set ids"
  by (auto simp: detect_fabricated_peer_refs_def filter_empty_conv)

lemma retire_Nil:
  "detect_silent_retire prior current [] = [] \<Longrightarrow> dict_has prior cid \<Longrightarrow> dict_has current cid"
  by (auto simp: detect_silent_retire_def filter_empty_conv in_keys_iff_has [symmetric])

lemma lineage_Nil:
  assumes "lineage_entries agent n own_prior own (Some ids) = []"
  shows "set (po_agreed_with_peer own) \<union> set (map da_peer_claim_id (po_disagreed_with_peer own)) \<subseteq> set ids
    \<and> (\<forall>p. own_prior = Some p \<longrightarrow> set (claim_ids p) \<subseteq> set (claim_ids own))"
proof
  show "set (po_agreed_with_peer own) \<union> set (map da_peer_claim_id (po_disagreed_with_peer own)) \<subseteq> set ids"
    using assms unfolding fabricated_Nil [symmetric] by (simp add: lineage_entries_def)
  show "\<forall>p. own_prior = Some p \<longrightarrow> set (claim_ids p) \<subseteq> set (claim_ids own)"
  proof (intro allI impI subsetI)
    fix p cid assume p: "own_prior = Some p" and cid: "cid \<in> set (claim_ids p)"
    let ?ren = "detect_silent_rename (claims_by_id p) (claims_by_id own)"
    have ren: "?ren = []" and "detect_silent_retire (claims_by_id p) (claims_by_id own) ?ren = []"
      using assms unfolding lineage_entries_def p Let_def by auto
    then have "detect_silent_retire (claims_by_id p) (claims_by_id own) [] = []" by simp
    from retire_Nil [OF this] cid show "cid \<in> set (claim_ids own)" by (simp add: claims_by_id_has)
  qed
qed

section \<open>A verified round\<close>

text \<open>All that a position cites, its claims' evidence and that of its disagreements.\<close>

definition cited :: "position \<Rightarrow> citation list" where
  "cited p = concat (map (parse_evidence_path \<circ> pc_evidence_path) (po_claims p)) @
     concat (map (parse_evidence_path \<circ> da_evidence_path) (po_disagreed_with_peer p))"

lemma verify_position_rows:
  "\<forall>e \<in> set (verify_position F ws p). vr_round e = po_round p \<and> vr_lineage_flag e = None"
  by (auto simp: verify_position_def Let_def)

lemma status_of_citation:
  "vr_status (verify_one_citation F ws agent n cid c) = vr_status (verify_one_citation F ws [] 0 [] c)"
  by (simp add: verify_one_citation_def citation_row_def split: option.split prod.split)

lemma cited_row:
  assumes "c \<in> set (cited p)"
  shows "\<exists>cid. verify_one_citation F ws (po_agent_name p) (po_round p) cid c \<in> set (verify_position F ws p)"
proof -
  let ?row = "verify_one_citation F ws (po_agent_name p) (po_round p)"
  from assms consider k where "k \<in> set (po_claims p)" "c \<in> set (parse_evidence_path (pc_evidence_path k))"
    | d where "d \<in> set (po_disagreed_with_peer p)" "c \<in> set (parse_evidence_path (da_evidence_path d))"
    by (auto simp: cited_def)
  then show ?thesis
  proof cases
    case 1
    then have "?row (pc_claim_id k) c \<in> set (verify_position F ws p)"
      unfolding verify_position_def Let_def by force
    then show ?thesis ..
  next
    case 2
    then have "?row (''disagreement_against_'' @ da_peer_claim_id d) c \<in> set (verify_position F ws p)"
      unfolding verify_position_def Let_def by force
    then show ?thesis ..
  qed
qed

lemma lineage_rounds: "\<forall>e \<in> set (lineage_entries agent n prior p ids). vr_round e = n \<and> vr_lineage_flag e \<noteq> None"
  by (auto simp: lineage_entries_def Let_def split: option.splits)

lemma foldr_max_ge: "\<forall>e \<in> set (a # es). vr_round e \<le> foldr (\<lambda>e n. max (vr_round e) n) es (vr_round a)"
  by (induction es) auto

lemma foldr_max_in: "foldr (\<lambda>e n. max (vr_round e) n) es (vr_round a) \<in> vr_round ` set (a # es)"
  by (induction es) (auto simp: max_def)

lemma latest_round_eqI:
  assumes "e \<in> set rows" and "vr_round e = n" and "\<forall>e \<in> set rows. vr_round e \<le> n"
  shows "latest_round rows = Some n"
proof (cases rows)
  case (Cons a es)
  then show ?thesis using assms foldr_max_ge [of a es] foldr_max_in [of es a]
    by (auto simp: latest_round_def intro!: antisym)
qed (use assms in simp)

text \<open>
  What a round without unverified rows and lineage flags says of its positions. All of a round are
  verified together, on top of a ledger of earlier rounds.
\<close>

definition round_clean :: "int \<Rightarrow> verifier_row list \<Rightarrow> bool" where
  "round_clean n rows \<longleftrightarrow> \<not> has_unverified_in_round n rows \<and> \<not> has_lineage_flag_in_round n rows"

lemma clean_round_verified:
  assumes "round_clean n (verify_round F latest prior ledger n ws)" and "(agent, p) \<in> set latest" and "po_round p = n"
  shows "\<forall>c \<in> set (cited p). vr_status (verify_one_citation F ws [] 0 [] c) = Verified"
    and "lineage_entries agent n (dict_get prior agent) p (seen_peer_ids latest prior n agent) = []"
proof -
  let ?rows = "verify_round F latest prior ledger n ws"
  have clean: "vr_lineage_flag e = None \<and> vr_status e = Verified" if "e \<in> set ?rows" "vr_round e = n" for e
    using assms(1) that by (auto simp: round_clean_def has_unverified_in_round_def has_lineage_flag_in_round_def
      latest_round_entries_def list_ex_iff)
  have "set (verify_position F ws p) \<subseteq> set ?rows" using assms(2) by (force simp: verify_round_def)
  with clean verify_position_rows [of F ws p] assms(3)
  have "\<forall>e \<in> set (verify_position F ws p). vr_status e = Verified" by blast
  then show "\<forall>c \<in> set (cited p). vr_status (verify_one_citation F ws [] 0 [] c) = Verified"
    using cited_row status_of_citation by metis
  let ?lin = "lineage_entries agent n (dict_get prior agent) p (seen_peer_ids latest prior n agent)"
  have "set ?lin \<subseteq> set ?rows" using assms(2) by (auto simp: verify_round_def)
  with clean lineage_rounds show "?lin = []" by (metis list.set_intros(1) neq_Nil_conv subsetD)
qed

end
