(* ===== verification/Deliberation.thy ===== *)
theory Deliberation
  imports Deliberation_Verifier
begin

text \<open>
  The deliberation of two agents, \<open>llm_client/workflow/deliberate.py\<close>: prompts, the nodes of the graph, the
  convergence detector and the router, and the graph with its runs.

  A call of a model is an argument that answers a position or raises, and acts on a world of type \<open>'w\<close>, since
  agents work in the workspace; the verifier reads the files of the world. \<open>json.dumps\<close> and the schema of a
  position are arguments. The graph library runs one node after another along the edges, merging what
  a node returns into the state; a raise of a node ends the run. The files of the run directory are a dictionary.
\<close>

section \<open>Tasks, requests and the state\<close>

datatype verdict = Converged | ProductiveDisagreement | Stalled

definition verdict_text :: "verdict \<Rightarrow> string" where
  "verdict_text v = (case v of Converged \<Rightarrow> ''converged'' | ProductiveDisagreement \<Rightarrow> ''productive_disagreement''
     | Stalled \<Rightarrow> ''stalled'')"

record delib_task =
  dt_task_id :: string
  dt_title :: string
  dt_question :: string
  dt_workspace_path :: string
  dt_success_criteria :: "string list"
  dt_constraints :: "string list"

record delib_agent =
  ag_name :: string
  ag_model :: string

definition DEFAULT_AGENT_PAIR :: "delib_agent list" where
  "DEFAULT_AGENT_PAIR =
     [\<lparr>ag_name = ''agent_a'', ag_model = ''codex/gpt-5.6-luna''\<rparr>,
      \<lparr>ag_name = ''agent_b'', ag_model = ''claude-code/sonnet''\<rparr>]"

record llm_request =
  rq_model :: string
  rq_messages :: "(string \<times> string) list"
  rq_task :: string
  rq_trace_id :: string
  rq_max_budget :: rat
  rq_cwd :: string

record delib_signoff =
  dg_task_id :: string
  dg_final_verdict :: verdict
  dg_total_rounds :: int
  dg_agents :: "string list"
  dg_residual_disagreements :: "disagreement list"
  dg_trace_id :: string
  dg_artifacts_index :: "(string \<times> string) list"

datatype delib_file =
    TaskFile delib_task
  | PositionFile position
  | LedgerFile "verifier_row list"
  | SignoffFile delib_signoff

record 'w delib_env =
  de_call :: "llm_request \<Rightarrow> 'w \<Rightarrow> (string + position) \<times> 'w"
  de_files :: "'w \<Rightarrow> file_tree"
  de_dump :: "position \<Rightarrow> string"
  de_dump_all :: "position list \<Rightarrow> string"
  de_schema :: string

record 'w delib_state =
  dl_world :: 'w
  dl_task :: delib_task
  dl_round :: int
  dl_max_rounds :: int
  dl_agents :: "delib_agent list"
  dl_latest :: "(string \<times> position) list"
  dl_prior :: "(string \<times> position) list"
  dl_history :: "position list"
  dl_ledger :: "verifier_row list"
  dl_verdict :: "verdict option"
  dl_files :: "(string \<times> delib_file) list"
  dl_trace_id :: string
  dl_max_budget :: rat
  dl_task_prefix :: string

definition persist :: "string \<Rightarrow> delib_file \<Rightarrow> 'w delib_state \<Rightarrow> 'w delib_state" where
  "persist name contents S = S\<lparr>dl_files := dict_set name contents (dl_files S)\<rparr>"

section \<open>Convergence\<close>

definition acknowledges :: "(string \<times> position) list \<Rightarrow> string \<times> position \<Rightarrow> bool" where
  "acknowledges latest np \<longleftrightarrow>
     po_disagreed_with_peer (snd np) = [] \<and>
     list_all (\<lambda>(other, q). other = fst np \<or>
       list_all (\<lambda>cid. cid \<in> set (po_agreed_with_peer (snd np))) (filter (\<lambda>cid. cid \<noteq> []) (claim_ids q))) latest"

definition detect_convergence ::
  "(string \<times> position) list \<Rightarrow> int \<Rightarrow> int \<Rightarrow> verifier_row list option \<Rightarrow> verdict option" where
  "detect_convergence latest round_num max_rounds ledger =
     (if latest = [] then None
      else if list_all (\<lambda>np. po_claims (snd np) = []) latest then Some Stalled
      else if round_num < 2 then None
      else if length latest < 2 then Some Stalled
      else if list_all (acknowledges latest) latest \<and>
          (case ledger of
             None \<Rightarrow> True
           | Some rows \<Rightarrow> (case latest_round rows of None \<Rightarrow> True | Some n \<Rightarrow> round_clean n rows))
      then Some Converged
      else if max_rounds \<le> round_num then Some ProductiveDisagreement
      else None)"

section \<open>Prompts\<close>

definition nl :: string where "nl = [CHR 0x0A]"

definition em_dash :: string where "em_dash = [CHR 0xE2, CHR 0x80, CHR 0x94]"

definition task_brief :: "delib_task \<Rightarrow> string" where
  "task_brief t = py_join nl
     ([''task_id: '' @ dt_task_id t, ''title: '' @ dt_title t, ''question: '' @ dt_question t,
       ''workspace_path: '' @ dt_workspace_path t] @
      (if dt_success_criteria t = [] then [] else ''success_criteria:'' # map ((@) ''  - '') (dt_success_criteria t)) @
      (if dt_constraints t = [] then [] else ''constraints:'' # map ((@) ''  - '') (dt_constraints t)))"

definition anonymize_peer :: "position \<Rightarrow> position" where
  "anonymize_peer p = p\<lparr>po_agent_name := ''peer'', po_reviewer_model := []\<rparr>"

definition position_prompt ::
  "'w delib_env \<Rightarrow> delib_task \<Rightarrow> string \<Rightarrow> int \<Rightarrow> position option \<Rightarrow> position option \<Rightarrow> (string \<times> string) list" where
  "position_prompt E t agent n own_prior peer_latest =
     [(''system'',
       ''You are one of two coding agents in a structured deliberation. The other '' @
       ''agent is investigating the same question independently. Your output is '' @
       ''consumed by an automatic convergence detector, so it MUST validate against '' @
       ''the Position schema. Groundedness rule: every claim and every '' @
       ''disagreement must include an evidence_path citation (file:line, file path, '' @
       ''or doc#section). If you cannot cite a source, downgrade to an '' @
       ''open_question instead of asserting a claim.''),
      (''user'', py_join nl
        ([''## Task'', task_brief t, [], ''## Your role: '' @ agent @ '' (round '' @ py_int_str n @ '')''] @
         (case peer_latest of
            Some q \<Rightarrow> [[], ''## Peer's most-recent position'',
              ''Reference peer claims by their claim_id when acknowledging or disagreeing.'', [], de_dump E (anonymize_peer q)]
          | None \<Rightarrow> [[], ''## Peer position'',
              ''None yet '' @ em_dash @ '' this is round 1. Investigate the task independently. '' @
              ''Do not speculate about what the other agent will say.'']) @
         (case own_prior of
            Some p \<Rightarrow> [[], ''## Your prior position (last round)'',
              ''Revise where your view changed after seeing the peer's input. Keep claims you still hold.'', [], de_dump E p]
          | None \<Rightarrow> []) @
         [[], ''## Schema for your response (Position)'', de_schema E, [],
          ''Return a Position JSON object with agent_name='' @ [CHR 0x27] @ agent @ [CHR 0x27] @ '' and round='' @ py_int_str n @ ''. '' @
          ''Use 'initial' state on round 1, 'revised' when you changed your view, 'stable' when '' @
          ''your view didn't change but you acknowledge peer claims.'']))]"

definition synthesis_prompt :: "'w delib_env \<Rightarrow> delib_task \<Rightarrow> position list \<Rightarrow> verdict \<Rightarrow> (string \<times> string) list" where
  "synthesis_prompt E t positions v =
     [(''system'',
       ''You are synthesizing a structured deliberation between two agents. '' @
       ''Produce a final synthesis that merges what the agents agreed on and '' @
       ''explicitly lists what they could not agree on. Do not pick a winner '' @
       ''unless the residual disagreements are entirely ungrounded '' @ em_dash @ '' surface '' @
       ''real disagreements rather than papering over them.''),
      (''user'', py_join nl
        [''## Task'', task_brief t, [], ''## Final verdict: '' @ verdict_text v, [],
         ''## Position history (chronological)'', de_dump_all E positions, [],
         ''Return a synthesis with:'', ''- A short merged-findings narrative.'',
         ''- An explicit list of residual_disagreements (peer_claim_id, my_counterclaim, evidence_path).'',
         ''- Any open_questions that neither agent resolved.''])]"

section \<open>Nodes\<close>

text \<open>A call within the workflow: the label of the stage, the trace and the budget of the run.\<close>

definition workflow_request :: "'w delib_state \<Rightarrow> string \<Rightarrow> string \<Rightarrow> (string \<times> string) list \<Rightarrow> llm_request" where
  "workflow_request S stage model messages =
     \<lparr>rq_model = model, rq_messages = messages, rq_task = dl_task_prefix S @ ''.'' @ stage, rq_trace_id = dl_trace_id S,
      rq_max_budget = dl_max_budget S, rq_cwd = dt_workspace_path (dl_task S)\<rparr>"

text \<open>What an agent is asked: its own last position, and the peer's from the snapshot of the last round.\<close>

definition agent_messages :: "'w delib_env \<Rightarrow> string \<Rightarrow> string \<Rightarrow> 'w delib_state \<Rightarrow> (string \<times> string) list" where
  "agent_messages E agent peer S =
     position_prompt E (dl_task S) agent (dl_round S) (dict_get (dl_latest S) agent) (dict_get (dl_prior S) peer)"

definition position_file :: "string \<Rightarrow> int \<Rightarrow> string" where
  "position_file agent n = ''position_'' @ agent @ ''_round_'' @ py_int_str n"

definition position_node :: "'w delib_env \<Rightarrow> delib_agent \<Rightarrow> string \<Rightarrow> 'w delib_state \<Rightarrow> string + 'w delib_state" where
  "position_node E agent peer S =
     (case de_call E (workflow_request S (''deliberate.'' @ ag_name agent) (ag_model agent)
             (agent_messages E (ag_name agent) peer S)) (dl_world S) of
        (Inl e, w) \<Rightarrow> Inl e
      | (Inr answer, w) \<Rightarrow>
          (let p = answer\<lparr>po_reviewer_model := ag_model agent, po_agent_name := ag_name agent, po_round := dl_round S\<rparr> in
           Inr (persist (position_file (ag_name agent) (dl_round S) @ ''.json'') (PositionFile p)
             (S\<lparr>dl_world := w, dl_latest := dict_set (ag_name agent) p (dl_latest S), dl_history := dl_history S @ [p]\<rparr>))))"

definition verifier_node :: "'w delib_env \<Rightarrow> 'w delib_state \<Rightarrow> 'w delib_state" where
  "verifier_node E S =
     (case dl_latest S of
        [] \<Rightarrow> S
      | np # _ \<Rightarrow>
          (let rows = verify_round (de_files E (dl_world S)) (dl_latest S) (dl_prior S) (dl_ledger S)
                 (po_round (snd np)) (dt_workspace_path (dl_task S)) in
           persist ''verifier_ledger.json'' (LedgerFile rows) (S\<lparr>dl_ledger := rows, dl_prior := dl_latest S\<rparr>)))"

definition synthesis_node :: "'w delib_env \<Rightarrow> string \<Rightarrow> verdict \<Rightarrow> 'w delib_state \<Rightarrow> string + 'w delib_state" where
  "synthesis_node E model v S =
     (case de_call E (workflow_request S ''deliberate.synthesis'' model (synthesis_prompt E (dl_task S) (dl_history S) v))
             (dl_world S) of
        (Inl e, w) \<Rightarrow> Inl e
      | (Inr answer, w) \<Rightarrow>
          (let p = answer\<lparr>po_agent_name := ''synthesis'', po_round := dl_round S, po_reviewer_model := model\<rparr> in
           Inr (persist ''synthesis.json'' (PositionFile p) (S\<lparr>dl_world := w, dl_verdict := Some v\<rparr>))))"

definition artifacts_index :: "'w delib_state \<Rightarrow> (string \<times> string) list" where
  "artifacts_index S =
     fold (\<lambda>p d. let name = position_file (po_agent_name p) (po_round p) in dict_set name (name @ ''.json'') d) (dl_history S)
       ([(''task'', ''task.json''), (''synthesis'', ''synthesis.json'')] @
        (if dl_ledger S = [] then [] else [(''verifier_ledger'', ''verifier_ledger.json'')]))"

definition signoff_node :: "verdict \<Rightarrow> 'w delib_state \<Rightarrow> 'w delib_state" where
  "signoff_node v S =
     persist ''signoff.json'' (SignoffFile
       \<lparr>dg_task_id = dt_task_id (dl_task S), dg_final_verdict = v, dg_total_rounds = dl_round S,
        dg_agents = map ag_name (dl_agents S),
        dg_residual_disagreements = concat (map (po_disagreed_with_peer \<circ> snd) (dl_latest S)),
        dg_trace_id = dl_trace_id S, dg_artifacts_index = artifacts_index S\<rparr>)
       (S\<lparr>dl_verdict := Some v\<rparr>)"

section \<open>The graph\<close>

datatype dnode =
    AgentA | AgentB | Verifier | RoundIncrement
  | SynthesisConverged | SynthesisDisagreement
  | SignoffPass | SignoffDisagreement | SignoffStalled

record workflow =
  wf_agent_a :: delib_agent
  wf_agent_b :: delib_agent
  wf_synthesis_model :: string

fun node_step :: "'w delib_env \<Rightarrow> workflow \<Rightarrow> dnode \<Rightarrow> 'w delib_state \<Rightarrow> string + 'w delib_state" where
  "node_step E W AgentA S = position_node E (wf_agent_a W) (ag_name (wf_agent_b W)) S"
| "node_step E W AgentB S = position_node E (wf_agent_b W) (ag_name (wf_agent_a W)) S"
| "node_step E W Verifier S = Inr (verifier_node E S)"
| "node_step E W RoundIncrement S = Inr (S\<lparr>dl_round := dl_round S + 1\<rparr>)"
| "node_step E W SynthesisConverged S = synthesis_node E (wf_synthesis_model W) Converged S"
| "node_step E W SynthesisDisagreement S = synthesis_node E (wf_synthesis_model W) ProductiveDisagreement S"
| "node_step E W SignoffPass S = Inr (signoff_node Converged S)"
| "node_step E W SignoffDisagreement S = Inr (signoff_node ProductiveDisagreement S)"
| "node_step E W SignoffStalled S = Inr (signoff_node Stalled S)"

definition post_round_router :: "'w delib_state \<Rightarrow> dnode" where
  "post_round_router S =
     (case detect_convergence (dl_latest S) (dl_round S) (dl_max_rounds S)
             (if dl_ledger S = [] then None else Some (dl_ledger S)) of
        None \<Rightarrow> AgentA
      | Some Converged \<Rightarrow> SynthesisConverged
      | Some Stalled \<Rightarrow> SignoffStalled
      | Some ProductiveDisagreement \<Rightarrow> SynthesisDisagreement)"

fun next_node :: "dnode \<Rightarrow> 'w delib_state \<Rightarrow> dnode option" where
  "next_node AgentA S = Some AgentB"
| "next_node AgentB S = Some Verifier"
| "next_node Verifier S = Some RoundIncrement"
| "next_node RoundIncrement S = Some (post_round_router S)"
| "next_node SynthesisConverged S = Some SignoffPass"
| "next_node SynthesisDisagreement S = Some SignoffDisagreement"
| "next_node SignoffPass S = None"
| "next_node SignoffDisagreement S = None"
| "next_node SignoffStalled S = None"

definition build_deliberation ::
  "delib_task \<Rightarrow> string \<Rightarrow> rat \<Rightarrow> delib_agent list option \<Rightarrow> int \<Rightarrow> string \<Rightarrow> string option \<Rightarrow> 'w
     \<Rightarrow> string + workflow \<times> 'w delib_state" where
  "build_deliberation t trace_id max_budget agents max_rounds task_prefix synthesis_model w =
     (let pair = (case agents of Some as \<Rightarrow> as | None \<Rightarrow> DEFAULT_AGENT_PAIR) in
      case pair of
        [a, b] \<Rightarrow> Inr
          (\<lparr>wf_agent_a = a, wf_agent_b = b, wf_synthesis_model =
              (case synthesis_model of Some m \<Rightarrow> if m = [] then ''claude-code/sonnet'' else m | None \<Rightarrow> ''claude-code/sonnet'')\<rparr>,
           \<lparr>dl_world = w, dl_task = t, dl_round = 1, dl_max_rounds = max_rounds, dl_agents = [a, b], dl_latest = [],
            dl_prior = [], dl_history = [], dl_ledger = [], dl_verdict = None, dl_files = [(''task.json'', TaskFile t)],
            dl_trace_id = trace_id, dl_max_budget = max_budget, dl_task_prefix = task_prefix\<rparr>)
      | _ \<Rightarrow> Inl (''Deliberation v1 requires exactly 2 agents; got '' @ nat_digits (length pair) @ ''. '' @
          ''N-agent ('' @ [CHR 0xE2, CHR 0x89, CHR 0xA5] @ ''3) is a future extension; track in Plan #33 notes.''))"

text \<open>A run along the edges, with fuel for a number of nodes.\<close>

fun run_nodes :: "'w delib_env \<Rightarrow> workflow \<Rightarrow> nat \<Rightarrow> dnode \<Rightarrow> 'w delib_state \<Rightarrow> (string + 'w delib_state) option" where
  "run_nodes E W 0 node S = None"
| "run_nodes E W (Suc k) node S =
     (case node_step E W node S of
        Inl e \<Rightarrow> Some (Inl e)
      | Inr S' \<Rightarrow> (case next_node node S' of None \<Rightarrow> Some (Inr S') | Some m \<Rightarrow> run_nodes E W k m S'))"

inductive delib_reach :: "'w delib_env \<Rightarrow> workflow \<Rightarrow> 'w delib_state \<Rightarrow> dnode \<Rightarrow> 'w delib_state \<Rightarrow> bool"
  for E W S0 where
  entry: "delib_reach E W S0 AgentA S0"
| step: "delib_reach E W S0 node S \<Longrightarrow> node_step E W node S = Inr S' \<Longrightarrow> next_node node S' = Some m \<Longrightarrow>
    delib_reach E W S0 m S'"

section \<open>The invariant of the rounds\<close>

text \<open>The positions of both agents in one round, and the snapshot of the round before it.\<close>

definition both :: "workflow \<Rightarrow> int \<Rightarrow> (string \<times> position) list \<Rightarrow> bool" where
  "both W n d \<longleftrightarrow> (\<exists>p q. d = [(ag_name (wf_agent_a W), p), (ag_name (wf_agent_b W), q)] \<and>
     po_round p = n \<and> po_agent_name p = ag_name (wf_agent_a W) \<and>
     po_round q = n \<and> po_agent_name q = ag_name (wf_agent_b W))"

definition snapshot :: "workflow \<Rightarrow> int \<Rightarrow> (string \<times> position) list \<Rightarrow> bool" where
  "snapshot W n d \<longleftrightarrow> (if n = 0 then d = [] else both W n d)"

definition earlier :: "int \<Rightarrow> verifier_row list \<Rightarrow> bool" where
  "earlier n rows \<longleftrightarrow> (\<forall>e \<in> set rows. vr_round e < n)"

definition settled :: "'w delib_env \<Rightarrow> workflow \<Rightarrow> int \<Rightarrow> 'w delib_state \<Rightarrow> bool" where
  "settled E W n S \<longleftrightarrow>
     1 \<le> n \<and> both W n (dl_latest S) \<and> dl_prior S = dl_latest S \<and> int (length (dl_history S)) = 2 * n \<and>
     snd ` set (dl_latest S) \<subseteq> set (dl_history S) \<and>
     (\<exists>w before rows. snapshot W (n - 1) before \<and> snd ` set before \<subseteq> set (dl_history S) \<and> earlier n rows \<and>
        dl_ledger S = verify_round (de_files E w) (dl_latest S) before rows n (dt_workspace_path (dl_task S)))"

definition verdict_of :: "'w delib_state \<Rightarrow> verdict option" where
  "verdict_of S = detect_convergence (dl_latest S) (dl_round S) (dl_max_rounds S)
     (if dl_ledger S = [] then None else Some (dl_ledger S))"

definition ended :: "'w delib_env \<Rightarrow> workflow \<Rightarrow> verdict \<Rightarrow> 'w delib_state \<Rightarrow> bool" where
  "ended E W v S \<longleftrightarrow> settled E W (dl_round S - 1) S \<and> verdict_of S = Some v \<and> dl_round S \<le> max 2 (dl_max_rounds S)"

fun delib_inv :: "'w delib_env \<Rightarrow> workflow \<Rightarrow> dnode \<Rightarrow> 'w delib_state \<Rightarrow> bool" where
  "delib_inv E W AgentA S \<longleftrightarrow>
     (if dl_round S = 1 then dl_latest S = [] \<and> dl_prior S = [] \<and> dl_history S = [] \<and> dl_ledger S = []
      else dl_round S < dl_max_rounds S \<and> settled E W (dl_round S - 1) S)"
| "delib_inv E W AgentB S \<longleftrightarrow>
     1 \<le> dl_round S \<and> dl_round S < max 2 (dl_max_rounds S) \<and> snapshot W (dl_round S - 1) (dl_prior S) \<and>
     (\<exists>p. po_round p = dl_round S \<and> po_agent_name p = ag_name (wf_agent_a W) \<and>
        dl_latest S = dict_set (ag_name (wf_agent_a W)) p (dl_prior S) \<and> p \<in> set (dl_history S)) \<and>
     snd ` set (dl_prior S) \<subseteq> set (dl_history S) \<and>
     int (length (dl_history S)) = 2 * dl_round S - 1 \<and> earlier (dl_round S) (dl_ledger S)"
| "delib_inv E W Verifier S \<longleftrightarrow>
     1 \<le> dl_round S \<and> dl_round S < max 2 (dl_max_rounds S) \<and> snapshot W (dl_round S - 1) (dl_prior S) \<and>
     both W (dl_round S) (dl_latest S) \<and> snd ` set (dl_prior S) \<union> snd ` set (dl_latest S) \<subseteq> set (dl_history S) \<and>
     int (length (dl_history S)) = 2 * dl_round S \<and> earlier (dl_round S) (dl_ledger S)"
| "delib_inv E W RoundIncrement S \<longleftrightarrow> settled E W (dl_round S) S \<and> dl_round S < max 2 (dl_max_rounds S)"
| "delib_inv E W SynthesisConverged S \<longleftrightarrow> ended E W Converged S"
| "delib_inv E W SynthesisDisagreement S \<longleftrightarrow> ended E W ProductiveDisagreement S"
| "delib_inv E W SignoffPass S \<longleftrightarrow> ended E W Converged S"
| "delib_inv E W SignoffDisagreement S \<longleftrightarrow> ended E W ProductiveDisagreement S"
| "delib_inv E W SignoffStalled S \<longleftrightarrow> ended E W Stalled S"

lemma persist_simps [simp]:
  "dl_world (persist name x S) = dl_world S" "dl_task (persist name x S) = dl_task S" "dl_round (persist name x S) = dl_round S"
  "dl_max_rounds (persist name x S) = dl_max_rounds S" "dl_agents (persist name x S) = dl_agents S"
  "dl_latest (persist name x S) = dl_latest S" "dl_prior (persist name x S) = dl_prior S"
  "dl_history (persist name x S) = dl_history S" "dl_ledger (persist name x S) = dl_ledger S"
  "dl_verdict (persist name x S) = dl_verdict S" "dl_trace_id (persist name x S) = dl_trace_id S"
  "dl_files (persist name x S) = dict_set name x (dl_files S)"
  by (simp_all add: persist_def)

lemma position_node_Inr:
  assumes "position_node E agent peer S = Inr S'"
  shows "\<exists>p w. po_round p = dl_round S \<and> po_agent_name p = ag_name agent \<and> po_reviewer_model p = ag_model agent \<and>
    S' = persist (position_file (ag_name agent) (dl_round S) @ ''.json'') (PositionFile p)
      (S\<lparr>dl_world := w, dl_latest := dict_set (ag_name agent) p (dl_latest S), dl_history := dl_history S @ [p]\<rparr>)"
proof -
  let ?call = "de_call E (workflow_request S (''deliberate.'' @ ag_name agent) (ag_model agent)
    (agent_messages E (ag_name agent) peer S)) (dl_world S)"
  obtain r w where call: "?call = (r, w)" by (rule prod.exhaust)
  with assms obtain answer where r: "r = Inr answer" by (cases r) (simp_all add: position_node_def)
  let ?p = "answer\<lparr>po_reviewer_model := ag_model agent, po_agent_name := ag_name agent, po_round := dl_round S\<rparr>"
  have "S' = persist (position_file (ag_name agent) (dl_round S) @ ''.json'') (PositionFile ?p)
      (S\<lparr>dl_world := w, dl_latest := dict_set (ag_name agent) ?p (dl_latest S), dl_history := dl_history S @ [?p]\<rparr>)"
    using assms call by (simp add: position_node_def r Let_def)
  then show ?thesis by (intro exI [of _ ?p] exI [of _ w]) simp
qed

lemma synthesis_node_Inr:
  assumes "synthesis_node E model v S = Inr S'"
  shows "\<exists>p w. S' = persist ''synthesis.json'' (PositionFile p) (S\<lparr>dl_world := w, dl_verdict := Some v\<rparr>)"
  using assms by (auto simp: synthesis_node_def Let_def split: prod.splits sum.splits)

lemma both_latest:
  assumes "snapshot W n d" and "ag_name (wf_agent_a W) \<noteq> ag_name (wf_agent_b W)"
    and "po_round p = m" "po_agent_name p = ag_name (wf_agent_a W)"
    and "po_round q = m" "po_agent_name q = ag_name (wf_agent_b W)"
  shows "both W m (dict_set (ag_name (wf_agent_b W)) q (dict_set (ag_name (wf_agent_a W)) p d))"
  using assms by (auto simp: snapshot_def both_def split: if_splits)

lemma update_set: "snd ` set (dict_set k v d) \<subseteq> insert v (snd ` set d)"
  by (induction d) auto

lemma earlier_round:
  assumes "earlier n rows" and "both W n latest"
  shows "earlier (n + 1) (verify_round F latest before rows n ws)"
  unfolding earlier_def
proof
  fix e assume "e \<in> set (verify_round F latest before rows n ws)"
  then consider "e \<in> set rows" | k p where "(k, p) \<in> set latest" "e \<in> set (verify_position F ws p)"
    | k p where "(k, p) \<in> set latest" "e \<in> set (lineage_entries k n (dict_get before k) p (seen_peer_ids latest before n k))"
    unfolding verify_round_def by auto
  then show "vr_round e < n + 1"
  proof cases
    case 1
    then show ?thesis using assms(1) by (fastforce simp: earlier_def)
  next
    case 2
    then have "vr_round e = po_round p" using verify_position_rows by blast
    moreover have "po_round p = n" using 2 assms(2) by (auto simp: both_def)
    ultimately show ?thesis by simp
  next
    case 3
    then have "vr_round e = n" using lineage_rounds by blast
    then show ?thesis by simp
  qed
qed

lemma router_continues:
  assumes "verdict_of S = None" and "2 \<le> dl_round S" and "dl_latest S \<noteq> []"
  shows "dl_round S < dl_max_rounds S"
  using assms by (auto simp: verdict_of_def detect_convergence_def split: if_splits)

lemma settled_rows: "settled E W n S \<Longrightarrow> earlier (n + 1) (dl_ledger S)"
  unfolding settled_def using earlier_round by metis

lemma inv_at_entry:
  assumes "delib_inv E W AgentA S"
  shows "earlier (dl_round S) (dl_ledger S)" and "dl_prior S = dl_latest S" and "1 \<le> dl_round S"
    and "snapshot W (dl_round S - 1) (dl_latest S)" and "snd ` set (dl_latest S) \<subseteq> set (dl_history S)"
    and "int (length (dl_history S)) = 2 * dl_round S - 2"
proof -
  have "earlier (dl_round S) (dl_ledger S) \<and> dl_prior S = dl_latest S \<and> 1 \<le> dl_round S
    \<and> snapshot W (dl_round S - 1) (dl_latest S) \<and> snd ` set (dl_latest S) \<subseteq> set (dl_history S)
    \<and> int (length (dl_history S)) = 2 * dl_round S - 2"
  proof (cases "dl_round S = 1")
    case True
    then show ?thesis using assms by (simp add: earlier_def snapshot_def)
  next
    case False
    then have settled: "settled E W (dl_round S - 1) S" using assms by simp
    with settled_rows [OF settled] False show ?thesis by (simp add: settled_def snapshot_def)
  qed
  then show "earlier (dl_round S) (dl_ledger S)" "dl_prior S = dl_latest S" "1 \<le> dl_round S"
    "snapshot W (dl_round S - 1) (dl_latest S)" "snd ` set (dl_latest S) \<subseteq> set (dl_history S)"
    "int (length (dl_history S)) = 2 * dl_round S - 2" by simp_all
qed

lemma ended_persist: "ended E W v (persist name x (S\<lparr>dl_world := w, dl_verdict := u\<rparr>)) = ended E W v S"
  by (simp add: ended_def settled_def verdict_of_def)

lemma delib_inv_step:
  assumes names: "ag_name (wf_agent_a W) \<noteq> ag_name (wf_agent_b W)"
    and inv: "delib_inv E W node S" and step: "node_step E W node S = Inr S'" and m: "next_node node S' = Some m"
  shows "delib_inv E W m S'"
proof (cases node)
  case AgentA
  with step position_node_Inr obtain p w where p: "po_round p = dl_round S" "po_agent_name p = ag_name (wf_agent_a W)"
    and S': "S' = persist (position_file (ag_name (wf_agent_a W)) (dl_round S) @ ''.json'') (PositionFile p)
      (S\<lparr>dl_world := w, dl_latest := dict_set (ag_name (wf_agent_a W)) p (dl_latest S), dl_history := dl_history S @ [p]\<rparr>)"
    by fastforce
  note entry = inv_at_entry [OF inv [unfolded AgentA]]
  have "dl_round S < max 2 (dl_max_rounds S)" using inv AgentA by (auto split: if_splits)
  with AgentA m p entry show ?thesis by (auto simp: S')
next
  case AgentB
  with step position_node_Inr obtain q w where q: "po_round q = dl_round S" "po_agent_name q = ag_name (wf_agent_b W)"
    and S': "S' = persist (position_file (ag_name (wf_agent_b W)) (dl_round S) @ ''.json'') (PositionFile q)
      (S\<lparr>dl_world := w, dl_latest := dict_set (ag_name (wf_agent_b W)) q (dl_latest S), dl_history := dl_history S @ [q]\<rparr>)"
    by fastforce
  from inv AgentB obtain p where p: "po_round p = dl_round S" "po_agent_name p = ag_name (wf_agent_a W)"
    "dl_latest S = dict_set (ag_name (wf_agent_a W)) p (dl_prior S)" "p \<in> set (dl_history S)" by auto
  have snap: "snapshot W (dl_round S - 1) (dl_prior S)" using inv AgentB by simp
  have "both W (dl_round S) (dl_latest S')"
    using both_latest [OF snap names p(1,2) q] by (simp add: S' p(3))
  moreover have "snd ` set (dl_latest S') \<subseteq> set (dl_history S')"
  proof -
    have "snd ` set (dl_latest S') \<subseteq> insert q (snd ` set (dl_latest S))" by (simp add: S' update_set)
    moreover have "snd ` set (dl_latest S) \<subseteq> insert p (snd ` set (dl_prior S))" by (simp add: p(3) update_set)
    moreover have "snd ` set (dl_prior S) \<subseteq> set (dl_history S)" using inv AgentB by simp
    ultimately show ?thesis using p(4) by (auto simp: S')
  qed
  ultimately show ?thesis using inv AgentB m by (auto simp: S')
next
  case Verifier
  then obtain k p d where latest: "dl_latest S = (k, p) # d" and p: "po_round p = dl_round S"
    using inv by (auto simp: both_def)
  have S': "S' = persist ''verifier_ledger.json'' (LedgerFile (verify_round (de_files E (dl_world S)) (dl_latest S) (dl_prior S)
        (dl_ledger S) (dl_round S) (dt_workspace_path (dl_task S))))
      (S\<lparr>dl_ledger := verify_round (de_files E (dl_world S)) (dl_latest S) (dl_prior S)
        (dl_ledger S) (dl_round S) (dt_workspace_path (dl_task S)), dl_prior := dl_latest S\<rparr>)"
    using step Verifier p by (simp add: verifier_node_def latest Let_def)
  have "settled E W (dl_round S) S'"
    unfolding settled_def using inv Verifier by (simp add: S') blast
  with Verifier m inv show ?thesis by (auto simp: S')
next
  case RoundIncrement
  then have S': "S' = S\<lparr>dl_round := dl_round S + 1\<rparr>" using step by simp
  have settled: "settled E W (dl_round S' - 1) S'" and round: "2 \<le> dl_round S'" "dl_round S' \<le> max 2 (dl_max_rounds S')"
    using inv RoundIncrement by (auto simp: S' settled_def)
  have latest: "dl_latest S' \<noteq> []" using settled by (auto simp: settled_def both_def)
  have m': "m = post_round_router S'" using m RoundIncrement by simp
  show ?thesis
  proof (cases "verdict_of S'")
    case None
    then have "m = AgentA" by (simp add: m' post_round_router_def verdict_of_def)
    with router_continues [OF None round(1) latest] settled round show ?thesis by simp
  next
    case (Some v)
    then have "ended E W v S'" using settled round by (simp add: ended_def)
    with Some show ?thesis by (cases v) (simp_all add: m' post_round_router_def verdict_of_def)
  qed
next
  case SynthesisConverged
  with step synthesis_node_Inr obtain p w where
    S': "S' = persist ''synthesis.json'' (PositionFile p) (S\<lparr>dl_world := w, dl_verdict := Some Converged\<rparr>)" by fastforce
  with inv m SynthesisConverged show ?thesis by (auto simp: ended_persist)
next
  case SynthesisDisagreement
  with step synthesis_node_Inr obtain p w where
    S': "S' = persist ''synthesis.json'' (PositionFile p) (S\<lparr>dl_world := w, dl_verdict := Some ProductiveDisagreement\<rparr>)" by fastforce
  with inv m SynthesisDisagreement show ?thesis by (auto simp: ended_persist)
qed (use m in simp_all)

lemma built:
  assumes "build_deliberation t trace_id max_budget agents max_rounds task_prefix model w = Inr (W, S0)"
  shows "delib_inv E W AgentA S0" and "dl_max_rounds S0 = max_rounds" and "dl_round S0 = 1" and "dl_task S0 = t"
    and "dl_agents S0 = [wf_agent_a W, wf_agent_b W]" and "dl_files S0 = [(''task.json'', TaskFile t)]"
    and "dl_history S0 = []" and "dl_ledger S0 = []"
  using assms by (auto simp: build_deliberation_def Let_def split: list.splits option.splits)

lemma delib_reach_inv:
  assumes "delib_reach E W S0 node S" and "ag_name (wf_agent_a W) \<noteq> ag_name (wf_agent_b W)" and "delib_inv E W AgentA S0"
  shows "delib_inv E W node S"
  using assms(1)
proof induction
  case (step node S S' m)
  then show ?case using delib_inv_step assms(2) by blast
qed (rule assms(3))

section \<open>What a run guarantees\<close>

lemma snapshot_get:
  assumes "snapshot W n d" and "n \<noteq> 0" and "ag_name (wf_agent_a W) \<noteq> ag_name (wf_agent_b W)"
    and "agent = wf_agent_a W \<or> agent = wf_agent_b W"
  shows "\<exists>p. dict_get d (ag_name agent) = Some p \<and> po_round p = n \<and> po_agent_name p = ag_name agent"
  using assms by (auto simp: snapshot_def both_def)

text \<open>
  C37: rounds are barriers, between two agents with different names: in every state of a run that
  \<open>build_deliberation\<close> starts in which an agent is about to be asked, the peer's position that it is shown
  is the one of the round before, as is its own, and neither is shown anything in the first round. In
  particular the second agent of a round does not see what the first one answered in it. The names must
  differ: the builder accepts two agents with equal names, and then positions are stored under one name,
  so that the second agent is shown the first one's answer of the same round as its own last position.
\<close>

theorem rounds_are_barriers:
  assumes "build_deliberation t trace_id max_budget agents max_rounds task_prefix model w = Inr (W, S0)"
    and "ag_name (wf_agent_a W) \<noteq> ag_name (wf_agent_b W)"
    and "delib_reach E W S0 node S"
    and "node = AgentA \<and> me = wf_agent_a W \<and> peer = wf_agent_b W \<or> node = AgentB \<and> me = wf_agent_b W \<and> peer = wf_agent_a W"
  shows "\<exists>own seen. agent_messages E (ag_name me) (ag_name peer) S =
      position_prompt E (dl_task S) (ag_name me) (dl_round S) own seen
    \<and> (if dl_round S = 1 then own = None \<and> seen = None
       else \<exists>p q. own = Some p \<and> seen = Some q \<and> po_round p = dl_round S - 1 \<and> po_round q = dl_round S - 1
         \<and> po_agent_name p = ag_name me \<and> po_agent_name q = ag_name peer)"
proof -
  have inv: "delib_inv E W node S" using delib_reach_inv [OF assms(3,2) built(1) [OF assms(1)]] .
  have snap: "snapshot W (dl_round S - 1) (dl_prior S)
    \<and> dict_get (dl_latest S) (ag_name me) = dict_get (dl_prior S) (ag_name me)"
  proof (cases "node = AgentA")
    case True
    from inv_at_entry(2,4) [OF inv [unfolded True]] show ?thesis by simp
  next
    case False
    then have at: "node = AgentB" "me = wf_agent_b W" using assms(4) by auto
    with inv obtain p where "dl_latest S = dict_set (ag_name (wf_agent_a W)) p (dl_prior S)"
      "snapshot W (dl_round S - 1) (dl_prior S)" by auto
    with at assms(2) show ?thesis by (simp add: py_simps)
  qed
  show ?thesis
  proof (cases "dl_round S = 1")
    case True
    with snap have "dl_prior S = []" by (simp add: snapshot_def)
    with snap True show ?thesis by (simp add: agent_messages_def)
  next
    case False
    then have ne: "dl_round S - 1 \<noteq> 0" by simp
    have "me = wf_agent_a W \<or> me = wf_agent_b W" "peer = wf_agent_a W \<or> peer = wf_agent_b W" using assms(4) by auto
    from snapshot_get [OF conjunct1 [OF snap] ne assms(2) this(1)] snapshot_get [OF conjunct1 [OF snap] ne assms(2) this(2)]
    obtain p q where "dict_get (dl_prior S) (ag_name me) = Some p" "po_round p = dl_round S - 1" "po_agent_name p = ag_name me"
      "dict_get (dl_prior S) (ag_name peer) = Some q" "po_round q = dl_round S - 1" "po_agent_name q = ag_name peer" by blast
    with snap False show ?thesis
      by (intro exI [of _ "Some p"] exI [of _ "Some q"]) (simp add: agent_messages_def)
  qed
qed

text \<open>The first non-empty ids of a position are those that the detector looks at.\<close>

definition named_ids :: "position \<Rightarrow> string set" where
  "named_ids p = set (claim_ids p) - {[]}"

lemma list_not_two: "both W n d \<Longrightarrow> ag_name (wf_agent_a W) \<noteq> ag_name (wf_agent_b W) \<Longrightarrow>
    \<exists>p q. d = [(ag_name (wf_agent_a W), p), (ag_name (wf_agent_b W), q)] \<and> po_round p = n \<and> po_round q = n"
  by (auto simp: both_def)

lemma cited_not_Nil: "po_claims p \<noteq> [] \<Longrightarrow> cited p \<noteq> []"
  by (cases "po_claims p") (simp_all add: cited_def)

lemma latest_round_verify:
  assumes "both W n latest" and "\<exists>np \<in> set latest. po_claims (snd np) \<noteq> []" and "earlier n rows"
  shows "latest_round (verify_round F latest before rows n ws) = Some n"
proof -
  from assms(2) obtain k p where p: "(k, p) \<in> set latest" "po_claims p \<noteq> []" by auto
  then have n: "po_round p = n" using assms(1) by (auto simp: both_def)
  from cited_not_Nil [OF p(2)] obtain c where "c \<in> set (cited p)" by (cases "cited p") auto
  from cited_row [OF this, of F ws] obtain cid where row:
    "verify_one_citation F ws (po_agent_name p) (po_round p) cid c \<in> set (verify_position F ws p)" by blast
  have "verify_one_citation F ws (po_agent_name p) (po_round p) cid c \<in> set (verify_round F latest before rows n ws)"
    using row p(1) unfolding verify_round_def by force
  moreover have "\<forall>e \<in> set (verify_round F latest before rows n ws). vr_round e \<le> n"
    using earlier_round [OF assms(3,1), of F before ws] by (auto simp: earlier_def)
  ultimately show ?thesis using n row_fields(2) by (intro latest_round_eqI) auto
qed

lemma seen_peer:
  assumes "both W n latest" and names: "ag_name (wf_agent_a W) \<noteq> ag_name (wf_agent_b W)"
  shows "seen_peer_ids latest before n (ag_name (wf_agent_a W)) =
      Some (if n = 1 then [] else case dict_get before (ag_name (wf_agent_b W)) of Some p \<Rightarrow> claim_ids p | None \<Rightarrow> [])"
    and "seen_peer_ids latest before n (ag_name (wf_agent_b W)) =
      Some (if n = 1 then [] else case dict_get before (ag_name (wf_agent_a W)) of Some p \<Rightarrow> claim_ids p | None \<Rightarrow> [])"
  using assms by (auto simp: both_def seen_peer_ids_def)

lemma converged_latest:
  assumes "detect_convergence [(a, p), (b, q)] r m ledger = Some Converged" and "a \<noteq> b"
  shows "po_disagreed_with_peer p = []" "po_disagreed_with_peer q = []"
    "named_ids q \<subseteq> set (po_agreed_with_peer p)" "named_ids p \<subseteq> set (po_agreed_with_peer q)"
    "po_claims p \<noteq> [] \<or> po_claims q \<noteq> []" "2 \<le> r"
    "\<forall>rows n. ledger = Some rows \<longrightarrow> latest_round rows = Some n \<longrightarrow> round_clean n rows"
  using assms by (auto simp: detect_convergence_def acknowledges_def named_ids_def list_all_iff split: if_splits)

lemma synthesis_after_verifier:
  assumes "delib_reach E W S0 SynthesisConverged S"
  shows "\<exists>V. delib_reach E W S0 Verifier V \<and> S = (verifier_node E V)\<lparr>dl_round := dl_round V + 1\<rparr>"
  using assms
proof cases
  case (step node T)
  then have node: "node = RoundIncrement" by (cases node) (simp_all add: post_round_router_def)
  from step(1) [unfolded node] show ?thesis
  proof cases
    case (step node' V)
    then have "node' = Verifier" by (cases node') (simp_all add: post_round_router_def split: option.splits verdict.splits)
    with step \<open>node_step E W node T = Inr S\<close> show ?thesis
      by (auto simp: node verifier_node_def Let_def split: list.splits)
  qed
qed

text \<open>
  C39: convergence is earned. When a run of two agents with different names is routed to the synthesis of a
  convergence, no disagreement is open in the last positions, each agent acknowledges every named claim
  (one with a non-empty id) of the other, and everything that they cite was resolved in the workspace as it
  is then: the agents are not asked between the verification and the routing. What the code compares between
  rounds are the names of the claims, not their texts. If the run has had more than one round, the
  non-empty claim ids of each agent are the same set as in its position of the round before, which is in
  the history, and every id that an agent agrees to is one of the peer's claims of the round before. If it
  is routed there right after its first round, there is no earlier round to compare with: then no claim of
  either agent has a name, and neither agent agrees to anything.
\<close>

theorem convergence_is_earned:
  assumes "build_deliberation t trace_id max_budget agents max_rounds task_prefix model w = Inr (W, S0)"
    and "ag_name (wf_agent_a W) \<noteq> ag_name (wf_agent_b W)"
    and "delib_reach E W S0 SynthesisConverged S"
  shows "\<exists>p q. dl_latest S = [(ag_name (wf_agent_a W), p), (ag_name (wf_agent_b W), q)]
    \<and> po_disagreed_with_peer p = [] \<and> po_disagreed_with_peer q = []
    \<and> named_ids q \<subseteq> set (po_agreed_with_peer p) \<and> named_ids p \<subseteq> set (po_agreed_with_peer q)
    \<and> (\<forall>c \<in> set (cited p) \<union> set (cited q).
        vr_status (verify_one_citation (de_files E (dl_world S)) (dt_workspace_path (dl_task S)) [] 0 [] c) = Verified)
    \<and> (if dl_round S = 2
       then named_ids p = {} \<and> named_ids q = {} \<and> po_agreed_with_peer p = [] \<and> po_agreed_with_peer q = []
       else \<exists>p' \<in> set (dl_history S). \<exists>q' \<in> set (dl_history S).
         po_round p' = dl_round S - 2 \<and> po_round q' = dl_round S - 2
         \<and> named_ids p' = named_ids p \<and> named_ids q' = named_ids q
         \<and> set (po_agreed_with_peer p) \<subseteq> set (claim_ids q') \<and> set (po_agreed_with_peer q) \<subseteq> set (claim_ids p'))"
proof -
  let ?a = "ag_name (wf_agent_a W)" and ?b = "ag_name (wf_agent_b W)" and ?n = "dl_round S - 1"
  let ?ws = "dt_workspace_path (dl_task S)"
  from synthesis_after_verifier [OF assms(3)] obtain V where
    reach: "delib_reach E W S0 Verifier V" and S: "S = (verifier_node E V)\<lparr>dl_round := dl_round V + 1\<rparr>" by blast
  have inv: "delib_inv E W Verifier V" using delib_reach_inv [OF reach assms(2) built(1) [OF assms(1)]] .
  have "ended E W Converged S" using delib_reach_inv [OF assms(3,2) built(1) [OF assms(1)]] by simp
  then have verdict: "verdict_of S = Some Converged" by (simp add: ended_def)
  from inv obtain k x d where front: "dl_latest V = (k, x) # d" "po_round x = dl_round V" by (auto simp: both_def)
  have before: "snapshot W (?n - 1) (dl_prior V)" "snd ` set (dl_prior V) \<subseteq> set (dl_history S)"
    and rows: "earlier ?n (dl_ledger V)" and both: "both W ?n (dl_latest S)"
    and ledger: "dl_ledger S = verify_round (de_files E (dl_world S)) (dl_latest S) (dl_prior V) (dl_ledger V) ?n ?ws"
    using inv front by (simp_all add: S verifier_node_def Let_def)
  from both obtain p q where latest: "dl_latest S = [(?a, p), (?b, q)]" and n: "po_round p = ?n" "po_round q = ?n"
    unfolding both_def by blast
  note conv = converged_latest [OF verdict [unfolded verdict_of_def latest] assms(2)]
  have last: "latest_round (dl_ledger S) = Some ?n"
    unfolding ledger using latest_round_verify [OF both _ rows] conv(5) by (auto simp: latest)
  then have "dl_ledger S \<noteq> []" by (auto simp: latest_round_def)
  with conv(7) last have clean: "round_clean ?n (dl_ledger S)" by simp
  note p_ok = clean_round_verified [OF clean [unfolded ledger], of ?a p] and q_ok = clean_round_verified [OF clean [unfolded ledger], of ?b q]
  have verified: "\<forall>c \<in> set (cited p) \<union> set (cited q). vr_status (verify_one_citation (de_files E (dl_world S)) ?ws [] 0 [] c) = Verified"
    using p_ok(1) q_ok(1) n by (auto simp: latest)
  let ?seen_p = "if ?n = 1 then [] else case dict_get (dl_prior V) ?b of Some p \<Rightarrow> claim_ids p | None \<Rightarrow> []"
  let ?seen_q = "if ?n = 1 then [] else case dict_get (dl_prior V) ?a of Some p \<Rightarrow> claim_ids p | None \<Rightarrow> []"
  have lin_p: "lineage_entries ?a ?n (dict_get (dl_prior V) ?a) p (Some ?seen_p) = []"
    and lin_q: "lineage_entries ?b ?n (dict_get (dl_prior V) ?b) q (Some ?seen_q) = []"
    using p_ok(2) q_ok(2) n seen_peer [OF both assms(2), of "dl_prior V"] by (simp_all add: latest)
  note own_p = lineage_Nil [OF lin_p] and own_q = lineage_Nil [OF lin_q]
  have rest: "if dl_round S = 2
       then named_ids p = {} \<and> named_ids q = {} \<and> po_agreed_with_peer p = [] \<and> po_agreed_with_peer q = []
       else \<exists>p' \<in> set (dl_history S). \<exists>q' \<in> set (dl_history S).
         po_round p' = dl_round S - 2 \<and> po_round q' = dl_round S - 2
         \<and> named_ids p' = named_ids p \<and> named_ids q' = named_ids q
         \<and> set (po_agreed_with_peer p) \<subseteq> set (claim_ids q') \<and> set (po_agreed_with_peer q) \<subseteq> set (claim_ids p')"
  proof (cases "dl_round S = 2")
    case True
    then show ?thesis using own_p own_q conv(3,4) by simp
  next
    case False
    then have "both W (dl_round S - 2) (dl_prior V)" using before(1) by (simp add: snapshot_def)
    then obtain p' q' where old: "dl_prior V = [(?a, p'), (?b, q')]" "po_round p' = dl_round S - 2" "po_round q' = dl_round S - 2"
      unfolding both_def by blast
    then have get: "dict_get (dl_prior V) ?a = Some p'" "dict_get (dl_prior V) ?b = Some q'" using assms(2) by simp_all
    have seen: "set (po_agreed_with_peer p) \<subseteq> set (claim_ids q')" "set (po_agreed_with_peer q) \<subseteq> set (claim_ids p')"
      and kept: "set (claim_ids p') \<subseteq> set (claim_ids p)" "set (claim_ids q') \<subseteq> set (claim_ids q)"
      using own_p own_q get False by simp_all
    then have "named_ids p' = named_ids p" "named_ids q' = named_ids q" using conv(3,4) by (auto simp: named_ids_def)
    moreover have "p' \<in> set (dl_history S)" "q' \<in> set (dl_history S)" using before(2) old(1) by simp_all
    ultimately show ?thesis using old(2,3) seen False by (simp; blast)
  qed
  show ?thesis
    using conv(1-4) verified rest latest by (intro exI [of _ p] exI [of _ q] conjI) assumption+
qed

section \<open>Every run ends\<close>

definition ends :: "'w delib_env \<Rightarrow> workflow \<Rightarrow> nat \<Rightarrow> dnode \<Rightarrow> 'w delib_state \<Rightarrow> bool" where
  "ends E W k node S \<longleftrightarrow> (\<exists>r. run_nodes E W k node S = Some r)"

lemma ends_step:
  assumes "\<And>S' m. node_step E W node S = Inr S' \<Longrightarrow> next_node node S' = Some m \<Longrightarrow> ends E W k m S'"
  shows "ends E W (Suc k) node S"
proof (cases "node_step E W node S")
  case (Inr S')
  then show ?thesis using assms by (cases "next_node node S'") (auto simp: ends_def)
qed (simp add: ends_def)

lemma round_kept:
  assumes "node_step E W node S = Inr S'" and "node \<in> {AgentA, AgentB, Verifier}"
  shows "dl_round S' = dl_round S" "dl_max_rounds S' = dl_max_rounds S"
    "dl_latest S \<noteq> [] \<or> node \<noteq> Verifier \<Longrightarrow> dl_latest S' \<noteq> []"
proof -
  have node: "dl_round S' = dl_round S \<and> dl_max_rounds S' = dl_max_rounds S \<and> dl_latest S' \<noteq> []"
    if "position_node E agent peer S = Inr S'" for agent peer
    using position_node_Inr [OF that] by (auto simp: update_nonempty)
  have "dl_round S' = dl_round S \<and> dl_max_rounds S' = dl_max_rounds S \<and> (dl_latest S \<noteq> [] \<or> node \<noteq> Verifier \<longrightarrow> dl_latest S' \<noteq> [])"
    using assms node by (auto simp: verifier_node_def Let_def split: list.splits)
  then show "dl_round S' = dl_round S" "dl_max_rounds S' = dl_max_rounds S"
    "dl_latest S \<noteq> [] \<or> node \<noteq> Verifier \<Longrightarrow> dl_latest S' \<noteq> []" by simp_all
qed

lemma tail_ends: "node \<in> {SynthesisConverged, SynthesisDisagreement, SignoffStalled} \<Longrightarrow> ends E W (Suc (Suc k)) node S"
  by (auto intro!: ends_step)

lemma rounds_end:
  assumes "1 \<le> dl_round S" and "max 1 (dl_max_rounds S - dl_round S) \<le> int j"
  shows "ends E W (4 * j + 2) AgentA S"
  using assms
proof (induction j arbitrary: S)
  case (Suc j)
  have "ends E W (Suc (Suc (Suc (Suc (4 * j + 2))))) AgentA S"
  proof (intro ends_step)
    fix S1 n1 S2 n2 S3 n3 S4 n4
    assume "node_step E W AgentA S = Inr S1" "next_node AgentA S1 = Some n1"
      and "node_step E W n1 S1 = Inr S2" "next_node n1 S2 = Some n2"
      and "node_step E W n2 S2 = Inr S3" "next_node n2 S3 = Some n3"
      and "node_step E W n3 S3 = Inr S4" "next_node n3 S4 = Some n4"
    then have steps: "node_step E W AgentA S = Inr S1" "node_step E W AgentB S1 = Inr S2" "node_step E W Verifier S2 = Inr S3"
      and S4: "S4 = S3\<lparr>dl_round := dl_round S3 + 1\<rparr>" and n4: "n4 = post_round_router S4" by auto
    note kept = round_kept [OF steps(1)] round_kept [OF steps(2)] round_kept [OF steps(3)]
    have round: "dl_round S4 = dl_round S + 1" "dl_max_rounds S4 = dl_max_rounds S" and latest: "dl_latest S4 \<noteq> []"
      using kept by (simp_all add: S4)
    show "ends E W (4 * j + 2) n4 S4"
    proof (cases "verdict_of S4")
      case None
      then have "n4 = AgentA" by (simp add: n4 post_round_router_def verdict_of_def)
      moreover have "dl_round S4 < dl_max_rounds S4" using router_continues [OF None _ latest] round Suc.prems by simp
      ultimately show ?thesis using Suc.IH [of S4] Suc.prems round by simp
    next
      case (Some v)
      then have "n4 \<in> {SynthesisConverged, SynthesisDisagreement, SignoffStalled}"
        by (cases v) (simp_all add: n4 post_round_router_def verdict_of_def)
      from tail_ends [OF this] show ?thesis by simp
    qed
  qed
  moreover have "4 * Suc j + 2 = Suc (Suc (Suc (Suc (4 * j + 2))))" by simp
  ultimately show ?case by (simp only:)
qed simp

text \<open>
  C38: every deliberation ends, whatever the agents answer: after at most one round less than the cap, but
  always one, of four nodes each, and the two closing nodes.
\<close>

theorem deliberation_ends:
  assumes "build_deliberation t trace_id max_budget agents max_rounds task_prefix model w = Inr (W, S0)"
  shows "\<exists>r. run_nodes E W (4 * nat (max 1 (max_rounds - 1)) + 2) AgentA S0 = Some r"
  using rounds_end [of S0 "nat (max 1 (max_rounds - 1))" E W] built(2,3) [OF assms] by (simp add: ends_def)

section \<open>The sign-off\<close>

lemma run_reach:
  assumes "run_nodes E W k node S = Some (Inr S')" and "delib_reach E W S0 node S"
  shows "\<exists>last Sx. delib_reach E W S0 last Sx \<and> node_step E W last Sx = Inr S' \<and> next_node last S' = None"
  using assms
proof (induction k arbitrary: node S)
  case (Suc k)
  then obtain S1 where S1: "node_step E W node S = Inr S1" by (cases "node_step E W node S") auto
  show ?case
  proof (cases "next_node node S1")
    case None
    then show ?thesis using Suc.prems S1 by auto
  next
    case (Some m)
    then show ?thesis using Suc.IH [of m S1] Suc.prems S1 delib_reach.step [OF Suc.prems(2) S1 Some] by simp
  qed
qed simp

text \<open>Every file that the index of a sign-off will name exists, the synthesis where there is one.\<close>

definition files_ok :: "dnode \<Rightarrow> 'w delib_state \<Rightarrow> bool" where
  "files_ok node S \<longleftrightarrow>
     dict_has (dl_files S) ''task.json'' \<and>
     (\<forall>p \<in> set (dl_history S). dict_has (dl_files S) (position_file (po_agent_name p) (po_round p) @ ''.json'')) \<and>
     (dl_ledger S \<noteq> [] \<longrightarrow> dict_has (dl_files S) ''verifier_ledger.json'') \<and>
     (dict_has (dl_files S) ''synthesis.json'' \<longleftrightarrow> node = SignoffPass \<or> node = SignoffDisagreement)"

lemma has_set: "dict_has (dict_set k v d) k' \<longleftrightarrow> k' = k \<or> dict_has d k'"
  by (simp add: dict_has_def py_simps)

lemma position_file_other: "position_file agent n @ ''.json'' \<noteq> ''synthesis.json''"
  by (simp add: position_file_def)

lemma files_ok_reach:
  assumes "delib_reach E W S0 node S" and "dl_files S0 = [(''task.json'', TaskFile t)]" "dl_history S0 = []" "dl_ledger S0 = []"
  shows "files_ok node S"
  using assms(1)
proof induction
  case entry
  then show ?case using assms(2-4) by (simp add: files_ok_def dict_has_def)
next
  case (step node S S' m)
  have agent: "files_ok m S'" if "position_node E agent peer S = Inr S'" "m = AgentB \<or> m = Verifier" "node = AgentA \<or> node = AgentB"
    for agent peer
  proof -
    from position_node_Inr [OF that(1)] obtain p w where p: "po_round p = dl_round S" "po_agent_name p = ag_name agent"
      and S': "S' = persist (position_file (ag_name agent) (dl_round S) @ ''.json'') (PositionFile p)
      (S\<lparr>dl_world := w, dl_latest := dict_set (ag_name agent) p (dl_latest S), dl_history := dl_history S @ [p]\<rparr>)" by blast
    have "''synthesis.json'' \<noteq> position_file (ag_name agent) (dl_round S) @ ''.json''"
      using position_file_other [of "ag_name agent" "dl_round S"] by (metis (no_types))
    with step.IH that(2,3) p show ?thesis by (auto simp: S' files_ok_def has_set)
  qed
  show ?case
  proof (cases node)
    case RoundIncrement
    then show ?thesis using step by (auto simp: files_ok_def post_round_router_def split: option.splits verdict.splits)
  next
    case SynthesisConverged
    with step.hyps synthesis_node_Inr obtain p w where
      "S' = persist ''synthesis.json'' (PositionFile p) (S\<lparr>dl_world := w, dl_verdict := Some Converged\<rparr>)" by fastforce
    then show ?thesis using step.IH step.hyps SynthesisConverged by (auto simp: files_ok_def has_set)
  next
    case SynthesisDisagreement
    with step.hyps synthesis_node_Inr obtain p w where
      "S' = persist ''synthesis.json'' (PositionFile p) (S\<lparr>dl_world := w, dl_verdict := Some ProductiveDisagreement\<rparr>)" by fastforce
    then show ?thesis using step.IH step.hyps SynthesisDisagreement by (auto simp: files_ok_def has_set)
  next
    case Verifier
    then show ?thesis using step by (auto simp: files_ok_def verifier_node_def has_set Let_def split: list.splits)
  qed (use step agent in auto)
qed

lemma index_entries:
  "(k, f) \<in> set (fold (\<lambda>p d. let name = position_file (po_agent_name p) (po_round p) in dict_set name (name @ ''.json'') d) ps d)
     \<Longrightarrow> (k, f) \<in> set d \<or> (\<exists>p \<in> set ps. f = position_file (po_agent_name p) (po_round p) @ ''.json'')"
proof (induction ps arbitrary: d)
  case (Cons p ps)
  let ?name = "position_file (po_agent_name p) (po_round p)"
  have "(k, f) \<in> set (dict_set ?name (?name @ ''.json'') d) \<Longrightarrow> (k, f) \<in> set d \<or> f = ?name @ ''.json''"
    by (induction d) (auto split: if_splits)
  with Cons.IH [of "dict_set ?name (?name @ ''.json'') d"] Cons.prems show ?case by (auto simp: Let_def)
qed simp

text \<open>
  C40: the sign-off of a run says what happened in it: its verdict is that of the run, two positions were taken
  for each round that was played, which is one less than the number it reports; a converged run leaves no
  disagreement, a stalled one has no claims, and a disagreement is only declared at the cap. The files it
  indexes exist, except that a stalled run has no synthesis.
\<close>

theorem deliberation_signoff_exact:
  assumes "build_deliberation t trace_id max_budget agents max_rounds task_prefix model w = Inr (W, S0)"
    and "ag_name (wf_agent_a W) \<noteq> ag_name (wf_agent_b W)"
    and "run_nodes E W k AgentA S0 = Some (Inr S)"
  shows "\<exists>g. dict_get (dl_files S) ''signoff.json'' = Some (SignoffFile g)
    \<and> dl_verdict S = Some (dg_final_verdict g)
    \<and> int (length (dl_history S)) = 2 * (dg_total_rounds g - 1) \<and> dg_total_rounds g \<le> max 2 max_rounds
    \<and> (case dg_final_verdict g of
         Converged \<Rightarrow> dg_residual_disagreements g = []
       | Stalled \<Rightarrow> list_all (\<lambda>np. po_claims (snd np) = []) (dl_latest S)
       | ProductiveDisagreement \<Rightarrow> max_rounds \<le> dg_total_rounds g)
    \<and> (\<forall>(key, f) \<in> set (dg_artifacts_index g).
        dict_has (dl_files S) f \<or> f = ''synthesis.json'' \<and> dg_final_verdict g = Stalled)"
proof -
  from run_reach [OF assms(3) entry] obtain node Sx where reach: "delib_reach E W S0 node Sx"
    and step: "node_step E W node Sx = Inr S" and final: "next_node node S = None" by blast
  have inv: "delib_inv E W node Sx" using delib_reach_inv [OF reach assms(2) built(1) [OF assms(1)]] .
  have files: "files_ok node Sx" using files_ok_reach [OF reach built(6-8) [OF assms(1)]] .
  have max: "dl_max_rounds Sx = max_rounds"
    using reach
  proof induction
    case (step node S S' m)
    then show ?case using round_kept(2) [of E W node S S'] synthesis_node_Inr
      by (cases node) (auto dest!: synthesis_node_Inr simp: signoff_node_def)
  qed (rule built(2) [OF assms(1)])
  from step final obtain v where S: "S = signoff_node v Sx" and ended: "ended E W v Sx"
    and synthesis: "v \<noteq> Stalled \<longleftrightarrow> dict_has (dl_files Sx) ''synthesis.json''"
    using inv files by (cases node) (auto simp: files_ok_def)
  let ?g = "\<lparr>dg_task_id = dt_task_id (dl_task Sx), dg_final_verdict = v, dg_total_rounds = dl_round Sx,
        dg_agents = map ag_name (dl_agents Sx), dg_residual_disagreements = concat (map (po_disagreed_with_peer \<circ> snd) (dl_latest Sx)),
        dg_trace_id = dl_trace_id Sx, dg_artifacts_index = artifacts_index (Sx\<lparr>dl_verdict := Some v\<rparr>)\<rparr>"
  have index: "artifacts_index (Sx\<lparr>dl_verdict := Some v\<rparr>) = artifacts_index Sx" by (simp add: artifacts_index_def)
  have settled: "settled E W (dl_round Sx - 1) Sx" and verdict: "verdict_of Sx = Some v"
    and round: "dl_round Sx \<le> max 2 max_rounds" using ended max by (simp_all add: ended_def)
  then have played: "int (length (dl_history Sx)) = 2 * (dl_round Sx - 1)" and both: "both W (dl_round Sx - 1) (dl_latest Sx)"
    and least: "2 \<le> dl_round Sx" by (simp_all add: settled_def)
  from both obtain p q where latest: "dl_latest Sx = [(ag_name (wf_agent_a W), p), (ag_name (wf_agent_b W), q)]"
    unfolding both_def by blast
  have outcome: "case v of Converged \<Rightarrow> concat (map (po_disagreed_with_peer \<circ> snd) (dl_latest Sx)) = []
       | Stalled \<Rightarrow> list_all (\<lambda>np. po_claims (snd np) = []) (dl_latest Sx)
       | ProductiveDisagreement \<Rightarrow> max_rounds \<le> dl_round Sx"
  proof (cases v)
    case Converged
    with converged_latest(1,2) [OF verdict [unfolded verdict_of_def latest Converged] assms(2)] show ?thesis
      by (simp add: latest)
  next
    case ProductiveDisagreement
    with verdict max show ?thesis by (simp add: verdict_of_def detect_convergence_def split: if_splits)
  next
    case Stalled
    with verdict least latest show ?thesis by (simp add: verdict_of_def detect_convergence_def split: if_splits)
  qed
  have exists: "dict_has (dl_files S) f \<or> f = ''synthesis.json'' \<and> v = Stalled" if "(key, f) \<in> set (artifacts_index Sx)" for key f
    using index_entries [OF that [unfolded artifacts_index_def]] files synthesis
    by (auto simp: S signoff_node_def has_set files_ok_def split: if_splits)
  show ?thesis
    using played round outcome exists index
    by (intro exI [of _ ?g], cases v) (auto simp: S signoff_node_def py_simps)
qed

section \<open>A run, and what its checks leave\<close>

fun run_upto :: "'w delib_env \<Rightarrow> workflow \<Rightarrow> nat \<Rightarrow> dnode \<times> 'w delib_state \<Rightarrow> (dnode \<times> 'w delib_state) option" where
  "run_upto E W 0 c = Some c"
| "run_upto E W (Suc k) c =
     (case node_step E W (fst c) (snd c) of
        Inl e \<Rightarrow> None
      | Inr S' \<Rightarrow> (case next_node (fst c) S' of None \<Rightarrow> None | Some m \<Rightarrow> run_upto E W k (m, S')))"

lemma run_upto_reach:
  "run_upto E W k c = Some (m, S') \<Longrightarrow> delib_reach E W S0 (fst c) (snd c) \<Longrightarrow> delib_reach E W S0 m S'"
proof (induction k arbitrary: c)
  case (Suc k)
  then obtain S1 n1 where "node_step E W (fst c) (snd c) = Inr S1" "next_node (fst c) S1 = Some n1"
    "run_upto E W k (n1, S1) = Some (m, S')" by (auto split: sum.splits option.splits)
  with Suc.IH [of "(n1, S1)"] delib_reach.step [OF Suc.prems(2)] show ?case by simp
qed simp

definition demo_position :: "string \<Rightarrow> string list \<Rightarrow> position" where
  "demo_position claim agreed =
     \<lparr>po_agent_name = [], po_round = 0, po_claims =
        (if claim = [] then [] else [\<lparr>pc_claim_id = claim, pc_claim = claim, pc_severity = ''warn'', pc_evidence_path = ''f:1''\<rparr>]),
      po_evidence = [], po_open_questions = [], po_agreed_with_peer = agreed, po_disagreed_with_peer = [],
      po_confidence = [], po_state = [], po_reviewer_summary = [], po_reviewer_model = []\<rparr>"

definition demo_delib :: "position list delib_env" where
  "demo_delib =
     \<lparr>de_call = (\<lambda>rq w. case w of [] \<Rightarrow> (Inl ''error'', []) | p # ps \<Rightarrow> (Inr p, ps)),
      de_files = (\<lambda>w. \<lparr>ft_join = (\<lambda>ws f. f), ft_is_file = (\<lambda>p. p = ''f''), ft_resolve = (\<lambda>p. p), ft_read = (\<lambda>p. Inr ''x'')\<rparr>),
      de_dump = (\<lambda>_. []), de_dump_all = (\<lambda>_. []), de_schema = []\<rparr>"

definition demo_delib_task :: delib_task where
  "demo_delib_task = \<lparr>dt_task_id = [], dt_title = [], dt_question = [], dt_workspace_path = [], dt_success_criteria = [], dt_constraints = []\<rparr>"

definition demo_agents :: "string \<Rightarrow> string \<Rightarrow> workflow" where
  "demo_agents a b = \<lparr>wf_agent_a = \<lparr>ag_name = a, ag_model = []\<rparr>, wf_agent_b = \<lparr>ag_name = b, ag_model = []\<rparr>,
     wf_synthesis_model = ''claude-code/sonnet''\<rparr>"

definition demo_start :: "string \<Rightarrow> string \<Rightarrow> position list \<Rightarrow> position list delib_state" where
  "demo_start a b ps =
     \<lparr>dl_world = ps, dl_task = demo_delib_task, dl_round = 1, dl_max_rounds = 3, dl_agents = [wf_agent_a (demo_agents a b), wf_agent_b (demo_agents a b)],
      dl_latest = [], dl_prior = [], dl_history = [], dl_ledger = [], dl_verdict = None,
      dl_files = [(''task.json'', TaskFile demo_delib_task)], dl_trace_id = [], dl_max_budget = 0, dl_task_prefix = []\<rparr>"

lemma demo_built:
  "build_deliberation demo_delib_task [] 0 (Some [wf_agent_a (demo_agents a b), wf_agent_b (demo_agents a b)]) 3 [] None ps =
     Inr (demo_agents a b, demo_start a b ps)"
  by (simp add: build_deliberation_def demo_start_def demo_agents_def)

definition agreeing :: "position list" where
  "agreeing = [demo_position ''a'' [], demo_position ''b'' [], demo_position ''a'' [''b''], demo_position ''b'' [''a''], demo_position [] []]"

lemma demo_converges:
  "map_option fst (run_upto demo_delib (demo_agents ''x'' ''y'') 8 (AgentA, demo_start ''x'' ''y'' agreeing)) = Some SynthesisConverged"
  by code_simp

lemma demo_upto:
  "map_option fst (run_upto E W k (AgentA, S0)) = Some m \<Longrightarrow> \<exists>S. run_upto E W k (AgentA, S0) = Some (m, S) \<and> delib_reach E W S0 m S"
  using run_upto_reach [of E W k "(AgentA, S0)" _ _ S0] entry [of E W S0] by (cases "run_upto E W k (AgentA, S0)") force+

theorem convergence_is_earned_witness:
  "\<exists>S p q. delib_reach demo_delib (demo_agents ''x'' ''y'') (demo_start ''x'' ''y'' agreeing) SynthesisConverged S
     \<and> dl_latest S = [(''x'', p), (''y'', q)] \<and> named_ids q \<subseteq> set (po_agreed_with_peer p)"
proof -
  from demo_upto [OF demo_converges] obtain S where
    reach: "delib_reach demo_delib (demo_agents ''x'' ''y'') (demo_start ''x'' ''y'' agreeing) SynthesisConverged S" by blast
  have names: "ag_name (wf_agent_a (demo_agents ''x'' ''y'')) = ''x''" "ag_name (wf_agent_b (demo_agents ''x'' ''y'')) = ''y''"
    by (simp_all add: demo_agents_def)
  with convergence_is_earned [OF demo_built _ reach] show ?thesis using reach by auto
qed

lemma demo_second_round:
  "(case run_upto demo_delib (demo_agents ''x'' ''y'') 5 (AgentA, demo_start ''x'' ''y'' agreeing) of
      None \<Rightarrow> False | Some (m, S) \<Rightarrow> m = AgentB \<and> dl_round S = 2)"
  by code_simp

theorem rounds_are_barriers_witness:
  "\<exists>S own seen. delib_reach demo_delib (demo_agents ''x'' ''y'') (demo_start ''x'' ''y'' agreeing) AgentB S
     \<and> agent_messages demo_delib ''y'' ''x'' S = position_prompt demo_delib (dl_task S) ''y'' 2 (Some own) (Some seen)
     \<and> po_round own = 1 \<and> po_round seen = 1 \<and> po_agent_name seen = ''x''"
proof -
  let ?W = "demo_agents ''x'' ''y''"
  have names: "ag_name (wf_agent_a ?W) = ''x''" "ag_name (wf_agent_b ?W) = ''y''" by (simp_all add: demo_agents_def)
  obtain m S where "run_upto demo_delib ?W 5 (AgentA, demo_start ''x'' ''y'' agreeing) = Some (m, S)" "m = AgentB" "dl_round S = 2"
    using demo_second_round by (auto split: option.splits)
  then have round: "dl_round S = 2" and
    reach: "delib_reach demo_delib ?W (demo_start ''x'' ''y'' agreeing) AgentB S"
    using demo_upto [of demo_delib ?W 5 "demo_start ''x'' ''y'' agreeing" AgentB] by auto
  from rounds_are_barriers [OF demo_built _ reach, of "wf_agent_b ?W" "wf_agent_a ?W"] names round reach
  show ?thesis by auto
qed

theorem deliberation_ends_witness:
  "\<exists>r. run_nodes demo_delib (demo_agents ''x'' ''y'') (4 * nat (max 1 (3 - 1)) + 2) AgentA (demo_start ''x'' ''y'' agreeing) = Some r"
  by (rule deliberation_ends [OF demo_built])

definition run_outcome :: "(string + 'w delib_state) option \<Rightarrow> (verdict option \<times> nat) option" where
  "run_outcome r = (case r of Some (Inr S) \<Rightarrow> Some (dl_verdict S, length (dl_history S)) | _ \<Rightarrow> None)"

lemma run_outcomeD: "run_outcome r = Some (v, n) \<Longrightarrow> \<exists>S. r = Some (Inr S) \<and> dl_verdict S = v \<and> length (dl_history S) = n"
  by (auto simp: run_outcome_def split: option.splits sum.splits)

lemma demo_outcome:
  "run_outcome (run_nodes demo_delib (demo_agents ''x'' ''y'') 10 AgentA (demo_start ''x'' ''y'' agreeing)) = Some (Some Converged, 4)"
  by code_simp

theorem deliberation_signoff_exact_witness:
  "\<exists>S g. run_nodes demo_delib (demo_agents ''x'' ''y'') 10 AgentA (demo_start ''x'' ''y'' agreeing) = Some (Inr S)
     \<and> dict_get (dl_files S) ''signoff.json'' = Some (SignoffFile g) \<and> dg_final_verdict g = Converged
     \<and> dg_residual_disagreements g = [] \<and> dg_total_rounds g = 3"
proof -
  from run_outcomeD [OF demo_outcome] obtain S where
    run: "run_nodes demo_delib (demo_agents ''x'' ''y'') 10 AgentA (demo_start ''x'' ''y'' agreeing) = Some (Inr S)"
    and S: "dl_verdict S = Some Converged" "length (dl_history S) = 4" by blast
  have "ag_name (wf_agent_a (demo_agents ''x'' ''y'')) \<noteq> ag_name (wf_agent_b (demo_agents ''x'' ''y''))"
    by (simp add: demo_agents_def)
  from deliberation_signoff_exact [OF demo_built this run] run S show ?thesis by auto
qed

text \<open>
  The cap is one too low: a run with a cap of two rounds is declared a disagreement after its first round,
  in which neither agent has seen the other, and without any disagreement.
\<close>

lemma cap_cuts_second_round:
  "run_outcome (run_nodes demo_delib (demo_agents ''x'' ''y'') 6 AgentA ((demo_start ''x'' ''y'' agreeing)\<lparr>dl_max_rounds := 2\<rparr>))
     = Some (Some ProductiveDisagreement, 2)"
  by code_simp

text \<open>Two agents of one name are accepted, share one entry, and are declared stalled with all their claims.\<close>

lemma same_name_stalls:
  "run_outcome (run_nodes demo_delib (demo_agents ''x'' ''x'') 5 AgentA (demo_start ''x'' ''x'' agreeing)) = Some (Some Stalled, 2)"
  by code_simp

text \<open>Claims without an id are nobody's to acknowledge: the first round converges on them.\<close>

lemma nameless_claims_converge:
  "run_outcome (run_nodes demo_delib (demo_agents ''x'' ''y'') 6 AgentA (demo_start ''x'' ''y''
      [(demo_position ''a'' [])\<lparr>po_claims := [\<lparr>pc_claim_id = [], pc_claim = ''c'', pc_severity = ''high'', pc_evidence_path = ''f:1''\<rparr>]\<rparr>,
       demo_position [] [], demo_position [] []])) = Some (Some Converged, 2)"
  by code_simp

end
