(* ===== verification/Agent_Artifacts.thy ===== *)
theory Agent_Artifacts
  imports Retry Tool_Contracts Context_Window Py_Support
begin

text \<open>
  Tool calls, their records and the artifacts and evidence of an agent run:
  \<open>llm_client/agent/mcp_tools.py\<close>, \<open>llm_client/agent/agent_artifacts.py\<close>, \<open>llm_client/agent/mcp_evidence.py\<close>
  and the injection of handles of \<open>llm_client/agent/agent_contracts.py\<close>.

  A tool call has an id, a name and arguments, which are a dictionary or a JSON text. \<open>json.loads\<close>,
  \<open>json.dumps\<close> and the digest of a sorted list of labels are arguments; what \<open>json\<close> reads has string keys,
  and a value that went through \<open>loads(dumps(value))\<close> is that value.
\<close>

section \<open>Tool calls and records\<close>

record tool_call =
  tcl_id :: string
  tcl_name :: string
  tcl_arguments :: py

record tool_record =
  rec_server :: string
  rec_tool :: string
  rec_arguments :: "(string \<times> py) list"
  rec_call_id :: "string option"
  rec_reasoning :: "string option"
  rec_coercions :: "py list"
  rec_artifact_ids :: "string list"
  rec_handles :: "(string \<times> string) list list"
  rec_result :: "string option"
  rec_error :: "string option"

definition new_record :: "string \<Rightarrow> string \<Rightarrow> (string \<times> py) list \<Rightarrow> tool_record" where
  "new_record server tool args =
     \<lparr>rec_server = server, rec_tool = tool, rec_arguments = args, rec_call_id = None, rec_reasoning = None,
      rec_coercions = [], rec_artifact_ids = [], rec_handles = [], rec_result = None, rec_error = None\<rparr>"

definition BUDGET_EXEMPT_TOOL_NAMES :: "string list" where
  "BUDGET_EXEMPT_TOOL_NAMES = [''create_plan'', ''todo_write'', ''update_plan'', ''submit_answer'', ''runtime_artifact_read'']"

definition is_budget_exempt_tool :: "string \<Rightarrow> bool" where
  "is_budget_exempt_tool name \<longleftrightarrow> name \<in> set BUDGET_EXEMPT_TOOL_NAMES"

definition call_name :: "tool_call \<Rightarrow> string" where
  "call_name tc = py_strip (tcl_name tc)"

definition normalize_tool_call_name :: "tool_call \<Rightarrow> tool_call" where
  "normalize_tool_call_name tc = tc\<lparr>tcl_name := call_name tc\<rparr>"

definition count_budgeted_records :: "tool_record list \<Rightarrow> nat" where
  "count_budgeted_records rs = length (filter (\<lambda>r. \<not> is_budget_exempt_tool (rec_tool r)) rs)"

definition count_budgeted_tool_calls :: "tool_call list \<Rightarrow> nat" where
  "count_budgeted_tool_calls tcs = length (filter (\<lambda>tc. call_name tc \<noteq> [] \<and> \<not> is_budget_exempt_tool (call_name tc)) tcs)"

text \<open>The loop with the number of budgeted calls kept so far; the answer counts the dropped ones.\<close>

fun trim_from :: "int \<Rightarrow> int \<Rightarrow> tool_call list \<Rightarrow> tool_call list \<times> nat" where
  "trim_from remaining kept [] = ([], 0)"
| "trim_from remaining kept (tc # tcs) =
     (if is_budget_exempt_tool (call_name tc)
      then (case trim_from remaining kept tcs of (ks, d) \<Rightarrow> (tc # ks, d))
      else if kept < remaining
      then (case trim_from remaining (kept + 1) tcs of (ks, d) \<Rightarrow> (tc # ks, d))
      else (case trim_from remaining kept tcs of (ks, d) \<Rightarrow> (ks, Suc d)))"

definition trim_tool_calls_to_budget :: "tool_call list \<Rightarrow> int \<Rightarrow> tool_call list \<times> nat" where
  "trim_tool_calls_to_budget tcs remaining = trim_from remaining 0 tcs"

definition tool_error_signature :: "string \<Rightarrow> string" where
  "tool_error_signature error =
     (let s = py_lower (py_strip error);
          rest = py_strip (drop (length (py_before_first CHR '':'' s) + 1) s);
          t = (if CHR '':'' \<in> set s \<and> rest \<noteq> [] then rest else s)
      in if s = [] then ''unknown error'' else take 160 (py_join '' '' (py_split t)))"

text \<open>Arguments as a dictionary, or as JSON that may be encoded twice.\<close>

definition extract_tool_call_args :: "(string \<Rightarrow> py option) \<Rightarrow> tool_call \<Rightarrow> mapping_arg" where
  "extract_tool_call_args loads tc =
     (case tcl_arguments tc of
        PDict d \<Rightarrow> to_mapping (PDict d)
      | PStr s \<Rightarrow>
          (case loads s of
             Some (PDict d) \<Rightarrow> to_mapping (PDict d)
           | Some (PStr t) \<Rightarrow> (case loads t of Some (PDict d) \<Rightarrow> to_mapping (PDict d) | _ \<Rightarrow> None)
           | _ \<Rightarrow> None)
      | _ \<Rightarrow> None)"

definition py_of_args :: "(string \<times> py) list \<Rightarrow> py" where
  "py_of_args args = PDict (map (\<lambda>(k, v). (PStr k, v)) args)"

definition set_tool_call_args :: "(py \<Rightarrow> string) \<Rightarrow> tool_call \<Rightarrow> (string \<times> py) list \<Rightarrow> tool_call" where
  "set_tool_call_args dumps tc args =
     tc\<lparr>tcl_arguments := (case tcl_arguments tc of PStr s \<Rightarrow> PStr (dumps (py_of_args args)) | _ \<Rightarrow> py_of_args args)\<rparr>"

definition parse_record_result_json_value :: "(string \<Rightarrow> py option) \<Rightarrow> tool_record \<Rightarrow> py option" where
  "parse_record_result_json_value loads r =
     (case rec_result r of Some s \<Rightarrow> if s = [] then None else loads s | None \<Rightarrow> None)"

definition parse_record_result_json :: "(string \<Rightarrow> py option) \<Rightarrow> tool_record \<Rightarrow> py option" where
  "parse_record_result_json loads r =
     (case parse_record_result_json_value loads r of Some (PDict d) \<Rightarrow> Some (PDict d) | _ \<Rightarrow> None)"

section \<open>Reading an artifact again\<close>

definition truncate_text :: "string \<Rightarrow> int \<Rightarrow> string" where
  "truncate_text s max_length =
     (if int (length s) \<le> max_length then s
      else py_take max_length s @ [CHR 0x0A] @ ''... [truncated at '' @ py_int_str max_length @ '' chars]'')"

definition tool_message :: "string \<Rightarrow> string \<Rightarrow> message" where
  "tool_message call_id content =
     [(''role'', PStr ''tool''), (''tool_call_id'', PStr call_id), (''content'', PStr content)]"

definition strs :: "string list \<Rightarrow> py" where
  "strs ss = PList (map PStr ss)"

definition requested_artifact_ids :: "(py \<Rightarrow> string) \<Rightarrow> py \<Rightarrow> string list" where
  "requested_artifact_ids other raw =
     (case raw of
        PStr s \<Rightarrow> if py_strip s = [] then [] else [py_strip s]
      | PList vs \<Rightarrow> filter (\<lambda>s. s \<noteq> []) (map (\<lambda>v. py_strip (py_str other v)) vs)
      | _ \<Rightarrow> [])"

definition flag_or_true :: "py \<Rightarrow> bool" where
  "flag_or_true v \<longleftrightarrow> v = PNone \<or> py_truthy v"

definition pop_key :: "string \<Rightarrow> py \<Rightarrow> py" where
  "pop_key k v = (case v of PDict d \<Rightarrow> PDict (dict_pop (PStr k) d) | _ \<Rightarrow> v)"

definition artifact_view :: "bool \<Rightarrow> bool \<Rightarrow> py \<Rightarrow> py" where
  "artifact_view with_payload with_provenance e =
     (let e1 = (if with_payload then e else pop_key ''payload'' e)
      in if with_provenance then e1 else pop_key ''provenance'' e1)"

record json_env =
  je_loads :: "string \<Rightarrow> py option"
  je_dumps :: "py \<Rightarrow> string"
  je_other :: "py \<Rightarrow> string"

definition runtime_artifact_read_result ::
  "json_env \<Rightarrow> artifact_registry \<Rightarrow> tool_call \<Rightarrow> int \<Rightarrow> bool \<Rightarrow> string \<Rightarrow> string \<Rightarrow> tool_record \<times> message" where
  "runtime_artifact_read_result J registry tc max_length require_reasoning tool_name field =
     (let tool = (if call_name tc = [] then tool_name else call_name tc);
          answer = (\<lambda>r content. (r, tool_message (tcl_id tc) content));
          failed = (\<lambda>r error content. answer (r\<lparr>rec_error := Some error\<rparr>) content) in
      case extract_tool_call_args (je_loads J) tc of
        None \<Rightarrow> failed ((new_record ''__runtime__'' tool [])\<lparr>rec_call_id := Some (tcl_id tc)\<rparr>)
          ''JSON parse error: arguments must decode to a JSON object''
          ''ERROR: Invalid JSON arguments: arguments must decode to a JSON object''
      | Some args \<Rightarrow>
          (let reasoning = (case dict_get args field of
                 Some (PStr s) \<Rightarrow> if py_strip s = [] then None else Some (py_strip s) | _ \<Rightarrow> None);
               rest = dict_pop field args;
               r = (new_record ''__runtime__'' tool rest)\<lparr>rec_call_id := Some (tcl_id tc), rec_reasoning := reasoning\<rparr>;
               ids = requested_artifact_ids (je_other J) (arg_value rest ''artifact_ids'');
               missing = filter (\<lambda>i. registry_envelope registry i = None) ids;
               found = map (artifact_view (flag_or_true (arg_value rest ''include_payload''))
                   (flag_or_true (arg_value rest ''include_provenance''))) (List.map_filter (registry_envelope registry) ids) in
           if require_reasoning \<and> reasoning = None
           then (let e = ''Missing required argument: '' @ field
                 in failed r e (je_dumps J (PDict [(PStr ''error'', PStr e)])))
           else if found = []
           then (let e = ''Unknown artifact_id(s): '' @ py_join '', ''
                       (if missing \<noteq> [] then missing else if ids \<noteq> [] then ids else [''<none>''])
                 in failed r e (je_dumps J (PDict
                   [(PStr ''error'', PStr e), (PStr ''error_code'', PStr ''RUNTIME_ARTIFACT_NOT_FOUND''),
                    (PStr ''requested_artifact_ids'', strs ids),
                    (PStr ''missing_artifact_ids'', strs (if missing \<noteq> [] then missing else ids))])))
           else (let content = truncate_text (je_dumps J (PDict
                       [(PStr ''artifacts'', PList found),
                        (PStr ''artifact_ids'', strs (map (envelope_id (je_other J)) found)),
                        (PStr ''missing_artifact_ids'', strs missing), (PStr ''count'', PInt (int (length found)))])) max_length
                 in answer (r\<lparr>rec_result := Some content\<rparr>) content)))"

section \<open>Handles into arguments\<close>

text \<open>One handle argument: the artifacts it names, put into the argument that the contract declares.\<close>

definition inject_handle ::
  "(py \<Rightarrow> string) \<Rightarrow> artifact_registry \<Rightarrow> (string \<times> py) list \<Rightarrow> handle_spec \<Rightarrow> (string \<times> py list) option" where
  "inject_handle other registry args spec =
     (case hi_inject_arg spec of
        None \<Rightarrow> None
      | Some target \<Rightarrow>
          (let ids = normalize_handle_arg_values other (arg_value args (hi_arg spec)) in
           if hi_arg spec = [] \<or> target = [] \<or> ids = [] then None
           else Some (target, map (\<lambda>e. if hi_representation spec = ''envelope'' then e else py_get e ''payload'')
             (List.map_filter (registry_envelope registry) ids))))"

definition apply_handle_input_injections ::
  "json_env \<Rightarrow> tool_call \<Rightarrow> (string \<times> tool_contract) list \<Rightarrow> artifact_registry \<Rightarrow> tool_call \<times> (string \<times> py list) list" where
  "apply_handle_input_injections J tc contracts registry =
     (case (dict_get contracts (call_name tc), extract_tool_call_args (je_loads J) tc) of
        (Some c, Some args) \<Rightarrow>
          (let injections = List.map_filter (inject_handle (je_other J) registry args)
                 (cf_handle_inputs (fst (resolve_contract_spec (je_other J) c (Some args)))) in
           if injections = [] then (tc, [])
           else (set_tool_call_args (je_dumps J) tc
                   (fold (\<lambda>(target, values) a. dict_set target (PList values) a) injections args), injections))
      | _ \<Rightarrow> (tc, []))"

section \<open>Evidence pointers\<close>

text \<open>The labels of a list of references, those that have one.\<close>

definition ref_labels :: "(py \<Rightarrow> evidence_ref option) \<Rightarrow> py \<Rightarrow> string list" where
  "ref_labels parse raw = (case raw of PList vs \<Rightarrow> List.map_filter (evidence_pointer_label parse) vs | _ \<Rightarrow> [])"

record evidence_env =
  ee_other :: "py \<Rightarrow> string"
  ee_validate :: "py \<Rightarrow> py option"
  ee_parse :: "py \<Rightarrow> evidence_ref option"

definition explicit_labels :: "evidence_env \<Rightarrow> py \<Rightarrow> string list" where
  "explicit_labels V payload =
     (case evidence_pointer_label (ee_parse V) (py_get payload ''evidence_ref'') of Some l \<Rightarrow> [l] | None \<Rightarrow> []) @
     ref_labels (ee_parse V) (py_get payload ''evidence_refs'')"

definition own_labels :: "evidence_env \<Rightarrow> py \<Rightarrow> string list" where
  "own_labels V payload =
     concat (map (\<lambda>e. ref_labels (ee_parse V) (py_get (py_get e ''provenance'') ''evidence_refs''))
       (extract_artifact_envelopes (ee_other V) (ee_validate V) payload)) @
     explicit_labels V payload @
     (case py_get payload ''chunk_id'' of
        PStr s \<Rightarrow> if explicit_labels V payload = [] \<and> prefix ''chunk_'' (py_strip s) then [''chunk:'' @ py_strip s] else []
      | _ \<Rightarrow> [])"

fun collect_labels :: "evidence_env \<Rightarrow> py \<Rightarrow> string list"
  and collect_values :: "evidence_env \<Rightarrow> (py \<times> py) list \<Rightarrow> string list"
  and collect_items :: "evidence_env \<Rightarrow> py list \<Rightarrow> string list" where
  "collect_labels V (PDict d) = own_labels V (PDict d) @ collect_values V d"
| "collect_labels V (PList vs) = collect_items V vs"
| "collect_labels V v = []"
| "collect_values V [] = []"
| "collect_values V ((k, v) # d) = collect_labels V v @ collect_values V d"
| "collect_items V [] = []"
| "collect_items V (v # vs) = collect_labels V v @ collect_items V vs"

text \<open>\<open>\bchunk[_-]\d+\b\<close>, case-insensitively, at a position whose left neighbour is given.\<close>

definition chunk_at :: "char option \<Rightarrow> string \<Rightarrow> string option" where
  "chunk_at before s =
     (let digits = takeWhile py_isdigit (drop 6 s); after = drop (6 + length digits) s in
      if (case before of None \<Rightarrow> True | Some c \<Rightarrow> \<not> is_word_char c) \<and> py_lower (take 5 s) = ''chunk'' \<and>
         5 < length s \<and> s ! 5 \<in> set ''_-'' \<and> digits \<noteq> [] \<and> (after = [] \<or> \<not> is_word_char (hd after))
      then Some (take (6 + length digits) s) else None)"

fun chunk_mentions :: "char option \<Rightarrow> string \<Rightarrow> string list" where
  "chunk_mentions before [] = []"
| "chunk_mentions before (c # cs) =
     (case chunk_at before (c # cs) of Some m \<Rightarrow> [m] | None \<Rightarrow> []) @ chunk_mentions (Some c) cs"

text \<open>
  \<open>'([^']{2,60})'\<close> from left to right: text between two quotes, of two to sixty characters; a quote that opens
  no such text is skipped. The answer to a quote needs the text after it, so the scan carries what it has
  read since the last quote that may open.
\<close>

fun quoted_from :: "string option \<Rightarrow> string \<Rightarrow> string list" where
  "quoted_from w [] = []"
| "quoted_from w (c # cs) =
     (if c = CHR 0x27
      then (case w of
              Some t \<Rightarrow> if 2 \<le> length t \<and> length t \<le> 60 then rev t # quoted_from None cs else quoted_from (Some []) cs
            | None \<Rightarrow> quoted_from (Some []) cs)
      else quoted_from (map_option ((#) c) w) cs)"

definition extract_evidence_pointers_from_text :: "string \<Rightarrow> string list" where
  "extract_evidence_pointers_from_text s =
     map ((@) ''chunk:'') (chunk_mentions None s) @
     map ((@) ''entity:'') (filter (\<lambda>name. name \<noteq> [] \<and> \<not> py_startswith_any [''http'', ''results/'', ''/''] name)
       (map py_strip (quoted_from None s)))"

definition redundant_labels :: "string list \<Rightarrow> string list" where
  "redundant_labels ls =
     map (py_before_first CHR ''#'') (filter (\<lambda>l. prefix ''chunk:'' l \<and> CHR ''#'' \<in> set l) ls)"

definition tool_evidence_pointer_labels :: "evidence_env \<Rightarrow> (string \<Rightarrow> py option) \<Rightarrow> tool_record \<Rightarrow> string list" where
  "tool_evidence_pointer_labels V loads r =
     (if (case rec_error r of Some e \<Rightarrow> e \<noteq> [] | None \<Rightarrow> False) \<or> is_budget_exempt_tool (rec_tool r) then []
      else
        let found = (case parse_record_result_json_value loads r of Some v \<Rightarrow> collect_labels V v | None \<Rightarrow> []);
            labels = filter (\<lambda>l. l \<notin> set (redundant_labels found)) found in
        if labels \<noteq> [] then labels
        else case rec_result r of
               Some s \<Rightarrow> if 10 < length s then extract_evidence_pointers_from_text s else []
             | None \<Rightarrow> [])"

definition evidence_digest :: "(string list \<Rightarrow> string) \<Rightarrow> string set \<Rightarrow> string" where
  "evidence_digest digest labels = digest (sorted_list_of_set labels)"

definition is_evidence_tool_name :: "string \<Rightarrow> bool" where
  "is_evidence_tool_name tool \<longleftrightarrow>
     (let name = py_lower (py_strip tool) in
      name \<noteq> [] \<and> \<not> is_budget_exempt_tool name \<and>
      py_startswith_any [''entity_'', ''relationship_'', ''chunk_'', ''subgraph_'', ''community_'', ''bridge_''] name)"

section \<open>Handles and the active context\<close>

definition text_field :: "(py \<Rightarrow> string) \<Rightarrow> py \<Rightarrow> string \<Rightarrow> string" where
  "text_field other v k =
     (case v of
        PDict d \<Rightarrow> (case dict_get d (PStr k) of Some x \<Rightarrow> py_strip (py_str other x) | None \<Rightarrow> [])
      | _ \<Rightarrow> [])"

definition handle_summary :: "(py \<Rightarrow> string) \<Rightarrow> py \<Rightarrow> (string \<times> string) list option" where
  "handle_summary other e =
     (let artifact_id = text_field other e ''artifact_id'';
          cap = (case py_get e ''capabilities'' of PList (c # _) \<Rightarrow> (case c of PDict d \<Rightarrow> PDict d | _ \<Rightarrow> PNone) | _ \<Rightarrow> PNone);
          item = (\<lambda>k v. if v = [] then [] else [(k, v)]) in
      if artifact_id = [] then None
      else Some ([(''artifact_id'', artifact_id), (''artifact_type'', py_upper (text_field other e ''artifact_type''))] @
        item ''kind'' (py_upper (text_field other cap ''kind'')) @ item ''ref_type'' (text_field other cap ''ref_type'') @
        item ''namespace'' (text_field other cap ''namespace'')))"

definition artifact_handle_summaries :: "(py \<Rightarrow> string) \<Rightarrow> py list \<Rightarrow> (string \<times> string) list list" where
  "artifact_handle_summaries other envelopes = List.map_filter (handle_summary other) envelopes"

definition item_text :: "(string \<times> string) list \<Rightarrow> string \<Rightarrow> string" where
  "item_text h k = (case dict_get h k of Some v \<Rightarrow> py_strip v | None \<Rightarrow> [])"

text \<open>The handles of the tool results, newest result first, each artifact once.\<close>

definition collect_recent_artifact_handles :: "(string \<times> (string \<times> string) list list) list \<Rightarrow> int \<Rightarrow> (string \<times> string) list list" where
  "collect_recent_artifact_handles metadata max_handles =
     take (nat max_handles)
       (dedup_by (\<lambda>h. item_text h ''artifact_id'') []
         (filter (\<lambda>h. item_text h ''artifact_id'' \<noteq> []) (concat (map snd (rev metadata)))))"

definition handle_label :: "(string \<times> string) list \<Rightarrow> string" where
  "handle_label h =
     (let atype = py_upper (item_text h ''artifact_type''); kind = py_upper (item_text h ''kind'');
          ref = item_text h ''ref_type''; ns = item_text h ''namespace'' in
      py_join '' '' ([item_text h ''artifact_id''] @ (if atype = [] then [] else [atype]) @
        (if kind = [] \<or> kind = atype then [] else [kind]) @ (if ref = [] then [] else [''ref_type='' @ ref]) @
        (if ns = [] then [] else [''namespace='' @ ns])))"

definition cap_item :: "(string \<times> string) list \<Rightarrow> string \<Rightarrow> string" where
  "cap_item c k = (case dict_get c k of Some v \<Rightarrow> v | None \<Rightarrow> [])"

definition capability_label :: "(string \<times> string) list \<Rightarrow> string" where
  "capability_label c =
     (let given = filter (\<lambda>k. cap_item c k \<noteq> []) [''ref_type'', ''namespace'', ''bindings_hash''] in
      cap_item c ''kind'' @
      (if given = [] then [] else CHR ''['' # py_join '', '' (map (\<lambda>k. k @ ''='' @ cap_item c k) given) @ '']''))"

definition plain_query_text :: "(string \<times> string) list \<Rightarrow> bool" where
  "plain_query_text c \<longleftrightarrow>
     cap_item c ''kind'' = ''QUERY_TEXT'' \<and> cap_item c ''ref_type'' = [] \<and> cap_item c ''namespace'' = [] \<and>
     cap_item c ''bindings_hash'' = []"

definition build_active_artifact_context_content ::
  "string set \<Rightarrow> cap_state \<Rightarrow> (string \<times> (string \<times> string) list list) list \<Rightarrow> int \<Rightarrow> int \<Rightarrow> string \<Rightarrow> string option" where
  "build_active_artifact_context_content artifacts caps metadata max_handles max_chars read_tool =
     (let handles = collect_recent_artifact_handles metadata max_handles;
          labels = sorted_list_of_set (Set.filter (\<lambda>k. py_strip k \<noteq> []) artifacts);
          shown = filter (\<lambda>c. \<not> plain_query_text c) (capability_state_snapshot caps) in
      if handles = [] \<and> shown = [] \<and> (labels = [] \<or> labels = [''QUERY_TEXT'']) then None
      else Some (trim_text
        (''[SYSTEM: Active artifact context. '' @
         (if handles = [] then [] else ''Recent typed artifacts: '' @ py_join ''; '' (map handle_label handles) @ ''. '') @
         (if labels = [] then [] else ''Available artifact kinds: '' @ py_join '', '' labels @ ''. '') @
         (if shown = [] then []
          else ''Available capabilities: '' @ py_join ''; '' (map capability_label (take (nat (max 1 max_handles)) shown)) @ ''. '') @
         ''Older tool payloads may be cleared from context; '' @
         ''use '' @ read_tool @ '' with artifact_ids to reopen typed payloads when needed.]'') max_chars))"

text \<open>The message is replaced at its index, or appended; the answer is the messages, the index, the content and whether they changed.\<close>

definition upsert_active_artifact_context_message ::
  "(py \<Rightarrow> string) \<Rightarrow> string option \<Rightarrow> bool \<Rightarrow> nat option \<Rightarrow> message list \<Rightarrow> message list \<times> nat option \<times> string option \<times> bool" where
  "upsert_active_artifact_context_message other content enabled existing ms =
     (case (if enabled then content else None) of
        None \<Rightarrow> (ms, existing, None, False)
      | Some c \<Rightarrow>
          if c = [] then (ms, existing, None, False)
          else
            (let m = [(''role'', PStr ''user''), (''content'', PStr c)] in
             case existing of
               Some i \<Rightarrow>
                 (if i < length ms
                  then (if py_str other (py_or (arg_value (ms ! i) ''content'') (PStr [])) = c then (ms, existing, Some c, False)
                        else (ms[i := m], existing, Some c, True))
                  else (ms @ [m], Some (length ms), Some c, True))
             | None \<Rightarrow> (ms @ [m], Some (length ms), Some c, True)))"

section \<open>Lemmas\<close>

lemma trim_from_exact:
  "trim_from remaining kept tcs = (ks, d) \<Longrightarrow>
     subseq ks tcs
     \<and> filter (\<lambda>tc. is_budget_exempt_tool (call_name tc)) ks = filter (\<lambda>tc. is_budget_exempt_tool (call_name tc)) tcs
     \<and> filter (\<lambda>tc. \<not> is_budget_exempt_tool (call_name tc)) ks =
         take (nat (remaining - kept)) (filter (\<lambda>tc. \<not> is_budget_exempt_tool (call_name tc)) tcs)
     \<and> length ks + d = length tcs"
proof (induction remaining kept tcs arbitrary: ks d rule: trim_from.induct)
  case (2 remaining kept tc tcs)
  consider "is_budget_exempt_tool (call_name tc)" | "\<not> is_budget_exempt_tool (call_name tc)" "kept < remaining"
    | "\<not> is_budget_exempt_tool (call_name tc)" "\<not> kept < remaining" by blast
  then show ?case
  proof cases
    case 1
    with 2 show ?thesis by (auto split: prod.splits)
  next
    case fits: 2
    then have "nat (remaining - kept) = Suc (nat (remaining - (kept + 1)))" by simp
    with 2 fits show ?thesis by (auto split: prod.splits)
  next
    case 3
    with 2 show ?thesis by (auto split: prod.splits)
  qed
qed simp

text \<open>
  Trimming keeps every exempt call and the first budgeted calls up to what remains, in their order, and
  counts what it drops.
\<close>

theorem trim_exact:
  assumes "trim_tool_calls_to_budget tcs remaining = (ks, d)"
  shows "subseq ks tcs
     \<and> filter (\<lambda>tc. is_budget_exempt_tool (call_name tc)) ks = filter (\<lambda>tc. is_budget_exempt_tool (call_name tc)) tcs
     \<and> filter (\<lambda>tc. \<not> is_budget_exempt_tool (call_name tc)) ks =
         take (nat remaining) (filter (\<lambda>tc. \<not> is_budget_exempt_tool (call_name tc)) tcs)
     \<and> length ks + d = length tcs"
  using trim_from_exact [OF assms [unfolded trim_tool_calls_to_budget_def]] by simp

section \<open>Reasoning that is filled in\<close>

definition TOOL_REASONING_FIELD :: string where
  "TOOL_REASONING_FIELD = ''tool_reasoning''"

definition AUTO_REASONING_TOOL_DEFAULTS :: "(string \<times> string) list" where
  "AUTO_REASONING_TOOL_DEFAULTS =
     [(''create_plan'', ''Create a concrete task plan before using other tools.''),
      (''todo_write'', ''Replace TODO list to track reasoning progress across atoms.''),
      (''update_plan'', ''Update plan progress after finishing or blocking a step.''),
      (''submit_answer'', ''Submit the current best factual answer from gathered evidence.''),
      (''runtime_artifact_read'', ''Recover previously produced typed artifacts by artifact_id when older '' @
         ''tool payloads were cleared from active context.'')]"

definition autofill_tool_reasoning :: "json_env \<Rightarrow> tool_call \<Rightarrow> tool_call \<times> bool" where
  "autofill_tool_reasoning J tc =
     (case (dict_get AUTO_REASONING_TOOL_DEFAULTS (tcl_name tc), extract_tool_call_args (je_loads J) tc) of
        (Some fallback, Some args) \<Rightarrow>
          (case dict_get args TOOL_REASONING_FIELD of
             Some (PStr s) \<Rightarrow>
               if py_strip s \<noteq> [] then (tc, False)
               else (set_tool_call_args (je_dumps J) tc (dict_set TOOL_REASONING_FIELD (PStr fallback) args), True)
           | _ \<Rightarrow> (set_tool_call_args (je_dumps J) tc (dict_set TOOL_REASONING_FIELD (PStr fallback) args), True))
      | _ \<Rightarrow> (tc, False))"

end
