(* ===== verification/Turn_Tools.thy ===== *)
theory Turn_Tools
  imports Agent_Artifacts Compliance_Gate Agent_Planning
begin

text \<open>
  What the agent loop does with the tool calls of a turn, \<open>llm_client/agent/mcp_turn_tools.py\<close>: the compliance
  gate, the tool contracts, the suppression of repeated submissions, the execution of the calls that are left
  and the reconciliation of artifacts, capabilities and bindings with their results.

  What the function reads and does not change is the record \<open>tool_env\<close>; what it changes is \<open>tool_state\<close>. The
  executor of external tools, the detector of empty retrievals, the hashes, JSON and the validation of artifact
  envelopes are arguments. An emitted event keeps everything but its id, time and the ids of the run.
\<close>

section \<open>State and environment\<close>

record timeline_entry =
  tm_turn :: int
  tm_tool :: string
  tm_produced :: "string list"
  tm_capabilities :: "(string \<times> string) list list"
  tm_available :: "string list"
  tm_snapshot :: "(string \<times> string) list list"

record tool_state =
  tl_artifacts :: "string set"
  tl_caps :: cap_state
  tl_bindings :: binding_dict
  tl_registry :: artifact_registry
  tl_plan :: plan_state
  tl_metadata :: "(string \<times> string list \<times> (string \<times> string) list list) list"
  tl_timeline :: "timeline_entry list"
  tl_requires_evidence :: bool
  tl_digest_at_failure :: "string option"
  tl_requires_todo :: bool
  tl_todo_at_failure :: "string option"

record tool_env =
  tt_json :: json_env
  tt_validate :: "py \<Rightarrow> py option"
  tt_sha :: "string \<Rightarrow> string"
  tt_digest :: "string list \<Rightarrow> string"
  tt_executor :: "tool_call list \<Rightarrow> int \<Rightarrow> tool_record list \<times> message list"
  tt_max_length :: int
  tt_require_reasoning :: bool
  tt_enforce :: bool
  tt_suppress :: bool
  tt_contracts :: "(string \<times> tool_contract) list"
  tt_parameters :: "(string \<times> (py \<times> py) list) list"
  tt_read_tool :: string
  tt_plan_tools :: "string list"
  tt_question :: string
  tt_order :: "string list \<Rightarrow> string list"
  tt_glyphs :: glyphs
  tt_plan_other :: "string \<Rightarrow> (string \<times> py) list \<Rightarrow> plan_state \<Rightarrow> string \<times> plan_state"
  tt_no_hits :: "string \<Rightarrow> string option \<Rightarrow> bool"

text \<open>What a turn brings: its number, its calls, the labels of the evidence so far, the TODO line and the repair hint.\<close>

record tools_input =
  tn_turn :: int
  tn_calls :: "tool_call list"
  tn_labels :: "string set"
  tn_todo_line :: "string option"
  tn_guidance :: "string option"

definition GATE_CODES :: gate_codes where
  "GATE_CODES = \<lparr>code_schema = ''TOOL_VALIDATION_REJECTED_SCHEMA'',
     code_missing_reasoning = ''TOOL_VALIDATION_REJECTED_MISSING_TOOL_REASONING'',
     code_binding_conflict = ''TOOL_VALIDATION_REJECTED_BINDING_CONFLICT''\<rparr>"

definition CONTRACT_CODES :: event_codes where
  "CONTRACT_CODES = \<lparr>ec_missing_prerequisite = ''TOOL_VALIDATION_REJECTED_MISSING_PREREQUISITE'',
     ec_missing_capability = ''TOOL_VALIDATION_REJECTED_MISSING_CAPABILITY'',
     ec_binding_conflict = ''TOOL_VALIDATION_REJECTED_BINDING_CONFLICT''\<rparr>"

definition CONTROL_LOOP_SUPPRESSED :: string where
  "CONTROL_LOOP_SUPPRESSED = ''CONTROL_CHURN_SUPPRESSED''"

definition TOOL_RUNTIME_ERROR :: string where
  "TOOL_RUNTIME_ERROR = ''TOOL_EXECUTION_RUNTIME_ERROR''"

definition other_of :: "tool_env \<Rightarrow> py \<Rightarrow> string" where
  "other_of T = je_other (tt_json T)"

definition args_of :: "tool_env \<Rightarrow> tool_call \<Rightarrow> mapping_arg" where
  "args_of T tc = extract_tool_call_args (je_loads (tt_json T)) tc"

definition args_or_empty :: "tool_env \<Rightarrow> tool_call \<Rightarrow> (string \<times> py) list" where
  "args_or_empty T tc = (case args_of T tc of Some a \<Rightarrow> a | None \<Rightarrow> [])"

definition shown_name :: "string \<Rightarrow> string" where
  "shown_name name = (if name = [] then ''<unknown>'' else name)"

definition text_or_none :: "string option \<Rightarrow> py" where
  "text_or_none v = (case v of Some s \<Rightarrow> PStr s | None \<Rightarrow> PNone)"

definition bindings_py :: "binding_dict \<Rightarrow> py" where
  "bindings_py b = PDict (map (\<lambda>(k, v). (PStr k, text_or_none v)) b)"

definition pairs_py :: "(string \<times> string) list \<Rightarrow> py" where
  "pairs_py d = PDict (map (\<lambda>(k, v). (PStr k, PStr v)) d)"

section \<open>Events\<close>

record tool_failure =
  tf_code :: string
  tf_category :: string
  tf_phase :: string
  tf_retryable :: bool
  tf_message :: string

datatype event_detail =
    Called
  | Failed tool_failure
  | Bound binding_dict
  | Produced "string list" "string list" "py list"

record tool_event =
  te_operation :: string
  te_artifact_ids :: "string list"
  te_params :: "(string \<times> py) list"
  te_bindings :: binding_dict
  te_detail :: event_detail

definition event :: "tool_state \<Rightarrow> string \<Rightarrow> (string \<times> py) list \<Rightarrow> event_detail \<Rightarrow> tool_event" where
  "event S tool params detail =
     \<lparr>te_operation = shown_name tool, te_artifact_ids = sorted_list_of_set (tl_artifacts S), te_params = params,
      te_bindings = tl_bindings S, te_detail = detail\<rparr>"

text \<open>One entry of the gate or contract violations of a run.\<close>

record call_violation =
  vi_turn :: int
  vi_tool :: string
  vi_mode :: "string option"
  vi_reason :: string
  vi_code :: string
  vi_phase :: string
  vi_artifacts :: "string list"
  vi_capabilities :: "(string \<times> string) list list"
  vi_bindings :: binding_dict
  vi_call_bindings :: binding_dict
  vi_arg_keys :: "string list"
  vi_missing :: "(string \<times> string) list list"

text \<open>A call that is not executed: its record, the message that answers it, and what is reported.\<close>

record refusal =
  rf_record :: tool_record
  rf_message :: message
  rf_code :: string
  rf_violation :: "call_violation option"
  rf_event :: tool_event

section \<open>The compliance gate\<close>

definition gate_of :: "tool_env \<Rightarrow> tool_state \<Rightarrow> tool_call \<Rightarrow> gate_result" where
  "gate_of T S tc =
     validate_tool_call_inputs (other_of T) GATE_CODES (shown_name (call_name tc)) (args_of T tc)
       (dict_get (tt_parameters T) (call_name tc)) (tt_require_reasoning T) TOOL_REASONING_FIELD (as_mapping (tl_bindings S))"

definition or_text :: "string \<Rightarrow> string \<Rightarrow> string" where
  "or_text s d = (if s = [] then d else s)"

definition or_value :: "string option \<Rightarrow> string \<Rightarrow> string" where
  "or_value v d = (case v of Some s \<Rightarrow> or_text s d | None \<Rightarrow> d)"

definition refused :: "string \<Rightarrow> tool_env \<Rightarrow> tool_call \<Rightarrow> string \<Rightarrow> (py \<times> py) list \<Rightarrow> tool_record \<times> message" where
  "refused server T tc error payload =
     ((new_record server (shown_name (call_name tc)) (args_or_empty T tc))\<lparr>rec_error := Some error\<rparr>,
      tool_message (tcl_id tc) (je_dumps (tt_json T) (PDict ((PStr ''error'', PStr error) # payload))))"

definition gate_refusal :: "tool_env \<Rightarrow> tool_state \<Rightarrow> int \<Rightarrow> tool_call \<Rightarrow> refusal" where
  "gate_refusal T S turn tc =
     (let g = gate_of T S tc; reason = or_text (gr_reason g) ''Compliance gate rejected tool call.'';
          error = ''Validation error: '' @ reason; code = or_value (gr_error_code g) (code_schema GATE_CODES);
          phase = or_value (gr_failure_phase g) ''input_validation''; missing = map (\<lambda>a. [(''arg'', a)]) (gr_missing_args g);
          answer = refused ''__compliance__'' T tc error
            [(PStr ''error_code'', PStr code), (PStr ''failure_phase'', PStr phase),
             (PStr ''call_bindings'', bindings_py (gr_call_bindings g)), (PStr ''missing_requirements'', PList (map pairs_py missing))] in
      \<lparr>rf_record = fst answer, rf_message = snd answer, rf_code = code,
       rf_violation = Some \<lparr>vi_turn = turn + 1, vi_tool = shown_name (call_name tc), vi_mode = None, vi_reason = reason, vi_code = code,
         vi_phase = phase, vi_artifacts = sorted_list_of_set (tl_artifacts S), vi_capabilities = capability_state_snapshot (tl_caps S),
         vi_bindings = tl_bindings S, vi_call_bindings = gr_call_bindings g, vi_arg_keys = sort (map fst (args_or_empty T tc)),
         vi_missing = missing\<rparr>,
       rf_event = event S (call_name tc) (args_or_empty T tc)
         (Failed \<lparr>tf_code = code, tf_category = ''validation'', tf_phase = phase, tf_retryable = True, tf_message = error\<rparr>)\<rparr>)"

definition GATE_MESSAGE :: string where
  "GATE_MESSAGE =
     ''[SYSTEM: One or more tool calls were rejected by compliance checks '' @
     ''(schema/binding/observability). Re-issue corrected calls only if still needed.]''"

section \<open>The contracts\<close>

definition contract_of :: "tool_env \<Rightarrow> tool_call \<Rightarrow> tool_contract option" where
  "contract_of T tc = (if tt_enforce T then dict_get (tt_contracts T) (call_name tc) else None)"

definition contract_check :: "tool_env \<Rightarrow> tool_state \<Rightarrow> tool_call \<Rightarrow> tool_call_validation option" where
  "contract_check T S tc =
     map_option (\<lambda>c. validate_tool_contract_call (other_of T) (tt_sha T) CONTRACT_CODES (call_name tc) c (args_of T tc)
         (tl_artifacts S) (tl_caps S) (as_mapping (tl_bindings S)) (tl_registry S)) (contract_of T tc)"

definition contract_holds :: "tool_env \<Rightarrow> tool_state \<Rightarrow> tool_call \<Rightarrow> bool" where
  "contract_holds T S tc \<longleftrightarrow> (case contract_check T S tc of Some v \<Rightarrow> tv_is_valid v | None \<Rightarrow> True)"

definition contract_refusal :: "tool_env \<Rightarrow> tool_state \<Rightarrow> int \<Rightarrow> tool_call \<Rightarrow> tool_call_validation \<Rightarrow> refusal" where
  "contract_refusal T S turn tc v =
     (let error = ''Tool contract violation: '' @ tv_reason v; code = or_value (tv_error_code v) (ec_missing_prerequisite CONTRACT_CODES);
          phase = or_value (tv_failure_phase v) ''input_validation'';
          answer = refused ''__contract__'' T tc error
            [(PStr ''error_code'', PStr code), (PStr ''failure_phase'', PStr phase), (PStr ''contract_mode'', text_or_none (tv_contract_mode v)),
             (PStr ''call_bindings'', bindings_py (tv_call_bindings v)), (PStr ''missing_requirements'', PList (map pairs_py (tv_missing v)))] in
      \<lparr>rf_record = fst answer, rf_message = snd answer, rf_code = code,
       rf_violation = Some \<lparr>vi_turn = turn + 1, vi_tool = shown_name (call_name tc), vi_mode = tv_contract_mode v, vi_reason = tv_reason v,
         vi_code = code, vi_phase = phase, vi_artifacts = sorted_list_of_set (tl_artifacts S),
         vi_capabilities = capability_state_snapshot (tl_caps S), vi_bindings = tl_bindings S, vi_call_bindings = tv_call_bindings v,
         vi_arg_keys = sort (map fst (args_or_empty T tc)), vi_missing = tv_missing v\<rparr>,
       rf_event = event S (call_name tc) (args_or_empty T tc)
         (Failed \<lparr>tf_code = code, tf_category = ''validation'', tf_phase = phase, tf_retryable = False, tf_message = error\<rparr>)\<rparr>)"

definition contract_message :: "tool_env \<Rightarrow> tool_state \<Rightarrow> string" where
  "contract_message T S =
     ''[SYSTEM: One or more tool calls were rejected by tool composability contracts. '' @
     ''Use tools compatible with available artifacts: '' @ other_of T (strs (sorted_list_of_set (tl_artifacts S))) @ ''. '' @
     ''Capabilities: '' @ other_of T (PList (map pairs_py (capability_state_snapshot (tl_caps S)))) @ ''. '' @
     ''Adjust plan and try again.]''"

section \<open>Repeated submissions\<close>

text \<open>The four variables of the gates on \<open>submit_answer\<close>.\<close>

record submit_gate =
  sg_requires_evidence :: bool
  sg_digest_at_failure :: "string option"
  sg_requires_todo :: bool
  sg_todo_at_failure :: "string option"

definition gate_in :: "tool_state \<Rightarrow> submit_gate" where
  "gate_in S =
     \<lparr>sg_requires_evidence = tl_requires_evidence S, sg_digest_at_failure = tl_digest_at_failure S,
      sg_requires_todo = tl_requires_todo S, sg_todo_at_failure = tl_todo_at_failure S\<rparr>"

definition gate_out :: "submit_gate \<Rightarrow> tool_state \<Rightarrow> tool_state" where
  "gate_out g S =
     S\<lparr>tl_requires_evidence := sg_requires_evidence g, tl_digest_at_failure := sg_digest_at_failure g,
       tl_requires_todo := sg_requires_todo g, tl_todo_at_failure := sg_todo_at_failure g\<rparr>"

text \<open>A submission that says it has no answer passes both gates.\<close>

definition no_answer_terminal :: "tool_env \<Rightarrow> tool_call \<Rightarrow> bool" where
  "no_answer_terminal T tc \<longleftrightarrow>
     py_lower (py_strip (py_str (other_of T) (py_or (arg_value (args_or_empty T tc) ''terminal_mode'') (PStr []))))
       \<in> set [''evidence_exhausted'', ''abstain'', ''abstention'']"

definition repair_hint :: "string option \<Rightarrow> string" where
  "repair_hint guidance = (case guidance of Some g \<Rightarrow> if g = [] then [] else '' Repair hint: '' @ g | None \<Rightarrow> [])"

definition EVIDENCE_SUPPRESSED :: string where
  "EVIDENCE_SUPPRESSED =
     ''submit_answer suppressed: validator requires NEW evidence before retry. '' @
     ''Evidence digest has not changed since last rejected submit. '' @
     ''Run at least one non-control evidence tool call '' @
     ''(entity_*, chunk_*, relationship_*, subgraph_*) first, then retry submit.''"

definition TODO_SUPPRESSED :: string where
  "TODO_SUPPRESSED =
     ''submit_answer suppressed: validator requires TODO progress before retry. '' @
     ''Pending atom state has not changed since the last rejected submit. '' @
     ''Resolve or complete the pending atom first, then retry submit.''"

definition suppression :: "tool_env \<Rightarrow> tool_state \<Rightarrow> tools_input \<Rightarrow> tool_call \<Rightarrow> string \<Rightarrow> (py \<times> py) list \<Rightarrow> refusal" where
  "suppression T S N tc text payload =
     (let error = text @ repair_hint (tn_guidance N);
          answer = refused ''__agent__'' T tc error
            ([(PStr ''error_code'', PStr CONTROL_LOOP_SUPPRESSED)] @ payload @ [(PStr ''repair_guidance'', text_or_none (tn_guidance N))]) in
      \<lparr>rf_record = fst answer, rf_message = snd answer, rf_code = CONTROL_LOOP_SUPPRESSED, rf_violation = None,
       rf_event = event S (call_name tc) (args_or_empty T tc)
         (Failed \<lparr>tf_code = CONTROL_LOOP_SUPPRESSED, tf_category = ''policy'', tf_phase = ''post_validation'',
                  tf_retryable = False, tf_message = error\<rparr>)\<rparr>)"

text \<open>One call: suppressed, or let through with the gates it opens.\<close>

definition control_step :: "tool_env \<Rightarrow> tool_state \<Rightarrow> tools_input \<Rightarrow> tool_call \<Rightarrow> submit_gate \<Rightarrow> refusal option \<times> submit_gate" where
  "control_step T S N tc g =
     (let digest = evidence_digest (tt_digest T) (tn_labels N);
          guarded = (call_name tc = ''submit_answer'' \<and> \<not> no_answer_terminal T tc);
          fresh = (sg_digest_at_failure g \<noteq> None \<and> Some digest \<noteq> sg_digest_at_failure g);
          g1 = (if guarded \<and> sg_requires_evidence g \<and> fresh
                then g\<lparr>sg_requires_evidence := False, sg_digest_at_failure := None\<rparr> else g);
          moved = (sg_todo_at_failure g1 \<noteq> None \<and> tn_todo_line N \<noteq> None \<and> tn_todo_line N \<noteq> sg_todo_at_failure g1) in
      if guarded \<and> sg_requires_evidence g \<and> \<not> fresh
      then (Some (suppression T S N tc EVIDENCE_SUPPRESSED
              [(PStr ''evidence_digest'', PStr digest),
               (PStr ''required_evidence_digest_change_from'', text_or_none (sg_digest_at_failure g))]), g)
      else if guarded \<and> sg_requires_todo g1 \<and> \<not> moved
      then (Some (suppression T S N tc TODO_SUPPRESSED
              [(PStr ''todo_status_line'', text_or_none (tn_todo_line N)),
               (PStr ''required_todo_progress_from'', text_or_none (sg_todo_at_failure g1))]), g1)
      else (None, if guarded \<and> sg_requires_todo g1 then g1\<lparr>sg_requires_todo := False, sg_todo_at_failure := None\<rparr> else g1))"

fun control_pass :: "tool_env \<Rightarrow> tool_state \<Rightarrow> tools_input \<Rightarrow> tool_call list \<Rightarrow> submit_gate \<Rightarrow> tool_call list \<times> refusal list \<times> submit_gate" where
  "control_pass T S N [] g = ([], [], g)"
| "control_pass T S N (tc # tcs) g =
     (case control_step T S N tc g of
        (Some r, g') \<Rightarrow> (case control_pass T S N tcs g' of (ks, rs, g'') \<Rightarrow> (ks, r # rs, g''))
      | (None, g') \<Rightarrow> (case control_pass T S N tcs g' of (ks, rs, g'') \<Rightarrow> (tc # ks, rs, g'')))"

definition control_message :: "tools_input \<Rightarrow> string" where
  "control_message N =
     ''[SYSTEM: Repeated control-call loop detected. Some tool calls were suppressed. '' @
     ''Update TODO state or change hypotheses before retrying submit/completion.'' @
     (case tn_guidance N of Some g \<Rightarrow> if g = [] then [] else '' Active repair hint: '' @ g | None \<Rightarrow> []) @ '']''"

section \<open>The three filters\<close>

record filtered =
  ff_calls :: "tool_call list"
  ff_gate :: "refusal list"
  ff_contract :: "refusal list"
  ff_control :: "refusal list"
  ff_submit :: submit_gate

definition filter_calls :: "tool_env \<Rightarrow> tool_state \<Rightarrow> tools_input \<Rightarrow> filtered" where
  "filter_calls T S N =
     (let valid = (\<lambda>tc. gr_is_valid (gate_of T S tc)); passed = filter valid (tn_calls N);
          kept = filter (contract_holds T S) passed;
          broken = List.map_filter (\<lambda>tc. case contract_check T S tc of
              Some v \<Rightarrow> if tv_is_valid v then None else Some (contract_refusal T S (tn_turn N) tc v) | None \<Rightarrow> None) passed in
      case (if tt_suppress T then control_pass T S N kept (gate_in S) else (kept, [], gate_in S)) of
        (ks, rs, g) \<Rightarrow>
          \<lparr>ff_calls = ks, ff_gate = map (gate_refusal T S (tn_turn N)) (filter (\<lambda>tc. \<not> valid tc) (tn_calls N)),
           ff_contract = broken, ff_control = rs, ff_submit = g\<rparr>)"

section \<open>Execution\<close>

text \<open>The typed arguments of a plan tool; \<open>None\<close> when they do not have the shape of its schema.\<close>

definition text_arg :: "py option \<Rightarrow> string option option" where
  "text_arg v = (case v of None \<Rightarrow> Some None | Some (PStr s) \<Rightarrow> Some (Some s) | _ \<Rightarrow> None)"

definition text_items :: "py list \<Rightarrow> string list option" where
  "text_items vs = those (map (\<lambda>v. case v of PStr s \<Rightarrow> Some s | _ \<Rightarrow> None) vs)"

definition depends_of :: "py option \<Rightarrow> depends_arg option option" where
  "depends_of v = (case v of None \<Rightarrow> Some None | Some (PStr s) \<Rightarrow> Some (Some (DependsOne s))
     | Some (PList vs) \<Rightarrow> map_option (\<lambda>ds. Some (DependsList ds)) (text_items vs) | _ \<Rightarrow> None)"

definition step_arg_of :: "py \<Rightarrow> step_arg option" where
  "step_arg_of v =
     (case v of
        PDict d \<Rightarrow>
          (case (text_arg (dict_get d (PStr ''step_id'')), text_arg (dict_get d (PStr ''description'')), depends_of (dict_get d (PStr ''depends_on''))) of
             (Some i, Some t, Some ds) \<Rightarrow> Some \<lparr>sa_step_id = i, sa_description = t, sa_depends_on = ds\<rparr>
           | _ \<Rightarrow> None)
      | _ \<Rightarrow> None)"

definition plan_call_of :: "string \<Rightarrow> (string \<times> py) list \<Rightarrow> plan_call option" where
  "plan_call_of tool args =
     (if tool = ''create_plan''
      then (case dict_get args ''steps'' of
              None \<Rightarrow> Some (CreateCall [])
            | Some (PList vs) \<Rightarrow> map_option CreateCall (those (map step_arg_of vs))
            | _ \<Rightarrow> None)
      else if tool = ''update_plan''
      then (case (text_arg (dict_get args ''step_id''), text_arg (dict_get args ''status''), text_arg (dict_get args ''result'')) of
              (Some i, Some s, Some r) \<Rightarrow> Some (UpdateCall (case i of Some x \<Rightarrow> x | None \<Rightarrow> []) (case s of Some x \<Rightarrow> x | None \<Rightarrow> [])
                (case r of Some x \<Rightarrow> x | None \<Rightarrow> []))
            | _ \<Rightarrow> None)
      else Some (OtherCall tool))"

definition plan_tool :: "tool_env \<Rightarrow> int \<Rightarrow> tool_call \<Rightarrow> plan_state \<Rightarrow> (tool_record \<times> message) \<times> plan_state" where
  "plan_tool T turn tc P =
     (let args = dict_pop TOOL_REASONING_FIELD (args_or_empty T tc);
          outcome = (case plan_call_of (call_name tc) args of
            Some c \<Rightarrow> execute_plan_tool (tt_order T) (tt_glyphs T) c (tt_question T) turn P
          | None \<Rightarrow> tt_plan_other T (call_name tc) args P);
          text = fst outcome; r = (new_record ''__agent__'' (call_name tc) args)\<lparr>rec_call_id := Some (tcl_id tc)\<rparr> in
      ((if py_startswith_any [''Error'', ''Unknown''] text
        then (r\<lparr>rec_error := Some text\<rparr>, tool_message (tcl_id tc) (je_dumps (tt_json T) (PDict [(PStr ''error'', PStr text)])))
        else (r\<lparr>rec_result := Some text\<rparr>, tool_message (tcl_id tc) text)), snd outcome))"

text \<open>
  A call is answered here (\<open>Some\<close>) or handed to the executor (\<open>None\<close>) with its handles resolved; the
  numbers count the resolved handle arguments and the artifacts in them.
\<close>

record dispatched =
  dp_slots :: "(tool_record \<times> message) option list"
  dp_external :: "tool_call list"
  dp_plan :: plan_state
  dp_resolved :: nat
  dp_resolved_artifacts :: nat

fun dispatch :: "tool_env \<Rightarrow> tool_state \<Rightarrow> int \<Rightarrow> tool_call list \<Rightarrow> plan_state \<Rightarrow> dispatched" where
  "dispatch T S turn [] P = \<lparr>dp_slots = [], dp_external = [], dp_plan = P, dp_resolved = 0, dp_resolved_artifacts = 0\<rparr>"
| "dispatch T S turn (tc # tcs) P =
     (if call_name tc = tt_read_tool T
      then (let D = dispatch T S turn tcs P in
        D\<lparr>dp_slots := Some (runtime_artifact_read_result (tt_json T) (tl_registry S) tc (tt_max_length T)
            (tt_require_reasoning T) ''runtime_artifact_read'' TOOL_REASONING_FIELD) # dp_slots D\<rparr>)
      else if call_name tc \<in> set (tt_plan_tools T)
      then (case plan_tool T turn tc P of (answer, P') \<Rightarrow>
        (let D = dispatch T S turn tcs P' in D\<lparr>dp_slots := Some answer # dp_slots D\<rparr>))
      else (case apply_handle_input_injections (tt_json T) tc (tt_contracts T) (tl_registry S) of (tc', injections) \<Rightarrow>
        (let D = dispatch T S turn tcs P in
         D\<lparr>dp_slots := None # dp_slots D, dp_external := tc' # dp_external D, dp_resolved := length injections + dp_resolved D,
           dp_resolved_artifacts := sum_list (map (length \<circ> snd) injections) + dp_resolved_artifacts D\<rparr>)))"

text \<open>The answers in the order of the calls; \<open>None\<close> when the executor gave too few.\<close>

fun fill :: "(tool_record \<times> message) option list \<Rightarrow> tool_record list \<Rightarrow> message list \<Rightarrow> (tool_record \<times> message) list option" where
  "fill [] rs ms = Some []"
| "fill (Some a # slots) rs ms = map_option ((#) a) (fill slots rs ms)"
| "fill (None # slots) (r # rs) (m # ms) = map_option ((#) (r, m)) (fill slots rs ms)"
| "fill (None # slots) _ _ = None"

section \<open>Reconciliation\<close>

definition remember_envelopes :: "tool_env \<Rightarrow> py list \<Rightarrow> artifact_registry \<Rightarrow> artifact_registry" where
  "remember_envelopes T es registry =
     fold (\<lambda>e reg. if envelope_id (other_of T) e = [] then reg else dict_set (envelope_id (other_of T) e) e reg) es registry"

definition add_capability :: "capability \<Rightarrow> cap_state \<times> (string \<times> string) list list \<Rightarrow> cap_state \<times> (string \<times> string) list list" where
  "add_capability c acc =
     (case acc of (caps, added) \<Rightarrow>
        (case capability_state_add caps (Some (cap_kind c)) (cap_ref_type c) (cap_namespace c) (cap_hash c) of
           (new, caps') \<Rightarrow> (caps', if new then added @ [cap_to_dict c] else added)))"

text \<open>The outputs that a call found in its result and in its contract.\<close>

definition output_of :: "tool_env \<Rightarrow> tool_state \<Rightarrow> tool_record \<Rightarrow> output_state" where
  "output_of T S r =
     artifact_output_state_from_payload (other_of T) (tt_sha T) (tt_validate T)
       (case parse_record_result_json_value (je_loads (tt_json T)) r of Some v \<Rightarrow> v | None \<Rightarrow> PNone) (as_mapping (tl_bindings S))"

definition bindings_after :: "tool_env \<Rightarrow> tool_state \<Rightarrow> tool_record \<Rightarrow> binding_dict" where
  "bindings_after T S r =
     (let observed = extract_bindings_from_tool_args (other_of T) (Some (rec_arguments r));
          merged = merge_binding_state (other_of T) (as_mapping observed) (as_mapping (os_bindings (output_of T S r)));
          found = merge_binding_state (other_of T) (as_mapping (tl_bindings S)) (as_mapping merged) in
      if set found = set (tl_bindings S) then tl_bindings S else found)"

definition produced_by :: "tool_env \<Rightarrow> tool_state \<Rightarrow> tool_record \<Rightarrow> string set" where
  "produced_by T S r =
     (case (if tt_enforce T then dict_get (tt_contracts T) (rec_tool r) else None) of
        Some c \<Rightarrow> contract_outputs (other_of T) c (Some (rec_arguments r)) | None \<Rightarrow> {}) \<union> os_artifacts (output_of T S r)"

definition capabilities_by :: "tool_env \<Rightarrow> tool_state \<Rightarrow> tool_record \<Rightarrow> capability list" where
  "capabilities_by T S r =
     (case (if tt_enforce T then dict_get (tt_contracts T) (rec_tool r) else None) of
        Some c \<Rightarrow> contract_output_capabilities (other_of T) c (Some (rec_arguments r)) | None \<Rightarrow> []) @
     os_capabilities (output_of T S r) @
     infer_output_capabilities (tt_sha T) (rec_tool r) (Some (rec_arguments r)) (produced_by T S r) (bindings_after T S r)"

text \<open>The record with the artifacts of its result.\<close>

definition annotated :: "tool_env \<Rightarrow> tool_state \<Rightarrow> tool_record \<Rightarrow> tool_record" where
  "annotated T S r =
     r\<lparr>rec_artifact_ids := sort (os_artifact_ids (output_of T S r)),
       rec_handles := artifact_handle_summaries (other_of T) (os_envelopes (output_of T S r))\<rparr>"

definition record_failed :: "tool_record \<Rightarrow> bool" where
  "record_failed r \<longleftrightarrow> (case rec_error r of Some e \<Rightarrow> e \<noteq> [] | None \<Rightarrow> False)"

definition adopt_state :: "tool_env \<Rightarrow> tool_state \<Rightarrow> tool_record \<Rightarrow> tool_state" where
  "adopt_state T S r =
     (let r' = annotated T S r in
      S\<lparr>tl_registry := remember_envelopes T (os_envelopes (output_of T S r)) (tl_registry S),
        tl_metadata := (case rec_call_id r of
            Some i \<Rightarrow> if i = [] then tl_metadata S else dict_set i (rec_artifact_ids r', rec_handles r') (tl_metadata S)
          | None \<Rightarrow> tl_metadata S),
        tl_bindings := bindings_after T S r,
        tl_artifacts := tl_artifacts S \<union> produced_by T S r,
        tl_caps := fst (fold add_capability (capabilities_by T S r) (tl_caps S, []))\<rparr>)"

definition note_production :: "tool_env \<Rightarrow> int \<Rightarrow> tool_state \<Rightarrow> tool_record \<Rightarrow> tool_state \<Rightarrow> tool_state" where
  "note_production T turn S r S' =
     (if produced_by T S r = {} then S'
      else S'\<lparr>tl_timeline := tl_timeline S' @
        [\<lparr>tm_turn = turn + 1, tm_tool = rec_tool r, tm_produced = sorted_list_of_set (produced_by T S r),
          tm_capabilities = snd (fold add_capability (capabilities_by T S r) (tl_caps S, [])),
          tm_available = sorted_list_of_set (tl_artifacts S'), tm_snapshot = capability_state_snapshot (tl_caps S')\<rparr>]\<rparr>)"

record reconciled =
  rc_records :: "tool_record list"
  rc_codes :: "string list"
  rc_events :: "tool_event list"
  rc_no_hits :: nat

definition success_events :: "tool_env \<Rightarrow> tool_state \<Rightarrow> tool_record \<Rightarrow> tool_state \<Rightarrow> tool_event list" where
  "success_events T S r S' =
     (let U = output_of T S r; shown = \<lparr>te_operation = shown_name (rec_tool r), te_artifact_ids = sorted_list_of_set (tl_artifacts S),
            te_params = rec_arguments r, te_bindings = tl_bindings S, te_detail = Bound (tl_bindings S')\<rparr> in
      (if tl_bindings S' = tl_bindings S then [] else [shown]) @
      [event S' (rec_tool r) (rec_arguments r)
         (Produced (if os_artifact_ids U \<noteq> [] then sort (os_artifact_ids U) else sorted_list_of_set (produced_by T S r))
            (case rec_result r of Some s \<Rightarrow> [tt_sha T s] | None \<Rightarrow> []) (os_envelopes U))])"

fun reconcile :: "tool_env \<Rightarrow> int \<Rightarrow> tool_record list \<Rightarrow> tool_state \<Rightarrow> reconciled \<times> tool_state" where
  "reconcile T turn [] S = (\<lparr>rc_records = [], rc_codes = [], rc_events = [], rc_no_hits = 0\<rparr>, S)"
| "reconcile T turn (r # rs) S =
     (if record_failed r
      then (case reconcile T turn rs S of (C, S') \<Rightarrow>
        (C\<lparr>rc_records := r # rc_records C, rc_codes := TOOL_RUNTIME_ERROR # rc_codes C,
           rc_events := event S (rec_tool r) (rec_arguments r)
             (Failed \<lparr>tf_code = TOOL_RUNTIME_ERROR, tf_category = ''execution'', tf_phase = ''execution'', tf_retryable = False,
                      tf_message = or_value (rec_error r) []\<rparr>) # rc_events C\<rparr>, S'))
      else
        (let S1 = note_production T turn S r (adopt_state T S r); hit = tt_no_hits T (rec_tool r) (rec_result r) in
         case reconcile T turn rs S1 of (C, S') \<Rightarrow>
           (C\<lparr>rc_records := annotated T S r # rc_records C,
              rc_codes := (if hit then [''RETRIEVAL_NO_HITS''] else []) @ rc_codes C,
              rc_events := success_events T S r S1 @ rc_events C,
              rc_no_hits := (if hit then 1 else 0) + rc_no_hits C\<rparr>, S')))"

section \<open>The tools of a turn\<close>

record tools_outcome =
  tx_to_execute :: "tool_call list"
  tx_records :: "tool_record list"
  tx_messages :: "message list"
  tx_executed :: "tool_record list"
  tx_gate_message :: "string option"
  tx_contract_message :: "string option"
  tx_control_message :: "string option"
  tx_gate_rejected :: nat
  tx_missing_reasoning :: nat
  tx_contract_rejected :: nat
  tx_suppressed :: nat
  tx_violations :: "call_violation list"
  tx_codes :: "string list"
  tx_events :: "tool_event list"
  tx_resolved :: nat
  tx_resolved_artifacts :: nat
  tx_no_hits :: nat

definition called_event :: "tool_env \<Rightarrow> tool_state \<Rightarrow> tool_call \<Rightarrow> tool_event" where
  "called_event T S tc = event S (call_name tc) (args_or_empty T tc) Called"

text \<open>
  The whole handler. The left is the error of a coroutine in which \<open>next\<close> finds the executor's answers
  exhausted.
\<close>

definition process_tool_calls_turn :: "tool_env \<Rightarrow> tools_input \<Rightarrow> tool_state \<Rightarrow> string + tools_outcome \<times> tool_state" where
  "process_tool_calls_turn T N S =
     (let F = filter_calls T S N; refusals = ff_gate F @ ff_contract F @ ff_control F;
          D = dispatch T S (tn_turn N) (ff_calls F) (tl_plan S);
          answers = (if dp_external D = [] then ([], []) else tt_executor T (dp_external D) (tt_max_length T)) in
      case fill (dp_slots D) (fst answers) (snd answers) of
        None \<Rightarrow> Inl ''RuntimeError''
      | Some done_calls \<Rightarrow>
          (case reconcile T (tn_turn N) (map fst done_calls) (gate_out (ff_submit F) (S\<lparr>tl_plan := dp_plan D\<rparr>)) of (C, S') \<Rightarrow>
             Inr (\<lparr>tx_to_execute = ff_calls F,
                   tx_records = map rf_record refusals @ rc_records C,
                   tx_messages = map rf_message refusals @ map snd done_calls,
                   tx_executed = rc_records C,
                   tx_gate_message = (if ff_gate F = [] then None else Some GATE_MESSAGE),
                   tx_contract_message = (if ff_contract F = [] then None else Some (contract_message T S)),
                   tx_control_message = (if ff_control F = [] then None else Some (control_message N)),
                   tx_gate_rejected = length (ff_gate F),
                   tx_missing_reasoning = length (filter (\<lambda>r. rf_code r = code_missing_reasoning GATE_CODES) (ff_gate F)),
                   tx_contract_rejected = length (ff_contract F), tx_suppressed = length (ff_control F),
                   tx_violations = List.map_filter rf_violation (ff_gate F @ ff_contract F),
                   tx_codes = map rf_code refusals @ rc_codes C,
                   tx_events = map rf_event refusals @ map (called_event T S) (ff_calls F) @ rc_events C,
                   tx_resolved = dp_resolved D, tx_resolved_artifacts = dp_resolved_artifacts D, tx_no_hits = rc_no_hits C\<rparr>, S')))"

section \<open>Every call is answered once\<close>

definition msg_id :: "message \<Rightarrow> py" where
  "msg_id m = arg_value m ''tool_call_id''"

definition call_id :: "tool_call \<Rightarrow> py" where
  "call_id tc = PStr (tcl_id tc)"

definition refusal_id :: "refusal \<Rightarrow> py" where
  "refusal_id r = msg_id (rf_message r)"

lemma msg_id_tool_message [simp]: "msg_id (tool_message i c) = PStr i"
  by (simp add: msg_id_def tool_message_def arg_value_def)

lemma refusal_ids [simp]:
  "refusal_id (gate_refusal T S n tc) = call_id tc"
  "refusal_id (contract_refusal T S n tc v) = call_id tc"
  "refusal_id (suppression T S N tc x p) = call_id tc"
  by (simp_all add: refusal_id_def gate_refusal_def contract_refusal_def suppression_def refused_def call_id_def Let_def)

text \<open>
  The filters split the calls: for every \<open>f\<close> of a call that the refusals answer with (\<open>g\<close>), the calls that are
  kept and the refusals have together the values of the calls.
\<close>

lemma control_step_image:
  assumes "control_step T S N tc g = (Some r, g')" and "\<And>x p. h (suppression T S N tc x p) = f tc"
  shows "h r = f tc"
  using assms by (auto simp: control_step_def Let_def split: if_splits)

lemma control_pass_image:
  assumes "\<And>tc x p. h (suppression T S N tc x p) = f tc"
  shows "control_pass T S N tcs g = (ks, rs, g') \<Longrightarrow> mset (map f ks) + mset (map h rs) = mset (map f tcs)"
proof (induction tcs arbitrary: g ks rs)
  case (Cons tc tcs)
  obtain v g1 where step: "control_step T S N tc g = (v, g1)" by fastforce
  obtain ks1 rs1 g2 where rest: "control_pass T S N tcs g1 = (ks1, rs1, g2)" by (metis prod_cases3)
  have IH: "mset (map f ks1) + mset (map h rs1) = mset (map f tcs)"
    using Cons.IH [of g1] Cons.prems step rest by (auto split: option.splits)
  have "v = Some r \<Longrightarrow> h r = f tc" for r using control_step_image [of T S N tc g r g1 h f] step assms by simp
  then show ?case using Cons.prems step rest IH by (cases v) auto
qed simp

lemma contract_refusal_image:
  assumes "\<And>tc v. h (contract_refusal T S n tc v) = f tc"
  shows "mset (map f (filter (contract_holds T S) tcs)) +
     mset (map h (List.map_filter (\<lambda>tc. case contract_check T S tc of
        Some v \<Rightarrow> if tv_is_valid v then None else Some (contract_refusal T S n tc v) | None \<Rightarrow> None) tcs)) = mset (map f tcs)"
  by (induction tcs) (auto simp: contract_holds_def map_filter_simps assms split: option.splits)

lemma filter_calls_image:
  assumes h: "\<And>tc x p. h (suppression T S N tc x p) = f tc" "\<And>tc v. h (contract_refusal T S (tn_turn N) tc v) = f tc"
    "\<And>tc. h (gate_refusal T S (tn_turn N) tc) = f tc"
  shows "mset (map f (ff_calls (filter_calls T S N))) +
     mset (map h (ff_gate (filter_calls T S N) @ ff_contract (filter_calls T S N) @ ff_control (filter_calls T S N)))
   = mset (map f (tn_calls N))"
proof -
  let ?passed = "filter (\<lambda>tc. gr_is_valid (gate_of T S tc)) (tn_calls N)"
  let ?kept = "filter (contract_holds T S) ?passed"
  obtain ks rs g where pass: "(if tt_suppress T then control_pass T S N ?kept (gate_in S) else (?kept, [], gate_in S)) = (ks, rs, g)"
    by (metis prod_cases3)
  have control: "mset (map f ks) + mset (map h rs) = mset (map f ?kept)"
    using pass control_pass_image [of h T S N f, OF h(1)] by (auto split: if_splits)
  have gate: "mset (map f ?passed) + mset (map f (filter (\<lambda>tc. \<not> gr_is_valid (gate_of T S tc)) (tn_calls N))) = mset (map f (tn_calls N))"
    by (induction "tn_calls N") (auto simp: mset_filter image_mset_union [symmetric] multiset_partition [symmetric])
  let ?broken = "List.map_filter (\<lambda>tc. case contract_check T S tc of
        Some v \<Rightarrow> if tv_is_valid v then None else Some (contract_refusal T S (tn_turn N) tc v) | None \<Rightarrow> None) ?passed"
  have F: "ff_calls (filter_calls T S N) = ks" "ff_control (filter_calls T S N) = rs" "ff_contract (filter_calls T S N) = ?broken"
    "map h (ff_gate (filter_calls T S N)) = map f (filter (\<lambda>tc. \<not> gr_is_valid (gate_of T S tc)) (tn_calls N))"
    using pass by (simp_all add: filter_calls_def Let_def comp_def h(3))
  have "mset (map f ?kept) + mset (map h ?broken) = mset (map f ?passed)"
    by (rule contract_refusal_image) (rule h(2))
  then have "mset (map f ks) + mset (map h rs) + mset (map h ?broken)
      + mset (map f (filter (\<lambda>tc. \<not> gr_is_valid (gate_of T S tc)) (tn_calls N))) = mset (map f (tn_calls N))"
    using control gate by (simp only:)
  then show ?thesis unfolding map_append mset_append F by (simp only: ac_simps)
qed

lemma filter_calls_ids:
  "mset (map call_id (ff_calls (filter_calls T S N))) +
     mset (map refusal_id (ff_gate (filter_calls T S N) @ ff_contract (filter_calls T S N) @ ff_control (filter_calls T S N)))
   = mset (map call_id (tn_calls N))"
  by (rule filter_calls_image) simp_all

lemma injected_call:
  "call_id (fst (apply_handle_input_injections J tc cs reg)) = call_id tc"
  "call_name (fst (apply_handle_input_injections J tc cs reg)) = call_name tc"
  by (auto simp: apply_handle_input_injections_def set_tool_call_args_def call_id_def call_name_def Let_def split: option.split)

lemma read_result_answers:
  "msg_id (snd (runtime_artifact_read_result J reg tc n b t f)) = call_id tc"
  "call_name tc \<noteq> [] \<Longrightarrow> rec_tool (fst (runtime_artifact_read_result J reg tc n b t f)) = call_name tc"
  by (auto simp: runtime_artifact_read_result_def call_id_def new_record_def Let_def split: option.split)

lemma plan_tool_answers:
  "msg_id (snd (fst (plan_tool T n tc P))) = call_id tc" "rec_tool (fst (fst (plan_tool T n tc P))) = call_name tc"
  by (simp_all add: plan_tool_def call_id_def new_record_def Let_def)

text \<open>What is asked of the executor: one record and one message for every call, in the order of the calls.\<close>

definition executor_answers :: "tool_env \<Rightarrow> bool" where
  "executor_answers T \<longleftrightarrow>
     (\<forall>cs n. length (fst (tt_executor T cs n)) = length cs \<and> map msg_id (snd (tt_executor T cs n)) = map call_id cs)"

text \<open>The answers of the calls that are executed, read through any \<open>h\<close> that every way of answering respects.\<close>

lemma fill_dispatch:
  assumes h: "\<And>tc. call_name tc = tt_read_tool T \<Longrightarrow> h (runtime_artifact_read_result (tt_json T) (tl_registry S) tc (tt_max_length T) (tt_require_reasoning T)
      ''runtime_artifact_read'' TOOL_REASONING_FIELD) = f tc"
    "\<And>tc P. h (fst (plan_tool T n tc P)) = f tc"
    "\<And>tc. f (fst (apply_handle_input_injections (tt_json T) tc (tt_contracts T) (tl_registry S))) = f tc"
  shows "length rs = length (dp_external (dispatch T S n tcs P)) \<Longrightarrow> length ms = length rs \<Longrightarrow>
     map h (zip rs ms) = map f (dp_external (dispatch T S n tcs P)) \<Longrightarrow>
     \<exists>as. fill (dp_slots (dispatch T S n tcs P)) rs ms = Some as \<and> map h as = map f tcs"
proof (induction tcs arbitrary: P rs ms)
  case (Cons tc tcs)
  consider (read) "call_name tc = tt_read_tool T" | (plan) "call_name tc \<noteq> tt_read_tool T" "call_name tc \<in> set (tt_plan_tools T)"
    | (external) "call_name tc \<noteq> tt_read_tool T" "call_name tc \<notin> set (tt_plan_tools T)" by blast
  then show ?case
  proof cases
    case read
    with Cons.IH [of rs P ms] Cons.prems show ?thesis by (auto simp: Let_def h(1))
  next
    case plan
    obtain answer P' where p: "plan_tool T n tc P = (answer, P')" by fastforce
    with plan Cons.IH [of rs P' ms] Cons.prems h(2) [of tc P] show ?thesis by (auto simp: Let_def)
  next
    case external
    obtain tc' inj where i: "apply_handle_input_injections (tt_json T) tc (tt_contracts T) (tl_registry S) = (tc', inj)" by fastforce
    have f: "f tc' = f tc" using h(3) [of tc] i by simp
    obtain r rs' where rs: "rs = r # rs'" using Cons.prems(1) external i by (cases rs) (auto simp: Let_def)
    obtain m ms' where ms: "ms = m # ms'" using Cons.prems(2) rs by (cases ms) auto
    from Cons.IH [of rs' P ms'] Cons.prems external i f show ?thesis by (auto simp: Let_def rs ms)
  qed
qed simp

lemma reconcile_length: "length (rc_records (fst (reconcile T n rs S))) = length rs"
  by (induction T n rs S rule: reconcile.induct) (auto simp: Let_def split: prod.split)

lemma calls_answered:
  assumes "executor_answers T"
  shows "\<exists>R S'. process_tool_calls_turn T N S = Inr (R, S')
    \<and> mset (map msg_id (tx_messages R)) = mset (map call_id (tn_calls N))
    \<and> length (tx_records R) = length (tn_calls N)
    \<and> length (tx_executed R) = length (tx_to_execute R)"
proof -
  define F where "F = filter_calls T S N"
  define D where "D = dispatch T S (tn_turn N) (ff_calls F) (tl_plan S)"
  define a where "a = (if dp_external D = [] then ([], []) else tt_executor T (dp_external D) (tt_max_length T))"
  have len: "length (fst a) = length (dp_external D)" and ids: "map msg_id (snd a) = map call_id (dp_external D)"
    using assms by (auto simp: a_def executor_answers_def)
  have "length (snd a) = length (fst a)" using len ids by (metis length_map)
  then have "map (msg_id \<circ> snd) (zip (fst a) (snd a)) = map call_id (dp_external D)" using ids by (simp flip: map_map)
  then obtain xs where xs: "fill (dp_slots D) (fst a) (snd a) = Some xs" "map (msg_id \<circ> snd) xs = map call_id (ff_calls F)"
    using fill_dispatch [of T "msg_id \<circ> snd" S call_id "tn_turn N" "fst a" "ff_calls F" "tl_plan S" "snd a"]
      len \<open>length (snd a) = length (fst a)\<close> by (auto simp: D_def read_result_answers plan_tool_answers injected_call)
  have count: "length xs = length (ff_calls F)" using xs(2) by (metis length_map)
  obtain C S' where C: "reconcile T (tn_turn N) (map fst xs) (gate_out (ff_submit F) (S\<lparr>tl_plan := dp_plan D\<rparr>)) = (C, S')" by fastforce
  have recs: "length (rc_records C) = length xs" using reconcile_length [of T "tn_turn N" "map fst xs"] C by (metis fst_conv length_map)
  let ?refusals = "ff_gate F @ ff_contract F @ ff_control F"
  have split: "mset (map call_id (ff_calls F)) + mset (map refusal_id ?refusals) = mset (map call_id (tn_calls N))"
    unfolding F_def by (rule filter_calls_ids)
  have "length (ff_calls F) + length ?refusals = length (tn_calls N)" using split by (metis length_map size_mset size_union)
  moreover have "mset (map msg_id (map rf_message ?refusals @ map snd xs)) = mset (map call_id (tn_calls N))"
  proof -
    have "mset (map msg_id (map rf_message L @ map snd xs)) = mset (map call_id (ff_calls F)) + mset (map refusal_id L)" for L
      using xs(2) by (simp add: refusal_id_def [abs_def] comp_def flip: mset_map)
    then show ?thesis using split by (simp only:)
  qed
  ultimately show ?thesis using xs(1) C count recs
    by (simp add: process_tool_calls_turn_def F_def [symmetric] D_def [symmetric] a_def [symmetric] image_mset.compositionality)
qed

lemma reconcile_tools: "map rec_tool (rc_records (fst (reconcile T n rs S))) = map rec_tool rs"
  by (induction T n rs S rule: reconcile.induct) (auto simp: Let_def annotated_def split: prod.split)

text \<open>
  Every call has a record of its tool: what holds of the names of the calls holds of the tools of the records, when
  the executor keeps it (\<open>h\<close> may tell apart only what the executor does).
\<close>

lemma turn_tools:
  assumes "process_tool_calls_turn T N S = Inr (R, S')" and "executor_answers T" and "tt_read_tool T \<noteq> []"
    and "h ''<unknown>'' = h []" and "\<And>cs n. map (h \<circ> rec_tool) (fst (tt_executor T cs n)) = map (h \<circ> call_name) cs"
  shows "mset (map (h \<circ> rec_tool) (tx_records R)) = mset (map (h \<circ> call_name) (tn_calls N))"
proof -
  define F where "F = filter_calls T S N"
  define D where "D = dispatch T S (tn_turn N) (ff_calls F) (tl_plan S)"
  define a where "a = (if dp_external D = [] then ([], []) else tt_executor T (dp_external D) (tt_max_length T))"
  have shown: "h (shown_name x) = h x" for x using assms(4) by (simp add: shown_name_def)
  have len: "length (fst a) = length (dp_external D)" and ids: "map msg_id (snd a) = map call_id (dp_external D)"
    using assms(2) by (auto simp: a_def executor_answers_def)
  have names: "map (h \<circ> rec_tool) (fst a) = map (h \<circ> call_name) (dp_external D)" using assms(5) by (simp add: a_def)
  have len2: "length (snd a) = length (fst a)" using len ids by (metis length_map)
  then have "map (h \<circ> rec_tool \<circ> fst) (zip (fst a) (snd a)) = map (h \<circ> call_name) (dp_external D)"
    using names by (simp flip: map_map add: comp_assoc)
  then obtain xs where xs: "fill (dp_slots D) (fst a) (snd a) = Some xs" "map (h \<circ> rec_tool \<circ> fst) xs = map (h \<circ> call_name) (ff_calls F)"
    using fill_dispatch [of T "h \<circ> rec_tool \<circ> fst" S "h \<circ> call_name" "tn_turn N" "fst a" "ff_calls F" "tl_plan S" "snd a"]
      len len2 assms(3) by (auto simp: D_def read_result_answers plan_tool_answers injected_call)
  obtain C S1 where C: "reconcile T (tn_turn N) (map fst xs) (gate_out (ff_submit F) (S\<lparr>tl_plan := dp_plan D\<rparr>)) = (C, S1)" by fastforce
  let ?refusals = "ff_gate F @ ff_contract F @ ff_control F"
  have "tx_records R = map rf_record ?refusals @ rc_records C"
    using assms(1) unfolding process_tool_calls_turn_def Let_def unfolding F_def [symmetric] unfolding D_def [symmetric]
    unfolding a_def [symmetric] by (auto simp: xs(1) C)
  moreover have "map (h \<circ> rec_tool) (rc_records C) = map (h \<circ> call_name) (ff_calls F)"
    using reconcile_tools [of T "tn_turn N" "map fst xs"] C xs(2) by (metis fst_conv map_map comp_assoc)
  moreover have "mset (map (h \<circ> call_name) (ff_calls F)) + mset (map (h \<circ> rec_tool \<circ> rf_record) ?refusals) = mset (map (h \<circ> call_name) (tn_calls N))"
    unfolding F_def
    by (rule filter_calls_image)
       (simp_all add: gate_refusal_def contract_refusal_def suppression_def refused_def new_record_def shown Let_def)
  ultimately show ?thesis by (simp add: comp_assoc ac_simps)
qed

text \<open>
  C16: every call of a turn is answered once: with an executor that answers what it is asked, the handler does not
  fail, the messages it appends carry the ids of the calls, each as often as the calls do, and there is one
  record for every call; whether a call is rejected, suppressed, answered here or handed out.
\<close>

theorem every_call_answered_once:
  assumes "executor_answers T"
  shows "\<exists>R S'. process_tool_calls_turn T N S = Inr (R, S')
    \<and> mset (map msg_id (tx_messages R)) = mset (map call_id (tn_calls N))
    \<and> length (tx_records R) = length (tn_calls N)
    \<and> length (tx_executed R) = length (tx_to_execute R)"
  using calls_answered [OF assms] .

section \<open>What is executed\<close>

text \<open>A guarded submission, and a closed gate: the evidence or the TODO state is the one of the failure.\<close>

definition guarded :: "tool_env \<Rightarrow> tool_call \<Rightarrow> bool" where
  "guarded T tc \<longleftrightarrow> call_name tc = ''submit_answer'' \<and> \<not> no_answer_terminal T tc"

definition submit_blocked :: "tool_env \<Rightarrow> tools_input \<Rightarrow> submit_gate \<Rightarrow> bool" where
  "submit_blocked T N g \<longleftrightarrow>
     sg_requires_evidence g \<and> (sg_digest_at_failure g = None \<or> sg_digest_at_failure g = Some (evidence_digest (tt_digest T) (tn_labels N)))
     \<or> sg_requires_todo g \<and> (sg_todo_at_failure g = None \<or> tn_todo_line N = None \<or> tn_todo_line N = sg_todo_at_failure g)"

lemma control_step_cases:
  "control_step T S N tc g = (v, g') \<Longrightarrow>
     (v = None \<longleftrightarrow> (guarded T tc \<longrightarrow> \<not> submit_blocked T N g)) \<and> submit_blocked T N g' = submit_blocked T N g"
  by (auto simp: control_step_def guarded_def submit_blocked_def Let_def split: if_splits)

lemma control_pass_kept:
  "control_pass T S N tcs g = (ks, rs, g') \<Longrightarrow> ks = filter (\<lambda>tc. guarded T tc \<longrightarrow> \<not> submit_blocked T N g) tcs"
proof (induction tcs arbitrary: g ks rs)
  case (Cons tc tcs)
  obtain v g1 where step: "control_step T S N tc g = (v, g1)" by fastforce
  obtain ks1 rs1 g2 where rest: "control_pass T S N tcs g1 = (ks1, rs1, g2)" by (metis prod_cases3)
  have "ks1 = filter (\<lambda>tc. guarded T tc \<longrightarrow> \<not> submit_blocked T N g) tcs"
    using Cons.IH [of g1] Cons.prems step rest control_step_cases [OF step] by (auto split: option.splits)
  then show ?case using Cons.prems step rest control_step_cases [OF step] by (cases v) auto
qed simp

lemma control_pass_suppressed: "control_pass T S N tcs g = (ks, rs, g') \<Longrightarrow> submit_blocked T N g' = submit_blocked T N g"
proof (induction tcs arbitrary: g g' ks rs)
  case (Cons tc tcs)
  obtain v g1 where step: "control_step T S N tc g = (v, g1)" by fastforce
  obtain ks1 rs1 g2 where rest: "control_pass T S N tcs g1 = (ks1, rs1, g2)" by (metis prod_cases3)
  show ?case using Cons.IH [OF rest] Cons.prems step rest control_step_cases [OF step] by (cases v) auto
qed simp

lemma process_turn_cases:
  assumes "process_tool_calls_turn T N S = Inr (R, S')"
  shows "tx_to_execute R = ff_calls (filter_calls T S N)"
    and "\<exists>P rs C. reconcile T (tn_turn N) rs (gate_out (ff_submit (filter_calls T S N)) (S\<lparr>tl_plan := P\<rparr>)) = (C, S') \<and> tx_executed R = rc_records C
      \<and> length rs = length (rc_records C)"
  using assms reconcile_length by (auto simp: process_tool_calls_turn_def Let_def split: option.splits prod.splits) (metis fst_conv)+

lemma executed_filter:
  assumes "process_tool_calls_turn T N S = Inr (R, S')"
  shows "tx_to_execute R =
    filter (\<lambda>tc. gr_is_valid (gate_of T S tc) \<and> contract_holds T S tc \<and>
        \<not> (tt_suppress T \<and> guarded T tc \<and> submit_blocked T N (gate_in S))) (tn_calls N)"
proof -
  let ?kept = "filter (contract_holds T S) (filter (\<lambda>tc. gr_is_valid (gate_of T S tc)) (tn_calls N))"
  obtain ks rs g where pass: "(if tt_suppress T then control_pass T S N ?kept (gate_in S) else (?kept, [], gate_in S)) = (ks, rs, g)"
    by (metis prod_cases3)
  have "ks = filter (\<lambda>tc. \<not> (tt_suppress T \<and> guarded T tc \<and> submit_blocked T N (gate_in S))) ?kept"
  proof (cases "tt_suppress T")
    case True
    then have "control_pass T S N ?kept (gate_in S) = (ks, rs, g)" using pass by simp
    from control_pass_kept [OF this] True show ?thesis by (auto intro!: filter_cong)
  qed (use pass in simp)
  moreover have "tx_to_execute R = ks"
    using process_turn_cases(1) [OF assms] pass by (simp add: filter_calls_def Let_def)
  ultimately show ?thesis by (simp add: conj_ac cong: filter_cong)
qed

text \<open>
  C20: what is executed is exactly what passed every check of the state at the start of the turn: the compliance gate,
  the contract of the tool when contracts are enforced and, for a submission that claims an answer, an open gate
  when repeated submissions are suppressed. The order of the calls is kept.
\<close>

theorem executed_calls_exact:
  assumes "process_tool_calls_turn T N S = Inr (R, S')"
  shows "tx_to_execute R =
    filter (\<lambda>tc. gr_is_valid (gate_of T S tc) \<and> contract_holds T S tc \<and>
        \<not> (tt_suppress T \<and> guarded T tc \<and> submit_blocked T N (gate_in S))) (tn_calls N)"
  using executed_filter [OF assms] .

section \<open>What a turn leaves\<close>

text \<open>Bindings in their canonical form, as every merge leaves them.\<close>

definition canonical :: "tool_env \<Rightarrow> tool_state \<Rightarrow> bool" where
  "canonical T S \<longleftrightarrow> normalize_bindings (other_of T) (as_mapping (tl_bindings S)) = tl_bindings S"

definition grows :: "tool_state \<Rightarrow> tool_state \<Rightarrow> bool" where
  "grows S S' \<longleftrightarrow> tl_artifacts S \<subseteq> tl_artifacts S'
     \<and> (\<forall>c. capability_state_has (tl_caps S) c \<longrightarrow> capability_state_has (tl_caps S') c)
     \<and> (\<forall>i. dict_get (tl_registry S) i \<noteq> None \<longrightarrow> dict_get (tl_registry S') i \<noteq> None)
     \<and> (\<forall>k \<in> set HARD_BINDING_KEYS. binding (tl_bindings S) k \<noteq> None \<longrightarrow> binding (tl_bindings S') k = binding (tl_bindings S) k)"

lemma grows_refl: "grows S S"
  by (simp add: grows_def)

lemma grows_trans: "grows A B \<Longrightarrow> grows B C \<Longrightarrow> grows A C"
  unfolding grows_def by (metis order_trans)

lemma merge_canonical: "normalize_bindings other (as_mapping (merge_binding_state other a b)) = merge_binding_state other a b"
proof (rule normalize_canonical [OF map_fst_merge])
  fix k s
  assume "binding (merge_binding_state other a b) k = Some s"
  then show "s \<noteq> [] \<and> py_strip s = s"
    using binding_normalize_stripped by (auto simp: binding_merge Let_def split: if_splits)
qed

lemma bindings_after_facts:
  assumes "canonical T S"
  shows "normalize_bindings (other_of T) (as_mapping (bindings_after T S r)) = bindings_after T S r"
    and "k \<in> set HARD_BINDING_KEYS \<Longrightarrow> binding (tl_bindings S) k \<noteq> None \<Longrightarrow> binding (bindings_after T S r) k = binding (tl_bindings S) k"
  using assms hard_or_soft(2) by (auto simp: canonical_def bindings_after_def Let_def merge_canonical binding_merge)

lemma add_capability_grows:
  "capability_state_has caps c \<Longrightarrow> capability_state_has (fst (add_capability d (caps, added))) c"
  by (auto simp: add_capability_def capability_state_add_def capability_state_has_def Let_def py_simps split: option.splits prod.splits if_splits)

lemma fold_capability_grows:
  "capability_state_has (fst acc) c \<Longrightarrow> capability_state_has (fst (fold add_capability cs acc)) c"
proof (induction cs arbitrary: acc)
  case (Cons d cs)
  show ?case using Cons.IH [of "add_capability d acc"] add_capability_grows [of "fst acc" c d "snd acc"] Cons.prems by simp
qed simp

lemma remember_grows: "dict_get reg i \<noteq> None \<Longrightarrow> dict_get (remember_envelopes T es reg) i \<noteq> None"
  unfolding remember_envelopes_def
proof (induction es arbitrary: reg)
  case (Cons e es)
  have "dict_get (if envelope_id (other_of T) e = [] then reg else dict_set (envelope_id (other_of T) e) e reg) i \<noteq> None"
    using Cons.prems by (simp add: py_simps)
  from Cons.IH [OF this] show ?case by simp
qed simp

lemma adopt_grows:
  assumes "canonical T S"
  shows "grows S (adopt_state T S r)" and "canonical T (adopt_state T S r)"
  using bindings_after_facts [OF assms] fold_capability_grows [of "(tl_caps S, [])"] remember_grows
  by (auto simp: grows_def canonical_def adopt_state_def Let_def)

lemma note_production_same:
  "tl_artifacts (note_production T n S r S') = tl_artifacts S'" "tl_caps (note_production T n S r S') = tl_caps S'"
  "tl_registry (note_production T n S r S') = tl_registry S'" "tl_bindings (note_production T n S r S') = tl_bindings S'"
  "gate_in (note_production T n S r S') = gate_in S'" "tl_plan (note_production T n S r S') = tl_plan S'"
  by (simp_all add: note_production_def gate_in_def)

lemma gate_in_out [simp]: "gate_in (gate_out g S) = g" "gate_in (adopt_state T S r) = gate_in S" "gate_in (S\<lparr>tl_plan := P\<rparr>) = gate_in S"
  by (simp_all add: gate_in_def gate_out_def adopt_state_def Let_def)

lemma reconcile_grows:
  "reconcile T n rs S = (C, S') \<Longrightarrow> canonical T S \<Longrightarrow> grows S S' \<and> canonical T S'"
proof (induction rs arbitrary: S C)
  case (Cons r rs)
  show ?case
  proof (cases "record_failed r")
    case True
    with Cons show ?thesis by (auto split: prod.splits)
  next
    case False
    let ?S1 = "note_production T n S r (adopt_state T S r)"
    have 1: "grows S ?S1" "canonical T ?S1"
      using adopt_grows [OF Cons.prems(2), of r] by (simp_all add: grows_def canonical_def note_production_same)
    obtain C1 S2 where rest: "reconcile T n rs ?S1 = (C1, S2)" by fastforce
    then have "S' = S2" using Cons.prems(1) False by (simp add: Let_def)
    with Cons.IH [of ?S1 C1] rest 1 grows_trans show ?thesis by blast
  qed
qed (simp add: grows_refl)

lemma reconcile_gate: "reconcile T n rs S = (C, S') \<Longrightarrow> gate_in S' = gate_in S"
  by (induction T n rs S arbitrary: C S' rule: reconcile.induct)
     (auto simp: Let_def note_production_same split: prod.splits if_splits)

text \<open>What calls leave in the state, beside the plan, the gates and the timeline.\<close>

definition same_holdings :: "tool_state \<Rightarrow> tool_state \<Rightarrow> bool" where
  "same_holdings A B \<longleftrightarrow> tl_artifacts A = tl_artifacts B \<and> tl_caps A = tl_caps B \<and> tl_bindings A = tl_bindings B
     \<and> tl_registry A = tl_registry B \<and> tl_metadata A = tl_metadata B"

definition adopt_all :: "tool_env \<Rightarrow> tool_record list \<Rightarrow> tool_state \<Rightarrow> tool_state" where
  "adopt_all T rs S = fold (\<lambda>r A. adopt_state T A r) rs S"

lemma output_of_annotated: "output_of T A (annotated T S r) = output_of T A r"
  by (simp add: output_of_def annotated_def parse_record_result_json_value_def)

lemma adopt_annotated: "adopt_state T A (annotated T S r) = adopt_state T A r"
proof -
  have "rec_tool (annotated T S r) = rec_tool r" "rec_arguments (annotated T S r) = rec_arguments r"
    "rec_call_id (annotated T S r) = rec_call_id r" by (simp_all add: annotated_def)
  moreover have "annotated T A (annotated T S r) = annotated T A r"
    by (simp add: annotated_def [of T A] output_of_annotated) (simp add: annotated_def)
  moreover from calculation have "bindings_after T A (annotated T S r) = bindings_after T A r"
    "produced_by T A (annotated T S r) = produced_by T A r"
    by (simp_all only: bindings_after_def produced_by_def output_of_annotated)
  moreover from calculation have "capabilities_by T A (annotated T S r) = capabilities_by T A r"
    by (simp only: capabilities_by_def output_of_annotated)
  ultimately show ?thesis by (simp only: adopt_state_def output_of_annotated)
qed

lemma adopt_same:
  assumes "same_holdings A B" shows "same_holdings (adopt_state T A r) (adopt_state T B r)"
proof -
  have out: "output_of T A r = output_of T B r" using assms by (simp add: output_of_def same_holdings_def)
  then have "bindings_after T A r = bindings_after T B r" "produced_by T A r = produced_by T B r"
    using assms by (simp_all add: bindings_after_def produced_by_def same_holdings_def Let_def)
  moreover from this out have "capabilities_by T A r = capabilities_by T B r" "annotated T A r = annotated T B r"
    by (simp_all only: capabilities_by_def annotated_def)
  ultimately show ?thesis using out assms by (simp add: adopt_state_def same_holdings_def Let_def split: option.split)
qed

lemma adopt_all_same: "same_holdings A B \<Longrightarrow> same_holdings (adopt_all T rs A) (adopt_all T rs B)"
  unfolding adopt_all_def by (induction rs arbitrary: A B) (simp_all add: adopt_same)

lemma same_holdings_trans: "same_holdings A B \<Longrightarrow> same_holdings B C \<Longrightarrow> same_holdings A C"
  by (simp add: same_holdings_def)

lemma reconcile_adopts:
  "reconcile T n rs S = (C, S') \<Longrightarrow> same_holdings S' (adopt_all T (filter (\<lambda>r. \<not> record_failed r) (rc_records C)) S)"
proof (induction rs arbitrary: S C)
  case (Cons r rs)
  show ?case
  proof (cases "record_failed r")
    case True
    with Cons show ?thesis by (auto split: prod.splits)
  next
    case False
    let ?S1 = "note_production T n S r (adopt_state T S r)"
    obtain C1 S2 where rest: "reconcile T n rs ?S1 = (C1, S2)" by fastforce
    then have S': "S' = S2" and C: "rc_records C = annotated T S r # rc_records C1"
      using Cons.prems(1) False by (auto simp: Let_def)
    have "\<not> record_failed (annotated T S r)" using False by (simp add: record_failed_def annotated_def)
    then have "adopt_all T (filter (\<lambda>r. \<not> record_failed r) (rc_records C)) S
        = adopt_all T (filter (\<lambda>r. \<not> record_failed r) (rc_records C1)) (adopt_state T S r)"
      by (simp add: C adopt_all_def adopt_annotated)
    moreover have "same_holdings ?S1 (adopt_state T S r)"
      by (simp add: same_holdings_def note_production_def)
    ultimately show ?thesis
      using Cons.IH [OF rest [folded S']] adopt_all_same [of ?S1 "adopt_state T S r" T] same_holdings_trans by metis
  qed
qed (simp add: same_holdings_def adopt_all_def)

lemma remember_origin:
  "dict_get (remember_envelopes T es reg) i = Some e \<Longrightarrow>
     dict_get reg i = Some e \<or> e \<in> set es \<and> envelope_id (other_of T) e = i"
  unfolding remember_envelopes_def
proof (induction es arbitrary: reg)
  case (Cons x es)
  from Cons.IH [OF Cons.prems [simplified]] show ?case by (auto simp: py_simps split: if_splits)
qed simp

lemma adopt_all_origin:
  "dict_get (tl_registry (adopt_all T rs S)) i = Some e \<Longrightarrow> dict_get (tl_registry S) i = Some e \<or>
     (\<exists>r \<in> set rs. \<exists>A. e \<in> set (os_envelopes (output_of T A r)) \<and> envelope_id (other_of T) e = i)"
  unfolding adopt_all_def
proof (induction rs arbitrary: S)
  case (Cons r rs)
  from Cons.IH [of "adopt_state T S r"] Cons.prems remember_origin [of T "os_envelopes (output_of T S r)" "tl_registry S" i e]
  show ?case by (auto simp: adopt_state_def Let_def)
qed simp

text \<open>
  C19: what a turn leaves in the state, when the bindings are canonical before it. The artifacts, capabilities,
  bindings, registry and metadata are exactly those that adopting the successful executed calls one after the other
  leaves, so each failed call changes none of them, whatever else the turn executes. Artifacts and capabilities stay,
  a hard binding that is set keeps its value whatever the tools answer, and the bindings stay canonical. The ids in
  the registry stay; the envelope of an id is the one before the turn or one of that id that a successful call of the
  turn returned (a newer envelope replaces the older one).
\<close>

theorem turn_state_grows:
  assumes "process_tool_calls_turn T N S = Inr (R, S')" and "canonical T S"
  shows "grows S S' \<and> canonical T S'
    \<and> same_holdings S' (adopt_all T (filter (\<lambda>r. \<not> record_failed r) (tx_executed R)) S)
    \<and> (\<forall>i e. dict_get (tl_registry S') i = Some e \<longrightarrow> dict_get (tl_registry S) i = Some e
        \<or> (\<exists>r \<in> set (tx_executed R). \<not> record_failed r \<and>
             (\<exists>A. e \<in> set (os_envelopes (output_of T A r)) \<and> envelope_id (other_of T) e = i)))"
proof -
  obtain P rs C where run: "reconcile T (tn_turn N) rs (gate_out (ff_submit (filter_calls T S N)) (S\<lparr>tl_plan := P\<rparr>)) = (C, S')"
    and R: "tx_executed R = rc_records C" using process_turn_cases(2) [OF assms(1)] by blast
  let ?S0 = "gate_out (ff_submit (filter_calls T S N)) (S\<lparr>tl_plan := P\<rparr>)"
  have same: "same_holdings ?S0 S" by (simp add: gate_out_def same_holdings_def)
  then have "canonical T ?S0" "grows S ?S0" using assms(2) by (simp_all add: canonical_def grows_def same_holdings_def)
  then have 1: "grows S S' \<and> canonical T S'" using reconcile_grows [OF run] grows_trans by blast
  have 2: "same_holdings S' (adopt_all T (filter (\<lambda>r. \<not> record_failed r) (tx_executed R)) S)"
    using reconcile_adopts [OF run] adopt_all_same [OF same] same_holdings_trans R by metis
  then have "tl_registry S' = tl_registry (adopt_all T (filter (\<lambda>r. \<not> record_failed r) (tx_executed R)) S)"
    by (simp add: same_holdings_def)
  with 1 2 adopt_all_origin [of T "filter (\<lambda>r. \<not> record_failed r) (tx_executed R)" S] show ?thesis by fastforce
qed

section \<open>A concrete turn\<close>

text \<open>An executor that finds something on the call \<open>h\<close> only.\<close>

definition demo_record :: "tool_call \<Rightarrow> tool_record" where
  "demo_record tc = (new_record ''web'' (call_name tc) [])\<lparr>rec_result := Some (if tcl_id tc = ''h'' then ''hit'' else ''none''), rec_call_id := Some (tcl_id tc)\<rparr>"

definition demo_tools :: tool_env where
  "demo_tools =
     \<lparr>tt_json = \<lparr>je_loads = (\<lambda>s. if s = ''hit'' then Some (PDict [(PStr ''chunk_id'', PStr ''chunk_7'')]) else None), je_dumps = (\<lambda>v. []),
        je_other = (\<lambda>v. ''None'')\<rparr>,
      tt_validate = (\<lambda>v. None), tt_sha = id, tt_digest = concat,
      tt_executor = (\<lambda>cs n. (map demo_record cs, map (\<lambda>c. tool_message (tcl_id c) ''seen'') cs)),
      tt_max_length = 100, tt_require_reasoning = False, tt_enforce = False, tt_suppress = True, tt_contracts = [],
      tt_parameters = [], tt_read_tool = ''runtime_artifact_read'', tt_plan_tools = [], tt_question = [], tt_order = id,
      tt_glyphs = \<lparr>gl_arrow = [], gl_check = [], gl_dots = []\<rparr>, tt_plan_other = (\<lambda>n a P. ([], P)), tt_no_hits = (\<lambda>n r. False)\<rparr>"

definition demo_call :: "string \<Rightarrow> string \<Rightarrow> tool_call" where
  "demo_call i name = \<lparr>tcl_id = i, tcl_name = name, tcl_arguments = PDict []\<rparr>"

definition demo_tool_state :: tool_state where
  "demo_tool_state =
     \<lparr>tl_artifacts = {}, tl_caps = [], tl_bindings = normalize_bindings (\<lambda>v. ''None'') None, tl_registry = [], tl_plan = None,
      tl_metadata = [], tl_timeline = [], tl_requires_evidence = True, tl_digest_at_failure = Some [],
      tl_requires_todo = False, tl_todo_at_failure = None\<rparr>"

lemma demo_executor: "executor_answers demo_tools"
  by (simp add: executor_answers_def demo_tools_def msg_id_tool_message call_id_def)

lemma first_alias_nil: "first_alias other [] as = None"
  by (induction as) simp_all

lemma demo_args: "args_or_empty demo_tools (demo_call i name) = []" "args_of demo_tools (demo_call i name) = Some []"
  by (simp_all add: args_or_empty_def args_of_def demo_tools_def demo_call_def extract_tool_call_args_def to_mapping_def)

lemma demo_gate: "gr_is_valid (gate_of demo_tools S (demo_call i name))"
proof -
  have "extract_bindings_from_tool_args other (Some []) = []" for other
    by (simp add: extract_bindings_from_tool_args_def map_filter_def first_alias_nil Let_def)
  then show ?thesis
    by (simp add: gate_of_def validate_tool_call_inputs_def demo_args call_bindings_def unknown_args_def required_args_def Let_def)
       (simp add: demo_tools_def)
qed

lemma demo_contract: "contract_holds demo_tools S tc"
  by (simp add: contract_holds_def contract_check_def contract_of_def demo_tools_def)

lemma demo_not_terminal: "\<not> no_answer_terminal demo_tools (demo_call i name)"
  by (simp add: no_answer_terminal_def demo_args arg_value_def py_or_def py_strip_def py_lower_def) 

lemma demo_injection: "apply_handle_input_injections (tt_json demo_tools) tc (tt_contracts demo_tools) reg = (tc, [])"
  by (simp add: apply_handle_input_injections_def demo_tools_def)

lemma demo_contract_check: "contract_check demo_tools S tc = None"
  by (simp add: contract_check_def contract_of_def demo_tools_def)

lemma demo_fields:
  "tt_suppress demo_tools" "tt_plan_tools demo_tools = []" "tt_read_tool demo_tools = ''runtime_artifact_read''"
  "fst (tt_executor demo_tools cs n) = map demo_record cs" "length (snd (tt_executor demo_tools cs n)) = length cs"
  by (simp_all add: demo_tools_def)

lemma demo_record_fields:
  "rec_tool (demo_record tc) = call_name tc" "\<not> record_failed (demo_record tc)"
  by (simp_all add: demo_record_def new_record_def record_failed_def)

lemma demo_search_name: "call_name (demo_call i ''chunk_search'') = ''chunk_search''"
  by (simp add: demo_call_def call_name_def py_strip_def py_isspace_def)

lemma demo_search_filter:
  assumes "tn_calls N = [demo_call i ''chunk_search'']"
  shows "filter_calls demo_tools S N = \<lparr>ff_calls = tn_calls N, ff_gate = [], ff_contract = [], ff_control = [], ff_submit = gate_in S\<rparr>"
  using assms by (simp add: filter_calls_def demo_gate demo_contract demo_contract_check demo_fields map_filter_def control_step_def demo_search_name Let_def)

lemma reconcile_one:
  "\<not> record_failed r \<Longrightarrow> rc_records (fst (reconcile T n [r] S)) = [annotated T S r]"
  by (simp add: Let_def)

lemma search_call_turn:
  assumes "tn_calls N = [demo_call i ''chunk_search'']" and "process_tool_calls_turn demo_tools N S = Inr (R, S')"
  shows "tx_to_execute R = tn_calls N \<and> tx_records R = tx_executed R
    \<and> (\<exists>U. tx_executed R = [annotated demo_tools U (demo_record (demo_call i ''chunk_search''))])"
proof -
  let ?tc = "demo_call i ''chunk_search''"
  have m: "snd (tt_executor demo_tools [?tc] (tt_max_length demo_tools)) = [tool_message (tcl_id ?tc) ''seen'']"
    by (simp add: demo_tools_def)
  let ?S0 = "gate_out (gate_in S) (S\<lparr>tl_plan := tl_plan S\<rparr>)"
  obtain C S1 where C: "reconcile demo_tools (tn_turn N) [demo_record ?tc] ?S0 = (C, S1)" by fastforce
  have records: "rc_records C = [annotated demo_tools ?S0 (demo_record ?tc)]"
    using reconcile_one [OF demo_record_fields(2), of demo_tools "tn_turn N" ?tc ?S0] C by simp
  have fields: "tx_to_execute R = [?tc] \<and> tx_records R = rc_records C \<and> tx_executed R = rc_records C"
    using assms(2) C
    by (simp add: process_tool_calls_turn_def demo_search_filter [OF assms(1)] assms(1) demo_search_name demo_fields demo_injection m Let_def
        del: reconcile.simps) auto
  show ?thesis using fields records assms(1) by (intro conjI exI [of _ ?S0]) simp_all
qed

text \<open>A search and a submission that claims an answer, with the evidence gate closed.\<close>

definition demo_input :: tools_input where
  "demo_input = \<lparr>tn_turn = 0, tn_calls = [demo_call ''n'' ''chunk_search'', demo_call ''s'' ''submit_answer''], tn_labels = {},
     tn_todo_line = None, tn_guidance = None\<rparr>"

lemma demo_input_calls: "tn_calls demo_input = [demo_call ''n'' ''chunk_search'', demo_call ''s'' ''submit_answer'']"
  by (simp add: demo_input_def)

lemma demo_turn_runs: "\<exists>R S'. process_tool_calls_turn demo_tools demo_input demo_tool_state = Inr (R, S')"
  using calls_answered [OF demo_executor] by blast

lemma every_call_answered_once_witness:
  "\<exists>R S'. process_tool_calls_turn demo_tools demo_input demo_tool_state = Inr (R, S')
    \<and> mset (map msg_id (tx_messages R)) = {#PStr ''n'', PStr ''s''#} \<and> length (tx_records R) = 2"
proof -
  have "map call_id (tn_calls demo_input) = [PStr ''n'', PStr ''s'']" "length (tn_calls demo_input) = 2"
    by (simp_all add: demo_input_def call_id_def demo_call_def)
  then show ?thesis using every_call_answered_once [OF demo_executor, of demo_input demo_tool_state] by auto
qed

lemma executed_calls_exact_witness:
  "\<exists>R S'. process_tool_calls_turn demo_tools demo_input demo_tool_state = Inr (R, S') \<and> tx_to_execute R = [demo_call ''n'' ''chunk_search'']"
proof -
  obtain R S' where run: "process_tool_calls_turn demo_tools demo_input demo_tool_state = Inr (R, S')" using demo_turn_runs by blast
  have "guarded demo_tools (demo_call ''s'' ''submit_answer'')" "\<not> guarded demo_tools (demo_call ''n'' ''chunk_search'')"
    by (simp_all add: guarded_def demo_not_terminal demo_search_name) (simp add: demo_call_def call_name_def py_strip_def py_isspace_def)
  moreover have "submit_blocked demo_tools demo_input (gate_in demo_tool_state)"
    by (simp add: submit_blocked_def gate_in_def demo_tool_state_def demo_input_def evidence_digest_def) (simp add: demo_tools_def)
  moreover have "gr_is_valid (gate_of demo_tools demo_tool_state (demo_call i n))" for i n by (rule demo_gate)
  ultimately have "tx_to_execute R = [demo_call ''n'' ''chunk_search'']"
    using executed_calls_exact [OF run] by (simp add: demo_fields demo_contract demo_input_calls demo_gate)
  with run show ?thesis by blast
qed

lemma turn_state_grows_witness:
  "\<exists>R S'. process_tool_calls_turn demo_tools demo_input demo_tool_state = Inr (R, S') \<and> grows demo_tool_state S' \<and> canonical demo_tools S'"
proof -
  obtain R S' where run: "process_tool_calls_turn demo_tools demo_input demo_tool_state = Inr (R, S')" using demo_turn_runs by blast
  have "canonical demo_tools demo_tool_state"
    by (simp add: canonical_def demo_tool_state_def) (simp add: demo_tools_def other_of_def normalize_idem)
  from turn_state_grows [OF run this] run show ?thesis by blast
qed

end
