(* ===== verification/Turn_Model.thy ===== *)
theory Turn_Model
  imports Turn_Tools Tool_Disclosure
begin

text \<open>
  The model stage of a turn, \<open>llm_client/agent/mcp_turn_model.py\<close>: the context is brought up to date, the tools
  are disclosed, the model is called, and its answer becomes either the tool calls of the turn, a nudge or the
  final text.

  The model call is an argument: it answers with a result or fails. The messages, the warnings and the
  conversation trace are lists that the stage extends; the events for the foundation log and the lines of the
  process log are left out.
\<close>

section \<open>State and environment\<close>

record model_result =
  mr_model :: string
  mr_content :: string
  mr_tool_calls :: "tool_call list"
  mr_finish_reason :: string
  mr_warnings :: "string list"
  mr_usage :: "int \<times> int \<times> int \<times> int"
  mr_cost :: rat
  mr_responses_api :: bool

record call_failure =
  fl_text :: string
  fl_type :: string
  fl_classification :: "string option"

record model_env =
  md_tools :: tool_env
  md_openai_tools :: "py list"
  md_read_tool_def :: py
  md_call :: "string \<Rightarrow> message list \<Rightarrow> py list \<Rightarrow> call_failure + model_result"
  md_max_turns :: int
  md_max_tool_calls :: "int option"
  md_max_message_chars :: int
  md_keep_recent :: int
  md_preview_chars :: int
  md_json_value :: "py \<Rightarrow> string"
  md_json_len :: "message \<Rightarrow> int"
  md_label_digest :: "string list \<Rightarrow> string"
  md_progressive :: bool
  md_context_enabled :: bool
  md_max_handles :: int
  md_max_context_chars :: int
  md_requires_submit :: bool

record model_state =
  ms_messages :: "message list"
  ms_context_index :: "nat option"
  ms_trace :: "message list"
  ms_warnings :: "string list"
  ms_effective_model :: string
  ms_attempted :: "string list"
  ms_sticky :: bool
  ms_models_used :: "string list"
  ms_deficit_streak :: int
  ms_deficit_max :: int
  ms_deficit_nudged :: int
  ms_plain_streak :: int

record model_outcome =
  mo_calls :: "tool_call list"
  mo_continue :: bool
  mo_break :: bool
  mo_final_content :: string
  mo_finish_reason :: string
  mo_codes :: "string list"
  mo_repair_hints :: "string list"
  mo_deficit_digest :: "string option"
  mo_cost :: rat
  mo_usage :: "int \<times> int \<times> int \<times> int"
  mo_context_updates :: "(int \<times> int)"
  mo_cleared :: "(int \<times> int)"
  mo_compacted :: "(int \<times> int)"
  mo_hidden :: nat
  mo_repairs :: nat
  mo_reason_chars :: int
  mo_no_legal :: bool
  mo_deficit_nudges :: nat
  mo_autofilled :: counters
  mo_autofilled_calls :: nat
  mo_call_turns :: nat
  mo_empty_text_turns :: nat
  mo_responses_empty_text_turns :: nat

definition empty_outcome :: model_outcome where
  "empty_outcome =
     \<lparr>mo_calls = [], mo_continue = False, mo_break = False, mo_final_content = [], mo_finish_reason = ''stop'', mo_codes = [],
      mo_repair_hints = [], mo_deficit_digest = None, mo_cost = 0, mo_usage = (0, 0, 0, 0), mo_context_updates = (0, 0),
      mo_cleared = (0, 0), mo_compacted = (0, 0), mo_hidden = 0, mo_repairs = 0, mo_reason_chars = 0, mo_no_legal = False,
      mo_deficit_nudges = 0, mo_autofilled = [], mo_autofilled_calls = 0, mo_call_turns = 0, mo_empty_text_turns = 0,
      mo_responses_empty_text_turns = 0\<rparr>"

definition user_message :: "string \<Rightarrow> message" where
  "user_message s = [(''role'', PStr ''user''), (''content'', PStr s)]"

text \<open>A message that goes to the model and into the trace, and a warning.\<close>

definition say :: "string \<Rightarrow> model_state \<Rightarrow> model_state" where
  "say s M = M\<lparr>ms_messages := ms_messages M @ [user_message s], ms_trace := ms_trace M @ [user_message s]\<rparr>"

definition warn :: "string \<Rightarrow> model_state \<Rightarrow> model_state" where
  "warn s M = M\<lparr>ms_warnings := ms_warnings M @ [s]\<rparr>"

section \<open>The context\<close>

text \<open>The warnings end differently in a turn and before a forced final call.\<close>

definition metadata_items :: "tool_state \<Rightarrow> string \<Rightarrow> (string \<times> py) list" where
  "metadata_items S i =
     (case dict_get (tl_metadata S) i of
        Some (ids, handles) \<Rightarrow> [(''artifact_ids'', strs ids), (''artifact_handles'', PList (map pairs_py handles))]
      | None \<Rightarrow> [])"

definition context_content :: "model_env \<Rightarrow> tool_state \<Rightarrow> string option" where
  "context_content D S =
     build_active_artifact_context_content (tl_artifacts S) (tl_caps S) (map (\<lambda>(i, ids, handles). (i, handles)) (tl_metadata S))
       (md_max_handles D) (md_max_context_chars D) ''runtime_artifact_read''"

definition update_context :: "model_env \<Rightarrow> tool_state \<Rightarrow> model_state \<times> model_outcome \<Rightarrow> model_state \<times> model_outcome" where
  "update_context D S st =
     (case st of (M, R) \<Rightarrow>
        (case upsert_active_artifact_context_message (other_of (md_tools D)) (context_content D S) (md_context_enabled D)
                (ms_context_index M) (ms_messages M) of
           (ms, i, content, changed) \<Rightarrow>
             (let M1 = M\<lparr>ms_messages := ms, ms_context_index := i\<rparr> in
              case content of
                Some c \<Rightarrow>
                  (if changed \<and> c \<noteq> []
                   then (M1\<lparr>ms_trace := ms_trace M1 @ [user_message c @ [(''synthetic'', PStr ''active_artifact_context'')]]\<rparr>,
                         R\<lparr>mo_context_updates := (1, int (length c))\<rparr>)
                   else (M1, R))
              | None \<Rightarrow> (M1, R))))"

definition clear_context :: "model_env \<Rightarrow> string \<Rightarrow> tool_state \<Rightarrow> model_state \<times> model_outcome \<Rightarrow> model_state \<times> model_outcome" where
  "clear_context D ending S st =
     (case st of (M, R) \<Rightarrow>
        (case clear_old_tool_results_for_context (other_of (md_tools D)) (md_json_value D) (tt_sha (md_tools D)) (metadata_items S)
                (md_keep_recent D) (md_preview_chars D) (ms_messages M) of
           (ms, n, saved) \<Rightarrow>
             (let M1 = M\<lparr>ms_messages := ms\<rparr> in
              if n = 0 then (M1, R)
              else (warn (''CONTEXT_TOOL_RESULT_CLEARING: replaced '' @ py_int_str n @ '' older tool payload(s) with compact stubs '' @
                      ''(saved ~'' @ py_int_str saved @ '' chars; keep_recent='' @ py_int_str (md_keep_recent D) @ '')'' @ ending) M1,
                    R\<lparr>mo_cleared := (n, saved)\<rparr>))))"

definition compact_context :: "model_env \<Rightarrow> string \<Rightarrow> model_state \<times> model_outcome \<Rightarrow> model_state \<times> model_outcome" where
  "compact_context D ending st =
     (case st of (M, R) \<Rightarrow>
        (case compact_tool_history_for_context (md_json_len D) (md_max_message_chars D) (ms_messages M) of
           (ms, n, saved, chars) \<Rightarrow>
             (let M1 = M\<lparr>ms_messages := ms\<rparr> in
              if n = 0 then (M1, R)
              else (warn (''CONTEXT_COMPACTION: compacted '' @ py_int_str n @ '' tool message(s), saved ~'' @ py_int_str saved @
                      '' chars (history ~'' @ py_int_str chars @ '' chars)'' @ ending) M1,
                    R\<lparr>mo_compacted := (n, saved)\<rparr>))))"

section \<open>Disclosure\<close>

definition tool_surface :: "model_env \<Rightarrow> tool_state \<Rightarrow> py list" where
  "tool_surface D S = md_openai_tools D @ (if tl_registry S = [] then [] else [md_read_tool_def D])"

definition disclosing :: "model_env \<Rightarrow> bool" where
  "disclosing D \<longleftrightarrow> md_progressive D \<and> tt_contracts (md_tools D) \<noteq> []"

definition disclosure :: "model_env \<Rightarrow> tool_state \<Rightarrow> py list \<times> hidden_tool list \<times> nat" where
  "disclosure D S =
     (if disclosing D
      then filter_tools_for_disclosure (other_of (md_tools D)) (tt_sha (md_tools D))
        \<lparr>lv_codes = CONTRACT_CODES, lv_contracts = tt_contracts (md_tools D), lv_artifacts = tl_artifacts S,
         lv_capabilities = tl_caps S, lv_bindings = as_mapping (tl_bindings S)\<rparr> (tool_surface D S) 10 2 2
      else (tool_surface D S, [], 0))"

definition repair_names :: "hidden_tool list \<Rightarrow> string list" where
  "repair_names hs =
     fold (\<lambda>n seen. if n = [] \<or> n \<in> set seen then seen else seen @ [n])
       (map py_strip (concat (map (\<lambda>h. case hd_repair_tools h of Some ns \<Rightarrow> ns | None \<Rightarrow> []) hs))) []"

definition announce_hidden :: "model_env \<Rightarrow> tool_state \<Rightarrow> int \<Rightarrow> model_state \<times> model_outcome \<Rightarrow> model_state \<times> model_outcome" where
  "announce_hidden D S turn st =
     (case st of (M, R) \<Rightarrow>
        (case disclosure D S of (shown, hidden, n) \<Rightarrow>
          (if hidden = [] then (M, R)
           else
             (let labels = deficit_labels_from_hidden_entries hidden;
                  text = ''[SYSTEM: Currently unavailable tools with missing requirements: '' @ disclosure_message 220 hidden @ '']'' in
              (warn (''TOOL_DISCLOSURE: hidden currently incompatible tools on turn '' @ py_int_str (turn + 1) @ '': '' @
                  py_join '', '' (map hd_tool hidden)) (say text M),
               R\<lparr>mo_hidden := n,
                 mo_repairs := sum_list (map (\<lambda>h. case hd_repair_tools h of Some ns \<Rightarrow> length ns | None \<Rightarrow> 0) hidden),
                 mo_repair_hints := repair_names hidden,
                 mo_deficit_digest := (if labels = [] then None else Some (md_label_digest D labels)),
                 mo_reason_chars := int (length text)\<rparr>)))))"

text \<open>Turns after which the same requirements are still missing.\<close>

definition note_deficit :: "model_env \<Rightarrow> tool_state \<Rightarrow> bool \<Rightarrow> string option \<Rightarrow> model_state \<times> model_outcome \<Rightarrow> model_state \<times> model_outcome" where
  "note_deficit D S had_evidence prev st =
     (case st of (M, R) \<Rightarrow>
        (let labels = deficit_labels_from_hidden_entries (fst (snd (disclosure D S)));
             streak = (if had_evidence \<and> mo_deficit_digest R \<noteq> None
                       then (if prev = mo_deficit_digest R then ms_deficit_streak M + 1 else 0)
                       else if \<not> had_evidence then 0 else ms_deficit_streak M);
             M1 = M\<lparr>ms_deficit_streak := streak, ms_deficit_max := max (ms_deficit_max M) streak\<rparr>;
             hints = take 3 (filter (\<lambda>n. \<not> is_budget_exempt_tool n) (mo_repair_hints R)) in
         if 2 \<le> streak \<and> ms_deficit_nudged M < streak \<and> labels \<noteq> []
         then (say (''[SYSTEM: Recent evidence calls did not reduce unresolved artifacts. Still missing: '' @
                 py_join '', '' (take 4 labels) @ ''. Choose the next call to close one missing requirement.'' @
                 (if hints = [] then [] else '' Try: '' @ py_join '', '' hints @ ''.'') @ '']'') (M1\<lparr>ms_deficit_nudged := streak\<rparr>),
               R\<lparr>mo_deficit_nudges := 1\<rparr>)
         else (M1, R)))"

definition NO_LEGAL_WARNING :: string where
  "NO_LEGAL_WARNING =
     ''TOOL_DISCLOSURE: no legal non-control tools available this turn. '' @
     ''Use conversion/planning/control tools to unlock capabilities.''"

definition note_no_legal :: "model_env \<Rightarrow> tool_state \<Rightarrow> model_state \<times> model_outcome \<Rightarrow> model_state \<times> model_outcome" where
  "note_no_legal D S st =
     (case st of (M, R) \<Rightarrow>
        (if disclosing D \<and>
            list_all (\<lambda>t. case t of PDict _ \<Rightarrow> is_control_tool_name (tool_name (other_of (md_tools D)) t) (tt_contracts (md_tools D)) | _ \<Rightarrow> True)
              (fst (disclosure D S))
         then (warn NO_LEGAL_WARNING M, R\<lparr>mo_no_legal := True, mo_codes := mo_codes R @ [''NO_LEGAL_NONCONTROL_TOOLS'']\<rparr>)
         else (M, R)))"

section \<open>The call\<close>

text \<open>Is it the provider's failure, its event code, its classification and whether it may be retried.\<close>

definition CREDIT_CLASSES :: "string list" where
  "CREDIT_CLASSES = [''provider_credits_exhausted'', ''provider_insufficient_credits'', ''provider_insufficient_quota'']"

definition provider_failure_classification :: "call_failure \<Rightarrow> string \<Rightarrow> bool \<times> string \<times> string \<times> bool" where
  "provider_failure_classification f text =
     (let normalized = (case fl_classification f of Some c \<Rightarrow> py_lower (py_strip c) | None \<Rightarrow> []); lower = py_lower (py_strip text) in
      if prefix ''provider_empty'' normalized then (True, ''PROVIDER_EMPTY_CANDIDATES'', normalized, True)
      else if normalized \<in> set CREDIT_CLASSES then (True, ''PROVIDER_CREDITS_EXHAUSTED'', normalized, False)
      else if py_any_in [''provider_empty_candidates'', ''empty content from llm''] lower
      then (True, ''PROVIDER_EMPTY_CANDIDATES'', ''provider_empty_candidates'', True)
      else if py_any_in [''insufficient credits'', ''insufficient quota'', [CHR 0x22] @ ''code'' @ [CHR 0x22] @ '':402''] lower
      then (True, ''PROVIDER_CREDITS_EXHAUSTED'', ''provider_credits_exhausted'', False)
      else (False, [], [], False))"

definition failure_text :: "call_failure \<Rightarrow> string" where
  "failure_text f = (if py_strip (fl_text f) = [] then fl_type f else py_strip (fl_text f))"

definition call_failed :: "int \<Rightarrow> call_failure \<Rightarrow> model_state \<times> model_outcome \<Rightarrow> model_state \<times> model_outcome" where
  "call_failed turn f st =
     (case st of (M, R) \<Rightarrow>
        (let text = failure_text f; code = fst (snd (provider_failure_classification f text)) in
         (warn (''AGENT_LLM_CALL_FAILED: turn='' @ py_int_str (turn + 1) @ '' model='' @ ms_effective_model M @ '' error='' @ text) M,
          R\<lparr>mo_codes := mo_codes R @ [or_text code ''TOOL_EXECUTION_RUNTIME_ERROR''], mo_final_content := text,
            mo_finish_reason := ''error'', mo_break := True\<rparr>)))"

definition accept_result :: "model_result \<Rightarrow> model_state \<times> model_outcome \<Rightarrow> model_state \<times> model_outcome" where
  "accept_result r st =
     (case st of (M, R) \<Rightarrow>
        (let name = or_text (py_strip (mr_model r)) (ms_effective_model M);
             M1 = M\<lparr>ms_models_used := List.insert name (ms_models_used M),
                    ms_attempted := (if name \<noteq> [] \<and> name \<notin> set (ms_attempted M) then ms_attempted M @ [name] else ms_attempted M),
                    ms_warnings := ms_warnings M @ mr_warnings r\<rparr> in
         ((if name = ms_effective_model M then M1
           else warn (''STICKY_FALLBACK: '' @ ms_effective_model M @ '' failed, using '' @ name @ '' for remaining turns'')
                  (M1\<lparr>ms_effective_model := name, ms_sticky := True\<rparr>)),
          R\<lparr>mo_cost := mr_cost r, mo_usage := mr_usage r\<rparr>)))"

section \<open>Plain text\<close>

definition CONTINUE_NUDGE :: string where
  "CONTINUE_NUDGE =
     ''[SYSTEM: Do NOT finalize yet. Continue with tools to resolve remaining TODO atoms. '' @
     ''Review your TODO status, gather missing evidence, then submit.]''"

definition SUBMIT_NUDGE :: string where
  "SUBMIT_NUDGE =
     ''[SYSTEM: Do NOT answer in plain text. You MUST call '' @
     ''submit_answer(reasoning, answer) now. Use a short factual '' @
     ''answer (<=8 words). No additional searches.]''"

definition draft :: "string \<Rightarrow> model_state \<Rightarrow> model_state" where
  "draft s M = (let m = [(''role'', PStr ''assistant''), (''content'', PStr s)] in
     if s = [] then M else M\<lparr>ms_messages := ms_messages M @ [m], ms_trace := ms_trace M @ [m]\<rparr>)"

definition TURN_WARNING_THRESHOLD :: int where
  "TURN_WARNING_THRESHOLD = 3"

text \<open>An answer without tool calls: nudged on while a submission is owed and turns remain, final otherwise.\<close>

definition plain_text :: "model_env \<Rightarrow> int \<Rightarrow> bool \<Rightarrow> model_result \<Rightarrow> model_state \<times> model_outcome \<Rightarrow> model_state \<times> model_outcome" where
  "plain_text D turn submitted r st =
     (case st of (M, R) \<Rightarrow>
        (let remaining = md_max_turns D - (turn + 1) in
         if md_requires_submit D \<and> \<not> submitted \<and> 0 < remaining
         then (let first = (ms_plain_streak M = 0 \<and> TURN_WARNING_THRESHOLD < remaining);
                   M1 = say (if first then CONTINUE_NUDGE else SUBMIT_NUDGE) (draft (mr_content r) M) in
               (M1\<lparr>ms_plain_streak := ms_plain_streak M + 1\<rparr>, R\<lparr>mo_continue := True\<rparr>))
         else (M\<lparr>ms_trace := ms_trace M @
                   (if mr_content r = [] then [] else [[(''role'', PStr ''assistant''), (''content'', PStr (mr_content r))]])\<rparr>,
               R\<lparr>mo_final_content := mr_content r, mo_finish_reason := mr_finish_reason r, mo_break := True,
                 mo_codes := mo_codes R @ (if mr_content r = [] then [''PROVIDER_EMPTY_CANDIDATES''] else [])\<rparr>)))"

section \<open>The tool calls\<close>

definition patched :: "model_env \<Rightarrow> tool_call \<Rightarrow> tool_call" where
  "patched D tc = normalize_tool_call_name (fst (autofill_tool_reasoning (tt_json (md_tools D)) tc))"

definition autofilled_names :: "model_env \<Rightarrow> tool_call list \<Rightarrow> string list" where
  "autofilled_names D tcs =
     filter (\<lambda>n. n \<noteq> []) (map call_name (filter (\<lambda>tc. snd (autofill_tool_reasoning (tt_json (md_tools D)) tc)) tcs))"

definition autofill_calls :: "model_env \<Rightarrow> tool_call list \<Rightarrow> model_state \<times> model_outcome \<Rightarrow> model_state \<times> model_outcome" where
  "autofill_calls D tcs st =
     (case st of (M, R) \<Rightarrow>
        (let names = autofilled_names D tcs in
         ((if names = [] then M
           else warn (''OBSERVABILITY: auto-filled missing tool_reasoning on tools: '' @ py_join '', '' names) M),
          R\<lparr>mo_autofilled := fold (\<lambda>n. bump n 1) names [],
            mo_autofilled_calls := length (filter (\<lambda>tc. snd (autofill_tool_reasoning (tt_json (md_tools D)) tc)) tcs)\<rparr>)))"

definition exempt_names :: string where
  "exempt_names = py_join '', '' (sort BUDGET_EXEMPT_TOOL_NAMES)"

text \<open>What fits the budget of retrieval calls, given the records so far, and the calls that are dropped.\<close>

definition fit_budget :: "model_env \<Rightarrow> tool_record list \<Rightarrow> tool_call list \<Rightarrow> tool_call list \<times> nat option" where
  "fit_budget D so_far tcs =
     (case md_max_tool_calls D of
        None \<Rightarrow> (tcs, None)
      | Some limit \<Rightarrow>
          (let remaining = limit - int (count_budgeted_records so_far) in
           if remaining < int (count_budgeted_tool_calls tcs)
           then (case trim_tool_calls_to_budget tcs (max remaining 0) of (ks, d) \<Rightarrow> (ks, Some d))
           else (tcs, None)))"

definition trim_message :: "int \<Rightarrow> nat \<Rightarrow> string" where
  "trim_message remaining dropped =
     ''[SYSTEM: Retrieval-tool budget allows only '' @ py_int_str remaining @ '' more budgeted call(s). '' @
     ''Ignored '' @ nat_digits dropped @ '' over-budget retrieval call(s). '' @
     ''Budget-exempt tools ('' @ exempt_names @ '') are still allowed.]''"

definition lacks_reasoning :: "model_env \<Rightarrow> tool_call \<Rightarrow> bool" where
  "lacks_reasoning D tc \<longleftrightarrow>
     (case args_of (md_tools D) tc of Some args \<Rightarrow> \<not> has_reasoning TOOL_REASONING_FIELD args | None \<Rightarrow> True)"

definition reasoning_nudge :: "model_env \<Rightarrow> tool_call list \<Rightarrow> model_state \<Rightarrow> model_state" where
  "reasoning_nudge D tcs M =
     (let names = map (\<lambda>tc. shown_name (tcl_name tc)) (filter (lacks_reasoning D) tcs) in
      if names = [] then M
      else warn (''OBSERVABILITY: missing tool_reasoning on tools: '' @ py_join '', '' names)
        (say (''[SYSTEM: Observability requirement: every tool call must include '' @ [CHR 0x27] @ TOOL_REASONING_FIELD @
          [CHR 0x27] @ '' with one concise sentence explaining why this call is needed.'' @
          (if tt_require_reasoning (md_tools D) then '' Calls without it are rejected.'' else []) @ '']'') M))"

definition call_py :: "tool_call \<Rightarrow> py" where
  "call_py tc = PDict [(PStr ''id'', PStr (tcl_id tc)), (PStr ''type'', PStr ''function''),
     (PStr ''function'', PDict [(PStr ''name'', PStr (tcl_name tc)), (PStr ''arguments'', tcl_arguments tc)])]"

definition call_trace_py :: "tool_call \<Rightarrow> py" where
  "call_trace_py tc = PDict [(PStr ''id'', PStr (tcl_id tc)), (PStr ''name'', PStr (tcl_name tc)), (PStr ''arguments'', tcl_arguments tc)]"

definition say_calls :: "string \<Rightarrow> tool_call list \<Rightarrow> model_state \<Rightarrow> model_state" where
  "say_calls content tcs M =
     M\<lparr>ms_messages := ms_messages M @ [[(''role'', PStr ''assistant''),
         (''content'', if content = [] then PNone else PStr content), (''tool_calls'', PList (map call_py tcs))]],
       ms_trace := ms_trace M @ [[(''role'', PStr ''assistant''), (''content'', PStr content), (''tool_calls'', PList (map call_trace_py tcs))]]\<rparr>"

definition take_calls :: "model_env \<Rightarrow> tool_record list \<Rightarrow> model_result \<Rightarrow> model_state \<times> model_outcome \<Rightarrow> model_state \<times> model_outcome" where
  "take_calls D so_far r st =
     (case autofill_calls D (mr_tool_calls r) (map_prod (ms_plain_streak_update (\<lambda>_. 0)) id st) of (M1, R1) \<Rightarrow>
        (let blank = (py_strip (mr_content r) = []) in
         case fit_budget D so_far (map (patched D) (mr_tool_calls r)) of (kept, dropped) \<Rightarrow>
           (let M2 = (case (dropped, md_max_tool_calls D) of
                  (Some d, Some limit) \<Rightarrow> say (trim_message (limit - int (count_budgeted_records so_far)) d) M1 | _ \<Rightarrow> M1) in
            (say_calls (mr_content r) kept (reasoning_nudge D kept M2),
             R1\<lparr>mo_calls := kept, mo_call_turns := 1, mo_empty_text_turns := (if blank then 1 else 0),
                mo_responses_empty_text_turns := (if blank \<and> mr_responses_api r then 1 else 0)\<rparr>))))"

section \<open>The stage\<close>

record stage_input =
  si_turn :: int
  si_had_evidence :: bool
  si_deficit_digest :: "string option"
  si_submitted :: bool
  si_records :: "tool_record list"

definition prepare_turn :: "model_env \<Rightarrow> tool_state \<Rightarrow> stage_input \<Rightarrow> model_state \<Rightarrow> model_state \<times> model_outcome" where
  "prepare_turn D S I M =
     note_no_legal D S (note_deficit D S (si_had_evidence I) (si_deficit_digest I)
       (announce_hidden D S (si_turn I) (compact_context D [] (clear_context D ''.'' S (update_context D S (M, empty_outcome))))))"

definition run_turn_model_stage :: "model_env \<Rightarrow> tool_state \<Rightarrow> stage_input \<Rightarrow> model_state \<Rightarrow> model_state \<times> model_outcome" where
  "run_turn_model_stage D S I M =
     (let st = prepare_turn D S I M in
      case md_call D (ms_effective_model (fst st)) (ms_messages (fst st)) (fst (disclosure D S)) of
        Inl f \<Rightarrow> call_failed (si_turn I) f st
      | Inr r \<Rightarrow>
          (if mr_tool_calls r = [] then plain_text D (si_turn I) (si_submitted I) r (accept_result r st)
           else take_calls D (si_records I) r (accept_result r st)))"

end
