(* ===== verification/Agent_Finalization.thy ===== *)
theory Agent_Finalization
  imports Turn_Model
begin

text \<open>
  The end of an agent run: the forced final answer of \<open>llm_client/agent/mcp_finalization.py\<close>, asked for without
  tools over a chain of models with a circuit breaker, and the completion of \<open>llm_client/agent/mcp_turn_completion.py\<close>,
  which decides whether the required submission counts as made.

  The call of a model is an argument that also takes the number of the attempt, since the same model may answer
  differently. The normalisation of a free text into a short answer is an argument of the completion: it is a cascade
  of regular expressions.
\<close>

section \<open>The chain of models\<close>

record final_env =
  fz_model :: model_env
  fz_call :: "nat \<Rightarrow> string \<Rightarrow> message list \<Rightarrow> call_failure + model_result"
  fz_fallbacks :: "string list"
  fz_max_attempts :: nat
  fz_threshold :: int
  fz_dash :: string

definition same_model :: "string \<Rightarrow> string \<Rightarrow> bool" where
  "same_model a b \<longleftrightarrow> py_lower a = py_lower b"

definition final_chain :: "string \<Rightarrow> string list \<Rightarrow> string list" where
  "final_chain effective fallbacks = effective # filter (\<lambda>m. \<not> same_model m effective) fallbacks"

definition model_for_attempt :: "string list \<Rightarrow> nat \<Rightarrow> string" where
  "model_for_attempt chain i = (if i < length chain then chain ! i else last chain)"

definition forced_num_retries :: "(string \<Rightarrow> int option) \<Rightarrow> py option \<Rightarrow> int" where
  "forced_num_retries parse v =
     max 0 (min (case v of None \<Rightarrow> 1 | Some x \<Rightarrow> (case py_int parse x of Some n \<Rightarrow> n | None \<Rightarrow> 1)) 1)"

section \<open>The message\<close>

definition no_tools_suffix :: "final_env \<Rightarrow> string" where
  "no_tools_suffix Z =
     '' Tools are now DISABLED '' @ fz_dash Z @ '' do NOT call any functions. '' @
     ''Respond with ONLY a short text answer (name, date, number, or yes/no).''"

definition force_message :: "final_env \<Rightarrow> string \<Rightarrow> string" where
  "force_message Z reason =
     (if reason = ''max_tool_calls''
      then ''[SYSTEM: Tool-call budget exhausted. You MUST give your best answer now '' @
           ''using evidence already retrieved. Extract the best name/date/number.''
      else if reason = ''control_churn''
      then ''[SYSTEM: Tool-call loop stalled with repeated non-executable calls. '' @
           ''You MUST submit your best factual answer now from current evidence.''
      else if reason = ''retrieval_stagnation''
      then ''[SYSTEM: Retrieval stagnated with no new evidence. '' @
           ''Submit your best factual answer now based only on retrieved evidence.''
      else ''[SYSTEM: All turns exhausted. You MUST give your best answer now '' @
           ''based on the evidence you found. Extract any name, date, or number '' @
           ''from the tool results. '' @ [CHR 0x27] @ ''I don'' @ [CHR 0x27] @ ''t know'' @ [CHR 0x27] @
           '' is NOT acceptable '' @ fz_dash Z @ '' guess.'') @
     no_tools_suffix Z @ '']''"

definition prepare_final :: "final_env \<Rightarrow> tool_state \<Rightarrow> string \<Rightarrow> model_state \<Rightarrow> model_state \<times> model_outcome" where
  "prepare_final Z S reason M =
     compact_context (fz_model Z) '' before forced-final call'' (clear_context (fz_model Z) '' before forced-final call'' S
       (update_context (fz_model Z) S (say (force_message Z reason) M, empty_outcome)))"

section \<open>The attempts\<close>

record final_attempt =
  fa_index :: nat
  fa_model :: string
  fa_error :: "(string \<times> string \<times> string) option"

record final_state =
  fs_attempts :: nat
  fs_open :: bool
  fs_streak :: int
  fs_last_class :: "string option"
  fs_used :: bool
  fs_succeeded :: bool
  fs_events :: "string list"
  fs_log :: "final_attempt list"
  fs_codes :: "string list"
  fs_error :: "string option"
  fs_result :: "model_result option"
  fs_cost :: rat
  fs_usage :: "int \<times> int \<times> int \<times> int"
  fs_turns :: nat

definition new_final :: final_state where
  "new_final =
     \<lparr>fs_attempts = 0, fs_open = False, fs_streak = 0, fs_last_class = None, fs_used = False, fs_succeeded = False, fs_events = [],
      fs_log = [], fs_codes = [], fs_error = None, fs_result = None, fs_cost = 0, fs_usage = (0, 0, 0, 0), fs_turns = 0\<rparr>"

definition record_final_error :: "final_env \<Rightarrow> string \<Rightarrow> nat \<Rightarrow> string \<Rightarrow> string \<Rightarrow> string \<Rightarrow> string \<Rightarrow> final_state \<Rightarrow> final_state" where
  "record_final_error Z effective i model code text error_class Q =
     (let streak = (if Some error_class = fs_last_class Q then fs_streak Q + 1 else 1); opens = (fz_threshold Z \<le> streak) in
      Q\<lparr>fs_codes := fs_codes Q @ [code] @ (if opens then [''FINALIZATION_CIRCUIT_BREAKER_OPEN''] else []),
        fs_events := fs_events Q @
          [if same_model model effective then ''FINALIZATION_PRIMARY_FAILED'' else ''FINALIZATION_FALLBACK_FAILED''] @
          (if opens then [''FINALIZATION_CIRCUIT_BREAKER_OPEN''] else []),
        fs_log := fs_log Q @ [\<lparr>fa_index = i + 1, fa_model = model, fa_error = Some (code, text, error_class)\<rparr>],
        fs_streak := streak, fs_last_class := Some error_class, fs_error := Some text, fs_open := (fs_open Q \<or> opens)\<rparr>)"

text \<open>
  An answer with tool calls is kept when it has text. The arguments of its \<open>submit_answer\<close> are looked for with
  \<open>getattr\<close>, which finds none in a call that is a dictionary.
\<close>

definition salvaged_text :: "model_result \<Rightarrow> string" where
  "salvaged_text r = py_strip (mr_content r)"

definition SALVAGED :: string where
  "SALVAGED =
     ''FINALIZATION_TOOL_CALLS_SALVAGED: model returned tool_calls in '' @
     ''forced-final lane; salvaged answer from tool call arguments.''"

definition salvage :: "model_result \<Rightarrow> model_result option" where
  "salvage r =
     (if mr_tool_calls r = [] then Some r
      else if salvaged_text r = [] then None
      else Some (r\<lparr>mr_content := salvaged_text r, mr_tool_calls := [], mr_finish_reason := ''stop''\<rparr>))"

definition final_answered :: "final_env \<Rightarrow> string \<Rightarrow> nat \<Rightarrow> string \<Rightarrow> model_result \<Rightarrow> final_state \<Rightarrow> final_state" where
  "final_answered Z effective i model r Q =
     (case (fs_usage Q, mr_usage r) of ((a, b, c, d), (a', b', c', d')) \<Rightarrow>
        Q\<lparr>fs_streak := 0, fs_last_class := None, fs_result := Some r,
          fs_log := fs_log Q @ [\<lparr>fa_index = i + 1, fa_model = model, fa_error = None\<rparr>],
          fs_succeeded := (fs_succeeded Q \<or> \<not> same_model model effective),
          fs_events := fs_events Q @
            [if same_model model effective then ''FINALIZATION_PRIMARY_SUCCEEDED'' else ''FINALIZATION_FALLBACK_SUCCEEDED''],
          fs_cost := fs_cost Q + mr_cost r, fs_usage := (a + a', b + b', c + c', d + d'), fs_turns := fs_turns Q + 1\<rparr>)"

definition EMPTY_FINAL :: string where
  "EMPTY_FINAL = ''Provider returned empty content on forced-final call.''"

definition DISALLOWED :: string where
  "DISALLOWED = ''Forced-final returned tool calls while tools are disallowed.''"

definition begin_attempt :: "string \<Rightarrow> string \<Rightarrow> final_state \<Rightarrow> final_state" where
  "begin_attempt effective model Q =
     (let fallback = (\<not> same_model model effective) in
      Q\<lparr>fs_attempts := fs_attempts Q + 1, fs_used := (fs_used Q \<or> fallback),
        fs_events := fs_events Q @ (if fallback \<and> \<not> fs_used Q then [''FINALIZATION_FALLBACK_USED''] else [])\<rparr>)"

text \<open>The models and warnings that an answer leaves in the run.\<close>

definition note_final_model :: "string \<Rightarrow> model_result \<Rightarrow> model_state \<Rightarrow> model_state" where
  "note_final_model model r M =
     (let name = or_text (py_strip (mr_model r)) model in
      M\<lparr>ms_models_used := List.insert name (ms_models_used M),
        ms_attempted := (if name \<noteq> [] \<and> name \<notin> set (ms_attempted M) then ms_attempted M @ [name] else ms_attempted M),
        ms_warnings := ms_warnings M @ mr_warnings r @ (if mr_tool_calls r \<noteq> [] \<and> salvage r \<noteq> None then [SALVAGED] else [])\<rparr>)"

definition final_attempt_step :: "final_env \<Rightarrow> string \<Rightarrow> nat \<Rightarrow> model_state \<times> final_state \<Rightarrow> model_state \<times> final_state" where
  "final_attempt_step Z effective i st =
     (case st of (M, Q0) \<Rightarrow>
        (let model = model_for_attempt (final_chain effective (fz_fallbacks Z)) i; Q = begin_attempt effective model Q0;
             failed_with = record_final_error Z effective i model in
         case fz_call Z i model (ms_messages M) of
           Inl f \<Rightarrow>
             (let text = failure_text f in
              case provider_failure_classification f text of (is_provider, code, classification, retryable) \<Rightarrow>
                (warn (''AGENT_LLM_CALL_FAILED: forced_final attempt='' @ py_int_str (int i + 1) @ ''/'' @
                   py_int_str (int (fz_max_attempts Z)) @ '' model='' @ model @ '' error='' @ text) M,
                 failed_with (or_text code ''TOOL_EXECUTION_RUNTIME_ERROR'') text (or_text classification (fl_type f)) Q))
         | Inr r \<Rightarrow>
             (let M1 = note_final_model model r M in
              case salvage r of
                None \<Rightarrow> (M1, failed_with ''FINALIZATION_TOOL_CALL_DISALLOWED'' DISALLOWED ''finalization_tool_call_disallowed'' Q)
              | Some r' \<Rightarrow>
                  (if mr_content r' = [] then (M1, failed_with ''PROVIDER_EMPTY_CANDIDATES'' EMPTY_FINAL ''provider_empty_candidates'' Q)
                   else (M1\<lparr>ms_trace := ms_trace M1 @ [[(''role'', PStr ''assistant''), (''content'', PStr (mr_content r'))]]\<rparr>,
                         final_answered Z effective i model r' Q)))))"

fun final_attempts :: "final_env \<Rightarrow> string \<Rightarrow> nat list \<Rightarrow> model_state \<times> final_state \<Rightarrow> model_state \<times> final_state" where
  "final_attempts Z effective [] st = st"
| "final_attempts Z effective (i # is) st =
     (if fs_open (snd st) \<or> fs_result (snd st) \<noteq> None then st
      else final_attempts Z effective is (final_attempt_step Z effective i st))"

record forced_result =
  fr_content :: string
  fr_finish :: string
  fr_primary :: string
  fr_codes :: "string list"
  fr_state :: final_state

definition execute_forced_finalization :: "final_env \<Rightarrow> tool_state \<Rightarrow> string \<Rightarrow> model_state \<Rightarrow> model_state \<times> forced_result" where
  "execute_forced_finalization Z S reason M =
     (let effective = ms_effective_model M in
      case final_attempts Z effective [0..<fz_max_attempts Z] (fst (prepare_final Z S reason M), new_final) of
        (M1, Q) \<Rightarrow>
          (case fs_result Q of
             Some r \<Rightarrow> (M1, \<lparr>fr_content = mr_content r, fr_finish = mr_finish_reason r, fr_primary = effective, fr_codes = [], fr_state = Q\<rparr>)
           | None \<Rightarrow>
               ((if fs_open Q
                 then warn (''FINALIZATION_CIRCUIT_BREAKER_OPEN: halted forced-final retries after '' @
                        nat_digits (fs_attempts Q) @ '' attempt(s).'') M1 else M1),
                \<lparr>fr_content = or_value (fs_error Q) ''Forced-final failed with no provider content.'', fr_finish = ''error'',
                 fr_primary = effective, fr_codes = fs_codes Q, fr_state = Q\<rparr>)))"

section \<open>Completion\<close>

record completion_policy =
  cp_requires_submit :: bool
  cp_retry_on_exhaustion :: bool
  cp_accept_forced :: bool
  cp_normalize :: "string \<Rightarrow> string"

record completion =
  cm_content :: string
  cm_finish :: string
  cm_codes :: "string list"
  cm_warnings :: "string list"
  cm_missing :: bool
  cm_retried :: bool
  cm_accepted :: bool
  cm_submit_calls :: nat
  cm_succeeded :: bool
  cm_submitted :: "string option"
  cm_forced :: "forced_result option"

definition submit_retry_warning :: "string \<Rightarrow> string" where
  "submit_retry_warning reason =
     (if reason = ''budget''
      then ''SUBMIT_FORCED_RETRY_BUDGET_EXHAUSTION: counted one forced submit retry attempt after tool budget exhaustion.''
      else if reason = ''turns''
      then ''SUBMIT_FORCED_RETRY_TURN_EXHAUSTION: counted one forced submit retry attempt after max-turn exhaustion.''
      else ''SUBMIT_FORCED_RETRY_FORCED_FINAL: counted one forced submit retry attempt after forced-final reason '' @
        [CHR 0x27] @ reason @ [CHR 0x27] @ ''.'')"

definition accept_warning :: "string \<Rightarrow> string" where
  "accept_warning reason =
     (if reason = ''budget''
      then ''SUBMIT_FORCED_ACCEPT_BUDGET_EXHAUSTION: accepted forced-final answer without grounding validation because tool budget was exhausted.''
      else if reason = ''turns''
      then ''SUBMIT_FORCED_ACCEPT_TURN_EXHAUSTION: accepted forced-final answer without grounding validation because max turns were exhausted.''
      else ''SUBMIT_FORCED_ACCEPT_FORCED_FINAL: accepted forced-final answer without grounding validation after forced-final termination ('' @
        [CHR 0x27] @ reason @ [CHR 0x27] @ '').'')"

definition accept_code :: "string \<Rightarrow> string" where
  "accept_code reason =
     (if reason = ''budget'' then ''SUBMIT_FORCED_ACCEPT_BUDGET_EXHAUSTION''
      else if reason = ''turns'' then ''SUBMIT_FORCED_ACCEPT_TURN_EXHAUSTION'' else ''SUBMIT_FORCED_ACCEPT_FORCED_FINAL'')"

definition exhaustion_reason :: "string \<Rightarrow> string" where
  "exhaustion_reason reason = (if reason = ''max_tool_calls'' then ''budget'' else if reason = ''max_turns'' then ''turns'' else reason)"

text \<open>The forced answer is accepted when it has text, or when a guess of an earlier submission is kept.\<close>

definition accept_forced :: "completion_policy \<Rightarrow> string \<Rightarrow> string option \<Rightarrow> completion \<Rightarrow> completion" where
  "accept_forced P reason guess C =
     (let kept = (case guess of Some g \<Rightarrow> py_strip g | None \<Rightarrow> []);
          text = (if cm_finish C = ''error'' then [] else py_strip (cm_content C)) in
      if \<not> cp_accept_forced P \<or> (text = [] \<and> kept = []) then C
      else C\<lparr>cm_accepted := True, cm_succeeded := True, cm_missing := False,
             cm_submitted := Some (or_value (cm_submitted C)
               (or_text (if kept \<noteq> [] then kept else cp_normalize P (cm_content C)) text)),
             cm_warnings := cm_warnings C @ [accept_warning reason], cm_codes := cm_codes C @ [accept_code reason]\<rparr>)"

definition force_submission :: "completion_policy \<Rightarrow> string option \<Rightarrow> string option \<Rightarrow> completion \<Rightarrow> completion" where
  "force_submission P force guess C =
     (case force of
        Some f \<Rightarrow>
          (if cp_requires_submit P \<and> \<not> cm_succeeded C
           then accept_forced P (exhaustion_reason f) guess
             (if cp_retry_on_exhaustion P
              then C\<lparr>cm_retried := True, cm_submit_calls := cm_submit_calls C + 1,
                     cm_warnings := cm_warnings C @ [submit_retry_warning (exhaustion_reason f)]\<rparr> else C)
           else C)
      | None \<Rightarrow> C)"

definition report_missing :: "nat \<Rightarrow> completion \<Rightarrow> completion" where
  "report_missing calls C =
     (if cm_missing C
      then (let n = calls + cm_submit_calls C;
                code = (if n = 0 then ''REQUIRED_SUBMIT_NOT_ATTEMPTED'' else ''REQUIRED_SUBMIT_NOT_ACCEPTED'') in
            C\<lparr>cm_codes := (if cm_codes C = [] then [code] else cm_codes C),
              cm_warnings := cm_warnings C @
                [''REQUIRED_SUBMIT: submit_answer tool is available but no accepted submit was recorded. submit_answer_call_count='' @
                 nat_digits n @ ''.'']\<rparr>)
      else C)"

record final_input =
  fi_force :: "string option"
  fi_content :: string
  fi_finish :: string
  fi_submit_calls :: nat
  fi_succeeded :: bool
  fi_submitted :: "string option"
  fi_guess :: "string option"

definition resolve_turn_completion ::
  "final_env \<Rightarrow> completion_policy \<Rightarrow> tool_state \<Rightarrow> final_input \<Rightarrow> model_state \<Rightarrow> model_state \<times> completion" where
  "resolve_turn_completion Z P S I M =
     (let forced = (case fi_force I of
              Some reason \<Rightarrow> if fi_succeeded I then None else Some (execute_forced_finalization Z S reason M) | None \<Rightarrow> None);
          C = \<lparr>cm_content = (case forced of Some (M', F) \<Rightarrow> fr_content F | None \<Rightarrow> fi_content I),
               cm_finish = (case forced of Some (M', F) \<Rightarrow> fr_finish F | None \<Rightarrow> fi_finish I),
               cm_codes = (case forced of Some (M', F) \<Rightarrow> fr_codes F | None \<Rightarrow> []), cm_warnings = [],
               cm_missing = (cp_requires_submit P \<and> \<not> fi_succeeded I), cm_retried = False, cm_accepted = False, cm_submit_calls = 0,
               cm_succeeded = fi_succeeded I, cm_submitted = fi_submitted I, cm_forced = map_option snd forced\<rparr> in
      ((case forced of Some (M', F) \<Rightarrow> M' | None \<Rightarrow> M),
       report_missing (fi_submit_calls I) (force_submission P (fi_force I) (fi_guess I) C)))"

section \<open>The attempts are bounded and in the order of the chain\<close>

text \<open>The class of the failure of an attempt, and how many of the last attempts failed with the class of the last.\<close>

definition failure_class :: "final_attempt \<Rightarrow> string option" where
  "failure_class a = map_option (snd \<circ> snd) (fa_error a)"

definition failure_run :: "final_attempt list \<Rightarrow> int" where
  "failure_run l = (if l = [] then 0 else int (length (takeWhile (\<lambda>a. failure_class a = failure_class (last l)) (rev l))))"

lemma failure_run_snoc:
  "failure_run (l @ [a]) = (if l \<noteq> [] \<and> failure_class a = failure_class (last l) then failure_run l + 1 else 1)"
  by (cases l rule: rev_cases) (auto simp: failure_run_def)

text \<open>What holds while the attempts go on.\<close>

definition all_failed :: "final_env \<Rightarrow> string \<Rightarrow> nat \<Rightarrow> final_state \<Rightarrow> bool" where
  "all_failed Z effective i Q \<longleftrightarrow> fs_attempts Q = i
     \<and> map fa_index (fs_log Q) = [1..<Suc i] \<and> map fa_model (fs_log Q) = map (model_for_attempt (final_chain effective (fz_fallbacks Z))) [0..<i]
     \<and> (\<forall>a \<in> set (fs_log Q). fa_error a \<noteq> None) \<and> fs_streak Q = failure_run (fs_log Q)
     \<and> fs_last_class Q = (if fs_log Q = [] then None else failure_class (last (fs_log Q)))
     \<and> fs_result Q = None \<and> fs_open Q = (fs_log Q \<noteq> [] \<and> fz_threshold Z \<le> failure_run (fs_log Q))"

definition answered :: "final_env \<Rightarrow> string \<Rightarrow> nat \<Rightarrow> final_state \<Rightarrow> bool" where
  "answered Z effective i Q \<longleftrightarrow> fs_attempts Q = i
     \<and> map fa_index (fs_log Q) = [1..<Suc i] \<and> map fa_model (fs_log Q) = map (model_for_attempt (final_chain effective (fz_fallbacks Z))) [0..<i]
     \<and> fs_log Q \<noteq> [] \<and> fa_error (last (fs_log Q)) = None \<and> (\<forall>a \<in> set (butlast (fs_log Q)). fa_error a \<noteq> None)
     \<and> (\<exists>r. fs_result Q = Some r \<and> mr_content r \<noteq> []) \<and> \<not> fs_open Q"

lemma error_step:
  assumes "all_failed Z effective i Q" and "\<not> fs_open Q"
  shows "all_failed Z effective (Suc i) (record_final_error Z effective i (model_for_attempt (final_chain effective (fz_fallbacks Z)) i) code t c
      (begin_attempt effective (model_for_attempt (final_chain effective (fz_fallbacks Z)) i) Q))"
proof -
  let ?a = "\<lparr>fa_index = i + 1, fa_model = model_for_attempt (final_chain effective (fz_fallbacks Z)) i, fa_error = Some (code, t, c)\<rparr>"
  have cls: "failure_class ?a = Some c" by (simp add: failure_class_def)
  have run: "failure_run (fs_log Q @ [?a]) = (if Some c = fs_last_class Q then fs_streak Q + 1 else 1)"
    using assms(1) unfolding failure_run_snoc cls by (auto simp: all_failed_def)
  show ?thesis using assms run cls
    by (simp add: all_failed_def record_final_error_def begin_attempt_def Let_def)
qed

lemma answer_step:
  assumes "all_failed Z effective i Q" and "\<not> fs_open Q" and "mr_content r \<noteq> []"
  shows "answered Z effective (Suc i) (final_answered Z effective i (model_for_attempt (final_chain effective (fz_fallbacks Z)) i) r
      (begin_attempt effective (model_for_attempt (final_chain effective (fz_fallbacks Z)) i) Q))"
  using assms by (simp add: all_failed_def answered_def final_answered_def begin_attempt_def Let_def split: prod.split)

lemma attempt_step:
  assumes "all_failed Z effective i Q" and "\<not> fs_open Q"
  shows "all_failed Z effective (Suc i) (snd (final_attempt_step Z effective i (M, Q)))
    \<or> answered Z effective (Suc i) (snd (final_attempt_step Z effective i (M, Q)))"
  using error_step [OF assms] answer_step [OF assms]
  by (auto simp: final_attempt_step_def Let_def split: sum.split option.split prod.split)

text \<open>Where the attempts from \<open>i\<close> end: all of them are made, or the circuit breaker is open, or there is an answer.\<close>

lemma attempts_end:
  "i \<le> n \<Longrightarrow> all_failed Z effective i Q \<Longrightarrow> \<exists>k \<le> n. answered Z effective k (snd (final_attempts Z effective [i..<n] (M, Q)))
    \<or> all_failed Z effective k (snd (final_attempts Z effective [i..<n] (M, Q))) \<and>
      (k = n \<or> fs_open (snd (final_attempts Z effective [i..<n] (M, Q))))"
proof (induction "n - i" arbitrary: i Q M)
  case (Suc d)
  then have upt: "[i..<n] = i # [Suc i..<n]" and le: "Suc i \<le> n" by (simp_all add: upt_conv_Cons)
  have none: "fs_result Q = None" using Suc.prems(2) by (simp add: all_failed_def)
  show ?case
  proof (cases "fs_open Q")
    case True
    then show ?thesis using Suc.prems by (auto simp: upt)
  next
    case False
    obtain M' Q' where step: "final_attempt_step Z effective i (M, Q) = (M', Q')" by fastforce
    from attempt_step [OF Suc.prems(2) False, of M] consider "all_failed Z effective (Suc i) Q'" | "answered Z effective (Suc i) Q'"
      by (auto simp: step)
    then show ?thesis
    proof cases
      case 1
      have "d = n - Suc i" using Suc.hyps(2) by simp
      from Suc.hyps(1) [OF this le 1, of M'] show ?thesis using False none by (simp add: upt step)
    next
      case 2
      have "final_attempts Z effective is (M', Q') = (M', Q')" for "is" using 2 by (cases "is") (auto simp: answered_def)
      then show ?thesis using 2 le False none by (auto simp: upt step)
    qed
  qed
qed auto

lemma new_final_failed: "all_failed Z effective 0 new_final"
  by (simp add: all_failed_def new_final_def failure_run_def)

text \<open>
  C18: the forced final answer: at most the allowed number of attempts, in the order of the chain of models; all but the
  last failed. It ends with an answer, which is not empty and is what the caller gets, or because the last attempts
  failed with one class as often as the circuit breaker allows, or because the attempts are used up; then the caller
  gets an error.
\<close>

theorem forced_final_exact:
  assumes "execute_forced_finalization Z S reason M = (M', F)"
  shows "length (fs_log (fr_state F)) = fs_attempts (fr_state F) \<and> fs_attempts (fr_state F) \<le> fz_max_attempts Z
    \<and> map fa_model (fs_log (fr_state F)) =
        map (model_for_attempt (final_chain (ms_effective_model M) (fz_fallbacks Z))) [0..<fs_attempts (fr_state F)]
    \<and> (\<forall>a \<in> set (butlast (fs_log (fr_state F))). fa_error a \<noteq> None)
    \<and> (if fs_log (fr_state F) \<noteq> [] \<and> fa_error (last (fs_log (fr_state F))) = None
       then \<exists>r. fs_result (fr_state F) = Some r \<and> fr_content F = mr_content r \<and> fr_content F \<noteq> [] \<and> \<not> fs_open (fr_state F)
       else fs_result (fr_state F) = None \<and> fr_finish F = ''error''
         \<and> (fs_open (fr_state F) \<longleftrightarrow> fs_log (fr_state F) \<noteq> [] \<and> fz_threshold Z \<le> failure_run (fs_log (fr_state F)))
         \<and> (fs_attempts (fr_state F) = fz_max_attempts Z \<or> fs_open (fr_state F)))"
proof -
  let ?e = "ms_effective_model M"
  define M0 where "M0 = fst (prepare_final Z S reason M)"
  obtain M1 Q where run: "final_attempts Z ?e [0..<fz_max_attempts Z] (M0, new_final) = (M1, Q)" by fastforce
  have Q: "fr_state F = Q" using assms run by (auto simp: execute_forced_finalization_def Let_def M0_def split: option.splits)
  from attempts_end [OF le0 new_final_failed, of "fz_max_attempts Z" Z ?e M0] run
  obtain k where k: "k \<le> fz_max_attempts Z" "answered Z ?e k Q \<or> all_failed Z ?e k Q \<and> (k = fz_max_attempts Z \<or> fs_open Q)" by auto
  consider "answered Z ?e k Q" | "all_failed Z ?e k Q" "k = fz_max_attempts Z \<or> fs_open Q" using k(2) by blast
  then show ?thesis
  proof cases
    case 1
    then obtain r where r: "fs_result Q = Some r" "mr_content r \<noteq> []" by (auto simp: answered_def)
    have "fr_content F = mr_content r" using assms run r by (auto simp: execute_forced_finalization_def Let_def M0_def)
    moreover have "length (fs_log Q) = k" using 1 by (metis answered_def length_map length_upt diff_zero)
    ultimately show ?thesis using 1 r k(1) by (simp add: Q answered_def)
  next
    case 2
    then have none: "fs_result Q = None" by (simp add: all_failed_def)
    have "fr_finish F = ''error''" using assms run none by (auto simp: execute_forced_finalization_def Let_def M0_def)
    moreover have len: "length (fs_log Q) = k" using 2(1) by (metis all_failed_def length_map length_upt diff_zero)
    moreover have "\<forall>a \<in> set (fs_log Q). fa_error a \<noteq> None" using 2(1) by (simp add: all_failed_def)
    then have "\<forall>a \<in> set (butlast (fs_log Q)). fa_error a \<noteq> None" "fs_log Q \<noteq> [] \<Longrightarrow> fa_error (last (fs_log Q)) \<noteq> None"
      by (auto dest: in_set_butlastD)
    ultimately show ?thesis using 2 none k(1) by (auto simp: Q all_failed_def)
  qed
qed

section \<open>The completion accounts for the required submission\<close>

lemma or_value_nonempty: "d \<noteq> [] \<Longrightarrow> or_value v d \<noteq> []"
  by (auto simp: or_value_def or_text_def split: option.split)

lemma or_text_nonempty: "or_text a b = [] \<longleftrightarrow> a = [] \<and> b = []"
  by (simp add: or_text_def)

text \<open>What makes a forced answer acceptable, and what accepting it changes.\<close>

definition acceptable :: "string option \<Rightarrow> string \<Rightarrow> string \<Rightarrow> bool" where
  "acceptable guess finish content \<longleftrightarrow>
     (finish \<noteq> ''error'' \<and> py_strip content \<noteq> []) \<or> (\<exists>g. guess = Some g \<and> py_strip g \<noteq> [])"

lemma accept_forced_refused:
  "\<not> (cp_accept_forced P \<and> acceptable guess (cm_finish C) (cm_content C)) \<Longrightarrow> accept_forced P reason guess C = C"
  by (auto simp: accept_forced_def acceptable_def Let_def split: option.splits if_splits)

lemma accept_forced_taken:
  assumes "cp_accept_forced P" and "acceptable guess (cm_finish C) (cm_content C)"
  obtains s w where "s \<noteq> []" and "accept_forced P reason guess C =
      C\<lparr>cm_accepted := True, cm_succeeded := True, cm_missing := False, cm_submitted := Some s,
        cm_warnings := w, cm_codes := cm_codes C @ [accept_code reason]\<rparr>"
proof -
  define kept where "kept = (case guess of Some g \<Rightarrow> py_strip g | None \<Rightarrow> [])"
  define given where "given = (if cm_finish C = ''error'' then [] else py_strip (cm_content C))"
  have go: "given = [] \<longrightarrow> kept \<noteq> []"
    using assms(2) by (auto simp: acceptable_def kept_def given_def split: if_splits)
  let ?s = "or_value (cm_submitted C) (or_text (if kept \<noteq> [] then kept else cp_normalize P (cm_content C)) given)"
  have "?s \<noteq> []" using go by (intro or_value_nonempty) (auto simp: or_text_nonempty)
  moreover have "accept_forced P reason guess C =
      C\<lparr>cm_accepted := True, cm_succeeded := True, cm_missing := False, cm_submitted := Some ?s,
        cm_warnings := cm_warnings C @ [accept_warning reason], cm_codes := cm_codes C @ [accept_code reason]\<rparr>"
    using go assms(1) unfolding accept_forced_def kept_def [symmetric] given_def [symmetric] Let_def by auto
  ultimately show ?thesis by (rule that)
qed

lemma report_missing_simps [simp]:
  "cm_missing (report_missing n C) = cm_missing C" "cm_succeeded (report_missing n C) = cm_succeeded C"
  "cm_accepted (report_missing n C) = cm_accepted C" "cm_submitted (report_missing n C) = cm_submitted C"
  "cm_retried (report_missing n C) = cm_retried C" "cm_content (report_missing n C) = cm_content C"
  "cm_forced (report_missing n C) = cm_forced C"
  "cm_codes (report_missing n C) = (if cm_missing C \<and> cm_codes C = []
     then [if n + cm_submit_calls C = 0 then ''REQUIRED_SUBMIT_NOT_ATTEMPTED'' else ''REQUIRED_SUBMIT_NOT_ACCEPTED'']
     else cm_codes C)"
  by (simp_all add: report_missing_def Let_def)

text \<open>The failure codes of the forced answer, when there was one.\<close>

definition forced_codes :: "completion \<Rightarrow> string list" where
  "forced_codes C = (case cm_forced C of Some F \<Rightarrow> fr_codes F | None \<Rightarrow> [])"

text \<open>
  C17: the completion accounts for a required submission. The loop makes a forced answer exactly when it was forced
  to end and no submission succeeded. A submission counts as made when the turns made one, which is kept as it is, or
  when the forced answer is accepted; the latter exactly when a submission is required, the policy accepts forced
  answers, and the forced answer has text without being an error or an earlier guess is not blank. A required
  submission is missing exactly when none counts as made. The codes are those of the forced answer's failures, followed
  by the code of the forced acceptance when it is accepted; when the submission is missing and there is no failure
  code, by \<open>REQUIRED_SUBMIT_NOT_ATTEMPTED\<close> if no call to submit was counted and by
  \<open>REQUIRED_SUBMIT_NOT_ACCEPTED\<close> otherwise (a missing submission beside a failure code adds no code); and by
  nothing else.
\<close>

theorem completion_accounts:
  assumes "resolve_turn_completion Z P S I M = (M', C)"
  shows "cm_forced C = (if fi_succeeded I then None else map_option (\<lambda>reason. snd (execute_forced_finalization Z S reason M)) (fi_force I))
    \<and> (cm_missing C \<longleftrightarrow> cp_requires_submit P \<and> \<not> cm_succeeded C) \<and> (cm_succeeded C \<longleftrightarrow> fi_succeeded I \<or> cm_accepted C)
    \<and> (cm_accepted C \<longleftrightarrow> cp_requires_submit P \<and> cp_accept_forced P
        \<and> (\<exists>F. cm_forced C = Some F \<and> acceptable (fi_guess I) (fr_finish F) (fr_content F)))
    \<and> (if cm_accepted C then \<exists>s. cm_submitted C = Some s \<and> s \<noteq> [] else cm_submitted C = fi_submitted I)
    \<and> (fi_succeeded I \<longrightarrow> cm_content C = fi_content I)
    \<and> (cm_retried C \<longleftrightarrow> cp_requires_submit P \<and> cp_retry_on_exhaustion P \<and> fi_force I \<noteq> None \<and> \<not> fi_succeeded I)
    \<and> cm_codes C = forced_codes C @
        (if cm_accepted C then [accept_code (exhaustion_reason (the (fi_force I)))]
         else if cm_missing C \<and> forced_codes C = []
         then [if fi_submit_calls I = 0 \<and> \<not> cm_retried C then ''REQUIRED_SUBMIT_NOT_ATTEMPTED'' else ''REQUIRED_SUBMIT_NOT_ACCEPTED'']
         else [])"
proof -
  define forced where "forced = (case fi_force I of
    Some reason \<Rightarrow> if fi_succeeded I then None else Some (execute_forced_finalization Z S reason M) | None \<Rightarrow> None)"
  define C0 where "C0 = \<lparr>cm_content = (case forced of Some (M', F) \<Rightarrow> fr_content F | None \<Rightarrow> fi_content I),
     cm_finish = (case forced of Some (M', F) \<Rightarrow> fr_finish F | None \<Rightarrow> fi_finish I),
     cm_codes = (case forced of Some (M', F) \<Rightarrow> fr_codes F | None \<Rightarrow> []), cm_warnings = [],
     cm_missing = (cp_requires_submit P \<and> \<not> fi_succeeded I), cm_retried = False, cm_accepted = False, cm_submit_calls = 0,
     cm_succeeded = fi_succeeded I, cm_submitted = fi_submitted I, cm_forced = map_option snd forced\<rparr>"
  have C: "C = report_missing (fi_submit_calls I) (force_submission P (fi_force I) (fi_guess I) C0)"
    using assms by (simp add: resolve_turn_completion_def C0_def forced_def Let_def)
  show ?thesis
  proof (cases "\<exists>f. fi_force I = Some f \<and> cp_requires_submit P \<and> \<not> fi_succeeded I")
    case False
    then have "force_submission P (fi_force I) (fi_guess I) C0 = C0" by (auto simp: force_submission_def C0_def split: option.split)
    then have C: "C = report_missing (fi_submit_calls I) C0" using C by simp
    show ?thesis
    proof (cases "fi_succeeded I \<or> fi_force I = None")
      case True
      then have "forced = None" by (auto simp: forced_def split: option.split)
      with True False show ?thesis by (auto simp: C C0_def forced_codes_def)
    next
      case False2: False
      then obtain f where "fi_force I = Some f" "\<not> cp_requires_submit P" using False by auto
      with False2 show ?thesis by (simp add: C C0_def forced_codes_def forced_def split: prod.split)
    qed
  next
    case True
    then obtain f where f: "fi_force I = Some f" "cp_requires_submit P" "\<not> fi_succeeded I" by blast
    obtain M1 F where F: "execute_forced_finalization Z S f M = (M1, F)" by fastforce
    define C1 where "C1 = (if cp_retry_on_exhaustion P
        then C0\<lparr>cm_retried := True, cm_submit_calls := cm_submit_calls C0 + 1,
               cm_warnings := cm_warnings C0 @ [submit_retry_warning (exhaustion_reason f)]\<rparr> else C0)"
    have C0: "C0 = \<lparr>cm_content = fr_content F, cm_finish = fr_finish F, cm_codes = fr_codes F, cm_warnings = [], cm_missing = True,
        cm_retried = False, cm_accepted = False, cm_submit_calls = 0, cm_succeeded = False, cm_submitted = fi_submitted I,
        cm_forced = Some F\<rparr>" using f F by (simp add: C0_def forced_def)
    have acc: "C = report_missing (fi_submit_calls I) (accept_forced P (exhaustion_reason f) (fi_guess I) C1)"
      using f by (simp add: C force_submission_def C1_def) (simp add: C0_def)
    have C1: "cm_content C1 = fr_content F" "cm_finish C1 = fr_finish F" "cm_codes C1 = fr_codes F" "cm_missing C1"
      "\<not> cm_accepted C1" "\<not> cm_succeeded C1" "cm_submitted C1 = fi_submitted I" "cm_forced C1 = Some F"
      "cm_retried C1 = cp_retry_on_exhaustion P" "cm_submit_calls C1 = (if cp_retry_on_exhaustion P then 1 else 0)"
      by (simp_all add: C1_def C0)
    have forced: "(if fi_succeeded I then None else map_option (\<lambda>reason. snd (execute_forced_finalization Z S reason M)) (fi_force I)) = Some F"
      using f F by simp
    show ?thesis
    proof (cases "cp_accept_forced P \<and> acceptable (fi_guess I) (fr_finish F) (fr_content F)")
      case True
      then obtain s w where s: "s \<noteq> []" and taken: "accept_forced P (exhaustion_reason f) (fi_guess I) C1 =
          C1\<lparr>cm_accepted := True, cm_succeeded := True, cm_missing := False, cm_submitted := Some s,
             cm_warnings := w, cm_codes := cm_codes C1 @ [accept_code (exhaustion_reason f)]\<rparr>"
        using accept_forced_taken [of P "fi_guess I" C1] C1(1,2) by metis
      define code where "code = accept_code (exhaustion_reason f)"
      have "cm_forced C = Some F" "cm_accepted C" "cm_succeeded C" "\<not> cm_missing C" "cm_submitted C = Some s"
        "cm_codes C = fr_codes F @ [code]" "cm_retried C = cp_retry_on_exhaustion P"
        by (simp_all add: acc taken C1 code_def)
      then show ?thesis unfolding forced using f True s by (simp add: forced_codes_def code_def)
    next
      case False
      then have "accept_forced P (exhaustion_reason f) (fi_guess I) C1 = C1"
        by (intro accept_forced_refused) (simp add: C1)
      then have "cm_forced C = Some F" "\<not> cm_accepted C" "\<not> cm_succeeded C" "cm_missing C" "cm_submitted C = fi_submitted I"
        "cm_retried C = cp_retry_on_exhaustion P"
        "cm_codes C = (if fr_codes F = [] then [if fi_submit_calls I = 0 \<and> \<not> cp_retry_on_exhaustion P
           then ''REQUIRED_SUBMIT_NOT_ATTEMPTED'' else ''REQUIRED_SUBMIT_NOT_ACCEPTED''] else fr_codes F)"
        by (simp_all add: acc C1)
      then show ?thesis unfolding forced using f False by (simp add: forced_codes_def)
    qed
  qed
qed

section \<open>A concrete end\<close>

text \<open>A provider whose first model is down and whose fallback answers.\<close>

definition demo_model :: model_env where
  "demo_model =
     \<lparr>md_tools = demo_tools, md_openai_tools = [], md_read_tool_def = PNone, 
      md_call = (\<lambda>m ms ts. Inr \<lparr>mr_model = ''a'', mr_content = [], mr_tool_calls = [demo_call ''n'' ''chunk_search'', demo_call ''h'' ''chunk_search''],
        mr_finish_reason = ''tool_calls'', mr_warnings = [], mr_usage = (1, 1, 0, 0), mr_cost = 1, mr_responses_api = False\<rparr>),
      md_max_turns = 9, md_max_tool_calls = Some 4, md_max_message_chars = 100, md_keep_recent = 2, md_preview_chars = 20,
      md_json_value = (\<lambda>v. []), md_json_len = (\<lambda>m. 10), md_label_digest = concat, md_progressive = False, md_context_enabled = False,
      md_max_handles = 4, md_max_context_chars = 100, md_requires_submit = True\<rparr>"

definition demo_final :: final_env where
  "demo_final =
     \<lparr>fz_model = demo_model,
      fz_call = (\<lambda>i m ms. if m = ''b'' then Inr \<lparr>mr_model = ''b'', mr_content = ''Paris'', mr_tool_calls = [], mr_finish_reason = ''stop'',
          mr_warnings = [], mr_usage = (1, 1, 0, 0), mr_cost = 1, mr_responses_api = False\<rparr>
        else Inl \<lparr>fl_text = ''down'', fl_type = ''RuntimeError'', fl_classification = None\<rparr>),
      fz_fallbacks = [''b''], fz_max_attempts = 3, fz_threshold = 2, fz_dash = ''-''\<rparr>"

definition demo_policy :: completion_policy where
  "demo_policy = \<lparr>cp_requires_submit = True, cp_retry_on_exhaustion = True, cp_accept_forced = True, cp_normalize = id\<rparr>"

definition demo_model_state :: model_state where
  "demo_model_state = \<lparr>ms_messages = [], ms_context_index = None, ms_trace = [], ms_warnings = [], ms_effective_model = ''a'', ms_attempted = [],
     ms_sticky = False, ms_models_used = [], ms_deficit_streak = 0, ms_deficit_max = 0, ms_deficit_nudged = 0, ms_plain_streak = 0\<rparr>"

lemma demo_provider:
  "fz_call demo_final i ''a'' ms = Inl \<lparr>fl_text = ''down'', fl_type = ''RuntimeError'', fl_classification = None\<rparr>"
  "fz_call demo_final i ''b'' ms = Inr \<lparr>mr_model = ''b'', mr_content = ''Paris'', mr_tool_calls = [], mr_finish_reason = ''stop'',
     mr_warnings = [], mr_usage = (1, 1, 0, 0), mr_cost = 1, mr_responses_api = False\<rparr>"
  by (simp_all add: demo_final_def)

lemma demo_chain: "final_chain ''a'' (fz_fallbacks demo_final) = [''a'', ''b'']"
  by (simp add: final_chain_def demo_final_def same_model_def py_lower_def letter_bits_def)

lemma demo_first:
  "fs_open (snd (final_attempt_step demo_final ''a'' 0 (M, new_final))) = False"
  "fs_result (snd (final_attempt_step demo_final ''a'' 0 (M, new_final))) = None"
  "fs_attempts (snd (final_attempt_step demo_final ''a'' 0 (M, new_final))) = 1"
  by (simp_all add: final_attempt_step_def demo_chain model_for_attempt_def demo_provider record_final_error_def begin_attempt_def new_final_def
      Let_def split: prod.split) (simp add: demo_final_def)

lemma demo_second:
  "fs_result (snd (final_attempt_step demo_final ''a'' (Suc 0) (M, Q))) \<noteq> None \<and>
   map_option mr_content (fs_result (snd (final_attempt_step demo_final ''a'' (Suc 0) (M, Q)))) = Some ''Paris''"
  by (simp add: final_attempt_step_def demo_chain model_for_attempt_def demo_provider salvage_def final_answered_def Let_def split: prod.split)

lemma demo_attempts:
  "map_option mr_content (fs_result (snd (final_attempts demo_final ''a'' [0..<3] (M, new_final)))) = Some ''Paris''"
proof -
  obtain M1 Q1 where 1: "final_attempt_step demo_final ''a'' 0 (M, new_final) = (M1, Q1)" by fastforce
  obtain M2 Q2 where 2: "final_attempt_step demo_final ''a'' (Suc 0) (M1, Q1) = (M2, Q2)" by fastforce
  have start: "fs_open new_final = False" "fs_result new_final = None" by (simp_all add: new_final_def)
  show ?thesis using demo_first [of M] demo_second [of M1 Q1] start by (simp add: upt_rec 1 2)
qed

lemma forced_final_exact_witness:
  "\<exists>M' F. execute_forced_finalization demo_final demo_tool_state ''max_turns'' demo_model_state = (M', F)
    \<and> fr_content F = ''Paris'' \<and> fs_attempts (fr_state F) \<le> 3
    \<and> map fa_model (fs_log (fr_state F)) = map (model_for_attempt [''a'', ''b'']) [0..<fs_attempts (fr_state F)]"
proof -
  obtain M' F where run: "execute_forced_finalization demo_final demo_tool_state ''max_turns'' demo_model_state = (M', F)" by fastforce
  have start: "ms_effective_model demo_model_state = ''a''" "fz_max_attempts demo_final = 3" by (simp_all add: demo_model_state_def demo_final_def)
  define M0 where "M0 = fst (prepare_final demo_final demo_tool_state ''max_turns'' demo_model_state)"
  have "fr_content F = ''Paris''"
    using run demo_attempts [of M0] by (auto simp: execute_forced_finalization_def start Let_def M0_def [symmetric] split: prod.splits option.splits)
  with forced_final_exact [OF run] run show ?thesis by (simp add: start demo_chain)
qed

lemma completion_accounts_witness:
  "\<exists>M' C. resolve_turn_completion demo_final demo_policy demo_tool_state
      \<lparr>fi_force = Some ''max_turns'', fi_content = [], fi_finish = ''stop'', fi_submit_calls = 1, fi_succeeded = False, fi_submitted = None,
       fi_guess = Some ''Paris''\<rparr> demo_model_state = (M', C)
    \<and> cm_succeeded C \<and> cm_accepted C \<and> \<not> cm_missing C \<and> (\<exists>s. cm_submitted C = Some s \<and> s \<noteq> [])"
proof -
  let ?I = "\<lparr>fi_force = Some ''max_turns'', fi_content = [], fi_finish = ''stop'', fi_submit_calls = 1, fi_succeeded = False, fi_submitted = None,
       fi_guess = Some ''Paris''\<rparr>"
  obtain M' C where run: "resolve_turn_completion demo_final demo_policy demo_tool_state ?I demo_model_state = (M', C)" by fastforce
  have "cm_succeeded C"
    using run by (auto simp: resolve_turn_completion_def force_submission_def accept_forced_def demo_policy_def py_strip_def py_isspace_def Let_def)
  then show ?thesis using completion_accounts [OF run] run by auto
qed

end
