(* ===== verification/Turn_Outcomes.thy ===== *)
theory Turn_Outcomes
  imports Agent_Artifacts
begin

text \<open>
  What the agent loop does after the tools of a turn have run, \<open>llm_client/agent/mcp_turn_outcomes.py\<close>:
  coercion and validation counts, the evidence digest, the policy on stagnating retrieval, the gates on
  \<open>submit_answer\<close>, the TODO state and the policy on turns that execute nothing.

  The variables of the loop that the function takes and returns are the record \<open>turn_state\<close>; the deltas and
  decisions of a turn are the record \<open>turn_outcome\<close>. An emitted event keeps its operation, parameters, code and
  text; its ids, time and run are left out.
\<close>

section \<open>State and outcome\<close>

record turn_state =
  ts_labels :: "string set"
  ts_requires_evidence :: bool
  ts_digest_at_failure :: "string option"
  ts_requires_todo :: bool
  ts_todo_at_failure :: "string option"
  ts_guidance :: "string option"
  ts_streak :: int
  ts_streak_max :: int
  ts_alerted :: bool
  ts_stagnation_turn :: "int option"
  ts_zero_streak :: int
  ts_zero_max :: int
  ts_todo_line :: "string option"
  ts_reasons :: counters

record policy_event =
  pv_operation :: string
  pv_params :: "(string \<times> py) list"
  pv_error_code :: string
  pv_message :: string

record turn_outcome =
  to_coercions :: nat
  to_coercion_calls :: nat
  to_validation_rejections :: nat
  to_submit_calls :: nat
  to_succeeded :: bool
  to_submitted :: "string option"
  to_fallback :: "string option"
  to_terminal :: "string option"
  to_evidence_count :: nat
  to_new_evidence :: bool
  to_had_evidence_tools :: bool
  to_triggered :: bool
  to_messages :: "string list"
  to_warnings :: "string list"
  to_codes :: "string list"
  to_events :: "policy_event list"
  to_force_final :: "string option"
  to_stop :: bool

record turn_env =
  te_loads :: "string \<Rightarrow> py option"
  te_other :: "py \<Rightarrow> string"
  te_digest :: "string list \<Rightarrow> string"
  te_evidence :: evidence_env
  te_stagnation_turns :: int
  te_stagnation_action :: string
  te_churn_threshold :: int
  te_max_turns :: int
  te_code_stagnation :: string
  te_code_stagnation_observed :: string
  te_code_churn :: string

record turn_input =
  ti_turn :: int
  ti_records :: "tool_record list"
  ti_executed :: "tool_record list"
  ti_calls :: "tool_call list"
  ti_calls_to_execute :: "tool_call list"
  ti_contract_rejected :: nat
  ti_suppressed :: nat

definition failed :: "tool_record \<Rightarrow> bool" where
  "failed r \<longleftrightarrow> (case rec_error r of Some e \<Rightarrow> e \<noteq> [] | None \<Rightarrow> False)"

definition error_of :: "tool_record \<Rightarrow> string" where
  "error_of r = (case rec_error r of Some e \<Rightarrow> e | None \<Rightarrow> [])"

section \<open>Argument coercions\<close>

definition coercion_warnings :: "turn_env \<Rightarrow> int \<Rightarrow> nat \<Rightarrow> nat \<Rightarrow> nat \<Rightarrow> string list" where
  "coercion_warnings E turn coercions calls rejections =
     (let place = ''turn '' @ py_int_str (turn + 1) @ ''/'' @ py_int_str (te_max_turns E) in
      (if coercions = 0 then []
       else [''TOOL_ARG_COERCION: '' @ place @ '' applied '' @ nat_digits coercions @ '' coercion(s) across '' @ nat_digits calls @ '' call(s)'']) @
      (if rejections = 0 then []
       else [''TOOL_ARG_VALIDATION: '' @ place @ '' rejected '' @ nat_digits rejections @
             '' tool call(s) due to argument/schema mismatch'']))"

definition validation_rejected :: "tool_record \<Rightarrow> bool" where
  "validation_rejected r \<longleftrightarrow> py_contains ''validation error:'' (py_lower (error_of r))"

section \<open>Evidence\<close>

text \<open>The labels after a turn, and the digests before and after.\<close>

definition labels_after :: "turn_env \<Rightarrow> turn_input \<Rightarrow> turn_state \<Rightarrow> string set" where
  "labels_after E I S = ts_labels S \<union> set (concat (map (tool_evidence_pointer_labels (te_evidence E) (te_loads E)) (ti_executed I)))"

definition digest_after :: "turn_env \<Rightarrow> turn_input \<Rightarrow> turn_state \<Rightarrow> string" where
  "digest_after E I S = evidence_digest (te_digest E) (labels_after E I S)"

definition new_evidence :: "turn_env \<Rightarrow> turn_input \<Rightarrow> turn_state \<Rightarrow> bool" where
  "new_evidence E I S \<longleftrightarrow> digest_after E I S \<noteq> evidence_digest (te_digest E) (ts_labels S)"

definition evidence_tools :: "turn_input \<Rightarrow> string list" where
  "evidence_tools I = map rec_tool (filter (\<lambda>r. is_evidence_tool_name (rec_tool r) \<and> \<not> failed r) (ti_executed I))"

definition note_evidence :: "turn_env \<Rightarrow> turn_input \<Rightarrow> turn_state \<Rightarrow> turn_state" where
  "note_evidence E I S =
     (let fresh = new_evidence E I S;
          released = fresh \<and> ts_requires_evidence S \<and> ts_digest_at_failure S \<noteq> None \<and>
            Some (digest_after E I S) \<noteq> ts_digest_at_failure S;
          stagnant = evidence_tools I \<noteq> [] \<and> \<not> fresh;
          streak = (if stagnant then ts_streak S + 1 else 0)
      in S\<lparr>ts_labels := labels_after E I S,
           ts_requires_evidence := ts_requires_evidence S \<and> \<not> released,
           ts_digest_at_failure := (if released then None else ts_digest_at_failure S),
           ts_streak := streak, ts_streak_max := max (ts_streak_max S) streak,
           ts_alerted := stagnant \<and> ts_alerted S\<rparr>)"

definition stagnates :: "turn_env \<Rightarrow> turn_state \<Rightarrow> bool" where
  "stagnates E S \<longleftrightarrow> te_stagnation_turns E \<le> ts_streak S \<and> \<not> ts_alerted S"

definition stagnation_code :: "turn_env \<Rightarrow> string" where
  "stagnation_code E =
     (if te_stagnation_action E = ''force_final'' then te_code_stagnation E else te_code_stagnation_observed E)"

definition stagnation_warning :: "turn_state \<Rightarrow> string" where
  "stagnation_warning S =
     ''RETRIEVAL_STAGNATION: '' @ py_int_str (ts_streak S) @ '' consecutive evidence turns produced no new evidence refs.''"

definition STAGNATION_FINAL :: string where
  "STAGNATION_FINAL =
     ''[SYSTEM: Evidence has stagnated across consecutive retrieval turns. '' @
     ''Stop repeating equivalent searches. Verify a different bridge entity, '' @
     ''run a conversion tool, or submit your best answer now.]''"

definition STAGNATION_OBSERVED :: string where
  "STAGNATION_OBSERVED =
     ''[SYSTEM: Evidence stagnation observed. Do NOT repeat equivalent retrieval. '' @
     ''Pivot strategy now (different bridge, conversion, or graph path) and continue.]''"

definition stagnation_event :: "turn_env \<Rightarrow> turn_input \<Rightarrow> turn_state \<Rightarrow> policy_event" where
  "stagnation_event E I S =
     \<lparr>pv_operation = ''__retrieval_stagnation__'',
      pv_params = [(''streak'', PInt (ts_streak S)), (''turn'', PInt (ti_turn I + 1)), (''evidence_tools'', strs (evidence_tools I))],
      pv_error_code = stagnation_code E, pv_message = stagnation_warning S\<rparr>"

section \<open>Submitted answers\<close>

text \<open>The refusals that are not kept as a guess: \<open>unknown\<close>, \<open>cannot determine\<close> and their kind, with an optional full stop.\<close>

definition forced_refusal :: "string \<Rightarrow> bool" where
  "forced_refusal answer \<longleftrightarrow>
     (let s = py_lower (py_strip answer); t = (if s \<noteq> [] \<and> last s = CHR ''.'' then butlast s else s) in
      py_strip t = t \<and>
      py_split t \<in> set [[''unknown''], [''cannot'', ''determine''], [''can'' @ [CHR 0x27] @ ''t'', ''determine''],
        [''insufficient''], [''insufficient'', ''evidence''], [''not'', ''found'']])"

definition stripped :: "py \<Rightarrow> string option" where
  "stripped v = (case v of PStr s \<Rightarrow> if py_strip s = [] then None else Some (py_strip s) | _ \<Rightarrow> None)"

definition opt_first :: "'a option \<Rightarrow> 'a option \<Rightarrow> 'a option" where
  "opt_first a b = (case a of Some x \<Rightarrow> Some x | None \<Rightarrow> b)"

record submit_acc =
  sa_succeeded :: bool
  sa_submitted :: "string option"
  sa_fallback :: "string option"
  sa_errors :: "string list"
  sa_needs_evidence :: bool
  sa_forced_terminal :: bool
  sa_terminal :: "string option"
  sa_requires_todo :: bool
  sa_todo_at_failure :: "string option"
  sa_guidance :: "string option"
  sa_reasons :: counters

definition text_of :: "(py \<Rightarrow> string) \<Rightarrow> py \<Rightarrow> string \<Rightarrow> string" where
  "text_of other v k = text_field other v k"

text \<open>A submission that the validator did not accept.\<close>

definition note_rejection :: "turn_env \<Rightarrow> string option \<Rightarrow> string \<Rightarrow> py \<Rightarrow> submit_acc \<Rightarrow> submit_acc" where
  "note_rejection E todo_line status parsed A =
     (let policy = py_get parsed ''recovery_policy''; payload = py_get parsed ''validation_error'';
          reason = text_of (te_other E) payload ''reason_code''; detail = text_of (te_other E) payload ''message'';
          guidance = opt_first (stripped (py_get policy ''repair_guidance'')) (if detail = [] then None else Some detail);
          pending = (reason = ''pending_atoms'')
      in A\<lparr>sa_needs_evidence := sa_needs_evidence A \<or> py_truthy (py_get policy ''new_evidence_required_before_retry''),
           sa_forced_terminal := sa_forced_terminal A \<or> py_truthy (py_get policy ''requires_forced_terminal_path''),
           sa_terminal := opt_first (stripped (py_get policy ''validated_terminal_available'')) (sa_terminal A),
           sa_guidance := opt_first guidance (sa_guidance A),
           sa_reasons := (if reason = [] then sa_reasons A else bump reason 1 (sa_reasons A)),
           sa_requires_todo := sa_requires_todo A \<or> pending,
           sa_todo_at_failure :=
             (if pending then opt_first (stripped (py_get parsed ''todo_status_line'')) todo_line else sa_todo_at_failure A),
           sa_errors := sa_errors A @ [py_join '' | ''
             ([''submit_answer not accepted (status='' @ status @ '')''] @
              (if reason = [] then [] else [''reason_code='' @ reason]) @ (if detail = [] then [] else [detail]))]\<rparr>)"

definition submit_record :: "turn_env \<Rightarrow> string option \<Rightarrow> tool_record \<Rightarrow> submit_acc \<Rightarrow> submit_acc" where
  "submit_record E todo_line r A0 =
     (let answer = stripped (arg_value (rec_arguments r) ''answer'');
          A = (case answer of Some a \<Rightarrow> if forced_refusal a then A0 else A0\<lparr>sa_fallback := Some a\<rparr> | None \<Rightarrow> A0);
          parsed = (case parse_record_result_json (te_loads E) r of Some v \<Rightarrow> v | None \<Rightarrow> PNone);
          status = py_lower (text_of (te_other E) parsed ''status'') in
      if failed r then A\<lparr>sa_errors := sa_errors A @ [error_of r]\<rparr>
      else if status \<noteq> [] \<and> status \<notin> set [''submitted'', ''submitted_with_warning'', ''ok'', ''success'']
      then note_rejection E todo_line status parsed A
      else A\<lparr>sa_succeeded := True,
             sa_submitted := opt_first (opt_first answer (stripped (py_get parsed ''answer''))) (sa_submitted A)\<rparr>)"

definition submit_records :: "turn_env \<Rightarrow> turn_input \<Rightarrow> turn_state \<Rightarrow> submit_acc" where
  "submit_records E I S =
     fold (submit_record E (ts_todo_line S)) (filter (\<lambda>r. rec_tool r = ''submit_answer'') (ti_records I))
       \<lparr>sa_succeeded = False, sa_submitted = None, sa_fallback = None, sa_errors = [], sa_needs_evidence = False,
        sa_forced_terminal = False, sa_terminal = None, sa_requires_todo = ts_requires_todo S,
        sa_todo_at_failure = ts_todo_at_failure S, sa_guidance = ts_guidance S, sa_reasons = ts_reasons S\<rparr>"

definition submit_failed_message :: "bool \<Rightarrow> bool \<Rightarrow> bool \<Rightarrow> string option \<Rightarrow> string" where
  "submit_failed_message needs_evidence needs_todo refusal guidance =
     ''[SYSTEM: submit_answer failed. '' @
     (if needs_evidence
      then '' Validator requires NEW evidence refs before retry. '' @
           ''Run at least one non-control evidence tool call that yields new '' @
           ''chunk/entity-backed evidence before submit.'' else []) @
     (if needs_todo
      then '' Validator also requires TODO progress before retry. Resolve or complete the '' @
           ''pending atom so TODO state changes before submit.'' else []) @
     (if refusal
      then ''Do NOT use refusal text (cannot, unknown, insufficient, no such, not found). '' @
           ''Submit the single best factual guess from retrieved evidence. '' else []) @
     ''Do not call submit_answer again until those conditions are satisfied. '' @
     ''When they are, submit a short factual answer only '' @
     ''(name/date/number/yes/no, <=8 words).'' @
     (case guidance of Some g \<Rightarrow> if g = [] then [] else '' Repair hint: '' @ g | None \<Rightarrow> []) @ '']''"

definition PENDING_CHURN :: string where
  "PENDING_CHURN =
     ''CONTROL_CHURN: repeated pending-atom submit rejections now require TODO progress '' @
     ''before retry; suppressing further submit attempts until state changes.''"

text \<open>The gate that a failed submission leaves: the validator asks for evidence, or one reason was given three times.\<close>

definition close_gate :: "turn_env \<Rightarrow> turn_input \<Rightarrow> bool \<Rightarrow> submit_acc \<Rightarrow> turn_state \<Rightarrow> turn_state" where
  "close_gate E I fresh A S =
     (let S1 = S\<lparr>ts_requires_todo := sa_requires_todo A, ts_todo_at_failure := sa_todo_at_failure A,
                 ts_guidance := sa_guidance A, ts_reasons := sa_reasons A\<rparr>;
          now = Some (evidence_digest (te_digest E) (ts_labels S));
          closed = (\<lambda>S. S\<lparr>ts_requires_evidence := True, ts_digest_at_failure := now\<rparr>);
          S2 = (if sa_needs_evidence A \<and> \<not> fresh then closed S1 else S1) in
      if sa_errors A = [] then S1
      else if \<not> ts_requires_evidence S2 \<and> list_ex (\<lambda>kv. 3 \<le> snd kv) (sa_reasons A) then closed S2
      else S2)"

section \<open>The TODO state\<close>

definition todo_line_after :: "turn_env \<Rightarrow> turn_input \<Rightarrow> string option \<Rightarrow> string option" where
  "todo_line_after E I line =
     fold (\<lambda>r l. case parse_record_result_json (te_loads E) r of
         Some v \<Rightarrow> opt_first (stripped (py_get v ''status_line'')) l | None \<Rightarrow> l)
       (filter (\<lambda>r. rec_tool r = ''todo_write'' \<and> \<not> failed r) (ti_records I)) line"

definition note_todo :: "turn_env \<Rightarrow> turn_input \<Rightarrow> turn_state \<Rightarrow> turn_state" where
  "note_todo E I S =
     (let line = todo_line_after E I (ts_todo_line S) in
      if ts_requires_todo S \<and> ts_todo_at_failure S \<noteq> None \<and> line \<noteq> None \<and> line \<noteq> ts_todo_at_failure S
      then S\<lparr>ts_todo_line := line, ts_requires_evidence := False, ts_digest_at_failure := None,
             ts_requires_todo := False, ts_todo_at_failure := None, ts_guidance := None\<rparr>
      else S\<lparr>ts_todo_line := line\<rparr>)"

definition todo_messages :: "turn_input \<Rightarrow> turn_state \<Rightarrow> string list" where
  "todo_messages I S =
     (case ts_todo_line S of
        Some l \<Rightarrow> if l \<noteq> [] \<and> \<not> list_ex (\<lambda>r. rec_tool r = ''todo_write'' \<and> \<not> failed r) (ti_records I)
          then [''[TODO_STATE] '' @ l] else []
      | None \<Rightarrow> [])"

section \<open>Turns that execute nothing\<close>

definition note_zero_exec :: "turn_input \<Rightarrow> turn_state \<Rightarrow> turn_state" where
  "note_zero_exec I S =
     (let streak = (if ti_calls I \<noteq> [] \<and> ti_calls_to_execute I = [] then ts_zero_streak S + 1 else 0)
      in S\<lparr>ts_zero_streak := streak, ts_zero_max := max (ts_zero_max S) streak\<rparr>)"

definition blocked_tools :: "turn_input \<Rightarrow> string list" where
  "blocked_tools I =
     sort (remdups (map (\<lambda>tc. if call_name tc = [] then ''<unknown>'' else call_name tc) (ti_calls I)))"

definition churn_warning :: "turn_state \<Rightarrow> string" where
  "churn_warning S =
     ''CONTROL_CHURN: consecutive turns with tool calls but no executable calls '' @
     ''('' @ py_int_str (ts_zero_streak S) @ '' turns). Forcing final answer.''"

definition churn_message :: "turn_state \<Rightarrow> string" where
  "churn_message S =
     ''[SYSTEM: Repeated non-executable tool-call loop detected '' @
     ''('' @ py_int_str (ts_zero_streak S) @ '' turns). Stop calling tools and '' @
     ''submit your best answer now from existing evidence.]''"

definition churn_event :: "turn_env \<Rightarrow> turn_input \<Rightarrow> turn_state \<Rightarrow> policy_event" where
  "churn_event E I S =
     \<lparr>pv_operation = ''__control_churn__'',
      pv_params = [(''blocked_tools'', strs (blocked_tools I)), (''streak'', PInt (ts_zero_streak S)),
        (''contract_rejections'', PInt (int (ti_contract_rejected I))), (''suppressed_calls'', PInt (int (ti_suppressed I)))],
      pv_error_code = te_code_churn E, pv_message = churn_warning S\<rparr>"

section \<open>A turn\<close>

text \<open>The outcome before anything is submitted: counts, evidence and stagnation.\<close>

definition evidence_outcome :: "turn_env \<Rightarrow> turn_input \<Rightarrow> turn_state \<Rightarrow> turn_state \<Rightarrow> turn_outcome" where
  "evidence_outcome E I S S1 =
     (let coercions = sum_list (map (length \<circ> rec_coercions) (ti_records I));
          calls = length (filter (\<lambda>r. rec_coercions r \<noteq> []) (ti_records I));
          rejections = length (filter validation_rejected (ti_records I));
          hit = stagnates E S1
      in \<lparr>to_coercions = coercions, to_coercion_calls = calls, to_validation_rejections = rejections, to_submit_calls = 0,
          to_succeeded = False, to_submitted = None, to_fallback = None, to_terminal = None,
          to_evidence_count = card (ts_labels S1), to_new_evidence = new_evidence E I S,
          to_had_evidence_tools = evidence_tools I \<noteq> [], to_triggered = hit,
          to_messages = (if \<not> hit then []
            else if te_stagnation_action E = ''force_final'' then [STAGNATION_FINAL] else [STAGNATION_OBSERVED]),
          to_warnings = coercion_warnings E (ti_turn I) coercions calls rejections @ (if hit then [stagnation_warning S1] else []),
          to_codes = (if hit then [stagnation_code E] else []),
          to_events = (if hit then [stagnation_event E I S1] else []),
          to_force_final = (if hit \<and> te_stagnation_action E = ''force_final'' then Some ''retrieval_stagnation'' else None),
          to_stop = (hit \<and> te_stagnation_action E = ''force_final'')\<rparr>)"

definition note_stagnation :: "turn_env \<Rightarrow> turn_input \<Rightarrow> turn_state \<Rightarrow> turn_state" where
  "note_stagnation E I S1 =
     (if stagnates E S1
      then S1\<lparr>ts_alerted := True, ts_stagnation_turn := opt_first (ts_stagnation_turn S1) (Some (ti_turn I + 1))\<rparr>
      else S1)"

definition process_turn_outcomes :: "turn_env \<Rightarrow> turn_input \<Rightarrow> turn_state \<Rightarrow> turn_outcome \<times> turn_state" where
  "process_turn_outcomes E I S =
     (let S1 = note_evidence E I S; R1 = evidence_outcome E I S S1; S2 = note_stagnation E I S1 in
      if to_stop R1 then (R1, S2)
      else
        let A = submit_records E I S2; S3 = close_gate E I (to_new_evidence R1) A S2;
            refusal = list_ex (\<lambda>e. py_contains ''refusal-style'' (py_lower e) \<or> py_contains ''not acceptable'' (py_lower e)) (sa_errors A);
            S4 = note_todo E I S3; S5 = note_zero_exec I S4;
            churns = (te_churn_threshold E \<le> ts_zero_streak S5) in
        (R1\<lparr>to_submit_calls := length (filter (\<lambda>r. rec_tool r = ''submit_answer'') (ti_records I)),
            to_succeeded := sa_succeeded A, to_submitted := sa_submitted A, to_fallback := sa_fallback A,
            to_terminal := sa_terminal A,
            to_messages := to_messages R1 @
              (if sa_errors A = [] then []
               else [submit_failed_message (ts_requires_evidence S3) (ts_requires_todo S3) refusal (ts_guidance S3)]) @
              todo_messages I S4 @ (if churns then [churn_message S5] else []),
            to_warnings := to_warnings R1 @
              (if sa_errors A \<noteq> [] \<and> sa_forced_terminal A \<and> ts_requires_todo S3 then [PENDING_CHURN] else []) @
              (if churns then [churn_warning S5] else []),
            to_codes := to_codes R1 @ (if churns then [te_code_churn E] else []),
            to_events := to_events R1 @ (if churns then [churn_event E I S5] else []),
            to_force_final := (if churns then Some ''control_churn'' else None),
            to_stop := churns\<rparr>, S5))"

section \<open>What a turn does to the state\<close>

lemma note_evidence_simps [simp]:
  "ts_labels (note_evidence E I S) = labels_after E I S"
  "ts_streak (note_evidence E I S) = (if evidence_tools I \<noteq> [] \<and> \<not> new_evidence E I S then ts_streak S + 1 else 0)"
  "ts_alerted (note_evidence E I S) = ((evidence_tools I \<noteq> [] \<and> \<not> new_evidence E I S) \<and> ts_alerted S)"
  "ts_zero_streak (note_evidence E I S) = ts_zero_streak S"
  "ts_requires_todo (note_evidence E I S) = ts_requires_todo S"
  "ts_todo_line (note_evidence E I S) = ts_todo_line S"
  by (simp_all add: note_evidence_def Let_def)

lemma note_stagnation_simps [simp]:
  "ts_labels (note_stagnation E I S) = ts_labels S" "ts_streak (note_stagnation E I S) = ts_streak S"
  "ts_alerted (note_stagnation E I S) = (ts_alerted S \<or> stagnates E S)"
  "ts_zero_streak (note_stagnation E I S) = ts_zero_streak S"
  "ts_requires_evidence (note_stagnation E I S) = ts_requires_evidence S"
  "ts_digest_at_failure (note_stagnation E I S) = ts_digest_at_failure S"
  "ts_requires_todo (note_stagnation E I S) = ts_requires_todo S" "ts_todo_line (note_stagnation E I S) = ts_todo_line S"
  by (simp_all add: note_stagnation_def)

lemma close_gate_simps [simp]:
  "ts_labels (close_gate E I fresh A S) = ts_labels S" "ts_streak (close_gate E I fresh A S) = ts_streak S"
  "ts_alerted (close_gate E I fresh A S) = ts_alerted S" "ts_zero_streak (close_gate E I fresh A S) = ts_zero_streak S"
  "ts_todo_line (close_gate E I fresh A S) = ts_todo_line S"
  by (simp_all add: close_gate_def Let_def)

lemma note_todo_simps [simp]:
  "ts_labels (note_todo E I S) = ts_labels S" "ts_streak (note_todo E I S) = ts_streak S"
  "ts_alerted (note_todo E I S) = ts_alerted S" "ts_zero_streak (note_todo E I S) = ts_zero_streak S"
  by (simp_all add: note_todo_def Let_def)

lemma note_zero_exec_simps [simp]:
  "ts_labels (note_zero_exec I S) = ts_labels S" "ts_streak (note_zero_exec I S) = ts_streak S"
  "ts_alerted (note_zero_exec I S) = ts_alerted S" "ts_requires_evidence (note_zero_exec I S) = ts_requires_evidence S"
  "ts_digest_at_failure (note_zero_exec I S) = ts_digest_at_failure S" "ts_requires_todo (note_zero_exec I S) = ts_requires_todo S"
  "ts_todo_line (note_zero_exec I S) = ts_todo_line S"
  by (simp_all add: note_zero_exec_def Let_def)

lemma evidence_outcome_simps [simp]:
  "to_new_evidence (evidence_outcome E I S S1) = new_evidence E I S"
  "to_had_evidence_tools (evidence_outcome E I S S1) = (evidence_tools I \<noteq> [])"
  "to_triggered (evidence_outcome E I S S1) = stagnates E S1"
  "to_stop (evidence_outcome E I S S1) = (stagnates E S1 \<and> te_stagnation_action E = ''force_final'')"
  by (simp_all add: evidence_outcome_def Let_def)

text \<open>What every turn does to the streaks, whether it ends early or not.\<close>

lemma turn_state_after:
  "snd (process_turn_outcomes E I S) =
     (let S2 = note_stagnation E I (note_evidence E I S) in
      if to_stop (evidence_outcome E I S (note_evidence E I S)) then S2
      else note_zero_exec I (note_todo E I (close_gate E I (new_evidence E I S) (submit_records E I S2) S2)))"
  by (simp add: process_turn_outcomes_def Let_def)

lemma turn_outcome_evidence:
  "to_had_evidence_tools (fst (process_turn_outcomes E I S)) = (evidence_tools I \<noteq> [])"
  "to_new_evidence (fst (process_turn_outcomes E I S)) = new_evidence E I S"
  "to_triggered (fst (process_turn_outcomes E I S)) = stagnates E (note_evidence E I S)"
  by (simp_all add: process_turn_outcomes_def Let_def)

lemma turn_streaks_after:
  "ts_streak (snd (process_turn_outcomes E I S)) = ts_streak (note_evidence E I S)"
  "ts_alerted (snd (process_turn_outcomes E I S)) =
     (ts_alerted (note_evidence E I S) \<or> stagnates E (note_evidence E I S))"
  "ts_labels (snd (process_turn_outcomes E I S)) = labels_after E I S"
  by (simp_all add: turn_state_after Let_def)

lemma turn_streaks:
  assumes "process_turn_outcomes E I S = (R, S')"
  shows "ts_streak S' = (if to_had_evidence_tools R \<and> \<not> to_new_evidence R then ts_streak S + 1 else 0)"
    and "to_triggered R \<longleftrightarrow> te_stagnation_turns E \<le> ts_streak S' \<and> \<not> (to_had_evidence_tools R \<and> \<not> to_new_evidence R \<and> ts_alerted S)"
    and "ts_alerted S' \<longleftrightarrow> to_had_evidence_tools R \<and> \<not> to_new_evidence R \<and> ts_alerted S \<or> to_triggered R"
proof -
  have eqs: "R = fst (process_turn_outcomes E I S)" "S' = snd (process_turn_outcomes E I S)" using assms by simp_all
  show "ts_streak S' = (if to_had_evidence_tools R \<and> \<not> to_new_evidence R then ts_streak S + 1 else 0)"
    by (simp only: eqs turn_outcome_evidence turn_streaks_after note_evidence_simps)
  show "to_triggered R \<longleftrightarrow> te_stagnation_turns E \<le> ts_streak S' \<and> \<not> (to_had_evidence_tools R \<and> \<not> to_new_evidence R \<and> ts_alerted S)"
    by (simp only: eqs turn_outcome_evidence turn_streaks_after stagnates_def note_evidence_simps) blast
  show "ts_alerted S' \<longleftrightarrow> to_had_evidence_tools R \<and> \<not> to_new_evidence R \<and> ts_alerted S \<or> to_triggered R"
    by (simp only: eqs turn_outcome_evidence turn_streaks_after note_evidence_simps) blast
qed

section \<open>Stagnation\<close>

definition stagnant :: "turn_outcome \<Rightarrow> bool" where
  "stagnant R \<longleftrightarrow> to_had_evidence_tools R \<and> \<not> to_new_evidence R"

definition trailing :: "('a \<Rightarrow> bool) \<Rightarrow> 'a list \<Rightarrow> int" where
  "trailing P xs = int (length (takeWhile P (rev xs)))"

lemma trailing_snoc: "trailing P (xs @ [x]) = (if P x then trailing P xs + 1 else 0)"
  by (simp add: trailing_def)

definition streak_inv :: "turn_env \<Rightarrow> turn_outcome list \<Rightarrow> turn_state \<Rightarrow> bool" where
  "streak_inv E Rs S \<longleftrightarrow> ts_streak S = trailing stagnant Rs \<and> (ts_alerted S \<longleftrightarrow> te_stagnation_turns E \<le> ts_streak S) \<and>
     (\<forall>k < length Rs. to_triggered (Rs ! k) \<longleftrightarrow> trailing stagnant (take (Suc k) Rs) = te_stagnation_turns E)"

lemma streak_inv_step:
  assumes inv: "streak_inv E Rs S" and turn: "process_turn_outcomes E I S = (R, S')" and pos: "1 \<le> te_stagnation_turns E"
  shows "streak_inv E (Rs @ [R]) S'"
proof -
  note facts = turn_streaks(1-3) [OF turn]
  have streak: "ts_streak S' = trailing stagnant (Rs @ [R])"
    using facts(1) inv by (simp add: streak_inv_def trailing_snoc stagnant_def)
  have trig: "to_triggered R \<longleftrightarrow> trailing stagnant (Rs @ [R]) = te_stagnation_turns E"
    using facts(2) inv pos by (auto simp: streak_inv_def trailing_snoc stagnant_def facts(1))
  have "ts_alerted S' \<longleftrightarrow> te_stagnation_turns E \<le> ts_streak S'"
    using facts inv pos by (auto simp: streak_inv_def)
  moreover have "to_triggered ((Rs @ [R]) ! k) \<longleftrightarrow> trailing stagnant (take (Suc k) (Rs @ [R])) = te_stagnation_turns E"
    if "k < length (Rs @ [R])" for k
    using that inv trig by (cases "k = length Rs") (auto simp: streak_inv_def nth_append)
  ultimately show ?thesis using streak unfolding streak_inv_def by blast
qed

section \<open>The gate on submissions\<close>

definition gate_ok :: "turn_state \<Rightarrow> bool" where
  "gate_ok S \<longleftrightarrow> (ts_requires_evidence S \<longleftrightarrow> ts_digest_at_failure S \<noteq> None)"

lemma gate_ok_turn:
  assumes "process_turn_outcomes E I S = (R, S')" and "gate_ok S"
  shows "gate_ok S'"
proof -
  have 1: "gate_ok (note_evidence E I S)" using assms(2) by (auto simp: gate_ok_def note_evidence_def Let_def)
  have 2: "gate_ok (close_gate E I fresh A T)" if "gate_ok T" for fresh A T
    using that by (auto simp: gate_ok_def close_gate_def Let_def)
  have 3: "gate_ok (note_todo E I T)" if "gate_ok T" for T using that by (auto simp: gate_ok_def note_todo_def Let_def)
  have 4: "gate_ok (note_stagnation E I T) = gate_ok T" "gate_ok (note_zero_exec I T) = gate_ok T" for T
    by (simp_all add: gate_ok_def)
  show ?thesis using assms(1) 1 2 3 4 by (auto simp: process_turn_outcomes_def Let_def split: if_splits)
qed

lemma close_gate_keeps: "ts_requires_evidence T \<Longrightarrow> ts_requires_evidence (close_gate E I fresh A T)"
  by (simp add: close_gate_def Let_def)

lemma note_todo_releases:
  "ts_requires_evidence T \<Longrightarrow> \<not> ts_requires_evidence (note_todo E I T) \<Longrightarrow>
     \<exists>l. ts_todo_line (note_todo E I T) = Some l \<and> ts_todo_at_failure T \<noteq> None \<and> ts_todo_at_failure T \<noteq> Some l"
  by (auto simp: note_todo_def Let_def split: if_splits)

text \<open>
  The evidence gate opens for progress only. When a submission was refused for want of evidence, the gate
  is open after a turn only if the turn found evidence that changed the digest from the one at the failure,
  or if the TODO state changed from the one of a failure; it is never open without a digest to compare with.
\<close>

theorem gate_opens_for_progress:
  assumes "process_turn_outcomes E I S = (R, S')" and "gate_ok S" and "ts_requires_evidence S"
  shows "gate_ok S'
    \<and> (\<not> ts_requires_evidence S' \<longrightarrow>
        new_evidence E I S \<and> ts_digest_at_failure S \<noteq> Some (digest_after E I S)
        \<or> (\<exists>l old. ts_todo_line S' = Some l \<and> old \<noteq> l \<and>
            (ts_todo_at_failure S = Some old \<or> (\<exists>r \<in> set (ti_records I). rec_tool r = ''submit_answer'' \<and> \<not> failed r))))"
proof (intro conjI impI)
  show "gate_ok S'" using gate_ok_turn [OF assms(1,2)] .
  assume open_after: "\<not> ts_requires_evidence S'"
  let ?S1 = "note_evidence E I S"
  show "new_evidence E I S \<and> ts_digest_at_failure S \<noteq> Some (digest_after E I S)
        \<or> (\<exists>l old. ts_todo_line S' = Some l \<and> old \<noteq> l \<and>
            (ts_todo_at_failure S = Some old \<or> (\<exists>r \<in> set (ti_records I). rec_tool r = ''submit_answer'' \<and> \<not> failed r)))"
  proof (cases "ts_requires_evidence ?S1")
    case False
    then show ?thesis using assms(3) by (auto simp: note_evidence_def Let_def)
  next
    case True
    let ?S2 = "note_stagnation E I ?S1"
    let ?A = "submit_records E I ?S2"
    let ?S3 = "close_gate E I (new_evidence E I S) ?A ?S2"
    have kept: "ts_requires_evidence ?S3" using True by (simp add: close_gate_keeps)
    have S': "S' = note_zero_exec I (note_todo E I ?S3)"
      using assms(1) open_after True by (auto simp: process_turn_outcomes_def Let_def split: if_splits)
    then obtain l old where l: "ts_todo_line S' = Some l" "ts_todo_at_failure ?S3 = Some old" "old \<noteq> l"
      using note_todo_releases [OF kept, of E I] open_after by auto
    have same: "sa_todo_at_failure (fold (submit_record E tl) rs A) = sa_todo_at_failure A" if "\<forall>r \<in> set rs. failed r" for tl rs A
      using that by (induction rs arbitrary: A) (auto simp: submit_record_def Let_def split: option.split)
    have "ts_todo_at_failure ?S3 = sa_todo_at_failure ?A" by (simp add: close_gate_def Let_def)
    moreover have "sa_todo_at_failure ?A = ts_todo_at_failure S"
      if "\<forall>r \<in> set (ti_records I). rec_tool r = ''submit_answer'' \<longrightarrow> failed r"
      using that by (simp add: submit_records_def same note_stagnation_def note_evidence_def Let_def)
    ultimately show ?thesis using l by auto
  qed
qed

section \<open>Turns that execute nothing end the loop\<close>

definition idle :: "turn_input \<Rightarrow> bool" where
  "idle I \<longleftrightarrow> ti_calls I \<noteq> [] \<and> ti_calls_to_execute I = []"

lemma turn_idle:
  assumes "process_turn_outcomes E I S = (R, S')" and "\<not> to_stop R"
  shows "ts_zero_streak S' = (if idle I then ts_zero_streak S + 1 else 0)" and "ts_zero_streak S' < te_churn_threshold E"
  using assms by (auto simp: process_turn_outcomes_def note_zero_exec_def idle_def Let_def simp del: evidence_outcome_simps split: if_splits)

section \<open>The answer given on the turn of the stagnation\<close>

text \<open>
  When the policy forces the final answer, the turn ends before its submissions are read: an answer that the
  validator accepted on the same turn is not noted.
\<close>

lemma stagnation_drops_submission:
  assumes "process_turn_outcomes E I S = (R, S')" and "stagnates E (note_evidence E I S)" and "te_stagnation_action E = ''force_final''"
  shows "\<not> to_succeeded R \<and> to_submitted R = None \<and> to_submit_calls R = 0 \<and> to_stop R"
  using assms by (auto simp: process_turn_outcomes_def evidence_outcome_def Let_def)

section \<open>Concrete turns\<close>

definition demo_turn_env :: turn_env where
  "demo_turn_env =
     \<lparr>te_loads = (\<lambda>s. if s = ''hit'' then Some (PDict [(PStr ''chunk_id'', PStr ''chunk_7'')]) else None), te_other = (\<lambda>v. ''None''),
      te_digest = concat, te_evidence = \<lparr>ee_other = (\<lambda>v. ''None''), ee_validate = (\<lambda>v. None), ee_parse = (\<lambda>v. None)\<rparr>,
      te_stagnation_turns = 2, te_stagnation_action = ''observe'', te_churn_threshold = 2, te_max_turns = 9,
      te_code_stagnation = ''RETRIEVAL_STAGNATION'', te_code_stagnation_observed = ''RETRIEVAL_STAGNATION_OBSERVED'',
      te_code_churn = ''CONTROL_CHURN''\<rparr>"

definition demo_turn :: "tool_record list \<Rightarrow> tool_call list \<Rightarrow> tool_call list \<Rightarrow> turn_input" where
  "demo_turn rs calls run =
     \<lparr>ti_turn = 0, ti_records = rs, ti_executed = rs, ti_calls = calls, ti_calls_to_execute = run, ti_contract_rejected = 0, ti_suppressed = 0\<rparr>"

definition demo_turn_state :: turn_state where
  "demo_turn_state = \<lparr>ts_labels = {}, ts_requires_evidence = False, ts_digest_at_failure = None, ts_requires_todo = False,
     ts_todo_at_failure = None, ts_guidance = None, ts_streak = 0, ts_streak_max = 0, ts_alerted = False,
     ts_stagnation_turn = None, ts_zero_streak = 0, ts_zero_max = 0, ts_todo_line = None, ts_reasons = []\<rparr>"

definition demo_search :: turn_input where
  "demo_search = demo_turn [(new_record ''web'' ''chunk_search'' [])\<lparr>rec_result := Some ''none''\<rparr>] [] []"

lemma demo_labels: "labels_after demo_turn_env demo_search S = ts_labels S"
  by (simp add: labels_after_def demo_search_def demo_turn_def tool_evidence_pointer_labels_def demo_turn_env_def new_record_def
      is_budget_exempt_tool_def BUDGET_EXEMPT_TOOL_NAMES_def parse_record_result_json_value_def Let_def)

lemma demo_search_evidence: "evidence_tools demo_search = [''chunk_search'']" "ti_calls demo_search = []"
  by (simp_all add: demo_search_def demo_turn_def evidence_tools_def Let_def py_strip_def py_lower_def py_startswith_any_def letter_bits_def py_isspace_def
      is_evidence_tool_name_def failed_def new_record_def is_budget_exempt_tool_def BUDGET_EXEMPT_TOOL_NAMES_def)

lemma demo_not_new: "\<not> new_evidence demo_turn_env demo_search S"
  by (simp add: new_evidence_def digest_after_def demo_labels)

lemma gate_opens_for_progress_witness:
  "gate_ok (snd (process_turn_outcomes demo_turn_env demo_search (demo_turn_state\<lparr>ts_requires_evidence := True, ts_digest_at_failure := Some []\<rparr>)))"
  using gate_opens_for_progress [of demo_turn_env demo_search "demo_turn_state\<lparr>ts_requires_evidence := True, ts_digest_at_failure := Some []\<rparr>"
      "fst (process_turn_outcomes demo_turn_env demo_search (demo_turn_state\<lparr>ts_requires_evidence := True, ts_digest_at_failure := Some []\<rparr>))"]
  by (simp add: gate_ok_def)

end
