(* ===== verification/Agent_Loop.thy ===== *)
theory Agent_Loop
  imports Agent_Finalization Turn_Outcomes Error_Budget
begin

text \<open>
  The loop of the tool-calling agent, \<open>_agent_loop\<close> of \<open>llm_client/agent/mcp_turn_execution.py\<close>: before each turn the
  plan and the budget of retrieval calls, then the model stage (\<open>Turn_Model\<close>), the tools (\<open>Turn_Tools\<close>), the outcomes
  (\<open>Turn_Outcomes\<close>), the nudges and the error budget; after the turns the completion (\<open>Agent_Finalization\<close>).

  The variables of the loop are the record \<open>loop_state\<close>. The variables that the tools and the outcomes of a turn
  share, the gates on \<open>submit_answer\<close>, are kept in the state of the outcomes and handed over. Counters that only feed
  the metadata of the result, and the events for the foundation log, are left out.
\<close>

section \<open>State\<close>

record loop_env =
  lo_model :: model_env
  lo_outcomes :: turn_env
  lo_final :: final_env
  lo_policy :: completion_policy
  lo_auto_inject :: bool
  lo_plan_chars :: int
  lo_plan_format :: string
  lo_stall_threshold :: int

record loop_state =
  ls_model :: model_state
  ls_tools :: tool_state
  ls_outcomes :: turn_state
  ls_records :: "tool_record list"
  ls_errors :: error_budget_state
  ls_turns :: int
  ls_budget_shown :: "int option"
  ls_grace :: nat
  ls_repairs :: nat
  ls_terminal :: "string option"
  ls_succeeded :: bool
  ls_submitted :: "string option"
  ls_guess :: "string option"
  ls_submit_calls :: nat
  ls_had_evidence :: bool
  ls_deficit_digest :: "string option"
  ls_stall :: int
  ls_stall_max :: int
  ls_stall_signature :: "(string \<times> string) option"
  ls_error_counts :: "((string \<times> string) \<times> int) list"
  ls_error_nudged :: "((string \<times> string) \<times> int) list"
  ls_call_counts :: counters
  ls_loop_nudged :: counters
  ls_force :: "string option"
  ls_content :: string
  ls_finish :: string
  ls_codes :: "string list"
  ls_cost :: rat

definition tools_env :: "loop_env \<Rightarrow> tool_env" where
  "tools_env E = md_tools (lo_model E)"

definition on_model :: "(model_state \<Rightarrow> model_state) \<Rightarrow> loop_state \<Rightarrow> loop_state" where
  "on_model f L = L\<lparr>ls_model := f (ls_model L)\<rparr>"

definition inform :: "string \<Rightarrow> loop_state \<Rightarrow> loop_state" where
  "inform s = on_model (say s)"

section \<open>Before the model is called\<close>

definition PLAN_TAG :: string where
  "PLAN_TAG = ''[PLAN PROGRESS:''"

definition plan_message :: "message \<Rightarrow> bool" where
  "plan_message m \<longleftrightarrow> (case arg_value m ''content'' of PStr s \<Rightarrow> py_contains PLAN_TAG s | _ \<Rightarrow> False)"

text \<open>\<open>messages.insert(1, m)\<close> on the messages without an older plan.\<close>

definition with_plan :: "string \<Rightarrow> message list \<Rightarrow> message list" where
  "with_plan text ms =
     (let rest = filter (\<lambda>m. \<not> plan_message m) ms in take 1 rest @ [user_message text] @ drop 1 rest)"

definition inject_plan :: "loop_env \<Rightarrow> loop_state \<Rightarrow> loop_state" where
  "inject_plan E L =
     (let text = format_context (tt_glyphs (tools_env E)) (lo_plan_chars E) (lo_plan_format E) (tl_plan (ls_tools L)) in
      if tl_plan (ls_tools L) = None \<or> \<not> lo_auto_inject E \<or> text = [] then L
      else on_model (\<lambda>M. M\<lparr>ms_messages := with_plan text (ms_messages M)\<rparr>) L)"

definition GRACE_LIMIT :: nat where
  "GRACE_LIMIT = 2"

definition REPAIR_LIMIT :: nat where
  "REPAIR_LIMIT = 1"

definition GRACE_MESSAGE :: string where
  "GRACE_MESSAGE =
     ''[SYSTEM: Retrieval-tool budget is exhausted. This is a '' @
     ''budget-exempt terminal grace turn. Do not call retrieval tools. '' @
     ''You may use only: '' @ exempt_names @ ''. '' @
     ''Commit any already-validated TODO result, then call submit_answer. '' @
     ''If the submit schema offers an evidence_exhausted or abstain terminal '' @
     ''and bounded evidence cannot resolve a pending item, use that validated '' @
     ''no-answer terminal now instead of retrying a factual answer. '' @
     ''Never invent missing evidence.]''"

definition repair_message :: "string \<Rightarrow> string" where
  "repair_message terminal =
     ''[SYSTEM: The validator exposed the immediately legal terminal mode '' @
     [CHR 0x27] @ terminal @ [CHR 0x27] @ '' after the last rejected submit. '' @
     ''This is a one-shot, budget-exempt terminal repair turn. Call '' @
     ''submit_answer now using that exact terminal_mode and the validator'' @ [CHR 0x27] @ ''s '' @
     ''repair guidance. For a no-answer terminal, use answer='' @ [CHR 0x27, CHR 0x27] @ '' and a concise '' @
     ''summary of the inspected evidence gap. Do not call any other tool and '' @
     ''do not retry a factual answer.]''"

definition budget_message :: "int \<Rightarrow> nat \<Rightarrow> int \<Rightarrow> string" where
  "budget_message limit used remaining =
     ''[SYSTEM: Retrieval-tool budget: '' @ nat_digits used @ ''/'' @ py_int_str limit @ '' used, '' @
     py_int_str remaining @ '' remaining. Plan carefully. '' @
     ''Budget-exempt tools: '' @ exempt_names @ ''. '' @
     ''If you already have enough evidence, submit your answer now.]''"

text \<open>The check of the budget before a turn; the truth value says that the loop ends here.\<close>

definition exhausted_budget :: "loop_env \<Rightarrow> loop_state \<Rightarrow> bool \<times> loop_state" where
  "exhausted_budget E L =
     (let owed = md_requires_submit (lo_model E) \<and> \<not> ls_succeeded L in
      if owed \<and> ls_grace L < GRACE_LIMIT
      then (False, inform GRACE_MESSAGE (L\<lparr>ls_grace := ls_grace L + 1, ls_budget_shown := Some 0\<rparr>))
      else if owed \<and> ls_terminal L \<noteq> None \<and> ls_terminal L \<noteq> Some [] \<and> ls_repairs L < REPAIR_LIMIT
      then (False, inform (repair_message (or_value (ls_terminal L) [])) (L\<lparr>ls_repairs := ls_repairs L + 1, ls_budget_shown := Some 0\<rparr>))
      else if owed \<and> \<not> cp_accept_forced (lo_policy E) then (True, L)
      else (True, L\<lparr>ls_force := Some ''max_tool_calls''\<rparr>))"

definition check_tool_budget :: "loop_env \<Rightarrow> loop_state \<Rightarrow> bool \<times> loop_state" where
  "check_tool_budget E L =
     (case md_max_tool_calls (lo_model E) of
        None \<Rightarrow> (False, L)
      | Some limit \<Rightarrow>
          (let used = count_budgeted_records (ls_records L); remaining = limit - int used in
           case (if remaining \<le> 0 then exhausted_budget E L else (False, L)) of
             (True, L1) \<Rightarrow> (True, L1)
           | (False, L1) \<Rightarrow>
               (False, if Some remaining = ls_budget_shown L1 then L1
                       else inform (budget_message limit used remaining) (L1\<lparr>ls_budget_shown := Some remaining\<rparr>))))"

section \<open>The model stage\<close>

definition stage_input_of :: "int \<Rightarrow> loop_state \<Rightarrow> stage_input" where
  "stage_input_of turn L =
     \<lparr>si_turn = turn, si_had_evidence = ls_had_evidence L, si_deficit_digest = ls_deficit_digest L,
      si_submitted = ls_succeeded L, si_records = ls_records L\<rparr>"

definition model_stage :: "loop_env \<Rightarrow> int \<Rightarrow> loop_state \<Rightarrow> model_outcome \<times> loop_state" where
  "model_stage E turn L =
     (case run_turn_model_stage (lo_model E) (ls_tools L) (stage_input_of turn L) (ls_model L) of
        (M, R) \<Rightarrow>
          (R, L\<lparr>ls_model := M, ls_turns := turn + 1, ls_content := mo_final_content R, ls_finish := mo_finish_reason R,
                ls_codes := ls_codes L @ mo_codes R, ls_cost := ls_cost L + mo_cost R\<rparr>))"

section \<open>The tools and their outcomes\<close>

text \<open>The gates go from the outcomes to the tools and back.\<close>

definition gates_to_tools :: "turn_state \<Rightarrow> tool_state \<Rightarrow> tool_state" where
  "gates_to_tools S A =
     A\<lparr>tl_requires_evidence := ts_requires_evidence S, tl_digest_at_failure := ts_digest_at_failure S,
       tl_requires_todo := ts_requires_todo S, tl_todo_at_failure := ts_todo_at_failure S\<rparr>"

definition gates_from_tools :: "tool_state \<Rightarrow> turn_state \<Rightarrow> turn_state" where
  "gates_from_tools A S =
     S\<lparr>ts_requires_evidence := tl_requires_evidence A, ts_digest_at_failure := tl_digest_at_failure A,
       ts_requires_todo := tl_requires_todo A, ts_todo_at_failure := tl_todo_at_failure A\<rparr>"

definition tools_input_of :: "int \<Rightarrow> tool_call list \<Rightarrow> turn_state \<Rightarrow> tools_input" where
  "tools_input_of turn calls S =
     \<lparr>tn_turn = turn, tn_calls = calls, tn_labels = ts_labels S, tn_todo_line = ts_todo_line S, tn_guidance = ts_guidance S\<rparr>"

definition turn_input_of :: "int \<Rightarrow> tool_call list \<Rightarrow> tools_outcome \<Rightarrow> turn_input" where
  "turn_input_of turn calls R =
     \<lparr>ti_turn = turn, ti_records = tx_records R, ti_executed = tx_executed R, ti_calls = calls, ti_calls_to_execute = tx_to_execute R,
      ti_contract_rejected = tx_contract_rejected R, ti_suppressed = tx_suppressed R\<rparr>"

text \<open>The tools of a turn and what follows from their results.\<close>

definition tool_turn ::
  "loop_env \<Rightarrow> int \<Rightarrow> tool_call list \<Rightarrow> tool_state \<times> turn_state \<Rightarrow> string + (tools_outcome \<times> turn_outcome) \<times> tool_state \<times> turn_state" where
  "tool_turn E turn calls st =
     (case process_tool_calls_turn (tools_env E) (tools_input_of turn calls (snd st)) (gates_to_tools (snd st) (fst st)) of
        Inl e \<Rightarrow> Inl e
      | Inr (R, A) \<Rightarrow>
          (case process_turn_outcomes (lo_outcomes E) (turn_input_of turn calls R) (gates_from_tools A (snd st)) of
             (W, S) \<Rightarrow> Inr ((R, W), A, S)))"

definition post_messages :: "tools_outcome \<Rightarrow> string list" where
  "post_messages R =
     List.map_filter id [tx_gate_message R, tx_contract_message R, tx_control_message R]"

definition adopt_tools :: "tools_outcome \<Rightarrow> tool_state \<Rightarrow> loop_state \<Rightarrow> loop_state" where
  "adopt_tools R A L =
     fold inform (post_messages R)
       (on_model (\<lambda>M. M\<lparr>ms_messages := ms_messages M @ tx_messages R\<rparr>)
         (L\<lparr>ls_tools := A, ls_records := ls_records L @ tx_records R, ls_codes := ls_codes L @ tx_codes R\<rparr>))"

definition adopt_outcomes :: "model_outcome \<Rightarrow> turn_outcome \<Rightarrow> turn_state \<Rightarrow> loop_state \<Rightarrow> loop_state" where
  "adopt_outcomes Mo W S L =
     fold inform (to_messages W)
       (on_model (\<lambda>M. M\<lparr>ms_warnings := ms_warnings M @ to_warnings W\<rparr>)
         (L\<lparr>ls_outcomes := S, ls_submit_calls := ls_submit_calls L + to_submit_calls W,
            ls_succeeded := (ls_succeeded L \<or> to_succeeded W), ls_submitted := opt_first (to_submitted W) (ls_submitted L),
            ls_guess := opt_first (to_fallback W) (ls_guess L), ls_terminal := opt_first (to_terminal W) (ls_terminal L),
            ls_had_evidence := to_had_evidence_tools W, ls_deficit_digest := mo_deficit_digest Mo,
            ls_codes := ls_codes L @ to_codes W\<rparr>))"

section \<open>Submissions that stall\<close>

definition suppressed_submission :: "tool_record \<Rightarrow> bool" where
  "suppressed_submission r \<longleftrightarrow>
     rec_tool r = ''submit_answer'' \<and> rec_server r = ''__agent__'' \<and> py_contains ''suppressed:'' (py_lower (or_value (rec_error r) []))"

definition stall_signature :: "turn_state \<Rightarrow> string \<times> string" where
  "stall_signature S =
     (or_value (ts_todo_at_failure S) (or_value (ts_todo_line S) []), or_value (ts_guidance S) [])"

definition note_stall :: "tool_record list \<Rightarrow> loop_state \<Rightarrow> loop_state" where
  "note_stall records L =
     (let S = ls_outcomes L; here = Some (stall_signature S); hit = list_ex suppressed_submission records;
          (streak, signature) =
            (if \<not> ts_requires_todo S then (0, None)
             else if ls_stall_signature L \<noteq> here then (if hit then 1 else 0, here)
             else (ls_stall L + (if hit then 1 else 0), here)) in
      L\<lparr>ls_stall := streak, ls_stall_signature := signature, ls_stall_max := max (ls_stall_max L) streak\<rparr>)"

definition STALL_WARNING :: string where
  "STALL_WARNING =
     ''CONTROL_CHURN: repeated suppressed submit retries without TODO progress '' @
     ''on the same repair hint; forcing final answer.''"

definition STALL_MESSAGE :: string where
  "STALL_MESSAGE =
     ''[SYSTEM: Repeated submit suppressions without TODO progress on the same '' @
     ''repair hint. Stop looping and give your best answer now from existing evidence.]''"

definition stalled :: "loop_env \<Rightarrow> turn_outcome \<Rightarrow> loop_state \<Rightarrow> bool" where
  "stalled E W L \<longleftrightarrow> \<not> to_stop W \<and> ts_requires_todo (ls_outcomes L) \<and> lo_stall_threshold E \<le> ls_stall L"

definition force_stalled :: "loop_state \<Rightarrow> loop_state" where
  "force_stalled L =
     inform STALL_MESSAGE (on_model (warn STALL_WARNING)
       (L\<lparr>ls_codes := ls_codes L @ [''CONTROL_CHURN_THRESHOLD_EXCEEDED''], ls_force := Some ''control_churn''\<rparr>))"

section \<open>Nudges\<close>

definition note_tool_error :: "tool_record \<Rightarrow> loop_state \<Rightarrow> loop_state" where
  "note_tool_error r L =
     (if \<not> record_failed r then L
      else
        (let sig = tool_error_signature (or_value (rec_error r) []); key = (rec_tool r, sig);
             n = (case dict_get (ls_error_counts L) key of Some k \<Rightarrow> k | None \<Rightarrow> 0) + 1;
             nudged = (case dict_get (ls_error_nudged L) key of Some k \<Rightarrow> k | None \<Rightarrow> 0);
             L1 = L\<lparr>ls_error_counts := dict_set key n (ls_error_counts L)\<rparr> in
         if 2 \<le> n \<and> nudged < n
         then inform (''[SYSTEM: Repeated tool error from '' @ [CHR 0x27] @ rec_tool r @ [CHR 0x27] @ '': '' @ sig @ ''. '' @
                ''STOP retrying near-identical calls. Change strategy '' @
                ''(new evidence, alternate hypothesis, or upstream repair) before continuing.]'')
              (L1\<lparr>ls_error_nudged := dict_set key n (ls_error_nudged L1)\<rparr>)
         else L1))"

definition count_call :: "tool_call \<Rightarrow> counters \<Rightarrow> counters" where
  "count_call tc d = (if tcl_name tc = [] \<or> is_budget_exempt_tool (tcl_name tc) then d else bump (tcl_name tc) 1 d)"

definition note_tool_loop :: "string list \<Rightarrow> string \<times> int \<Rightarrow> loop_state \<Rightarrow> loop_state" where
  "note_tool_loop hints entry L =
     (case entry of (tool, n) \<Rightarrow>
        (let nudged = (case dict_get (ls_loop_nudged L) tool of Some k \<Rightarrow> k | None \<Rightarrow> 0);
             suggested = take 3 (filter (\<lambda>h. h \<noteq> tool \<and> \<not> is_budget_exempt_tool h) hints) in
         if 3 \<le> n \<and> n mod 3 = 0 \<and> nudged < n
         then inform (''[SYSTEM: You have called '' @ [CHR 0x27] @ tool @ [CHR 0x27] @ '' '' @ py_int_str n @ '' times. '' @
                ''STOP repeating the same searches. Read what you already have. '' @
                (if suggested = [] then [] else ''Try these alternatives now: '' @ py_join '', '' suggested @ ''. '') @
                ''If still blocked, submit your answer now.]'')
              (L\<lparr>ls_loop_nudged := dict_set tool n (ls_loop_nudged L)\<rparr>)
         else L))"

definition nudge_loops :: "string list \<Rightarrow> tool_call list \<Rightarrow> loop_state \<Rightarrow> loop_state" where
  "nudge_loops hints executed L =
     (let counts = fold count_call executed (ls_call_counts L)
      in fold (note_tool_loop hints) counts (L\<lparr>ls_call_counts := counts\<rparr>))"

definition trace_tools :: "message list \<Rightarrow> loop_state \<Rightarrow> loop_state" where
  "trace_tools ms =
     on_model (\<lambda>M. M\<lparr>ms_trace := ms_trace M @
       map (\<lambda>m. [(''role'', PStr ''tool''),
                 (''tool_call_id'', case dict_get m ''tool_call_id'' of Some v \<Rightarrow> v | None \<Rightarrow> PStr []),
                 (''content'', case dict_get m ''content'' of Some v \<Rightarrow> v | None \<Rightarrow> PStr [])]) ms\<rparr>)"

section \<open>The end of a turn\<close>

definition track_errors :: "string \<Rightarrow> tool_record list \<Rightarrow> error_budget_state \<Rightarrow> error_budget_state" where
  "track_errors model records B =
     (if list_ex record_failed records
      then fold (\<lambda>r B. if record_failed r then snd (record_error model (or_value (rec_error r) []) B) else B) records B
      else record_success model B)"

definition countdown :: "loop_env \<Rightarrow> int \<Rightarrow> loop_state \<Rightarrow> loop_state" where
  "countdown E turn L =
     (let remaining = md_max_turns (lo_model E) - (turn + 1) in
      if remaining = TURN_WARNING_THRESHOLD
      then inform (''[SYSTEM: You have '' @ py_int_str remaining @ '' turns remaining. '' @
             ''Submit your best answer now based on the evidence you have. '' @
             ''Do not search for more information.]'') L
      else L)"

definition finish_submitted :: "loop_state \<Rightarrow> loop_state" where
  "finish_submitted L =
     L\<lparr>ls_content := or_value (ls_submitted L) (or_text (py_strip (ls_content L)) ''submitted''), ls_finish := ''submitted''\<rparr>"

definition check_errors :: "loop_env \<Rightarrow> int \<Rightarrow> tool_record list \<Rightarrow> loop_state \<Rightarrow> bool \<times> loop_state" where
  "check_errors E turn records L =
     (let L1 = L\<lparr>ls_errors := track_errors (ms_effective_model (ls_model L)) records (ls_errors L)\<rparr> in
      case should_stop (ls_errors L1) of
        (True, reason) \<Rightarrow> (True, on_model (warn (''error_budget_exhausted: '' @ reason)) L1)
      | (False, reason) \<Rightarrow> (False, countdown E turn L1))"

definition after_tools ::
  "loop_env \<Rightarrow> int \<Rightarrow> model_outcome \<Rightarrow> tools_outcome \<Rightarrow> turn_outcome \<Rightarrow> loop_state \<Rightarrow> bool \<times> loop_state" where
  "after_tools E turn Mo R W L0 =
     (let L = note_stall (tx_records R) L0 in
      if stalled E W L then (True, force_stalled L)
      else
        let L1 = L\<lparr>ls_force := opt_first (to_force_final W) (ls_force L)\<rparr> in
        if to_stop W then (True, L1)
        else
          let L2 = trace_tools (tx_messages R)
                (nudge_loops (mo_repair_hints Mo) (tx_to_execute R) (fold note_tool_error (tx_records R) L1)) in
          if ls_succeeded L2 then (True, finish_submitted L2)
          else check_errors E turn (tx_records R) L2)"

section \<open>A turn and the loop\<close>

definition loop_turn :: "loop_env \<Rightarrow> int \<Rightarrow> loop_state \<Rightarrow> string + bool \<times> loop_state" where
  "loop_turn E turn L0 =
     (case check_tool_budget E (inject_plan E L0) of
        (True, L) \<Rightarrow> Inr (True, L)
      | (False, L) \<Rightarrow>
          (case model_stage E turn L of
             (Mo, L1) \<Rightarrow>
               (if mo_continue Mo then Inr (False, L1)
                else if mo_break Mo then Inr (True, L1)
                else (case tool_turn E turn (mo_calls Mo) (ls_tools L1, ls_outcomes L1) of
                        Inl e \<Rightarrow> Inl e
                      | Inr ((R, W), A, S) \<Rightarrow>
                          Inr (after_tools E turn Mo R W (adopt_outcomes Mo W S (adopt_tools R A L1)))))))"

text \<open>\<open>for turn in range(max_turns)\<close> with its \<open>else\<close>.\<close>

fun agent_turns :: "loop_env \<Rightarrow> int list \<Rightarrow> loop_state \<Rightarrow> string + loop_state" where
  "agent_turns E [] L = Inr (L\<lparr>ls_force := Some ''max_turns''\<rparr>)"
| "agent_turns E (turn # turns) L =
     (case loop_turn E turn L of
        Inl e \<Rightarrow> Inl e
      | Inr (ended, L') \<Rightarrow> if ended then Inr L' else agent_turns E turns L')"

definition final_input_of :: "loop_state \<Rightarrow> final_input" where
  "final_input_of L =
     \<lparr>fi_force = ls_force L, fi_content = ls_content L, fi_finish = ls_finish L, fi_submit_calls = ls_submit_calls L,
      fi_succeeded = ls_succeeded L, fi_submitted = ls_submitted L, fi_guess = ls_guess L\<rparr>"

definition agent_loop :: "loop_env \<Rightarrow> loop_state \<Rightarrow> string + completion \<times> loop_state" where
  "agent_loop E L =
     (case agent_turns E [0..md_max_turns (lo_model E) - 1] L of
        Inl e \<Rightarrow> Inl e
      | Inr L' \<Rightarrow>
          (case resolve_turn_completion (lo_final E) (lo_policy E) (ls_tools L') (final_input_of L') (ls_model L') of
             (M, C) \<Rightarrow>
               Inr (C, L'\<lparr>ls_model := M\<lparr>ms_warnings := ms_warnings M @ cm_warnings C\<rparr>, ls_content := cm_content C, ls_finish := cm_finish C,
                 ls_codes := ls_codes L' @ cm_codes C, ls_submit_calls := ls_submit_calls L' + cm_submit_calls C,
                 ls_succeeded := cm_succeeded C, ls_submitted := cm_submitted C,
                 ls_turns := ls_turns L' + (case cm_forced C of Some F \<Rightarrow> int (fs_turns (fr_state F)) | None \<Rightarrow> 0),
                 ls_cost := ls_cost L' + (case cm_forced C of Some F \<Rightarrow> fs_cost (fr_state F) | None \<Rightarrow> 0)\<rparr>)))"

section \<open>Runs of the turns that call tools\<close>

text \<open>
  The turns of a run that reach the tools, with the calls that the model makes; the turns between them leave
  what follows alone. Each comes with what it did and the state after it.
\<close>

record tool_step =
  st_tools :: tools_outcome
  st_outcome :: turn_outcome
  st_after :: turn_state

fun tool_turns :: "loop_env \<Rightarrow> (int \<times> tool_call list) list \<Rightarrow> tool_state \<times> turn_state \<Rightarrow> string + tool_step list" where
  "tool_turns E [] st = Inr []"
| "tool_turns E ((turn, calls) # rest) st =
     (case tool_turn E turn calls st of
        Inl e \<Rightarrow> Inl e
      | Inr ((R, W), A, S) \<Rightarrow>
          (let here = \<lparr>st_tools = R, st_outcome = W, st_after = S\<rparr> in
           if to_stop W then Inr [here]
           else (case tool_turns E rest (A, S) of Inl e \<Rightarrow> Inl e | Inr steps \<Rightarrow> Inr (here # steps))))"

lemma tool_turn_cases:
  assumes "tool_turn E turn calls (A, S) = Inr ((R, W), A', S')"
  obtains B where "process_tool_calls_turn (tools_env E) (tools_input_of turn calls S) (gates_to_tools S A) = Inr (R, B)"
    and "process_turn_outcomes (lo_outcomes E) (turn_input_of turn calls R) (gates_from_tools B S) = (W, S')" and "A' = B"
proof (cases "process_tool_calls_turn (tools_env E) (tools_input_of turn calls S) (gates_to_tools S A)")
  case (Inl e)
  then show ?thesis using assms by (simp add: tool_turn_def)
next
  case (Inr p)
  obtain R1 B where p: "p = (R1, B)" by fastforce
  obtain W1 S1 where w: "process_turn_outcomes (lo_outcomes E) (turn_input_of turn calls R1) (gates_from_tools B S) = (W1, S1)" by fastforce
  have "R1 = R" "W1 = W" "B = A'" "S1 = S'" using assms by (simp_all add: tool_turn_def Inr p w)
  then show ?thesis using that Inr p w by simp
qed

lemma gates_from_tools_simps [simp]:
  "ts_streak (gates_from_tools A S) = ts_streak S" "ts_alerted (gates_from_tools A S) = ts_alerted S"
  "ts_labels (gates_from_tools A S) = ts_labels S" "ts_zero_streak (gates_from_tools A S) = ts_zero_streak S"
  "ts_todo_line (gates_from_tools A S) = ts_todo_line S"
  by (simp_all add: gates_from_tools_def)

lemma streak_inv_turn:
  assumes "tool_turn E turn calls (A, S) = Inr ((R, W), A', S')" and "streak_inv (lo_outcomes E) Ws S"
    and "1 \<le> te_stagnation_turns (lo_outcomes E)"
  shows "streak_inv (lo_outcomes E) (Ws @ [W]) S'"
proof -
  obtain B where W: "process_turn_outcomes (lo_outcomes E) (turn_input_of turn calls R) (gates_from_tools B S) = (W, S')"
    using tool_turn_cases [OF assms(1)] by metis
  have "streak_inv (lo_outcomes E) Ws (gates_from_tools B S)" using assms(2) by (simp add: streak_inv_def)
  from streak_inv_step [OF this W assms(3)] show ?thesis .
qed

text \<open>A property of the first \<open>k\<close> turns and of the state after them, carried along a run.\<close>

lemma tool_turns_step:
  assumes "tool_turns E ((turn, calls) # rest) (A, S) = Inr steps"
  obtains R W A' S' tail where "tool_turn E turn calls (A, S) = Inr ((R, W), A', S')"
    and "steps = \<lparr>st_tools = R, st_outcome = W, st_after = S'\<rparr> # tail"
    and "to_stop W \<Longrightarrow> tail = []" and "\<not> to_stop W \<Longrightarrow> tool_turns E rest (A', S') = Inr tail"
  using assms by (auto simp: Let_def split: sum.splits prod.splits if_splits)

lemma streak_inv_run:
  assumes "1 \<le> te_stagnation_turns (lo_outcomes E)"
  shows "tool_turns E turns (A, S) = Inr steps \<Longrightarrow> streak_inv (lo_outcomes E) Ws S \<Longrightarrow> k < length steps \<Longrightarrow>
     streak_inv (lo_outcomes E) (Ws @ map st_outcome (take (Suc k) steps)) (st_after (steps ! k))"
proof (induction turns arbitrary: A S steps Ws k)
  case (Cons tc turns)
  obtain turn calls where tc: "tc = (turn, calls)" by fastforce
  obtain R W A' S' tail where t: "tool_turn E turn calls (A, S) = Inr ((R, W), A', S')"
    and steps: "steps = \<lparr>st_tools = R, st_outcome = W, st_after = S'\<rparr> # tail"
    and stop: "to_stop W \<Longrightarrow> tail = []" and go: "\<not> to_stop W \<Longrightarrow> tool_turns E turns (A', S') = Inr tail"
    using tool_turns_step [OF Cons.prems(1) [unfolded tc]] by metis
  note inv = streak_inv_turn [OF t Cons.prems(2) assms]
  show ?case
  proof (cases k)
    case 0
    then show ?thesis using inv by (simp add: steps)
  next
    case (Suc j)
    then have "\<not> to_stop W" using stop Cons.prems(3) steps by auto
    from Cons.IH [OF go [OF this] inv, of j] show ?thesis using Suc Cons.prems(3) by (simp add: steps)
  qed
qed simp

text \<open>
  C21: the stagnation policy counts exactly: along the turns of a run the streak is the number of last turns that ran
  evidence tools without new evidence, and the policy acts in a turn exactly when that number reaches the limit
  there, so once in each such stretch.
\<close>

theorem stagnation_counted_exactly:
  assumes "tool_turns E turns (A, S) = Inr steps" and "ts_streak S = 0" and "\<not> ts_alerted S"
    and "1 \<le> te_stagnation_turns (lo_outcomes E)" and "k < length steps"
  shows "ts_streak (st_after (steps ! k)) = trailing stagnant (map st_outcome (take (Suc k) steps))
    \<and> (to_triggered (st_outcome (steps ! k)) \<longleftrightarrow>
        trailing stagnant (map st_outcome (take (Suc k) steps)) = te_stagnation_turns (lo_outcomes E))"
proof -
  have "streak_inv (lo_outcomes E) [] S" using assms(2-4) by (simp add: streak_inv_def trailing_def)
  from streak_inv_run [OF assms(4,1) this assms(5)]
  have inv: "streak_inv (lo_outcomes E) (map st_outcome (take (Suc k) steps)) (st_after (steps ! k))" by simp
  moreover have "map st_outcome (take (Suc k) steps) ! k = st_outcome (steps ! k)" using assms(5) by simp
  ultimately show ?thesis using assms(5) unfolding streak_inv_def by (metis lessI length_map length_take min.absorb4 take_all_iff
      Suc_leI le_refl min.absorb2)
qed

section \<open>Turns that execute nothing\<close>

definition idle_step :: "tool_call list \<times> tool_step \<Rightarrow> bool" where
  "idle_step p \<longleftrightarrow> fst p \<noteq> [] \<and> tx_to_execute (st_tools (snd p)) = []"

lemma turn_idle_step:
  assumes "tool_turn E turn calls (A, S) = Inr ((R, W), A', S')" and "\<not> to_stop W"
  shows "ts_zero_streak S' = (if calls \<noteq> [] \<and> tx_to_execute R = [] then ts_zero_streak S + 1 else 0)"
    and "ts_zero_streak S' < te_churn_threshold (lo_outcomes E)"
proof -
  obtain B where W: "process_turn_outcomes (lo_outcomes E) (turn_input_of turn calls R) (gates_from_tools B S) = (W, S')"
    using tool_turn_cases [OF assms(1)] by metis
  show "ts_zero_streak S' = (if calls \<noteq> [] \<and> tx_to_execute R = [] then ts_zero_streak S + 1 else 0)"
    "ts_zero_streak S' < te_churn_threshold (lo_outcomes E)"
    using turn_idle [OF W assms(2)] by (simp_all add: idle_def turn_input_of_def)
qed

lemma idle_run:
  "tool_turns E turns (A, S) = Inr steps \<Longrightarrow> ts_zero_streak S = trailing idle_step Ps \<Longrightarrow> k < length steps \<Longrightarrow>
     \<not> to_stop (st_outcome (steps ! k)) \<Longrightarrow>
     trailing idle_step (Ps @ zip (map snd (take (Suc k) turns)) (take (Suc k) steps)) < te_churn_threshold (lo_outcomes E)"
proof (induction turns arbitrary: A S steps Ps k)
  case (Cons tc turns)
  obtain turn calls where tc: "tc = (turn, calls)" by fastforce
  obtain R W A' S' tail where t: "tool_turn E turn calls (A, S) = Inr ((R, W), A', S')"
    and steps: "steps = \<lparr>st_tools = R, st_outcome = W, st_after = S'\<rparr> # tail"
    and stop: "to_stop W \<Longrightarrow> tail = []" and go: "\<not> to_stop W \<Longrightarrow> tool_turns E turns (A', S') = Inr tail"
    using tool_turns_step [OF Cons.prems(1) [unfolded tc]] by metis
  have W: "\<not> to_stop W" using stop Cons.prems(3,4) steps by (cases k) auto
  let ?P = "(calls, \<lparr>st_tools = R, st_outcome = W, st_after = S'\<rparr>)"
  have "idle_step ?P \<longleftrightarrow> calls \<noteq> [] \<and> tx_to_execute R = []" by (simp add: idle_step_def)
  then have streak: "ts_zero_streak S' = trailing idle_step (Ps @ [?P])"
    using turn_idle_step(1) [OF t W] Cons.prems(2) by (simp add: trailing_snoc)
  show ?case
  proof (cases k)
    case 0
    then show ?thesis using turn_idle_step(2) [OF t W] streak by (simp add: steps tc)
  next
    case (Suc j)
    from Cons.IH [OF go [OF W] streak, of j] show ?thesis using Suc Cons.prems(3,4) by (simp add: steps tc)
  qed
qed simp

text \<open>
  Turns that execute nothing end the loop: it goes on after a turn only while fewer than the threshold of the last
  turns asked for tools and had none of them executed.
\<close>

theorem idle_turns_bounded:
  assumes "tool_turns E turns (A, S) = Inr steps" and "ts_zero_streak S = 0" and "k < length steps" and "\<not> to_stop (st_outcome (steps ! k))"
  shows "trailing idle_step (zip (map snd (take (Suc k) turns)) (take (Suc k) steps)) < te_churn_threshold (lo_outcomes E)"
  using idle_run [OF assms(1) _ assms(3,4), of "[]"] assms(2) by (simp add: trailing_def)

section \<open>A refused answer is not claimed again without new evidence\<close>

text \<open>
  The evidence gate, closed on the evidence there is. Progress on a pending TODO item, which releases the gate as
  well, is a status line that differs from the one at the failure.
\<close>

definition todo_moved :: "turn_state \<Rightarrow> bool" where
  "todo_moved S \<longleftrightarrow> ts_requires_todo S \<and> ts_todo_at_failure S \<noteq> None \<and> ts_todo_line S \<noteq> None
     \<and> ts_todo_line S \<noteq> ts_todo_at_failure S"

definition todo_written :: "tool_record \<Rightarrow> bool" where
  "todo_written r \<longleftrightarrow> rec_tool r = ''todo_write'' \<and> \<not> failed r"

definition evidence_closed :: "loop_env \<Rightarrow> turn_state \<Rightarrow> bool" where
  "evidence_closed E S \<longleftrightarrow> gate_ok S \<and> ts_requires_evidence S \<and> \<not> todo_moved S
     \<and> ts_digest_at_failure S = Some (evidence_digest (te_digest (lo_outcomes E)) (ts_labels S))"

definition answered_submission :: "tool_record \<Rightarrow> bool" where
  "answered_submission r \<longleftrightarrow> rec_tool r = ''submit_answer'' \<and> \<not> failed r"

lemma control_pass_closed:
  assumes "sg_requires_evidence g" and "sg_digest_at_failure g = Some (evidence_digest (tt_digest T) (tn_labels N))"
  shows "snd (snd (control_pass T S N tcs g)) = g"
proof (induction tcs)
  case (Cons tc tcs)
  have "snd (control_step T S N tc g) = g" using assms by (simp add: control_step_def Let_def)
  then obtain v where "control_step T S N tc g = (v, g)" by (metis prod.collapse)
  with Cons show ?case by (auto split: option.splits prod.splits)
qed simp

lemma process_turn_gate: "process_tool_calls_turn T N S = Inr (R, S') \<Longrightarrow> gate_in S' = ff_submit (filter_calls T S N)"
  using process_turn_cases(2) reconcile_gate by (metis gate_in_out(1))

lemma filter_calls_submit: "ff_submit (filter_calls T S N) = gate_in S \<or>
    (\<exists>tcs. ff_submit (filter_calls T S N) = snd (snd (control_pass T S N tcs (gate_in S))))"
  by (auto simp: filter_calls_def Let_def split: prod.splits if_splits) (metis snd_conv)

lemma closed_blocks:
  assumes "evidence_closed E S" and "tt_digest (tools_env E) = te_digest (lo_outcomes E)"
  shows "submit_blocked (tools_env E) (tools_input_of turn calls S) (gate_in (gates_to_tools S A))"
  using assms by (simp add: evidence_closed_def submit_blocked_def tools_input_of_def gate_in_def gates_to_tools_def)

lemma closed_gates_kept:
  assumes "process_tool_calls_turn (tools_env E) (tools_input_of turn calls S) (gates_to_tools S A) = Inr (R, B)"
    and "evidence_closed E S" and "tt_digest (tools_env E) = te_digest (lo_outcomes E)"
  shows "gates_from_tools B S = S"
proof -
  have "gate_in B = gate_in (gates_to_tools S A)"
    using process_turn_gate [OF assms(1)] filter_calls_submit [of "tools_env E" "gates_to_tools S A" "tools_input_of turn calls S"]
      control_pass_closed [of "gate_in (gates_to_tools S A)" "tools_env E" "tools_input_of turn calls S"] assms(2,3)
    by (auto simp: evidence_closed_def gate_in_def gates_to_tools_def tools_input_of_def)
  then show ?thesis by (simp add: gate_in_def gates_to_tools_def gates_from_tools_def)
qed

lemma refused_submissions:
  "\<forall>r \<in> set rs. failed r \<Longrightarrow> sa_todo_at_failure (fold (submit_record E line) rs A) = sa_todo_at_failure A
     \<and> sa_requires_todo (fold (submit_record E line) rs A) = sa_requires_todo A"
  by (induction rs arbitrary: A) (auto simp: submit_record_def Let_def split: option.split)

lemma no_todo_written:
  "\<forall>r \<in> set (ti_records I). \<not> todo_written r \<Longrightarrow> todo_line_after E I line = line"
proof -
  assume "\<forall>r \<in> set (ti_records I). \<not> todo_written r"
  then have "filter (\<lambda>r. rec_tool r = ''todo_write'' \<and> \<not> failed r) (ti_records I) = []"
    by (auto simp: filter_empty_conv todo_written_def)
  then show ?thesis by (simp add: todo_line_after_def)
qed

lemma no_todo_release:
  assumes "\<not> todo_moved S" and "ts_todo_at_failure S = None \<or> (\<forall>r \<in> set (ti_records I). \<not> todo_written r)"
  shows "note_todo E I S = S\<lparr>ts_todo_line := todo_line_after E I (ts_todo_line S)\<rparr>"
    and "\<not> todo_moved (note_todo E I S)"
  using assms no_todo_written [of I E] by (auto simp: note_todo_def todo_moved_def Let_def)

lemma close_gate_closed:
  assumes "ts_requires_evidence S" and "ts_digest_at_failure S = Some (evidence_digest (te_digest E) (ts_labels S))"
  shows "ts_requires_evidence (close_gate E I fresh A S)"
    and "ts_digest_at_failure (close_gate E I fresh A S) = Some (evidence_digest (te_digest E) (ts_labels S))"
    and "ts_todo_at_failure (close_gate E I fresh A S) = sa_todo_at_failure A"
    and "ts_requires_todo (close_gate E I fresh A S) = sa_requires_todo A"
    and "ts_todo_line (close_gate E I fresh A S) = ts_todo_line S"
  using assms by (simp_all add: close_gate_def Let_def)

lemma evidence_todo [simp]:
  "ts_todo_at_failure (note_evidence E I S) = ts_todo_at_failure S"
  "ts_todo_at_failure (note_stagnation E I S) = ts_todo_at_failure S"
  "ts_todo_at_failure (note_zero_exec I S) = ts_todo_at_failure S"
  "ts_requires_todo (note_evidence E I S) = ts_requires_todo S"
  "ts_requires_todo (note_stagnation E I S) = ts_requires_todo S"
  "ts_requires_todo (note_zero_exec I S) = ts_requires_todo S"
  "ts_todo_line (note_evidence E I S) = ts_todo_line S"
  "ts_todo_line (note_stagnation E I S) = ts_todo_line S"
  "ts_todo_line (note_zero_exec I S) = ts_todo_line S"
  by (simp_all add: note_evidence_def note_stagnation_def note_zero_exec_def Let_def)

lemma closed_outcomes:
  assumes "process_turn_outcomes (lo_outcomes E) I S = (W, S')" and "evidence_closed E S" and "\<not> to_new_evidence W"
    and "\<And>r. r \<in> set (ti_records I) \<Longrightarrow> \<not> answered_submission r"
    and "ts_todo_at_failure S = None \<or> (\<forall>r \<in> set (ti_records I). \<not> todo_written r)"
  shows "evidence_closed E S'" and "ts_todo_at_failure S' = ts_todo_at_failure S"
proof -
  let ?E = "lo_outcomes E"
  let ?S2 = "note_stagnation ?E I (note_evidence ?E I S)"
  let ?A = "submit_records ?E I ?S2"
  let ?S3 = "close_gate ?E I (new_evidence ?E I S) ?A ?S2"
  have same: "evidence_digest (te_digest ?E) (labels_after ?E I S) = evidence_digest (te_digest ?E) (ts_labels S)"
    using assms(3) turn_outcome_evidence(2) [of ?E I S] by (simp add: assms(1) new_evidence_def digest_after_def)
  have S2: "ts_requires_evidence ?S2" "\<not> todo_moved ?S2"
    "ts_digest_at_failure ?S2 = Some (evidence_digest (te_digest ?E) (ts_labels ?S2))"
    using assms(2) same by (simp_all add: evidence_closed_def todo_moved_def)
      (simp_all add: note_evidence_def new_evidence_def digest_after_def Let_def)
  have refused: "\<forall>r \<in> set (filter (\<lambda>r. rec_tool r = ''submit_answer'') (ti_records I)). failed r"
    using assms(4) by (auto simp: answered_submission_def)
  have kept: "sa_todo_at_failure ?A = ts_todo_at_failure S \<and> sa_requires_todo ?A = ts_requires_todo S"
    unfolding submit_records_def by (simp add: refused_submissions [OF refused])
  have S3: "ts_requires_evidence ?S3" "ts_todo_at_failure ?S3 = ts_todo_at_failure S" "\<not> todo_moved ?S3"
    "ts_digest_at_failure ?S3 = Some (evidence_digest (te_digest ?E) (ts_labels ?S2))"
    using close_gate_closed [OF S2(1,3), of I] kept S2(2) by (simp_all add: todo_moved_def)
  have "ts_todo_at_failure ?S3 = None \<or> (\<forall>r \<in> set (ti_records I). \<not> todo_written r)" using assms(5) S3(2) by simp
  note released = no_todo_release [OF S3(3) this, of ?E]
  have "S' = ?S2 \<or> S' = note_zero_exec I (note_todo ?E I ?S3)"
    using turn_state_after [of ?E I S] by (simp add: assms(1) Let_def split: if_splits)
  then show "evidence_closed E S'" "ts_todo_at_failure S' = ts_todo_at_failure S"
    using S2 S3 released gate_ok_turn [OF assms(1)] assms(2) by (auto simp: evidence_closed_def todo_moved_def)
qed

lemma closed_turn:
  assumes "tool_turn E turn calls (A, S) = Inr ((R, W), A', S')" and "evidence_closed E S"
    and "tt_digest (tools_env E) = te_digest (lo_outcomes E)" and "tt_suppress (tools_env E)"
  shows "tc \<in> set (tx_to_execute R) \<Longrightarrow> \<not> guarded (tools_env E) tc"
    and "\<not> to_new_evidence W \<Longrightarrow> \<forall>r \<in> set (tx_records R). \<not> answered_submission r \<Longrightarrow>
      ts_todo_at_failure S = None \<or> (\<forall>r \<in> set (tx_records R). \<not> todo_written r) \<Longrightarrow>
      evidence_closed E S' \<and> ts_todo_at_failure S' = ts_todo_at_failure S"
proof -
  obtain B where B: "process_tool_calls_turn (tools_env E) (tools_input_of turn calls S) (gates_to_tools S A) = Inr (R, B)"
    and W: "process_turn_outcomes (lo_outcomes E) (turn_input_of turn calls R) (gates_from_tools B S) = (W, S')"
    using tool_turn_cases [OF assms(1)] by metis
  show "\<not> guarded (tools_env E) tc" if "tc \<in> set (tx_to_execute R)"
    using that closed_blocks [OF assms(2,3), of turn calls A] assms(4) by (simp add: executed_filter [OF B])
  show "evidence_closed E S' \<and> ts_todo_at_failure S' = ts_todo_at_failure S"
    if "\<not> to_new_evidence W" and "\<forall>r \<in> set (tx_records R). \<not> answered_submission r"
      and "ts_todo_at_failure S = None \<or> (\<forall>r \<in> set (tx_records R). \<not> todo_written r)"
    using closed_outcomes [OF W] assms(2) that closed_gates_kept [OF B assms(2,3)] by (simp add: turn_input_of_def)
qed

definition progress :: "bool \<Rightarrow> tool_step \<Rightarrow> bool" where
  "progress pending p \<longleftrightarrow> to_new_evidence (st_outcome p) \<or> (\<exists>r \<in> set (tx_records (st_tools p)). answered_submission r)
     \<or> pending \<and> (\<exists>r \<in> set (tx_records (st_tools p)). todo_written r)"

lemma closed_run:
  assumes "tt_digest (tools_env E) = te_digest (lo_outcomes E)" and "tt_suppress (tools_env E)"
  shows "tool_turns E turns (A, S) = Inr steps \<Longrightarrow> evidence_closed E S \<Longrightarrow> k < length steps \<Longrightarrow>
     tc \<in> set (tx_to_execute (st_tools (steps ! k))) \<Longrightarrow> guarded (tools_env E) tc \<Longrightarrow>
     \<exists>j < k. progress (ts_todo_at_failure S \<noteq> None) (steps ! j)"
proof (induction turns arbitrary: A S steps k)
  case (Cons t turns)
  obtain turn calls where tt: "t = (turn, calls)" by fastforce
  obtain R W A' S' tail where t: "tool_turn E turn calls (A, S) = Inr ((R, W), A', S')"
    and steps: "steps = \<lparr>st_tools = R, st_outcome = W, st_after = S'\<rparr> # tail"
    and stop: "to_stop W \<Longrightarrow> tail = []" and go: "\<not> to_stop W \<Longrightarrow> tool_turns E turns (A', S') = Inr tail"
    using tool_turns_step [OF Cons.prems(1) [unfolded tt]] by metis
  note turn = closed_turn [OF t Cons.prems(2) assms]
  show ?case
  proof (cases k)
    case 0
    then show ?thesis using turn(1) [of tc] Cons.prems(4,5) by (simp add: steps)
  next
    case (Suc i)
    then have "\<not> to_stop W" using stop Cons.prems(3) steps by auto
    note tail = go [OF this]
    show ?thesis
    proof (cases "progress (ts_todo_at_failure S \<noteq> None) (steps ! 0)")
      case True
      then show ?thesis using Suc by blast
    next
      case False
      then have "evidence_closed E S'" and same: "ts_todo_at_failure S' = ts_todo_at_failure S"
        using turn(2) by (auto simp: progress_def steps)
      from Cons.IH [OF tail this(1), of i] Cons.prems(3-5) show ?thesis by (auto simp: steps Suc same)
    qed
  qed
qed simp

text \<open>
  C14: with the suppression of control calls switched on (\<open>suppress_control_loop_calls\<close>, which is off by default:
  then nothing is suppressed), a submission that was refused for want of evidence is not made again without
  progress. The gate is closed when a submission was refused, the evidence digest is the one of the refusal, and the
  TODO status line has not moved since a refusal that named pending items, when there was one. From such a state
  every submission that claims an answer is suppressed, whatever the model asks for, until an earlier turn either
  finds evidence that changes the digest, or has a \<open>submit_answer\<close> call that is answered without an error, or, when a
  refusal named pending items, has a \<open>todo_write\<close> that succeeds.
\<close>

theorem no_resubmission_without_evidence:
  assumes "tool_turns E turns (A, S) = Inr steps" and "evidence_closed E S"
    and "tt_digest (tools_env E) = te_digest (lo_outcomes E)" and "tt_suppress (tools_env E)"
    and "k < length steps" and "tc \<in> set (tx_to_execute (st_tools (steps ! k)))" and "guarded (tools_env E) tc"
  shows "\<exists>j < k. to_new_evidence (st_outcome (steps ! j)) \<or> (\<exists>r \<in> set (tx_records (st_tools (steps ! j))). answered_submission r)
     \<or> ts_todo_at_failure S \<noteq> None \<and> (\<exists>r \<in> set (tx_records (st_tools (steps ! j))). todo_written r)"
  using closed_run [OF assms(3,4,1,2,5-7)] by (simp add: progress_def)

section \<open>A concrete loop\<close>

definition demo_loop :: loop_env where
  "demo_loop =
     \<lparr>lo_model = demo_model, lo_outcomes = demo_turn_env, lo_final = demo_final, lo_policy = demo_policy, lo_auto_inject = False,
      lo_plan_chars = 100, lo_plan_format = ''compact'', lo_stall_threshold = 3\<rparr>"

lemma demo_loop_fields: "tools_env demo_loop = demo_tools" "lo_outcomes demo_loop = demo_turn_env"
  by (simp_all add: demo_loop_def tools_env_def demo_model_def)

lemma tool_turns_total:
  assumes "executor_answers (tools_env E)"
  shows "\<exists>steps. tool_turns E turns (A, S) = Inr steps"
proof (induction turns arbitrary: A S)
  case (Cons t turns)
  obtain turn calls where t: "t = (turn, calls)" by fastforce
  obtain R B where "process_tool_calls_turn (tools_env E) (tools_input_of turn calls S) (gates_to_tools S A) = Inr (R, B)"
    using calls_answered [OF assms] by blast
  moreover obtain W S' where "process_turn_outcomes (lo_outcomes E) (turn_input_of turn calls R) (gates_from_tools B S) = (W, S')" by fastforce
  ultimately have turn: "tool_turn E turn calls (A, S) = Inr ((R, W), B, S')" by (simp add: tool_turn_def)
  show ?case using turn Cons.IH [of B S'] by (auto simp: t Let_def)
qed simp

lemma demo_loop_total: "\<exists>steps. tool_turns demo_loop turns (A, S) = Inr steps"
  using tool_turns_total [of demo_loop] demo_executor by (simp only: demo_loop_fields)

lemma demo_hit: "collect_labels (te_evidence demo_turn_env) (PDict [(PStr ''chunk_id'', PStr ''chunk_7'')]) = [''chunk:chunk_7'']"
  by code_simp

lemma demo_redundant: "redundant_labels [''chunk:chunk_7''] = []"
  by code_simp

lemma demo_loop_loads: "te_loads demo_turn_env s = (if s = ''hit'' then Some (PDict [(PStr ''chunk_id'', PStr ''chunk_7'')]) else None)"
  by (simp add: demo_turn_env_def)

lemma demo_digest: "te_digest demo_turn_env = concat"
  by (simp add: demo_turn_env_def)

lemma demo_labels_found:
  "tool_evidence_pointer_labels (te_evidence demo_turn_env) (te_loads demo_turn_env) (annotated demo_tools U (demo_record (demo_call i ''chunk_search'')))
     = (if i = ''h'' then [''chunk:chunk_7''] else [])"
  using demo_hit demo_redundant demo_search_name [of i, unfolded demo_call_def]
  by (simp add: tool_evidence_pointer_labels_def annotated_def demo_record_def new_record_def is_budget_exempt_tool_def
      BUDGET_EXEMPT_TOOL_NAMES_def parse_record_result_json_value_def demo_loop_loads demo_call_def Let_def)

lemma demo_search_loop:
  assumes "tool_turn demo_loop turn [demo_call i ''chunk_search''] (A, S) = Inr ((R, W), A', S')"
  shows "tx_to_execute R = [demo_call i ''chunk_search'']" and "\<not> to_stop W"
    and "ts_labels S' = ts_labels S \<union> (if i = ''h'' then {''chunk:chunk_7''} else {})"
    and "to_new_evidence W \<longleftrightarrow> concat (sorted_list_of_set (ts_labels S')) \<noteq> concat (sorted_list_of_set (ts_labels S))"
    and "stagnant W \<longleftrightarrow> \<not> to_new_evidence W"
proof -
  let ?calls = "[demo_call i ''chunk_search'']"
  let ?r = "\<lambda>U. annotated demo_tools U (demo_record (demo_call i ''chunk_search''))"
  obtain B where B: "process_tool_calls_turn demo_tools (tools_input_of turn ?calls S) (gates_to_tools S A) = Inr (R, B)"
    and W: "process_turn_outcomes demo_turn_env (turn_input_of turn ?calls R) (gates_from_tools B S) = (W, S')"
    using tool_turn_cases [OF assms] demo_loop_fields by metis
  have "tn_calls (tools_input_of turn ?calls S) = ?calls" by (simp add: tools_input_of_def)
  from search_call_turn [OF this B] obtain U where R: "tx_to_execute R = ?calls" "tx_executed R = [?r U]" by (auto simp: tools_input_of_def)
  define I where "I = turn_input_of turn ?calls R"
  note W = W [folded I_def]
  have I: "ti_executed I = [?r U]" "ti_calls I = ?calls" "ti_calls_to_execute I = ?calls" by (simp_all add: I_def turn_input_of_def R)
  have tools: "evidence_tools I = [''chunk_search'']"
    by (simp add: I evidence_tools_def annotated_def demo_record_def new_record_def failed_def demo_search_name is_evidence_tool_name_def
        is_budget_exempt_tool_def BUDGET_EXEMPT_TOOL_NAMES_def Let_def py_strip_def py_lower_def py_startswith_any_def letter_bits_def py_isspace_def)
  show "tx_to_execute R = ?calls" by (rule R(1))
  show "\<not> to_stop W"
    using W by (auto simp: process_turn_outcomes_def note_zero_exec_def I Let_def demo_turn_env_def)
  show labels: "ts_labels S' = ts_labels S \<union> (if i = ''h'' then {''chunk:chunk_7''} else {})"
    using turn_streaks_after(3) [of demo_turn_env I "gates_from_tools B S"] by (simp add: W labels_after_def I demo_labels_found)
  have "to_new_evidence W = new_evidence demo_turn_env I (gates_from_tools B S)"
    using turn_outcome_evidence(2) [of demo_turn_env I "gates_from_tools B S"] by (simp add: W)
  also have "\<dots> \<longleftrightarrow> concat (sorted_list_of_set (ts_labels S')) \<noteq> concat (sorted_list_of_set (ts_labels S))"
    using turn_streaks_after(3) [of demo_turn_env I "gates_from_tools B S"]
    by (simp add: W new_evidence_def digest_after_def evidence_digest_def demo_digest)
  finally show "to_new_evidence W \<longleftrightarrow> concat (sorted_list_of_set (ts_labels S')) \<noteq> concat (sorted_list_of_set (ts_labels S))" .
  show "stagnant W \<longleftrightarrow> \<not> to_new_evidence W"
    using turn_outcome_evidence(1) [of demo_turn_env I "gates_from_tools B S"] by (simp add: W tools stagnant_def)
qed

text \<open>Two searches that find nothing: the policy acts on the second.\<close>

lemma demo_two_turns:
  assumes "tool_turns demo_loop [(0, [demo_call i ''chunk_search'']), (1, cs)] (A, S) = Inr steps"
  obtains R W A' S' R2 W2 A2 S2 where "tool_turn demo_loop 0 [demo_call i ''chunk_search''] (A, S) = Inr ((R, W), A', S')"
    and "tool_turn demo_loop 1 cs (A', S') = Inr ((R2, W2), A2, S2)"
    and "steps = [\<lparr>st_tools = R, st_outcome = W, st_after = S'\<rparr>, \<lparr>st_tools = R2, st_outcome = W2, st_after = S2\<rparr>]"
proof -
  obtain R W A' S' tail where t: "tool_turn demo_loop 0 [demo_call i ''chunk_search''] (A, S) = Inr ((R, W), A', S')"
    and steps: "steps = \<lparr>st_tools = R, st_outcome = W, st_after = S'\<rparr> # tail"
    and go: "\<not> to_stop W \<Longrightarrow> tool_turns demo_loop [(1, cs)] (A', S') = Inr tail"
    using tool_turns_step [OF assms] by metis
  obtain R2 W2 A2 S2 tail2 where t2: "tool_turn demo_loop 1 cs (A', S') = Inr ((R2, W2), A2, S2)"
    and tail: "tail = \<lparr>st_tools = R2, st_outcome = W2, st_after = S2\<rparr> # tail2"
    and none: "to_stop W2 \<Longrightarrow> tail2 = []" "\<not> to_stop W2 \<Longrightarrow> tool_turns demo_loop [] (A2, S2) = Inr tail2"
    using tool_turns_step [OF go [OF demo_search_loop(2) [OF t]]] by metis
  have "tail2 = []" using none by (cases "to_stop W2") auto
  with t t2 steps tail that show ?thesis by simp
qed

lemma stagnation_counted_exactly_witness:
  "\<exists>steps. tool_turns demo_loop [(0, [demo_call ''n'' ''chunk_search'']), (1, [demo_call ''n'' ''chunk_search''])] (demo_tool_state, demo_turn_state) = Inr steps
     \<and> ts_streak (st_after (steps ! 1)) = 2 \<and> to_triggered (st_outcome (steps ! 1))"
proof -
  let ?c = "[demo_call ''n'' ''chunk_search'']"
  obtain steps where run: "tool_turns demo_loop [(0, ?c), (1, ?c)] (demo_tool_state, demo_turn_state) = Inr steps"
    using demo_loop_total by blast
  from demo_two_turns [OF run] obtain R W A' S' R2 W2 A2 S2
    where t: "tool_turn demo_loop 0 ?c (demo_tool_state, demo_turn_state) = Inr ((R, W), A', S')" "tool_turn demo_loop 1 ?c (A', S') = Inr ((R2, W2), A2, S2)"
      and steps: "steps = [\<lparr>st_tools = R, st_outcome = W, st_after = S'\<rparr>, \<lparr>st_tools = R2, st_outcome = W2, st_after = S2\<rparr>]"
    by metis
  have "stagnant W" "stagnant W2"
    using demo_search_loop(3-5) [OF t(1)] demo_search_loop(3-5) [OF t(2)] by simp_all
  then have "trailing stagnant (map st_outcome (take (Suc 1) steps)) = 2" by (simp add: steps trailing_def)
  then show ?thesis using run stagnation_counted_exactly [OF run, of 1]
    by (simp add: steps demo_loop_fields) (simp add: demo_turn_state_def demo_turn_env_def)
qed

lemma idle_turns_bounded_witness:
  "\<exists>steps. tool_turns demo_loop [(0, [demo_call ''n'' ''chunk_search''])] (demo_tool_state, demo_turn_state) = Inr steps
     \<and> trailing idle_step (zip (map snd (take 1 [(0 :: int, [demo_call ''n'' ''chunk_search''])])) (take 1 steps)) < 2"
proof -
  let ?c = "[demo_call ''n'' ''chunk_search'']"
  obtain steps where run: "tool_turns demo_loop [(0, ?c)] (demo_tool_state, demo_turn_state) = Inr steps"
    using demo_loop_total by blast
  from tool_turns_step [OF run] obtain R W A' S' tail
    where t: "tool_turn demo_loop 0 ?c (demo_tool_state, demo_turn_state) = Inr ((R, W), A', S')"
      and steps: "steps = \<lparr>st_tools = R, st_outcome = W, st_after = S'\<rparr> # tail"
    by metis
  have churn: "te_churn_threshold (lo_outcomes demo_loop) = 2" by (simp add: demo_loop_fields demo_turn_env_def)
  have "ts_zero_streak demo_turn_state = 0" by (simp add: demo_turn_state_def)
  from idle_turns_bounded [OF run this, of 0] demo_search_loop(2) [OF t] run steps churn show ?thesis by simp
qed

text \<open>A search that finds something, and the submission that it allows.\<close>

definition demo_refused :: turn_state where
  "demo_refused = demo_turn_state\<lparr>ts_requires_evidence := True, ts_digest_at_failure := Some []\<rparr>"

lemma no_submissions:
  assumes "\<forall>r \<in> set (ti_records I). rec_tool r \<noteq> ''submit_answer''"
  shows "sa_errors (submit_records E I S) = []" and "sa_requires_todo (submit_records E I S) = ts_requires_todo S"
  using assms by (simp_all add: submit_records_def cong: filter_cong)

lemma demo_release:
  assumes "tool_turn demo_loop 0 [demo_call ''h'' ''chunk_search''] (demo_tool_state, demo_refused) = Inr ((R, W), A', S')"
  shows "\<not> ts_requires_evidence S'" and "\<not> ts_requires_todo S'"
proof -
  let ?calls = "[demo_call ''h'' ''chunk_search'']"
  let ?N = "tools_input_of 0 ?calls demo_refused"
  obtain B where B: "process_tool_calls_turn demo_tools ?N (gates_to_tools demo_refused demo_tool_state) = Inr (R, B)"
    and W: "process_turn_outcomes demo_turn_env (turn_input_of 0 ?calls R) (gates_from_tools B demo_refused) = (W, S')"
    using tool_turn_cases [OF assms] demo_loop_fields by metis
  define I where "I = turn_input_of 0 ?calls R"
  note W = W [folded I_def]
  have N: "tn_calls ?N = ?calls" by (simp add: tools_input_of_def)
  have gates: "gates_from_tools B demo_refused = demo_refused"
    using process_turn_gate [OF B] demo_search_filter [OF N, of "gates_to_tools demo_refused demo_tool_state"]
    by (simp add: gate_in_def gates_to_tools_def gates_from_tools_def)
  from search_call_turn [OF N B] obtain U where records: "ti_records I = [annotated demo_tools U (demo_record (demo_call ''h'' ''chunk_search''))]"
    by (auto simp: I_def turn_input_of_def)
  have none: "\<forall>r \<in> set (ti_records I). rec_tool r \<noteq> ''submit_answer''"
    by (simp add: records annotated_def demo_record_fields demo_search_name)
  have labels: "labels_after demo_turn_env I demo_refused = {''chunk:chunk_7''}"
  proof -
    have "ts_labels demo_refused = {}" by (simp add: demo_refused_def demo_turn_state_def)
    then show ?thesis using demo_search_loop(3) [OF assms] turn_streaks_after(3) [of demo_turn_env I demo_refused]
      by (simp add: W [unfolded gates])
  qed
  have found: "\<not> ts_requires_evidence (note_evidence demo_turn_env I demo_refused)" "\<not> ts_requires_todo (note_evidence demo_turn_env I demo_refused)"
    by (simp_all add: note_evidence_def new_evidence_def digest_after_def labels evidence_digest_def demo_digest Let_def)
       (simp_all add: demo_refused_def demo_turn_state_def)
  show "\<not> ts_requires_evidence S'" "\<not> ts_requires_todo S'"
    using turn_state_after [of demo_turn_env I demo_refused] found
    by (auto simp: W [unfolded gates] Let_def close_gate_def no_submissions [OF none] note_todo_def note_zero_exec_def note_stagnation_def split: if_splits)
qed

lemma no_resubmission_without_evidence_witness:
  "\<exists>steps. tool_turns demo_loop [(0, [demo_call ''h'' ''chunk_search'']), (1, [demo_call ''s'' ''submit_answer''])] (demo_tool_state, demo_refused) = Inr steps
     \<and> demo_call ''s'' ''submit_answer'' \<in> set (tx_to_execute (st_tools (steps ! 1)))
     \<and> (\<exists>j < 1. to_new_evidence (st_outcome (steps ! j)) \<or> (\<exists>r \<in> set (tx_records (st_tools (steps ! j))). answered_submission r))"
proof -
  let ?s = "demo_call ''s'' ''submit_answer''"
  obtain steps where run: "tool_turns demo_loop [(0, [demo_call ''h'' ''chunk_search'']), (1, [?s])] (demo_tool_state, demo_refused) = Inr steps"
    using demo_loop_total by blast
  from demo_two_turns [OF run] obtain R W A' S' R2 W2 A2 S2
    where t: "tool_turn demo_loop 0 [demo_call ''h'' ''chunk_search''] (demo_tool_state, demo_refused) = Inr ((R, W), A', S')"
        "tool_turn demo_loop 1 [?s] (A', S') = Inr ((R2, W2), A2, S2)"
      and steps: "steps = [\<lparr>st_tools = R, st_outcome = W, st_after = S'\<rparr>, \<lparr>st_tools = R2, st_outcome = W2, st_after = S2\<rparr>]"
    by metis
  obtain B where "process_tool_calls_turn demo_tools (tools_input_of 1 [?s] S') (gates_to_tools S' A') = Inr (R2, B)"
    using tool_turn_cases [OF t(2)] demo_loop_fields by metis
  from executed_filter [OF this] have "tx_to_execute R2 = [?s]"
    using demo_release [OF t(1)] by (simp add: tools_input_of_def demo_gate demo_contract submit_blocked_def gate_in_def gates_to_tools_def)
  then have executed: "?s \<in> set (tx_to_execute (st_tools (steps ! 1)))" by (simp add: steps)
  have closed: "evidence_closed demo_loop demo_refused"
    by (simp add: evidence_closed_def todo_moved_def demo_refused_def demo_turn_state_def gate_ok_def demo_loop_fields evidence_digest_def demo_digest)
  have guard: "guarded (tools_env demo_loop) ?s"
    by (simp add: guarded_def demo_loop_fields demo_not_terminal) (simp add: demo_call_def call_name_def py_strip_def py_isspace_def)
  have "tt_digest (tools_env demo_loop) = te_digest (lo_outcomes demo_loop)" "tt_suppress (tools_env demo_loop)"
    by (simp_all add: demo_loop_fields demo_digest) (simp_all add: demo_tools_def)
  from no_resubmission_without_evidence [OF run closed this _ executed guard]
  have "\<exists>j < 1. to_new_evidence (st_outcome (steps ! j)) \<or> (\<exists>r \<in> set (tx_records (st_tools (steps ! j))). answered_submission r)"
    by (simp add: steps demo_refused_def demo_turn_state_def)
  with run executed show ?thesis by blast
qed

section \<open>The loop is a run of tool turns\<close>

text \<open>Everything but the tools leaves the state of the tools, the outcomes and the records alone.\<close>

definition frame :: "loop_state \<Rightarrow> loop_state \<Rightarrow> bool" where
  "frame L L' \<longleftrightarrow> ls_tools L' = ls_tools L \<and> ls_outcomes L' = ls_outcomes L \<and> ls_records L' = ls_records L"

lemma frame_refl [simp]: "frame L L"
  by (simp add: frame_def)

lemma frame_trans: "frame A B \<Longrightarrow> frame B C \<Longrightarrow> frame A C"
  by (simp add: frame_def)

lemma frame_fold: "(\<And>x L. frame L (f x L)) \<Longrightarrow> frame L (fold f xs L)"
proof (induction xs arbitrary: L)
  case (Cons x xs)
  show ?case using frame_trans [OF Cons.prems Cons.IH [OF Cons.prems]] by simp
qed simp

lemma frame_basic: "frame L (on_model f L)" "frame L (inform s L)" "frame L (inject_plan E L)"
  by (auto simp: frame_def on_model_def inform_def inject_plan_def Let_def)

lemma frame_budget: "check_tool_budget E L = (b, L') \<Longrightarrow> frame L L'"
  using frame_basic(2)
  by (auto simp: check_tool_budget_def exhausted_budget_def inform_def on_model_def frame_def Let_def split: option.splits if_splits)

lemma frame_model: "model_stage E turn L = (Mo, L') \<Longrightarrow> frame L L'"
  by (auto simp: model_stage_def frame_def split: prod.splits)

lemma frame_error: "frame L (note_tool_error r L)"
  by (auto simp: note_tool_error_def frame_def inform_def on_model_def Let_def)

lemma frame_loop: "frame L (note_tool_loop hints entry L)"
  by (auto simp: note_tool_loop_def frame_def inform_def on_model_def Let_def split: prod.split)

lemma frame_nudge: "frame L (nudge_loops hints calls L)"
proof -
  define counts where "counts = fold count_call calls (ls_call_counts L)"
  have "frame (L\<lparr>ls_call_counts := counts\<rparr>) (fold (note_tool_loop hints) counts (L\<lparr>ls_call_counts := counts\<rparr>))"
    by (rule frame_fold) (rule frame_loop)
  then show ?thesis by (simp add: nudge_loops_def counts_def [symmetric] Let_def frame_def)
qed

lemma frame_end: "check_errors E turn rs L = (b, L') \<Longrightarrow> frame L L'"
  by (auto simp: check_errors_def countdown_def frame_def inform_def on_model_def Let_def split: prod.splits bool.splits if_splits)

lemma frame_stall: "frame L (note_stall rs L)"
  by (simp add: note_stall_def frame_def Let_def split: prod.split)

lemma after_tools_frame:
  assumes "after_tools E turn Mo R W L = (b, L')"
  shows "frame L L'" and "to_stop W \<Longrightarrow> b"
proof -
  define L0 where "L0 = note_stall (tx_records R) L"
  define L1 where "L1 = L0\<lparr>ls_force := opt_first (to_force_final W) (ls_force L0)\<rparr>"
  define L2 where "L2 = trace_tools (tx_messages R) (nudge_loops (mo_repair_hints Mo) (tx_to_execute R) (fold note_tool_error (tx_records R) L1))"
  have 0: "frame L L0" unfolding L0_def by (rule frame_stall)
  have 1: "frame L L1" using 0 by (simp add: L1_def frame_def)
  have "frame L1 (fold note_tool_error (tx_records R) L1)" by (rule frame_fold) (rule frame_error)
  from frame_trans [OF frame_trans [OF 1 this] frame_nudge] have 2: "frame L L2"
    by (simp add: L2_def trace_tools_def frame_def on_model_def)
  have 3: "frame L (force_stalled L0)" using 0 by (simp add: force_stalled_def frame_def inform_def on_model_def)
  have 4: "frame L (finish_submitted L2)" using 2 by (simp add: finish_submitted_def frame_def)
  have "(b, L') = (if stalled E W L0 then (True, force_stalled L0) else if to_stop W then (True, L1)
      else if ls_succeeded L2 then (True, finish_submitted L2) else check_errors E turn (tx_records R) L2)"
    using assms unfolding after_tools_def L0_def [symmetric] Let_def L1_def [symmetric] L2_def [symmetric] by simp
  then show "frame L L'" "to_stop W \<Longrightarrow> b"
    using 1 2 3 4 frame_trans [OF 2 frame_end] by (auto split: if_splits dest: sym)
qed

lemma fold_inform_frame: "frame L (fold inform ss L)"
  by (rule frame_fold) (rule frame_basic)

text \<open>A turn either leaves the three alone or is one tool turn.\<close>

lemma agent_turn_cases:
  assumes "loop_turn E turn L = Inr (b, L')"
  shows "frame L L' \<or> (\<exists>calls R W. tool_turn E turn calls (ls_tools L, ls_outcomes L) = Inr ((R, W), ls_tools L', ls_outcomes L')
    \<and> ls_records L' = ls_records L @ tx_records R \<and> (to_stop W \<longrightarrow> b)
    \<and> (\<exists>M I M' Mo. run_turn_model_stage (lo_model E) (ls_tools L) I M = (M', Mo) \<and> si_records I = ls_records L \<and> mo_calls Mo = calls))"
proof -
  obtain ended L1 where budget: "check_tool_budget E (inject_plan E L) = (ended, L1)" by fastforce
  obtain Mo L2 where model: "model_stage E turn L1 = (Mo, L2)" by fastforce
  have 1: "frame L L1" using frame_trans [OF frame_basic(3) frame_budget [OF budget]] .
  have 2: "frame L L2" using frame_trans [OF 1 frame_model [OF model]] .
  have "snd (run_turn_model_stage (lo_model E) (ls_tools L1) (stage_input_of turn L1) (ls_model L1)) = Mo"
    using model by (auto simp: model_stage_def split: prod.splits)
  then obtain M' where stage: "run_turn_model_stage (lo_model E) (ls_tools L) (stage_input_of turn L1) (ls_model L1) = (M', Mo)"
    using 1 by (cases "run_turn_model_stage (lo_model E) (ls_tools L) (stage_input_of turn L1) (ls_model L1)") (simp add: frame_def)
  have records: "si_records (stage_input_of turn L1) = ls_records L" using 1 by (simp add: stage_input_of_def frame_def)
  consider "frame L L'" | R W A S where "tool_turn E turn (mo_calls Mo) (ls_tools L2, ls_outcomes L2) = Inr ((R, W), A, S)"
      "after_tools E turn Mo R W (adopt_outcomes Mo W S (adopt_tools R A L2)) = (b, L')"
    using assms budget model 1 2 by (auto simp: loop_turn_def split: bool.splits sum.splits prod.splits if_splits)
  then show ?thesis
  proof cases
    case 2
    define L3 where "L3 = adopt_tools R A L2"
    define L4 where "L4 = adopt_outcomes Mo W S L3"
    have "ls_tools L3 = A" "ls_records L3 = ls_records L2 @ tx_records R"
      using fold_inform_frame [of _ "post_messages R"] by (simp_all add: L3_def adopt_tools_def frame_def on_model_def)
    then have "ls_tools L4 = A" "ls_outcomes L4 = S" "ls_records L4 = ls_records L2 @ tx_records R"
      using fold_inform_frame [of _ "to_messages W"] by (simp_all add: L4_def adopt_outcomes_def frame_def on_model_def)
    with after_tools_frame [OF 2(2) [folded L3_def, folded L4_def]] 2(1) \<open>frame L L2\<close>
    have "tool_turn E turn (mo_calls Mo) (ls_tools L, ls_outcomes L) = Inr ((R, W), ls_tools L', ls_outcomes L')
      \<and> ls_records L' = ls_records L @ tx_records R \<and> (to_stop W \<longrightarrow> b)" by (auto simp: frame_def)
    then show ?thesis using stage records by blast
  qed blast
qed

lemma agent_turns_run:
  "agent_turns E turns L = Inr L' \<Longrightarrow>
    \<exists>run steps. tool_turns E run (ls_tools L, ls_outcomes L) = Inr steps \<and> length steps = length run \<and> subseq (map fst run) turns
      \<and> ls_records L' = ls_records L @ concat (map (tx_records \<circ> st_tools) steps)
      \<and> ls_outcomes L' = (if steps = [] then ls_outcomes L else st_after (last steps))"
proof (induction turns arbitrary: L)
  case Nil
  then show ?case by (intro exI [of _ "[]"]) auto
next
  case (Cons turn turns)
  obtain b L1 where turn: "loop_turn E turn L = Inr (b, L1)" and rest: "if b then L' = L1 else agent_turns E turns L1 = Inr L'"
    using Cons.prems by (auto split: sum.splits if_splits)
  from agent_turn_cases [OF turn] show ?case
  proof (elim disjE exE conjE)
    assume same: "frame L L1"
    show ?thesis
    proof (cases b)
      case True
      then show ?thesis using rest same by (intro exI [of _ "[]"]) (auto simp: frame_def)
    next
      case False
      then have "agent_turns E turns L1 = Inr L'" using rest by simp
      from Cons.IH [OF this] obtain run steps where more: "tool_turns E run (ls_tools L1, ls_outcomes L1) = Inr steps"
        "length steps = length run" "subseq (map fst run) turns" "ls_records L' = ls_records L1 @ concat (map (tx_records \<circ> st_tools) steps)"
        "ls_outcomes L' = (if steps = [] then ls_outcomes L1 else st_after (last steps))" by blast
      have "subseq (map fst run) (turn # turns)" using more(3) by auto
      then show ?thesis using more same unfolding frame_def by (intro exI [of _ run] exI [of _ steps]) (simp add: comp_def)
    qed
  next
    fix calls R W
    assume step: "tool_turn E turn calls (ls_tools L, ls_outcomes L) = Inr ((R, W), ls_tools L1, ls_outcomes L1)"
      and recs: "ls_records L1 = ls_records L @ tx_records R" and stop: "to_stop W \<longrightarrow> b"
    let ?here = "\<lparr>st_tools = R, st_outcome = W, st_after = ls_outcomes L1\<rparr>"
    show ?thesis
    proof (cases b)
      case True
      then have "tool_turns E [(turn, calls)] (ls_tools L, ls_outcomes L) = Inr [?here]" using step by (simp add: Let_def)
      then show ?thesis using rest True recs by (intro exI [of _ "[(turn, calls)]"] exI [of _ "[?here]"]) (simp add: comp_def del: tool_turns.simps)
    next
      case False
      then have "agent_turns E turns L1 = Inr L'" using rest by simp
      from Cons.IH [OF this] obtain run steps where more: "tool_turns E run (ls_tools L1, ls_outcomes L1) = Inr steps"
        "length steps = length run" "subseq (map fst run) turns" "ls_records L' = ls_records L1 @ concat (map (tx_records \<circ> st_tools) steps)"
        "ls_outcomes L' = (if steps = [] then ls_outcomes L1 else st_after (last steps))" by blast
      have "tool_turns E ((turn, calls) # run) (ls_tools L, ls_outcomes L) = Inr (?here # steps)"
        using step more(1) stop False by (simp add: Let_def)
      then show ?thesis using more recs
        by (intro exI [of _ "(turn, calls) # run"] exI [of _ "?here # steps"]) (simp add: comp_def del: tool_turns.simps)
    qed
  qed
qed

lemma agent_turns_return:
  assumes "executor_answers (tools_env E)"
  shows "\<exists>L'. agent_turns E turns L = Inr L'"
proof (induction turns arbitrary: L)
  case (Cons turn turns)
  have "\<exists>b L1. loop_turn E turn L = Inr (b, L1)"
  proof -
    obtain ended L1 where budget: "check_tool_budget E (inject_plan E L) = (ended, L1)" by fastforce
    obtain Mo L2 where model: "model_stage E turn L1 = (Mo, L2)" by fastforce
    obtain R B where B: "process_tool_calls_turn (tools_env E) (tools_input_of turn (mo_calls Mo) (ls_outcomes L2))
        (gates_to_tools (ls_outcomes L2) (ls_tools L2)) = Inr (R, B)"
      using calls_answered [OF assms] by blast
    then obtain W S where "tool_turn E turn (mo_calls Mo) (ls_tools L2, ls_outcomes L2) = Inr ((R, W), B, S)"
      by (cases "process_turn_outcomes (lo_outcomes E) (turn_input_of turn (mo_calls Mo) R) (gates_from_tools B (ls_outcomes L2))")
         (simp add: tool_turn_def)
    then show ?thesis using budget model by (cases ended) (auto simp: loop_turn_def intro: prod.exhaust)
  qed
  then show ?case using Cons.IH by (auto split: if_splits)
qed simp

text \<open>
  C15: the loop is a run of tool turns: with an executor that answers what it is asked the loop always returns, after at
  most the allowed number of turns, each number once and in order, and what it leaves is what the run of its tool
  turns leaves: the records of every turn in order and the outcomes of the last. What is shown of runs holds of it.
\<close>

theorem agent_loop_refines:
  assumes "executor_answers (tools_env E)"
  shows "\<exists>C L' run steps. agent_loop E L = Inr (C, L') \<and> tool_turns E run (ls_tools L, ls_outcomes L) = Inr steps
    \<and> length steps = length run \<and> subseq (map fst run) [0..md_max_turns (lo_model E) - 1]
    \<and> ls_records L' = ls_records L @ concat (map (tx_records \<circ> st_tools) steps)
    \<and> ls_outcomes L' = (if steps = [] then ls_outcomes L else st_after (last steps))"
proof -
  obtain L1 where loop: "agent_turns E [0..md_max_turns (lo_model E) - 1] L = Inr L1" using agent_turns_return [OF assms] by blast
  from agent_turns_run [OF loop] obtain run steps where run: "tool_turns E run (ls_tools L, ls_outcomes L) = Inr steps"
    "length steps = length run" "subseq (map fst run) [0..md_max_turns (lo_model E) - 1]"
    "ls_records L1 = ls_records L @ concat (map (tx_records \<circ> st_tools) steps)"
    "ls_outcomes L1 = (if steps = [] then ls_outcomes L else st_after (last steps))" by blast
  obtain M C where "resolve_turn_completion (lo_final E) (lo_policy E) (ls_tools L1) (final_input_of L1) (ls_model L1) = (M, C)" by fastforce
  then have "\<exists>L'. agent_loop E L = Inr (C, L') \<and> ls_records L' = ls_records L1 \<and> ls_outcomes L' = ls_outcomes L1"
    by (simp add: agent_loop_def loop)
  with run show ?thesis by (metis (no_types, lifting))
qed

section \<open>The budget of retrieval calls\<close>

lemma patched_name: "call_name (patched D tc) = call_name tc"
  by (simp add: patched_def normalize_tool_call_name_def call_name_def autofill_tool_reasoning_def set_tool_call_args_def Let_def
      split: option.split prod.split py.split)

lemma trim_fits:
  assumes "trim_tool_calls_to_budget tcs n = (ks, d)"
  shows "int (count_budgeted_tool_calls ks) \<le> max n 0" and "set ks \<subseteq> set tcs"
proof -
  note exact = trim_from_exact [OF assms [unfolded trim_tool_calls_to_budget_def]]
  have "count_budgeted_tool_calls ks \<le> length (filter (\<lambda>tc. \<not> is_budget_exempt_tool (call_name tc)) ks)"
    unfolding count_budgeted_tool_calls_def by (induction ks) auto
  then have "count_budgeted_tool_calls ks \<le> nat n" using exact by simp
  then show "int (count_budgeted_tool_calls ks) \<le> max n 0" by linarith
  show "set ks \<subseteq> set tcs" using exact by (auto dest: list_emb_set)
qed

lemma fit_budget_fits:
  assumes "fit_budget D rs tcs = (ks, d)" and "md_max_tool_calls D = Some limit"
  shows "int (count_budgeted_records rs + count_budgeted_tool_calls ks) \<le> max limit (int (count_budgeted_records rs))"
    and "set ks \<subseteq> set tcs"
  using assms trim_fits by (auto simp: fit_budget_def Let_def split: if_splits prod.splits) fastforce+

lemma no_calls_yet [simp]:
  "mo_calls (snd (update_context D S st)) = mo_calls (snd st)" "mo_calls (snd (clear_context D e S st)) = mo_calls (snd st)"
  "mo_calls (snd (compact_context D e st)) = mo_calls (snd st)" "mo_calls (snd (announce_hidden D S n st)) = mo_calls (snd st)"
  "mo_calls (snd (note_deficit D S b p st)) = mo_calls (snd st)" "mo_calls (snd (note_no_legal D S st)) = mo_calls (snd st)"
  "mo_calls (snd (accept_result r st)) = mo_calls (snd st)" "mo_calls (snd (call_failed n f st)) = mo_calls (snd st)"
  "mo_calls (snd (plain_text D n b r st)) = mo_calls (snd st)"
  by (simp_all add: update_context_def clear_context_def compact_context_def announce_hidden_def note_deficit_def note_no_legal_def
      accept_result_def call_failed_def plain_text_def Let_def split: prod.split option.split)

lemma stage_calls:
  assumes "run_turn_model_stage D S I M = (M', R)"
  shows "mo_calls R = [] \<or> (\<exists>m ms ts r d. md_call D m ms ts = Inr r \<and> fit_budget D (si_records I) (map (patched D) (mr_tool_calls r)) = (mo_calls R, d))"
proof -
  let ?st = "prepare_turn D S I M"
  have none: "mo_calls (snd ?st) = []" by (simp add: prepare_turn_def empty_outcome_def)
  show ?thesis
  proof (cases "md_call D (ms_effective_model (fst ?st)) (ms_messages (fst ?st)) (fst (disclosure D S))")
    case (Inl f)
    then have "R = snd (call_failed (si_turn I) f ?st)" using assms by (simp add: run_turn_model_stage_def Let_def)
    then show ?thesis using none by simp
  next
    case (Inr r)
    show ?thesis
    proof (cases "mr_tool_calls r = []")
      case True
      then have "R = snd (plain_text D (si_turn I) (si_submitted I) r (accept_result r ?st))"
        using assms Inr by (simp add: run_turn_model_stage_def Let_def)
      then show ?thesis using none by simp
    next
      case False
      then have "R = snd (take_calls D (si_records I) r (accept_result r ?st))" using assms Inr by (simp add: run_turn_model_stage_def Let_def)
      then have "mo_calls R = fst (fit_budget D (si_records I) (map (patched D) (mr_tool_calls r)))"
        by (simp add: take_calls_def Let_def split: prod.split)
      then show ?thesis using Inr by (metis prod.collapse)
    qed
  qed
qed

text \<open>What is asked of the model and of the executor: calls have names, and a record carries the name of its call.\<close>

definition calls_named :: "loop_env \<Rightarrow> bool" where
  "calls_named E \<longleftrightarrow> (\<forall>m ms ts r. md_call (lo_model E) m ms ts = Inr r \<longrightarrow> (\<forall>tc \<in> set (mr_tool_calls r). call_name tc \<noteq> []))"

definition records_named :: "tool_env \<Rightarrow> bool" where
  "records_named T \<longleftrightarrow> tt_read_tool T \<noteq> [] \<and> (\<forall>cs n. map rec_tool (fst (tt_executor T cs n)) = map call_name cs)"

lemma count_by_flags:
  "count_budgeted_records rs = size (filter_mset (\<lambda>b. \<not> b) (mset (map (is_budget_exempt_tool \<circ> rec_tool) rs)))"
  "\<forall>tc \<in> set tcs. call_name tc \<noteq> [] \<Longrightarrow>
     count_budgeted_tool_calls tcs = size (filter_mset (\<lambda>b. \<not> b) (mset (map (is_budget_exempt_tool \<circ> call_name) tcs)))"
  by (induction rs, simp_all add: count_budgeted_records_def) (induction tcs, simp_all add: count_budgeted_tool_calls_def)

lemma tool_turn_count:
  assumes "tool_turn E turn calls (A, S) = Inr ((R, W), A', S')" and "executor_answers (tools_env E)" and "records_named (tools_env E)"
    and "\<forall>tc \<in> set calls. call_name tc \<noteq> []"
  shows "count_budgeted_records (tx_records R) = count_budgeted_tool_calls calls"
proof -
  obtain B where B: "process_tool_calls_turn (tools_env E) (tools_input_of turn calls S) (gates_to_tools S A) = Inr (R, B)"
    using tool_turn_cases [OF assms(1)] by metis
  have unknown: "is_budget_exempt_tool ''<unknown>'' = is_budget_exempt_tool []" by (simp add: is_budget_exempt_tool_def BUDGET_EXEMPT_TOOL_NAMES_def)
  have "map (is_budget_exempt_tool \<circ> rec_tool) (fst (tt_executor (tools_env E) cs n)) = map (is_budget_exempt_tool \<circ> call_name) cs" for cs n
    using assms(3) unfolding records_named_def by (metis map_map)
  from turn_tools [OF B assms(2) _ unknown this] assms(3)
  have "mset (map (is_budget_exempt_tool \<circ> rec_tool) (tx_records R)) = mset (map (is_budget_exempt_tool \<circ> call_name) calls)"
    by (simp add: records_named_def tools_input_of_def)
  then show ?thesis unfolding count_by_flags(1) count_by_flags(2) [OF assms(4)] by (rule arg_cong)
qed

lemma agent_turn_budget:
  assumes "loop_turn E turn L = Inr (b, L')" and "md_max_tool_calls (lo_model E) = Some limit"
    and "executor_answers (tools_env E)" and "records_named (tools_env E)" and "calls_named E"
  shows "int (count_budgeted_records (ls_records L')) \<le> max limit (int (count_budgeted_records (ls_records L)))"
  using agent_turn_cases [OF assms(1)]
proof (elim disjE exE conjE)
  assume "frame L L'"
  then show ?thesis by (simp add: frame_def)
next
  fix calls R W M I M' Mo
  assume t: "tool_turn E turn calls (ls_tools L, ls_outcomes L) = Inr ((R, W), ls_tools L', ls_outcomes L')"
    and recs: "ls_records L' = ls_records L @ tx_records R"
    and stage: "run_turn_model_stage (lo_model E) (ls_tools L) I M = (M', Mo)" "si_records I = ls_records L" "mo_calls Mo = calls"
  have fits: "int (count_budgeted_records (ls_records L) + count_budgeted_tool_calls calls) \<le> max limit (int (count_budgeted_records (ls_records L)))
      \<and> (\<forall>tc \<in> set calls. call_name tc \<noteq> [])"
    using stage_calls [OF stage(1)]
  proof (elim disjE exE conjE)
    assume "mo_calls Mo = []"
    then show ?thesis using stage(3) by (simp add: count_budgeted_tool_calls_def)
  next
    fix m ms ts r d
    assume r: "md_call (lo_model E) m ms ts = Inr r"
      and fit: "fit_budget (lo_model E) (si_records I) (map (patched (lo_model E)) (mr_tool_calls r)) = (mo_calls Mo, d)"
    have "\<forall>tc \<in> set (map (patched (lo_model E)) (mr_tool_calls r)). call_name tc \<noteq> []"
      using assms(5) r by (auto simp: calls_named_def patched_name)
    then show ?thesis using fit_budget_fits [OF fit assms(2)] stage(2,3) by auto
  qed
  have "count_budgeted_records (ls_records L') = count_budgeted_records (ls_records L) + count_budgeted_tool_calls calls"
    using tool_turn_count [OF t assms(3,4)] fits by (simp add: recs count_budgeted_records_def)
  then show ?thesis using fits by simp
qed

lemma agent_turns_budget:
  assumes "md_max_tool_calls (lo_model E) = Some limit"
    and "executor_answers (tools_env E)" and "records_named (tools_env E)" and "calls_named E"
  shows "agent_turns E turns L = Inr L' \<Longrightarrow>
    int (count_budgeted_records (ls_records L')) \<le> max limit (int (count_budgeted_records (ls_records L)))"
proof (induction turns arbitrary: L)
  case (Cons turn turns)
  obtain b L1 where turn: "loop_turn E turn L = Inr (b, L1)" and rest: "if b then L' = L1 else agent_turns E turns L1 = Inr L'"
    using Cons.prems by (auto split: sum.splits if_splits)
  from agent_turn_budget [OF turn assms] Cons.IH [of L1] rest show ?case by (cases b) auto
qed auto

text \<open>
  C13: the budget of retrieval calls holds for the whole run: a loop that starts without records never has more records
  of tools that are not exempt than the limit, whatever the model asks for, when its calls have names and the
  executor records a call under its name.
\<close>

theorem retrieval_budget_kept:
  assumes "md_max_tool_calls (lo_model E) = Some limit" and "0 \<le> limit" and "ls_records L = []"
    and "executor_answers (tools_env E)" and "records_named (tools_env E)" and "calls_named E"
    and "agent_loop E L = Inr (C, L')"
  shows "int (count_budgeted_records (ls_records L')) \<le> limit"
proof -
  obtain L1 where loop: "agent_turns E [0..md_max_turns (lo_model E) - 1] L = Inr L1" and same: "ls_records L' = ls_records L1"
    using assms(7) by (auto simp: agent_loop_def split: sum.splits prod.splits)
  from agent_turns_budget [OF assms(1,4-6) loop] show ?thesis using assms(2,3) same by (simp add: count_budgeted_records_def)
qed

section \<open>A concrete run\<close>

definition demo_loop_state :: loop_state where
  "demo_loop_state =
     \<lparr>ls_model = demo_model_state, ls_tools = demo_tool_state, ls_outcomes = demo_turn_state, ls_records = [],
      ls_errors = new_error_budget_state default_error_budget,
      ls_turns = 0, ls_budget_shown = None, ls_grace = 0, ls_repairs = 0, ls_terminal = None, ls_succeeded = False, ls_submitted = None,
      ls_guess = None, ls_submit_calls = 0, ls_had_evidence = False, ls_deficit_digest = None, ls_stall = 0, ls_stall_max = 0,
      ls_stall_signature = None, ls_error_counts = [], ls_error_nudged = [], ls_call_counts = [], ls_loop_nudged = [], ls_force = None,
      ls_content = [], ls_finish = [], ls_codes = [], ls_cost = 0\<rparr>"

lemma agent_loop_refines_witness:
  "\<exists>C L' run steps. agent_loop demo_loop demo_loop_state = Inr (C, L')
    \<and> tool_turns demo_loop run (demo_tool_state, demo_turn_state) = Inr steps \<and> subseq (map fst run) [0..8]
    \<and> ls_records L' = concat (map (tx_records \<circ> st_tools) steps)"
proof -
  have "md_max_turns (lo_model demo_loop) = 9" by (simp add: demo_loop_def demo_model_def)
  moreover have "ls_tools demo_loop_state = demo_tool_state" "ls_outcomes demo_loop_state = demo_turn_state" "ls_records demo_loop_state = []"
    by (simp_all add: demo_loop_state_def)
  moreover have "executor_answers (tools_env demo_loop)" by (simp add: demo_loop_fields demo_executor)
  ultimately show ?thesis using agent_loop_refines [of demo_loop demo_loop_state] by auto
qed

lemma demo_named: "records_named (tools_env demo_loop)" "calls_named demo_loop"
proof -
  show "records_named (tools_env demo_loop)"
    by (simp add: demo_loop_fields records_named_def demo_fields demo_record_fields)
  show "calls_named demo_loop"
    using demo_search_name by (auto simp: calls_named_def demo_loop_def demo_model_def)
qed

lemma retrieval_budget_kept_witness:
  "\<exists>C L'. agent_loop demo_loop demo_loop_state = Inr (C, L') \<and> count_budgeted_records (ls_records L') \<le> 4"
proof -
  have limit: "md_max_tool_calls (lo_model demo_loop) = Some 4" by (simp add: demo_loop_def demo_model_def)
  have answers: "executor_answers (tools_env demo_loop)" by (simp add: demo_loop_fields demo_executor)
  obtain L1 where loop: "agent_turns demo_loop [0..md_max_turns (lo_model demo_loop) - 1] demo_loop_state = Inr L1"
    using agent_turns_return [OF answers] by blast
  obtain M C where "resolve_turn_completion (lo_final demo_loop) (lo_policy demo_loop) (ls_tools L1) (final_input_of L1) (ls_model L1) = (M, C)"
    by fastforce
  then obtain C L' where run: "agent_loop demo_loop demo_loop_state = Inr (C, L')" by (simp add: agent_loop_def loop)
  have "ls_records demo_loop_state = []" by (simp add: demo_loop_state_def)
  from retrieval_budget_kept [OF limit _ this answers demo_named run] run show ?thesis by auto
qed

end
