(* ===== verification/Claim_Records.thy ===== *)
theory Claim_Records
  imports Retry Py_Support
begin

text \<open>
  The records of the coordination claims (enforced_planning/coordination_claims.py): paths and their
  overlap, the normalisation of a claim read from YAML, its health, the hierarchy of the claims of a
  plan, and the interactions of a candidate with the claims in force.

  A claim as \<open>yaml.safe_load\<close> returns it is a dictionary of type \<open>py\<close>. Instants are rationals, in seconds;
  \<open>instant\<close> stands for \<open>datetime.fromisoformat\<close>, with a time without zone read as UTC.
\<close>

section \<open>Repository paths\<close>

text \<open>\<open>posixpath.normpath\<close>: the components are kept on a stack, the last one first.\<close>

definition norm_comp :: "bool \<Rightarrow> string list \<Rightarrow> string \<Rightarrow> string list" where
  "norm_comp rooted st c =
     (if c = [] \<or> c = ''.'' then st
      else if c \<noteq> ''..'' \<or> (\<not> rooted \<and> st = []) \<or> (st \<noteq> [] \<and> hd st = ''..'') then c # st
      else tl st)"

definition initial_slashes :: "string \<Rightarrow> string" where
  "initial_slashes p =
     (if \<not> prefix ''/'' p then ''''
      else if prefix ''//'' p \<and> \<not> prefix ''///'' p then ''//'' else ''/'')"

definition normpath :: "string \<Rightarrow> string" where
  "normpath p =
     (let start = initial_slashes p;
          comps = rev (foldl (norm_comp (start \<noteq> [])) [] (split_on CHR ''/'' p));
          q = start @ py_join ''/'' comps
      in if q = [] then ''.'' else q)"

text \<open>\<open>s.replace("\\", "/")\<close>.\<close>

definition forward_slashes :: "string \<Rightarrow> string" where
  "forward_slashes p = map (\<lambda>c. if c = CHR 0x5C then CHR ''/'' else c) p"

definition normalize_repo_path :: "string \<Rightarrow> string" where
  "normalize_repo_path p =
     (let n = normpath (py_strip (forward_slashes p))
      in if prefix ''./'' n then drop 2 n else n)"

definition paths_overlap :: "string \<Rightarrow> string \<Rightarrow> bool" where
  "paths_overlap l r \<longleftrightarrow>
     (let a = normalize_repo_path l; b = normalize_repo_path r
      in a = b \<or> prefix (b @ ''/'') a \<or> prefix (a @ ''/'') b)"

section \<open>Claims\<close>

record claim_record =
  cl_agent :: string
  cl_claimed_at :: "string option"
  cl_expires_at :: "string option"
  cl_projects :: "string list"
  cl_scope :: string
  cl_intent :: string
  cl_type :: string
  cl_write_paths :: "string list"
  cl_read_paths :: "string list"
  cl_worktree_path :: "string option"
  cl_repo_root :: "string option"
  cl_branch :: "string option"
  cl_session_name :: "string option"
  cl_broader_goal :: "string option"
  cl_tracker_path :: "string option"
  cl_session_id :: "string option"
  cl_heartbeat_at :: "string option"
  cl_status :: string
  cl_updated_at :: "string option"
  cl_parent_scope :: "string option"
  cl_notes :: "string option"
  cl_plan_ref :: "string option"
  cl_source_file :: "string option"
  cl_schema_version :: int
  cl_work_unit_id :: "string option"
  cl_work_graph_path :: "string option"
  cl_work_graph_sha256 :: "string option"
  cl_approval_revisions :: "string list"
  cl_parallel_root_authorized :: bool

definition LIVE_STATUSES :: "string list" where
  "LIVE_STATUSES = [''active'', ''blocked'', ''handoff'']"

definition COMPLETED_STATUSES :: "string list" where
  "COMPLETED_STATUSES = [''complete'', ''completed'']"

definition SESSION_ENDED_STATUS :: string where
  "SESSION_ENDED_STATUS = ''session_ended''"

definition CLAIM_TYPES :: "string list" where
  "CLAIM_TYPES = [''program'', ''write'', ''review'', ''research'']"

definition primary_project :: "claim_record \<Rightarrow> string option" where
  "primary_project c = (case cl_projects c of [] \<Rightarrow> None | p # _ \<Rightarrow> Some p)"

definition is_live :: "claim_record \<Rightarrow> bool" where
  "is_live c \<longleftrightarrow> cl_status c \<in> set LIVE_STATUSES"

text \<open>The truth value of an optional text.\<close>

definition given :: "string option \<Rightarrow> bool" where
  "given v \<longleftrightarrow> (case v of None \<Rightarrow> False | Some s \<Rightarrow> s \<noteq> [])"

section \<open>Plan identities\<close>

text \<open>The maximal run of digits at the start of a text, with what follows it.\<close>

definition digit_run :: "string \<Rightarrow> string \<times> string" where
  "digit_run s = (takeWhile py_isdigit s, dropWhile py_isdigit s)"

definition digits_value :: "string \<Rightarrow> nat" where
  "digits_value s = foldl (\<lambda>n c. 10 * n + (of_char c - 48)) 0 s"

text \<open>
  \<open>0*(\d+)\b\<close> at the start of a text: the digits cannot be cut short, because a digit after them
  would be a word character.
\<close>

definition number_here :: "string \<Rightarrow> nat option" where
  "number_here s =
     (case digit_run s of (ds, rest) \<Rightarrow>
        if ds = [] \<or> (rest \<noteq> [] \<and> is_word_char (hd rest)) then None else Some (digits_value ds))"

text \<open>\<open>Plan\s*#\s*0*(\d+)\b\<close> at the start of a text, in any case.\<close>

definition plan_number_here :: "string \<Rightarrow> nat option" where
  "plan_number_here s =
     (if py_lower (take 4 s) = ''plan'' then
        (case py_lstrip (drop 4 s) of [] \<Rightarrow> None
         | c # rest \<Rightarrow> if c = CHR ''#'' then number_here (py_lstrip rest) else None)
      else None)"

text \<open>\<open>re.search\<close> with a leading \<open>\b\<close>: the first match that no word character precedes.\<close>

fun search_at_word :: "(string \<Rightarrow> nat option) \<Rightarrow> bool \<Rightarrow> string \<Rightarrow> nat option" where
  "search_at_word m after_word [] = None"
| "search_at_word m after_word (c # s) =
     (case (if after_word then None else m (c # s)) of Some n \<Rightarrow> Some n
      | None \<Rightarrow> search_at_word m (is_word_char c) s)"

definition plan_name_char :: "char \<Rightarrow> bool" where
  "plan_name_char c \<longleftrightarrow> py_isdigit c \<or> c \<in> set ''_.-'' \<or> char_lower c \<noteq> c \<or> char_upper c \<noteq> c"

text \<open>\<open>\s*([A-Za-z0-9_.-]+)#0*(\d+)\s*\<close> on the whole text.\<close>

definition qualified_plan :: "string \<Rightarrow> (string \<times> nat) option" where
  "qualified_plan s =
     (let t = py_strip s; name = py_before_first CHR ''#'' t; rest = drop (length name) t
      in if name \<noteq> [] \<and> list_all plan_name_char name \<and> rest \<noteq> [] \<and> tl rest \<noteq> [] \<and> list_all py_isdigit (tl rest)
         then Some (name, digits_value (tl rest)) else None)"

definition normalize_plan_identity :: "string option \<Rightarrow> string option" where
  "normalize_plan_identity ref =
     (case ref of None \<Rightarrow> None
      | Some s \<Rightarrow>
          (case qualified_plan s of
             Some (name, n) \<Rightarrow>
               Some (map (\<lambda>c. if c = CHR ''_'' then CHR ''-'' else c) (py_lower name) @ ''#'' @ py_int_str (int n))
           | None \<Rightarrow>
               (case search_at_word plan_number_here False s of
                  None \<Rightarrow> None | Some n \<Rightarrow> Some (''Plan #'' @ py_int_str (int n)))))"

text \<open>\<open>(?:\bPlan\s*#?|#)\s*0*(\d+)\b\<close>, searched from the left.\<close>

fun search_plan_number :: "bool \<Rightarrow> string \<Rightarrow> nat option" where
  "search_plan_number after_word [] = None"
| "search_plan_number after_word (c # s) =
     (let named = (if \<not> after_word \<and> py_lower (take 4 (c # s)) = ''plan''
                   then (let rest = py_lstrip (drop 4 (c # s))
                         in number_here (if prefix ''#'' rest then py_lstrip (tl rest) else rest))
                   else None);
          here = (case named of Some n \<Rightarrow> Some n
                  | None \<Rightarrow> if c = CHR ''#'' then number_here (py_lstrip s) else None)
      in case here of Some n \<Rightarrow> Some n | None \<Rightarrow> search_plan_number (is_word_char c) s)"

definition plan_number :: "string \<Rightarrow> nat option" where
  "plan_number ref = search_plan_number False ref"

section \<open>Reading a claim\<close>

text \<open>\<open>_safe_string_list\<close>: a text or a list, its texts stripped, without blanks and repetitions.\<close>

definition string_items :: "py \<Rightarrow> string list" where
  "string_items v =
     (case v of PStr s \<Rightarrow> [s]
      | PList xs \<Rightarrow> List.map_filter (\<lambda>x. case x of PStr s \<Rightarrow> Some s | _ \<Rightarrow> None) xs
      | _ \<Rightarrow> [])"

definition safe_string_list :: "py \<Rightarrow> string list" where
  "safe_string_list v =
     dedup_by (\<lambda>s. s) [] (filter (\<lambda>s. s \<noteq> []) (map py_strip (string_items v)))"

definition py_text :: "py \<Rightarrow> string option" where
  "py_text v = (case v of PStr s \<Rightarrow> Some s | _ \<Rightarrow> None)"

definition V3_KEYS :: "string list" where
  "V3_KEYS = [''work_unit_id'', ''work_graph_path'', ''work_graph_sha256'', ''approval_revisions'']"

definition V2_KEYS :: "string list" where
  "V2_KEYS =
     [''claim_type'', ''projects'', ''write_paths'', ''read_paths'', ''worktree_path'', ''repo_root'', ''branch'',
      ''session_name'', ''broader_goal'', ''tracker_path'', ''session_id'', ''heartbeat_at'', ''status'',
      ''updated_at'', ''parent_scope'', ''notes'', ''parallel_root_authorized'']"

definition has_any_key :: "(py \<times> py) list \<Rightarrow> string list \<Rightarrow> bool" where
  "has_any_key d ks \<longleftrightarrow> list_ex (\<lambda>k. dict_has d (PStr k)) ks"

text \<open>
  The schema version: what the claim says when it is 1, 2 or 3, or else the version that brought its
  keys. \<open>True\<close> is an \<open>int\<close> that equals 1.
\<close>

definition schema_version_of :: "(py \<times> py) list \<Rightarrow> int" where
  "schema_version_of d =
     (case py_get (PDict d) ''schema_version'' of
        PInt n \<Rightarrow> if n \<in> {1, 2, 3} then n
                  else if has_any_key d V3_KEYS then 3 else if has_any_key d V2_KEYS then 2 else 1
      | PBool True \<Rightarrow> 1
      | _ \<Rightarrow> if has_any_key d V3_KEYS then 3 else if has_any_key d V2_KEYS then 2 else 1)"

text \<open>A text that is not blank.\<close>

definition nonblank :: "py \<Rightarrow> string option" where
  "nonblank v = (case v of PStr s \<Rightarrow> if py_strip s = [] then None else Some s | _ \<Rightarrow> None)"

definition projects_of :: "(py \<times> py) list \<Rightarrow> string list" where
  "projects_of d =
     (let ps = safe_string_list (py_get (PDict d) ''projects'')
      in case nonblank (py_get (PDict d) ''project'') of
           Some p \<Rightarrow> if py_strip p \<in> set ps then ps else py_strip p # ps
         | None \<Rightarrow> ps)"

definition claim_type_of :: "(py \<times> py) list \<Rightarrow> string list \<Rightarrow> string" where
  "claim_type_of d paths =
     (case py_text (py_get (PDict d) ''claim_type'') of
        Some t \<Rightarrow> if t \<in> set CLAIM_TYPES then t else if paths \<noteq> [] then ''write'' else ''program''
      | None \<Rightarrow> if paths \<noteq> [] then ''write'' else ''program'')"

definition normalize_claim :: "(py \<times> py) list \<Rightarrow> string option \<Rightarrow> claim_record option" where
  "normalize_claim d source =
     (let f = (\<lambda>k. py_get (PDict d) k); t = (\<lambda>k. py_text (f k)) in
      case (nonblank (f ''agent''), nonblank (f ''scope''), nonblank (f ''intent'')) of
        (Some agent, Some scope, Some intent) \<Rightarrow>
          (let paths = map normalize_repo_path (safe_string_list (f ''write_paths'')) in
           Some \<lparr>cl_agent = py_strip agent, cl_claimed_at = t ''claimed_at'', cl_expires_at = t ''expires_at'',
              cl_projects = projects_of d, cl_scope = py_strip scope, cl_intent = py_strip intent,
              cl_type = claim_type_of d paths, cl_write_paths = paths,
              cl_read_paths = map normalize_repo_path (safe_string_list (f ''read_paths'')),
              cl_worktree_path = t ''worktree_path'', cl_repo_root = t ''repo_root'', cl_branch = t ''branch'',
              cl_session_name = t ''session_name'', cl_broader_goal = t ''broader_goal'',
              cl_tracker_path = t ''tracker_path'', cl_session_id = t ''session_id'',
              cl_heartbeat_at = t ''heartbeat_at'',
              cl_status = (case nonblank (f ''status'') of Some s \<Rightarrow> s | None \<Rightarrow> ''active''),
              cl_updated_at = t ''updated_at'', cl_parent_scope = t ''parent_scope'', cl_notes = t ''notes'',
              cl_plan_ref = t ''plan_ref'', cl_source_file = source, cl_schema_version = schema_version_of d,
              cl_work_unit_id = t ''work_unit_id'', cl_work_graph_path = t ''work_graph_path'',
              cl_work_graph_sha256 = t ''work_graph_sha256'',
              cl_approval_revisions = safe_string_list (f ''approval_revisions''),
              cl_parallel_root_authorized = (f ''parallel_root_authorized'' = PBool True)\<rparr>)
      | _ \<Rightarrow> None)"

section \<open>Health\<close>

definition opt_issue :: "bool \<Rightarrow> string \<Rightarrow> string list" where
  "opt_issue b i = (if b then [i] else [])"

definition claim_health_issues :: "claim_record \<Rightarrow> string list" where
  "claim_health_issues c =
     opt_issue (cl_projects c = []) ''missing_project'' @
     opt_issue (cl_type c = ''write'' \<and> cl_write_paths c = []) ''missing_write_paths'' @
     (if is_live c \<and> cl_type c \<in> set CLAIM_TYPES then
        opt_issue (\<not> given (cl_branch c)) ''missing_branch'' @
        opt_issue (\<not> given (cl_worktree_path c)) ''missing_worktree_path'' @
        opt_issue (\<not> given (cl_session_id c)) ''missing_session_id'' @
        opt_issue (\<not> given (cl_session_name c)) ''missing_session_name'' @
        (if given (cl_plan_ref c) \<and> given (cl_session_id c) then
           opt_issue (\<not> given (cl_repo_root c)) ''missing_repo_root'' @
           opt_issue (\<not> given (cl_broader_goal c)) ''missing_broader_goal'' @
           opt_issue (\<not> given (cl_tracker_path c)) ''missing_tracker_path'' else []) @
        (if 3 \<le> cl_schema_version c \<and> cl_write_paths c \<noteq> [] \<and> given (cl_plan_ref c) then
           opt_issue (\<not> given (cl_work_unit_id c)) ''missing_work_unit_id'' @
           opt_issue (\<not> given (cl_work_graph_path c)) ''missing_work_graph_path'' @
           opt_issue (\<not> given (cl_work_graph_sha256 c)) ''missing_work_graph_sha256'' else [])
      else [])"

definition claim_health_status :: "claim_record \<Rightarrow> string" where
  "claim_health_status c = (if claim_health_issues c \<noteq> [] then ''weak'' else ''healthy'')"

definition CREATION_BLOCKING_HEALTH_ISSUES :: "string list" where
  "CREATION_BLOCKING_HEALTH_ISSUES =
     [''missing_project'', ''missing_write_paths'', ''missing_branch'', ''missing_worktree_path'',
      ''missing_session_id'', ''missing_session_name'', ''missing_work_unit_id'', ''missing_work_graph_path'',
      ''missing_work_graph_sha256'']"

text \<open>\<open>list(dict.fromkeys(xs))\<close>.\<close>

definition unique :: "'a list \<Rightarrow> 'a list" where
  "unique xs = dedup_by (\<lambda>x. x) [] xs"

lemma set_unique [simp]: "set (unique xs) = set xs"
  using dedup_by_keys [of "\<lambda>x. x" "[]" xs] by (simp add: unique_def)

lemma unique_Nil_iff [simp]: "unique xs = [] \<longleftrightarrow> xs = []"
  by (metis set_unique set_empty)

section \<open>The hierarchy of the claims of a plan\<close>

definition same_claim :: "claim_record \<Rightarrow> claim_record \<Rightarrow> bool" where
  "same_claim a b \<longleftrightarrow>
     cl_agent a = cl_agent b \<and> primary_project a = primary_project b \<and> cl_scope a = cl_scope b"

definition has_parent :: "claim_record \<Rightarrow> bool" where
  "has_parent c \<longleftrightarrow> given (cl_parent_scope c)"

definition parents_of :: "claim_record \<Rightarrow> claim_record list \<Rightarrow> claim_record list" where
  "parents_of c active =
     filter (\<lambda>d. is_live d \<and> primary_project d = primary_project c \<and> Some (cl_scope d) = cl_parent_scope c \<and>
                 \<not> same_claim d c) active"

definition parent_issues :: "claim_record \<Rightarrow> claim_record list \<Rightarrow> string list" where
  "parent_issues c active =
     (if has_parent c then
        opt_issue (cl_parent_scope c = Some (cl_scope c)) ''self_parent_scope'' @
        (case parents_of c active of
           [] \<Rightarrow> [''missing_parent_claim'']
         | [p] \<Rightarrow>
             opt_issue (cl_type p \<noteq> ''program'') ''parent_not_program'' @
             opt_issue (\<not> given (cl_session_id p) \<or> claim_health_issues p \<noteq> []) ''parent_not_healthy'' @
             opt_issue (normalize_plan_identity (cl_plan_ref p) \<noteq> normalize_plan_identity (cl_plan_ref c))
               ''parent_plan_mismatch''
         | _ \<Rightarrow> [''ambiguous_parent_scope''])
      else [])"

definition plan_cohort :: "claim_record \<Rightarrow> claim_record list \<Rightarrow> claim_record list" where
  "plan_cohort c active =
     (let others = filter (\<lambda>d. is_live d \<and> given (cl_session_id d) \<and> primary_project d = primary_project c \<and>
                     normalize_plan_identity (cl_plan_ref d) = normalize_plan_identity (cl_plan_ref c)) active
      in if list_ex (\<lambda>d. same_claim d c) others then others else others @ [c])"

definition plan_roots :: "claim_record list \<Rightarrow> claim_record list" where
  "plan_roots cohort = filter (\<lambda>d. cl_type d = ''program'' \<and> \<not> has_parent d) cohort"

definition root_issues :: "claim_record \<Rightarrow> claim_record list \<Rightarrow> string list" where
  "root_issues c cohort =
     (case plan_roots cohort of
        [] \<Rightarrow> [''missing_program_root'']
      | [r] \<Rightarrow>
          (if same_claim r c then []
           else if \<not> has_parent c then [''missing_parent_scope'']
           else opt_issue (cl_parent_scope c \<noteq> Some (cl_scope r)) ''wrong_parent_scope'')
      | _ \<Rightarrow> [''multiple_program_roots''])"

definition claim_hierarchy_issues :: "claim_record \<Rightarrow> claim_record list \<Rightarrow> string list" where
  "claim_hierarchy_issues c active =
     (if \<not> is_live c \<or> \<not> given (cl_session_id c) \<or> \<not> given (primary_project c) \<or>
         \<not> given (normalize_plan_identity (cl_plan_ref c)) then []
      else let issues = parent_issues c active; cohort = plan_cohort c active
           in unique (if length cohort < 2 then issues else issues @ root_issues c cohort))"

definition coordination_health_issues :: "claim_record \<Rightarrow> claim_record list \<Rightarrow> string list" where
  "coordination_health_issues c active =
     unique (claim_health_issues c @ claim_hierarchy_issues c active)"

section \<open>The checks of a candidate\<close>

text \<open>A \<open>ValueError\<close> is its message, the left of a sum.\<close>

definition project_scope :: "claim_record \<Rightarrow> string" where
  "project_scope c = (case primary_project c of None \<Rightarrow> ''None'' | Some p \<Rightarrow> p) @ '':'' @ cl_scope c"

definition validate_claim_hierarchy_for_creation :: "claim_record \<Rightarrow> claim_record list \<Rightarrow> string + unit" where
  "validate_claim_hierarchy_for_creation c active =
     (case claim_hierarchy_issues c (filter (\<lambda>d. \<not> same_claim d c) active @ [c]) of
        [] \<Rightarrow> Inr ()
      | issues \<Rightarrow> Inl (''Invalid plan claim hierarchy for '' @ project_scope c @ '': '' @ py_join '', '' issues))"

definition session_root_conflicts :: "claim_record \<Rightarrow> claim_record list \<Rightarrow> claim_record list" where
  "session_root_conflicts c active =
     (if \<not> is_live c \<or> \<not> given (cl_session_id c) \<or> has_parent c then []
      else sort_key (\<lambda>d. (case primary_project d of None \<Rightarrow> '''' | Some p \<Rightarrow> p))
             (sort_key cl_scope
               (filter (\<lambda>d. is_live d \<and> cl_session_id d = cl_session_id c \<and> \<not> has_parent d \<and> \<not> same_claim d c) active)))"

definition validate_session_root_for_creation :: "claim_record \<Rightarrow> claim_record list \<Rightarrow> string + unit" where
  "validate_session_root_for_creation c active =
     (let conflicts = session_root_conflicts c active
      in if conflicts = [] \<or> cl_parallel_root_authorized c then Inr ()
         else Inl (''Runtime session already owns an unresolved root lane: '' @
                py_join '', '' (map project_scope conflicts) @
                ''. Start a child with --parent-scope, close/transfer the existing root, or pass '' @
                ''--allow-parallel for intentional parallel roots.''))"

definition overlapping_write_paths :: "claim_record \<Rightarrow> claim_record \<Rightarrow> string list" where
  "overlapping_write_paths c d =
     sort (remdups (concat (map (\<lambda>l. List.map_filter (\<lambda>r.
        if paths_overlap l r then Some (normalize_repo_path l @ '' <-> '' @ normalize_repo_path r) else None)
        (cl_write_paths d)) (cl_write_paths c))))"

definition preserved_conflicts :: "claim_record \<Rightarrow> claim_record list \<Rightarrow> claim_record list" where
  "preserved_conflicts c claims =
     (let plan = normalize_plan_identity (cl_plan_ref c) in
      filter (\<lambda>d. cl_status d = SESSION_ENDED_STATUS \<and> \<not> same_claim d c \<and>
                 primary_project c \<in> Some ` set (cl_projects d) \<and>
                 (given plan \<and> normalize_plan_identity (cl_plan_ref d) = plan \<or>
                  overlapping_write_paths c d \<noteq> [])) claims)"

definition validate_no_preserved_lane_conflict :: "claim_record \<Rightarrow> claim_record list \<Rightarrow> string + unit" where
  "validate_no_preserved_lane_conflict c claims =
     (case preserved_conflicts c claims of
        [] \<Rightarrow> Inr ()
      | conflicts \<Rightarrow> Inl (''Preserved session-ended lane(s) still require disposition: '' @
          py_join '', '' (map project_scope conflicts) @
          ''. Resume/take over the existing lane or close it through the sanctioned '' @
          ''merge/recovery path before creating a replacement.''))"

definition creation_flag :: "string \<Rightarrow> string" where
  "creation_flag i =
     the (map_of [(''missing_project'', ''--project''), (''missing_write_paths'', ''--write-path''),
        (''missing_branch'', ''--branch''), (''missing_worktree_path'', ''--worktree-path''),
        (''missing_session_id'', ''--session-id''), (''missing_session_name'', ''--session-name''),
        (''missing_work_unit_id'', ''--work-unit-id''), (''missing_work_graph_path'', ''--work-graph''),
        (''missing_work_graph_sha256'', ''a validated canonical work-graph binding'')] i)"

definition validate_claim_for_creation :: "claim_record \<Rightarrow> string + unit" where
  "validate_claim_for_creation c =
     (let issues = filter (\<lambda>i. i \<in> set CREATION_BLOCKING_HEALTH_ISSUES) (claim_health_issues c)
      in if issues = [] \<or> \<not> is_live c then Inr ()
         else Inl (''Active '' @ cl_type c @ '' claims require '' @ py_join '', '' (map creation_flag issues) @
                ''. Legacy claims remain readable, but new live claims must declare real ownership.''))"

section \<open>Interactions\<close>

record interaction =
  ia_severity :: string
  ia_reason :: string
  ia_agent :: string
  ia_scope :: string
  ia_type :: string
  ia_projects :: "string list"
  ia_overlaps :: "string list"
  ia_source_file :: "string option"

definition projects_overlap :: "claim_record \<Rightarrow> claim_record \<Rightarrow> bool" where
  "projects_overlap c d \<longleftrightarrow> set (cl_projects c) \<inter> set (cl_projects d) \<noteq> {}"

definition classify_interaction :: "claim_record \<Rightarrow> claim_record \<Rightarrow> string list \<Rightarrow> string \<times> string" where
  "classify_interaction c d overlaps =
     (if cl_type c = ''write'' \<and> cl_type d = ''write'' \<and> overlaps \<noteq> []
      then (''hard_conflict'', ''write_paths overlap across active write claims'')
      else if overlaps \<noteq> [] \<and> {cl_type c, cl_type d} = {''write'', ''review''}
      then (''soft_overlap'', ''review claim overlaps an active write claim'')
      else if cl_scope c = cl_scope d
      then (''informational'', ''same project/scope is already claimed, but no write-path conflict was detected'')
      else if overlaps \<noteq> []
      then (''informational'', ''write-path overlap exists but the claim types do not require blocking'')
      else (''informational'', ''same project has another active claim with no overlapping write paths''))"

definition interaction_of :: "claim_record \<Rightarrow> claim_record \<Rightarrow> interaction" where
  "interaction_of c d =
     (let overlaps = overlapping_write_paths c d; (severity, reason) = classify_interaction c d overlaps
      in \<lparr>ia_severity = severity, ia_reason = reason, ia_agent = cl_agent d, ia_scope = cl_scope d,
         ia_type = cl_type d, ia_projects = sort (remdups (filter (\<lambda>p. p \<in> set (cl_projects d)) (cl_projects c))),
         ia_overlaps = overlaps, ia_source_file = cl_source_file d\<rparr>)"

definition evaluate_claim :: "claim_record \<Rightarrow> claim_record list \<Rightarrow> interaction list" where
  "evaluate_claim c claims =
     map (interaction_of c) (filter (\<lambda>d. cl_agent d \<noteq> cl_agent c \<and> projects_overlap c d) claims)"

definition hard_conflicts :: "interaction list \<Rightarrow> interaction list" where
  "hard_conflicts xs = filter (\<lambda>i. ia_severity i = ''hard_conflict'') xs"

end
