(* ===== verification/Claim_Lifecycle.thy ===== *)
theory Claim_Lifecycle
  imports Claim_Records
begin

text \<open>
  What a coordination claim says about the world (enforced_planning/coordination_claims.py): the state of
  its branch and worktree in git, the freshness of its heartbeat, the session that owns it, the work unit
  it is bound to, and the candidate that the command line builds.

  Git and the file system are the parameter \<open>git_view\<close>; the environment is a map from names to texts.
\<close>

section \<open>Git\<close>

record git_view =
  gv_exists :: "string \<Rightarrow> bool"
  gv_run :: "string \<Rightarrow> string list \<Rightarrow> int \<times> string"

text \<open>\<open>Path.parent\<close> and \<open>p / name\<close> of a normalised path.\<close>

definition path_parent :: "string \<Rightarrow> string" where
  "path_parent p = (let d = path_dir p in if d = [] then ''.'' else if d = ''/'' then d else butlast d)"

definition path_join :: "string \<Rightarrow> string \<Rightarrow> string" where
  "path_join d name = (if d = ''.'' then name else if d = ''/'' then d @ name else d @ ''/'' @ name)"

definition git_ok :: "git_view \<Rightarrow> string \<Rightarrow> string list \<Rightarrow> bool" where
  "git_ok g repo args \<longleftrightarrow> fst (gv_run g repo args) = 0"

definition git_out :: "git_view \<Rightarrow> string \<Rightarrow> string list \<Rightarrow> string" where
  "git_out g repo args = py_strip (snd (gv_run g repo args))"

text \<open>The top level of the directory \<open>d\<close>, when it exists and git knows it.\<close>

definition toplevel :: "git_view \<Rightarrow> string \<Rightarrow> string option" where
  "toplevel g d =
     (if gv_exists g d \<and> git_ok g d [''rev-parse'', ''--show-toplevel'']
      then Some (git_out g d [''rev-parse'', ''--show-toplevel'']) else None)"

definition resolve_repo_root_from_worktree_path :: "git_view \<Rightarrow> (string \<Rightarrow> string) \<Rightarrow> string option \<Rightarrow> string option" where
  "resolve_repo_root_from_worktree_path g expand path =
     (if \<not> given path then None
      else let p = expand (the path); parent = path_parent p; name = path_name parent in
        case toplevel g p of Some repo \<Rightarrow> Some repo
        | None \<Rightarrow>
            if suffix ''_worktrees'' name
            then toplevel g (path_join (path_parent parent) (take (length name - length ''_worktrees'') name))
            else None)"

definition resolve_default_branch :: "git_view \<Rightarrow> string \<Rightarrow> string option" where
  "resolve_default_branch g repo =
     (let head = [''symbolic-ref'', ''--quiet'', ''--short'', ''refs/remotes/origin/HEAD''];
          v = git_out g repo head in
      if git_ok g repo head \<and> prefix ''origin/'' v then Some (drop 7 v)
      else if git_ok g repo head \<and> v \<noteq> [] then Some v
      else List.find (\<lambda>b. git_ok g repo [''show-ref'', ''--verify'', ''refs/heads/'' @ b]) [''main'', ''master''])"

definition default_integration_ref :: "git_view \<Rightarrow> string \<Rightarrow> string \<Rightarrow> string" where
  "default_integration_ref g repo branch =
     (if git_ok g repo [''show-ref'', ''--verify'', ''refs/remotes/origin/'' @ branch]
      then ''refs/remotes/origin/'' @ branch else ''refs/heads/'' @ branch)"

text \<open>The branch has commits of its own, and the default branch has them all.\<close>

definition merged_to_default :: "git_view \<Rightarrow> string \<Rightarrow> string \<Rightarrow> bool" where
  "merged_to_default g repo branch =
     (let ref = ''refs/heads/'' @ branch in
      case resolve_default_branch g repo of None \<Rightarrow> False
      | Some d \<Rightarrow>
          (let dref = default_integration_ref g repo d in
           d \<noteq> [] \<and> d \<noteq> branch \<and> git_ok g repo [''rev-parse'', ref] \<and> git_ok g repo [''rev-parse'', dref] \<and>
           git_out g repo [''rev-parse'', ref] \<noteq> git_out g repo [''rev-parse'', dref] \<and>
           git_ok g repo [''merge-base'', ''--is-ancestor'', ref, dref]))"

definition claim_lifecycle_issues :: "git_view \<Rightarrow> (string \<Rightarrow> string) \<Rightarrow> claim_record \<Rightarrow> string list" where
  "claim_lifecycle_issues g expand c =
     (if \<not> is_live c then []
      else opt_issue (given (cl_worktree_path c) \<and> \<not> gv_exists g (expand (the (cl_worktree_path c))))
             ''missing_worktree_on_disk'' @
        (case resolve_repo_root_from_worktree_path g expand (cl_worktree_path c) of None \<Rightarrow> []
         | Some repo \<Rightarrow>
             if \<not> given (cl_branch c) then []
             else if \<not> git_ok g repo [''show-ref'', ''--verify'', ''refs/heads/'' @ the (cl_branch c)]
             then [''missing_branch_ref'']
             else opt_issue (merged_to_default g repo (the (cl_branch c))) ''branch_merged_to_default''))"

section \<open>Heartbeats\<close>

definition DEFAULT_HEARTBEAT_STALE_MINUTES :: rat where
  "DEFAULT_HEARTBEAT_STALE_MINUTES = 120"

text \<open>The window in seconds; \<open>num\<close> is what \<open>float\<close> reads from a text.\<close>

definition heartbeat_stale_after :: "(string \<Rightarrow> rat option) \<Rightarrow> (string \<Rightarrow> string option) \<Rightarrow> rat" where
  "heartbeat_stale_after num env =
     60 * (let raw = py_strip (case env ''COORDINATION_HEARTBEAT_STALE_MINUTES'' of None \<Rightarrow> '''' | Some s \<Rightarrow> s) in
           if raw = [] then DEFAULT_HEARTBEAT_STALE_MINUTES
           else (case num raw of None \<Rightarrow> DEFAULT_HEARTBEAT_STALE_MINUTES
                 | Some m \<Rightarrow> if m \<le> 0 then DEFAULT_HEARTBEAT_STALE_MINUTES else m))"

definition claim_liveness_issues ::
  "(string \<Rightarrow> rat option) \<Rightarrow> rat \<Rightarrow> claim_record \<Rightarrow> rat \<Rightarrow> string list" where
  "claim_liveness_issues instant window c now =
     (if \<not> is_live c \<or> \<not> given (cl_session_id c) then []
      else if \<not> given (cl_heartbeat_at c) then [''missing_session_heartbeat'']
      else (case instant (the (cl_heartbeat_at c)) of
              None \<Rightarrow> [''invalid_heartbeat_at'']
            | Some h \<Rightarrow> opt_issue (window < now - h) ''stale_session_heartbeat''))"

text \<open>Issues that prove a claim stale; a heartbeat that is missing only makes it weak.\<close>

definition stale_liveness :: "string list \<Rightarrow> bool" where
  "stale_liveness issues \<longleftrightarrow> list_ex (\<lambda>i. i \<noteq> ''missing_session_heartbeat'') issues"

definition claim_runtime_status ::
  "string list \<Rightarrow> string list \<Rightarrow> claim_record \<Rightarrow> claim_record list option \<Rightarrow> string" where
  "claim_runtime_status lifecycle liveness c active =
     (if lifecycle \<noteq> [] \<or> stale_liveness liveness then ''stale''
      else let issues = (case active of Some cs \<Rightarrow> coordination_health_issues c cs | None \<Rightarrow> claim_health_issues c)
           in if issues \<noteq> [] \<or> liveness \<noteq> [] then ''weak'' else ''healthy'')"

definition merged_claim_message :: "claim_record \<Rightarrow> string" where
  "merged_claim_message c =
     ''Active claim '' @ project_scope c @ '' owns branch '' @
     (case cl_branch c of None \<Rightarrow> ''None'' | Some b \<Rightarrow> py_repr_str b) @
     '', which is already integrated into the canonical default branch. '' @
     ''Run sanctioned session-close or record a supported kept-open disposition.''"

definition claim_enforcement_issues :: "string list \<Rightarrow> claim_record \<Rightarrow> (string \<times> string) list list" where
  "claim_enforcement_issues lifecycle c =
     (if ''branch_merged_to_default'' \<in> set lifecycle
      then [[(''code'', ''merged_active_claim_requires_disposition''), (''severity'', ''high''),
             (''message'', merged_claim_message c)]]
      else [])"

section \<open>Sessions\<close>

definition session_env_keys :: "string \<Rightarrow> string list" where
  "session_env_keys agent =
     (if agent = ''codex'' then [''CODEX_THREAD_ID'']
      else if agent = ''claude-code'' then [''CLAUDE_CODE_SESSION_ID'', ''CLAUDE_SESSION_ID'', ''CLAUDE_CODE_SSE_PORT'']
      else if agent = ''openclaw'' then [''OPENCLAW_SESSION_ID'', ''OPENCLAW_RUN_ID''] else [])"

definition strict_native_key :: "string \<Rightarrow> string option" where
  "strict_native_key agent =
     (if agent = ''codex'' then Some ''CODEX_THREAD_ID''
      else if agent = ''claude-code'' then Some ''CLAUDE_CODE_SESSION_ID''
      else if agent = ''openclaw'' then Some ''OPENCLAW_SESSION_ID'' else None)"

definition env_strip :: "(string \<Rightarrow> string option) \<Rightarrow> string \<Rightarrow> string" where
  "env_strip env k = py_strip (case env k of None \<Rightarrow> '''' | Some s \<Rightarrow> s)"

definition resolve_session_id :: "(string \<Rightarrow> string option) \<Rightarrow> string \<Rightarrow> string option \<Rightarrow> string option" where
  "resolve_session_id env agent explicit =
     (if given explicit then explicit
      else map_option
        (\<lambda>k. if agent = ''claude-code'' \<and> k = ''CLAUDE_CODE_SSE_PORT'' then ''claude-code:sse:'' @ env_strip env k
             else agent @ '':'' @ env_strip env k)
        (List.find (\<lambda>k. env_strip env k \<noteq> []) (session_env_keys agent)))"

definition validate_native_session_binding ::
  "(string \<Rightarrow> string option) \<Rightarrow> string \<Rightarrow> string option \<Rightarrow> string + unit" where
  "validate_native_session_binding env agent session =
     (case strict_native_key agent of None \<Rightarrow> Inr ()
      | Some k \<Rightarrow>
          (let native = agent @ '':'' @ env_strip env k in
           if \<not> given session \<or> env_strip env k = [] \<or> session = Some native then Inr ()
           else Inl (''Explicit session ID '' @ py_repr_str (the session) @ '' does not match the current '' @ agent @
                  '' runtime '' @ py_repr_str native @ ''. Use the native session identity; '' @
                  ''do not substitute a lane name. Use sanctioned transfer or takeover for ownership changes.'')))"

section \<open>Work units\<close>

text \<open>The refusals of \<open>resolve_canonical_work_unit_binding\<close>, without the texts of their messages.\<close>

datatype binding_error =
    GraphOutsideRepository
  | NoPlanNumber
  | GraphOfAnotherPlan nat
  | NoDefaultBranch
  | GraphUnavailable
  | GraphNotJson
  | NoUnits
  | UnitCount nat
  | NotClaimable
  | BadControlTypes
  | BadReadinessTypes
  | BadApprovals
  | ApprovalCount string nat

definition dict_items :: "py \<Rightarrow> (py \<times> py) list option" where
  "dict_items v = (case v of PDict d \<Rightarrow> Some d | _ \<Rightarrow> None)"

text \<open>\<open>d.get(k, [])\<close> as a list of texts, or as a list.\<close>

definition list_field :: "(py \<times> py) list \<Rightarrow> string \<Rightarrow> py list option" where
  "list_field d k =
     (case dict_get d (PStr k) of None \<Rightarrow> Some [] | Some (PList xs) \<Rightarrow> Some xs | Some _ \<Rightarrow> None)"

definition text_list_field :: "(py \<times> py) list \<Rightarrow> string \<Rightarrow> string list option" where
  "text_list_field d k =
     (case list_field d k of None \<Rightarrow> None
      | Some xs \<Rightarrow> if list_all (\<lambda>x. py_text x \<noteq> None) xs then Some (map (\<lambda>x. the (py_text x)) xs) else None)"

text \<open>An approval counts when it names its role, approver and revision, was given at a time and has not expired.\<close>

definition approval_counts :: "(string \<Rightarrow> rat option) \<Rightarrow> rat \<Rightarrow> string \<Rightarrow> py \<Rightarrow> bool" where
  "approval_counts instant now kind item \<longleftrightarrow>
     dict_items item \<noteq> None \<and> py_get item ''approval_type'' = PStr kind \<and>
     nonblank (py_get item ''role'') \<noteq> None \<and> nonblank (py_get item ''approver_id'') \<noteq> None \<and>
     nonblank (py_get item ''approved_revision'') \<noteq> None \<and>
     (case py_get item ''approved_at'' of PStr s \<Rightarrow> instant s \<noteq> None | _ \<Rightarrow> False) \<and>
     (case py_get item ''expires_at'' of
        PNone \<Rightarrow> True
      | PStr s \<Rightarrow> (case instant s of None \<Rightarrow> False | Some e \<Rightarrow> now < e)
      | _ \<Rightarrow> False)"

fun approval_revisions ::
  "(string \<Rightarrow> rat option) \<Rightarrow> rat \<Rightarrow> py list \<Rightarrow> string list \<Rightarrow> binding_error + string list" where
  "approval_revisions instant now approvals [] = Inr []"
| "approval_revisions instant now approvals (kind # kinds) =
     (case filter (approval_counts instant now kind) approvals of
        [a] \<Rightarrow> and_then (approval_revisions instant now approvals kinds)
                 (\<lambda>rs. Inr ((kind @ ''='' @ py_strip (the (py_text (py_get a ''approved_revision'')))) # rs))
      | others \<Rightarrow> Inl (ApprovalCount kind (length others)))"

definition claimable :: "(py \<times> py) list \<Rightarrow> bool" where
  "claimable d \<longleftrightarrow>
     py_get (PDict d) ''status'' = PStr ''ready'' \<and>
     py_get (py_get (PDict d) ''readiness'') ''status'' = PStr ''ready''"

definition unit_binding ::
  "(string \<Rightarrow> rat option) \<Rightarrow> rat \<Rightarrow> (py \<times> py) list \<Rightarrow> binding_error + string list" where
  "unit_binding instant now d =
     (let ready = (case dict_items (py_get (PDict d) ''readiness'') of None \<Rightarrow> [] | Some r \<Rightarrow> r) in
      if \<not> claimable d then Inl NotClaimable
      else case text_list_field d ''control_approval_types'' of None \<Rightarrow> Inl BadControlTypes
      | Some control \<Rightarrow>
      (case text_list_field ready ''required_approval_types'' of None \<Rightarrow> Inl BadReadinessTypes
      | Some required \<Rightarrow>
      (case list_field ready ''approvals'' of None \<Rightarrow> Inl BadApprovals
      | Some approvals \<Rightarrow>
          and_then (approval_revisions instant now approvals (sort (remdups (control @ required))))
            (\<lambda>rs. Inr (sort rs)))))"

definition graph_units :: "string \<Rightarrow> py \<Rightarrow> binding_error + (py \<times> py) list" where
  "graph_units unit payload =
     (case py_get payload ''units'' of
        PList us \<Rightarrow>
          (case filter (\<lambda>u. py_get u ''id'' = PStr unit) us of
             [PDict d] \<Rightarrow> Inr d
           | others \<Rightarrow> Inl (UnitCount (length others)))
      | _ \<Rightarrow> Inl NoUnits)"

text \<open>
  \<open>json.loads\<close> is \<open>json\<close>, and \<open>sha\<close> the SHA-256 of a text; the repository is at \<open>repo\<close>, resolved.
\<close>

definition resolve_canonical_work_unit_binding ::
  "git_view \<Rightarrow> (string \<Rightarrow> py option) \<Rightarrow> (string \<Rightarrow> string) \<Rightarrow> (string \<Rightarrow> rat option) \<Rightarrow> rat \<Rightarrow>
   string \<Rightarrow> string \<Rightarrow> string \<Rightarrow> string \<Rightarrow> binding_error + string \<times> string list" where
  "resolve_canonical_work_unit_binding g json sha instant now repo plan_ref graph unit =
     (let path = normalize_repo_path graph in
      if prefix ''/'' path \<or> path = ''..'' \<or> prefix ''../'' path then Inl GraphOutsideRepository
      else case plan_number plan_ref of None \<Rightarrow> Inl NoPlanNumber
      | Some n \<Rightarrow>
      if \<not> prefix (py_int_str (int n) @ ''_'') (path_name path) then Inl (GraphOfAnotherPlan n)
      else case resolve_default_branch g repo of None \<Rightarrow> Inl NoDefaultBranch
      | Some branch \<Rightarrow>
      if branch = [] then Inl NoDefaultBranch
      else let shown = gv_run g repo [''show'', default_integration_ref g repo branch @ '':'' @ path] in
      if fst shown \<noteq> 0 then Inl GraphUnavailable
      else case json (snd shown) of None \<Rightarrow> Inl GraphNotJson
      | Some payload \<Rightarrow>
          and_then (graph_units unit payload) (\<lambda>d.
          and_then (unit_binding instant now d) (\<lambda>revisions. Inr (sha (snd shown), revisions))))"

section \<open>Candidates\<close>

record claim_args =
  ca_agent :: string
  ca_project :: string
  ca_scope :: string
  ca_intent :: string
  ca_plan_ref :: "string option"
  ca_type :: "string option"
  ca_write_paths :: "string list"
  ca_read_paths :: "string list"
  ca_worktree_path :: "string option"
  ca_repo_root :: "string option"
  ca_branch :: "string option"
  ca_session_name :: "string option"
  ca_broader_goal :: "string option"
  ca_tracker_path :: "string option"
  ca_session_id :: "string option"
  ca_status :: string
  ca_parent_scope :: "string option"
  ca_notes :: "string option"
  ca_work_graph_path :: "string option"
  ca_work_unit_id :: "string option"
  ca_allow_parallel :: bool

text \<open>What \<open>create_claim\<close> adds to the arguments of the command line.\<close>

record claim_stamp =
  st_heartbeat_at :: "string option"
  st_claimed_at :: "string option"
  st_expires_at :: "string option"
  st_updated_at :: "string option"
  st_work_graph_sha256 :: "string option"
  st_approval_revisions :: "string list"

definition resolved_type :: "string option \<Rightarrow> string list \<Rightarrow> string" where
  "resolved_type t paths = (if given t then the t else if paths \<noteq> [] then ''write'' else ''program'')"

definition build_candidate_claim ::
  "(string \<Rightarrow> string option) \<Rightarrow> claim_args \<Rightarrow> claim_stamp \<Rightarrow> string + claim_record" where
  "build_candidate_claim env a s =
     (let paths = map normalize_repo_path (ca_write_paths a); kind = resolved_type (ca_type a) paths in
      if kind \<notin> set CLAIM_TYPES then Inl (''Unsupported claim type: '' @ kind)
      else if kind = ''write'' \<and> paths = [] then Inl ''Write claims require at least one --write-path.''
      else Inr \<lparr>cl_agent = ca_agent a, cl_claimed_at = st_claimed_at s, cl_expires_at = st_expires_at s,
        cl_projects = [ca_project a], cl_scope = ca_scope a, cl_intent = ca_intent a, cl_type = kind,
        cl_write_paths = paths, cl_read_paths = map normalize_repo_path (ca_read_paths a),
        cl_worktree_path = ca_worktree_path a, cl_repo_root = ca_repo_root a, cl_branch = ca_branch a,
        cl_session_name = ca_session_name a, cl_broader_goal = ca_broader_goal a,
        cl_tracker_path = ca_tracker_path a, cl_session_id = resolve_session_id env (ca_agent a) (ca_session_id a),
        cl_heartbeat_at = st_heartbeat_at s, cl_status = ca_status a, cl_updated_at = st_updated_at s,
        cl_parent_scope = ca_parent_scope a, cl_notes = ca_notes a, cl_plan_ref = ca_plan_ref a,
        cl_source_file = None, cl_schema_version = 3, cl_work_unit_id = ca_work_unit_id a,
        cl_work_graph_path = ca_work_graph_path a, cl_work_graph_sha256 = st_work_graph_sha256 s,
        cl_approval_revisions = st_approval_revisions s, cl_parallel_root_authorized = ca_allow_parallel a\<rparr>)"

section \<open>What is left to do beside a conflict\<close>

record continuation =
  co_state :: string
  co_goal_blocked :: bool
  co_blocked_paths :: "string list"
  co_writable_paths :: "string list"
  co_integration_owners :: "(string \<times> string) list"
  co_next_action :: string

text \<open>\<open>overlap.split(" <-> ", 1)[0]\<close>.\<close>

fun before_arrow :: "string \<Rightarrow> string" where
  "before_arrow [] = []"
| "before_arrow (c # s) = (if prefix '' <-> '' (c # s) then [] else c # before_arrow s)"

definition claim_continuation :: "claim_record \<Rightarrow> interaction list \<Rightarrow> continuation" where
  "claim_continuation c interactions =
     (let conflicts = hard_conflicts interactions;
          blocked = sort (remdups (concat (map (\<lambda>i. map before_arrow (ia_overlaps i)) conflicts)));
          writable = sort (remdups (filter (\<lambda>p. p \<notin> set blocked) (map normalize_repo_path (cl_write_paths c))));
          owners = sort_key fst (sort_key snd (remdups (map (\<lambda>i. (ia_agent i, ia_scope i)) conflicts)))
      in \<lparr>co_state = (if conflicts = [] then ''ready'' else ''integration_wait''), co_goal_blocked = False,
          co_blocked_paths = blocked, co_writable_paths = writable, co_integration_owners = owners,
          co_next_action =
            (if conflicts = [] then ''Proceed with the candidate claim.''
             else if writable \<noteq> [] then
               ''Remove or defer the blocked paths, claim the remaining writable paths, '' @
               ''and continue. Record an authority-reconciliation obligation when the '' @
               ''deferred path indexes or governs the completed artifact.''
             else
               ''This candidate is path-blocked. Checkpoint any completed work and move '' @
               ''to another authorized ready work unit; report the whole goal blocked only '' @
               ''after its complete ready queue has been evaluated.'')\<rparr>)"

end
