(* ===== verification/Prewrite_Gate.thy ===== *)
theory Prewrite_Gate
  imports Claim_Lifecycle
begin

text \<open>
  The gate before a write (enforced_planning/prewrite_claim_projection.py, prewrite_claim_fast.py and
  prewrite_claim_gate.py): the projection of the live claims of the registry, the normalisation of a hook
  payload, and the decision whether a client may write to its target paths.

  A registry is an association list from the names of its YAML files to their bytes, of a type \<open>'f\<close> that
  only the parser, the printer and the hashes look into. The projection file holds a record: its JSON text
  is left out, and a file that does not parse as a projection is the reason why.
\<close>

section \<open>The surroundings\<close>

record 'f claim_world =
  cw_load :: "'f \<Rightarrow> py option"
  cw_dump :: "py \<Rightarrow> 'f"
  cw_stream_digest :: "(string \<times> 'f) list \<Rightarrow> string"
  cw_sha :: "'f \<Rightarrow> string"
  cw_text_sha :: "string \<Rightarrow> string"
  cw_json :: "string \<Rightarrow> py option"
  cw_instant :: "string \<Rightarrow> rat option"
  cw_isoformat :: "rat \<Rightarrow> string"
  cw_env :: "string \<Rightarrow> string option"
  cw_float :: "string \<Rightarrow> rat option"
  cw_git :: git_view
  cw_expand :: "string \<Rightarrow> string"
  cw_resolve :: "string \<Rightarrow> string"
  cw_dir :: string

type_synonym 'f registry = "(string \<times> 'f) list"

definition heartbeat_window :: "'f claim_world \<Rightarrow> rat" where
  "heartbeat_window x = heartbeat_stale_after (cw_float x) (cw_env x)"

text \<open>The files in the order of their names; the digest reads names and bytes.\<close>

definition by_name :: "'f registry \<Rightarrow> 'f registry" where
  "by_name r = sort_key fst r"

definition registry_digest :: "'f claim_world \<Rightarrow> 'f registry \<Rightarrow> string" where
  "registry_digest x r = cw_stream_digest x (by_name r)"

definition file_path :: "'f claim_world \<Rightarrow> string \<Rightarrow> string" where
  "file_path x name = cw_dir x @ ''/'' @ name"

section \<open>The projection\<close>

record auth_claim =
  au_agent :: string
  au_projects :: "string list"
  au_scope :: string
  au_type :: string
  au_session_id :: string
  au_repo_root :: string
  au_worktree_path :: string
  au_branch :: string
  au_write_paths :: "string list"
  au_expires_at :: "string option"
  au_heartbeat_at :: "string option"
  au_status :: string
  au_source_file :: string
  au_source_sha256 :: string
  au_static_issues :: "string list"

record projection =
  pj_claims_dir :: string
  pj_digest :: string
  pj_claims :: "auth_claim list"

text \<open>\<open>s.replace("Z", "+00:00")\<close>, and the instant that the gate reads.\<close>

definition zulu :: "string \<Rightarrow> string" where
  "zulu s = concat (map (\<lambda>c. if c = CHR ''Z'' then ''+00:00'' else [c]) s)"

definition parse_time :: "'f claim_world \<Rightarrow> string option \<Rightarrow> rat option" where
  "parse_time x v = (case v of None \<Rightarrow> None | Some s \<Rightarrow> if s = [] then None else cw_instant x (zulu s))"

definition expired :: "rat option \<Rightarrow> rat \<Rightarrow> bool" where
  "expired e now \<longleftrightarrow> (case e of None \<Rightarrow> False | Some t \<Rightarrow> t < now)"

datatype projection_error = CannotParse string | NotMapping string | CannotNormalize string

text \<open>One file: nothing to project, a claim in force, or an error that stops the projection.\<close>

definition projected_file ::
  "'f claim_world \<Rightarrow> rat \<Rightarrow> string \<times> 'f \<Rightarrow> projection_error + claim_record option" where
  "projected_file x now f =
     (case cw_load x (snd f) of
        None \<Rightarrow> Inl (CannotParse (fst f))
      | Some (PDict d) \<Rightarrow>
          (let status = (case dict_get d (PStr ''status'') of None \<Rightarrow> PStr ''active'' | Some v \<Rightarrow> v) in
           if (case status of PStr s \<Rightarrow> py_lower (py_strip s) \<notin> set LIVE_STATUSES | _ \<Rightarrow> False) then Inr None
           else if expired (parse_time x (py_text (py_get (PDict d) ''expires_at''))) now then Inr None
           else (case normalize_claim d (Some (cw_resolve x (file_path x (fst f)))) of
                   None \<Rightarrow> Inl (CannotNormalize (fst f))
                 | Some c \<Rightarrow> Inr (if is_live c then Some c else None)))
      | Some _ \<Rightarrow> Inl (NotMapping (fst f)))"

fun load_projection_claims ::
  "'f claim_world \<Rightarrow> rat \<Rightarrow> 'f registry \<Rightarrow> projection_error + (claim_record \<times> 'f) list" where
  "load_projection_claims x now [] = Inr []"
| "load_projection_claims x now (f # fs) =
     and_then (projected_file x now f) (\<lambda>c.
     and_then (load_projection_claims x now fs) (\<lambda>cs.
       Inr (case c of None \<Rightarrow> cs | Some c \<Rightarrow> (c, snd f) # cs)))"

definition blank_if_none :: "string option \<Rightarrow> string" where
  "blank_if_none v = (case v of None \<Rightarrow> '''' | Some s \<Rightarrow> s)"

definition project_claim :: "'f claim_world \<Rightarrow> claim_record list \<Rightarrow> claim_record \<times> 'f \<Rightarrow> auth_claim" where
  "project_claim x claims cf =
     (let c = fst cf in
      \<lparr>au_agent = cl_agent c, au_projects = cl_projects c, au_scope = cl_scope c, au_type = cl_type c,
       au_session_id = blank_if_none (cl_session_id c), au_repo_root = blank_if_none (cl_repo_root c),
       au_worktree_path = blank_if_none (cl_worktree_path c), au_branch = blank_if_none (cl_branch c),
       au_write_paths = cl_write_paths c, au_expires_at = cl_expires_at c, au_heartbeat_at = cl_heartbeat_at c,
       au_status = cl_status c, au_source_file = blank_if_none (cl_source_file c), au_source_sha256 = cw_sha x (snd cf),
       au_static_issues = coordination_health_issues c claims\<rparr>)"

definition build_projection :: "'f claim_world \<Rightarrow> rat \<Rightarrow> 'f registry \<Rightarrow> projection_error + projection" where
  "build_projection x now r =
     and_then (load_projection_claims x now (by_name r)) (\<lambda>cfs.
       Inr \<lparr>pj_claims_dir = cw_resolve x (cw_dir x), pj_digest = registry_digest x r,
            pj_claims = map (project_claim x (map fst cfs)) cfs\<rparr>)"

text \<open>The projection file: a projection, or the reason why it cannot be read as one.\<close>

type_synonym projection_file = "string + projection"

definition load_projection :: "'f claim_world \<Rightarrow> 'f registry \<Rightarrow> projection_file \<Rightarrow> string + projection" where
  "load_projection x r p =
     and_then p (\<lambda>p.
       if pj_claims_dir p \<noteq> cw_resolve x (cw_dir x)
       then Inl ''projection claims_dir does not match the requested registry''
       else if pj_digest p \<noteq> registry_digest x r then Inl ''projection registry digest is stale''
       else Inr p)"

definition projection_is_current :: "'f claim_world \<Rightarrow> 'f registry \<Rightarrow> projection_file \<Rightarrow> bool" where
  "projection_is_current x r p \<longleftrightarrow>
     (case p of Inl _ \<Rightarrow> False
      | Inr p \<Rightarrow> pj_claims_dir p = cw_resolve x (cw_dir x) \<and> pj_digest p = registry_digest x r)"

section \<open>The request\<close>

record write_request =
  wr_client :: string
  wr_tool_name :: string
  wr_session_id :: string
  wr_cwd :: string
  wr_target_paths :: "string list"

definition nonempty_field :: "py \<Rightarrow> string \<Rightarrow> string + string" where
  "nonempty_field p k =
     (case nonblank (py_get p k) of None \<Rightarrow> Inl (''PreToolUse payload requires non-empty '' @ py_repr_str k)
      | Some s \<Rightarrow> Inr (py_strip s))"

text \<open>The rest of the line after one of the markers, when it is not empty.\<close>

fun after_marker :: "string list \<Rightarrow> string \<Rightarrow> string option" where
  "after_marker [] line = None"
| "after_marker (m # ms) line =
     (if prefix m line \<and> length m < length line then Some (drop (length m) line) else after_marker ms line)"

definition unified_path :: "string \<Rightarrow> string option" where
  "unified_path s =
     (let p = py_before_first CHR 0x09 (py_strip s)
      in if p = ''/dev/null'' then None
         else Some (if prefix ''a/'' p \<or> prefix ''b/'' p then drop 2 p else p))"

definition patch_line_path :: "string \<Rightarrow> string option" where
  "patch_line_path line =
     (case after_marker [''*** Add File: '', ''*** Update File: '', ''*** Delete File: '', ''*** Move to: ''] line of
        Some s \<Rightarrow> Some (py_strip s)
      | None \<Rightarrow> (case after_marker [''--- '', ''+++ ''] line of None \<Rightarrow> None | Some s \<Rightarrow> unified_path s))"

definition patch_paths :: "string \<Rightarrow> string list" where
  "patch_paths command = unique (filter (\<lambda>p. p \<noteq> []) (List.map_filter patch_line_path (splitlines command)))"

definition codex_targets :: "string \<Rightarrow> py \<Rightarrow> string + string list" where
  "codex_targets tool args =
     (if tool \<noteq> ''apply_patch'' then Inl (''Unsupported Codex pre-write tool: '' @ py_repr_str tool)
      else case py_get args ''command'' of
        PStr s \<Rightarrow>
          (if s = [] then Inl ''Codex apply_patch requires string tool_input.command''
           else if patch_paths s = [] then Inl ''Codex apply_patch payload contains no provable target paths''
           else Inr (patch_paths s))
      | _ \<Rightarrow> Inl ''Codex apply_patch requires string tool_input.command'')"

definition claude_targets :: "string \<Rightarrow> py \<Rightarrow> string + string list" where
  "claude_targets tool args =
     (if tool \<notin> {''Edit'', ''Write''} then Inl (''Unsupported Claude pre-write tool: '' @ py_repr_str tool)
      else case nonblank (py_get args ''file_path'') of
        None \<Rightarrow> Inl (''Claude '' @ tool @ '' requires string tool_input.file_path'')
      | Some s \<Rightarrow> Inr [py_strip s])"

definition adapt_native_payload :: "py \<Rightarrow> string \<Rightarrow> string + write_request" where
  "adapt_native_payload p client =
     (if dict_items p = None then Inl ''PreToolUse payload must be a JSON object''
      else if client \<notin> {''codex'', ''claude-code''} then Inl (''Unsupported pre-write client: '' @ py_repr_str client)
      else and_then (nonempty_field p ''hook_event_name'') (\<lambda>event.
      if event \<noteq> ''PreToolUse'' then Inl (''Unsupported hook event: '' @ py_repr_str event)
      else and_then (nonempty_field p ''tool_name'') (\<lambda>tool.
      if dict_items (py_get p ''tool_input'') = None
      then Inl (''PreToolUse payload requires object field '' @ py_repr_str ''tool_input'')
      else and_then (if client = ''codex'' then codex_targets tool (py_get p ''tool_input'')
                     else claude_targets tool (py_get p ''tool_input'')) (\<lambda>targets.
      and_then (nonempty_field p ''session_id'') (\<lambda>session.
      and_then (nonempty_field p ''cwd'') (\<lambda>cwd.
        Inr \<lparr>wr_client = client, wr_tool_name = tool,
             wr_session_id = (if prefix (client @ '':'') session then session else client @ '':'' @ session),
             wr_cwd = cwd, wr_target_paths = targets\<rparr>))))))"

section \<open>The repository of a request\<close>

record repo_context =
  cx_worktree_path :: string
  cx_repo_root :: string
  cx_branch :: string
  cx_targets :: "string list"

text \<open>\<open>Path.relative_to\<close> for resolved paths.\<close>

definition relative_to :: "string \<Rightarrow> string \<Rightarrow> string option" where
  "relative_to p base =
     (let d = (if base = ''/'' then base else base @ ''/'')
      in if p = base then Some ''.'' else if prefix d p then Some (drop (length d) p) else None)"

fun normalized_targets :: "'f claim_world \<Rightarrow> string \<Rightarrow> string list \<Rightarrow> string + string list" where
  "normalized_targets x worktree [] = Inr []"
| "normalized_targets x worktree (raw # raws) =
     (let p = cw_expand x raw; full = cw_resolve x (if prefix ''/'' p then p else path_join worktree p) in
      case relative_to full worktree of
        None \<Rightarrow> Inl (''target path escapes active worktree: '' @ raw)
      | Some v \<Rightarrow>
          if v = '''' \<or> v = ''.'' then Inl ''target path must identify a file below the worktree root''
          else and_then (normalized_targets x worktree raws) (\<lambda>vs. Inr (v # vs)))"

definition IDENTITY_ARGS :: "string list" where
  "IDENTITY_ARGS =
     [''rev-parse'', ''--show-toplevel'', ''--path-format=absolute'', ''--git-common-dir'', ''--abbrev-ref'', ''HEAD'']"

definition repository_context :: "'f claim_world \<Rightarrow> write_request \<Rightarrow> string + repo_context" where
  "repository_context x q =
     (let cwd = cw_resolve x (cw_expand x (wr_cwd q)) in
      if \<not> git_ok (cw_git x) cwd IDENTITY_ARGS then Inl ''git rev-parse failed''
      else case splitlines (git_out (cw_git x) cwd IDENTITY_ARGS) of
        [top_line, common_line, branch_line] \<Rightarrow>
          (let worktree = cw_resolve x top_line; common = cw_resolve x common_line; branch = py_strip branch_line in
           if path_name common \<noteq> ''.git'' then Inl (''unsupported Git common directory: '' @ common)
           else if branch = [] then Inl ''Pre-write enforcement requires a named Git branch''
           else and_then (normalized_targets x worktree (wr_target_paths q)) (\<lambda>targets.
             Inr \<lparr>cx_worktree_path = worktree, cx_repo_root = path_parent common, cx_branch = branch,
                  cx_targets = unique targets\<rparr>))
      | _ \<Rightarrow> Inl ''Git identity response did not contain worktree, common dir, and branch'')"

section \<open>The health of a claim at the moment of the write\<close>

text \<open>\<open>_default_ref\<close>: the name and the reference of the default branch.\<close>

definition candidate_ref :: "string \<Rightarrow> string" where
  "candidate_ref c = (if prefix ''origin/'' c then ''refs/remotes/'' @ c else ''refs/heads/'' @ c)"

definition default_ref :: "git_view \<Rightarrow> string \<Rightarrow> (string \<times> string) option" where
  "default_ref g repo =
     (let head = [''symbolic-ref'', ''--quiet'', ''--short'', ''refs/remotes/origin/HEAD''];
          remote = (if git_ok g repo head \<and> git_out g repo head \<noteq> [] then [git_out g repo head] else [])
      in map_option (\<lambda>c. (if prefix ''origin/'' c then drop 7 c else c, candidate_ref c))
           (List.find (\<lambda>c. git_ok g repo [''show-ref'', ''--verify'', candidate_ref c]) (remote @ [''main'', ''master''])))"

definition merged_claim :: "git_view \<Rightarrow> string \<Rightarrow> string \<Rightarrow> bool" where
  "merged_claim g repo branch =
     (let ref = ''refs/heads/'' @ branch in
      case default_ref g repo of None \<Rightarrow> False
      | Some (name, dref) \<Rightarrow>
          name \<noteq> branch \<and> git_ok g repo [''rev-parse'', ref, dref] \<and>
          (case splitlines (git_out g repo [''rev-parse'', ref, dref]) of
             [a, b] \<Rightarrow> a \<noteq> b \<and> git_ok g repo [''merge-base'', ''--is-ancestor'', ref, dref]
           | _ \<Rightarrow> False))"

definition dynamic_claim_issues :: "'f claim_world \<Rightarrow> auth_claim \<Rightarrow> rat \<Rightarrow> string list" where
  "dynamic_claim_issues x a now =
     (let g = cw_git x; repo = cw_resolve x (cw_expand x (au_repo_root a));
          stamp = (\<lambda>v. if py_strip (blank_if_none v) = [] then None else parse_time x v) in
      unique
       (opt_issue (expired (stamp (au_expires_at a)) now) ''expired_claim'' @
        (if au_session_id a = [] then []
         else case stamp (au_heartbeat_at a) of
           None \<Rightarrow> [''invalid_or_missing_heartbeat_at'']
         | Some h \<Rightarrow> opt_issue (heartbeat_window x < now - h) ''stale_session_heartbeat'') @
        (if \<not> gv_exists g (cw_expand x (au_worktree_path a)) then [''missing_worktree_on_disk'']
         else if \<not> git_ok g repo [''show-ref'', ''--verify'', ''refs/heads/'' @ au_branch a] then [''missing_branch_ref'']
         else opt_issue (merged_claim g repo (au_branch a)) ''merged_active_claim_requires_disposition'')))"

section \<open>The decision\<close>

text \<open>\<open>s.strip("/")\<close>.\<close>

definition strip_slashes :: "string \<Rightarrow> string" where
  "strip_slashes s = rev (dropWhile (\<lambda>c. c = CHR ''/'') (rev (dropWhile (\<lambda>c. c = CHR ''/'') s)))"

definition gate_path :: "string \<Rightarrow> string" where
  "gate_path p = strip_slashes (forward_slashes (py_strip p))"

definition path_is_claimed :: "string \<Rightarrow> string \<Rightarrow> bool" where
  "path_is_claimed target claimed \<longleftrightarrow>
     (let p = gate_path claimed
      in p = '''' \<or> p = ''.'' \<or> target = p \<or> prefix (p @ ''/'') target)"

record decision =
  de_decision :: string
  de_mode :: string
  de_reason_code :: string
  de_client :: string
  de_session_id :: string
  de_context :: "repo_context option"
  de_claim :: "auth_claim option"
  de_details :: "string list"

definition write_refusal :: "string \<Rightarrow> string" where
  "write_refusal mode = (if mode = ''observe'' then ''observe_violation'' else ''deny'')"

definition exact_claims :: "'f claim_world \<Rightarrow> write_request \<Rightarrow> repo_context \<Rightarrow> auth_claim list \<Rightarrow> auth_claim list" where
  "exact_claims x q cx claims =
     filter (\<lambda>a. au_agent a = wr_client q \<and> au_session_id a = wr_session_id q \<and>
                 cw_resolve x (cw_expand x (au_worktree_path a)) = cx_worktree_path cx \<and>
                 cw_resolve x (cw_expand x (au_repo_root a)) = cx_repo_root cx \<and>
                 au_branch a = cx_branch cx) claims"

text \<open>
  The reason, the claim and the details; the write is authorized when the reason is \<open>exact_live_claim\<close>. The
  label of a claim without projects is an \<open>IndexError\<close>.
\<close>

definition judge_claims ::
  "'f claim_world \<Rightarrow> rat \<Rightarrow> repo_context \<Rightarrow> auth_claim list \<Rightarrow> string + string \<times> auth_claim option \<times> string list" where
  "judge_claims x now cx candidates =
     (case candidates of
        [] \<Rightarrow> Inr (''no_exact_claim'', None, [])
      | [a] \<Rightarrow>
          (let issues = unique (au_static_issues a @ dynamic_claim_issues x a now);
               outside = filter (\<lambda>t. \<not> list_ex (path_is_claimed t) (au_write_paths a)) (cx_targets cx) in
           Inr (if issues \<noteq> [] then (''claim_not_healthy'', Some a, issues)
                else if outside \<noteq> [] then (''path_outside_claim'', Some a, outside)
                else (''exact_live_claim'', Some a, [])))
      | _ \<Rightarrow>
          if list_ex (\<lambda>a. au_projects a = []) candidates then Inl ''list index out of range''
          else Inr (''ambiguous_exact_claim'', None, sort (map (\<lambda>a. hd (au_projects a) @ '':'' @ au_scope a) candidates)))"

definition decision_of ::
  "string \<Rightarrow> write_request \<Rightarrow> string \<Rightarrow> string \<Rightarrow> repo_context option \<Rightarrow> auth_claim option \<Rightarrow> string list \<Rightarrow> decision" where
  "decision_of mode q d reason cx a details =
     \<lparr>de_decision = d, de_mode = mode, de_reason_code = reason, de_client = wr_client q,
      de_session_id = wr_session_id q, de_context = cx, de_claim = a, de_details = details\<rparr>"

definition decide_write ::
  "'f claim_world \<Rightarrow> rat \<Rightarrow> 'f registry \<Rightarrow> projection_file \<Rightarrow> string \<Rightarrow> write_request \<Rightarrow> string + decision" where
  "decide_write x now r p mode q =
     (case repository_context x q of
        Inl e \<Rightarrow>
          Inr (decision_of mode q (if mode = ''off'' then ''allow'' else write_refusal mode)
                 ''repository_identity_unavailable'' None None [e])
      | Inr cx \<Rightarrow>
          if mode = ''off'' then Inr (decision_of mode q ''allow'' ''mode_off'' (Some cx) None [])
          else (case load_projection x r p of
            Inl e \<Rightarrow> Inr (decision_of mode q (write_refusal mode) ''projection_unavailable_or_stale'' (Some cx) None [e])
          | Inr p \<Rightarrow>
              and_then (judge_claims x now cx (exact_claims x q cx (pj_claims p))) (\<lambda>(reason, a, details).
                Inr (decision_of mode q (if reason = ''exact_live_claim'' then ''allow'' else write_refusal mode)
                       reason (Some cx) a details))))"

text \<open>Every decision is appended to the ledger of receipts.\<close>

definition evaluate_request_fast ::
  "'f claim_world \<Rightarrow> rat \<Rightarrow> 'f registry \<Rightarrow> projection_file \<Rightarrow> string \<Rightarrow> write_request \<Rightarrow> decision list \<Rightarrow>
   string + decision \<times> decision list" where
  "evaluate_request_fast x now r p mode q receipts =
     (if mode \<notin> {''off'', ''observe'', ''enforce''} then Inl ''mode must be one of: off, observe, enforce''
      else and_then (decide_write x now r p mode q) (\<lambda>d. Inr (d, receipts @ [d])))"

text \<open>A library caller first rebuilds a projection that is out of date; a failure leaves the old one.\<close>

definition refreshed :: "'f claim_world \<Rightarrow> rat \<Rightarrow> 'f registry \<Rightarrow> projection_file \<Rightarrow> string \<Rightarrow> projection_file" where
  "refreshed x now r p mode =
     (if mode = ''off'' \<or> projection_is_current x r p then p
      else case build_projection x now r of Inr p' \<Rightarrow> Inr p' | Inl _ \<Rightarrow> p)"

definition evaluate_prewrite ::
  "'f claim_world \<Rightarrow> rat \<Rightarrow> 'f registry \<Rightarrow> projection_file \<Rightarrow> string \<Rightarrow> write_request \<Rightarrow> decision list \<Rightarrow>
   (string + decision \<times> decision list) \<times> projection_file" where
  "evaluate_prewrite x now r p mode q receipts =
     (let p' = refreshed x now r p mode in (evaluate_request_fast x now r p' mode q receipts, p'))"

text \<open>The mode of a repository: \<open>config\<close> is what its meta-process.yaml holds, if there is one.\<close>

definition load_prewrite_mode :: "py option \<Rightarrow> string + string" where
  "load_prewrite_mode config =
     (case config of None \<Rightarrow> Inr ''off'' | Some PNone \<Rightarrow> Inr ''off''
      | Some (PDict d) \<Rightarrow>
          (case (case dict_get d (PStr ''meta_process'') of None \<Rightarrow> PDict d | Some m \<Rightarrow> m) of
             PDict m \<Rightarrow>
               (case dict_get m (PStr ''claims'') of
                  None \<Rightarrow> Inr ''off'' | Some PNone \<Rightarrow> Inr ''off''
                | Some (PDict c) \<Rightarrow>
                    (case dict_get c (PStr ''prewrite_mode'') of
                       None \<Rightarrow> Inr ''off''
                     | Some (PStr s) \<Rightarrow>
                         (if s \<in> {''off'', ''observe'', ''enforce''} then Inr s
                          else Inl ''claims.prewrite_mode must be one of: off, observe, enforce'')
                     | Some (PList _) \<Rightarrow> Inl ''unhashable type''
                     | Some (PDict _) \<Rightarrow> Inl ''unhashable type''
                     | Some _ \<Rightarrow> Inl ''claims.prewrite_mode must be one of: off, observe, enforce'')
                | Some _ \<Rightarrow> Inl ''meta-process.yaml claims must be a mapping'')
           | _ \<Rightarrow> Inl ''meta-process.yaml meta_process must be a mapping'')
      | Some _ \<Rightarrow> Inl ''meta-process.yaml must contain a YAML mapping'')"

end
