(* ===== verification/Claim_Registry.thy ===== *)
theory Claim_Registry
  imports Prewrite_Gate
begin

text \<open>
  The registry of coordination claims as a state (enforced_planning/coordination_claims.py and the claim
  mutations of session_lifecycle.py): creation, heartbeats, the ends of sessions and plans, release and pruning,
  each with the refresh of the projection and the receipts it leaves.

  The lock of the registry makes an operation one step. A step that raises after it wrote keeps what it
  wrote: an operation returns the state beside the error or the result. Receipt ids, process ids and the
  identity of the writer are left out, and so is the failure to append a receipt.
\<close>

section \<open>The state\<close>

record mutation_receipt =
  mr_operation :: string
  mr_result :: string
  mr_session_id :: "string option"
  mr_target_project :: "string option"
  mr_target_scope :: "string option"
  mr_target_claim_path :: string
  mr_digest_before :: string
  mr_digest_after :: string
  mr_projection_digest_after :: string
  mr_projection_current_after :: bool

record 'f claims_state =
  cs_files :: "'f registry"
  cs_projection :: projection_file
  cs_receipts :: "mutation_receipt list"

datatype claim_error =
    Value_Error string
  | Binding_Error binding_error
  | Projection_Failed projection_error
  | Yaml_Error string

section \<open>Loading\<close>

definition instant_of :: "'f claim_world \<Rightarrow> py \<Rightarrow> rat option" where
  "instant_of x v = (case py_text v of None \<Rightarrow> None | Some s \<Rightarrow> cw_instant x s)"

definition claim_of :: "'f claim_world \<Rightarrow> string \<times> 'f \<Rightarrow> ((py \<times> py) list \<times> claim_record) option" where
  "claim_of x f =
     (case cw_load x (snd f) of
        Some (PDict d) \<Rightarrow> map_option (Pair d) (normalize_claim d (Some (file_path x (fst f))))
      | _ \<Rightarrow> None)"

definition loaded :: "'f claim_world \<Rightarrow> rat \<Rightarrow> string \<times> 'f \<Rightarrow> claim_record option" where
  "loaded x t f =
     (case claim_of x f of None \<Rightarrow> None
      | Some (d, c) \<Rightarrow> if expired (instant_of x (py_get (PDict d) ''expires_at'')) t then None else Some c)"

definition load_claims :: "'f claim_world \<Rightarrow> rat \<Rightarrow> 'f registry \<Rightarrow> claim_record list" where
  "load_claims x t r = List.map_filter (loaded x t) r"

definition in_project :: "string option \<Rightarrow> claim_record \<Rightarrow> bool" where
  "in_project p c \<longleftrightarrow> \<not> given p \<or> the p \<in> set (cl_projects c)"

definition list_claims :: "'f claim_world \<Rightarrow> rat \<Rightarrow> 'f registry \<Rightarrow> string option \<Rightarrow> bool \<Rightarrow> claim_record list" where
  "list_claims x t r project inactive =
     filter (in_project project) (filter (\<lambda>c. inactive \<or> is_live c) (load_claims x t r))"

definition check_claims :: "'f claim_world \<Rightarrow> rat \<Rightarrow> 'f registry \<Rightarrow> string option \<Rightarrow> claim_record list" where
  "check_claims x t r project = filter (in_project project) (filter is_live (load_claims x t r))"

text \<open>The name of the file of a claim.\<close>

definition safe_name :: "string \<Rightarrow> string" where
  "safe_name s =
     (let under = (\<lambda>c. c = CHR ''_'');
          u = map (\<lambda>c. if c = CHR ''/'' \<or> c = CHR '' '' then CHR ''_'' else c) s
      in rev (dropWhile under (rev (dropWhile under u))))"

definition claim_filename :: "string \<Rightarrow> string \<Rightarrow> string \<Rightarrow> string" where
  "claim_filename agent project scope =
     safe_name agent @ ''_'' @ safe_name project @ ''_'' @ safe_name scope @ ''.yaml''"

section \<open>Writing\<close>

text \<open>The projection is rebuilt from the files; an unreadable file stops it.\<close>

definition refresh_projection :: "'f claim_world \<Rightarrow> rat \<Rightarrow> 'f claims_state \<Rightarrow> (claim_error + string) \<times> 'f claims_state" where
  "refresh_projection x t s =
     (case build_projection x t (cs_files s) of
        Inl e \<Rightarrow> (Inl (Projection_Failed e), s)
      | Inr p \<Rightarrow> (Inr (pj_digest p), s\<lparr>cs_projection := Inr p\<rparr>))"

definition receipt_of ::
  "'f claim_world \<Rightarrow> string \<Rightarrow> string \<Rightarrow> string \<Rightarrow> string option \<Rightarrow> string option \<Rightarrow> string option \<Rightarrow> string \<Rightarrow>
   'f claims_state \<Rightarrow> mutation_receipt" where
  "receipt_of x op previous projected project scope session name s =
     (let current = projection_is_current x (cs_files s) (cs_projection s) in
      \<lparr>mr_operation = op,
       mr_result = (if current then ''applied_projection_current'' else ''applied_projection_stale''),
       mr_session_id = session, mr_target_project = project, mr_target_scope = scope,
       mr_target_claim_path = file_path x name, mr_digest_before = previous,
       mr_digest_after = registry_digest x (cs_files s), mr_projection_digest_after = projected,
       mr_projection_current_after = current\<rparr>)"

type_synonym target = "string \<times> string option \<times> string option \<times> string option"

text \<open>After a write: the projection, then one receipt for each target (file, project, scope, session).\<close>

definition finish_mutation ::
  "'f claim_world \<Rightarrow> rat \<Rightarrow> string \<Rightarrow> string \<Rightarrow> target list \<Rightarrow> 'f claims_state \<Rightarrow> (claim_error + unit) \<times> 'f claims_state" where
  "finish_mutation x t op previous targets s =
     (if targets = [] then (Inr (), s)
      else case refresh_projection x t s of
        (Inl e, s1) \<Rightarrow> (Inl e, s1)
      | (Inr projected, s1) \<Rightarrow>
          (Inr (), s1\<lparr>cs_receipts := cs_receipts s1 @
             map (\<lambda>(name, project, scope, session). receipt_of x op previous projected project scope session name s1) targets\<rparr>))"

section \<open>Creation\<close>

definition py_opt :: "string option \<Rightarrow> py" where
  "py_opt v = (case v of None \<Rightarrow> PNone | Some s \<Rightarrow> PStr s)"

definition py_texts :: "string list \<Rightarrow> py" where
  "py_texts xs = PList (map PStr xs)"

text \<open>\<open>to_dict\<close> without \<open>source_file\<close> and \<open>project\<close>.\<close>

definition claim_payload :: "claim_record \<Rightarrow> (py \<times> py) list" where
  "claim_payload c = map (\<lambda>(k, v). (PStr k, v))
     [(''agent'', PStr (cl_agent c)), (''claimed_at'', py_opt (cl_claimed_at c)),
      (''expires_at'', py_opt (cl_expires_at c)), (''projects'', py_texts (cl_projects c)),
      (''scope'', PStr (cl_scope c)), (''intent'', PStr (cl_intent c)), (''claim_type'', PStr (cl_type c)),
      (''write_paths'', py_texts (cl_write_paths c)), (''read_paths'', py_texts (cl_read_paths c)),
      (''worktree_path'', py_opt (cl_worktree_path c)), (''repo_root'', py_opt (cl_repo_root c)),
      (''branch'', py_opt (cl_branch c)), (''session_name'', py_opt (cl_session_name c)),
      (''broader_goal'', py_opt (cl_broader_goal c)), (''tracker_path'', py_opt (cl_tracker_path c)),
      (''session_id'', py_opt (cl_session_id c)), (''heartbeat_at'', py_opt (cl_heartbeat_at c)),
      (''status'', PStr (cl_status c)), (''updated_at'', py_opt (cl_updated_at c)),
      (''parent_scope'', py_opt (cl_parent_scope c)), (''notes'', py_opt (cl_notes c)),
      (''plan_ref'', py_opt (cl_plan_ref c)), (''schema_version'', PInt (cl_schema_version c)),
      (''work_unit_id'', py_opt (cl_work_unit_id c)), (''work_graph_path'', py_opt (cl_work_graph_path c)),
      (''work_graph_sha256'', py_opt (cl_work_graph_sha256 c)),
      (''approval_revisions'', PTuple (map PStr (cl_approval_revisions c))),
      (''parallel_root_authorized'', PBool (cl_parallel_root_authorized c))]"

text \<open>Plan-bound write ownership needs the work unit; other claims have no binding.\<close>

definition work_unit_of ::
  "'f claim_world \<Rightarrow> rat \<Rightarrow> claim_args \<Rightarrow> claim_error + string option \<times> string list" where
  "work_unit_of x now a =
     (if ca_write_paths a = [] \<or> \<not> given (ca_plan_ref a) then Inr (None, [])
      else if \<not> given (ca_repo_root a)
      then Inl (Value_Error ''Plan-bound write ownership requires --repo-root for canonical work-unit validation'')
      else if \<not> given (ca_work_graph_path a) \<or> \<not> given (ca_work_unit_id a)
      then Inl (Value_Error ''Plan-bound write ownership requires --work-graph and --work-unit-id'')
      else case resolve_canonical_work_unit_binding (cw_git x) (cw_json x) (cw_text_sha x) (cw_instant x) now
             (cw_resolve x (cw_expand x (the (ca_repo_root a)))) (the (ca_plan_ref a))
             (the (ca_work_graph_path a)) (the (ca_work_unit_id a)) of
        Inl e \<Rightarrow> Inl (Binding_Error e)
      | Inr (sha, revisions) \<Rightarrow> Inr (Some sha, revisions))"

definition value_error :: "string + 'a \<Rightarrow> claim_error + 'a" where
  "value_error m = (case m of Inl e \<Rightarrow> Inl (Value_Error e) | Inr v \<Rightarrow> Inr v)"

text \<open>The candidate that \<open>create_claim\<close> offers, with the stamps of the moment \<open>now\<close> and a life of \<open>ttl\<close> hours.\<close>

definition creation_candidate ::
  "'f claim_world \<Rightarrow> rat \<Rightarrow> rat \<Rightarrow> bool \<Rightarrow> claim_args \<Rightarrow> claim_error + claim_record" where
  "creation_candidate x now ttl native a =
     and_then (if native then value_error (validate_native_session_binding (cw_env x) (ca_agent a) (ca_session_id a))
               else Inr ()) (\<lambda>_.
     and_then (work_unit_of x now a) (\<lambda>(sha, revisions).
     and_then (value_error (build_candidate_claim (cw_env x)
         (a\<lparr>ca_type := Some (resolved_type (ca_type a) (ca_write_paths a)),
            ca_work_graph_path := (if given (ca_work_graph_path a)
                                   then Some (normalize_repo_path (the (ca_work_graph_path a))) else None)\<rparr>)
         \<lparr>st_heartbeat_at = Some (cw_isoformat x now), st_claimed_at = Some (cw_isoformat x now),
          st_expires_at = Some (cw_isoformat x (now + 3600 * ttl)), st_updated_at = Some (cw_isoformat x now),
          st_work_graph_sha256 = sha, st_approval_revisions = revisions\<rparr>)) (\<lambda>c.
     and_then (value_error (validate_claim_for_creation c)) (\<lambda>_. Inr c))))"

text \<open>What is at the path of the claim: it must be readable and not a preserved lane.\<close>

definition check_existing :: "'f claim_world \<Rightarrow> string \<Rightarrow> 'f registry \<Rightarrow> claim_error + unit" where
  "check_existing x name r =
     (case map_of r name of None \<Rightarrow> Inr ()
      | Some f \<Rightarrow>
          (case cw_load x f of None \<Rightarrow> Inl (Yaml_Error name)
           | Some _ \<Rightarrow>
               (case claim_of x (name, f) of
                  Some (d, c) \<Rightarrow>
                    if cl_status c = SESSION_ENDED_STATUS
                    then Inl (Value_Error (''Existing claim is session_ended; use session-resume/takeover '' @
                           ''or sanctioned closeout instead of overwriting it.''))
                    else Inr ()
                | None \<Rightarrow> Inr ())))"

definition admissible :: "'f claim_world \<Rightarrow> rat \<Rightarrow> string \<Rightarrow> claim_record \<Rightarrow> 'f registry \<Rightarrow> claim_error + unit" where
  "admissible x t project c r =
     (let active = check_claims x t r (Some project) in
      and_then (value_error (validate_no_preserved_lane_conflict c (list_claims x t r None True))) (\<lambda>_.
      and_then (value_error (validate_claim_hierarchy_for_creation c active)) (\<lambda>_.
        value_error (validate_session_root_for_creation c (check_claims x t r None)))))"

datatype creation = Claimed | Conflict "interaction list"

definition create_claim ::
  "'f claim_world \<Rightarrow> rat \<Rightarrow> rat \<Rightarrow> rat \<Rightarrow> bool \<Rightarrow> claim_args \<Rightarrow> 'f claims_state \<Rightarrow>
   (claim_error + creation) \<times> 'f claims_state" where
  "create_claim x now t ttl native a s =
     (let name = claim_filename (ca_agent a) (ca_project a) (ca_scope a); r = cs_files s in
      case and_then (creation_candidate x now ttl native a) (\<lambda>c.
           and_then (check_existing x name r) (\<lambda>_.
           and_then (admissible x t (ca_project a) c r) (\<lambda>_. Inr c))) of
        Inl e \<Rightarrow> (Inl e, s)
      | Inr c \<Rightarrow>
          (let conflicts = hard_conflicts (evaluate_claim c (check_claims x t r (Some (ca_project a)))) in
           if conflicts \<noteq> [] then (Inr (Conflict conflicts), s)
           else case finish_mutation x t ''create'' (registry_digest x r)
                       [(name, Some (ca_project a), Some (ca_scope a), cl_session_id c)]
                       (s\<lparr>cs_files := AList.update name (cw_dump x (PDict (claim_payload c))) r\<rparr>) of
             (Inl e, s1) \<Rightarrow> (Inl e, s1)
           | (Inr _, s1) \<Rightarrow> (Inr Claimed, s1)))"

section \<open>Updates of the matching claims\<close>

text \<open>
  The loop over the files: a file whose claim matches is rewritten with new values of some keys, the others are
  left alone. \<open>upd\<close> gives the values for the mapping and the claim of a file, or \<open>None\<close>.
\<close>

type_synonym claim_update = "(py \<times> py) list \<Rightarrow> claim_record \<Rightarrow> (string \<times> py) list option"

definition set_keys :: "(string \<times> py) list \<Rightarrow> (py \<times> py) list \<Rightarrow> (py \<times> py) list" where
  "set_keys kvs d = foldl (\<lambda>d (k, v). dict_set (PStr k) v d) d kvs"

definition update_of :: "'f claim_world \<Rightarrow> claim_update \<Rightarrow> string \<times> 'f \<Rightarrow> (py \<times> py) list option" where
  "update_of x upd f =
     (case claim_of x f of None \<Rightarrow> None
      | Some (d, c) \<Rightarrow> map_option (\<lambda>kvs. set_keys kvs d) (upd d c))"

definition update_file :: "'f claim_world \<Rightarrow> claim_update \<Rightarrow> string \<times> 'f \<Rightarrow> string \<times> 'f" where
  "update_file x upd f = (case update_of x upd f of None \<Rightarrow> f | Some d \<Rightarrow> (fst f, cw_dump x (PDict d)))"

definition touched :: "'f claim_world \<Rightarrow> claim_update \<Rightarrow> 'f registry \<Rightarrow> (string \<times> claim_record) list" where
  "touched x upd r =
     List.map_filter (\<lambda>f. if update_of x upd f = None then None
                          else map_option (\<lambda>(d, c). (fst f, c)) (claim_of x f)) r"

definition claim_target :: "string option \<Rightarrow> string \<times> claim_record \<Rightarrow> target" where
  "claim_target session nc = (fst nc, primary_project (snd nc), Some (cl_scope (snd nc)), session)"

definition update_claims ::
  "'f claim_world \<Rightarrow> rat \<Rightarrow> string \<Rightarrow> claim_update \<Rightarrow> (claim_record \<Rightarrow> string option) \<Rightarrow> 'f claims_state \<Rightarrow>
   (claim_error + claim_record list) \<times> 'f claims_state" where
  "update_claims x t op upd session s =
     (let hits = touched x upd (cs_files s) in
      case finish_mutation x t op (registry_digest x (cs_files s))
             (map (\<lambda>nc. claim_target (session (snd nc)) nc) hits)
             (s\<lparr>cs_files := map (update_file x upd) (cs_files s)\<rparr>) of
        (Inl e, s1) \<Rightarrow> (Inl e, s1)
      | (Inr _, s1) \<Rightarrow> (Inr (map snd hits), s1))"

text \<open>The claims of an agent in a project, narrowed by a scope and a branch.\<close>

definition selected :: "string \<Rightarrow> string \<Rightarrow> string option \<Rightarrow> string option \<Rightarrow> claim_record \<Rightarrow> bool" where
  "selected agent project scope branch c \<longleftrightarrow>
     is_live c \<and> cl_agent c = agent \<and> project \<in> set (cl_projects c) \<and>
     (given scope \<longrightarrow> scope = Some (cl_scope c)) \<and> (given branch \<longrightarrow> cl_branch c = branch)"

definition session_stamp :: "string \<Rightarrow> string \<Rightarrow> (string \<times> py) list" where
  "session_stamp session at_text =
     [(''session_id'', PStr session), (''heartbeat_at'', PStr at_text), (''updated_at'', PStr at_text)]"

definition NO_SESSION :: string where
  "NO_SESSION =
     ''Unable to resolve a session ID. Pass --session-id explicitly or run from a supported tool runtime.''"

definition hydrate_update :: "string \<Rightarrow> string \<Rightarrow> string option \<Rightarrow> string option \<Rightarrow> string \<Rightarrow> string \<Rightarrow> claim_update" where
  "hydrate_update agent project scope branch session now_text d c =
     (if selected agent project scope branch c \<and> \<not> given (cl_session_id c)
      then Some (session_stamp session now_text) else None)"

text \<open>Hydration refreshes the projection but leaves no receipt.\<close>

definition hydrate_missing_session_ids ::
  "'f claim_world \<Rightarrow> rat \<Rightarrow> string \<Rightarrow> string \<Rightarrow> string option \<Rightarrow> string option \<Rightarrow> string option \<Rightarrow> 'f claims_state \<Rightarrow>
   (claim_error + string list \<times> string) \<times> 'f claims_state" where
  "hydrate_missing_session_ids x t agent project session scope branch s =
     (case resolve_session_id (cw_env x) agent session of
        None \<Rightarrow> (Inl (Value_Error NO_SESSION), s)
      | Some sid \<Rightarrow>
          (let upd = hydrate_update agent project scope branch sid (cw_isoformat x t);
               hits = touched x upd (cs_files s);
               s1 = s\<lparr>cs_files := map (update_file x upd) (cs_files s)\<rparr>;
               result = (sort (map (\<lambda>nc. cl_scope (snd nc)) hits), sid)
           in if hits = [] then (Inr result, s1)
              else case refresh_projection x t s1 of (Inl e, s2) \<Rightarrow> (Inl e, s2) | (Inr _, s2) \<Rightarrow> (Inr result, s2)))"

text \<open>A heartbeat may adopt a claim without a session unless the exact session is required.\<close>

definition heartbeat_update ::
  "string \<Rightarrow> string \<Rightarrow> string option \<Rightarrow> string option \<Rightarrow> bool \<Rightarrow> string \<Rightarrow> string \<Rightarrow> claim_update" where
  "heartbeat_update agent project scope branch exact session now_text d c =
     (if selected agent project scope branch c \<and>
         (if exact then cl_session_id c = Some session
          else given (cl_session_id c) \<longrightarrow> cl_session_id c = Some session)
      then Some (session_stamp session now_text) else None)"

definition heartbeat_claims ::
  "'f claim_world \<Rightarrow> rat \<Rightarrow> string \<Rightarrow> string \<Rightarrow> string option \<Rightarrow> string option \<Rightarrow> string option \<Rightarrow> bool \<Rightarrow>
   'f claims_state \<Rightarrow> (claim_error + string list \<times> string) \<times> 'f claims_state" where
  "heartbeat_claims x t agent project session scope branch exact s =
     (case resolve_session_id (cw_env x) agent session of
        None \<Rightarrow> (Inl (Value_Error NO_SESSION), s)
      | Some sid \<Rightarrow>
          (case update_claims x t ''heartbeat''
                  (heartbeat_update agent project scope branch exact sid (cw_isoformat x t)) (\<lambda>_. Some sid) s of
             (Inl e, s1) \<Rightarrow> (Inl e, s1)
           | (Inr cs, s1) \<Rightarrow> (Inr (sort (map cl_scope cs), sid), s1)))"

definition end_reason :: "string \<Rightarrow> string" where
  "end_reason reason = (if py_strip reason = [] then ''session ended'' else py_strip reason)"

definition end_update :: "string \<Rightarrow> string \<Rightarrow> string \<Rightarrow> string \<Rightarrow> claim_update" where
  "end_update agent session reason now_text d c =
     (if is_live c \<and> cl_agent c = agent \<and> cl_session_id c = Some session
      then Some [(''previous_status'', PStr (cl_status c)), (''status'', PStr SESSION_ENDED_STATUS),
                 (''session_end_reason'', PStr (end_reason reason)), (''session_ended_at'', PStr now_text),
                 (''updated_at'', PStr now_text)]
      else None)"

definition end_session_claims ::
  "'f claim_world \<Rightarrow> rat \<Rightarrow> string \<Rightarrow> string option \<Rightarrow> string \<Rightarrow> 'f claims_state \<Rightarrow>
   (claim_error + string list \<times> string) \<times> 'f claims_state" where
  "end_session_claims x t agent session reason s =
     (case resolve_session_id (cw_env x) agent session of
        None \<Rightarrow> (Inl (Value_Error NO_SESSION), s)
      | Some sid \<Rightarrow>
          (case update_claims x t ''session_end'' (end_update agent sid reason (cw_isoformat x t)) (\<lambda>_. Some sid) s of
             (Inl e, s1) \<Rightarrow> (Inl e, s1)
           | (Inr cs, s1) \<Rightarrow> (Inr (sort (map project_scope cs), sid), s1)))"

text \<open>The note of a closeout is added once to the notes that are there.\<close>

definition closing_notes :: "(py \<times> py) list \<Rightarrow> string option \<Rightarrow> (string \<times> py) list" where
  "closing_notes d note =
     (if \<not> given note then []
      else case nonblank (py_get (PDict d) ''notes'') of
        None \<Rightarrow> [(''notes'', PStr (the note))]
      | Some old \<Rightarrow>
          if py_contains (the note) old then []
          else [(''notes'', PStr (rev (dropWhile py_isspace (rev old)) @ '' | '' @ the note))])"

definition complete_update :: "string \<Rightarrow> string \<Rightarrow> string option \<Rightarrow> string \<Rightarrow> claim_update" where
  "complete_update project plan_ref note now_text d c =
     (if is_live c \<and> project \<in> set (cl_projects c) \<and> cl_plan_ref c = Some plan_ref
      then Some ([(''status'', PStr ''completed''), (''updated_at'', PStr now_text)] @ closing_notes d note)
      else None)"

definition complete_claims_for_plan ::
  "'f claim_world \<Rightarrow> rat \<Rightarrow> string \<Rightarrow> string \<Rightarrow> string option \<Rightarrow> 'f claims_state \<Rightarrow>
   (claim_error + string list) \<times> 'f claims_state" where
  "complete_claims_for_plan x t project plan_ref note s =
     (case update_claims x t ''closeout'' (complete_update project plan_ref note (cw_isoformat x t)) cl_session_id s of
        (Inl e, s1) \<Rightarrow> (Inl e, s1)
      | (Inr cs, s1) \<Rightarrow> (Inr (sort (map cl_scope cs)), s1))"

section \<open>Removals\<close>

definition release_claim ::
  "'f claim_world \<Rightarrow> rat \<Rightarrow> string \<Rightarrow> string \<Rightarrow> string \<Rightarrow> 'f claims_state \<Rightarrow> (claim_error + bool) \<times> 'f claims_state" where
  "release_claim x t agent project scope s =
     (let name = claim_filename agent project scope; r = cs_files s in
      case map_of r name of
        None \<Rightarrow> (Inr False, s)
      | Some f \<Rightarrow>
          if cw_load x f = None then (Inl (Yaml_Error name), s)
          else (case finish_mutation x t ''release'' (registry_digest x r)
                  [(name, Some project, Some scope,
                    (case claim_of x (name, f) of None \<Rightarrow> None | Some (d, c) \<Rightarrow> cl_session_id c))]
                  (s\<lparr>cs_files := AList.delete name r\<rparr>) of
             (Inl e, s1) \<Rightarrow> (Inl e, s1)
           | (Inr _, s1) \<Rightarrow> (Inr True, s1)))"

definition prune_claims ::
  "'f claim_world \<Rightarrow> rat \<Rightarrow> (string \<times> 'f \<Rightarrow> bool) \<Rightarrow> 'f claims_state \<Rightarrow>
   (claim_error + (string \<times> 'f) list) \<times> 'f claims_state" where
  "prune_claims x t doomed s =
     (let gone = filter doomed (cs_files s);
          target_of = (\<lambda>f. case claim_of x f of
             None \<Rightarrow> (fst f, None, None, None)
           | Some (d, c) \<Rightarrow> (fst f, primary_project c, Some (cl_scope c), cl_session_id c))
      in case finish_mutation x t ''prune'' (registry_digest x (cs_files s)) (map target_of gone)
               (s\<lparr>cs_files := filter (\<lambda>f. \<not> doomed f) (cs_files s)\<rparr>) of
           (Inl e, s1) \<Rightarrow> (Inl e, s1)
         | (Inr _, s1) \<Rightarrow> (Inr gone, s1))"

definition expired_file :: "'f claim_world \<Rightarrow> rat \<Rightarrow> string \<times> 'f \<Rightarrow> bool" where
  "expired_file x t f \<longleftrightarrow>
     (case cw_load x (snd f) of
        Some (PDict d) \<Rightarrow> expired (instant_of x (py_get (PDict d) ''expires_at'')) t
      | _ \<Rightarrow> False)"

definition prune_expired :: "'f claim_world \<Rightarrow> rat \<Rightarrow> 'f claims_state \<Rightarrow> (claim_error + nat) \<times> 'f claims_state" where
  "prune_expired x t s =
     (case prune_claims x t (expired_file x t) s of
        (Inl e, s1) \<Rightarrow> (Inl e, s1) | (Inr gone, s1) \<Rightarrow> (Inr (length gone), s1))"

definition stale_file :: "'f claim_world \<Rightarrow> rat \<Rightarrow> string \<times> 'f \<Rightarrow> bool" where
  "stale_file x t f \<longleftrightarrow>
     (case claim_of x f of None \<Rightarrow> False
      | Some (d, c) \<Rightarrow> is_live c \<and>
          (claim_lifecycle_issues (cw_git x) (cw_expand x) c \<noteq> [] \<or>
           stale_liveness (claim_liveness_issues (cw_instant x) (heartbeat_window x) c t)))"

definition prune_stale :: "'f claim_world \<Rightarrow> rat \<Rightarrow> 'f claims_state \<Rightarrow> (claim_error + string list) \<times> 'f claims_state" where
  "prune_stale x t s =
     (case prune_claims x t (stale_file x t) s of
        (Inl e, s1) \<Rightarrow> (Inl e, s1)
      | (Inr gone, s1) \<Rightarrow>
          (Inr (sort (List.map_filter (\<lambda>f. map_option (\<lambda>(d, c). project_scope c) (claim_of x f)) gone)), s1))"

end
