(* ===== verification/Claim_Sessions.thy ===== *)
theory Claim_Sessions
  imports Claim_Registry
begin

text \<open>
  The claim mutations of enforced_planning/session_lifecycle.py: a session takes up a lane, resumes, hands
  over or abandons it. The tracker files and the mailbox of a session are left out.
\<close>

section \<open>Payloads of one lane\<close>

definition load_claim_payload :: "'f claim_world \<Rightarrow> string \<Rightarrow> 'f registry \<Rightarrow> claim_error + (py \<times> py) list option" where
  "load_claim_payload x name r =
     (case map_of r name of None \<Rightarrow> Inr None
      | Some f \<Rightarrow>
          (case cw_load x f of None \<Rightarrow> Inl (Yaml_Error name)
           | Some (PDict d) \<Rightarrow> Inr (Some d)
           | Some _ \<Rightarrow> Inl (Value_Error (''Claim file at '' @ file_path x name @ '' must be a YAML mapping''))))"

definition lane :: "string \<Rightarrow> string \<Rightarrow> string \<Rightarrow> string" where
  "lane agent project scope = agent @ '' -> '' @ project @ '':'' @ scope"

definition claim_record_any_status ::
  "'f claim_world \<Rightarrow> string \<Rightarrow> string \<Rightarrow> string \<Rightarrow> 'f registry \<Rightarrow> claim_error + claim_record \<times> (py \<times> py) list" where
  "claim_record_any_status x agent project scope r =
     (let name = claim_filename agent project scope in
      and_then (load_claim_payload x name r) (\<lambda>p.
        case p of None \<Rightarrow> Inl (Value_Error (''Claim file missing for '' @ lane agent project scope))
        | Some d \<Rightarrow>
            (case normalize_claim d (Some (file_path x name)) of
               None \<Rightarrow> Inl (Value_Error (''Claim file invalid for '' @ lane agent project scope))
             | Some c \<Rightarrow> Inr (c, d))))"

text \<open>One lifecycle mutation under the lock: the keys of the mapping that is there now are overwritten.\<close>

definition apply_claim_payload_updates ::
  "'f claim_world \<Rightarrow> rat \<Rightarrow> string \<Rightarrow> claim_record \<Rightarrow> string \<Rightarrow> (string \<times> py) list \<Rightarrow> 'f claims_state \<Rightarrow>
   (claim_error + (py \<times> py) list) \<times> 'f claims_state" where
  "apply_claim_payload_updates x t op c name kvs s =
     (case load_claim_payload x name (cs_files s) of
        Inl e \<Rightarrow> (Inl e, s)
      | Inr None \<Rightarrow> (Inl (Yaml_Error name), s)
      | Inr (Some d) \<Rightarrow>
          (let d' = set_keys kvs d in
           case finish_mutation x t op (registry_digest x (cs_files s))
                  [(name, primary_project c, Some (cl_scope c), py_text (py_get (PDict d') ''session_id''))]
                  (s\<lparr>cs_files := AList.update name (cw_dump x (PDict d')) (cs_files s)\<rparr>) of
             (Inl e, s1) \<Rightarrow> (Inl e, s1)
           | (Inr _, s1) \<Rightarrow> (Inr d', s1)))"

definition iter_matching_live_claims ::
  "'f claim_world \<Rightarrow> rat \<Rightarrow> 'f registry \<Rightarrow> string option \<Rightarrow> string option \<Rightarrow> string option \<Rightarrow> string option \<Rightarrow>
   claim_record list" where
  "iter_matching_live_claims x t r agent project scope branch =
     filter (\<lambda>c. (given agent \<longrightarrow> agent = Some (cl_agent c)) \<and> (given project \<longrightarrow> the project \<in> set (cl_projects c)) \<and>
                 (given scope \<longrightarrow> scope = Some (cl_scope c)) \<and> (given branch \<longrightarrow> branch = cl_branch c))
       (check_claims x t r project)"

definition single_matching_live_claim ::
  "'f claim_world \<Rightarrow> rat \<Rightarrow> 'f registry \<Rightarrow> string \<Rightarrow> string \<Rightarrow> string \<Rightarrow> claim_error + claim_record" where
  "single_matching_live_claim x t r agent project scope =
     (case iter_matching_live_claims x t r (Some agent) (Some project) (Some scope) None of
        [] \<Rightarrow> Inl (Value_Error (''No live claim found for '' @ lane agent project scope))
      | [c] \<Rightarrow> Inr c
      | _ \<Rightarrow> Inl (Value_Error (''Multiple live claims found for '' @ lane agent project scope)))"

section \<open>Resuming, handing over, abandoning\<close>

definition CLOSEABLE_STATUSES :: "string list" where
  "CLOSEABLE_STATUSES = LIVE_STATUSES @ [SESSION_ENDED_STATUS]"

definition resume_check :: "claim_record \<Rightarrow> string \<Rightarrow> string \<Rightarrow> string option \<Rightarrow> string + string" where
  "resume_check c worktree branch session =
     (if cl_status c \<notin> set CLOSEABLE_STATUSES
      then Inl (''Cannot resume lane from lifecycle status '' @ py_repr_str (cl_status c))
      else if \<not> given (cl_plan_ref c) then Inl ''Cannot resume a lane with no plan_ref''
      else if given (cl_branch c) \<and> cl_branch c \<noteq> Some branch
      then Inl (''Claim branch is '' @ the (cl_branch c) @ '', not '' @ branch)
      else if given (cl_worktree_path c) \<and> cl_worktree_path c \<noteq> Some worktree
      then Inl (''Claim worktree is '' @ the (cl_worktree_path c) @ '', not '' @ worktree)
      else case session of None \<Rightarrow> Inl ''Unable to resolve a session ID for session-resume.'' | Some sid \<Rightarrow> Inr sid)"

definition resume_updates :: "string \<Rightarrow> string \<Rightarrow> string option \<Rightarrow> (string \<times> py) list" where
  "resume_updates sid now_text note =
     [(''status'', PStr ''active''), (''session_id'', PStr sid), (''heartbeat_at'', PStr now_text),
      (''updated_at'', PStr now_text),
      (''notes'', PStr (if given note then the note else ''session resumed with a fresh runtime attachment''))]"

text \<open>
  The code reads and checks the lane before it takes the lock; here nothing happens in between.
\<close>

definition resume_session ::
  "'f claim_world \<Rightarrow> rat \<Rightarrow> string \<Rightarrow> string \<Rightarrow> string \<Rightarrow> string \<Rightarrow> string \<Rightarrow> string option \<Rightarrow> string option \<Rightarrow>
   'f claims_state \<Rightarrow> (claim_error + (py \<times> py) list) \<times> 'f claims_state" where
  "resume_session x t agent project scope worktree branch session note s =
     (case and_then (claim_record_any_status x agent project scope (cs_files s)) (\<lambda>(c, d).
           and_then (value_error (resume_check c worktree branch (resolve_session_id (cw_env x) agent session)))
             (\<lambda>sid. Inr (c, sid))) of
        Inl e \<Rightarrow> (Inl e, s)
      | Inr (c, sid) \<Rightarrow>
          apply_claim_payload_updates x t ''session_upsert'' c (claim_filename agent project scope)
            (resume_updates sid (cw_isoformat x t) note) s)"

text \<open>\<open>handoff_session\<close> and \<open>abandon_session\<close>: a live lane gets another status.\<close>

definition close_lane ::
  "string \<Rightarrow> 'f claim_world \<Rightarrow> rat \<Rightarrow> string \<Rightarrow> string \<Rightarrow> string \<Rightarrow> string \<Rightarrow>
   'f claims_state \<Rightarrow> (claim_error + (py \<times> py) list) \<times> 'f claims_state" where
  "close_lane status x t agent project scope note s =
     (case and_then (single_matching_live_claim x t (cs_files s) agent project scope) (\<lambda>c.
           and_then (load_claim_payload x (claim_filename agent project scope) (cs_files s)) (\<lambda>p.
             case p of None \<Rightarrow> Inl (Value_Error (''Claim file missing for '' @ lane agent project scope))
             | Some _ \<Rightarrow> Inr c)) of
        Inl e \<Rightarrow> (Inl e, s)
      | Inr c \<Rightarrow>
          apply_claim_payload_updates x t ''session_upsert'' c (claim_filename agent project scope)
            [(''status'', PStr status), (''updated_at'', PStr (cw_isoformat x t)), (''notes'', PStr (py_strip note))] s)"

definition handoff_session ::
  "'f claim_world \<Rightarrow> rat \<Rightarrow> string \<Rightarrow> string \<Rightarrow> string \<Rightarrow> string \<Rightarrow>
   'f claims_state \<Rightarrow> (claim_error + (py \<times> py) list) \<times> 'f claims_state" where
  "handoff_session = close_lane ''handoff''"

definition abandon_session ::
  "'f claim_world \<Rightarrow> rat \<Rightarrow> string \<Rightarrow> string \<Rightarrow> string \<Rightarrow> string \<Rightarrow>
   'f claims_state \<Rightarrow> (claim_error + (py \<times> py) list) \<times> 'f claims_state" where
  "abandon_session = close_lane ''abandoned''"

section \<open>Taking up a lane\<close>

text \<open>The arguments of \<open>session-start\<close>: those of a claim, where a list that is missing keeps the old one.\<close>

record session_args =
  sa_claim :: claim_args
  sa_write_paths :: "string list option"
  sa_read_paths :: "string list option"
  sa_ttl_hours :: rat

definition with_default :: "'a option \<Rightarrow> 'a \<Rightarrow> 'a" where
  "with_default v d = (case v of None \<Rightarrow> d | Some v \<Rightarrow> v)"

definition or_else :: "'a option \<Rightarrow> 'a option \<Rightarrow> 'a option" where
  "or_else v d = (case v of None \<Rightarrow> d | Some v \<Rightarrow> Some v)"

text \<open>The existing claim of the lane, which has to belong to the agent and the session.\<close>

definition own_claim :: "'f claim_world \<Rightarrow> string \<Rightarrow> claim_args \<Rightarrow> (py \<times> py) list \<Rightarrow> claim_error + claim_record" where
  "own_claim x name a d =
     (case normalize_claim d (Some (file_path x name)) of
        None \<Rightarrow> Inl (Value_Error (''Existing claim at '' @ file_path x name @ '' is invalid''))
      | Some c \<Rightarrow>
          if cl_agent c \<noteq> ca_agent a
          then Inl (Value_Error (''Claim at '' @ file_path x name @ '' belongs to '' @ cl_agent c))
          else if given (cl_session_id c) \<and> cl_session_id c \<noteq> ca_session_id a
          then Inl (Value_Error (''Claim at '' @ file_path x name @ '' belongs to another session''))
          else Inr c)"

definition effective_args :: "claim_record \<Rightarrow> session_args \<Rightarrow> claim_args" where
  "effective_args c sa =
     (let a = sa_claim sa in
      a\<lparr>ca_type := (if given (ca_type a) then ca_type a else Some (cl_type c)),
        ca_write_paths := with_default (sa_write_paths sa) (cl_write_paths c),
        ca_read_paths := with_default (sa_read_paths sa) (cl_read_paths c),
        ca_parent_scope := or_else (ca_parent_scope a) (cl_parent_scope c),
        ca_work_graph_path := or_else (ca_work_graph_path a) (cl_work_graph_path c),
        ca_work_unit_id := or_else (ca_work_unit_id a) (cl_work_unit_id c),
        ca_status := ''active'',
        ca_allow_parallel := (ca_allow_parallel a \<or> cl_parallel_root_authorized c)\<rparr>)"

definition effective_binding ::
  "'f claim_world \<Rightarrow> rat \<Rightarrow> claim_record \<Rightarrow> claim_args \<Rightarrow> claim_error + string option \<times> string list" where
  "effective_binding x t c e =
     (if ca_write_paths e \<noteq> [] \<and> given (ca_plan_ref e) then
        (if \<not> given (ca_work_graph_path e) \<or> \<not> given (ca_work_unit_id e)
         then Inl (Value_Error ''Plan-bound write ownership requires --work-graph and --work-unit-id'')
         else case resolve_canonical_work_unit_binding (cw_git x) (cw_json x) (cw_text_sha x) (cw_instant x) t
                (cw_resolve x (cw_expand x (blank_if_none (ca_repo_root e)))) (the (ca_plan_ref e))
                (the (ca_work_graph_path e)) (the (ca_work_unit_id e)) of
           Inl err \<Rightarrow> Inl (Binding_Error err)
         | Inr (sha, revisions) \<Rightarrow> Inr (Some sha, revisions))
      else Inr (cl_work_graph_sha256 c, cl_approval_revisions c))"

text \<open>
  The checks of a claim that is updated: the hierarchy, the session roots and the metadata. The conflicts with
  the claims of other agents are not evaluated, and preserved lanes are not looked for.
\<close>

definition upsert_candidate ::
  "'f claim_world \<Rightarrow> rat \<Rightarrow> claim_record \<Rightarrow> claim_args \<Rightarrow> 'f registry \<Rightarrow> claim_error + claim_record" where
  "upsert_candidate x t c e r =
     and_then (effective_binding x t c e) (\<lambda>(sha, revisions).
     and_then (value_error (build_candidate_claim (cw_env x) e
         \<lparr>st_heartbeat_at = None, st_claimed_at = None, st_expires_at = None, st_updated_at = None,
          st_work_graph_sha256 = sha, st_approval_revisions = revisions\<rparr>)) (\<lambda>k.
     and_then (value_error (validate_claim_hierarchy_for_creation k (check_claims x t r (Some (ca_project e))))) (\<lambda>_.
     and_then (value_error (validate_session_root_for_creation k (check_claims x t r None))) (\<lambda>_.
     and_then (value_error (validate_claim_for_creation k)) (\<lambda>_. Inr k)))))"

definition upsert_keys :: "'f claim_world \<Rightarrow> rat \<Rightarrow> rat \<Rightarrow> claim_record \<Rightarrow> claim_args \<Rightarrow> claim_record \<Rightarrow> (string \<times> py) list" where
  "upsert_keys x t ttl c e k =
     (let now_text = cw_isoformat x t in
      [(''agent'', PStr (ca_agent e)), (''project'', PStr (ca_project e)), (''projects'', py_texts [ca_project e]),
       (''scope'', PStr (ca_scope e)), (''intent'', PStr (ca_intent e)), (''plan_ref'', py_opt (ca_plan_ref e)),
       (''repo_root'', py_opt (ca_repo_root e)), (''worktree_path'', py_opt (ca_worktree_path e)),
       (''branch'', py_opt (ca_branch e)), (''session_id'', py_opt (ca_session_id e)),
       (''session_name'', py_opt (ca_session_name e)), (''broader_goal'', py_opt (ca_broader_goal e)),
       (''tracker_path'', py_opt (ca_tracker_path e)), (''status'', PStr ''active''),
       (''heartbeat_at'', PStr now_text), (''updated_at'', PStr now_text),
       (''claimed_at'', PStr (if given (cl_claimed_at c) then the (cl_claimed_at c) else now_text)),
       (''expires_at'', PStr (if given (cl_expires_at c) then the (cl_expires_at c)
                              else cw_isoformat x (t + 3600 * ttl))),
       (''claim_type'', py_opt (ca_type e)), (''write_paths'', py_texts (ca_write_paths e)),
       (''read_paths'', py_texts (ca_read_paths e)), (''parent_scope'', py_opt (ca_parent_scope e)),
       (''work_graph_path'', py_opt (ca_work_graph_path e)), (''work_unit_id'', py_opt (ca_work_unit_id e)),
       (''work_graph_sha256'', py_opt (cl_work_graph_sha256 k)),
       (''approval_revisions'', py_texts (cl_approval_revisions k)),
       (''parallel_root_authorized'', PBool (cl_parallel_root_authorized k))])"

definition upsert_session_claim ::
  "'f claim_world \<Rightarrow> rat \<Rightarrow> session_args \<Rightarrow> 'f claims_state \<Rightarrow> (claim_error + string) \<times> 'f claims_state" where
  "upsert_session_claim x t sa s =
     (let a = sa_claim sa; name = claim_filename (ca_agent a) (ca_project a) (ca_scope a); r = cs_files s in
      case and_then (value_error (validate_native_session_binding (cw_env x) (ca_agent a) (ca_session_id a)))
             (\<lambda>_. load_claim_payload x name r) of
        Inl e \<Rightarrow> (Inl e, s)
      | Inr None \<Rightarrow>
          (case create_claim x t t (sa_ttl_hours sa) True
                  (a\<lparr>ca_type := (if given (ca_type a) then ca_type a else Some ''program''),
                     ca_write_paths := with_default (sa_write_paths sa) [],
                     ca_read_paths := with_default (sa_read_paths sa) [], ca_status := ''active''\<rparr>) s of
             (Inl e, s1) \<Rightarrow> (Inl e, s1)
           | (Inr Claimed, s1) \<Rightarrow> (Inr ''created'', s1)
           | (Inr (Conflict is), s1) \<Rightarrow> (Inl (Value_Error ''CONFLICT''), s1))
      | Inr (Some d) \<Rightarrow>
          (case and_then (own_claim x name a d) (\<lambda>c.
                and_then (upsert_candidate x t c (effective_args c sa) r) (\<lambda>k. Inr (c, k))) of
             Inl e \<Rightarrow> (Inl e, s)
           | Inr (c, k) \<Rightarrow>
               (case finish_mutation x t ''session_upsert'' (registry_digest x r)
                       [(name, Some (ca_project a), Some (ca_scope a), ca_session_id a)]
                       (s\<lparr>cs_files := AList.update name
                           (cw_dump x (PDict (set_keys (upsert_keys x t (sa_ttl_hours sa) c (effective_args c sa) k) d))) r\<rparr>) of
                  (Inl e, s1) \<Rightarrow> (Inl e, s1)
                | (Inr _, s1) \<Rightarrow> (Inr ''updated'', s1))))"

end
