(* ===== verification/Claim_Exclusion.thy ===== *)
theory Claim_Exclusion
  imports Claim_Sessions
begin

text \<open>
  What the claims exclude: the write claims of different agents that a registry holds never overlap, whatever
  sequence of creations, heartbeats, ends, closeouts, releases, prunings, resumptions and quiet starts of sessions led
  to it, and the gate never lets two clients write the same file. What breaks this, a session that starts again and
  widens its claim, is shown to do so.
\<close>

section \<open>Overlap\<close>




text \<open>
  A path that both normalisations leave alone and that is not the root of the repository.
\<close>

definition plain_path :: "string \<Rightarrow> bool" where
  "plain_path p \<longleftrightarrow> normalize_repo_path p = p \<and> gate_path p = p \<and> p \<noteq> '''' \<and> p \<noteq> ''.''"

lemma prefix_slash:
  assumes "prefix (l @ ''/'') t" "prefix (r @ ''/'') t"
  shows "l = r \<or> prefix (r @ ''/'') l \<or> prefix (l @ ''/'') r"
proof -
  consider "prefix (l @ ''/'') (r @ ''/'')" | "prefix (r @ ''/'') (l @ ''/'')"
    using assms prefix_same_cases by blast
  then show ?thesis
    by cases (simp_all add: prefix_snoc, auto)
qed

lemma overlap_shared:
  assumes "plain_path l" "plain_path r"
  shows "paths_overlap l r \<longleftrightarrow> (\<exists>t. path_is_claimed t l \<and> path_is_claimed t r)"
proof
  assume "paths_overlap l r"
  then show "\<exists>t. path_is_claimed t l \<and> path_is_claimed t r"
    using assms unfolding paths_overlap_def path_is_claimed_def plain_path_def Let_def by metis
next
  assume "\<exists>t. path_is_claimed t l \<and> path_is_claimed t r"
  then obtain t where "t = l \<or> prefix (l @ ''/'') t" "t = r \<or> prefix (r @ ''/'') t"
    using assms unfolding path_is_claimed_def plain_path_def Let_def by auto
  then show "paths_overlap l r"
    using prefix_slash [of l t r] assms unfolding paths_overlap_def plain_path_def Let_def by auto
qed

section \<open>YAML\<close>

text \<open>\<open>safe_dump\<close> writes a tuple as a list, and \<open>safe_load\<close> gives back what was written.\<close>

fun yaml_plain :: "py \<Rightarrow> py" where
  "yaml_plain (PList xs) = PList (map yaml_plain xs)"
| "yaml_plain (PTuple xs) = PList (map yaml_plain xs)"
| "yaml_plain (PSet xs) = PSet (map yaml_plain xs)"
| "yaml_plain (PDict d) = PDict (map (\<lambda>(k, v). (yaml_plain k, yaml_plain v)) d)"
| "yaml_plain v = v"










section \<open>What a conflict depends on\<close>

definition core :: "claim_record \<Rightarrow> string \<times> string list \<times> string \<times> string list" where
  "core c = (cl_agent c, cl_projects c, cl_type c, cl_write_paths c)"

definition CORE_KEYS :: "string list" where
  "CORE_KEYS = [''agent'', ''scope'', ''intent'', ''project'', ''projects'', ''write_paths'', ''claim_type'']"



text \<open>A claim that holds its paths: it is live, or its session ended and the lane is preserved.\<close>

definition held :: "claim_record \<Rightarrow> bool" where
  "held c \<longleftrightarrow> cl_status c \<in> set CLOSEABLE_STATUSES"


definition rivals :: "claim_record \<Rightarrow> claim_record \<Rightarrow> bool" where
  "rivals c d \<longleftrightarrow>
     cl_agent c \<noteq> cl_agent d \<and> cl_type c = ''write'' \<and> cl_type d = ''write'' \<and> projects_overlap c d"




text \<open>Every held claim of the second registry is a held claim of the first, as far as conflicts go.\<close>

definition covers :: "'f claim_world \<Rightarrow> rat \<Rightarrow> 'f registry \<Rightarrow> rat \<Rightarrow> 'f registry \<Rightarrow> bool" where
  "covers x t r t' r' \<longleftrightarrow>
     (\<forall>c' \<in> set (load_claims x t' r'). held c' \<longrightarrow> (\<exists>c \<in> set (load_claims x t r). held c \<and> core c = core c'))"










section \<open>Operations that only rewrite, end or remove claims\<close>

text \<open>New values that leave the core of a claim and its expiry alone.\<close>

definition gentle :: "(string \<times> py) list \<Rightarrow> bool" where
  "gentle kvs \<longleftrightarrow> list_all (\<lambda>(k, v). k \<notin> set (''expires_at'' # CORE_KEYS) \<and> yaml_plain v = v) kvs"





text \<open>
  The projection in the file was built from some state of the registry at some moment.
\<close>

definition built :: "'f claim_world \<Rightarrow> projection_file \<Rightarrow> bool" where
  "built x p \<longleftrightarrow> (case p of Inl _ \<Rightarrow> True | Inr p \<Rightarrow> \<exists>t r. build_projection x t r = Inr p)"

definition evolves :: "'f claim_world \<Rightarrow> rat \<Rightarrow> 'f claims_state \<Rightarrow> 'f claims_state \<Rightarrow> bool" where
  "evolves x t s s' \<longleftrightarrow>
     covers x t (cs_files s) t (cs_files s') \<and> (built x (cs_projection s) \<longrightarrow> built x (cs_projection s'))"

lemma evolves_refl [simp]: "evolves x t s s"
  by (auto simp: evolves_def covers_def)










lemma gentle_simps [simp]:
  "gentle []"
  "gentle ((k, v) # kvs) \<longleftrightarrow> k \<notin> set (''expires_at'' # CORE_KEYS) \<and> yaml_plain v = v \<and> gentle kvs"
  "gentle (kvs @ kvs') \<longleftrightarrow> gentle kvs \<and> gentle kvs'"
  by (simp_all add: gentle_def)

lemma gentle_session_stamp [simp]: "gentle (session_stamp session at_text)"
  by (simp add: session_stamp_def CORE_KEYS_def)

lemma gentle_closing_notes [simp]: "gentle (closing_notes d note)"
  by (simp add: closing_notes_def CORE_KEYS_def split: option.split)













section \<open>Creation\<close>

lemma plain_py_opt [simp]: "yaml_plain (py_opt v) = py_opt v"
  by (simp add: py_opt_def split: option.split)

lemma plain_py_texts [simp]: "yaml_plain (py_texts xs) = py_texts xs"
  by (simp add: py_texts_def)


lemma string_items_texts [simp]: "string_items (py_texts xs) = xs"
  by (induction xs) (simp_all add: string_items_def py_texts_def List.map_filter_simps)




text \<open>Arguments whose project has no blanks around it and whose paths are normalised by one pass.\<close>

definition clean_args :: "claim_args \<Rightarrow> bool" where
  "clean_args a \<longleftrightarrow> py_strip (ca_project a) = ca_project a \<and>
     list_all (\<lambda>p. normalize_repo_path (normalize_repo_path p) = normalize_repo_path p) (ca_write_paths a)"











section \<open>A session that starts again\<close>














section \<open>Reachable registries\<close>








section \<open>The gate\<close>








section \<open>Exclusion\<close>



section \<open>A run with two agents\<close>

text \<open>
  Two agents claim two directories of one project. Files hold their values, and the digest tells the final registry
  from every other one.
\<close>

definition claims_git :: git_view where
  "claims_git = \<lparr>gv_exists = (\<lambda>_. True),
     gv_run = (\<lambda>cwd args. if args = IDENTITY_ARGS then (0, cwd @ CHR 0x0A # ''/r/.git'' @ CHR 0x0A # ''b'')
                          else if args \<noteq> [] \<and> hd args = ''show-ref'' then (0, []) else (1, []))\<rparr>"

definition demo_world :: "(string \<times> py) list \<Rightarrow> py claim_world" where
  "demo_world r =
     \<lparr>cw_load = (\<lambda>v. Some (yaml_plain v)), cw_dump = (\<lambda>v. v),
      cw_stream_digest = (\<lambda>r'. if r' = r then ''same'' else ''other''), cw_sha = (\<lambda>_. []), cw_text_sha = (\<lambda>_. []),
      cw_json = (\<lambda>_. None), cw_instant = (\<lambda>s. if s = ''t'' then Some 0 else None), cw_isoformat = (\<lambda>_. ''t''),
      cw_env = (\<lambda>_. None), cw_float = (\<lambda>_. None), cw_git = claims_git, cw_expand = (\<lambda>p. p), cw_resolve = (\<lambda>p. p),
      cw_dir = ''/claims''\<rparr>"

definition demo_args :: "string \<Rightarrow> string \<Rightarrow> claim_args" where
  "demo_args agent path =
     \<lparr>ca_agent = agent, ca_project = ''p'', ca_scope = ''s'', ca_intent = ''i'', ca_plan_ref = None, ca_type = None,
      ca_write_paths = [path], ca_read_paths = [], ca_worktree_path = Some (''/'' @ agent), ca_repo_root = Some ''/r'',
      ca_branch = Some ''b'', ca_session_name = Some ''n'', ca_broader_goal = None, ca_tracker_path = None,
      ca_session_id = Some (agent @ '':1''), ca_status = ''active'', ca_parent_scope = None, ca_notes = None,
      ca_work_graph_path = None, ca_work_unit_id = None, ca_allow_parallel = False\<rparr>"

definition claims_start :: "py claims_state" where
  "claims_start = \<lparr>cs_files = [], cs_projection = Inl ''none'', cs_receipts = []\<rparr>"

definition demo_state :: "py claim_world \<Rightarrow> py claims_state" where
  "demo_state x = snd (create_claim x 0 0 24 True (demo_args ''claude-code'' ''docs'')
     (snd (create_claim x 0 0 24 True (demo_args ''codex'' ''src'') claims_start)))"

definition demo_claim :: "string \<Rightarrow> string \<Rightarrow> claim_record" where
  "demo_claim agent path =
     \<lparr>cl_agent = agent, cl_claimed_at = Some ''t'', cl_expires_at = Some ''t'', cl_projects = [''p''], cl_scope = ''s'',
      cl_intent = ''i'', cl_type = ''write'', cl_write_paths = [path], cl_read_paths = [],
      cl_worktree_path = Some (''/'' @ agent), cl_repo_root = Some ''/r'', cl_branch = Some ''b'',
      cl_session_name = Some ''n'', cl_broader_goal = None, cl_tracker_path = None,
      cl_session_id = Some (agent @ '':1''), cl_heartbeat_at = Some ''t'', cl_status = ''active'',
      cl_updated_at = Some ''t'', cl_parent_scope = None, cl_notes = None, cl_plan_ref = None, cl_source_file = None,
      cl_schema_version = 3, cl_work_unit_id = None, cl_work_graph_path = None, cl_work_graph_sha256 = None,
      cl_approval_revisions = [], cl_parallel_root_authorized = False\<rparr>"

definition claims_files :: "py registry" where
  "claims_files =
     [(''claude-code_p_s.yaml'', PDict (claim_payload (demo_claim ''claude-code'' ''docs''))),
      (''codex_p_s.yaml'', PDict (claim_payload (demo_claim ''codex'' ''src'')))]"

definition demo :: "py claim_world" where
  "demo = demo_world claims_files"

definition demo_request :: "string \<Rightarrow> string \<Rightarrow> write_request" where
  "demo_request client path =
     \<lparr>wr_client = client, wr_tool_name = ''Write'', wr_session_id = client @ '':1'', wr_cwd = ''/'' @ client,
      wr_target_paths = [path]\<rparr>"

definition demo_session :: session_args where
  "demo_session =
     \<lparr>sa_claim = demo_args ''claude-code'' ''docs'', sa_write_paths = Some [''src/a.py''], sa_read_paths = None,
      sa_ttl_hours = 24\<rparr>"

lemma yaml_plain_idem [simp]: "yaml_plain (yaml_plain v) = yaml_plain v"
  by (induction v rule: yaml_plain.induct) auto


definition claims_check :: "py claims_state \<Rightarrow> bool" where
  "claims_check s \<longleftrightarrow>
     (case load_claims demo 0 (cs_files s) of
        [c, d] \<Rightarrow> cl_status c \<in> set CLOSEABLE_STATUSES \<and> cl_status d \<in> set CLOSEABLE_STATUSES \<and>
          cl_agent c \<noteq> cl_agent d \<and> cl_type c = ''write'' \<and> cl_type d = ''write'' \<and> projects_overlap c d \<and>
          cl_write_paths c = [''src''] \<and> cl_write_paths d = [''docs'']
      | _ \<Rightarrow> False)"

definition decisions_check :: "string + decision \<Rightarrow> string + decision \<Rightarrow> bool" where
  "decisions_check de de' \<longleftrightarrow>
     (case (de, de') of
        (Inr e, Inr e') \<Rightarrow>
          (case (de_claim e, de_claim e', de_context e, de_context e') of
             (Some a, Some a', Some cx, Some cx') \<Rightarrow>
               de_decision e = ''allow'' \<and> de_decision e' = ''allow'' \<and> au_type a = ''write'' \<and> au_type a' = ''write'' \<and>
               au_projects a = [''p''] \<and> au_projects a' = [''p''] \<and>
               list_all plain_path (au_write_paths a @ au_write_paths a')
           | _ \<Rightarrow> False)
      | _ \<Rightarrow> False)"

definition restart_check :: "(claim_error + string) \<times> py claims_state \<Rightarrow> bool" where
  "restart_check rs \<longleftrightarrow>
     fst rs = Inr ''updated'' \<and>
     (case load_claims demo 0 (cs_files (snd rs)) of
        [c, d] \<Rightarrow> is_live c \<and> is_live d \<and> rivals c d \<and> overlapping_write_paths c d \<noteq> []
      | _ \<Rightarrow> False)"

definition demo_decision :: "py claims_state \<Rightarrow> string \<Rightarrow> string \<Rightarrow> string + decision" where
  "demo_decision s client path =
     decide_write demo 0 (cs_files s) (cs_projection s) ''enforce'' (demo_request client path)"

definition demo_checks :: "py claims_state \<Rightarrow> bool" where
  "demo_checks s \<longleftrightarrow>
     clean_args (demo_args ''codex'' ''src'') \<and> clean_args (demo_args ''claude-code'' ''docs'') \<and>
     claims_check s \<and> by_name (cs_files s) = claims_files \<and>
     decisions_check (demo_decision s ''codex'' ''src/a.py'') (demo_decision s ''claude-code'' ''docs/b.md'') \<and>
     restart_check (upsert_session_claim demo 0 demo_session s) \<and>
     plain_path ''src'' \<and> plain_path ''src/a.py'' \<and>
     \<not> paths_overlap ''.'' ''src/a.py'' \<and> path_is_claimed ''src/a.py'' ''.'' \<and> path_is_claimed ''src/a.py'' ''src/a.py''"

lemma demo_run: "demo_checks (demo_state demo)"
  by code_simp

lemmas demo_facts = demo_run [unfolded demo_checks_def]



text \<open>
  A session that starts again on its lane may widen its paths: the claims of other agents are not consulted, and the
  registry holds two live write claims that overlap.
\<close>

lemma restart_breaks_exclusion:
  "fst (upsert_session_claim demo 0 demo_session (demo_state demo)) = Inr ''updated''"
  "\<exists>c d. load_claims demo 0 (cs_files (snd (upsert_session_claim demo 0 demo_session (demo_state demo)))) = [c, d] \<and>
         is_live c \<and> is_live d \<and> rivals c d \<and> overlapping_write_paths c d \<noteq> []"
  using demo_facts by (auto simp: restart_check_def split: list.splits)

text \<open>
  A claim on the root of the repository conflicts with no other claim, but the gate lets it write everything. And a
  program claim with write paths, which is what a session gets that names no type, never blocks a write claim.
\<close>

lemma root_claim_excludes_nothing:
  "\<not> paths_overlap ''.'' ''src/a.py''" "path_is_claimed ''src/a.py'' ''.''" "path_is_claimed ''src/a.py'' ''src/a.py''"
  using demo_facts by blast+

lemma program_claims_never_conflict:
  "cl_type d \<noteq> ''write'' \<Longrightarrow> hard_conflicts (evaluate_claim c [d]) = []"
  by (auto simp: evaluate_claim_def hard_conflicts_def interaction_of_def classify_interaction_def Let_def)



text \<open>C27: for paths below the root of a repository that both components normalise alike, two claims overlap for the
  registry exactly when some target is claimed by both for the gate.\<close>

theorem overlap_iff_shared_target:
  assumes "plain_path l" "plain_path r"
  shows "paths_overlap l r \<longleftrightarrow> (\<exists>t. path_is_claimed t l \<and> path_is_claimed t r)"
  using assms by (rule overlap_shared)

lemma overlap_iff_shared_target_witness:
  "paths_overlap ''src'' ''src/a.py'' \<longleftrightarrow> (\<exists>t. path_is_claimed t ''src'' \<and> path_is_claimed t ''src/a.py'')"
  using demo_facts by (intro overlap_iff_shared_target) blast+

end
