(* ===== verification/Spec2Isabelle.thy ===== *)
theory Spec2Isabelle
  imports Prelude Errors Retry Execution_Kernel Model_Availability Provider_Policy Routing Timeout_Policy Budget_Reservations Provider_Coordination Rate_Limit Iso_Time Observability_Context Call_Contracts Model_Contracts Evidence_Spans Bindings Agent_Contracts Tool_Contracts Production_Systems Lane_Closure Error_Budget Agent_Planning Agent_Outcomes Compliance_Gate Context_Window Tool_Disclosure Model_Execution_Policy Model_Registry Review_Cycle Deliberation Agent_Loop Claim_Exclusion
begin

text \<open>
  \<^bold>\<open>The program.\<close> llm_client is a Python client for language models. A public call names a model;
  routing canonicalises the name (core/provider_policy.py, core/routing.py) and gives a chain of models
  to try. The execution kernel (execution/execution_kernel.py) runs the chain: a retry loop per model,
  whose decisions come from execution/retry.py and core/errors.py, inside a fallback walk over the
  models. Each attempt waits for the shared cooldown and a concurrency slot of its provider
  (utils/rate_limit.py, which shares cooldowns and leases between processes through
  utils/provider_coordination.py), and reserves its worst-case cost in a ledger that processes share in
  SQLite (observability/budget_reservations.py). Exhausted models are suppressed for a while
  (core/model_availability.py). The agent loop (agent/mcp_turn_execution.py) runs turns: it calls the model,
  checks every tool call against declarative contracts (agent/agent_contracts.py) over the binding state of a
  run (foundation.py), executes what is left, reads the evidence and the submissions in the results, and
  forces a final answer when a budget, a stalled retrieval or its turns end it.
  Beside the client, the agents that work on the repository coordinate through claims (enforced_planning/): a YAML
  registry of the paths each may write, and a gate that a write has to pass.

  \<^bold>\<open>Conventions.\<close> Floats are rationals, Python's ints are \<open>int\<close>, and a string is a list of 8-bit
  characters whose case conversion acts on the ASCII letters. A dict is an association list with
  insertion order (\<open>dict_get\<close>, \<open>dict_set\<close>), so its order and its overwriting are those of Python. A
  dynamically typed value is an element of \<open>py\<close>. A raise is the left of a sum. Mutable globals are
  records passed through the operations. Clocks, fresh ids, environment variables, \<open>json.loads\<close>,
  number parsing, \<open>repr\<close> of foreign objects, hashes and the random source are arguments of the
  definitions that use them. The exception classes of litellm and of the OpenAI SDK
  are class names in an exception value. Log lines are left out.

  \<^bold>\<open>The theories.\<close>
  \<^item> \<open>Prelude\<close>: Python strings, values and dictionaries with the lemmas that the components share.
  \<^item> \<open>Errors\<close> (core/errors.py): the class hierarchy, \<open>classify_error\<close> and \<open>wrap_error\<close>.
  \<^item> \<open>Retry\<close> (execution/retry.py): \<open>is_retryable\<close>, delay hints and the jittered delay.
  \<^item> \<open>Execution_Kernel\<close> (execution/execution_kernel.py): \<open>run_sync_with_retry\<close> and
    \<open>run_sync_with_fallback\<close> with every callback, over an arbitrary state of the callbacks; a run
    returns its events, so that sleeps, decisions and invocations can be counted.
  \<^item> \<open>Model_Availability\<close> (core/model_availability.py): recording, expiry and filtering.
  \<^item> \<open>Provider_Policy\<close> (core/provider_policy.py): the typed tables of the governance policy and the
    order in which its rules rewrite or block a model name.
  \<^item> \<open>Routing\<close> (core/routing.py, core/config.py): \<open>resolve_call\<close> and the configuration it reads.
  \<^item> \<open>Timeout_Policy\<close> (execution/timeout_policy.py): the normalised timeouts and the safety ceiling.
  \<^item> \<open>Observability_Context\<close> (observability/context.py): the two context variables with their managers,
    and the guards of benchmark tasks.
  \<^item> \<open>Call_Contracts\<close> (execution/call_contracts.py, \<open>get_cost\<close> of observability/query.py): required tags,
    the budget check, the budget scope of a call in its durable and its sequential form, prompt sizes.
  \<^item> \<open>Model_Contracts\<close> (the second half of execution/call_contracts.py, inside_success_policy.py): the
    OpenRouter route policy, sanitised keyword arguments, execution modes and retired models.
  \<^item> \<open>Budget_Reservations\<close> (observability/budget_reservations.py): scopes, reservations and logged
    costs as tables of a \<open>ledger\<close>; admission, release, renewal, expiry, settlement and raising a cap;
    the transaction that retries a locked database; the keeper thread that renews leases.
  \<^item> \<open>Provider_Coordination\<close> (utils/provider_coordination.py): the backend as a record of operations, its
    contract as the locale \<open>coordination_backend\<close>, and the SQLite backend that fulfils it.
  \<^item> \<open>Rate_Limit\<close> (utils/rate_limit.py): limits, semaphores, cooldown floors, the two waits of a slot.
  \<^item> \<open>Bindings\<close> (foundation.py): binding state, evidence, artifact envelopes and run ids.
  \<^item> \<open>Evidence_Spans\<close> (utils/evidence_spans.py): the character spans of quoted evidence.
  \<^item> \<open>Production_Systems\<close>: the locale of rounds over monotone productions, which both the lane closure and
    the cycle test of a plan instantiate.
  \<^item> \<open>Agent_Planning\<close> (agent/agent_planning.py): the plan of an agent run and its two tools.
  \<^item> \<open>Agent_Contracts\<close>, \<open>Tool_Contracts\<close>, \<open>Lane_Closure\<close>, \<open>Error_Budget\<close> (agent/agent_contracts.py):
    capabilities; contracts and the validation of a call; the static analyses of a tool lane; the
    aggregate error budget.
  \<^item> \<open>Agent_Outcomes\<close> (agent/agent_outcomes.py): failure classes, failure and finalization summaries.
  \<^item> \<open>Compliance_Gate\<close> (agent/compliance_gate.py, agent/agent_adoption.py): the checks before a tool call
    runs and the adoption profiles of a run.
  \<^item> \<open>Context_Window\<close> (agent/mcp_context.py, agent/context_budget.py): compaction and clearing of old tool
    results, and the budget report of a context window.
  \<^item> \<open>Tool_Disclosure\<close> (agent/agent_disclosure.py, agent/deferred_tools.py): the tools shown to the model
    and the registry of those it can search for.
  \<^item> \<open>Model_Execution_Policy\<close> (core/model_execution_policy.py): the execution allowlist and the reasoning
    policy.
  \<^item> \<open>Model_Registry\<close> (core/models.py, core/model_selection.py, data/default_model_registry.json): the
    registry with its packaged data, the selection of a model for a task, and workload routes.
  \<^item> \<open>Py_Support\<close>: counters, sizes in UTF-8, paths and stable sorting, for the theories below.
  \<^item> \<open>Prompt_Contracts\<close> (prompt_context_contract.py): the sidecar contract of a prompt template, its
    enforcement and the tally of breaches.
  \<^item> \<open>Prompt_Inspection\<close> (prompt_inspection.py): duplicated content, embedded JSON, sizes and digests.
  \<^item> \<open>Prompt_Assets\<close> (prompt_assets.py, prompts.py): asset references, their resolution, and the
    rendering of a template between its checks.
  \<^item> \<open>Adversarial_Review\<close> (workflow/adversarial_review.py, the records of workflow/duet.py): reviews, the
    repair of a raw review, profiles.
  \<^item> \<open>Review_Cycle\<close> (workflow/review_cycle.py): the bounded loop of reviews and applications over a git
    workspace.
  \<^item> \<open>Deliberation_Verifier\<close> (workflow/deliberate_verifier.py): citations, their resolution in the workspace,
    and the ledger with the lineage of claims.
  \<^item> \<open>Deliberation\<close> (workflow/deliberate.py): the graph of a deliberation as a state machine, from the
    prompts and the convergence detector to the sign-off.
  \<^item> \<open>Agent_Artifacts\<close> (agent/mcp_tools.py, agent/agent_artifacts.py, agent/mcp_evidence.py): tool calls and their
    records, the trimming of calls to a budget, reading artifacts again, evidence labels, the context message.
  \<^item> \<open>Turn_Tools\<close> (agent/mcp_turn_tools.py): what happens to the tool calls of a turn; \<open>tool_env\<close> is what the
    handler reads, \<open>tool_state\<close> what it changes.
  \<^item> \<open>Turn_Outcomes\<close> (agent/mcp_turn_outcomes.py): evidence, stagnation, the gates on \<open>submit_answer\<close>, the TODO
    state and turns that execute nothing.
  \<^item> \<open>Turn_Model\<close> (agent/mcp_turn_model.py): the model stage of a turn, with the budget of retrieval calls.
  \<^item> \<open>Agent_Finalization\<close> (agent/mcp_finalization.py, agent/mcp_turn_completion.py): the forced final answer with its
    circuit breaker, and the completion of a run.
  \<^item> \<open>Agent_Loop\<close> (\<open>_agent_loop\<close> of agent/mcp_turn_execution.py): the turns and what is between them. The variables
    of the coroutine are the record \<open>loop_state\<close>; \<open>tool_turns\<close> is the abstract run of the turns that reach the tools.
  \<^item> \<open>Claim_Records\<close>, \<open>Claim_Lifecycle\<close> (enforced_planning/coordination_claims.py): the coordination claims of agents
    that share repositories: paths, health, hierarchy, conflicts; their state in git and the work units they are bound to.
  \<^item> \<open>Prewrite_Gate\<close> (enforced_planning/prewrite_claim_projection.py, prewrite_claim_fast.py, prewrite_claim_gate.py):
    the projection of the claims and the gate that a write has to pass.
  \<^item> \<open>Claim_Registry\<close>, \<open>Claim_Sessions\<close> (enforced_planning/coordination_claims.py, session_lifecycle.py): the registry
    as a state with its projection and its receipts (\<open>claims_state\<close>), and the operations that change it under its lock.
  \<^item> \<open>Claim_Exclusion\<close>: what every operation keeps (locale \<open>claim_operation\<close>), the reachable registries, and the exclusion
    of writers by the registry and by the gate.
  \<^item> \<open>Iso_Time\<close>: the timestamps of the tables, whose text order SQLite compares.

  \<^bold>\<open>What the lemmas show.\<close> For the ledger: each operation keeps the well-formedness of the tables (locale
  \<open>lifecycle_update\<close>, interpreted on the five updates), an inductive step relation composes them with
  foreign writes of the log, and in every reachable ledger the active reservations fit their budget.
  For the kernel: the number of invocations, the error that surfaces, the sleeps before a deadline and
  the order of the chain. For coordination: every backend that fulfils the contract keeps the leases
  within the cap and the cooldowns above their floor, and the SQLite backend does. For routing: a name
  is canonical after one step, and the plan tries each canonical name once. For the contracts of a
  call: the budget check admits exactly what fits the logged cost of the trace family, sequential scopes
  exclude each other, and the arguments of a leg are exactly those its model takes. For the agent: a call is
  accepted exactly when its contract holds, the lane analysis is the least fixed point
  of the tools read as productions (locale \<open>production\<close>), a plan is accepted exactly when it can be ordered and then always has a next step, whatever its updates, and merging bindings never moves a hard one; the gate
  of a call, the disclosure of tools and the clearing of old results do exactly what their contracts say.
  For the models: the execution policy admits exactly the allowlisted chains, no other rule rewrites what
  it admits, every task of the packaged registry selects an admitted model, and no candidate is preferred
  to the selected one. For the prompts: a reference parses exactly when it prints back, enforcement reports
  exactly the breaches, and duplicates are found where they are. For the review cycle: the calls of a run, also of one that
  raises, are a beginning of the fixed sequence of reviews and applications, no batch of findings is applied twice, the
  status of a sign-off is determined by what happened, a raw review is repaired exactly, no high finding is lost, and the paths that an application changes are
  those the task declares. For a deliberation: an invariant by induction over the reachable states gives that
  rounds are barriers between agents of different names and that a convergence rests on resolved citations and
  on claim names that are those of the round before. For the agent loop:
  every call of a turn is answered once and exactly the calls that pass the gates are executed; the loop refines
  the runs of its tool turns (\<open>agent_loop_refines\<close>), over which stagnation is counted exactly, a refused answer is
  not claimed again without progress when repeated submissions are suppressed, and the budget of retrieval calls holds; the forced final answer makes a
  bounded number of attempts, and the completion accounts for a required submission.
  For the coordination claims: every operation on the registry but the restart of a lane with other paths keeps the write claims of
  different agents apart, the projection is always one that was built, and hence the gate never lets two clients write
  the same path under write claims.

  \<^bold>\<open>Bounds.\<close> \<open>retry_from\<close> and \<open>transaction_from\<close> end by the measure of the attempts left, as the
  \<open>range\<close> of the code does. The lane closure runs \<open>max(1, 2 * n)\<close> rounds, the bound that the code
  has; \<open>lane_closure_least_fixpoint\<close> shows that it is enough. A loop that sleeps until a
  condition holds takes the observations of its rounds as a list, and \<open>None\<close> says that the list
  ended before the loop did; that it ends is a property of its own. The scan for JSON spans has fuel
  for one step per character and one more, and \<open>span_scan_terminates\<close> shows that this is enough. A run of
  a deliberation has fuel for four nodes a round and two more, and \<open>deliberation_ends\<close> shows the same.

  \<^bold>\<open>Not modelled.\<close> The calls of litellm, instructor and the SDKs, logging, the command line, the reports
  on the log database, the set-up of an agent run and the metadata of its result, the regular expressions that
  shorten a forced answer (an argument of the completion), the archive of completed claims, the tracker files and
  the closing of a session, and the asynchronous twins of the retry loop and of the fallback walk, which
  repeat their synchronous versions with \<open>await\<close>. Transactions of SQLite are taken to be serialisable
  where the code asks for them with BEGIN IMMEDIATE, and only there.
\<close>

end
